(* ===== verification/Navi_Prelude.thy ===== *)
theory Navi_Prelude
  imports Complex_Main "HOL-Library.AList" "HOL-Library.Sublist"
    "HOL-Library.List_Lexorder" "HOL-Library.Char_ord"
begin

text \<open>
  What every component of the development shares.

  \<^item> \<open>time\<close>: the seconds of \<open>time.time()\<close> and every other Python \<open>float\<close> of the
    stores. A finite float is a rational, so they are \<open>rat\<close>: comparison and order are
    exact, the rounding of a sum is not modelled.
  \<^item> \<open>py_error\<close> and \<open>result\<close>: a raised exception is the left value of a sum, with the
    message of the source. \<open>navi/db.py\<close> rolls the transaction back when an exception
    leaves a \<open>with connect(...)\<close> block, so an operation that raises returns no new state.
  \<^item> Strings are lists of the code points 0 to 255. \<open>py_strip\<close> and \<open>py_lower\<close> are
    Python's methods on those code points.
  \<^item> A SQLite table is the list of its rows in the order of insertion; \<open>sql_*\<close> are the
    statements the stores issue. \<open>ORDER BY\<close> is a stable sort: SQLite leaves the order of
    equal keys open, and the model takes the order of insertion.
  \<^item> The locales state what a store of keyed rows and a machine of atomic operations
    promise, with the lemmas the component theories use through their interpretations.
\<close>

section \<open>Collections of facts\<close>

named_theorems sql_simps \<open>how the SQL statements act on tables\<close>
named_theorems store_ops \<open>definitions of store operations, unfolded together\<close>

section \<open>Time, errors and results\<close>

type_synonym time = rat

datatype py_error =
    ValueError string
  | KeyError string
  | RuntimeError string
  | TypeError string
  | IntegrityError string
  | OperationalError string
  | ProgrammingError string
  | OSError string
  | ChildAdmissionConflict string

type_synonym 'a result = "py_error + 'a"

fun is_ok :: "'e + 'a \<Rightarrow> bool" where
  "is_ok (Inl e) = False"
| "is_ok (Inr x) = True"

text \<open>Sequencing of two fallible steps: the first exception wins.\<close>

fun and_then :: "'e + 'a \<Rightarrow> ('a \<Rightarrow> 'e + 'b) \<Rightarrow> 'e + 'b" where
  "and_then (Inl e) f = Inl e"
| "and_then (Inr x) f = f x"

lemma and_then_Inr_iff [simp]:
  "and_then r f = Inr y \<longleftrightarrow> (\<exists>x. r = Inr x \<and> f x = Inr y)"
  by (cases r) auto

lemma is_ok_and_then [simp]: "is_ok (and_then r f) \<longleftrightarrow> (\<exists>x. r = Inr x \<and> is_ok (f x))"
  by (cases r) auto

lemma is_ok_iff: "is_ok r \<longleftrightarrow> (\<exists>x. r = Inr x)"
  by (cases r) auto

text \<open>A loop that calls a validator on every element and stops at the first exception.\<close>

fun each_ok :: "('a \<Rightarrow> 'e + unit) \<Rightarrow> 'a list \<Rightarrow> 'e + unit" where
  "each_ok f [] = Inr ()"
| "each_ok f (x # xs) = and_then (f x) (\<lambda>_. each_ok f xs)"

lemma each_ok_iff: "is_ok (each_ok f xs) \<longleftrightarrow> (\<forall>x\<in>set xs. is_ok (f x))"
  by (induction xs) (auto simp: is_ok_iff)

lemma each_ok_Inr: "each_ok f xs = Inr () \<longleftrightarrow> (\<forall>x\<in>set xs. f x = Inr ())"
  by (induction xs) auto

text \<open>The keys of \<open>dict.fromkeys\<close> and of \<open>setdefault\<close>: each once, where it was first seen.\<close>

definition first_seen :: "'a list \<Rightarrow> 'a list" where
  "first_seen xs = rev (remdups (rev xs))"

lemma set_first_seen [simp]: "set (first_seen xs) = set xs"
  by (simp add: first_seen_def)

lemma distinct_first_seen [simp]: "distinct (first_seen xs)"
  by (simp add: first_seen_def)

text \<open>\<open>a or b\<close> on texts; a keyword argument that is \<open>None\<close> is the empty text here.\<close>

definition or_else :: "string \<Rightarrow> string \<Rightarrow> string" where
  "or_else a b = (if a \<noteq> [] then a else b)"

section \<open>Strings\<close>

definition code_point :: "char \<Rightarrow> nat" where
  "code_point c = of_char c"

definition is_py_space :: "char \<Rightarrow> bool" where
  "is_py_space c = (let n = code_point c in
     (9 \<le> n \<and> n \<le> 13) \<or> (28 \<le> n \<and> n \<le> 32) \<or> n = 133 \<or> n = 160)"

definition py_strip :: "string \<Rightarrow> string" where
  "py_strip s = rev (dropWhile is_py_space (rev (dropWhile is_py_space s)))"

definition lower_char :: "char \<Rightarrow> char" where
  "lower_char c = (let n = code_point c in
     if (65 \<le> n \<and> n \<le> 90) \<or> (192 \<le> n \<and> n \<le> 222 \<and> n \<noteq> 215) then char_of (n + 32) else c)"

definition py_lower :: "string \<Rightarrow> string" where
  "py_lower s = map lower_char s"

definition py_startswith :: "string \<Rightarrow> string \<Rightarrow> bool" where
  "py_startswith s p = (take (length p) s = p)"

text \<open>Decimal text of an integer, as in an f-string.\<close>

fun show_nat :: "nat \<Rightarrow> string" where
  "show_nat n = (if n < 10 then [char_of (48 + n)]
                 else show_nat (n div 10) @ [char_of (48 + n mod 10)])"

declare show_nat.simps [simp del]

definition show_int :: "int \<Rightarrow> string" where
  "show_int i = (if i < 0 then CHR ''-'' # show_nat (nat (- i)) else show_nat (nat i))"

text \<open>\<open>f"{n:06d}"\<close> for a number below a million.\<close>

definition show_06d :: "nat \<Rightarrow> string" where
  "show_06d n = replicate (6 - length (show_nat n)) (CHR ''0'') @ show_nat n"

lemma show_nat_nonempty [simp]: "show_nat n \<noteq> []"
  by (subst show_nat.simps) simp

lemma py_strip_Nil [simp]: "py_strip [] = []"
  by (simp add: py_strip_def)

lemma dropWhile_idem: "dropWhile P (dropWhile P xs) = dropWhile P xs"
  by (induction xs) auto

lemma dropWhile_hd_not: "xs \<noteq> [] \<Longrightarrow> \<not> P (hd xs) \<Longrightarrow> dropWhile P xs = xs"
  by (cases xs) auto

lemma hd_rev_dropWhile_rev:
  assumes "\<not> P (hd ys)" "ys \<noteq> []"
  shows "rev (dropWhile P (rev ys)) \<noteq> [] \<and> hd (rev (dropWhile P (rev ys))) = hd ys"
proof -
  obtain y ys' where ys: "ys = y # ys'" using assms(2) by (cases ys) auto
  have "dropWhile P (rev ys' @ [y]) = dropWhile P (rev ys') @ [y]"
  proof (cases "\<exists>x\<in>set (rev ys'). \<not> P x")
    case True
    then show ?thesis by (auto intro: dropWhile_append1)
  next
    case False
    then have "dropWhile P (rev ys' @ [y]) = dropWhile P [y]" "dropWhile P (rev ys') = []"
      using dropWhile_append2 [of "rev ys'" P "[y]"] by auto
    then show ?thesis using assms(1) ys by simp
  qed
  then show ?thesis using ys by simp
qed

lemma py_strip_idem [simp]: "py_strip (py_strip s) = py_strip s"
proof (cases "dropWhile is_py_space s = []")
  case True
  then show ?thesis by (simp only: py_strip_def rev.simps dropWhile.simps)
next
  case False
  define ys where "ys = dropWhile is_py_space s"
  have ne: "ys \<noteq> []" using False by (simp add: ys_def)
  have hd: "\<not> is_py_space (hd ys)" using hd_dropWhile [of is_py_space s] False by (simp add: ys_def)
  define zs where "zs = rev (dropWhile is_py_space (rev ys))"
  have zs: "zs \<noteq> []" "hd zs = hd ys"
    using hd_rev_dropWhile_rev [where P = is_py_space, OF hd ne] by (simp_all add: zs_def)
  have "dropWhile is_py_space zs = zs" using zs hd by (simp add: dropWhile_hd_not)
  moreover have "rev (dropWhile is_py_space (rev zs)) = zs"
    by (simp add: zs_def dropWhile_idem)
  ultimately show ?thesis by (simp add: py_strip_def zs_def ys_def)
qed

section \<open>Tables\<close>

text \<open>\<open>UPDATE ... SET ... WHERE p\<close>: the new table, and \<open>cursor.rowcount\<close>.\<close>

definition sql_update :: "('r \<Rightarrow> bool) \<Rightarrow> ('r \<Rightarrow> 'r) \<Rightarrow> 'r list \<Rightarrow> 'r list" where
  "sql_update p f t = map (\<lambda>r. if p r then f r else r) t"

definition sql_count :: "('r \<Rightarrow> bool) \<Rightarrow> 'r list \<Rightarrow> nat" where
  "sql_count p t = length (filter p t)"

definition sql_delete :: "('r \<Rightarrow> bool) \<Rightarrow> 'r list \<Rightarrow> 'r list" where
  "sql_delete p t = filter (\<lambda>r. \<not> p r) t"

text \<open>\<open>fetchone()\<close> of a \<open>SELECT\<close>: the first row that satisfies the condition.\<close>

definition sql_one :: "('r \<Rightarrow> bool) \<Rightarrow> 'r list \<Rightarrow> 'r option" where
  "sql_one p t = List.find p t"

definition sql_asc :: "('r \<Rightarrow> 'o::linorder) \<Rightarrow> 'r list \<Rightarrow> 'r list" where
  "sql_asc k t = sort_key k t"

definition sql_desc :: "('r \<Rightarrow> time) \<Rightarrow> 'r list \<Rightarrow> 'r list" where
  "sql_desc k t = sort_key (\<lambda>r. - k r) t"

text \<open>\<open>LIMIT n\<close>: a negative limit is no limit in SQLite.\<close>

definition sql_limit :: "int \<Rightarrow> 'r list \<Rightarrow> 'r list" where
  "sql_limit n t = (if n < 0 then t else take (nat n) t)"

definition sql_offset :: "int \<Rightarrow> 'r list \<Rightarrow> 'r list" where
  "sql_offset n t = drop (nat n) t"

text \<open>\<open>INSERT\<close> into a table with a primary key: SQLite refuses a second row with the key.\<close>

definition sql_insert :: "('r \<Rightarrow> 'k) \<Rightarrow> 'r \<Rightarrow> 'r list \<Rightarrow> 'r list result" where
  "sql_insert key r t =
     (if key r \<in> key ` set t then Inl (IntegrityError ''UNIQUE constraint failed'')
      else Inr (t @ [r]))"

definition sql_insert_or_ignore :: "('r \<Rightarrow> 'k) \<Rightarrow> 'r \<Rightarrow> 'r list \<Rightarrow> 'r list" where
  "sql_insert_or_ignore key r t = (if key r \<in> key ` set t then t else t @ [r])"

lemma sql_update_Nil [sql_simps]: "sql_update p f [] = []"
  by (simp add: sql_update_def)

lemma sql_update_Cons [sql_simps]:
  "sql_update p f (r # t) = (if p r then f r else r) # sql_update p f t"
  by (simp add: sql_update_def)

lemma length_sql_update [simp]: "length (sql_update p f t) = length t"
  by (simp add: sql_update_def)

lemma set_sql_update: "set (sql_update p f t) = (\<lambda>r. if p r then f r else r) ` set t"
  by (simp add: sql_update_def)

lemma sql_update_none: "(\<And>r. r \<in> set t \<Longrightarrow> \<not> p r) \<Longrightarrow> sql_update p f t = t"
  by (induction t) (auto simp: sql_simps)

lemma map_sql_update: "(\<And>r. p r \<Longrightarrow> key (f r) = key r) \<Longrightarrow> map key (sql_update p f t) = map key t"
  by (auto simp: sql_update_def)

lemma keys_sql_update:
  assumes "\<And>r. p r \<Longrightarrow> key (f r) = key r"
  shows "key ` set (sql_update p f t) = key ` set t"
  using arg_cong [OF map_sql_update [of p key f t], of set] assms by simp

lemma sql_update_member:
  "r' \<in> set (sql_update p f t) \<Longrightarrow> \<exists>r\<in>set t. r' = (if p r then f r else r)"
  by (auto simp: sql_update_def)

lemma sql_count_0_iff: "sql_count p t = 0 \<longleftrightarrow> (\<forall>r\<in>set t. \<not> p r)"
  by (simp add: sql_count_def filter_empty_conv)

lemma sql_one_Some: "sql_one p t = Some r \<Longrightarrow> r \<in> set t \<and> p r"
  by (auto simp: sql_one_def find_Some_iff)

lemma sql_one_None: "sql_one p t = None \<longleftrightarrow> (\<forall>r\<in>set t. \<not> p r)"
  by (auto simp: sql_one_def find_None_iff)

lemma set_sql_asc [simp]: "set (sql_asc k t) = set t"
  by (simp add: sql_asc_def)

lemma set_sql_desc [simp]: "set (sql_desc k t) = set t"
  by (simp add: sql_desc_def)

lemma distinct_sql_asc [simp]: "distinct (sql_asc k t) = distinct t"
  by (simp add: sql_asc_def)

lemma sorted_sql_asc: "sorted (map k (sql_asc k t))"
  by (simp add: sql_asc_def)

lemma set_sql_limit: "set (sql_limit n t) \<subseteq> set t"
  by (auto simp: sql_limit_def dest: in_set_takeD)

lemma sql_limit_length: "0 \<le> n \<Longrightarrow> length (sql_limit n t) \<le> nat n"
  by (simp add: sql_limit_def)

lemma sql_desc_newest: "r \<in> set t \<Longrightarrow> sql_desc k t = r0 # rs \<Longrightarrow> k r \<le> k r0"
proof -
  assume r: "r \<in> set t" and eq: "sql_desc k t = r0 # rs"
  have "sorted (map (\<lambda>r. - k r) (sql_desc k t))" by (simp add: sql_desc_def)
  moreover have "r \<in> set (r0 # rs)" using r eq [symmetric] by simp
  ultimately show "k r \<le> k r0" using eq by auto
qed

section \<open>Rows under a key\<close>

definition row_of :: "('r \<Rightarrow> 'k) \<Rightarrow> 'k \<Rightarrow> 'r list \<Rightarrow> 'r option" where
  "row_of key k t = sql_one (\<lambda>r. key r = k) t"

definition keys_distinct :: "('r \<Rightarrow> 'k) \<Rightarrow> 'r list \<Rightarrow> bool" where
  "keys_distinct key t = distinct (map key t)"

lemma row_of_Nil [simp]: "row_of key k [] = None"
  by (simp add: row_of_def sql_one_def)

lemma row_of_Cons: "row_of key k (r # t) = (if key r = k then Some r else row_of key k t)"
  by (simp add: row_of_def sql_one_def)

lemma row_of_Some: "row_of key k t = Some r \<Longrightarrow> r \<in> set t \<and> key r = k"
  by (auto simp: row_of_def dest: sql_one_Some)

lemma row_of_None: "row_of key k t = None \<longleftrightarrow> k \<notin> key ` set t"
  by (auto simp: row_of_def sql_one_None)

lemma row_of_member: "keys_distinct key t \<Longrightarrow> r \<in> set t \<Longrightarrow> row_of key (key r) t = Some r"
  by (induction t) (auto simp: row_of_Cons keys_distinct_def)

lemma row_of_update:
  assumes "\<And>r. p r \<Longrightarrow> key (f r) = key r"
  shows "row_of key k (sql_update p f t) = map_option (\<lambda>r. if p r then f r else r) (row_of key k t)"
  using assms by (induction t) (auto simp: row_of_Cons sql_simps)

lemma row_of_append: "row_of key k (t @ [r]) =
    (case row_of key k t of None \<Rightarrow> (if key r = k then Some r else None) | Some x \<Rightarrow> Some x)"
  by (induction t) (auto simp: row_of_Cons)

lemma keys_distinct_Nil [simp]: "keys_distinct key []"
  by (simp add: keys_distinct_def)

lemma keys_distinct_update:
  assumes "\<And>r. p r \<Longrightarrow> key (f r) = key r" "keys_distinct key t"
  shows "keys_distinct key (sql_update p f t)"
  using assms by (simp add: keys_distinct_def map_sql_update)

lemma keys_distinct_append:
  "keys_distinct key (t @ [r]) \<longleftrightarrow> keys_distinct key t \<and> row_of key (key r) t = None"
  by (auto simp: keys_distinct_def row_of_None)

lemma keys_distinct_delete: "keys_distinct key t \<Longrightarrow> keys_distinct key (sql_delete p t)"
  by (simp add: keys_distinct_def sql_delete_def distinct_map_filter)

lemma row_of_delete:
  assumes "keys_distinct key t"
  shows "row_of key k (sql_delete p t) =
    (case row_of key k t of None \<Rightarrow> None | Some r \<Rightarrow> if p r then None else Some r)"
  using assms
proof (induction t)
  case (Cons r t)
  have "key r \<notin> key ` set t" using Cons.prems by (simp add: keys_distinct_def)
  then have "row_of key (key r) (sql_delete p t) = None"
    by (auto simp: row_of_None sql_delete_def)
  then show ?case using Cons by (auto simp: row_of_Cons sql_delete_def keys_distinct_def)
qed (simp add: sql_delete_def)

lemma sql_insert_Inr_iff:
  "sql_insert key r t = Inr t' \<longleftrightarrow> row_of key (key r) t = None \<and> t' = t @ [r]"
  by (auto simp: sql_insert_def row_of_None)

text \<open>The \<open>rowcount\<close> of an update by key is 1 exactly when the row is there and satisfies the guard.\<close>

lemma sql_count_by_key:
  assumes "keys_distinct key t"
  shows "sql_count (\<lambda>r. key r = k \<and> q r) t =
    (case row_of key k t of None \<Rightarrow> 0 | Some r \<Rightarrow> if q r then 1 else 0)"
  using assms
proof (induction t)
  case (Cons r t)
  have "key r = k \<Longrightarrow> sql_count (\<lambda>r. key r = k \<and> q r) t = 0"
    using Cons.prems by (auto simp: sql_count_0_iff keys_distinct_def image_iff)
  then show ?case
    using Cons by (auto simp: row_of_Cons sql_count_def keys_distinct_def split: option.splits)
qed (simp add: sql_count_def)

section \<open>Machines of atomic operations\<close>

text \<open>
  A store seen from outside: a state, and operations that workers apply to it one at a time, each
  in one SQLite transaction. The order in which workers get their turn is the order of the list
  of operations, so a lemma about every list is about every interleaving.
\<close>

locale op_machine =
  fixes apply_op :: "'op \<Rightarrow> 's \<Rightarrow> 's"
    and inv :: "'s \<Rightarrow> bool"
  assumes inv_op: "inv s \<Longrightarrow> inv (apply_op a s)"
begin

lemma inv_run: "inv s \<Longrightarrow> inv (fold apply_op ops s)"
  by (induction ops arbitrary: s) (auto intro: inv_op)

end

text \<open>A machine with facts that no operation takes back (a final state, a receipt, a decision).\<close>

locale settling_machine = op_machine +
  fixes settled :: "'v \<Rightarrow> 's \<Rightarrow> bool"
  assumes settled_op: "inv s \<Longrightarrow> settled v s \<Longrightarrow> settled v (apply_op a s)"
begin

lemma settled_run: "inv s \<Longrightarrow> settled v s \<Longrightarrow> settled v (fold apply_op ops s)"
  by (induction ops arbitrary: s) (auto intro: inv_op settled_op)

lemma settled_later:
  "inv s \<Longrightarrow> settled v (fold apply_op ops s) \<Longrightarrow> settled v (fold apply_op (ops @ rest) s)"
  by (simp add: inv_run settled_run)

end

text \<open>A machine with a quantity that no operation lowers (a version, an attempt, a clock).\<close>

locale monotone_machine = op_machine +
  fixes level :: "'s \<Rightarrow> 'o::preorder"
  assumes level_op: "inv s \<Longrightarrow> level s \<le> level (apply_op a s)"
begin

lemma level_run: "inv s \<Longrightarrow> level s \<le> level (fold apply_op ops s)"
proof (induction ops arbitrary: s)
  case (Cons a ops)
  have "level s \<le> level (apply_op a s)" using Cons.prems by (rule level_op)
  also have "level (apply_op a s) \<le> level (fold apply_op ops (apply_op a s))"
    by (rule Cons.IH) (rule inv_op [OF Cons.prems])
  finally show ?case by simp
qed simp

end

section \<open>The environment of a call\<close>

text \<open>
  What a call reads from outside: the clock, read once per call, and the stream of \<open>uuid4\<close>
  values that name the events it writes.
\<close>

record Env =
  env_clock :: time
  env_uuid :: "nat \<Rightarrow> string"

end
