(* ===== verification/Py_Json.thy ===== *)
theory Py_Json
  imports Navi_Prelude
begin

text \<open>
  JSON values as the stores keep them, with the Python operations the code applies to them.

  A text column that holds JSON (\<open>evidence_json\<close>, \<open>payload_json\<close>, \<open>spec_json\<close>) is modelled
  by the value the text denotes: the stores write it with \<open>json.dumps\<close> and read it with
  \<open>json.loads\<close>. Where a caller supplies the text itself, so that it may not be JSON, the column
  is a \<open>json option\<close>. A \<open>dict\<close> is an association list in the order of insertion, as in
  Python; \<open>dict_set\<close> keeps the place of a key that is already there.
\<close>

section \<open>Values\<close>

datatype json =
    JNull
  | JBool bool
  | JInt int
  | JFloat rat
  | JStr string
  | JList "json list"
  | JDict "(string \<times> json) list"

type_synonym dict = "(string \<times> json) list"

fun is_dict :: "json \<Rightarrow> bool" where
  "is_dict (JDict d) = True"
| "is_dict _ = False"

text \<open>Truth of a value: \<open>None\<close>, \<open>False\<close>, zero and the empty containers are false.\<close>

fun py_truthy :: "json \<Rightarrow> bool" where
  "py_truthy JNull = False"
| "py_truthy (JBool b) = b"
| "py_truthy (JInt i) = (i \<noteq> 0)"
| "py_truthy (JFloat q) = (q \<noteq> 0)"
| "py_truthy (JStr s) = (s \<noteq> [])"
| "py_truthy (JList xs) = (xs \<noteq> [])"
| "py_truthy (JDict d) = (d \<noteq> [])"

section \<open>Text of a value\<close>

definition hex_digit :: "nat \<Rightarrow> char" where
  "hex_digit n = (if n < 10 then char_of (48 + n) else char_of (87 + n))"

definition repr_char :: "char \<Rightarrow> char \<Rightarrow> string" where
  "repr_char q c = (let n = code_point c in
     if n = 92 then [CHR 0x5C, CHR 0x5C]
     else if c = q then [CHR 0x5C, q]
     else if n = 10 then [CHR 0x5C, CHR ''n'']
     else if n = 13 then [CHR 0x5C, CHR ''r'']
     else if n = 9 then [CHR 0x5C, CHR ''t'']
     else if n < 32 \<or> (127 \<le> n \<and> n \<le> 160) \<or> n = 173
       then [CHR 0x5C, CHR ''x'', hex_digit (n div 16), hex_digit (n mod 16)]
     else [c])"

definition repr_str :: "string \<Rightarrow> string" where
  "repr_str s = (let q = (if CHR 0x27 \<in> set s \<and> CHR 0x22 \<notin> set s then CHR 0x22 else CHR 0x27)
     in q # concat (map (repr_char q) s) @ [q])"

text \<open>
  The decimal text of a float: exact for a number with at most 17 decimal places and below
  \<open>10 ^ 16\<close>, which is where Python writes no exponent; further places are cut off.
\<close>

fun frac_digits :: "nat \<Rightarrow> rat \<Rightarrow> string" where
  "frac_digits 0 q = []"
| "frac_digits (Suc n) q = (if q = 0 then [] else
     (let d = nat \<lfloor>10 * q\<rfloor> in char_of (48 + d) # frac_digits n (10 * q - of_nat d)))"

definition repr_float :: "rat \<Rightarrow> string" where
  "repr_float q = (let a = \<bar>q\<bar>; fr = frac_digits 17 (a - of_int \<lfloor>a\<rfloor>) in
     (if q < 0 then ''-'' else []) @ show_int \<lfloor>a\<rfloor> @ ''.'' @ (if fr = [] then ''0'' else fr))"

fun join_with :: "string \<Rightarrow> string list \<Rightarrow> string" where
  "join_with sep [] = []"
| "join_with sep [x] = x"
| "join_with sep (x # xs) = x @ sep @ join_with sep xs"

fun py_repr :: "json \<Rightarrow> string" where
  "py_repr JNull = ''None''"
| "py_repr (JBool b) = (if b then ''True'' else ''False'')"
| "py_repr (JInt i) = show_int i"
| "py_repr (JFloat q) = repr_float q"
| "py_repr (JStr s) = repr_str s"
| "py_repr (JList xs) = ''['' @ join_with '', '' (map py_repr xs) @ '']''"
| "py_repr (JDict d) =
     ''{'' @ join_with '', '' (map (\<lambda>(k, v). repr_str k @ '': '' @ py_repr v) d) @ ''}''"

fun py_str :: "json \<Rightarrow> string" where
  "py_str (JStr s) = s"
| "py_str v = py_repr v"

text \<open>\<open>str(value or "")\<close>, the normal form of an optional text field.\<close>

definition str_or_empty :: "json \<Rightarrow> string" where
  "str_or_empty v = (if py_truthy v then py_str v else [])"

lemma str_or_empty_JStr [simp]: "str_or_empty (JStr s) = s"
  by (cases s) (simp_all add: str_or_empty_def)

lemma str_or_empty_JNull [simp]: "str_or_empty JNull = []"
  by (simp add: str_or_empty_def)

section \<open>Reading a float\<close>

text \<open>
  \<open>float(v)\<close>: \<open>None\<close> is a \<open>TypeError\<close> or a \<open>ValueError\<close>. Text may hold blanks around the
  number, a sign, single underscores between digits, an exponent, and the names of the values
  that are not finite. Numbers keep their exact value instead of the nearest double; an integer
  beyond the range of a double, for which Python raises \<open>OverflowError\<close>, is not modelled.
\<close>

datatype py_float = Finite rat | Infinity | NegInfinity | NotANumber

definition is_digit :: "char \<Rightarrow> bool" where
  "is_digit c = (48 \<le> code_point c \<and> code_point c \<le> 57)"

fun drop_underscores :: "bool \<Rightarrow> string \<Rightarrow> string option" where
  "drop_underscores after_digit [] = Some []"
| "drop_underscores after_digit (c # s) =
     (if c = CHR ''_'' then
        (if after_digit \<and> s \<noteq> [] \<and> is_digit (hd s) then drop_underscores False s else None)
      else map_option (Cons c) (drop_underscores (is_digit c) s))"

definition digits_value :: "string \<Rightarrow> nat" where
  "digits_value ds = foldl (\<lambda>n c. 10 * n + (code_point c - 48)) 0 ds"

definition split_sign :: "string \<Rightarrow> bool \<times> string" where
  "split_sign s = (case s of [] \<Rightarrow> (False, [])
     | c # r \<Rightarrow> if c = CHR ''-'' then (True, r) else if c = CHR ''+'' then (False, r) else (False, s))"

definition parse_exponent :: "string \<Rightarrow> int option" where
  "parse_exponent s = (case s of [] \<Rightarrow> Some 0
     | c # r \<Rightarrow> if c \<noteq> CHR ''e'' then None
         else let (neg, ds) = split_sign r
              in if ds = [] \<or> (\<exists>d\<in>set ds. \<not> is_digit d) then None
                 else Some (if neg then - int (digits_value ds) else int (digits_value ds)))"

definition parse_decimal :: "string \<Rightarrow> rat option" where
  "parse_decimal s =
     (let whole = takeWhile is_digit s; r = dropWhile is_digit s;
          (frac, r') = (case r of [] \<Rightarrow> ([], [])
            | c # t \<Rightarrow> if c = CHR ''.'' then (takeWhile is_digit t, dropWhile is_digit t) else ([], r))
      in if whole = [] \<and> frac = [] then None
         else map_option (\<lambda>e.
             (of_nat (digits_value whole) + of_nat (digits_value frac) / 10 ^ length frac)
               * (if 0 \<le> e then 10 ^ nat e else inverse (10 ^ nat (- e)))) (parse_exponent r'))"

definition float_of_text :: "string \<Rightarrow> py_float option" where
  "float_of_text text =
     (let (neg, s) = split_sign (py_lower (py_strip text))
      in if s = ''inf'' \<or> s = ''infinity'' then Some (if neg then NegInfinity else Infinity)
         else if s = ''nan'' then Some NotANumber
         else case drop_underscores False s of None \<Rightarrow> None
           | Some t \<Rightarrow> map_option (\<lambda>q.
               if 2 ^ 1024 - 2 ^ 970 \<le> q then (if neg then NegInfinity else Infinity)
               else Finite (if neg then - q else q)) (parse_decimal t))"

definition py_float :: "json \<Rightarrow> py_float option" where
  "py_float v = (case v of
       JBool b \<Rightarrow> Some (Finite (if b then 1 else 0))
     | JInt i \<Rightarrow> Some (Finite (of_int i))
     | JFloat q \<Rightarrow> Some (Finite q)
     | JStr s \<Rightarrow> float_of_text s
     | _ \<Rightarrow> None)"


text \<open>\<open>int(text)\<close> in base 10.\<close>

definition py_int :: "string \<Rightarrow> int result" where
  "py_int s =
     (let (neg, t) = split_sign (py_strip s) in
      case drop_underscores False t of
        None \<Rightarrow> Inl (ValueError (''invalid literal for int() with base 10: '' @ repr_str s))
      | Some ds \<Rightarrow>
          if ds = [] \<or> (\<exists>d\<in>set ds. \<not> is_digit d)
          then Inl (ValueError (''invalid literal for int() with base 10: '' @ repr_str s))
          else Inr (if neg then - int (digits_value ds) else int (digits_value ds)))"

text \<open>
  \<open>max(0.0, float(v or 0.0))\<close>, with 0 for what is not a number; \<open>None\<close> is a time that never
  comes.
\<close>

definition nonneg_seconds :: "json \<Rightarrow> time option" where
  "nonneg_seconds v =
     (case py_float (if py_truthy v then v else JFloat 0) of
        None \<Rightarrow> Some 0
      | Some (Finite q) \<Rightarrow> Some (max 0 q)
      | Some Infinity \<Rightarrow> None
      | Some NegInfinity \<Rightarrow> Some 0
      | Some NotANumber \<Rightarrow> Some 0)"

text \<open>
  \<open>f"{x:g}"\<close>: six significant digits, rounded half to even, without trailing zeros, with an
  exponent below \<open>1e-04\<close> and from \<open>1e+06\<close> on. \<open>dec_exponent\<close> looks for the place of the first
  digit down to \<open>10 ^ -400\<close>, which is below the smallest double.
\<close>

definition round_half_even :: "rat \<Rightarrow> nat" where
  "round_half_even q = (let f = \<lfloor>q\<rfloor>; r = q - of_int f in
     nat (if r < 1/2 \<or> (r = 1/2 \<and> even f) then f else f + 1))"

fun dec_exponent :: "nat \<Rightarrow> rat \<Rightarrow> int" where
  "dec_exponent 0 q = 0"
| "dec_exponent (Suc n) q =
     (if 1 \<le> q then int (length (show_nat (nat \<lfloor>q\<rfloor>))) - 1 else dec_exponent n (10 * q) - 1)"

definition strip_zeros :: "string \<Rightarrow> string" where
  "strip_zeros ds = rev (dropWhile (\<lambda>c. c = CHR ''0'') (rev ds))"

definition with_point :: "string \<Rightarrow> string \<Rightarrow> string" where
  "with_point whole places = (if strip_zeros places = [] then whole else whole @ ''.'' @ strip_zeros places)"

definition format_g :: "rat \<Rightarrow> string" where
  "format_g x =
     (if x = 0 then ''0''
      else let a = \<bar>x\<bar>; e0 = dec_exponent 400 a;
               scaled = (if e0 \<le> 5 then a * 10 ^ nat (5 - e0) else a / 10 ^ nat (e0 - 5));
               n = round_half_even scaled;
               (n, e) = (if n = 10 ^ 6 then (10 ^ 5, e0 + 1) else (n, e0));
               ds = show_nat n;
               es = show_nat (nat \<bar>e\<bar>)
           in (if x < 0 then ''-'' else []) @
              (if e < -4 \<or> 6 \<le> e
               then with_point (take 1 ds) (drop 1 ds) @ ''e'' @ (if e < 0 then ''-'' else ''+'')
                    @ (if length es < 2 then ''0'' @ es else es)
               else if 0 \<le> e then with_point (take (nat e + 1) ds) (drop (nat e + 1) ds)
               else with_point ''0'' (replicate (nat (- e) - 1) (CHR ''0'') @ ds)))"


lemma parse_decimal_example: "parse_decimal ''10.5e1'' = Some 105"
  by code_simp

section \<open>Dictionaries\<close>

definition jget :: "dict \<Rightarrow> string \<Rightarrow> json" where
  "jget d k = (case map_of d k of None \<Rightarrow> JNull | Some v \<Rightarrow> v)"

text \<open>\<open>d[k] = v\<close>, and \<open>{**a, **b}\<close>.\<close>

definition dict_set :: "string \<Rightarrow> json \<Rightarrow> dict \<Rightarrow> dict" where
  "dict_set k v d = AList.update k v d"

fun dict_merge :: "dict \<Rightarrow> dict \<Rightarrow> dict" where
  "dict_merge a [] = a"
| "dict_merge a ((k, v) # b) = dict_merge (dict_set k v a) b"

definition as_dict :: "json \<Rightarrow> dict" where
  "as_dict v = (case v of JDict d \<Rightarrow> d | _ \<Rightarrow> [])"

definition as_list :: "json \<Rightarrow> json list" where
  "as_list v = (case v of JList xs \<Rightarrow> xs | _ \<Rightarrow> [])"

text \<open>
  \<open>json_object\<close> and \<open>json_array\<close> of \<open>navi/json_utils.py\<close>, on the outcome of
  \<open>json.loads\<close>: \<open>None\<close> is text that is not JSON.
\<close>

definition json_object :: "json option \<Rightarrow> dict" where
  "json_object parsed = (case parsed of None \<Rightarrow> [] | Some v \<Rightarrow> as_dict v)"

definition json_array :: "json option \<Rightarrow> json list" where
  "json_array parsed = (case parsed of None \<Rightarrow> [] | Some v \<Rightarrow> as_list v)"

lemma map_of_dict_set [simp]: "map_of (dict_set k v d) = (map_of d)(k \<mapsto> v)"
  by (simp add: dict_set_def update_conv')

lemma jget_Nil [simp]: "jget [] k = JNull"
  by (simp add: jget_def)

lemma jget_Cons [simp]: "jget ((k, v) # d) k' = (if k' = k then v else jget d k')"
  by (simp add: jget_def)

lemma jget_dict_set: "jget (dict_set k v d) k' = (if k' = k then v else jget d k')"
  by (simp add: jget_def)

lemma dom_dict_set: "fst ` set (dict_set k v d) = insert k (fst ` set d)"
  by (simp add: dict_set_def dom_update)

lemma distinct_dict_set: "distinct (map fst d) \<Longrightarrow> distinct (map fst (dict_set k v d))"
  by (simp add: dict_set_def distinct_update)

lemma distinct_dict_merge: "distinct (map fst a) \<Longrightarrow> distinct (map fst (dict_merge a b))"
  by (induction a b rule: dict_merge.induct) (auto simp: distinct_dict_set)

lemma jget_dict_merge_notin: "k \<notin> fst ` set b \<Longrightarrow> jget (dict_merge a b) k = jget a k"
  by (induction a b rule: dict_merge.induct) (auto simp: jget_dict_set)

lemma jget_dict_merge_in:
  "distinct (map fst b) \<Longrightarrow> k \<in> fst ` set b \<Longrightarrow> jget (dict_merge a b) k = jget b k"
proof (induction a b rule: dict_merge.induct)
  case (2 a k' v b)
  then show ?case
    by (cases "k = k'") (auto simp: jget_dict_merge_notin jget_dict_set)
qed simp

end
