(* ===== verification/Contracts.thy ===== *)
theory Contracts
  imports Py_Json
begin

text \<open>
  The small contract modules the stores and the control plane share:
  \<open>permission_contract.py\<close>, \<open>approval_contract.py\<close>, \<open>lifecycle.py\<close>,
  \<open>persistence_scope.py\<close> and \<open>runs/models.py\<close>.

  A \<open>StrEnum\<close> is a datatype with the function that gives its text; the stores hold the text.
\<close>

section \<open>Permissions (\<open>permission_contract.py\<close>)\<close>

definition PERMISSION_ORDER :: "(string \<times> nat) list" where
  "PERMISSION_ORDER = [(''read'', 0), (''network'', 1), (''prepare'', 2), (''write'', 3)]"

definition normalize_permission :: "json \<Rightarrow> json \<Rightarrow> string result" where
  "normalize_permission val dflt =
     (let permission = py_lower (py_strip (str_or_empty val));
          permission = (if permission = [] then py_lower (py_strip (str_or_empty dflt)) else permission)
      in if permission \<notin> fst ` set PERMISSION_ORDER
         then Inl (ValueError (''unsupported permission: '' @ py_str val))
         else Inr permission)"

lemma normalize_permission_declared:
  "normalize_permission v d = Inr p \<Longrightarrow> p \<in> {''read'', ''network'', ''prepare'', ''write''}"
  by (auto simp: normalize_permission_def Let_def PERMISSION_ORDER_def split: if_splits)

section \<open>Approval vocabulary (\<open>approval_contract.py\<close>)\<close>

definition APPROVAL_DECISION_APPROVE :: string where "APPROVAL_DECISION_APPROVE = ''approve''"
definition APPROVAL_DECISION_REJECT :: string where "APPROVAL_DECISION_REJECT = ''reject''"
definition APPROVAL_DECISIONS :: "string list" where
  "APPROVAL_DECISIONS = [APPROVAL_DECISION_APPROVE, APPROVAL_DECISION_REJECT]"
definition APPROVAL_STATUS_PENDING :: string where "APPROVAL_STATUS_PENDING = ''pending''"
definition APPROVAL_STATUS_APPROVED :: string where "APPROVAL_STATUS_APPROVED = ''approved''"
definition APPROVAL_STATUS_REJECTED :: string where "APPROVAL_STATUS_REJECTED = ''rejected''"
definition APPROVAL_STATUS_EXPIRED :: string where "APPROVAL_STATUS_EXPIRED = ''expired''"
definition APPROVAL_ACTION_RUN_EXECUTION :: string where
  "APPROVAL_ACTION_RUN_EXECUTION = ''run_execution''"
definition APPROVAL_ACTION_SESSION_ELEVATION :: string where
  "APPROVAL_ACTION_SESSION_ELEVATION = ''session_elevation''"
definition APPROVAL_ACTION_CAPABILITY :: string where
  "APPROVAL_ACTION_CAPABILITY = ''capability''"
definition APPROVAL_ACTION_EVOLUTION :: string where
  "APPROVAL_ACTION_EVOLUTION = ''evolution''"

lemmas approval_text =
  APPROVAL_DECISION_APPROVE_def APPROVAL_DECISION_REJECT_def APPROVAL_DECISIONS_def
  APPROVAL_STATUS_PENDING_def APPROVAL_STATUS_APPROVED_def APPROVAL_STATUS_REJECTED_def
  APPROVAL_STATUS_EXPIRED_def APPROVAL_ACTION_RUN_EXECUTION_def
  APPROVAL_ACTION_SESSION_ELEVATION_def APPROVAL_ACTION_CAPABILITY_def
  APPROVAL_ACTION_EVOLUTION_def

text \<open>The facts of one container: its own approval, or the approval entity it names.\<close>

definition facts_gate_id :: "dict \<Rightarrow> string" where
  "facts_gate_id facts =
     (let approval = jget facts ''approval'';
          entity_id = str_or_empty (jget facts ''entity_id'')
      in if is_dict approval \<and> str_or_empty (jget (as_dict approval) ''id'') \<noteq> []
         then py_str (jget (as_dict approval) ''id'')
         else if jget facts ''entity_type'' = JStr ''approval_request'' \<and> entity_id \<noteq> []
         then entity_id
         else [])"

fun first_gate_id :: "json list \<Rightarrow> string" where
  "first_gate_id [] = []"
| "first_gate_id (JDict container # rest) =
     (case jget container ''facts'' of
        JDict facts \<Rightarrow> (if facts_gate_id facts \<noteq> [] then facts_gate_id facts else first_gate_id rest)
      | _ \<Rightarrow> first_gate_id rest)"
| "first_gate_id (_ # rest) = first_gate_id rest"

definition owned_approval_gate_id :: "json \<Rightarrow> string" where
  "owned_approval_gate_id evidence =
     first_gate_id
       (case evidence of
          JDict e \<Rightarrow> [JDict e, jget e ''capability_result'', jget e ''executor'']
        | _ \<Rightarrow> [])"

text \<open>
  Only the three containers count: approvals mentioned anywhere else in the evidence (a
  continuation of another loop) never become the gate of this one.
\<close>

lemma owned_approval_gate_id_cong:
  assumes "jget e ''facts'' = jget e' ''facts''"
    and "jget e ''capability_result'' = jget e' ''capability_result''"
    and "jget e ''executor'' = jget e' ''executor''"
  shows "owned_approval_gate_id (JDict e) = owned_approval_gate_id (JDict e')"
  using assms by (simp add: owned_approval_gate_id_def)

section \<open>Run lifecycle (\<open>lifecycle.py\<close>)\<close>

datatype Phase = Phase_PENDING | Phase_RUNNING | Phase_PAUSED | Phase_ENDED

fun phase_str :: "Phase \<Rightarrow> string" where
  "phase_str Phase_PENDING = ''pending''"
| "phase_str Phase_RUNNING = ''running''"
| "phase_str Phase_PAUSED = ''paused''"
| "phase_str Phase_ENDED = ''ended''"

datatype Governance = Governance_NONE | Governance_AWAITING_APPROVAL | Governance_APPROVED
  | Governance_REJECTED

fun governance_str :: "Governance \<Rightarrow> string" where
  "governance_str Governance_NONE = ''none''"
| "governance_str Governance_AWAITING_APPROVAL = ''awaiting_approval''"
| "governance_str Governance_APPROVED = ''approved''"
| "governance_str Governance_REJECTED = ''rejected''"

datatype Acceptance = Acceptance_NONE | Acceptance_UNVERIFIED | Acceptance_ACCEPTED
  | Acceptance_REJECTED

fun acceptance_str :: "Acceptance \<Rightarrow> string" where
  "acceptance_str Acceptance_NONE = ''none''"
| "acceptance_str Acceptance_UNVERIFIED = ''unverified''"
| "acceptance_str Acceptance_ACCEPTED = ''accepted''"
| "acceptance_str Acceptance_REJECTED = ''rejected''"

datatype Resolution = Resolution_NONE | Resolution_SUCCESS | Resolution_FAILED
  | Resolution_CANCELED | Resolution_BLOCKED

fun resolution_str :: "Resolution \<Rightarrow> string" where
  "resolution_str Resolution_NONE = ''none''"
| "resolution_str Resolution_SUCCESS = ''success''"
| "resolution_str Resolution_FAILED = ''failed''"
| "resolution_str Resolution_CANCELED = ''canceled''"
| "resolution_str Resolution_BLOCKED = ''blocked''"

record RunFinalizeDecision =
  rfd_phase :: string
  rfd_resolution :: string
  rfd_error :: string

record AcceptanceAdvance =
  aa_action :: string
  aa_terminal :: bool
  aa_error :: string

definition acceptance_advance :: "string \<Rightarrow> string \<Rightarrow> string \<Rightarrow> AcceptanceAdvance" where
  "acceptance_advance phase governance resolution =
     (if phase = phase_str Phase_ENDED
        then \<lparr>aa_action = ''terminal'', aa_terminal = True, aa_error = []\<rparr>
      else if governance = governance_str Governance_AWAITING_APPROVAL
        then \<lparr>aa_action = ''approve'', aa_terminal = False, aa_error = []\<rparr>
      else if phase = phase_str Phase_PENDING
        then \<lparr>aa_action = ''process_queue'', aa_terminal = False, aa_error = []\<rparr>
      else if phase = phase_str Phase_RUNNING
        then \<lparr>aa_action = ''check'', aa_terminal = False, aa_error = []\<rparr>
      else \<lparr>aa_action = ''stalled'', aa_terminal = False,
             aa_error = ''run cannot advance from phase='' @ phase @ '' governance='' @ governance
                        @ '' resolution='' @ resolution\<rparr>)"

definition acceptance_outcome :: "bool \<Rightarrow> string \<Rightarrow> string" where
  "acceptance_outcome accepted run_phase =
     (if accepted then ''accepted''
      else if run_phase = phase_str Phase_RUNNING then ''blocked''
      else ''failed'')"

lemma acceptance_advance_stalled_iff:
  "aa_action (acceptance_advance p g r) = ''stalled'' \<longleftrightarrow>
     g \<noteq> ''awaiting_approval'' \<and> p \<notin> {''pending'', ''running'', ''ended''}"
  by (simp add: acceptance_advance_def)

section \<open>Actor scope (\<open>persistence_scope.py\<close>)\<close>

text \<open>
  \<open>append_actor_scope\<close> adds one clause per non-empty caller value; the four columns of the
  row are the arguments after the four caller values.
\<close>

definition scope_clause :: "string \<Rightarrow> string \<Rightarrow> bool" where
  "scope_clause caller column = (caller = [] \<or> column = caller \<or> column = [])"

definition append_actor_scope ::
  "string \<Rightarrow> string \<Rightarrow> string \<Rightarrow> string \<Rightarrow> string \<Rightarrow> string \<Rightarrow> string \<Rightarrow> string \<Rightarrow> bool" where
  "append_actor_scope source peer_id sender_id workspace c_source c_peer_id c_sender_id c_workspace =
     (scope_clause source c_source \<and> scope_clause peer_id c_peer_id
      \<and> scope_clause sender_id c_sender_id \<and> scope_clause workspace c_workspace)"

text \<open>An exact filter: no clause for an empty value.\<close>

definition opt_eq :: "string \<Rightarrow> string \<Rightarrow> bool" where
  "opt_eq wanted column = (wanted = [] \<or> column = wanted)"

section \<open>Run records (\<open>runs/models.py\<close>)\<close>

record Run =
  run_id :: string
  run_title :: string
  run_phase :: string
  run_governance :: string
  run_acceptance :: string
  run_resolution :: string
  run_created_at :: time
  run_updated_at :: time
  run_kind :: string
  run_prompt :: string
  run_source :: string
  run_peer_id :: string
  run_sender_id :: string
  run_provider :: string
  run_workspace :: string
  run_autonomy_level :: string
  run_trust_rule_id :: string
  run_why_now :: string
  run_plan_summary :: string
  run_result_summary :: string
  run_error :: string

record ToolCallLog =
  log_id :: string
  log_tool :: string
  log_args_json :: string
  log_ok :: bool
  log_facts :: "json option"
  log_error :: string
  log_started_at :: time
  log_ended_at :: time
  log_run_id :: string
  log_trace_id :: string

record Approval =
  ap_id :: string
  ap_run_id :: string
  ap_action :: string
  ap_status :: string
  ap_requested_tool :: string
  ap_requested_permission :: string
  ap_args_json :: string
  ap_source :: string
  ap_peer_id :: string
  ap_sender_id :: string
  ap_code :: string
  ap_expires_at :: time
  ap_created_at :: time
  ap_updated_at :: time
  ap_reason :: string
  ap_decision :: string
  ap_resolved_by :: string

definition require_workspace :: "string \<Rightarrow> string result" where
  "require_workspace workspace =
     (let v = py_strip workspace in if v = [] then Inl (ValueError ''workspace is required'') else Inr v)"

end
