(* ===== verification/Loop_Types.thy ===== *)
theory Loop_Types
  imports Contracts
begin

text \<open>
  The loop vocabulary of \<open>navi/loop.py\<close>: the enums, the decision and trace records with
  their \<open>to_dict\<close>, and the classification of a persisted loop decision into a failure domain.

  A field declared \<open>Enum | str\<close> is the text of the value (\<open>str\<close> of a \<open>StrEnum\<close> is its
  text). A \<open>to_dict\<close> gives a \<open>dict\<close> of JSON values.
\<close>

section \<open>Enums\<close>

datatype LoopPhase =
    LoopPhase_DECISION
  | LoopPhase_CHECK
  | LoopPhase_RECOVERY
  | LoopPhase_RUNTIME
  | LoopPhase_PLANNER
  | LoopPhase_CAPABILITY

fun loopPhase_str :: "LoopPhase \<Rightarrow> string" where
  "loopPhase_str LoopPhase_DECISION = ''loop.decision''"
| "loopPhase_str LoopPhase_CHECK = ''loop.check''"
| "loopPhase_str LoopPhase_RECOVERY = ''loop.recovery''"
| "loopPhase_str LoopPhase_RUNTIME = ''runtime''"
| "loopPhase_str LoopPhase_PLANNER = ''planner''"
| "loopPhase_str LoopPhase_CAPABILITY = ''capability''"


datatype LoopDecisionKind =
    LoopDecisionKind_CONTINUE
  | LoopDecisionKind_RECOVER
  | LoopDecisionKind_CONVERGED
  | LoopDecisionKind_FINALIZE
  | LoopDecisionKind_BLOCKED
  | LoopDecisionKind_FAILED

fun loopDecisionKind_str :: "LoopDecisionKind \<Rightarrow> string" where
  "loopDecisionKind_str LoopDecisionKind_CONTINUE = ''continue''"
| "loopDecisionKind_str LoopDecisionKind_RECOVER = ''recover''"
| "loopDecisionKind_str LoopDecisionKind_CONVERGED = ''converged''"
| "loopDecisionKind_str LoopDecisionKind_FINALIZE = ''finalize''"
| "loopDecisionKind_str LoopDecisionKind_BLOCKED = ''blocked''"
| "loopDecisionKind_str LoopDecisionKind_FAILED = ''failed''"


datatype LoopReason =
    LoopReason_CAPABILITY_FAILURE
  | LoopReason_CAPABILITY_FACT_RECORDED
  | LoopReason_COMPLETION_CHECKER_BLOCKED
  | LoopReason_COMPLETION_EVIDENCE_TRUE
  | LoopReason_EXTERNAL_PAUSE
  | LoopReason_PLANNER_OR_PARSER_FAILURE
  | LoopReason_PROVIDER_NO_RESPONSE
  | LoopReason_REPEATED_PROGRESS_SIGNATURE
  | LoopReason_REPEATED_RECOVERY_SIGNATURE
  | LoopReason_TERMINAL_RESULT
  | LoopReason_APPROVAL_REQUIRED

fun loopReason_str :: "LoopReason \<Rightarrow> string" where
  "loopReason_str LoopReason_CAPABILITY_FAILURE = ''capability_failure''"
| "loopReason_str LoopReason_CAPABILITY_FACT_RECORDED = ''capability_fact_recorded''"
| "loopReason_str LoopReason_COMPLETION_CHECKER_BLOCKED = ''completion_checker_blocked''"
| "loopReason_str LoopReason_COMPLETION_EVIDENCE_TRUE = ''completion_evidence_true''"
| "loopReason_str LoopReason_EXTERNAL_PAUSE = ''external_pause''"
| "loopReason_str LoopReason_PLANNER_OR_PARSER_FAILURE = ''planner_or_parser_failure''"
| "loopReason_str LoopReason_PROVIDER_NO_RESPONSE = ''provider_no_response''"
| "loopReason_str LoopReason_REPEATED_PROGRESS_SIGNATURE = ''repeated_progress_signature''"
| "loopReason_str LoopReason_REPEATED_RECOVERY_SIGNATURE = ''repeated_recovery_signature''"
| "loopReason_str LoopReason_TERMINAL_RESULT = ''terminal_result''"
| "loopReason_str LoopReason_APPROVAL_REQUIRED = ''approval_required''"


datatype LoopCheckName =
    LoopCheckName_CAPABILITY_RESULT
  | LoopCheckName_COMPLETION_CHECKER
  | LoopCheckName_COMPLETION_EVIDENCE
  | LoopCheckName_EXTERNAL_PAUSE
  | LoopCheckName_NO_PROGRESS_GATE
  | LoopCheckName_PLANNER_RESULT
  | LoopCheckName_TERMINAL_RESULT
  | LoopCheckName_APPROVAL_GATE

fun loopCheckName_str :: "LoopCheckName \<Rightarrow> string" where
  "loopCheckName_str LoopCheckName_CAPABILITY_RESULT = ''capability_result''"
| "loopCheckName_str LoopCheckName_COMPLETION_CHECKER = ''completion_checker''"
| "loopCheckName_str LoopCheckName_COMPLETION_EVIDENCE = ''completion_evidence''"
| "loopCheckName_str LoopCheckName_EXTERNAL_PAUSE = ''external_pause''"
| "loopCheckName_str LoopCheckName_NO_PROGRESS_GATE = ''no_progress_gate''"
| "loopCheckName_str LoopCheckName_PLANNER_RESULT = ''planner_result''"
| "loopCheckName_str LoopCheckName_TERMINAL_RESULT = ''terminal_result''"
| "loopCheckName_str LoopCheckName_APPROVAL_GATE = ''approval_gate''"


datatype TracePhase =
    TracePhase_AGENT_ROLE_RESULT
  | TracePhase_CAPABILITY_RESULT
  | TracePhase_CHANNEL_INGRESS
  | TracePhase_CHANNEL_EGRESS
  | TracePhase_RESPONSE_READY
  | TracePhase_PLANNER_CALL_ERROR
  | TracePhase_PLANNER_CALL_START
  | TracePhase_PLANNER_PARSE_ERROR
  | TracePhase_PLANNER_SYSCALL
  | TracePhase_MEMORY_RECALL
  | TracePhase_RUNTIME_CONVERGED
  | TracePhase_TURN_FINAL
  | TracePhase_TURN_START

fun tracePhase_str :: "TracePhase \<Rightarrow> string" where
  "tracePhase_str TracePhase_AGENT_ROLE_RESULT = ''agent.role_result''"
| "tracePhase_str TracePhase_CAPABILITY_RESULT = ''capability.result''"
| "tracePhase_str TracePhase_CHANNEL_INGRESS = ''channel.ingress''"
| "tracePhase_str TracePhase_CHANNEL_EGRESS = ''channel.egress''"
| "tracePhase_str TracePhase_RESPONSE_READY = ''channel.response_ready''"
| "tracePhase_str TracePhase_PLANNER_CALL_ERROR = ''planner.call.error''"
| "tracePhase_str TracePhase_PLANNER_CALL_START = ''planner.call.start''"
| "tracePhase_str TracePhase_PLANNER_PARSE_ERROR = ''planner.parse_error''"
| "tracePhase_str TracePhase_PLANNER_SYSCALL = ''planner.syscall''"
| "tracePhase_str TracePhase_MEMORY_RECALL = ''memory.recall''"
| "tracePhase_str TracePhase_RUNTIME_CONVERGED = ''runtime.converged''"
| "tracePhase_str TracePhase_TURN_FINAL = ''turn.final''"
| "tracePhase_str TracePhase_TURN_START = ''turn.start''"


datatype TraceOutcome =
    TraceOutcome_SUCCESS
  | TraceOutcome_DEGRADED
  | TraceOutcome_FAILURE
  | TraceOutcome_UNKNOWN

fun traceOutcome_str :: "TraceOutcome \<Rightarrow> string" where
  "traceOutcome_str TraceOutcome_SUCCESS = ''success''"
| "traceOutcome_str TraceOutcome_DEGRADED = ''degraded''"
| "traceOutcome_str TraceOutcome_FAILURE = ''failure''"
| "traceOutcome_str TraceOutcome_UNKNOWN = ''unknown''"


datatype TraceRunType =
    TraceRunType_CHAIN
  | TraceRunType_LLM
  | TraceRunType_TOOL
  | TraceRunType_ENGINE

fun traceRunType_str :: "TraceRunType \<Rightarrow> string" where
  "traceRunType_str TraceRunType_CHAIN = ''chain''"
| "traceRunType_str TraceRunType_LLM = ''llm''"
| "traceRunType_str TraceRunType_TOOL = ''tool''"
| "traceRunType_str TraceRunType_ENGINE = ''engine''"


datatype TraceRunStatus =
    TraceRunStatus_SUCCESS
  | TraceRunStatus_ERROR

fun traceRunStatus_str :: "TraceRunStatus \<Rightarrow> string" where
  "traceRunStatus_str TraceRunStatus_SUCCESS = ''success''"
| "traceRunStatus_str TraceRunStatus_ERROR = ''error''"


datatype TraceFailureDomain =
    TraceFailureDomain_CAPABILITY_FAILURE
  | TraceFailureDomain_CHECKER_BLOCKED
  | TraceFailureDomain_LOOP_NO_PROGRESS
  | TraceFailureDomain_MISSING_COMPLETION_CHECK
  | TraceFailureDomain_MISUNDERSTANDING
  | TraceFailureDomain_NONE
  | TraceFailureDomain_PLANNER_OR_PARSER
  | TraceFailureDomain_PROVIDER_NO_RESPONSE
  | TraceFailureDomain_RUNTIME
  | TraceFailureDomain_SAFEGUARD_POLICY
  | TraceFailureDomain_TRACE_MISSING

fun traceFailureDomain_str :: "TraceFailureDomain \<Rightarrow> string" where
  "traceFailureDomain_str TraceFailureDomain_CAPABILITY_FAILURE = ''capability_failure''"
| "traceFailureDomain_str TraceFailureDomain_CHECKER_BLOCKED = ''checker_blocked''"
| "traceFailureDomain_str TraceFailureDomain_LOOP_NO_PROGRESS = ''loop_no_progress''"
| "traceFailureDomain_str TraceFailureDomain_MISSING_COMPLETION_CHECK = ''missing_completion_check''"
| "traceFailureDomain_str TraceFailureDomain_MISUNDERSTANDING = ''misunderstanding''"
| "traceFailureDomain_str TraceFailureDomain_NONE = ''none''"
| "traceFailureDomain_str TraceFailureDomain_PLANNER_OR_PARSER = ''planner_or_parser''"
| "traceFailureDomain_str TraceFailureDomain_PROVIDER_NO_RESPONSE = ''provider_no_response''"
| "traceFailureDomain_str TraceFailureDomain_RUNTIME = ''runtime''"
| "traceFailureDomain_str TraceFailureDomain_SAFEGUARD_POLICY = ''safeguard_policy''"
| "traceFailureDomain_str TraceFailureDomain_TRACE_MISSING = ''trace_missing''"


datatype LoopSeverity =
    LoopSeverity_INFO
  | LoopSeverity_WARNING
  | LoopSeverity_ERROR

fun loopSeverity_str :: "LoopSeverity \<Rightarrow> string" where
  "loopSeverity_str LoopSeverity_INFO = ''info''"
| "loopSeverity_str LoopSeverity_WARNING = ''warning''"
| "loopSeverity_str LoopSeverity_ERROR = ''error''"


section \<open>Records\<close>

record LoopCheckResult =
  lcr_name :: string
  lcr_passed :: bool
  lcr_severity :: string
  lcr_reason :: string
  lcr_evidence :: dict

definition loop_check_result_to_dict :: "LoopCheckResult \<Rightarrow> dict" where
  "loop_check_result_to_dict r =
     [(''name'', JStr (lcr_name r)), (''passed'', JBool (lcr_passed r)),
      (''severity'', JStr (lcr_severity r)), (''reason'', JStr (lcr_reason r)),
      (''evidence'', JDict (lcr_evidence r))]"

record LoopDecision =
  ld_decision :: string
  ld_reason :: string
  ld_phase :: string
  ld_failure_domain :: string
  ld_tool :: string
  ld_run_id :: string
  ld_step_id :: string
  ld_goal_ids :: "string list"
  ld_progress_signature :: string
  ld_checker_results :: "LoopCheckResult list"
  ld_gate_results :: "LoopCheckResult list"
  ld_evidence :: dict

definition loop_decision_to_dict :: "LoopDecision \<Rightarrow> dict" where
  "loop_decision_to_dict d =
     [(''decision'', JStr (ld_decision d)), (''reason'', JStr (ld_reason d)),
      (''phase'', JStr (ld_phase d)), (''failure_domain'', JStr (ld_failure_domain d)),
      (''tool'', JStr (ld_tool d)), (''run_id'', JStr (ld_run_id d)),
      (''step_id'', JStr (ld_step_id d)), (''goal_ids'', JList (map JStr (ld_goal_ids d))),
      (''progress_signature'', JStr (ld_progress_signature d)),
      (''checker_results'', JList (map (JDict \<circ> loop_check_result_to_dict) (ld_checker_results d))),
      (''gate_results'', JList (map (JDict \<circ> loop_check_result_to_dict) (ld_gate_results d))),
      (''evidence'', JDict (ld_evidence d))]"

record TraceRunView =
  trv_id :: string
  trv_trace_id :: string
  trv_parent_run_id :: string
  trv_name :: string
  trv_run_type :: string
  trv_status :: string
  trv_start_time :: time
  trv_end_time :: time
  trv_thread_id :: string
  trv_inputs :: dict
  trv_outputs :: dict
  trv_tags :: "string list"
  trv_metadata :: dict
  trv_feedback :: dict

definition trace_run_view_to_dict :: "TraceRunView \<Rightarrow> dict" where
  "trace_run_view_to_dict v =
     [(''id'', JStr (trv_id v)), (''trace_id'', JStr (trv_trace_id v)),
      (''parent_run_id'', JStr (trv_parent_run_id v)), (''name'', JStr (trv_name v)),
      (''run_type'', JStr (trv_run_type v)), (''status'', JStr (trv_status v)),
      (''start_time'', JFloat (trv_start_time v)), (''end_time'', JFloat (trv_end_time v)),
      (''thread_id'', JStr (trv_thread_id v)), (''inputs'', JDict (trv_inputs v)),
      (''outputs'', JDict (trv_outputs v)), (''tags'', JList (map JStr (trv_tags v))),
      (''metadata'', JDict (trv_metadata v)), (''feedback'', JDict (trv_feedback v))]"

record LoopDecisionSummary =
  lds_decision :: string
  lds_reason :: string
  lds_phase :: string
  lds_failure_domain :: string
  lds_tool :: string
  lds_run_id :: string
  lds_step_id :: string
  lds_failed_checkers :: "string list"
  lds_failed_gates :: "string list"

definition loop_decision_summary_to_dict :: "LoopDecisionSummary \<Rightarrow> dict" where
  "loop_decision_summary_to_dict s =
     [(''decision'', JStr (lds_decision s)), (''reason'', JStr (lds_reason s)),
      (''phase'', JStr (lds_phase s)), (''failure_domain'', JStr (lds_failure_domain s)),
      (''tool'', JStr (lds_tool s)), (''run_id'', JStr (lds_run_id s)),
      (''step_id'', JStr (lds_step_id s)),
      (''failed_checkers'', JList (map JStr (lds_failed_checkers s))),
      (''failed_gates'', JList (map JStr (lds_failed_gates s)))]"

section \<open>Classification of a decision\<close>

definition NON_OK_LOOP_DECISION_VALUES :: "string list" where
  "NON_OK_LOOP_DECISION_VALUES =
     [loopDecisionKind_str LoopDecisionKind_BLOCKED, loopDecisionKind_str LoopDecisionKind_FAILED]"

definition trace_failure_domains :: "TraceFailureDomain list" where
  "trace_failure_domains =
     [TraceFailureDomain_CAPABILITY_FAILURE, TraceFailureDomain_CHECKER_BLOCKED,
      TraceFailureDomain_LOOP_NO_PROGRESS, TraceFailureDomain_MISSING_COMPLETION_CHECK,
      TraceFailureDomain_MISUNDERSTANDING, TraceFailureDomain_NONE,
      TraceFailureDomain_PLANNER_OR_PARSER, TraceFailureDomain_PROVIDER_NO_RESPONSE,
      TraceFailureDomain_RUNTIME, TraceFailureDomain_SAFEGUARD_POLICY,
      TraceFailureDomain_TRACE_MISSING]"

definition TRACE_FAILURE_DOMAIN_VALUES :: "string list" where
  "TRACE_FAILURE_DOMAIN_VALUES = map traceFailureDomain_str trace_failure_domains"

text \<open>\<open>TraceFailureDomain(text)\<close> raises \<open>ValueError\<close> on a text that is no member.\<close>

definition TraceFailureDomain_of :: "string \<Rightarrow> TraceFailureDomain result" where
  "TraceFailureDomain_of text =
     (case List.find (\<lambda>d. traceFailureDomain_str d = text) trace_failure_domains of
        None \<Rightarrow> Inl (ValueError (repr_str text @ '' is not a valid TraceFailureDomain''))
      | Some d \<Rightarrow> Inr d)"

definition loop_decision_ok :: "LoopDecision \<Rightarrow> bool" where
  "loop_decision_ok d =
     (if ld_reason d = loopReason_str LoopReason_EXTERNAL_PAUSE
         \<and> ld_failure_domain d \<in> {[], traceFailureDomain_str TraceFailureDomain_NONE}
      then True
      else ld_decision d \<notin> set NON_OK_LOOP_DECISION_VALUES)"

fun failed_result_names :: "json list \<Rightarrow> string list" where
  "failed_result_names [] = []"
| "failed_result_names (item # items) =
     (case item of
        JDict d \<Rightarrow>
          (if jget d ''passed'' = JBool False
           then (let name = py_strip (str_or_empty (jget d ''name''))
                 in if name \<noteq> [] then name # failed_result_names items else failed_result_names items)
           else failed_result_names items)
      | _ \<Rightarrow> failed_result_names items)"

definition failed_loop_result_names :: "json \<Rightarrow> string list" where
  "failed_loop_result_names val = (case val of JList items \<Rightarrow> failed_result_names items | _ \<Rightarrow> [])"

definition trace_failure_domain :: "json \<Rightarrow> string" where
  "trace_failure_domain val =
     (let text = py_strip (str_or_empty val)
      in if text \<in> set TRACE_FAILURE_DOMAIN_VALUES then text else [])"

definition loop_decision_summary :: "dict \<Rightarrow> string \<Rightarrow> string \<Rightarrow> LoopDecisionSummary" where
  "loop_decision_summary output event_tool event_run_id =
     \<lparr>lds_decision = str_or_empty (jget output ''decision''),
      lds_reason = str_or_empty (jget output ''reason''),
      lds_phase = str_or_empty (jget output ''phase''),
      lds_failure_domain = trace_failure_domain (jget output ''failure_domain''),
      lds_tool = (if event_tool \<noteq> [] then event_tool else str_or_empty (jget output ''tool'')),
      lds_run_id = (if event_run_id \<noteq> [] then event_run_id
                    else str_or_empty (jget output ''run_id'')),
      lds_step_id = str_or_empty (jget output ''step_id''),
      lds_failed_checkers = failed_loop_result_names (jget output ''checker_results''),
      lds_failed_gates = failed_loop_result_names (jget output ''gate_results'')\<rparr>"

definition classify_loop_failure :: "dict \<Rightarrow> TraceFailureDomain result" where
  "classify_loop_failure output =
     (let summary = loop_decision_summary output [] [];
          failed = set (lds_failed_checkers summary) \<union> set (lds_failed_gates summary)
      in if lds_failure_domain summary \<noteq> []
            \<and> lds_failure_domain summary \<noteq> traceFailureDomain_str TraceFailureDomain_NONE
         then TraceFailureDomain_of (lds_failure_domain summary)
         else if loopCheckName_str LoopCheckName_PLANNER_RESULT \<in> failed
         then Inr TraceFailureDomain_PLANNER_OR_PARSER
         else if loopCheckName_str LoopCheckName_CAPABILITY_RESULT \<in> failed
         then Inr TraceFailureDomain_CAPABILITY_FAILURE
         else if loopCheckName_str LoopCheckName_COMPLETION_CHECKER \<in> failed
         then Inr TraceFailureDomain_CHECKER_BLOCKED
         else Inr TraceFailureDomain_RUNTIME)"

definition classify_loop_blocked :: "dict \<Rightarrow> TraceFailureDomain result" where
  "classify_loop_blocked output =
     (let summary = loop_decision_summary output [] []
      in if lds_reason summary = loopReason_str LoopReason_EXTERNAL_PAUSE
         then Inr TraceFailureDomain_NONE
         else if lds_failure_domain summary \<noteq> []
            \<and> lds_failure_domain summary \<noteq> traceFailureDomain_str TraceFailureDomain_NONE
         then TraceFailureDomain_of (lds_failure_domain summary)
         else if loopCheckName_str LoopCheckName_NO_PROGRESS_GATE \<in> set (lds_failed_gates summary)
         then Inr TraceFailureDomain_LOOP_NO_PROGRESS
         else Inr TraceFailureDomain_CHECKER_BLOCKED)"

section \<open>Facts\<close>

lemma TraceFailureDomain_of_str: "TraceFailureDomain_of (traceFailureDomain_str d) = Inr d"
  by (cases d) (simp_all add: TraceFailureDomain_of_def trace_failure_domains_def)

lemma trace_failure_domain_cases:
  "trace_failure_domain v = [] \<or> (\<exists>d. trace_failure_domain v = traceFailureDomain_str d)"
  by (auto simp: trace_failure_domain_def Let_def TRACE_FAILURE_DOMAIN_VALUES_def)

lemma summary_domain:
  "lds_failure_domain (loop_decision_summary out t r) = trace_failure_domain (jget out ''failure_domain'')"
  by (simp add: loop_decision_summary_def)

text \<open>Classification is total: \<open>TraceFailureDomain(...)\<close> is never reached on a text that raises.\<close>

lemma classify_loop_failure_total: "\<exists>d. classify_loop_failure out = Inr d"
  using trace_failure_domain_cases [of "jget out ''failure_domain''"]
  by (auto simp: classify_loop_failure_def Let_def summary_domain TraceFailureDomain_of_str)

lemma classify_loop_blocked_total: "\<exists>d. classify_loop_blocked out = Inr d"
  using trace_failure_domain_cases [of "jget out ''failure_domain''"]
  by (auto simp: classify_loop_blocked_def Let_def summary_domain TraceFailureDomain_of_str)

lemma failed_result_names_of_checks:
  "failed_result_names (map (JDict \<circ> loop_check_result_to_dict) rs) =
     filter (\<lambda>n. n \<noteq> []) (map (\<lambda>r. py_strip (lcr_name r)) (filter (\<lambda>r. \<not> lcr_passed r) rs))"
  by (induction rs) (auto simp: loop_check_result_to_dict_def Let_def)

text \<open>
  The writer and the reader of a loop decision agree: the summary of the dictionary that
  \<open>LoopDecision.to_dict\<close> writes carries the decision's own fields, and its failed names are
  those of the checks that did not pass.
\<close>

lemma loop_decision_summary_of_to_dict:
  "loop_decision_summary (loop_decision_to_dict d) [] [] =
     \<lparr>lds_decision = ld_decision d, lds_reason = ld_reason d, lds_phase = ld_phase d,
      lds_failure_domain = trace_failure_domain (JStr (ld_failure_domain d)),
      lds_tool = ld_tool d, lds_run_id = ld_run_id d, lds_step_id = ld_step_id d,
      lds_failed_checkers = filter (\<lambda>n. n \<noteq> []) (map (\<lambda>r. py_strip (lcr_name r))
        (filter (\<lambda>r. \<not> lcr_passed r) (ld_checker_results d))),
      lds_failed_gates = filter (\<lambda>n. n \<noteq> []) (map (\<lambda>r. py_strip (lcr_name r))
        (filter (\<lambda>r. \<not> lcr_passed r) (ld_gate_results d)))\<rparr>"
  by (simp add: loop_decision_summary_def loop_decision_to_dict_def failed_loop_result_names_def
      failed_result_names_of_checks)

end
