(* ===== verification/Loop_Contracts.thy ===== *)
theory Loop_Contracts
  imports Contracts
begin

text \<open>
  The contract of a durable loop, \<open>navi/loop_contracts.py\<close>: the policies and their
  validators, \<open>LoopSpec\<close>, the workspace lock, the state of a loop run with its transition
  rule, and the default state graph.

  A field declared \<open>Enum | str\<close> holds the text. A validator is \<open>Inr ()\<close> or the
  \<open>ValueError\<close> of its first failed check. \<open>time.time()\<close> and \<open>uuid.uuid4()\<close> are arguments.
\<close>

section \<open>Enums\<close>

datatype LoopNode =
    LoopNode_PLAN
  | LoopNode_EXECUTE
  | LoopNode_EVALUATE
  | LoopNode_REFLECT
  | LoopNode_ESCALATE
  | LoopNode_PAUSE

fun loopNode_str :: "LoopNode \<Rightarrow> string" where
  "loopNode_str LoopNode_PLAN = ''plan''"
| "loopNode_str LoopNode_EXECUTE = ''execute''"
| "loopNode_str LoopNode_EVALUATE = ''evaluate''"
| "loopNode_str LoopNode_REFLECT = ''reflect''"
| "loopNode_str LoopNode_ESCALATE = ''escalate''"
| "loopNode_str LoopNode_PAUSE = ''pause''"


datatype LoopTerminalState =
    LoopTerminalState_CONVERGED
  | LoopTerminalState_PAUSED
  | LoopTerminalState_WAITING_APPROVAL
  | LoopTerminalState_BLOCKED
  | LoopTerminalState_FAILED
  | LoopTerminalState_CANCELLED
  | LoopTerminalState_SUPERSEDED
  | LoopTerminalState_CONFLICTED
  | LoopTerminalState_TIMED_OUT

fun loopTerminalState_str :: "LoopTerminalState \<Rightarrow> string" where
  "loopTerminalState_str LoopTerminalState_CONVERGED = ''converged''"
| "loopTerminalState_str LoopTerminalState_PAUSED = ''paused''"
| "loopTerminalState_str LoopTerminalState_WAITING_APPROVAL = ''waiting_approval''"
| "loopTerminalState_str LoopTerminalState_BLOCKED = ''blocked''"
| "loopTerminalState_str LoopTerminalState_FAILED = ''failed''"
| "loopTerminalState_str LoopTerminalState_CANCELLED = ''cancelled''"
| "loopTerminalState_str LoopTerminalState_SUPERSEDED = ''superseded''"
| "loopTerminalState_str LoopTerminalState_CONFLICTED = ''conflicted''"
| "loopTerminalState_str LoopTerminalState_TIMED_OUT = ''timed_out''"


datatype VerificationKind =
    VerificationKind_SCHEMA
  | VerificationKind_STATIC
  | VerificationKind_UNIT_TEST
  | VerificationKind_INTEGRATION_TEST
  | VerificationKind_COMMAND_EXIT_CODE
  | VerificationKind_ARTIFACT_INSPECTION
  | VerificationKind_LLM_CHECKER
  | VerificationKind_HUMAN_APPROVAL

fun verificationKind_str :: "VerificationKind \<Rightarrow> string" where
  "verificationKind_str VerificationKind_SCHEMA = ''schema''"
| "verificationKind_str VerificationKind_STATIC = ''static''"
| "verificationKind_str VerificationKind_UNIT_TEST = ''unit_test''"
| "verificationKind_str VerificationKind_INTEGRATION_TEST = ''integration_test''"
| "verificationKind_str VerificationKind_COMMAND_EXIT_CODE = ''command_exit_code''"
| "verificationKind_str VerificationKind_ARTIFACT_INSPECTION = ''artifact_inspection''"
| "verificationKind_str VerificationKind_LLM_CHECKER = ''llm_checker''"
| "verificationKind_str VerificationKind_HUMAN_APPROVAL = ''human_approval''"


datatype WorkspaceMode =
    WorkspaceMode_READ_ONLY
  | WorkspaceMode_SHADOW
  | WorkspaceMode_SANDBOX

fun workspaceMode_str :: "WorkspaceMode \<Rightarrow> string" where
  "workspaceMode_str WorkspaceMode_READ_ONLY = ''read_only''"
| "workspaceMode_str WorkspaceMode_SHADOW = ''shadow''"
| "workspaceMode_str WorkspaceMode_SANDBOX = ''sandbox''"


datatype LockMode =
    LockMode_READ
  | LockMode_WRITE

fun lockMode_str :: "LockMode \<Rightarrow> string" where
  "lockMode_str LockMode_READ = ''read''"
| "lockMode_str LockMode_WRITE = ''write''"


datatype ResourceDecision =
    ResourceDecision_ALLOW
  | ResourceDecision_PAUSE
  | ResourceDecision_ESCALATE
  | ResourceDecision_BLOCK

fun resourceDecision_str :: "ResourceDecision \<Rightarrow> string" where
  "resourceDecision_str ResourceDecision_ALLOW = ''allow''"
| "resourceDecision_str ResourceDecision_PAUSE = ''pause''"
| "resourceDecision_str ResourceDecision_ESCALATE = ''escalate''"
| "resourceDecision_str ResourceDecision_BLOCK = ''block''"


datatype MergeStatus =
    MergeStatus_CLEAN
  | MergeStatus_CONFLICTED
  | MergeStatus_NO_OP

fun mergeStatus_str :: "MergeStatus \<Rightarrow> string" where
  "mergeStatus_str MergeStatus_CLEAN = ''clean''"
| "mergeStatus_str MergeStatus_CONFLICTED = ''conflicted''"
| "mergeStatus_str MergeStatus_NO_OP = ''no_op''"


definition loop_nodes :: "LoopNode list" where
  "loop_nodes = [LoopNode_PLAN, LoopNode_EXECUTE, LoopNode_EVALUATE, LoopNode_REFLECT,
                 LoopNode_ESCALATE, LoopNode_PAUSE]"

definition DEFAULT_TERMINAL_STATES :: "LoopTerminalState list" where
  "DEFAULT_TERMINAL_STATES =
     [LoopTerminalState_CONVERGED, LoopTerminalState_PAUSED, LoopTerminalState_WAITING_APPROVAL,
      LoopTerminalState_BLOCKED, LoopTerminalState_FAILED, LoopTerminalState_CANCELLED,
      LoopTerminalState_SUPERSEDED, LoopTerminalState_CONFLICTED, LoopTerminalState_TIMED_OUT]"

definition SUSPENDED_LOOP_STATES :: "LoopTerminalState list" where
  "SUSPENDED_LOOP_STATES = [LoopTerminalState_PAUSED, LoopTerminalState_WAITING_APPROVAL]"

definition FINAL_LOOP_STATES :: "LoopTerminalState list" where
  "FINAL_LOOP_STATES = filter (\<lambda>s. s \<notin> set SUSPENDED_LOOP_STATES) DEFAULT_TERMINAL_STATES"

definition LoopTerminalState_of :: "string \<Rightarrow> LoopTerminalState result" where
  "LoopTerminalState_of text =
     (case List.find (\<lambda>d. loopTerminalState_str d = text) DEFAULT_TERMINAL_STATES of
        None \<Rightarrow> Inl (ValueError (repr_str text @ '' is not a valid LoopTerminalState''))
      | Some d \<Rightarrow> Inr d)"

section \<open>Goal specification and transitions\<close>

record GoalSpec =
  gs_objective :: string
  gs_scope :: "string list"
  gs_constraints :: "string list"
  gs_acceptance_criteria :: "string list"
  gs_permission_ceiling :: string
  gs_risk_level :: string
  gs_owner :: string
  gs_resume_policy :: string
  gs_cancel_policy :: string
  gs_memory_policy :: string
  gs_metadata :: dict

definition goal_spec_validate :: "GoalSpec \<Rightarrow> unit result" where
  "goal_spec_validate g =
     (if py_strip (gs_objective g) = [] then Inl (ValueError ''GoalSpec.objective is required'')
      else if gs_scope g = [] then Inl (ValueError ''GoalSpec.scope is required'')
      else and_then (normalize_permission (JStr (gs_permission_ceiling g)) (JStr ''read''))
                    (\<lambda>_. Inr ()))"

definition goal_spec_to_dict :: "GoalSpec \<Rightarrow> dict" where
  "goal_spec_to_dict g =
     [(''objective'', JStr (gs_objective g)),
      (''scope'', JList (map JStr (gs_scope g))),
      (''constraints'', JList (map JStr (gs_constraints g))),
      (''acceptance_criteria'', JList (map JStr (gs_acceptance_criteria g))),
      (''permission_ceiling'', JStr (gs_permission_ceiling g)),
      (''risk_level'', JStr (gs_risk_level g)),
      (''owner'', JStr (gs_owner g)),
      (''resume_policy'', JStr (gs_resume_policy g)),
      (''cancel_policy'', JStr (gs_cancel_policy g)),
      (''memory_policy'', JStr (gs_memory_policy g)),
      (''metadata'', JDict (gs_metadata g))]"

record StateTransition =
  st_source :: string
  st_target :: string
  st_condition :: string

definition state_transition_to_dict :: "StateTransition \<Rightarrow> dict" where
  "state_transition_to_dict e =
     [(''source'', JStr (st_source e)), (''target'', JStr (st_target e)),
      (''condition'', JStr (st_condition e))]"

section \<open>Policies\<close>

record TimeoutPolicy =
  tp_seconds :: time
  tp_kill_signal :: string
  tp_stdout_tail_bytes :: int
  tp_stderr_tail_bytes :: int

definition default_timeout_policy :: TimeoutPolicy where
  "default_timeout_policy =
     \<lparr>tp_seconds = 120, tp_kill_signal = ''SIGKILL'', tp_stdout_tail_bytes = 8192,
      tp_stderr_tail_bytes = 8192\<rparr>"

definition timeout_policy_validate :: "TimeoutPolicy \<Rightarrow> unit result" where
  "timeout_policy_validate t =
     (if tp_seconds t \<le> 0 then Inl (ValueError ''TimeoutPolicy.seconds must be positive'')
      else if tp_stdout_tail_bytes t < 0 \<or> tp_stderr_tail_bytes t < 0
        then Inl (ValueError ''timeout tail sizes must be non-negative'')
      else Inr ())"

definition timeout_policy_to_dict :: "TimeoutPolicy \<Rightarrow> dict" where
  "timeout_policy_to_dict t =
     [(''seconds'', JFloat (tp_seconds t)), (''kill_signal'', JStr (tp_kill_signal t)),
      (''stdout_tail_bytes'', JInt (tp_stdout_tail_bytes t)),
      (''stderr_tail_bytes'', JInt (tp_stderr_tail_bytes t))]"

record VerificationStep =
  vs_kind :: string
  vs_name :: string
  vs_required :: bool
  vs_command :: string
  vs_evidence_key :: string
  vs_timeout :: TimeoutPolicy

definition verification_step_validate :: "VerificationStep \<Rightarrow> unit result" where
  "verification_step_validate v =
     (if py_strip (vs_name v) = [] then Inl (ValueError ''VerificationStep.name is required'')
      else and_then (timeout_policy_validate (vs_timeout v)) (\<lambda>_.
        if vs_kind v \<in> {verificationKind_str VerificationKind_UNIT_TEST,
                        verificationKind_str VerificationKind_INTEGRATION_TEST,
                        verificationKind_str VerificationKind_COMMAND_EXIT_CODE}
           \<and> py_strip (vs_command v) = []
        then Inl (ValueError (vs_kind v @ '' verification requires a command''))
        else Inr ()))"

definition verification_step_to_dict :: "VerificationStep \<Rightarrow> dict" where
  "verification_step_to_dict v =
     [(''kind'', JStr (vs_kind v)), (''name'', JStr (vs_name v)),
      (''required'', JBool (vs_required v)), (''command'', JStr (vs_command v)),
      (''evidence_key'', JStr (vs_evidence_key v)),
      (''timeout'', JDict (timeout_policy_to_dict (vs_timeout v)))]"

record CheckpointPolicy =
  cp_before_state_transition :: bool
  cp_before_side_effect :: bool
  cp_persist_node_inputs :: bool
  cp_persist_node_outputs :: bool

definition default_checkpoint_policy :: CheckpointPolicy where
  "default_checkpoint_policy =
     \<lparr>cp_before_state_transition = True, cp_before_side_effect = True,
      cp_persist_node_inputs = True, cp_persist_node_outputs = True\<rparr>"

definition checkpoint_policy_validate :: "CheckpointPolicy \<Rightarrow> unit result" where
  "checkpoint_policy_validate c =
     (if \<not> cp_before_state_transition c
        then Inl (ValueError ''Durable StateGraph requires checkpoints before state transitions'')
      else if \<not> cp_before_side_effect c
        then Inl (ValueError ''side effects require a checkpoint before execution'')
      else Inr ())"

definition checkpoint_policy_to_dict :: "CheckpointPolicy \<Rightarrow> dict" where
  "checkpoint_policy_to_dict c =
     [(''before_state_transition'', JBool (cp_before_state_transition c)),
      (''before_side_effect'', JBool (cp_before_side_effect c)),
      (''persist_node_inputs'', JBool (cp_persist_node_inputs c)),
      (''persist_node_outputs'', JBool (cp_persist_node_outputs c))]"

record WorkspacePolicy =
  wp_mode :: string
  wp_require_fingerprint :: bool
  wp_require_three_way_merge :: bool
  wp_require_locks :: bool
  wp_atomic_merge :: bool

definition default_workspace_policy :: WorkspacePolicy where
  "default_workspace_policy =
     \<lparr>wp_mode = workspaceMode_str WorkspaceMode_READ_ONLY, wp_require_fingerprint = True,
      wp_require_three_way_merge = True, wp_require_locks = True, wp_atomic_merge = True\<rparr>"

definition workspace_policy_validate :: "WorkspacePolicy \<Rightarrow> unit result" where
  "workspace_policy_validate w =
     (if wp_mode w \<in> {workspaceMode_str WorkspaceMode_SHADOW, workspaceMode_str WorkspaceMode_SANDBOX}
      then if \<not> wp_require_fingerprint w
           then Inl (ValueError ''shadow/sandbox workspace requires fingerprint checks'')
           else if \<not> wp_require_three_way_merge w
           then Inl (ValueError ''shadow/sandbox workspace requires 3-way merge'')
           else if \<not> wp_atomic_merge w
           then Inl (ValueError ''shadow/sandbox workspace requires atomic merge'')
           else Inr ()
      else Inr ())"

definition workspace_policy_to_dict :: "WorkspacePolicy \<Rightarrow> dict" where
  "workspace_policy_to_dict w =
     [(''mode'', JStr (wp_mode w)), (''require_fingerprint'', JBool (wp_require_fingerprint w)),
      (''require_three_way_merge'', JBool (wp_require_three_way_merge w)),
      (''require_locks'', JBool (wp_require_locks w)),
      (''atomic_merge'', JBool (wp_atomic_merge w))]"

record RetryPolicy =
  rp_max_attempts :: int
  rp_reflect_before_retry :: bool

definition default_retry_policy :: RetryPolicy where
  "default_retry_policy = \<lparr>rp_max_attempts = 10, rp_reflect_before_retry = True\<rparr>"

definition retry_policy_validate :: "RetryPolicy \<Rightarrow> unit result" where
  "retry_policy_validate r =
     (if rp_max_attempts r < 1
      then Inl (ValueError ''RetryPolicy.max_attempts must be at least 1'') else Inr ())"

definition retry_policy_to_dict :: "RetryPolicy \<Rightarrow> dict" where
  "retry_policy_to_dict r =
     [(''max_attempts'', JInt (rp_max_attempts r)),
      (''reflect_before_retry'', JBool (rp_reflect_before_retry r))]"

record BudgetPolicy =
  bp_token_budget :: int
  bp_call_budget :: int
  bp_cost_budget :: rat
  bp_qps_limit :: int
  bp_max_concurrent :: int

definition default_budget_policy :: BudgetPolicy where
  "default_budget_policy =
     \<lparr>bp_token_budget = 0, bp_call_budget = 0, bp_cost_budget = 0, bp_qps_limit = 0,
      bp_max_concurrent = 1\<rparr>"

definition budget_policy_validate :: "BudgetPolicy \<Rightarrow> unit result" where
  "budget_policy_validate b =
     (if bp_token_budget b < 0
        then Inl (ValueError ''BudgetPolicy.token_budget must be non-negative'')
      else if bp_call_budget b < 0
        then Inl (ValueError ''BudgetPolicy.call_budget must be non-negative'')
      else if bp_cost_budget b < 0
        then Inl (ValueError ''BudgetPolicy.cost_budget must be non-negative'')
      else if bp_qps_limit b < 0
        then Inl (ValueError ''BudgetPolicy.qps_limit must be non-negative'')
      else if bp_max_concurrent b < 1
        then Inl (ValueError ''BudgetPolicy.max_concurrent must be at least 1'')
      else Inr ())"

definition budget_policy_to_dict :: "BudgetPolicy \<Rightarrow> dict" where
  "budget_policy_to_dict b =
     [(''token_budget'', JInt (bp_token_budget b)), (''call_budget'', JInt (bp_call_budget b)),
      (''cost_budget'', JFloat (bp_cost_budget b)), (''qps_limit'', JInt (bp_qps_limit b)),
      (''max_concurrent'', JInt (bp_max_concurrent b))]"

record RollbackPolicy =
  rb_discard_shadow_on_failure :: bool
  rb_rollback_to_checkpoint :: bool
  rb_require_human_on_uncertain_side_effect :: bool

definition default_rollback_policy :: RollbackPolicy where
  "default_rollback_policy =
     \<lparr>rb_discard_shadow_on_failure = True, rb_rollback_to_checkpoint = True,
      rb_require_human_on_uncertain_side_effect = True\<rparr>"

definition rollback_policy_to_dict :: "RollbackPolicy \<Rightarrow> dict" where
  "rollback_policy_to_dict r =
     [(''discard_shadow_on_failure'', JBool (rb_discard_shadow_on_failure r)),
      (''rollback_to_checkpoint'', JBool (rb_rollback_to_checkpoint r)),
      (''require_human_on_uncertain_side_effect'',
         JBool (rb_require_human_on_uncertain_side_effect r))]"

record EscalationPolicy =
  ep_ask_user_on_conflict :: bool
  ep_ask_user_on_approval :: bool
  ep_ask_user_on_uncertain_side_effect :: bool

definition default_escalation_policy :: EscalationPolicy where
  "default_escalation_policy =
     \<lparr>ep_ask_user_on_conflict = True, ep_ask_user_on_approval = True,
      ep_ask_user_on_uncertain_side_effect = True\<rparr>"

definition escalation_policy_to_dict :: "EscalationPolicy \<Rightarrow> dict" where
  "escalation_policy_to_dict e =
     [(''ask_user_on_conflict'', JBool (ep_ask_user_on_conflict e)),
      (''ask_user_on_approval'', JBool (ep_ask_user_on_approval e)),
      (''ask_user_on_uncertain_side_effect'', JBool (ep_ask_user_on_uncertain_side_effect e))]"

section \<open>The state graph\<close>

definition edge :: "string \<Rightarrow> string \<Rightarrow> string \<Rightarrow> StateTransition" where
  "edge s t c = \<lparr>st_source = s, st_target = t, st_condition = c\<rparr>"

abbreviation node_edge :: "LoopNode \<Rightarrow> LoopNode \<Rightarrow> string \<Rightarrow> StateTransition" where
  "node_edge s t c \<equiv> edge (loopNode_str s) (loopNode_str t) c"

abbreviation stop_edge :: "LoopNode \<Rightarrow> LoopTerminalState \<Rightarrow> string \<Rightarrow> StateTransition" where
  "stop_edge s t c \<equiv> edge (loopNode_str s) (loopTerminalState_str t) c"

definition base_edges :: "StateTransition list" where
  "base_edges =
     [node_edge LoopNode_PLAN LoopNode_EXECUTE ''plan_ready'',
      node_edge LoopNode_PLAN LoopNode_ESCALATE ''needs_user_or_approval'',
      node_edge LoopNode_PLAN LoopNode_PAUSE ''resource_pause'',
      node_edge LoopNode_PLAN LoopNode_ESCALATE ''resource_escalate'',
      stop_edge LoopNode_PLAN LoopTerminalState_BLOCKED ''resource_blocked'',
      node_edge LoopNode_PLAN LoopNode_REFLECT ''planner_failed'',
      stop_edge LoopNode_PLAN LoopTerminalState_FAILED ''planner_failed'',
      node_edge LoopNode_EXECUTE LoopNode_EVALUATE ''side_effect_recorded'',
      node_edge LoopNode_EXECUTE LoopNode_REFLECT ''capability_failed'',
      stop_edge LoopNode_EXECUTE LoopTerminalState_TIMED_OUT ''hard_timeout'',
      node_edge LoopNode_EXECUTE LoopNode_PAUSE ''resource_pause'',
      node_edge LoopNode_EXECUTE LoopNode_ESCALATE ''resource_escalate'',
      node_edge LoopNode_EXECUTE LoopNode_ESCALATE ''approval_required'',
      stop_edge LoopNode_EXECUTE LoopTerminalState_BLOCKED ''repeated_progress_signature'',
      stop_edge LoopNode_EXECUTE LoopTerminalState_BLOCKED ''resource_blocked'',
      stop_edge LoopNode_EVALUATE LoopTerminalState_CONVERGED ''checker_passed'',
      node_edge LoopNode_EVALUATE LoopNode_PLAN ''continue_iteration'',
      node_edge LoopNode_EVALUATE LoopNode_REFLECT ''checker_failed'',
      stop_edge LoopNode_EVALUATE LoopTerminalState_CONFLICTED ''merge_conflict'',
      stop_edge LoopNode_EVALUATE LoopTerminalState_TIMED_OUT ''hard_timeout'',
      node_edge LoopNode_EVALUATE LoopNode_PAUSE ''resource_pause'',
      node_edge LoopNode_EVALUATE LoopNode_ESCALATE ''resource_escalate'',
      node_edge LoopNode_EVALUATE LoopNode_ESCALATE ''side_effect_commit_required'',
      stop_edge LoopNode_EVALUATE LoopTerminalState_BLOCKED ''resource_blocked'',
      stop_edge LoopNode_EVALUATE LoopTerminalState_BLOCKED ''no_route_available'',
      node_edge LoopNode_REFLECT LoopNode_PLAN ''new_route_available'',
      stop_edge LoopNode_REFLECT LoopTerminalState_BLOCKED ''no_route_available'',
      stop_edge LoopNode_REFLECT LoopTerminalState_FAILED ''checker_rejected'',
      stop_edge LoopNode_ESCALATE LoopTerminalState_WAITING_APPROVAL ''approval_required'',
      stop_edge LoopNode_ESCALATE LoopTerminalState_WAITING_APPROVAL ''resource_escalate'',
      stop_edge LoopNode_PAUSE LoopTerminalState_PAUSED ''resource_or_user_pause'']"

definition control_edges :: "StateTransition list" where
  "control_edges = concat (map (\<lambda>node.
     [stop_edge node LoopTerminalState_CANCELLED ''cancel_requested'',
      stop_edge node LoopTerminalState_SUPERSEDED ''superseded'']) loop_nodes)"

definition default_state_graph :: "StateTransition list" where
  "default_state_graph = base_edges @ control_edges"

section \<open>Loop specification\<close>

record LoopSpec =
  ls_id :: string
  ls_goal_id :: string
  ls_goal :: GoalSpec
  ls_state_graph :: "StateTransition list"
  ls_allowed_capabilities :: "string list"
  ls_verification_ladder :: "VerificationStep list"
  ls_workspace_policy :: WorkspacePolicy
  ls_checkpoint_policy :: CheckpointPolicy
  ls_retry_policy :: RetryPolicy
  ls_budget_policy :: BudgetPolicy
  ls_rollback_policy :: RollbackPolicy
  ls_escalation_policy :: EscalationPolicy
  ls_terminal_states :: "string list"
  ls_created_at :: time

fun parse_terminal_states :: "string list \<Rightarrow> LoopTerminalState list result" where
  "parse_terminal_states [] = Inr []"
| "parse_terminal_states (t # ts) =
     and_then (LoopTerminalState_of t) (\<lambda>s. and_then (parse_terminal_states ts) (\<lambda>ss. Inr (s # ss)))"

definition missing_terminal_states :: "LoopTerminalState list \<Rightarrow> LoopTerminalState list" where
  "missing_terminal_states declared = filter (\<lambda>s. s \<notin> set declared) DEFAULT_TERMINAL_STATES"

definition loop_spec_validate :: "LoopSpec \<Rightarrow> unit result" where
  "loop_spec_validate s =
     and_then (goal_spec_validate (ls_goal s)) (\<lambda>_.
     if py_strip (ls_goal_id s) = [] then Inl (ValueError ''LoopSpec.goal_id is required'')
     else if ls_state_graph s = [] then Inl (ValueError ''LoopSpec.state_graph is required'')
     else if ls_allowed_capabilities s = []
       then Inl (ValueError ''LoopSpec.allowed_capabilities is required'')
     else if ls_verification_ladder s = []
       then Inl (ValueError ''LoopSpec.verification_ladder is required'')
     else and_then (each_ok verification_step_validate (ls_verification_ladder s)) (\<lambda>_.
     and_then (workspace_policy_validate (ls_workspace_policy s)) (\<lambda>_.
     and_then (checkpoint_policy_validate (ls_checkpoint_policy s)) (\<lambda>_.
     and_then (retry_policy_validate (ls_retry_policy s)) (\<lambda>_.
     and_then (budget_policy_validate (ls_budget_policy s)) (\<lambda>_.
     and_then (parse_terminal_states (ls_terminal_states s)) (\<lambda>declared.
     if missing_terminal_states declared \<noteq> []
     then Inl (ValueError (''LoopSpec.terminal_states missing: ''
            @ join_with '', '' (sort (map loopTerminalState_str (missing_terminal_states declared)))))
     else Inr ())))))))"

definition loop_spec_from_goal ::
  "string \<Rightarrow> time \<Rightarrow> GoalSpec \<Rightarrow> string \<Rightarrow> string list \<Rightarrow> VerificationStep list \<Rightarrow> LoopSpec result" where
  "loop_spec_from_goal fresh_id now goal goal_id allowed_capabilities verification_ladder =
     (let spec = \<lparr>ls_id = fresh_id, ls_goal_id = goal_id, ls_goal = goal,
        ls_state_graph = default_state_graph, ls_allowed_capabilities = allowed_capabilities,
        ls_verification_ladder = verification_ladder,
        ls_workspace_policy = default_workspace_policy,
        ls_checkpoint_policy = default_checkpoint_policy,
        ls_retry_policy = default_retry_policy, ls_budget_policy = default_budget_policy,
        ls_rollback_policy = default_rollback_policy,
        ls_escalation_policy = default_escalation_policy,
        ls_terminal_states = map loopTerminalState_str DEFAULT_TERMINAL_STATES,
        ls_created_at = now\<rparr>
      in and_then (loop_spec_validate spec) (\<lambda>_. Inr spec))"

definition loop_spec_to_dict :: "LoopSpec \<Rightarrow> dict" where
  "loop_spec_to_dict s =
     [(''id'', JStr (ls_id s)), (''goal_id'', JStr (ls_goal_id s)),
      (''goal'', JDict (goal_spec_to_dict (ls_goal s))),
      (''state_graph'', JList (map (JDict \<circ> state_transition_to_dict) (ls_state_graph s))),
      (''allowed_capabilities'', JList (map JStr (ls_allowed_capabilities s))),
      (''verification_ladder'',
         JList (map (JDict \<circ> verification_step_to_dict) (ls_verification_ladder s))),
      (''workspace_policy'', JDict (workspace_policy_to_dict (ls_workspace_policy s))),
      (''checkpoint_policy'', JDict (checkpoint_policy_to_dict (ls_checkpoint_policy s))),
      (''retry_policy'', JDict (retry_policy_to_dict (ls_retry_policy s))),
      (''budget_policy'', JDict (budget_policy_to_dict (ls_budget_policy s))),
      (''rollback_policy'', JDict (rollback_policy_to_dict (ls_rollback_policy s))),
      (''escalation_policy'', JDict (escalation_policy_to_dict (ls_escalation_policy s))),
      (''terminal_states'', JList (map JStr (ls_terminal_states s))),
      (''created_at'', JFloat (ls_created_at s))]"

section \<open>Locks and evidence records\<close>

record WorkspaceLock =
  wl_owner_run_id :: string
  wl_resource :: string
  wl_mode :: string
  wl_lease_expiry :: time

text \<open>The clock is read where the caller gives no \<open>now\<close>.\<close>

definition clock_or :: "time \<Rightarrow> time option \<Rightarrow> time" where
  "clock_or clock now = (case now of None \<Rightarrow> clock | Some t \<Rightarrow> t)"

definition workspace_lock_active :: "time \<Rightarrow> time option \<Rightarrow> WorkspaceLock \<Rightarrow> bool" where
  "workspace_lock_active clock now l = (wl_lease_expiry l > clock_or clock now)"

definition workspace_lock_conflicts_with ::
  "time \<Rightarrow> time option \<Rightarrow> WorkspaceLock \<Rightarrow> WorkspaceLock \<Rightarrow> bool" where
  "workspace_lock_conflicts_with clock now l other =
     (if \<not> workspace_lock_active clock now l \<or> \<not> workspace_lock_active clock now other then False
      else if wl_resource l \<noteq> wl_resource other then False
      else if wl_owner_run_id l = wl_owner_run_id other then False
      else wl_mode l = lockMode_str LockMode_WRITE \<or> wl_mode other = lockMode_str LockMode_WRITE)"

definition workspace_lock_to_dict :: "WorkspaceLock \<Rightarrow> dict" where
  "workspace_lock_to_dict l =
     [(''owner_run_id'', JStr (wl_owner_run_id l)), (''resource'', JStr (wl_resource l)),
      (''mode'', JStr (wl_mode l)), (''lease_expiry'', JFloat (wl_lease_expiry l))]"

record VaultHandle =
  vh_uri :: string
  vh_purpose :: string
  vh_env_var :: string

definition vault_handle_validate :: "VaultHandle \<Rightarrow> unit result" where
  "vault_handle_validate h =
     (if \<not> py_startswith (vh_uri h) ''secret://''
        then Inl (ValueError ''VaultHandle.uri must use secret://'')
      else if py_strip (vh_purpose h) = [] then Inl (ValueError ''VaultHandle.purpose is required'')
      else Inr ())"

definition vault_handle_to_prompt_dict :: "VaultHandle \<Rightarrow> dict result" where
  "vault_handle_to_prompt_dict h =
     and_then (vault_handle_validate h) (\<lambda>_.
       Inr ([(''handle'', JStr (vh_uri h)), (''purpose'', JStr (vh_purpose h))]
            @ (if vh_env_var h \<noteq> [] then [(''env_var'', JStr (vh_env_var h))] else [])))"

record TimeoutEvidence =
  te_command :: string
  te_duration_seconds :: time
  te_timeout_seconds :: time
  te_stdout_tail :: string
  te_stderr_tail :: string
  te_exit_status :: string

definition timeout_evidence_to_checker_fact :: "TimeoutEvidence \<Rightarrow> dict" where
  "timeout_evidence_to_checker_fact e =
     [(''error_type'', JStr ''TimeoutError''), (''command'', JStr (te_command e)),
      (''duration_seconds'', JFloat (te_duration_seconds e)),
      (''timeout_seconds'', JFloat (te_timeout_seconds e)),
      (''stdout_tail'', JStr (te_stdout_tail e)), (''stderr_tail'', JStr (te_stderr_tail e)),
      (''exit_status'', JStr (te_exit_status e))]"

record MergePlan =
  mp_baseline_revision :: string
  mp_shadow_revision :: string
  mp_current_revision :: string
  mp_changed_paths :: "string list"

definition real_workspace_changed :: "MergePlan \<Rightarrow> bool" where
  "real_workspace_changed p =
     (mp_baseline_revision p \<noteq> [] \<and> mp_current_revision p \<noteq> []
      \<and> mp_baseline_revision p \<noteq> mp_current_revision p)"

definition merge_plan_to_dict :: "MergePlan \<Rightarrow> dict" where
  "merge_plan_to_dict p =
     [(''baseline_revision'', JStr (mp_baseline_revision p)),
      (''shadow_revision'', JStr (mp_shadow_revision p)),
      (''current_revision'', JStr (mp_current_revision p)),
      (''changed_paths'', JList (map JStr (mp_changed_paths p))),
      (''real_workspace_changed'', JBool (real_workspace_changed p))]"

record MergeResult =
  mr_status :: string
  mr_conflicts :: "string list"
  mr_artifact_path :: string

definition merge_result_terminal_state :: "MergeResult \<Rightarrow> LoopTerminalState option" where
  "merge_result_terminal_state r =
     (if mr_status r = mergeStatus_str MergeStatus_CONFLICTED
      then Some LoopTerminalState_CONFLICTED else None)"

definition merge_result_to_dict :: "MergeResult \<Rightarrow> dict" where
  "merge_result_to_dict r =
     [(''status'', JStr (mr_status r)), (''conflicts'', JList (map JStr (mr_conflicts r))),
      (''artifact_path'', JStr (mr_artifact_path r))]"

record BudgetState =
  bs_decision :: string
  bs_token_budget_remaining :: "int option"
  bs_call_budget_remaining :: "int option"
  bs_cost_budget_remaining :: "rat option"
  bs_reason :: string

definition default_budget_state :: BudgetState where
  "default_budget_state =
     \<lparr>bs_decision = resourceDecision_str ResourceDecision_ALLOW, bs_token_budget_remaining = None,
      bs_call_budget_remaining = None, bs_cost_budget_remaining = None, bs_reason = []\<rparr>"

definition json_of_option :: "('a \<Rightarrow> json) \<Rightarrow> 'a option \<Rightarrow> json" where
  "json_of_option f v = (case v of None \<Rightarrow> JNull | Some x \<Rightarrow> f x)"

definition budget_state_to_dict :: "BudgetState \<Rightarrow> dict" where
  "budget_state_to_dict b =
     [(''decision'', JStr (bs_decision b)),
      (''token_budget_remaining'', json_of_option JInt (bs_token_budget_remaining b)),
      (''call_budget_remaining'', json_of_option JInt (bs_call_budget_remaining b)),
      (''cost_budget_remaining'', json_of_option JFloat (bs_cost_budget_remaining b)),
      (''reason'', JStr (bs_reason b))]"

record WorkspaceState =
  ws_workspace :: string
  ws_baseline_revision :: string
  ws_current_fingerprint :: string
  ws_shadow_workspace :: string
  ws_shadow_workspaces :: "dict list"
  ws_dirty_paths :: "string list"

definition workspace_state_to_dict :: "WorkspaceState \<Rightarrow> dict" where
  "workspace_state_to_dict w =
     [(''workspace'', JStr (ws_workspace w)), (''baseline_revision'', JStr (ws_baseline_revision w)),
      (''current_fingerprint'', JStr (ws_current_fingerprint w)),
      (''shadow_workspace'', JStr (ws_shadow_workspace w)),
      (''shadow_workspaces'', JList (map JDict (ws_shadow_workspaces w))),
      (''dirty_paths'', JList (map JStr (ws_dirty_paths w)))]"

section \<open>State of a loop run\<close>

record LoopRunState =
  lr_run_id :: string
  lr_goal_id :: string
  lr_loop_spec_id :: string
  lr_node :: string
  lr_terminal_state :: string
  lr_checkpoint_id :: string
  lr_attempt :: int
  lr_parent_run_id :: string
  lr_child_run_ids :: "string list"
  lr_locked_resources :: "string list"
  lr_evidence :: dict
  lr_updated_at :: time
  lr_version :: int
  lr_lease_owner :: string
  lr_lease_expires_at :: time

definition is_terminal :: "LoopRunState \<Rightarrow> bool" where
  "is_terminal s = (let v = py_strip (lr_terminal_state s)
     in v \<noteq> [] \<and> v \<in> set (map loopTerminalState_str FINAL_LOOP_STATES))"

definition is_suspended :: "LoopRunState \<Rightarrow> bool" where
  "is_suspended s =
     (py_strip (lr_terminal_state s) \<in> set (map loopTerminalState_str SUSPENDED_LOOP_STATES))"

definition is_stopped :: "LoopRunState \<Rightarrow> bool" where
  "is_stopped s = (is_terminal s \<or> is_suspended s)"

definition next_attempt :: "LoopRunState \<Rightarrow> string \<Rightarrow> int" where
  "next_attempt s node =
     (let a = lr_attempt s;
          a = (if lr_node s = loopNode_str LoopNode_REFLECT \<and> node = loopNode_str LoopNode_PLAN
               then a + 1 else a);
          a = (if lr_node s = loopNode_str LoopNode_EVALUATE \<and> node = loopNode_str LoopNode_PLAN
               then a + 1 else a)
      in a)"

text \<open>\<open>evidence=None\<close> and \<open>evidence={}\<close> are both the empty dictionary.\<close>

definition loop_run_transition ::
  "time \<Rightarrow> LoopRunState \<Rightarrow> string \<Rightarrow> string \<Rightarrow> string \<Rightarrow> dict \<Rightarrow> LoopRunState result" where
  "loop_run_transition now s node checkpoint_id terminal_state evidence =
     (if is_stopped s
        then Inl (ValueError ''stopped LoopRunState cannot transition without an explicit resume'')
      else if py_strip checkpoint_id = []
        then Inl (ValueError ''LoopRunState transition requires a checkpoint_id'')
      else Inr (s\<lparr>lr_node := node, lr_checkpoint_id := checkpoint_id,
                 lr_terminal_state := terminal_state,
                 lr_evidence := dict_merge (lr_evidence s) evidence,
                 lr_attempt := next_attempt s node, lr_updated_at := now\<rparr>))"

definition loop_run_state_to_dict :: "LoopRunState \<Rightarrow> dict" where
  "loop_run_state_to_dict s =
     [(''run_id'', JStr (lr_run_id s)), (''goal_id'', JStr (lr_goal_id s)),
      (''loop_spec_id'', JStr (lr_loop_spec_id s)), (''node'', JStr (lr_node s)),
      (''terminal_state'', JStr (lr_terminal_state s)),
      (''checkpoint_id'', JStr (lr_checkpoint_id s)), (''attempt'', JInt (lr_attempt s)),
      (''parent_run_id'', JStr (lr_parent_run_id s)),
      (''child_run_ids'', JList (map JStr (lr_child_run_ids s))),
      (''locked_resources'', JList (map JStr (lr_locked_resources s))),
      (''evidence'', JDict (lr_evidence s)), (''updated_at'', JFloat (lr_updated_at s)),
      (''version'', JInt (lr_version s)), (''lease_owner'', JStr (lr_lease_owner s)),
      (''lease_expires_at'', JFloat (lr_lease_expires_at s))]"

record CurrentStateSnapshot =
  css_goal_state :: dict
  css_loop_run_state :: "LoopRunState option"
  css_approval_state :: dict
  css_budget_state :: BudgetState
  css_workspace_state :: "WorkspaceState option"
  css_locks :: "WorkspaceLock list"
  css_provider_state :: dict
  css_delegation_state :: dict
  css_vault_handles :: "VaultHandle list"
  css_connector_state :: dict

fun prompt_dicts :: "VaultHandle list \<Rightarrow> json list result" where
  "prompt_dicts [] = Inr []"
| "prompt_dicts (h # hs) =
     and_then (vault_handle_to_prompt_dict h) (\<lambda>d.
       and_then (prompt_dicts hs) (\<lambda>ds. Inr (JDict d # ds)))"

definition control_facts :: "CurrentStateSnapshot \<Rightarrow> dict result" where
  "control_facts c =
     and_then (prompt_dicts (css_vault_handles c)) (\<lambda>handles. Inr
       [(''goal_state'', JDict (css_goal_state c)),
        (''loop_run_state'', JDict (case css_loop_run_state c of None \<Rightarrow> []
            | Some s \<Rightarrow> loop_run_state_to_dict s)),
        (''approval_state'', JDict (css_approval_state c)),
        (''budget_state'', JDict (budget_state_to_dict (css_budget_state c))),
        (''workspace_state'', JDict (case css_workspace_state c of None \<Rightarrow> []
            | Some w \<Rightarrow> workspace_state_to_dict w)),
        (''lock_state'', JList (map (JDict \<circ> workspace_lock_to_dict) (css_locks c))),
        (''provider_state'', JDict (css_provider_state c)),
        (''delegation_state'', JDict (css_delegation_state c)),
        (''vault_handle_state'', JList handles),
        (''connector_state'', JDict (css_connector_state c))])"

section \<open>Facts about stop states and transitions\<close>

lemma final_text:
  "map loopTerminalState_str FINAL_LOOP_STATES =
     [''converged'', ''blocked'', ''failed'', ''cancelled'', ''superseded'', ''conflicted'',
      ''timed_out'']"
  by (simp add: FINAL_LOOP_STATES_def DEFAULT_TERMINAL_STATES_def SUSPENDED_LOOP_STATES_def)

lemma suspended_text:
  "map loopTerminalState_str SUSPENDED_LOOP_STATES = [''paused'', ''waiting_approval'']"
  by (simp add: SUSPENDED_LOOP_STATES_def)

lemma terminal_not_suspended: "is_terminal s \<Longrightarrow> \<not> is_suspended s"
  by (auto simp: is_terminal_def is_suspended_def final_text suspended_text)

lemma not_stopped_empty: "lr_terminal_state s = [] \<Longrightarrow> \<not> is_stopped s"
  by (simp add: is_stopped_def is_terminal_def is_suspended_def suspended_text)

lemma loop_run_transition_Inr_iff:
  "loop_run_transition now s node cp ts ev = Inr s' \<longleftrightarrow>
     \<not> is_stopped s \<and> py_strip cp \<noteq> [] \<and>
     s' = s\<lparr>lr_node := node, lr_checkpoint_id := cp, lr_terminal_state := ts,
            lr_evidence := dict_merge (lr_evidence s) ev, lr_attempt := next_attempt s node,
            lr_updated_at := now\<rparr>"
  by (auto simp: loop_run_transition_def)

lemma LoopTerminalState_of_str: "LoopTerminalState_of (loopTerminalState_str d) = Inr d"
  by (cases d) (simp_all add: LoopTerminalState_of_def DEFAULT_TERMINAL_STATES_def)

lemma parse_terminal_states_str: "parse_terminal_states (map loopTerminalState_str ds) = Inr ds"
  by (induction ds) (simp_all add: LoopTerminalState_of_str)

lemma default_policies_valid:
  "workspace_policy_validate default_workspace_policy = Inr ()"
  "checkpoint_policy_validate default_checkpoint_policy = Inr ()"
  "retry_policy_validate default_retry_policy = Inr ()"
  "budget_policy_validate default_budget_policy = Inr ()"
  by (simp_all add: workspace_policy_validate_def default_workspace_policy_def
      checkpoint_policy_validate_def default_checkpoint_policy_def retry_policy_validate_def
      default_retry_policy_def budget_policy_validate_def default_budget_policy_def)

lemma default_graph_nonempty: "default_state_graph \<noteq> []"
  by (simp add: default_state_graph_def base_edges_def)

section \<open>Paths through the state graph\<close>

text \<open>
  One accepted transition of a loop run: the target of the edge is either the next node, with no
  stop state, or the stop state, in which case the node argument is free. This is the condition
  of \<open>_transition_allowed\<close> in \<open>loop_runs.py\<close> with the rule of \<open>LoopRunState.transition\<close>, for
  callers that pass a \<open>LoopTerminalState\<close> where they pass a stop state.
\<close>

inductive loop_step :: "StateTransition list \<Rightarrow> LoopRunState \<Rightarrow> LoopRunState \<Rightarrow> bool" for graph where
  move: "e \<in> set graph \<Longrightarrow> st_source e = lr_node s \<Longrightarrow>
    loop_run_transition now s (st_target e) cp [] ev = Inr s' \<Longrightarrow> loop_step graph s s'"
| stop: "e \<in> set graph \<Longrightarrow> st_source e = lr_node s \<Longrightarrow>
    st_target e \<in> set (map loopTerminalState_str DEFAULT_TERMINAL_STATES) \<Longrightarrow>
    loop_run_transition now s node cp (st_target e) ev = Inr s' \<Longrightarrow> loop_step graph s s'"

inductive loop_path :: "StateTransition list \<Rightarrow> nat \<Rightarrow> LoopRunState \<Rightarrow> LoopRunState \<Rightarrow> bool" for graph where
  path_refl: "loop_path graph 0 s s"
| path_step: "loop_path graph n s t \<Longrightarrow> loop_step graph t u \<Longrightarrow> loop_path graph (Suc n) s u"

inductive_cases loop_stepE: "loop_step graph s s'"

definition node_rank :: "string \<Rightarrow> int" where
  "node_rank n = (if n = ''plan'' then 0 else if n = ''execute'' then 1
     else if n = ''evaluate'' then 2
     else if n \<in> {''reflect'', ''escalate'', ''pause''} then 3 else 4)"

definition progress_weight :: "LoopRunState \<Rightarrow> int" where
  "progress_weight s = 4 * lr_attempt s + node_rank (lr_node s)"

lemma node_rank_bounds: "0 \<le> node_rank n \<and> node_rank n \<le> 4"
  by (simp add: node_rank_def)

lemma next_attempt_ge: "lr_attempt s \<le> next_attempt s node \<and> next_attempt s node \<le> lr_attempt s + 1"
  by (auto simp: next_attempt_def Let_def)

text \<open>Along every edge of the default graph the node moves forward or the attempt goes up.\<close>

lemma default_edge_rank_all:
  "\<forall>e\<in>set default_state_graph. node_rank (st_source e) < node_rank (st_target e) \<or>
     (st_source e = ''reflect'' \<or> st_source e = ''evaluate'') \<and> st_target e = ''plan''"
  by code_simp

text \<open>Only the nodes of the loop are left again: \<open>node_rank\<close> is at most 3 there.\<close>

lemma default_edge_source_rank: "\<forall>e\<in>set default_state_graph. node_rank (st_source e) \<le> 3"
  by code_simp

lemma default_edge_rank:
  assumes "e \<in> set default_state_graph"
  shows "node_rank (st_source e) < node_rank (st_target e) \<or>
         (st_source e \<in> {''reflect'', ''evaluate''} \<and> st_target e = ''plan'')"
  using default_edge_rank_all assms by blast

lemma move_weight:
  assumes "e \<in> set default_state_graph" "st_source e = lr_node s"
    "loop_run_transition now s (st_target e) cp [] ev = Inr s'"
  shows "progress_weight s < progress_weight s'"
proof -
  have s': "lr_attempt s' = next_attempt s (st_target e)" "lr_node s' = st_target e"
    using assms(3) by (auto simp: loop_run_transition_Inr_iff)
  from default_edge_rank [OF assms(1)] show ?thesis
  proof
    assume "node_rank (st_source e) < node_rank (st_target e)"
    then show ?thesis
      using s' assms(2) next_attempt_ge [of s "st_target e"] by (auto simp: progress_weight_def)
  next
    assume loop_back: "st_source e \<in> {''reflect'', ''evaluate''} \<and> st_target e = ''plan''"
    then have "next_attempt s (st_target e) = lr_attempt s + 1"
      using assms(2) by (auto simp: next_attempt_def Let_def)
    moreover have "node_rank (lr_node s) \<le> 3" "0 \<le> node_rank (st_target e)"
      using default_edge_source_rank assms(1,2) by (auto simp: node_rank_bounds)
    ultimately show ?thesis using s' by (simp add: progress_weight_def)
  qed
qed

lemma default_edge_sources:
  "\<forall>e\<in>set default_state_graph. st_source e \<in> set (map loopNode_str loop_nodes)"
  by code_simp

lemma default_edge_targets:
  "\<forall>e\<in>set default_state_graph.
     st_target e \<in> set (map loopNode_str loop_nodes @ map loopTerminalState_str DEFAULT_TERMINAL_STATES)"
  by code_simp

lemma converged_edges:
  "\<forall>e\<in>set default_state_graph. st_target e = ''converged'' \<longrightarrow>
     st_source e = ''evaluate'' \<and> st_condition e = ''checker_passed''"
  by code_simp

lemma cancel_edges:
  "\<forall>n\<in>set loop_nodes.
     stop_edge n LoopTerminalState_CANCELLED ''cancel_requested'' \<in> set default_state_graph \<and>
     stop_edge n LoopTerminalState_SUPERSEDED ''superseded'' \<in> set default_state_graph"
  by code_simp

lemma loop_step_not_stopped: "loop_step g s s' \<Longrightarrow> \<not> is_stopped s"
  by (auto elim!: loop_stepE simp: loop_run_transition_Inr_iff)

lemma stop_step_stopped:
  assumes "st_target e \<in> set (map loopTerminalState_str DEFAULT_TERMINAL_STATES)"
    "loop_run_transition now s node cp (st_target e) ev = Inr s'"
  shows "is_stopped s'"
proof -
  have t: "lr_terminal_state s' = st_target e"
    using assms(2) by (auto simp: loop_run_transition_Inr_iff)
  have "\<forall>x\<in>set (map loopTerminalState_str DEFAULT_TERMINAL_STATES).
      py_strip x = x \<and> x \<noteq> [] \<and> x \<in> set (map loopTerminalState_str FINAL_LOOP_STATES) \<union>
        set (map loopTerminalState_str SUSPENDED_LOOP_STATES)"
    by code_simp
  then show ?thesis
    using assms(1) t by (auto simp: is_stopped_def is_terminal_def is_suspended_def)
qed

lemma loop_step_cases_weight:
  assumes "loop_step default_state_graph s s'"
  shows "progress_weight s < progress_weight s' \<or>
         is_stopped s' \<and> lr_attempt s \<le> lr_attempt s'"
  using assms
proof (cases rule: loop_step.cases)
  case (move e now cp ev)
  then show ?thesis using move_weight by blast
next
  case (stop e now node cp ev)
  then have "is_stopped s'" using stop_step_stopped by blast
  moreover have "lr_attempt s' = next_attempt s node"
    using stop(4) by (auto simp: loop_run_transition_Inr_iff)
  ultimately show ?thesis using next_attempt_ge [of s node] by simp
qed

lemma loop_path_weight:
  assumes "loop_path default_state_graph n s s'"
  shows "progress_weight s + int n \<le> progress_weight s' \<or>
         is_stopped s' \<and> progress_weight s + int n \<le> 4 * lr_attempt s' + 4"
  using assms
proof (induction rule: loop_path.induct)
  case (path_refl s)
  then show ?case by simp
next
  case (path_step n s t u)
  have "\<not> is_stopped t" using path_step.hyps(2) by (rule loop_step_not_stopped)
  then have IH: "progress_weight s + int n \<le> progress_weight t" using path_step.IH by blast
  have "node_rank (lr_node t) \<le> 3"
    using path_step.hyps(2) default_edge_source_rank by (auto elim!: loop_stepE)
  then have "progress_weight t \<le> 4 * lr_attempt t + 3" by (simp add: progress_weight_def)
  then show ?case using IH loop_step_cases_weight [OF path_step.hyps(2)] by auto
qed

section \<open>Properties\<close>

text \<open>
  A loop state is stopped in exactly one way, and a stopped state takes no transition. A
  transition that is accepted keeps the identity and the version of the run, merges the evidence,
  and raises the attempt by exactly one on the way back to \<open>plan\<close> from \<open>reflect\<close> or
  \<open>evaluate\<close>, and not otherwise.
\<close>

theorem transition_contract:
  "loop_run_transition now s node cp ts ev = Inr s' \<Longrightarrow>
     \<not> is_terminal s \<and> \<not> is_suspended s \<and> lr_run_id s' = lr_run_id s \<and>
     lr_version s' = lr_version s \<and> lr_node s' = node \<and> lr_terminal_state s' = ts \<and>
     lr_evidence s' = dict_merge (lr_evidence s) ev \<and>
     lr_attempt s' = (if node = ''plan'' \<and> lr_node s \<in> {''reflect'', ''evaluate''}
       then lr_attempt s + 1 else lr_attempt s)"
  by (auto simp: loop_run_transition_Inr_iff is_stopped_def next_attempt_def Let_def)

definition sample_state :: LoopRunState where
  "sample_state = \<lparr>lr_run_id = ''r'', lr_goal_id = ''g'', lr_loop_spec_id = ''s'',
     lr_node = ''evaluate'', lr_terminal_state = [], lr_checkpoint_id = [], lr_attempt = 1,
     lr_parent_run_id = [], lr_child_run_ids = [], lr_locked_resources = [], lr_evidence = [],
     lr_updated_at = 0, lr_version = 0, lr_lease_owner = [], lr_lease_expires_at = 0\<rparr>"

theorem transition_contract_witness:
  "lr_attempt (case loop_run_transition 5 sample_state ''plan'' ''c'' [] [] of Inr s \<Rightarrow> s
     | Inl _ \<Rightarrow> sample_state) = 2"
proof -
  have ok: "loop_run_transition 5 sample_state ''plan'' ''c'' [] [] =
      Inr (sample_state\<lparr>lr_node := ''plan'', lr_checkpoint_id := ''c'', lr_attempt := 2,
        lr_updated_at := 5\<rparr>)"
    by code_simp
  show ?thesis using transition_contract [OF ok] ok by (simp add: sample_state_def)
qed

text \<open>
  C10. Bounded iteration: along a path of \<open>n\<close> accepted transitions through the default state
  graph that raises the attempt by \<open>d\<close>, \<open>n\<close> is at most four times \<open>d + 1\<close>: at most four
  transitions leave the attempt as it is, so it goes up in every five. So a bound on the attempts
  (\<open>RetryPolicy.max_attempts\<close>) bounds the number of transitions of a loop run between resumes.
\<close>

theorem default_graph_path_bounded:
  assumes "loop_path default_state_graph n s s'"
  shows "int n \<le> 4 * (lr_attempt s' - lr_attempt s + 1)"
  using loop_path_weight [OF assms] node_rank_bounds [of "lr_node s"] node_rank_bounds [of "lr_node s'"]
  by (auto simp: progress_weight_def)

theorem default_graph_path_bounded_witness:
  "\<exists>s'. loop_path default_state_graph 1 sample_state s' \<and>
     (1::int) \<le> 4 * (lr_attempt s' - lr_attempt sample_state + 1)"
proof -
  let ?e = "node_edge LoopNode_EVALUATE LoopNode_PLAN ''continue_iteration''"
  let ?s' = "sample_state\<lparr>lr_node := ''plan'', lr_checkpoint_id := ''c'', lr_attempt := 2,
        lr_updated_at := 5\<rparr>"
  have "loop_step default_state_graph sample_state ?s'"
  proof (rule loop_step.move)
    show "?e \<in> set default_state_graph" by code_simp
    show "st_source ?e = lr_node sample_state" by code_simp
    show "loop_run_transition 5 sample_state (st_target ?e) ''c'' [] [] = Inr ?s'" by code_simp
  qed
  then have path: "loop_path default_state_graph 1 sample_state ?s'"
    using loop_path.intros by fastforce
  show ?thesis using path default_graph_path_bounded [OF path] by auto
qed

text \<open>
  The default state graph is closed and guarded: every edge starts at a node and ends at a
  node or a declared stop state, no edge leaves a stop state, every node can be cancelled and
  superseded, and \<open>converged\<close> is entered only from \<open>evaluate\<close> under \<open>checker_passed\<close>.
\<close>

theorem default_graph_guarded:
  "(\<forall>e\<in>set default_state_graph. st_source e \<in> set (map loopNode_str loop_nodes) \<and>
      st_target e \<in> set (map loopNode_str loop_nodes @ map loopTerminalState_str DEFAULT_TERMINAL_STATES) \<and>
      (st_target e = ''converged'' \<longrightarrow> st_source e = ''evaluate'' \<and> st_condition e = ''checker_passed'')) \<and>
   (\<forall>n\<in>set loop_nodes.
      stop_edge n LoopTerminalState_CANCELLED ''cancel_requested'' \<in> set default_state_graph \<and>
      stop_edge n LoopTerminalState_SUPERSEDED ''superseded'' \<in> set default_state_graph)"
  using default_edge_sources default_edge_targets converged_edges cancel_edges by auto

theorem default_graph_guarded_witness:
  "stop_edge LoopNode_PAUSE LoopTerminalState_CANCELLED ''cancel_requested'' \<in> set default_state_graph"
  using default_graph_guarded by (simp add: loop_nodes_def)

definition sample_goal :: GoalSpec where
  "sample_goal = \<lparr>gs_objective = ''o'', gs_scope = [''s''], gs_constraints = [],
     gs_acceptance_criteria = [], gs_permission_ceiling = ''read'', gs_risk_level = ''low'',
     gs_owner = ''u'', gs_resume_policy = [], gs_cancel_policy = [], gs_memory_policy = [],
     gs_metadata = []\<rparr>"

definition sample_step :: VerificationStep where
  "sample_step = \<lparr>vs_kind = ''schema'', vs_name = ''n'', vs_required = True, vs_command = [],
     vs_evidence_key = [], vs_timeout = default_timeout_policy\<rparr>"

text \<open>
  What \<open>LoopSpec.from_goal\<close> accepts: it builds a spec exactly when the goal is valid, the
  goal id is not blank, some capability is allowed, and the verification ladder is not empty with
  every step valid; the spec then has the default state graph and passes \<open>validate\<close>.
\<close>

theorem loop_spec_from_goal_iff:
  "(\<exists>spec. loop_spec_from_goal i now goal gid caps ladder = Inr spec \<and>
      loop_spec_validate spec = Inr () \<and> ls_state_graph spec = default_state_graph \<and>
      ls_id spec = i \<and> ls_goal spec = goal) \<longleftrightarrow>
   is_ok (goal_spec_validate goal) \<and> py_strip gid \<noteq> [] \<and> caps \<noteq> [] \<and> ladder \<noteq> [] \<and>
   (\<forall>v\<in>set ladder. is_ok (verification_step_validate v))"
proof -
  have "missing_terminal_states DEFAULT_TERMINAL_STATES = []"
    by (simp add: missing_terminal_states_def)
  then show ?thesis
    by (auto simp: loop_spec_from_goal_def Let_def loop_spec_validate_def default_policies_valid
        parse_terminal_states_str default_graph_nonempty each_ok_Inr is_ok_iff)
qed

theorem loop_spec_from_goal_iff_witness:
  "\<exists>spec. loop_spec_from_goal ''i'' 5 sample_goal ''g'' [''cap''] [sample_step] = Inr spec"
proof -
  have "is_ok (goal_spec_validate sample_goal)" "py_strip ''g'' \<noteq> []"
      "is_ok (verification_step_validate sample_step)"
    by code_simp+
  then show ?thesis
    using loop_spec_from_goal_iff [of "''i''" 5 sample_goal "''g''" "[''cap'']" "[sample_step]"] by auto
qed

text \<open>
  Workspace locks: conflict is symmetric, needs two active locks of different runs on the same
  resource, and at least one of them a writer. Two readers never conflict.
\<close>

theorem workspace_lock_conflict_iff:
  "workspace_lock_conflicts_with clock now l o' = workspace_lock_conflicts_with clock now o' l \<and>
   (workspace_lock_conflicts_with clock now l o' \<longleftrightarrow>
     clock_or clock now < wl_lease_expiry l \<and> clock_or clock now < wl_lease_expiry o' \<and>
     wl_resource l = wl_resource o' \<and> wl_owner_run_id l \<noteq> wl_owner_run_id o' \<and>
     ''write'' \<in> {wl_mode l, wl_mode o'})"
  by (auto simp: workspace_lock_conflicts_with_def workspace_lock_active_def)

end
