(* ===== verification/Effect_Journal.thy ===== *)
theory Effect_Journal
  imports Contracts
begin

text \<open>
  \<open>navi/effect_journal.py\<close>: the idempotency records of mutating capability calls, the table
  \<open>loop_effects\<close>. Each method is one transaction; \<open>now\<close> is the clock it reads.
  An empty \<open>result_json\<close> is \<open>None\<close>.
\<close>

section \<open>State and operations\<close>

record EffectRow =
  ef_key :: string
  ef_loop_run_id :: string
  ef_tool :: string
  ef_status :: string
  ef_owner :: string
  ef_lease_expires_at :: time
  ef_result_json :: "json option"
  ef_error :: string
  ef_created_at :: time
  ef_updated_at :: time

record EffectReservation =
  er_status :: string
  er_result :: "dict option"

definition acquired :: "EffectReservation \<Rightarrow> bool" where
  "acquired r = (er_status r = ''acquired'')"

definition reservation :: "string \<Rightarrow> EffectReservation" where
  "reservation s = \<lparr>er_status = s, er_result = None\<rparr>"

type_synonym journal = "EffectRow list"

definition reserve ::
  "string \<Rightarrow> string \<Rightarrow> string \<Rightarrow> string \<Rightarrow> time \<Rightarrow> time \<Rightarrow> journal \<Rightarrow> EffectReservation \<times> journal" where
  "reserve effect_key loop_run_id tool owner lease_seconds current_time t =
     (case row_of ef_key effect_key t of
        Some row \<Rightarrow>
          if ef_status row = ''completed''
          then (\<lparr>er_status = ''replay'', er_result = Some (json_object (ef_result_json row))\<rparr>, t)
          else if ef_status row = ''uncertain'' then (reservation ''uncertain'', t)
          else if ef_status row = ''active'' \<and> ef_lease_expires_at row > current_time
          then (reservation ''busy'', t)
          else if ef_status row = ''active''
          then (reservation ''uncertain'',
                sql_update (\<lambda>r. ef_key r = effect_key \<and> ef_status r = ''active'')
                  (\<lambda>r. r\<lparr>ef_status := ''uncertain'', ef_lease_expires_at := 0,
                        ef_error := ''lease_expired_without_reconciliation'',
                        ef_updated_at := current_time\<rparr>) t)
          else (reservation ''acquired'',
                sql_update (\<lambda>r. ef_key r = effect_key)
                  (\<lambda>r. r\<lparr>ef_status := ''active'', ef_owner := owner,
                        ef_lease_expires_at := current_time + lease_seconds,
                        ef_result_json := None, ef_error := [],
                        ef_updated_at := current_time\<rparr>) t)
      | None \<Rightarrow>
          (reservation ''acquired'',
           t @ [\<lparr>ef_key = effect_key, ef_loop_run_id = loop_run_id, ef_tool = tool,
                 ef_status = ''active'', ef_owner = owner,
                 ef_lease_expires_at = current_time + lease_seconds, ef_result_json = None,
                 ef_error = [], ef_created_at = current_time, ef_updated_at = current_time\<rparr>]))"

definition held_by :: "string \<Rightarrow> string \<Rightarrow> EffectRow \<Rightarrow> bool" where
  "held_by effect_key owner r =
     (ef_key r = effect_key \<and> ef_owner r = owner \<and> ef_status r = ''active'')"

text \<open>The check of \<open>rowcount\<close> comes after the commit; it only raises when no row was changed.\<close>

definition complete :: "string \<Rightarrow> string \<Rightarrow> dict \<Rightarrow> time \<Rightarrow> journal \<Rightarrow> journal result" where
  "complete effect_key owner result now t =
     (if sql_count (held_by effect_key owner) t \<noteq> 1
      then Inl (RuntimeError ''effect journal ownership changed before completion'')
      else Inr (sql_update (held_by effect_key owner)
        (\<lambda>r. r\<lparr>ef_status := ''completed'', ef_result_json := Some (JDict result), ef_error := [],
              ef_lease_expires_at := 0, ef_updated_at := now\<rparr>) t))"

definition fail :: "string \<Rightarrow> string \<Rightarrow> string \<Rightarrow> time \<Rightarrow> journal \<Rightarrow> journal" where
  "fail effect_key owner error now t =
     sql_update (held_by effect_key owner)
       (\<lambda>r. r\<lparr>ef_status := ''uncertain'', ef_error := error, ef_lease_expires_at := 0,
             ef_updated_at := now\<rparr>) t"

definition abandon :: "string \<Rightarrow> string \<Rightarrow> journal \<Rightarrow> journal" where
  "abandon effect_key owner t = sql_delete (held_by effect_key owner) t"

datatype journal_op =
    Reserve string string string string time time
  | Complete string string dict time
  | Fail string string string time
  | Abandon string string

fun journal_step :: "journal_op \<Rightarrow> journal \<Rightarrow> journal" where
  "journal_step (Reserve k run tool owner lease now) t = snd (reserve k run tool owner lease now t)"
| "journal_step (Complete k owner res now) t =
     (case complete k owner res now t of Inl _ \<Rightarrow> t | Inr t' \<Rightarrow> t')"
| "journal_step (Fail k owner err now) t = fail k owner err now t"
| "journal_step (Abandon k owner) t = abandon k owner t"

section \<open>Invariant\<close>

definition journal_inv :: "journal \<Rightarrow> bool" where
  "journal_inv t \<longleftrightarrow> keys_distinct ef_key t \<and>
     (\<forall>r\<in>set t. ef_status r \<in> {''active'', ''completed'', ''uncertain''})"

lemma status_update:
  assumes "\<forall>r\<in>set t. ef_status r \<in> S" "\<And>r. p r \<Longrightarrow> ef_status (f r) \<in> S"
  shows "\<forall>r\<in>set (sql_update p f t). ef_status r \<in> S"
  using assms by (auto simp: set_sql_update)

lemma reserve_inv: "journal_inv t \<Longrightarrow> journal_inv (snd (reserve k run tool owner lease now t))"
  by (auto simp: reserve_def journal_inv_def keys_distinct_append set_sql_update
      split: option.splits intro!: keys_distinct_update)

lemma journal_step_inv: "journal_inv t \<Longrightarrow> journal_inv (journal_step a t)"
proof (cases a)
  case (Reserve k run tool owner lease now)
  then show "journal_inv t \<Longrightarrow> ?thesis" by (simp add: reserve_inv)
next
  case (Complete k owner res now)
  then show "journal_inv t \<Longrightarrow> ?thesis"
    by (auto simp: complete_def journal_inv_def set_sql_update intro!: keys_distinct_update)
next
  case (Fail k owner err now)
  then show "journal_inv t \<Longrightarrow> ?thesis"
    by (auto simp: fail_def journal_inv_def set_sql_update intro!: keys_distinct_update)
next
  case (Abandon k owner)
  then show "journal_inv t \<Longrightarrow> ?thesis"
    by (auto simp: abandon_def journal_inv_def keys_distinct_delete) (auto simp: sql_delete_def)
qed

text \<open>
  A row that is completed or uncertain is settled: no operation of any worker changes it.
\<close>

definition effect_settled :: "EffectRow \<Rightarrow> journal \<Rightarrow> bool" where
  "effect_settled row t \<longleftrightarrow>
     row_of ef_key (ef_key row) t = Some row \<and> ef_status row \<in> {''completed'', ''uncertain''}"

lemma not_held: "ef_status r \<in> {''completed'', ''uncertain''} \<Longrightarrow> \<not> held_by k owner r"
  by (auto simp: held_by_def)

lemma effect_settled_step:
  assumes "journal_inv t" "effect_settled row t"
  shows "effect_settled row (journal_step a t)"
proof -
  have row: "row_of ef_key (ef_key row) t = Some row"
    and st: "ef_status row = ''completed'' \<or> ef_status row = ''uncertain''"
    using assms(2) by (auto simp: effect_settled_def)
  have kd: "keys_distinct ef_key t" using assms(1) by (simp add: journal_inv_def)
  have nh: "\<not> held_by k owner row" for k owner using st by (auto simp: held_by_def)
  show ?thesis
  proof (cases a)
    case (Reserve k run tool owner lease now)
    show ?thesis
    proof (cases "k = ef_key row")
      case True
      then show ?thesis using Reserve row st assms(2) by (auto simp: reserve_def)
    next
      case False
      then show ?thesis using Reserve row st
        by (auto simp: reserve_def effect_settled_def row_of_update row_of_append
            split: option.splits)
    qed
  next
    case (Complete k owner res now)
    then show ?thesis using row st nh
      by (auto simp: complete_def effect_settled_def row_of_update)
  next
    case (Fail k owner err now)
    then show ?thesis using row st nh by (auto simp: fail_def effect_settled_def row_of_update)
  next
    case (Abandon k owner)
    then show ?thesis using row st nh kd
      by (auto simp: abandon_def effect_settled_def row_of_delete)
  qed
qed

interpretation journal: settling_machine journal_step journal_inv effect_settled
  by unfold_locales (auto intro: journal_step_inv effect_settled_step)

lemma journal_inv_Nil: "journal_inv []"
  by (simp add: journal_inv_def)

section \<open>Acquisitions\<close>

text \<open>The \<open>acquired\<close> answers that a list of operations hands out for one key.\<close>

fun acquisitions :: "string \<Rightarrow> journal_op list \<Rightarrow> journal \<Rightarrow> nat" where
  "acquisitions k [] t = 0"
| "acquisitions k (a # ops) t =
     (case a of
        Reserve k' run tool owner lease now \<Rightarrow>
          if k' = k \<and> acquired (fst (reserve k' run tool owner lease now t)) then 1 else 0
      | _ \<Rightarrow> 0) + acquisitions k ops (journal_step a t)"

fun abandons :: "string \<Rightarrow> journal_op \<Rightarrow> bool" where
  "abandons k (Abandon k' owner) = (k' = k)"
| "abandons k _ = False"

lemma reserve_acquired_iff:
  assumes "journal_inv t"
  shows "acquired (fst (reserve k run tool owner lease now t)) \<longleftrightarrow> row_of ef_key k t = None"
proof (cases "row_of ef_key k t")
  case (Some r)
  then have "ef_status r \<in> {''active'', ''completed'', ''uncertain''}"
    using assms row_of_Some [OF Some] by (auto simp: journal_inv_def)
  then show ?thesis using Some by (auto simp: reserve_def acquired_def reservation_def)
qed (simp add: reserve_def acquired_def reservation_def)

lemma row_stays:
  assumes "journal_inv t" "row_of ef_key k t \<noteq> None" "\<not> abandons k a"
  shows "row_of ef_key k (journal_step a t) \<noteq> None"
proof -
  have kd: "keys_distinct ef_key t" using assms(1) by (simp add: journal_inv_def)
  show ?thesis
    using assms(2,3)
    by (cases a) (auto simp: reserve_def complete_def fail_def abandon_def held_by_def row_of_update
        row_of_append row_of_delete [OF kd] split: option.splits dest: row_of_Some)
qed

lemma reserve_row: "row_of ef_key k (snd (reserve k run tool owner lease now t)) \<noteq> None"
  by (auto simp: reserve_def row_of_update row_of_append split: option.splits)

lemma no_acquisition_while_present:
  assumes "journal_inv t" "row_of ef_key k t \<noteq> None" "\<forall>a\<in>set ops. \<not> abandons k a"
  shows "acquisitions k ops t = 0"
  using assms
proof (induction ops arbitrary: t)
  case (Cons a ops)
  have "acquisitions k ops (journal_step a t) = 0"
    using Cons.prems by (intro Cons.IH) (auto intro: journal_step_inv dest: row_stays)
  moreover have "\<not> acquired (fst (reserve k run tool owner lease now t))" for run tool owner lease now
    using Cons.prems(1,2) by (simp add: reserve_acquired_iff)
  ultimately show ?case by (auto split: journal_op.splits)
qed simp

lemma complete_Inr_iff:
  assumes "journal_inv t"
  shows "complete k owner res now t = Inr t' \<longleftrightarrow>
    (\<exists>row. row_of ef_key k t = Some row \<and> ef_owner row = owner \<and> ef_status row = ''active'') \<and>
    t' = sql_update (held_by k owner)
      (\<lambda>r. r\<lparr>ef_status := ''completed'', ef_result_json := Some (JDict res), ef_error := [],
            ef_lease_expires_at := 0, ef_updated_at := now\<rparr>) t"
proof -
  have kd: "keys_distinct ef_key t" using assms by (simp add: journal_inv_def)
  have "held_by k owner = (\<lambda>r. ef_key r = k \<and> (ef_owner r = owner \<and> ef_status r = ''active''))"
    by (auto simp: held_by_def fun_eq_iff)
  then have "sql_count (held_by k owner) t = 1 \<longleftrightarrow>
      (\<exists>row. row_of ef_key k t = Some row \<and> ef_owner row = owner \<and> ef_status row = ''active'')"
    using sql_count_by_key [OF kd, of k "\<lambda>r. ef_owner r = owner \<and> ef_status r = ''active''"]
    by (auto split: option.splits)
  then show ?thesis by (auto simp: complete_def)
qed

lemma complete_settles:
  assumes "journal_inv t" "complete k owner res now t = Inr t'"
  shows "\<exists>row. effect_settled row t' \<and> ef_key row = k \<and> ef_status row = ''completed'' \<and>
    ef_result_json row = Some (JDict res)"
proof -
  obtain row where row: "row_of ef_key k t = Some row" "ef_owner row = owner" "ef_status row = ''active''"
    and t': "t' = sql_update (held_by k owner)
      (\<lambda>r. r\<lparr>ef_status := ''completed'', ef_result_json := Some (JDict res), ef_error := [],
            ef_lease_expires_at := 0, ef_updated_at := now\<rparr>) t"
    using assms complete_Inr_iff by blast
  let ?row = "row\<lparr>ef_status := ''completed'', ef_result_json := Some (JDict res), ef_error := [],
    ef_lease_expires_at := 0, ef_updated_at := now\<rparr>"
  have key: "ef_key row = k" using row_of_Some [OF row(1)] by simp
  then have "effect_settled ?row t'"
    using row t' by (simp add: effect_settled_def row_of_update held_by_def)
  then show ?thesis using key by (intro exI [of _ ?row]) simp
qed

lemma settled_reserve:
  assumes "effect_settled row t"
  shows "reserve (ef_key row) run tool owner lease now t =
    (if ef_status row = ''completed''
     then (\<lparr>er_status = ''replay'', er_result = Some (json_object (ef_result_json row))\<rparr>, t)
     else (reservation ''uncertain'', t))"
  using assms by (auto simp: effect_settled_def reserve_def)

section \<open>Properties\<close>

text \<open>
  C4. At most once: whatever the workers do, in whatever order, an effect key is acquired at most
  once, and not at all when the journal already knows it, unless its holder abandons the
  reservation (which the code does only before execution starts). An expired lease, a failure or a
  completion never makes a key free again.
\<close>

theorem effect_acquired_at_most_once:
  assumes "journal_inv t" and "\<forall>a\<in>set ops. \<not> abandons k a"
  shows "acquisitions k ops t \<le> (if row_of ef_key k t = None then 1 else 0)"
  using assms
proof (induction ops arbitrary: t)
  case (Cons a ops)
  show ?case
  proof (cases "row_of ef_key k t = None")
    case False
    then show ?thesis using no_acquisition_while_present [OF Cons.prems(1) False Cons.prems(2)] by simp
  next
    case absent: True
    have inv': "journal_inv (journal_step a t)" using Cons.prems(1) by (rule journal_step_inv)
    have IH: "acquisitions k ops (journal_step a t)
        \<le> (if row_of ef_key k (journal_step a t) = None then 1 else 0)"
      using Cons.prems(2) by (intro Cons.IH [OF inv']) simp
    show ?thesis
    proof (cases a)
      case (Reserve k' run tool owner lease now)
      then show ?thesis using IH absent reserve_row [of k run tool owner lease now t]
        by (cases "k' = k") (auto split: if_splits)
    qed (use IH absent in \<open>auto split: if_splits\<close>)
  qed
qed simp

theorem effect_acquired_at_most_once_witness:
  "acquisitions ''k'' [Reserve ''k'' ''r'' ''t'' ''w1'' 10 0, Fail ''k'' ''w1'' ''boom'' 5,
     Reserve ''k'' ''r'' ''t'' ''w2'' 10 100] [] \<le> 1"
  using effect_acquired_at_most_once [of "[]" "[Reserve ''k'' ''r'' ''t'' ''w1'' 10 0,
     Fail ''k'' ''w1'' ''boom'' 5, Reserve ''k'' ''r'' ''t'' ''w2'' 10 100]" "''k''"]
  by (simp add: journal_inv_Nil del: acquisitions.simps)

text \<open>
  Replay: once the holder has completed an effect, every later reservation of its key, by any
  worker and after any operations, returns the recorded result and leaves the journal as it is.
\<close>

theorem completed_effect_replays:
  assumes "journal_inv t" and "complete k owner res now t = Inr t'"
  shows "reserve k run tool worker lease later (fold journal_step ops t') =
    (\<lparr>er_status = ''replay'', er_result = Some res\<rparr>, fold journal_step ops t')"
proof -
  obtain row where row: "effect_settled row t'" "ef_key row = k" "ef_status row = ''completed''"
    "ef_result_json row = Some (JDict res)"
    using complete_settles [OF assms] by blast
  have "journal_inv t'" using journal_step_inv [OF assms(1), of "Complete k owner res now"] assms(2)
    by simp
  then have "effect_settled row (fold journal_step ops t')"
    using row(1) by (rule journal.settled_run)
  then show ?thesis using settled_reserve row by (fastforce simp: json_object_def as_dict_def)
qed

theorem completed_effect_replays_witness:
  "fst (reserve ''k'' ''r'' ''t'' ''w2'' 10 99 (fold journal_step [Fail ''k'' ''w1'' ''late'' 50]
     (journal_step (Complete ''k'' ''w1'' [(''ok'', JBool True)] 3)
       (snd (reserve ''k'' ''r'' ''t'' ''w1'' 10 0 []))))) =
   \<lparr>er_status = ''replay'', er_result = Some [(''ok'', JBool True)]\<rparr>"
proof -
  let ?t = "snd (reserve ''k'' ''r'' ''t'' ''w1'' 10 0 [])"
  have inv: "journal_inv ?t" by (rule reserve_inv [OF journal_inv_Nil])
  obtain t' where t': "complete ''k'' ''w1'' [(''ok'', JBool True)] 3 ?t = Inr t'"
    by (simp add: complete_def reserve_def held_by_def sql_count_def)
  show ?thesis
    using completed_effect_replays [OF inv t', where ops = "[Fail ''k'' ''w1'' ''late'' 50]"
        and run = "''r''" and tool = "''t''" and worker = "''w2''" and lease = 10 and later = 99] t'
    by simp
qed

text \<open>
  Crash safety: when a lease has run out while its effect was active, the next reservation
  answers \<open>uncertain\<close>, and from then on every reservation of that key does, after any operations:
  the effect is never executed again and its holder can no longer complete or abandon it.
\<close>

theorem expired_effect_stays_uncertain:
  assumes "journal_inv t" and "row_of ef_key k t = Some row" and "ef_status row = ''active''"
    and "ef_lease_expires_at row \<le> now"
    and "reserve k run tool owner lease now t = (answer, t')"
  shows "er_status answer = ''uncertain'' \<and>
    reserve k run' tool' owner' lease' now' (fold journal_step ops t') =
      (reservation ''uncertain'', fold journal_step ops t') \<and>
    complete k owner'' res later (fold journal_step ops t') =
      Inl (RuntimeError ''effect journal ownership changed before completion'')"
proof -
  let ?row = "row\<lparr>ef_status := ''uncertain'', ef_lease_expires_at := 0,
    ef_error := ''lease_expired_without_reconciliation'', ef_updated_at := now\<rparr>"
  have key: "ef_key row = k" using row_of_Some [OF assms(2)] by simp
  have ans: "answer = reservation ''uncertain''" and set: "effect_settled ?row t'"
    using assms(2-5) key by (auto simp: reserve_def effect_settled_def row_of_update split: if_splits)
  have inv': "journal_inv t'"
    using reserve_inv [OF assms(1), of k run tool owner lease now] assms(5) by simp
  have set': "effect_settled ?row (fold journal_step ops t')"
    using inv' set by (rule journal.settled_run)
  moreover have "journal_inv (fold journal_step ops t')"
    using inv' by (rule journal.inv_run)
  ultimately have "\<nexists>t''. complete k owner'' res later (fold journal_step ops t') = Inr t''"
    using key by (auto simp: complete_Inr_iff effect_settled_def)
  then have "complete k owner'' res later (fold journal_step ops t') =
      Inl (RuntimeError ''effect journal ownership changed before completion'')"
    by (auto simp: complete_def split: if_splits)
  then show ?thesis using ans settled_reserve [OF set'] key by (simp add: reservation_def)
qed

theorem expired_effect_stays_uncertain_witness:
  "fst (reserve ''k'' ''r'' ''t'' ''w3'' 10 300 (fold journal_step [Abandon ''k'' ''w1'']
     (snd (reserve ''k'' ''r'' ''t'' ''w2'' 10 200
       (snd (reserve ''k'' ''r'' ''t'' ''w1'' 10 0 [])))))) = reservation ''uncertain''"
proof -
  let ?t = "snd (reserve ''k'' ''r'' ''t'' ''w1'' 10 0 [])"
  have inv: "journal_inv ?t" by (rule reserve_inv [OF journal_inv_Nil])
  obtain row where row: "row_of ef_key ''k'' ?t = Some row" "ef_status row = ''active''"
    "ef_lease_expires_at row \<le> 200"
    by (simp add: reserve_def row_of_Cons)
  obtain ans t' where r: "reserve ''k'' ''r'' ''t'' ''w2'' 10 200 ?t = (ans, t')" by fastforce
  show ?thesis
    using expired_effect_stays_uncertain [OF inv row r, where ops = "[Abandon ''k'' ''w1'']"
        and run' = "''r''" and tool' = "''t''" and owner' = "''w3''" and lease' = 10 and now' = 300] r
    by simp
qed

end
