(* ===== verification/Approval_Store.thy ===== *)
theory Approval_Store
  imports Contracts
begin

text \<open>
  \<open>navi/runs/_approval_store.py\<close>: the durable approvals of governed runs, the table
  \<open>approvals\<close>. \<open>now\<close> is the clock a method reads, \<open>fresh_id\<close> its \<open>uuid4\<close>, \<open>draw i\<close> the
  \<open>i\<close>-th number of \<open>secrets.randbelow(1_000_000)\<close>.

  A lookup first expires what is overdue and then selects; it is modelled as the pair of the
  answer and the new table.
\<close>

section \<open>State and helpers\<close>

type_synonym approvals = "Approval list"

record ApprovalRequest =
  rq_run_id :: string
  rq_action :: string
  rq_source :: string
  rq_peer_id :: string
  rq_sender_id :: string
  rq_requested_tool :: string
  rq_requested_permission :: string
  rq_args_json :: string
  rq_reason :: string
  rq_ttl_seconds :: int
  rq_code :: string

definition status_for_decision :: "string \<Rightarrow> string option" where
  "status_for_decision decision =
     (if decision = APPROVAL_DECISION_APPROVE then Some APPROVAL_STATUS_APPROVED
      else if decision = APPROVAL_DECISION_REJECT then Some APPROVAL_STATUS_REJECTED
      else None)"

definition code_taken :: "string \<Rightarrow> approvals \<Rightarrow> bool" where
  "code_taken code t \<longleftrightarrow> (\<exists>r\<in>set t. ap_code r = code \<and> ap_status r = APPROVAL_STATUS_PENDING)"

fun try_codes :: "nat \<Rightarrow> (nat \<Rightarrow> nat) \<Rightarrow> nat \<Rightarrow> approvals \<Rightarrow> string option" where
  "try_codes 0 draw i t = None"
| "try_codes (Suc left) draw i t =
     (let code = show_06d (draw i)
      in if \<not> code_taken code t then Some code else try_codes left draw (Suc i) t)"

definition new_approval_code :: "(nat \<Rightarrow> nat) \<Rightarrow> time \<Rightarrow> approvals \<Rightarrow> string" where
  "new_approval_code draw now t =
     (case try_codes 20 draw 0 t of
        Some code \<Rightarrow> code
      | None \<Rightarrow> show_06d (nat (\<lfloor>now * 1000\<rfloor> mod 1000000)))"

definition ttl_expiry :: "time \<Rightarrow> int \<Rightarrow> time" where
  "ttl_expiry now ttl_seconds =
     now + of_int (max 60 (min (if ttl_seconds = 0 then 900 else ttl_seconds) (24 * 60 * 60)))"

section \<open>Operations\<close>

definition create_approval ::
  "string \<Rightarrow> (nat \<Rightarrow> nat) \<Rightarrow> time \<Rightarrow> ApprovalRequest \<Rightarrow> approvals \<Rightarrow> (Approval \<times> approvals) result" where
  "create_approval fresh_id draw now rq t =
     (let approval =
        \<lparr>ap_id = fresh_id, ap_run_id = rq_run_id rq, ap_action = rq_action rq,
         ap_status = APPROVAL_STATUS_PENDING, ap_requested_tool = rq_requested_tool rq,
         ap_requested_permission = rq_requested_permission rq, ap_args_json = rq_args_json rq,
         ap_source = rq_source rq, ap_peer_id = rq_peer_id rq, ap_sender_id = rq_sender_id rq,
         ap_code = (if rq_code rq \<noteq> [] then rq_code rq else new_approval_code draw now t),
         ap_expires_at = ttl_expiry now (rq_ttl_seconds rq), ap_created_at = now,
         ap_updated_at = now, ap_reason = rq_reason rq, ap_decision = [], ap_resolved_by = []\<rparr>
      in and_then (sql_insert ap_id approval t) (\<lambda>t'. Inr (approval, t')))"

definition expire_pending_approvals :: "time \<Rightarrow> approvals \<Rightarrow> int \<times> approvals" where
  "expire_pending_approvals now t =
     (let overdue = (\<lambda>r. ap_status r = APPROVAL_STATUS_PENDING \<and> ap_expires_at r < now)
      in (int (sql_count overdue t),
          sql_update overdue (\<lambda>r. r\<lparr>ap_status := APPROVAL_STATUS_EXPIRED, ap_updated_at := now\<rparr>) t))"

definition approval_filters ::
  "string \<Rightarrow> string \<Rightarrow> string \<Rightarrow> string \<Rightarrow> string \<Rightarrow> string \<Rightarrow> string \<Rightarrow> Approval \<Rightarrow> bool" where
  "approval_filters sender_id peer_id source action requested_tool requested_permission args_json r =
     (opt_eq sender_id (ap_sender_id r) \<and> opt_eq peer_id (ap_peer_id r)
      \<and> opt_eq source (ap_source r) \<and> opt_eq action (ap_action r)
      \<and> opt_eq requested_tool (ap_requested_tool r)
      \<and> opt_eq requested_permission (ap_requested_permission r)
      \<and> opt_eq args_json (ap_args_json r))"

definition select_approval_row :: "(Approval \<Rightarrow> bool) \<Rightarrow> approvals \<Rightarrow> Approval option" where
  "select_approval_row p t =
     (case sql_desc ap_created_at (filter p t) of [] \<Rightarrow> None | r # _ \<Rightarrow> Some r)"

definition list_approvals ::
  "time \<Rightarrow> int \<Rightarrow> string \<Rightarrow> string \<Rightarrow> string \<Rightarrow> string \<Rightarrow> string \<Rightarrow> approvals \<Rightarrow> Approval list \<times> approvals" where
  "list_approvals now limit status rid source peer_id sender_id t =
     (let t' = snd (expire_pending_approvals now t)
      in (sql_limit limit (sql_desc ap_created_at (filter (\<lambda>r.
            opt_eq status (ap_status r) \<and> opt_eq rid (ap_run_id r)
            \<and> append_actor_scope source peer_id sender_id []
                (ap_source r) (ap_peer_id r) (ap_sender_id r) []) t')), t'))"

definition pending_approval_for_run ::
  "time \<Rightarrow> string \<Rightarrow> string \<Rightarrow> string \<Rightarrow> string \<Rightarrow> string \<Rightarrow> string \<Rightarrow> string \<Rightarrow> string
     \<Rightarrow> approvals \<Rightarrow> Approval option \<times> approvals" where
  "pending_approval_for_run now rid sender_id peer_id source action requested_tool
       requested_permission args_json t =
     (let t' = snd (expire_pending_approvals now t)
      in (select_approval_row (\<lambda>r. ap_run_id r = rid \<and> ap_status r = APPROVAL_STATUS_PENDING
            \<and> approval_filters sender_id peer_id source action requested_tool
                requested_permission args_json r) t', t'))"

definition pending_approval_by_code ::
  "time \<Rightarrow> string \<Rightarrow> string \<Rightarrow> string \<Rightarrow> string \<Rightarrow> approvals \<Rightarrow> Approval option \<times> approvals" where
  "pending_approval_by_code now code sender_id peer_id source t =
     (let t' = snd (expire_pending_approvals now t)
      in (select_approval_row (\<lambda>r. ap_code r = code \<and> ap_status r = APPROVAL_STATUS_PENDING
            \<and> approval_filters sender_id peer_id source [] [] [] [] r) t', t'))"

definition approval_by_code ::
  "time \<Rightarrow> string \<Rightarrow> string \<Rightarrow> string \<Rightarrow> string \<Rightarrow> approvals \<Rightarrow> Approval option \<times> approvals" where
  "approval_by_code now code sender_id peer_id source t =
     (let t' = snd (expire_pending_approvals now t)
      in (select_approval_row (\<lambda>r. ap_code r = code
            \<and> approval_filters sender_id peer_id source [] [] [] [] r) t', t'))"

definition approval_for_run ::
  "time \<Rightarrow> string \<Rightarrow> string \<Rightarrow> string \<Rightarrow> string \<Rightarrow> approvals \<Rightarrow> Approval option \<times> approvals" where
  "approval_for_run now rid sender_id peer_id source t =
     (let t' = snd (expire_pending_approvals now t)
      in (select_approval_row (\<lambda>r. ap_run_id r = rid
            \<and> approval_filters sender_id peer_id source [] [] [] [] r) t', t'))"

definition approved_approval_for_run ::
  "string \<Rightarrow> string \<Rightarrow> string \<Rightarrow> string \<Rightarrow> string \<Rightarrow> approvals \<Rightarrow> Approval option" where
  "approved_approval_for_run rid action requested_tool requested_permission args_json t =
     select_approval_row (\<lambda>r. ap_run_id r = rid \<and> ap_status r = APPROVAL_STATUS_APPROVED
       \<and> opt_eq action (ap_action r) \<and> opt_eq requested_tool (ap_requested_tool r)
       \<and> opt_eq requested_permission (ap_requested_permission r)
       \<and> opt_eq args_json (ap_args_json r)) t"

definition active_session_elevation ::
  "time \<Rightarrow> string \<Rightarrow> string \<Rightarrow> string \<Rightarrow> approvals \<Rightarrow> Approval option" where
  "active_session_elevation now source peer_id sender_id t =
     select_approval_row (\<lambda>r. ap_action r = APPROVAL_ACTION_SESSION_ELEVATION
       \<and> ap_status r = APPROVAL_STATUS_APPROVED \<and> now \<le> ap_expires_at r
       \<and> approval_filters sender_id peer_id source [] [] [] [] r) t"

definition get_approval :: "string \<Rightarrow> approvals \<Rightarrow> Approval option" where
  "get_approval approval_id t = select_approval_row (\<lambda>r. ap_id r = approval_id) t"

text \<open>
  \<open>resolve_approval\<close>, and \<open>resolve_approval_in_transaction\<close>, whose statements are the same on
  the caller's connection.
\<close>

definition resolve_approval ::
  "time \<Rightarrow> string \<Rightarrow> string \<Rightarrow> string \<Rightarrow> approvals \<Rightarrow> Approval option \<times> approvals" where
  "resolve_approval now approval_id decision resolved_by t =
     (case status_for_decision decision of
        None \<Rightarrow> (None, t)
      | Some status \<Rightarrow>
          let t' = sql_update (\<lambda>r. ap_id r = approval_id \<and> ap_status r = APPROVAL_STATUS_PENDING)
                (\<lambda>r. r\<lparr>ap_status := status, ap_decision := decision,
                      ap_resolved_by := resolved_by, ap_updated_at := now\<rparr>) t
          in (get_approval approval_id t', t'))"

definition resolve_approval_in_transaction ::
  "time \<Rightarrow> string \<Rightarrow> string \<Rightarrow> string \<Rightarrow> approvals \<Rightarrow> Approval option \<times> approvals" where
  "resolve_approval_in_transaction now approval_id decision resolved_by t =
     (case status_for_decision decision of
        None \<Rightarrow> (None, t)
      | Some status \<Rightarrow>
          let t' = sql_update (\<lambda>r. ap_id r = approval_id \<and> ap_status r = APPROVAL_STATUS_PENDING)
                (\<lambda>r. r\<lparr>ap_status := status, ap_decision := decision,
                      ap_resolved_by := resolved_by, ap_updated_at := now\<rparr>) t
          in (select_approval_row (\<lambda>r. ap_id r = approval_id) t', t'))"

definition reject_pending_approvals_for_run ::
  "time \<Rightarrow> string \<Rightarrow> string \<Rightarrow> string \<Rightarrow> approvals \<Rightarrow> int \<times> approvals" where
  "reject_pending_approvals_for_run now rid resolved_by decision t =
     (let p = (\<lambda>r. ap_run_id r = rid \<and> ap_status r = APPROVAL_STATUS_PENDING)
      in (int (sql_count p t),
          sql_update p (\<lambda>r. r\<lparr>ap_status := APPROVAL_STATUS_REJECTED, ap_decision := decision,
                            ap_resolved_by := resolved_by, ap_updated_at := now\<rparr>) t))"

text \<open>The writes of the store; every lookup writes at most an \<open>Expire\<close>.\<close>

datatype approval_op =
    Create string "nat \<Rightarrow> nat" time ApprovalRequest
  | Resolve time string string string
  | RejectForRun time string string string
  | Expire time

fun approval_step :: "approval_op \<Rightarrow> approvals \<Rightarrow> approvals" where
  "approval_step (Create i draw now rq) t =
     (case create_approval i draw now rq t of Inl _ \<Rightarrow> t | Inr (_, t') \<Rightarrow> t')"
| "approval_step (Resolve now i decision who) t = snd (resolve_approval now i decision who t)"
| "approval_step (RejectForRun now run who decision) t =
     snd (reject_pending_approvals_for_run now run who decision t)"
| "approval_step (Expire now) t = snd (expire_pending_approvals now t)"

section \<open>Facts\<close>

lemma resolve_in_transaction_eq: "resolve_approval_in_transaction = resolve_approval"
  by (simp add: fun_eq_iff resolve_approval_in_transaction_def resolve_approval_def get_approval_def
      Let_def split: option.splits)

lemma select_approval_Some:
  assumes "select_approval_row p t = Some r"
  shows "r \<in> set t \<and> p r \<and> (\<forall>r'\<in>set t. p r' \<longrightarrow> ap_created_at r' \<le> ap_created_at r)"
proof -
  obtain rs where eq: "sql_desc ap_created_at (filter p t) = r # rs"
    using assms by (auto simp: select_approval_row_def split: list.splits)
  then have "r \<in> set (filter p t)"
    using set_sql_desc [of ap_created_at "filter p t"] by (metis list.set_intros(1))
  then show ?thesis using sql_desc_newest [OF _ eq] by auto
qed

lemma select_approval_None: "select_approval_row p t = None \<longleftrightarrow> (\<forall>r\<in>set t. \<not> p r)"
proof -
  have "sql_desc ap_created_at (filter p t) = [] \<longleftrightarrow> filter p t = []"
    using set_sql_desc [of ap_created_at "filter p t"] by (metis set_empty)
  then show ?thesis
    by (auto simp: select_approval_row_def filter_empty_conv split: list.splits)
qed

lemma get_approval_eq:
  assumes "keys_distinct ap_id t"
  shows "get_approval i t = row_of ap_id i t"
proof (cases "row_of ap_id i t")
  case None
  then have "select_approval_row (\<lambda>r. ap_id r = i) t = None"
    by (auto simp: select_approval_None row_of_None)
  then show ?thesis using None by (simp add: get_approval_def)
next
  case (Some r)
  then obtain r' where r': "select_approval_row (\<lambda>r. ap_id r = i) t = Some r'"
    using select_approval_None [of "\<lambda>r. ap_id r = i" t] row_of_Some [OF Some] by fastforce
  then have "row_of ap_id (ap_id r') t = Some r'"
    using select_approval_Some [OF r'] assms by (auto intro: row_of_member)
  then show ?thesis using r' select_approval_Some [OF r'] by (simp add: get_approval_def)
qed

lemma keys_distinct_approval_step: "keys_distinct ap_id t \<Longrightarrow> keys_distinct ap_id (approval_step a t)"
  by (cases a)
    (auto simp: create_approval_def resolve_approval_def reject_pending_approvals_for_run_def
      expire_pending_approvals_def Let_def sql_insert_Inr_iff keys_distinct_append
      split: option.splits sum.splits intro!: keys_distinct_update)

text \<open>A row that is no longer pending is decided: no operation changes it.\<close>

definition decided :: "Approval \<Rightarrow> approvals \<Rightarrow> bool" where
  "decided r t \<longleftrightarrow> row_of ap_id (ap_id r) t = Some r \<and> ap_status r \<noteq> APPROVAL_STATUS_PENDING"

lemma decided_step: "decided r t \<Longrightarrow> decided r (approval_step a t)"
  by (cases a)
    (auto simp: decided_def create_approval_def resolve_approval_def
      reject_pending_approvals_for_run_def expire_pending_approvals_def Let_def sql_insert_Inr_iff
      row_of_append row_of_update split: option.splits sum.splits)

interpretation approvals: settling_machine approval_step "keys_distinct ap_id" decided
  by unfold_locales (auto intro: keys_distinct_approval_step decided_step)

lemma expire_leaves_no_overdue:
  "\<forall>r\<in>set (snd (expire_pending_approvals now t)).
     ap_status r = APPROVAL_STATUS_PENDING \<longrightarrow> now \<le> ap_expires_at r"
  by (auto simp: expire_pending_approvals_def Let_def set_sql_update approval_text not_less)

lemma resolve_row:
  assumes "keys_distinct ap_id t" "status_for_decision d = Some st"
  shows "row_of ap_id i (snd (resolve_approval now i d who t)) =
    map_option (\<lambda>r. if ap_status r = APPROVAL_STATUS_PENDING
       then r\<lparr>ap_status := st, ap_decision := d, ap_resolved_by := who, ap_updated_at := now\<rparr>
       else r) (row_of ap_id i t)"
proof -
  have "row_of ap_id i t = Some r \<Longrightarrow> ap_id r = i" for r by (auto dest: row_of_Some)
  then show ?thesis
    using assms by (cases "row_of ap_id i t") (auto simp: resolve_approval_def Let_def row_of_update)
qed

lemma resolve_answer:
  assumes "keys_distinct ap_id t" "status_for_decision d = Some st"
  shows "fst (resolve_approval now i d who t) = row_of ap_id i (snd (resolve_approval now i d who t))"
proof -
  have "keys_distinct ap_id (snd (resolve_approval now i d who t))"
    using keys_distinct_approval_step [OF assms(1), of "Resolve now i d who"] by simp
  then have "get_approval i (snd (resolve_approval now i d who t)) =
      row_of ap_id i (snd (resolve_approval now i d who t))" by (rule get_approval_eq)
  then show ?thesis using assms(2) by (simp add: resolve_approval_def Let_def)
qed

lemma try_codes_Some: "try_codes n draw i t = Some c \<Longrightarrow> \<not> code_taken c t"
  by (induction n draw i t rule: try_codes.induct) (auto simp: Let_def split: if_splits)

lemma try_codes_None:
  "try_codes n draw i t = None \<Longrightarrow> i \<le> j \<Longrightarrow> j < i + n \<Longrightarrow> code_taken (show_06d (draw j)) t"
proof (induction n draw i t rule: try_codes.induct)
  case (2 left draw i t)
  then show ?case by (cases "j = i") (auto simp: Let_def split: if_splits)
qed simp

text \<open>The rows a code lookup may answer with.\<close>

definition answers_code :: "string \<Rightarrow> string \<Rightarrow> string \<Rightarrow> string \<Rightarrow> Approval \<Rightarrow> bool" where
  "answers_code code sender peer source r \<longleftrightarrow> ap_code r = code \<and> ap_status r = ''pending'' \<and>
     opt_eq sender (ap_sender_id r) \<and> opt_eq peer (ap_peer_id r) \<and> opt_eq source (ap_source r)"

section \<open>Properties\<close>

definition sample_request :: ApprovalRequest where
  "sample_request = \<lparr>rq_run_id = ''run'', rq_action = ''capability'', rq_source = ''local'',
     rq_peer_id = ''p'', rq_sender_id = ''u'', rq_requested_tool = ''shell.run'',
     rq_requested_permission = ''write'', rq_args_json = ''{}'', rq_reason = [],
     rq_ttl_seconds = 900, rq_code = ''000123''\<rparr>"

definition sample_approvals :: approvals where
  "sample_approvals = approval_step (Create ''a1'' (\<lambda>_. 7) 100 sample_request) []"

lemma sample_approvals_distinct: "keys_distinct ap_id sample_approvals"
  unfolding sample_approvals_def by (rule keys_distinct_approval_step) simp

text \<open>
  C6. A decision is final: an approval that is approved, rejected or expired keeps its whole row
  through every sequence of store operations; it is never decided again, reopened or deleted.
\<close>

theorem decision_is_final:
  assumes "keys_distinct ap_id t" and "row_of ap_id i t = Some r" and "ap_status r \<noteq> ''pending''"
  shows "row_of ap_id i (fold approval_step ops t) = Some r"
proof -
  have i: "ap_id r = i" using row_of_Some [OF assms(2)] by simp
  then have "decided r t" using assms by (simp add: decided_def approval_text)
  then have "decided r (fold approval_step ops t)"
    using assms(1) by (intro approvals.settled_run)
  then show ?thesis using i by (simp add: decided_def)
qed

theorem decision_is_final_witness:
  "map_option ap_status (row_of ap_id ''a1'' (fold approval_step [Resolve 300 ''a1'' ''approve'' ''x'']
     (approval_step (Resolve 200 ''a1'' ''reject'' ''u'') sample_approvals))) = Some ''rejected''"
proof -
  let ?t = "approval_step (Resolve 200 ''a1'' ''reject'' ''u'') sample_approvals"
  have kd: "keys_distinct ap_id ?t"
    by (rule keys_distinct_approval_step [OF sample_approvals_distinct])
  obtain r where r: "row_of ap_id ''a1'' ?t = Some r" "ap_status r = ''rejected''"
    by (simp add: sample_approvals_def create_approval_def Let_def sql_insert_def resolve_approval_def
        sql_simps row_of_Cons status_for_decision_def approval_text sample_request_def)
  have np: "ap_status r \<noteq> ''pending''" using r(2) by simp
  show ?thesis
    using decision_is_final [OF kd r(1) np, where ops = "[Resolve 300 ''a1'' ''approve'' ''x'']"] r
    by (simp del: approval_step.simps)
qed

text \<open>
  What resolving an approval answers and does: an unknown decision text changes nothing and
  answers \<open>None\<close>; otherwise the answer is the row as it now stands, which takes the decision
  exactly when it was pending, is the old row when it was already decided, and is \<open>None\<close> when
  the id is unknown. Other approvals keep their rows.
\<close>

theorem resolve_contract:
  assumes "keys_distinct ap_id t" and "resolve_approval now i d who t = (answer, t')"
  shows "if d \<notin> {''approve'', ''reject''} then answer = None \<and> t' = t
     else answer = row_of ap_id i t' \<and>
       answer = map_option (\<lambda>r. if ap_status r = ''pending''
         then r\<lparr>ap_status := (if d = ''approve'' then ''approved'' else ''rejected''),
                ap_decision := d, ap_resolved_by := who, ap_updated_at := now\<rparr>
         else r) (row_of ap_id i t) \<and>
       (\<forall>j. j \<noteq> i \<longrightarrow> row_of ap_id j t' = row_of ap_id j t)"
proof (cases "status_for_decision d")
  case None
  then show ?thesis
    using assms(2)
    by (auto simp: resolve_approval_def status_for_decision_def approval_text split: if_splits)
next
  case (Some st)
  have st: "d \<in> {''approve'', ''reject''}" "st = (if d = ''approve'' then ''approved'' else ''rejected'')"
    using Some by (auto simp: status_for_decision_def approval_text split: if_splits)
  have "j \<noteq> i \<Longrightarrow> row_of ap_id j (snd (resolve_approval now i d who t)) = row_of ap_id j t" for j
    using Some by (cases "row_of ap_id j t")
      (auto simp: resolve_approval_def Let_def row_of_update dest: row_of_Some)
  then show ?thesis
    using resolve_row [OF assms(1) Some, of i now who] resolve_answer [OF assms(1) Some, of now i who]
      st assms(2)
    by (cases "d = ''approve''") (auto simp: approval_text)
qed

theorem resolve_contract_witness:
  "map_option ap_status (fst (resolve_approval 200 ''a1'' ''approve'' ''u'' sample_approvals))
     = Some ''approved''"
proof -
  obtain answer t' where r: "resolve_approval 200 ''a1'' ''approve'' ''u'' sample_approvals = (answer, t')"
    by fastforce
  have "map_option ap_status (row_of ap_id ''a1'' sample_approvals) = Some ''pending''"
    by (simp add: sample_approvals_def create_approval_def Let_def sql_insert_def row_of_Cons
        approval_text)
  then show ?thesis using resolve_contract [OF sample_approvals_distinct r] r by auto
qed

text \<open>
  A code lookup is safe: after \<open>pending_approval_by_code\<close> no overdue approval is left
  pending, and the answer is a pending approval with that code that has not expired, matches every
  identity value the caller gave, and is the newest such one. \<open>None\<close> means there is no such
  approval.
\<close>

theorem pending_lookup_sound:
  assumes "pending_approval_by_code now code sender peer source t = (answer, t')"
  shows "(\<forall>r\<in>set t'. ap_status r = ''pending'' \<longrightarrow> now \<le> ap_expires_at r) \<and>
    (case answer of
       None \<Rightarrow> \<forall>r\<in>set t'. \<not> answers_code code sender peer source r
     | Some r \<Rightarrow> r \<in> set t' \<and> answers_code code sender peer source r \<and> now \<le> ap_expires_at r
         \<and> (\<forall>r'\<in>set t'. answers_code code sender peer source r' \<longrightarrow> ap_created_at r' \<le> ap_created_at r))"
proof
  have t': "t' = snd (expire_pending_approvals now t)"
    and a: "answer = select_approval_row (answers_code code sender peer source) t'"
    using assms
    by (auto simp: pending_approval_by_code_def Let_def answers_code_def [abs_def] approval_text
        approval_filters_def opt_eq_def)
  show fresh: "\<forall>r\<in>set t'. ap_status r = ''pending'' \<longrightarrow> now \<le> ap_expires_at r"
    using expire_leaves_no_overdue [of now t] t' by (simp add: approval_text)
  show "case answer of
       None \<Rightarrow> \<forall>r\<in>set t'. \<not> answers_code code sender peer source r
     | Some r \<Rightarrow> r \<in> set t' \<and> answers_code code sender peer source r \<and> now \<le> ap_expires_at r
         \<and> (\<forall>r'\<in>set t'. answers_code code sender peer source r' \<longrightarrow> ap_created_at r' \<le> ap_created_at r)"
  proof (cases answer)
    case None
    then have "select_approval_row (answers_code code sender peer source) t' = None" using a by simp
    then have "\<forall>r\<in>set t'. \<not> answers_code code sender peer source r"
      by (simp only: select_approval_None)
    then show ?thesis using None by simp
  next
    case (Some r)
    then have "select_approval_row (answers_code code sender peer source) t' = Some r" using a by simp
    from select_approval_Some [OF this] Some fresh show ?thesis by (simp add: answers_code_def)
  qed
qed

theorem pending_lookup_sound_witness:
  "filter (\<lambda>r. ap_status r = ''pending'' \<and> ap_expires_at r < 5000)
     (snd (pending_approval_by_code 5000 ''000123'' ''u'' [] [] sample_approvals)) = []"
proof -
  obtain answer t' where l:
      "pending_approval_by_code 5000 ''000123'' ''u'' [] [] sample_approvals = (answer, t')" by fastforce
  show ?thesis using pending_lookup_sound [OF l] l by (simp add: filter_empty_conv not_less)
qed

text \<open>
  Creation: the new approval is pending and last in the table, it lives at least a minute and
  at most a day, and the code drawn for it is not the code of another pending approval unless all
  twenty draws are taken.
\<close>

theorem create_approval_contract:
  assumes "create_approval i draw now rq t = Inr (a, t')"
  shows "t' = t @ [a] \<and> ap_status a = ''pending'' \<and> row_of ap_id i t = None \<and>
    now + 60 \<le> ap_expires_at a \<and> ap_expires_at a \<le> now + 86400 \<and>
    (rq_code rq \<noteq> [] \<longrightarrow> ap_code a = rq_code rq) \<and>
    (rq_code rq = [] \<and> (\<exists>j<20. \<not> code_taken (show_06d (draw j)) t) \<longrightarrow> \<not> code_taken (ap_code a) t)"
proof -
  have a: "t' = t @ [a]" "row_of ap_id i t = None"
    "ap_code a = (if rq_code rq \<noteq> [] then rq_code rq else new_approval_code draw now t)"
    "ap_expires_at a = ttl_expiry now (rq_ttl_seconds rq)" "ap_status a = ''pending''"
    using assms by (auto simp: create_approval_def Let_def sql_insert_Inr_iff approval_text)
  have "\<not> code_taken (new_approval_code draw now t) t" if "j < 20" "\<not> code_taken (show_06d (draw j)) t" for j
  proof -
    have "try_codes 20 draw 0 t \<noteq> None" using that try_codes_None [of 20 draw 0 t j] by auto
    then show ?thesis by (auto simp: new_approval_code_def dest: try_codes_Some)
  qed
  moreover have "(60::rat) \<le> of_int (max 60 (min k (24 * 60 * 60)))" for k
    by (simp add: of_int_max of_int_min)
  moreover have "of_int (max 60 (min k (24 * 60 * 60))) \<le> (86400::rat)" for k
    by (simp add: of_int_max of_int_min)
  ultimately show ?thesis using a by (auto simp: ttl_expiry_def)
qed

theorem create_approval_contract_witness:
  "\<exists>a t'. create_approval ''a2'' (\<lambda>_. 7) 100 (sample_request\<lparr>rq_code := []\<rparr>) sample_approvals = Inr (a, t')
     \<and> \<not> code_taken (ap_code a) sample_approvals"
proof -
  have "row_of ap_id ''a2'' sample_approvals = None"
    by (simp add: sample_approvals_def create_approval_def Let_def sql_insert_def row_of_Cons)
  then obtain a t' where c:
      "create_approval ''a2'' (\<lambda>_. 7) 100 (sample_request\<lparr>rq_code := []\<rparr>) sample_approvals = Inr (a, t')"
    by (simp add: create_approval_def Let_def sql_insert_Inr_iff)
  have "\<not> code_taken (show_06d 7) sample_approvals"
    by code_simp
  then have "\<exists>j<20::nat. \<not> code_taken (show_06d 7) sample_approvals"
    by (intro exI [of _ 0]) simp
  then show ?thesis using create_approval_contract [OF c] c by auto
qed

end
