(* ===== verification/Run_Store.thy ===== *)
theory Run_Store
  imports Approval_Store
begin

text \<open>
  \<open>navi/runs/store.py\<close> and \<open>navi/runs/_tool_call_log_store.py\<close>: governed runs and the
  receipts of capability calls. The database file has the tables \<open>runs\<close>, \<open>tool_call_logs\<close> and
  \<open>approvals\<close>, which \<open>_init_db\<close> creates.
\<close>

section \<open>State\<close>

record RunDb =
  db_runs :: "Run list"
  db_logs :: "ToolCallLog list"
  db_approvals :: approvals

definition run_store_tables :: "string list" where
  "run_store_tables = [''schema_versions'', ''runs'', ''tool_call_logs'', ''approvals'']"

text \<open>A statement on a table that was never created raises \<open>OperationalError\<close>.\<close>

definition on_table :: "string \<Rightarrow> (RunDb \<Rightarrow> RunDb) \<Rightarrow> RunDb \<Rightarrow> RunDb result" where
  "on_table table stmt db =
     (if table \<in> set run_store_tables then Inr (stmt db)
      else Inl (OperationalError (''no such table: '' @ table)))"

section \<open>Tool call logs\<close>

definition add_tool_call_log ::
  "string \<Rightarrow> string \<Rightarrow> string \<Rightarrow> bool \<Rightarrow> json option \<Rightarrow> string \<Rightarrow> time \<Rightarrow> time \<Rightarrow> string \<Rightarrow> string
     \<Rightarrow> RunDb \<Rightarrow> (ToolCallLog \<times> RunDb) result" where
  "add_tool_call_log fresh_id tool args_json ok facts error started_at ended_at rid trace_id db =
     (let log = \<lparr>log_id = fresh_id, log_tool = tool, log_args_json = args_json, log_ok = ok,
                 log_facts = facts, log_error = error, log_started_at = started_at,
                 log_ended_at = ended_at, log_run_id = rid, log_trace_id = trace_id\<rparr>
      in and_then (sql_insert log_id log (db_logs db)) (\<lambda>logs. Inr (log, db\<lparr>db_logs := logs\<rparr>)))"

definition list_tool_call_logs :: "int \<Rightarrow> RunDb \<Rightarrow> ToolCallLog list" where
  "list_tool_call_logs limit db = sql_limit limit (sql_desc log_started_at (db_logs db))"

definition complete_tool_call_log ::
  "string \<Rightarrow> bool \<Rightarrow> json option \<Rightarrow> string \<Rightarrow> time \<Rightarrow> RunDb \<Rightarrow> (ToolCallLog \<times> RunDb) result" where
  "complete_tool_call_log lid ok facts error ended_at db =
     (let p = (\<lambda>r. log_id r = lid);
          missing = KeyError (''tool call audit reservation not found: '' @ lid)
      in if sql_count p (db_logs db) \<noteq> 1 then Inl missing
         else let logs = sql_update p (\<lambda>r. r\<lparr>log_ok := ok, log_facts := facts, log_error := error,
                                             log_ended_at := ended_at\<rparr>) (db_logs db)
              in case sql_one p logs of
                   None \<Rightarrow> Inl missing
                 | Some row \<Rightarrow> Inr (row, db\<lparr>db_logs := logs\<rparr>))"

definition list_tool_call_logs_for_run :: "string \<Rightarrow> int \<Rightarrow> RunDb \<Rightarrow> ToolCallLog list" where
  "list_tool_call_logs_for_run rid limit db =
     sql_limit limit (sql_asc log_started_at (filter (\<lambda>r. log_run_id r = rid) (db_logs db)))"

section \<open>Runs\<close>

record RunDraft =
  dr_title :: string
  dr_kind :: string
  dr_prompt :: string
  dr_source :: string
  dr_peer_id :: string
  dr_sender_id :: string
  dr_provider :: string
  dr_workspace :: string
  dr_autonomy_level :: string
  dr_trust_rule_id :: string
  dr_why_now :: string
  dr_phase :: string
  dr_governance :: string
  dr_acceptance :: string
  dr_resolution :: string

definition create_run :: "string \<Rightarrow> time \<Rightarrow> RunDraft \<Rightarrow> RunDb \<Rightarrow> (Run \<times> RunDb) result" where
  "create_run fresh_id now d db =
     and_then (require_workspace (dr_workspace d)) (\<lambda>workspace.
     let run = \<lparr>run_id = fresh_id, run_title = dr_title d, run_phase = dr_phase d,
           run_governance = dr_governance d, run_acceptance = dr_acceptance d,
           run_resolution = dr_resolution d, run_created_at = now, run_updated_at = now,
           run_kind = dr_kind d,
           run_prompt = (if dr_prompt d \<noteq> [] then dr_prompt d else dr_title d),
           run_source = dr_source d, run_peer_id = dr_peer_id d, run_sender_id = dr_sender_id d,
           run_provider = dr_provider d, run_workspace = workspace,
           run_autonomy_level = dr_autonomy_level d, run_trust_rule_id = dr_trust_rule_id d,
           run_why_now = dr_why_now d, run_plan_summary = [], run_result_summary = [],
           run_error = []\<rparr>
     in and_then (sql_insert run_id run (db_runs db)) (\<lambda>runs. Inr (run, db\<lparr>db_runs := runs\<rparr>)))"

definition get_run :: "string \<Rightarrow> RunDb \<Rightarrow> Run option" where
  "get_run rid db = row_of run_id rid (db_runs db)"

definition list_runs :: "int \<Rightarrow> int \<Rightarrow> RunDb \<Rightarrow> Run list" where
  "list_runs limit offset db = sql_limit limit (sql_offset offset (sql_desc run_updated_at (db_runs db)))"

definition list_by_phase :: "string \<Rightarrow> int \<Rightarrow> RunDb \<Rightarrow> Run list" where
  "list_by_phase phase limit db =
     sql_limit limit (sql_asc run_updated_at (filter (\<lambda>r. run_phase r = phase) (db_runs db)))"

definition list_by_phase_filtered :: "string \<Rightarrow> string \<Rightarrow> string \<Rightarrow> int option \<Rightarrow> RunDb \<Rightarrow> Run list" where
  "list_by_phase_filtered phase source kind limit db =
     (let rows = sql_asc run_updated_at (filter (\<lambda>r. run_phase r = phase
            \<and> opt_eq source (run_source r) \<and> opt_eq kind (run_kind r)) (db_runs db))
      in case limit of None \<Rightarrow> rows | Some n \<Rightarrow> sql_limit n rows)"

definition count_runs :: "string \<Rightarrow> string \<Rightarrow> string \<Rightarrow> RunDb \<Rightarrow> nat" where
  "count_runs phase source kind db =
     sql_count (\<lambda>r. opt_eq phase (run_phase r) \<and> opt_eq source (run_source r)
        \<and> opt_eq kind (run_kind r)) (db_runs db)"

definition count_runs_by_phase :: "RunDb \<Rightarrow> (string \<times> nat) list" where
  "count_runs_by_phase db =
     map (\<lambda>phase. (phase, sql_count (\<lambda>r. run_phase r = phase) (db_runs db)))
       (sort (remdups (map run_phase (db_runs db))))"

definition list_by_phases :: "string list \<Rightarrow> int \<Rightarrow> RunDb \<Rightarrow> Run list" where
  "list_by_phases phases limit db =
     (if phases = [] then []
      else sql_limit limit
        (sql_asc run_updated_at (filter (\<lambda>r. run_phase r \<in> set phases) (db_runs db))))"

definition run_in_scope :: "string \<Rightarrow> string \<Rightarrow> string \<Rightarrow> string \<Rightarrow> Run \<Rightarrow> bool" where
  "run_in_scope source peer_id sender_id workspace r =
     append_actor_scope source peer_id sender_id workspace
       (run_source r) (run_peer_id r) (run_sender_id r) (run_workspace r)"

definition list_by_phases_scoped ::
  "string list \<Rightarrow> string \<Rightarrow> string \<Rightarrow> string \<Rightarrow> string \<Rightarrow> string \<Rightarrow> string \<Rightarrow> int \<Rightarrow> RunDb \<Rightarrow> Run list" where
  "list_by_phases_scoped phases source peer_id sender_id workspace kind plan_summary limit db =
     (if phases = [] then []
      else sql_limit (max 1 limit) (sql_asc run_updated_at (filter (\<lambda>r. run_phase r \<in> set phases
        \<and> run_in_scope source peer_id sender_id workspace r \<and> opt_eq kind (run_kind r)
        \<and> opt_eq plan_summary (run_plan_summary r)) (db_runs db))))"

definition count_by_phases_scoped ::
  "string list \<Rightarrow> string \<Rightarrow> string \<Rightarrow> string \<Rightarrow> string \<Rightarrow> RunDb \<Rightarrow> nat" where
  "count_by_phases_scoped phases source peer_id sender_id workspace db =
     (if phases = [] then 0
      else sql_count (\<lambda>r. run_phase r \<in> set phases
        \<and> run_in_scope source peer_id sender_id workspace r) (db_runs db))"

definition list_active_workspaces :: "RunDb \<Rightarrow> string set" where
  "list_active_workspaces db =
     set (map run_workspace (filter (\<lambda>r. run_phase r \<in> {''pending'', ''running'', ''paused''}
        \<and> run_workspace r \<noteq> []) (db_runs db)))"

text \<open>The three deletions of \<open>delete_run\<close>, in order, inside one transaction.\<close>

definition delete_run :: "string \<Rightarrow> RunDb \<Rightarrow> (Run option \<times> RunDb) result" where
  "delete_run rid db =
     (case get_run rid db of
        None \<Rightarrow> Inr (None, db)
      | Some run \<Rightarrow>
          and_then (on_table ''execution_logs'' (\<lambda>db. db) db) (\<lambda>db.
          and_then (on_table ''approvals'' (\<lambda>db. db\<lparr>db_approvals :=
              sql_delete (\<lambda>r. ap_run_id r = rid) (db_approvals db)\<rparr>) db) (\<lambda>db.
          and_then (on_table ''runs'' (\<lambda>db. db\<lparr>db_runs :=
              sql_delete (\<lambda>r. run_id r = rid) (db_runs db)\<rparr>) db) (\<lambda>db.
          Inr (Some run, db)))))"

text \<open>The optional keyword arguments of an update: \<open>None\<close> keeps the column.\<close>

record RunUpdates =
  up_phase :: "string option"
  up_governance :: "string option"
  up_acceptance :: "string option"
  up_resolution :: "string option"
  up_plan_summary :: "string option"
  up_result_summary :: "string option"
  up_error :: "string option"
  up_trust_rule_id :: "string option"
  up_autonomy_level :: "string option"

definition no_updates :: RunUpdates where
  "no_updates = \<lparr>up_phase = None, up_governance = None, up_acceptance = None,
     up_resolution = None, up_plan_summary = None, up_result_summary = None, up_error = None,
     up_trust_rule_id = None, up_autonomy_level = None\<rparr>"

definition or_keep :: "'a option \<Rightarrow> 'a \<Rightarrow> 'a" where
  "or_keep v old = (case v of None \<Rightarrow> old | Some new \<Rightarrow> new)"

definition merge_run_updates :: "time \<Rightarrow> RunUpdates \<Rightarrow> Run \<Rightarrow> Run \<Rightarrow> Run" where
  "merge_run_updates now u run row =
     row\<lparr>run_phase := or_keep (up_phase u) (run_phase run),
         run_governance := or_keep (up_governance u) (run_governance run),
         run_acceptance := or_keep (up_acceptance u) (run_acceptance run),
         run_resolution := or_keep (up_resolution u) (run_resolution run),
         run_plan_summary := or_keep (up_plan_summary u) (run_plan_summary run),
         run_result_summary := or_keep (up_result_summary u) (run_result_summary run),
         run_error := or_keep (up_error u) (run_error run),
         run_trust_rule_id := or_keep (up_trust_rule_id u) (run_trust_rule_id run),
         run_autonomy_level := or_keep (up_autonomy_level u) (run_autonomy_level run),
         run_updated_at := now\<rparr>"

definition update_run :: "time \<Rightarrow> string \<Rightarrow> RunUpdates \<Rightarrow> RunDb \<Rightarrow> Run option \<times> RunDb" where
  "update_run now rid u db =
     (case get_run rid db of
        None \<Rightarrow> (None, db)
      | Some run \<Rightarrow>
          let db' = db\<lparr>db_runs := sql_update (\<lambda>r. run_id r = rid) (merge_run_updates now u run) (db_runs db)\<rparr>
          in (get_run rid db', db'))"

text \<open>The same statements on the caller's connection.\<close>

definition update_run_in_transaction ::
  "time \<Rightarrow> string \<Rightarrow> RunUpdates \<Rightarrow> Run list \<Rightarrow> Run option \<times> Run list" where
  "update_run_in_transaction now rid u runs =
     (case row_of run_id rid runs of
        None \<Rightarrow> (None, runs)
      | Some run \<Rightarrow>
          let runs' = sql_update (\<lambda>r. run_id r = rid) (merge_run_updates now u run) runs
          in (row_of run_id rid runs', runs'))"

section \<open>Reconciliation of approved capability runs\<close>

definition receipt_settles :: "ToolCallLog \<Rightarrow> bool" where
  "receipt_settles row =
     (case log_facts row of
        Some (JDict facts) \<Rightarrow>
          jget facts ''audit_phase'' = JStr ''completed''
          \<and> str_or_empty (jget facts ''loop_terminal_state'') \<notin> {''paused'', ''waiting_approval''}
      | _ \<Rightarrow> False)"

definition select_settleable_receipt :: "ToolCallLog list \<Rightarrow> ToolCallLog list \<Rightarrow> ToolCallLog option" where
  "select_settleable_receipt linked legacy =
     (if linked \<noteq> [] then Some (last linked)
      else case legacy of [r] \<Rightarrow> Some r | _ \<Rightarrow> None)"

definition receipt_for :: "string \<Rightarrow> Approval \<Rightarrow> ToolCallLog list \<Rightarrow> ToolCallLog option" where
  "receipt_for rid a logs =
     (let rows = sql_asc log_started_at (filter (\<lambda>l. log_tool l = ap_requested_tool a
            \<and> ap_updated_at a \<le> log_started_at l \<and> log_started_at l \<le> ap_expires_at a
            \<and> (log_run_id l = rid \<or> (log_run_id l = [] \<and> log_args_json l = ap_args_json a))) logs);
          settleable = filter receipt_settles rows
      in select_settleable_receipt (filter (\<lambda>l. log_run_id l = rid) settleable)
           (filter (\<lambda>l. log_run_id l = []) settleable))"

definition receipt_error :: "bool \<Rightarrow> string \<Rightarrow> string" where
  "receipt_error ok error = (if ok then [] else if error \<noteq> [] then error else ''capability_failed'')"

definition settle_run :: "time \<Rightarrow> Approval \<Rightarrow> ToolCallLog \<Rightarrow> Run \<Rightarrow> Run" where
  "settle_run now a l r =
     r\<lparr>run_phase := ''ended'', run_governance := ''approved'',
       run_acceptance := (if log_ok l then ''accepted'' else ''rejected''),
       run_resolution := (if log_ok l then ''success'' else ''failed''),
       run_result_summary := ''approved capability receipt reconciled ok=''
          @ (if log_ok l then ''true'' else ''false'') @ '' tool='' @ ap_requested_tool a
          @ '' audit_log_id='' @ log_id l,
       run_error := receipt_error (log_ok l) (log_error l),
       run_updated_at := now\<rparr>"

record Reconciled =
  rc_run_id :: string
  rc_approval_id :: string
  rc_audit_log_id :: string
  rc_ok :: bool
  rc_legacy_receipt_linked :: bool

definition open_phase :: "Run \<Rightarrow> bool" where
  "open_phase r = (run_phase r \<in> {''pending'', ''running''})"

definition reconcile_candidates :: "RunDb \<Rightarrow> (string \<times> Approval) list" where
  "reconcile_candidates db =
     sort_key (\<lambda>(rid, a). ap_updated_at a)
       (concat (map (\<lambda>r. map (\<lambda>a. (run_id r, a)) (filter (\<lambda>a. ap_run_id a = run_id r
            \<and> run_kind r = ''capability_approval'' \<and> open_phase r \<and> ap_status a = ''approved'')
          (db_approvals db))) (db_runs db)))"

text \<open>One settlement: an unlinked legacy receipt is linked, and the run is closed if still open.\<close>

definition link_receipt :: "string \<Rightarrow> ToolCallLog \<Rightarrow> RunDb \<Rightarrow> RunDb" where
  "link_receipt rid l db =
     (if log_run_id l = []
      then db\<lparr>db_logs := sql_update (\<lambda>x. log_id x = log_id l \<and> log_run_id x = [])
             (\<lambda>x. x\<lparr>log_run_id := rid\<rparr>) (db_logs db)\<rparr>
      else db)"

definition settle_one :: "time \<Rightarrow> string \<Rightarrow> Approval \<Rightarrow> ToolCallLog \<Rightarrow> RunDb \<Rightarrow> RunDb" where
  "settle_one now rid a l db =
     (let db = link_receipt rid l db
      in db\<lparr>db_runs := sql_update (\<lambda>r. run_id r = rid \<and> open_phase r) (settle_run now a l) (db_runs db)\<rparr>)"

definition reconciled_facts :: "string \<Rightarrow> Approval \<Rightarrow> ToolCallLog \<Rightarrow> Reconciled" where
  "reconciled_facts rid a l =
     \<lparr>rc_run_id = rid, rc_approval_id = ap_id a, rc_audit_log_id = log_id l,
      rc_ok = log_ok l, rc_legacy_receipt_linked = (log_run_id l = [])\<rparr>"

fun reconcile_loop ::
  "time \<Rightarrow> (string \<times> Approval) list \<Rightarrow> RunDb \<Rightarrow> Reconciled list \<times> RunDb" where
  "reconcile_loop now [] db = ([], db)"
| "reconcile_loop now ((rid, a) # cands) db =
     (case receipt_for rid a (db_logs db) of
        None \<Rightarrow> reconcile_loop now cands db
      | Some l \<Rightarrow>
          let (out, db') = reconcile_loop now cands (settle_one now rid a l db)
          in (reconciled_facts rid a l # out, db'))"

definition reconcile_completed_capability_approvals :: "time \<Rightarrow> RunDb \<Rightarrow> Reconciled list \<times> RunDb" where
  "reconcile_completed_capability_approvals now db = reconcile_loop now (reconcile_candidates db) db"

section \<open>Facts\<close>

lemma merge_run_updates_id [simp]: "run_id (merge_run_updates now u run row) = run_id row"
  by (simp add: merge_run_updates_def)

lemma update_run_in_transaction_eq:
  "update_run now rid u db =
     (fst (update_run_in_transaction now rid u (db_runs db)),
      db\<lparr>db_runs := snd (update_run_in_transaction now rid u (db_runs db))\<rparr>)"
  by (auto simp: update_run_def update_run_in_transaction_def get_run_def Let_def split: option.splits)

lemma update_run_rows:
  "row_of run_id j (snd (update_run_in_transaction now rid u runs)) =
     (if j = rid then map_option (\<lambda>r. merge_run_updates now u r r) (row_of run_id j runs)
      else row_of run_id j runs)"
proof (cases "row_of run_id rid runs")
  case None
  then show ?thesis by (simp add: update_run_in_transaction_def)
next
  case (Some run)
  then have "row_of run_id j (snd (update_run_in_transaction now rid u runs)) =
      map_option (\<lambda>r. if run_id r = rid then merge_run_updates now u run r else r) (row_of run_id j runs)"
    by (simp add: update_run_in_transaction_def Let_def row_of_update)
  then show ?thesis
    using Some by (cases "row_of run_id j runs") (auto dest: row_of_Some)
qed

lemma settle_run_fields [simp]:
  "run_id (settle_run now a l r) = run_id r" "run_phase (settle_run now a l r) = ''ended''"
  by (simp_all add: settle_run_def)

lemma settle_one_runs:
  "db_runs (settle_one now rid a l db) =
     sql_update (\<lambda>r. run_id r = rid \<and> open_phase r) (settle_run now a l) (db_runs db)"
  by (simp add: settle_one_def link_receipt_def)

lemma settle_one_approvals [simp]: "db_approvals (settle_one now rid a l db) = db_approvals db"
  by (simp add: settle_one_def link_receipt_def)

lemma reconcile_loop_approvals: "db_approvals (snd (reconcile_loop now cands db)) = db_approvals db"
  by (induction now cands db rule: reconcile_loop.induct)
    (auto simp: split_beta split: option.splits)

lemma settle_one_row:
  assumes "row_of run_id j (db_runs db) = Some r"
  shows "row_of run_id j (db_runs (settle_one now rid a l db)) =
    Some (if j = rid \<and> open_phase r then settle_run now a l r else r)"
proof -
  have "row_of run_id j (db_runs (settle_one now rid a l db)) = map_option
      (\<lambda>r. if run_id r = rid \<and> open_phase r then settle_run now a l r else r) (row_of run_id j (db_runs db))"
    by (simp add: settle_one_runs row_of_update)
  then show ?thesis using assms row_of_Some [OF assms] by simp
qed

text \<open>One row through the loop: unchanged, or settled once by the receipt of one candidate.\<close>

lemma reconcile_loop_row:
  assumes "row_of run_id j (db_runs db) = Some r"
  shows "row_of run_id j (db_runs (snd (reconcile_loop now cands db))) = Some r \<or>
    open_phase r \<and> (\<exists>a l. (j, a) \<in> set cands \<and>
      row_of run_id j (db_runs (snd (reconcile_loop now cands db))) = Some (settle_run now a l r))"
  using assms
proof (induction now cands db arbitrary: r rule: reconcile_loop.induct)
  case (2 now rid a cands db)
  show ?case
  proof (cases "receipt_for rid a (db_logs db)")
    case None
    then show ?thesis using 2 by auto
  next
    case (Some l)
    note IH = "2.IH"(2) [OF Some settle_one_row [OF "2.prems"]]
    show ?thesis
    proof (cases "j = rid \<and> open_phase r")
      case True
      then have "\<not> open_phase (settle_run now a l r)" by (simp add: open_phase_def)
      then show ?thesis using IH True Some by (auto simp: split_beta)
    next
      case False
      then show ?thesis using IH Some by (auto simp: split_beta split: if_splits)
    qed
  qed
qed simp

lemma reconcile_loop_closed:
  assumes "row_of run_id j (db_runs db) = Some r" "\<not> open_phase r"
  shows "row_of run_id j (db_runs (snd (reconcile_loop now cands db))) = Some r"
  using reconcile_loop_row [OF assms(1)] assms(2) by blast

lemma candidate_iff:
  "(rid, a) \<in> set (reconcile_candidates db) \<longleftrightarrow>
     (\<exists>r\<in>set (db_runs db). run_id r = rid \<and> run_kind r = ''capability_approval'' \<and> open_phase r \<and>
        a \<in> set (db_approvals db) \<and> ap_run_id a = rid \<and> ap_status a = ''approved'')"
  by (auto simp: reconcile_candidates_def)


text \<open>
  What a receipt has to show before it may close the run of an approval: the approved tool within the
  time of the approval, completed, and either under the identifier of the run or, unlinked, with exactly
  the arguments of the approval.
\<close>

definition receipt_evidence :: "string \<Rightarrow> Approval \<Rightarrow> ToolCallLog \<Rightarrow> bool" where
  "receipt_evidence rid a l \<longleftrightarrow> log_tool l = ap_requested_tool a \<and> ap_updated_at a \<le> log_started_at l \<and>
     log_started_at l \<le> ap_expires_at a \<and> receipt_settles l \<and>
     (log_run_id l = rid \<or> log_run_id l = [] \<and> log_args_json l = ap_args_json a)"

lemma select_settleable_member:
  "select_settleable_receipt linked legacy = Some l \<Longrightarrow> l \<in> set linked \<union> set legacy"
  by (auto simp: select_settleable_receipt_def split: if_splits list.splits)

lemma receipt_for_Some:
  assumes "receipt_for rid a logs = Some l"
  shows "l \<in> set logs \<and> receipt_evidence rid a l"
  using select_settleable_member [OF assms [unfolded receipt_for_def Let_def]]
  by (auto simp: receipt_evidence_def)

text \<open>The settlement of one run gives another run no receipt.\<close>

lemma settle_one_logs:
  assumes "l \<in> set (db_logs (settle_one now rid a l' db))" "log_run_id l \<in> {j, []}" "rid \<noteq> j"
  shows "l \<in> set (db_logs db)"
proof -
  obtain l0 where l0: "l0 \<in> set (db_logs db)" "l = l0 \<or> log_run_id l0 = [] \<and> l = l0\<lparr>log_run_id := rid\<rparr>"
    using assms(1) by (auto simp: settle_one_def link_receipt_def Let_def set_sql_update split: if_splits)
  have "l0\<lparr>log_run_id := []\<rparr> = l0" if "log_run_id l0 = []" using that by (cases l0) simp
  then have "l = l0" if "log_run_id l = []" using l0(2) that by (metis ToolCallLog.select_convs(9) ToolCallLog.surjective ToolCallLog.update_convs(9))
  moreover have "l = l0" if "log_run_id l = j" using l0(2) that assms(3) by auto
  ultimately show ?thesis using l0(1) assms(2) by auto
qed

lemma reconcile_loop_evidence:
  assumes "row_of run_id j (db_runs db) = Some r"
  shows "row_of run_id j (db_runs (snd (reconcile_loop now cands db))) = Some r \<or>
    open_phase r \<and> (\<exists>a l. (j, a) \<in> set cands \<and> l \<in> set (db_logs db) \<and> receipt_evidence j a l \<and>
      row_of run_id j (db_runs (snd (reconcile_loop now cands db))) = Some (settle_run now a l r))"
  using assms
proof (induction now cands db arbitrary: r rule: reconcile_loop.induct)
  case (2 now rid a cands db)
  show ?case
  proof (cases "receipt_for rid a (db_logs db)")
    case None
    then show ?thesis using 2 by auto
  next
    case (Some l)
    have evidence: "l \<in> set (db_logs db)" "receipt_evidence rid a l" using receipt_for_Some [OF Some] by auto
    let ?db = "settle_one now rid a l db"
    have out: "snd (reconcile_loop now ((rid, a) # cands) db) = snd (reconcile_loop now cands ?db)"
      using Some by (simp add: split_beta)
    have row: "row_of run_id j (db_runs ?db) = Some (if j = rid \<and> open_phase r then settle_run now a l r else r)"
      by (rule settle_one_row [OF "2.prems"])
    show ?thesis
    proof (cases "j = rid")
      case True
      have "\<not> open_phase (if j = rid \<and> open_phase r then settle_run now a l r else r)"
        using True by (simp add: open_phase_def)
      then have "row_of run_id j (db_runs (snd (reconcile_loop now cands ?db))) =
          Some (if j = rid \<and> open_phase r then settle_run now a l r else r)"
        by (rule reconcile_loop_closed [OF row])
      then show ?thesis unfolding out using True evidence by auto
    next
      case False
      then have "row_of run_id j (db_runs ?db) = Some r" using row by simp
      then consider "row_of run_id j (db_runs (snd (reconcile_loop now cands ?db))) = Some r"
        | a' l' where "open_phase r" "(j, a') \<in> set cands" "l' \<in> set (db_logs ?db)" "receipt_evidence j a' l'"
            "row_of run_id j (db_runs (snd (reconcile_loop now cands ?db))) = Some (settle_run now a' l' r)"
        using "2.IH"(2) [OF Some] by blast
      then show ?thesis
      proof cases
        case 1
        then show ?thesis unfolding out by blast
      next
        case 2
        have "log_run_id l' \<in> {j, []}" using 2(4) by (auto simp: receipt_evidence_def)
        then have "l' \<in> set (db_logs db)" using settle_one_logs [OF 2(3)] False by auto
        then show ?thesis unfolding out using 2 by auto
      qed
    qed
  qed
qed simp

lemma reconcile_loop_reported:
  assumes "rc \<in> set (fst (reconcile_loop now cands db))"
    and "row_of run_id (rc_run_id rc) (db_runs db) = Some r"
  shows "\<exists>r'. row_of run_id (rc_run_id rc) (db_runs (snd (reconcile_loop now cands db))) = Some r'
    \<and> \<not> open_phase r'"
  using assms
proof (induction now cands db arbitrary: r rule: reconcile_loop.induct)
  case (2 now rid a cands db)
  show ?case
  proof (cases "receipt_for rid a (db_logs db)")
    case None
    then show ?thesis using 2 by auto
  next
    case (Some l)
    let ?db = "settle_one now rid a l db"
    let ?j = "rc_run_id rc"
    have out: "snd (reconcile_loop now ((rid, a) # cands) db) = snd (reconcile_loop now cands ?db)"
      using Some by (simp add: split_beta)
    note row = settle_one_row [OF "2.prems"(2), of now rid a l]
    show ?thesis
    proof (cases "?j = rid")
      case True
      then have closed: "\<not> open_phase (if ?j = rid \<and> open_phase r then settle_run now a l r else r)"
        by (simp add: open_phase_def)
      show ?thesis unfolding out using reconcile_loop_closed [OF row closed] closed by blast
    next
      case False
      then have "rc \<in> set (fst (reconcile_loop now cands ?db))"
        using "2.prems"(1) Some by (auto simp: split_beta reconciled_facts_def)
      then show ?thesis unfolding out using "2.IH"(2) [OF Some _ row] by blast
    qed
  qed
qed simp

lemma reconcile_loop_reports_candidates:
  "rc \<in> set (fst (reconcile_loop now cands db)) \<Longrightarrow> \<exists>a. (rc_run_id rc, a) \<in> set cands"
  by (induction now cands db rule: reconcile_loop.induct)
    (auto simp: split_beta reconciled_facts_def split: option.splits)

lemma reconcile_loop_keys:
  "keys_distinct run_id (db_runs db) \<Longrightarrow> keys_distinct run_id (db_runs (snd (reconcile_loop now cands db)))"
  by (induction now cands db rule: reconcile_loop.induct)
    (auto simp: split_beta settle_one_runs keys_distinct_update split: option.splits)

lemma candidate_row:
  assumes "keys_distinct run_id (db_runs db)" and "(j, a) \<in> set (reconcile_candidates db)"
  shows "\<exists>r. row_of run_id j (db_runs db) = Some r \<and> run_kind r = ''capability_approval'' \<and>
    open_phase r \<and> a \<in> set (db_approvals db) \<and> ap_run_id a = j \<and> ap_status a = ''approved''"
  using assms(2) row_of_member [OF assms(1)] by (auto simp: candidate_iff)

section \<open>Properties\<close>

text \<open>
  C20. Reconciliation closes only what was approved and carried out: a run keeps its row, or it was
  an open capability-approval run with an approved approval, and there was a receipt in the log of tool
  calls, of the approved tool, started between the decision and the expiry of the approval and completed,
  recorded under this very run or, without a run, with exactly the approved arguments; the run is closed
  with the outcome this receipt records.
\<close>

theorem reconcile_settles_approved_only:
  assumes "keys_distinct run_id (db_runs db)" and "row_of run_id j (db_runs db) = Some r"
    and "reconcile_completed_capability_approvals now db = (out, db')"
  shows "row_of run_id j (db_runs db') = Some r \<or>
    run_kind r = ''capability_approval'' \<and> run_phase r \<in> {''pending'', ''running''} \<and>
    (\<exists>a l r'. a \<in> set (db_approvals db) \<and> ap_run_id a = j \<and> ap_status a = ''approved'' \<and>
       l \<in> set (db_logs db) \<and> receipt_evidence j a l \<and>
       row_of run_id j (db_runs db') = Some r' \<and> run_phase r' = ''ended'' \<and>
       run_governance r' = ''approved'' \<and>
       run_resolution r' = (if log_ok l then ''success'' else ''failed'') \<and>
       (run_error r' = [] \<longleftrightarrow> log_ok l))"
proof -
  have db': "db' = snd (reconcile_loop now (reconcile_candidates db) db)"
    using assms(3) by (simp add: reconcile_completed_capability_approvals_def prod_eq_iff)
  consider "row_of run_id j (db_runs db') = Some r"
    | a l where "open_phase r" "(j, a) \<in> set (reconcile_candidates db)" "l \<in> set (db_logs db)"
        "receipt_evidence j a l"
        "row_of run_id j (db_runs db') = Some (settle_run now a l r)"
    using reconcile_loop_evidence [OF assms(2)] unfolding db' by blast
  then show ?thesis
  proof cases
    case 2
    have cand: "run_kind r = ''capability_approval''" "a \<in> set (db_approvals db)" "ap_run_id a = j"
        "ap_status a = ''approved''"
      using candidate_row [OF assms(1) 2(2)] assms(2) by auto
    have "run_error (settle_run now a l r) = [] \<longleftrightarrow> log_ok l"
      by (simp add: settle_run_def receipt_error_def)
    moreover have "run_governance (settle_run now a l r) = ''approved''"
        "run_resolution (settle_run now a l r) = (if log_ok l then ''success'' else ''failed'')"
      by (simp_all add: settle_run_def)
    moreover have "run_phase r \<in> {''pending'', ''running''}" using 2(1) by (simp add: open_phase_def)
    ultimately show ?thesis using 2 cand settle_run_fields(2) by blast
  qed simp
qed

text \<open>
  Reconciliation is idempotent in its reports: a run reported by one pass is reported by no
  later pass over the resulting database, whatever the clock.
\<close>

theorem reconcile_reports_once:
  assumes "keys_distinct run_id (db_runs db)"
    and "reconcile_completed_capability_approvals now db = (out, db')"
    and "reconcile_completed_capability_approvals later db' = (out', db'')"
  shows "rc_run_id ` set out \<inter> rc_run_id ` set out' = {}"
proof -
  have out: "out = fst (reconcile_loop now (reconcile_candidates db) db)"
    and db': "db' = snd (reconcile_loop now (reconcile_candidates db) db)"
    and out': "out' = fst (reconcile_loop later (reconcile_candidates db') db')"
    using assms(2,3) by (simp_all add: reconcile_completed_capability_approvals_def prod_eq_iff)
  have kd: "keys_distinct run_id (db_runs db')" unfolding db' by (rule reconcile_loop_keys [OF assms(1)])
  have False if rc: "rc \<in> set out" and rc': "rc' \<in> set out'" and eq: "rc_run_id rc = rc_run_id rc'" for rc rc'
  proof -
    obtain a where "(rc_run_id rc, a) \<in> set (reconcile_candidates db)"
      using reconcile_loop_reports_candidates rc unfolding out by blast
    then obtain r where "row_of run_id (rc_run_id rc) (db_runs db) = Some r"
      using candidate_row [OF assms(1)] by blast
    then obtain r1 where r1: "row_of run_id (rc_run_id rc) (db_runs db') = Some r1" "\<not> open_phase r1"
      using reconcile_loop_reported rc unfolding out db' by blast
    obtain a' where "(rc_run_id rc', a') \<in> set (reconcile_candidates db')"
      using reconcile_loop_reports_candidates rc' unfolding out' by blast
    then show False using candidate_row [OF kd] r1 eq by fastforce
  qed
  then show ?thesis by blast
qed

text \<open>
  \<open>delete_run\<close> cannot delete: for a run that exists its first statement names the table
  \<open>execution_logs\<close>, which no part of the program creates, so it raises; for a run that does not
  exist it answers \<open>None\<close>. In neither case does the database change.
\<close>

theorem delete_run_never_deletes:
  "delete_run rid db =
     (if rid \<in> run_id ` set (db_runs db)
      then Inl (OperationalError ''no such table: execution_logs'') else Inr (None, db))"
proof (cases "get_run rid db")
  case None
  then have "rid \<notin> run_id ` set (db_runs db)" by (simp add: get_run_def row_of_None)
  then show ?thesis using None by (simp add: delete_run_def)
next
  case (Some run)
  then have "rid \<in> run_id ` set (db_runs db)" by (auto simp: get_run_def dest: row_of_Some)
  then show ?thesis using Some by (simp add: delete_run_def on_table_def run_store_tables_def)
qed

text \<open>A pending capability run with its approved approval and the receipt of the call.\<close>

definition sample_run :: Run where
  "sample_run = \<lparr>run_id = ''r1'', run_title = ''t'', run_phase = ''pending'',
     run_governance = ''approved'', run_acceptance = ''none'', run_resolution = ''none'',
     run_created_at = 0, run_updated_at = 0, run_kind = ''capability_approval'', run_prompt = ''t'',
     run_source = ''local'', run_peer_id = ''p'', run_sender_id = ''u'', run_provider = [],
     run_workspace = ''/w'', run_autonomy_level = [], run_trust_rule_id = [], run_why_now = [],
     run_plan_summary = [], run_result_summary = [], run_error = []\<rparr>"

definition sample_decided :: Approval where
  "sample_decided = \<lparr>ap_id = ''a1'', ap_run_id = ''r1'', ap_action = ''capability'',
     ap_status = ''approved'', ap_requested_tool = ''shell.run'', ap_requested_permission = ''write'',
     ap_args_json = ''{}'', ap_source = ''local'', ap_peer_id = ''p'', ap_sender_id = ''u'',
     ap_code = ''000123'', ap_expires_at = 900, ap_created_at = 0, ap_updated_at = 10,
     ap_reason = [], ap_decision = ''approve'', ap_resolved_by = ''u''\<rparr>"

definition sample_receipt :: ToolCallLog where
  "sample_receipt = \<lparr>log_id = ''l1'', log_tool = ''shell.run'', log_args_json = ''{}'', log_ok = True,
     log_facts = Some (JDict [(''audit_phase'', JStr ''completed'')]), log_error = [],
     log_started_at = 20, log_ended_at = 30, log_run_id = [], log_trace_id = []\<rparr>"

definition sample_db :: RunDb where
  "sample_db = \<lparr>db_runs = [sample_run], db_logs = [sample_receipt], db_approvals = [sample_decided]\<rparr>"

lemma sample_db_keys: "keys_distinct run_id (db_runs sample_db)"
  by (simp add: sample_db_def keys_distinct_def)

lemma sample_db_candidates: "reconcile_candidates sample_db = [(''r1'', sample_decided)]"
  by (simp add: reconcile_candidates_def sample_db_def sample_run_def sample_decided_def open_phase_def)

lemma sample_db_receipt: "receipt_for ''r1'' sample_decided (db_logs sample_db) = Some sample_receipt"
  by (simp add: receipt_for_def sample_db_def sample_decided_def sample_receipt_def sql_asc_def
      receipt_settles_def jget_Cons select_settleable_receipt_def)

theorem reconcile_settles_approved_only_witness:
  "\<exists>r. row_of run_id ''r1'' (db_runs (snd (reconcile_completed_capability_approvals 50 sample_db))) = Some r
     \<and> run_phase r = ''ended'' \<and> run_governance r = ''approved''"
proof -
  obtain out db' where rec: "reconcile_completed_capability_approvals 50 sample_db = (out, db')"
    by fastforce
  have row: "row_of run_id ''r1'' (db_runs sample_db) = Some sample_run"
    by (simp add: sample_db_def row_of_Cons sample_run_def)
  have "row_of run_id ''r1'' (db_runs db') = Some (settle_run 50 sample_decided sample_receipt sample_run)"
    using rec settle_one_row [OF row, of 50 "''r1''" sample_decided sample_receipt] sample_db_receipt
    by (simp add: reconcile_completed_capability_approvals_def sample_db_candidates split_beta
        open_phase_def sample_run_def prod_eq_iff)
  moreover have "settle_run 50 sample_decided sample_receipt sample_run \<noteq> sample_run"
    by (simp add: settle_run_def sample_run_def)
  ultimately show ?thesis
    using reconcile_settles_approved_only [OF sample_db_keys row rec] rec by auto
qed

theorem reconcile_reports_once_witness:
  "rc_run_id ` set (fst (reconcile_completed_capability_approvals 50 sample_db)) = {''r1''} \<and>
   ''r1'' \<notin> rc_run_id ` set (fst (reconcile_completed_capability_approvals 60
     (snd (reconcile_completed_capability_approvals 50 sample_db))))"
proof -
  obtain out db' where rec: "reconcile_completed_capability_approvals 50 sample_db = (out, db')"
    by fastforce
  obtain out' db'' where rec': "reconcile_completed_capability_approvals 60 db' = (out', db'')"
    by fastforce
  have "rc_run_id ` set out = {''r1''}"
    using rec sample_db_receipt
    by (auto simp: reconcile_completed_capability_approvals_def sample_db_candidates reconciled_facts_def)
  then show ?thesis
    using reconcile_reports_once [OF sample_db_keys rec rec'] rec rec' by auto
qed

end
