(* ===== verification/Loop_Run_Store.thy ===== *)
theory Loop_Run_Store
  imports Loop_Contracts
begin

text \<open>
  \<open>navi/loop_runs.py\<close>: the durable state of loop runs, with execution leases, optimistic
  version checks, checkpoints and an event log. The tables are \<open>loop_specs\<close>, \<open>loop_runs\<close>,
  \<open>loop_checkpoints\<close> and \<open>loop_events\<close>.

  Two kinds of operations have to be told apart. A claim, a renewal and a release run in one
  transaction that starts with a write (or with \<open>BEGIN IMMEDIATE\<close>). A state change first
  selects the row, decides, and then writes \<open>WHERE id = ? AND version = ?\<close>: \<open>sqlite3\<close> opens the
  transaction at the write, so other workers may write in between. These operations take two
  databases, \<open>view\<close> that the \<open>SELECT\<close>s saw and \<open>db\<close> that the \<open>UPDATE\<close> meets, and answer with
  the new \<open>db\<close>. A call without interleaving is \<open>op db db\<close>. The \<open>SELECT\<close>s of one call are taken at one
  moment.

  \<open>Env\<close> of the prelude holds what a call reads from outside. The column \<open>created_at\<close> of \<open>loop_runs\<close> is written at
  creation and read by no operation of the store, so a row is a \<open>LoopRunState\<close>.
\<close>

section \<open>State\<close>

record LoopSpecRow =
  lsr_id :: string
  lsr_goal_id :: string
  lsr_spec :: json
  lsr_created_at :: time

record LoopCheckpoint =
  lc_id :: string
  lc_run_id :: string
  lc_node :: string
  lc_inputs :: dict
  lc_state :: dict
  lc_created_at :: time

record LoopEvent =
  le_id :: string
  le_run_id :: string
  le_event_type :: string
  le_node :: string
  le_terminal_state :: string
  le_checkpoint_id :: string
  le_evidence :: dict
  le_created_at :: time

record LoopDb =
  ld_specs :: "LoopSpecRow list"
  ld_runs :: "LoopRunState list"
  ld_checkpoints :: "LoopCheckpoint list"
  ld_events :: "LoopEvent list"

abbreviation ts_str :: "LoopTerminalState \<Rightarrow> string" where
  "ts_str \<equiv> loopTerminalState_str"

text \<open>\<open>terminal_state IN ('paused', 'waiting_approval')\<close> of the external gates, on the exact text.\<close>

definition at_external_wait :: "LoopRunState \<Rightarrow> bool" where
  "at_external_wait s = (lr_terminal_state s \<in> {ts_str LoopTerminalState_PAUSED, ts_str LoopTerminalState_WAITING_APPROVAL})"

section \<open>Shared statements\<close>

definition insert_event ::
  "Env \<Rightarrow> LoopRunState \<Rightarrow> string \<Rightarrow> string \<Rightarrow> dict \<Rightarrow> LoopDb \<Rightarrow> LoopDb" where
  "insert_event env state event_type checkpoint_id evidence db =
     db\<lparr>ld_events := ld_events db @
         [\<lparr>le_id = env_uuid env (length (ld_events db)), le_run_id = lr_run_id state,
           le_event_type = event_type, le_node = lr_node state,
           le_terminal_state = lr_terminal_state state,
           le_checkpoint_id = (if checkpoint_id \<noteq> [] then checkpoint_id else lr_checkpoint_id state),
           le_evidence = evidence, le_created_at = env_clock env\<rparr>]\<rparr>"

definition save_spec_in_transaction :: "LoopSpec \<Rightarrow> LoopDb \<Rightarrow> LoopDb" where
  "save_spec_in_transaction spec db =
     (if ls_id spec \<in> lsr_id ` set (ld_specs db)
      then db\<lparr>ld_specs := sql_update (\<lambda>r. lsr_id r = ls_id spec)
              (\<lambda>r. r\<lparr>lsr_goal_id := ls_goal_id spec, lsr_spec := JDict (loop_spec_to_dict spec)\<rparr>)
              (ld_specs db)\<rparr>
      else db\<lparr>ld_specs := ld_specs db @ [\<lparr>lsr_id = ls_id spec, lsr_goal_id = ls_goal_id spec,
              lsr_spec = JDict (loop_spec_to_dict spec), lsr_created_at = ls_created_at spec\<rparr>]\<rparr>)"

definition save_spec :: "LoopSpec \<Rightarrow> LoopDb \<Rightarrow> LoopDb result" where
  "save_spec spec db =
     and_then (loop_spec_validate spec) (\<lambda>_. Inr (save_spec_in_transaction spec db))"

definition get_spec_json :: "string \<Rightarrow> LoopDb \<Rightarrow> json result" where
  "get_spec_json spec_id db =
     (case row_of lsr_id spec_id (ld_specs db) of
        None \<Rightarrow> Inl (KeyError (''loop spec not found: '' @ spec_id))
      | Some r \<Rightarrow> Inr (lsr_spec r))"

definition create_loop_run ::
  "Env \<Rightarrow> string \<Rightarrow> LoopSpec \<Rightarrow> string \<Rightarrow> string \<Rightarrow> string \<Rightarrow> dict \<Rightarrow> string \<Rightarrow> LoopDb
     \<Rightarrow> (LoopRunState \<times> LoopDb) result" where
  "create_loop_run env fresh_id spec parent_run_id node terminal_state evidence event_type db =
     and_then (loop_spec_validate spec) (\<lambda>_.
     let state = \<lparr>lr_run_id = fresh_id, lr_goal_id = ls_goal_id spec, lr_loop_spec_id = ls_id spec,
           lr_node = node, lr_terminal_state = terminal_state, lr_checkpoint_id = [], lr_attempt = 1,
           lr_parent_run_id = parent_run_id, lr_child_run_ids = [], lr_locked_resources = [],
           lr_evidence = evidence, lr_updated_at = env_clock env, lr_version = 0,
           lr_lease_owner = [], lr_lease_expires_at = 0\<rparr>;
         db' = save_spec_in_transaction spec db
     in and_then (sql_insert lr_run_id state (ld_runs db')) (\<lambda>runs.
        Inr (state, insert_event env state event_type []
          (dict_merge [(''loop_spec_id'', JStr (ls_id spec))] evidence) (db'\<lparr>ld_runs := runs\<rparr>))))"

definition get_loop_run :: "string \<Rightarrow> LoopDb \<Rightarrow> LoopRunState option" where
  "get_loop_run rid db = row_of lr_run_id rid (ld_runs db)"

definition select_current :: "string \<Rightarrow> LoopDb \<Rightarrow> LoopRunState result" where
  "select_current rid db =
     (case get_loop_run rid db of
        None \<Rightarrow> Inl (KeyError (''loop run not found: '' @ rid))
      | Some r \<Rightarrow> Inr r)"

section \<open>Execution leases\<close>

text \<open>A lease lasts at least one second.\<close>

definition lease_until :: "time \<Rightarrow> time \<Rightarrow> time" where
  "lease_until now lease_seconds = now + max 1 lease_seconds"

definition lease_available :: "string \<Rightarrow> time \<Rightarrow> LoopRunState \<Rightarrow> bool" where
  "lease_available owner now r =
     (lr_lease_owner r = [] \<or> lr_lease_owner r = owner \<or> lr_lease_expires_at r \<le> now)"

definition take_lease :: "string \<Rightarrow> time \<Rightarrow> time \<Rightarrow> LoopRunState \<Rightarrow> LoopRunState" where
  "take_lease owner expiry now r =
     r\<lparr>lr_lease_owner := owner, lr_lease_expires_at := expiry, lr_version := lr_version r + 1,
       lr_updated_at := now\<rparr>"

definition drop_lease :: "time \<Rightarrow> LoopRunState \<Rightarrow> LoopRunState" where
  "drop_lease now r =
     r\<lparr>lr_lease_owner := [], lr_lease_expires_at := 0, lr_updated_at := now,
       lr_version := lr_version r + 1\<rparr>"

text \<open>\<open>default_lease\<close> is the system parameter \<open>saga_lease_timeout_turn\<close>.\<close>

definition claim_for_execution ::
  "Env \<Rightarrow> time \<Rightarrow> string \<Rightarrow> string \<Rightarrow> time option \<Rightarrow> time option \<Rightarrow> bool \<Rightarrow> LoopDb
     \<Rightarrow> LoopRunState option \<times> LoopDb" where
  "claim_for_execution env default_lease rid owner lease_seconds now allow_paused db =
     (let effective_lease = (case lease_seconds of None \<Rightarrow> default_lease | Some l \<Rightarrow> l);
          current_time = clock_or (env_clock env) now;
          p = (\<lambda>r. lr_run_id r = rid
                \<and> (lr_terminal_state r = [] \<or> allow_paused \<and> lr_terminal_state r = ''paused'')
                \<and> lease_available owner current_time r)
      in if sql_count p (ld_runs db) \<noteq> 1 then (None, db)
         else let db' = db\<lparr>ld_runs := sql_update p
                   (take_lease owner (lease_until current_time effective_lease) current_time) (ld_runs db)\<rparr>
              in (get_loop_run rid db', db'))"

definition renew_execution_lease ::
  "Env \<Rightarrow> string \<Rightarrow> string \<Rightarrow> time \<Rightarrow> time option \<Rightarrow> LoopDb \<Rightarrow> bool \<times> LoopDb" where
  "renew_execution_lease env rid owner lease_seconds now db =
     (let current_time = clock_or (env_clock env) now;
          p = (\<lambda>r. lr_run_id r = rid \<and> lr_terminal_state r = [] \<and> lr_lease_owner r = owner
                \<and> current_time < lr_lease_expires_at r)
      in (sql_count p (ld_runs db) = 1,
          db\<lparr>ld_runs := sql_update p (\<lambda>r. r\<lparr>lr_lease_expires_at := lease_until current_time lease_seconds,
                                             lr_updated_at := current_time\<rparr>) (ld_runs db)\<rparr>))"

text \<open>\<open>json_extract(evidence_json, '$.key') = ?\<close> for a text that is not itself JSON.\<close>

definition evidence_text_is :: "string \<Rightarrow> string \<Rightarrow> LoopRunState \<Rightarrow> bool" where
  "evidence_text_is key v r = (jget (lr_evidence r) key = JStr v)"

fun claim_ids :: "string \<Rightarrow> time \<Rightarrow> time \<Rightarrow> string list \<Rightarrow> LoopDb \<Rightarrow> LoopDb" where
  "claim_ids owner expiry now [] db = db"
| "claim_ids owner expiry now (rid # ids) db = claim_ids owner expiry now ids
     (db\<lparr>ld_runs := sql_update (\<lambda>r. lr_run_id r = rid) (take_lease owner expiry now) (ld_runs db)\<rparr>)"

definition claim_active_for_execution_mode ::
  "Env \<Rightarrow> string \<Rightarrow> string \<Rightarrow> int \<Rightarrow> time \<Rightarrow> time option \<Rightarrow> time option \<Rightarrow> LoopDb
     \<Rightarrow> LoopRunState list \<times> LoopDb" where
  "claim_active_for_execution_mode env execution_mode owner limit lease_seconds now updated_before db =
     (let current_time = clock_or (env_clock env) now;
          ids = map lr_run_id (sql_limit limit (sql_asc lr_updated_at (filter (\<lambda>r.
            lr_terminal_state r = [] \<and> evidence_text_is ''execution_mode'' execution_mode r
            \<and> lease_available owner current_time r
            \<and> (case updated_before of None \<Rightarrow> True | Some b \<Rightarrow> lr_updated_at r \<le> b)) (ld_runs db))));
          db' = claim_ids owner (lease_until current_time lease_seconds) current_time ids db
      in if ids = [] then ([], db')
         else (sql_asc lr_updated_at (filter (\<lambda>r. lr_run_id r \<in> set ids) (ld_runs db')), db'))"

definition active_execution_lease_owners :: "LoopDb \<Rightarrow> string list" where
  "active_execution_lease_owners db =
     sort (remdups (map lr_lease_owner (filter (\<lambda>r. lr_terminal_state r = []
       \<and> lr_lease_owner r \<noteq> [] \<and> 0 < lr_lease_expires_at r) (ld_runs db))))"

text \<open>The loop of the two bulk releases: update under the guard, report, write an event.\<close>

fun release_rows ::
  "Env \<Rightarrow> time \<Rightarrow> (LoopRunState \<Rightarrow> bool) \<Rightarrow> (LoopRunState \<Rightarrow> dict) \<Rightarrow> LoopRunState list \<Rightarrow> LoopDb
     \<Rightarrow> string list \<times> LoopDb" where
  "release_rows env now still facts [] db = ([], db)"
| "release_rows env now still facts (cur # rows) db =
     (let p = (\<lambda>r. lr_run_id r = lr_run_id cur \<and> lr_terminal_state r = []
                \<and> lr_lease_owner r = lr_lease_owner cur \<and> still r)
      in if sql_count p (ld_runs db) \<noteq> 1 then release_rows env now still facts rows db
         else let (out, db') = release_rows env now still facts rows
                    (insert_event env (drop_lease now cur) ''loop.execution_lease_released'' [] (facts cur)
                       (db\<lparr>ld_runs := sql_update p (drop_lease now) (ld_runs db)\<rparr>))
              in (lr_run_id cur # out, db'))"

definition release_execution_leases_for_owners ::
  "Env \<Rightarrow> string list \<Rightarrow> string \<Rightarrow> time option \<Rightarrow> LoopDb \<Rightarrow> string list \<times> LoopDb" where
  "release_execution_leases_for_owners env owners reason now db =
     (let normalized = sort (remdups (filter (\<lambda>x. x \<noteq> []) (map py_strip owners)));
          current_time = clock_or (env_clock env) now;
          rows = sql_asc lr_updated_at (filter (\<lambda>r. lr_terminal_state r = []
            \<and> lr_lease_owner r \<in> set normalized) (ld_runs db))
      in if normalized = [] then ([], db)
         else release_rows env current_time (\<lambda>_. True)
           (\<lambda>cur. [(''reason'', JStr reason), (''previous_owner'', JStr (lr_lease_owner cur)),
                   (''previous_expires_at'', JFloat (lr_lease_expires_at cur))]) rows db)"

definition release_execution_lease :: "Env \<Rightarrow> string \<Rightarrow> string \<Rightarrow> LoopDb \<Rightarrow> bool \<times> LoopDb" where
  "release_execution_lease env rid owner db =
     (let p = (\<lambda>r. lr_run_id r = rid \<and> lr_lease_owner r = owner)
      in (sql_count p (ld_runs db) = 1,
          db\<lparr>ld_runs := sql_update p (drop_lease (env_clock env)) (ld_runs db)\<rparr>))"

definition release_expired_execution_leases ::
  "Env \<Rightarrow> time option \<Rightarrow> int \<Rightarrow> LoopDb \<Rightarrow> string list \<times> LoopDb" where
  "release_expired_execution_leases env now limit db =
     (let current_time = clock_or (env_clock env) now;
          expired = (\<lambda>r. 0 < lr_lease_expires_at r \<and> lr_lease_expires_at r \<le> current_time);
          rows = sql_limit (max 1 limit) (sql_asc lr_lease_expires_at (filter (\<lambda>r.
            lr_terminal_state r = [] \<and> lr_lease_owner r \<noteq> [] \<and> expired r) (ld_runs db)))
      in release_rows env current_time expired
           (\<lambda>cur. [(''reason'', JStr ''execution_lease_expired''),
                   (''previous_owner'', JStr (lr_lease_owner cur)),
                   (''expired_at'', JFloat (lr_lease_expires_at cur))]) rows db)"

section \<open>State changes\<close>

text \<open>
  The end of every state change: the versioned \<open>UPDATE\<close>, the check of \<open>rowcount\<close>, the event,
  and the new state as the answer. \<open>extra\<close> is the additional guard of \<open>fail_active_run\<close>.
\<close>

definition commit_state ::
  "Env \<Rightarrow> string \<Rightarrow> LoopRunState \<Rightarrow> (LoopRunState \<Rightarrow> LoopRunState) \<Rightarrow> (LoopRunState \<Rightarrow> bool)
     \<Rightarrow> LoopRunState \<Rightarrow> string \<Rightarrow> string \<Rightarrow> dict \<Rightarrow> LoopDb \<Rightarrow> (LoopRunState \<times> LoopDb) result" where
  "commit_state env rid current assign extra next_state event_type checkpoint_id facts db =
     (let p = (\<lambda>r. lr_run_id r = rid \<and> lr_version r = lr_version current \<and> extra r)
      in if sql_count p (ld_runs db) \<noteq> 1 then Inl (RuntimeError ''loop state changed concurrently'')
         else Inr (next_state, insert_event env next_state event_type checkpoint_id facts
                (db\<lparr>ld_runs := sql_update p assign (ld_runs db)\<rparr>)))"

definition transition_to ::
  "Env \<Rightarrow> string \<Rightarrow> LoopRunState \<Rightarrow> LoopTerminalState \<Rightarrow> dict \<Rightarrow> string \<Rightarrow> (LoopRunState \<Rightarrow> bool) \<Rightarrow> time
     \<Rightarrow> LoopDb \<Rightarrow> (LoopRunState \<times> LoopDb) result" where
  "transition_to env rid current target evidence event_type extra current_time db =
     (let merged = dict_merge (lr_evidence current) evidence;
          stop = (\<lambda>r. r\<lparr>lr_terminal_state := ts_str target, lr_evidence := merged,
                        lr_updated_at := current_time, lr_version := lr_version current + 1,
                        lr_lease_owner := [], lr_lease_expires_at := 0\<rparr>)
      in commit_state env rid current stop extra (stop current) event_type [] evidence db)"

definition reopen_for_resume ::
  "Env \<Rightarrow> string \<Rightarrow> LoopDb \<Rightarrow> LoopDb \<Rightarrow> (LoopRunState \<times> LoopDb) result" where
  "reopen_for_resume env rid view db =
     and_then (select_current rid view) (\<lambda>current.
     if \<not> at_external_wait current
     then Inl (ValueError (''loop run is not resumable from terminal state: '' @ lr_terminal_state current))
     else let open' = (\<lambda>r. r\<lparr>lr_node := loopNode_str LoopNode_EXECUTE, lr_terminal_state := [],
                              lr_updated_at := env_clock env, lr_version := lr_version current + 1\<rparr>)
          in commit_state env rid current open' (\<lambda>_. True) (open' current) ''loop.resumed'' []
               [(''previous_terminal_state'', JStr (lr_terminal_state current))] db)"

definition is_retryable_resource_pause :: "json \<Rightarrow> bool" where
  "is_retryable_resource_pause grant =
     (case grant of JDict g \<Rightarrow> str_or_empty (jget g ''decision'') = ''pause'' | _ \<Rightarrow> False)"

definition resume_nodes :: "string list" where
  "resume_nodes = map loopNode_str [LoopNode_PLAN, LoopNode_EXECUTE, LoopNode_EVALUATE]"

definition reopen_at ::
  "Env \<Rightarrow> string \<Rightarrow> LoopRunState \<Rightarrow> string \<Rightarrow> string \<Rightarrow> dict \<Rightarrow> string \<Rightarrow> LoopDb
     \<Rightarrow> (LoopRunState \<times> LoopDb) result" where
  "reopen_at env rid current raw_node key facts event_type db =
     (let merged = dict_merge (lr_evidence current) [(key, JDict facts)];
          open' = (\<lambda>r. r\<lparr>lr_node := raw_node, lr_terminal_state := [], lr_evidence := merged,
                         lr_updated_at := env_clock env, lr_version := lr_version current + 1\<rparr>)
      in commit_state env rid current open' (\<lambda>_. True) (open' current) event_type [] facts db)"

definition reopen_resource_pause ::
  "Env \<Rightarrow> string \<Rightarrow> LoopDb \<Rightarrow> LoopDb \<Rightarrow> (LoopRunState \<times> LoopDb) result" where
  "reopen_resource_pause env rid view db =
     and_then (select_current rid view) (\<lambda>current.
     let grant = jget (lr_evidence current) ''resource_grant'';
         reason = str_or_empty (jget (as_dict grant) ''reason'');
         raw_node = str_or_empty (jget (lr_evidence current) ''resource_resume_node'')
     in if lr_terminal_state current \<noteq> ts_str LoopTerminalState_PAUSED \<or> \<not> is_retryable_resource_pause grant
        then Inl (ValueError ''loop run is not at a transient resource pause'')
        else if raw_node \<notin> set resume_nodes
        then Inl (ValueError ''transient resource pause has no valid resume node'')
        else reopen_at env rid current raw_node ''resource_retry''
          [(''reason'', JStr reason), (''resumed_at'', JFloat (env_clock env)),
           (''resume_node'', JStr raw_node)] ''loop.resource_retry'' db)"

definition reopen_retryable_pause ::
  "Env \<Rightarrow> string \<Rightarrow> LoopDb \<Rightarrow> LoopDb \<Rightarrow> (LoopRunState \<times> LoopDb) result" where
  "reopen_retryable_pause env rid view db =
     and_then (select_current rid view) (\<lambda>current.
     let gate = jget (lr_evidence current) ''retry_gate''; g = as_dict gate;
         raw_node = str_or_empty (jget g ''resume_node'')
     in if \<not> is_dict gate then reopen_resource_pause env rid view db
        else if lr_terminal_state current \<noteq> ts_str LoopTerminalState_PAUSED
        then Inl (ValueError ''loop run is not at a typed retry pause'')
        else if jget g ''decision'' \<noteq> JStr ''pause'' then Inl (ValueError ''retry gate is not paused'')
        else if raw_node \<notin> set resume_nodes
        then Inl (ValueError ''retry pause has no valid resume node'')
        else reopen_at env rid current raw_node ''durable_retry''
          [(''kind'', JStr (str_or_empty (jget g ''kind''))),
           (''reason'', JStr (str_or_empty (jget g ''reason''))),
           (''retry_count'', jget g ''retry_count''), (''max_retries'', jget g ''max_retries''),
           (''resumed_at'', JFloat (env_clock env)), (''resume_node'', JStr raw_node)]
          ''loop.durable_retry'' db)"

definition reject_external_gate ::
  "Env \<Rightarrow> string \<Rightarrow> dict \<Rightarrow> LoopDb \<Rightarrow> LoopDb \<Rightarrow> (LoopRunState \<times> LoopDb) result" where
  "reject_external_gate env rid evidence view db =
     and_then (select_current rid view) (\<lambda>current.
     if lr_terminal_state current = ts_str LoopTerminalState_CANCELLED then Inr (current, db)
     else if \<not> at_external_wait current
     then Inl (ValueError (''loop run is not waiting at an external approval gate: '' @ lr_terminal_state current))
     else transition_to env rid current LoopTerminalState_CANCELLED evidence ''loop.approval_rejected''
            (\<lambda>_. True) (env_clock env) db)"

definition cancel_external_wait ::
  "Env \<Rightarrow> string \<Rightarrow> dict \<Rightarrow> LoopDb \<Rightarrow> LoopDb \<Rightarrow> (LoopRunState \<times> LoopDb) result" where
  "cancel_external_wait env rid evidence view db =
     and_then (select_current rid view) (\<lambda>current.
     if lr_terminal_state current = ts_str LoopTerminalState_CANCELLED then Inr (current, db)
     else if \<not> at_external_wait current
     then Inl (ValueError (''loop run is not waiting at an external boundary: '' @ lr_terminal_state current))
     else transition_to env rid current LoopTerminalState_CANCELLED evidence ''loop.cancelled''
            (\<lambda>_. True) (env_clock env) db)"

definition pause_external_wait ::
  "Env \<Rightarrow> string \<Rightarrow> dict \<Rightarrow> LoopDb \<Rightarrow> LoopDb \<Rightarrow> (LoopRunState \<times> LoopDb) result" where
  "pause_external_wait env rid evidence view db =
     and_then (select_current rid view) (\<lambda>current.
     if \<not> at_external_wait current
     then Inl (ValueError (''loop run is not waiting at an external boundary: '' @ lr_terminal_state current))
     else transition_to env rid current LoopTerminalState_PAUSED evidence ''loop.transition''
            (\<lambda>_. True) (env_clock env) db)"

definition complete_external_delivery ::
  "Env \<Rightarrow> string \<Rightarrow> bool \<Rightarrow> dict \<Rightarrow> LoopDb \<Rightarrow> LoopDb \<Rightarrow> (LoopRunState \<times> LoopDb) result" where
  "complete_external_delivery env rid success evidence view db =
     and_then (select_current rid view) (\<lambda>current.
     let target = (if success then LoopTerminalState_CONVERGED else LoopTerminalState_FAILED);
         action = str_or_empty (jget (lr_evidence current) ''action'')
     in if lr_terminal_state current = ts_str target then Inr (current, db)
        else if \<not> (lr_terminal_state current = ts_str LoopTerminalState_PAUSED \<and> action = ''connector_outbound'')
        then Inl (ValueError (''external delivery receipt requires a delivery pause: ''
               @ lr_terminal_state current @ ''/'' @ action))
        else transition_to env rid current target evidence
               (if success then ''loop.delivery_succeeded'' else ''loop.delivery_failed'')
               (\<lambda>_. True) (env_clock env) db)"

definition fail_active_run ::
  "Env \<Rightarrow> string \<Rightarrow> string \<Rightarrow> dict \<Rightarrow> time option \<Rightarrow> LoopDb \<Rightarrow> LoopDb \<Rightarrow> (LoopRunState \<times> LoopDb) result" where
  "fail_active_run env rid lease_owner evidence now view db =
     (if lease_owner = [] then Inl (ValueError ''loop failure requires a lease owner'')
      else and_then (select_current rid view) (\<lambda>current.
        let current_time = clock_or (env_clock env) now
        in if is_stopped current then Inr (current, db)
           else if lr_lease_owner current \<noteq> lease_owner \<or> lr_lease_expires_at current \<le> current_time
           then Inl (RuntimeError ''loop execution lease is not owned by this worker'')
           else transition_to env rid current LoopTerminalState_FAILED evidence ''loop.execution_failed''
                  (\<lambda>r. lr_lease_owner r = lease_owner \<and> current_time < lr_lease_expires_at r)
                  current_time db))"

text \<open>The edges of a stored spec, as the \<open>for\<close> loop of \<open>_transition_allowed\<close> sees them.\<close>

definition spec_edges :: "dict \<Rightarrow> json list result" where
  "spec_edges spec =
     (case map_of spec ''state_graph'' of
        None \<Rightarrow> Inr []
      | Some (JList es) \<Rightarrow> Inr es
      | Some (JStr s) \<Rightarrow> Inr (map (\<lambda>c. JStr [c]) s)
      | Some (JDict d) \<Rightarrow> Inr (map (JStr \<circ> fst) d)
      | Some _ \<Rightarrow> Inl (TypeError ''object is not iterable''))"

definition edge_matches :: "string \<Rightarrow> string \<Rightarrow> string \<Rightarrow> json \<Rightarrow> bool" where
  "edge_matches node target condition e =
     (case e of
        JDict d \<Rightarrow> jget d ''source'' = JStr node \<and> jget d ''target'' = JStr target
          \<and> (condition = [] \<or> jget d ''condition'' = JStr condition)
      | _ \<Rightarrow> False)"

definition transition_allowed :: "LoopDb \<Rightarrow> LoopRunState \<Rightarrow> string \<Rightarrow> string \<Rightarrow> bool result" where
  "transition_allowed db state target condition =
     (case row_of lsr_id (lr_loop_spec_id state) (ld_specs db) of
        None \<Rightarrow> Inl (KeyError (''loop spec not found: '' @ lr_loop_spec_id state))
      | Some row \<Rightarrow> and_then (spec_edges (as_dict (lsr_spec row))) (\<lambda>es.
          Inr (\<exists>e\<in>set es. edge_matches (lr_node state) target condition e)))"

definition has_checkpoint :: "string \<Rightarrow> string \<Rightarrow> LoopDb \<Rightarrow> bool" where
  "has_checkpoint checkpoint_id rid db =
     (\<exists>c\<in>set (ld_checkpoints db). lc_id c = checkpoint_id \<and> lc_run_id c = rid)"

definition transition ::
  "Env \<Rightarrow> string \<Rightarrow> string \<Rightarrow> string \<Rightarrow> string \<Rightarrow> string \<Rightarrow> dict \<Rightarrow> string \<Rightarrow> LoopDb \<Rightarrow> LoopDb
     \<Rightarrow> (LoopRunState \<times> LoopDb) result" where
  "transition env rid node checkpoint_id terminal_state condition evidence lease_owner view db =
     and_then (select_current rid view) (\<lambda>current.
     if \<not> has_checkpoint checkpoint_id rid view
     then Inl (ValueError ''LoopRun transition requires a persisted checkpoint'')
     else if is_stopped current
     then Inl (ValueError ''stopped LoopRunState cannot transition without an explicit resume'')
     else let is_terminal = (py_strip terminal_state \<noteq> []);
              target = (if is_terminal then terminal_state else node)
     in and_then (transition_allowed view current target condition) (\<lambda>allowed.
     if \<not> allowed then Inl (ValueError ''LoopRun transition is not allowed by LoopSpec.state_graph'')
     else if lease_owner \<noteq> [] \<and> (lr_lease_owner current \<noteq> lease_owner
             \<or> lr_lease_expires_at current \<le> env_clock env)
     then Inl (RuntimeError ''loop execution lease is not owned by this driver'')
     else and_then (loop_run_transition (env_clock env) current node checkpoint_id terminal_state evidence)
       (\<lambda>moved.
          let next_state = moved\<lparr>lr_version := lr_version current + 1,
                lr_lease_owner := (if is_terminal then [] else lr_lease_owner current),
                lr_lease_expires_at := (if is_terminal then 0 else lr_lease_expires_at current)\<rparr>
          in commit_state env rid current
               (\<lambda>r. r\<lparr>lr_node := lr_node next_state, lr_terminal_state := lr_terminal_state next_state,
                      lr_checkpoint_id := lr_checkpoint_id next_state, lr_attempt := lr_attempt next_state,
                      lr_parent_run_id := lr_parent_run_id next_state,
                      lr_child_run_ids := lr_child_run_ids next_state,
                      lr_locked_resources := lr_locked_resources next_state,
                      lr_evidence := lr_evidence next_state, lr_updated_at := lr_updated_at next_state,
                      lr_version := lr_version next_state, lr_lease_owner := lr_lease_owner next_state,
                      lr_lease_expires_at := lr_lease_expires_at next_state\<rparr>)
               (\<lambda>_. True) next_state ''loop.transition'' checkpoint_id
               (dict_merge evidence [(''condition'', JStr condition)]) db)))"

definition write_checkpoint ::
  "Env \<Rightarrow> string \<Rightarrow> string \<Rightarrow> dict \<Rightarrow> dict \<Rightarrow> string \<Rightarrow> string \<Rightarrow> LoopDb \<Rightarrow> LoopDb
     \<Rightarrow> (LoopCheckpoint \<times> LoopDb) result" where
  "write_checkpoint env rid node inputs state checkpoint_id fresh_id view db =
     and_then (select_current rid view) (\<lambda>run.
     let checkpoint = \<lparr>lc_id = (if checkpoint_id \<noteq> [] then checkpoint_id else fresh_id), lc_run_id = rid,
           lc_node = node, lc_inputs = inputs, lc_state = state, lc_created_at = env_clock env\<rparr>
     in and_then (sql_insert lc_id checkpoint (ld_checkpoints db)) (\<lambda>cps.
        Inr (checkpoint, insert_event env run ''loop.checkpoint'' (lc_id checkpoint)
               [(''node'', JStr node)] (db\<lparr>ld_checkpoints := cps\<rparr>))))"

section \<open>Queries\<close>

definition list_active :: "int \<Rightarrow> LoopDb \<Rightarrow> LoopRunState list" where
  "list_active limit db =
     sql_limit limit (sql_asc lr_updated_at (filter (\<lambda>r. lr_terminal_state r = []) (ld_runs db)))"

definition list_waiting_approval :: "int \<Rightarrow> LoopDb \<Rightarrow> LoopRunState list" where
  "list_waiting_approval limit db =
     sql_limit (max 1 limit) (sql_asc lr_updated_at (filter (\<lambda>r.
       lr_terminal_state r = ts_str LoopTerminalState_WAITING_APPROVAL) (ld_runs db)))"

function chunks_of_500 :: "'a list \<Rightarrow> 'a list list" where
  "chunks_of_500 xs = (if xs = [] then [] else take 500 xs # chunks_of_500 (drop 500 xs))"
  by auto
termination by (relation "measure length") auto

declare chunks_of_500.simps [simp del]

definition list_current_for_goals :: "string list \<Rightarrow> int \<Rightarrow> LoopDb \<Rightarrow> LoopRunState list" where
  "list_current_for_goals goal_ids limit db =
     (let scoped_ids = first_seen (filter (\<lambda>x. x \<noteq> []) goal_ids);
          rows = concat (map (\<lambda>chunk. filter (\<lambda>r. lr_goal_id r \<in> set chunk
            \<and> (lr_terminal_state r = [] \<or> at_external_wait r)) (ld_runs db)) (chunks_of_500 scoped_ids))
      in if scoped_ids = [] then [] else take (nat (max 1 limit)) (sql_desc lr_updated_at rows))"

definition list_active_for_execution_mode :: "string \<Rightarrow> int \<Rightarrow> LoopDb \<Rightarrow> LoopRunState list" where
  "list_active_for_execution_mode execution_mode limit db =
     sql_limit limit (sql_asc lr_updated_at (filter (\<lambda>r. lr_terminal_state r = []
       \<and> evidence_text_is ''execution_mode'' execution_mode r) (ld_runs db)))"

definition pause_over :: "time \<Rightarrow> json \<Rightarrow> LoopRunState \<Rightarrow> bool" where
  "pause_over now v s =
     (case nonneg_seconds v of None \<Rightarrow> False | Some d \<Rightarrow> lr_updated_at s + d \<le> now)"

text \<open>The loop that collects ready states and breaks once \<open>limit\<close> are found.\<close>

fun take_ready :: "(LoopRunState \<Rightarrow> bool) \<Rightarrow> int \<Rightarrow> int \<Rightarrow> LoopRunState list \<Rightarrow> LoopRunState list" where
  "take_ready ready n limit [] = []"
| "take_ready ready n limit (s # ss) =
     (if \<not> ready s then take_ready ready n limit ss
      else s # (if limit \<le> n + 1 then [] else take_ready ready (n + 1) limit ss))"

definition background_pause_ready :: "time \<Rightarrow> LoopRunState \<Rightarrow> bool" where
  "background_pause_ready now s =
     (let grant = jget (lr_evidence s) ''resource_grant''
      in is_retryable_resource_pause grant
         \<and> pause_over now (jget (as_dict grant) ''retry_after_seconds'') s)"

definition list_retryable_background_pauses :: "Env \<Rightarrow> time option \<Rightarrow> int \<Rightarrow> LoopDb \<Rightarrow> LoopRunState list" where
  "list_retryable_background_pauses env now limit db =
     take_ready (background_pause_ready (clock_or (env_clock env) now)) 0 limit
       (sql_limit (limit * 5) (sql_asc lr_updated_at (filter (\<lambda>r.
          lr_terminal_state r = ts_str LoopTerminalState_PAUSED
          \<and> evidence_text_is ''execution_mode'' ''background'' r) (ld_runs db))))"

definition typed_pause_ready :: "time \<Rightarrow> LoopRunState \<Rightarrow> bool" where
  "typed_pause_ready now s =
     (let gate = jget (lr_evidence s) ''retry_gate''; grant = jget (lr_evidence s) ''resource_grant'';
          gate_decision = (is_dict gate \<and> jget (as_dict gate) ''decision'' = JStr ''pause'');
          resource_decision = (jget (lr_evidence s) ''execution_mode'' = JStr ''background''
            \<and> is_retryable_resource_pause grant)
      in if gate_decision then pause_over now (jget (as_dict gate) ''retry_after_seconds'') s
         else resource_decision \<and> pause_over now (jget (as_dict grant) ''retry_after_seconds'') s)"

definition list_retryable_pauses :: "Env \<Rightarrow> time option \<Rightarrow> int \<Rightarrow> LoopDb \<Rightarrow> LoopRunState list" where
  "list_retryable_pauses env now limit db =
     take_ready (typed_pause_ready (clock_or (env_clock env) now)) 0 limit
       (sql_limit (limit * 5) (sql_asc lr_updated_at (filter (\<lambda>r.
          lr_terminal_state r = ts_str LoopTerminalState_PAUSED) (ld_runs db))))"

definition list_releasable_resource_scope_ids :: "Env \<Rightarrow> time option \<Rightarrow> LoopDb \<Rightarrow> string list" where
  "list_releasable_resource_scope_ids env now db =
     map lr_run_id (filter (\<lambda>r. lr_terminal_state r \<noteq> [] \<or> lr_lease_owner r = []
       \<or> lr_lease_expires_at r \<le> clock_or (env_clock env) now) (ld_runs db))"

definition list_by_goal :: "string \<Rightarrow> int \<Rightarrow> LoopDb \<Rightarrow> LoopRunState list" where
  "list_by_goal goal_id limit db =
     sql_limit limit (sql_desc lr_updated_at (filter (\<lambda>r. lr_goal_id r = goal_id) (ld_runs db)))"

definition list_by_goal_filtered ::
  "string \<Rightarrow> string list \<Rightarrow> string \<Rightarrow> int option \<Rightarrow> LoopDb \<Rightarrow> LoopRunState list" where
  "list_by_goal_filtered goal_id terminal_states evidence_action limit db =
     (let rows = sql_desc lr_updated_at (filter (\<lambda>r. lr_goal_id r = goal_id
            \<and> (terminal_states = [] \<or> lr_terminal_state r \<in> set terminal_states)
            \<and> (evidence_action = [] \<or> evidence_text_is ''action'' evidence_action r)) (ld_runs db))
      in case limit of None \<Rightarrow> rows | Some n \<Rightarrow> sql_limit (max 1 n) rows)"

definition list_checkpoints :: "string \<Rightarrow> int \<Rightarrow> LoopDb \<Rightarrow> LoopCheckpoint list" where
  "list_checkpoints rid limit db =
     sql_limit limit (sql_asc lc_created_at (filter (\<lambda>c. lc_run_id c = rid) (ld_checkpoints db)))"

text \<open>\<open>json_type(inputs_json, '$.key') IS NOT NULL\<close>, for a key that is a plain name.\<close>

definition latest_checkpoint :: "string \<Rightarrow> string \<Rightarrow> string \<Rightarrow> LoopDb \<Rightarrow> LoopCheckpoint option" where
  "latest_checkpoint rid node input_key db =
     (case sql_desc lc_created_at (filter (\<lambda>c. lc_run_id c = rid
            \<and> (node = [] \<or> lc_node c = node)
            \<and> (input_key = [] \<or> input_key \<in> fst ` set (lc_inputs c))) (ld_checkpoints db)) of
        [] \<Rightarrow> None | c # _ \<Rightarrow> Some c)"

definition list_events :: "string \<Rightarrow> int \<Rightarrow> LoopDb \<Rightarrow> LoopEvent list" where
  "list_events rid limit db =
     sql_limit limit (sql_asc le_created_at (filter (\<lambda>e. le_run_id e = rid) (ld_events db)))"

section \<open>The store as a machine\<close>

text \<open>
  Workers share the database. A direct operation is one step; a state change is a \<open>Read\<close>, which
  stores what the worker's \<open>SELECT\<close>s saw, and a later \<open>Write\<close>. An operation that raises leaves
  the database as it was.
\<close>

datatype change =
    Resume
  | ResumeResource
  | ResumeRetry
  | Reject dict
  | Cancel dict
  | PauseWait dict
  | Deliver bool dict
  | FailActive string dict "time option"
  | Move string string string string dict string
  | Checkpoint string dict dict string string

datatype action =
    SaveSpec LoopSpec
  | CreateRun string LoopSpec string string string dict string
  | Claim time string string "time option" "time option" bool
  | Renew string string time "time option"
  | ClaimActive string string int time "time option" "time option"
  | ReleaseOwners "string list" string "time option"
  | ReleaseLease string string
  | ReleaseExpired "time option" int
  | Read nat
  | Write nat string change

record LoopStore =
  store_db :: LoopDb
  store_views :: "nat \<Rightarrow> LoopDb option"

definition db_or :: "LoopDb \<Rightarrow> ('a \<times> LoopDb) result \<Rightarrow> LoopDb" where
  "db_or db r = (case r of Inl _ \<Rightarrow> db | Inr (_, db') \<Rightarrow> db')"

fun apply_change :: "Env \<Rightarrow> string \<Rightarrow> change \<Rightarrow> LoopDb \<Rightarrow> LoopDb \<Rightarrow> (LoopRunState \<times> LoopDb) result" where
  "apply_change env rid Resume view db = reopen_for_resume env rid view db"
| "apply_change env rid ResumeResource view db = reopen_resource_pause env rid view db"
| "apply_change env rid ResumeRetry view db = reopen_retryable_pause env rid view db"
| "apply_change env rid (Reject ev) view db = reject_external_gate env rid ev view db"
| "apply_change env rid (Cancel ev) view db = cancel_external_wait env rid ev view db"
| "apply_change env rid (PauseWait ev) view db = pause_external_wait env rid ev view db"
| "apply_change env rid (Deliver success ev) view db = complete_external_delivery env rid success ev view db"
| "apply_change env rid (FailActive owner ev now) view db = fail_active_run env rid owner ev now view db"
| "apply_change env rid (Move node cp ts cond ev owner) view db =
     transition env rid node cp ts cond ev owner view db"
| "apply_change env rid (Checkpoint node inputs state cp fresh) view db =
     and_then (write_checkpoint env rid node inputs state cp fresh view db) (\<lambda>(_, db').
       and_then (select_current rid view) (\<lambda>run. Inr (run, db')))"

fun apply_action :: "Env \<Rightarrow> action \<Rightarrow> LoopDb \<Rightarrow> LoopDb" where
  "apply_action env (SaveSpec spec) db = (case save_spec spec db of Inl _ \<Rightarrow> db | Inr db' \<Rightarrow> db')"
| "apply_action env (CreateRun i spec parent node ts ev ty) db =
     db_or db (create_loop_run env i spec parent node ts ev ty db)"
| "apply_action env (Claim dl rid owner lease now paused) db =
     snd (claim_for_execution env dl rid owner lease now paused db)"
| "apply_action env (Renew rid owner lease now) db = snd (renew_execution_lease env rid owner lease now db)"
| "apply_action env (ClaimActive mode owner limit lease now before) db =
     snd (claim_active_for_execution_mode env mode owner limit lease now before db)"
| "apply_action env (ReleaseOwners owners reason now) db =
     snd (release_execution_leases_for_owners env owners reason now db)"
| "apply_action env (ReleaseLease rid owner) db = snd (release_execution_lease env rid owner db)"
| "apply_action env (ReleaseExpired now limit) db = snd (release_expired_execution_leases env now limit db)"
| "apply_action env (Read w) db = db"
| "apply_action env (Write w rid c) db = db"

fun store_step :: "Env \<times> action \<Rightarrow> LoopStore \<Rightarrow> LoopStore" where
  "store_step (env, Read w) s = s\<lparr>store_views := (store_views s)(w := Some (store_db s))\<rparr>"
| "store_step (env, Write w rid c) s =
     (case store_views s w of
        None \<Rightarrow> s
      | Some view \<Rightarrow> s\<lparr>store_db := db_or (store_db s) (apply_change env rid c view (store_db s)),
                      store_views := (store_views s)(w := None)\<rparr>)"
| "store_step (env, a) s = s\<lparr>store_db := apply_action env a (store_db s)\<rparr>"

end
