(* ===== verification/Loop_Run_Safety.thy ===== *)
theory Loop_Run_Safety
  imports Loop_Run_Store "HOL-Library.Option_ord"
begin

text \<open>
  What the store of \<open>Loop_Run_Store\<close> keeps under every interleaving of workers: versions only
  grow, a final state stays as it is, a state change made on an old version writes nothing, every
  change of node or stop state leaves an event, and a live lease is not taken over.
\<close>

section \<open>How one row may evolve\<close>

text \<open>
  \<open>core\<close> is the part of a row that an unchanged version fixes: a renewal moves only the expiry
  and the time of the update. \<open>frozen\<close> is the part of a final row that nothing changes.
\<close>

definition core :: "LoopRunState \<Rightarrow> LoopRunState" where
  "core r = r\<lparr>lr_updated_at := 0, lr_lease_expires_at := 0\<rparr>"

definition frozen :: "LoopRunState \<Rightarrow> LoopRunState" where
  "frozen r = r\<lparr>lr_updated_at := 0, lr_lease_expires_at := 0, lr_version := 0, lr_lease_owner := []\<rparr>"

definition evolves :: "LoopRunState \<Rightarrow> LoopRunState \<Rightarrow> bool" where
  "evolves r r' \<longleftrightarrow> (lr_version r < lr_version r' \<or> core r = core r') \<and>
     (is_terminal r \<longrightarrow> frozen r = frozen r')"

lemma frozen_of_core: "core r = core r' \<Longrightarrow> frozen r = frozen r'"
proof -
  have "frozen r = (core r)\<lparr>lr_version := 0, lr_lease_owner := []\<rparr>" for r
    by (simp add: frozen_def core_def)
  then show "core r = core r' \<Longrightarrow> frozen r = frozen r'" by simp
qed

lemma core_fields:
  assumes "core r = core r'"
  shows "lr_run_id r = lr_run_id r'" "lr_node r = lr_node r'"
    "lr_terminal_state r = lr_terminal_state r'" "lr_version r = lr_version r'"
    "lr_lease_owner r = lr_lease_owner r'"
  using arg_cong [OF assms, of lr_run_id] arg_cong [OF assms, of lr_node]
    arg_cong [OF assms, of lr_terminal_state] arg_cong [OF assms, of lr_version]
    arg_cong [OF assms, of lr_lease_owner]
  by (simp_all add: core_def)

lemma core_split:
  assumes "core r = core r'"
  shows "\<exists>u e. r = r'\<lparr>lr_updated_at := u, lr_lease_expires_at := e\<rparr>"
proof -
  have "r = (core r)\<lparr>lr_updated_at := lr_updated_at r, lr_lease_expires_at := lr_lease_expires_at r\<rparr>"
    by (simp add: core_def)
  also have "\<dots> = (core r')\<lparr>lr_updated_at := lr_updated_at r, lr_lease_expires_at := lr_lease_expires_at r\<rparr>"
    using assms by simp
  also have "\<dots> = r'\<lparr>lr_updated_at := lr_updated_at r, lr_lease_expires_at := lr_lease_expires_at r\<rparr>"
    by (simp add: core_def)
  finally show ?thesis by blast
qed

lemma is_terminal_frozen:
  assumes "frozen r = frozen r'"
  shows "is_terminal r = is_terminal r'"
proof -
  have "lr_terminal_state r = lr_terminal_state r'"
    using arg_cong [OF assms, of lr_terminal_state] by (simp add: frozen_def)
  then show ?thesis by (simp add: is_terminal_def)
qed

lemma is_terminal_core: "core r = core r' \<Longrightarrow> is_terminal r = is_terminal r'"
  by (rule is_terminal_frozen, rule frozen_of_core)

lemma evolves_refl [simp]: "evolves r r"
  by (simp add: evolves_def)

lemma evolves_trans:
  assumes ab: "evolves a b" and bc: "evolves b c"
  shows "evolves a c"
proof -
  have "lr_version a < lr_version c \<or> core a = core c"
    using ab bc core_fields(4) [of a b] core_fields(4) [of b c] by (auto simp: evolves_def)
  moreover have "frozen a = frozen c" if "is_terminal a"
  proof -
    have eq: "frozen a = frozen b" using ab that by (simp add: evolves_def)
    then have "is_terminal b" using that is_terminal_frozen by blast
    then show ?thesis using eq bc by (simp add: evolves_def)
  qed
  ultimately show ?thesis by (simp add: evolves_def)
qed

lemma evolves_version: "evolves r r' \<Longrightarrow> lr_version r \<le> lr_version r'"
  by (auto simp: evolves_def dest: core_fields)

lemma evolves_same_version: "evolves r r' \<Longrightarrow> lr_version r' = lr_version r \<Longrightarrow> core r = core r'"
  by (simp add: evolves_def)

lemma lease_change_id [simp]:
  "lr_run_id (take_lease owner expiry now r) = lr_run_id r" "lr_run_id (drop_lease now r) = lr_run_id r"
  by (simp_all add: take_lease_def drop_lease_def)

section \<open>How the table of runs evolves\<close>

abbreviation run_row :: "string \<Rightarrow> LoopRunState list \<Rightarrow> LoopRunState option" where
  "run_row \<equiv> row_of lr_run_id"

abbreviation distinct_runs :: "LoopRunState list \<Rightarrow> bool" where
  "distinct_runs \<equiv> keys_distinct lr_run_id"

definition rows_related ::
  "(LoopRunState \<Rightarrow> LoopRunState \<Rightarrow> bool) \<Rightarrow> LoopRunState list \<Rightarrow> LoopRunState list \<Rightarrow> bool" where
  "rows_related R t t' \<longleftrightarrow> (distinct_runs t \<longrightarrow> distinct_runs t') \<and>
     (\<forall>j r. run_row j t = Some r \<longrightarrow> (\<exists>r'. run_row j t' = Some r' \<and> R r r'))"

text \<open>A direct operation moves the lease only; a state change moves the rest as well.\<close>

definition lease_evolves :: "LoopRunState \<Rightarrow> LoopRunState \<Rightarrow> bool" where
  "lease_evolves r r' \<longleftrightarrow> evolves r r' \<and> frozen r = frozen r'"

abbreviation runs_evolve :: "LoopRunState list \<Rightarrow> LoopRunState list \<Rightarrow> bool" where
  "runs_evolve \<equiv> rows_related evolves"

abbreviation leases_evolve :: "LoopRunState list \<Rightarrow> LoopRunState list \<Rightarrow> bool" where
  "leases_evolve \<equiv> rows_related lease_evolves"

lemma rows_related_refl: "(\<And>r. R r r) \<Longrightarrow> rows_related R t t"
  by (simp add: rows_related_def)

lemma rows_related_trans:
  assumes "\<And>r s t. R r s \<Longrightarrow> R s t \<Longrightarrow> R r t"
  shows "rows_related R a b \<Longrightarrow> rows_related R b c \<Longrightarrow> rows_related R a c"
  unfolding rows_related_def using assms by meson

lemma runs_evolve_refl [simp]: "runs_evolve t t"
  by (simp add: rows_related_refl)

lemma leases_evolve_refl [simp]: "leases_evolve t t"
  by (simp add: rows_related_refl lease_evolves_def)

lemma runs_evolve_trans: "runs_evolve a b \<Longrightarrow> runs_evolve b c \<Longrightarrow> runs_evolve a c"
  by (rule rows_related_trans) (rule evolves_trans)

lemma leases_evolve_trans: "leases_evolve a b \<Longrightarrow> leases_evolve b c \<Longrightarrow> leases_evolve a c"
  by (rule rows_related_trans) (auto simp: lease_evolves_def intro: evolves_trans)

lemma leases_evolve_runs: "leases_evolve a b \<Longrightarrow> runs_evolve a b"
  unfolding rows_related_def lease_evolves_def by meson

lemma leases_evolve_update:
  assumes "\<And>r. p r \<Longrightarrow> lr_run_id (f r) = lr_run_id r" and "\<And>r. p r \<Longrightarrow> lease_evolves r (f r)"
  shows "leases_evolve t (sql_update p f t)"
  unfolding rows_related_def
proof (intro conjI allI impI)
  show "distinct_runs t \<Longrightarrow> distinct_runs (sql_update p f t)"
    using assms(1) by (rule keys_distinct_update)
  fix j r assume r: "run_row j t = Some r"
  have "lease_evolves r r" by (simp add: lease_evolves_def)
  then show "\<exists>r'. run_row j (sql_update p f t) = Some r' \<and> lease_evolves r r'"
    using row_of_update [of p lr_run_id f j t] assms r by auto
qed

lemma leases_evolve_insert:
  assumes "sql_insert lr_run_id r t = Inr t'"
  shows "leases_evolve t t'"
  using assms
  by (auto simp: rows_related_def sql_insert_Inr_iff keys_distinct_append row_of_append lease_evolves_def)

lemma runs_of_insert_event [simp]:
  "ld_runs (insert_event env st ty cp ev db) = ld_runs db"
  by (simp add: insert_event_def)

lemma runs_of_save_spec [simp]: "ld_runs (save_spec_in_transaction spec db) = ld_runs db"
  by (simp add: save_spec_in_transaction_def)

section \<open>Direct operations\<close>

lemma lease_evolves_change:
  "lease_evolves r (take_lease owner expiry now r)" "lease_evolves r (drop_lease now r)"
  "lease_evolves r (r\<lparr>lr_lease_expires_at := e, lr_updated_at := u\<rparr>)"
  by (simp_all add: lease_evolves_def evolves_def take_lease_def drop_lease_def core_def frozen_def)

lemma claim_leases_evolve:
  "leases_evolve (ld_runs db) (ld_runs (snd (claim_for_execution env dl rid owner lease now paused db)))"
  by (auto simp: claim_for_execution_def Let_def intro!: leases_evolve_update lease_evolves_change)

lemma renew_leases_evolve:
  "leases_evolve (ld_runs db) (ld_runs (snd (renew_execution_lease env rid owner lease now db)))"
  by (auto simp: renew_execution_lease_def Let_def intro!: leases_evolve_update lease_evolves_change)

lemma claim_ids_leases_evolve: "leases_evolve (ld_runs db) (ld_runs (claim_ids owner expiry now ids db))"
proof (induction owner expiry now ids db rule: claim_ids.induct)
  case (2 owner expiry now rid ids db)
  have "leases_evolve (ld_runs db)
      (sql_update (\<lambda>r. lr_run_id r = rid) (take_lease owner expiry now) (ld_runs db))"
    by (rule leases_evolve_update) (simp_all add: lease_evolves_change)
  then show ?case using 2 by (auto intro: leases_evolve_trans)
qed simp

lemma claim_active_leases_evolve:
  "leases_evolve (ld_runs db)
     (ld_runs (snd (claim_active_for_execution_mode env mode owner limit lease now before db)))"
  by (simp add: claim_active_for_execution_mode_def Let_def claim_ids_leases_evolve)

lemma release_rows_leases_evolve:
  "leases_evolve (ld_runs db) (ld_runs (snd (release_rows env now still facts rows db)))"
proof (induction env now still facts rows db rule: release_rows.induct)
  case (2 env now still facts cur rows db)
  have "leases_evolve (ld_runs db) (sql_update p (drop_lease now) (ld_runs db))" for p
    by (rule leases_evolve_update) (simp_all add: lease_evolves_change)
  then show ?case using 2 by (auto simp: Let_def split_beta intro: leases_evolve_trans)
qed simp

lemma release_leases_evolve:
  "leases_evolve (ld_runs db) (ld_runs (snd (release_execution_leases_for_owners env owners reason now db)))"
  "leases_evolve (ld_runs db) (ld_runs (snd (release_expired_execution_leases env now limit db)))"
  "leases_evolve (ld_runs db) (ld_runs (snd (release_execution_lease env rid owner db)))"
  by (auto simp: release_execution_leases_for_owners_def release_expired_execution_leases_def
      release_execution_lease_def Let_def release_rows_leases_evolve
      intro!: leases_evolve_update lease_evolves_change)

lemma create_leases_evolve:
  "create_loop_run env i spec parent node ts ev ty db = Inr (st, db') \<Longrightarrow> leases_evolve (ld_runs db) (ld_runs db')"
  by (auto simp: create_loop_run_def Let_def intro: leases_evolve_insert)

lemma apply_action_leases_evolve: "leases_evolve (ld_runs db) (ld_runs (apply_action env a db))"
  by (cases a)
    (auto simp: save_spec_def db_or_def claim_leases_evolve renew_leases_evolve claim_active_leases_evolve
      release_leases_evolve intro: create_leases_evolve split: sum.splits)

section \<open>State changes\<close>

text \<open>
  Every state change has the same shape: it read a row that is not final, and it commits new
  values for that version of the row; what it stores is, up to the time of a renewal, the state
  it answers with.
\<close>

definition assigns :: "LoopRunState \<Rightarrow> (LoopRunState \<Rightarrow> LoopRunState) \<Rightarrow> LoopRunState \<Rightarrow> bool" where
  "assigns cur assign st \<longleftrightarrow>
     (\<forall>r. lr_run_id (assign r) = lr_run_id r \<and> lr_version (assign r) = lr_version cur + 1 \<and>
       (core r = core cur \<longrightarrow> core (assign r) = core st))"

definition changes :: "Env \<Rightarrow> string \<Rightarrow> LoopDb \<Rightarrow> LoopDb \<Rightarrow> LoopRunState \<Rightarrow> LoopDb \<Rightarrow> bool" where
  "changes env rid view db st db' \<longleftrightarrow>
     (\<exists>cur assign extra ty cp facts. get_loop_run rid view = Some cur \<and> \<not> is_terminal cur \<and>
        assigns cur assign st \<and> lr_run_id st = rid \<and>
        commit_state env rid cur assign extra st ty cp facts db = Inr (st, db'))"

lemma select_current_Inr [simp]: "select_current rid db = Inr r \<longleftrightarrow> get_loop_run rid db = Some r"
  by (simp add: select_current_def split: option.splits)

lemma get_loop_run_id: "get_loop_run rid db = Some r \<Longrightarrow> lr_run_id r = rid"
  by (auto simp: get_loop_run_def dest: row_of_Some)

lemma commit_state_answer: "commit_state env rid cur assign extra st ty cp facts db = Inr (st', db') \<Longrightarrow> st' = st"
  by (simp add: commit_state_def Let_def split: if_splits)

lemma changesI:
  assumes "get_loop_run rid view = Some cur" "\<not> is_terminal cur" "assigns cur assign nxt"
    "lr_run_id nxt = rid" "commit_state env rid cur assign extra nxt ty cp facts db = Inr (st, db')"
  shows "changes env rid view db st db'"
  using assms commit_state_answer [OF assms(5)] unfolding changes_def by blast

lemma external_wait_not_terminal: "at_external_wait s \<Longrightarrow> \<not> is_terminal s"
  "lr_terminal_state s = ''paused'' \<Longrightarrow> \<not> is_terminal s"
proof -
  have "py_strip ''paused'' \<notin> set (map loopTerminalState_str FINAL_LOOP_STATES)"
    "py_strip ''waiting_approval'' \<notin> set (map loopTerminalState_str FINAL_LOOP_STATES)"
    by code_simp+
  then show "at_external_wait s \<Longrightarrow> \<not> is_terminal s"
    "lr_terminal_state s = ''paused'' \<Longrightarrow> \<not> is_terminal s"
    by (auto simp: at_external_wait_def is_terminal_def Let_def)
qed

text \<open>To check \<open>assigns\<close> for an update function, look at a row that differs in the renewal fields only.\<close>

lemma assignsI:
  assumes "\<And>r. lr_run_id (assign r) = lr_run_id r" "\<And>r. lr_version (assign r) = lr_version cur + 1"
    and "\<And>u e. core (assign (cur\<lparr>lr_updated_at := u, lr_lease_expires_at := e\<rparr>)) = core st"
  shows "assigns cur assign st"
  using assms core_split unfolding assigns_def by blast

lemma transition_to_changes:
  assumes "transition_to env rid cur target ev ty extra now db = Inr (st, db')"
    and "get_loop_run rid view = Some cur" "\<not> is_terminal cur"
  shows "changes env rid view db st db'"
  using assms(2,3)
proof (rule changesI)
  let ?stop = "\<lambda>r. r\<lparr>lr_terminal_state := ts_str target, lr_evidence := dict_merge (lr_evidence cur) ev,
     lr_updated_at := now, lr_version := lr_version cur + 1, lr_lease_owner := [], lr_lease_expires_at := 0\<rparr>"
  show "assigns cur ?stop (?stop cur)" by (rule assignsI) (simp_all add: core_def)
  show "lr_run_id (?stop cur) = rid" using get_loop_run_id [OF assms(2)] by simp
  show "commit_state env rid cur ?stop extra (?stop cur) ty [] ev db = Inr (st, db')"
    using assms(1) by (simp add: transition_to_def Let_def)
qed

lemma reopen_at_changes:
  assumes "reopen_at env rid cur node key facts ty db = Inr (st, db')"
    and "get_loop_run rid view = Some cur" "\<not> is_terminal cur"
  shows "changes env rid view db st db'"
  using assms(2,3)
proof (rule changesI)
  let ?open = "\<lambda>r. r\<lparr>lr_node := node, lr_terminal_state := [],
     lr_evidence := dict_merge (lr_evidence cur) [(key, JDict facts)],
     lr_updated_at := env_clock env, lr_version := lr_version cur + 1\<rparr>"
  show "assigns cur ?open (?open cur)" by (rule assignsI) (simp_all add: core_def)
  show "lr_run_id (?open cur) = rid" using get_loop_run_id [OF assms(2)] by simp
  show "commit_state env rid cur ?open (\<lambda>_. True) (?open cur) ty [] facts db = Inr (st, db')"
    using assms(1) by (simp add: reopen_at_def Let_def)
qed

lemma reopen_for_resume_changes:
  assumes "reopen_for_resume env rid view db = Inr (st, db')"
  shows "changes env rid view db st db'"
proof -
  obtain cur where cur: "get_loop_run rid view = Some cur" "at_external_wait cur"
    using assms by (auto simp: reopen_for_resume_def split: if_splits)
  let ?open = "\<lambda>r. r\<lparr>lr_node := loopNode_str LoopNode_EXECUTE, lr_terminal_state := [],
     lr_updated_at := env_clock env, lr_version := lr_version cur + 1\<rparr>"
  have "assigns cur ?open (?open cur)" by (rule assignsI) (simp_all add: core_def)
  moreover have "lr_run_id (?open cur) = rid" using get_loop_run_id [OF cur(1)] by simp
  moreover have "commit_state env rid cur ?open (\<lambda>_. True) (?open cur) ''loop.resumed'' []
      [(''previous_terminal_state'', JStr (lr_terminal_state cur))] db = Inr (st, db')"
    using assms cur by (simp add: reopen_for_resume_def select_current_def Let_def)
  ultimately show ?thesis using changesI cur external_wait_not_terminal by blast
qed

lemmas reopen_paused_changes = reopen_at_changes [OF _ _ external_wait_not_terminal(2)]

lemma reopen_resource_pause_changes:
  "reopen_resource_pause env rid view db = Inr (st, db') \<Longrightarrow> changes env rid view db st db'"
  by (auto simp: reopen_resource_pause_def Let_def split: if_splits elim!: reopen_paused_changes)

lemma reopen_retryable_pause_changes:
  "reopen_retryable_pause env rid view db = Inr (st, db') \<Longrightarrow> changes env rid view db st db'"
  by (auto simp: reopen_retryable_pause_def Let_def split: if_splits
      elim!: reopen_paused_changes intro: reopen_resource_pause_changes)

lemmas waiting_changes = transition_to_changes [OF _ _ external_wait_not_terminal(1)]
lemmas paused_changes = transition_to_changes [OF _ _ external_wait_not_terminal(2)]

lemma external_gate_changes:
  "reject_external_gate env rid ev view db = Inr (st, db') \<Longrightarrow>
     db' = db \<and> get_loop_run rid view = Some st \<or> changes env rid view db st db'"
  "cancel_external_wait env rid ev view db = Inr (st, db') \<Longrightarrow>
     db' = db \<and> get_loop_run rid view = Some st \<or> changes env rid view db st db'"
  "pause_external_wait env rid ev view db = Inr (st, db') \<Longrightarrow> changes env rid view db st db'"
  "complete_external_delivery env rid success ev view db = Inr (st, db') \<Longrightarrow>
     db' = db \<and> get_loop_run rid view = Some st \<or> changes env rid view db st db'"
  by (auto simp: reject_external_gate_def cancel_external_wait_def pause_external_wait_def
      complete_external_delivery_def Let_def split: if_splits
      dest: waiting_changes paused_changes)

lemma fail_active_run_changes:
  "fail_active_run env rid owner ev now view db = Inr (st, db') \<Longrightarrow>
     db' = db \<and> get_loop_run rid view = Some st \<or> changes env rid view db st db'"
  by (auto simp: fail_active_run_def Let_def is_stopped_def split: if_splits dest: transition_to_changes)

lemma transition_Inr_cur:
  assumes "transition env rid node cp ts cond ev owner view db = Inr (st, db')"
  shows "\<exists>cur. get_loop_run rid view = Some cur \<and> has_checkpoint cp rid view \<and> \<not> is_stopped cur \<and>
    transition_allowed view cur (if py_strip ts \<noteq> [] then ts else node) cond = Inr True \<and>
    (owner = [] \<or> lr_lease_owner cur = owner \<and> env_clock env < lr_lease_expires_at cur) \<and>
    loop_run_transition (env_clock env) cur node cp ts ev =
      Inr (cur\<lparr>lr_node := node, lr_checkpoint_id := cp, lr_terminal_state := ts,
        lr_evidence := dict_merge (lr_evidence cur) ev, lr_attempt := next_attempt cur node,
        lr_updated_at := env_clock env\<rparr>)"
  using assms
  by (auto simp: transition_def Let_def loop_run_transition_Inr_iff not_le split: if_splits)

lemma transition_changes:
  assumes "transition env rid node cp ts cond ev owner view db = Inr (st, db')"
  shows "changes env rid view db st db'"
proof -
  obtain cur where cur: "get_loop_run rid view = Some cur" "has_checkpoint cp rid view" "\<not> is_stopped cur"
      "transition_allowed view cur (if py_strip ts \<noteq> [] then ts else node) cond = Inr True"
      "owner = [] \<or> lr_lease_owner cur = owner \<and> env_clock env < lr_lease_expires_at cur"
      "loop_run_transition (env_clock env) cur node cp ts ev =
        Inr (cur\<lparr>lr_node := node, lr_checkpoint_id := cp, lr_terminal_state := ts,
          lr_evidence := dict_merge (lr_evidence cur) ev, lr_attempt := next_attempt cur node,
          lr_updated_at := env_clock env\<rparr>)"
    using transition_Inr_cur [OF assms] by blast
  define nxt where "nxt = cur\<lparr>lr_node := node, lr_checkpoint_id := cp, lr_terminal_state := ts,
      lr_evidence := dict_merge (lr_evidence cur) ev, lr_attempt := next_attempt cur node,
      lr_updated_at := env_clock env, lr_version := lr_version cur + 1,
      lr_lease_owner := (if py_strip ts \<noteq> [] then [] else lr_lease_owner cur),
      lr_lease_expires_at := (if py_strip ts \<noteq> [] then 0 else lr_lease_expires_at cur)\<rparr>"
  define assign where "assign = (\<lambda>r :: LoopRunState. r\<lparr>lr_node := lr_node nxt, lr_terminal_state := lr_terminal_state nxt,
      lr_checkpoint_id := lr_checkpoint_id nxt, lr_attempt := lr_attempt nxt,
      lr_parent_run_id := lr_parent_run_id nxt, lr_child_run_ids := lr_child_run_ids nxt,
      lr_locked_resources := lr_locked_resources nxt, lr_evidence := lr_evidence nxt,
      lr_updated_at := lr_updated_at nxt, lr_version := lr_version nxt,
      lr_lease_owner := lr_lease_owner nxt, lr_lease_expires_at := lr_lease_expires_at nxt\<rparr>)"
  have "assigns cur assign nxt"
    by (rule assignsI) (simp_all add: assign_def nxt_def core_def)
  moreover have "lr_run_id nxt = rid" using get_loop_run_id [OF cur(1)] by (simp add: nxt_def)
  moreover have "commit_state env rid cur assign (\<lambda>_. True) nxt ''loop.transition'' cp
      (dict_merge ev [(''condition'', JStr cond)]) db = Inr (st, db')"
    using assms cur by (auto simp: transition_def select_current_def Let_def assign_def nxt_def
        split: if_splits)
  moreover have "\<not> is_terminal cur" using cur(3) by (simp add: is_stopped_def)
  ultimately show ?thesis using changesI [OF cur(1)] by blast
qed

text \<open>A checkpoint touches no run; every other change that is accepted either is one of the
  idempotent answers, or has the shape of \<open>changes\<close>.\<close>

lemma apply_change_cases:
  assumes "apply_change env rid c view db = Inr (st, db')"
  shows "ld_runs db' = ld_runs db \<or> changes env rid view db st db'"
proof (cases c)
  case (Checkpoint node inputs state cp fresh)
  then show ?thesis using assms by (auto simp: write_checkpoint_def Let_def)
next
  case (Move node cp ts cond ev owner)
  then show ?thesis using assms transition_changes by simp
qed (use assms external_gate_changes fail_active_run_changes reopen_for_resume_changes
      reopen_resource_pause_changes reopen_retryable_pause_changes in fastforce)+

text \<open>What a commit does to the table of runs.\<close>

lemma commit_state_Inr:
  assumes "commit_state env rid cur assign extra st ty cp facts db = Inr (st', db')"
    and "distinct_runs (ld_runs db)" and "assigns cur assign st"
  shows "\<exists>r. run_row rid (ld_runs db) = Some r \<and> lr_version r = lr_version cur \<and> extra r \<and>
    (\<forall>j. run_row j (ld_runs db') = (if j = rid then Some (assign r) else run_row j (ld_runs db))) \<and>
    distinct_runs (ld_runs db') \<and> ld_events db' = ld_events (insert_event env st ty cp facts db)"
proof -
  let ?q = "\<lambda>r. lr_version r = lr_version cur \<and> extra r"
  let ?p = "\<lambda>r. lr_run_id r = rid \<and> ?q r"
  have id: "lr_run_id (assign r) = lr_run_id r" for r using assms(3) by (simp add: assigns_def)
  have n: "sql_count ?p (ld_runs db) = 1"
    and db': "db' = insert_event env st ty cp facts (db\<lparr>ld_runs := sql_update ?p assign (ld_runs db)\<rparr>)"
    using assms(1) by (auto simp: commit_state_def Let_def split: if_splits)
  obtain r where r: "run_row rid (ld_runs db) = Some r" "?q r"
    using sql_count_by_key [OF assms(2), of rid ?q] n by (auto split: option.splits if_splits)
  have rows: "run_row j (ld_runs db') = (if j = rid then Some (assign r) else run_row j (ld_runs db))" for j
  proof -
    have "run_row j (ld_runs db') = map_option (\<lambda>x. if ?p x then assign x else x) (run_row j (ld_runs db))"
      unfolding db' by (simp add: row_of_update id)
    then show ?thesis
      using r by (cases "run_row j (ld_runs db)") (auto dest: row_of_Some)
  qed
  have "distinct_runs (ld_runs db')"
    unfolding db' by (simp add: keys_distinct_update id assms(2))
  moreover have "ld_events db' = ld_events (insert_event env st ty cp facts db)"
    unfolding db' by (simp add: insert_event_def)
  ultimately show ?thesis using r rows by blast
qed

text \<open>
  A state change in full: from a view that the table has evolved from, it commits only when the
  version of the row is the one the view saw; then the row is still the one it saw, and what is
  stored is the answer.
\<close>

lemma changes_row:
  assumes "changes env rid view db st db'" and "distinct_runs (ld_runs db)"
    and "runs_evolve (ld_runs view) (ld_runs db)"
  shows "\<exists>cur r r'. get_loop_run rid view = Some cur \<and> run_row rid (ld_runs db) = Some r \<and>
    core cur = core r \<and> \<not> is_terminal r \<and> lr_version r' = lr_version r + 1 \<and> core r' = core st \<and>
    (\<forall>j. run_row j (ld_runs db') = (if j = rid then Some r' else run_row j (ld_runs db))) \<and>
    distinct_runs (ld_runs db') \<and>
    (\<exists>e. ld_events db' = ld_events db @ [e] \<and> le_run_id e = rid \<and> le_node e = lr_node st \<and>
      le_terminal_state e = lr_terminal_state st)"
proof -
  obtain cur assign extra ty cp facts where c: "get_loop_run rid view = Some cur" "\<not> is_terminal cur"
      "assigns cur assign st" "lr_run_id st = rid"
      "commit_state env rid cur assign extra st ty cp facts db = Inr (st, db')"
    using assms(1) unfolding changes_def by blast
  obtain r where r: "run_row rid (ld_runs db) = Some r" "lr_version r = lr_version cur"
      "\<forall>j. run_row j (ld_runs db') = (if j = rid then Some (assign r) else run_row j (ld_runs db))"
      "distinct_runs (ld_runs db')" "ld_events db' = ld_events (insert_event env st ty cp facts db)"
    using commit_state_Inr [OF c(5) assms(2) c(3)] by blast
  have "evolves cur r"
    using assms(3) c(1) r(1) unfolding rows_related_def get_loop_run_def by fastforce
  then have eq: "core cur = core r" using r(2) by (simp add: evolves_same_version)
  then have "\<not> is_terminal r" using c(2) is_terminal_core by blast
  moreover have "lr_version (assign r) = lr_version r + 1" "core (assign r) = core st"
    using c(3) r(2) eq by (simp_all add: assigns_def)
  moreover have "\<exists>e. ld_events db' = ld_events db @ [e] \<and> le_run_id e = rid \<and> le_node e = lr_node st \<and>
      le_terminal_state e = lr_terminal_state st"
    using r(5) c(4) by (simp add: insert_event_def)
  ultimately show ?thesis using c(1) r eq by blast
qed

lemma changes_runs_evolve:
  assumes "changes env rid view db st db'" and "distinct_runs (ld_runs db)"
    and "runs_evolve (ld_runs view) (ld_runs db)"
  shows "runs_evolve (ld_runs db) (ld_runs db')"
proof -
  obtain r r' where r: "run_row rid (ld_runs db) = Some r" "\<not> is_terminal r" "lr_version r' = lr_version r + 1"
      "\<forall>j. run_row j (ld_runs db') = (if j = rid then Some r' else run_row j (ld_runs db))"
      "distinct_runs (ld_runs db')"
    using changes_row [OF assms] by blast
  have "evolves r r'" using r by (simp add: evolves_def)
  then show ?thesis using r by (auto simp: rows_related_def)
qed

section \<open>The machine\<close>

definition store_inv :: "LoopStore \<Rightarrow> bool" where
  "store_inv s \<longleftrightarrow> distinct_runs (ld_runs (store_db s)) \<and>
     (\<forall>w v. store_views s w = Some v \<longrightarrow> runs_evolve (ld_runs v) (ld_runs (store_db s)))"

lemma store_inv_runs: "store_inv s \<Longrightarrow> distinct_runs (ld_runs (store_db s))"
  by (simp add: store_inv_def)

lemma write_runs_evolve:
  assumes "store_inv s" and "store_views s w = Some view"
  shows "runs_evolve (ld_runs (store_db s))
    (ld_runs (db_or (store_db s) (apply_change env rid c view (store_db s))))"
proof (cases "apply_change env rid c view (store_db s)")
  case (Inr res)
  obtain st db' where res: "res = (st, db')" by fastforce
  have "runs_evolve (ld_runs view) (ld_runs (store_db s))" using assms by (simp add: store_inv_def)
  then have "runs_evolve (ld_runs (store_db s)) (ld_runs db')"
    using apply_change_cases [OF Inr [unfolded res]] changes_runs_evolve store_inv_runs [OF assms(1)]
    by fastforce
  then show ?thesis using Inr res by (simp add: db_or_def)
qed (simp add: db_or_def)

lemma store_step_cases:
  obtains (direct) env a where "ea = (env, a)" "store_step ea s = s\<lparr>store_db := apply_action env a (store_db s)\<rparr>"
  | (reading) w where "store_step ea s = s\<lparr>store_views := (store_views s)(w := Some (store_db s))\<rparr>"
  | (idle) "store_step ea s = s"
  | (writing) env w rid c view where "ea = (env, Write w rid c)" "store_views s w = Some view"
      "store_step ea s = s\<lparr>store_db := db_or (store_db s) (apply_change env rid c view (store_db s)),
                            store_views := (store_views s)(w := None)\<rparr>"
proof -
  obtain env a where ea: "ea = (env, a)" by fastforce
  show thesis
  proof (cases a)
    case (Read w)
    then show thesis using reading ea by simp
  next
    case (Write w rid c)
    then show thesis using idle writing ea by (cases "store_views s w") auto
  qed (use direct ea in simp_all)
qed

lemma store_step_evolves:
  assumes "store_inv s"
  shows "runs_evolve (ld_runs (store_db s)) (ld_runs (store_db (store_step ea s)))"
  by (cases ea s rule: store_step_cases)
    (simp_all add: leases_evolve_runs [OF apply_action_leases_evolve] write_runs_evolve [OF assms])

lemma store_inv_step:
  assumes "store_inv s"
  shows "store_inv (store_step ea s)"
proof -
  let ?t = "ld_runs (store_db s)" and ?t' = "ld_runs (store_db (store_step ea s))"
  have ev: "runs_evolve ?t ?t'" by (rule store_step_evolves [OF assms])
  have "store_views (store_step ea s) w = Some v \<Longrightarrow> store_views s w = Some v \<or> v = store_db s" for w v
    by (cases ea s rule: store_step_cases) (auto split: if_splits)
  then have "store_views (store_step ea s) w = Some v \<Longrightarrow> runs_evolve (ld_runs v) ?t'" for w v
    using assms ev runs_evolve_trans unfolding store_inv_def by blast
  moreover have "distinct_runs ?t'" using ev store_inv_runs [OF assms] by (simp add: rows_related_def)
  ultimately show ?thesis by (simp add: store_inv_def)
qed

definition final_row :: "LoopRunState \<Rightarrow> LoopStore \<Rightarrow> bool" where
  "final_row r s \<longleftrightarrow> (\<exists>r'. run_row (lr_run_id r) (ld_runs (store_db s)) = Some r' \<and> is_terminal r' \<and>
     frozen r' = frozen r)"

lemma final_row_step:
  assumes "store_inv s" "final_row r s"
  shows "final_row r (store_step ea s)"
proof -
  obtain r' where r': "run_row (lr_run_id r) (ld_runs (store_db s)) = Some r'" "is_terminal r'"
      "frozen r' = frozen r"
    using assms(2) by (auto simp: final_row_def)
  then obtain r2 where r2: "run_row (lr_run_id r) (ld_runs (store_db (store_step ea s))) = Some r2"
      "evolves r' r2"
    using store_step_evolves [OF assms(1), of ea] by (auto simp: rows_related_def)
  then have "frozen r' = frozen r2" using r'(2) by (simp add: evolves_def)
  then show ?thesis using r2 r' is_terminal_frozen unfolding final_row_def by metis
qed

interpretation loop_store: settling_machine store_step store_inv final_row
  by unfold_locales (auto intro: store_inv_step final_row_step)

text \<open>The version of a run, \<open>None\<close> before it is created.\<close>

definition version_of :: "string \<Rightarrow> LoopStore \<Rightarrow> int option" where
  "version_of rid s = map_option lr_version (run_row rid (ld_runs (store_db s)))"

lemma version_of_step:
  assumes "store_inv s"
  shows "version_of rid s \<le> version_of rid (store_step ea s)"
proof (cases "run_row rid (ld_runs (store_db s))")
  case (Some r)
  then obtain r' where "run_row rid (ld_runs (store_db (store_step ea s))) = Some r'" "evolves r r'"
    using store_step_evolves [OF assms, of ea] by (auto simp: rows_related_def)
  then show ?thesis using Some by (simp add: version_of_def evolves_version)
qed (simp add: version_of_def)

interpretation loop_version: monotone_machine store_step store_inv "version_of rid" for rid
  by unfold_locales (rule store_inv_step, assumption, rule version_of_step)

definition start_store :: "LoopDb \<Rightarrow> LoopStore" where
  "start_store db = \<lparr>store_db = db, store_views = (\<lambda>_. None)\<rparr>"

definition run_store :: "(Env \<times> action) list \<Rightarrow> LoopDb \<Rightarrow> LoopStore" where
  "run_store ops db = fold store_step ops (start_store db)"

lemma start_store_inv: "distinct_runs (ld_runs db) \<Longrightarrow> store_inv (start_store db)"
  by (simp add: store_inv_def start_store_def)

lemma run_store_inv: "distinct_runs (ld_runs db) \<Longrightarrow> store_inv (run_store ops db)"
  unfolding run_store_def by (rule loop_store.inv_run [OF start_store_inv])

lemma run_store_later: "run_store (ops @ rest) db = fold store_step rest (run_store ops db)"
  by (simp add: run_store_def)

section \<open>Leases that are not available\<close>

text \<open>
  The operations of others while \<open>owner\<close> holds the lease of the run \<open>rid\<close>: every direct operation
  whose clock is before the expiry, unless it is told to release that owner; and every state change,
  made from a view of any age, but for a transition or a failure of this run that names no lease
  owner or the one that holds the lease (\<open>transition\<close> asks for the lease only where the caller names
  an owner).
\<close>

fun foreign_change :: "string \<Rightarrow> change \<Rightarrow> bool" where
  "foreign_change owner (Move node cp ts cond ev o') \<longleftrightarrow> o' \<noteq> [] \<and> o' \<noteq> owner"
| "foreign_change owner (FailActive o' ev now) \<longleftrightarrow> o' \<noteq> owner"
| "foreign_change owner c \<longleftrightarrow> True"

fun rival :: "string \<Rightarrow> string \<Rightarrow> time \<Rightarrow> Env \<times> action \<Rightarrow> bool" where
  "rival rid owner expiry (env, Claim dl i o' lease now paused) \<longleftrightarrow>
     o' \<noteq> owner \<and> clock_or (env_clock env) now < expiry"
| "rival rid owner expiry (env, Renew i o' lease now) \<longleftrightarrow> o' \<noteq> owner"
| "rival rid owner expiry (env, ClaimActive mode o' limit lease now before) \<longleftrightarrow>
     o' \<noteq> owner \<and> clock_or (env_clock env) now < expiry"
| "rival rid owner expiry (env, ReleaseOwners owners reason now) \<longleftrightarrow> owner \<notin> set (map py_strip owners)"
| "rival rid owner expiry (env, ReleaseLease i o') \<longleftrightarrow> o' \<noteq> owner"
| "rival rid owner expiry (env, ReleaseExpired now limit) \<longleftrightarrow> clock_or (env_clock env) now < expiry"
| "rival rid owner expiry (env, Write w i c) \<longleftrightarrow> i \<noteq> rid \<or> foreign_change owner c"
| "rival rid owner expiry (env, a) \<longleftrightarrow> True"

definition holds_lease :: "LoopRunState \<Rightarrow> LoopDb \<Rightarrow> bool" where
  "holds_lease r db \<longleftrightarrow> distinct_runs (ld_runs db) \<and> run_row (lr_run_id r) (ld_runs db) = Some r \<and>
     lr_lease_owner r \<noteq> []"

lemma holds_lease_update:
  assumes "holds_lease r db" and "\<And>x. lr_run_id (f x) = lr_run_id x" and "\<not> p r"
  shows "holds_lease r (db\<lparr>ld_runs := sql_update p f (ld_runs db)\<rparr>)"
  using assms by (auto simp: holds_lease_def row_of_update keys_distinct_update)

lemma holds_lease_insert_event [simp]: "holds_lease r (insert_event env st ty cp ev db) = holds_lease r db"
  by (simp add: holds_lease_def)

lemma holds_lease_claim_ids:
  "holds_lease r db \<Longrightarrow> lr_run_id r \<notin> set ids \<Longrightarrow> holds_lease r (claim_ids owner expiry now ids db)"
  by (induction owner expiry now ids db rule: claim_ids.induct) (auto simp: holds_lease_update)

lemma holds_lease_release_rows:
  "holds_lease r db \<Longrightarrow>
   \<forall>cur\<in>set rows. lr_run_id cur = lr_run_id r \<longrightarrow> lr_lease_owner cur = lr_lease_owner r \<longrightarrow> \<not> still r \<Longrightarrow>
   holds_lease r (snd (release_rows env now still facts rows db))"
proof (induction env now still facts rows db rule: release_rows.induct)
  case (2 env now still facts cur rows db)
  let ?p = "\<lambda>r. lr_run_id r = lr_run_id cur \<and> lr_terminal_state r = []
                \<and> lr_lease_owner r = lr_lease_owner cur \<and> still r"
  have "\<not> ?p r" using "2.prems"(2) by auto
  then have "holds_lease r (db\<lparr>ld_runs := sql_update ?p (drop_lease now) (ld_runs db)\<rparr>)"
    using "2.prems"(1) by (intro holds_lease_update) simp_all
  then have held: "holds_lease r (insert_event env (drop_lease now cur) ''loop.execution_lease_released'' []
      (facts cur) (db\<lparr>ld_runs := sql_update ?p (drop_lease now) (ld_runs db)\<rparr>))" by simp
  have rest: "\<forall>cur\<in>set rows. lr_run_id cur = lr_run_id r \<longrightarrow> lr_lease_owner cur = lr_lease_owner r \<longrightarrow> \<not> still r"
    using "2.prems"(2) by simp
  show ?case
  proof (cases "sql_count ?p (ld_runs db) = 1")
    case True
    then have step: "snd (release_rows env now still facts (cur # rows) db) =
        snd (release_rows env now still facts rows (insert_event env (drop_lease now cur)
          ''loop.execution_lease_released'' [] (facts cur)
          (db\<lparr>ld_runs := sql_update ?p (drop_lease now) (ld_runs db)\<rparr>)))"
      by (simp add: Let_def split_beta)
    have "\<not> sql_count ?p (ld_runs db) \<noteq> 1" using True by blast
    from "2.IH"(2) [OF refl this held rest] show ?thesis unfolding step .
  next
    case False
    then have step: "release_rows env now still facts (cur # rows) db = release_rows env now still facts rows db"
      unfolding release_rows.simps(2) Let_def by (rule if_P)
    from "2.IH"(1) [OF refl False "2.prems"(1) rest] show ?thesis unfolding step .
  qed
qed simp

lemma holds_lease_row:
  assumes "holds_lease r db" "x \<in> set (ld_runs db)" "lr_run_id x = lr_run_id r"
  shows "x = r"
proof -
  have "run_row (lr_run_id x) (ld_runs db) = Some x"
    using assms(1,2) by (intro row_of_member) (simp_all add: holds_lease_def)
  then show ?thesis using assms(1) unfolding holds_lease_def assms(3) by simp
qed

lemma not_available_to_rival:
  "holds_lease r db \<Longrightarrow> o' \<noteq> lr_lease_owner r \<Longrightarrow> now < lr_lease_expires_at r \<Longrightarrow> \<not> lease_available o' now r"
  by (auto simp: lease_available_def holds_lease_def)

lemma rival_claim_active:
  assumes hold: "holds_lease r db" and "o' \<noteq> lr_lease_owner r"
    and "clock_or (env_clock env) now < lr_lease_expires_at r"
  shows "holds_lease r (snd (claim_active_for_execution_mode env mode o' limit lease now before db))"
proof -
  let ?now = "clock_or (env_clock env) now"
  define q where "q = (\<lambda>x. lr_terminal_state x = [] \<and> evidence_text_is ''execution_mode'' mode x
            \<and> lease_available o' ?now x
            \<and> (case before of None \<Rightarrow> True | Some b \<Rightarrow> lr_updated_at x \<le> b))"
  let ?rows = "sql_limit limit (sql_asc lr_updated_at (filter q (ld_runs db)))"
  have "lr_run_id r \<notin> set (map lr_run_id ?rows)"
  proof
    assume "lr_run_id r \<in> set (map lr_run_id ?rows)"
    then obtain x where "x \<in> set ?rows" "lr_run_id x = lr_run_id r" by auto
    moreover have "set ?rows \<subseteq> set (filter q (ld_runs db))"
      using set_sql_limit [of limit "sql_asc lr_updated_at (filter q (ld_runs db))"] by simp
    ultimately have "x \<in> set (ld_runs db)" "q x" "lr_run_id x = lr_run_id r" by auto
    then have "lease_available o' ?now r" using holds_lease_row [OF hold] by (auto simp: q_def)
    then show False using not_available_to_rival [OF assms] by simp
  qed
  then have "holds_lease r (claim_ids o' (lease_until ?now lease) ?now (map lr_run_id ?rows) db)"
    by (rule holds_lease_claim_ids [OF hold])
  then show ?thesis
    using hold by (simp add: claim_active_for_execution_mode_def Let_def q_def)
qed

lemma rival_release_owners:
  assumes hold: "holds_lease r db" and "lr_lease_owner r \<notin> set (map py_strip owners)"
  shows "holds_lease r (snd (release_execution_leases_for_owners env owners reason now db))"
proof -
  let ?norm = "sort (remdups (filter (\<lambda>x. x \<noteq> []) (map py_strip owners)))"
  let ?rows = "sql_asc lr_updated_at (filter (\<lambda>x. lr_terminal_state x = []
      \<and> lr_lease_owner x \<in> set ?norm) (ld_runs db))"
  have "lr_lease_owner r \<notin> set ?norm" using assms(2) by auto
  then have "\<forall>cur\<in>set ?rows. lr_run_id cur = lr_run_id r \<longrightarrow> lr_lease_owner cur = lr_lease_owner r \<longrightarrow> \<not> True"
    by (simp only: set_sql_asc set_filter) auto
  from holds_lease_release_rows [OF hold this] hold show ?thesis
    unfolding release_execution_leases_for_owners_def Let_def by simp
qed

lemma rival_create:
  assumes "holds_lease r db"
  shows "holds_lease r (db_or db (create_loop_run env i spec parent node ts ev ty db))"
  using assms
  by (auto simp: db_or_def create_loop_run_def Let_def sql_insert_Inr_iff holds_lease_def
      keys_distinct_append row_of_append split: sum.splits)

text \<open>A foreign change of an open run is refused, or answers without a write.\<close>

lemma foreign_change_refused:
  assumes "apply_change env rid c view db = Inr (st, db')" "get_loop_run rid view = Some cur"
    "lr_terminal_state cur = []" "lr_lease_owner cur \<noteq> []" "foreign_change (lr_lease_owner cur) c"
  shows "ld_runs db' = ld_runs db"
proof -
  have open': "\<not> at_external_wait cur" "lr_terminal_state cur \<noteq> ''paused''"
    using assms(3) by (simp_all add: at_external_wait_def Let_def)
  have stop: "\<not> is_stopped cur"
    by (rule not_stopped_empty [OF assms(3)])
  show ?thesis
  proof (cases c)
    case (Checkpoint node inputs state cp fresh)
    then show ?thesis using assms(1) by (auto simp: write_checkpoint_def Let_def)
  next
    case (Move node cp ts cond ev owner)
    then show ?thesis using assms transition_Inr_cur by fastforce
  next
    case (FailActive owner ev now)
    then show ?thesis using assms stop by (auto simp: fail_active_run_def Let_def split: if_splits)
  qed (use assms open' in \<open>auto simp: reopen_for_resume_def reopen_resource_pause_def reopen_retryable_pause_def
      reject_external_gate_def cancel_external_wait_def pause_external_wait_def complete_external_delivery_def
      Let_def split: if_splits\<close>)
qed

lemma rival_write_keeps_lease:
  assumes inv: "store_inv s" and hold: "holds_lease r (store_db s)" and open': "lr_terminal_state r = []"
    and view: "store_views s w = Some view" and riv: "rid \<noteq> lr_run_id r \<or> foreign_change (lr_lease_owner r) c"
  shows "holds_lease r (db_or (store_db s) (apply_change env rid c view (store_db s)))"
proof (cases "apply_change env rid c view (store_db s)")
  case (Inr res)
  obtain st db' where res: "res = (st, db')" by fastforce
  have old: "runs_evolve (ld_runs view) (ld_runs (store_db s))" using inv view by (simp add: store_inv_def)
  have dist: "distinct_runs (ld_runs (store_db s))" by (rule store_inv_runs [OF inv])
  have "holds_lease r db'"
  proof (cases "ld_runs db' = ld_runs (store_db s)")
    case True
    then show ?thesis using hold by (simp add: holds_lease_def)
  next
    case False
    then have "changes env rid view (store_db s) st db'" using apply_change_cases [OF Inr [unfolded res]] by blast
    then obtain cur r0 r' where ch: "get_loop_run rid view = Some cur" "run_row rid (ld_runs (store_db s)) = Some r0"
        "core cur = core r0" "\<forall>j. run_row j (ld_runs db') = (if j = rid then Some r' else run_row j (ld_runs (store_db s)))"
        "distinct_runs (ld_runs db')"
      using changes_row [OF _ dist old] by blast
    have "rid \<noteq> lr_run_id r"
    proof
      assume rid: "rid = lr_run_id r"
      then have "core cur = core r" using ch(2,3) hold by (simp add: holds_lease_def)
      from core_fields [OF this] have "lr_terminal_state cur = []" "lr_lease_owner cur = lr_lease_owner r"
        using open' by simp_all
      then show False
        using foreign_change_refused [OF Inr [unfolded res] ch(1)] riv rid hold False by (simp add: holds_lease_def)
    qed
    then show ?thesis using ch(4,5) hold by (simp add: holds_lease_def)
  qed
  then show ?thesis using Inr res by (simp add: db_or_def)
qed (use hold in \<open>simp add: db_or_def\<close>)

lemma rival_keeps_lease:
  assumes inv: "store_inv s" and hold: "holds_lease r (store_db s)" and open': "lr_terminal_state r = []"
    and riv: "rival (lr_run_id r) (lr_lease_owner r) (lr_lease_expires_at r) (env, a)"
  shows "holds_lease r (store_db (store_step (env, a) s))"
proof (cases a)
  case (SaveSpec spec)
  then show ?thesis using hold by (auto simp: save_spec_def holds_lease_def split: sum.splits)
next
  case (CreateRun i spec parent node ts ev ty)
  then show ?thesis using rival_create [OF hold] by simp
next
  case (Claim dl rid o' lease now paused)
  then have "\<not> lease_available o' (clock_or (env_clock env) now) r"
    using riv not_available_to_rival [OF hold] by simp
  then show ?thesis
    using hold Claim by (auto simp: claim_for_execution_def Let_def intro!: holds_lease_update)
next
  case (Renew rid o' lease now)
  then show ?thesis
    using hold riv by (auto simp: renew_execution_lease_def Let_def intro!: holds_lease_update)
next
  case (ClaimActive mode o' limit lease now before)
  then show ?thesis using riv rival_claim_active [OF hold] by simp
next
  case (ReleaseOwners owners reason now)
  then show ?thesis using riv rival_release_owners [OF hold] by simp
next
  case (ReleaseLease rid o')
  then show ?thesis
    using hold riv by (auto simp: release_execution_lease_def Let_def intro!: holds_lease_update)
next
  case (ReleaseExpired now limit)
  then show ?thesis using hold riv
    by (auto simp: release_expired_execution_leases_def Let_def intro!: holds_lease_release_rows)
next
  case (Read w)
  then show ?thesis using hold by simp
next
  case (Write w i c)
  then show ?thesis using rival_write_keeps_lease [OF inv hold open'] hold riv by (cases "store_views s w") auto
qed

lemma rivals_keep_lease:
  "store_inv s \<Longrightarrow> holds_lease r (store_db s) \<Longrightarrow> lr_terminal_state r = [] \<Longrightarrow>
   (\<And>ea. ea \<in> set ops \<Longrightarrow> rival (lr_run_id r) (lr_lease_owner r) (lr_lease_expires_at r) ea) \<Longrightarrow>
   holds_lease r (store_db (fold store_step ops s))"
proof (induction ops arbitrary: s)
  case (Cons ea ops)
  then have "holds_lease r (store_db (store_step ea s))"
    using rival_keeps_lease [of s r "fst ea" "snd ea"] by simp
  then show ?case using Cons store_inv_step [of s ea] by simp
qed simp

section \<open>Listing what is due\<close>

lemma take_ready_eq: "take_ready P n limit ss = take (nat (max 1 (limit - n))) (filter P ss)"
proof (induction P n limit ss rule: take_ready.induct)
  case (2 P n limit s ss)
  show ?case
  proof (cases "limit \<le> n + 1")
    case True
    then have "max 1 (limit - n) = 1" by auto
    then have "nat (max 1 (limit - n)) = Suc 0" by simp
    then show ?thesis using 2 True by simp
  next
    case False
    then have "nat (max 1 (limit - n)) = Suc (nat (max 1 (limit - (n + 1))))" by (simp add: max_def)
    then show ?thesis using 2 False by simp
  qed
qed simp

lemma sql_limit_all: "length t \<le> nat n \<Longrightarrow> sql_limit n t = t"
  by (simp add: sql_limit_def)

lemma frozen_fields:
  assumes "frozen r = frozen r'"
  shows "lr_node r = lr_node r'" "lr_terminal_state r = lr_terminal_state r'"
    "lr_attempt r = lr_attempt r'" "lr_checkpoint_id r = lr_checkpoint_id r'"
    "lr_evidence r = lr_evidence r'"
  using arg_cong [OF assms, of lr_node] arg_cong [OF assms, of lr_terminal_state]
    arg_cong [OF assms, of lr_attempt] arg_cong [OF assms, of lr_checkpoint_id]
    arg_cong [OF assms, of lr_evidence]
  by (simp_all add: frozen_def)

section \<open>Properties\<close>

text \<open>A database with one open run, held by a driver, its checkpoint and its spec.\<close>

definition sample_env :: Env where
  "sample_env = \<lparr>env_clock = 100, env_uuid = (\<lambda>_. ''e'')\<rparr>"

definition held_state :: LoopRunState where
  "held_state = sample_state\<lparr>lr_lease_owner := ''driver'', lr_lease_expires_at := 500\<rparr>"

definition sample_loop_db :: LoopDb where
  "sample_loop_db =
     \<lparr>ld_specs = [\<lparr>lsr_id = ''s'', lsr_goal_id = ''g'', lsr_spec = JDict [(''state_graph'',
           JList [JDict (state_transition_to_dict
             (stop_edge LoopNode_EVALUATE LoopTerminalState_CONVERGED ''checker_passed''))])],
         lsr_created_at = 0\<rparr>],
      ld_runs = [held_state],
      ld_checkpoints = [\<lparr>lc_id = ''c'', lc_run_id = ''r'', lc_node = ''evaluate'', lc_inputs = [],
         lc_state = [], lc_created_at = 0\<rparr>],
      ld_events = []\<rparr>"

definition converge :: change where
  "converge = Move ''evaluate'' ''c'' ''converged'' ''checker_passed'' [] ''driver''"

lemma sample_loop_db_distinct: "distinct_runs (ld_runs sample_loop_db)"
  by (simp add: sample_loop_db_def keys_distinct_def)

lemma sample_loop_row: "run_row ''r'' (ld_runs sample_loop_db) = Some held_state"
  by (simp add: sample_loop_db_def held_state_def sample_state_def row_of_Cons)

definition converged_state :: LoopRunState where
  "converged_state = held_state\<lparr>lr_terminal_state := ''converged'', lr_checkpoint_id := ''c'',
     lr_version := 1, lr_updated_at := 100, lr_lease_owner := [], lr_lease_expires_at := 0\<rparr>"

definition converged_db :: LoopDb where
  "converged_db = db_or sample_loop_db (apply_change sample_env ''r'' converge sample_loop_db sample_loop_db)"

lemma converge_ok:
  "transition sample_env ''r'' ''evaluate'' ''c'' ''converged'' ''checker_passed'' [] ''driver''
     sample_loop_db sample_loop_db = Inr (converged_state, converged_db)"
  by code_simp

lemma converged_row: "run_row ''r'' (ld_runs converged_db) = Some converged_state"
  by code_simp

text \<open>
  C2. A final loop run is final: once a run is converged, failed, cancelled or in another final
  state, its stop state, node, attempt, checkpoint and evidence are the same after every later
  sequence of operations, whatever views the workers had read before.
\<close>

theorem final_loop_state_is_final:
  assumes "keys_distinct lr_run_id (ld_runs db)"
    and "row_of lr_run_id rid (ld_runs (store_db (run_store ops db))) = Some r" and "is_terminal r"
  shows "\<exists>r'. row_of lr_run_id rid (ld_runs (store_db (run_store (ops @ rest) db))) = Some r' \<and>
    is_terminal r' \<and> lr_terminal_state r' = lr_terminal_state r \<and> lr_node r' = lr_node r \<and>
    lr_attempt r' = lr_attempt r \<and> lr_checkpoint_id r' = lr_checkpoint_id r \<and>
    lr_evidence r' = lr_evidence r"
proof -
  have id: "lr_run_id r = rid" using assms(2) by (auto dest: row_of_Some)
  have "final_row r (run_store ops db)" using assms(2,3) id by (simp add: final_row_def)
  then have "final_row r (run_store (ops @ rest) db)"
    unfolding run_store_later by (rule loop_store.settled_run [OF run_store_inv [OF assms(1)]])
  then obtain r' where "row_of lr_run_id rid (ld_runs (store_db (run_store (ops @ rest) db))) = Some r'"
      "is_terminal r'" "frozen r' = frozen r"
    using id by (auto simp: final_row_def)
  then show ?thesis using frozen_fields [of r' r] by auto
qed

theorem final_loop_state_is_final_witness:
  "\<exists>r'. row_of lr_run_id ''r'' (ld_runs (store_db (run_store ([] @
       [(sample_env, Read 0), (sample_env, Write 0 ''r'' Resume)]) converged_db))) = Some r' \<and>
     lr_terminal_state r' = ''converged''"
proof -
  have kd: "keys_distinct lr_run_id (ld_runs converged_db)" by code_simp
  have row: "row_of lr_run_id ''r'' (ld_runs (store_db (run_store [] converged_db))) = Some converged_state"
    using converged_row by (simp add: run_store_def start_store_def)
  have "is_terminal converged_state" by code_simp
  from final_loop_state_is_final [OF kd row this,
      where rest = "[(sample_env, Read 0), (sample_env, Write 0 ''r'' Resume)]"]
  show ?thesis by (auto simp: converged_state_def)
qed

text \<open>
  C3. No lost update: two workers that read the same version of a run cannot both change it. When
  the first change is written, the second one, at any later time and whatever it is, leaves the
  table of runs as it is.
\<close>

theorem one_change_per_version:
  assumes "keys_distinct lr_run_id (ld_runs db)" and "s = run_store ops db"
    and "store_views s w = Some v" and "store_views s w' = Some v'"
    and "map_option lr_version (row_of lr_run_id rid (ld_runs v)) = Some n"
    and "map_option lr_version (row_of lr_run_id rid (ld_runs v')) = Some n"
    and "s1 = store_step (env, Write w rid c) s" and "ld_runs (store_db s1) \<noteq> ld_runs (store_db s)"
    and "s2 = fold store_step rest s1" and "store_views s2 w' = Some v'"
  shows "ld_runs (store_db (store_step (env', Write w' rid c') s2)) = ld_runs (store_db s2)"
proof -
  have inv: "store_inv s" unfolding assms(2) by (rule run_store_inv [OF assms(1)])
  then have inv1: "store_inv s1" unfolding assms(7) by (rule store_inv_step)
  then have inv2: "store_inv s2" unfolding assms(9) by (rule loop_store.inv_run)
  have "Some (n + 1) = version_of rid s1"
  proof (cases "apply_change env rid c v (store_db s)")
    case (Inl e)
    then show ?thesis using assms(3,7,8) by (simp add: db_or_def)
  next
    case (Inr res)
    obtain st db' where res: "res = (st, db')" by fastforce
    then have db': "store_db s1 = db'" using Inr assms(3,7) by (simp add: db_or_def)
    then have ch: "changes env rid v (store_db s) st db'"
      using apply_change_cases [OF Inr [unfolded res]] assms(8) by simp
    have "runs_evolve (ld_runs v) (ld_runs (store_db s))"
      using inv assms(3) by (simp add: store_inv_def)
    then obtain cur r r' where "get_loop_run rid v = Some cur" "core cur = core r"
        "lr_version r' = lr_version r + 1" "run_row rid (ld_runs db') = Some r'"
      using changes_row [OF ch store_inv_runs [OF inv]] by auto
    then show ?thesis
      using assms(5) db' core_fields(4) [of cur r] by (simp add: version_of_def get_loop_run_def)
  qed
  also have "\<dots> \<le> version_of rid s2"
    unfolding assms(9) by (rule loop_version.level_run [OF inv1])
  finally have newer: "Some (n + 1) \<le> version_of rid s2" .
  show ?thesis
  proof (cases "apply_change env' rid c' v' (store_db s2)")
    case (Inl e)
    then show ?thesis using assms(10) by (simp add: db_or_def)
  next
    case (Inr res)
    obtain st db' where res: "res = (st, db')" by fastforce
    have ev: "runs_evolve (ld_runs v') (ld_runs (store_db s2))"
      using inv2 assms(10) by (simp add: store_inv_def)
    have "\<not> changes env' rid v' (store_db s2) st db'"
    proof
      assume "changes env' rid v' (store_db s2) st db'"
      then obtain cur r where "get_loop_run rid v' = Some cur" "run_row rid (ld_runs (store_db s2)) = Some r"
          "core cur = core r"
        using changes_row [OF _ store_inv_runs [OF inv2] ev] by blast
      then show False
        using newer assms(6) core_fields(4) [of cur r] by (simp add: version_of_def get_loop_run_def)
    qed
    then have "ld_runs db' = ld_runs (store_db s2)"
      using apply_change_cases [OF Inr [unfolded res]] by blast
    then show ?thesis using Inr res assms(10) by (simp add: db_or_def)
  qed
qed

theorem one_change_per_version_witness:
  "ld_runs (store_db (store_step (sample_env, Write 1 ''r'' (FailActive ''driver'' [] None))
      (store_step (sample_env, Write 0 ''r'' converge)
        (run_store [(sample_env, Read 0), (sample_env, Read 1)] sample_loop_db)))) =
   ld_runs (store_db (store_step (sample_env, Write 0 ''r'' converge)
        (run_store [(sample_env, Read 0), (sample_env, Read 1)] sample_loop_db)))"
proof -
  let ?s = "run_store [(sample_env, Read 0), (sample_env, Read 1)] sample_loop_db"
  let ?s1 = "store_step (sample_env, Write 0 ''r'' converge) ?s"
  have views: "store_views ?s 0 = Some sample_loop_db" "store_views ?s 1 = Some sample_loop_db"
      "store_db ?s = sample_loop_db"
    by (simp_all add: run_store_def start_store_def)
  have n: "map_option lr_version (row_of lr_run_id ''r'' (ld_runs sample_loop_db)) = Some 0"
    unfolding sample_loop_row by (simp add: held_state_def sample_state_def)
  have s1: "store_db ?s1 = converged_db" "store_views ?s1 1 = Some sample_loop_db"
    using views by (simp_all add: converged_db_def)
  have "ld_runs converged_db \<noteq> ld_runs sample_loop_db" by code_simp
  then show ?thesis
    using one_change_per_version [OF sample_loop_db_distinct refl views(1,2) n n refl, where rest = "[]"] s1 views
    by (simp del: store_step.simps)
qed

text \<open>
  Versions never go back: over every sequence of operations the version of a run only grows,
  and a run that exists never disappears.
\<close>

theorem loop_version_monotone:
  assumes "keys_distinct lr_run_id (ld_runs db)"
    and "row_of lr_run_id rid (ld_runs (store_db (run_store ops db))) = Some r"
  shows "\<exists>r'. row_of lr_run_id rid (ld_runs (store_db (run_store (ops @ rest) db))) = Some r' \<and>
    lr_version r \<le> lr_version r'"
proof -
  have "version_of rid (run_store ops db) \<le> version_of rid (run_store (ops @ rest) db)"
    unfolding run_store_later by (rule loop_version.level_run [OF run_store_inv [OF assms(1)]])
  then show ?thesis
    using assms(2)
    by (cases "row_of lr_run_id rid (ld_runs (store_db (run_store (ops @ rest) db)))")
      (auto simp: version_of_def)
qed

theorem loop_version_monotone_witness:
  "\<exists>r'. row_of lr_run_id ''r'' (ld_runs (store_db (run_store ([] @
       [(sample_env, Claim 120 ''r'' ''driver'' None None False)]) sample_loop_db))) = Some r' \<and>
     0 \<le> lr_version r'"
proof -
  have "row_of lr_run_id ''r'' (ld_runs (store_db (run_store [] sample_loop_db))) = Some held_state"
    using sample_loop_row by (simp add: run_store_def start_store_def)
  from loop_version_monotone [OF sample_loop_db_distinct this,
      where rest = "[(sample_env, Claim 120 ''r'' ''driver'' None None False)]"]
  show ?thesis by (simp add: held_state_def sample_state_def)
qed

text \<open>
  No silent change of state: a step after which the node or the stop state of a run is a
  different one has appended exactly one event, for that run, with the new node and stop state.
\<close>

theorem state_change_is_logged:
  assumes "keys_distinct lr_run_id (ld_runs db)" and "s = run_store ops db" and "s' = store_step ea s"
    and "row_of lr_run_id rid (ld_runs (store_db s)) = Some r"
    and "row_of lr_run_id rid (ld_runs (store_db s')) = Some r'"
    and "(lr_node r', lr_terminal_state r') \<noteq> (lr_node r, lr_terminal_state r)"
  shows "\<exists>e. ld_events (store_db s') = ld_events (store_db s) @ [e] \<and> le_run_id e = rid \<and>
    le_node e = lr_node r' \<and> le_terminal_state e = lr_terminal_state r'"
proof -
  have inv: "store_inv s" unfolding assms(2) by (rule run_store_inv [OF assms(1)])
  show ?thesis
  proof (cases ea s rule: store_step_cases)
    case (direct env a)
    have "store_db s' = apply_action env a (store_db s)" using direct(2) assms(3) by simp
    then have "leases_evolve (ld_runs (store_db s)) (ld_runs (store_db s'))"
      using apply_action_leases_evolve by simp
    then obtain r2 where "run_row rid (ld_runs (store_db s')) = Some r2" "lease_evolves r r2"
      using assms(4) unfolding rows_related_def by blast
    then have "frozen r = frozen r'" using assms(5) by (simp add: lease_evolves_def)
    then show ?thesis using frozen_fields assms(6) by metis
  next
    case (writing env w j c view)
    have db': "store_db s' = db_or (store_db s) (apply_change env j c view (store_db s))"
      using writing(3) assms(3) by simp
    then have same: "ld_runs (store_db s') \<noteq> ld_runs (store_db s)" using assms(4-6) by auto
    then obtain st where ok: "apply_change env j c view (store_db s) = Inr (st, store_db s')"
      using db' by (auto simp: db_or_def split: sum.splits prod.splits)
    have ch: "changes env j view (store_db s) st (store_db s')"
      using apply_change_cases [OF ok] same by simp
    have "runs_evolve (ld_runs view) (ld_runs (store_db s))"
      using inv writing(2) by (simp add: store_inv_def)
    then obtain r2 e where r2: "core r2 = core st"
        "\<forall>i. run_row i (ld_runs (store_db s')) = (if i = j then Some r2 else run_row i (ld_runs (store_db s)))"
        "ld_events (store_db s') = ld_events (store_db s) @ [e]" "le_run_id e = j" "le_node e = lr_node st"
        "le_terminal_state e = lr_terminal_state st"
      using changes_row [OF ch store_inv_runs [OF inv]] by auto
    then have "j = rid" using assms(4-6) by (auto split: if_splits)
    then have "r' = r2" using r2(2) assms(5) by simp
    then show ?thesis using r2 \<open>j = rid\<close> core_fields [OF r2(1)] by auto
  qed (use assms(3-6) in simp_all)
qed

theorem state_change_is_logged_witness:
  "\<exists>e. ld_events converged_db = ld_events sample_loop_db @ [e] \<and> le_terminal_state e = ''converged''"
proof -
  let ?s = "run_store [(sample_env, Read 0)] sample_loop_db"
  have s: "store_db ?s = sample_loop_db" "store_views ?s 0 = Some sample_loop_db"
    by (simp_all add: run_store_def start_store_def)
  then have s': "store_db (store_step (sample_env, Write 0 ''r'' converge) ?s) = converged_db"
    by (simp add: converged_db_def)
  have row: "row_of lr_run_id ''r'' (ld_runs (store_db ?s)) = Some held_state"
    using s sample_loop_row by simp
  have row': "row_of lr_run_id ''r'' (ld_runs (store_db
      (store_step (sample_env, Write 0 ''r'' converge) ?s))) = Some converged_state"
    using s' converged_row by simp
  have "(lr_node converged_state, lr_terminal_state converged_state) \<noteq>
      (lr_node held_state, lr_terminal_state held_state)"
    by (simp add: converged_state_def held_state_def sample_state_def)
  from state_change_is_logged [OF sample_loop_db_distinct refl refl row row' this]
  show ?thesis by (auto simp: s converged_db_def converged_state_def)
qed

text \<open>
  C1. A live lease is exclusive: while the lease of a driver on an open run has not expired, no
  sequence of operations by others changes its row, and a claim by another driver is refused.
  Operations of others are claims, bulk claims, renewals, releases of other owners, releases of
  expired leases, new specs and runs, and every state change, also from an old view, that names a
  lease owner other than the driver, or that needs no lease because it is for runs that wait. A
  transition that names no lease owner is not held off by the lease; the version guard alone
  orders it.
\<close>

theorem live_lease_is_exclusive:
  assumes "keys_distinct lr_run_id (ld_runs db)" and "row_of lr_run_id rid (ld_runs db) = Some r"
    and "lr_lease_owner r \<noteq> []" and "lr_terminal_state r = []"
    and "\<forall>op\<in>set ops. rival rid (lr_lease_owner r) (lr_lease_expires_at r) op"
  shows "row_of lr_run_id rid (ld_runs (store_db (run_store ops db))) = Some r \<and>
    (\<forall>env dl o' lease now paused. o' \<noteq> lr_lease_owner r \<and>
       clock_or (env_clock env) now < lr_lease_expires_at r \<longrightarrow>
       fst (claim_for_execution env dl rid o' lease now paused (store_db (run_store ops db))) = None)"
proof -
  have id: "lr_run_id r = rid" using assms(2) by (auto dest: row_of_Some)
  have "holds_lease r db" using assms(1-3) id by (simp add: holds_lease_def)
  then have held: "holds_lease r (store_db (run_store ops db))"
    unfolding run_store_def
    using rivals_keep_lease [OF start_store_inv [OF assms(1)], of r ops] assms(4,5) id by (simp add: start_store_def)
  then have row: "row_of lr_run_id rid (ld_runs (store_db (run_store ops db))) = Some r"
    and kd: "keys_distinct lr_run_id (ld_runs (store_db (run_store ops db)))"
    using id by (simp_all add: holds_lease_def)
  have "fst (claim_for_execution env dl rid o' lease now paused (store_db (run_store ops db))) = None"
    if "o' \<noteq> lr_lease_owner r" "clock_or (env_clock env) now < lr_lease_expires_at r"
    for env dl o' lease now paused
  proof -
    have "\<not> lease_available o' (clock_or (env_clock env) now) r"
      using not_available_to_rival [OF held] that by simp
    then show ?thesis
      using sql_count_by_key [OF kd, of rid "\<lambda>r. (lr_terminal_state r = [] \<or> paused \<and> lr_terminal_state r = ''paused'')
          \<and> lease_available o' (clock_or (env_clock env) now) r"] row
      by (simp add: claim_for_execution_def Let_def)
  qed
  then show ?thesis using row by blast
qed

theorem live_lease_is_exclusive_witness:
  "row_of lr_run_id ''r'' (ld_runs (store_db (run_store
     [(sample_env, Claim 120 ''r'' ''other'' None None True), (sample_env, ReleaseExpired None 10), (sample_env, Read 0),
      (sample_env, Write 0 ''r'' (Move ''evaluate'' ''cp'' [] ''executed'' [] ''other''))]
     sample_loop_db))) = Some held_state"
proof -
  have "lr_lease_owner held_state \<noteq> []" "lr_terminal_state held_state = []"
    by (simp_all add: held_state_def sample_state_def)
  from live_lease_is_exclusive [OF sample_loop_db_distinct sample_loop_row this,
      where ops = "[(sample_env, Claim 120 ''r'' ''other'' None None True), (sample_env, ReleaseExpired None 10),
        (sample_env, Read 0), (sample_env, Write 0 ''r'' (Move ''evaluate'' ''cp'' [] ''executed'' [] ''other''))]"]
  show ?thesis by (simp add: held_state_def sample_env_def clock_or_def)
qed

text \<open>
  What a claim answers: it succeeds exactly when the run exists, is open (or paused, where the
  caller allows it) and its lease is free, the caller's own, or expired. The answer is the stored
  row, one version on, with the caller as owner for at least a second; a refused claim changes
  nothing.
\<close>

theorem claim_for_execution_iff:
  assumes "keys_distinct lr_run_id (ld_runs db)"
    and "claim_for_execution env dl rid owner lease now paused db = (answer, db')"
  shows "(answer = None \<longrightarrow> db' = db) \<and> (answer \<noteq> None \<longleftrightarrow>
      (\<exists>r. row_of lr_run_id rid (ld_runs db) = Some r \<and>
         lr_terminal_state r \<in> {[]} \<union> (if paused then {''paused''} else {}) \<and>
         (lr_lease_owner r \<in> {[], owner} \<or> lr_lease_expires_at r \<le> clock_or (env_clock env) now))) \<and>
    (\<forall>r'. answer = Some r' \<longrightarrow> row_of lr_run_id rid (ld_runs db') = Some r' \<and>
       lr_lease_owner r' = owner \<and> clock_or (env_clock env) now + 1 \<le> lr_lease_expires_at r' \<and>
       (\<exists>r. row_of lr_run_id rid (ld_runs db) = Some r \<and> lr_version r' = lr_version r + 1 \<and>
          lr_node r' = lr_node r \<and> lr_terminal_state r' = lr_terminal_state r \<and>
          lr_evidence r' = lr_evidence r))"
proof -
  define now' where "now' = clock_or (env_clock env) now"
  define l where "l = (case lease of None \<Rightarrow> dl | Some x \<Rightarrow> x)"
  let ?q = "\<lambda>r. (lr_terminal_state r = [] \<or> paused \<and> lr_terminal_state r = ''paused'')
      \<and> lease_available owner now' r"
  let ?p = "\<lambda>r. lr_run_id r = rid \<and> ?q r"
  let ?db = "db\<lparr>ld_runs := sql_update ?p (take_lease owner (lease_until now' l) now') (ld_runs db)\<rparr>"
  have res: "(answer, db') = (if sql_count ?p (ld_runs db) \<noteq> 1 then (None, db) else (get_loop_run rid ?db, ?db))"
    using assms(2) unfolding claim_for_execution_def Let_def now'_def l_def by (rule sym)
  have n: "sql_count ?p (ld_runs db) = (case row_of lr_run_id rid (ld_runs db) of None \<Rightarrow> 0
      | Some r \<Rightarrow> if ?q r then 1 else 0)"
    by (rule sql_count_by_key [OF assms(1)])
  show ?thesis
  proof (cases "\<exists>r. row_of lr_run_id rid (ld_runs db) = Some r \<and> ?q r")
    case False
    then have "answer = None" "db' = db" using res n by (auto split: option.splits if_splits)
    then show ?thesis using False unfolding lease_available_def now'_def by auto
  next
    case True
    then obtain r where r: "row_of lr_run_id rid (ld_runs db) = Some r" "?q r" by blast
    have id: "lr_run_id r = rid" using row_of_Some [OF r(1)] by simp
    have "row_of lr_run_id rid (ld_runs ?db) = Some (take_lease owner (lease_until now' l) now' r)"
      using r id by (simp add: row_of_update)
    then have "answer = Some (take_lease owner (lease_until now' l) now' r)"
        "row_of lr_run_id rid (ld_runs db') = Some (take_lease owner (lease_until now' l) now' r)"
      using res n r by (simp_all add: get_loop_run_def)
    then show ?thesis
      using r by (auto simp: take_lease_def lease_until_def lease_available_def now'_def)
  qed
qed

theorem claim_for_execution_iff_witness:
  "fst (claim_for_execution sample_env 120 ''r'' ''other'' None (Some 500) False sample_loop_db) \<noteq> None"
proof -
  obtain answer db' where c:
      "claim_for_execution sample_env 120 ''r'' ''other'' None (Some 500) False sample_loop_db = (answer, db')"
    by fastforce
  have "answer \<noteq> None"
    using claim_for_execution_iff [OF sample_loop_db_distinct c] sample_loop_row
    by (simp add: held_state_def sample_state_def clock_or_def)
  then show ?thesis using c by simp
qed

text \<open>
  C11. What a transition needs and does: it is accepted only from a run that is not stopped, with a
  checkpoint of this run on record, along an edge of the stored spec from the node of the run to
  the requested target under the requested condition, and, when a driver names itself, under its
  live lease. The stored row is then the answer, one version on, and a stop releases the lease.
\<close>

theorem loop_transition_contract:
  assumes "keys_distinct lr_run_id (ld_runs db)"
    and "transition env rid node cp ts cond ev owner db db = Inr (st, db')"
  shows "\<exists>cur spec d r'. row_of lr_run_id rid (ld_runs db) = Some cur \<and> \<not> is_stopped cur \<and>
    (\<exists>c\<in>set (ld_checkpoints db). lc_id c = cp \<and> lc_run_id c = rid) \<and>
    row_of lsr_id (lr_loop_spec_id cur) (ld_specs db) = Some spec \<and>
    JDict d \<in> set (as_list (jget (as_dict (lsr_spec spec)) ''state_graph'')) \<and>
    jget d ''source'' = JStr (lr_node cur) \<and>
    jget d ''target'' = JStr (if py_strip ts \<noteq> [] then ts else node) \<and>
    (cond = [] \<or> jget d ''condition'' = JStr cond) \<and>
    (owner = [] \<or> lr_lease_owner cur = owner \<and> env_clock env < lr_lease_expires_at cur) \<and>
    row_of lr_run_id rid (ld_runs db') = Some r' \<and> core r' = core st \<and>
    lr_version st = lr_version cur + 1 \<and> lr_node st = node \<and> lr_terminal_state st = ts \<and>
    (py_strip ts \<noteq> [] \<longrightarrow> lr_lease_owner st = [])"
proof -
  obtain cur where cur: "get_loop_run rid db = Some cur" "has_checkpoint cp rid db" "\<not> is_stopped cur"
      "transition_allowed db cur (if py_strip ts \<noteq> [] then ts else node) cond = Inr True"
      "owner = [] \<or> lr_lease_owner cur = owner \<and> env_clock env < lr_lease_expires_at cur"
      "loop_run_transition (env_clock env) cur node cp ts ev =
        Inr (cur\<lparr>lr_node := node, lr_checkpoint_id := cp, lr_terminal_state := ts,
          lr_evidence := dict_merge (lr_evidence cur) ev, lr_attempt := next_attempt cur node,
          lr_updated_at := env_clock env\<rparr>)"
    using transition_Inr_cur [OF assms(2)] by blast
  obtain spec es e where spec: "row_of lsr_id (lr_loop_spec_id cur) (ld_specs db) = Some spec"
      "spec_edges (as_dict (lsr_spec spec)) = Inr es" "e \<in> set es"
      "edge_matches (lr_node cur) (if py_strip ts \<noteq> [] then ts else node) cond e"
    using cur(4) by (auto simp: transition_allowed_def split: option.splits)
  then obtain d where e: "e = JDict d" by (cases e) (simp_all add: edge_matches_def)
  have edge: "JDict d \<in> set (as_list (jget (as_dict (lsr_spec spec)) ''state_graph''))"
    using spec(2,3) e by (auto simp: spec_edges_def as_list_def jget_def split: option.splits json.splits)
  have st: "st = cur\<lparr>lr_node := node, lr_checkpoint_id := cp, lr_terminal_state := ts,
      lr_evidence := dict_merge (lr_evidence cur) ev, lr_attempt := next_attempt cur node,
      lr_updated_at := env_clock env, lr_version := lr_version cur + 1,
      lr_lease_owner := (if py_strip ts \<noteq> [] then [] else lr_lease_owner cur),
      lr_lease_expires_at := (if py_strip ts \<noteq> [] then 0 else lr_lease_expires_at cur)\<rparr>"
    using assms(2) cur
    by (auto simp: transition_def Let_def select_current_def split: if_splits dest: commit_state_answer)
  obtain r' where "run_row rid (ld_runs db') = Some r'" "core r' = core st"
    using changes_row [OF transition_changes [OF assms(2)] assms(1) runs_evolve_refl] by auto
  then show ?thesis
    using cur spec e edge st by (auto simp: get_loop_run_def has_checkpoint_def edge_matches_def)
qed

theorem loop_transition_contract_witness:
  "\<exists>r'. row_of lr_run_id ''r'' (ld_runs converged_db) = Some r' \<and> lr_lease_owner r' = [] \<and> lr_version r' = 1"
proof -
  have strip: "py_strip ''converged'' \<noteq> []" by code_simp
  obtain cur r' where "row_of lr_run_id ''r'' (ld_runs sample_loop_db) = Some cur"
      "row_of lr_run_id ''r'' (ld_runs converged_db) = Some r'" "core r' = core converged_state"
      "lr_version converged_state = lr_version cur + 1" "lr_lease_owner converged_state = []"
    using loop_transition_contract [OF sample_loop_db_distinct converge_ok] strip by blast
  then show ?thesis
    using sample_loop_row core_fields [of r' converged_state] by (auto simp: held_state_def sample_state_def)
qed

text \<open>
  The retry list: every state it returns is a stored paused run whose typed retry or
  background resource gate is due, and there are at most \<open>limit\<close> of them (one, where the limit is
  not positive). It misses no due run as long as at most \<open>5 * limit\<close> runs are paused and at most
  \<open>limit\<close> are due.
\<close>

theorem retryable_pauses_contract:
  assumes "list_retryable_pauses env now limit db = out"
    and "now' = clock_or (env_clock env) now"
  shows "(\<forall>s\<in>set out. s \<in> set (ld_runs db) \<and> lr_terminal_state s = ''paused'' \<and> typed_pause_ready now' s) \<and>
    int (length out) \<le> max 1 limit \<and>
    (int (sql_count (\<lambda>s. lr_terminal_state s = ''paused'') (ld_runs db)) \<le> limit * 5 \<and>
     int (sql_count (\<lambda>s. lr_terminal_state s = ''paused'' \<and> typed_pause_ready now' s) (ld_runs db)) \<le> limit \<longrightarrow>
     (\<forall>s\<in>set (ld_runs db). lr_terminal_state s = ''paused'' \<and> typed_pause_ready now' s \<longrightarrow> s \<in> set out))"
proof -
  let ?paused = "filter (\<lambda>s. lr_terminal_state s = ''paused'') (ld_runs db)"
  let ?rows = "sql_asc lr_updated_at ?paused"
  have out: "out = take (nat (max 1 limit)) (filter (typed_pause_ready now') (sql_limit (limit * 5) ?rows))"
    using assms by (simp add: list_retryable_pauses_def take_ready_eq)
  have sound: "set out \<subseteq> {s \<in> set ?paused. typed_pause_ready now' s}"
    unfolding out using set_sql_limit [of "limit * 5" ?rows] by (auto dest!: in_set_takeD)
  have complete: "s \<in> set out" if n: "int (length ?paused) \<le> limit * 5"
    "int (length (filter (typed_pause_ready now') ?paused)) \<le> limit"
    and s: "s \<in> set ?paused" "typed_pause_ready now' s" for s
  proof -
    have "sql_limit (limit * 5) ?rows = ?rows" using n(1) by (intro sql_limit_all) (simp add: sql_asc_def)
    moreover have "length (filter (typed_pause_ready now') ?rows) = length (filter (typed_pause_ready now') ?paused)"
      by (simp add: sql_asc_def filter_sort)
    ultimately have "out = filter (typed_pause_ready now') ?rows"
      unfolding out using n(2) by simp
    then show ?thesis using s by simp
  qed
  have "int (length out) \<le> max 1 limit" unfolding out by simp
  then show ?thesis using sound complete by (auto simp: sql_count_def conj_commute)
qed

definition gated_state :: "string \<Rightarrow> dict \<Rightarrow> LoopRunState" where
  "gated_state rid ev = sample_state\<lparr>lr_run_id := rid, lr_terminal_state := ''paused'', lr_evidence := ev\<rparr>"

definition due_state :: LoopRunState where
  "due_state = (gated_state ''due'' [(''retry_gate'', JDict [(''decision'', JStr ''pause''),
     (''retry_after_seconds'', JInt 30)])])\<lparr>lr_updated_at := 10\<rparr>"

definition paused_db :: "LoopRunState list \<Rightarrow> LoopDb" where
  "paused_db runs = \<lparr>ld_specs = [], ld_runs = runs, ld_checkpoints = [], ld_events = []\<rparr>"

theorem retryable_pauses_contract_witness:
  "due_state \<in> set (list_retryable_pauses sample_env (Some 100) 1 (paused_db [gated_state ''a'' [], due_state]))"
proof -
  let ?runs = "[gated_state ''a'' [], due_state]"
  have "int (sql_count (\<lambda>s. lr_terminal_state s = ''paused'') ?runs) \<le> 1 * 5"
    "int (sql_count (\<lambda>s. lr_terminal_state s = ''paused'' \<and>
       typed_pause_ready (clock_or (env_clock sample_env) (Some 100)) s) ?runs) \<le> 1"
    "lr_terminal_state due_state = ''paused''"
    "typed_pause_ready (clock_or (env_clock sample_env) (Some 100)) due_state"
    by code_simp+
  then show ?thesis
    using retryable_pauses_contract [OF refl refl, of sample_env "Some 100" 1 "paused_db ?runs"]
    by (simp add: paused_db_def)
qed

text \<open>
  Old pauses hide due ones: the list looks only at the \<open>5 * limit\<close> oldest paused runs, so when
  none of these is due it is empty, whatever retries are due among the others.
\<close>

theorem old_pauses_hide_due_ones:
  assumes "0 \<le> limit" and "\<forall>s\<in>set (take (nat (limit * 5)) (sort_key lr_updated_at
      (filter (\<lambda>r. lr_terminal_state r = ''paused'') (ld_runs db)))). \<not> typed_pause_ready now s"
  shows "list_retryable_pauses env (Some now) limit db = []"
  using assms
  by (simp add: list_retryable_pauses_def take_ready_eq sql_limit_def sql_asc_def clock_or_def filter_empty_conv)

theorem old_pauses_hide_due_ones_witness:
  "typed_pause_ready 100 due_state \<and>
   list_retryable_pauses sample_env (Some 100) 1
     (paused_db (map (\<lambda>i. gated_state i []) [''a'', ''b'', ''c'', ''d'', ''e''] @ [due_state])) = []"
proof -
  let ?db = "paused_db (map (\<lambda>i. gated_state i []) [''a'', ''b'', ''c'', ''d'', ''e''] @ [due_state])"
  have hidden: "\<forall>s\<in>set (take (nat (1 * 5)) (sort_key lr_updated_at
      (filter (\<lambda>r. lr_terminal_state r = ''paused'') (ld_runs ?db)))). \<not> typed_pause_ready 100 s"
    by code_simp
  have "typed_pause_ready 100 due_state" by code_simp
  then show ?thesis using old_pauses_hide_due_ones [OF _ hidden] by simp
qed

end
