(* ===== verification/Delivery_Outbox.thy ===== *)
theory Delivery_Outbox
  imports Py_Json
begin

text \<open>
  \<open>navi/delivery_outbox.py\<close>, the durable queue of outbound deliveries, and the delivery request of
  \<open>navi/connector_delivery.py\<close>.

  The table \<open>delivery_outbox\<close> is a list of \<open>DeliveryItem\<close>s. The JSON columns (payload, transport
  context, receipt) are the dictionaries they denote. \<open>now\<close> is the time an operation works with,
  given by the caller or read from the clock. The connector is a parameter: \<open>deliver i item\<close> is what
  its \<open>deliver\<close> does in the \<open>i\<close>-th round of a drain, a receipt, or the failure its
  \<open>classify_failure\<close> makes of the exception. \<open>sha256_hex\<close> stands for \<open>hashlib.sha256\<close>.
\<close>

section \<open>Delivery requests\<close>

record ConnectorDelivery =
  cd_path :: string
  cd_text :: string
  cd_delivery_id :: string
  cd_run_id :: string
  cd_goal_id :: string
  cd_channel :: string
  cd_kind :: string
  cd_mode :: string
  cd_version :: string

definition DELIVERY_FACT_KEY :: string where
  "DELIVERY_FACT_KEY = ''connector_delivery''"

definition DELIVERY_CONTRACT_VERSION :: string where
  "DELIVERY_CONTRACT_VERSION = ''2''"

definition connector_delivery_to_dict :: "ConnectorDelivery \<Rightarrow> dict" where
  "connector_delivery_to_dict d =
     [(''version'', JStr (cd_version d)), (''delivery_id'', JStr (cd_delivery_id d)),
      (''kind'', JStr (cd_kind d)), (''mode'', JStr (cd_mode d)), (''channel'', JStr (cd_channel d)),
      (''path'', JStr (cd_path d)), (''text'', JStr (cd_text d)), (''run_id'', JStr (cd_run_id d)),
      (''goal_id'', JStr (cd_goal_id d))]"

definition connector_delivery_bind ::
  "string \<Rightarrow> string \<Rightarrow> string \<Rightarrow> ConnectorDelivery \<Rightarrow> ConnectorDelivery" where
  "connector_delivery_bind delivery_id rid goal_id d =
     d\<lparr>cd_delivery_id := or_else (cd_delivery_id d) delivery_id,
       cd_run_id := or_else (cd_run_id d) rid, cd_goal_id := or_else (cd_goal_id d) goal_id\<rparr>"

definition connector_delivery_from_facts :: "json \<Rightarrow> ConnectorDelivery option" where
  "connector_delivery_from_facts facts =
     (case facts of
        JDict f \<Rightarrow> (case jget f DELIVERY_FACT_KEY of
          JDict raw \<Rightarrow>
            (let path = py_strip (str_or_empty (jget raw ''path''));
                 kind = py_strip (str_or_empty (jget raw ''kind''));
                 mode = py_strip (str_or_empty (jget raw ''mode''));
                 channel = py_strip (str_or_empty (jget raw ''channel''));
                 version = py_strip (str_or_empty (jget raw ''version''))
             in if path = [] \<or> kind \<noteq> ''file'' \<or> mode \<noteq> ''durable'' \<or> channel \<noteq> ''current''
                   \<or> version \<noteq> DELIVERY_CONTRACT_VERSION then None
                else Some \<lparr>cd_path = path, cd_text = str_or_empty (jget raw ''text''),
                       cd_delivery_id = str_or_empty (jget raw ''delivery_id''),
                       cd_run_id = str_or_empty (jget raw ''run_id''),
                       cd_goal_id = str_or_empty (jget raw ''goal_id''),
                       cd_channel = channel, cd_kind = kind, cd_mode = mode, cd_version = version\<rparr>)
        | _ \<Rightarrow> None)
      | _ \<Rightarrow> None)"

definition bind_connector_delivery_facts :: "string \<Rightarrow> string \<Rightarrow> string \<Rightarrow> dict \<Rightarrow> dict" where
  "bind_connector_delivery_facts delivery_id rid goal_id facts =
     (case connector_delivery_from_facts (JDict facts) of
        None \<Rightarrow> facts
      | Some d \<Rightarrow> dict_merge facts [(DELIVERY_FACT_KEY,
          JDict (connector_delivery_to_dict (connector_delivery_bind delivery_id rid goal_id d)))])"

text \<open>The parts of a loop result that \<open>connector_delivery_from_loop_result\<close> reads; an absent part is empty.\<close>

definition connector_delivery_from_loop_result ::
  "dict \<Rightarrow> string \<Rightarrow> string \<Rightarrow> string \<Rightarrow> ConnectorDelivery option" where
  "connector_delivery_from_loop_result evidence loop_run_id rid goal_id =
     (case jget evidence ''capability_result'' of
        JDict result \<Rightarrow> map_option (\<lambda>d.
          d\<lparr>cd_delivery_id := or_else loop_run_id (or_else rid (cd_delivery_id d)),
            cd_run_id := or_else (cd_run_id d) rid, cd_goal_id := or_else (cd_goal_id d) goal_id\<rparr>)
          (connector_delivery_from_facts (jget result ''facts''))
      | _ \<Rightarrow> None)"

definition connector_delivery_client_id :: "(string \<Rightarrow> string) \<Rightarrow> string \<Rightarrow> string \<Rightarrow> string" where
  "connector_delivery_client_id sha256_hex delivery_id label =
     label @ ''-'' @ take 32 (sha256_hex delivery_id)"

section \<open>Items, envelopes, receipts\<close>

record DeliveryItem =
  di_id :: string
  di_batch_id :: string
  di_channel :: string
  di_peer_id :: string
  di_sender_id :: string
  di_trace_id :: string
  di_run_id :: string
  di_goal_id :: string
  di_kind :: string
  di_payload :: dict
  di_transport_context :: dict
  di_body :: string
  di_body_provenance :: string
  di_status :: string
  di_attempts :: int
  di_max_attempts :: int
  di_next_attempt_at :: time
  di_error :: string
  di_receipt :: dict
  di_delivery_id :: string
  di_projected_at :: time
  di_created_at :: time
  di_updated_at :: time
  di_sent_at :: time

type_synonym outbox = "DeliveryItem list"

record DeliveryEnvelope =
  de_batch_id :: string
  de_channel :: string
  de_peer_id :: string
  de_sender_id :: string
  de_trace_id :: string
  de_run_id :: string
  de_goal_id :: string
  de_text :: string
  de_body_provenance :: string
  de_file_path :: string
  de_transport_context :: dict
  de_max_attempts :: int

text \<open>\<open>fresh_hash\<close> is the hash of the clock that stands in for a blank batch id.\<close>

definition stable_batch_id :: "string \<Rightarrow> string \<Rightarrow> string" where
  "stable_batch_id fresh_hash v = (let raw = py_strip v in if raw \<noteq> [] then take 240 raw else fresh_hash)"

definition envelope_item ::
  "string \<Rightarrow> time \<Rightarrow> DeliveryEnvelope \<Rightarrow> string \<Rightarrow> string \<Rightarrow> dict \<Rightarrow> string \<Rightarrow> DeliveryItem" where
  "envelope_item batch_id now e item_id kind payload body =
     \<lparr>di_id = item_id, di_batch_id = batch_id, di_channel = py_strip (de_channel e),
      di_peer_id = py_strip (de_peer_id e), di_sender_id = py_strip (de_sender_id e),
      di_trace_id = py_strip (de_trace_id e), di_run_id = py_strip (de_run_id e),
      di_goal_id = py_strip (de_goal_id e), di_kind = kind, di_payload = payload,
      di_transport_context = de_transport_context e, di_body = body,
      di_body_provenance = py_strip (de_body_provenance e), di_status = ''pending'', di_attempts = 0,
      di_max_attempts = max 1 (de_max_attempts e), di_next_attempt_at = now, di_error = [],
      di_receipt = [], di_delivery_id = [], di_projected_at = 0, di_created_at = now,
      di_updated_at = now, di_sent_at = 0\<rparr>"

definition envelope_items :: "string \<Rightarrow> time \<Rightarrow> DeliveryEnvelope \<Rightarrow> DeliveryItem list" where
  "envelope_items fresh_hash now e =
     (let batch_id = stable_batch_id fresh_hash (de_batch_id e);
          text = py_strip (de_text e); path = py_strip (de_file_path e)
      in (if text \<noteq> [] then [envelope_item batch_id now e (batch_id @ '':text'') ''text''
            [(''text'', JStr text)] text] else []) @
         (if path \<noteq> [] then [envelope_item batch_id now e (batch_id @ '':file'') ''file''
            [(''path'', JStr path)] []] else []))"

record DeliveryReceipt =
  dc_transport :: string
  dc_media_count :: int
  dc_details :: dict

definition delivery_receipt_to_dict :: "DeliveryReceipt \<Rightarrow> dict" where
  "delivery_receipt_to_dict r =
     [(''transport'', JStr (dc_transport r)), (''media_count'', JInt (max 0 (dc_media_count r))),
      (''details'', JDict (dc_details r))]"

record DeliveryFailure =
  df_reason :: string
  df_error :: string
  df_retryable :: bool
  df_retry_after_seconds :: time
  df_provider_code :: string

record DeliveryOutcome =
  do_item :: DeliveryItem
  do_state :: string
  do_receipt :: "DeliveryReceipt option"
  do_failure :: "DeliveryFailure option"

definition retry_delay :: "int \<Rightarrow> time \<Rightarrow> time" where
  "retry_delay attempts base_seconds =
     (let base = max 1 base_seconds in min 3600 (base * 2 ^ nat (max 0 (attempts - 1))))"

text \<open>\<open>None\<close> is a deadline that never comes, \<open>Some 0\<close> no deadline.\<close>

definition delivery_expires_at :: "DeliveryItem \<Rightarrow> time option" where
  "delivery_expires_at item = nonneg_seconds (jget (di_transport_context item) ''expires_at'')"

definition delivery_expired :: "time \<Rightarrow> DeliveryItem \<Rightarrow> bool" where
  "delivery_expired now item =
     (case delivery_expires_at item of None \<Rightarrow> False | Some e \<Rightarrow> e \<noteq> 0 \<and> e \<le> now)"

section \<open>The store\<close>

definition get_item :: "string \<Rightarrow> outbox \<Rightarrow> DeliveryItem option" where
  "get_item item_id t = row_of di_id item_id t"

fun enqueue_items :: "DeliveryItem list \<Rightarrow> outbox \<Rightarrow> outbox result" where
  "enqueue_items [] t = Inr t"
| "enqueue_items (item # items) t =
     (let t' = sql_insert_or_ignore di_id item t
      in case get_item (di_id item) t' of
           Some row \<Rightarrow>
             if (di_batch_id row, di_kind row, di_payload row)
                \<noteq> (di_batch_id item, di_kind item, di_payload item)
             then Inl (RuntimeError ''delivery idempotency key conflicts with a different payload'')
             else enqueue_items items t'
         | None \<Rightarrow> Inl (RuntimeError ''delivery idempotency key conflicts with a different payload''))"

definition enqueue ::
  "string \<Rightarrow> time \<Rightarrow> DeliveryEnvelope \<Rightarrow> outbox \<Rightarrow> (DeliveryItem list \<times> outbox) result" where
  "enqueue fresh_hash now e t =
     (let items = envelope_items fresh_hash now e
      in if items = [] then Inr ([], t)
         else if py_strip (de_channel e) = [] \<or> py_strip (de_peer_id e) = []
         then Inl (ValueError ''delivery requires channel and peer_id'')
         else and_then (enqueue_items items t) (\<lambda>t'.
           Inr (map (\<lambda>i. case get_item (di_id i) t' of Some row \<Rightarrow> row | None \<Rightarrow> i) items, t')))"

definition latest_for_run :: "string \<Rightarrow> outbox \<Rightarrow> DeliveryItem option" where
  "latest_for_run rid t =
     (if rid = [] then None
      else case sql_desc di_created_at (filter (\<lambda>r. di_run_id r = rid) t) of [] \<Rightarrow> None | r # _ \<Rightarrow> Some r)"

text \<open>\<open>COALESCE(CAST(json_extract(transport_context_json, '$.priority') AS INTEGER), 0)\<close>\<close>

definition cast_text :: "string \<Rightarrow> int" where
  "cast_text s = (let (neg, r) = split_sign (dropWhile is_py_space s);
                      n = int (digits_value (takeWhile is_digit r))
                  in if neg then - n else n)"

definition sql_priority :: "DeliveryItem \<Rightarrow> int" where
  "sql_priority item =
     (case jget (di_transport_context item) ''priority'' of
        JInt i \<Rightarrow> i
      | JFloat q \<Rightarrow> (if q < 0 then - \<lfloor>- q\<rfloor> else \<lfloor>q\<rfloor>)
      | JBool b \<Rightarrow> (if b then 1 else 0)
      | JStr s \<Rightarrow> cast_text s
      | _ \<Rightarrow> 0)"

definition claimable :: "time \<Rightarrow> DeliveryItem \<Rightarrow> bool" where
  "claimable now r = (di_status r = ''pending'' \<and> di_next_attempt_at r \<le> now)"

definition start_sending :: "time \<Rightarrow> DeliveryItem \<Rightarrow> DeliveryItem" where
  "start_sending now r = r\<lparr>di_status := ''sending'', di_attempts := di_attempts r + 1, di_updated_at := now\<rparr>"

fun claim_rows :: "time \<Rightarrow> DeliveryItem list \<Rightarrow> outbox \<Rightarrow> DeliveryItem list \<times> outbox" where
  "claim_rows now [] t = ([], t)"
| "claim_rows now (item # rows) t =
     (let p = (\<lambda>r. di_id r = di_id item \<and> claimable now r);
          (out, t') = claim_rows now rows (sql_update p (start_sending now) t)
      in (if sql_count p t = 1 then start_sending now item # out else out, t'))"

definition claim_ready ::
  "time \<Rightarrow> string \<Rightarrow> int \<Rightarrow> int option \<Rightarrow> outbox \<Rightarrow> DeliveryItem list \<times> outbox" where
  "claim_ready now channel limit minimum_priority t =
     claim_rows now (sql_limit (max 1 limit) (sort_key (\<lambda>r. - sql_priority r) (sql_asc di_created_at
       (filter (\<lambda>r. di_channel r = channel \<and> claimable now r
          \<and> (case minimum_priority of None \<Rightarrow> True | Some p \<Rightarrow> p \<le> sql_priority r)) t)))) t"

definition in_flight :: "DeliveryItem \<Rightarrow> bool" where
  "in_flight r = (di_status r \<in> {''pending'', ''sending''})"

definition mark_sent ::
  "time \<Rightarrow> string \<Rightarrow> DeliveryReceipt \<Rightarrow> string \<Rightarrow> time option \<Rightarrow> outbox \<Rightarrow> DeliveryItem option \<times> outbox" where
  "mark_sent clock item_id receipt delivery_id sent_at t =
     (let accepted_at = (case sent_at of None \<Rightarrow> clock | Some s \<Rightarrow> s);
          t' = sql_update (\<lambda>r. di_id r = item_id \<and> in_flight r)
            (\<lambda>r. r\<lparr>di_status := ''sent'', di_receipt := delivery_receipt_to_dict receipt,
                  di_delivery_id := (if delivery_id \<noteq> [] then delivery_id else item_id),
                  di_error := [], di_sent_at := accepted_at, di_updated_at := clock\<rparr>) t
      in (get_item item_id t', t'))"

definition schedule_retry ::
  "time \<Rightarrow> string \<Rightarrow> string \<Rightarrow> time \<Rightarrow> outbox \<Rightarrow> DeliveryItem option \<times> outbox" where
  "schedule_retry now item_id error retry_after_seconds t =
     (let t' = sql_update (\<lambda>r. di_id r = item_id \<and> di_status r = ''sending'')
            (\<lambda>r. r\<lparr>di_status := ''pending'', di_error := take 1000 error,
                  di_next_attempt_at := now + max 0 retry_after_seconds, di_updated_at := now\<rparr>) t
      in (get_item item_id t', t'))"

definition mark_failed :: "time \<Rightarrow> string \<Rightarrow> string \<Rightarrow> outbox \<Rightarrow> DeliveryItem option \<times> outbox" where
  "mark_failed clock item_id error t =
     (let t' = sql_update (\<lambda>r. di_id r = item_id \<and> in_flight r)
            (\<lambda>r. r\<lparr>di_status := ''failed'', di_error := take 1000 error, di_updated_at := clock\<rparr>) t
      in (get_item item_id t', t'))"

text \<open>\<open>view\<close> is the table the first \<open>get\<close> saw, \<open>t\<close> the one the \<open>UPDATE\<close> meets.\<close>

definition requeue_failed ::
  "time \<Rightarrow> string \<Rightarrow> outbox \<Rightarrow> outbox \<Rightarrow> (DeliveryItem \<times> outbox) result" where
  "requeue_failed now item_id view t =
     (case get_item item_id view of
        None \<Rightarrow> Inl (KeyError (''delivery item not found: '' @ item_id))
      | Some item \<Rightarrow>
          if di_status item \<noteq> ''failed''
          then Inl (ValueError (''delivery item is not failed: '' @ item_id @ '' status='' @ di_status item))
          else if delivery_expired now item
          then Inl (ValueError (''delivery item has expired and cannot be retried: '' @ item_id))
          else let p = (\<lambda>r. di_id r = item_id \<and> di_status r = ''failed'')
            in if sql_count p t \<noteq> 1
               then Inl (RuntimeError (''delivery item changed while requeueing: '' @ item_id))
               else let t' = sql_update p (\<lambda>r. r\<lparr>di_status := ''pending'', di_attempts := 0,
                         di_next_attempt_at := now, di_error := [], di_updated_at := now,
                         di_projected_at := 0\<rparr>) t
                 in case get_item item_id t' of
                      None \<Rightarrow> Inl (RuntimeError (''delivery item disappeared while requeueing: '' @ item_id))
                    | Some restored \<Rightarrow> Inr (restored, t'))"

definition interrupted_error :: string where
  "interrupted_error = ''connector_delivery_interrupted: retrying with the same idempotency key''"

definition stop_sending :: "time \<Rightarrow> DeliveryItem \<Rightarrow> DeliveryItem" where
  "stop_sending now r = r\<lparr>di_status := ''pending'', di_error := interrupted_error,
     di_next_attempt_at := now, di_updated_at := now\<rparr>"

fun recover_rows :: "time \<Rightarrow> time \<Rightarrow> DeliveryItem list \<Rightarrow> outbox \<Rightarrow> DeliveryItem list \<times> outbox" where
  "recover_rows now cutoff [] t = ([], t)"
| "recover_rows now cutoff (item # rows) t =
     (let p = (\<lambda>r. di_id r = di_id item \<and> di_status r = ''sending'' \<and> di_updated_at r \<le> cutoff);
          (out, t') = recover_rows now cutoff rows (sql_update p (stop_sending now) t)
      in (if sql_count p t = 1 then stop_sending now item # out else out, t'))"

definition recover_stale_sending ::
  "time \<Rightarrow> string \<Rightarrow> time \<Rightarrow> int \<Rightarrow> outbox \<Rightarrow> DeliveryItem list \<times> outbox" where
  "recover_stale_sending now channel stale_after_seconds limit t =
     (let cutoff = now - max 1 stale_after_seconds
      in recover_rows now cutoff (sql_limit (max 1 limit) (sql_asc di_updated_at (filter (\<lambda>r.
           di_channel r = channel \<and> di_status r = ''sending'' \<and> di_updated_at r \<le> cutoff) t))) t)"

definition complete_unprojected_batches ::
  "string \<Rightarrow> int \<Rightarrow> outbox \<Rightarrow> (string \<times> DeliveryItem list) list" where
  "complete_unprojected_batches channel limit t =
     (let rows = sql_asc di_batch_id (sql_asc di_created_at (filter (\<lambda>r. di_channel r = channel) t));
          grouped = map (\<lambda>b. (b, filter (\<lambda>r. di_batch_id r = b) rows)) (first_seen (map di_batch_id rows))
      in take (nat (max 1 limit)) (filter (\<lambda>(b, items).
           \<not> (\<exists>i\<in>set items. 0 < di_projected_at i) \<and> (\<forall>i\<in>set items. di_status i = ''sent'')) grouped))"

definition mark_batch_projected :: "time \<Rightarrow> string \<Rightarrow> outbox \<Rightarrow> outbox" where
  "mark_batch_projected projected_at batch_id t =
     sql_update (\<lambda>r. di_batch_id r = batch_id \<and> di_projected_at r = 0)
       (\<lambda>r. r\<lparr>di_projected_at := projected_at\<rparr>) t"

definition list_batch :: "string \<Rightarrow> outbox \<Rightarrow> DeliveryItem list" where
  "list_batch batch_id t = sql_asc di_created_at (filter (\<lambda>r. di_batch_id r = batch_id) t)"

definition list_items :: "string \<Rightarrow> string \<Rightarrow> int \<Rightarrow> outbox \<Rightarrow> DeliveryItem list" where
  "list_items channel status limit t =
     sql_limit (max 1 limit) (sql_desc di_created_at (filter (\<lambda>r. di_channel r = channel
       \<and> (status = [] \<or> di_status r = status)) t))"

section \<open>Import of the legacy goal outbox\<close>

record LegacyRow =
  lg_id :: string
  lg_goal_id :: string
  lg_run_id :: string
  lg_channel :: string
  lg_peer_id :: string
  lg_sender_id :: string
  lg_trace_id :: string
  lg_body :: string
  lg_body_provenance :: string
  lg_status :: string
  lg_attempts :: int
  lg_error :: string
  lg_delivery_id :: string
  lg_created_at :: time
  lg_updated_at :: time
  lg_sent_at :: time

definition legacy_item :: "int \<Rightarrow> LegacyRow \<Rightarrow> DeliveryItem" where
  "legacy_item default_max_attempts l =
     (let status = (if lg_status l = ''sending'' then ''unknown'' else lg_status l)
      in \<lparr>di_id = ''legacy:'' @ lg_id l @ '':text'', di_batch_id = ''legacy:'' @ lg_id l,
          di_channel = lg_channel l, di_peer_id = lg_peer_id l, di_sender_id = lg_sender_id l,
          di_trace_id = lg_trace_id l, di_run_id = lg_run_id l, di_goal_id = lg_goal_id l,
          di_kind = ''text'', di_payload = [(''text'', JStr (lg_body l))], di_transport_context = [],
          di_body = lg_body l, di_body_provenance = lg_body_provenance l, di_status = status,
          di_attempts = lg_attempts l, di_max_attempts = default_max_attempts,
          di_next_attempt_at = lg_updated_at l,
          di_error = (if status = ''unknown''
            then ''connector_delivery_outcome_unknown: legacy worker stopped before receipt''
            else lg_error l),
          di_receipt = [], di_delivery_id = lg_delivery_id l, di_projected_at = 0,
          di_created_at = lg_created_at l, di_updated_at = lg_updated_at l, di_sent_at = lg_sent_at l\<rparr>)"

text \<open>
  What the read of the goals database gives: no file or no table, a failure, or the rows. The flag
  is the row of \<open>schema_versions\<close> that marks the import as done.
\<close>

datatype legacy_source = NoLegacy | LegacyUnreadable | LegacyRows "LegacyRow list"

definition import_legacy_goal_outbox ::
  "int \<Rightarrow> legacy_source \<Rightarrow> bool \<times> outbox \<Rightarrow> bool \<times> outbox" where
  "import_legacy_goal_outbox default_max_attempts source = (\<lambda>(imported, t).
     if imported then (imported, t)
     else case source of
       NoLegacy \<Rightarrow> (True, t)
     | LegacyUnreadable \<Rightarrow> (False, t)
     | LegacyRows rows \<Rightarrow>
         (True, fold (\<lambda>l t. sql_insert_or_ignore di_id (legacy_item default_max_attempts l) t) rows t))"

section \<open>The coordinator\<close>

text \<open>
  What a connector does with an item in the round of the given number: a receipt, an exception that it
  classifies, or (\<open>Inl\<close>) one that passes the handler: a \<open>CancelledError\<close>, which is no
  \<open>Exception\<close>, or one that \<open>classify_failure\<close> itself raises.
\<close>

record DeliveryTransport =
  tr_channel :: string
  tr_deliver :: "nat \<Rightarrow> DeliveryItem \<Rightarrow> (DeliveryFailure + DeliveryReceipt) result"

definition expired_failure :: "time option \<Rightarrow> DeliveryFailure" where
  "expired_failure expires_at =
     \<lparr>df_reason = ''connector_delivery_expired'',
      df_error = ''delivery deadline '' @ format_g (case expires_at of None \<Rightarrow> 0 | Some e \<Rightarrow> e)
         @ '' elapsed before connector receipt'',
      df_retryable = False, df_retry_after_seconds = 0, df_provider_code = []\<rparr>"

definition failure_error :: "DeliveryFailure \<Rightarrow> string" where
  "failure_error f = df_reason f @ '': '' @ df_error f"

definition stored_or :: "DeliveryItem \<Rightarrow> DeliveryItem option \<Rightarrow> DeliveryItem" where
  "stored_or item stored = (case stored of Some i \<Rightarrow> i | None \<Rightarrow> item)"

text \<open>
  One claimed item: its outcome, whether the drain stops after it, and the table. The stop is the
  \<open>break\<close> on a rate limit or a transient rejection.
\<close>

definition drain_item ::
  "time \<Rightarrow> (DeliveryItem \<Rightarrow> (DeliveryFailure + DeliveryReceipt) result) \<Rightarrow> DeliveryItem \<Rightarrow> outbox
     \<Rightarrow> (DeliveryOutcome \<times> bool) result \<times> outbox" where
  "drain_item now deliver item t =
     (if delivery_expired now item
      then let failure = expired_failure (delivery_expires_at item);
               (stored, t') = mark_failed now (di_id item) (failure_error failure) t
           in (Inr (\<lparr>do_item = stored_or item stored, do_state = ''expired'', do_receipt = None,
                 do_failure = Some failure\<rparr>, False), t')
      else case deliver item of
        Inl escaped \<Rightarrow> (Inl escaped, t)
      | Inr (Inr receipt) \<Rightarrow>
          (let (stored, t') = mark_sent now (di_id item) receipt (di_id item) None t
           in (Inr (\<lparr>do_item = stored_or item stored, do_state = ''sent'', do_receipt = Some receipt,
                 do_failure = None\<rparr>, False), t'))
      | Inr (Inl failure) \<Rightarrow>
          (let error = take 1000 (failure_error failure)
           in if df_retryable failure \<and> di_attempts item < di_max_attempts item
              then let (stored, t') = schedule_retry now (di_id item) error
                         (retry_delay (di_attempts item) (df_retry_after_seconds failure)) t
                   in (Inr (\<lparr>do_item = stored_or item stored, do_state = ''retry_scheduled'',
                         do_receipt = None, do_failure = Some failure\<rparr>,
                        df_reason failure \<in> {''connector_rate_limited'', ''connector_transient_rejected''}), t')
              else let (stored, t') = mark_failed now (di_id item) error t
                   in (Inr (\<lparr>do_item = stored_or item stored, do_state = ''failed'', do_receipt = None,
                         do_failure = Some failure\<rparr>, False), t')))"

fun drain_rounds ::
  "nat \<Rightarrow> nat \<Rightarrow> (nat \<Rightarrow> time) \<Rightarrow> DeliveryTransport \<Rightarrow> int option \<Rightarrow> outbox
     \<Rightarrow> DeliveryOutcome list result \<times> outbox" where
  "drain_rounds 0 i clock tr minimum_priority t = (Inr [], t)"
| "drain_rounds (Suc left) i clock tr minimum_priority t =
     (case claim_ready (clock i) (tr_channel tr) 1 minimum_priority t of
        ([], t') \<Rightarrow> (Inr [], t')
      | (item # _, t') \<Rightarrow>
          (case drain_item (clock i) (tr_deliver tr i) item t' of
             (Inl escaped, t'') \<Rightarrow> (Inl escaped, t'')
           | (Inr (outcome, stop), t'') \<Rightarrow>
               if stop then (Inr [outcome], t'')
               else let (rest, t3) = drain_rounds left (Suc i) clock tr minimum_priority t''
                    in (and_then rest (\<lambda>outcomes. Inr (outcome # outcomes)), t3)))"

definition drain ::
  "time \<Rightarrow> (nat \<Rightarrow> time) \<Rightarrow> DeliveryTransport \<Rightarrow> int \<Rightarrow> int option \<Rightarrow> outbox
     \<Rightarrow> DeliveryOutcome list result \<times> outbox" where
  "drain stale_sending_seconds clock tr limit minimum_priority t =
     drain_rounds (nat (max 1 limit)) 1 clock tr minimum_priority
       (snd (recover_stale_sending (clock 0) (tr_channel tr) stale_sending_seconds 100 t))"

definition response_seed :: "(string \<Rightarrow> string) \<Rightarrow> string \<Rightarrow> string \<Rightarrow> string \<Rightarrow> string \<Rightarrow> string" where
  "response_seed sha256_hex channel peer_id text path =
     ''response-'' @ take 32 (sha256_hex (join_with [CHR 0x1F] [channel, peer_id, text, path]))"

definition envelope_from_response ::
  "(string \<Rightarrow> string) \<Rightarrow> int \<Rightarrow> string \<Rightarrow> string \<Rightarrow> string \<Rightarrow> string \<Rightarrow> string \<Rightarrow> ConnectorDelivery option
     \<Rightarrow> string \<Rightarrow> string \<Rightarrow> string \<Rightarrow> dict \<Rightarrow> DeliveryEnvelope" where
  "envelope_from_response sha256_hex default_max_attempts channel peer_id sender_id trace_id text
       connector_delivery rid goal_id body_provenance transport_context =
     (let field = (\<lambda>f. case connector_delivery of None \<Rightarrow> [] | Some d \<Rightarrow> f d);
          delivery_text = (case connector_delivery of None \<Rightarrow> text | Some d \<Rightarrow> cd_text d);
          delivery_path = field cd_path;
          seed = or_else (field cd_delivery_id) (or_else trace_id
                   (response_seed sha256_hex channel peer_id text delivery_path))
      in \<lparr>de_batch_id = seed, de_channel = channel, de_peer_id = peer_id, de_sender_id = sender_id,
          de_trace_id = trace_id, de_run_id = or_else (field cd_run_id) rid,
          de_goal_id = or_else (field cd_goal_id) goal_id, de_text = delivery_text,
          de_body_provenance = body_provenance, de_file_path = delivery_path,
          de_transport_context = transport_context, de_max_attempts = default_max_attempts\<rparr>)"

section \<open>The outbox as a machine\<close>

datatype outbox_op =
    Enqueue string time DeliveryEnvelope
  | ClaimReady time string int "int option"
  | MarkSent time string DeliveryReceipt string "time option"
  | ScheduleRetry time string string time
  | MarkFailed time string string
  | RequeueFailed time string outbox
  | RecoverStale time string time int
  | MarkProjected time string

fun outbox_step :: "outbox_op \<Rightarrow> outbox \<Rightarrow> outbox" where
  "outbox_step (Enqueue h now e) t = (case enqueue h now e t of Inl _ \<Rightarrow> t | Inr (_, t') \<Rightarrow> t')"
| "outbox_step (ClaimReady now ch limit p) t = snd (claim_ready now ch limit p t)"
| "outbox_step (MarkSent now i r d sent) t = snd (mark_sent now i r d sent t)"
| "outbox_step (ScheduleRetry now i e after) t = snd (schedule_retry now i e after t)"
| "outbox_step (MarkFailed now i e) t = snd (mark_failed now i e t)"
| "outbox_step (RequeueFailed now i view) t =
     (case requeue_failed now i view t of Inl _ \<Rightarrow> t | Inr (_, t') \<Rightarrow> t')"
| "outbox_step (RecoverStale now ch after limit) t = snd (recover_stale_sending now ch after limit t)"
| "outbox_step (MarkProjected now b) t = mark_batch_projected now b t"

section \<open>How an item evolves\<close>

text \<open>
  Identity and content of an item never change, and a sent item keeps everything but the time of
  its projection.
\<close>

definition content :: "DeliveryItem \<Rightarrow> DeliveryItem" where
  "content r = r\<lparr>di_status := [], di_attempts := 0, di_next_attempt_at := 0, di_error := [],
     di_receipt := [], di_delivery_id := [], di_projected_at := 0, di_updated_at := 0, di_sent_at := 0\<rparr>"

definition item_evolves :: "DeliveryItem \<Rightarrow> DeliveryItem \<Rightarrow> bool" where
  "item_evolves r r' \<longleftrightarrow> content r = content r' \<and>
     (di_status r = ''sent'' \<longrightarrow> r'\<lparr>di_projected_at := 0\<rparr> = r\<lparr>di_projected_at := 0\<rparr>)"

lemma item_evolves_refl [simp]: "item_evolves r r"
  by (simp add: item_evolves_def)

lemma same_but_projection_status:
  assumes "r'\<lparr>di_projected_at := 0\<rparr> = r\<lparr>di_projected_at := 0\<rparr>"
  shows "di_status r' = di_status r" "di_receipt r' = di_receipt r" "di_delivery_id r' = di_delivery_id r"
    "di_sent_at r' = di_sent_at r" "di_payload r' = di_payload r"
  using arg_cong [OF assms, of di_status] arg_cong [OF assms, of di_receipt]
    arg_cong [OF assms, of di_delivery_id] arg_cong [OF assms, of di_sent_at]
    arg_cong [OF assms, of di_payload]
  by simp_all

lemma content_fields:
  assumes "content r = content r'"
  shows "di_id r = di_id r'" "di_batch_id r = di_batch_id r'" "di_kind r = di_kind r'"
    "di_payload r = di_payload r'"
  using arg_cong [OF assms, of di_id] arg_cong [OF assms, of di_batch_id] arg_cong [OF assms, of di_kind]
    arg_cong [OF assms, of di_payload]
  by (simp_all add: content_def)

lemma item_evolves_trans:
  assumes "item_evolves a b" "item_evolves b c"
  shows "item_evolves a c"
proof -
  have "c\<lparr>di_projected_at := 0\<rparr> = a\<lparr>di_projected_at := 0\<rparr>" if "di_status a = ''sent''"
  proof -
    have ba: "b\<lparr>di_projected_at := 0\<rparr> = a\<lparr>di_projected_at := 0\<rparr>"
      using assms(1) that by (simp add: item_evolves_def)
    then have "di_status b = ''sent''" using same_but_projection_status(1) [OF ba] that by simp
    then show ?thesis using ba assms(2) by (simp add: item_evolves_def)
  qed
  then show ?thesis using assms by (simp add: item_evolves_def)
qed

definition outbox_evolves :: "outbox \<Rightarrow> outbox \<Rightarrow> bool" where
  "outbox_evolves t t' \<longleftrightarrow> (keys_distinct di_id t \<longrightarrow> keys_distinct di_id t') \<and>
     (\<forall>i r. row_of di_id i t = Some r \<longrightarrow> (\<exists>r'. row_of di_id i t' = Some r' \<and> item_evolves r r'))"

lemma outbox_evolves_refl [simp]: "outbox_evolves t t"
  by (simp add: outbox_evolves_def)

lemma outbox_evolves_trans: "outbox_evolves a b \<Longrightarrow> outbox_evolves b c \<Longrightarrow> outbox_evolves a c"
  unfolding outbox_evolves_def by (meson item_evolves_trans)

lemma outbox_evolves_update:
  assumes "\<And>r. p r \<Longrightarrow> item_evolves r (f r)"
  shows "outbox_evolves t (sql_update p f t)"
proof -
  have id: "p r \<Longrightarrow> di_id (f r) = di_id r" for r
    using assms [of r] content_fields(1) [of r "f r"] by (simp add: item_evolves_def)
  have "row_of di_id i t = Some r \<Longrightarrow> \<exists>r'. row_of di_id i (sql_update p f t) = Some r' \<and> item_evolves r r'" for i r
    using assms [of r] by (auto simp: row_of_update id)
  then show ?thesis by (simp add: outbox_evolves_def keys_distinct_update id)
qed

lemma outbox_evolves_insert: "outbox_evolves t (sql_insert_or_ignore di_id r t)"
  by (auto simp: outbox_evolves_def sql_insert_or_ignore_def keys_distinct_append row_of_append row_of_None)

lemma status_evolves:
  "claimable now r \<Longrightarrow> item_evolves r (start_sending now r)"
  "di_status r = ''sending'' \<Longrightarrow> item_evolves r (stop_sending now r)"
  by (simp_all add: item_evolves_def content_def start_sending_def stop_sending_def claimable_def)

lemma enqueue_items_evolves: "enqueue_items items t = Inr t' \<Longrightarrow> outbox_evolves t t'"
proof (induction items t rule: enqueue_items.induct)
  case (2 item items t)
  then have "outbox_evolves (sql_insert_or_ignore di_id item t) t'"
    by (auto simp: Let_def split: option.splits if_splits)
  then show ?case using outbox_evolves_insert outbox_evolves_trans by blast
qed simp

lemma claim_rows_evolves: "outbox_evolves t (snd (claim_rows now rows t))"
proof (induction now rows t rule: claim_rows.induct)
  case (2 now item rows t)
  have "outbox_evolves t (sql_update (\<lambda>r. di_id r = di_id item \<and> claimable now r) (start_sending now) t)"
    by (rule outbox_evolves_update) (simp add: status_evolves)
  then show ?case using 2 outbox_evolves_trans by (auto simp: Let_def split_beta)
qed simp

lemma recover_rows_evolves: "outbox_evolves t (snd (recover_rows now cutoff rows t))"
proof (induction now cutoff rows t rule: recover_rows.induct)
  case (2 now cutoff item rows t)
  have "outbox_evolves t (sql_update (\<lambda>r. di_id r = di_id item \<and> di_status r = ''sending''
      \<and> di_updated_at r \<le> cutoff) (stop_sending now) t)"
    by (rule outbox_evolves_update) (simp add: status_evolves)
  then show ?case using 2 outbox_evolves_trans by (auto simp: Let_def split_beta)
qed simp

lemma outbox_step_evolves: "outbox_evolves t (outbox_step a t)"
  by (cases a)
    (auto simp: enqueue_def claim_ready_def mark_sent_def schedule_retry_def mark_failed_def requeue_failed_def
      recover_stale_sending_def mark_batch_projected_def Let_def in_flight_def item_evolves_def content_def
      claim_rows_evolves recover_rows_evolves
      intro!: outbox_evolves_update intro: enqueue_items_evolves split: sum.splits option.splits if_splits)

definition item_reached :: "DeliveryItem \<Rightarrow> outbox \<Rightarrow> bool" where
  "item_reached v t \<longleftrightarrow> (\<exists>r. row_of di_id (di_id v) t = Some r \<and> item_evolves v r)"

interpretation outbox: settling_machine outbox_step "keys_distinct di_id" item_reached
proof
  show "keys_distinct di_id t \<Longrightarrow> keys_distinct di_id (outbox_step a t)" for a t
    using outbox_step_evolves [of t a] by (simp add: outbox_evolves_def)
  show "item_reached v t \<Longrightarrow> item_reached v (outbox_step a t)" for a v t
    using outbox_step_evolves [of t a] item_evolves_trans unfolding item_reached_def outbox_evolves_def by blast
qed

section \<open>Enqueueing\<close>

definition same_delivery :: "DeliveryItem \<Rightarrow> DeliveryItem \<Rightarrow> bool" where
  "same_delivery r i \<longleftrightarrow> di_batch_id r = di_batch_id i \<and> di_kind r = di_kind i \<and> di_payload r = di_payload i"

lemma enqueue_items_present:
  "enqueue_items items t = Inr t' \<Longrightarrow> i \<in> set items \<Longrightarrow>
     \<exists>r. row_of di_id (di_id i) t' = Some r \<and> same_delivery r i"
proof (induction items t rule: enqueue_items.induct)
  case (2 item items t)
  let ?t = "sql_insert_or_ignore di_id item t"
  obtain row where row: "row_of di_id (di_id item) ?t = Some row" "same_delivery row item"
      "enqueue_items items ?t = Inr t'"
    using 2(2) by (auto simp: Let_def get_item_def same_delivery_def split: option.splits if_splits)
  obtain r where "row_of di_id (di_id item) t' = Some r" "item_evolves row r"
    using enqueue_items_evolves [OF row(3)] row(1) by (auto simp: outbox_evolves_def)
  then have "\<exists>r. row_of di_id (di_id item) t' = Some r \<and> same_delivery r item"
    using row(2) content_fields [of row r] by (simp add: same_delivery_def item_evolves_def)
  moreover have "i \<in> set items \<Longrightarrow> \<exists>r. row_of di_id (di_id i) t' = Some r \<and> same_delivery r i"
    using 2 row by (auto simp: Let_def get_item_def same_delivery_def)
  ultimately show ?case using "2.prems"(2) by auto
qed simp

lemma enqueue_items_again:
  "\<forall>i\<in>set items. \<exists>r. row_of di_id (di_id i) t = Some r \<and> same_delivery r i \<Longrightarrow>
     enqueue_items items t = Inr t"
proof (induction items)
  case (Cons i items)
  then obtain r where r: "row_of di_id (di_id i) t = Some r" "same_delivery r i" by auto
  then have "sql_insert_or_ignore di_id i t = t"
    using row_of_Some [OF r(1)] by (auto simp: sql_insert_or_ignore_def intro!: image_eqI [of _ _ r])
  then show ?case using Cons r by (simp add: Let_def get_item_def same_delivery_def)
qed simp

text \<open>With a batch id of its own an envelope always makes the same items, but for their times.\<close>

lemma envelope_items_stable:
  assumes "py_strip (de_batch_id e) \<noteq> []"
  shows "i' \<in> set (envelope_items h' now' e) \<Longrightarrow>
     \<exists>i\<in>set (envelope_items h now e). di_id i = di_id i' \<and> same_delivery i i'"
    "envelope_items h' now' e = [] \<longleftrightarrow> envelope_items h now e = []"
  using assms
  by (auto simp: envelope_items_def Let_def stable_batch_id_def envelope_item_def same_delivery_def)

section \<open>Claims\<close>

lemma distinct_map_sort: "distinct (map f (sort_key k xs)) = distinct (map f xs)"
  by (simp add: distinct_map)

lemma distinct_map_filter_limit:
  "distinct (map f xs) \<Longrightarrow> distinct (map f (sql_limit n (sort_key k (sql_asc k' (filter p xs)))))"
  by (simp add: sql_limit_def sql_asc_def take_map [symmetric] distinct_map_sort distinct_map_filter)

lemma start_sending_id [simp]: "di_id (start_sending now r) = di_id r"
  by (simp add: start_sending_def)

lemma claim_rows_spec:
  assumes "keys_distinct di_id t" "distinct (map di_id rows)"
    and "\<forall>r\<in>set rows. row_of di_id (di_id r) t = Some r \<and> claimable now r"
  shows "fst (claim_rows now rows t) = map (start_sending now) rows \<and>
    (\<forall>i. row_of di_id i (snd (claim_rows now rows t)) =
       (if i \<in> di_id ` set rows then map_option (start_sending now) (row_of di_id i t) else row_of di_id i t))"
  using assms
proof (induction now rows t rule: claim_rows.induct)
  case (2 now item rows t)
  let ?p = "\<lambda>r. di_id r = di_id item \<and> claimable now r"
  let ?t = "sql_update ?p (start_sending now) t"
  have item: "row_of di_id (di_id item) t = Some item" "claimable now item" using "2.prems"(3) by auto
  have row: "row_of di_id i ?t = (if i = di_id item then map_option (start_sending now) (row_of di_id i t)
      else row_of di_id i t)" for i
    using item by (cases "row_of di_id i t") (auto simp: row_of_update dest: row_of_Some)
  have n: "sql_count ?p t = 1"
    using sql_count_by_key [OF "2.prems"(1), of "di_id item" "claimable now"] item by simp
  have kd: "keys_distinct di_id ?t" by (rule keys_distinct_update [OF _ "2.prems"(1)]) simp
  have "\<forall>r\<in>set rows. row_of di_id (di_id r) ?t = Some r \<and> claimable now r"
  proof
    fix r assume r: "r \<in> set rows"
    have "di_id item \<notin> di_id ` set rows" using "2.prems"(2) by simp
    then have "di_id r \<noteq> di_id item" using r by (metis imageI)
    then show "row_of di_id (di_id r) ?t = Some r \<and> claimable now r"
      unfolding row using "2.prems"(3) r by simp
  qed
  then have IH: "fst (claim_rows now rows ?t) = map (start_sending now) rows"
      "\<And>i. row_of di_id i (snd (claim_rows now rows ?t)) =
       (if i \<in> di_id ` set rows then map_option (start_sending now) (row_of di_id i ?t) else row_of di_id i ?t)"
    using "2.IH" [OF refl kd] "2.prems"(2) by auto
  have step: "claim_rows now (item # rows) t =
      (start_sending now item # fst (claim_rows now rows ?t), snd (claim_rows now rows ?t))"
    using n by (simp add: Let_def split_beta)
  show ?case unfolding step using IH row "2.prems"(2) by auto
qed simp

lemma claim_ready_spec:
  assumes "keys_distinct di_id t" and "claim_ready now ch limit p t = (claimed, t')"
  shows "distinct (map di_id claimed)" "int (length claimed) \<le> max 1 limit"
    "\<forall>c\<in>set claimed. (\<exists>r. row_of di_id (di_id c) t = Some r \<and> claimable now r \<and> di_channel r = ch \<and>
        c = start_sending now r) \<and> row_of di_id (di_id c) t' = Some c"
    "\<forall>i. i \<notin> di_id ` set claimed \<longrightarrow> row_of di_id i t' = row_of di_id i t"
proof -
  define q where "q = (\<lambda>r. di_channel r = ch \<and> claimable now r
          \<and> (case p of None \<Rightarrow> True | Some p \<Rightarrow> p \<le> sql_priority r))"
  define rows where "rows = sql_limit (max 1 limit) (sort_key (\<lambda>r. - sql_priority r) (sql_asc di_created_at (filter q t)))"
  have d: "distinct (map di_id rows)"
    unfolding rows_def using assms(1) by (intro distinct_map_filter_limit) (simp add: keys_distinct_def)
  have sub: "set rows \<subseteq> {r \<in> set t. q r}"
    unfolding rows_def
    using set_sql_limit [of "max 1 limit" "sort_key (\<lambda>r. - sql_priority r) (sql_asc di_created_at (filter q t))"]
    by simp
  then have in_t: "\<forall>r\<in>set rows. row_of di_id (di_id r) t = Some r \<and> claimable now r"
    using row_of_member [OF assms(1)] by (auto simp: q_def)
  have res: "(claimed, t') = claim_rows now rows t"
    using assms(2) by (simp add: claim_ready_def rows_def q_def)
  have c: "claimed = map (start_sending now) rows"
    and row: "\<And>i. row_of di_id i t' = (if i \<in> di_id ` set rows then map_option (start_sending now) (row_of di_id i t)
      else row_of di_id i t)"
    using claim_rows_spec [OF assms(1) d in_t] res by (auto simp: prod_eq_iff)
  show "distinct (map di_id claimed)" using d unfolding c by (simp add: comp_def)
  have "length rows \<le> nat (max 1 limit)" unfolding rows_def by (rule sql_limit_length) simp
  then show "int (length claimed) \<le> max 1 limit" unfolding c by simp
  have "\<exists>r. row_of di_id (di_id c) t = Some r \<and> claimable now r \<and> di_channel r = ch \<and> c = start_sending now r"
    "row_of di_id (di_id c) t' = Some c" if c_in: "c \<in> set claimed" for c
  proof -
    obtain r where r: "r \<in> set rows" "c = start_sending now r" using c_in unfolding c by auto
    then show "\<exists>r. row_of di_id (di_id c) t = Some r \<and> claimable now r \<and> di_channel r = ch \<and> c = start_sending now r"
      using in_t sub by (auto simp: q_def)
    show "row_of di_id (di_id c) t' = Some c" using row [of "di_id c"] r in_t by auto
  qed
  then show "\<forall>c\<in>set claimed. (\<exists>r. row_of di_id (di_id c) t = Some r \<and> claimable now r \<and> di_channel r = ch \<and>
        c = start_sending now r) \<and> row_of di_id (di_id c) t' = Some c" by blast
  have "di_id ` set claimed = di_id ` set rows" unfolding c by (simp add: image_image)
  then show "\<forall>i. i \<notin> di_id ` set claimed \<longrightarrow> row_of di_id i t' = row_of di_id i t" using row by simp
qed

section \<open>Rounds of a drain\<close>

text \<open>An item that is being sent after the recovery of stale ones is one that the recovery left alone.\<close>

lemma recover_rows_sending:
  "row_of di_id i (snd (recover_rows now cutoff rows t)) = Some r \<Longrightarrow> di_status r = ''sending'' \<Longrightarrow>
     row_of di_id i t = Some r"
proof (induction now cutoff rows t rule: recover_rows.induct)
  case (2 now cutoff item rows t)
  have "row_of di_id i (sql_update (\<lambda>r. di_id r = di_id item \<and> di_status r = ''sending''
      \<and> di_updated_at r \<le> cutoff) (stop_sending now) t) = Some r"
    using 2 by (simp add: Let_def split_beta)
  then show ?case using 2(3)
    by (auto simp: row_of_update stop_sending_def split: if_splits)
qed simp

text \<open>The status in which an outcome of the given state leaves its item.\<close>

definition outcome_status :: "string \<Rightarrow> string" where
  "outcome_status state =
     (if state = ''sent'' then ''sent'' else if state = ''retry_scheduled'' then ''pending'' else ''failed'')"

definition settled_outcome :: "DeliveryOutcome \<Rightarrow> bool" where
  "settled_outcome out = (do_state out \<in> {''sent'', ''retry_scheduled'', ''failed'', ''expired''} \<and>
     di_status (do_item out) = outcome_status (do_state out))"

text \<open>Each way out of a round changes the item it claimed only, to what it reports.\<close>

lemma settle_update:
  assumes "row_of di_id i t = Some r" "p r" "\<And>x. p x \<Longrightarrow> di_id x = i \<and> di_id (f x) = i"
  shows "row_of di_id j (sql_update p f t) = (if j = i then Some (f r) else row_of di_id j t)"
  using assms by (cases "row_of di_id j t") (auto simp: row_of_update dest: row_of_Some)

definition settles_to :: "string \<Rightarrow> string \<Rightarrow> outbox \<Rightarrow> DeliveryItem option \<times> outbox \<Rightarrow> bool" where
  "settles_to i status t c = (\<exists>r. fst c = Some r \<and> di_id r = i \<and> di_status r = status \<and>
     (\<forall>j. row_of di_id j (snd c) = (if j = i then Some r else row_of di_id j t)))"

lemma settles_toI:
  assumes "row_of di_id i t = Some r" "p r" "\<And>x. p x \<Longrightarrow> di_id x = i \<and> di_id (f x) = i" "di_status (f r) = status"
  shows "settles_to i status t (get_item i (sql_update p f t), sql_update p f t)"
  using settle_update [where p = p and f = f, OF assms(1-3)] assms(3) [OF assms(2)] assms(4)
  by (simp add: settles_to_def get_item_def)

lemma settling:
  assumes "row_of di_id i t = Some r" "di_status r = ''sending''"
  shows "settles_to i ''failed'' t (mark_failed now i e t)"
    and "settles_to i ''sent'' t (mark_sent now i receipt d sent t)"
    and "settles_to i ''pending'' t (schedule_retry now i e after t)"
  unfolding mark_failed_def mark_sent_def schedule_retry_def Let_def
  by (intro settles_toI [OF assms(1)]; use assms row_of_Some [OF assms(1)] in \<open>auto simp: in_flight_def\<close>)+

lemma settles_to_outcome:
  assumes "settles_to i status t (stored, t')" "do_item out = stored_or item stored"
    and "do_state out \<in> {''sent'', ''retry_scheduled'', ''failed'', ''expired''}" "outcome_status (do_state out) = status"
  shows "di_id (do_item out) = i \<and> settled_outcome out \<and>
    (\<forall>j. row_of di_id j t' = (if j = i then Some (do_item out) else row_of di_id j t))"
  using assms by (auto simp: settles_to_def stored_or_def settled_outcome_def)

lemma drain_item_settles:
  assumes "row_of di_id (di_id item) t = Some r" "di_status r = ''sending''"
    and "drain_item now deliver item t = (Inr (out, stop), t')"
  shows "di_id (do_item out) = di_id item" "settled_outcome out"
    "row_of di_id j t' = (if j = di_id item then Some (do_item out) else row_of di_id j t)"
proof -
  note settled = settling [OF assms(1,2)]
  have "\<exists>c. settles_to (di_id item) (outcome_status (do_state out)) t c \<and> do_item out = stored_or item (fst c) \<and>
      t' = snd c \<and> do_state out \<in> {''sent'', ''retry_scheduled'', ''failed'', ''expired''}"
  proof (cases "delivery_expired now item")
    case True
    then show ?thesis
      using assms(3) settled(1) by (auto simp: drain_item_def Let_def split_beta outcome_status_def intro!: exI)
  next
    case False
    then obtain answer where answer: "deliver item = Inr answer" using assms(3) by (auto simp: drain_item_def split: sum.splits)
    show ?thesis
    proof (cases answer)
      case (Inr receipt)
      then show ?thesis
        using assms(3) False answer settled(2)
        by (auto simp: drain_item_def Let_def split_beta outcome_status_def intro!: exI)
    next
      case (Inl failure)
      show ?thesis
      proof (cases "df_retryable failure \<and> di_attempts item < di_max_attempts item")
        case True
        then show ?thesis
          using assms(3) False answer Inl settled(3)
          by (auto simp: drain_item_def Let_def split_beta outcome_status_def intro!: exI)
      next
        case retried: False
        then show ?thesis
          using assms(3) False answer Inl settled(1)
          by (auto simp: drain_item_def Let_def split_beta outcome_status_def intro!: exI)
      qed
    qed
  qed
  then obtain c where c: "settles_to (di_id item) (outcome_status (do_state out)) t c" "do_item out = stored_or item (fst c)"
      "t' = snd c" "do_state out \<in> {''sent'', ''retry_scheduled'', ''failed'', ''expired''}"
    by blast
  have "di_id (do_item out) = di_id item \<and> settled_outcome out \<and>
      (\<forall>j. row_of di_id j t' = (if j = di_id item then Some (do_item out) else row_of di_id j t))"
    by (rule settles_to_outcome [of _ _ _ "fst c" _ _ item]) (use c in simp_all)
  then show "di_id (do_item out) = di_id item" "settled_outcome out"
    "row_of di_id j t' = (if j = di_id item then Some (do_item out) else row_of di_id j t)" by blast+
qed

lemma drain_item_escapes: "drain_item now deliver item t = (Inl e, t') \<Longrightarrow> t' = t"
  by (auto simp: drain_item_def Let_def split_beta split: if_splits sum.splits)

lemma drain_item_evolves: "outbox_evolves t (snd (drain_item now deliver item t))"
proof -
  have "outbox_evolves t (snd (mark_failed now i e t))" "outbox_evolves t (snd (mark_sent now i r d s t))"
    "outbox_evolves t (snd (schedule_retry now i e a t))" for i e r d s a
    using outbox_step_evolves [of t "MarkFailed now i e"] outbox_step_evolves [of t "MarkSent now i r d s"]
      outbox_step_evolves [of t "ScheduleRetry now i e a"] by simp_all
  then show ?thesis by (simp add: drain_item_def Let_def split_beta split: sum.splits)
qed

text \<open>
  What a drain makes of the rows: each is as before or as an outcome reports it. When an exception
  escapes, the outcomes are lost, and the item of that round is left \<open>sending\<close>.
\<close>

definition drained :: "DeliveryOutcome list \<Rightarrow> outbox \<Rightarrow> outbox \<Rightarrow> bool" where
  "drained outs t t' = ((\<forall>out\<in>set outs. settled_outcome out) \<and>
     (\<forall>i. (if i \<in> (\<lambda>out. di_id (do_item out)) ` set outs
       then \<exists>out\<in>set outs. row_of di_id i t' = Some (do_item out) else row_of di_id i t' = row_of di_id i t)))"

definition stranded :: "DeliveryItem \<Rightarrow> outbox \<Rightarrow> outbox \<Rightarrow> bool" where
  "stranded item t t' = (di_status item = ''sending'' \<and> row_of di_id (di_id item) t' = Some item \<and>
     (\<exists>outs t1. drained outs t t1 \<and> (\<forall>i. i \<noteq> di_id item \<longrightarrow> row_of di_id i t' = row_of di_id i t1)))"

lemma drained_Nil: "drained [] t t' \<longleftrightarrow> (\<forall>i. row_of di_id i t' = row_of di_id i t)"
  by (simp add: drained_def)

lemma drained_Cons:
  assumes "settled_outcome out" "\<forall>j. row_of di_id j t1 = (if j = di_id (do_item out) then Some (do_item out) else row_of di_id j t)"
    and "drained outs t1 t'"
  shows "drained (out # outs) t t'"
  unfolding drained_def
proof (intro conjI allI)
  fix i
  let ?ids = "\<lambda>outs. (\<lambda>out. di_id (do_item out)) ` set outs"
  have "if i \<in> ?ids outs then \<exists>out\<in>set outs. row_of di_id i t' = Some (do_item out) else row_of di_id i t' = row_of di_id i t1"
    using assms(3) unfolding drained_def by blast
  then show "if i \<in> ?ids (out # outs) then \<exists>o'\<in>set (out # outs). row_of di_id i t' = Some (do_item o')
      else row_of di_id i t' = row_of di_id i t"
    using assms(2) by (cases "i \<in> ?ids outs") auto
qed (use assms in \<open>auto simp: drained_def\<close>)

lemma drain_rounds_drained:
  "keys_distinct di_id t \<Longrightarrow> drain_rounds left i clock tr p t = (res, t') \<Longrightarrow>
     (case res of Inr outs \<Rightarrow> drained outs t t' \<and> length outs \<le> left | Inl e \<Rightarrow> \<exists>item. stranded item t t')"
proof (induction left i clock tr p t arbitrary: res t' rule: drain_rounds.induct)
  case (2 left i clock tr p t)
  obtain claimed t1 where c: "claim_ready (clock i) (tr_channel tr) 1 p t = (claimed, t1)" by fastforce
  note spec = claim_ready_spec [OF "2.prems"(1) c]
  have kd1: "keys_distinct di_id t1"
    using outbox_step_evolves [of t "ClaimReady (clock i) (tr_channel tr) 1 p"] c "2.prems"(1)
    by (simp add: outbox_evolves_def)
  show ?case
  proof (cases claimed)
    case Nil
    then show ?thesis using "2.prems"(2) c spec(4) by (auto simp: drained_Nil)
  next
    case (Cons item rest)
    have "rest = []" using spec(2) Cons by (cases rest) auto
    then have others: "row_of di_id j t1 = row_of di_id j t" if "j \<noteq> di_id item" for j
      using spec(4) Cons that by simp
    have item: "row_of di_id (di_id item) t1 = Some item" "di_status item = ''sending''"
      using spec(3) Cons by (auto simp: start_sending_def)
    obtain x t2 where d: "drain_item (clock i) (tr_deliver tr i) item t1 = (x, t2)" by fastforce
    show ?thesis
    proof (cases x)
      case (Inl e)
      have "t2 = t1" using drain_item_escapes d Inl by blast
      then have "stranded item t t2" using item others drained_Nil [of t t] by (auto simp: stranded_def)
      then show ?thesis using "2.prems"(2) c Cons d Inl by auto
    next
      case (Inr y)
      obtain out stop where y: "y = (out, stop)" by fastforce
      note settles = drain_item_settles [OF item d [unfolded Inr y]]
      have t2: "\<forall>j. row_of di_id j t2 = (if j = di_id (do_item out) then Some (do_item out) else row_of di_id j t)"
        using settles(3) settles(1) others by simp
      have kd2: "keys_distinct di_id t2"
        using drain_item_evolves [of t1 "clock i" "tr_deliver tr i" item] d kd1 by (simp add: outbox_evolves_def)
      show ?thesis
      proof (cases stop)
        case True
        have "drained [out] t t2" by (rule drained_Cons [OF settles(2) t2]) (simp add: drained_Nil)
        then show ?thesis using "2.prems"(2) c Cons d Inr y True by auto
      next
        case False
        obtain res3 t3 where r: "drain_rounds left (Suc i) clock tr p t2 = (res3, t3)" by fastforce
        have IH: "case res3 of Inr outs \<Rightarrow> drained outs t2 t3 \<and> length outs \<le> left | Inl e \<Rightarrow> \<exists>item. stranded item t2 t3"
          by (rule "2.IH" [OF c [symmetric] Cons d [symmetric] Inr y [symmetric] False kd2 r])
        have out: "res = and_then res3 (\<lambda>outcomes. Inr (out # outcomes))" "t' = t3"
          using "2.prems"(2) c Cons d Inr y False r by (auto simp: Let_def)
        show ?thesis
        proof (cases res3)
          case (Inl e)
          then obtain it outs t4 where "di_status it = ''sending''" "row_of di_id (di_id it) t3 = Some it"
              "drained outs t2 t4" "\<forall>i. i \<noteq> di_id it \<longrightarrow> row_of di_id i t3 = row_of di_id i t4"
            using IH by (auto simp: stranded_def)
          then have "stranded it t t3" using drained_Cons [OF settles(2) t2] unfolding stranded_def by blast
          then show ?thesis using out Inl by auto
        next
          case (Inr outs)
          then have "drained (out # outs) t t3" using IH drained_Cons [OF settles(2) t2] by simp
          then show ?thesis using out Inr IH by simp
        qed
      qed
    qed
  qed
qed (auto simp: drained_Nil)

lemma drained_sending:
  assumes "drained outs t t'" "row_of di_id i t' = Some r" "di_status r = ''sending''"
  shows "row_of di_id i t = Some r"
proof -
  have "do_item out \<noteq> r" if "out \<in> set outs" for out
    using assms(1,3) that by (auto simp: drained_def settled_outcome_def outcome_status_def split: if_splits)
  then show ?thesis using assms(1,2) unfolding drained_def by (metis option.inject)
qed

section \<open>Batches\<close>

lemma complete_batch_items:
  assumes "(b, items) \<in> set (complete_unprojected_batches ch limit t)"
  shows "set items = {r \<in> set t. di_channel r = ch \<and> di_batch_id r = b}" "items \<noteq> []"
    "\<forall>i\<in>set items. di_status i = ''sent'' \<and> di_projected_at i \<le> 0"
proof -
  let ?rows = "sql_asc di_batch_id (sql_asc di_created_at (filter (\<lambda>r. di_channel r = ch) t))"
  have i: "items = filter (\<lambda>r. di_batch_id r = b) ?rows" "b \<in> di_batch_id ` set ?rows"
      "\<forall>i\<in>set items. di_status i = ''sent'' \<and> di_projected_at i \<le> 0"
    using assms by (auto simp: complete_unprojected_batches_def Let_def not_less dest!: in_set_takeD)
  show "set items = {r \<in> set t. di_channel r = ch \<and> di_batch_id r = b}" using i(1) by auto
  show "items \<noteq> []" using i(1,2) by (auto simp: filter_empty_conv)
  show "\<forall>i\<in>set items. di_status i = ''sent'' \<and> di_projected_at i \<le> 0" by (rule i(3))
qed

lemma capped_delay:
  "(1::rat) \<le> x \<Longrightarrow> base \<le> x \<Longrightarrow> x \<le> y \<Longrightarrow> x \<le> z \<Longrightarrow>
     1 \<le> min 3600 x \<and> min 3600 x \<le> 3600 \<and> min 3600 base \<le> min 3600 x \<and>
     min 3600 x \<le> min 3600 y \<and> min 3600 x \<le> min 3600 z"
  by (auto simp: min_def)

section \<open>Properties\<close>

definition sample_envelope :: DeliveryEnvelope where
  "sample_envelope = \<lparr>de_batch_id = ''b1'', de_channel = ''weixin'', de_peer_id = ''p'', de_sender_id = [],
     de_trace_id = [], de_run_id = ''r'', de_goal_id = [], de_text = ''hi'', de_body_provenance = [],
     de_file_path = [], de_transport_context = [], de_max_attempts = 1\<rparr>"

definition sample_delivery_receipt :: DeliveryReceipt where
  "sample_delivery_receipt = \<lparr>dc_transport = ''weixin'', dc_media_count = 0, dc_details = []\<rparr>"

definition sample_outbox :: outbox where
  "sample_outbox = outbox_step (Enqueue [] 10 sample_envelope) []"

definition sent_outbox :: outbox where
  "sent_outbox = fold outbox_step [ClaimReady 20 ''weixin'' 10 None,
     MarkSent 21 ''b1:text'' sample_delivery_receipt [] None] sample_outbox"

lemma sample_outbox_distinct: "keys_distinct di_id sample_outbox" "keys_distinct di_id sent_outbox"
  by code_simp+

text \<open>
  C5. A sent delivery is sent once: no sequence of operations (claims, retries, recoveries,
  requeues, failures, another receipt) takes an item out of \<open>sent\<close>, changes its receipt, its
  delivery id, the time it was sent or its payload, or removes it.
\<close>

theorem sent_delivery_is_final:
  assumes "keys_distinct di_id t" and "row_of di_id i t = Some r" and "di_status r = ''sent''"
  shows "\<exists>r'. row_of di_id i (fold outbox_step ops t) = Some r' \<and> di_status r' = ''sent'' \<and>
    di_receipt r' = di_receipt r \<and> di_delivery_id r' = di_delivery_id r \<and> di_sent_at r' = di_sent_at r \<and>
    di_payload r' = di_payload r"
proof -
  have i: "di_id r = i" using row_of_Some [OF assms(2)] by simp
  have "item_reached r t" using assms(2) i by (simp add: item_reached_def)
  then have "item_reached r (fold outbox_step ops t)" by (rule outbox.settled_run [OF assms(1)])
  then obtain r' where r': "row_of di_id i (fold outbox_step ops t) = Some r'" "item_evolves r r'"
    using i by (auto simp: item_reached_def)
  then have eq: "r'\<lparr>di_projected_at := 0\<rparr> = r\<lparr>di_projected_at := 0\<rparr>" using assms(3) by (simp add: item_evolves_def)
  show ?thesis using r'(1) assms(3) same_but_projection_status [OF eq] by simp
qed

theorem sent_delivery_is_final_witness:
  "map_option di_status (row_of di_id ''b1:text'' (fold outbox_step
     [MarkFailed 30 ''b1:text'' ''late'', RecoverStale 9000 ''weixin'' 300 100, ClaimReady 9000 ''weixin'' 1 None]
     sent_outbox)) = Some ''sent''"
proof -
  have "map_option di_status (row_of di_id ''b1:text'' sent_outbox) = Some ''sent''" by code_simp
  then obtain r where r: "row_of di_id ''b1:text'' sent_outbox = Some r" "di_status r = ''sent''" by auto
  show ?thesis
    using sent_delivery_is_final [OF sample_outbox_distinct(2) r, where ops =
        "[MarkFailed 30 ''b1:text'' ''late'', RecoverStale 9000 ''weixin'' 300 100, ClaimReady 9000 ''weixin'' 1 None]"]
    by auto
qed

text \<open>
  Enqueueing is idempotent: an envelope with a batch id that was accepted once is accepted
  again at any later time, whatever happened to its items in between, and adds or changes nothing.
\<close>

theorem enqueue_idempotent:
  assumes "py_strip (de_batch_id e) \<noteq> []" and "keys_distinct di_id t"
    and "enqueue h now e t = Inr (items, t1)" and "t2 = fold outbox_step ops t1"
  shows "\<exists>items'. enqueue h' now' e t2 = Inr (items', t2) \<and> map di_id items' = map di_id items"
proof -
  let ?is = "envelope_items h now e" and ?is' = "envelope_items h' now' e"
  have ids: "map di_id ?is' = map di_id ?is"
    using assms(1) by (simp add: envelope_items_def Let_def stable_batch_id_def envelope_item_def)
  show ?thesis
  proof (cases "?is = []")
    case True
    then show ?thesis using assms(3) envelope_items_stable(2) [OF assms(1), of h' now' h now]
      by (simp add: enqueue_def)
  next
    case False
    have ok: "enqueue_items ?is t = Inr t1" "py_strip (de_channel e) \<noteq> []" "py_strip (de_peer_id e) \<noteq> []"
      and items: "items = map (\<lambda>i. case get_item (di_id i) t1 of Some row \<Rightarrow> row | None \<Rightarrow> i) ?is"
      using assms(3) False by (auto simp: enqueue_def Let_def split: if_splits)
    have present: "\<exists>r. row_of di_id (di_id i) t2 = Some r \<and> same_delivery r i" if i: "i \<in> set ?is'" for i
    proof -
      obtain j where j: "j \<in> set ?is" "di_id j = di_id i" "same_delivery j i"
        using envelope_items_stable(1) [OF assms(1) i] by blast
      obtain r where r: "row_of di_id (di_id j) t1 = Some r" "same_delivery r j"
        using enqueue_items_present [OF ok(1) j(1)] by blast
      have "keys_distinct di_id t1"
        using enqueue_items_evolves [OF ok(1)] assms(2) by (simp add: outbox_evolves_def)
      moreover have "item_reached r t1" using r row_of_Some [OF r(1)] by (simp add: item_reached_def)
      ultimately have "item_reached r t2" unfolding assms(4) by (rule outbox.settled_run)
      then obtain r2 where r2: "row_of di_id (di_id r) t2 = Some r2" "content r = content r2"
        by (auto simp: item_reached_def item_evolves_def)
      have id: "di_id r = di_id i" using row_of_Some [OF r(1)] j(2) by simp
      have "same_delivery r2 i"
        using r(2) j(3) content_fields(2-4) [OF r2(2)] by (simp add: same_delivery_def)
      then show ?thesis using r2(1) unfolding id by blast
    qed
    have "enqueue_items ?is' t2 = Inr t2" by (rule enqueue_items_again) (use present in blast)
    moreover have "?is' \<noteq> []" using False envelope_items_stable(2) [OF assms(1)] by blast
    ultimately have "enqueue h' now' e t2 =
        Inr (map (\<lambda>i. case get_item (di_id i) t2 of Some row \<Rightarrow> row | None \<Rightarrow> i) ?is', t2)"
      using ok by (simp add: enqueue_def)
    moreover have "map di_id (map (\<lambda>i. case get_item (di_id i) tt of Some row \<Rightarrow> row | None \<Rightarrow> i) xs) = map di_id xs"
      for tt xs by (auto simp: get_item_def dest: row_of_Some split: option.splits)
    ultimately show ?thesis unfolding items using ids by metis
  qed
qed

theorem enqueue_idempotent_witness:
  "\<exists>items. enqueue [] 99 sample_envelope sent_outbox = Inr (items, sent_outbox) \<and> map di_id items = [''b1:text'']"
proof -
  have strip: "py_strip (de_batch_id sample_envelope) \<noteq> []" by code_simp
  have ok: "enqueue [] 10 sample_envelope [] = Inr (sample_outbox, sample_outbox)" by code_simp
  have ids: "map di_id sample_outbox = [''b1:text'']" by code_simp
  show ?thesis using enqueue_idempotent [OF strip _ ok sent_outbox_def, of "[]" 99] ids by simp
qed

text \<open>
  Claims: a claim takes at most \<open>limit\<close> items (one, where it is not positive), no item twice,
  only pending due items of the channel; each is now \<open>sending\<close> with one attempt more, and no
  other item is touched. Because a claimed item is \<open>sending\<close>, another worker's claim does not
  return it.
\<close>

theorem claim_ready_contract:
  assumes "keys_distinct di_id t" and "claim_ready now ch limit p t = (claimed, t')"
    and "claim_ready now' ch' limit' p' t' = (claimed', t'')"
  shows "distinct (map di_id claimed) \<and> int (length claimed) \<le> max 1 limit \<and>
    (\<forall>c\<in>set claimed. row_of di_id (di_id c) t' = Some c \<and> di_status c = ''sending'' \<and>
       (\<exists>r. row_of di_id (di_id c) t = Some r \<and> di_status r = ''pending'' \<and> di_next_attempt_at r \<le> now \<and>
          di_channel r = ch \<and> di_attempts c = di_attempts r + 1)) \<and>
    (\<forall>i. i \<notin> di_id ` set claimed \<longrightarrow> row_of di_id i t' = row_of di_id i t) \<and>
    di_id ` set claimed \<inter> di_id ` set claimed' = {}"
proof -
  note spec = claim_ready_spec [OF assms(1,2)]
  have kd: "keys_distinct di_id t'"
    using outbox_step_evolves [of t "ClaimReady now ch limit p"] assms(1,2) by (simp add: outbox_evolves_def)
  have "False" if "c \<in> set claimed" "c' \<in> set claimed'" "di_id c = di_id c'" for c c'
  proof -
    have "row_of di_id (di_id c') t' = Some c" "di_status c = ''sending''"
      using spec(3) that by (auto simp: start_sending_def)
    then show False using claim_ready_spec(3) [OF kd assms(3)] that(2) by (auto simp: claimable_def)
  qed
  then have "di_id ` set claimed \<inter> di_id ` set claimed' = {}" by blast
  moreover have "row_of di_id (di_id c) t' = Some c \<and> di_status c = ''sending'' \<and>
       (\<exists>r. row_of di_id (di_id c) t = Some r \<and> di_status r = ''pending'' \<and> di_next_attempt_at r \<le> now \<and>
          di_channel r = ch \<and> di_attempts c = di_attempts r + 1)" if "c \<in> set claimed" for c
    using spec(3) that by (auto simp: start_sending_def claimable_def)
  ultimately show ?thesis using spec(1,2,4) by blast
qed

theorem claim_ready_contract_witness:
  "distinct (map di_id (fst (claim_ready 20 ''weixin'' 10 None sample_outbox))) \<and>
   filter (\<lambda>c. di_status c \<noteq> ''sending'') (fst (claim_ready 20 ''weixin'' 10 None sample_outbox)) = []"
proof -
  obtain claimed t' where c: "claim_ready 20 ''weixin'' 10 None sample_outbox = (claimed, t')" by fastforce
  obtain claimed' t'' where c': "claim_ready 20 ''weixin'' 10 None t' = (claimed', t'')" by fastforce
  show ?thesis using claim_ready_contract [OF sample_outbox_distinct(1) c c'] c
    by (simp add: filter_empty_conv)
qed

text \<open>
  The retry delay is bounded and backs off: between one second and an hour, never shorter for
  a later attempt or a longer request of the provider, and at least what the provider asked for up to the hour.
\<close>

theorem retry_delay_bounds:
  "1 \<le> retry_delay n base \<and> retry_delay n base \<le> 3600 \<and> min 3600 base \<le> retry_delay n base \<and>
   retry_delay n base \<le> retry_delay (n + 1) base \<and> retry_delay n base \<le> retry_delay n (max base base')"
proof -
  let ?b = "max 1 base" and ?k = "nat (max 0 (n - 1))" and ?k' = "nat (max 0 (n + 1 - 1))"
  have b: "1 \<le> ?b" "base \<le> ?b" "?b \<le> max 1 (max base base')" by simp_all
  have pow: "(1::rat) \<le> 2 ^ ?k" by (rule one_le_power) simp
  have k: "(2::rat) ^ ?k \<le> 2 ^ ?k'" by (rule power_increasing) auto
  have "?b * 1 \<le> ?b * 2 ^ ?k" using b(1) pow by (intro mult_left_mono) simp_all
  then have "1 \<le> ?b * 2 ^ ?k" "base \<le> ?b * 2 ^ ?k" using b by linarith+
  moreover have "?b * 2 ^ ?k \<le> ?b * 2 ^ ?k'" using b(1) k by (intro mult_left_mono) simp_all
  moreover have "?b * 2 ^ ?k \<le> max 1 (max base base') * 2 ^ ?k" using b(3) by (intro mult_right_mono) simp_all
  ultimately show ?thesis unfolding retry_delay_def Let_def by (rule capped_delay)
qed

text \<open>
  C21. A drain strands nothing of its own: when it returns, every item that it claimed is in the state that
  an outcome reports, sent, failed, or pending for a retry, and every other item is as the recovery of stale
  items left it; an item that is \<open>sending\<close> was so before, with the very same row. It reports at most
  \<open>limit\<close> outcomes. An exception that passes the handler (a \<open>CancelledError\<close>, or one of
  \<open>classify_failure\<close>) leaves one item \<open>sending\<close>, the one it was raised for, and no other.
  No other worker changes the table during the drain.
\<close>

theorem drain_strands_nothing:
  assumes "keys_distinct di_id t" and "drain stale clock tr limit p t = (res, t')"
    and "t0 = snd (recover_stale_sending (clock 0) (tr_channel tr) stale 100 t)"
  shows "case res of
      Inr outs \<Rightarrow> int (length outs) \<le> max 1 limit \<and>
        (\<forall>out\<in>set outs. di_status (do_item out) = outcome_status (do_state out) \<and>
           (\<exists>out'\<in>set outs. row_of di_id (di_id (do_item out)) t' = Some (do_item out'))) \<and>
        (\<forall>i. i \<notin> (\<lambda>out. di_id (do_item out)) ` set outs \<longrightarrow> row_of di_id i t' = row_of di_id i t0) \<and>
        (\<forall>i r. row_of di_id i t' = Some r \<and> di_status r = ''sending'' \<longrightarrow> row_of di_id i t = Some r)
    | Inl e \<Rightarrow> \<exists>item. row_of di_id (di_id item) t' = Some item \<and> di_status item = ''sending'' \<and>
        (\<forall>i r. i \<noteq> di_id item \<and> row_of di_id i t' = Some r \<and> di_status r = ''sending'' \<longrightarrow> row_of di_id i t = Some r)"
proof -
  have kd: "keys_distinct di_id t0"
    using outbox_step_evolves [of t "RecoverStale (clock 0) (tr_channel tr) stale 100"] assms(1)
    unfolding assms(3) by (simp add: outbox_evolves_def)
  have untouched: "row_of di_id i t = Some r" if "row_of di_id i t0 = Some r" "di_status r = ''sending''" for i r
    using that recover_rows_sending unfolding assms(3) recover_stale_sending_def Let_def by blast
  have rounds: "case res of Inr outs \<Rightarrow> drained outs t0 t' \<and> length outs \<le> nat (max 1 limit)
      | Inl e \<Rightarrow> \<exists>item. stranded item t0 t'"
    by (rule drain_rounds_drained [OF kd]) (use assms(2,3) in \<open>simp add: drain_def\<close>)
  show ?thesis
  proof (cases res)
    case (Inr outs)
    then have d: "drained outs t0 t'" "length outs \<le> nat (max 1 limit)" using rounds by simp_all
    have "row_of di_id i t = Some r" if "row_of di_id i t' = Some r" "di_status r = ''sending''" for i r
      using untouched drained_sending [OF d(1)] that by blast
    moreover have "\<forall>i. i \<notin> (\<lambda>out. di_id (do_item out)) ` set outs \<longrightarrow> row_of di_id i t' = row_of di_id i t0"
      "\<forall>out\<in>set outs. \<exists>out'\<in>set outs. row_of di_id (di_id (do_item out)) t' = Some (do_item out')"
      using d(1) unfolding drained_def by (meson, metis imageI)
    ultimately show ?thesis using Inr d by (auto simp: drained_def settled_outcome_def)
  next
    case (Inl e)
    then obtain item where s: "stranded item t0 t'" using rounds by auto
    then obtain outs t1 where o: "drained outs t0 t1"
        "\<forall>i. i \<noteq> di_id item \<longrightarrow> row_of di_id i t' = row_of di_id i t1"
      by (auto simp: stranded_def)
    have "row_of di_id i t = Some r"
      if "i \<noteq> di_id item" "row_of di_id i t' = Some r" "di_status r = ''sending''" for i r
      using untouched drained_sending [OF o(1)] o(2) that by simp
    then show ?thesis using Inl s unfolding stranded_def by auto
  qed
qed

definition failing_transport :: DeliveryTransport where
  "failing_transport = \<lparr>tr_channel = ''weixin'', tr_deliver = (\<lambda>_ _. Inr (Inl \<lparr>df_reason = ''connector_error'',
     df_error = ''down'', df_retryable = True, df_retry_after_seconds = 0, df_provider_code = []\<rparr>))\<rparr>"

text \<open>A drain behind a worker that died: the stale item is recovered, claimed again and fails.\<close>

definition interrupted_outbox :: outbox where
  "interrupted_outbox = outbox_step (ClaimReady 20 ''weixin'' 1 None) sample_outbox"

theorem drain_strands_nothing_witness:
  "row_of di_id ''b1:text'' interrupted_outbox \<noteq> None \<and>
   map_option di_status (row_of di_id ''b1:text'' interrupted_outbox) = Some ''sending'' \<and>
   (\<exists>outs t'. drain 300 (\<lambda>_. 9000) failing_transport 2 None interrupted_outbox = (Inr outs, t') \<and>
     (\<forall>r. row_of di_id ''b1:text'' t' = Some r \<longrightarrow> di_status r = ''failed''))"
proof -
  let ?d = "drain 300 (\<lambda>_. 9000) failing_transport 2 None interrupted_outbox"
  have kd: "keys_distinct di_id interrupted_outbox" by code_simp
  have run: "case fst ?d of Inr outs \<Rightarrow> map (\<lambda>o'. (di_id (do_item o'), do_state o')) outs = [(''b1:text'', ''failed'')] | Inl e \<Rightarrow> False"
    by code_simp
  then obtain outs where outs: "fst ?d = Inr outs" by (cases "fst ?d") auto
  then have d: "?d = (Inr outs, snd ?d)" by (metis prod.collapse)
  have facts: "\<forall>out\<in>set outs. di_status (do_item out) = outcome_status (do_state out) \<and>
      (\<exists>out'\<in>set outs. row_of di_id (di_id (do_item out)) (snd ?d) = Some (do_item out'))"
    using drain_strands_nothing [OF kd d refl] by simp
  obtain out where out: "outs = [out]" "di_id (do_item out) = ''b1:text''" "do_state out = ''failed''"
    using run outs by auto
  then have "row_of di_id ''b1:text'' (snd ?d) = Some (do_item out)" "di_status (do_item out) = ''failed''"
    using facts by (simp_all add: outcome_status_def)
  then have "\<forall>r. row_of di_id ''b1:text'' (snd ?d) = Some r \<longrightarrow> di_status r = ''failed''" by simp
  moreover have "map_option di_status (row_of di_id ''b1:text'' interrupted_outbox) = Some ''sending''" by code_simp
  ultimately show ?thesis using d by auto
qed

text \<open>
  Interrupted sends are not bounded by \<open>max_attempts\<close>: the recovery of stale items returns an
  item to the queue without looking at its attempts, so an item whose worker keeps dying is
  attempted more often than its \<open>max_attempts\<close>.
\<close>

theorem interrupted_sends_exceed_max_attempts:
  "\<exists>t ops i r. t = fold outbox_step [Enqueue [] 10 sample_envelope] [] \<and>
     row_of di_id i (fold outbox_step ops t) = Some r \<and> di_max_attempts r < di_attempts r"
proof -
  let ?t = "fold outbox_step [Enqueue [] 10 sample_envelope] []"
  let ?ops = "[ClaimReady 20 ''weixin'' 1 None, RecoverStale 400 ''weixin'' 300 100, ClaimReady 400 ''weixin'' 1 None]"
  have "map_option (\<lambda>r. di_max_attempts r < di_attempts r)
      (row_of di_id ''b1:text'' (fold outbox_step ?ops ?t)) = Some True" by code_simp
  then show ?thesis by blast
qed

text \<open>
  A batch is projected once and whole: a batch that is listed as complete has all its items of
  the channel sent and none projected, and after it has been marked as projected it is not
  listed again.
\<close>

theorem batch_projected_once:
  assumes "(b, items) \<in> set (complete_unprojected_batches ch limit t)" and "0 < projected"
  shows "items \<noteq> [] \<and> set items = {r \<in> set t. di_channel r = ch \<and> di_batch_id r = b} \<and>
    (\<forall>i\<in>set items. di_status i = ''sent'' \<and> di_projected_at i \<le> 0) \<and>
    (\<forall>i\<in>set items. 0 \<le> di_projected_at i \<longrightarrow>
       b \<notin> fst ` set (complete_unprojected_batches ch limit' (mark_batch_projected projected b t)))"
proof -
  note batch = complete_batch_items [OF assms(1)]
  have "b \<notin> fst ` set (complete_unprojected_batches ch limit' (mark_batch_projected projected b t))"
    if i: "i \<in> set items" "0 \<le> di_projected_at i" for i
  proof
    assume "b \<in> fst ` set (complete_unprojected_batches ch limit' (mark_batch_projected projected b t))"
    then obtain items' where items': "(b, items') \<in> set (complete_unprojected_batches ch limit'
        (mark_batch_projected projected b t))" by auto
    have "i \<in> set t" "di_channel i = ch" "di_batch_id i = b" "di_projected_at i = 0"
      using i batch by auto
    then have "i\<lparr>di_projected_at := projected\<rparr> \<in> set items'"
      unfolding complete_batch_items(1) [OF items']
      by (auto simp: mark_batch_projected_def set_sql_update image_iff intro!: bexI [of _ i])
    then show False using complete_batch_items(3) [OF items'] assms(2) by fastforce
  qed
  then show ?thesis using batch by blast
qed

theorem batch_projected_once_witness:
  "\<exists>items. complete_unprojected_batches ''weixin'' 10 sent_outbox = [(''b1'', items)] \<and>
     ''b1'' \<notin> fst ` set (complete_unprojected_batches ''weixin'' 10 (mark_batch_projected 60 ''b1'' sent_outbox))"
proof -
  have "complete_unprojected_batches ''weixin'' 10 sent_outbox = [(''b1'', sent_outbox)]" by code_simp
  moreover have "\<forall>i\<in>set sent_outbox. 0 \<le> di_projected_at i" "sent_outbox \<noteq> []" by code_simp+
  moreover have "0 < (60::time)" by simp
  ultimately show ?thesis using batch_projected_once [of "''b1''" sent_outbox "''weixin''" 10 sent_outbox 60 10]
    by (metis last_in_set list.set_intros(1))
qed

end
