(* ===== verification/Goal_Store.thy ===== *)
theory Goal_Store
  imports Contracts
begin

text \<open>
  \<open>navi/goals.py\<close>: durable goals, the tree of child goals, recurring goals and the goal events.
  The tables are \<open>goals\<close> and \<open>goal_events\<close>; \<open>evidence_json\<close> is the dictionary it denotes.

  \<open>update_state\<close> and its relatives read the goal in one connection and write it in another, so
  they take the database \<open>view\<close> the read saw and the database \<open>db\<close> the write meets. The event
  they record and the row they answer with belong to the moment of the write.
\<close>

section \<open>State\<close>

record Goal =
  g_id :: string
  g_objective :: string
  g_phase :: string
  g_governance :: string
  g_acceptance :: string
  g_resolution :: string
  g_source :: string
  g_peer_id :: string
  g_sender_id :: string
  g_session_id :: string
  g_workspace :: string
  g_run_id :: string
  g_trace_id :: string
  g_evidence :: dict
  g_blocked_reason :: string
  g_stop_condition :: string
  g_timeout :: time
  g_max_retries :: int
  g_created_at :: time
  g_updated_at :: time
  g_completed_at :: time
  g_parent_goal_id :: string
  g_task_status :: string
  g_cron_schedule :: string
  g_next_run_at :: time

record GoalEvent =
  ge_id :: string
  ge_goal_id :: string
  ge_event_type :: string
  ge_phase :: string
  ge_governance :: string
  ge_acceptance :: string
  ge_resolution :: string
  ge_run_id :: string
  ge_trace_id :: string
  ge_evidence :: dict
  ge_created_at :: time

record GoalDb =
  gd_goals :: "Goal list"
  gd_events :: "GoalEvent list"

record GoalDraft =
  gn_objective :: string
  gn_workspace :: string
  gn_source :: string
  gn_peer_id :: string
  gn_sender_id :: string
  gn_session_id :: string
  gn_run_id :: string
  gn_trace_id :: string
  gn_evidence :: dict
  gn_stop_condition :: string
  gn_timeout :: time
  gn_max_retries :: int
  gn_parent_goal_id :: string
  gn_task_status :: string
  gn_cron_schedule :: string
  gn_next_run_at :: time
  gn_child_active_limit :: int

section \<open>Events\<close>

definition record_event ::
  "Env \<Rightarrow> string \<Rightarrow> string \<Rightarrow> string \<times> string \<times> string \<times> string \<Rightarrow> string \<Rightarrow> string \<Rightarrow> dict \<Rightarrow> GoalDb \<Rightarrow> GoalDb" where
  "record_event env goal_id event_type = (\<lambda>(phase, governance, acceptance, resolution) rid trace_id evidence db.
     db\<lparr>gd_events := gd_events db @
         [\<lparr>ge_id = env_uuid env (length (gd_events db)), ge_goal_id = goal_id, ge_event_type = event_type,
           ge_phase = phase, ge_governance = governance, ge_acceptance = acceptance,
           ge_resolution = resolution, ge_run_id = rid, ge_trace_id = trace_id,
           ge_evidence = evidence, ge_created_at = env_clock env\<rparr>]\<rparr>)"

definition goal_state :: "Goal \<Rightarrow> string \<times> string \<times> string \<times> string" where
  "goal_state g = (g_phase g, g_governance g, g_acceptance g, g_resolution g)"

definition list_goal_events :: "string \<Rightarrow> int option \<Rightarrow> GoalDb \<Rightarrow> GoalEvent list" where
  "list_goal_events goal_id limit db =
     (let rows = sql_asc ge_created_at (filter (\<lambda>e. ge_goal_id e = goal_id) (gd_events db))
      in case limit of None \<Rightarrow> rows | Some n \<Rightarrow> sql_limit (max 1 n) rows)"

definition count_events :: "string \<Rightarrow> string \<Rightarrow> string list \<Rightarrow> GoalDb \<Rightarrow> nat" where
  "count_events goal_id event_type resolutions db =
     sql_count (\<lambda>e. ge_goal_id e = goal_id \<and> opt_eq event_type (ge_event_type e)
       \<and> (resolutions = [] \<or> ge_resolution e \<in> set resolutions)) (gd_events db)"

section \<open>Creation and queries\<close>

definition active_child :: "string \<Rightarrow> Goal \<Rightarrow> bool" where
  "active_child parent g = (g_parent_goal_id g = parent
     \<and> g_phase g \<in> {phase_str Phase_PENDING, phase_str Phase_RUNNING, phase_str Phase_PAUSED})"

definition new_goal :: "string \<Rightarrow> time \<Rightarrow> string \<Rightarrow> GoalDraft \<Rightarrow> Goal" where
  "new_goal fresh_id now workspace d =
     \<lparr>g_id = fresh_id, g_objective = gn_objective d, g_phase = phase_str Phase_RUNNING,
      g_governance = governance_str Governance_APPROVED, g_acceptance = acceptance_str Acceptance_NONE,
      g_resolution = resolution_str Resolution_NONE, g_source = gn_source d, g_peer_id = gn_peer_id d,
      g_sender_id = gn_sender_id d, g_session_id = gn_session_id d, g_workspace = workspace,
      g_run_id = gn_run_id d, g_trace_id = gn_trace_id d, g_evidence = gn_evidence d,
      g_blocked_reason = [], g_stop_condition = gn_stop_condition d, g_timeout = gn_timeout d,
      g_max_retries = gn_max_retries d, g_created_at = now, g_updated_at = now, g_completed_at = 0,
      g_parent_goal_id = gn_parent_goal_id d, g_task_status = gn_task_status d,
      g_cron_schedule = gn_cron_schedule d, g_next_run_at = gn_next_run_at d\<rparr>"

definition too_many_children :: "int \<Rightarrow> py_error" where
  "too_many_children limit = ChildAdmissionConflict (''agent.control(operation=spawn) allows at most ''
     @ show_int limit @ '' active children per parent.'')"

definition create_goal :: "Env \<Rightarrow> string \<Rightarrow> GoalDraft \<Rightarrow> GoalDb \<Rightarrow> (Goal \<times> GoalDb) result" where
  "create_goal env fresh_id d db =
     and_then (require_workspace (gn_workspace d)) (\<lambda>workspace.
     let goal = new_goal fresh_id (env_clock env) workspace d
     in if g_parent_goal_id goal \<noteq> [] \<and> 0 < gn_child_active_limit d
           \<and> gn_child_active_limit d \<le> int (sql_count (active_child (g_parent_goal_id goal)) (gd_goals db))
        then Inl (too_many_children (gn_child_active_limit d))
        else and_then (sql_insert g_id goal (gd_goals db)) (\<lambda>goals.
          Inr (goal, record_event env (g_id goal) ''goal.created'' (goal_state goal) (gn_run_id d)
                 (gn_trace_id d) (gn_evidence d) (db\<lparr>gd_goals := goals\<rparr>))))"

definition get_goal :: "string \<Rightarrow> GoalDb \<Rightarrow> Goal option" where
  "get_goal goal_id db = row_of g_id goal_id (gd_goals db)"

definition first_row :: "'r list \<Rightarrow> 'r option" where
  "first_row rows = (case rows of [] \<Rightarrow> None | r # _ \<Rightarrow> Some r)"

definition get_by_run :: "string \<Rightarrow> GoalDb \<Rightarrow> Goal option" where
  "get_by_run rid db = first_row (sql_desc g_updated_at (filter (\<lambda>g. g_run_id g = rid) (gd_goals db)))"

definition list_goals :: "string \<Rightarrow> int \<Rightarrow> GoalDb \<Rightarrow> Goal list" where
  "list_goals phase limit db =
     sql_limit limit (sql_desc g_updated_at (filter (\<lambda>g. opt_eq phase (g_phase g)) (gd_goals db)))"

record GoalScope =
  sc_source :: string
  sc_peer_id :: string
  sc_sender_id :: string
  sc_session_id :: string
  sc_workspace :: string
  sc_phases :: "string list"
  sc_governance :: "string list"
  sc_task_status :: "string list"
  sc_resolution :: "string list"
  sc_cron :: "bool option"
  sc_child :: "bool option"

definition one_of :: "string list \<Rightarrow> string \<Rightarrow> bool" where
  "one_of wanted v = (wanted = [] \<or> v \<in> set wanted)"

definition goal_in_scope :: "GoalScope \<Rightarrow> Goal \<Rightarrow> bool" where
  "goal_in_scope s g =
     (append_actor_scope (sc_source s) (sc_peer_id s) (sc_sender_id s) (sc_workspace s)
        (g_source g) (g_peer_id g) (g_sender_id g) (g_workspace g)
      \<and> opt_eq (sc_session_id s) (g_session_id g) \<and> one_of (sc_phases s) (g_phase g)
      \<and> one_of (sc_governance s) (g_governance g) \<and> one_of (sc_task_status s) (g_task_status g)
      \<and> one_of (sc_resolution s) (g_resolution g)
      \<and> (case sc_cron s of None \<Rightarrow> True | Some b \<Rightarrow> (g_cron_schedule g \<noteq> []) = b)
      \<and> (case sc_child s of None \<Rightarrow> True | Some b \<Rightarrow> (g_parent_goal_id g \<noteq> []) = b))"

definition list_scoped :: "GoalScope \<Rightarrow> int option \<Rightarrow> GoalDb \<Rightarrow> Goal list" where
  "list_scoped s limit db =
     (let rows = sql_desc g_updated_at (filter (goal_in_scope s) (gd_goals db))
      in case limit of None \<Rightarrow> rows | Some n \<Rightarrow> sql_limit (max 1 n) rows)"

definition count_scoped :: "GoalScope \<Rightarrow> GoalDb \<Rightarrow> nat" where
  "count_scoped s db = sql_count (goal_in_scope s) (gd_goals db)"

definition list_children ::
  "string \<Rightarrow> int \<Rightarrow> bool \<Rightarrow> time \<Rightarrow> time \<Rightarrow> string list \<Rightarrow> GoalDb \<Rightarrow> Goal list" where
  "list_children parent limit newest created_after created_before resolutions db =
     (let rows = filter (\<lambda>g. g_parent_goal_id g = parent
            \<and> (0 < created_after \<longrightarrow> created_after \<le> g_created_at g)
            \<and> (0 < created_before \<longrightarrow> g_created_at g \<le> created_before)
            \<and> one_of resolutions (g_resolution g)) (gd_goals db)
      in if newest then rev (sql_limit (max 1 limit) (sql_desc g_created_at rows))
         else sql_limit (max 1 limit) (sql_asc g_created_at rows))"

definition count_children :: "string \<Rightarrow> string list \<Rightarrow> GoalDb \<Rightarrow> nat" where
  "count_children parent phases db =
     sql_count (\<lambda>g. g_parent_goal_id g = parent \<and> one_of phases (g_phase g)) (gd_goals db)"

section \<open>Updates\<close>

record GoalUpdates =
  gu_phase :: string
  gu_governance :: string
  gu_acceptance :: string
  gu_resolution :: string
  gu_task_status :: string
  gu_blocked_reason :: string
  gu_evidence :: dict
  gu_event_type :: string

definition attach_trace ::
  "Env \<Rightarrow> string \<Rightarrow> string \<Rightarrow> string \<Rightarrow> dict \<Rightarrow> GoalDb \<Rightarrow> GoalDb \<Rightarrow> Goal option \<times> GoalDb" where
  "attach_trace env goal_id trace_id session_id evidence view db =
     (case get_goal goal_id view of
        None \<Rightarrow> (None, db)
      | Some goal \<Rightarrow>
          let db' = db\<lparr>gd_goals := sql_update (\<lambda>g. g_id g = goal_id)
                (\<lambda>g. g\<lparr>g_trace_id := or_else trace_id (g_trace_id goal),
                      g_session_id := or_else session_id (g_session_id goal),
                      g_evidence := dict_merge (g_evidence goal) evidence,
                      g_updated_at := env_clock env\<rparr>) (gd_goals db)\<rparr>;
              db'' = record_event env goal_id ''goal.trace_attached'' (goal_state goal) (g_run_id goal)
                       trace_id evidence db'
          in (get_goal goal_id db'', db''))"

definition update_goal_state ::
  "Env \<Rightarrow> string \<Rightarrow> GoalUpdates \<Rightarrow> GoalDb \<Rightarrow> GoalDb \<Rightarrow> Goal option \<times> GoalDb" where
  "update_goal_state env goal_id u view db =
     (case get_goal goal_id view of
        None \<Rightarrow> (None, db)
      | Some goal \<Rightarrow>
          let phase = or_else (gu_phase u) (g_phase goal);
              governance = or_else (gu_governance u) (g_governance goal);
              acceptance = or_else (gu_acceptance u) (g_acceptance goal);
              resolution = or_else (gu_resolution u) (g_resolution goal);
              db' = db\<lparr>gd_goals := sql_update (\<lambda>g. g_id g = goal_id)
                (\<lambda>g. g\<lparr>g_phase := phase, g_governance := governance, g_acceptance := acceptance,
                      g_resolution := resolution,
                      g_task_status := or_else (gu_task_status u) (g_task_status goal),
                      g_blocked_reason := gu_blocked_reason u,
                      g_evidence := dict_merge (g_evidence goal) (gu_evidence u),
                      g_updated_at := env_clock env,
                      g_completed_at := (if phase = phase_str Phase_ENDED then env_clock env else 0)\<rparr>)
                (gd_goals db)\<rparr>;
              db'' = record_event env goal_id (gu_event_type u) (phase, governance, acceptance, resolution)
                       (g_run_id goal) (g_trace_id goal) (gu_evidence u) db'
          in (get_goal goal_id db'', db''))"

definition stop_condition_facts :: "Env \<Rightarrow> string \<Rightarrow> GoalDb \<Rightarrow> dict" where
  "stop_condition_facts env goal_id db =
     (case get_goal goal_id db of
        None \<Rightarrow> []
      | Some goal \<Rightarrow>
          let age = env_clock env - g_created_at goal;
              retries = int (count_events goal_id ''goal.run_state''
                [resolution_str Resolution_BLOCKED, resolution_str Resolution_FAILED] db)
          in if g_phase goal \<noteq> phase_str Phase_RUNNING then []
             else if 0 < g_timeout goal \<and> g_timeout goal \<le> age
             then [(''reason'', JStr ''timeout_reached''), (''age_seconds'', JInt \<lfloor>age\<rfloor>),
                   (''timeout_seconds'', JInt \<lfloor>g_timeout goal\<rfloor>)]
             else if 0 < g_max_retries goal \<and> g_max_retries goal \<le> retries
             then [(''reason'', JStr ''retry_ceiling_reached''), (''retry_count'', JInt retries),
                   (''max_retries'', JInt (g_max_retries goal))]
             else [])"

definition stop_condition_reached :: "Env \<Rightarrow> string \<Rightarrow> GoalDb \<Rightarrow> string" where
  "stop_condition_reached env goal_id db = str_or_empty (jget (stop_condition_facts env goal_id db) ''reason'')"

definition goal_state_for_run :: "Run \<Rightarrow> string \<times> string \<times> string \<times> string" where
  "goal_state_for_run run =
     (if run_phase run = ''ended'' \<and> run_resolution run = ''success''
        then (''ended'', ''none'', ''accepted'', ''success'')
      else if run_phase run = ''ended''
        then (''ended'', ''none'', if run_resolution run = ''failed'' then ''rejected'' else ''none'',
              run_resolution run)
      else if run_governance run = ''awaiting_approval''
        then (''running'', ''awaiting_approval'', ''none'', ''none'')
      else if run_resolution run = ''blocked''
        then (''running'', run_governance run, ''none'', ''blocked'')
      else (''running'', ''approved'', ''none'', ''none''))"

definition task_status_for_run :: "string \<times> string \<times> string \<times> string \<Rightarrow> json \<Rightarrow> string" where
  "task_status_for_run = (\<lambda>(phase, governance, acceptance, resolution) loop_kind.
     if phase = ''ended'' \<and> loop_kind = JStr ''turn'' then ''archived''
     else if phase = ''ended'' \<and> resolution = ''success'' then ''done''
     else if phase = ''ended'' \<or> resolution \<in> {''blocked'', ''failed'', ''canceled''} then ''blocked''
     else if governance = ''awaiting_approval'' then ''pending''
     else ''in_progress'')"

definition update_for_run ::
  "Env \<Rightarrow> Run \<Rightarrow> dict \<Rightarrow> GoalDb \<Rightarrow> GoalDb \<Rightarrow> Goal option \<times> GoalDb" where
  "update_for_run env run evidence view db =
     (case get_by_run (run_id run) view of
        None \<Rightarrow> (None, db)
      | Some goal \<Rightarrow>
          let facts = (if evidence \<noteq> [] then evidence else
                 [(''run_id'', JStr (run_id run)), (''run_phase'', JStr (run_phase run)),
                  (''run_governance'', JStr (run_governance run)),
                  (''run_acceptance'', JStr (run_acceptance run)),
                  (''run_resolution'', JStr (run_resolution run))]);
              (phase, governance, acceptance, resolution) = goal_state_for_run run;
              loop_kind = (case map_of (g_evidence goal) ''loop_kind'' of None \<Rightarrow> JStr [] | Some v \<Rightarrow> v);
              critic_missing = (run_phase run = ''ended'' \<and> run_resolution run = ''success'' \<and> run_error run = []);
              reason = (if resolution = ''blocked''
                 then (if critic_missing then ''critic_gate_evidence_missing'' else ''run_blocked'') else []);
              facts = (if resolution = ''blocked'' \<and> run_error run \<noteq> []
                 then dict_merge facts [(''run_error'', JStr (run_error run))] else facts)
          in update_goal_state env (g_id goal)
               \<lparr>gu_phase = phase, gu_governance = governance, gu_acceptance = acceptance,
                gu_resolution = resolution,
                gu_task_status = task_status_for_run (goal_state_for_run run) loop_kind,
                gu_blocked_reason = reason, gu_evidence = facts, gu_event_type = ''goal.run_state''\<rparr> view db)"

section \<open>Recurring goals\<close>

definition active_cron :: "string \<Rightarrow> string \<Rightarrow> string \<Rightarrow> string \<Rightarrow> Goal \<Rightarrow> bool" where
  "active_cron cron_schedule source peer_id sender_id g =
     (g_cron_schedule g = cron_schedule \<and> g_source g = source \<and> g_peer_id g = peer_id
      \<and> g_sender_id g = sender_id \<and> g_phase g \<noteq> phase_str Phase_ENDED)"

definition find_active_cron_goal ::
  "string \<Rightarrow> string \<Rightarrow> string \<Rightarrow> string \<Rightarrow> string \<Rightarrow> GoalDb \<Rightarrow> Goal option" where
  "find_active_cron_goal objective cron_schedule source peer_id sender_id db =
     first_row (sql_desc g_created_at (filter (\<lambda>g. g_objective g = objective
       \<and> active_cron cron_schedule source peer_id sender_id g) (gd_goals db)))"

definition find_active_cron_goal_by_schedule ::
  "string \<Rightarrow> string \<Rightarrow> string \<Rightarrow> string \<Rightarrow> string \<Rightarrow> GoalDb \<Rightarrow> Goal option" where
  "find_active_cron_goal_by_schedule cron_schedule source peer_id sender_id exclude_goal_id db =
     first_row (sql_desc g_created_at (filter (\<lambda>g. active_cron cron_schedule source peer_id sender_id g
       \<and> (exclude_goal_id = [] \<or> g_id g \<noteq> exclude_goal_id)) (gd_goals db)))"

definition list_cron_goals :: "GoalDb \<Rightarrow> Goal list" where
  "list_cron_goals db = sql_desc g_created_at (filter (\<lambda>g. g_cron_schedule g \<noteq> []) (gd_goals db))"

definition due_cron_goals :: "time \<Rightarrow> GoalDb \<Rightarrow> Goal list" where
  "due_cron_goals now db =
     sql_asc g_next_run_at (filter (\<lambda>g. g_cron_schedule g \<noteq> [] \<and> g_next_run_at g \<le> now
       \<and> g_phase g \<noteq> phase_str Phase_ENDED) (gd_goals db))"

definition set_next_run :: "Env \<Rightarrow> string \<Rightarrow> time \<Rightarrow> GoalDb \<Rightarrow> GoalDb" where
  "set_next_run env goal_id next_run_at db =
     db\<lparr>gd_goals := sql_update (\<lambda>g. g_id g = goal_id)
         (\<lambda>g. g\<lparr>g_next_run_at := next_run_at, g_updated_at := env_clock env\<rparr>) (gd_goals db)\<rparr>"

definition update_cron_run :: "Env \<Rightarrow> string \<Rightarrow> time \<Rightarrow> GoalDb \<Rightarrow> Goal option \<times> GoalDb" where
  "update_cron_run env goal_id next_run_at db =
     (let db' = set_next_run env goal_id next_run_at db in (get_goal goal_id db', db'))"

definition update_scheduled_template ::
  "Env \<Rightarrow> string \<Rightarrow> string \<Rightarrow> string \<Rightarrow> time \<Rightarrow> dict \<Rightarrow> string \<Rightarrow> GoalDb \<Rightarrow> GoalDb \<Rightarrow> Goal option \<times> GoalDb" where
  "update_scheduled_template env goal_id objective cron_schedule next_run_at evidence event_type view db =
     (case get_goal goal_id view of
        None \<Rightarrow> (None, db)
      | Some goal \<Rightarrow>
          let db' = db\<lparr>gd_goals := sql_update (\<lambda>g. g_id g = goal_id)
                (\<lambda>g. g\<lparr>g_objective := objective, g_cron_schedule := cron_schedule,
                      g_next_run_at := next_run_at,
                      g_evidence := dict_merge (g_evidence goal) evidence,
                      g_updated_at := env_clock env\<rparr>) (gd_goals db)\<rparr>;
              updated = get_goal goal_id db';
              target = (case updated of Some g \<Rightarrow> g | None \<Rightarrow> goal)
          in (updated, record_event env goal_id event_type (goal_state target) (g_run_id target)
                (g_trace_id target) evidence db'))"

definition record_cron_failure ::
  "Env \<Rightarrow> string \<Rightarrow> time \<Rightarrow> time \<Rightarrow> string \<Rightarrow> string \<Rightarrow> string \<Rightarrow> GoalDb \<Rightarrow> GoalDb \<Rightarrow> Goal option \<times> GoalDb" where
  "record_cron_failure env goal_id scheduled_for next_run_at error_type error trace_id view db =
     (case get_goal goal_id view of
        None \<Rightarrow> (None, db)
      | Some goal \<Rightarrow>
          let db' = record_event env goal_id ''goal.schedule_occurrence_failed'' (goal_state goal)
                (g_run_id goal) trace_id
                [(''scheduled_for'', JFloat scheduled_for), (''next_run_at'', JFloat next_run_at),
                 (''error_type'', JStr error_type), (''error'', JStr error)]
                (set_next_run env goal_id next_run_at db)
          in (get_goal goal_id db', db'))"

definition block_invalid_cron_schedule ::
  "Env \<Rightarrow> string \<Rightarrow> time \<Rightarrow> string \<Rightarrow> string \<Rightarrow> string \<Rightarrow> GoalDb \<Rightarrow> GoalDb \<Rightarrow> Goal option \<times> GoalDb" where
  "block_invalid_cron_schedule env goal_id scheduled_for error_type error trace_id view db =
     (case get_goal goal_id view of
        None \<Rightarrow> (None, db)
      | Some goal \<Rightarrow>
          let evidence = [(''scheduled_for'', JFloat scheduled_for),
                (''cron_schedule'', JStr (g_cron_schedule goal)), (''error_type'', JStr error_type),
                (''error'', JStr error), (''state_transition'', JStr ''schedule_blocked'')];
              db' = db\<lparr>gd_goals := sql_update (\<lambda>g. g_id g = goal_id)
                (\<lambda>g. g\<lparr>g_phase := phase_str Phase_ENDED, g_resolution := resolution_str Resolution_BLOCKED,
                      g_task_status := ''blocked'', g_blocked_reason := ''invalid_cron_schedule'',
                      g_next_run_at := 0, g_evidence := dict_merge (g_evidence goal) evidence,
                      g_updated_at := env_clock env, g_completed_at := env_clock env\<rparr>) (gd_goals db)\<rparr>;
              db'' = record_event env goal_id ''goal.schedule_invalid''
                (phase_str Phase_ENDED, g_governance goal, g_acceptance goal, resolution_str Resolution_BLOCKED)
                (g_run_id goal) trace_id evidence db'
          in (get_goal goal_id db'', db''))"

section \<open>The store seen from outside\<close>

text \<open>
  What is done to a goal table besides the changes of state, with the same child limit at every
  creation. A refused creation leaves the tables as they are.
\<close>

datatype goal_op =
    Op_Create Env string GoalDraft
  | Op_Trace Env string string string dict GoalDb
  | Op_Next_Run Env string time
  | Op_Template Env string string string time dict string GoalDb
  | Op_Cron_Failure Env string time time string string string GoalDb
  | Op_Invalid_Schedule Env string time string string string GoalDb

fun goal_step :: "int \<Rightarrow> goal_op \<Rightarrow> GoalDb \<Rightarrow> GoalDb" where
  "goal_step limit (Op_Create env fresh_id d) db =
     (case create_goal env fresh_id (d\<lparr>gn_child_active_limit := limit\<rparr>) db of Inl _ \<Rightarrow> db | Inr (_, db') \<Rightarrow> db')"
| "goal_step limit (Op_Trace env gid trace_id session_id evidence view) db =
     snd (attach_trace env gid trace_id session_id evidence view db)"
| "goal_step limit (Op_Next_Run env gid next_run_at) db = snd (update_cron_run env gid next_run_at db)"
| "goal_step limit (Op_Template env gid objective schedule next_run_at evidence event_type view) db =
     snd (update_scheduled_template env gid objective schedule next_run_at evidence event_type view db)"
| "goal_step limit (Op_Cron_Failure env gid due next_run_at error_type error trace_id view) db =
     snd (record_cron_failure env gid due next_run_at error_type error trace_id view db)"
| "goal_step limit (Op_Invalid_Schedule env gid due error_type error trace_id view) db =
     snd (block_invalid_cron_schedule env gid due error_type error trace_id view db)"

definition active_children :: "string \<Rightarrow> GoalDb \<Rightarrow> nat" where
  "active_children parent db = sql_count (active_child parent) (gd_goals db)"

definition within_limit :: "int \<Rightarrow> GoalDb \<Rightarrow> bool" where
  "within_limit limit db \<longleftrightarrow> (\<forall>parent. parent \<noteq> [] \<and> 0 < limit \<longrightarrow> int (active_children parent db) \<le> limit)"

section \<open>Lemmas\<close>

lemma record_event_goals [simp]: "gd_goals (record_event env gid ty st rid tr ev db) = gd_goals db"
  by (simp add: record_event_def split: prod.splits)

lemma get_goal_event [simp]: "get_goal gid (record_event env k ty st rid tr ev db) = get_goal gid db"
  by (simp add: get_goal_def)

lemma active_children_event [simp]:
  "active_children p (record_event env gid ty st rid tr ev db) = active_children p db"
  by (simp add: active_children_def)

lemma sql_count_update_le:
  assumes "\<And>r. p r \<Longrightarrow> q (f r) \<Longrightarrow> q r"
  shows "sql_count q (sql_update p f t) \<le> sql_count q t"
  using assms by (induction t) (auto simp: sql_count_def sql_simps)

lemma active_children_update_le:
  assumes "\<And>r. pre r \<Longrightarrow> active_child p (f r) \<Longrightarrow> active_child p r"
  shows "active_children p (db\<lparr>gd_goals := sql_update pre f (gd_goals db)\<rparr>) \<le> active_children p db"
  using assms by (simp add: active_children_def sql_count_update_le)

lemma active_children_step:
  assumes "\<And>env gid d. a \<noteq> Op_Create env gid d"
  shows "active_children p (goal_step limit a db) \<le> active_children p db"
proof (cases a)
  case (Op_Create env gid d)
  then show ?thesis using assms by simp
qed (auto simp: attach_trace_def update_cron_run_def set_next_run_def update_scheduled_template_def
      record_cron_failure_def block_invalid_cron_schedule_def Let_def active_child_def
      intro!: active_children_update_le split: option.splits)

lemma new_goal_fields [simp]:
  "g_id (new_goal gid now w d) = gid" "g_parent_goal_id (new_goal gid now w d) = gn_parent_goal_id d"
  "g_phase (new_goal gid now w d) = ''running''" "g_run_id (new_goal gid now w d) = gn_run_id d"
  "g_evidence (new_goal gid now w d) = gn_evidence d" "g_workspace (new_goal gid now w d) = w"
  by (simp_all add: new_goal_def)

text \<open>Exactly when a creation succeeds, and what it then leaves.\<close>

definition admits :: "GoalDraft \<Rightarrow> GoalDb \<Rightarrow> bool" where
  "admits d db = (gn_parent_goal_id d = [] \<or> gn_child_active_limit d \<le> 0
     \<or> int (active_children (gn_parent_goal_id d) db) < gn_child_active_limit d)"

lemma create_goal_alt:
  "create_goal env gid d db = and_then (require_workspace (gn_workspace d)) (\<lambda>w.
     if \<not> admits d db then Inl (too_many_children (gn_child_active_limit d))
     else and_then (sql_insert g_id (new_goal gid (env_clock env) w d) (gd_goals db)) (\<lambda>goals.
         Inr (new_goal gid (env_clock env) w d,
           record_event env gid ''goal.created'' (goal_state (new_goal gid (env_clock env) w d))
             (gn_run_id d) (gn_trace_id d) (gn_evidence d) (db\<lparr>gd_goals := goals\<rparr>))))"
  unfolding create_goal_def admits_def active_children_def Let_def new_goal_fields
  by (simp add: not_le not_less)

lemma create_goal_Inr_iff:
  "create_goal env gid d db = Inr (g, db') \<longleftrightarrow>
     py_strip (gn_workspace d) \<noteq> [] \<and> admits d db \<and> row_of g_id gid (gd_goals db) = None
     \<and> g = new_goal gid (env_clock env) (py_strip (gn_workspace d)) d
     \<and> db' = record_event env gid ''goal.created'' (goal_state g) (gn_run_id d) (gn_trace_id d)
               (gn_evidence d) (db\<lparr>gd_goals := gd_goals db @ [g]\<rparr>)"
  by (simp only: create_goal_alt require_workspace_def Let_def)
    (auto simp: sql_insert_Inr_iff split: if_splits)

lemma active_children_create:
  assumes "create_goal env gid d db = Inr (g, db')"
  shows "active_children p db' = active_children p db + (if gn_parent_goal_id d = p then 1 else 0)"
  using assms by (auto simp: create_goal_Inr_iff active_children_def sql_count_def active_child_def)

lemma within_limit_step:
  assumes "within_limit limit db"
  shows "within_limit limit (goal_step limit a db)"
proof (cases "\<exists>env gid d. a = Op_Create env gid d")
  case True
  then obtain env gid d where a: "a = Op_Create env gid d" by blast
  let ?d = "d\<lparr>gn_child_active_limit := limit\<rparr>"
  show ?thesis
  proof (cases "create_goal env gid ?d db")
    case (Inr r)
    then obtain g db' where r: "create_goal env gid ?d db = Inr (g, db')" by (cases r) auto
    have "admits ?d db" using r by (simp add: create_goal_Inr_iff)
    then show ?thesis
      using assms a r active_children_create [OF r] by (auto simp: within_limit_def admits_def)
  qed (use assms a in simp)
next
  case False
  then have le: "active_children p (goal_step limit a db) \<le> active_children p db" for p
    by (intro active_children_step) auto
  show ?thesis unfolding within_limit_def
  proof (intro allI impI)
    fix parent :: string assume "parent \<noteq> [] \<and> 0 < limit"
    then have "int (active_children parent db) \<le> limit" using assms by (simp add: within_limit_def)
    then show "int (active_children parent (goal_step limit a db)) \<le> limit" using le [of parent] by linarith
  qed
qed

interpretation spawning: op_machine "goal_step limit" "within_limit limit" for limit
  by unfold_locales (rule within_limit_step)

lemma first_row_desc: "first_row (sql_desc k t) = Some r \<Longrightarrow> r \<in> set t"
proof -
  assume "first_row (sql_desc k t) = Some r"
  then obtain rest where e: "sql_desc k t = r # rest"
    by (auto simp: first_row_def split: list.splits)
  have "r \<in> set (sql_desc k t)" by (simp only: e list.set_intros)
  then show "r \<in> set t" by simp
qed

lemma get_by_run_Some:
  assumes "get_by_run rid db = Some g"
  shows "g \<in> set (gd_goals db)" "g_run_id g = rid"
  using first_row_desc [OF assms [unfolded get_by_run_def]] by auto

text \<open>The rows an update by id leaves: the goal as the update makes it, and every other goal.\<close>

lemma get_goal_update:
  assumes "\<And>g. g_id (f g) = g_id g"
  shows "get_goal k (db\<lparr>gd_goals := sql_update (\<lambda>g. g_id g = gid) f (gd_goals db)\<rparr>) =
    (if k = gid then map_option f (get_goal gid db) else get_goal k db)"
proof -
  have "get_goal k (db\<lparr>gd_goals := sql_update (\<lambda>g. g_id g = gid) f (gd_goals db)\<rparr>) =
      map_option (\<lambda>g. if g_id g = gid then f g else g) (get_goal k db)"
    unfolding get_goal_def by (simp add: row_of_update assms)
  also have "\<dots> = (if k = gid then map_option f (get_goal gid db) else get_goal k db)"
    by (cases "get_goal k db") (auto simp: get_goal_def dest: row_of_Some)
  finally show ?thesis .
qed

definition updated_goal :: "Env \<Rightarrow> GoalUpdates \<Rightarrow> Goal \<Rightarrow> Goal \<Rightarrow> Goal" where
  "updated_goal env u seen row = row\<lparr>
     g_phase := or_else (gu_phase u) (g_phase seen),
     g_governance := or_else (gu_governance u) (g_governance seen),
     g_acceptance := or_else (gu_acceptance u) (g_acceptance seen),
     g_resolution := or_else (gu_resolution u) (g_resolution seen),
     g_task_status := or_else (gu_task_status u) (g_task_status seen),
     g_blocked_reason := gu_blocked_reason u,
     g_evidence := dict_merge (g_evidence seen) (gu_evidence u),
     g_updated_at := env_clock env,
     g_completed_at := (if or_else (gu_phase u) (g_phase seen) = ''ended'' then env_clock env else 0)\<rparr>"

lemma updated_goal_fields [simp]:
  "g_id (updated_goal env u seen row) = g_id row"
  "g_phase (updated_goal env u seen row) = or_else (gu_phase u) (g_phase seen)"
  "g_acceptance (updated_goal env u seen row) = or_else (gu_acceptance u) (g_acceptance seen)"
  "g_resolution (updated_goal env u seen row) = or_else (gu_resolution u) (g_resolution seen)"
  "g_task_status (updated_goal env u seen row) = or_else (gu_task_status u) (g_task_status seen)"
  "g_blocked_reason (updated_goal env u seen row) = gu_blocked_reason u"
  "g_evidence (updated_goal env u seen row) = dict_merge (g_evidence seen) (gu_evidence u)"
  by (simp_all add: updated_goal_def)

lemma update_goal_state_row:
  assumes "get_goal gid view = Some seen"
  shows "get_goal k (snd (update_goal_state env gid u view db)) =
    (if k = gid then map_option (updated_goal env u seen) (get_goal gid db) else get_goal k db)"
  using assms by (auto simp: update_goal_state_def get_goal_update updated_goal_def [abs_def] Let_def)

lemma update_goal_state_events:
  assumes "get_goal gid view = Some seen"
  shows "\<exists>e. gd_events (snd (update_goal_state env gid u view db)) = gd_events db @ [e]
    \<and> ge_goal_id e = gid \<and> ge_event_type e = gu_event_type u
    \<and> ge_phase e = or_else (gu_phase u) (g_phase seen)
    \<and> ge_resolution e = or_else (gu_resolution u) (g_resolution seen)
    \<and> ge_evidence e = gu_evidence u"
  using assms by (simp add: update_goal_state_def record_event_def Let_def)

lemma or_else_text: "t \<noteq> [] \<Longrightarrow> or_else t d = t"
  by (simp add: or_else_def)

lemma goal_state_for_run_cases:
  assumes "goal_state_for_run run = (phase, governance, acceptance, resolution)"
  shows "phase \<noteq> []" "acceptance \<noteq> []" "phase = ''ended'' \<longleftrightarrow> run_phase run = ''ended''"
    "acceptance = ''accepted'' \<longleftrightarrow> run_phase run = ''ended'' \<and> run_resolution run = ''success''"
    "resolution = ''blocked'' \<longleftrightarrow> run_resolution run = ''blocked''
      \<and> (run_phase run = ''ended'' \<or> run_governance run \<noteq> ''awaiting_approval'')"
  using assms by (auto simp: goal_state_for_run_def split: if_splits)

text \<open>The update \<open>update_for_run\<close> asks for.\<close>

lemma update_for_run_asks:
  assumes "get_by_run (run_id run) view = Some g"
  obtains phase governance acceptance resolution u where
    "goal_state_for_run run = (phase, governance, acceptance, resolution)"
    "update_for_run env run ev view db = update_goal_state env (g_id g) u view db"
    "gu_phase u = phase" "gu_acceptance u = acceptance" "gu_event_type u = ''goal.run_state''"
    "gu_blocked_reason u = (if resolution = ''blocked'' then ''run_blocked'' else [])"
proof -
  obtain phase governance acceptance resolution where
    st: "goal_state_for_run run = (phase, governance, acceptance, resolution)"
    by (cases "goal_state_for_run run") auto
  have crit: "resolution = ''blocked'' \<Longrightarrow>
      \<not> (run_phase run = ''ended'' \<and> run_resolution run = ''success'' \<and> run_error run = [])"
    using goal_state_for_run_cases(5) [OF st] by auto
  show thesis
    by (rule that [OF st])
      (use assms crit in \<open>auto simp: update_for_run_def st Let_def\<close>)
qed

section \<open>Properties\<close>

text \<open>
  C7. However many workers spawn children of a goal, and in whatever order, a parent never has
  more active children than the limit every creation asks for: the count and the insertion are one
  transaction. Tracing a goal, moving its schedule, or closing it for an invalid schedule does not
  bring an ended child back.
\<close>

theorem children_stay_within_limit:
  assumes "0 < limit" "parent \<noteq> []"
    and "\<And>p. p \<noteq> [] \<Longrightarrow> int (active_children p db) \<le> limit"
  shows "int (active_children parent (fold (goal_step limit) ops db)) \<le> limit"
proof -
  have "within_limit limit db" using assms by (simp add: within_limit_def)
  then have "within_limit limit (fold (goal_step limit) ops db)" by (rule spawning.inv_run)
  then show ?thesis using assms by (simp add: within_limit_def)
qed

text \<open>
  A creation succeeds exactly when the workspace is not blank, the parent has room and the id
  is new. It stores the goal as running in the stripped workspace, leaves every other goal as it
  is, adds one active child to its parent and to no other goal, and logs one event.
\<close>

theorem create_goal_contract:
  fixes d :: GoalDraft
  shows "(is_ok (create_goal env gid d db) \<longleftrightarrow>
      py_strip (gn_workspace d) \<noteq> [] \<and> get_goal gid db = None
      \<and> (gn_parent_goal_id d = [] \<or> gn_child_active_limit d \<le> 0
         \<or> int (active_children (gn_parent_goal_id d) db) < gn_child_active_limit d))
    \<and> (\<forall>g db'. create_goal env gid d db = Inr (g, db') \<longrightarrow>
      get_goal gid db' = Some g \<and> g_phase g = ''running''
      \<and> g_workspace g = py_strip (gn_workspace d)
      \<and> (\<forall>k. k \<noteq> gid \<longrightarrow> get_goal k db' = get_goal k db)
      \<and> (\<forall>p. active_children p db' = active_children p db + (if p = gn_parent_goal_id d then 1 else 0))
      \<and> map ge_event_type (gd_events db') = map ge_event_type (gd_events db) @ [''goal.created''])"
proof (intro conjI [where P = "is_ok _ = _"] allI impI)
  show "is_ok (create_goal env gid d db) \<longleftrightarrow>
      py_strip (gn_workspace d) \<noteq> [] \<and> get_goal gid db = None
      \<and> (gn_parent_goal_id d = [] \<or> gn_child_active_limit d \<le> 0
         \<or> int (active_children (gn_parent_goal_id d) db) < gn_child_active_limit d)"
    by (auto simp: is_ok_iff create_goal_Inr_iff admits_def get_goal_def)
next
  fix g db' assume r: "create_goal env gid d db = Inr (g, db')"
  have kids: "active_children p db' = active_children p db + (if p = gn_parent_goal_id d then 1 else 0)" for p
    using active_children_create [OF r] by (auto simp: eq_commute)
  show "get_goal gid db' = Some g \<and> g_phase g = ''running''
      \<and> g_workspace g = py_strip (gn_workspace d)
      \<and> (\<forall>k. k \<noteq> gid \<longrightarrow> get_goal k db' = get_goal k db)
      \<and> (\<forall>p. active_children p db' = active_children p db + (if p = gn_parent_goal_id d then 1 else 0))
      \<and> map ge_event_type (gd_events db') = map ge_event_type (gd_events db) @ [''goal.created'']"
    using r kids
    by (auto simp: create_goal_Inr_iff get_goal_def row_of_append record_event_def goal_state_def
        split: option.splits)
qed

text \<open>
  A goal follows its run: after \<open>update_for_run\<close> the goal is ended exactly when the run is,
  accepted exactly when the run ended in success, completed at the clock of the call exactly when
  ended, and blocked exactly when the run is blocked and does not wait for an approval; no other
  goal changes, and one event is logged. The reason of a block is always \<open>run_blocked\<close>: the
  reason \<open>critic_gate_evidence_missing\<close>, which the table of the code keeps for a run that ended
  in success without an error, is never given.
\<close>

theorem update_for_run_contract:
  assumes "get_by_run (run_id run) db = Some g"
    and "update_for_run env run ev db db = (ans, db')"
  shows "\<exists>g'. ans = Some g' \<and> get_goal (g_id g) db' = Some g'
    \<and> (g_phase g' = ''ended'') = (run_phase run = ''ended'')
    \<and> (g_acceptance g' = ''accepted'') = (run_phase run = ''ended'' \<and> run_resolution run = ''success'')
    \<and> g_completed_at g' = (if run_phase run = ''ended'' then env_clock env else 0)
    \<and> g_blocked_reason g' = (if run_resolution run = ''blocked''
         \<and> (run_phase run = ''ended'' \<or> run_governance run \<noteq> ''awaiting_approval'')
         then ''run_blocked'' else [])
    \<and> (\<forall>k. k \<noteq> g_id g \<longrightarrow> get_goal k db' = get_goal k db)
    \<and> map ge_event_type (gd_events db') = map ge_event_type (gd_events db) @ [''goal.run_state'']"
proof -
  obtain phase governance acceptance resolution u where
    st: "goal_state_for_run run = (phase, governance, acceptance, resolution)"
    and up: "update_for_run env run ev db db = update_goal_state env (g_id g) u db db"
    and u: "gu_phase u = phase" "gu_acceptance u = acceptance" "gu_event_type u = ''goal.run_state''"
      "gu_blocked_reason u = (if resolution = ''blocked'' then ''run_blocked'' else [])"
    by (rule update_for_run_asks [OF assms(1)])
  note state = goal_state_for_run_cases [OF st]
  obtain seen where seen: "get_goal (g_id g) db = Some seen"
    using get_by_run_Some(1) [OF assms(1)] unfolding get_goal_def
    by (cases "row_of g_id (g_id g) (gd_goals db)") (auto simp: row_of_None)
  let ?g = "updated_goal env u seen seen"
  have row: "get_goal k db' = (if k = g_id g then Some ?g else get_goal k db)" for k
    using update_goal_state_row [OF seen, of k env u db] assms(2) seen by (simp add: up)
  have "ans = get_goal (g_id g) db'"
    using assms(2) seen by (auto simp: up update_goal_state_def Let_def)
  then have ans: "ans = Some ?g" by (simp add: row)
  have log: "map ge_event_type (gd_events db') = map ge_event_type (gd_events db) @ [''goal.run_state'']"
    using update_goal_state_events [OF seen, of env u db] assms(2) u(3) by (auto simp: up)
  have "g_completed_at ?g = (if phase = ''ended'' then env_clock env else 0)"
    using state(1) u(1) by (simp add: updated_goal_def or_else_text)
  with ans row log state u show ?thesis by (intro exI [of _ ?g]) (simp add: or_else_text)
qed

lemma due_cron_member:
  "g \<in> set (due_cron_goals now db) \<longleftrightarrow> g \<in> set (gd_goals db) \<and> g_cron_schedule g \<noteq> []
     \<and> g_next_run_at g \<le> now \<and> g_phase g \<noteq> ''ended''"
  by (auto simp: due_cron_goals_def)

lemma block_invalid_goals:
  assumes "get_goal gid view = Some seen"
  shows "\<exists>f. gd_goals (snd (block_invalid_cron_schedule env gid due ety err tr view db))
      = sql_update (\<lambda>g. g_id g = gid) f (gd_goals db) \<and> (\<forall>g. g_phase (f g) = ''ended'')"
proof -
  have end_state: "\<exists>f'. gd_goals (db\<lparr>gd_goals := sql_update p f t\<rparr>) = sql_update p f' t \<and> (\<forall>g. g_phase (f' g) = ''ended'')"
    if "\<And>g. g_phase (f g) = ''ended''" for db p f t
    using that by auto
  show ?thesis
    unfolding block_invalid_cron_schedule_def assms option.case Let_def snd_conv record_event_goals
    by (rule end_state) simp
qed

lemma block_invalid_rows:
  assumes "get_goal gid view \<noteq> None"
    and "g \<in> set (gd_goals (snd (block_invalid_cron_schedule env gid due ety err tr view db)))"
    and "g_id g = gid"
  shows "g_phase g = ''ended''"
proof -
  obtain seen where "get_goal gid view = Some seen" using assms(1) by blast
  from block_invalid_goals [OF this, of env due ety err tr db] obtain f where
    f: "gd_goals (snd (block_invalid_cron_schedule env gid due ety err tr view db))
      = sql_update (\<lambda>g. g_id g = gid) f (gd_goals db)" "\<And>g. g_phase (f g) = ''ended''" by blast
  from sql_update_member [OF assms(2) [unfolded f(1)]] obtain r where
    r: "g = (if g_id r = gid then f r else r)" by blast
  show ?thesis
  proof (cases "g_id r = gid")
    case True
    then show ?thesis using r f(2) by simp
  qed (use r assms(3) in simp)
qed

definition moved_to :: "Env \<Rightarrow> time \<Rightarrow> Goal \<Rightarrow> Goal" where
  "moved_to env next g = g\<lparr>g_next_run_at := next, g_updated_at := env_clock env\<rparr>"

lemma update_cron_rows:
  "set (gd_goals (snd (update_cron_run env gid next db)))
     = moved_to env next ` {g \<in> set (gd_goals db). g_id g = gid} \<union> {g \<in> set (gd_goals db). g_id g \<noteq> gid}"
  by (auto simp: update_cron_run_def set_next_run_def Let_def set_sql_update moved_to_def [abs_def])

lemma moved_to_fields [simp]:
  "g_id (moved_to env next g) = g_id g" "g_next_run_at (moved_to env next g) = next"
  "g_phase (moved_to env next g) = g_phase g" "g_cron_schedule (moved_to env next g) = g_cron_schedule g"
  by (simp_all add: moved_to_def)

lemma due_after_move:
  "r \<in> set (due_cron_goals t (snd (update_cron_run env gid next db))) \<Longrightarrow> g_id r = gid \<Longrightarrow> next \<le> t"
  unfolding due_cron_member update_cron_rows by (elim conjE UnE imageE) simp_all

text \<open>
  The due recurring goals are the goals with a schedule that are not ended and whose time has
  come, the most overdue first. After \<open>update_cron_run\<close> such a goal is due again exactly from its
  new time on, and no other goal's turn changes. After \<open>block_invalid_cron_schedule\<close> it is never
  due again, whatever the clock.
\<close>

theorem due_cron_contract:
  assumes "g \<in> set (due_cron_goals now db)"
  shows "sorted (map g_next_run_at (due_cron_goals now db))
    \<and> (g_id g \<in> g_id ` set (due_cron_goals t (snd (update_cron_run env (g_id g) next db))) \<longleftrightarrow> next \<le> t)
    \<and> {r \<in> set (due_cron_goals t (snd (update_cron_run env (g_id g) next db))). g_id r \<noteq> g_id g}
        = {r \<in> set (due_cron_goals t db). g_id r \<noteq> g_id g}
    \<and> g_id g \<notin> g_id ` set (due_cron_goals t
        (snd (block_invalid_cron_schedule env (g_id g) due ety err tr db db)))"
proof (intro conjI)
  note g = assms [unfolded due_cron_member]
  show "sorted (map g_next_run_at (due_cron_goals now db))"
    by (simp add: due_cron_goals_def sorted_sql_asc)
  have "moved_to env next g \<in> set (gd_goals (snd (update_cron_run env (g_id g) next db)))"
    using g unfolding update_cron_rows by auto
  then have "next \<le> t \<Longrightarrow> moved_to env next g \<in> set (due_cron_goals t (snd (update_cron_run env (g_id g) next db)))"
    using g by (simp add: due_cron_member)
  then have "next \<le> t \<Longrightarrow> g_id g \<in> g_id ` set (due_cron_goals t (snd (update_cron_run env (g_id g) next db)))"
    by (rule image_eqI [rotated]) simp_all
  then show "g_id g \<in> g_id ` set (due_cron_goals t (snd (update_cron_run env (g_id g) next db))) \<longleftrightarrow> next \<le> t"
    using due_after_move by (metis imageE)
  show "{r \<in> set (due_cron_goals t (snd (update_cron_run env (g_id g) next db))). g_id r \<noteq> g_id g}
        = {r \<in> set (due_cron_goals t db). g_id r \<noteq> g_id g}"
    by (auto simp: due_cron_member update_cron_rows)
  have "get_goal (g_id g) db \<noteq> None"
    using g by (auto simp: get_goal_def row_of_None)
  from block_invalid_rows [OF this]
  show "g_id g \<notin> g_id ` set (due_cron_goals t
        (snd (block_invalid_cron_schedule env (g_id g) due ety err tr db db)))"
    unfolding image_iff Bex_def due_cron_member by metis
qed

text \<open>
  \<open>update_state\<close> reads a goal in one connection and writes it in another, without a version.
  When two workers both read before either writes, the second write undoes the first: what only
  the first recorded as evidence is gone, and a phase that only the first set (an ended goal) is
  the old one again. When the second reads after the first has written, both are kept.
\<close>

theorem concurrent_update_loses_first:
  assumes "get_goal gid db = Some g" "distinct (map fst (gu_evidence u1))"
    and "k \<in> fst ` set (gu_evidence u1)" "k \<notin> fst ` set (gu_evidence u2)"
    and "gu_phase u1 = ''ended''" "gu_phase u2 = []"
    and "db1 = snd (update_goal_state env1 gid u1 db db)"
  shows "\<exists>lost kept.
      get_goal gid (snd (update_goal_state env2 gid u2 db db1)) = Some lost
      \<and> get_goal gid (snd (update_goal_state env2 gid u2 db1 db1)) = Some kept
      \<and> jget (g_evidence lost) k = jget (g_evidence g) k \<and> g_phase lost = g_phase g
      \<and> jget (g_evidence kept) k = jget (gu_evidence u1) k \<and> g_phase kept = ''ended''"
proof -
  let ?g1 = "updated_goal env1 u1 g g"
  have first: "get_goal gid db1 = Some ?g1"
    using assms(1,7) update_goal_state_row [OF assms(1), of gid env1 u1 db] by simp
  have second: "get_goal gid (snd (update_goal_state env2 gid u2 db db1)) = Some (updated_goal env2 u2 g ?g1)"
    using first update_goal_state_row [OF assms(1), of gid env2 u2 db1] by simp
  have again: "get_goal gid (snd (update_goal_state env2 gid u2 db1 db1)) = Some (updated_goal env2 u2 ?g1 ?g1)"
    using first update_goal_state_row [OF first, of gid env2 u2 db1] by simp
  show ?thesis
    using second again assms(2-6)
    by (simp add: jget_dict_merge_notin jget_dict_merge_in or_else_def)
qed

section \<open>Witnesses\<close>

definition no_goals :: GoalDb where
  "no_goals = \<lparr>gd_goals = [], gd_events = []\<rparr>"

definition env_at :: "rat \<Rightarrow> Env" where
  "env_at now = \<lparr>env_clock = now, env_uuid = (\<lambda>i. ''e'' @ show_nat i)\<rparr>"

definition sample_child :: GoalDraft where
  "sample_child = \<lparr>gn_objective = ''check'', gn_workspace = '' /w '', gn_source = ''cli'', gn_peer_id = ''p'',
     gn_sender_id = ''s'', gn_session_id = [], gn_run_id = ''r1'', gn_trace_id = [], gn_evidence = [],
     gn_stop_condition = [], gn_timeout = 0, gn_max_retries = 0, gn_parent_goal_id = ''g0'',
     gn_task_status = ''pending'', gn_cron_schedule = ''0 * * * *'', gn_next_run_at = 5,
     gn_child_active_limit = 1\<rparr>"

definition sample_row :: Goal where
  "sample_row = new_goal ''g1'' 3 ''/w'' sample_child"

definition one_goal :: GoalDb where
  "one_goal = \<lparr>gd_goals = [sample_row], gd_events = []\<rparr>"

definition sample_ended :: Run where
  "sample_ended = \<lparr>run_id = ''r1'', run_title = ''t'', run_phase = ''ended'', run_governance = ''none'',
     run_acceptance = ''none'', run_resolution = ''blocked'', run_created_at = 0, run_updated_at = 0,
     run_kind = ''agent'', run_prompt = ''t'', run_source = ''cli'', run_peer_id = ''p'', run_sender_id = ''s'',
     run_provider = [], run_workspace = ''/w'', run_autonomy_level = [], run_trust_rule_id = [],
     run_why_now = [], run_plan_summary = [], run_result_summary = [], run_error = []\<rparr>"

theorem children_stay_within_limit_witness:
  "int (active_children ''g0'' (fold (goal_step 1)
     [Op_Create (env_at 1) ''g1'' sample_child, Op_Create (env_at 2) ''g2'' sample_child] no_goals)) \<le> 1"
  by (rule children_stay_within_limit) (simp_all add: no_goals_def active_children_def sql_count_def)

lemma second_child_refused:
  "create_goal (env_at 2) ''g2'' sample_child one_goal = Inl (too_many_children 1)"
  by code_simp

theorem create_goal_contract_witness:
  "(\<exists>g db'. create_goal (env_at 1) ''g1'' sample_child no_goals = Inr (g, db')
      \<and> get_goal ''g1'' db' = Some g \<and> active_children ''g0'' db' = 1)
   \<and> \<not> is_ok (create_goal (env_at 2) ''g2'' sample_child one_goal)"
proof -
  have "is_ok (create_goal (env_at 1) ''g1'' sample_child no_goals)" by code_simp
  then obtain g db' where r: "create_goal (env_at 1) ''g1'' sample_child no_goals = Inr (g, db')"
    by (auto simp: is_ok_iff)
  have "active_children ''g0'' no_goals = 0" "gn_parent_goal_id sample_child = ''g0''"
    by (simp_all add: no_goals_def active_children_def sql_count_def sample_child_def)
  with r create_goal_contract [of "env_at 1" "''g1''" sample_child no_goals]
  have "get_goal ''g1'' db' = Some g \<and> active_children ''g0'' db' = 1" by simp
  with r show ?thesis by (simp add: second_child_refused)
qed

theorem update_for_run_contract_witness:
  "\<exists>g' db'. update_for_run (env_at 9) sample_ended [] one_goal one_goal = (Some g', db')
     \<and> g_phase g' = ''ended'' \<and> g_blocked_reason g' = ''run_blocked'' \<and> g_completed_at g' = 9"
proof -
  have g: "get_by_run (run_id sample_ended) one_goal = Some sample_row" by code_simp
  obtain ans db' where r: "update_for_run (env_at 9) sample_ended [] one_goal one_goal = (ans, db')"
    by (cases "update_for_run (env_at 9) sample_ended [] one_goal one_goal") auto
  show ?thesis
    using update_for_run_contract [OF g r] r
    by (auto simp: sample_ended_def env_at_def)
qed

theorem due_cron_contract_witness:
  "g_id sample_row \<notin> g_id ` set (due_cron_goals 100
     (snd (block_invalid_cron_schedule (env_at 6) (g_id sample_row) 5 ''E'' ''bad'' [] one_goal one_goal)))
   \<and> g_id sample_row \<in> g_id ` set (due_cron_goals 12
     (snd (update_cron_run (env_at 6) (g_id sample_row) 10 one_goal)))"
proof -
  have due: "sample_row \<in> set (due_cron_goals 7 one_goal)"
    by (simp add: due_cron_member one_goal_def sample_row_def new_goal_def sample_child_def)
  show ?thesis
    using due_cron_contract [OF due, of 100 "env_at 6" 10 5 "''E''" "''bad''" "[]"]
      due_cron_contract [OF due, of 12 "env_at 6" 10 5 "''E''" "''bad''" "[]"]
    by simp
qed

definition first_worker :: GoalUpdates where
  "first_worker = \<lparr>gu_phase = ''ended'', gu_governance = [], gu_acceptance = ''accepted'',
     gu_resolution = ''success'', gu_task_status = ''done'', gu_blocked_reason = [],
     gu_evidence = [(''receipt'', JStr ''l1'')], gu_event_type = ''goal.state''\<rparr>"

definition second_worker :: GoalUpdates where
  "second_worker = \<lparr>gu_phase = [], gu_governance = [], gu_acceptance = [], gu_resolution = [],
     gu_task_status = [], gu_blocked_reason = [], gu_evidence = [(''note'', JStr ''x'')],
     gu_event_type = ''goal.state''\<rparr>"

theorem concurrent_update_loses_first_witness:
  "\<exists>lost. get_goal ''g1'' (snd (update_goal_state (env_at 8) ''g1'' second_worker one_goal
      (snd (update_goal_state (env_at 7) ''g1'' first_worker one_goal one_goal)))) = Some lost
    \<and> g_phase lost = ''running'' \<and> jget (g_evidence lost) ''receipt'' = JNull"
proof -
  have g: "get_goal ''g1'' one_goal = Some sample_row"
    by (simp add: get_goal_def one_goal_def row_of_Cons sample_row_def)
  show ?thesis
    using concurrent_update_loses_first [OF g, of first_worker "''receipt''" second_worker _ "env_at 7" "env_at 8"]
    by (auto simp: first_worker_def second_worker_def sample_row_def sample_child_def)
qed

end
