(* ===== verification/Approval_Service.thy ===== *)
theory Approval_Service
  imports Approval_Store Run_Store Goal_Store Loop_Run_Safety
begin

text \<open>
  \<open>navi/control.py\<close>: \<open>ApprovalService.resolve\<close>, which applies a user's decision to an approval,
  its run, and on a rejection the goal and the loop run behind it.

  The method looks the approval up in one connection and decides in another. What other workers do
  to the stores in between is the argument \<open>meanwhile\<close>; the identity is a call without
  interference. An exception leaves what the earlier transactions have written, so the answer is a
  pair of a result and the stores.
\<close>

section \<open>State\<close>

record Surface =
  sf_source :: string
  sf_peer_id :: string
  sf_sender_id :: string
  sf_session_id :: string
  sf_workspace :: string
  sf_input_text :: string

record Home =
  hm_runs :: RunDb
  hm_goals :: GoalDb
  hm_loops :: LoopDb

record ApprovalResolution =
  ar_ok :: bool
  ar_facts :: dict

section \<open>Facts\<close>

definition approval_not_resolved ::
  "string \<Rightarrow> string \<Rightarrow> bool \<Rightarrow> nat \<Rightarrow> string \<Rightarrow> string \<Rightarrow> string \<Rightarrow> ApprovalResolution" where
  "approval_not_resolved decision reason code_present active_run_count selection rid approval_id =
     \<lparr>ar_ok = False, ar_facts =
       [(''decision'', JStr decision), (''selection'', JStr selection),
        (''code_present'', JBool code_present), (''active_run_count'', JInt (int active_run_count)),
        (''run_id'', JStr rid), (''approval_id'', JStr approval_id), (''reason'', JStr reason),
        (''approval_resolution'', JDict
          [(''reason'', JStr reason), (''decision'', JStr decision), (''run_id'', JStr rid),
           (''approval_id'', JStr approval_id)])]\<rparr>"

definition resolution_facts ::
  "Approval \<Rightarrow> string \<Rightarrow> string \<Rightarrow> bool \<Rightarrow> nat \<Rightarrow> string \<Rightarrow> string \<times> string \<times> string \<times> string \<Rightarrow> string \<Rightarrow> dict" where
  "resolution_facts resolved decision selection code_present active_run_count status =
     (\<lambda>(phase, governance, acceptance, resolution) state_transition.
       [(''decision'', JStr decision), (''selection'', JStr selection),
        (''code_present'', JBool code_present), (''active_run_count'', JInt (int active_run_count)),
        (''run_id'', JStr (ap_run_id resolved)), (''approval_id'', JStr (ap_id resolved)),
        (''action'', JStr (ap_action resolved)), (''status'', JStr status),
        (''state_transition'', JStr state_transition),
        (''decision_applied'', JBool (state_transition \<in> {''resolved'', ''already_'' @ status})),
        (''approval_control_completion_evidence'',
           JBool (state_transition \<in> {''resolved'', ''already_'' @ status})),
        (''run_phase'', JStr phase), (''run_governance'', JStr governance),
        (''run_acceptance'', JStr acceptance), (''run_resolution'', JStr resolution),
        (''approval_resolution'', JDict
          [(''reason'', JStr status), (''decision'', JStr decision),
           (''approval_id'', JStr (ap_id resolved)), (''run_id'', JStr (ap_run_id resolved)),
           (''action'', JStr (ap_action resolved)), (''status'', JStr status),
           (''requested_tool'', JStr (ap_requested_tool resolved)),
           (''requested_permission'', JStr (ap_requested_permission resolved))])])"

section \<open>The lookup\<close>

definition find_approval ::
  "time \<Rightarrow> string \<Rightarrow> string \<Rightarrow> Surface \<Rightarrow> approvals \<Rightarrow> (Approval option \<times> string) \<times> approvals" where
  "find_approval now code rid ctx t =
     (if code \<noteq> [] then
        (case pending_approval_by_code now code (sf_sender_id ctx) (sf_peer_id ctx) (sf_source ctx) t of
           (Some a, t') \<Rightarrow> ((Some a, []), t')
         | (None, t') \<Rightarrow>
             (case approval_by_code now code (sf_sender_id ctx) (sf_peer_id ctx) (sf_source ctx) t' of
                (Some a, t'') \<Rightarrow> ((Some a, []), t'')
              | (None, t'') \<Rightarrow> ((None, ''approval_code_not_found''), t'')))
      else if rid \<noteq> [] then
        (case pending_approval_for_run now rid (sf_sender_id ctx) (sf_peer_id ctx) (sf_source ctx)
                [] [] [] [] t of
           (Some a, t') \<Rightarrow> ((Some a, []), t')
         | (None, t') \<Rightarrow>
             (case approval_for_run now rid (sf_sender_id ctx) (sf_peer_id ctx) (sf_source ctx) t' of
                (Some a, t'') \<Rightarrow> ((Some a, []), t'')
              | (None, t'') \<Rightarrow> ((None, ''run_has_no_approval''), t'')))
      else ((None, ''approval_identifier_missing''), t))"

section \<open>The decision\<close>

text \<open>
  A row of \<open>state_matrix\<close>: phase, governance, acceptance and resolution of the run, its summary,
  its error, its trust rule, and the status reported for the approval.
\<close>

definition state_matrix ::
  "bool \<Rightarrow> bool \<Rightarrow> string \<Rightarrow> (string \<times> string \<times> string \<times> string) \<times> string \<times> string \<times> string \<times> string" where
  "state_matrix approve elevation approval_id =
     (if approve \<and> elevation then
        ((phase_str Phase_ENDED, governance_str Governance_APPROVED,
          acceptance_str Acceptance_ACCEPTED, resolution_str Resolution_SUCCESS),
         ''session_elevation_approved'', [], ''approval:'' @ approval_id, APPROVAL_STATUS_APPROVED)
      else if approve then
        ((phase_str Phase_PENDING, governance_str Governance_APPROVED,
          acceptance_str Acceptance_NONE, resolution_str Resolution_NONE),
         ''approval_continuation_ready:'' @ approval_id, [], ''approval:'' @ approval_id,
         APPROVAL_STATUS_APPROVED)
      else
        ((phase_str Phase_ENDED, governance_str Governance_REJECTED,
          acceptance_str Acceptance_REJECTED, resolution_str Resolution_CANCELED),
         ''approval_rejected'', [], [], APPROVAL_STATUS_REJECTED))"

definition related_goal_loop :: "string \<Rightarrow> Home \<Rightarrow> (Goal \<times> LoopRunState) option" where
  "related_goal_loop rid home =
     (if rid = [] then None
      else case get_by_run rid (hm_goals home) of
        None \<Rightarrow> None
      | Some goal \<Rightarrow> (case list_by_goal (g_id goal) 1 (hm_loops home) of
            [] \<Rightarrow> None
          | loop_run # _ \<Rightarrow> Some (goal, loop_run)))"

definition rejected_goal :: "string \<Rightarrow> GoalUpdates" where
  "rejected_goal approval_id =
     \<lparr>gu_phase = phase_str Phase_ENDED, gu_governance = governance_str Governance_REJECTED,
      gu_acceptance = acceptance_str Acceptance_REJECTED,
      gu_resolution = resolution_str Resolution_CANCELED, gu_task_status = ''blocked'',
      gu_blocked_reason = ''approval_rejected'',
      gu_evidence = [(''approval_id'', JStr approval_id), (''decision'', JStr ''reject'')],
      gu_event_type = ''goal.approval_rejected''\<rparr>"

definition reject_related_goal_loop :: "Env \<Rightarrow> Approval \<Rightarrow> Home \<Rightarrow> (dict \<times> Home) result" where
  "reject_related_goal_loop env approval home =
     (case related_goal_loop (ap_run_id approval) home of
        None \<Rightarrow> Inr ([(''continuation_status'', JStr ''rejected''), (''completion_evidence'', JBool False)], home)
      | Some (goal, loop_run) \<Rightarrow>
          and_then (reject_external_gate env (lr_run_id loop_run)
              [(''approval_id'', JStr (ap_id approval)), (''decision'', JStr APPROVAL_STATUS_REJECTED)]
              (hm_loops home) (hm_loops home)) (\<lambda>(rejected_loop, loops).
          let (updated, goals) = update_goal_state env (g_id goal) (rejected_goal (ap_id approval))
                (hm_goals home) (hm_goals home);
              goal_id = (case updated of Some g \<Rightarrow> g_id g | None \<Rightarrow> g_id goal)
          in Inr ([(''continuation_status'', JStr ''rejected''), (''completion_evidence'', JBool False),
                (''goal_id'', JStr goal_id), (''loop_run_id'', JStr (lr_run_id rejected_loop)),
                (''loop_terminal_state'', JStr (lr_terminal_state rejected_loop))],
              home\<lparr>hm_goals := goals, hm_loops := loops\<rparr>)))"

definition resolve_existing_decision ::
  "Approval \<Rightarrow> string \<Rightarrow> string \<Rightarrow> bool \<Rightarrow> nat \<Rightarrow> RunDb \<Rightarrow> ApprovalResolution" where
  "resolve_existing_decision approval decision selection code_present active_run_count runs =
     (let expected_status = (if decision = APPROVAL_DECISION_APPROVE then APPROVAL_STATUS_APPROVED
             else APPROVAL_STATUS_REJECTED)
      in if ap_status approval \<noteq> expected_status
         then approval_not_resolved decision
                (if ap_status approval = APPROVAL_STATUS_EXPIRED then ''approval_expired''
                 else ''approval_already_'' @ ap_status approval)
                code_present active_run_count selection (ap_run_id approval) (ap_id approval)
         else \<lparr>ar_ok = True, ar_facts = resolution_facts approval decision selection code_present
                active_run_count (ap_status approval)
                (case get_run (ap_run_id approval) runs of
                   None \<Rightarrow> (phase_str Phase_ENDED, governance_str Governance_NONE,
                            acceptance_str Acceptance_NONE, resolution_str Resolution_NONE)
                 | Some run \<Rightarrow> (run_phase run, run_governance run, run_acceptance run, run_resolution run))
                (''already_'' @ ap_status approval)\<rparr>)"

text \<open>The transaction that decides the approval and moves its run.\<close>

definition commit_decision ::
  "time \<Rightarrow> string \<Rightarrow> string \<Rightarrow> string \<Rightarrow> RunDb
     \<Rightarrow> (Approval \<times> (string \<times> string \<times> string \<times> string) \<times> string) option \<times> RunDb" where
  "commit_decision now approval_id decision sender db =
     (case resolve_approval_in_transaction now approval_id decision sender (db_approvals db) of
        (None, t) \<Rightarrow> (None, db\<lparr>db_approvals := t\<rparr>)
      | (Some resolved, t) \<Rightarrow>
          let ((phase, governance, acceptance, resolution), summary, error, trust_rule_id, status) =
                state_matrix (decision = APPROVAL_DECISION_APPROVE)
                  (ap_action resolved = APPROVAL_ACTION_SESSION_ELEVATION) (ap_id resolved);
              runs = snd (update_run_in_transaction now (ap_run_id resolved)
                (no_updates\<lparr>up_phase := Some phase, up_governance := Some governance,
                   up_acceptance := Some acceptance, up_resolution := Some resolution,
                   up_result_summary := Some summary, up_error := Some error,
                   up_trust_rule_id := Some trust_rule_id\<rparr>) (db_runs db))
          in (Some (resolved, (phase, governance, acceptance, resolution), status),
              db\<lparr>db_approvals := t, db_runs := runs\<rparr>))"

definition resolve ::
  "Env \<Rightarrow> string \<Rightarrow> string \<Rightarrow> Surface \<Rightarrow> string \<Rightarrow> string \<Rightarrow> (Home \<Rightarrow> Home) \<Rightarrow> Home
     \<Rightarrow> ApprovalResolution result \<times> Home" where
  "resolve env decision selection ctx code rid meanwhile home =
     (let active = count_by_phases_scoped
            [phase_str Phase_PENDING, phase_str Phase_RUNNING, phase_str Phase_PAUSED]
            (sf_source ctx) (sf_peer_id ctx) (sf_sender_id ctx) (sf_workspace ctx) (hm_runs home);
          verdict = py_lower (py_strip decision)
      in if verdict \<notin> set APPROVAL_DECISIONS
         then (Inr (approval_not_resolved verdict ''invalid_decision'' (code \<noteq> []) active selection [] []), home)
         else
           (case find_approval (env_clock env) code rid ctx (db_approvals (hm_runs home)) of
              ((None, reason), t) \<Rightarrow>
                (Inr (approval_not_resolved verdict reason (code \<noteq> []) active selection rid []),
                 home\<lparr>hm_runs := hm_runs home\<lparr>db_approvals := t\<rparr>\<rparr>)
            | ((Some approval, _), t) \<Rightarrow>
                let home1 = meanwhile (home\<lparr>hm_runs := hm_runs home\<lparr>db_approvals := t\<rparr>\<rparr>)
                in if ap_status approval \<noteq> APPROVAL_STATUS_PENDING
                   then (Inr (resolve_existing_decision approval verdict selection (code \<noteq> []) active
                           (hm_runs home1)), home1)
                   else
                     (case commit_decision (env_clock env) (ap_id approval) verdict (sf_sender_id ctx)
                             (hm_runs home1) of
                        (None, runs) \<Rightarrow>
                          (Inr (approval_not_resolved verdict ''approval_not_pending'' (code \<noteq> []) active
                             selection (ap_run_id approval) (ap_id approval)), home1\<lparr>hm_runs := runs\<rparr>)
                      | (Some (resolved, run_state, status), runs) \<Rightarrow>
                          let home2 = home1\<lparr>hm_runs := runs\<rparr>;
                              facts = resolution_facts resolved verdict selection (code \<noteq> []) active status
                                run_state ''resolved''
                          in if status = APPROVAL_STATUS_REJECTED
                             then (case reject_related_goal_loop env resolved home2 of
                                     Inl e \<Rightarrow> (Inl e, home2)
                                   | Inr (extra, home3) \<Rightarrow>
                                       (Inr \<lparr>ar_ok = True, ar_facts = dict_merge facts extra\<rparr>, home3))
                             else (Inr \<lparr>ar_ok = True, ar_facts = facts\<rparr>, home2))))"

section \<open>Lemmas\<close>

text \<open>The lookup writes at most the expiry of overdue approvals, and answers with a row it leaves.\<close>

lemma expired_distinct:
  "keys_distinct ap_id t \<Longrightarrow> keys_distinct ap_id (snd (expire_pending_approvals now t))"
  using keys_distinct_approval_step [of t "Expire now"] by simp

lemma find_approval_row:
  assumes "find_approval now code rid ctx t = ((Some a, reason), t')"
    and "keys_distinct ap_id t"
  shows "keys_distinct ap_id t'" "row_of ap_id (ap_id a) t' = Some a"
proof -
  have sel: "select_approval_row p s = Some a \<Longrightarrow> a \<in> set s" for p s
    using select_approval_Some by blast
  have "keys_distinct ap_id t' \<and> a \<in> set t'"
    using assms expired_distinct
    by (auto simp: find_approval_def pending_approval_by_code_def approval_by_code_def
        pending_approval_for_run_def approval_for_run_def Let_def split: if_splits option.splits prod.splits
        dest!: sel)
  then show "keys_distinct ap_id t'" "row_of ap_id (ap_id a) t' = Some a"
    by (auto intro: row_of_member)
qed

text \<open>The row of the approval after the deciding transaction, and the state its run gets.\<close>

definition decided_row :: "time \<Rightarrow> string \<Rightarrow> string \<Rightarrow> Approval \<Rightarrow> Approval" where
  "decided_row now decision sender r = (if ap_status r = ''pending''
     then r\<lparr>ap_status := (if decision = ''approve'' then ''approved'' else ''rejected''),
            ap_decision := decision, ap_resolved_by := sender, ap_updated_at := now\<rparr>
     else r)"

lemma decided_row_fields [simp]:
  "ap_id (decided_row now d who r) = ap_id r" "ap_run_id (decided_row now d who r) = ap_run_id r"
  "ap_action (decided_row now d who r) = ap_action r"
  by (simp_all add: decided_row_def)

definition decided_run :: "time \<Rightarrow> bool \<Rightarrow> Approval \<Rightarrow> Run \<Rightarrow> Run" where
  "decided_run now approve r run =
     (case state_matrix approve (ap_action r = ''session_elevation'') (ap_id r) of
        ((phase, governance, acceptance, resolution), summary, error, trust_rule_id, status) \<Rightarrow>
          run\<lparr>run_phase := phase, run_governance := governance, run_acceptance := acceptance,
              run_resolution := resolution, run_result_summary := summary, run_error := error,
              run_trust_rule_id := trust_rule_id, run_updated_at := now\<rparr>)"

lemma approval_row_id: "row_of ap_id i t = Some r \<Longrightarrow> ap_id r = i"
  by (auto dest: row_of_Some)

lemma commit_decision_contract:
  assumes "keys_distinct ap_id (db_approvals db)" "row_of ap_id i (db_approvals db) = Some r"
    and "d \<in> {''approve'', ''reject''}"
  obtains st db' where
    "commit_decision now i d who db =
       (Some (decided_row now d who r, st, if d = ''approve'' then ''approved'' else ''rejected''), db')"
    "\<And>j. row_of ap_id j (db_approvals db') =
       (if j = i then Some (decided_row now d who r) else row_of ap_id j (db_approvals db))"
    "\<And>k. row_of run_id k (db_runs db') = (if k = ap_run_id r
       then map_option (decided_run now (d = ''approve'') r) (row_of run_id k (db_runs db))
       else row_of run_id k (db_runs db))"
proof -
  obtain answer t' where res: "resolve_approval now i d who (db_approvals db) = (answer, t')"
    by (cases "resolve_approval now i d who (db_approvals db)") auto
  have c: "answer = Some (decided_row now d who r)" "row_of ap_id i t' = Some (decided_row now d who r)"
    "\<And>j. j \<noteq> i \<Longrightarrow> row_of ap_id j t' = row_of ap_id j (db_approvals db)"
    using resolve_contract [OF assms(1) res] assms(2,3) by (auto simp: decided_row_def)
  obtain phase governance acceptance resolution summary error rule status where
    m: "state_matrix (d = ''approve'') (ap_action r = ''session_elevation'') (ap_id r) =
        ((phase, governance, acceptance, resolution), summary, error, rule, status)"
    by (metis prod.exhaust)
  have status: "status = (if d = ''approve'' then ''approved'' else ''rejected'')"
    using m by (auto simp: state_matrix_def approval_text split: if_splits)
  let ?u = "no_updates\<lparr>up_phase := Some phase, up_governance := Some governance,
    up_acceptance := Some acceptance, up_resolution := Some resolution, up_result_summary := Some summary,
    up_error := Some error, up_trust_rule_id := Some rule\<rparr>"
  let ?runs = "snd (update_run_in_transaction now (ap_run_id r) ?u (db_runs db))"
  have run: "merge_run_updates now ?u run run = decided_run now (d = ''approve'') r run" for run
    by (simp add: merge_run_updates_def decided_run_def m no_updates_def or_keep_def)
  show thesis
  proof (rule that)
    show "commit_decision now i d who db = (Some (decided_row now d who r,
        (phase, governance, acceptance, resolution), if d = ''approve'' then ''approved'' else ''rejected''),
        db\<lparr>db_approvals := t', db_runs := ?runs\<rparr>)"
      using res c(1) m status
      by (simp add: commit_decision_def resolve_in_transaction_eq approval_text)
    show "row_of ap_id j (db_approvals (db\<lparr>db_approvals := t', db_runs := ?runs\<rparr>)) =
       (if j = i then Some (decided_row now d who r) else row_of ap_id j (db_approvals db))" for j
      using c by simp
    show "row_of run_id k (db_runs (db\<lparr>db_approvals := t', db_runs := ?runs\<rparr>)) = (if k = ap_run_id r
       then map_option (decided_run now (d = ''approve'') r) (row_of run_id k (db_runs db))
       else row_of run_id k (db_runs db))" for k
      by (simp add: update_run_rows run)
  qed
qed

text \<open>The stores as the deciding transaction meets them: the lookup's, then what others did.\<close>

definition at_commit :: "approvals \<Rightarrow> (Home \<Rightarrow> Home) \<Rightarrow> Home \<Rightarrow> Home" where
  "at_commit t meanwhile home = meanwhile (home\<lparr>hm_runs := hm_runs home\<lparr>db_approvals := t\<rparr>\<rparr>)"

lemma verdict_valid: "d \<in> {''approve'', ''reject''} \<longleftrightarrow> d \<in> set APPROVAL_DECISIONS"
  by (auto simp: approval_text APPROVAL_DECISIONS_def)

lemma resolve_decides:
  assumes "find_approval (env_clock env) code rid ctx (db_approvals (hm_runs home)) = ((Some a, reason), t)"
    and "ap_status a = ''pending''" and "d \<in> {''approve'', ''reject''}" and "py_lower (py_strip decision) = d"
    and "commit_decision (env_clock env) (ap_id a) d (sf_sender_id ctx)
           (hm_runs (at_commit t meanwhile home)) = (Some (resolved, st, status), runs)"
  obtains active where
    "resolve env decision selection ctx code rid meanwhile home =
      (let home2 = (at_commit t meanwhile home)\<lparr>hm_runs := runs\<rparr>;
           facts = resolution_facts resolved d selection (code \<noteq> []) active status st ''resolved''
       in if status = ''rejected''
          then (case reject_related_goal_loop env resolved home2 of
                  Inl e \<Rightarrow> (Inl e, home2)
                | Inr (extra, home3) \<Rightarrow> (Inr \<lparr>ar_ok = True, ar_facts = dict_merge facts extra\<rparr>, home3))
          else (Inr \<lparr>ar_ok = True, ar_facts = facts\<rparr>, home2))"
proof (rule that)
  show "resolve env decision selection ctx code rid meanwhile home =
      (let home2 = (at_commit t meanwhile home)\<lparr>hm_runs := runs\<rparr>;
           facts = resolution_facts resolved d selection (code \<noteq> []) (count_by_phases_scoped
            [phase_str Phase_PENDING, phase_str Phase_RUNNING, phase_str Phase_PAUSED]
            (sf_source ctx) (sf_peer_id ctx) (sf_sender_id ctx) (sf_workspace ctx) (hm_runs home)) status st ''resolved''
       in if status = ''rejected''
          then (case reject_related_goal_loop env resolved home2 of
                  Inl e \<Rightarrow> (Inl e, home2)
                | Inr (extra, home3) \<Rightarrow> (Inr \<lparr>ar_ok = True, ar_facts = dict_merge facts extra\<rparr>, home3))
          else (Inr \<lparr>ar_ok = True, ar_facts = facts\<rparr>, home2))"
    using assms(1,2,5) assms(3) [unfolded verdict_valid]
    unfolding resolve_def Let_def assms(4) at_commit_def
    by (simp add: APPROVAL_STATUS_PENDING_def APPROVAL_STATUS_REJECTED_def)
qed

lemma status_fact: "jget (resolution_facts a d sel c n status st tr) ''status'' = JStr status"
  by (cases st) (simp add: resolution_facts_def jget_def)

text \<open>What an approving call does, whoever has touched the approval since the lookup.\<close>

lemma approve_result:
  assumes "find_approval (env_clock env) code rid ctx (db_approvals (hm_runs home)) = ((Some a, reason), t)"
    and "ap_status a = ''pending''" and "py_lower (py_strip decision) = ''approve''"
    and "found = at_commit t meanwhile home" and "keys_distinct ap_id (db_approvals (hm_runs found))"
    and "row_of ap_id (ap_id a) (db_approvals (hm_runs found)) = Some r"
  obtains facts db' where
    "resolve env decision selection ctx code rid meanwhile home =
       (Inr \<lparr>ar_ok = True, ar_facts = facts\<rparr>, found\<lparr>hm_runs := db'\<rparr>)"
    "jget facts ''status'' = JStr ''approved''"
    "\<And>j. row_of ap_id j (db_approvals db') = (if j = ap_id a
       then Some (decided_row (env_clock env) ''approve'' (sf_sender_id ctx) r)
       else row_of ap_id j (db_approvals (hm_runs found)))"
    "\<And>k. row_of run_id k (db_runs db') = (if k = ap_run_id r
       then map_option (decided_run (env_clock env) True r) (row_of run_id k (db_runs (hm_runs found)))
       else row_of run_id k (db_runs (hm_runs found)))"
proof -
  obtain st db' where
    c: "commit_decision (env_clock env) (ap_id a) ''approve'' (sf_sender_id ctx) (hm_runs found) =
       (Some (decided_row (env_clock env) ''approve'' (sf_sender_id ctx) r, st, ''approved''), db')"
    and rows: "\<And>j. row_of ap_id j (db_approvals db') = (if j = ap_id a
       then Some (decided_row (env_clock env) ''approve'' (sf_sender_id ctx) r)
       else row_of ap_id j (db_approvals (hm_runs found)))"
    "\<And>k. row_of run_id k (db_runs db') = (if k = ap_run_id r
       then map_option (decided_run (env_clock env) True r) (row_of run_id k (db_runs (hm_runs found)))
       else row_of run_id k (db_runs (hm_runs found)))"
    by (rule commit_decision_contract [OF assms(5,6), of "''approve''" "env_clock env" "sf_sender_id ctx"]) auto
  obtain active where "resolve env decision selection ctx code rid meanwhile home =
      (Inr \<lparr>ar_ok = True, ar_facts = resolution_facts (decided_row (env_clock env) ''approve'' (sf_sender_id ctx) r)
         ''approve'' selection (code \<noteq> []) active ''approved'' st ''resolved''\<rparr>, found\<lparr>hm_runs := db'\<rparr>)"
    by (rule resolve_decides [OF assms(1,2) _ assms(3) c [unfolded assms(4)], of selection])
      (simp_all add: assms(4))
  from that [OF this status_fact rows] show thesis .
qed

lemma approved_run_state:
  "run_phase (decided_run now True r run) = (if ap_action r = ''session_elevation'' then ''ended'' else ''pending'')"
  "run_governance (decided_run now True r run) = ''approved''"
  "run_trust_rule_id (decided_run now True r run) = ''approval:'' @ ap_id r"
  by (simp_all add: decided_run_def state_matrix_def)

section \<open>Properties\<close>

text \<open>
  Approving a pending approval, when no other worker decides it first: the answer is ok with
  status \<open>approved\<close>, the approval records the sender's decision, and its run waits as \<open>pending\<close> for
  its continuation (or is ended in success, for a session elevation), governed \<open>approved\<close> under
  the rule of this approval. Other approvals, other runs, goals and loop runs are as the deciding
  transaction found them.
\<close>

theorem approve_contract:
  assumes "find_approval (env_clock env) code rid ctx (db_approvals (hm_runs home)) = ((Some a, reason), t)"
    and "ap_status a = ''pending''" and "py_lower (py_strip decision) = ''approve''"
    and "found = at_commit t meanwhile home" and "keys_distinct ap_id (db_approvals (hm_runs found))"
    and "row_of ap_id (ap_id a) (db_approvals (hm_runs found)) = Some r" and "ap_status r = ''pending''"
    and "row_of run_id (ap_run_id r) (db_runs (hm_runs found)) = Some run"
  shows "\<exists>facts home' run'. resolve env decision selection ctx code rid meanwhile home
        = (Inr \<lparr>ar_ok = True, ar_facts = facts\<rparr>, home')
    \<and> jget facts ''status'' = JStr ''approved''
    \<and> row_of ap_id (ap_id a) (db_approvals (hm_runs home')) = Some (r\<lparr>ap_status := ''approved'',
        ap_decision := ''approve'', ap_resolved_by := sf_sender_id ctx, ap_updated_at := env_clock env\<rparr>)
    \<and> row_of run_id (ap_run_id r) (db_runs (hm_runs home')) = Some run'
    \<and> run_phase run' = (if ap_action r = ''session_elevation'' then ''ended'' else ''pending'')
    \<and> run_governance run' = ''approved'' \<and> run_trust_rule_id run' = ''approval:'' @ ap_id a
    \<and> (\<forall>j. j \<noteq> ap_id a \<longrightarrow> row_of ap_id j (db_approvals (hm_runs home'))
          = row_of ap_id j (db_approvals (hm_runs found)))
    \<and> (\<forall>k. k \<noteq> ap_run_id r \<longrightarrow> row_of run_id k (db_runs (hm_runs home'))
          = row_of run_id k (db_runs (hm_runs found)))
    \<and> hm_goals home' = hm_goals found \<and> hm_loops home' = hm_loops found"
proof -
  obtain facts db' where
    res: "resolve env decision selection ctx code rid meanwhile home =
       (Inr \<lparr>ar_ok = True, ar_facts = facts\<rparr>, found\<lparr>hm_runs := db'\<rparr>)"
      "jget facts ''status'' = JStr ''approved''"
    and rows: "\<And>j. row_of ap_id j (db_approvals db') = (if j = ap_id a
       then Some (decided_row (env_clock env) ''approve'' (sf_sender_id ctx) r)
       else row_of ap_id j (db_approvals (hm_runs found)))"
    "\<And>k. row_of run_id k (db_runs db') = (if k = ap_run_id r
       then map_option (decided_run (env_clock env) True r) (row_of run_id k (db_runs (hm_runs found)))
       else row_of run_id k (db_runs (hm_runs found)))"
    by (rule approve_result [OF assms(1-6), of selection]) (rule that)
  have id: "ap_id r = ap_id a" using assms(6) by (rule approval_row_id)
  show ?thesis
    by (rule exI [of _ facts], rule exI [of _ "found\<lparr>hm_runs := db'\<rparr>"],
        rule exI [of _ "decided_run (env_clock env) True r run"])
      (use res rows id assms(7-) in \<open>simp add: decided_row_def approved_run_state\<close>)
qed

text \<open>
  C28. The race of two decisions: when another worker decides the approval after the lookup of an
  approving call and before its transaction, the transaction leaves the approval as that worker
  decided it, a rejection included, but still moves the run to \<open>pending\<close> and \<open>approved\<close> and answers
  ok with status \<open>approved\<close>. The reason \<open>approval_not_pending\<close> is for a row that is gone.
\<close>

theorem approve_overrides_concurrent_decision:
  assumes "find_approval (env_clock env) code rid ctx (db_approvals (hm_runs home)) = ((Some a, reason), t)"
    and "ap_status a = ''pending''" and "py_lower (py_strip decision) = ''approve''"
    and "found = at_commit t meanwhile home" and "keys_distinct ap_id (db_approvals (hm_runs found))"
    and "row_of ap_id (ap_id a) (db_approvals (hm_runs found)) = Some r" and "ap_status r \<noteq> ''pending''"
    and "row_of run_id (ap_run_id r) (db_runs (hm_runs found)) = Some run"
    and "ap_action r \<noteq> ''session_elevation''"
  shows "\<exists>facts home' run'. resolve env decision selection ctx code rid meanwhile home
        = (Inr \<lparr>ar_ok = True, ar_facts = facts\<rparr>, home')
    \<and> jget facts ''status'' = JStr ''approved''
    \<and> row_of ap_id (ap_id a) (db_approvals (hm_runs home')) = Some r
    \<and> row_of run_id (ap_run_id r) (db_runs (hm_runs home')) = Some run'
    \<and> run_phase run' = ''pending'' \<and> run_governance run' = ''approved''"
proof -
  obtain facts db' where
    res: "resolve env decision selection ctx code rid meanwhile home =
       (Inr \<lparr>ar_ok = True, ar_facts = facts\<rparr>, found\<lparr>hm_runs := db'\<rparr>)"
      "jget facts ''status'' = JStr ''approved''"
    and rows: "\<And>j. row_of ap_id j (db_approvals db') = (if j = ap_id a
       then Some (decided_row (env_clock env) ''approve'' (sf_sender_id ctx) r)
       else row_of ap_id j (db_approvals (hm_runs found)))"
    "\<And>k. row_of run_id k (db_runs db') = (if k = ap_run_id r
       then map_option (decided_run (env_clock env) True r) (row_of run_id k (db_runs (hm_runs found)))
       else row_of run_id k (db_runs (hm_runs found)))"
    by (rule approve_result [OF assms(1-6), of selection]) (rule that)
  show ?thesis
    by (rule exI [of _ facts], rule exI [of _ "found\<lparr>hm_runs := db'\<rparr>"],
        rule exI [of _ "decided_run (env_clock env) True r run"])
      (use res rows assms(7-) in \<open>simp add: decided_row_def approved_run_state\<close>)
qed

text \<open>A stop of a loop run from the state it is in, without interference.\<close>

lemma transition_to_now:
  assumes "keys_distinct lr_run_id (ld_runs db)" "get_loop_run rid db = Some cur"
  obtains stopped db' where
    "transition_to env rid cur target ev ty (\<lambda>_. True) now db = Inr (stopped, db')"
    "get_loop_run rid db' = Some stopped" "lr_terminal_state stopped = ts_str target"
    "lr_run_id stopped = rid"
proof -
  let ?stop = "\<lambda>r. r\<lparr>lr_terminal_state := ts_str target, lr_evidence := dict_merge (lr_evidence cur) ev,
    lr_updated_at := now, lr_version := lr_version cur + 1, lr_lease_owner := [], lr_lease_expires_at := 0\<rparr>"
  let ?p = "\<lambda>r. lr_run_id r = rid \<and> lr_version r = lr_version cur"
  have row: "row_of lr_run_id rid (ld_runs db) = Some cur" using assms(2) by (simp add: get_loop_run_def)
  have n: "sql_count ?p (ld_runs db) = 1"
    using sql_count_by_key [OF assms(1), of rid "\<lambda>r. lr_version r = lr_version cur"] row by simp
  have id: "lr_run_id cur = rid" using row by (auto dest: row_of_Some)
  let ?db = "insert_event env (?stop cur) ty [] ev (db\<lparr>ld_runs := sql_update ?p ?stop (ld_runs db)\<rparr>)"
  show thesis
  proof (rule that)
    show "transition_to env rid cur target ev ty (\<lambda>_. True) now db = Inr (?stop cur, ?db)"
      using n by (simp add: transition_to_def commit_state_def Let_def)
    show "get_loop_run rid ?db = Some (?stop cur)"
      using row id by (simp add: get_loop_run_def row_of_update)
  qed (use id in simp_all)
qed

lemma related_goal_loop_runs [simp]:
  "related_goal_loop rid (home\<lparr>hm_runs := runs\<rparr>) = related_goal_loop rid home"
  by (cases "get_by_run rid (hm_goals home)") (simp_all add: related_goal_loop_def)

lemma related_goal_loop_Some:
  assumes "related_goal_loop rid home = Some (g, s)" "keys_distinct lr_run_id (ld_runs (hm_loops home))"
  obtains seen where "get_goal (g_id g) (hm_goals home) = Some seen"
    "get_loop_run (lr_run_id s) (hm_loops home) = Some s"
proof -
  have g: "get_by_run rid (hm_goals home) = Some g"
    and s: "\<exists>rest. list_by_goal (g_id g) 1 (hm_loops home) = s # rest"
    using assms(1) by (auto simp: related_goal_loop_def split: if_splits option.splits list.splits)
  obtain seen where seen: "get_goal (g_id g) (hm_goals home) = Some seen"
    using get_by_run_Some(1) [OF g] unfolding get_goal_def
    by (cases "row_of g_id (g_id g) (gd_goals (hm_goals home))") (auto simp: row_of_None)
  obtain rest where "list_by_goal (g_id g) 1 (hm_loops home) = s # rest" using s by blast
  then have "s \<in> set (list_by_goal (g_id g) 1 (hm_loops home))" by (simp only: list.set_intros)
  then have "s \<in> set (ld_runs (hm_loops home))"
    using set_sql_limit [of 1] by (fastforce simp: list_by_goal_def)
  then have "get_loop_run (lr_run_id s) (hm_loops home) = Some s"
    using assms(2) by (simp add: get_loop_run_def row_of_member)
  with seen show thesis by (rule that)
qed

lemma reject_goal_loop_waiting:
  assumes "related_goal_loop (ap_run_id a) home = Some (g, s)"
    and "keys_distinct lr_run_id (ld_runs (hm_loops home))"
    and "at_external_wait s \<or> lr_terminal_state s = ''cancelled''"
  shows "\<exists>extra home' s' g'. reject_related_goal_loop env a home = Inr (extra, home')
    \<and> hm_runs home' = hm_runs home \<and> ''status'' \<notin> fst ` set extra
    \<and> get_loop_run (lr_run_id s) (hm_loops home') = Some s' \<and> lr_terminal_state s' = ''cancelled''
    \<and> get_goal (g_id g) (hm_goals home') = Some g' \<and> g_phase g' = ''ended''
    \<and> g_resolution g' = ''canceled'' \<and> g_acceptance g' = ''rejected''"
proof -
  obtain seen where seen: "get_goal (g_id g) (hm_goals home) = Some seen"
    and s: "get_loop_run (lr_run_id s) (hm_loops home) = Some s"
    by (rule related_goal_loop_Some [OF assms(1,2)]) (rule that)
  obtain s' loops where gate: "reject_external_gate env (lr_run_id s)
      [(''approval_id'', JStr (ap_id a)), (''decision'', JStr APPROVAL_STATUS_REJECTED)]
      (hm_loops home) (hm_loops home) = Inr (s', loops)"
    and s': "get_loop_run (lr_run_id s) loops = Some s'" "lr_terminal_state s' = ''cancelled''"
  proof (cases "lr_terminal_state s = ''cancelled''")
    case True
    show thesis
      by (rule that [of s "hm_loops home"]) (use s True in \<open>simp_all add: reject_external_gate_def\<close>)
  next
    case False
    obtain st db' where "transition_to env (lr_run_id s) s LoopTerminalState_CANCELLED
        [(''approval_id'', JStr (ap_id a)), (''decision'', JStr APPROVAL_STATUS_REJECTED)]
        ''loop.approval_rejected'' (\<lambda>_. True) (env_clock env) (hm_loops home) = Inr (st, db')"
      "get_loop_run (lr_run_id s) db' = Some st" "lr_terminal_state st = ts_str LoopTerminalState_CANCELLED"
      by (rule transition_to_now [OF assms(2) s]) (rule that)
    then show thesis
      by (intro that [of st db']) (use s False assms(3) in \<open>simp_all add: reject_external_gate_def\<close>)
  qed
  let ?goals = "snd (update_goal_state env (g_id g) (rejected_goal (ap_id a)) (hm_goals home) (hm_goals home))"
  have "get_goal (g_id g) ?goals = Some (updated_goal env (rejected_goal (ap_id a)) seen seen)"
    using update_goal_state_row [OF seen, of "g_id g"] seen by simp
  then show ?thesis
    using assms(1) gate s'
    by (simp add: reject_related_goal_loop_def split_beta Let_def rejected_goal_def or_else_def)
qed

lemma reject_goal_loop_moved_on:
  assumes "related_goal_loop (ap_run_id a) home = Some (g, s)"
    and "keys_distinct lr_run_id (ld_runs (hm_loops home))"
    and "\<not> at_external_wait s" and "lr_terminal_state s \<noteq> ''cancelled''"
  shows "\<exists>message. reject_related_goal_loop env a home = Inl (ValueError message)"
proof -
  obtain seen where "get_loop_run (lr_run_id s) (hm_loops home) = Some s"
    by (rule related_goal_loop_Some [OF assms(1,2)]) (rule that)
  then show ?thesis
    using assms by (simp add: reject_related_goal_loop_def reject_external_gate_def select_current_def)
qed

text \<open>
  Rejecting a pending approval whose goal has a loop run. In every case the approval is
  rejected and its run is ended, rejected and canceled. When the loop run waits at an external gate
  (or is cancelled already) the call answers ok, the loop run is cancelled and the goal is ended,
  rejected and canceled. When the loop run has moved on, the call raises after the decision is
  committed, and goal and loop run stay as they were.
\<close>

theorem reject_contract:
  assumes "find_approval (env_clock env) code rid ctx (db_approvals (hm_runs home)) = ((Some a, reason), t)"
    and "ap_status a = ''pending''" and "py_lower (py_strip decision) = ''reject''"
    and "found = at_commit t (\<lambda>h. h) home" and "keys_distinct ap_id (db_approvals (hm_runs home))"
    and "row_of run_id (ap_run_id a) (db_runs (hm_runs home)) = Some run"
    and "related_goal_loop (ap_run_id a) home = Some (g, s)"
    and "keys_distinct lr_run_id (ld_runs (hm_loops home))"
    and "resolve env decision selection ctx code rid (\<lambda>h. h) home = (answer, home')"
  shows "\<exists>r' run'. row_of ap_id (ap_id a) (db_approvals (hm_runs home')) = Some r'
    \<and> ap_status r' = ''rejected'' \<and> ap_resolved_by r' = sf_sender_id ctx
    \<and> row_of run_id (ap_run_id a) (db_runs (hm_runs home')) = Some run'
    \<and> run_phase run' = ''ended'' \<and> run_governance run' = ''rejected'' \<and> run_resolution run' = ''canceled''
    \<and> (if at_external_wait s \<or> lr_terminal_state s = ''cancelled''
       then \<exists>facts s' g'. answer = Inr \<lparr>ar_ok = True, ar_facts = facts\<rparr>
         \<and> get_loop_run (lr_run_id s) (hm_loops home') = Some s' \<and> lr_terminal_state s' = ''cancelled''
         \<and> get_goal (g_id g) (hm_goals home') = Some g' \<and> g_phase g' = ''ended''
         \<and> g_resolution g' = ''canceled'' \<and> g_acceptance g' = ''rejected''
       else (\<exists>message. answer = Inl (ValueError message))
         \<and> hm_goals home' = hm_goals home \<and> hm_loops home' = hm_loops home)"
proof -
  have found: "hm_goals found = hm_goals home" "hm_loops found = hm_loops home"
    "db_runs (hm_runs found) = db_runs (hm_runs home)" "db_approvals (hm_runs found) = t"
    by (simp_all add: assms(4) at_commit_def)
  note look = find_approval_row [OF assms(1,5)]
  have row: "row_of ap_id (ap_id a) (db_approvals (hm_runs found)) = Some a"
    and kd: "keys_distinct ap_id (db_approvals (hm_runs found))"
    using look by (simp_all add: found)
  let ?a = "decided_row (env_clock env) ''reject'' (sf_sender_id ctx) a"
  obtain st db' where
    c: "commit_decision (env_clock env) (ap_id a) ''reject'' (sf_sender_id ctx) (hm_runs found) =
       (Some (?a, st, ''rejected''), db')"
    and ap: "\<And>j. row_of ap_id j (db_approvals db') = (if j = ap_id a then Some ?a
       else row_of ap_id j (db_approvals (hm_runs found)))"
    and rn: "\<And>k. row_of run_id k (db_runs db') = (if k = ap_run_id a
       then map_option (decided_run (env_clock env) False a) (row_of run_id k (db_runs (hm_runs found)))
       else row_of run_id k (db_runs (hm_runs found)))"
    by (rule commit_decision_contract [OF kd row, of "''reject''" "env_clock env" "sf_sender_id ctx"]) auto
  let ?home2 = "at_commit t (\<lambda>h. h) home\<lparr>hm_runs := db'\<rparr>"
  obtain active where res: "resolve env decision selection ctx code rid (\<lambda>h. h) home =
      (case reject_related_goal_loop env ?a ?home2 of
         Inl e \<Rightarrow> (Inl e, ?home2)
       | Inr (extra, home3) \<Rightarrow> (Inr \<lparr>ar_ok = True, ar_facts = dict_merge (resolution_facts ?a ''reject'' selection
            (code \<noteq> []) active ''rejected'' st ''resolved'') extra\<rparr>, home3))"
    by (rule resolve_decides [OF assms(1,2) _ assms(3) c [unfolded assms(4)], of selection])
      (simp, rule that, simp add: Let_def)
  have rel: "related_goal_loop (ap_run_id ?a) ?home2 = Some (g, s)"
    "keys_distinct lr_run_id (ld_runs (hm_loops ?home2))"
    using assms(7,8) by (simp_all add: at_commit_def)
  have decided: "row_of ap_id (ap_id a) (db_approvals db') = Some ?a" "ap_status ?a = ''rejected''"
    "ap_resolved_by ?a = sf_sender_id ctx"
    "row_of run_id (ap_run_id a) (db_runs db') = Some (decided_run (env_clock env) False a run)"
    using ap rn assms(2,6) by (simp_all add: found decided_row_def)
  have ended: "run_phase (decided_run (env_clock env) False a run) = ''ended''"
    "run_governance (decided_run (env_clock env) False a run) = ''rejected''"
    "run_resolution (decided_run (env_clock env) False a run) = ''canceled''"
    by (simp_all add: decided_run_def state_matrix_def)
  show ?thesis
  proof (cases "at_external_wait s \<or> lr_terminal_state s = ''cancelled''")
    case True
    from reject_goal_loop_waiting [OF rel this, of env] obtain extra home3 s' g' where
      r: "reject_related_goal_loop env ?a ?home2 = Inr (extra, home3)" "hm_runs home3 = hm_runs ?home2"
      "get_loop_run (lr_run_id s) (hm_loops home3) = Some s'" "lr_terminal_state s' = ''cancelled''"
      "get_goal (g_id g) (hm_goals home3) = Some g'" "g_phase g' = ''ended''"
      "g_resolution g' = ''canceled''" "g_acceptance g' = ''rejected''" by blast
    have "home' = home3" "\<exists>facts. answer = Inr \<lparr>ar_ok = True, ar_facts = facts\<rparr>"
      using assms(9) r(1) by (auto simp: res)
    then show ?thesis using r(2-) decided ended True by simp
  next
    case False
    then have n: "\<not> at_external_wait s" "lr_terminal_state s \<noteq> ''cancelled''" by simp_all
    from reject_goal_loop_moved_on [OF rel n, of env] obtain message where
      "reject_related_goal_loop env ?a ?home2 = Inl (ValueError message)" by blast
    then have "home' = ?home2" "\<exists>message. answer = Inl (ValueError message)"
      using assms(9) by (auto simp: res)
    then show ?thesis using decided ended False by (simp add: at_commit_def)
  qed
qed

text \<open>
  A decision about an approval that is no longer pending changes no approval, run, goal or loop
  run. It is answered ok exactly when it repeats the decision on record, so a rejection that raised
  because its loop had moved on is answered ok when it is made again, and still closes nothing.
\<close>

theorem repeated_decision_changes_nothing:
  assumes "find_approval (env_clock env) code rid ctx (db_approvals (hm_runs home)) = ((Some a, reason), t)"
    and "ap_status a \<noteq> ''pending''" and "py_lower (py_strip decision) = d" and "d \<in> {''approve'', ''reject''}"
    and "resolve env decision selection ctx code rid (\<lambda>h. h) home = (answer, home')"
  shows "home' = home\<lparr>hm_runs := hm_runs home\<lparr>db_approvals := t\<rparr>\<rparr>
    \<and> (\<exists>res. answer = Inr res \<and> (ar_ok res \<longleftrightarrow>
         ap_status a = (if d = ''approve'' then ''approved'' else ''rejected'')))"
  using assms(1,2,5) assms(4) [unfolded verdict_valid]
  unfolding resolve_def Let_def assms(3)
  by (auto simp: APPROVAL_STATUS_PENDING_def resolve_existing_decision_def approval_not_resolved_def
      approval_text Let_def)

section \<open>Witnesses\<close>

definition sample_surface :: Surface where
  "sample_surface = \<lparr>sf_source = ''local'', sf_peer_id = ''p'', sf_sender_id = ''u'', sf_session_id = [],
     sf_workspace = ''/w'', sf_input_text = []\<rparr>"

definition sample_pending :: Approval where
  "sample_pending = sample_decided\<lparr>ap_status := ''pending'', ap_decision := [], ap_resolved_by := []\<rparr>"

definition sample_loop :: "string \<Rightarrow> LoopRunState" where
  "sample_loop ts = \<lparr>lr_run_id = ''l1'', lr_goal_id = ''g1'', lr_loop_spec_id = ''s1'',
     lr_node = ''execute'', lr_terminal_state = ts, lr_checkpoint_id = [], lr_attempt = 1,
     lr_parent_run_id = [], lr_child_run_ids = [], lr_locked_resources = [], lr_evidence = [],
     lr_updated_at = 0, lr_version = 3, lr_lease_owner = [], lr_lease_expires_at = 0\<rparr>"

definition sample_home :: "string \<Rightarrow> Home" where
  "sample_home ts = \<lparr>hm_runs = \<lparr>db_runs = [sample_run], db_logs = [], db_approvals = [sample_pending]\<rparr>,
     hm_goals = one_goal,
     hm_loops = \<lparr>ld_specs = [], ld_runs = [sample_loop ts], ld_checkpoints = [], ld_events = []\<rparr>\<rparr>"

definition rejects_meanwhile :: "Home \<Rightarrow> Home" where
  "rejects_meanwhile h = h\<lparr>hm_runs := snd (commit_decision 15 ''a1'' ''reject'' ''v'' (hm_runs h))\<rparr>"

lemma sample_lookup:
  "find_approval (env_clock (env_at 20)) ''000123'' [] sample_surface (db_approvals (hm_runs (sample_home ts)))
     = ((Some sample_pending, []), [sample_pending])"
  unfolding sample_home_def Home.simps RunDb.simps by code_simp

lemma sample_home_simps [simp]:
  "hm_runs (sample_home ts) = \<lparr>db_runs = [sample_run], db_logs = [], db_approvals = [sample_pending]\<rparr>"
  "hm_goals (sample_home ts) = one_goal" "ld_runs (hm_loops (sample_home ts)) = [sample_loop ts]"
  "ap_status sample_pending = ''pending''" "ap_id sample_pending = ''a1''" "ap_run_id sample_pending = ''r1''"
  "ap_action sample_pending = ''capability''" "run_id sample_run = ''r1''"
  by (simp_all add: sample_home_def sample_pending_def sample_decided_def sample_run_def)

lemma sample_verdicts:
  "py_lower (py_strip '' Approve'') = ''approve''" "py_lower (py_strip ''reject'') = ''reject''"
  by code_simp+

theorem approve_contract_witness:
  "\<exists>facts home'. resolve (env_at 20) '' Approve'' ''1'' sample_surface ''000123'' [] (\<lambda>h. h)
       (sample_home ''waiting_approval'') = (Inr \<lparr>ar_ok = True, ar_facts = facts\<rparr>, home')
     \<and> map_option run_governance (row_of run_id ''r1'' (db_runs (hm_runs home'))) = Some ''approved''"
  using approve_contract [where meanwhile = "\<lambda>h. h" and r = sample_pending and run = sample_run
      and selection = "''1''" and home = "sample_home ''waiting_approval''",
      OF sample_lookup _ sample_verdicts(1) refl]
  by (auto simp: at_commit_def keys_distinct_def row_of_Cons)

theorem approve_overrides_concurrent_decision_witness:
  "\<exists>facts home'. resolve (env_at 20) '' Approve'' ''1'' sample_surface ''000123'' [] rejects_meanwhile
       (sample_home ''waiting_approval'') = (Inr \<lparr>ar_ok = True, ar_facts = facts\<rparr>, home')
     \<and> map_option ap_status (row_of ap_id ''a1'' (db_approvals (hm_runs home'))) = Some ''rejected''
     \<and> map_option run_governance (row_of run_id ''r1'' (db_runs (hm_runs home'))) = Some ''approved''"
proof -
  let ?found = "at_commit [sample_pending] rejects_meanwhile (sample_home ''waiting_approval'')"
  have kd: "keys_distinct ap_id (db_approvals (hm_runs ?found))" by code_simp
  have ap: "map_option ap_status (row_of ap_id (ap_id sample_pending) (db_approvals (hm_runs ?found))) = Some ''rejected''"
    "map_option ap_action (row_of ap_id (ap_id sample_pending) (db_approvals (hm_runs ?found))) = Some ''capability''"
    "map_option ap_run_id (row_of ap_id (ap_id sample_pending) (db_approvals (hm_runs ?found))) = Some ''r1''"
    by code_simp+
  then obtain r where r: "row_of ap_id (ap_id sample_pending) (db_approvals (hm_runs ?found)) = Some r"
    and st: "ap_status r \<noteq> ''pending''" "ap_action r \<noteq> ''session_elevation''" "ap_run_id r = ''r1''"
      "ap_status r = ''rejected''"
    by auto
  have "row_of run_id ''r1'' (db_runs (hm_runs ?found)) \<noteq> None" by code_simp
  then obtain run where run: "row_of run_id (ap_run_id r) (db_runs (hm_runs ?found)) = Some run"
    using st by auto
  show ?thesis
    using approve_overrides_concurrent_decision [where selection = "''1''",
        OF sample_lookup _ sample_verdicts(1) refl kd r st(1) run st(2)] st
    by auto
qed

theorem reject_contract_witness:
  "\<exists>message home'. resolve (env_at 20) ''reject'' ''1'' sample_surface ''000123'' [] (\<lambda>h. h)
       (sample_home ''converged'') = (Inl (ValueError message), home')
     \<and> map_option ap_status (row_of ap_id ''a1'' (db_approvals (hm_runs home'))) = Some ''rejected''
     \<and> hm_goals home' = one_goal"
proof -
  obtain answer home' where r: "resolve (env_at 20) ''reject'' ''1'' sample_surface ''000123'' [] (\<lambda>h. h)
       (sample_home ''converged'') = (answer, home')" by fastforce
  have rel: "related_goal_loop (ap_run_id sample_pending) (sample_home ''converged'')
      = Some (sample_row, sample_loop ''converged'')" by code_simp
  show ?thesis
    using reject_contract [OF sample_lookup _ sample_verdicts(2) refl _ _ rel _ r] r
    by (auto simp: keys_distinct_def row_of_Cons at_external_wait_def sample_loop_def)
qed

theorem repeated_decision_changes_nothing_witness:
  "\<exists>res home'. resolve (env_at 20) ''reject'' ''1'' sample_surface ''000123'' [] (\<lambda>h. h)
       \<lparr>hm_runs = sample_db, hm_goals = one_goal, hm_loops = hm_loops (sample_home ''converged'')\<rparr> = (Inr res, home')
     \<and> \<not> ar_ok res"
proof -
  let ?home = "\<lparr>hm_runs = sample_db, hm_goals = one_goal, hm_loops = hm_loops (sample_home ''converged'')\<rparr>"
  obtain answer home' where r: "resolve (env_at 20) ''reject'' ''1'' sample_surface ''000123'' [] (\<lambda>h. h) ?home
      = (answer, home')" by fastforce
  have look: "find_approval (env_clock (env_at 20)) ''000123'' [] sample_surface (db_approvals (hm_runs ?home))
     = ((Some sample_decided, []), [sample_decided])" by code_simp
  show ?thesis
    using repeated_decision_changes_nothing [OF look _ sample_verdicts(2) _ r] r
    by (auto simp: sample_decided_def)
qed

end
