(* ===== verification/Resource_Gateway.thy ===== *)
theory Resource_Gateway
  imports Loop_Contracts
begin

text \<open>
  \<open>navi/resource_gateway.py\<close>: the ledger of tokens, calls, cost and concurrency of a durable scope,
  two SQLite tables \<open>resource_scopes\<close> and \<open>resource_grants\<close>, and the gateway that asks it or keeps
  counters of its own. \<open>reserve\<close> and \<open>release\<close> are immediate transactions; the \<open>ensure_scope\<close> that
  \<open>reserve\<close> starts with writes only the columns of the limits, which the rest does not read.
\<close>

section \<open>State\<close>

record ResourceLimits =
  rl_token_budget :: int
  rl_call_budget :: int
  rl_cost_budget :: rat
  rl_qps_limit :: int
  rl_max_concurrent :: int

record ResourceRequest =
  rr_kind :: string
  rr_estimated_tokens :: int
  rr_estimated_cost :: rat
  rr_units :: int
  rr_idempotency_key :: string
  rr_reserve :: bool

record ResourceGrant =
  gr_decision :: ResourceDecision
  gr_reason :: string
  gr_budget_state :: BudgetState
  gr_retry_after_seconds :: time
  gr_id :: string

record ResourceUsage =
  ru_used_tokens :: int
  ru_used_calls :: int
  ru_used_cost :: rat
  ru_active :: int

record ScopeRow =
  rs_scope_id :: string
  rs_limits :: ResourceLimits
  rs_usage :: ResourceUsage
  rs_updated_at :: time

record GrantRow =
  rg_id :: string
  rg_scope_id :: string
  rg_key :: string
  rg_kind :: string
  rg_reserved_tokens :: int
  rg_reserved_cost :: rat
  rg_units :: int
  rg_status :: string
  rg_created_at :: time
  rg_updated_at :: time

record Ledger =
  lg_scopes :: "ScopeRow list"
  lg_grants :: "GrantRow list"

definition grant_allowed :: "ResourceGrant \<Rightarrow> bool" where
  "grant_allowed g = (gr_decision g = ResourceDecision_ALLOW)"

definition grant_to_dict :: "ResourceGrant \<Rightarrow> dict" where
  "grant_to_dict g =
     [(''decision'', JStr (resourceDecision_str (gr_decision g))), (''reason'', JStr (gr_reason g)),
      (''budget_state'', JDict (budget_state_to_dict (gr_budget_state g))),
      (''retry_after_seconds'', JFloat (gr_retry_after_seconds g)), (''grant_id'', JStr (gr_id g))]"

definition no_usage :: ResourceUsage where
  "no_usage = \<lparr>ru_used_tokens = 0, ru_used_calls = 0, ru_used_cost = 0, ru_active = 0\<rparr>"

definition remaining_budget :: "int \<Rightarrow> int \<Rightarrow> int option" where
  "remaining_budget limit used = (if limit \<le> 0 then None else Some (max 0 (limit - used)))"

definition remaining_float :: "rat \<Rightarrow> rat \<Rightarrow> rat option" where
  "remaining_float limit used = (if limit \<le> 0 then None else Some (max 0 (limit - used)))"

definition budget_state_from_usage ::
  "ResourceLimits \<Rightarrow> ResourceDecision \<Rightarrow> string \<Rightarrow> ResourceUsage \<Rightarrow> BudgetState" where
  "budget_state_from_usage limits decision reason u =
     \<lparr>bs_decision = resourceDecision_str decision,
      bs_token_budget_remaining = remaining_budget (rl_token_budget limits) (ru_used_tokens u),
      bs_call_budget_remaining = remaining_budget (rl_call_budget limits) (ru_used_calls u),
      bs_cost_budget_remaining = remaining_float (rl_cost_budget limits) (ru_used_cost u),
      bs_reason = reason\<rparr>"

definition grant_from_usage ::
  "ResourceLimits \<Rightarrow> ResourceDecision \<Rightarrow> string \<Rightarrow> ResourceUsage \<Rightarrow> time \<Rightarrow> string \<Rightarrow> ResourceGrant" where
  "grant_from_usage limits decision reason u retry_after grant_id =
     \<lparr>gr_decision = decision, gr_reason = reason,
      gr_budget_state = budget_state_from_usage limits decision reason u,
      gr_retry_after_seconds = retry_after, gr_id = grant_id\<rparr>"

section \<open>The ledger\<close>

definition ensure_scope :: "time \<Rightarrow> string \<Rightarrow> ResourceLimits \<Rightarrow> Ledger \<Rightarrow> Ledger" where
  "ensure_scope clock scope_id limits db =
     (if scope_id \<in> rs_scope_id ` set (lg_scopes db)
      then db\<lparr>lg_scopes := sql_update (\<lambda>r. rs_scope_id r = scope_id)
              (\<lambda>r. r\<lparr>rs_limits := limits, rs_updated_at := clock\<rparr>) (lg_scopes db)\<rparr>
      else db\<lparr>lg_scopes := lg_scopes db @ [\<lparr>rs_scope_id = scope_id, rs_limits = limits,
              rs_usage = no_usage, rs_updated_at = clock\<rparr>]\<rparr>)"

definition usage_of :: "string \<Rightarrow> Ledger \<Rightarrow> ResourceUsage" where
  "usage_of scope_id db =
     (case row_of rs_scope_id scope_id (lg_scopes db) of None \<Rightarrow> no_usage | Some r \<Rightarrow> rs_usage r)"

text \<open>\<open>MIN(created_at) or now\<close>: a minimum of zero counts as missing.\<close>

definition earliest_or :: "time \<Rightarrow> time list \<Rightarrow> time" where
  "earliest_or now ts = (case ts of [] \<Rightarrow> now
     | t # ts' \<Rightarrow> (let m = foldl min t ts' in if m = 0 then now else m))"

definition over_budget :: "ResourceLimits \<Rightarrow> ResourceRequest \<Rightarrow> ResourceUsage \<Rightarrow> (ResourceDecision \<times> string) option" where
  "over_budget limits request usage =
     (if rr_units request < 1 then Some (ResourceDecision_BLOCK, ''invalid_units'')
      else if 0 < rl_max_concurrent limits \<and> rl_max_concurrent limits < ru_active usage + rr_units request
        then Some (ResourceDecision_PAUSE, ''concurrency_limit'')
      else if 0 < rl_call_budget limits \<and> rl_call_budget limits < ru_used_calls usage + rr_units request
        then Some (ResourceDecision_ESCALATE, ''call_budget_exhausted'')
      else if 0 < rl_token_budget limits
          \<and> rl_token_budget limits < ru_used_tokens usage + rr_estimated_tokens request
        then Some (ResourceDecision_ESCALATE, ''token_budget_exhausted'')
      else None)"

definition over_cost :: "ResourceLimits \<Rightarrow> ResourceRequest \<Rightarrow> ResourceUsage \<Rightarrow> (ResourceDecision \<times> string) option" where
  "over_cost limits request usage =
     (if 0 < rl_cost_budget limits \<and> rl_cost_budget limits < ru_used_cost usage + rr_estimated_cost request
      then Some (ResourceDecision_ESCALATE, ''cost_budget_exhausted'') else None)"

definition ledger_decision ::
  "string \<Rightarrow> ResourceLimits \<Rightarrow> ResourceRequest \<Rightarrow> ResourceUsage \<Rightarrow> time \<Rightarrow> Ledger
     \<Rightarrow> ResourceDecision \<times> string \<times> time" where
  "ledger_decision scope_id limits request usage now db =
     (case over_budget limits request usage of
        Some (d, reason) \<Rightarrow> (d, reason, 0)
      | None \<Rightarrow>
          if 0 < rl_cost_budget limits \<and> rr_estimated_cost request \<le> 0
          then (ResourceDecision_BLOCK, ''cost_estimate_required'', 0)
          else case over_cost limits request usage of
            Some (d, reason) \<Rightarrow> (d, reason, 0)
          | None \<Rightarrow>
              if 0 < rl_qps_limit limits
              then (let recent = filter (\<lambda>g. rg_scope_id g = scope_id \<and> now - 1 < rg_created_at g) (lg_grants db)
                    in if rl_qps_limit limits \<le> int (length recent)
                       then (ResourceDecision_PAUSE, ''rate_limited'',
                             max 0 (1 - (now - earliest_or now (map rg_created_at recent))))
                       else (ResourceDecision_ALLOW, ''ok'', 0))
              else (ResourceDecision_ALLOW, ''ok'', 0))"

definition charge :: "ResourceRequest \<Rightarrow> ResourceUsage \<Rightarrow> ResourceUsage" where
  "charge request u =
     \<lparr>ru_used_tokens = ru_used_tokens u + max 0 (rr_estimated_tokens request),
      ru_used_calls = ru_used_calls u + rr_units request,
      ru_used_cost = ru_used_cost u + max 0 (rr_estimated_cost request),
      ru_active = ru_active u + rr_units request\<rparr>"

definition update_usage :: "string \<Rightarrow> (ResourceUsage \<Rightarrow> ResourceUsage) \<Rightarrow> time \<Rightarrow> Ledger \<Rightarrow> Ledger" where
  "update_usage scope_id f now db =
     db\<lparr>lg_scopes := sql_update (\<lambda>r. rs_scope_id r = scope_id)
         (\<lambda>r. r\<lparr>rs_usage := f (rs_usage r), rs_updated_at := now\<rparr>) (lg_scopes db)\<rparr>"

definition reserve_grant ::
  "Env \<Rightarrow> string \<Rightarrow> string \<Rightarrow> ResourceLimits \<Rightarrow> ResourceRequest \<Rightarrow> time \<Rightarrow> Ledger \<Rightarrow> ResourceGrant \<times> Ledger" where
  "reserve_grant env fresh_id scope_id limits request now db0 =
     (let db = ensure_scope (env_clock env) scope_id limits db0;
          key = or_else (rr_idempotency_key request) fresh_id;
          usage = usage_of scope_id db
      in case sql_one (\<lambda>g. rg_scope_id g = scope_id \<and> rg_key g = key) (lg_grants db) of
           Some existing \<Rightarrow>
             (grant_from_usage limits ResourceDecision_ALLOW ''idempotent_replay'' usage 0 (rg_id existing), db)
         | None \<Rightarrow>
             (case ledger_decision scope_id limits request usage now db of (decision, reason, retry_after) \<Rightarrow>
                if decision \<noteq> ResourceDecision_ALLOW
                then (grant_from_usage limits decision reason usage retry_after [], db)
                else case sql_insert rg_id
                    \<lparr>rg_id = fresh_id, rg_scope_id = scope_id, rg_key = key, rg_kind = rr_kind request,
                     rg_reserved_tokens = max 0 (rr_estimated_tokens request),
                     rg_reserved_cost = max 0 (rr_estimated_cost request), rg_units = rr_units request,
                     rg_status = ''active'', rg_created_at = now, rg_updated_at = now\<rparr> (lg_grants db) of
                  Inl _ \<Rightarrow>
                    (grant_from_usage limits ResourceDecision_ALLOW ''idempotent_replay'' usage 0 [], db)
                | Inr grants \<Rightarrow>
                    let db' = update_usage scope_id (charge request) now (db\<lparr>lg_grants := grants\<rparr>)
                    in (grant_from_usage limits ResourceDecision_ALLOW ''ok'' (usage_of scope_id db') 0 fresh_id, db')))"

definition mark_released :: "time \<Rightarrow> string \<Rightarrow> Ledger \<Rightarrow> Ledger" where
  "mark_released now grant_id db =
     db\<lparr>lg_grants := sql_update (\<lambda>g. rg_id g = grant_id)
         (\<lambda>g. g\<lparr>rg_status := ''released'', rg_updated_at := now\<rparr>) (lg_grants db)\<rparr>"

definition settle_usage :: "int \<Rightarrow> rat \<Rightarrow> int \<Rightarrow> ResourceUsage \<Rightarrow> ResourceUsage" where
  "settle_usage tokens cost units u =
     u\<lparr>ru_used_tokens := max 0 (ru_used_tokens u + tokens), ru_used_cost := max 0 (ru_used_cost u + cost),
       ru_active := max 0 (ru_active u - units)\<rparr>"

definition release_grant ::
  "Env \<Rightarrow> string \<Rightarrow> string \<Rightarrow> int option \<Rightarrow> rat option \<Rightarrow> Ledger \<Rightarrow> ResourceUsage \<times> Ledger" where
  "release_grant env scope_id grant_id actual_tokens actual_cost db =
     (if grant_id = [] then (usage_of scope_id db, db)
      else case sql_one (\<lambda>g. rg_id g = grant_id \<and> rg_scope_id g = scope_id) (lg_grants db) of
        None \<Rightarrow> (usage_of scope_id db, db)
      | Some g \<Rightarrow>
          if rg_status g \<noteq> ''active'' then (usage_of scope_id db, db)
          else let final_tokens = (case actual_tokens of None \<Rightarrow> rg_reserved_tokens g | Some n \<Rightarrow> max 0 n);
                   final_cost = (case actual_cost of None \<Rightarrow> rg_reserved_cost g | Some c \<Rightarrow> max 0 c);
                   db' = mark_released (env_clock env) grant_id
                     (update_usage scope_id (settle_usage (final_tokens - rg_reserved_tokens g)
                        (final_cost - rg_reserved_cost g) (rg_units g)) (env_clock env) db)
               in (usage_of scope_id db', db'))"

definition free_slot :: "int \<Rightarrow> ResourceUsage \<Rightarrow> ResourceUsage" where
  "free_slot units u = u\<lparr>ru_active := max 0 (ru_active u - units)\<rparr>"

fun release_grant_rows :: "time \<Rightarrow> GrantRow list \<Rightarrow> Ledger \<Rightarrow> string list \<times> Ledger" where
  "release_grant_rows now [] db = ([], db)"
| "release_grant_rows now (g # gs) db =
     (let (ids, db') = release_grant_rows now gs
            (mark_released now (rg_id g) (update_usage (rg_scope_id g) (free_slot (rg_units g)) now db))
      in (rg_id g # ids, db'))"

definition release_active_grants_for_scopes :: "Env \<Rightarrow> string list \<Rightarrow> Ledger \<Rightarrow> string list \<times> Ledger" where
  "release_active_grants_for_scopes env scope_ids db =
     (let scopes = filter (\<lambda>s. s \<noteq> []) scope_ids
      in if scopes = [] then ([], db)
         else release_grant_rows (env_clock env)
           (filter (\<lambda>g. rg_status g = ''active'' \<and> rg_scope_id g \<in> set scopes) (lg_grants db)) db)"

section \<open>The gateway\<close>

record Gateway =
  gw_limits :: ResourceLimits
  gw_has_ledger :: bool
  gw_scope_id :: string
  gw_usage :: ResourceUsage
  gw_call_times :: "time list"

definition uses_ledger :: "Gateway \<Rightarrow> bool" where
  "uses_ledger gw = (gw_has_ledger gw \<and> gw_scope_id gw \<noteq> [])"

definition inspect :: "Gateway \<Rightarrow> Ledger \<Rightarrow> BudgetState" where
  "inspect gw db = budget_state_from_usage (gw_limits gw) ResourceDecision_ALLOW ''ok''
     (if uses_ledger gw then usage_of (gw_scope_id gw) db else gw_usage gw)"

definition gateway_grant :: "Gateway \<Rightarrow> ResourceDecision \<Rightarrow> string \<Rightarrow> time \<Rightarrow> ResourceGrant" where
  "gateway_grant gw decision reason retry_after =
     grant_from_usage (gw_limits gw) decision reason (gw_usage gw) retry_after []"

definition qps_retry_after :: "time \<Rightarrow> Gateway \<Rightarrow> time \<times> Gateway" where
  "qps_retry_after now gw =
     (if rl_qps_limit (gw_limits gw) \<le> 0 then (0, gw)
      else let times = dropWhile (\<lambda>t. 1 \<le> now - t) (gw_call_times gw);
               gw' = gw\<lparr>gw_call_times := times\<rparr>
           in if int (length times) < rl_qps_limit (gw_limits gw) then (0, gw')
              else (max 0 (1 - (now - hd times)), gw'))"

definition gateway_request ::
  "Env \<Rightarrow> string \<Rightarrow> ResourceRequest \<Rightarrow> time option \<Rightarrow> Gateway \<Rightarrow> Ledger \<Rightarrow> ResourceGrant \<times> Gateway \<times> Ledger" where
  "gateway_request env fresh_id request now gw db =
     (let current = clock_or (env_clock env) now
      in if \<not> rr_reserve request
         then (\<lparr>gr_decision = ResourceDecision_ALLOW, gr_reason = ''admission_probe'',
                gr_budget_state = inspect gw db, gr_retry_after_seconds = 0, gr_id = []\<rparr>, gw, db)
         else if uses_ledger gw
         then (let (grant, db') = reserve_grant env fresh_id (gw_scope_id gw) (gw_limits gw) request current db
               in (grant, gw, db'))
         else case over_budget (gw_limits gw) request (gw_usage gw) of
           Some (d, reason) \<Rightarrow> (gateway_grant gw d reason 0, gw, db)
         | None \<Rightarrow>
             (case over_cost (gw_limits gw) request (gw_usage gw) of
                Some (d, reason) \<Rightarrow> (gateway_grant gw d reason 0, gw, db)
              | None \<Rightarrow>
                  (case qps_retry_after current gw of (retry_after, gw') \<Rightarrow>
                     if 0 < retry_after
                     then (gateway_grant gw' ResourceDecision_PAUSE ''rate_limited'' retry_after, gw', db)
                     else let gw'' = gw'\<lparr>gw_usage := charge request (gw_usage gw'),
                                gw_call_times := gw_call_times gw'
                                  @ replicate (nat (rr_units request)) current\<rparr>
                          in (gateway_grant gw'' ResourceDecision_ALLOW ''ok'' 0, gw'', db))))"

definition gateway_release ::
  "Env \<Rightarrow> int \<Rightarrow> string \<Rightarrow> int option \<Rightarrow> rat option \<Rightarrow> Gateway \<Rightarrow> Ledger \<Rightarrow> BudgetState \<times> Gateway \<times> Ledger" where
  "gateway_release env units grant_id actual_tokens actual_cost gw db =
     (if uses_ledger gw
      then (let (usage, db') = release_grant env (gw_scope_id gw) grant_id actual_tokens actual_cost db
            in (budget_state_from_usage (gw_limits gw) ResourceDecision_ALLOW ''ok'' usage, gw, db'))
      else let gw' = (if 0 < units then gw\<lparr>gw_usage := free_slot units (gw_usage gw)\<rparr> else gw)
           in (inspect gw' db, gw', db))"

definition provider_rate_limited :: "time \<Rightarrow> Gateway \<Rightarrow> ResourceGrant" where
  "provider_rate_limited retry_after_seconds gw =
     gateway_grant gw ResourceDecision_PAUSE ''provider_rate_limited'' (max 0 retry_after_seconds)"

section \<open>The ledger as a machine\<close>

text \<open>Every write of the ledger, with the limits each scope is configured with.\<close>

datatype ledger_op =
    Lg_Ensure time string
  | Lg_Reserve Env string string ResourceRequest time
  | Lg_Release Env string string "int option" "rat option"
  | Lg_Release_Scopes Env "string list"

fun ledger_step :: "(string \<Rightarrow> ResourceLimits) \<Rightarrow> ledger_op \<Rightarrow> Ledger \<Rightarrow> Ledger" where
  "ledger_step limits (Lg_Ensure clock scope) db = ensure_scope clock scope (limits scope) db"
| "ledger_step limits (Lg_Reserve env fresh scope request now) db =
     snd (reserve_grant env fresh scope (limits scope) request now db)"
| "ledger_step limits (Lg_Release env scope grant_id tokens cost) db =
     snd (release_grant env scope grant_id tokens cost db)"
| "ledger_step limits (Lg_Release_Scopes env scopes) db =
     snd (release_active_grants_for_scopes env scopes db)"

definition held_units :: "(GrantRow \<Rightarrow> bool) \<Rightarrow> string \<Rightarrow> GrantRow list \<Rightarrow> int" where
  "held_units p scope gs = sum_list (map rg_units (filter (\<lambda>g. rg_scope_id g = scope \<and> p g) gs))"

abbreviation is_active :: "GrantRow \<Rightarrow> bool" where
  "is_active g \<equiv> rg_status g = ''active''"

text \<open>
  The books are right: one row per scope and per grant, every grant has a scope and at least one
  unit, and for every scope the counters are the units of its active grants and of all its grants,
  within the limits.
\<close>

definition scope_ok :: "(string \<Rightarrow> ResourceLimits) \<Rightarrow> string \<Rightarrow> Ledger \<Rightarrow> bool" where
  "scope_ok limits scope db \<longleftrightarrow>
     ru_active (usage_of scope db) = held_units is_active scope (lg_grants db)
     \<and> ru_used_calls (usage_of scope db) = held_units (\<lambda>_. True) scope (lg_grants db)
     \<and> (0 < rl_max_concurrent (limits scope) \<longrightarrow> ru_active (usage_of scope db) \<le> rl_max_concurrent (limits scope))
     \<and> (0 < rl_call_budget (limits scope) \<longrightarrow> ru_used_calls (usage_of scope db) \<le> rl_call_budget (limits scope))"

definition ledger_inv :: "(string \<Rightarrow> ResourceLimits) \<Rightarrow> Ledger \<Rightarrow> bool" where
  "ledger_inv limits db \<longleftrightarrow>
     keys_distinct rs_scope_id (lg_scopes db) \<and> keys_distinct rg_id (lg_grants db)
     \<and> (\<forall>g\<in>set (lg_grants db). rg_scope_id g \<in> rs_scope_id ` set (lg_scopes db) \<and> 1 \<le> rg_units g)
     \<and> (\<forall>scope. scope_ok limits scope db)"

section \<open>Lemmas\<close>

lemma usage_of_grants [simp]: "usage_of s (db\<lparr>lg_grants := gs\<rparr>) = usage_of s db"
  by (simp add: usage_of_def)

lemma usage_of_mark [simp]: "usage_of s (mark_released now i db) = usage_of s db"
  by (simp add: mark_released_def)

lemma mark_scopes [simp]: "lg_scopes (mark_released now i db) = lg_scopes db"
  by (simp add: mark_released_def)

lemma grants_update_usage [simp]: "lg_grants (update_usage s f now db) = lg_grants db"
  by (simp add: update_usage_def)

lemma grants_ensure [simp]: "lg_grants (ensure_scope c s l db) = lg_grants db"
  by (simp add: ensure_scope_def)

lemma usage_of_ensure [simp]: "usage_of t (ensure_scope c s l db) = usage_of t db"
proof (cases "s \<in> rs_scope_id ` set (lg_scopes db)")
  case True
  then show ?thesis
    by (simp add: usage_of_def ensure_scope_def row_of_update split: option.splits)
next
  case False
  then have "row_of rs_scope_id s (lg_scopes db) = None" by (simp add: row_of_None)
  then show ?thesis using False
    by (auto simp: usage_of_def ensure_scope_def row_of_append split: option.splits)
qed

lemma scopes_ensure:
  "rs_scope_id ` set (lg_scopes (ensure_scope c s l db)) = insert s (rs_scope_id ` set (lg_scopes db))"
  by (auto simp: ensure_scope_def keys_sql_update)

lemma usage_of_update:
  assumes "scope \<in> rs_scope_id ` set (lg_scopes db)"
  shows "usage_of t (update_usage scope f now db) = (if t = scope then f (usage_of scope db) else usage_of t db)"
proof -
  obtain r where r: "row_of rs_scope_id scope (lg_scopes db) = Some r"
    using assms by (cases "row_of rs_scope_id scope (lg_scopes db)") (auto simp: row_of_None)
  have "rs_scope_id r = scope" using row_of_Some [OF r] by simp
  then show ?thesis
    using r by (cases "row_of rs_scope_id t (lg_scopes db)")
      (auto simp: usage_of_def update_usage_def row_of_update dest: row_of_Some)
qed

lemma scopes_update_usage [simp]:
  "rs_scope_id ` set (lg_scopes (update_usage scope f now db)) = rs_scope_id ` set (lg_scopes db)"
  by (simp add: update_usage_def keys_sql_update)

lemma keys_distinct_ensure:
  "keys_distinct rs_scope_id (lg_scopes db) \<Longrightarrow> keys_distinct rs_scope_id (lg_scopes (ensure_scope c s l db))"
  by (auto simp: ensure_scope_def keys_distinct_append row_of_None intro!: keys_distinct_update)

lemma keys_distinct_update_usage:
  "keys_distinct rs_scope_id (lg_scopes db) \<Longrightarrow> keys_distinct rs_scope_id (lg_scopes (update_usage s f now db))"
  by (auto simp: update_usage_def intro!: keys_distinct_update)

lemma held_units_append:
  "held_units p s (gs @ [g]) = held_units p s gs + (if rg_scope_id g = s \<and> p g then rg_units g else 0)"
  by (simp add: held_units_def)

lemma held_units_nonneg:
  "\<forall>g\<in>set gs. 1 \<le> rg_units g \<Longrightarrow> 0 \<le> held_units p s gs"
  unfolding held_units_def by (intro sum_list_nonneg) fastforce

lemma held_units_ge:
  assumes "\<forall>g\<in>set gs. 1 \<le> rg_units g" "g \<in> set gs" "p g"
  shows "rg_units g \<le> held_units p (rg_scope_id g) gs"
  using assms
proof (induction gs)
  case (Cons x gs)
  have "0 \<le> held_units p (rg_scope_id g) gs" using Cons.prems by (intro held_units_nonneg) simp
  moreover have "held_units p (rg_scope_id g) (x # gs) = held_units p (rg_scope_id g) gs
      + (if rg_scope_id x = rg_scope_id g \<and> p x then rg_units x else 0)" by (simp add: held_units_def)
  ultimately show ?case using Cons by (cases "x = g") auto
qed simp

abbreviation released :: "time \<Rightarrow> string \<Rightarrow> GrantRow list \<Rightarrow> GrantRow list" where
  "released now i gs \<equiv> sql_update (\<lambda>g. rg_id g = i) (\<lambda>g. g\<lparr>rg_status := ''released'', rg_updated_at := now\<rparr>) gs"

lemma grants_mark [simp]: "lg_grants (mark_released now i db) = released now i (lg_grants db)"
  by (simp add: mark_released_def)

lemma held_units_released_all: "held_units (\<lambda>_. True) s (released now i gs) = held_units (\<lambda>_. True) s gs"
  by (induction gs) (simp_all add: held_units_def sql_simps)

lemma released_absent: "i \<notin> rg_id ` set gs \<Longrightarrow> released now i gs = gs"
  by (rule sql_update_none) auto

lemma held_units_released:
  assumes "keys_distinct rg_id gs" "g \<in> set gs" "is_active g"
  shows "held_units is_active s (released now (rg_id g) gs)
    = held_units is_active s gs - (if rg_scope_id g = s then rg_units g else 0)"
  using assms
proof (induction gs)
  case (Cons x gs)
  show ?case
  proof (cases "x = g")
    case True
    then have "released now (rg_id g) gs = gs"
      using Cons.prems by (intro released_absent) (simp add: keys_distinct_def)
    then show ?thesis using True Cons.prems by (simp add: held_units_def sql_simps)
  next
    case False
    then have "g \<in> set gs" "rg_id x \<noteq> rg_id g" using Cons.prems by (auto simp: keys_distinct_def)
    then show ?thesis using Cons by (simp add: held_units_def sql_simps keys_distinct_def)
  qed
qed simp

lemma ledger_inv_scope: "ledger_inv limits db \<Longrightarrow> scope_ok limits s db"
  by (simp add: ledger_inv_def)

lemma ledger_inv_ensure: "ledger_inv limits db \<Longrightarrow> ledger_inv limits (ensure_scope c s l db)"
  by (auto simp: ledger_inv_def keys_distinct_ensure scopes_ensure scope_ok_def)

lemma over_budget_None:
  assumes "over_budget limits request u = None"
  shows "1 \<le> rr_units request"
    "0 < rl_max_concurrent limits \<Longrightarrow> ru_active u + rr_units request \<le> rl_max_concurrent limits"
    "0 < rl_call_budget limits \<Longrightarrow> ru_used_calls u + rr_units request \<le> rl_call_budget limits"
    "0 < rl_token_budget limits \<Longrightarrow> ru_used_tokens u + rr_estimated_tokens request \<le> rl_token_budget limits"
  using assms by (auto simp: over_budget_def split: if_splits)

lemma ledger_decision_allow:
  assumes "ledger_decision s limits request u now db = (ResourceDecision_ALLOW, reason, retry)"
  shows "over_budget limits request u = None" "reason = ''ok''" "retry = 0" "over_cost limits request u = None"
proof -
  have "over_budget limits request u \<noteq> Some (ResourceDecision_ALLOW, x)"
    "over_cost limits request u \<noteq> Some (ResourceDecision_ALLOW, x)" for x
    by (simp_all add: over_budget_def over_cost_def)
  then show "over_budget limits request u = None" "reason = ''ok''" "retry = 0" "over_cost limits request u = None"
    using assms by (auto simp: ledger_decision_def Let_def split: option.splits if_splits)
qed

lemma ledger_inv_charge:
  assumes inv: "ledger_inv limits db" and s: "s \<in> rs_scope_id ` set (lg_scopes db)"
    and ok: "over_budget (limits s) request (usage_of s db) = None"
    and g: "row_of rg_id (rg_id g) (lg_grants db) = None" "rg_scope_id g = s" "is_active g"
      "rg_units g = rr_units request"
  shows "ledger_inv limits (update_usage s (charge request) now (db\<lparr>lg_grants := lg_grants db @ [g]\<rparr>))"
proof -
  let ?db = "update_usage s (charge request) now (db\<lparr>lg_grants := lg_grants db @ [g]\<rparr>)"
  have use: "usage_of t ?db = (if t = s then charge request (usage_of s db) else usage_of t db)" for t
    using usage_of_update [of s "db\<lparr>lg_grants := lg_grants db @ [g]\<rparr>"] s by simp
  have "scope_ok limits s ?db"
    using ledger_inv_scope [OF inv, of s] over_budget_None [OF ok] g
    unfolding scope_ok_def use by (auto simp: held_units_append charge_def)
  moreover have "t \<noteq> s \<Longrightarrow> scope_ok limits t ?db" for t
    using ledger_inv_scope [OF inv, of t] g unfolding scope_ok_def use by (auto simp: held_units_append)
  ultimately have "scope_ok limits t ?db" for t by (cases "t = s") auto
  then show ?thesis
    using inv s g over_budget_None(1) [OF ok]
    by (auto simp: ledger_inv_def keys_distinct_update_usage keys_distinct_append)
qed

lemma ledger_inv_release:
  assumes inv: "ledger_inv limits db" and g: "g \<in> set (lg_grants db)" "is_active g"
    and f: "\<And>u. ru_active (f u) = max 0 (ru_active u - rg_units g)" "\<And>u. ru_used_calls (f u) = ru_used_calls u"
  shows "ledger_inv limits (mark_released now (rg_id g) (update_usage (rg_scope_id g) f now' db))"
proof -
  let ?db = "mark_released now (rg_id g) (update_usage (rg_scope_id g) f now' db)"
  have s: "rg_scope_id g \<in> rs_scope_id ` set (lg_scopes db)" and u: "\<forall>g\<in>set (lg_grants db). 1 \<le> rg_units g"
    and kd: "keys_distinct rg_id (lg_grants db)" using inv g by (auto simp: ledger_inv_def)
  have enough: "rg_units g \<le> ru_active (usage_of (rg_scope_id g) db)"
    using held_units_ge [where p = is_active, OF u g] ledger_inv_scope [OF inv] by (simp add: scope_ok_def)
  have "1 \<le> rg_units g" using u g by blast
  have "scope_ok limits t ?db" for t
    using ledger_inv_scope [OF inv, of t] held_units_released [OF kd g] enough \<open>1 \<le> rg_units g\<close>
    by (auto simp: scope_ok_def usage_of_update [OF s] held_units_released_all f)
  moreover have "\<forall>g'\<in>set (lg_grants ?db). rg_scope_id g' \<in> rs_scope_id ` set (lg_scopes ?db) \<and> 1 \<le> rg_units g'"
    using inv by (auto simp: ledger_inv_def set_sql_update)
  ultimately show ?thesis
    using inv kd by (simp add: ledger_inv_def keys_distinct_update_usage keys_distinct_update)
qed

lemma ledger_inv_reserve:
  assumes "ledger_inv limits db"
  shows "ledger_inv limits (snd (reserve_grant env fresh s (limits s) request now db))"
proof -
  let ?db = "ensure_scope (env_clock env) s (limits s) db"
  have inv: "ledger_inv limits ?db" using assms by (rule ledger_inv_ensure)
  have s: "s \<in> rs_scope_id ` set (lg_scopes ?db)" by (simp add: scopes_ensure)
  show ?thesis
  proof (cases "sql_one (\<lambda>g. rg_scope_id g = s \<and> rg_key g = or_else (rr_idempotency_key request) fresh) (lg_grants db)")
    case None
    obtain d reason retry where dec: "ledger_decision s (limits s) request (usage_of s db) now ?db = (d, reason, retry)"
      by (cases "ledger_decision s (limits s) request (usage_of s db) now ?db") auto
    show ?thesis
    proof (cases "d = ResourceDecision_ALLOW")
      case True
      have ok: "over_budget (limits s) request (usage_of s ?db) = None"
        using ledger_decision_allow(1) dec True by simp
      show ?thesis
        using None dec True inv
        by (auto simp: reserve_grant_def Let_def split: sum.splits dest!: sql_insert_Inr_iff [THEN iffD1]
            intro!: ledger_inv_charge [OF inv s ok, simplified])
    qed (use None dec inv in \<open>simp add: reserve_grant_def Let_def\<close>)
  qed (use inv in \<open>simp add: reserve_grant_def Let_def\<close>)
qed

lemma ledger_inv_release_rows:
  assumes "ledger_inv limits db" "distinct (map rg_id gs)" "set gs \<subseteq> {g \<in> set (lg_grants db). is_active g}"
  shows "ledger_inv limits (snd (release_grant_rows now gs db))"
  using assms
proof (induction now gs db rule: release_grant_rows.induct)
  case (2 now g gs db)
  let ?db = "mark_released now (rg_id g) (update_usage (rg_scope_id g) (free_slot (rg_units g)) now db)"
  have "ledger_inv limits ?db"
    using 2(2,4) by (intro ledger_inv_release) (auto simp: free_slot_def)
  moreover have "set gs \<subseteq> {g \<in> set (lg_grants ?db). is_active g}"
  proof (rule subsetI)
    fix h assume h: "h \<in> set gs"
    then have "rg_id h \<noteq> rg_id g" using 2(3) by (metis list.simps(9) distinct.simps(2) image_eqI list.set_map)
    moreover have "h \<in> set (lg_grants db)" "is_active h" using h 2(4) by auto
    ultimately show "h \<in> {g \<in> set (lg_grants ?db). is_active g}"
      by (auto simp: set_sql_update image_iff)
  qed
  ultimately have "ledger_inv limits (snd (release_grant_rows now gs ?db))" using 2 by simp
  then show ?case by (simp add: Let_def split_beta)
qed simp

lemma ledger_inv_step: "ledger_inv limits db \<Longrightarrow> ledger_inv limits (ledger_step limits a db)"
proof (cases a)
  case (Lg_Release env scope i tokens cost)
  assume inv: "ledger_inv limits db"
  show ?thesis
    using inv Lg_Release
    by (auto simp: release_grant_def Let_def settle_usage_def split: option.splits dest!: sql_one_Some
        intro!: ledger_inv_release)
next
  case (Lg_Release_Scopes env scopes)
  assume inv: "ledger_inv limits db"
  then have "distinct (map rg_id (filter p (lg_grants db)))" for p
    by (simp add: ledger_inv_def keys_distinct_def distinct_map_filter)
  then show ?thesis
    using inv Lg_Release_Scopes
    by (auto simp: release_active_grants_for_scopes_def Let_def intro!: ledger_inv_release_rows)
qed (auto simp: ledger_inv_ensure ledger_inv_reserve)

interpretation ledger: op_machine "ledger_step limits" "ledger_inv limits" for limits
  by unfold_locales (rule ledger_inv_step)

section \<open>Tokens and cost\<close>

text \<open>
  A release may report more tokens or a higher cost than its grant reserved; the overruns of a run of the
  ledger are what such releases added to a scope.
\<close>

fun overrun :: "string \<Rightarrow> ledger_op \<Rightarrow> Ledger \<Rightarrow> int \<times> rat" where
  "overrun s (Lg_Release env scope i tokens cost) db =
     (if i = [] \<or> scope \<noteq> s then (0, 0)
      else case sql_one (\<lambda>g. rg_id g = i \<and> rg_scope_id g = s) (lg_grants db) of
        None \<Rightarrow> (0, 0)
      | Some g \<Rightarrow>
          if rg_status g \<noteq> ''active'' then (0, 0)
          else (case tokens of None \<Rightarrow> 0 | Some n \<Rightarrow> max 0 (max 0 n - rg_reserved_tokens g),
                case cost of None \<Rightarrow> 0 | Some c \<Rightarrow> max 0 (max 0 c - rg_reserved_cost g)))"
| "overrun s _ db = (0, 0)"

fun overruns :: "(string \<Rightarrow> ResourceLimits) \<Rightarrow> string \<Rightarrow> ledger_op list \<Rightarrow> Ledger \<Rightarrow> int \<times> rat" where
  "overruns limits s [] db = (0, 0)"
| "overruns limits s (a # ops) db =
     (let (t, c) = overrun s a db; (ts, cs) = overruns limits s ops (ledger_step limits a db) in (t + ts, c + cs))"

lemma overrun_nonneg: "0 \<le> fst (overrun s a db)" "0 \<le> snd (overrun s a db)"
  by (cases a; auto split: option.splits)+

lemma usage_of_update_cases: "usage_of t (update_usage s f now db) \<in> {usage_of t db, f (usage_of t db)}"
  by (cases "s \<in> rs_scope_id ` set (lg_scopes db)")
    (auto simp: usage_of_update, auto simp: usage_of_def update_usage_def row_of_update split: option.split)

lemma usage_of_update_other: "t \<noteq> s \<Longrightarrow> usage_of t (update_usage s f now db) = usage_of t db"
  by (auto simp: usage_of_def update_usage_def row_of_update dest: row_of_Some split: option.split)

lemma usage_of_reserve:
  "usage_of t (snd (reserve_grant env fresh s l request now db)) = usage_of t db \<or>
   t = s \<and> over_budget l request (usage_of t db) = None \<and> over_cost l request (usage_of t db) = None \<and>
     usage_of t (snd (reserve_grant env fresh s l request now db)) = charge request (usage_of t db)"
proof -
  let ?db = "ensure_scope (env_clock env) s l db"
  obtain d reason retry where dec: "ledger_decision s l request (usage_of s db) now ?db = (d, reason, retry)"
    by (cases "ledger_decision s l request (usage_of s db) now ?db") auto
  have same: "usage_of t (snd (reserve_grant env fresh s l request now db)) \<in>
      {usage_of t db} \<union> (\<lambda>gs. usage_of t (update_usage s (charge request) now (?db\<lparr>lg_grants := gs\<rparr>))) ` UNIV"
    by (auto simp: reserve_grant_def Let_def split: option.split prod.split sum.split)
  show ?thesis
  proof (cases "d = ResourceDecision_ALLOW \<and> t = s")
    case True
    note ok = ledger_decision_allow(1,4) [of s l request "usage_of s db" now ?db]
    have "usage_of t (update_usage s (charge request) now (?db\<lparr>lg_grants := gs\<rparr>)) \<in>
        {usage_of t db, charge request (usage_of t db)}" for gs
      using usage_of_update_cases [of t s "charge request" now "?db\<lparr>lg_grants := gs\<rparr>"] by simp
    then show ?thesis using same ok dec True by fastforce
  next
    case False
    then show ?thesis
      using dec usage_of_update_other [of t s]
      by (auto simp: reserve_grant_def Let_def split: option.split prod.split sum.split)
  qed
qed

lemma usage_of_release_rows:
  "ru_used_tokens (usage_of t (snd (release_grant_rows now gs db))) = ru_used_tokens (usage_of t db) \<and>
   ru_used_cost (usage_of t (snd (release_grant_rows now gs db))) = ru_used_cost (usage_of t db)"
proof (induction now gs db rule: release_grant_rows.induct)
  case (2 now g gs db)
  then show ?case
    using usage_of_update_cases [of t "rg_scope_id g" "free_slot (rg_units g)" now db]
    by (auto simp: Let_def split_beta free_slot_def)
qed simp

definition budgets_ok :: "ResourceLimits \<Rightarrow> int \<times> rat \<Rightarrow> ResourceUsage \<Rightarrow> bool" where
  "budgets_ok l over u =
     ((0 < rl_token_budget l \<longrightarrow> ru_used_tokens u \<le> rl_token_budget l + fst over) \<and>
      (0 < rl_cost_budget l \<longrightarrow> ru_used_cost u \<le> rl_cost_budget l + snd over))"

lemma budgets_ok_step:
  assumes "budgets_ok (limits s) (x, y) (usage_of s db)" "0 \<le> x" "0 \<le> y"
  shows "budgets_ok (limits s) (x + fst (overrun s a db), y + snd (overrun s a db)) (usage_of s (ledger_step limits a db))"
proof (cases a)
  case (Lg_Reserve env fresh scope request now)
  have "budgets_ok (limits s) (x, y) (charge request (usage_of s db))"
    if "over_budget (limits s) request (usage_of s db) = None" "over_cost (limits s) request (usage_of s db) = None"
    using over_budget_None(4) [OF that(1)] that(2) assms
    by (auto simp: budgets_ok_def over_cost_def charge_def split: if_splits)
  then show ?thesis
    using assms(1) usage_of_reserve [of s env fresh scope "limits scope" request now db] Lg_Reserve by auto
next
  case (Lg_Release env scope i tokens cost)
  show ?thesis
  proof (cases "i \<noteq> [] \<and> scope = s")
    case False
    then show ?thesis
      using assms(1) Lg_Release usage_of_update_other [of s scope]
      by (auto simp: release_grant_def Let_def split: option.split)
  next
    case True
    show ?thesis
    proof (cases "sql_one (\<lambda>g. rg_id g = i \<and> rg_scope_id g = s) (lg_grants db)")
      case None
      then show ?thesis using assms(1) Lg_Release True by (simp add: release_grant_def)
    next
      case (Some g)
      let ?f = "settle_usage ((case tokens of None \<Rightarrow> rg_reserved_tokens g | Some n \<Rightarrow> max 0 n) - rg_reserved_tokens g)
          ((case cost of None \<Rightarrow> rg_reserved_cost g | Some c \<Rightarrow> max 0 c) - rg_reserved_cost g) (rg_units g)"
      let ?over = "(x + fst (overrun s a db), y + snd (overrun s a db))"
      have kept: "budgets_ok (limits s) ?over (usage_of s db)"
        using assms overrun_nonneg [of s a db] by (auto simp: budgets_ok_def)
      show ?thesis
      proof (cases "is_active g")
        case False
        then show ?thesis using kept Lg_Release True Some by (simp add: release_grant_def)
      next
        case active: True
        have over: "overrun s a db = (case tokens of None \<Rightarrow> 0 | Some n \<Rightarrow> max 0 (max 0 n - rg_reserved_tokens g),
            case cost of None \<Rightarrow> 0 | Some c \<Rightarrow> max 0 (max 0 c - rg_reserved_cost g))"
          using Lg_Release True Some active by simp
        have "budgets_ok (limits s) ?over (?f (usage_of s db))"
          using assms unfolding over budgets_ok_def settle_usage_def by (cases tokens; cases cost) auto
        moreover have "usage_of s (ledger_step limits a db) = usage_of s (update_usage s ?f (env_clock env) db)"
          using Lg_Release True Some active by (simp add: release_grant_def Let_def)
        ultimately show ?thesis
          using kept usage_of_update_cases [of s s ?f "env_clock env" db] by auto
      qed
    qed
  qed
next
  case (Lg_Release_Scopes env scopes)
  then show ?thesis
    using assms(1) usage_of_release_rows [of s]
    by (simp add: budgets_ok_def release_active_grants_for_scopes_def Let_def)
qed (use assms in simp)

lemma budgets_ok_run:
  assumes "budgets_ok (limits s) (x, y) (usage_of s db)" "0 \<le> x" "0 \<le> y"
  shows "budgets_ok (limits s) (x + fst (overruns limits s ops db), y + snd (overruns limits s ops db))
    (usage_of s (fold (ledger_step limits) ops db))"
  using assms
proof (induction ops arbitrary: x y db)
  case (Cons a ops)
  let ?x = "x + fst (overrun s a db)" and ?y = "y + snd (overrun s a db)"
  have "0 \<le> ?x" "0 \<le> ?y" using Cons.prems overrun_nonneg [of s a db] by simp_all
  from Cons.IH [OF budgets_ok_step [where limits = limits and s = s and a = a, OF Cons.prems] this] show ?case
    by (simp add: Let_def split_beta add.assoc)
qed simp

section \<open>Keys\<close>

text \<open>A key that has a grant keeps it: grants are never deleted and keep scope, key and id.\<close>

definition grant_for :: "string \<Rightarrow> string \<Rightarrow> Ledger \<Rightarrow> GrantRow option" where
  "grant_for scope key db = sql_one (\<lambda>g. rg_scope_id g = scope \<and> rg_key g = key) (lg_grants db)"

definition key_taken :: "string \<times> string \<times> string \<Rightarrow> Ledger \<Rightarrow> bool" where
  "key_taken = (\<lambda>(scope, key, i) db. map_option rg_id (grant_for scope key db) = Some i)"

lemma sql_one_released:
  "map_option rg_id (sql_one (\<lambda>g. rg_scope_id g = s \<and> rg_key g = k) (released now i gs))
     = map_option rg_id (sql_one (\<lambda>g. rg_scope_id g = s \<and> rg_key g = k) gs)"
  by (induction gs) (auto simp: sql_one_def sql_simps)

lemma key_taken_mark [simp]: "key_taken v (mark_released now i db) = key_taken v db"
  by (cases v) (simp only: key_taken_def grant_for_def grants_mark sql_one_released prod.case)

lemma key_taken_cong: "lg_grants db = lg_grants db' \<Longrightarrow> key_taken v db = key_taken v db'"
  by (cases v) (simp add: key_taken_def grant_for_def)

lemma key_taken_usage [simp]: "key_taken v (update_usage s f now db) = key_taken v db"
  "key_taken v (ensure_scope c s l db) = key_taken v db"
  by (rule key_taken_cong, simp)+

lemma sql_one_append: "sql_one p t = Some r \<Longrightarrow> sql_one p (t @ rest) = Some r"
  by (induction t) (auto simp: sql_one_def)

lemma sql_one_append_new: "sql_one p t = None \<Longrightarrow> sql_one p (t @ [r]) = (if p r then Some r else None)"
  by (induction t) (auto simp: sql_one_def split: if_splits)

lemma sql_one_of_released:
  assumes "\<And>g. q (g\<lparr>rg_status := ''released'', rg_updated_at := now\<rparr>) = q g"
  shows "sql_one q (released now i gs) = map_option
    (\<lambda>g. if rg_id g = i then g\<lparr>rg_status := ''released'', rg_updated_at := now\<rparr> else g) (sql_one q gs)"
  by (induction gs) (auto simp: sql_one_def sql_simps assms)

lemma key_taken_append: "key_taken v db \<Longrightarrow> key_taken v (db\<lparr>lg_grants := lg_grants db @ [g]\<rparr>)"
  by (cases v) (auto simp: key_taken_def grant_for_def sql_one_append)

lemma key_taken_rows: "key_taken v (snd (release_grant_rows now gs db)) = key_taken v db"
  by (induction now gs db rule: release_grant_rows.induct) (simp_all add: Let_def split_beta)

lemma key_taken_reserve: "key_taken v db \<Longrightarrow> key_taken v (snd (reserve_grant env fresh s l request now db))"
  using key_taken_append [of v "ensure_scope (env_clock env) s l db"]
  by (auto simp: reserve_grant_def Let_def sql_insert_Inr_iff split: option.splits prod.splits sum.splits)

lemma key_taken_step: "key_taken v db \<Longrightarrow> key_taken v (ledger_step limits a db)"
  by (cases a) (auto simp: key_taken_reserve key_taken_rows release_grant_def
      release_active_grants_for_scopes_def Let_def split: option.splits)

interpretation ledger_keys: settling_machine "ledger_step limits" "\<lambda>_. True" key_taken for limits
  by unfold_locales (auto intro: key_taken_step)

section \<open>Properties\<close>

definition empty_ledger :: Ledger where
  "empty_ledger = \<lparr>lg_scopes = [], lg_grants = []\<rparr>"

lemma ledger_inv_empty: "ledger_inv limits empty_ledger"
  by (simp add: ledger_inv_def empty_ledger_def scope_ok_def usage_of_def no_usage_def held_units_def)

text \<open>
  C22. The books of the ledger are right under every interleaving of reservations, releases and
  recoveries: the active counter of a scope is the number of units its unreleased grants hold, it
  never exceeds the concurrency limit, and the calls ever granted never exceed the call budget. No
  release, however often repeated or concurrent with a recovery, frees a slot twice. The tokens and the
  cost of a scope exceed their budgets at most by what releases reported beyond their reservations. A
  limit of zero or less is none.
\<close>

theorem ledger_stays_within_limits:
  assumes "db = fold (ledger_step limits) ops empty_ledger"
  shows "ru_active (usage_of s db)
      = sum_list (map rg_units (filter (\<lambda>g. rg_scope_id g = s \<and> rg_status g = ''active'') (lg_grants db)))
    \<and> (0 < rl_max_concurrent (limits s) \<longrightarrow> ru_active (usage_of s db) \<le> rl_max_concurrent (limits s))
    \<and> (0 < rl_call_budget (limits s) \<longrightarrow> ru_used_calls (usage_of s db) \<le> rl_call_budget (limits s))
    \<and> (0 < rl_token_budget (limits s) \<longrightarrow>
         ru_used_tokens (usage_of s db) \<le> rl_token_budget (limits s) + fst (overruns limits s ops empty_ledger))
    \<and> (0 < rl_cost_budget (limits s) \<longrightarrow>
         ru_used_cost (usage_of s db) \<le> rl_cost_budget (limits s) + snd (overruns limits s ops empty_ledger))"
proof -
  have "ledger_inv limits db"
    unfolding assms by (rule ledger.inv_run) (rule ledger_inv_empty)
  then have books: "scope_ok limits s db" by (rule ledger_inv_scope)
  have "budgets_ok (limits s) (0, 0) (usage_of s empty_ledger)"
    by (simp add: budgets_ok_def usage_of_def empty_ledger_def no_usage_def)
  from budgets_ok_run [where limits = limits and s = s and ops = ops, OF this] have "budgets_ok (limits s) (overruns limits s ops empty_ledger) (usage_of s db)"
    by (simp add: assms)
  then show ?thesis using books unfolding scope_ok_def held_units_def budgets_ok_def by blast
qed

text \<open>
  Reservations are idempotent: once an idempotency key of a scope has a grant, every later
  reservation with that key is allowed with the id of that grant and charges nothing, after any
  operations. This holds too when the grant has been released or the budgets are exhausted.
\<close>

theorem reserve_replays_key:
  assumes "reserve_grant env fresh s limits request now db = (grant, db1)"
    and "rr_idempotency_key request \<noteq> []" and "gr_decision grant = ResourceDecision_ALLOW"
    and "fresh \<notin> rg_id ` set (lg_grants db)"
    and "db2 = fold (ledger_step config) ops db1"
    and "rr_idempotency_key again = rr_idempotency_key request"
    and "reserve_grant env' fresh' s limits' again now' db2 = (grant', db3)"
  shows "gr_decision grant' = ResourceDecision_ALLOW \<and> gr_reason grant' = ''idempotent_replay''
    \<and> gr_id grant' = gr_id grant \<and> lg_grants db3 = lg_grants db2
    \<and> (\<forall>scope. usage_of scope db3 = usage_of scope db2)"
proof -
  let ?k = "rr_idempotency_key request"
  have fresh: "row_of rg_id fresh (lg_grants db) = None" using assms(4) by (simp add: row_of_None)
  have key: "or_else ?k x = ?k" for x using assms(2) by (simp add: or_else_def)
  have "key_taken (s, ?k, gr_id grant) db1"
  proof (cases "sql_one (\<lambda>g. rg_scope_id g = s \<and> rg_key g = ?k) (lg_grants db)")
    case None
    obtain d reason retry where dec: "ledger_decision s limits request
        (usage_of s (ensure_scope (env_clock env) s limits db)) now
        (ensure_scope (env_clock env) s limits db) = (d, reason, retry)"
      by (metis prod.exhaust)
    show ?thesis
    proof (cases "d = ResourceDecision_ALLOW")
      case True
      then show ?thesis
        using assms(1) fresh None dec
        by (auto simp: reserve_grant_def Let_def key grant_from_usage_def key_taken_def grant_for_def
            sql_insert_def row_of_None sql_one_append_new)
    qed (use assms(1,3) None dec in \<open>auto simp: reserve_grant_def Let_def key grant_from_usage_def\<close>)
  next
    case (Some g)
    then show ?thesis
      using assms(1) by (auto simp: reserve_grant_def Let_def key grant_from_usage_def key_taken_def grant_for_def)
  qed
  then have "key_taken (s, ?k, gr_id grant) db2"
    unfolding assms(5) by (intro ledger_keys.settled_run) simp_all
  then obtain g where "sql_one (\<lambda>g. rg_scope_id g = s \<and> rg_key g = ?k) (lg_grants db2) = Some g" "rg_id g = gr_id grant"
    by (auto simp: key_taken_def grant_for_def)
  then show ?thesis
    using assms(6,7) by (auto simp: reserve_grant_def Let_def key grant_from_usage_def)
qed

text \<open>
  A grant is released once: a second release of it, by any worker and whatever usage it reports,
  answers the usage on record and leaves the ledger as it is.
\<close>

theorem release_is_idempotent:
  assumes "release_grant env s i tokens cost db = (usage, db1)"
  shows "release_grant env' s i tokens' cost' db1 = (usage, db1)"
proof (cases "i = [] \<or> sql_one (\<lambda>g. rg_id g = i \<and> rg_scope_id g = s) (lg_grants db) = None")
  case True
  then show ?thesis using assms by (auto simp: release_grant_def)
next
  case False
  then obtain g where g: "sql_one (\<lambda>g. rg_id g = i \<and> rg_scope_id g = s) (lg_grants db) = Some g" "i \<noteq> []" by auto
  show ?thesis
  proof (cases "is_active g")
    case True
    have "sql_one (\<lambda>g. rg_id g = i \<and> rg_scope_id g = s) (released (env_clock env) i (lg_grants db))
        = Some (g\<lparr>rg_status := ''released'', rg_updated_at := env_clock env\<rparr>)"
      using g(1) by (auto simp: sql_one_of_released dest: sql_one_Some)
    then show ?thesis
      using assms g True by (auto simp: release_grant_def Let_def)
  qed (use assms g in \<open>auto simp: release_grant_def\<close>)
qed

lemma reserve_denied:
  fixes env scope limits db
  defines "db' \<equiv> ensure_scope (env_clock env) scope limits db"
  assumes "grant_for scope (or_else (rr_idempotency_key request) fresh) db' = None"
    and "ledger_decision scope limits request (usage_of scope db') now db' = (d, reason, retry)"
    and "d \<noteq> ResourceDecision_ALLOW"
  shows "reserve_grant env fresh scope limits request now db =
    (grant_from_usage limits d reason (usage_of scope db') retry [], db')"
  using assms(2-4) unfolding db'_def by (simp add: reserve_grant_def Let_def grant_for_def)

lemma reserve_granted:
  fixes env scope limits db
  defines "db' \<equiv> ensure_scope (env_clock env) scope limits db"
  assumes "grant_for scope (or_else (rr_idempotency_key request) fresh) db' = None"
    and "ledger_decision scope limits request (usage_of scope db') now db' = (ResourceDecision_ALLOW, reason, retry)"
    and "fresh \<notin> rg_id ` set (lg_grants db')"
  shows "\<exists>gs. reserve_grant env fresh scope limits request now db =
    (grant_from_usage limits ResourceDecision_ALLOW ''ok''
       (usage_of scope (update_usage scope (charge request) now (db'\<lparr>lg_grants := gs\<rparr>))) 0 fresh,
     update_usage scope (charge request) now (db'\<lparr>lg_grants := gs\<rparr>))"
  using assms(2-4) unfolding db'_def
  by (simp add: reserve_grant_def Let_def grant_for_def sql_insert_def) blast

text \<open>
  The two admission paths agree: when the counters of a gateway without a ledger are the usage its
  scope has in the ledger of another gateway, no rate limit is set, and a cost budget comes with a
  cost estimate, a new request is decided the same way by both, for the same reason and with the
  same remaining budgets, and the counters agree again afterwards.
\<close>

theorem gateway_matches_ledger:
  assumes "\<not> uses_ledger gm" and "uses_ledger gl" and "gw_limits gm = gw_limits gl" and "rr_reserve request"
    and "gw_usage gm = usage_of (gw_scope_id gl) db" and "rl_qps_limit (gw_limits gl) \<le> 0"
    and "rl_cost_budget (gw_limits gl) \<le> 0 \<or> 0 < rr_estimated_cost request"
    and "grant_for (gw_scope_id gl) (or_else (rr_idempotency_key request) fresh) db = None"
    and "fresh \<notin> rg_id ` set (lg_grants db)"
    and "gateway_request env fresh request now gm db = (grant, gm', db1)"
    and "gateway_request env fresh request now gl db = (grant', gl', db2)"
  shows "gr_decision grant = gr_decision grant' \<and> gr_reason grant = gr_reason grant'
    \<and> gr_budget_state grant = gr_budget_state grant'
    \<and> gw_usage gm' = usage_of (gw_scope_id gl') db2 \<and> db1 = db"
proof -
  let ?s = "gw_scope_id gl" and ?l = "gw_limits gl" and ?t = "clock_or (env_clock env) now"
  let ?db = "ensure_scope (env_clock env) ?s ?l db"
  have s: "?s \<in> rs_scope_id ` set (lg_scopes ?db)" by (simp add: scopes_ensure)
  have q: "qps_retry_after ?t gm = (0, gm)" using assms(3,6) by (simp add: qps_retry_after_def)
  have cost: "\<not> (0 < rl_cost_budget ?l \<and> rr_estimated_cost request \<le> 0)" using assms(7) by linarith
  have charged: "usage_of ?s (update_usage ?s (charge request) ?t (?db\<lparr>lg_grants := gs\<rparr>))
      = charge request (usage_of ?s db)" for gs
    using usage_of_update [of ?s "?db\<lparr>lg_grants := gs\<rparr>"] s by simp
  have allow: "over_budget ?l request u \<noteq> Some (ResourceDecision_ALLOW, x)"
    "over_cost ?l request u \<noteq> Some (ResourceDecision_ALLOW, x)" for u x
    by (simp_all add: over_budget_def over_cost_def)
  have path: "gateway_request env fresh request now gl db =
      (let (g, d) = reserve_grant env fresh ?s ?l request ?t db in (g, gl, d))"
    using assms(2,4) by (simp add: gateway_request_def Let_def)
  have new: "grant_for ?s (or_else (rr_idempotency_key request) fresh) ?db = None" 
    using assms(8) by (simp add: grant_for_def)
  have denied: ?thesis if d: "ledger_decision ?s ?l request (usage_of ?s db) ?t ?db = (d, reason, 0)"
      "d \<noteq> ResourceDecision_ALLOW" and m: "gateway_request env fresh request now gm db = (gateway_grant gm d reason 0, gm, db)"
    for d reason
    using assms(10,11) [unfolded path reserve_denied [OF new d [folded usage_of_ensure [of ?s "env_clock env" ?s ?l db]]] m]
      assms(3,5) by (auto simp: gateway_grant_def grant_from_usage_def)
  show ?thesis
  proof (cases "over_budget ?l request (usage_of ?s db)")
    case (Some x)
    then obtain d reason where x: "over_budget ?l request (usage_of ?s db) = Some (d, reason)" by (cases x) auto
    show ?thesis
      by (rule denied [of d reason]) (use x assms(1,3,4,5) allow(1) in \<open>auto simp: ledger_decision_def gateway_request_def\<close>)
  next
    case None
    show ?thesis
    proof (cases "over_cost ?l request (usage_of ?s db)")
      case (Some x)
      then obtain d reason where x: "over_cost ?l request (usage_of ?s db) = Some (d, reason)" by (cases x) auto
      show ?thesis
        by (rule denied [of d reason]) (use x None cost assms(1,3,4,5) allow(2) in \<open>auto simp: ledger_decision_def gateway_request_def\<close>)
    next
      case None2: None
      have dec: "ledger_decision ?s ?l request (usage_of ?s ?db) ?t ?db = (ResourceDecision_ALLOW, ''ok'', 0)"
        using None None2 cost assms(6) by (auto simp: ledger_decision_def)
      have fresh: "fresh \<notin> rg_id ` set (lg_grants ?db)" using assms(9) by simp
      obtain gs where granted: "reserve_grant env fresh ?s ?l request ?t db =
          (grant_from_usage ?l ResourceDecision_ALLOW ''ok'' (charge request (usage_of ?s db)) 0 fresh,
           update_usage ?s (charge request) ?t (?db\<lparr>lg_grants := gs\<rparr>))"
        using reserve_granted [OF new dec fresh] charged by metis
      have "gateway_request env fresh request now gm db = (gateway_grant (gm\<lparr>gw_usage := charge request (gw_usage gm),
            gw_call_times := gw_call_times gm @ replicate (nat (rr_units request)) ?t\<rparr>) ResourceDecision_ALLOW ''ok'' 0,
          gm\<lparr>gw_usage := charge request (gw_usage gm),
            gw_call_times := gw_call_times gm @ replicate (nat (rr_units request)) ?t\<rparr>, db)"
        using assms(1,3,4,5) None None2 q by (simp add: gateway_request_def Let_def)
      then show ?thesis
        using assms(3,5,10,11) granted charged by (auto simp: path gateway_grant_def grant_from_usage_def)
    qed
  qed
qed

section \<open>Witnesses\<close>

definition sample_limits :: ResourceLimits where
  "sample_limits = \<lparr>rl_token_budget = 100, rl_call_budget = 3, rl_cost_budget = 0, rl_qps_limit = 0,
     rl_max_concurrent = 1\<rparr>"

definition sample_call :: ResourceRequest where
  "sample_call = \<lparr>rr_kind = ''llm'', rr_estimated_tokens = 10, rr_estimated_cost = 0, rr_units = 1,
     rr_idempotency_key = ''k1'', rr_reserve = True\<rparr>"

definition tick :: "time \<Rightarrow> Env" where
  "tick now = \<lparr>env_clock = now, env_uuid = (\<lambda>_. [])\<rparr>"

text \<open>The second call is refused, the first is released with twice the tokens it reserved.\<close>

theorem ledger_stays_within_limits_witness:
  "ru_active (usage_of ''s'' (fold (ledger_step (\<lambda>_. sample_limits))
     [Lg_Reserve (tick 1) ''a'' ''s'' sample_call 1,
      Lg_Reserve (tick 2) ''b'' ''s'' (sample_call\<lparr>rr_idempotency_key := []\<rparr>) 2,
      Lg_Release (tick 3) ''s'' ''a'' (Some 20) None] empty_ledger)) \<le> 1 \<and>
   ru_used_tokens (usage_of ''s'' (fold (ledger_step (\<lambda>_. sample_limits))
     [Lg_Reserve (tick 1) ''a'' ''s'' sample_call 1,
      Lg_Reserve (tick 2) ''b'' ''s'' (sample_call\<lparr>rr_idempotency_key := []\<rparr>) 2,
      Lg_Release (tick 3) ''s'' ''a'' (Some 20) None] empty_ledger)) \<le> 110"
proof -
  let ?ops = "[Lg_Reserve (tick 1) ''a'' ''s'' sample_call 1,
      Lg_Reserve (tick 2) ''b'' ''s'' (sample_call\<lparr>rr_idempotency_key := []\<rparr>) 2,
      Lg_Release (tick 3) ''s'' ''a'' (Some 20) None]"
  have lim: "rl_max_concurrent sample_limits = 1" "rl_token_budget sample_limits = 100" by (simp_all add: sample_limits_def)
  have "fst (overruns (\<lambda>_. sample_limits) ''s'' ?ops empty_ledger) = 10" by code_simp
  then show ?thesis
    using ledger_stays_within_limits [of _ "\<lambda>_. sample_limits" ?ops "''s''", OF refl] lim by simp
qed

lemma first_call:
  "gr_decision (fst (reserve_grant (tick 1) ''a'' ''s'' sample_limits sample_call 1 empty_ledger)) = ResourceDecision_ALLOW"
  "gr_id (fst (reserve_grant (tick 1) ''a'' ''s'' sample_limits sample_call 1 empty_ledger)) = ''a''"
  by code_simp+

theorem reserve_replays_key_witness:
  "gr_id (fst (reserve_grant (tick 9) ''c'' ''s'' sample_limits sample_call 9
     (fold (ledger_step (\<lambda>_. sample_limits)) [Lg_Release (tick 5) ''s'' ''a'' None None]
       (snd (reserve_grant (tick 1) ''a'' ''s'' sample_limits sample_call 1 empty_ledger))))) = ''a''"
proof -
  obtain grant db1 where r: "reserve_grant (tick 1) ''a'' ''s'' sample_limits sample_call 1 empty_ledger = (grant, db1)"
    by fastforce
  let ?db2 = "fold (ledger_step (\<lambda>_. sample_limits)) [Lg_Release (tick 5) ''s'' ''a'' None None] db1"
  obtain grant' db3 where r': "reserve_grant (tick 9) ''c'' ''s'' sample_limits sample_call 9 ?db2 = (grant', db3)"
    by fastforce
  have key: "rr_idempotency_key sample_call \<noteq> []" by (simp add: sample_call_def)
  have new: "''a'' \<notin> rg_id ` set (lg_grants empty_ledger)" by (simp add: empty_ledger_def)
  show ?thesis
    using reserve_replays_key [OF r key _ new refl refl r'] first_call r' by (simp add: r)
qed

theorem release_is_idempotent_witness:
  "snd (release_grant (tick 6) ''s'' ''a'' (Some 50) None (snd (release_grant (tick 5) ''s'' ''a'' None None
       (snd (reserve_grant (tick 1) ''a'' ''s'' sample_limits sample_call 1 empty_ledger)))))
   = snd (release_grant (tick 5) ''s'' ''a'' None None
       (snd (reserve_grant (tick 1) ''a'' ''s'' sample_limits sample_call 1 empty_ledger)))"
proof -
  let ?db = "snd (reserve_grant (tick 1) ''a'' ''s'' sample_limits sample_call 1 empty_ledger)"
  obtain usage db1 where r: "release_grant (tick 5) ''s'' ''a'' None None ?db = (usage, db1)" by fastforce
  show ?thesis using release_is_idempotent [OF r, of "tick 6" "Some 50" None] by (simp add: r)
qed

definition plain_gateway :: Gateway where
  "plain_gateway = \<lparr>gw_limits = sample_limits, gw_has_ledger = False, gw_scope_id = [], gw_usage = no_usage,
     gw_call_times = []\<rparr>"

definition ledger_gateway :: Gateway where
  "ledger_gateway = plain_gateway\<lparr>gw_has_ledger := True, gw_scope_id := ''s''\<rparr>"

theorem gateway_matches_ledger_witness:
  "gr_decision (fst (gateway_request (tick 1) ''a'' sample_call None plain_gateway empty_ledger))
   = gr_decision (fst (gateway_request (tick 1) ''a'' sample_call None ledger_gateway empty_ledger))"
proof -
  obtain g gm' db1 where a: "gateway_request (tick 1) ''a'' sample_call None plain_gateway empty_ledger = (g, gm', db1)"
    by (metis prod.exhaust)
  obtain g' gl' db2 where b: "gateway_request (tick 1) ''a'' sample_call None ledger_gateway empty_ledger = (g', gl', db2)"
    by (metis prod.exhaust)
  show ?thesis
    using gateway_matches_ledger [OF _ _ _ _ _ _ _ _ _ a b]
    by (simp add: a b) (simp add: uses_ledger_def plain_gateway_def ledger_gateway_def sample_limits_def
        sample_call_def usage_of_def empty_ledger_def grant_for_def sql_one_def)
qed

end
