(* ===== verification/Checker.thy ===== *)
theory Checker
  imports Loop_Types Loop_Contracts
begin

text \<open>
  \<open>navi/checker.py\<close>: the deterministic checker, which runs the verification ladder of a spec over
  the evidence of an attempt and says whether the attempt is accepted.
\<close>

section \<open>The checker\<close>

record CheckerReport =
  cr_accepted :: bool
  cr_blocked :: bool
  cr_timed_out :: bool
  cr_state_hint :: string
  cr_checker_results :: "LoopCheckResult list"
  cr_evidence :: dict

definition checker_report_to_dict :: "CheckerReport \<Rightarrow> dict" where
  "checker_report_to_dict r =
     [(''accepted'', JBool (cr_accepted r)), (''blocked'', JBool (cr_blocked r)),
      (''timed_out'', JBool (cr_timed_out r)), (''state_hint'', JStr (cr_state_hint r)),
      (''checker_results'', JList (map (JDict \<circ> loop_check_result_to_dict) (cr_checker_results r))),
      (''evidence'', JDict (cr_evidence r))]"

definition step_is_command_like :: "VerificationStep \<Rightarrow> bool" where
  "step_is_command_like step =
     (vs_kind step \<in> {verificationKind_str VerificationKind_UNIT_TEST,
        verificationKind_str VerificationKind_INTEGRATION_TEST,
        verificationKind_str VerificationKind_COMMAND_EXIT_CODE})"

definition checker_fact :: "dict \<Rightarrow> dict" where
  "checker_fact facts = as_dict (jget facts ''checker_fact'')"

text \<open>\<open>v == 0\<close>: in Python \<open>False\<close> and \<open>0.0\<close> equal 0 as well.\<close>

fun equals_zero :: "json \<Rightarrow> bool" where
  "equals_zero (JInt i) = (i = 0)"
| "equals_zero (JFloat q) = (q = 0)"
| "equals_zero (JBool b) = (\<not> b)"
| "equals_zero _ = False"

fun type_name :: "json \<Rightarrow> string" where
  "type_name JNull = ''NoneType''"
| "type_name (JBool b) = ''bool''"
| "type_name (JInt i) = ''int''"
| "type_name (JFloat q) = ''float''"
| "type_name (JStr s) = ''str''"
| "type_name (JList xs) = ''list''"
| "type_name (JDict d) = ''dict''"

definition command_timed_out :: "dict \<Rightarrow> bool" where
  "command_timed_out facts =
     (py_truthy (jget facts ''timed_out'') \<or> jget (checker_fact facts) ''error_type'' = JStr ''TimeoutError'')"

definition severity_of :: "bool \<Rightarrow> string" where
  "severity_of passed = loopSeverity_str (if passed then LoopSeverity_INFO else LoopSeverity_ERROR)"

definition evaluate_command_step :: "VerificationStep \<Rightarrow> string \<Rightarrow> dict \<Rightarrow> LoopCheckResult" where
  "evaluate_command_step step key facts =
     (let timed_out = command_timed_out facts;
          exit_code = jget facts ''exit_code'';
          passed = (equals_zero exit_code \<and> \<not> timed_out)
      in \<lparr>lcr_name = vs_name step, lcr_passed = passed, lcr_severity = severity_of passed,
          lcr_reason = (if timed_out then ''command_timed_out''
             else if passed then ''exit_code_zero'' else ''exit_code_nonzero''),
          lcr_evidence = [(''evidence_key'', JStr key), (''kind'', JStr (vs_kind step)),
             (''exit_code'', exit_code), (''timed_out'', JBool timed_out),
             (''error_type'', case map_of (checker_fact facts) ''error_type'' of None \<Rightarrow> JStr [] | Some v \<Rightarrow> v)]\<rparr>)"

definition boolean_fact :: "dict \<Rightarrow> json" where
  "boolean_fact facts = jget facts (if ''passed'' \<in> fst ` set facts then ''passed'' else ''ok'')"

definition evaluate_boolean_step :: "VerificationStep \<Rightarrow> string \<Rightarrow> dict \<Rightarrow> LoopCheckResult" where
  "evaluate_boolean_step step key facts =
     (let passed = py_truthy (boolean_fact facts);
          is_llm = (vs_kind step = verificationKind_str VerificationKind_LLM_CHECKER)
      in \<lparr>lcr_name = vs_name step, lcr_passed = passed, lcr_severity = severity_of passed,
          lcr_reason = (if passed then ''fact_passed'' else if is_llm then ''semantic_check_failed''
             else ''fact_failed''),
          lcr_evidence = [(''evidence_key'', JStr key), (''kind'', JStr (vs_kind step)),
             (''evidence_summary'', JStr (str_or_empty (jget facts ''evidence_summary''))),
             (''evaluator_role'', JStr (str_or_empty (jget facts ''evaluator_role''))),
             (''isolated_context'', JBool (py_truthy (jget facts ''isolated_context'')))]\<rparr>)"

definition step_key :: "VerificationStep \<Rightarrow> string" where
  "step_key step = or_else (vs_evidence_key step) (vs_name step)"

definition evaluate_step :: "VerificationStep \<Rightarrow> dict \<Rightarrow> LoopCheckResult" where
  "evaluate_step step evidence =
     (let key = step_key step in
      case jget evidence key of
        JNull \<Rightarrow> \<lparr>lcr_name = vs_name step, lcr_passed = (\<not> vs_required step),
          lcr_severity = severity_of (\<not> vs_required step),
          lcr_reason = (if vs_required step then ''evidence_missing'' else ''optional_evidence_missing''),
          lcr_evidence = [(''evidence_key'', JStr key)]\<rparr>
      | JDict facts \<Rightarrow> if step_is_command_like step then evaluate_command_step step key facts
          else evaluate_boolean_step step key facts
      | v \<Rightarrow> \<lparr>lcr_name = vs_name step, lcr_passed = False, lcr_severity = severity_of False,
          lcr_reason = ''evidence_not_object'',
          lcr_evidence = [(''evidence_key'', JStr key), (''type'', JStr (type_name v))]\<rparr>)"

definition evaluate_ladder :: "LoopSpec \<Rightarrow> dict \<Rightarrow> CheckerReport result" where
  "evaluate_ladder spec evidence =
     and_then (loop_spec_validate spec) (\<lambda>_.
     let results = map (\<lambda>step. evaluate_step step evidence) (ls_verification_ladder spec);
         failed_required = map snd (filter (\<lambda>(step, result). vs_required step \<and> \<not> lcr_passed result)
           (zip (ls_verification_ladder spec) results));
         timed_out = (\<exists>r\<in>set failed_required. jget (lcr_evidence r) ''timed_out'' = JBool True
           \<or> jget (lcr_evidence r) ''error_type'' = JStr ''TimeoutError'');
         blocked = (\<exists>r\<in>set failed_required. lcr_reason r \<in> {''evidence_missing'', ''no_route_available''});
         accepted = (failed_required = [])
     in Inr \<lparr>cr_accepted = accepted, cr_blocked = blocked, cr_timed_out = timed_out,
          cr_state_hint = (if accepted then loopTerminalState_str LoopTerminalState_CONVERGED
             else if timed_out then loopTerminalState_str LoopTerminalState_TIMED_OUT
             else if blocked then loopTerminalState_str LoopTerminalState_BLOCKED else []),
          cr_checker_results = results,
          cr_evidence = [(''required_failed'', JInt (int (length failed_required)))]\<rparr>)"

section \<open>What a step asks of its evidence\<close>

text \<open>The specification of a step, without results and reasons.\<close>

definition evidence_of :: "VerificationStep \<Rightarrow> dict \<Rightarrow> dict option" where
  "evidence_of step evidence = (case jget evidence (step_key step) of JDict facts \<Rightarrow> Some facts | _ \<Rightarrow> None)"

definition satisfied :: "VerificationStep \<Rightarrow> dict \<Rightarrow> bool" where
  "satisfied step evidence =
     (case evidence_of step evidence of
        None \<Rightarrow> False
      | Some facts \<Rightarrow>
          if step_is_command_like step then equals_zero (jget facts ''exit_code'') \<and> \<not> command_timed_out facts
          else py_truthy (boolean_fact facts))"

lemma evaluate_step_required: "vs_required step \<Longrightarrow> lcr_passed (evaluate_step step evidence) = satisfied step evidence"
  by (simp add: evaluate_step_def satisfied_def evidence_of_def evaluate_command_step_def
      evaluate_boolean_step_def Let_def split: json.split)

lemma evaluate_step_name: "lcr_name (evaluate_step step evidence) = vs_name step"
  by (simp add: evaluate_step_def evaluate_command_step_def evaluate_boolean_step_def Let_def split: json.split)

lemma zip_map_same: "zip xs (map f xs) = map (\<lambda>x. (x, f x)) xs"
  by (induction xs) auto

text \<open>The report, in terms of the steps that fail.\<close>

definition failing :: "LoopSpec \<Rightarrow> dict \<Rightarrow> VerificationStep list" where
  "failing spec evidence = filter (\<lambda>step. vs_required step \<and> \<not> satisfied step evidence) (ls_verification_ladder spec)"

lemma failed_required_eq:
  "map snd (filter (\<lambda>(step, result). vs_required step \<and> \<not> lcr_passed result)
     (zip steps (map (\<lambda>step. evaluate_step step evidence) steps)))
   = map (\<lambda>step. evaluate_step step evidence)
       (filter (\<lambda>step. vs_required step \<and> \<not> satisfied step evidence) steps)"
  unfolding zip_map_same by (induction steps) (auto simp: evaluate_step_required)

definition report_of :: "LoopSpec \<Rightarrow> dict \<Rightarrow> CheckerReport" where
  "report_of spec evidence =
     (let failed = map (\<lambda>step. evaluate_step step evidence) (failing spec evidence);
          timed_out = (\<exists>r\<in>set failed. jget (lcr_evidence r) ''timed_out'' = JBool True
             \<or> jget (lcr_evidence r) ''error_type'' = JStr ''TimeoutError'');
          blocked = (\<exists>r\<in>set failed. lcr_reason r \<in> {''evidence_missing'', ''no_route_available''})
      in \<lparr>cr_accepted = (failed = []), cr_blocked = blocked, cr_timed_out = timed_out,
          cr_state_hint = (if failed = [] then loopTerminalState_str LoopTerminalState_CONVERGED
             else if timed_out then loopTerminalState_str LoopTerminalState_TIMED_OUT
             else if blocked then loopTerminalState_str LoopTerminalState_BLOCKED else []),
          cr_checker_results = map (\<lambda>step. evaluate_step step evidence) (ls_verification_ladder spec),
          cr_evidence = [(''required_failed'', JInt (int (length failed)))]\<rparr>)"

lemma evaluate_ladder_eq:
  "evaluate_ladder spec evidence = and_then (loop_spec_validate spec) (\<lambda>_. Inr (report_of spec evidence))"
  unfolding evaluate_ladder_def report_of_def Let_def failed_required_eq failing_def ..

lemma failing_Nil: "failing spec evidence = [] \<longleftrightarrow>
    (\<forall>step\<in>set (ls_verification_ladder spec). vs_required step \<longrightarrow> satisfied step evidence)"
  by (auto simp: failing_def filter_empty_conv)

lemma failing_missing:
  "(\<exists>r\<in>set (map (\<lambda>step. evaluate_step step evidence) (failing spec evidence)). lcr_reason r = ''evidence_missing'')
   \<longleftrightarrow> (\<exists>step\<in>set (ls_verification_ladder spec). vs_required step \<and> jget evidence (step_key step) = JNull)"
proof -
  have "vs_required step \<Longrightarrow> lcr_reason (evaluate_step step evidence) = ''evidence_missing''
      \<longleftrightarrow> jget evidence (step_key step) = JNull" for step
    by (simp add: evaluate_step_def evaluate_command_step_def evaluate_boolean_step_def Let_def split: json.split)
  moreover have "jget evidence (step_key step) = JNull \<Longrightarrow> \<not> satisfied step evidence" for step
    by (simp add: satisfied_def evidence_of_def)
  ultimately show ?thesis by (auto simp: failing_def)
qed

lemma no_route_never: "lcr_reason (evaluate_step step evidence) \<noteq> ''no_route_available''"
  by (simp add: evaluate_step_def evaluate_command_step_def evaluate_boolean_step_def Let_def split: json.split)

section \<open>Properties\<close>

text \<open>
  C23. A valid spec is checked exactly as its ladder says: the report accepts, and hints at
  convergence, exactly when every required step has an object as evidence that shows exit code zero
  without a timeout (for a command) or a true fact (for any other step). Optional steps and facts
  under other keys have no say. The report has a result for each step, in the order of the ladder and
  under the name of the step, which for a required step passes exactly when the step is satisfied; it is
  blocked exactly when evidence of a required step is missing. An invalid spec is refused and nothing is
  accepted for it.
\<close>

theorem checker_accepts_iff:
  "(\<exists>report. evaluate_ladder spec evidence = Inr report \<and>
      cr_accepted report = (\<forall>step\<in>set (ls_verification_ladder spec). vs_required step \<longrightarrow> satisfied step evidence) \<and>
      (cr_state_hint report = ''converged'') = cr_accepted report \<and>
      list_all2 (\<lambda>step r. lcr_name r = vs_name step \<and> (vs_required step \<longrightarrow> lcr_passed r = satisfied step evidence))
        (ls_verification_ladder spec) (cr_checker_results report) \<and>
      cr_blocked report = (\<exists>step\<in>set (ls_verification_ladder spec).
         vs_required step \<and> jget evidence (step_key step) = JNull))
   \<longleftrightarrow> loop_spec_validate spec = Inr ()"
proof -
  have hint: "(cr_state_hint (report_of spec evidence) = ''converged'') = cr_accepted (report_of spec evidence)"
    and acc: "cr_accepted (report_of spec evidence) = (failing spec evidence = [])"
    by (simp_all add: report_of_def Let_def)
  have "cr_blocked (report_of spec evidence) = (\<exists>r\<in>set (map (\<lambda>step. evaluate_step step evidence)
      (failing spec evidence)). lcr_reason r = ''evidence_missing'')"
    using no_route_never by (simp add: report_of_def Let_def)
  moreover have "list_all2 (\<lambda>step r. lcr_name r = vs_name step \<and> (vs_required step \<longrightarrow> lcr_passed r = satisfied step evidence))
      (ls_verification_ladder spec) (cr_checker_results (report_of spec evidence))"
    by (simp add: report_of_def Let_def list_all2_conv_all_nth evaluate_step_required evaluate_step_name)
  ultimately show ?thesis
    using hint acc unfolding failing_missing failing_Nil evaluate_ladder_eq
    by (cases "loop_spec_validate spec") auto
qed

theorem checker_accepts_iff_witness:
  "\<exists>spec. (\<exists>report. evaluate_ladder spec [(''n'', JDict [(''passed'', JBool True)])] = Inr report \<and> cr_accepted report)
     \<and> (\<exists>report. evaluate_ladder spec [(''n'', JDict [(''ok'', JInt 0)])] = Inr report \<and> \<not> cr_accepted report)"
proof -
  have "and_then (loop_spec_from_goal ''i'' 5 sample_goal ''g'' [''cap''] [sample_step])
      (\<lambda>s. if map step_key (ls_verification_ladder s) = [''n''] \<and> filter step_is_command_like (ls_verification_ladder s) = []
           \<and> map vs_required (ls_verification_ladder s) = [True] then loop_spec_validate s else Inl (ValueError [])) = Inr ()"
    by code_simp
  then obtain spec where valid: "loop_spec_validate spec = Inr ()"
    and ladder: "map step_key (ls_verification_ladder spec) = [''n'']"
      "filter step_is_command_like (ls_verification_ladder spec) = []" "map vs_required (ls_verification_ladder spec) = [True]"
    by (auto split: if_splits)
  then obtain step where step: "ls_verification_ladder spec = [step]" "step_key step = ''n''"
    "\<not> step_is_command_like step" "vs_required step" by (auto simp: map_eq_Cons_conv split: if_splits)
  have "satisfied step [(''n'', JDict [(''passed'', JBool True)])]"
    "\<not> satisfied step [(''n'', JDict [(''ok'', JInt 0)])]"
    using step(2,3) by (simp_all add: satisfied_def evidence_of_def boolean_fact_def jget_def)
  then show ?thesis
    using checker_accepts_iff [of spec "[(''n'', JDict [(''passed'', JBool True)])]"]
      checker_accepts_iff [of spec "[(''n'', JDict [(''ok'', JInt 0)])]"] valid step by auto
qed

end
