(* ===== verification/Cron.thy ===== *)
theory Cron
  imports Py_Json
begin

text \<open>
  \<open>navi/cron.py\<close>: the five-field schedules of recurring goals. A local date and time is the number
  of minutes since the first of January of the year 1, as \<open>base + timedelta(minutes=...)\<close> counts
  them; its fields are those of Python's \<open>datetime\<close>, by the proleptic Gregorian calendar. The
  translation between local time and the clock (\<open>fromtimestamp\<close>, \<open>timestamp\<close>) belongs to the time
  zone and is left to the caller, and so is the year 9999, where \<open>datetime\<close> ends.
\<close>

section \<open>The calendar\<close>

definition minutes_per_day :: int where "minutes_per_day = 1440"

definition day_of :: "int \<Rightarrow> int" where "day_of t = t div minutes_per_day"
definition hour_of :: "int \<Rightarrow> int" where "hour_of t = t mod minutes_per_day div 60"
definition minute_of :: "int \<Rightarrow> int" where "minute_of t = t mod 60"

text \<open>Monday is 0; the first day of the calendar is a Monday.\<close>

definition weekday_of :: "int \<Rightarrow> int" where "weekday_of t = day_of t mod 7"

text \<open>Month and day of the \<open>n\<close>-th day of a year, counted from 0.\<close>

fun month_day :: "int \<Rightarrow> int list \<Rightarrow> int \<Rightarrow> int \<times> int" where
  "month_day m [] n = (m, n + 1)"
| "month_day m (len # lens) n = (if n < len then (m, n + 1) else month_day (m + 1) lens (n - len))"

definition month_lengths :: "bool \<Rightarrow> int list" where
  "month_lengths leap = [31, if leap then 29 else 28, 31, 30, 31, 30, 31, 31, 30, 31, 30]"

definition date_of_day :: "int \<Rightarrow> int \<times> int \<times> int" where
  "date_of_day n =
     (let n400 = n div 146097; r400 = n mod 146097;
          n100 = r400 div 36524; r100 = r400 mod 36524;
          n4 = r100 div 1461; r4 = r100 mod 1461;
          n1 = r4 div 365; r = r4 mod 365;
          year = 400 * n400 + 100 * n100 + 4 * n4 + n1 + 1
      in if n1 = 4 \<or> n100 = 4 then (year - 1, 12, 31)
         else (let (m, d) = month_day 1 (month_lengths (n1 = 3 \<and> (n4 \<noteq> 24 \<or> n100 = 3))) r in (year, m, d)))"

definition month_of :: "int \<Rightarrow> int" where "month_of t = fst (snd (date_of_day (day_of t)))"
definition day_of_month :: "int \<Rightarrow> int" where "day_of_month t = snd (snd (date_of_day (day_of t)))"

section \<open>Fields\<close>

fun words_from :: "string \<Rightarrow> string \<Rightarrow> string list" where
  "words_from cur [] = (if cur = [] then [] else [cur])"
| "words_from cur (c # s) =
     (if is_py_space c then (if cur = [] then words_from [] s else cur # words_from [] s)
      else words_from (cur @ [c]) s)"

definition py_split :: "string \<Rightarrow> string list" where
  "py_split s = words_from [] s"

fun split_on :: "char \<Rightarrow> string \<Rightarrow> string list" where
  "split_on sep [] = [[]]"
| "split_on sep (c # s) = (if c = sep then [] # split_on sep s
     else (case split_on sep s of [] \<Rightarrow> [[c]] | w # ws \<Rightarrow> (c # w) # ws))"

fun py_ints :: "string list \<Rightarrow> int list result" where
  "py_ints [] = Inr []"
| "py_ints (s # ss) = and_then (py_int s) (\<lambda>v. and_then (py_ints ss) (\<lambda>vs. Inr (v # vs)))"

definition field_error :: "string \<Rightarrow> int \<Rightarrow> int \<Rightarrow> py_error" where
  "field_error field lo hi = ValueError (''Cron field value must be between '' @ show_int lo
     @ '' and '' @ show_int hi @ '': '' @ field)"

definition parse_field :: "string \<Rightarrow> int \<Rightarrow> int \<Rightarrow> int list result" where
  "parse_field field min_value max_value =
     (if field = ''*'' then Inr [min_value..max_value]
      else and_then
        (if py_startswith field ''*/''
         then and_then (py_int (drop 2 field)) (\<lambda>step.
           if step \<le> 0 then Inl (ValueError ''Cron step must be greater than zero'')
           else Inr (filter (\<lambda>v. (v - min_value) mod step = 0) [min_value..max_value]))
         else py_ints (split_on (CHR '','') field)) (\<lambda>values.
        if \<exists>v\<in>set values. v < min_value \<or> max_value < v
        then Inl (field_error field min_value max_value)
        else Inr values))"

definition field_matches :: "string \<Rightarrow> int \<Rightarrow> int \<Rightarrow> int \<Rightarrow> bool result" where
  "field_matches field v min_value max_value =
     and_then (parse_field field min_value max_value) (\<lambda>values. Inr (v \<in> set values))"

definition field_ranges :: "(int \<times> int) list" where
  "field_ranges = [(0, 59), (0, 23), (1, 31), (1, 12), (0, 6)]"

definition validate_cron :: "string \<Rightarrow> unit result" where
  "validate_cron expression =
     (let parts = py_split expression
      in if length parts \<noteq> 5 then Inl (ValueError ''Cron expression must have 5 fields'')
         else each_ok (\<lambda>(part, lo, hi). and_then (parse_field part lo hi) (\<lambda>_. Inr ())) (zip parts field_ranges))"

section \<open>The next time\<close>

definition time_fields :: "int \<Rightarrow> int list" where
  "time_fields t = [minute_of t, hour_of t, day_of_month t, month_of t, (weekday_of t + 1) mod 7]"

text \<open>The conjunction of the five tests, which stops at the first that fails or raises.\<close>

fun all_match :: "(string \<times> int \<times> int \<times> int) list \<Rightarrow> bool result" where
  "all_match [] = Inr True"
| "all_match ((field, v, lo, hi) # rest) =
     and_then (field_matches field v lo hi) (\<lambda>b. if b then all_match rest else Inr False)"

definition cron_matches :: "string list \<Rightarrow> int \<Rightarrow> bool result" where
  "cron_matches parts t = all_match (zip parts (zip (time_fields t) field_ranges))"

function scan_minutes :: "(int \<Rightarrow> bool result) \<Rightarrow> int \<Rightarrow> int \<Rightarrow> int option result" where
  "scan_minutes f t stop =
     (if stop < t then Inr None
      else and_then (f t) (\<lambda>b. if b then Inr (Some t) else scan_minutes f (t + 1) stop))"
  by auto
termination by (relation "measure (\<lambda>(f, t, stop). nat (stop - t + 1))") auto

declare scan_minutes.simps [simp del]

text \<open>\<open>range(1, 366 * 24 * 60)\<close> ends one minute before 366 days.\<close>

definition horizon :: int where "horizon = 366 * 24 * 60 - 1"

definition unpack_error :: "nat \<Rightarrow> py_error" where
  "unpack_error n =
     (if n < 5 then ValueError (''not enough values to unpack (expected 5, got '' @ show_nat n @ '')'')
      else ValueError ''too many values to unpack (expected 5)'')"

definition no_run :: "string \<Rightarrow> py_error" where
  "no_run expression = ValueError (''Cron expression has no run in the next year: '' @ expression)"

definition next_cron_time :: "string \<Rightarrow> int \<Rightarrow> int result" where
  "next_cron_time expression base =
     (let parts = py_split expression
      in if length parts \<noteq> 5 then Inl (unpack_error (length parts))
         else and_then (scan_minutes (cron_matches parts) (base + 1) (base + horizon)) (\<lambda>found.
           case found of None \<Rightarrow> Inl (no_run expression) | Some t \<Rightarrow> Inr t))"

section \<open>Lemmas\<close>

lemma calendar_examples:
  "date_of_day 0 = (1, 1, 1)" "date_of_day 738944 = (2024, 2, 29)" "date_of_day 738945 = (2024, 3, 1)"
  "date_of_day 739250 = (2024, 12, 31)" "date_of_day 739251 = (2025, 1, 1)"
  "date_of_day 730178 = (2000, 2, 29)" "date_of_day 693653 = (1900, 2, 28)" "date_of_day 693654 = (1900, 3, 1)"
  "date_of_day 738885 = (2024, 1, 1)"
  by code_simp+

text \<open>The scan finds the first minute that passes a test which does not raise.\<close>

lemma scan_minutes_first:
  assumes "\<And>u. t \<le> u \<Longrightarrow> u \<le> stop \<Longrightarrow> f u = Inr (g u)"
  shows "\<exists>found. scan_minutes f t stop = Inr found \<and>
           (case found of
              None \<Rightarrow> (\<forall>u. t \<le> u \<and> u \<le> stop \<longrightarrow> \<not> g u)
            | Some v \<Rightarrow> t \<le> v \<and> v \<le> stop \<and> g v \<and> (\<forall>u. t \<le> u \<and> u < v \<longrightarrow> \<not> g u))"
  using assms
proof (induction f t stop rule: scan_minutes.induct)
  case (1 f t stop)
  show ?case
  proof (cases "stop < t \<or> g t")
    case True
    then show ?thesis using "1.prems" [of t] by (subst scan_minutes.simps) (auto split: if_splits)
  next
    case False
    then have here: "f t = Inr (g t)" and past: "\<not> stop < t" "\<not> g t" using "1.prems" by auto
    obtain found where found: "scan_minutes f (t + 1) stop = Inr found"
      and first: "case found of
              None \<Rightarrow> (\<forall>u. t + 1 \<le> u \<and> u \<le> stop \<longrightarrow> \<not> g u)
            | Some v \<Rightarrow> t + 1 \<le> v \<and> v \<le> stop \<and> g v \<and> (\<forall>u. t + 1 \<le> u \<and> u < v \<longrightarrow> \<not> g u)"
      using "1.IH" [of "g t"] past here "1.prems" by auto
    have "scan_minutes f t stop = Inr found" using past here found by (subst scan_minutes.simps) simp
    moreover have "u = t \<or> t + 1 \<le> u" if "t \<le> u" for u using that by linarith
    ultimately show ?thesis using first past
      by (cases found) (simp; metis order_less_imp_le zless_add1_eq)+
  qed
qed

text \<open>A validated field has its values, and a test against it does not raise.\<close>

definition field_values :: "string \<Rightarrow> int \<times> int \<Rightarrow> int list" where
  "field_values field bounds = (case parse_field field (fst bounds) (snd bounds) of Inl _ \<Rightarrow> [] | Inr vs \<Rightarrow> vs)"

definition on_schedule :: "string \<Rightarrow> int \<Rightarrow> bool" where
  "on_schedule expression t =
     list_all2 (\<lambda>v vs. v \<in> set vs) (time_fields t) (map2 field_values (py_split expression) field_ranges)"

lemma field_matches_value:
  "parse_field p lo hi = Inr vs \<Longrightarrow> field_matches p v lo hi = Inr (v \<in> set (field_values p (lo, hi)))"
  by (simp add: field_matches_def field_values_def)

lemma field_values_in_range:
  assumes "parse_field p lo hi = Inr vs" "v \<in> set vs"
  shows "lo \<le> v \<and> v \<le> hi"
proof (cases "p = ''*''")
  case True
  then show ?thesis using assms by (auto simp: parse_field_def)
next
  case False
  then show ?thesis
    using assms by (auto simp: parse_field_def not_less split: if_splits)
qed

lemma length_5: "length xs = 5 \<longleftrightarrow> (\<exists>a b c d e. xs = [a, b, c, d, e])"
  by (auto simp: numeral_eq_Suc length_Suc_conv)

lemma each_ok_zip:
  "each_ok (\<lambda>(p, lo, hi). and_then (parse_field p lo hi) (\<lambda>_. Inr ())) (zip ps rs) = Inr () \<longleftrightarrow>
   (\<forall>(p, lo, hi) \<in> set (zip ps rs). \<exists>vs. parse_field p lo hi = Inr vs)"
proof (induction ps arbitrary: rs)
  case (Cons p ps)
  then show ?case by (cases rs) auto
qed simp

lemma validate_cron_iff:
  "validate_cron e = Inr () \<longleftrightarrow>
   length (py_split e) = 5 \<and> (\<forall>(p, lo, hi) \<in> set (zip (py_split e) field_ranges). \<exists>vs. parse_field p lo hi = Inr vs)"
  by (simp add: validate_cron_def each_ok_zip Let_def)

lemma all_match_values:
  assumes "\<forall>(p, lo, hi) \<in> set (zip ps rs). \<exists>vs. parse_field p lo hi = Inr vs"
      and "length ps = length vs" "length rs = length vs"
  shows "all_match (zip ps (zip vs rs)) = Inr (list_all2 (\<lambda>v s. v \<in> set s) vs (map2 field_values ps rs))"
  using assms
proof (induction vs arbitrary: ps rs)
  case (Cons v vs)
  obtain p ps' where ps: "ps = p # ps'" using Cons.prems by (cases ps) auto
  obtain lo hi rs' where rs: "rs = (lo, hi) # rs'" using Cons.prems by (cases rs) auto
  obtain s where "parse_field p lo hi = Inr s" using Cons.prems ps rs by auto
  then show ?case using Cons ps rs by (simp add: field_matches_value)
qed simp

lemma cron_matches_valid:
  assumes "validate_cron e = Inr ()"
  shows "cron_matches (py_split e) t = Inr (on_schedule e t)"
  using all_match_values [of "py_split e" field_ranges "time_fields t"] assms
  by (simp add: cron_matches_def on_schedule_def validate_cron_iff field_ranges_def time_fields_def)

lemma next_cron_time_cases:
  assumes valid: "validate_cron e = Inr ()"
  shows "(\<exists>t. next_cron_time e base = Inr t \<and> base < t \<and> t \<le> base + horizon \<and> on_schedule e t \<and>
              (\<forall>u. base < u \<and> u < t \<longrightarrow> \<not> on_schedule e u)) \<or>
         (next_cron_time e base = Inl (no_run e) \<and>
              (\<forall>u. base < u \<and> u \<le> base + horizon \<longrightarrow> \<not> on_schedule e u))"
proof -
  obtain found where "scan_minutes (cron_matches (py_split e)) (base + 1) (base + horizon) = Inr found"
    and "case found of
           None \<Rightarrow> (\<forall>u. base + 1 \<le> u \<and> u \<le> base + horizon \<longrightarrow> \<not> on_schedule e u)
         | Some v \<Rightarrow> base + 1 \<le> v \<and> v \<le> base + horizon \<and> on_schedule e v \<and>
             (\<forall>u. base + 1 \<le> u \<and> u < v \<longrightarrow> \<not> on_schedule e u)"
    using scan_minutes_first [of "base + 1" "base + horizon" "cron_matches (py_split e)" "on_schedule e"]
      cron_matches_valid [OF valid] by auto
  moreover have "length (py_split e) = 5" using valid by (simp add: validate_cron_iff)
  ultimately show ?thesis
    by (cases found) (simp_all add: next_cron_time_def zless_iff_Suc_zadd int_one_le_iff_zero_less add1_zle_eq)
qed

section \<open>Properties\<close>

text \<open>
  C26. A schedule that passed \<open>validate_cron\<close> never makes \<open>next_cron_time\<close> fail on parsing: the answer
  is the first minute after \<open>base\<close> whose five fields are all among the values of the schedule, and
  the only error is "no run in the next year", given exactly when no such minute lies within the
  horizon of 366 days less one minute.
\<close>

theorem next_cron_contract:
  assumes "validate_cron e = Inr ()"
  shows "case next_cron_time e base of
           Inr t \<Rightarrow> base < t \<and> t \<le> base + horizon \<and> on_schedule e t \<and> (\<nexists>u. base < u \<and> u < t \<and> on_schedule e u)
         | Inl err \<Rightarrow> err = no_run e \<and> (\<nexists>u. base < u \<and> u \<le> base + horizon \<and> on_schedule e u)"
  using next_cron_time_cases [OF assms, of base] by auto

definition weekday_mornings :: string where "weekday_mornings = ''30 8 * * 1,2,3,4,5''"

lemma weekday_mornings_valid: "validate_cron weekday_mornings = Inr ()"
  by code_simp

text \<open>On Friday 2024-03-01 at 08:30 the next run is Monday 2024-03-04 at 08:30.\<close>

theorem next_cron_contract_witness:
  "(\<exists>t. next_cron_time weekday_mornings (738945 * 1440 + 510) = Inr t \<and> on_schedule weekday_mornings t) \<and>
   on_schedule weekday_mornings (738948 * 1440 + 510)"
proof -
  have there: "on_schedule weekday_mornings (738948 * 1440 + 510)" by code_simp
  have within: "738945 * 1440 + 510 < (738948 * 1440 + 510 :: int)"
    "738948 * 1440 + 510 \<le> 738945 * 1440 + 510 + horizon" by (simp_all add: horizon_def)
  show ?thesis
    using next_cron_contract [OF weekday_mornings_valid, of "738945 * 1440 + 510"] there within
    by (cases "next_cron_time weekday_mornings (738945 * 1440 + 510)") auto
qed

definition new_year :: string where "new_year = ''0 0 1 1 *''"

definition new_year_2024 :: int where "new_year_2024 = 738885 * 1440"

lemma new_year_valid: "validate_cron new_year = Inr ()"
  by code_simp

lemma new_year_fields:
  "map2 field_values (py_split new_year) field_ranges = [[0], [0], [1], [1], [0, 1, 2, 3, 4, 5, 6]]"
  by code_simp

lemma on_new_year:
  assumes "on_schedule new_year t"
  shows "t mod 1440 = 0 \<and> day_of_month t = 1 \<and> month_of t = 1"
proof -
  have "minute_of t = 0" "hour_of t = 0" "day_of_month t = 1" "month_of t = 1"
    using assms unfolding on_schedule_def new_year_fields time_fields_def by auto
  moreover have "t mod 1440 = 60 * (t mod 1440 div 60) + t mod 60"
    using mult_div_mod_eq [of 60 "t mod 1440"] by (simp add: mod_mod_cancel)
  ultimately show ?thesis by (simp add: minute_of_def hour_of_def minutes_per_day_def)
qed

lemma month_day_ge: "m \<le> fst (month_day m lens n)"
  by (induction m lens n rule: month_day.induct) auto

lemma div_mod_at:
  "q * d \<le> x \<Longrightarrow> x < q * d + d \<Longrightarrow> x div d = q \<and> x mod d = x - q * d" for q d x :: int
  using int_div_pos_eq [of x d q "x - q * d"] int_mod_pos_eq [of x d q "x - q * d"] by simp

lemma no_new_year_within_365_days:
  assumes "1 \<le> k" "k \<le> 365"
  shows "snd (date_of_day (738885 + k)) \<noteq> (1, 1)"
proof (cases "k = 365")
  case True
  then show ?thesis by (simp add: date_of_day_def Let_def)
next
  case False
  note steps = div_mod_at [of 5 146097 "738885 + k"] div_mod_at [of 0 36524 "8400 + k"]
    div_mod_at [of 5 1461 "8400 + k"] div_mod_at [of 3 365 "1095 + k"]
  from steps have "snd (date_of_day (738885 + k)) = month_day 1 (month_lengths True) k"
    using assms False by (simp add: date_of_day_def Let_def split: prod.split)
  moreover have "month_day 1 (month_lengths True) k =
      (if k < 31 then (1, k + 1) else month_day 2 (tl (month_lengths True)) (k - 31))"
    by (simp add: month_lengths_def)
  moreover have "2 \<le> fst (month_day 2 (tl (month_lengths True)) (k - 31))" by (rule month_day_ge)
  ultimately show ?thesis using assms by auto
qed

text \<open>
  The yearly schedule of New Year, asked for its next run in the very minute of its run of 2024, has
  none: the horizon of \<open>range(1, 366 * 24 * 60)\<close> minutes ends one minute before the New Year of 2025,
  since 2024 has 366 days. \<open>daemon.py\<close> then blocks and ends the recurring goal as invalid. A minute
  later the same call finds the run of 2025.
\<close>

theorem yearly_schedule_ends_in_leap_year:
  "validate_cron new_year = Inr () \<and> on_schedule new_year new_year_2024 \<and>
   next_cron_time new_year new_year_2024 = Inl (no_run new_year) \<and>
   next_cron_time new_year (new_year_2024 + 1) = Inr (new_year_2024 + 366 * 1440)"
proof -
  have on_2024: "on_schedule new_year new_year_2024" by code_simp
  have on_2025: "on_schedule new_year (new_year_2024 + 366 * 1440)" by code_simp
  have none: "\<not> on_schedule new_year u" if "new_year_2024 < u" "u < new_year_2024 + 366 * 1440" for u
  proof
    assume on: "on_schedule new_year u"
    define k where "k = u div 1440 - 738885"
    have u: "u = 1440 * (738885 + k)" using on_new_year [OF on] by (auto simp: k_def)
    then have "1 \<le> k" "k \<le> 365" using that by (auto simp: new_year_2024_def)
    then have "snd (date_of_day (738885 + k)) \<noteq> (1, 1)" by (rule no_new_year_within_365_days)
    moreover have "day_of u = 738885 + k" using u by (simp add: day_of_def minutes_per_day_def)
    ultimately show False
      using on_new_year [OF on] by (auto simp: month_of_def day_of_month_def prod_eq_iff)
  qed
  have "next_cron_time new_year new_year_2024 = Inl (no_run new_year)"
    using next_cron_time_cases [OF new_year_valid, of new_year_2024] none by (auto simp: horizon_def)
  moreover have "next_cron_time new_year (new_year_2024 + 1) = Inr (new_year_2024 + 366 * 1440)"
    using next_cron_time_cases [OF new_year_valid, of "new_year_2024 + 1"] none on_2025
    by (auto simp: horizon_def)
  ultimately show ?thesis using new_year_valid on_2024 by simp
qed

end
