(* ===== verification/Lifecycle_Saga.thy ===== *)
theory Lifecycle_Saga
  imports Approval_Service
begin

text \<open>
  \<open>navi/lifecycle_saga.py\<close>: the saga that carries the outcome of a loop run into its run and its
  goal, which live in other databases, and the recovery of creations that stopped halfway.

  \<open>apply\<close> is a sequence of transactions, one per store; \<open>after_crash\<close> is what the first of them
  leave behind. An exception keeps what the earlier transactions wrote, so the answers are pairs of
  a result and the stores. The column \<open>created_at\<close> of \<open>loop_runs\<close>, which only the recovery reads, is
  the argument \<open>created\<close>.
\<close>

section \<open>State\<close>

record LifecycleSaga =
  sg_id :: string
  sg_operation_key :: string
  sg_run_id :: string
  sg_goal_id :: string
  sg_payload :: json
  sg_status :: string
  sg_attempts :: int
  sg_last_error :: string
  sg_created_at :: time
  sg_updated_at :: time
  sg_completed_at :: time

record SagaHome =
  sh_home :: Home
  sh_sagas :: "LifecycleSaga list"

section \<open>Preparing\<close>

definition saga_payload :: "dict \<Rightarrow> dict \<Rightarrow> dict \<Rightarrow> dict" where
  "saga_payload run_updates goal_evidence loop_transition =
     [(''run_updates'', JDict run_updates), (''goal_evidence'', JDict goal_evidence),
      (''loop_transition'', JDict loop_transition)]"

definition prepare_saga ::
  "Env \<Rightarrow> string \<Rightarrow> string \<Rightarrow> string \<Rightarrow> dict \<Rightarrow> dict \<Rightarrow> dict \<Rightarrow> SagaHome \<Rightarrow> LifecycleSaga result \<times> SagaHome" where
  "prepare_saga env operation_key rid gid run_updates goal_evidence loop_transition s =
     (let row = \<lparr>sg_id = env_uuid env 0, sg_operation_key = operation_key, sg_run_id = rid, sg_goal_id = gid,
             sg_payload = JDict (saga_payload run_updates goal_evidence loop_transition),
             sg_status = ''pending'', sg_attempts = 0, sg_last_error = [], sg_created_at = env_clock env,
             sg_updated_at = env_clock env, sg_completed_at = 0\<rparr>
      in if operation_key \<in> sg_operation_key ` set (sh_sagas s)
         then (case row_of sg_operation_key operation_key (sh_sagas s) of
                 None \<Rightarrow> (Inl (RuntimeError ''lifecycle saga was not persisted''), s)
               | Some saga \<Rightarrow> (Inr saga, s))
         else (case sql_insert sg_id row (sh_sagas s) of
                 Inl e \<Rightarrow> (Inl e, s)
               | Inr rows \<Rightarrow>
                   (case row_of sg_operation_key operation_key rows of
                      None \<Rightarrow> (Inl (RuntimeError ''lifecycle saga was not persisted''), s\<lparr>sh_sagas := rows\<rparr>)
                    | Some saga \<Rightarrow> (Inr saga, s\<lparr>sh_sagas := rows\<rparr>))))"

definition get_saga :: "string \<Rightarrow> SagaHome \<Rightarrow> LifecycleSaga option" where
  "get_saga saga_id s = row_of sg_id saga_id (sh_sagas s)"

section \<open>Applying\<close>

text \<open>\<open>f"{type(error).__name__}: {error}"\<close>; the text of a \<open>KeyError\<close> is the \<open>repr\<close> of its key.\<close>

fun exception_text :: "py_error \<Rightarrow> string" where
  "exception_text (ValueError m) = ''ValueError: '' @ m"
| "exception_text (KeyError m) = ''KeyError: '' @ repr_str m"
| "exception_text (RuntimeError m) = ''RuntimeError: '' @ m"
| "exception_text (TypeError m) = ''TypeError: '' @ m"
| "exception_text (IntegrityError m) = ''IntegrityError: '' @ m"
| "exception_text (OperationalError m) = ''OperationalError: '' @ m"
| "exception_text (ChildAdmissionConflict m) = ''ChildAdmissionConflict: '' @ m"
| "exception_text (ProgrammingError m) = ''ProgrammingError: '' @ m"
| "exception_text (OSError m) = ''OSError: '' @ m"

definition mark_saga_failed :: "time \<Rightarrow> string \<Rightarrow> py_error \<Rightarrow> LifecycleSaga list \<Rightarrow> LifecycleSaga list" where
  "mark_saga_failed now saga_id e rows =
     sql_update (\<lambda>r. sg_id r = saga_id)
       (\<lambda>r. r\<lparr>sg_status := ''failed'', sg_attempts := sg_attempts r + 1,
             sg_last_error := exception_text e, sg_updated_at := now\<rparr>) rows"

definition mark_saga_completed :: "time \<Rightarrow> string \<Rightarrow> LifecycleSaga list \<Rightarrow> LifecycleSaga list" where
  "mark_saga_completed now saga_id rows =
     sql_update (\<lambda>r. sg_id r = saga_id)
       (\<lambda>r. r\<lparr>sg_status := ''completed'', sg_attempts := sg_attempts r + 1, sg_last_error := [],
             sg_updated_at := now, sg_completed_at := now\<rparr>) rows"

fun unhashable :: "json \<Rightarrow> bool" where
  "unhashable (JList xs) = True"
| "unhashable (JDict d) = True"
| "unhashable v = False"

definition apply_loop_transition :: "Env \<Rightarrow> json \<Rightarrow> LoopDb \<Rightarrow> LoopDb result" where
  "apply_loop_transition env loop_transition db =
     (let t = as_dict loop_transition; kind = jget t ''kind'';
          loop_run_id = str_or_empty (jget t ''loop_run_id''); evidence = jget t ''evidence''
      in if t = [] then Inr db
         else if unhashable kind then Inl (TypeError ''unhashable type'')
         else if kind \<noteq> JStr ''external_wait_cancel'' \<and> kind \<noteq> JStr ''external_wait_pause''
         then Inl (ValueError ''unsupported lifecycle saga loop transition'')
         else if loop_run_id = [] \<or> \<not> is_dict evidence
         then Inl (ValueError ''external-wait lifecycle transition is invalid'')
         else and_then
           (if kind = JStr ''external_wait_cancel''
            then cancel_external_wait env loop_run_id (as_dict evidence) db db
            else pause_external_wait env loop_run_id (as_dict evidence) db db)
           (\<lambda>(_, db'). Inr db'))"

text \<open>
  \<open>update_run(saga.run_id, **run_updates)\<close>: an unknown keyword raises at the call, a value that
  SQLite cannot bind to a text column raises at the statement; numbers become texts there.
\<close>

definition update_keywords :: "string list" where
  "update_keywords = [''phase'', ''governance'', ''acceptance'', ''resolution'', ''plan_summary'',
     ''result_summary'', ''error'', ''trust_rule_id'', ''autonomy_level'']"

fun text_of :: "json \<Rightarrow> string option" where
  "text_of JNull = None"
| "text_of (JStr t) = Some t"
| "text_of (JBool b) = Some (if b then ''1'' else ''0'')"
| "text_of v = Some (py_repr v)"

definition updates_of :: "dict \<Rightarrow> RunUpdates" where
  "updates_of d =
     \<lparr>up_phase = text_of (jget d ''phase''), up_governance = text_of (jget d ''governance''),
      up_acceptance = text_of (jget d ''acceptance''), up_resolution = text_of (jget d ''resolution''),
      up_plan_summary = text_of (jget d ''plan_summary''),
      up_result_summary = text_of (jget d ''result_summary''), up_error = text_of (jget d ''error''),
      up_trust_rule_id = text_of (jget d ''trust_rule_id''),
      up_autonomy_level = text_of (jget d ''autonomy_level'')\<rparr>"

fun bindable :: "json \<Rightarrow> bool" where
  "bindable (JList xs) = False"
| "bindable (JDict d) = False"
| "bindable v = True"

definition update_run_kwargs :: "time \<Rightarrow> string \<Rightarrow> dict \<Rightarrow> RunDb \<Rightarrow> (Run option \<times> RunDb) result" where
  "update_run_kwargs now rid d db =
     (case find (\<lambda>k. k \<notin> set update_keywords) (map fst d) of
        Some k \<Rightarrow> Inl (TypeError (''RunStore.update_run() got an unexpected keyword argument '' @ repr_str k))
      | None \<Rightarrow>
          if get_run rid db \<noteq> None \<and> list_ex (\<lambda>kv. \<not> bindable (snd kv)) d
          then Inl (ProgrammingError ''Error binding parameter'')
          else Inr (update_run now rid (updates_of d) db))"

definition project_run :: "time \<Rightarrow> string \<Rightarrow> dict \<Rightarrow> RunDb \<Rightarrow> (Run \<times> RunDb) result" where
  "project_run now rid run_updates db =
     and_then (update_run_kwargs now rid run_updates db) (\<lambda>(run, db').
       case run of None \<Rightarrow> Inl (KeyError (''run not found: '' @ rid)) | Some r \<Rightarrow> Inr (r, db'))"

definition project_goal :: "Env \<Rightarrow> string \<Rightarrow> string \<Rightarrow> Run \<Rightarrow> dict \<Rightarrow> GoalDb \<Rightarrow> Goal result \<times> GoalDb" where
  "project_goal env rid gid run goal_evidence db =
     (let (goal, db') = update_for_run env run goal_evidence db db
      in case goal of
           None \<Rightarrow> (Inl (KeyError (''goal not found for run: '' @ rid)), db')
         | Some g \<Rightarrow> if g_id g \<noteq> gid then (Inl (KeyError (''goal not found for run: '' @ rid)), db')
                     else (Inr g, db'))"

definition project_saga :: "Env \<Rightarrow> LifecycleSaga \<Rightarrow> Home \<Rightarrow> (Run \<times> Goal) result \<times> Home" where
  "project_saga env saga home =
     (let payload = as_dict (sg_payload saga)
      in case apply_loop_transition env (jget payload ''loop_transition'') (hm_loops home) of
           Inl e \<Rightarrow> (Inl e, home)
         | Inr loops \<Rightarrow>
             (case project_run (env_clock env) (sg_run_id saga) (as_dict (jget payload ''run_updates''))
                     (hm_runs home) of
                Inl e \<Rightarrow> (Inl e, home\<lparr>hm_loops := loops\<rparr>)
              | Inr (run, runs) \<Rightarrow>
                  (case project_goal env (sg_run_id saga) (sg_goal_id saga) run
                          (as_dict (jget payload ''goal_evidence'')) (hm_goals home) of
                     (Inl e, goals) \<Rightarrow> (Inl e, home\<lparr>hm_loops := loops, hm_runs := runs, hm_goals := goals\<rparr>)
                   | (Inr goal, goals) \<Rightarrow>
                       (Inr (run, goal), home\<lparr>hm_loops := loops, hm_runs := runs, hm_goals := goals\<rparr>))))"

definition valid_payload :: "LifecycleSaga \<Rightarrow> bool" where
  "valid_payload saga =
     (is_dict (jget (as_dict (sg_payload saga)) ''run_updates'')
      \<and> is_dict (jget (as_dict (sg_payload saga)) ''goal_evidence''))"

definition apply_saga :: "Env \<Rightarrow> LifecycleSaga \<Rightarrow> SagaHome \<Rightarrow> (Run \<times> Goal) result \<times> SagaHome" where
  "apply_saga env saga s =
     (if \<not> valid_payload saga then (Inl (ValueError ''lifecycle saga payload is invalid''), s)
      else case project_saga env saga (sh_home s) of
          (Inl e, home) \<Rightarrow>
            (Inl e, s\<lparr>sh_home := home, sh_sagas := mark_saga_failed (env_clock env) (sg_id saga) e (sh_sagas s)\<rparr>)
        | (Inr out, home) \<Rightarrow>
            (Inr out, s\<lparr>sh_home := home, sh_sagas := mark_saga_completed (env_clock env) (sg_id saga) (sh_sagas s)\<rparr>))"

section \<open>Recovery\<close>

definition unfinished :: "LifecycleSaga \<Rightarrow> bool" where
  "unfinished r = (sg_status r \<in> {''pending'', ''failed''})"

fun recover_sagas :: "Env \<Rightarrow> LifecycleSaga list \<Rightarrow> SagaHome \<Rightarrow> string list \<times> SagaHome" where
  "recover_sagas env [] s = ([], s)"
| "recover_sagas env (saga # rest) s =
     (case apply_saga env saga s of
        (Inl _, s') \<Rightarrow> recover_sagas env rest s'
      | (Inr _, s') \<Rightarrow> (let (ids, s'') = recover_sagas env rest s' in (sg_id saga # ids, s'')))"

definition recover_pending :: "Env \<Rightarrow> int \<Rightarrow> SagaHome \<Rightarrow> string list \<times> SagaHome" where
  "recover_pending env limit s =
     recover_sagas env (sql_limit (max 1 limit) (sql_asc sg_updated_at (filter unfinished (sh_sagas s)))) s"

text \<open>
  \<open>recover_open_orphans\<close>: creations that stopped between two stores and are older than a grace
  period. Which rows are orphans is decided on the lists taken at the start.
\<close>

definition orphan_error :: "string \<Rightarrow> RunUpdates" where
  "orphan_error error = no_updates\<lparr>up_phase := Some (phase_str Phase_ENDED),
     up_governance := Some (governance_str Governance_NONE),
     up_acceptance := Some (acceptance_str Acceptance_REJECTED),
     up_resolution := Some (resolution_str Resolution_FAILED),
     up_result_summary := Some ''cross_store_open_recovered'', up_error := Some error\<rparr>"

definition goal_missing :: RunUpdates where
  "goal_missing = orphan_error ''goal projection missing after loop creation grace period''"

definition loop_missing :: RunUpdates where
  "loop_missing = orphan_error ''loop run missing after creation grace period''"

definition orphan_goal :: GoalUpdates where
  "orphan_goal = \<lparr>gu_phase = phase_str Phase_ENDED, gu_governance = governance_str Governance_NONE,
     gu_acceptance = acceptance_str Acceptance_REJECTED, gu_resolution = resolution_str Resolution_FAILED,
     gu_task_status = ''archived'', gu_blocked_reason = ''loop run missing after creation grace period'',
     gu_evidence = [(''recovery'', JStr ''cross_store_open_orphan'')],
     gu_event_type = ''goal.open_orphan_recovered''\<rparr>"

definition run_is_orphan :: "time \<Rightarrow> string list \<Rightarrow> Run \<Rightarrow> bool" where
  "run_is_orphan cutoff goal_run_ids r =
     (py_startswith (run_kind r) ''loop:'' \<and> run_id r \<notin> set goal_run_ids
      \<and> run_phase r \<noteq> phase_str Phase_ENDED \<and> run_created_at r \<le> cutoff)"

definition goal_is_orphan :: "time \<Rightarrow> string list \<Rightarrow> Goal \<Rightarrow> bool" where
  "goal_is_orphan cutoff loop_goal_ids g =
     (g_id g \<notin> set loop_goal_ids \<and> g_phase g \<noteq> phase_str Phase_ENDED \<and> g_created_at g \<le> cutoff)"

definition loop_is_orphan :: "(string \<Rightarrow> time) \<Rightarrow> time \<Rightarrow> string list \<Rightarrow> LoopRunState \<Rightarrow> bool" where
  "loop_is_orphan created cutoff goal_ids s =
     (lr_goal_id s \<notin> set goal_ids \<and> lr_terminal_state s = [] \<and> created (lr_run_id s) \<le> cutoff)"

definition fail_orphan_run :: "time \<Rightarrow> Run \<Rightarrow> RunDb \<Rightarrow> RunDb" where
  "fail_orphan_run now r db = snd (update_run now (run_id r) goal_missing db)"

definition fail_run_of_goal :: "time \<Rightarrow> string list \<Rightarrow> Goal \<Rightarrow> RunDb \<Rightarrow> RunDb" where
  "fail_run_of_goal now run_ids g db =
     (case (if g_run_id g \<in> set run_ids then get_run (g_run_id g) db else None) of
        None \<Rightarrow> db
      | Some run \<Rightarrow> if run_phase run = phase_str Phase_ENDED then db
          else snd (update_run now (run_id run) loop_missing db))"

definition fail_orphan_goal :: "Env \<Rightarrow> string list \<Rightarrow> Goal \<Rightarrow> Home \<Rightarrow> Home" where
  "fail_orphan_goal env run_ids g home =
     home\<lparr>hm_runs := fail_run_of_goal (env_clock env) run_ids g (hm_runs home),
          hm_goals := snd (update_goal_state env (g_id g) orphan_goal (hm_goals home) (hm_goals home))\<rparr>"

definition fail_orphan_loop :: "time \<Rightarrow> LoopRunState \<Rightarrow> LoopDb \<Rightarrow> LoopDb" where
  "fail_orphan_loop now s db =
     db\<lparr>ld_runs := sql_update (\<lambda>r. lr_run_id r = lr_run_id s \<and> lr_terminal_state r = [])
       (\<lambda>r. r\<lparr>lr_terminal_state := ts_str LoopTerminalState_FAILED,
             lr_evidence := [(''recovery'', JStr ''cross_store_open_orphan''),
               (''reason'', JStr ''goal missing after creation grace period'')],
             lr_version := lr_version r + 1, lr_lease_owner := [], lr_lease_expires_at := 0,
             lr_updated_at := now\<rparr>) (ld_runs db)\<rparr>"

record OrphanReport =
  op_runs :: "string list"
  op_goals :: "string list"
  op_loop_runs :: "string list"

definition orphan_cutoff :: "Env \<Rightarrow> time option \<Rightarrow> time \<Rightarrow> time" where
  "orphan_cutoff env now grace_seconds =
     (case now of None \<Rightarrow> env_clock env | Some t \<Rightarrow> t) - max 1 grace_seconds"

definition recover_open_orphans ::
  "(string \<Rightarrow> time) \<Rightarrow> Env \<Rightarrow> time option \<Rightarrow> time \<Rightarrow> Home \<Rightarrow> OrphanReport \<times> Home" where
  "recover_open_orphans created env now grace_seconds home =
     (let current_time = (case now of None \<Rightarrow> env_clock env | Some t \<Rightarrow> t);
          cutoff = orphan_cutoff env now grace_seconds;
          run_rows = list_runs 100000 0 (hm_runs home);
          goal_rows = list_goals [] 100000 (hm_goals home);
          orphan_runs = filter (run_is_orphan cutoff (map g_run_id goal_rows)) run_rows;
          home = home\<lparr>hm_runs := fold (fail_orphan_run (env_clock env)) orphan_runs (hm_runs home)\<rparr>;
          loop_rows = ld_runs (hm_loops home);
          orphan_goals = filter (goal_is_orphan cutoff (map lr_goal_id loop_rows)) goal_rows;
          home = fold (fail_orphan_goal env (map run_id run_rows)) orphan_goals home;
          orphan_loops = filter (loop_is_orphan created cutoff (map g_id goal_rows)) loop_rows;
          home = home\<lparr>hm_loops := fold (fail_orphan_loop current_time) orphan_loops (hm_loops home)\<rparr>
      in (\<lparr>op_runs = map run_id orphan_runs, op_goals = map g_id orphan_goals,
           op_loop_runs = map lr_run_id orphan_loops\<rparr>, home))"

section \<open>Crashes\<close>

text \<open>The stores after the first \<open>n\<close> of the three transactions of an \<open>apply\<close>.\<close>

definition after_crash :: "nat \<Rightarrow> Env \<Rightarrow> LifecycleSaga \<Rightarrow> Home \<Rightarrow> Home" where
  "after_crash n env saga home =
     (let (out, done_home) = project_saga env saga home
      in home\<lparr>hm_loops := if 1 \<le> n then hm_loops done_home else hm_loops home,
              hm_runs := if 2 \<le> n then hm_runs done_home else hm_runs home,
              hm_goals := if 3 \<le> n then hm_goals done_home else hm_goals home\<rparr>)"

text \<open>Equal up to the moments of the writes, and for loop runs up to the number of writes.\<close>

definition timeless_run :: "Run \<Rightarrow> Run" where "timeless_run r = r\<lparr>run_updated_at := 0\<rparr>"

definition timeless_goal :: "Goal \<Rightarrow> Goal" where
  "timeless_goal g = g\<lparr>g_updated_at := 0, g_completed_at := 0\<rparr>"

definition timeless_loop :: "LoopRunState \<Rightarrow> LoopRunState" where
  "timeless_loop s = s\<lparr>lr_updated_at := 0, lr_version := 0\<rparr>"

definition same_runs :: "RunDb \<Rightarrow> RunDb \<Rightarrow> bool" where
  "same_runs a b = (map timeless_run (db_runs a) = map timeless_run (db_runs b))"

definition same_goals :: "GoalDb \<Rightarrow> GoalDb \<Rightarrow> bool" where
  "same_goals a b = (map timeless_goal (gd_goals a) = map timeless_goal (gd_goals b))"

definition same_loops :: "LoopDb \<Rightarrow> LoopDb \<Rightarrow> bool" where
  "same_loops a b = (map timeless_loop (ld_runs a) = map timeless_loop (ld_runs b))"

definition same_home :: "Home \<Rightarrow> Home \<Rightarrow> bool" where
  "same_home a b = (same_runs (hm_runs a) (hm_runs b) \<and> same_goals (hm_goals a) (hm_goals b) \<and>
     same_loops (hm_loops a) (hm_loops b))"

section \<open>Lemmas\<close>

lemma as_dict_JDict [simp]: "as_dict (JDict d) = d"
  by (simp add: as_dict_def)

text \<open>Merging a dictionary that is there already changes nothing.\<close>

lemma update_present: "map_of d k = Some v \<Longrightarrow> AList.update k v d = d"
  by (induction d) (auto split: if_splits)

lemma dict_merge_present:
  "(\<And>k v. (k, v) \<in> set b \<Longrightarrow> map_of d k = Some v) \<Longrightarrow> dict_merge d b = d"
  by (induction d b rule: dict_merge.induct) (auto simp: dict_set_def update_present)

lemma map_of_dict_merge_notin: "k \<notin> fst ` set b \<Longrightarrow> map_of (dict_merge a b) k = map_of a k"
  by (induction a b rule: dict_merge.induct) (auto simp: dict_set_def update_conv')

lemma map_of_dict_merge_in:
  "distinct (map fst b) \<Longrightarrow> (k, v) \<in> set b \<Longrightarrow> map_of (dict_merge a b) k = Some v"
  by (induction a b rule: dict_merge.induct)
    (auto simp: dict_set_def update_conv' map_of_dict_merge_notin image_iff)

lemma dict_merge_idem: "distinct (map fst b) \<Longrightarrow> dict_merge (dict_merge a b) b = dict_merge a b"
  by (rule dict_merge_present) (rule map_of_dict_merge_in)

text \<open>The table after an update by key is the old one up to what the update writes.\<close>

lemma map_timeless_update:
  assumes "\<And>r. r \<in> set t \<Longrightarrow> p r \<Longrightarrow> h (f r) = h (g r)" "\<And>r. r \<in> set t \<Longrightarrow> p r \<longleftrightarrow> q r"
  shows "map h (sql_update p f t) = map h (sql_update q g t)"
  using assms by (auto simp: sql_update_def)

lemma sql_update_twice:
  assumes "\<And>r. p r \<Longrightarrow> p (f r)"
  shows "sql_update p g (sql_update p f t) = sql_update p (g \<circ> f) t"
  using assms by (auto simp: sql_update_def)

section \<open>The run\<close>

lemma or_keep_idem [simp]: "or_keep v (or_keep v x) = or_keep v x"
  by (simp add: or_keep_def split: option.split)

lemma merged_run_id [simp]: "run_id (merge_run_updates now u run row) = run_id row"
  by (simp add: merge_run_updates_def)

lemma timeless_merge:
  "timeless_run (merge_run_updates now u run row) = timeless_run (merge_run_updates later u run row)"
  by (simp add: timeless_run_def merge_run_updates_def)

lemma timeless_merge_again:
  "timeless_run (merge_run_updates later u (merge_run_updates now u run row) (merge_run_updates now u run row)) =
   timeless_run (merge_run_updates now u run row)"
  by (simp add: timeless_run_def merge_run_updates_def)

lemma project_run_Inr:
  "project_run now rid d db = Inr (run, db') \<longleftrightarrow>
   (\<exists>row. get_run rid db = Some row \<and> find (\<lambda>k. k \<notin> set update_keywords) (map fst d) = None \<and>
      \<not> list_ex (\<lambda>kv. \<not> bindable (snd kv)) d \<and>
      run = merge_run_updates now (updates_of d) row row \<and>
      db' = db\<lparr>db_runs := sql_update (\<lambda>r. run_id r = rid) (merge_run_updates now (updates_of d) row) (db_runs db)\<rparr>)"
  (is "?l = ?r")
proof (cases "get_run rid db")
  case None
  then show ?thesis
    by (auto simp: project_run_def update_run_kwargs_def update_run_def split: option.splits)
next
  case (Some row)
  then have "row_of run_id rid (sql_update (\<lambda>r. run_id r = rid) (merge_run_updates now (updates_of d) row) (db_runs db))
      = Some (merge_run_updates now (updates_of d) row row)"
    by (auto simp: row_of_update get_run_def dest: row_of_Some)
  with Some show ?thesis
    by (auto simp: project_run_def update_run_kwargs_def update_run_def Let_def get_run_def split: option.splits)
qed

section \<open>The goal\<close>

definition loop_kind_of :: "Goal \<Rightarrow> json" where
  "loop_kind_of g = (case map_of (g_evidence g) ''loop_kind'' of None \<Rightarrow> JStr [] | Some v \<Rightarrow> v)"

definition run_facts :: "Run \<Rightarrow> dict \<Rightarrow> dict" where
  "run_facts run evidence =
     (let facts = (if evidence \<noteq> [] then evidence else
            [(''run_id'', JStr (run_id run)), (''run_phase'', JStr (run_phase run)),
             (''run_governance'', JStr (run_governance run)), (''run_acceptance'', JStr (run_acceptance run)),
             (''run_resolution'', JStr (run_resolution run))])
      in if snd (snd (snd (goal_state_for_run run))) = ''blocked'' \<and> run_error run \<noteq> []
         then dict_merge facts [(''run_error'', JStr (run_error run))] else facts)"

definition asked :: "Run \<Rightarrow> dict \<Rightarrow> json \<Rightarrow> GoalUpdates" where
  "asked run evidence loop_kind =
     (let (phase, governance, acceptance, resolution) = goal_state_for_run run
      in \<lparr>gu_phase = phase, gu_governance = governance, gu_acceptance = acceptance,
          gu_resolution = resolution, gu_task_status = task_status_for_run (goal_state_for_run run) loop_kind,
          gu_blocked_reason = (if resolution = ''blocked'' then ''run_blocked'' else []),
          gu_evidence = run_facts run evidence, gu_event_type = ''goal.run_state''\<rparr>)"

lemma update_for_run_asked:
  assumes "get_by_run (run_id run) db = Some g"
  shows "update_for_run env run evidence db db =
    update_goal_state env (g_id g) (asked run evidence (loop_kind_of g)) db db"
proof -
  obtain p v a r where st: "goal_state_for_run run = (p, v, a, r)" by (cases "goal_state_for_run run") auto
  have "r = ''blocked'' \<Longrightarrow> \<not> (run_phase run = ''ended'' \<and> run_resolution run = ''success'' \<and> run_error run = [])"
    using goal_state_for_run_cases(5) [OF st] by auto
  then show ?thesis
    using assms unfolding update_for_run_def asked_def run_facts_def loop_kind_of_def st Let_def
    by (auto simp: st)
qed

lemma run_fields_timeless:
  assumes "timeless_run a = timeless_run b"
  shows "run_id a = run_id b" "run_phase a = run_phase b" "run_governance a = run_governance b"
    "run_acceptance a = run_acceptance b" "run_resolution a = run_resolution b" "run_error a = run_error b"
  using assms by (cases a; cases b; simp add: timeless_run_def)+

lemma asked_timeless:
  assumes "timeless_run a = timeless_run b"
  shows "asked a = asked b"
  unfolding asked_def run_facts_def goal_state_for_run_def run_fields_timeless [OF assms] ..

lemma run_facts_keys:
  assumes "distinct (map fst evidence)" "''loop_kind'' \<notin> fst ` set evidence"
  shows "distinct (map fst (run_facts run evidence))" "''loop_kind'' \<notin> fst ` set (run_facts run evidence)"
  using assms by (auto simp: run_facts_def dict_set_def dom_update distinct_update)

lemma updated_goal_moments:
  "timeless_goal (updated_goal env u seen row) = timeless_goal (updated_goal env' u seen row)"
  by (simp add: timeless_goal_def updated_goal_def)

lemma or_else_idem [simp]: "or_else a (or_else a b) = or_else a b"
  by (simp add: or_else_def)

lemma updated_goal_again:
  assumes "distinct (map fst (gu_evidence u))"
  shows "timeless_goal (updated_goal env' u (updated_goal env u g g) (updated_goal env u g g)) =
    timeless_goal (updated_goal env u g g)"
  using assms by (simp add: timeless_goal_def updated_goal_def dict_merge_idem)

lemma loop_kind_kept:
  "''loop_kind'' \<notin> fst ` set (gu_evidence u) \<Longrightarrow> loop_kind_of (updated_goal env u g g) = loop_kind_of g"
  by (simp add: loop_kind_of_def map_of_dict_merge_notin)

lemma distinct_singleton: "distinct xs \<Longrightarrow> set xs = {x} \<Longrightarrow> xs = [x]"
  by (cases xs) (auto simp: subset_singleton_iff)

text \<open>A run that has one goal.\<close>

definition only_goal :: "string \<Rightarrow> string \<Rightarrow> GoalDb \<Rightarrow> bool" where
  "only_goal rid gid db = (list_all (\<lambda>g. g_run_id g = rid \<longrightarrow> g_id g = gid) (gd_goals db)
     \<and> keys_distinct g_id (gd_goals db))"

lemma get_by_run_only:
  assumes "only_goal rid gid db" "get_goal gid db = Some g" "g_run_id g = rid"
  shows "get_by_run rid db = Some g"
proof -
  have mem: "x \<in> set (gd_goals db) \<and> g_run_id x = rid \<longleftrightarrow> x = g" for x
    using assms row_of_member [of g_id "gd_goals db" x]
    by (auto simp: only_goal_def get_goal_def list_all_iff dest: row_of_Some)
  have "distinct (filter (\<lambda>g. g_run_id g = rid) (gd_goals db))"
    using assms(1) by (auto simp: only_goal_def keys_distinct_def distinct_map)
  moreover have "set (filter (\<lambda>g. g_run_id g = rid) (gd_goals db)) = {g}" using mem by auto
  ultimately have "filter (\<lambda>g. g_run_id g = rid) (gd_goals db) = [g]" by (rule distinct_singleton)
  then show ?thesis by (simp add: get_by_run_def first_row_def sql_desc_def)
qed

lemma update_goal_state_now:
  assumes "get_goal gid db = Some g"
  shows "fst (update_goal_state env gid u db db) = Some (updated_goal env u g g)"
    "gd_goals (snd (update_goal_state env gid u db db)) =
       sql_update (\<lambda>r. g_id r = gid) (updated_goal env u g) (gd_goals db)"
proof -
  show "gd_goals (snd (update_goal_state env gid u db db)) =
       sql_update (\<lambda>r. g_id r = gid) (updated_goal env u g) (gd_goals db)"
    using assms by (simp add: update_goal_state_def updated_goal_def [abs_def] Let_def)
  have "fst (update_goal_state env gid u db db) = get_goal gid (snd (update_goal_state env gid u db db))"
    using assms by (simp add: update_goal_state_def Let_def)
  then show "fst (update_goal_state env gid u db db) = Some (updated_goal env u g g)"
    using update_goal_state_row [OF assms, of gid env u db] assms by simp
qed

lemma project_goal_ok:
  assumes "only_goal (run_id run) gid db" "get_goal gid db = Some g" "g_run_id g = run_id run"
    and u_def: "u = asked run evidence (loop_kind_of g)"
  obtains db' where "project_goal env rid gid run evidence db = (Inr (updated_goal env u g g), db')"
    "gd_goals db' = sql_update (\<lambda>r. g_id r = gid) (updated_goal env u g) (gd_goals db)"
proof (rule that)
  have id: "g_id g = gid" using assms(2) by (auto simp: get_goal_def dest: row_of_Some)
  let ?out = "update_goal_state env gid u db db"
  have "update_for_run env run evidence db db = ?out"
    using update_for_run_asked [OF get_by_run_only [OF assms(1-3)]] id by (simp add: u_def)
  then show "project_goal env rid gid run evidence db = (Inr (updated_goal env u g g), snd ?out)"
    using update_goal_state_now(1) [OF assms(2), of env u] id
    by (simp add: project_goal_def prod.case_eq_if)
  show "gd_goals (snd ?out) = sql_update (\<lambda>r. g_id r = gid) (updated_goal env u g) (gd_goals db)"
    by (rule update_goal_state_now(2) [OF assms(2)])
qed

lemma project_goal_row:
  assumes "only_goal (run_id run) gid db" "project_goal env rid gid run evidence db = (Inr goal, db')"
  obtains g where "get_goal gid db = Some g" "g_run_id g = run_id run"
proof (cases "get_by_run (run_id run) db")
  case None
  then show thesis using assms(2) by (simp add: project_goal_def update_for_run_def)
next
  case (Some g)
  then have "g \<in> set (gd_goals db)" "g_run_id g = run_id run" by (auto dest: get_by_run_Some)
  with assms(1) have "get_goal gid db = Some g"
    using row_of_member [of g_id "gd_goals db" g] by (simp add: only_goal_def get_goal_def list_all_iff)
  then show thesis using \<open>g_run_id g = run_id run\<close> by (rule that)
qed

text \<open>The goal's step from the goals it meets, and once more from the goals it left.\<close>

lemma project_goal_replays:
  assumes only: "only_goal (run_id run) gid db"
      and committed: "project_goal env rid gid run evidence db = (Inr goal, db1)"
      and run': "timeless_run run' = timeless_run run"
      and facts: "distinct (map fst evidence)" "''loop_kind'' \<notin> fst ` set evidence"
  shows "\<exists>goal' db2. project_goal env' rid gid run' evidence db = (Inr goal', db2) \<and>
           timeless_goal goal' = timeless_goal goal \<and> same_goals db2 db1"
    and "\<exists>goal' db2. project_goal env' rid gid run' evidence db1 = (Inr goal', db2) \<and>
           timeless_goal goal' = timeless_goal goal \<and> same_goals db2 db1"
proof -
  obtain g where g: "get_goal gid db = Some g" "g_run_id g = run_id run"
    using project_goal_row [OF only committed] .
  define u where "u = asked run evidence (loop_kind_of g)"
  have id: "run_id run' = run_id run" by (rule run_fields_timeless(1) [OF run'])
  have u': "asked run' evidence (loop_kind_of g) = u" by (simp add: u_def asked_timeless [OF run'])
  have ev: "gu_evidence u = run_facts run evidence"
    by (simp add: u_def asked_def split: prod.split)
  have dist: "distinct (map fst (gu_evidence u))" "''loop_kind'' \<notin> fst ` set (gu_evidence u)"
    unfolding ev by (rule run_facts_keys [OF facts])+
  obtain db1' where first: "project_goal env rid gid run evidence db = (Inr (updated_goal env u g g), db1')"
    "gd_goals db1' = sql_update (\<lambda>r. g_id r = gid) (updated_goal env u g) (gd_goals db)"
    using project_goal_ok [OF only g, where evidence = evidence and env = env and rid = rid] u_def by metis
  have goal: "goal = updated_goal env u g g" "db1' = db1" using first(1) committed by auto
  obtain db2 where other: "project_goal env' rid gid run' evidence db = (Inr (updated_goal env' u g g), db2)"
    "gd_goals db2 = sql_update (\<lambda>r. g_id r = gid) (updated_goal env' u g) (gd_goals db)"
    using project_goal_ok [of run' gid db g, where evidence = evidence and env = env' and rid = rid]
      only g id u' by metis
  have "same_goals db2 db1"
    unfolding same_goals_def other(2) first(2) [unfolded goal(2)]
    by (rule map_timeless_update) (simp_all add: updated_goal_moments)
  moreover have "timeless_goal (updated_goal env' u g g) = timeless_goal goal"
    unfolding goal(1) by (rule updated_goal_moments)
  ultimately show "\<exists>goal' db2. project_goal env' rid gid run' evidence db = (Inr goal', db2) \<and>
           timeless_goal goal' = timeless_goal goal \<and> same_goals db2 db1"
    using other(1) by blast
  let ?h = "updated_goal env u g g"
  have rows1: "gd_goals db1 = sql_update (\<lambda>r. g_id r = gid) (updated_goal env u g) (gd_goals db)"
    using first(2) goal(2) by simp
  have runs: "g_run_id (updated_goal e u g r) = g_run_id r" for e r by (simp add: updated_goal_def)
  have only1: "only_goal (run_id run') gid db1"
    using only unfolding only_goal_def rows1 id
    by (auto simp: list_all_iff set_sql_update runs intro!: keys_distinct_update)
  have g1: "get_goal gid db1 = Some ?h"
    using g(1) unfolding get_goal_def rows1 by (auto simp: row_of_update dest: row_of_Some)
  have h: "g_run_id ?h = run_id run'" using g(2) id runs by simp
  have u1: "asked run' evidence (loop_kind_of ?h) = u" using u' loop_kind_kept [OF dist(2)] by simp
  obtain db3 where again: "project_goal env' rid gid run' evidence db1 = (Inr (updated_goal env' u ?h ?h), db3)"
    "gd_goals db3 = sql_update (\<lambda>r. g_id r = gid) (updated_goal env' u ?h) (gd_goals db1)"
    using project_goal_ok [OF only1 g1 h, where evidence = evidence and env = env' and rid = rid] u1 by metis
  have keys: "keys_distinct g_id (gd_goals db1)" using only1 by (simp add: only_goal_def)
  have "map timeless_goal (gd_goals db3) = map timeless_goal (gd_goals db1)"
  proof -
    have "timeless_goal (if g_id r = gid then updated_goal env' u ?h r else r) = timeless_goal r"
      if "r \<in> set (gd_goals db1)" for r
    proof (cases "g_id r = gid")
      case True
      then have "r = ?h" using row_of_member [OF keys that] g1 by (simp add: get_goal_def)
      then show ?thesis using updated_goal_again [OF dist(1)] True by simp
    qed simp
    then show ?thesis unfolding again(2) by (simp add: sql_update_def)
  qed
  moreover have "timeless_goal (updated_goal env' u ?h ?h) = timeless_goal goal"
    unfolding goal(1) by (rule updated_goal_again [OF dist(1)])
  ultimately show "\<exists>goal' db2. project_goal env' rid gid run' evidence db1 = (Inr goal', db2) \<and>
           timeless_goal goal' = timeless_goal goal \<and> same_goals db2 db1"
    using again(1) by (auto simp: same_goals_def)
qed

section \<open>The loop run\<close>

text \<open>An update of one row that leaves it as it was, up to \<open>h\<close>.\<close>

lemma update_one_same:
  assumes "keys_distinct key t" "row_of key k t = Some r" "h (f r) = h r"
    and "\<And>x. p x \<Longrightarrow> key x = k"
  shows "map h (sql_update p f t) = map h t"
proof -
  have "h (if p x then f x else x) = h x" if "x \<in> set t" for x
    using row_of_member [OF assms(1) that] assms(2-4) by auto
  then show ?thesis by (simp add: sql_update_def)
qed

lemma project_run_replays:
  assumes keys: "keys_distinct run_id (db_runs db)" and committed: "project_run now rid d db = Inr (run, db1)"
  shows "\<exists>run' db2. project_run later rid d db = Inr (run', db2) \<and>
           timeless_run run' = timeless_run run \<and> same_runs db2 db1"
    and "\<exists>run' db2. project_run later rid d db1 = Inr (run', db2) \<and>
           timeless_run run' = timeless_run run \<and> same_runs db2 db1"
    and "run_id run = rid"
proof -
  let ?u = "updates_of d"
  obtain row where row: "get_run rid db = Some row"
    and ok: "find (\<lambda>k. k \<notin> set update_keywords) (map fst d) = None" "\<not> list_ex (\<lambda>kv. \<not> bindable (snd kv)) d"
    and run: "run = merge_run_updates now ?u row row"
    and db1: "db1 = db\<lparr>db_runs := sql_update (\<lambda>r. run_id r = rid) (merge_run_updates now ?u row) (db_runs db)\<rparr>"
    using committed unfolding project_run_Inr by auto
  have id: "run_id row = rid" using row by (auto simp: get_run_def dest: row_of_Some)
  show "run_id run = rid" using id run by simp
  have "same_runs (db\<lparr>db_runs := sql_update (\<lambda>r. run_id r = rid) (merge_run_updates later ?u row) (db_runs db)\<rparr>) db1"
    unfolding db1 same_runs_def by (simp, rule map_timeless_update) (simp_all add: timeless_merge)
  moreover have "timeless_run (merge_run_updates later ?u row row) = timeless_run run"
    unfolding run by (rule timeless_merge)
  ultimately show "\<exists>run' db2. project_run later rid d db = Inr (run', db2) \<and>
           timeless_run run' = timeless_run run \<and> same_runs db2 db1"
    unfolding project_run_Inr using row ok by blast
  have row1: "get_run rid db1 = Some run"
    using row id unfolding db1 run get_run_def by (simp add: row_of_update)
  have keys1: "keys_distinct run_id (db_runs db1)"
    using keys unfolding db1 by (simp add: keys_distinct_update)
  have again: "timeless_run (merge_run_updates later ?u run run) = timeless_run run"
    unfolding run by (rule timeless_merge_again)
  have "map timeless_run (sql_update (\<lambda>r. run_id r = rid) (merge_run_updates later ?u run) (db_runs db1))
      = map timeless_run (db_runs db1)"
    using update_one_same [where h = timeless_run and f = "merge_run_updates later ?u run", OF keys1 row1 [unfolded get_run_def] again]
    by simp
  then have "same_runs (db1\<lparr>db_runs := sql_update (\<lambda>r. run_id r = rid) (merge_run_updates later ?u run) (db_runs db1)\<rparr>) db1"
    by (simp add: same_runs_def)
  then show "\<exists>run' db2. project_run later rid d db1 = Inr (run', db2) \<and>
           timeless_run run' = timeless_run run \<and> same_runs db2 db1"
    unfolding project_run_Inr using row1 ok again by blast
qed

definition stopped_at :: "time \<Rightarrow> LoopTerminalState \<Rightarrow> dict \<Rightarrow> LoopRunState \<Rightarrow> LoopRunState \<Rightarrow> LoopRunState" where
  "stopped_at now target evidence cur r =
     r\<lparr>lr_terminal_state := ts_str target, lr_evidence := dict_merge (lr_evidence cur) evidence,
       lr_updated_at := now, lr_version := lr_version cur + 1, lr_lease_owner := [], lr_lease_expires_at := 0\<rparr>"

lemma transition_to_rows:
  assumes "keys_distinct lr_run_id (ld_runs db)" "get_loop_run rid db = Some cur"
  obtains db' where "transition_to env rid cur target ev ty (\<lambda>_. True) now db = Inr (stopped_at now target ev cur cur, db')"
    "ld_runs db' = sql_update (\<lambda>r. lr_run_id r = rid \<and> lr_version r = lr_version cur) (stopped_at now target ev cur) (ld_runs db)"
proof -
  have "sql_count (\<lambda>r. lr_run_id r = rid \<and> lr_version r = lr_version cur) (ld_runs db) = 1"
    using sql_count_by_key [OF assms(1), of rid "\<lambda>r. lr_version r = lr_version cur"] assms(2)
    by (simp add: get_loop_run_def)
  then show thesis
    by (intro that [of "insert_event env (stopped_at now target ev cur cur) ty [] ev
          (db\<lparr>ld_runs := sql_update (\<lambda>r. lr_run_id r = rid \<and> lr_version r = lr_version cur)
             (stopped_at now target ev cur) (ld_runs db)\<rparr>)"])
      (simp_all add: transition_to_def commit_state_def stopped_at_def [abs_def] insert_event_def Let_def)
qed

lemma stopped_moments: "timeless_loop (stopped_at now target ev cur r) = timeless_loop (stopped_at later target ev cur r)"
  by (simp add: timeless_loop_def stopped_at_def)

lemma stopped_again:
  "distinct (map fst ev) \<Longrightarrow>
   timeless_loop (stopped_at later target ev (stopped_at now target ev cur cur) (stopped_at now target ev cur cur)) =
   timeless_loop (stopped_at now target ev cur cur)"
  by (simp add: timeless_loop_def stopped_at_def dict_merge_idem)

text \<open>The two transitions of a saga, as one function of the target.\<close>

definition external_stop :: "Env \<Rightarrow> bool \<Rightarrow> string \<Rightarrow> dict \<Rightarrow> LoopDb \<Rightarrow> LoopDb result" where
  "external_stop env cancel rid ev db =
     and_then (if cancel then cancel_external_wait env rid ev db db else pause_external_wait env rid ev db db)
       (\<lambda>(_, db'). Inr db')"

definition stop_target :: "bool \<Rightarrow> LoopTerminalState" where
  "stop_target cancel = (if cancel then LoopTerminalState_CANCELLED else LoopTerminalState_PAUSED)"

definition cancelled_state :: "LoopRunState \<Rightarrow> bool" where
  "cancelled_state s = (lr_terminal_state s = ts_str LoopTerminalState_CANCELLED)"

lemma waiting_not_cancelled: "at_external_wait s \<Longrightarrow> \<not> cancelled_state s"
  by (auto simp: at_external_wait_def cancelled_state_def)

lemma external_stop_Inr:
  assumes "external_stop env cancel rid ev db = Inr db1"
  obtains cur where "get_loop_run rid db = Some cur"
    "at_external_wait cur \<or> cancel \<and> cancelled_state cur \<and> db1 = db"
  using assms
  by (auto simp: external_stop_def cancel_external_wait_def pause_external_wait_def cancelled_state_def
      select_current_def split: if_splits option.splits)

lemma external_stop_cancelled:
  "get_loop_run rid db = Some cur \<Longrightarrow> cancelled_state cur \<Longrightarrow> external_stop env True rid ev db = Inr db"
  by (simp add: external_stop_def cancel_external_wait_def select_current_def cancelled_state_def)

lemma external_stop_rows:
  assumes keys: "keys_distinct lr_run_id (ld_runs db)" and cur: "get_loop_run rid db = Some cur"
    and wait: "at_external_wait cur"
  obtains db' where "external_stop env cancel rid ev db = Inr db'"
    "ld_runs db' = sql_update (\<lambda>r. lr_run_id r = rid \<and> lr_version r = lr_version cur)
       (stopped_at (env_clock env) (stop_target cancel) ev cur) (ld_runs db)"
proof -
  let ?ty = "if cancel then ''loop.cancelled'' else ''loop.transition''"
  obtain db' where t: "transition_to env rid cur (stop_target cancel) ev ?ty (\<lambda>_. True) (env_clock env) db =
        Inr (stopped_at (env_clock env) (stop_target cancel) ev cur cur, db')"
      "ld_runs db' = sql_update (\<lambda>r. lr_run_id r = rid \<and> lr_version r = lr_version cur)
       (stopped_at (env_clock env) (stop_target cancel) ev cur) (ld_runs db)"
    using transition_to_rows [OF keys cur] .
  have "external_stop env cancel rid ev db = Inr db'"
    using t(1) wait waiting_not_cancelled [OF wait] cur
    by (cases cancel) (simp_all add: external_stop_def cancel_external_wait_def pause_external_wait_def
        select_current_def cancelled_state_def stop_target_def)
  then show thesis using t(2) by (rule that)
qed

lemma stopped_wait:
  "at_external_wait (stopped_at now (stop_target False) ev cur r)"
  "cancelled_state (stopped_at now (stop_target True) ev cur r)"
  by (simp_all add: stop_target_def stopped_at_def at_external_wait_def cancelled_state_def)

lemma external_stop_replays:
  assumes keys: "keys_distinct lr_run_id (ld_runs db)" and ev: "distinct (map fst ev)"
    and committed: "external_stop env cancel rid ev db = Inr db1"
  shows "\<exists>db2. external_stop env' cancel rid ev db = Inr db2 \<and> same_loops db2 db1"
    and "\<exists>db2. external_stop env' cancel rid ev db1 = Inr db2 \<and> same_loops db2 db1"
proof -
  obtain cur where cur: "get_loop_run rid db = Some cur"
    and state: "at_external_wait cur \<or> cancel \<and> cancelled_state cur \<and> db1 = db"
    using external_stop_Inr [OF committed] .
  have both: "(\<exists>db2. external_stop env' cancel rid ev db = Inr db2 \<and> same_loops db2 db1) \<and>
    (\<exists>db2. external_stop env' cancel rid ev db1 = Inr db2 \<and> same_loops db2 db1)"
  proof (cases "at_external_wait cur")
    case False
    then show ?thesis using state external_stop_cancelled [OF cur] by (auto simp: same_loops_def)
  next
    case wait: True
    have db1: "ld_runs db1 = sql_update (\<lambda>r. lr_run_id r = rid \<and> lr_version r = lr_version cur)
          (stopped_at (env_clock env) (stop_target cancel) ev cur) (ld_runs db)"
      using external_stop_rows [OF keys cur wait, of env cancel ev] committed by (metis Inr_inject)
    obtain db2 where db2: "external_stop env' cancel rid ev db = Inr db2"
      "ld_runs db2 = sql_update (\<lambda>r. lr_run_id r = rid \<and> lr_version r = lr_version cur)
          (stopped_at (env_clock env') (stop_target cancel) ev cur) (ld_runs db)"
      using external_stop_rows [OF keys cur wait] .
    have same: "same_loops db2 db1" unfolding same_loops_def db1 db2(2)
      by (rule map_timeless_update) (simp_all add: stopped_moments)
    let ?h = "stopped_at (env_clock env) (stop_target cancel) ev cur cur"
    have id: "lr_run_id cur = rid" using cur by (auto simp: get_loop_run_def dest: row_of_Some)
    have keys1: "keys_distinct lr_run_id (ld_runs db1)"
      unfolding db1 by (rule keys_distinct_update [OF _ keys]) (simp add: stopped_at_def)
    have cur1: "get_loop_run rid db1 = Some ?h"
      using cur id unfolding get_loop_run_def db1 by (simp add: row_of_update stopped_at_def)
    have "\<exists>db3. external_stop env' cancel rid ev db1 = Inr db3 \<and> same_loops db3 db1"
    proof (cases cancel)
      case True
      then show ?thesis
        using external_stop_cancelled [OF cur1] stopped_wait(2) by (auto simp: same_loops_def)
    next
      case False
      then have "at_external_wait ?h" using stopped_wait(1) by simp
      then obtain db3 where db3: "external_stop env' cancel rid ev db1 = Inr db3"
        "ld_runs db3 = sql_update (\<lambda>r. lr_run_id r = rid \<and> lr_version r = lr_version ?h)
          (stopped_at (env_clock env') (stop_target cancel) ev ?h) (ld_runs db1)"
        using external_stop_rows [OF keys1 cur1] by blast
      moreover have "map timeless_loop (ld_runs db3) = map timeless_loop (ld_runs db1)"
        unfolding db3(2)
        using update_one_same [where h = timeless_loop and p = "\<lambda>r. lr_run_id r = rid \<and> lr_version r = lr_version ?h"
            and f = "stopped_at (env_clock env') (stop_target cancel) ev ?h",
            OF keys1 cur1 [unfolded get_loop_run_def] stopped_again [OF ev]] by simp
      ultimately show ?thesis by (auto simp: same_loops_def)
    qed
    then show ?thesis using db2(1) same by blast
  qed
  show "\<exists>db2. external_stop env' cancel rid ev db = Inr db2 \<and> same_loops db2 db1"
    "\<exists>db2. external_stop env' cancel rid ev db1 = Inr db2 \<and> same_loops db2 db1" using both by blast+
qed

text \<open>The loop transition of a saga that succeeds is none, or an external stop.\<close>

lemma loop_transition_cases:
  assumes "apply_loop_transition env t db = Inr db1"
  obtains "as_dict t = []" "db1 = db"
  | cancel rid ev where "jget (as_dict t) ''evidence'' = JDict ev"
      "\<And>e d. apply_loop_transition e t d = external_stop e cancel rid ev d"
proof (cases "as_dict t = []")
  case True
  then show thesis using assms that(1) by (simp add: apply_loop_transition_def)
next
  case False
  let ?t = "as_dict t"
  have kind: "jget ?t ''kind'' = JStr ''external_wait_cancel'' \<or> jget ?t ''kind'' = JStr ''external_wait_pause''"
    and rid: "str_or_empty (jget ?t ''loop_run_id'') \<noteq> []" and evidence: "is_dict (jget ?t ''evidence'')"
    using assms False by (auto simp: apply_loop_transition_def Let_def split: if_splits)
  obtain ev where ev: "jget ?t ''evidence'' = JDict ev" using evidence by (cases "jget ?t ''evidence''") auto
  have "apply_loop_transition e t d =
      external_stop e (jget ?t ''kind'' = JStr ''external_wait_cancel'') (str_or_empty (jget ?t ''loop_run_id'')) ev d" for e d
    using False kind rid by (auto simp: apply_loop_transition_def external_stop_def ev Let_def)
  then show thesis using ev that(2) by blast
qed

definition transition_evidence :: "json \<Rightarrow> dict" where
  "transition_evidence t = as_dict (jget (as_dict t) ''evidence'')"

lemma loop_transition_replays:
  assumes "keys_distinct lr_run_id (ld_runs db)" "distinct (map fst (transition_evidence t))"
    and committed: "apply_loop_transition env t db = Inr db1"
  shows "\<exists>db2. apply_loop_transition env' t db = Inr db2 \<and> same_loops db2 db1"
    and "\<exists>db2. apply_loop_transition env' t db1 = Inr db2 \<and> same_loops db2 db1"
proof -
  have "(\<exists>db2. apply_loop_transition env' t db = Inr db2 \<and> same_loops db2 db1) \<and>
    (\<exists>db2. apply_loop_transition env' t db1 = Inr db2 \<and> same_loops db2 db1)"
    using committed
  proof (cases rule: loop_transition_cases)
    case 1
    then show ?thesis by (simp add: apply_loop_transition_def same_loops_def)
  next
    case (2 cancel rid ev)
    then show ?thesis
      using external_stop_replays [OF assms(1), of ev env cancel rid db1 env'] assms(2) committed
      by (simp add: transition_evidence_def)
  qed
  then show "\<exists>db2. apply_loop_transition env' t db = Inr db2 \<and> same_loops db2 db1"
    "\<exists>db2. apply_loop_transition env' t db1 = Inr db2 \<and> same_loops db2 db1" by blast+
qed

section \<open>The saga as a whole\<close>

text \<open>The dictionaries a saga merges are Python dictionaries, and do not name the kind of the loop.\<close>

definition proper_payload :: "LifecycleSaga \<Rightarrow> bool" where
  "proper_payload saga =
     (valid_payload saga
      \<and> (let p = as_dict (sg_payload saga); evidence = as_dict (jget p ''goal_evidence'')
         in distinct (map fst evidence) \<and> ''loop_kind'' \<notin> fst ` set evidence
            \<and> distinct (map fst (transition_evidence (jget p ''loop_transition'')))))"

definition home_keys :: "Home \<Rightarrow> bool" where
  "home_keys home = (keys_distinct run_id (db_runs (hm_runs home)) \<and>
     keys_distinct g_id (gd_goals (hm_goals home)) \<and> keys_distinct lr_run_id (ld_runs (hm_loops home)))"

lemma project_saga_Inr:
  "project_saga env saga home = (Inr (run, goal), home') \<longleftrightarrow>
   (\<exists>loops runs goals.
      apply_loop_transition env (jget (as_dict (sg_payload saga)) ''loop_transition'') (hm_loops home) = Inr loops \<and>
      project_run (env_clock env) (sg_run_id saga) (as_dict (jget (as_dict (sg_payload saga)) ''run_updates''))
        (hm_runs home) = Inr (run, runs) \<and>
      project_goal env (sg_run_id saga) (sg_goal_id saga) run
        (as_dict (jget (as_dict (sg_payload saga)) ''goal_evidence'')) (hm_goals home) = (Inr goal, goals) \<and>
      home' = home\<lparr>hm_loops := loops, hm_runs := runs, hm_goals := goals\<rparr>)"
  by (auto simp: project_saga_def Let_def split: sum.splits prod.splits)

lemma project_saga_replays:
  assumes keys: "home_keys home" and only: "only_goal (sg_run_id saga) (sg_goal_id saga) (hm_goals home)"
    and proper: "proper_payload saga"
    and committed: "project_saga env saga home = (Inr (run, goal), home1)"
  shows "\<exists>run' goal' home2. project_saga env' saga (after_crash n env saga home) = (Inr (run', goal'), home2) \<and>
    timeless_run run' = timeless_run run \<and> timeless_goal goal' = timeless_goal goal \<and> same_home home2 home1"
proof -
  let ?p = "as_dict (sg_payload saga)"
  let ?t = "jget ?p ''loop_transition''" and ?u = "as_dict (jget ?p ''run_updates'')"
    and ?e = "as_dict (jget ?p ''goal_evidence'')" and ?h = "after_crash n env saga home"
  obtain loops runs goals where loop: "apply_loop_transition env ?t (hm_loops home) = Inr loops"
    and run: "project_run (env_clock env) (sg_run_id saga) ?u (hm_runs home) = Inr (run, runs)"
    and goal: "project_goal env (sg_run_id saga) (sg_goal_id saga) run ?e (hm_goals home) = (Inr goal, goals)"
    and home1: "home1 = home\<lparr>hm_loops := loops, hm_runs := runs, hm_goals := goals\<rparr>"
    using committed unfolding project_saga_Inr by blast
  have h: "hm_loops ?h = (if 1 \<le> n then loops else hm_loops home)"
    "hm_runs ?h = (if 2 \<le> n then runs else hm_runs home)"
    "hm_goals ?h = (if 3 \<le> n then goals else hm_goals home)"
    using committed home1 by (simp_all add: after_crash_def)
  have ks: "keys_distinct run_id (db_runs (hm_runs home))" "keys_distinct lr_run_id (ld_runs (hm_loops home))"
    using keys by (simp_all add: home_keys_def)
  have ps: "distinct (map fst ?e)" "''loop_kind'' \<notin> fst ` set ?e" "distinct (map fst (transition_evidence ?t))"
    using proper by (simp_all add: proper_payload_def Let_def)
  obtain loops2 where loops2: "apply_loop_transition env' ?t (hm_loops ?h) = Inr loops2" "same_loops loops2 loops"
    using loop_transition_replays [OF ks(2) ps(3) loop, of env'] unfolding h
    by (cases "1 \<le> n") auto
  obtain run2 runs2 where run2: "project_run (env_clock env') (sg_run_id saga) ?u (hm_runs ?h) = Inr (run2, runs2)"
    "timeless_run run2 = timeless_run run" "same_runs runs2 runs"
    using project_run_replays(1,2) [OF ks(1) run, of "env_clock env'"] unfolding h
    by (cases "2 \<le> n") auto
  have id: "run_id run = sg_run_id saga" by (rule project_run_replays(3) [OF ks(1) run])
  obtain goal2 goals2 where goal2:
    "project_goal env' (sg_run_id saga) (sg_goal_id saga) run2 ?e (hm_goals ?h) = (Inr goal2, goals2)"
    "timeless_goal goal2 = timeless_goal goal" "same_goals goals2 goals"
    using project_goal_replays [OF only [folded id] goal [unfolded id [symmetric]] run2(2) ps(1,2), of env'] id
    unfolding h by (cases "3 \<le> n") auto
  have "project_saga env' saga ?h = (Inr (run2, goal2), ?h\<lparr>hm_loops := loops2, hm_runs := runs2, hm_goals := goals2\<rparr>)"
    unfolding project_saga_Inr using loops2(1) run2(1) goal2(1) by blast
  moreover have "same_home (?h\<lparr>hm_loops := loops2, hm_runs := runs2, hm_goals := goals2\<rparr>) home1"
    using loops2(2) run2(3) goal2(3) by (simp add: same_home_def home1)
  ultimately show ?thesis using run2(2) goal2(2) by blast
qed

section \<open>Orphans\<close>

lemma sql_update_id: "(\<And>r. r \<in> set t \<Longrightarrow> p r \<Longrightarrow> f r = r) \<Longrightarrow> sql_update p f t = t"
  by (auto simp: sql_update_def intro: map_idI)

lemma update_run_now:
  assumes "keys_distinct run_id (db_runs db)"
  shows "snd (update_run now rid u db) =
    db\<lparr>db_runs := sql_update (\<lambda>r. run_id r = rid) (\<lambda>r. merge_run_updates now u r r) (db_runs db)\<rparr>"
proof (cases "get_run rid db")
  case None
  then have "sql_update (\<lambda>r. run_id r = rid) f (db_runs db) = db_runs db" for f
    unfolding get_run_def row_of_None by (intro sql_update_none) auto
  with None show ?thesis by (simp add: update_run_def)
next
  case (Some row)
  have "map (\<lambda>r. r) (sql_update (\<lambda>r. run_id r = rid) (merge_run_updates now u row) (db_runs db)) =
      map (\<lambda>r. r) (sql_update (\<lambda>r. run_id r = rid) (\<lambda>r. merge_run_updates now u r r) (db_runs db))"
  proof (rule map_timeless_update)
    fix r assume "r \<in> set (db_runs db)" "run_id r = rid"
    then have "r = row" using row_of_member [OF assms] Some by (auto simp: get_run_def)
    then show "merge_run_updates now u row r = merge_run_updates now u r r" by simp
  qed simp
  then show ?thesis using Some by (simp add: update_run_def Let_def)
qed

lemma update_goal_rows:
  assumes "keys_distinct g_id (gd_goals db)"
  shows "gd_goals (snd (update_goal_state env gid u db db)) =
    sql_update (\<lambda>g. g_id g = gid) (\<lambda>g. updated_goal env u g g) (gd_goals db)"
proof (cases "get_goal gid db")
  case None
  then have "sql_update (\<lambda>g. g_id g = gid) f (gd_goals db) = gd_goals db" for f
    unfolding get_goal_def row_of_None by (intro sql_update_none) auto
  with None show ?thesis by (simp add: update_goal_state_def)
next
  case (Some row)
  have "map (\<lambda>r. r) (sql_update (\<lambda>g. g_id g = gid) (updated_goal env u row) (gd_goals db)) =
      map (\<lambda>r. r) (sql_update (\<lambda>g. g_id g = gid) (\<lambda>g. updated_goal env u g g) (gd_goals db))"
  proof (rule map_timeless_update)
    fix g assume "g \<in> set (gd_goals db)" "g_id g = gid"
    then have "g = row" using row_of_member [OF assms] Some by (auto simp: get_goal_def)
    then show "updated_goal env u row g = updated_goal env u g g" by simp
  qed simp
  then show ?thesis using update_goal_state_now(2) [OF Some] by simp
qed

text \<open>Closed forms of the three loops.\<close>

lemma sql_update_insert:
  assumes "\<And>r. key (f r) = key r" "k \<notin> ks"
  shows "sql_update (\<lambda>r. key r \<in> ks) f (sql_update (\<lambda>r. key r = k) f t) = sql_update (\<lambda>r. key r \<in> insert k ks) f t"
  using assms by (auto simp: sql_update_def)

lemma fail_orphan_runs_rows:
  assumes "keys_distinct run_id (db_runs db)" "distinct (map run_id rs)"
  shows "fold (fail_orphan_run now) rs db =
    db\<lparr>db_runs := sql_update (\<lambda>r. run_id r \<in> run_id ` set rs) (\<lambda>r. merge_run_updates now goal_missing r r) (db_runs db)\<rparr>"
  using assms
proof (induction rs arbitrary: db)
  case Nil
  then show ?case by (simp add: sql_update_none)
next
  case (Cons r rs)
  let ?f = "\<lambda>r. merge_run_updates now goal_missing r r"
  have step: "fail_orphan_run now r db = db\<lparr>db_runs := sql_update (\<lambda>x. run_id x = run_id r) ?f (db_runs db)\<rparr>"
    unfolding fail_orphan_run_def by (rule update_run_now [OF Cons.prems(1)])
  have "keys_distinct run_id (db_runs (fail_orphan_run now r db))"
    using Cons.prems(1) by (simp add: step keys_distinct_update)
  moreover have "run_id r \<notin> run_id ` set rs" "distinct (map run_id rs)" using Cons.prems(2) by auto
  ultimately show ?case
    using Cons.IH [of "fail_orphan_run now r db"]
    by (simp add: step sql_update_insert [where key = run_id])
qed

lemma fail_run_of_goal_rows:
  assumes "keys_distinct run_id (db_runs db)"
  shows "fail_run_of_goal now run_ids g db =
    db\<lparr>db_runs := sql_update (\<lambda>r. run_id r = g_run_id g \<and> run_id r \<in> set run_ids \<and> run_phase r \<noteq> ''ended'')
      (\<lambda>r. merge_run_updates now loop_missing r r) (db_runs db)\<rparr>"
proof (cases "if g_run_id g \<in> set run_ids then get_run (g_run_id g) db else None")
  case None
  then have "sql_update (\<lambda>r. run_id r = g_run_id g \<and> run_id r \<in> set run_ids \<and> run_phase r \<noteq> ''ended'') f (db_runs db)
      = db_runs db" for f
    by (intro sql_update_none) (auto simp: get_run_def row_of_None image_iff split: if_splits)
  with None show ?thesis by (simp add: fail_run_of_goal_def)
next
  case (Some run)
  then have row: "get_run (g_run_id g) db = Some run" and known: "g_run_id g \<in> set run_ids" by (auto split: if_splits)
  have id: "run_id run = g_run_id g" using row by (auto simp: get_run_def dest: row_of_Some)
  have only: "r = run" if "r \<in> set (db_runs db)" "run_id r = g_run_id g" for r
    using row_of_member [OF assms that(1)] that(2) row by (simp add: get_run_def)
  show ?thesis
  proof (cases "run_phase run = ''ended''")
    case True
    then have "sql_update (\<lambda>r. run_id r = g_run_id g \<and> run_id r \<in> set run_ids \<and> run_phase r \<noteq> ''ended'') f (db_runs db)
      = db_runs db" for f
      using only by (intro sql_update_none) auto
    with Some True show ?thesis by (simp add: fail_run_of_goal_def)
  next
    case False
    have "map (\<lambda>r. r) (sql_update (\<lambda>r. run_id r = g_run_id g) f (db_runs db)) = map (\<lambda>r. r) (sql_update
        (\<lambda>r. run_id r = g_run_id g \<and> run_id r \<in> set run_ids \<and> run_phase r \<noteq> ''ended'') f (db_runs db))" for f
      by (rule map_timeless_update) (use only False known in auto)
    then show ?thesis
      using Some False id by (simp add: fail_run_of_goal_def update_run_now [OF assms])
  qed
qed

definition failed_loop :: "time \<Rightarrow> LoopRunState \<Rightarrow> LoopRunState" where
  "failed_loop now r = r\<lparr>lr_terminal_state := ts_str LoopTerminalState_FAILED,
     lr_evidence := [(''recovery'', JStr ''cross_store_open_orphan''),
       (''reason'', JStr ''goal missing after creation grace period'')],
     lr_version := lr_version r + 1, lr_lease_owner := [], lr_lease_expires_at := 0, lr_updated_at := now\<rparr>"

text \<open>Guarded updates of a set of keys, one key at a time; the guard is spent by the update.\<close>

lemma sql_update_guarded:
  assumes "\<And>r. key (f r) = key r" "\<And>r. \<not> q (f r)"
  shows "sql_update (\<lambda>r. key r \<in> ks \<and> q r) f (sql_update (\<lambda>r. key r = k \<and> q r) f t) =
    sql_update (\<lambda>r. key r \<in> insert k ks \<and> q r) f t"
  using assms by (auto simp: sql_update_def)

lemma ended_by_recovery [simp]:
  "run_phase (merge_run_updates now goal_missing r r) = ''ended''"
  "run_phase (merge_run_updates now loop_missing r r) = ''ended''"
  "lr_terminal_state (failed_loop now s) = ''failed''" "lr_run_id (failed_loop now s) = lr_run_id s"
  by (simp_all add: merge_run_updates_def goal_missing_def loop_missing_def orphan_error_def no_updates_def
      or_keep_def failed_loop_def)

lemma fail_orphan_loops_rows:
  "ld_runs (fold (fail_orphan_loop now) ss db) =
    sql_update (\<lambda>r. lr_run_id r \<in> lr_run_id ` set ss \<and> lr_terminal_state r = []) (failed_loop now) (ld_runs db)"
proof (induction ss arbitrary: db)
  case Nil
  then show ?case by (simp add: sql_update_none)
next
  case (Cons s ss)
  have "ld_runs (fail_orphan_loop now s db) =
      sql_update (\<lambda>r. lr_run_id r = lr_run_id s \<and> lr_terminal_state r = []) (failed_loop now) (ld_runs db)"
    by (simp add: fail_orphan_loop_def failed_loop_def [abs_def])
  then show ?case using Cons
    by (simp add: sql_update_guarded [where key = lr_run_id and q = "\<lambda>r. lr_terminal_state r = []"])
qed

lemma fail_orphan_goals_rows:
  assumes "keys_distinct run_id (db_runs (hm_runs home))" "keys_distinct g_id (gd_goals (hm_goals home))"
    "distinct (map g_id gs)"
  shows "db_runs (hm_runs (fold (fail_orphan_goal env run_ids) gs home)) =
      sql_update (\<lambda>r. run_id r \<in> g_run_id ` set gs \<and> run_id r \<in> set run_ids \<and> run_phase r \<noteq> ''ended'')
        (\<lambda>r. merge_run_updates (env_clock env) loop_missing r r) (db_runs (hm_runs home)) \<and>
    gd_goals (hm_goals (fold (fail_orphan_goal env run_ids) gs home)) =
      sql_update (\<lambda>g. g_id g \<in> g_id ` set gs) (\<lambda>g. updated_goal env orphan_goal g g) (gd_goals (hm_goals home)) \<and>
    hm_loops (fold (fail_orphan_goal env run_ids) gs home) = hm_loops home"
  using assms
proof (induction gs arbitrary: home)
  case Nil
  then show ?case by (simp add: sql_update_none)
next
  case (Cons g gs)
  let ?h = "fail_orphan_goal env run_ids g home"
  let ?c = "\<lambda>r. merge_run_updates (env_clock env) loop_missing r r"
  let ?q = "\<lambda>r. run_id r \<in> set run_ids \<and> run_phase r \<noteq> ''ended''"
  have runs: "db_runs (hm_runs ?h) = sql_update (\<lambda>r. run_id r = g_run_id g \<and> ?q r) ?c (db_runs (hm_runs home))"
    by (simp add: fail_orphan_goal_def fail_run_of_goal_rows [OF Cons.prems(1)])
  have goals: "gd_goals (hm_goals ?h) = sql_update (\<lambda>x. g_id x = g_id g) (\<lambda>g. updated_goal env orphan_goal g g) (gd_goals (hm_goals home))"
    by (simp add: fail_orphan_goal_def update_goal_rows [OF Cons.prems(2)])
  have keys: "keys_distinct run_id (db_runs (hm_runs ?h))" "keys_distinct g_id (gd_goals (hm_goals ?h))"
    unfolding runs goals using Cons.prems by (simp_all add: keys_distinct_update)
  have rest: "distinct (map g_id gs)" "g_id g \<notin> g_id ` set gs" using Cons.prems(3) by auto
  have runs': "sql_update (\<lambda>r. run_id r \<in> g_run_id ` set gs \<and> ?q r) ?c
      (sql_update (\<lambda>r. run_id r = g_run_id g \<and> ?q r) ?c t) =
      sql_update (\<lambda>r. run_id r \<in> insert (g_run_id g) (g_run_id ` set gs) \<and> ?q r) ?c t" for t
    by (rule sql_update_guarded [where key = run_id and q = ?q]) simp_all
  have loops: "hm_loops ?h = hm_loops home" by (simp add: fail_orphan_goal_def)
  show ?case
    using Cons.IH [OF keys rest(1)] unfolding runs goals runs' loops
    by (simp add: sql_update_insert [where key = g_id] rest(2))
qed

text \<open>What a recovery leaves, when the lists it takes are whole.\<close>

definition small_tables :: "Home \<Rightarrow> bool" where
  "small_tables home = (length (db_runs (hm_runs home)) \<le> 100000 \<and> length (gd_goals (hm_goals home)) \<le> 100000)"

abbreviation orphan_runs :: "time \<Rightarrow> Home \<Rightarrow> Run \<Rightarrow> bool" where
  "orphan_runs cutoff home \<equiv> run_is_orphan cutoff (map g_run_id (gd_goals (hm_goals home)))"

abbreviation orphan_goals :: "time \<Rightarrow> Home \<Rightarrow> Goal \<Rightarrow> bool" where
  "orphan_goals cutoff home \<equiv> goal_is_orphan cutoff (map lr_goal_id (ld_runs (hm_loops home)))"

abbreviation orphan_loops :: "(string \<Rightarrow> time) \<Rightarrow> time \<Rightarrow> Home \<Rightarrow> LoopRunState \<Rightarrow> bool" where
  "orphan_loops created cutoff home \<equiv> loop_is_orphan created cutoff (map g_id (gd_goals (hm_goals home)))"

lemma whole_lists:
  assumes "small_tables home"
  shows "set (list_runs 100000 0 (hm_runs home)) = set (db_runs (hm_runs home))"
    "set (list_goals [] 100000 (hm_goals home)) = set (gd_goals (hm_goals home))"
    "keys_distinct run_id (db_runs (hm_runs home)) \<Longrightarrow> distinct (map run_id (list_runs 100000 0 (hm_runs home)))"
    "keys_distinct g_id (gd_goals (hm_goals home)) \<Longrightarrow> distinct (map g_id (list_goals [] 100000 (hm_goals home)))"
proof -
  have r: "list_runs 100000 0 (hm_runs home) = sql_desc run_updated_at (db_runs (hm_runs home))"
    using assms by (simp add: list_runs_def small_tables_def sql_limit_def sql_offset_def sql_desc_def)
  have g: "list_goals [] 100000 (hm_goals home) = sql_desc g_updated_at (gd_goals (hm_goals home))"
    using assms by (simp add: list_goals_def small_tables_def sql_limit_def sql_desc_def opt_eq_def)
  show "set (list_runs 100000 0 (hm_runs home)) = set (db_runs (hm_runs home))" by (simp add: r)
  show "set (list_goals [] 100000 (hm_goals home)) = set (gd_goals (hm_goals home))" by (simp add: g)
  show "keys_distinct run_id (db_runs (hm_runs home)) \<Longrightarrow> distinct (map run_id (list_runs 100000 0 (hm_runs home)))"
    by (simp add: r keys_distinct_def distinct_map sql_desc_def)
  show "keys_distinct g_id (gd_goals (hm_goals home)) \<Longrightarrow> distinct (map g_id (list_goals [] 100000 (hm_goals home)))"
    by (simp add: g keys_distinct_def distinct_map sql_desc_def)
qed

lemma filter_member_by_key:
  assumes "keys_distinct key t" "set xs = set t" "r \<in> set t"
  shows "key r \<in> key ` set (filter p xs) \<longleftrightarrow> p r"
proof
  assume "key r \<in> key ` set (filter p xs)"
  then obtain x where "x \<in> set t" "p x" "key x = key r" using assms(2) by auto
  then show "p r" using row_of_member [OF assms(1)] assms(3) by (metis option.inject)
qed (use assms in auto)

lemma recover_open_orphans_rows:
  assumes keys: "home_keys home" and small: "small_tables home"
    and out: "recover_open_orphans created env now grace home = (report, home')"
  defines "cutoff \<equiv> orphan_cutoff env now grace"
  shows "db_runs (hm_runs home') = map (\<lambda>r.
        if orphan_runs cutoff home r then merge_run_updates (env_clock env) goal_missing r r
        else if run_phase r \<noteq> ''ended'' \<and> (\<exists>g\<in>set (gd_goals (hm_goals home)). orphan_goals cutoff home g \<and> g_run_id g = run_id r)
          then merge_run_updates (env_clock env) loop_missing r r else r) (db_runs (hm_runs home))"
    and "gd_goals (hm_goals home') = map (\<lambda>g.
        if orphan_goals cutoff home g then updated_goal env orphan_goal g g else g) (gd_goals (hm_goals home))"
    and "ld_runs (hm_loops home') = map (\<lambda>s.
        if orphan_loops created cutoff home s
        then failed_loop (case now of None \<Rightarrow> env_clock env | Some t \<Rightarrow> t) s else s) (ld_runs (hm_loops home))"
    and "set (op_runs report) = run_id ` {r \<in> set (db_runs (hm_runs home)). orphan_runs cutoff home r}"
    and "set (op_goals report) = g_id ` {g \<in> set (gd_goals (hm_goals home)). orphan_goals cutoff home g}"
    and "set (op_loop_runs report) = lr_run_id ` {s \<in> set (ld_runs (hm_loops home)). orphan_loops created cutoff home s}"
proof -
  let ?R = "list_runs 100000 0 (hm_runs home)" and ?G = "list_goals [] 100000 (hm_goals home)"
  note whole = whole_lists [OF small]
  have ks: "keys_distinct run_id (db_runs (hm_runs home))" "keys_distinct g_id (gd_goals (hm_goals home))"
    "keys_distinct lr_run_id (ld_runs (hm_loops home))" using keys by (simp_all add: home_keys_def)
  have sets: "set (map g_run_id ?G) = set (map g_run_id (gd_goals (hm_goals home)))"
    "set (map g_id ?G) = set (map g_id (gd_goals (hm_goals home)))"
    "set (map run_id ?R) = set (map run_id (db_runs (hm_runs home)))" using whole by simp_all
  have orphan: "run_is_orphan cutoff (map g_run_id ?G) = orphan_runs cutoff home"
    "loop_is_orphan created cutoff (map g_id ?G) = orphan_loops created cutoff home"
    unfolding run_is_orphan_def [abs_def] loop_is_orphan_def [abs_def] sets by (rule refl)+
  let ?rs = "filter (orphan_runs cutoff home) ?R" and ?gs = "filter (orphan_goals cutoff home) ?G"
    and ?ss = "filter (orphan_loops created cutoff home) (ld_runs (hm_loops home))"
  let ?t = "case now of None \<Rightarrow> env_clock env | Some t \<Rightarrow> t"
  let ?h1 = "home\<lparr>hm_runs := fold (fail_orphan_run (env_clock env)) ?rs (hm_runs home)\<rparr>"
  let ?h2 = "fold (fail_orphan_goal env (map run_id ?R)) ?gs ?h1"
  have unfolded: "report = \<lparr>op_runs = map run_id ?rs, op_goals = map g_id ?gs, op_loop_runs = map lr_run_id ?ss\<rparr>"
    "home' = ?h2\<lparr>hm_loops := fold (fail_orphan_loop ?t) ?ss (hm_loops ?h2)\<rparr>"
    using out unfolding recover_open_orphans_def Let_def orphan [unfolded cutoff_def] by (auto simp: cutoff_def)
  show "set (op_runs report) = run_id ` {r \<in> set (db_runs (hm_runs home)). orphan_runs cutoff home r}"
    "set (op_goals report) = g_id ` {g \<in> set (gd_goals (hm_goals home)). orphan_goals cutoff home g}"
    "set (op_loop_runs report) = lr_run_id ` {s \<in> set (ld_runs (hm_loops home)). orphan_loops created cutoff home s}"
    using whole by (simp_all add: unfolded(1))
  have dist: "distinct (map run_id ?rs)" "distinct (map g_id ?gs)"
    using whole(3,4) ks by (simp_all add: distinct_map_filter)
  let ?c1 = "\<lambda>r. merge_run_updates (env_clock env) goal_missing r r"
    and ?c2 = "\<lambda>r. merge_run_updates (env_clock env) loop_missing r r"
  have runs1: "db_runs (hm_runs ?h1) = sql_update (\<lambda>r. run_id r \<in> run_id ` set ?rs) ?c1 (db_runs (hm_runs home))"
    by (simp add: fail_orphan_runs_rows [OF ks(1) dist(1)])
  have keys1: "keys_distinct run_id (db_runs (hm_runs ?h1))" "keys_distinct g_id (gd_goals (hm_goals ?h1))"
    unfolding runs1 using ks by (simp_all add: keys_distinct_update)
  note h2 = fail_orphan_goals_rows [OF keys1 dist(2), of env "map run_id ?R"]
  have "ld_runs (hm_loops home') = sql_update (\<lambda>r. lr_run_id r \<in> lr_run_id ` set ?ss \<and> lr_terminal_state r = [])
      (failed_loop ?t) (ld_runs (hm_loops home))"
    using h2 by (simp add: unfolded(2) fail_orphan_loops_rows)
  also have "\<dots> = map (\<lambda>s. if orphan_loops created cutoff home s then failed_loop ?t s else s) (ld_runs (hm_loops home))"
    unfolding sql_update_def using filter_member_by_key [OF ks(3) refl]
    by (intro map_cong refl) (auto simp: loop_is_orphan_def)
  finally show "ld_runs (hm_loops home') = map (\<lambda>s. if orphan_loops created cutoff home s then failed_loop ?t s else s)
      (ld_runs (hm_loops home))" .
  have "gd_goals (hm_goals home') = sql_update (\<lambda>g. g_id g \<in> g_id ` set ?gs) (\<lambda>g. updated_goal env orphan_goal g g)
      (gd_goals (hm_goals home))"
    using h2 by (simp add: unfolded(2))
  also have "\<dots> = map (\<lambda>g. if orphan_goals cutoff home g then updated_goal env orphan_goal g g else g) (gd_goals (hm_goals home))"
    unfolding sql_update_def using filter_member_by_key [OF ks(2) whole(2)] by (intro map_cong refl) auto
  finally show "gd_goals (hm_goals home') = map (\<lambda>g.
        if orphan_goals cutoff home g then updated_goal env orphan_goal g g else g) (gd_goals (hm_goals home))" .
  have "db_runs (hm_runs home') = sql_update (\<lambda>r. run_id r \<in> g_run_id ` set ?gs \<and> run_id r \<in> set (map run_id ?R) \<and> run_phase r \<noteq> ''ended'') ?c2
      (sql_update (\<lambda>r. run_id r \<in> run_id ` set ?rs) ?c1 (db_runs (hm_runs home)))"
    using h2 runs1 by (simp add: unfolded(2))
  also have "\<dots> = map (\<lambda>r. if orphan_runs cutoff home r then ?c1 r
        else if run_phase r \<noteq> ''ended'' \<and> (\<exists>g\<in>set (gd_goals (hm_goals home)). orphan_goals cutoff home g \<and> g_run_id g = run_id r)
          then ?c2 r else r) (db_runs (hm_runs home))"
    unfolding sql_update_def map_map
  proof (intro map_cong refl)
    fix r assume r: "r \<in> set (db_runs (hm_runs home))"
    have "run_id r \<in> run_id ` set ?rs \<longleftrightarrow> orphan_runs cutoff home r"
      by (rule filter_member_by_key [OF ks(1) whole(1) r])
    moreover have "run_id r \<in> g_run_id ` set ?gs \<longleftrightarrow>
        (\<exists>g\<in>set (gd_goals (hm_goals home)). orphan_goals cutoff home g \<and> g_run_id g = run_id r)"
      using whole(2) by (auto simp: image_iff eq_commute)
    moreover have "run_id r \<in> set (map run_id ?R)" using whole(1) r by simp
    ultimately show "((\<lambda>r. if run_id r \<in> g_run_id ` set ?gs \<and> run_id r \<in> set (map run_id ?R) \<and> run_phase r \<noteq> ''ended''
        then ?c2 r else r) \<circ> (\<lambda>r. if run_id r \<in> run_id ` set ?rs then ?c1 r else r)) r =
      (if orphan_runs cutoff home r then ?c1 r
        else if run_phase r \<noteq> ''ended'' \<and> (\<exists>g\<in>set (gd_goals (hm_goals home)). orphan_goals cutoff home g \<and> g_run_id g = run_id r)
          then ?c2 r else r)"
      by auto
  qed
  finally show "db_runs (hm_runs home') = map (\<lambda>r. if orphan_runs cutoff home r then ?c1 r
        else if run_phase r \<noteq> ''ended'' \<and> (\<exists>g\<in>set (gd_goals (hm_goals home)). orphan_goals cutoff home g \<and> g_run_id g = run_id r)
          then ?c2 r else r) (db_runs (hm_runs home))" .
qed

text \<open>Without orphans a recovery does nothing.\<close>

lemma recover_nothing:
  assumes "small_tables home"
    and "\<And>r. r \<in> set (db_runs (hm_runs home)) \<Longrightarrow> \<not> orphan_runs (orphan_cutoff env now grace) home r"
    and "\<And>g. g \<in> set (gd_goals (hm_goals home)) \<Longrightarrow> \<not> orphan_goals (orphan_cutoff env now grace) home g"
    and "\<And>l. l \<in> set (ld_runs (hm_loops home)) \<Longrightarrow> \<not> orphan_loops created (orphan_cutoff env now grace) home l"
  shows "recover_open_orphans created env now grace home = (\<lparr>op_runs = [], op_goals = [], op_loop_runs = []\<rparr>, home)"
proof -
  let ?cut = "orphan_cutoff env now grace"
  let ?R = "list_runs 100000 0 (hm_runs home)" and ?G = "list_goals [] 100000 (hm_goals home)"
  note whole = whole_lists(1,2) [OF assms(1)]
  have sets: "set (map g_run_id ?G) = set (map g_run_id (gd_goals (hm_goals home)))"
    "set (map g_id ?G) = set (map g_id (gd_goals (hm_goals home)))" using whole by simp_all
  have "filter (run_is_orphan ?cut (map g_run_id ?G)) ?R = []"
    using assms(2) whole(1) unfolding run_is_orphan_def sets by (simp add: filter_empty_conv)
  moreover have "filter (orphan_goals ?cut home) ?G = []"
    using assms(3) whole(2) by (simp add: filter_empty_conv)
  moreover have "filter (loop_is_orphan created ?cut (map g_id ?G)) (ld_runs (hm_loops home)) = []"
    using assms(4) unfolding loop_is_orphan_def sets by (simp add: filter_empty_conv)
  ultimately show ?thesis by (simp add: recover_open_orphans_def Let_def)
qed

lemma earlier_cutoff:
  assumes "c \<le> cutoff"
  shows "run_is_orphan c ids r \<Longrightarrow> run_is_orphan cutoff ids r"
    "goal_is_orphan c ids g \<Longrightarrow> goal_is_orphan cutoff ids g"
    "loop_is_orphan created c ids l \<Longrightarrow> loop_is_orphan created cutoff ids l"
  using assms by (auto simp: run_is_orphan_def goal_is_orphan_def loop_is_orphan_def)

lemma recovered_once:
  assumes keys: "home_keys home" and small: "small_tables home"
    and out: "recover_open_orphans created env now grace home = (report, home')"
    and later: "orphan_cutoff env' now' grace' \<le> orphan_cutoff env now grace"
  shows "recover_open_orphans created env' now' grace' home' = (\<lparr>op_runs = [], op_goals = [], op_loop_runs = []\<rparr>, home')"
proof -
  note rows = recover_open_orphans_rows(1-3) [OF keys small out]
  note earlier = earlier_cutoff [OF later]
  have "g_run_id (updated_goal env u g g') = g_run_id g'" for u g g' by (simp add: updated_goal_def)
  then have goals: "map g_run_id (gd_goals (hm_goals home')) = map g_run_id (gd_goals (hm_goals home))"
    "map g_id (gd_goals (hm_goals home')) = map g_id (gd_goals (hm_goals home))"
    unfolding rows(2) by simp_all
  have loops: "map lr_goal_id (ld_runs (hm_loops home')) = map lr_goal_id (ld_runs (hm_loops home))"
    unfolding rows(3) by (simp add: failed_loop_def)
  show ?thesis
  proof (rule recover_nothing)
    show "small_tables home'" using small arg_cong [OF goals(2), of length] arg_cong [OF rows(1), of length]
      by (simp add: small_tables_def)
  next
    fix r assume "r \<in> set (db_runs (hm_runs home'))"
    then have "run_phase r = ''ended'' \<or> \<not> orphan_runs (orphan_cutoff env now grace) home r"
      unfolding rows(1) by auto
    then show "\<not> orphan_runs (orphan_cutoff env' now' grace') home' r"
      unfolding goals using earlier(1) by (auto simp only: run_is_orphan_def phase_str.simps)
  next
    fix g assume "g \<in> set (gd_goals (hm_goals home'))"
    then have "g_phase g = ''ended'' \<or> \<not> orphan_goals (orphan_cutoff env now grace) home g"
      unfolding rows(2) by (auto simp: orphan_goal_def or_else_def)
    then show "\<not> orphan_goals (orphan_cutoff env' now' grace') home' g"
      unfolding loops using earlier(2) by (auto simp only: goal_is_orphan_def phase_str.simps)
  next
    fix l assume "l \<in> set (ld_runs (hm_loops home'))"
    then have "lr_terminal_state l \<noteq> [] \<or> \<not> orphan_loops created (orphan_cutoff env now grace) home l"
      unfolding rows(3) by auto
    then show "\<not> orphan_loops created (orphan_cutoff env' now' grace') home' l"
      unfolding goals using earlier(3) by (auto simp only: loop_is_orphan_def)
  qed
qed

section \<open>Recovering one saga\<close>

lemma recover_single:
  assumes "filter unfinished (sh_sagas s) = [saga]"
  shows "recover_pending env limit s = (case apply_saga env saga s of (Inl _, s') \<Rightarrow> ([], s') | (Inr _, s') \<Rightarrow> ([sg_id saga], s'))"
  using assms by (simp add: recover_pending_def sql_asc_def sql_limit_def split: prod.splits sum.splits)

lemma recover_none: "filter unfinished (sh_sagas s) = [] \<Longrightarrow> recover_pending env limit s = ([], s)"
  by (simp add: recover_pending_def sql_asc_def sql_limit_def)

lemma unfinished_row:
  assumes "filter unfinished (sh_sagas s) = [saga]"
  shows "saga \<in> set (sh_sagas s)"
proof -
  have "saga \<in> set (filter unfinished (sh_sagas s))" by (simp add: assms)
  then show ?thesis by simp
qed

section \<open>Properties\<close>

text \<open>
  C27. A crash between the transactions of a saga is repaired by \<open>recover_pending\<close>: wherever the first
  attempt stopped, before the loop transition, after it, after the run, or after the goal but before
  the saga was marked, the recovery finishes the saga, marks it completed, and leaves the runs, goals
  and loop runs the uninterrupted attempt would have left, up to the moments of the writes.
\<close>

theorem crashed_saga_recovers:
  assumes "home_keys (sh_home s)" "keys_distinct sg_id (sh_sagas s)"
    and "only_goal (sg_run_id saga) (sg_goal_id saga) (hm_goals (sh_home s))"
    and "proper_payload saga" "filter unfinished (sh_sagas s) = [saga]"
    and "apply_saga env saga s = (Inr out, s1)"
    and "crashed = s\<lparr>sh_home := after_crash n env saga (sh_home s)\<rparr>"
  shows "\<exists>s2. recover_pending env' limit crashed = ([sg_id saga], s2) \<and>
           same_home (sh_home s2) (sh_home s1) \<and>
           map_option sg_status (get_saga (sg_id saga) s2) = Some ''completed'' \<and>
           recover_pending env' limit s2 = ([], s2)"
proof -
  have valid: "valid_payload saga" using assms(4) by (simp add: proper_payload_def)
  obtain run goal where out: "out = (run, goal)" by (cases out)
  have "project_saga env saga (sh_home s) = (Inr (run, goal), sh_home s1)"
    using assms(6) valid out by (auto simp: apply_saga_def split: prod.splits sum.splits)
  then obtain run' goal' home2 where
    again: "project_saga env' saga (sh_home crashed) = (Inr (run', goal'), home2)" and
    same: "same_home home2 (sh_home s1)"
    using project_saga_replays [OF assms(1,3,4), of env run goal "sh_home s1" env' n] assms(7) by auto
  let ?s2 = "crashed\<lparr>sh_home := home2, sh_sagas := mark_saga_completed (env_clock env') (sg_id saga) (sh_sagas s)\<rparr>"
  have applied: "apply_saga env' saga crashed = (Inr (run', goal'), ?s2)"
    using again valid by (simp add: apply_saga_def assms(7))
  have one: "filter unfinished (sh_sagas crashed) = [saga]" using assms(5) by (simp add: assms(7))
  have row: "get_saga (sg_id saga) s = Some saga"
    using row_of_member [OF assms(2) unfinished_row [OF assms(5)]] by (simp add: get_saga_def)
  have "map_option sg_status (get_saga (sg_id saga) ?s2) = Some ''completed''"
    using row by (simp add: get_saga_def mark_saga_completed_def row_of_update)
  moreover have "filter unfinished (sh_sagas ?s2) = []"
  proof -
    have "unfinished r \<Longrightarrow> r \<in> set (sh_sagas s) \<Longrightarrow> r \<in> set (filter unfinished (sh_sagas s))" for r by simp
    then have "\<forall>r\<in>set (sh_sagas s). unfinished r \<longrightarrow> sg_id r = sg_id saga" by (auto simp only: assms(5) list.set) 
    then show ?thesis
      by (auto simp: filter_empty_conv mark_saga_completed_def unfinished_def dest!: sql_update_member split: if_splits)
  qed
  ultimately show ?thesis
    using recover_single [OF one, of env' limit] applied recover_none [of ?s2 env' limit] same by auto
qed

text \<open>
  An operation key is prepared once: every later \<open>prepare\<close> under it answers with the row of the first
  and writes nothing, so the updates and the evidence of the later call are dropped.
\<close>

theorem prepare_keeps_first:
  assumes "prepare_saga env key rid gid updates evidence moves s = (Inr saga, s1)"
  shows "row_of sg_operation_key key (sh_sagas s1) = Some saga \<and>
         (\<forall>env' rid' gid' updates' evidence' moves'.
            prepare_saga env' key rid' gid' updates' evidence' moves' s1 = (Inr saga, s1))"
proof -
  have row: "row_of sg_operation_key key (sh_sagas s1) = Some saga"
    using assms by (auto simp: prepare_saga_def Let_def split: if_splits option.splits sum.splits)
  then have "key \<in> sg_operation_key ` set (sh_sagas s1)" by (auto dest: row_of_Some)
  then show ?thesis using row by (simp add: prepare_saga_def Let_def)
qed

text \<open>
  The saga of a second external wait of the same loop run (its operation key has no version) is not
  recoverable: \<open>prepare\<close> answers with the completed row of the first wait, and after a crash behind
  any of its transactions \<open>recover_pending\<close> does nothing, so a loop run is left paused or cancelled
  while its run and goal stay as they were.
\<close>

theorem second_wait_not_recovered:
  assumes "row_of sg_operation_key key (sh_sagas s) = Some saga" "sg_status saga = ''completed''"
    and "filter unfinished (sh_sagas s) = []"
  shows "prepare_saga env key rid gid updates evidence moves s = (Inr saga, s) \<and>
         recover_pending env' limit (s\<lparr>sh_home := after_crash n env saga (sh_home s)\<rparr>) =
           ([], s\<lparr>sh_home := after_crash n env saga (sh_home s)\<rparr>)"
proof
  have "key \<in> sg_operation_key ` set (sh_sagas s)" using assms(1) by (auto dest: row_of_Some)
  then show "prepare_saga env key rid gid updates evidence moves s = (Inr saga, s)"
    using assms(1) by (simp add: prepare_saga_def Let_def)
qed (rule recover_none, simp add: assms(3))

text \<open>
  \<open>recover_open_orphans\<close> reports exactly the open loop runs without a goal, the open goals without a
  loop run and the open loop runs of missing goals that are older than the grace period. It ends them
  and the open runs of the orphaned goals, touches no other row, and leaves nothing for a later
  recovery with the same cutoff.
\<close>

theorem orphan_recovery_contract:
  assumes "home_keys home" "small_tables home"
    and "recover_open_orphans created env now grace home = (report, home')"
    and "cutoff = orphan_cutoff env now grace"
  shows "set (op_runs report) = run_id ` {r \<in> set (db_runs (hm_runs home)). orphan_runs cutoff home r} \<and>
    set (op_goals report) = g_id ` {g \<in> set (gd_goals (hm_goals home)). orphan_goals cutoff home g} \<and>
    set (op_loop_runs report) = lr_run_id ` {l \<in> set (ld_runs (hm_loops home)). orphan_loops created cutoff home l} \<and>
    list_all2 (\<lambda>r r'. r' = r \<or> (run_id r' = run_id r \<and> run_phase r \<noteq> ''ended'' \<and> run_phase r' = ''ended'' \<and>
        (orphan_runs cutoff home r \<or> (\<exists>g. g \<in> set (gd_goals (hm_goals home)) \<and> orphan_goals cutoff home g \<and> g_run_id g = run_id r))))
      (db_runs (hm_runs home)) (db_runs (hm_runs home')) \<and>
    list_all2 (\<lambda>g g'. if orphan_goals cutoff home g then g_id g' = g_id g \<and> g_phase g' = ''ended'' else g' = g)
      (gd_goals (hm_goals home)) (gd_goals (hm_goals home')) \<and>
    list_all2 (\<lambda>l l'. if orphan_loops created cutoff home l then lr_run_id l' = lr_run_id l \<and> lr_terminal_state l' = ''failed'' else l' = l)
      (ld_runs (hm_loops home)) (ld_runs (hm_loops home')) \<and>
    (\<forall>env' now' grace'. orphan_cutoff env' now' grace' \<le> cutoff \<longrightarrow>
      recover_open_orphans created env' now' grace' home' = (\<lparr>op_runs = [], op_goals = [], op_loop_runs = []\<rparr>, home'))"
proof -
  note rows = recover_open_orphans_rows [OF assms(1-3), folded assms(4)]
  have "orphan_runs cutoff home r \<Longrightarrow> run_phase r \<noteq> ''ended''" for r by (simp add: run_is_orphan_def)
  then have "list_all2 (\<lambda>r r'. r' = r \<or> (run_id r' = run_id r \<and> run_phase r \<noteq> ''ended'' \<and> run_phase r' = ''ended'' \<and>
        (orphan_runs cutoff home r \<or> (\<exists>g. g \<in> set (gd_goals (hm_goals home)) \<and> orphan_goals cutoff home g \<and> g_run_id g = run_id r))))
      (db_runs (hm_runs home)) (db_runs (hm_runs home'))"
    unfolding rows(1) list_all2_map2 by (intro list_all2_refl) auto
  moreover have "list_all2 (\<lambda>g g'. if orphan_goals cutoff home g then g_id g' = g_id g \<and> g_phase g' = ''ended'' else g' = g)
      (gd_goals (hm_goals home)) (gd_goals (hm_goals home'))"
    unfolding rows(2) list_all2_map2 by (intro list_all2_refl) (simp add: orphan_goal_def or_else_def)
  moreover have "list_all2 (\<lambda>l l'. if orphan_loops created cutoff home l then lr_run_id l' = lr_run_id l \<and> lr_terminal_state l' = ''failed'' else l' = l)
      (ld_runs (hm_loops home)) (ld_runs (hm_loops home'))"
    unfolding rows(3) list_all2_map2 by (intro list_all2_refl) simp
  ultimately show ?thesis using rows(4-6) recovered_once [OF assms(1-3)] unfolding assms(4) by blast
qed

section \<open>Witnesses\<close>

definition pause_evidence :: dict where
  "pause_evidence = [(''state_transition'', JStr ''external_wait_paused''), (''loop_run_id'', JStr ''l1''),
     (''reason'', JStr ''expired'')]"

definition pause_saga :: "string \<Rightarrow> LifecycleSaga" where
  "pause_saga st = \<lparr>sg_id = ''e0'', sg_operation_key = ''external_wait_pause:l1'', sg_run_id = ''r1'', sg_goal_id = ''g1'',
     sg_payload = JDict (saga_payload [(''phase'', JStr ''paused''), (''error'', JStr ''expired'')] pause_evidence
       [(''kind'', JStr ''external_wait_pause''), (''loop_run_id'', JStr ''l1''), (''evidence'', JDict pause_evidence)]),
     sg_status = st, sg_attempts = 0, sg_last_error = [], sg_created_at = 5, sg_updated_at = 5, sg_completed_at = 0\<rparr>"

definition saga_home :: "string \<Rightarrow> SagaHome" where
  "saga_home st = \<lparr>sh_home = sample_home ''waiting_approval'', sh_sagas = [pause_saga st]\<rparr>"

lemma sample_home_keys: "home_keys (sample_home ts)"
  by (simp add: home_keys_def keys_distinct_def one_goal_def)

lemma sample_only: "only_goal ''r1'' ''g1'' (hm_goals (sample_home ts))"
  by (simp add: only_goal_def keys_distinct_def one_goal_def sample_row_def new_goal_def)

lemma pause_saga_fields [simp]:
  "sg_id (pause_saga st) = ''e0''" "sg_run_id (pause_saga st) = ''r1''" "sg_goal_id (pause_saga st) = ''g1''"
  "sg_status (pause_saga st) = st" "sg_operation_key (pause_saga st) = ''external_wait_pause:l1''"
  by (simp_all add: pause_saga_def)

lemma pause_saga_proper: "proper_payload (pause_saga st)"
  by (simp add: proper_payload_def valid_payload_def pause_saga_def saga_payload_def pause_evidence_def
      transition_evidence_def)

lemma pause_saga_applies: "is_ok (fst (apply_saga (env_at 9) (pause_saga ''pending'') (saga_home ''pending'')))"
  by code_simp

theorem crashed_saga_recovers_witness:
  "fst (recover_pending (env_at 20) 100 (saga_home ''pending''\<lparr>sh_home :=
     after_crash 2 (env_at 9) (pause_saga ''pending'') (sample_home ''waiting_approval'')\<rparr>)) = [''e0'']"
proof -
  obtain out s1 where applied: "apply_saga (env_at 9) (pause_saga ''pending'') (saga_home ''pending'') = (Inr out, s1)"
    using pause_saga_applies by (cases "apply_saga (env_at 9) (pause_saga ''pending'') (saga_home ''pending'')")
      (auto simp: is_ok_iff)
  have "home_keys (sh_home (saga_home ''pending''))" "keys_distinct sg_id (sh_sagas (saga_home ''pending''))"
    "only_goal (sg_run_id (pause_saga ''pending'')) (sg_goal_id (pause_saga ''pending'')) (hm_goals (sh_home (saga_home ''pending'')))"
    "filter unfinished (sh_sagas (saga_home ''pending'')) = [pause_saga ''pending'']"
    using sample_home_keys sample_only by (simp_all add: saga_home_def keys_distinct_def unfinished_def)
  from crashed_saga_recovers [OF this(1-3) pause_saga_proper this(4) applied refl, of "env_at 20" 100 2]
  show ?thesis by (auto simp: saga_home_def)
qed

definition no_sagas :: SagaHome where
  "no_sagas = \<lparr>sh_home = sample_home ''running'', sh_sagas = []\<rparr>"

theorem prepare_keeps_first_witness:
  "fst (prepare_saga (env_at 9) ''k'' ''r2'' ''g2'' [] pause_evidence []
     (snd (prepare_saga (env_at 7) ''k'' ''r1'' ''g1'' [] [] [] no_sagas))) =
   fst (prepare_saga (env_at 7) ''k'' ''r1'' ''g1'' [] [] [] no_sagas)"
proof -
  have "is_ok (fst (prepare_saga (env_at 7) ''k'' ''r1'' ''g1'' [] [] [] no_sagas))"
    by code_simp
  then obtain saga s1 where first:
    "prepare_saga (env_at 7) ''k'' ''r1'' ''g1'' [] [] [] no_sagas = (Inr saga, s1)"
    by (cases "prepare_saga (env_at 7) ''k'' ''r1'' ''g1'' [] [] [] no_sagas") (auto simp: is_ok_iff)
  have "prepare_saga (env_at 9) ''k'' ''r2'' ''g2'' [] pause_evidence [] s1 = (Inr saga, s1)"
    using prepare_keeps_first [OF first] by blast
  then show ?thesis unfolding first by simp
qed

theorem second_wait_not_recovered_witness:
  "prepare_saga (env_at 9) ''external_wait_pause:l1'' ''r1'' ''g1'' [] [(''reason'', JStr ''again'')] []
     (saga_home ''completed'') = (Inr (pause_saga ''completed''), saga_home ''completed'')"
  using second_wait_not_recovered [of "''external_wait_pause:l1''" "saga_home ''completed''" "pause_saga ''completed''"
      "env_at 9" "''r1''" "''g1''" "[]" "[(''reason'', JStr ''again'')]" "[]"]
  by (simp add: saga_home_def row_of_Cons unfinished_def)

definition orphaned :: Home where
  "orphaned = (sample_home [])\<lparr>hm_goals := no_goals, hm_runs := \<lparr>db_runs = [sample_run\<lparr>run_kind := ''loop:turn''\<rparr>],
     db_logs = [], db_approvals = []\<rparr>\<rparr>"

theorem orphan_recovery_contract_witness:
  "set (op_runs (fst (recover_open_orphans (\<lambda>_. 0) (env_at 100) None 60 orphaned))) = {''r1''} \<and>
   (\<exists>l. ld_runs (hm_loops (snd (recover_open_orphans (\<lambda>_. 0) (env_at 100) None 60 orphaned))) = [l]
      \<and> lr_terminal_state l = ''failed'')"
proof -
  let ?out = "recover_open_orphans (\<lambda>_. 0) (env_at 100) None 60 orphaned"
  have keys: "home_keys orphaned" "small_tables orphaned"
    by (simp_all add: home_keys_def small_tables_def keys_distinct_def orphaned_def no_goals_def)
  have "orphan_runs (orphan_cutoff (env_at 100) None 60) orphaned (sample_run\<lparr>run_kind := ''loop:turn''\<rparr>)" by code_simp
  moreover have "db_runs (hm_runs orphaned) = [sample_run\<lparr>run_kind := ''loop:turn''\<rparr>]" by (simp add: orphaned_def)
  moreover have "orphan_loops (\<lambda>_. 0) (orphan_cutoff (env_at 100) None 60) orphaned (sample_loop [])" by code_simp
  moreover have "ld_runs (hm_loops orphaned) = [sample_loop []]" by (simp add: orphaned_def)
  ultimately show ?thesis
    using orphan_recovery_contract [OF keys prod.collapse [symmetric] refl, of "\<lambda>_. 0" "env_at 100" None 60]
    by (auto simp: list_all2_Cons1)
qed

end
