(* ===== verification/Graph_Decisions.thy ===== *)
theory Graph_Decisions
  imports Checker Resource_Gateway
begin

text \<open>
  The value objects and pure functions of \<open>navi/state_graph.py\<close>: planned and executed capability
  steps, the recovery ports, the ledger of side effects, the retry gate of provider failures, and the
  projection of transitions and resource gates into recorded decisions; with \<open>text_utils.py\<close> and
  \<open>provider_failure_facts\<close> of \<open>syscalls.py\<close>.

  Exceptions that cross the ports are the datatype \<open>exc\<close>. The tunables that \<open>dynamic_parameter\<close>
  reads are a record. \<open>hashlib.sha256\<close> is an argument.
\<close>

section \<open>Texts\<close>

definition truncate_middle :: "string \<Rightarrow> int \<Rightarrow> string" where
  "truncate_middle text limit =
     (if int (length text) \<le> limit then text
      else let head_limit = max 1 (limit div 2);
               tail_limit = max 1 (limit - head_limit);
               omitted = int (length text) - head_limit - tail_limit
           in take (nat head_limit) text @ [CHR 0x0A] @ ''... [truncated '' @ show_int omitted
              @ '' chars from the middle] ...'' @ [CHR 0x0A] @ drop (length text - nat tail_limit) text)"

text \<open>\<open>json.dumps(..., ensure_ascii=False, sort_keys=True)\<close>.\<close>

definition json_char :: "char \<Rightarrow> string" where
  "json_char c = (let n = code_point c in
     if c = CHR 0x22 then [CHR 0x5C, CHR 0x22] else if c = CHR 0x5C then [CHR 0x5C, CHR 0x5C]
     else if n = 10 then [CHR 0x5C, CHR ''n''] else if n = 13 then [CHR 0x5C, CHR ''r'']
     else if n = 9 then [CHR 0x5C, CHR ''t''] else if n = 8 then [CHR 0x5C, CHR ''b'']
     else if n = 12 then [CHR 0x5C, CHR ''f'']
     else if n < 32 then [CHR 0x5C, CHR ''u'', CHR ''0'', CHR ''0'', hex_digit (n div 16), hex_digit (n mod 16)]
     else [c])"

definition json_text :: "string \<Rightarrow> string" where
  "json_text s = [CHR 0x22] @ concat (map json_char s) @ [CHR 0x22]"

fun json_dumps :: "json \<Rightarrow> string" where
  "json_dumps JNull = ''null''"
| "json_dumps (JBool b) = (if b then ''true'' else ''false'')"
| "json_dumps (JInt i) = show_int i"
| "json_dumps (JFloat q) = repr_float q"
| "json_dumps (JStr s) = json_text s"
| "json_dumps (JList xs) = ''['' @ join_with '', '' (map json_dumps xs) @ '']''"
| "json_dumps (JDict d) =
     ''{'' @ join_with '', '' (map snd (sort_key fst (map (\<lambda>(k, v). (k, json_text k @ '': '' @ json_dumps v)) d))) @ ''}''"

section \<open>Exceptions and tunables\<close>

datatype exc =
    HttpError int rat string
  | ResponseError string
  | StructuredOutput string
  | TransportError string string
  | LimitError ResourceGrant
  | CheckerCallError exc
  | PyError py_error
  | OtherError string string

fun py_error_name :: "py_error \<Rightarrow> string" where
  "py_error_name (ValueError m) = ''ValueError''"
| "py_error_name (KeyError m) = ''KeyError''"
| "py_error_name (RuntimeError m) = ''RuntimeError''"
| "py_error_name (TypeError m) = ''TypeError''"
| "py_error_name (IntegrityError m) = ''IntegrityError''"
| "py_error_name (OperationalError m) = ''OperationalError''"
| "py_error_name (ProgrammingError m) = ''ProgrammingError''"
| "py_error_name (OSError m) = ''OSError''"
| "py_error_name (ChildAdmissionConflict m) = ''ChildAdmissionConflict''"

fun py_error_message :: "py_error \<Rightarrow> string" where
  "py_error_message (ValueError m) = m"
| "py_error_message (KeyError m) = repr_str m"
| "py_error_message (RuntimeError m) = m"
| "py_error_message (TypeError m) = m"
| "py_error_message (IntegrityError m) = m"
| "py_error_message (OperationalError m) = m"
| "py_error_message (ProgrammingError m) = m"
| "py_error_message (OSError m) = m"
| "py_error_message (ChildAdmissionConflict m) = m"

fun exc_name :: "exc \<Rightarrow> string" where
  "exc_name (HttpError st ra t) = ''ProviderHTTPError''"
| "exc_name (ResponseError t) = ''ProviderResponseError''"
| "exc_name (StructuredOutput t) = ''StructuredOutputError''"
| "exc_name (TransportError n t) = n"
| "exc_name (LimitError g) = ''ResourceLimitError''"
| "exc_name (CheckerCallError e) = ''SemanticCheckerCallError''"
| "exc_name (PyError e) = py_error_name e"
| "exc_name (OtherError n t) = n"

fun exc_str :: "exc \<Rightarrow> string" where
  "exc_str (HttpError st ra t) = t"
| "exc_str (ResponseError t) = t"
| "exc_str (StructuredOutput t) = t"
| "exc_str (TransportError n t) = t"
| "exc_str (LimitError g) = ''resource gateway '' @ resourceDecision_str (gr_decision g) @ '': '' @ gr_reason g"
| "exc_str (CheckerCallError e) = exc_str e"
| "exc_str (PyError e) = py_error_message e"
| "exc_str (OtherError n t) = t"

definition exc_repr :: "exc \<Rightarrow> string" where
  "exc_repr e = exc_name e @ ''('' @ (if exc_str e = [] then [] else repr_str (exc_str e)) @ '')''"

definition exc_message :: "exc \<Rightarrow> int \<Rightarrow> string" where
  "exc_message e limit =
     (let text = py_strip (exc_str e);
          text = (if text = [] then py_strip (exc_repr e) else text)
      in truncate_middle text limit)"

record Tunables =
  tn_transport_max_retries :: int
  tn_transport_retry_min_seconds :: time
  tn_transport_retry_max_seconds :: time
  tn_transport_retry_after_seconds :: time
  tn_error_max_chars :: int
  tn_execution_lease_min_seconds :: time

definition provider_failure_facts :: "Tunables \<Rightarrow> exc \<Rightarrow> dict" where
  "provider_failure_facts tn e =
     (let structured = (case e of StructuredOutput _ \<Rightarrow> True | _ \<Rightarrow> False);
          call_failure = (case e of HttpError _ _ _ \<Rightarrow> True | ResponseError _ \<Rightarrow> True
             | TransportError _ _ \<Rightarrow> True | _ \<Rightarrow> False);
          status_code = (case e of HttpError st _ _ \<Rightarrow> st | _ \<Rightarrow> 0);
          retryable = (case e of
              TransportError _ _ \<Rightarrow> True
            | HttpError st _ _ \<Rightarrow> st \<in> {408, 409, 425, 429} \<or> 500 \<le> st
            | _ \<Rightarrow> False);
          default_after = (if retryable then tn_transport_retry_after_seconds tn else 0);
          retry_after = (case e of HttpError _ ra _ \<Rightarrow> if retryable \<and> 0 < ra then ra else default_after
             | _ \<Rightarrow> default_after);
          error_text = py_strip (exc_str e);
          error_text = (if error_text = [] then py_strip (exc_repr e) else error_text)
      in [(''error_type'', JStr (exc_name e)),
          (''error'', JStr (truncate_middle error_text (tn_error_max_chars tn))),
          (''provider_call_failure'', JBool call_failure),
          (''structured_output_failure'', JBool structured),
          (''retryable'', JBool retryable), (''retry_after_seconds'', JFloat retry_after)]
         @ (if status_code \<noteq> 0 then [(''status_code'', JInt status_code)] else []))"

section \<open>Steps\<close>

record PlannedCapabilityStep =
  pc_tool :: string
  pc_args :: dict
  pc_permission :: string
  pc_reason :: string
  pc_used_memory_ids :: "string list"
  pc_used_evidence_ids :: "string list"
  pc_memory_activation :: dict

definition planned_to_dict :: "PlannedCapabilityStep \<Rightarrow> dict" where
  "planned_to_dict p =
     [(''tool'', JStr (pc_tool p)), (''args'', JDict (pc_args p)), (''permission'', JStr (pc_permission p)),
      (''reason'', JStr (pc_reason p)), (''used_memory_ids'', JList (map JStr (pc_used_memory_ids p))),
      (''used_evidence_ids'', JList (map JStr (pc_used_evidence_ids p))),
      (''memory_activation'', JDict (pc_memory_activation p))]"

record ExecutedCapabilityStep =
  ex_ok :: bool
  ex_action :: string
  ex_facts :: dict
  ex_message :: string
  ex_error_reason :: string
  ex_terminal :: bool
  ex_yields_control :: bool
  ex_completion_authority :: bool
  ex_mutates :: bool

definition executed_to_dict :: "ExecutedCapabilityStep \<Rightarrow> dict" where
  "executed_to_dict x =
     [(''ok'', JBool (ex_ok x)), (''action'', JStr (ex_action x)), (''facts'', JDict (ex_facts x)),
      (''message'', JStr (ex_message x)), (''error_reason'', JStr (ex_error_reason x)),
      (''terminal'', JBool (ex_terminal x)), (''yields_control'', JBool (ex_yields_control x)),
      (''deterministic_completion_authority'', JBool (ex_completion_authority x)),
      (''mutates'', JBool (ex_mutates x))]"

text \<open>\<open>for item in raw or ()\<close> over a JSON value: a text iterates over its characters, a dictionary
  over its keys, and a number raises.\<close>

fun json_items :: "json \<Rightarrow> json list result" where
  "json_items JNull = Inr []"
| "json_items (JList xs) = Inr xs"
| "json_items (JStr s) = Inr (map (\<lambda>c. JStr [c]) s)"
| "json_items (JDict d) = Inr (map (JStr \<circ> fst) d)"
| "json_items (JBool b) = (if b then Inl (TypeError ''bool object is not iterable'') else Inr [])"
| "json_items (JInt i) = (if i \<noteq> 0 then Inl (TypeError ''int object is not iterable'') else Inr [])"
| "json_items (JFloat q) = (if q \<noteq> 0 then Inl (TypeError ''float object is not iterable'') else Inr [])"

text \<open>\<open>dict(raw or {})\<close>: an object stays, an empty value is the empty dictionary, and anything else
  that is not a list of pairs raises.\<close>

definition json_dict_of :: "json \<Rightarrow> dict result" where
  "json_dict_of v =
     (case v of JDict d \<Rightarrow> Inr d
      | _ \<Rightarrow> if py_truthy v then Inl (TypeError ''cannot convert to a dictionary'') else Inr [])"

definition planned_step_from_raw :: "json \<Rightarrow> PlannedCapabilityStep option result" where
  "planned_step_from_raw raw =
     (case raw of
        JDict d \<Rightarrow>
          (case (jget d ''tool'', jget d ''args'', jget d ''permission'') of
             (JStr tool, JDict args, JStr permission) \<Rightarrow>
               if py_strip tool = [] \<or> py_strip permission = [] then Inr None
               else and_then (json_items (jget d ''used_memory_ids'')) (\<lambda>memory_ids.
                    and_then (json_items (jget d ''used_evidence_ids'')) (\<lambda>evidence_ids.
                    and_then (json_dict_of (jget d ''memory_activation'')) (\<lambda>activation.
                    Inr (Some \<lparr>pc_tool = py_strip tool, pc_args = args, pc_permission = py_strip permission,
                      pc_reason = str_or_empty (jget d ''reason''),
                      pc_used_memory_ids = map py_str memory_ids,
                      pc_used_evidence_ids = map py_str evidence_ids, pc_memory_activation = activation\<rparr>))))
           | _ \<Rightarrow> Inr None)
      | _ \<Rightarrow> Inr None)"

definition stable_fact_keys :: "string list" where
  "stable_fact_keys = [''status'', ''state_transition'', ''approval_id'', ''continuation_status'',
     ''loop_terminal_state'', ''reason'', ''entity_type'', ''entity_id'', ''source_path'']"

definition progress_payload :: "PlannedCapabilityStep \<Rightarrow> ExecutedCapabilityStep \<Rightarrow> dict" where
  "progress_payload planned executed =
     [(''tool'', JStr (pc_tool planned)), (''args'', JDict (pc_args planned)), (''ok'', JBool (ex_ok executed)),
      (''action'', JStr (ex_action executed)), (''error_reason'', JStr (ex_error_reason executed)),
      (''terminal'', JBool (ex_terminal executed)),
      (''facts'', JDict (map (\<lambda>k. (k, jget (ex_facts executed) k))
         (filter (\<lambda>k. k \<in> fst ` set (ex_facts executed)) stable_fact_keys)))]"

definition progress_signature :: "(string \<Rightarrow> string) \<Rightarrow> PlannedCapabilityStep \<Rightarrow> ExecutedCapabilityStep \<Rightarrow> string" where
  "progress_signature sha256 planned executed = sha256 (json_dumps (JDict (progress_payload planned executed)))"

definition effect_idempotency_key :: "(string \<Rightarrow> string) \<Rightarrow> LoopRunState \<Rightarrow> PlannedCapabilityStep \<Rightarrow> string" where
  "effect_idempotency_key sha256 state planned =
     sha256 (json_dumps (JDict [(''loop_run_id'', JStr (lr_run_id state)), (''attempt'', JInt (lr_attempt state)),
       (''tool'', JStr (pc_tool planned)), (''args'', JDict (pc_args planned))]))"

section \<open>Recovery\<close>

record ReflectionDecision =
  rd_replan_allowed :: bool
  rd_reason_code :: string
  rd_facts :: dict

definition reflection_to_dict :: "ReflectionDecision \<Rightarrow> dict" where
  "reflection_to_dict d =
     [(''replan_allowed'', JBool (rd_replan_allowed d)), (''reason_code'', JStr (rd_reason_code d)),
      (''facts'', JDict (rd_facts d))]"

definition encode_recovery_fact :: "string \<Rightarrow> dict \<Rightarrow> string" where
  "encode_recovery_fact fact_type facts =
     json_dumps (JDict [(''fact_type'', JStr fact_type), (''facts'', JDict facts)])"

definition may_replan :: "LoopSpec \<Rightarrow> LoopRunState \<Rightarrow> bool" where
  "may_replan spec state = (lr_attempt state < rp_max_attempts (ls_retry_policy spec))"

definition recover_capability :: "LoopSpec \<Rightarrow> LoopRunState \<Rightarrow> ExecutedCapabilityStep \<Rightarrow> ReflectionDecision" where
  "recover_capability spec state executed =
     (let retryable = (jget (ex_facts executed) ''retryable'' \<noteq> JBool False);
          facts = [(''trigger'', JStr ''capability.failed''), (''reason_code'', JStr ''execution_failed''),
            (''blocked'', JBool False), (''failure_domain'', JStr ''executor''),
            (''loop_run_id'', JStr (lr_run_id state)), (''attempt'', JInt (lr_attempt state)),
            (''goal_id'', JStr (ls_goal_id spec)), (''error_reason'', JStr (ex_error_reason executed)),
            (''retryable'', JBool retryable), (''message'', JStr (ex_message executed)),
            (''facts'', JDict (ex_facts executed))]
      in \<lparr>rd_replan_allowed = may_replan spec state,
          rd_reason_code = (if retryable then ''execution_failed'' else ''execution_not_retryable''),
          rd_facts = [(''recovery'', JDict facts),
            (''recovery_fact'', JStr (encode_recovery_fact ''capability_execution_failed'' facts))]\<rparr>)"

definition recover_violation :: "LoopSpec \<Rightarrow> LoopRunState \<Rightarrow> exc \<Rightarrow> string \<Rightarrow> dict \<Rightarrow> ReflectionDecision" where
  "recover_violation spec state e domain failure_facts =
     (let reason_code = exc_name e;
          violation = [(''error_type'', JStr reason_code), (''error'', JStr (exc_message e 1000)),
            (''domain'', JStr domain)]
            @ (if failure_facts \<noteq> [] then [(''failure_facts'', JDict failure_facts)] else []);
          facts = [(''trigger'', JStr ''runtime.contract_failed''), (''reason_code'', JStr reason_code),
            (''blocked'', JBool False), (''failure_domain'', JStr domain),
            (''loop_run_id'', JStr (lr_run_id state)), (''attempt'', JInt (lr_attempt state)),
            (''max_attempts'', JInt (rp_max_attempts (ls_retry_policy spec))),
            (''goal_id'', JStr (ls_goal_id spec)), (''contract_violation'', JDict violation),
            (''contract'', JDict [(''syscall_count'', JStr ''exactly_one''),
               (''runtime_executes_one_syscall_per_plan'', JBool True), (''respond_is_terminal'', JBool True)])]
      in \<lparr>rd_replan_allowed = may_replan spec state, rd_reason_code = reason_code,
          rd_facts = [(''recovery'', JDict facts),
            (''recovery_fact'', JStr (encode_recovery_fact ''runtime_contract_failed'' facts))]\<rparr>)"

definition checker_reason_code :: "CheckerReport \<Rightarrow> string" where
  "checker_reason_code r =
     (if cr_timed_out r then ''checker_timed_out''
      else case find (\<lambda>reason. reason \<noteq> []) (map (\<lambda>c. py_strip (lcr_reason c)) (cr_checker_results r)) of
          Some reason \<Rightarrow> reason
        | None \<Rightarrow> if cr_blocked r then ''checker_blocked'' else ''checker_rejected'')"

definition reflect_check :: "LoopSpec \<Rightarrow> LoopRunState \<Rightarrow> CheckerReport \<Rightarrow> json list \<Rightarrow> ReflectionDecision" where
  "reflect_check spec state report harness_facts =
     (let reason_code = checker_reason_code report;
          facts = [(''trigger'', JStr ''loop.check''), (''reason_code'', JStr reason_code),
            (''blocked'', JBool (cr_blocked report)),
            (''failure_domain'', JStr (if cr_blocked report then ''checker_blocked'' else ''verification_failed'')),
            (''loop_run_id'', JStr (lr_run_id state)), (''attempt'', JInt (lr_attempt state)),
            (''goal_id'', JStr (ls_goal_id spec)), (''checker_report'', JDict (checker_report_to_dict report)),
            (''harness_results'', JList harness_facts)]
      in \<lparr>rd_replan_allowed = (reason_code \<noteq> ''no_route_available'' \<and> may_replan spec state),
          rd_reason_code = reason_code,
          rd_facts = [(''recovery'', JDict facts),
            (''recovery_fact'', JStr (encode_recovery_fact ''loop_checker_fact'' facts))]\<rparr>)"

section \<open>The retry gate of provider failures\<close>

text \<open>\<open>int(value or 0)\<close>; a fraction is cut towards zero.\<close>

definition int_or_zero :: "json \<Rightarrow> int result" where
  "int_or_zero v =
     (if \<not> py_truthy v then Inr 0
      else case v of JInt i \<Rightarrow> Inr i | JBool b \<Rightarrow> Inr 1
        | JFloat q \<Rightarrow> Inr (if q < 0 then \<lceil>q\<rceil> else \<lfloor>q\<rfloor>)
        | JStr s \<Rightarrow> py_int s
        | _ \<Rightarrow> Inl (TypeError ''int() argument must be a string, a bytes-like object or a real number''))"

text \<open>\<open>min(most, max(least, x))\<close> on floats; every comparison with NaN is false.\<close>

fun clamp_seconds :: "time \<Rightarrow> time \<Rightarrow> py_float \<Rightarrow> time" where
  "clamp_seconds least most (Finite q) = min most (max least q)"
| "clamp_seconds least most Infinity = most"
| "clamp_seconds least most NegInfinity = min most least"
| "clamp_seconds least most NotANumber = min most least"

definition float_or_zero :: "json \<Rightarrow> py_float" where
  "float_or_zero v =
     (if \<not> py_truthy v then Finite 0 else case py_float v of None \<Rightarrow> Finite 0 | Some f \<Rightarrow> f)"

definition owns_retry_gate :: "string \<Rightarrow> json \<Rightarrow> bool" where
  "owns_retry_gate model_role prior =
     (is_dict prior \<and> jget (as_dict prior) ''kind'' = JStr ''provider_transport''
      \<and> str_or_empty (jget (as_dict prior) ''model_role'') = model_role)"

definition prior_retries :: "Tunables \<Rightarrow> string \<Rightarrow> dict \<Rightarrow> int" where
  "prior_retries tn model_role evidence =
     (let prior = jget evidence ''retry_gate''
      in if owns_retry_gate model_role prior
         then (case int_or_zero (jget (as_dict prior) ''retry_count'') of
                 Inr n \<Rightarrow> max 0 n | Inl _ \<Rightarrow> tn_transport_max_retries tn)
         else 0)"

definition next_retry_gate :: "Tunables \<Rightarrow> dict \<Rightarrow> dict \<Rightarrow> string \<Rightarrow> LoopNode \<Rightarrow> dict option" where
  "next_retry_gate tn failure_facts evidence model_role resume_node =
     (if \<not> py_truthy (jget failure_facts ''retryable'') then None
      else if tn_transport_max_retries tn \<le> prior_retries tn model_role evidence then None
      else Some [(''decision'', JStr ''pause''), (''kind'', JStr ''provider_transport''),
         (''reason'', JStr ''provider_transport_unavailable''), (''model_role'', JStr model_role),
         (''retry_after_seconds'', JFloat (clamp_seconds (tn_transport_retry_min_seconds tn)
            (tn_transport_retry_max_seconds tn) (float_or_zero (jget failure_facts ''retry_after_seconds'')))),
         (''retry_count'', JInt (prior_retries tn model_role evidence + 1)),
         (''max_retries'', JInt (tn_transport_max_retries tn)),
         (''resume_node'', JStr (loopNode_str resume_node))])"

definition last_10 :: "'a list \<Rightarrow> 'a list" where
  "last_10 xs = drop (length xs - 10) xs"

definition retry_history :: "dict \<Rightarrow> json list" where
  "retry_history evidence =
     filter is_dict (as_list (jget evidence ''provider_transport_retry_history''))"

definition clear_retry_gate :: "string \<Rightarrow> dict \<Rightarrow> dict" where
  "clear_retry_gate model_role evidence =
     (let prior = jget evidence ''retry_gate''
      in if \<not> owns_retry_gate model_role prior then evidence
         else dict_set ''retry_gate'' JNull
           (dict_set ''provider_transport_retry_history''
             (JList (last_10 (retry_history evidence @ [JDict (dict_set ''outcome'' (JStr ''recovered'') (as_dict prior))])))
             evidence))"

definition retry_clearance_evidence :: "dict \<Rightarrow> dict" where
  "retry_clearance_evidence evidence =
     (if ''retry_gate'' \<notin> fst ` set evidence \<or> jget evidence ''retry_gate'' \<noteq> JNull then []
      else [(''retry_gate'', JNull), (''provider_transport_retry_history'',
              JList (as_list (jget evidence ''provider_transport_retry_history'')))])"

section \<open>Side effects\<close>

definition side_effect_keys :: "string list" where
  "side_effect_keys = [''side_effect_scope'', ''side_effect_state'', ''side_effect_artifact'',
     ''side_effect_commit'', ''side_effect_compensate'']"

text \<open>\<open>str(facts.get(a) or facts.get(b) or "")\<close>\<close>

definition first_text :: "dict \<Rightarrow> string \<Rightarrow> string \<Rightarrow> string" where
  "first_text d a b = (if py_truthy (jget d a) then py_str (jget d a) else str_or_empty (jget d b))"

definition transition_side_effect :: "dict \<Rightarrow> dict" where
  "transition_side_effect evidence =
     (let executor = jget evidence ''executor''; x = as_dict executor; facts = jget x ''facts''; f = as_dict facts;
          action = str_or_empty (jget x ''action'');
          explicit = (list_ex (\<lambda>k. k \<in> fst ` set f) side_effect_keys \<or> action = ''connector_outbound'');
          scope = str_or_empty (jget f ''side_effect_scope'');
          state = first_text f ''side_effect_state'' ''state_transition'';
          artifact = first_text f ''side_effect_artifact'' ''outbound_path''
      in if \<not> is_dict executor \<or> \<not> is_dict facts \<or> \<not> explicit \<or> (scope = [] \<and> state = [] \<and> artifact = []) then []
         else [(''scope'', JStr scope), (''state'', JStr state), (''artifact'', JStr artifact),
           (''action'', JStr action), (''commit'', JStr (str_or_empty (jget f ''side_effect_commit''))),
           (''compensate'', JStr (str_or_empty (jget f ''side_effect_compensate''))),
           (''commit_strategy'', JStr (str_or_empty (jget f ''side_effect_commit_strategy'')))])"

definition collected_side_effect :: "dict \<Rightarrow> dict" where
  "collected_side_effect evidence =
     (let result = jget evidence ''capability_result''
      in if is_dict result then transition_side_effect [(''executor'', result)] else [])"

record SideEffectSagaResult =
  se_action :: string
  se_ok :: bool
  se_scope :: string
  se_state :: string
  se_artifact :: string
  se_commit :: string
  se_compensate :: string
  se_commit_strategy :: string
  se_reason :: string

definition side_effect_to_dict :: "SideEffectSagaResult \<Rightarrow> dict" where
  "side_effect_to_dict r =
     [(''action'', JStr (se_action r)), (''ok'', JBool (se_ok r)), (''scope'', JStr (se_scope r)),
      (''state'', JStr (se_state r)), (''artifact'', JStr (se_artifact r)), (''commit'', JStr (se_commit r)),
      (''compensate'', JStr (se_compensate r)), (''commit_strategy'', JStr (se_commit_strategy r)),
      (''reason'', JStr (se_reason r))]"

definition side_effect_result :: "string \<Rightarrow> dict \<Rightarrow> bool \<Rightarrow> string \<Rightarrow> string \<Rightarrow> SideEffectSagaResult" where
  "side_effect_result action d ok state reason =
     \<lparr>se_action = action, se_ok = ok, se_scope = str_or_empty (jget d ''scope''), se_state = state,
      se_artifact = str_or_empty (jget d ''artifact''), se_commit = str_or_empty (jget d ''commit''),
      se_compensate = str_or_empty (jget d ''compensate''),
      se_commit_strategy = (if action = ''commit'' then str_or_empty (jget d ''commit_strategy'') else []),
      se_reason = reason\<rparr>"

definition staged :: "dict \<Rightarrow> bool" where
  "staged d = (str_or_empty (jget d ''state'') \<in> {''staged'', ''prepared''})"

definition not_staged :: "string \<Rightarrow> dict \<Rightarrow> SideEffectSagaResult" where
  "not_staged action d =
     side_effect_result action d True (or_else (str_or_empty (jget d ''state'')) ''no_staged_side_effect'')
       ''side_effect_not_staged''"

definition commit_side_effect :: "dict \<Rightarrow> SideEffectSagaResult" where
  "commit_side_effect d =
     (if \<not> staged d then not_staged ''commit'' d
      else if str_or_empty (jget d ''commit'') \<noteq> [] \<and> str_or_empty (jget d ''commit_strategy'') = ''deferred''
      then side_effect_result ''commit'' d True ''released_for_deferred_commit'' ''deferred_commit_released''
      else side_effect_result ''commit'' d False ''commit_handler_missing'' ''no_state_graph_commit_handler'')"

text \<open>What the file system says of a path: that it cannot be resolved, or where it leads, whether that
  is below the home and in an outbox, and what is there.\<close>

datatype path_fact = PathError string | PathAt string bool bool bool

definition compensate_side_effect :: "(string \<Rightarrow> path_fact) \<Rightarrow> dict \<Rightarrow> SideEffectSagaResult \<times> string option" where
  "compensate_side_effect look d =
     (if \<not> staged d then (not_staged ''compensate'' d, None)
      else if str_or_empty (jget d ''compensate'') \<noteq> ''filesystem.remove_staged_outbound''
      then (side_effect_result ''compensate'' d False ''compensate_handler_missing'' ''no_state_graph_compensate_handler'', None)
      else case look (str_or_empty (jget d ''artifact'')) of
          PathError reason \<Rightarrow> (side_effect_result ''compensate'' d False ''compensate_path_error'' reason, None)
        | PathAt resolved in_outbox exists is_file \<Rightarrow>
            (let placed = (\<lambda>r. r\<lparr>se_artifact := resolved\<rparr>)
             in if \<not> in_outbox
                then (placed (side_effect_result ''compensate'' d False ''compensate_path_blocked'' ''artifact_outside_connector_outbox''), None)
                else if \<not> exists
                then (placed (side_effect_result ''compensate'' d True ''compensated_missing'' ''artifact_already_absent''), None)
                else if \<not> is_file
                then (placed (side_effect_result ''compensate'' d False ''compensate_path_blocked'' ''artifact_not_file''), None)
                else (placed (side_effect_result ''compensate'' d True ''compensated'' ''staged_artifact_removed''), Some resolved)))"

section \<open>Recorded decisions\<close>

definition starts_resource :: "string \<Rightarrow> bool" where
  "starts_resource condition = py_startswith condition ''resource_''"

definition TERMINAL_DECISION_MAP :: "(string \<times> LoopDecisionKind) list" where
  "TERMINAL_DECISION_MAP =
     [(loopTerminalState_str LoopTerminalState_CONVERGED, LoopDecisionKind_CONVERGED),
      (loopTerminalState_str LoopTerminalState_PAUSED, LoopDecisionKind_BLOCKED),
      (loopTerminalState_str LoopTerminalState_WAITING_APPROVAL, LoopDecisionKind_BLOCKED),
      (loopTerminalState_str LoopTerminalState_BLOCKED, LoopDecisionKind_BLOCKED),
      (loopTerminalState_str LoopTerminalState_CONFLICTED, LoopDecisionKind_BLOCKED)]"

definition CONDITION_DECISION_MAP :: "(string \<times> LoopDecisionKind) list" where
  "CONDITION_DECISION_MAP =
     [(''resource_pause'', LoopDecisionKind_CONTINUE), (''planner_failed'', LoopDecisionKind_RECOVER),
      (''capability_failed'', LoopDecisionKind_RECOVER), (''checker_failed'', LoopDecisionKind_RECOVER),
      (''new_route_available'', LoopDecisionKind_RECOVER),
      (''side_effect_commit_required'', LoopDecisionKind_BLOCKED)]"

definition transition_decision_kind :: "LoopRunState \<Rightarrow> string \<Rightarrow> string \<Rightarrow> LoopDecisionKind" where
  "transition_decision_kind state condition terminal =
     (case map_of TERMINAL_DECISION_MAP terminal of Some k \<Rightarrow> k
      | None \<Rightarrow> if terminal \<noteq> [] then LoopDecisionKind_FAILED
          else case map_of CONDITION_DECISION_MAP condition of Some k \<Rightarrow> k
            | None \<Rightarrow> if lr_node state = loopNode_str LoopNode_REFLECT then LoopDecisionKind_RECOVER
                else if starts_resource condition then LoopDecisionKind_BLOCKED
                else LoopDecisionKind_CONTINUE)"

definition CONDITION_REASON_MAP :: "(string \<times> LoopReason) list" where
  "CONDITION_REASON_MAP =
     [(''planner_failed'', LoopReason_PLANNER_OR_PARSER_FAILURE),
      (''missing_planned_capability'', LoopReason_PLANNER_OR_PARSER_FAILURE),
      (''capability_failed'', LoopReason_CAPABILITY_FAILURE),
      (''repeated_progress_signature'', LoopReason_REPEATED_PROGRESS_SIGNATURE),
      (''checker_failed'', LoopReason_COMPLETION_CHECKER_BLOCKED),
      (''checker_rejected'', LoopReason_COMPLETION_CHECKER_BLOCKED),
      (''no_route_available'', LoopReason_COMPLETION_CHECKER_BLOCKED),
      (''resource_pause'', LoopReason_EXTERNAL_PAUSE),
      (''resource_or_user_pause'', LoopReason_EXTERNAL_PAUSE),
      (''approval_required'', LoopReason_APPROVAL_REQUIRED),
      (''resource_escalate'', LoopReason_APPROVAL_REQUIRED),
      (''side_effect_commit_required'', LoopReason_APPROVAL_REQUIRED),
      (''hard_timeout'', LoopReason_TERMINAL_RESULT),
      (''checker_passed'', LoopReason_COMPLETION_EVIDENCE_TRUE),
      (''plan_ready'', LoopReason_CAPABILITY_FACT_RECORDED),
      (''side_effect_recorded'', LoopReason_CAPABILITY_FACT_RECORDED),
      (''continue_iteration'', LoopReason_CAPABILITY_FACT_RECORDED)]"

definition transition_reason :: "string \<Rightarrow> string \<Rightarrow> LoopReason" where
  "transition_reason condition terminal =
     (case map_of CONDITION_REASON_MAP condition of Some r \<Rightarrow> r
      | None \<Rightarrow> if terminal = loopTerminalState_str LoopTerminalState_CONVERGED then LoopReason_COMPLETION_EVIDENCE_TRUE
          else if terminal \<noteq> [] then LoopReason_TERMINAL_RESULT else LoopReason_CAPABILITY_FACT_RECORDED)"

definition CONDITION_FAILURE_DOMAIN_MAP :: "(string \<times> TraceFailureDomain) list" where
  "CONDITION_FAILURE_DOMAIN_MAP =
     [(''planner_failed'', TraceFailureDomain_PLANNER_OR_PARSER),
      (''missing_planned_capability'', TraceFailureDomain_PLANNER_OR_PARSER),
      (''capability_failed'', TraceFailureDomain_CAPABILITY_FAILURE),
      (''repeated_progress_signature'', TraceFailureDomain_LOOP_NO_PROGRESS),
      (''checker_failed'', TraceFailureDomain_CHECKER_BLOCKED),
      (''checker_rejected'', TraceFailureDomain_CHECKER_BLOCKED),
      (''no_route_available'', TraceFailureDomain_CHECKER_BLOCKED),
      (''resource_pause'', TraceFailureDomain_NONE), (''resource_or_user_pause'', TraceFailureDomain_NONE),
      (''resource_escalate'', TraceFailureDomain_SAFEGUARD_POLICY),
      (''resource_blocked'', TraceFailureDomain_SAFEGUARD_POLICY),
      (''side_effect_commit_required'', TraceFailureDomain_SAFEGUARD_POLICY)]"

definition TERMINAL_FAILURE_DOMAIN_MAP :: "(string \<times> TraceFailureDomain) list" where
  "TERMINAL_FAILURE_DOMAIN_MAP =
     [(loopTerminalState_str LoopTerminalState_PAUSED, TraceFailureDomain_NONE),
      (loopTerminalState_str LoopTerminalState_WAITING_APPROVAL, TraceFailureDomain_SAFEGUARD_POLICY),
      (loopTerminalState_str LoopTerminalState_FAILED, TraceFailureDomain_RUNTIME),
      (loopTerminalState_str LoopTerminalState_TIMED_OUT, TraceFailureDomain_RUNTIME),
      (loopTerminalState_str LoopTerminalState_CANCELLED, TraceFailureDomain_RUNTIME),
      (loopTerminalState_str LoopTerminalState_SUPERSEDED, TraceFailureDomain_RUNTIME),
      (loopTerminalState_str LoopTerminalState_CONFLICTED, TraceFailureDomain_RUNTIME)]"

definition transition_failure_domain :: "string \<Rightarrow> string \<Rightarrow> TraceFailureDomain" where
  "transition_failure_domain condition terminal =
     (case map_of CONDITION_FAILURE_DOMAIN_MAP condition of Some d \<Rightarrow> d
      | None \<Rightarrow> (case map_of TERMINAL_FAILURE_DOMAIN_MAP terminal of Some d \<Rightarrow> d | None \<Rightarrow> TraceFailureDomain_NONE))"

definition CONDITION_CHECK_NAME_MAP :: "(string \<times> LoopCheckName) list" where
  "CONDITION_CHECK_NAME_MAP =
     [(''planner_failed'', LoopCheckName_PLANNER_RESULT), (''plan_ready'', LoopCheckName_PLANNER_RESULT),
      (''capability_failed'', LoopCheckName_CAPABILITY_RESULT),
      (''side_effect_recorded'', LoopCheckName_CAPABILITY_RESULT),
      (''repeated_progress_signature'', LoopCheckName_NO_PROGRESS_GATE),
      (''resource_pause'', LoopCheckName_EXTERNAL_PAUSE),
      (''resource_or_user_pause'', LoopCheckName_EXTERNAL_PAUSE),
      (''side_effect_commit_required'', LoopCheckName_APPROVAL_GATE)]"

definition transition_check_name :: "string \<Rightarrow> string \<Rightarrow> LoopCheckName" where
  "transition_check_name condition terminal =
     (case map_of CONDITION_CHECK_NAME_MAP condition of Some n \<Rightarrow> n
      | None \<Rightarrow> if starts_resource condition then LoopCheckName_APPROVAL_GATE
          else if terminal \<noteq> [] then LoopCheckName_TERMINAL_RESULT else LoopCheckName_COMPLETION_CHECKER)"

definition transition_check_passed :: "string \<Rightarrow> LoopDecisionKind \<Rightarrow> bool" where
  "transition_check_passed condition decision =
     (condition \<in> {''resource_pause'', ''resource_or_user_pause''}
      \<or> decision \<notin> {LoopDecisionKind_BLOCKED, LoopDecisionKind_FAILED})"

definition transition_tool :: "dict \<Rightarrow> string" where
  "transition_tool evidence =
     (let planned = jget evidence ''planned_capability''; executor = jget evidence ''executor'';
          facts = jget (as_dict executor) ''facts''
      in if is_dict planned then str_or_empty (jget (as_dict planned) ''tool'')
         else if is_dict executor
           then (if is_dict facts then str_or_empty (jget (as_dict facts) ''tool'')
                 else first_text (as_dict executor) ''tool'' ''action'')
         else first_text evidence ''tool'' ''action'')"

definition loop_check_result :: "string \<Rightarrow> bool \<Rightarrow> string \<Rightarrow> dict \<Rightarrow> LoopCheckResult" where
  "loop_check_result name passed reason evidence =
     \<lparr>lcr_name = name, lcr_passed = passed, lcr_severity = loopSeverity_str LoopSeverity_INFO,
      lcr_reason = reason, lcr_evidence = evidence\<rparr>"

definition transition_loop_decision ::
  "LoopRunState \<Rightarrow> LoopRunState \<Rightarrow> string \<Rightarrow> string \<Rightarrow> string \<Rightarrow> dict \<Rightarrow> LoopDecision" where
  "transition_loop_decision from_state to_state checkpoint_id condition terminal evidence =
     (let decision = transition_decision_kind to_state condition terminal;
          reason = loopReason_str (transition_reason condition terminal);
          name = transition_check_name condition terminal;
          ends = [(''from_node'', JStr (lr_node from_state)), (''to_node'', JStr (lr_node to_state)),
             (''condition'', JStr condition), (''terminal_state'', JStr terminal)];
          check = loop_check_result (loopCheckName_str name) (transition_check_passed condition decision) reason
             (ends @ [(''attempt'', JInt (lr_attempt to_state)), (''checkpoint_id'', JStr checkpoint_id),
                (''transition_evidence'', JDict evidence)]);
          is_gate = (name \<in> {LoopCheckName_APPROVAL_GATE, LoopCheckName_EXTERNAL_PAUSE, LoopCheckName_NO_PROGRESS_GATE});
          side_effect = transition_side_effect evidence;
          signature = jget evidence ''progress_signature''
      in \<lparr>ld_decision = loopDecisionKind_str decision, ld_reason = reason,
          ld_phase = loopPhase_str LoopPhase_DECISION,
          ld_failure_domain = traceFailureDomain_str (transition_failure_domain condition terminal),
          ld_tool = transition_tool evidence, ld_run_id = lr_run_id to_state, ld_step_id = checkpoint_id,
          ld_goal_ids = [lr_goal_id to_state],
          ld_progress_signature = (if py_truthy signature then py_str signature
             else str_or_empty (jget (lr_evidence to_state) ''progress_signature'')),
          ld_checker_results = (if is_gate then [] else [check]),
          ld_gate_results = (if is_gate then [check] else []),
          ld_evidence = ends @ [(''loop_run_id'', JStr (lr_run_id to_state)),
             (''loop_spec_id'', JStr (lr_loop_spec_id to_state)), (''attempt'', JInt (lr_attempt to_state))]
             @ (if side_effect \<noteq> [] then [(''side_effect'', JDict side_effect)] else [])\<rparr>)"

definition gate_decision_kind :: "ResourceGrant \<Rightarrow> LoopDecisionKind" where
  "gate_decision_kind grant =
     (case gr_decision grant of
        ResourceDecision_ALLOW \<Rightarrow> LoopDecisionKind_CONTINUE
      | ResourceDecision_BLOCK \<Rightarrow> LoopDecisionKind_FAILED
      | _ \<Rightarrow> LoopDecisionKind_BLOCKED)"

definition gate_loop_decision :: "LoopRunState \<Rightarrow> string \<Rightarrow> ResourceGrant \<Rightarrow> LoopDecision" where
  "gate_loop_decision state kind grant =
     (let pause = (gr_decision grant = ResourceDecision_PAUSE);
          check = loop_check_result
            (loopCheckName_str (if pause then LoopCheckName_EXTERNAL_PAUSE else LoopCheckName_APPROVAL_GATE))
            (grant_allowed grant) (gr_reason grant)
            [(''kind'', JStr kind), (''grant'', JDict (grant_to_dict grant)),
             (''loop_run_id'', JStr (lr_run_id state)), (''attempt'', JInt (lr_attempt state))]
      in \<lparr>ld_decision = loopDecisionKind_str (gate_decision_kind grant),
          ld_reason = loopReason_str (if grant_allowed grant then LoopReason_CAPABILITY_FACT_RECORDED
             else if pause then LoopReason_EXTERNAL_PAUSE else LoopReason_APPROVAL_REQUIRED),
          ld_phase = loopPhase_str LoopPhase_DECISION,
          ld_failure_domain = traceFailureDomain_str (if grant_allowed grant \<or> pause
             then TraceFailureDomain_NONE else TraceFailureDomain_SAFEGUARD_POLICY),
          ld_tool = kind, ld_run_id = lr_run_id state, ld_step_id = [], ld_goal_ids = [lr_goal_id state],
          ld_progress_signature = [], ld_checker_results = [], ld_gate_results = [check],
          ld_evidence = [(''kind'', JStr kind), (''grant'', JDict (grant_to_dict grant)),
             (''loop_run_id'', JStr (lr_run_id state)), (''loop_spec_id'', JStr (lr_loop_spec_id state)),
             (''attempt'', JInt (lr_attempt state))]\<rparr>)"

definition side_effect_decision :: "LoopRunState \<Rightarrow> SideEffectSagaResult \<Rightarrow> LoopDecision" where
  "side_effect_decision state result =
     (let facts = [(''side_effect'', JDict (side_effect_to_dict result))]
      in \<lparr>ld_decision = loopDecisionKind_str (if se_ok result then LoopDecisionKind_CONTINUE else LoopDecisionKind_BLOCKED),
          ld_reason = loopReason_str (if se_ok result then LoopReason_CAPABILITY_FACT_RECORDED else LoopReason_APPROVAL_REQUIRED),
          ld_phase = loopPhase_str LoopPhase_DECISION,
          ld_failure_domain = traceFailureDomain_str (if se_ok result then TraceFailureDomain_NONE
             else TraceFailureDomain_SAFEGUARD_POLICY),
          ld_tool = ''state_graph.side_effect.'' @ se_action result, ld_run_id = lr_run_id state,
          ld_step_id = [], ld_goal_ids = [lr_goal_id state], ld_progress_signature = [],
          ld_checker_results = [loop_check_result (loopCheckName_str LoopCheckName_CAPABILITY_RESULT)
             (se_ok result) (se_reason result) facts],
          ld_gate_results = [],
          ld_evidence = [(''condition'', JStr (''side_effect_'' @ se_action result)),
             (''loop_run_id'', JStr (lr_run_id state)), (''loop_spec_id'', JStr (lr_loop_spec_id state)),
             (''attempt'', JInt (lr_attempt state))] @ facts\<rparr>)"

section \<open>Limits and results\<close>

definition resource_limits_for_spec :: "LoopSpec \<Rightarrow> ResourceLimits" where
  "resource_limits_for_spec spec =
     (let p = ls_budget_policy spec
      in \<lparr>rl_token_budget = bp_token_budget p, rl_call_budget = bp_call_budget p,
          rl_cost_budget = bp_cost_budget p, rl_qps_limit = bp_qps_limit p,
          rl_max_concurrent = bp_max_concurrent p\<rparr>)"

definition default_phase_tokens :: "ResourceLimits \<Rightarrow> int" where
  "default_phase_tokens l =
     (if rl_token_budget l \<le> 0 then 0 else max 1 (rl_token_budget l div max 1 (rl_call_budget l)))"

definition default_phase_cost :: "ResourceLimits \<Rightarrow> rat" where
  "default_phase_cost l =
     (if rl_cost_budget l \<le> 0 then 0 else rl_cost_budget l / of_int (max 1 (rl_call_budget l)))"

definition step_runs_command :: "VerificationStep \<Rightarrow> bool" where
  "step_runs_command step =
     (py_strip (vs_command step) \<noteq> [] \<and> vs_kind step \<in> {verificationKind_str VerificationKind_UNIT_TEST,
        verificationKind_str VerificationKind_INTEGRATION_TEST,
        verificationKind_str VerificationKind_COMMAND_EXIT_CODE})"

definition has_surface_result :: "dict \<Rightarrow> bool" where
  "has_surface_result evidence =
     (let result = jget evidence ''capability_result''; facts = jget (as_dict result) ''facts''
      in py_strip (str_or_empty (jget evidence ''responded_message'')) \<noteq> []
         \<or> (is_dict result \<and> is_dict facts \<and> is_dict (jget (as_dict facts) ''connector_delivery'')))"

text \<open>\<open>surfaces\<close> are the planner capabilities of the registry: name and whether it gives facts only.\<close>

definition surface_response_required :: "LoopSpec \<Rightarrow> (string \<times> bool) list \<Rightarrow> bool" where
  "surface_response_required spec surfaces =
     (let allowed = set (ls_allowed_capabilities spec); metadata = gs_metadata (ls_goal spec);
          delivery = as_dict (jget (as_dict (jget metadata ''task_context'')) ''delivery'')
      in list_ex (\<lambda>(name, facts_only). \<not> facts_only \<and> (''*'' \<in> allowed \<or> name \<in> allowed)) surfaces
         \<and> (str_or_empty (jget metadata ''loop_kind'') = ''turn''
            \<or> str_or_empty (jget delivery ''stage'') = ''post_semantic_acceptance_outbox''
            \<or> (str_or_empty (jget metadata ''source'') \<noteq> []
               \<and> str_or_empty (jget metadata ''execution_mode'') = ''foreground'')))"

record StateGraphRunResult =
  sr_run_state :: LoopRunState
  sr_checker_report :: "CheckerReport option"
  sr_resource_grants :: "ResourceGrant list"
  sr_harness_results :: "json list"
  sr_evidence :: dict

definition run_result_to_dict :: "StateGraphRunResult \<Rightarrow> dict" where
  "run_result_to_dict r =
     [(''run_state'', JDict (loop_run_state_to_dict (sr_run_state r))),
      (''checker_report'', JDict (case sr_checker_report r of None \<Rightarrow> [] | Some c \<Rightarrow> checker_report_to_dict c)),
      (''resource_grants'', JList (map (JDict \<circ> grant_to_dict) (sr_resource_grants r))),
      (''harness_results'', JList (sr_harness_results r)), (''evidence'', JDict (sr_evidence r))]"

definition run_result_to_facts :: "StateGraphRunResult \<Rightarrow> dict" where
  "run_result_to_facts r =
     (let run_state = loop_run_state_to_dict (sr_run_state r);
          durable = as_dict (jget run_state ''evidence'')
      in dict_set ''run_state'' (JDict (filter (\<lambda>(k, v). k \<noteq> ''evidence'') run_state
            @ [(''evidence_keys'', JList (map JStr (sort (map fst durable))))])) (run_result_to_dict r))"

end
