(* ===== verification/State_Graph.thy ===== *)
theory State_Graph
  imports Graph_Decisions Loop_Run_Safety
begin

text \<open>
  \<open>DurableStateGraphRunner\<close> of \<open>navi/state_graph.py\<close>: the driver that takes a loop run through plan,
  execute, evaluate and reflect.

  The driver is a program over a \<open>World\<close>: the tables of loop runs, the resource gateway with its
  ledger, what the driver keeps in its object and in the dictionaries and lists it passes by
  reference, and a log of what it did. A program ends with a value, with a result of the run (an
  early \<open>return\<close>), or with an exception.

  What the driver calls is a record of ports: the planner, the executor, the semantic checker, the
  harness, the file system and the clock answer with any value, or raise, as a function of the number
  of calls so far. \<open>po_others\<close> and \<open>po_meanwhile\<close> are what other workers, and the lease heartbeat, do
  to the tables before a call of the store and between its \<open>SELECT\<close> and its \<open>UPDATE\<close>. The capability
  registry, \<open>dynamic_parameter\<close> and \<open>sha256\<close> are ports too. The decisions recorded for the trace are
  kept in the order they are added.
\<close>

section \<open>Worlds, ports and programs\<close>

record SemanticCheckDecision =
  sc_passed :: bool
  sc_evidence_summary :: string

definition semantic_facts :: "SemanticCheckDecision \<Rightarrow> dict" where
  "semantic_facts d =
     [(''passed'', JBool (sc_passed d)), (''ok'', JBool (sc_passed d)),
      (''evidence_summary'', JStr (sc_evidence_summary d)), (''evaluator_role'', JStr ''checker''),
      (''isolated_context'', JBool True)]"

text \<open>What the harness raises: the class of the exception and its text. The harness calls no provider.\<close>

type_synonym fault = "string \<times> string"

record Ports =
  po_env :: "nat \<Rightarrow> Env"
  po_fresh :: "nat \<Rightarrow> string"
  po_others :: "nat \<Rightarrow> LoopDb \<Rightarrow> LoopDb"
  po_meanwhile :: "nat \<Rightarrow> LoopDb \<Rightarrow> LoopDb"
  po_lease_error :: "nat \<Rightarrow> string option"
  po_plan :: "nat \<Rightarrow> LoopSpec \<Rightarrow> LoopRunState \<Rightarrow> dict \<Rightarrow> exc + PlannedCapabilityStep"
  po_execute :: "nat \<Rightarrow> PlannedCapabilityStep \<Rightarrow> LoopSpec \<Rightarrow> LoopRunState \<Rightarrow> exc + ExecutedCapabilityStep"
  po_assess :: "(nat \<Rightarrow> LoopSpec \<Rightarrow> LoopRunState \<Rightarrow> ExecutedCapabilityStep \<Rightarrow> dict \<Rightarrow> exc + SemanticCheckDecision) option"
  po_create_shadow :: "nat \<Rightarrow> fault + dict"
  po_discard_shadow :: "nat \<Rightarrow> fault option"
  po_lock :: "nat \<Rightarrow> fault + (bool \<times> dict)"
  po_unlock :: "nat \<Rightarrow> fault option"
  po_command :: "nat \<Rightarrow> VerificationStep \<Rightarrow> fault + dict"
  po_merge :: "nat \<Rightarrow> fault + MergeResult"
  po_look :: "nat \<Rightarrow> string \<Rightarrow> path_fact"
  po_surfaces :: "(string \<times> bool) list"
  po_sha256 :: "string \<Rightarrow> string"
  po_tunables :: Tunables
  po_default_lease :: time
  po_owner :: string
  po_account_gates :: bool
  po_traced :: bool

datatype effect =
    Entered string
  | Moved string string string
  | Opened ResourceGrant
  | Released string
  | Discarded
  | Locked LockMode
  | Unlocked LockMode
  | Stuck LockMode
  | Ran string
  | Judged CheckerReport
  | Merged string
  | Committed SideEffectSagaResult
  | Compensated SideEffectSagaResult "string option"

record World =
  w_loops :: LoopDb
  w_gateway :: "Gateway option"
  w_ledger :: Ledger
  w_now :: nat
  w_claimed :: bool
  w_pending :: dict
  w_evidence :: dict
  w_grants :: "ResourceGrant list"
  w_results :: "json list"
  w_trace :: "LoopDecision list"
  w_log :: "effect list"

datatype 'a flow = Next 'a | Return StateGraphRunResult | Raise exc

type_synonym 'a prog = "World \<Rightarrow> 'a flow \<times> World"

definition ret :: "'a \<Rightarrow> 'a prog" where "ret a w = (Next a, w)"
definition throw :: "exc \<Rightarrow> 'a prog" where "throw e w = (Raise e, w)"

definition seq :: "'a prog \<Rightarrow> ('a \<Rightarrow> 'b prog) \<Rightarrow> 'b prog" where
  "seq m f w = (case m w of (Next a, w') \<Rightarrow> f a w' | (Return r, w') \<Rightarrow> (Return r, w') | (Raise e, w') \<Rightarrow> (Raise e, w'))"

text \<open>\<open>a; b\<close> and a condition without \<open>else\<close>.\<close>

definition next_do :: "unit prog \<Rightarrow> 'b prog \<Rightarrow> 'b prog" where "next_do m k = seq m (\<lambda>_. k)"
definition do_when :: "bool \<Rightarrow> unit prog \<Rightarrow> unit prog" where "do_when b m = (if b then m else ret ())"

definition reads :: "(World \<Rightarrow> 'a) \<Rightarrow> 'a prog" where "reads f w = (Next (f w), w)"
definition modify :: "(World \<Rightarrow> World) \<Rightarrow> unit prog" where "modify f w = (Next (), f w)"

text \<open>\<open>try: m finally: cleanup\<close>: an exception of the cleanup takes the place of what \<open>m\<close> ended with.\<close>

definition finally_do :: "'a prog \<Rightarrow> unit prog \<Rightarrow> 'a prog" where
  "finally_do m cleanup w =
     (case m w of (Raise e, w') \<Rightarrow> seq cleanup (\<lambda>_ w''. (Raise e, w'')) w'
      | (Return r, w') \<Rightarrow> seq cleanup (\<lambda>_ w''. (Return r, w'')) w'
      | (Next a, w') \<Rightarrow> seq cleanup (\<lambda>_ w''. (Next a, w'')) w')"

text \<open>\<open>try: m except ... as e: h(e)\<close>\<close>

definition catch :: "'a prog \<Rightarrow> (exc \<Rightarrow> 'a prog) \<Rightarrow> 'a prog" where
  "catch m h w = (case m w of (Raise e, w') \<Rightarrow> h e w' | (Return r, w') \<Rightarrow> (Return r, w') | (Next a, w') \<Rightarrow> (Next a, w'))"

definition log_effect :: "effect \<Rightarrow> unit prog" where
  "log_effect e = modify (\<lambda>w. w\<lparr>w_log := w_log w @ [e]\<rparr>)"

definition set_evidence :: "string \<Rightarrow> json \<Rightarrow> unit prog" where
  "set_evidence k v = modify (\<lambda>w. w\<lparr>w_evidence := dict_set k v (w_evidence w)\<rparr>)"

definition merge_evidence :: "dict \<Rightarrow> unit prog" where
  "merge_evidence d = modify (\<lambda>w. w\<lparr>w_evidence := dict_merge (w_evidence w) d\<rparr>)"

definition pop_evidence :: "string \<Rightarrow> unit prog" where
  "pop_evidence k = modify (\<lambda>w. w\<lparr>w_evidence := filter (\<lambda>(k', v). k' \<noteq> k) (w_evidence w)\<rparr>)"

text \<open>A call of a port, which takes one tick.\<close>

definition call_port :: "(nat \<Rightarrow> exc + 'a) \<Rightarrow> 'a prog" where
  "call_port f w = (case f (w_now w) of Inl e \<Rightarrow> (Raise e, w\<lparr>w_now := w_now w + 1\<rparr>)
     | Inr a \<Rightarrow> (Next a, w\<lparr>w_now := w_now w + 1\<rparr>))"

definition call_harness :: "(nat \<Rightarrow> fault + 'a) \<Rightarrow> 'a prog" where
  "call_harness f = call_port (\<lambda>n. case f n of Inl (name, text) \<Rightarrow> Inl (OtherError name text) | Inr a \<Rightarrow> Inr a)"

text \<open>A call of the store: one tick, with what others do before it and inside it.\<close>

definition store_call :: "Ports \<Rightarrow> (Env \<Rightarrow> string \<Rightarrow> LoopDb \<Rightarrow> LoopDb \<Rightarrow> ('a \<times> LoopDb) result) \<Rightarrow> 'a prog" where
  "store_call p f w =
     (let n = w_now w; view = po_others p n (w_loops w); db = po_meanwhile p n view
      in case f (po_env p n) (po_fresh p n) view db of
           Inl e \<Rightarrow> (Raise (PyError e), w\<lparr>w_loops := db, w_now := n + 1\<rparr>)
         | Inr (a, db') \<Rightarrow> (Next a, w\<lparr>w_loops := db', w_now := n + 1\<rparr>))"

section \<open>Results, decisions and grants\<close>

definition finish :: "LoopRunState \<Rightarrow> CheckerReport option \<Rightarrow> bool \<Rightarrow> 'a prog" where
  "finish state report with_results w =
     (Return \<lparr>sr_run_state = state, sr_checker_report = report, sr_resource_grants = w_grants w,
        sr_harness_results = (if with_results then w_results w else []), sr_evidence = w_evidence w\<rparr>, w)"

definition record_decision :: "Ports \<Rightarrow> LoopDecision \<Rightarrow> unit prog" where
  "record_decision p d = do_when (po_traced p) (modify (\<lambda>w. w\<lparr>w_trace := w_trace w @ [d]\<rparr>))"

definition add_grant :: "ResourceGrant \<Rightarrow> unit prog" where
  "add_grant g = modify (\<lambda>w. w\<lparr>w_grants := w_grants w @ [g]\<rparr>)"

definition gateway_missing :: exc where
  "gateway_missing = PyError (RuntimeError ''StateGraph resource gateway is not initialized'')"

definition request_grant :: "Ports \<Rightarrow> (ResourceLimits \<Rightarrow> ResourceRequest) \<Rightarrow> ResourceGrant prog" where
  "request_grant p request w =
     (case w_gateway w of None \<Rightarrow> (Raise gateway_missing, w)
      | Some gw \<Rightarrow>
          let (grant, gw', ledger) = gateway_request (po_env p (w_now w)) (po_fresh p (w_now w))
                (request (gw_limits gw)) None gw (w_ledger w)
          in (Next grant, w\<lparr>w_gateway := Some gw', w_ledger := ledger, w_now := w_now w + 1,
                            w_log := w_log w @ [Opened grant]\<rparr>))"

definition release_grant_of :: "Ports \<Rightarrow> ResourceGrant \<Rightarrow> unit prog" where
  "release_grant_of p grant w =
     (case w_gateway w of None \<Rightarrow> (Raise gateway_missing, w)
      | Some gw \<Rightarrow>
          let (budget, gw', ledger) = gateway_release (po_env p (w_now w)) 1 (gr_id grant) None None gw (w_ledger w)
          in (Next (), w\<lparr>w_gateway := Some gw', w_ledger := ledger, w_now := w_now w + 1,
                         w_log := w_log w @ [Released (gr_id grant)]\<rparr>))"

section \<open>Transitions\<close>

definition checkpoint :: "Ports \<Rightarrow> LoopRunState \<Rightarrow> string \<Rightarrow> dict \<Rightarrow> LoopCheckpoint prog" where
  "checkpoint p state node inputs =
     store_call p (\<lambda>env fresh view db.
       write_checkpoint env (lr_run_id state) node inputs (loop_run_state_to_dict state) [] fresh view db)"

definition lease_check :: "Ports \<Rightarrow> unit prog" where
  "lease_check p w = (case po_lease_error p (w_now w) of None \<Rightarrow> (Next (), w)
     | Some e \<Rightarrow> (Raise (PyError (RuntimeError e)), w))"

definition move :: "Ports \<Rightarrow> LoopRunState \<Rightarrow> string \<Rightarrow> string \<Rightarrow> string \<Rightarrow> dict \<Rightarrow> LoopRunState prog" where
  "move p state node condition terminal evidence =
     next_do (lease_check p)
     (seq (checkpoint p state (lr_node state)
        [(''target_node'', JStr node), (''condition'', JStr condition), (''terminal_state'', JStr terminal)]) (\<lambda>cp.
      seq (reads (\<lambda>w. dict_merge (w_pending w) evidence)) (\<lambda>facts.
      next_do (log_effect (Moved (lr_node state) (if terminal \<noteq> [] then terminal else node) condition))
      (seq (store_call p (\<lambda>env fresh view db.
          transition env (lr_run_id state) node (lc_id cp) terminal condition facts (po_owner p) view db)) (\<lambda>moved.
       next_do (modify (\<lambda>w. w\<lparr>w_pending := []\<rparr>))
       (next_do (record_decision p (transition_loop_decision state moved (lc_id cp) condition terminal facts))
       (ret moved)))))))"

definition go :: "Ports \<Rightarrow> LoopRunState \<Rightarrow> LoopNode \<Rightarrow> string \<Rightarrow> dict \<Rightarrow> LoopRunState prog" where
  "go p state node condition evidence = move p state (loopNode_str node) condition [] evidence"

definition stop :: "Ports \<Rightarrow> LoopRunState \<Rightarrow> LoopNode \<Rightarrow> LoopTerminalState \<Rightarrow> string \<Rightarrow> dict \<Rightarrow> LoopRunState prog" where
  "stop p state node terminal condition evidence =
     move p state (loopNode_str node) condition (loopTerminalState_str terminal) evidence"

definition pause_run :: "Ports \<Rightarrow> LoopRunState \<Rightarrow> dict \<Rightarrow> LoopRunState prog" where
  "pause_run p state evidence =
     seq (go p state LoopNode_PAUSE ''resource_pause'' evidence) (\<lambda>paused.
     stop p paused LoopNode_PAUSE LoopTerminalState_PAUSED ''resource_or_user_pause'' evidence)"

definition stop_for_resource_grant :: "Ports \<Rightarrow> LoopRunState \<Rightarrow> ResourceGrant \<Rightarrow> LoopRunState prog" where
  "stop_for_resource_grant p state grant =
     (let evidence = [(''resource_grant'', JDict (grant_to_dict grant)), (''resource_resume_node'', JStr (lr_node state))]
      in if gr_decision grant = ResourceDecision_PAUSE then pause_run p state evidence
         else if gr_decision grant = ResourceDecision_ESCALATE
         then seq (go p state LoopNode_ESCALATE ''resource_escalate'' evidence) (\<lambda>escalated.
              stop p escalated LoopNode_ESCALATE LoopTerminalState_WAITING_APPROVAL ''resource_escalate'' evidence)
         else move p state (lr_node state) ''resource_blocked'' (loopTerminalState_str LoopTerminalState_BLOCKED) evidence)"

definition pause_for_lock_conflict :: "Ports \<Rightarrow> LoopRunState \<Rightarrow> dict \<Rightarrow> LoopRunState prog" where
  "pause_for_lock_conflict p state lock_facts =
     pause_run p state [(''workspace_lock'', JDict lock_facts), (''reason'', JStr ''workspace_lock_conflict'')]"

definition phase_request :: "Ports \<Rightarrow> string \<Rightarrow> ResourceLimits \<Rightarrow> ResourceRequest" where
  "phase_request p kind limits =
     \<lparr>rr_kind = kind, rr_estimated_tokens = (if po_account_gates p then default_phase_tokens limits else 0),
      rr_estimated_cost = (if po_account_gates p then default_phase_cost limits else 0), rr_units = 1,
      rr_idempotency_key = [], rr_reserve = po_account_gates p\<rparr>"

definition command_request :: ResourceRequest where
  "command_request = \<lparr>rr_kind = ''harness.command'', rr_estimated_tokens = 0, rr_estimated_cost = 0,
     rr_units = 1, rr_idempotency_key = [], rr_reserve = True\<rparr>"

text \<open>\<open>_gate_or_stop\<close> with its callers' early return.\<close>

definition gate_or_stop :: "Ports \<Rightarrow> LoopRunState \<Rightarrow> string \<Rightarrow> (ResourceLimits \<Rightarrow> ResourceRequest) \<Rightarrow> ResourceGrant prog" where
  "gate_or_stop p state kind request =
     seq (request_grant p request) (\<lambda>grant.
     next_do (record_decision p (gate_loop_decision state kind grant))
     (if grant_allowed grant then next_do (add_grant grant) (ret grant)
      else seq (stop_for_resource_grant p state grant) (\<lambda>stopped.
           next_do (add_grant grant) (finish stopped None False))))"

definition limit_stop :: "Ports \<Rightarrow> LoopRunState \<Rightarrow> string \<Rightarrow> ResourceGrant \<Rightarrow> bool \<Rightarrow> 'a prog" where
  "limit_stop p state kind grant with_results =
     next_do (add_grant grant)
     (next_do (record_decision p (gate_loop_decision state kind grant))
     (seq (stop_for_resource_grant p state grant) (\<lambda>stopped. finish stopped None with_results)))"

definition discard_if_needed :: "Ports \<Rightarrow> LoopSpec \<Rightarrow> bool \<Rightarrow> unit prog" where
  "discard_if_needed p spec shadow =
     do_when (shadow \<and> rb_discard_shadow_on_failure (ls_rollback_policy spec))
       (next_do (call_harness (\<lambda>n. case po_discard_shadow p n of None \<Rightarrow> Inr () | Some e \<Rightarrow> Inl e))
         (log_effect Discarded))"

section \<open>Planning\<close>

fun provider_failure :: "exc \<Rightarrow> bool" where
  "provider_failure (HttpError st ra t) = True"
| "provider_failure (ResponseError t) = True"
| "provider_failure (StructuredOutput t) = True"
| "provider_failure (TransportError n t) = True"
| "provider_failure e = False"

definition last_5 :: "'a list \<Rightarrow> 'a list" where
  "last_5 xs = drop (length xs - 5) xs"

definition no_automatic_retry :: "ReflectionDecision \<Rightarrow> ReflectionDecision" where
  "no_automatic_retry d =
     d\<lparr>rd_replan_allowed := False, rd_facts := dict_set ''automatic_model_retry'' (JBool False) (rd_facts d)\<rparr>"

definition retries_exhausted :: "ReflectionDecision \<Rightarrow> ReflectionDecision" where
  "retries_exhausted d = d\<lparr>rd_facts := dict_merge (rd_facts d)
     [(''durable_transport_retry'', JBool True), (''transport_retry_exhausted'', JBool True)]\<rparr>"

text \<open>A planner failure that is not paused for a retry: reflect and plan again, or fail.\<close>

definition planner_verdict ::
  "Ports \<Rightarrow> LoopRunState \<Rightarrow> ResourceGrant \<Rightarrow> exc \<Rightarrow> ReflectionDecision \<Rightarrow> 'a prog" where
  "planner_verdict p state grant e decision =
     (let error_evidence = [(''error_type'', JStr (exc_name e)), (''error'', JStr (exc_message e 1000))];
          reflection = reflection_to_dict decision
      in next_do (set_evidence ''reflection'' (JDict reflection))
         (if rd_replan_allowed decision
          then seq (go p state LoopNode_REFLECT ''planner_failed'' error_evidence) (\<lambda>reflected.
               seq (go p reflected LoopNode_PLAN ''new_route_available'' reflection) (\<lambda>planning.
               next_do (release_grant_of p grant) (finish planning None True)))
          else seq (stop p state LoopNode_PLAN LoopTerminalState_FAILED ''planner_failed''
                  (dict_merge error_evidence [(''reflection'', JDict reflection)])) (\<lambda>failed.
               next_do (release_grant_of p grant) (finish failed None False))))"

definition planner_failed ::
  "Ports \<Rightarrow> LoopSpec \<Rightarrow> bool \<Rightarrow> LoopRunState \<Rightarrow> ResourceGrant \<Rightarrow> exc \<Rightarrow> 'a prog" where
  "planner_failed p spec shadow state grant e =
     (let facts = provider_failure_facts (po_tunables p) e;
          decision = recover_violation spec state e ''planner'' facts;
          transport = (py_truthy (jget facts ''provider_call_failure'') \<and> \<not> py_truthy (jget facts ''structured_output_failure''));
          failure = [(''attempt'', JInt (lr_attempt state)), (''error_type'', JStr (exc_name e)),
            (''error'', JStr (exc_message e 1000)), (''failure_facts'', JDict facts)]
      in next_do (discard_if_needed p spec shadow)
         (next_do (modify (\<lambda>w. w\<lparr>w_evidence := dict_set ''planner_failure_history''
              (JList (last_5 (as_list (jget (w_evidence w) ''planner_failure_history'') @ [JDict failure]))) (w_evidence w)\<rparr>))
         (seq (reads (\<lambda>w. if transport
              then next_retry_gate (po_tunables p) facts (w_evidence w) ''planner'' LoopNode_PLAN else None)) (\<lambda>retry.
          case retry of
            Some gate \<Rightarrow>
              let retry_evidence = [(''error_type'', JStr (exc_name e)), (''failure_facts'', JDict facts),
                    (''automatic_model_retry'', JBool False), (''durable_transport_retry'', JBool True),
                    (''retry_gate'', JDict gate)]
              in next_do (merge_evidence retry_evidence)
                 (seq (pause_run p state retry_evidence) (\<lambda>paused.
                 next_do (release_grant_of p grant) (finish paused None False)))
          | None \<Rightarrow> planner_verdict p state grant e
              (if \<not> transport then decision
               else if py_truthy (jget facts ''retryable'') then retries_exhausted (no_automatic_retry decision)
               else no_automatic_retry decision)))))"

definition plan_phase ::
  "Ports \<Rightarrow> LoopSpec \<Rightarrow> bool \<Rightarrow> PlannedCapabilityStep option \<Rightarrow> LoopRunState
     \<Rightarrow> (LoopRunState \<times> PlannedCapabilityStep option) prog" where
  "plan_phase p spec shadow resumed state =
     (if lr_node state \<noteq> loopNode_str LoopNode_PLAN then ret (state, resumed)
      else seq (gate_or_stop p state ''state_graph.plan'' (phase_request p ''state_graph.plan'')) (\<lambda>grant.
        seq (checkpoint p state (loopNode_str LoopNode_PLAN) [(''planner_node'', JStr ''start'')]) (\<lambda>_.
        seq (reads w_evidence) (\<lambda>evidence.
        seq (catch (call_port (\<lambda>n. po_plan p n spec state evidence)) (\<lambda>e.
               case e of
                 LimitError g \<Rightarrow> limit_stop p state ''llm:planner'' g False
               | _ \<Rightarrow> if provider_failure e then planner_failed p spec shadow state grant e
                      else next_do (discard_if_needed p spec shadow) (throw e))) (\<lambda>planned.
        next_do (set_evidence ''planned_capability'' (JDict (planned_to_dict planned)))
        (next_do (modify (\<lambda>w. w\<lparr>w_evidence := clear_retry_gate ''planner'' (w_evidence w)\<rparr>))
        (seq (reads (\<lambda>w. dict_merge [(''planned_capability'', JDict (planned_to_dict planned))]
                (retry_clearance_evidence (w_evidence w)))) (\<lambda>facts.
        seq (go p state LoopNode_EXECUTE ''plan_ready'' facts) (\<lambda>ready.
        next_do (release_grant_of p grant) (ret (ready, Some planned)))))))))))"

section \<open>Executing\<close>

text \<open>A text the capability returned is kept under two keys, or both are removed.\<close>

definition keep_message :: "bool \<Rightarrow> string \<Rightarrow> string \<Rightarrow> ExecutedCapabilityStep \<Rightarrow> unit prog" where
  "keep_message present message_key action_key x =
     (if present then merge_evidence [(message_key, JStr (ex_message x)), (action_key, JStr (ex_action x))]
      else next_do (pop_evidence message_key) (pop_evidence action_key))"

definition attempt_entry :: "LoopRunState \<Rightarrow> PlannedCapabilityStep \<Rightarrow> ExecutedCapabilityStep \<Rightarrow> string \<Rightarrow> dict" where
  "attempt_entry state planned x signature =
     [(''attempt'', JInt (lr_attempt state)), (''tool'', JStr (pc_tool planned)), (''args'', JDict (pc_args planned)),
      (''ok'', JBool (ex_ok x)), (''action'', JStr (ex_action x)), (''facts'', JDict (ex_facts x)),
      (''message'', JStr (ex_message x)), (''error_reason'', JStr (ex_error_reason x)),
      (''terminal'', JBool (ex_terminal x)), (''progress_signature'', JStr signature)]"

definition repeats_of :: "string \<Rightarrow> json list \<Rightarrow> nat" where
  "repeats_of signature history =
     length (filter (\<lambda>item. jget (as_dict item) ''progress_signature'' = JStr signature) history)"

definition loop_gate_facts :: "string \<Rightarrow> nat \<Rightarrow> dict" where
  "loop_gate_facts signature n =
     [(''reason'', JStr ''repeated_progress_signature''), (''progress_signature'', JStr signature),
      (''repeat_count'', JInt (int n)), (''warning_count'', JInt (int n - 2))]"

definition yields :: "Ports \<Rightarrow> LoopRunState \<Rightarrow> ExecutedCapabilityStep \<Rightarrow> dict \<Rightarrow> LoopRunState prog" where
  "yields p state x evidence =
     (if ex_action x \<in> {''ask'', ''connector_outbound''} then pause_run p state evidence
      else seq (go p state LoopNode_ESCALATE ''approval_required'' evidence) (\<lambda>escalated.
           stop p escalated LoopNode_ESCALATE LoopTerminalState_WAITING_APPROVAL ''approval_required'' evidence))"

definition capability_failed ::
  "Ports \<Rightarrow> LoopSpec \<Rightarrow> bool \<Rightarrow> LoopRunState \<Rightarrow> ResourceGrant \<Rightarrow> ExecutedCapabilityStep \<Rightarrow> dict \<Rightarrow> 'a prog" where
  "capability_failed p spec shadow state grant x evidence =
     next_do (discard_if_needed p spec shadow)
     (seq (go p state LoopNode_REFLECT ''capability_failed'' evidence) (\<lambda>reflected.
          let decision = recover_capability spec reflected x; facts = reflection_to_dict decision
          in next_do (set_evidence ''reflection'' (JDict facts))
             (seq (if rd_replan_allowed decision
                   then go p reflected LoopNode_PLAN ''new_route_available'' facts
                   else stop p reflected LoopNode_REFLECT LoopTerminalState_BLOCKED ''no_route_available'' facts) (\<lambda>routed.
             next_do (release_grant_of p grant) (finish routed None True)))))"

definition missing_plan :: "Ports \<Rightarrow> LoopSpec \<Rightarrow> bool \<Rightarrow> LoopRunState \<Rightarrow> ResourceGrant \<Rightarrow> 'a prog" where
  "missing_plan p spec shadow state grant =
     next_do (discard_if_needed p spec shadow)
     (seq (go p state LoopNode_REFLECT ''missing_planned_capability''
             [(''reason'', JStr ''execute_without_planned_capability'')]) (\<lambda>reflected.
      seq (stop p reflected LoopNode_REFLECT LoopTerminalState_FAILED ''checker_rejected''
             [(''reason'', JStr ''state_graph_resume_missing_plan'')]) (\<lambda>failed.
      next_do (release_grant_of p grant) (finish failed None False))))"

text \<open>What follows a capability that returned.\<close>

definition after_execution ::
  "Ports \<Rightarrow> LoopSpec \<Rightarrow> bool \<Rightarrow> LoopRunState \<Rightarrow> ResourceGrant \<Rightarrow> PlannedCapabilityStep \<Rightarrow> ExecutedCapabilityStep
     \<Rightarrow> json list \<Rightarrow> string \<Rightarrow> LoopRunState prog" where
  "after_execution p spec shadow state grant planned x history signature =
     (let n = repeats_of signature history; repeated = (3 \<le> n \<and> \<not> ex_mutates x);
          gate_facts = loop_gate_facts signature n;
          evidence = dict_set ''progress_signature'' (JStr signature) (executed_to_dict x)
      in next_do (do_when repeated (set_evidence ''loop_gate'' (JDict gate_facts)))
         (if repeated \<and> 4 \<le> n
          then next_do (discard_if_needed p spec shadow)
               (seq (stop p state LoopNode_EXECUTE LoopTerminalState_BLOCKED ''repeated_progress_signature''
                      (dict_set ''tool'' (JStr (pc_tool planned)) gate_facts)) (\<lambda>blocked.
               next_do (release_grant_of p grant) (finish blocked None False)))
          else if ex_yields_control x
          then seq (yields p state x evidence) (\<lambda>yielded.
               next_do (release_grant_of p grant) (finish yielded None False))
          else if \<not> ex_ok x then capability_failed p spec shadow state grant x evidence
          else seq (go p state LoopNode_EVALUATE ''side_effect_recorded''
                 [(''executor'', JDict (executed_to_dict x)), (''progress_signature'', JStr signature)]) (\<lambda>evaluating.
               next_do (release_grant_of p grant) (ret evaluating))))"

definition execute_phase ::
  "Ports \<Rightarrow> LoopSpec \<Rightarrow> bool \<Rightarrow> json list \<Rightarrow> PlannedCapabilityStep option \<Rightarrow> LoopRunState \<Rightarrow> LoopRunState prog" where
  "execute_phase p spec shadow attempts planned_step state =
     (if lr_node state \<noteq> loopNode_str LoopNode_EXECUTE then ret state
      else seq (gate_or_stop p state ''state_graph.execute'' (phase_request p ''state_graph.execute'')) (\<lambda>grant.
        case planned_step of
          None \<Rightarrow> missing_plan p spec shadow state grant
        | Some planned \<Rightarrow>
            seq (checkpoint p state (loopNode_str LoopNode_EXECUTE)
                   [(''planned_capability'', JDict (planned_to_dict planned))]) (\<lambda>_.
            seq (catch (call_port (\<lambda>n. po_execute p n planned spec state))
                   (\<lambda>e. next_do (discard_if_needed p spec shadow) (throw e))) (\<lambda>x.
            let signature = progress_signature (po_sha256 p) planned x;
                history = attempts @ [JDict (attempt_entry state planned x signature)]
            in next_do (set_evidence ''capability_result'' (JDict (executed_to_dict x)))
               (next_do (keep_message (ex_action x = ''ask'' \<and> ex_message x \<noteq> []) ''responded_message'' ''responded_action'' x)
               (next_do (keep_message (ex_action x = ''chat'' \<and> ex_message x \<noteq> []) ''candidate_response'' ''candidate_response_action'' x)
               (next_do (set_evidence ''attempt_history'' (JList history))
               (next_do (set_evidence ''progress_signature'' (JStr signature))
               (after_execution p spec shadow state grant planned x history signature)))))))))"

section \<open>Evaluating\<close>

definition needs_lock :: "LoopSpec \<Rightarrow> bool" where
  "needs_lock spec = wp_require_locks (ls_workspace_policy spec)"

text \<open>Take a workspace lock where the policy asks for one; a refusal pauses the run.\<close>

definition take_lock ::
  "Ports \<Rightarrow> LoopSpec \<Rightarrow> LoopRunState \<Rightarrow> LockMode \<Rightarrow> string \<Rightarrow> unit prog \<Rightarrow> CheckerReport option \<Rightarrow> unit prog" where
  "take_lock p spec state mode key on_conflict report =
     do_when (needs_lock spec)
       (seq (call_harness (po_lock p)) (\<lambda>(acquired, facts).
        next_do (set_evidence key (JDict facts))
        (if acquired then log_effect (Locked mode)
         else seq (pause_for_lock_conflict p state facts) (\<lambda>paused.
              next_do on_conflict (finish paused report True)))))"

text \<open>A release that the harness fails to do is logged as \<open>Stuck\<close>; its exception goes on.\<close>

definition drop_lock :: "Ports \<Rightarrow> LoopSpec \<Rightarrow> LockMode \<Rightarrow> unit prog" where
  "drop_lock p spec mode =
     do_when (needs_lock spec)
       (next_do (catch (call_harness (\<lambda>n. case po_unlock p n of None \<Rightarrow> Inr () | Some e \<Rightarrow> Inl e))
          (\<lambda>e. next_do (log_effect (Stuck mode)) (throw e)))
        (log_effect (Unlocked mode)))"

fun verify_steps :: "Ports \<Rightarrow> LoopSpec \<Rightarrow> LoopRunState \<Rightarrow> VerificationStep list \<Rightarrow> unit prog" where
  "verify_steps p spec state [] = ret ()"
| "verify_steps p spec state (step # steps) =
     (if \<not> step_runs_command step then verify_steps p spec state steps
      else seq (gate_or_stop p state ''harness.command'' (\<lambda>_. command_request)) (\<lambda>grant.
        seq (checkpoint p state (loopNode_str LoopNode_EVALUATE)
               [(''verification_step'', JDict (verification_step_to_dict step))]) (\<lambda>_.
        next_do (take_lock p spec state LockMode_READ ''workspace_lock'' (release_grant_of p grant) None)
        (seq (finally_do
               (seq (call_harness (\<lambda>n. po_command p n step)) (\<lambda>facts. next_do (log_effect (Ran (vs_name step))) (ret facts)))
               (next_do (drop_lock p spec LockMode_READ) (release_grant_of p grant))) (\<lambda>facts.
         next_do (modify (\<lambda>w. w\<lparr>w_results := w_results w @ [JDict facts]\<rparr>))
         (next_do (set_evidence (step_key step) (JDict facts))
         (verify_steps p spec state steps)))))))"

definition executed_from_evidence :: "dict \<Rightarrow> ExecutedCapabilityStep" where
  "executed_from_evidence r =
     \<lparr>ex_ok = py_truthy (jget r ''ok''), ex_action = str_or_empty (jget r ''action''),
      ex_facts = as_dict (jget r ''facts''), ex_message = str_or_empty (jget r ''message''),
      ex_error_reason = str_or_empty (jget r ''error_reason''), ex_terminal = py_truthy (jget r ''terminal''),
      ex_yields_control = False,
      ex_completion_authority = py_truthy (jget r ''deterministic_completion_authority''),
      ex_mutates = py_truthy (jget r ''mutates'')\<rparr>"

definition objective_evidence :: "LoopSpec \<Rightarrow> ExecutedCapabilityStep \<Rightarrow> bool" where
  "objective_evidence spec x =
     (str_or_empty (jget (as_dict (jget (gs_metadata (ls_goal spec)) ''execution_profile'')) ''checker_tier'')
        = ''objective_evidence''
      \<and> ex_ok x \<and> jget (ex_facts x) ''completion_evidence'' = JBool True \<and> ex_completion_authority x)"

definition objective_facts :: dict where
  "objective_facts = [(''passed'', JBool True), (''ok'', JBool True),
     (''evidence_summary'', JStr ''capability returned objective completion evidence''),
     (''evaluator_role'', JStr ''deterministic_evidence''), (''isolated_context'', JBool True)]"

definition keep_verdict :: "LoopRunState \<Rightarrow> VerificationStep \<Rightarrow> dict \<Rightarrow> unit prog" where
  "keep_verdict state step facts =
     (let v = JDict (facts @ [(''attempt'', JInt (lr_attempt state))])
      in next_do (set_evidence (step_key step) v) (set_evidence ''semantic_checker_result'' v))"

definition is_llm_step :: "VerificationStep \<Rightarrow> bool" where
  "is_llm_step step = (vs_kind step = verificationKind_str VerificationKind_LLM_CHECKER)"

text \<open>One \<open>LLM_CHECKER\<close> step. Every exception of the port is wrapped.\<close>

definition assess_step ::
  "(nat \<Rightarrow> LoopSpec \<Rightarrow> LoopRunState \<Rightarrow> ExecutedCapabilityStep \<Rightarrow> dict \<Rightarrow> exc + SemanticCheckDecision)
     \<Rightarrow> LoopSpec \<Rightarrow> LoopRunState \<Rightarrow> ExecutedCapabilityStep \<Rightarrow> VerificationStep \<Rightarrow> unit prog" where
  "assess_step assess spec state x step =
     (if objective_evidence spec x then keep_verdict state step objective_facts
      else seq (reads w_evidence) (\<lambda>evidence.
        seq (catch (call_port (\<lambda>n. assess n spec state x evidence)) (\<lambda>e. throw (CheckerCallError e))) (\<lambda>d.
        keep_verdict state step (semantic_facts d))))"

fun assess_steps ::
  "(nat \<Rightarrow> LoopSpec \<Rightarrow> LoopRunState \<Rightarrow> ExecutedCapabilityStep \<Rightarrow> dict \<Rightarrow> exc + SemanticCheckDecision)
     \<Rightarrow> LoopSpec \<Rightarrow> LoopRunState \<Rightarrow> ExecutedCapabilityStep \<Rightarrow> VerificationStep list \<Rightarrow> unit prog" where
  "assess_steps assess spec state x [] = ret ()"
| "assess_steps assess spec state x (step # steps) =
     next_do (do_when (is_llm_step step) (assess_step assess spec state x step))
       (assess_steps assess spec state x steps)"

definition populate_checker_evidence :: "Ports \<Rightarrow> LoopSpec \<Rightarrow> LoopRunState \<Rightarrow> unit prog" where
  "populate_checker_evidence p spec state =
     seq (reads (\<lambda>w. jget (w_evidence w) ''capability_result'')) (\<lambda>result.
     case po_assess p of
       None \<Rightarrow> ret ()
     | Some assess \<Rightarrow> do_when (is_dict result)
         (assess_steps assess spec state (executed_from_evidence (as_dict result)) (ls_verification_ladder spec)))"

definition commit_side_effects :: "Ports \<Rightarrow> LoopRunState \<Rightarrow> SideEffectSagaResult option prog" where
  "commit_side_effects p state =
     seq (reads (\<lambda>w. collected_side_effect (w_evidence w))) (\<lambda>d.
     if d = [] then ret None
     else let r = commit_side_effect d
          in next_do (log_effect (Committed r))
             (next_do (set_evidence ''side_effect_commit_result'' (JDict (side_effect_to_dict r)))
             (next_do (record_decision p (side_effect_decision state r)) (ret (Some r)))))"

definition compensate_side_effects :: "Ports \<Rightarrow> LoopRunState \<Rightarrow> unit prog" where
  "compensate_side_effects p state =
     seq (reads (\<lambda>w. (collected_side_effect (w_evidence w), w_now w,
            as_list (jget (w_evidence w) ''side_effect_compensation_results'')))) (\<lambda>(d, n, earlier).
     do_when (d \<noteq> [])
       (let (r, removed) = compensate_side_effect (po_look p n) d
        in next_do (log_effect (Compensated r removed))
           (next_do (set_evidence ''side_effect_compensation_results'' (JList (earlier @ [JDict (side_effect_to_dict r)])))
           (record_decision p (side_effect_decision state r)))))"

definition reflect_state :: "Ports \<Rightarrow> LoopSpec \<Rightarrow> LoopRunState \<Rightarrow> CheckerReport \<Rightarrow> bool \<Rightarrow> LoopRunState prog" where
  "reflect_state p spec state report shadow =
     next_do (compensate_side_effects p state)
     (next_do (discard_if_needed p spec shadow)
     (seq (go p state LoopNode_REFLECT ''checker_failed'' (checker_report_to_dict report)) (\<lambda>reflected.
      seq (reads w_results) (\<lambda>results.
      let decision = reflect_check spec reflected report results; facts = reflection_to_dict decision
      in next_do (set_evidence ''reflection'' (JDict facts))
         (if rd_replan_allowed decision then go p reflected LoopNode_PLAN ''new_route_available'' facts
          else stop p reflected LoopNode_REFLECT
            (if cr_blocked report then LoopTerminalState_BLOCKED else LoopTerminalState_FAILED)
            (if cr_blocked report then ''no_route_available'' else ''checker_rejected'') facts)))))"

definition converged_facts :: "CheckerReport \<Rightarrow> dict" where
  "converged_facts report =
     dict_merge (checker_report_to_dict report)
       [(''reason_code'', JStr []), (''reason'', JStr []), (''repeat_count'', JInt 0),
        (''replan_allowed'', JBool False), (''facts'', JDict [])]"

definition surface_facts :: dict where
  "surface_facts = [(''required'', JBool True), (''verified_work_complete'', JBool True),
     (''authority'', JStr ''semantic_checker''), (''presentation_missing'', JBool True),
     (''completed_effect_replay_prohibited'', JBool True)]"

text \<open>The candidate reply becomes the reply once the checker accepts.\<close>

definition publish_candidate :: "unit prog" where
  "publish_candidate =
     seq (reads (\<lambda>w. (str_or_empty (jget (w_evidence w) ''candidate_response''),
            or_else (str_or_empty (jget (w_evidence w) ''candidate_response_action'')) ''chat''))) (\<lambda>(response, action).
     next_do (pop_evidence ''candidate_response'')
     (next_do (pop_evidence ''candidate_response_action'')
     (do_when (response \<noteq> []) (merge_evidence [(''responded_message'', JStr response), (''responded_action'', JStr action)]))))"

definition merge_shadow :: "Ports \<Rightarrow> LoopSpec \<Rightarrow> LoopRunState \<Rightarrow> CheckerReport \<Rightarrow> unit prog" where
  "merge_shadow p spec state report =
     next_do (take_lock p spec state LockMode_WRITE ''merge_workspace_lock'' (ret ()) (Some report))
     (seq (finally_do
            (seq (call_harness (po_merge p)) (\<lambda>merged.
             next_do (log_effect (Merged (mr_status merged)))
             (next_do (set_evidence ''merge_result'' (JDict (merge_result_to_dict merged))) (ret merged))))
            (drop_lock p spec LockMode_WRITE)) (\<lambda>merged.
      do_when (mr_status merged = mergeStatus_str MergeStatus_CONFLICTED)
        (next_do (compensate_side_effects p state)
        (seq (stop p state LoopNode_EVALUATE LoopTerminalState_CONFLICTED ''merge_conflict''
               (merge_result_to_dict merged)) (\<lambda>conflicted. finish conflicted (Some report) True)))))"

definition accept_state :: "Ports \<Rightarrow> LoopSpec \<Rightarrow> LoopRunState \<Rightarrow> CheckerReport \<Rightarrow> bool \<Rightarrow> bool \<Rightarrow> 'a prog" where
  "accept_state p spec state report shadow terminal_result =
     next_do publish_candidate
     (seq (reads (\<lambda>w. surface_response_required spec (po_surfaces p) \<and> \<not> has_surface_result (w_evidence w)
             \<and> \<not> terminal_result \<and> may_replan spec state)) (\<lambda>again.
      if again
      then next_do (set_evidence ''surface_response'' (JDict surface_facts))
           (seq (go p state LoopNode_PLAN ''continue_iteration''
                  [(''reason'', JStr ''verified_facts_require_user_facing_result''), (''attempt'', JInt (lr_attempt state))])
             (\<lambda>planning. finish planning (Some report) True))
      else next_do (do_when shadow (merge_shadow p spec state report))
        (seq (commit_side_effects p state) (\<lambda>committed.
         case committed of
           Some r \<Rightarrow>
             if \<not> se_ok r
             then seq (go p state LoopNode_ESCALATE ''side_effect_commit_required'' (side_effect_to_dict r)) (\<lambda>escalated.
                  seq (stop p escalated LoopNode_ESCALATE LoopTerminalState_WAITING_APPROVAL ''approval_required''
                         (side_effect_to_dict r)) (\<lambda>waiting. finish waiting (Some report) True))
             else seq (stop p state LoopNode_EVALUATE LoopTerminalState_CONVERGED ''checker_passed'' (converged_facts report))
                    (\<lambda>converged. finish converged (Some report) True)
         | None \<Rightarrow> seq (stop p state LoopNode_EVALUATE LoopTerminalState_CONVERGED ''checker_passed'' (converged_facts report))
                    (\<lambda>converged. finish converged (Some report) True)))))"

definition check_evidence :: "LoopSpec \<Rightarrow> CheckerReport prog" where
  "check_evidence spec w =
     (case evaluate_ladder spec (w_evidence w) of Inl e \<Rightarrow> (Raise (PyError e), w)
     | Inr r \<Rightarrow> (Next r, w\<lparr>w_log := w_log w @ [Judged r]\<rparr>))"

definition evaluate_state :: "Ports \<Rightarrow> LoopSpec \<Rightarrow> LoopRunState \<Rightarrow> bool \<Rightarrow> 'a prog" where
  "evaluate_state p spec state shadow =
     seq (gate_or_stop p state ''state_graph.evaluate'' (phase_request p ''state_graph.evaluate'')) (\<lambda>grant.
     next_do (release_grant_of p grant)
     (next_do (verify_steps p spec state (ls_verification_ladder spec))
     (next_do (populate_checker_evidence p spec state)
     (next_do (modify (\<lambda>w. let ev = clear_retry_gate ''checker'' (w_evidence w)
          in w\<lparr>w_evidence := ev, w_pending := dict_merge (w_pending w) (retry_clearance_evidence ev)\<rparr>))
     (seq (check_evidence spec) (\<lambda>report.
      seq (reads (\<lambda>w. jget (w_evidence w) ''capability_result'')) (\<lambda>result.
      if cr_accepted report
      then accept_state p spec state report shadow (py_truthy (jget (as_dict result) ''terminal''))
      else if cr_timed_out report
      then next_do (compensate_side_effects p state)
        (next_do (discard_if_needed p spec shadow)
        (seq (stop p state LoopNode_EVALUATE LoopTerminalState_TIMED_OUT ''hard_timeout'' (checker_report_to_dict report))
          (\<lambda>timed_out. finish timed_out (Some report) True)))
      else seq (reflect_state p spec state report shadow) (\<lambda>next_state. finish next_state (Some report) True))))))))"

text \<open>A failed call of the semantic checker: a retry pause, or the end of the run.\<close>

definition checker_call_failed :: "Ports \<Rightarrow> LoopSpec \<Rightarrow> LoopRunState \<Rightarrow> bool \<Rightarrow> exc \<Rightarrow> 'a prog" where
  "checker_call_failed p spec state shadow cause =
     (let facts = provider_failure_facts (po_tunables p) cause
      in if \<not> py_truthy (jget facts ''provider_call_failure'')
         then next_do (discard_if_needed p spec shadow) (throw cause)
         else seq (reads w_evidence) (\<lambda>evidence.
           case next_retry_gate (po_tunables p) facts evidence ''checker'' LoopNode_EVALUATE of
             Some gate \<Rightarrow>
               let retry_evidence = [(''checker_provider_failure'', JDict facts), (''automatic_model_retry'', JBool False),
                     (''durable_transport_retry'', JBool True), (''retry_gate'', JDict gate),
                     (''executor'', case map_of evidence ''capability_result'' of None \<Rightarrow> JDict [] | Some v \<Rightarrow> v)]
               in next_do (merge_evidence retry_evidence)
                  (seq (pause_run p state retry_evidence) (\<lambda>paused. finish paused None True))
           | None \<Rightarrow>
               let had_gate = py_truthy (jget evidence ''retry_gate'');
                   failure = [(''checker_provider_failure'', JDict facts), (''automatic_model_retry'', JBool False),
                     (''durable_transport_retry'', JBool had_gate),
                     (''transport_retry_exhausted'', JBool (py_truthy (jget facts ''retryable'') \<and> had_gate))]
               in next_do (merge_evidence failure)
                  (seq (go p state LoopNode_REFLECT ''checker_failed'' failure) (\<lambda>reflected.
                  seq (stop p reflected LoopNode_REFLECT LoopTerminalState_FAILED ''checker_rejected'' failure) (\<lambda>failed.
                  next_do (discard_if_needed p spec shadow) (finish failed None True))))))"

definition evaluate_phase :: "Ports \<Rightarrow> LoopSpec \<Rightarrow> bool \<Rightarrow> LoopRunState \<Rightarrow> LoopRunState prog" where
  "evaluate_phase p spec shadow state =
     (if lr_node state \<noteq> loopNode_str LoopNode_EVALUATE then ret state
      else catch (evaluate_state p spec state shadow) (\<lambda>e.
        case e of
          LimitError g \<Rightarrow> limit_stop p state ''llm:semantic_checker'' g True
        | CheckerCallError cause \<Rightarrow> checker_call_failed p spec state shadow cause
        | _ \<Rightarrow> next_do (discard_if_needed p spec shadow) (throw e)))"

section \<open>The driver\<close>

definition open_run :: "Ports \<Rightarrow> LoopSpec \<Rightarrow> string \<Rightarrow> LoopRunState prog" where
  "open_run p spec rid =
     seq (if rid = [] then ret None
          else store_call p (\<lambda>env fresh view db. Inr (get_loop_run rid view, db))) (\<lambda>found.
     case found of
       Some state \<Rightarrow> ret state
     | None \<Rightarrow> store_call p (\<lambda>env fresh view db.
         create_loop_run env fresh spec [] (loopNode_str LoopNode_PLAN) [] [] ''loop.run_created'' db))"

definition driver_lease_seconds :: "Ports \<Rightarrow> LoopSpec \<Rightarrow> time" where
  "driver_lease_seconds p spec =
     max (tn_execution_lease_min_seconds (po_tunables p))
       (foldl (\<lambda>m s. max m (tp_seconds (vs_timeout s))) 0 (ls_verification_ladder spec) + 60)"

definition already_claimed :: exc where
  "already_claimed = PyError (RuntimeError ''loop run is already claimed by another execution driver'')"

definition claim_run :: "Ports \<Rightarrow> LoopSpec \<Rightarrow> LoopRunState \<Rightarrow> LoopRunState prog" where
  "claim_run p spec state =
     seq (reads w_claimed) (\<lambda>claimed.
     if claimed then ret state
     else seq (store_call p (\<lambda>env fresh view db.
            Inr (claim_for_execution env (po_default_lease p) (lr_run_id state) (po_owner p)
              (Some (driver_lease_seconds p spec)) None False db))) (\<lambda>taken.
       case taken of
         None \<Rightarrow> throw already_claimed
       | Some owned \<Rightarrow> next_do (modify (\<lambda>w. w\<lparr>w_claimed := True\<rparr>)) (ret owned)))"

definition from_result :: "'a result \<Rightarrow> 'a prog" where
  "from_result r w = (case r of Inl e \<Rightarrow> (Raise (PyError e), w) | Inr a \<Rightarrow> (Next a, w))"

definition resumed_plan :: "Ports \<Rightarrow> LoopRunState \<Rightarrow> PlannedCapabilityStep option prog" where
  "resumed_plan p state =
     (if lr_node state \<noteq> loopNode_str LoopNode_EXECUTE then ret None
      else seq (store_call p (\<lambda>env fresh view db.
             Inr (latest_checkpoint (lr_run_id state) (loopNode_str LoopNode_EXECUTE) ''planned_capability'' view, db))) (\<lambda>cp.
        seq (from_result (case cp of None \<Rightarrow> Inr None
               | Some c \<Rightarrow> planned_step_from_raw (jget (lc_inputs c) ''planned_capability''))) (\<lambda>stored.
        case stored of
          Some planned \<Rightarrow> ret (Some planned)
        | None \<Rightarrow> seq (reads (\<lambda>w. jget (w_evidence w) ''planned_capability'')) (\<lambda>raw.
            from_result (planned_step_from_raw raw)))))"

definition uses_shadow :: "LoopSpec \<Rightarrow> bool" where
  "uses_shadow spec = (wp_mode (ls_workspace_policy spec) = workspaceMode_str WorkspaceMode_SHADOW)"

definition start_run :: "LoopSpec \<Rightarrow> dict \<Rightarrow> World \<Rightarrow> World" where
  "start_run spec evidence w =
     w\<lparr>w_gateway := Some (case w_gateway w of Some gw \<Rightarrow> gw
         | None \<Rightarrow> \<lparr>gw_limits = resource_limits_for_spec spec, gw_has_ledger = False, gw_scope_id = [],
                    gw_usage = no_usage, gw_call_times = []\<rparr>),
       w_evidence := evidence, w_grants := [], w_results := []\<rparr>"

definition run_steps :: "Ports \<Rightarrow> LoopSpec \<Rightarrow> string \<Rightarrow> unit prog" where
  "run_steps p spec rid =
     seq (open_run p spec rid) (\<lambda>found.
     if is_stopped found then finish found None True
     else seq (claim_run p spec found) (\<lambda>state.
     next_do (log_effect (Entered (lr_node state)))
     (seq (reads (\<lambda>w. as_list (jget (w_evidence w) ''attempt_history''))) (\<lambda>attempts.
      seq (resumed_plan p state) (\<lambda>resumed.
      next_do (do_when (uses_shadow spec) (seq (call_harness (po_create_shadow p)) (\<lambda>facts.
          set_evidence ''shadow_workspace'' (JDict facts))))
      (seq (plan_phase p spec (uses_shadow spec) resumed state) (\<lambda>(planned_state, planned).
       seq (execute_phase p spec (uses_shadow spec) attempts planned planned_state) (\<lambda>executed_state.
       seq (evaluate_phase p spec (uses_shadow spec) executed_state) (\<lambda>final.
       finish final None True)))))))))"

definition run_impl :: "Ports \<Rightarrow> LoopSpec \<Rightarrow> string \<Rightarrow> dict \<Rightarrow> unit prog" where
  "run_impl p spec rid evidence =
     next_do (from_result (loop_spec_validate spec))
     (next_do (modify (start_run spec evidence)) (run_steps p spec rid))"

text \<open>
  \<open>run_async\<close>: the iterations go on while the run is open and back at the planner. The value is the
  answer, or the exception, with the world it leaves.
\<close>

definition close_driver :: "World \<Rightarrow> World" where
  "close_driver w = w\<lparr>w_claimed := False, w_pending := []\<rparr>"

definition goes_on :: "LoopRunState \<Rightarrow> bool" where
  "goes_on state = (lr_node state = loopNode_str LoopNode_PLAN \<and> \<not> is_stopped state)"

partial_function (option) run_loop ::
  "Ports \<Rightarrow> LoopSpec \<Rightarrow> string \<Rightarrow> dict \<Rightarrow> World \<Rightarrow> ((exc + StateGraphRunResult) \<times> World) option" where
  [code]: "run_loop p spec rid evidence w =
     (case run_impl p spec rid evidence w of
        (Raise e, w') \<Rightarrow> Some (Inl e, close_driver w')
      | (Next _, w') \<Rightarrow> Some (Inl gateway_missing, close_driver w')
      | (Return r, w') \<Rightarrow>
          (case po_lease_error p (w_now w') of
             Some e \<Rightarrow> Some (Inl (PyError (RuntimeError e)), close_driver w')
           | None \<Rightarrow> if goes_on (sr_run_state r)
               then run_loop p spec (lr_run_id (sr_run_state r)) (sr_evidence r) w'
               else Some (Inr r, close_driver w')))"

definition run_async ::
  "Ports \<Rightarrow> LoopSpec \<Rightarrow> string \<Rightarrow> dict \<Rightarrow> World \<Rightarrow> ((exc + StateGraphRunResult) \<times> World) option" where
  "run_async p spec rid evidence w = run_loop p spec rid evidence (w\<lparr>w_pending := []\<rparr>)"

end
