(* ===== verification/Driver_Calculus.thy ===== *)
theory Driver_Calculus
  imports State_Graph
begin

text \<open>
  A calculus of exits for the programs of the state graph driver.

  A view relates worlds to the states of something smaller: a monitor that reads the log, or the row
  of the run. \<open>exits view m a Q R E\<close> says that \<open>m\<close>, started in a world in state \<open>a\<close>, ends in a world
  of the view whose state satisfies \<open>Q\<close> after a normal exit, \<open>R\<close> after an early \<open>return\<close> and \<open>E\<close> after
  an exception. There is one rule for each construct. The locale \<open>driver_view\<close> asks of a view that it
  depends on the tables, the log and the presence of the gateway only, and gives the rules of the
  steps that touch nothing else.
\<close>

section \<open>Exits\<close>

definition exits ::
  "('m \<Rightarrow> World \<Rightarrow> bool) \<Rightarrow> 'a prog \<Rightarrow> 'm \<Rightarrow> ('a \<Rightarrow> 'm \<Rightarrow> bool) \<Rightarrow> (StateGraphRunResult \<Rightarrow> 'm \<Rightarrow> bool)
     \<Rightarrow> (exc \<Rightarrow> 'm \<Rightarrow> bool) \<Rightarrow> bool" where
  "exits view m a Q R E =
     (\<forall>w. view a w \<longrightarrow>
        (\<exists>a'. view a' (snd (m w)) \<and>
           (case fst (m w) of Next x \<Rightarrow> Q x a' | Return r \<Rightarrow> R r a' | Raise e \<Rightarrow> E e a')))"

named_theorems vc \<open>one rule for each construct and each phase of the driver\<close>

lemma exits_mono:
  assumes "exits view m a Q R E" "\<And>x a'. Q x a' \<Longrightarrow> Q' x a'" "\<And>r a'. R r a' \<Longrightarrow> R' r a'"
    "\<And>e a'. E e a' \<Longrightarrow> E' e a'"
  shows "exits view m a Q' R' E'"
  unfolding exits_def
proof (intro allI impI)
  fix w :: World assume "view a w"
  with assms(1) obtain a' where "view a' (snd (m w))"
    "case fst (m w) of Next x \<Rightarrow> Q x a' | Return r \<Rightarrow> R r a' | Raise e \<Rightarrow> E e a'"
    unfolding exits_def by blast
  with assms(2-4) show "\<exists>a'. view a' (snd (m w)) \<and>
      (case fst (m w) of Next x \<Rightarrow> Q' x a' | Return r \<Rightarrow> R' r a' | Raise e \<Rightarrow> E' e a')"
    by (cases "fst (m w)") auto
qed

lemma exits_ret [vc]: "Q x a \<Longrightarrow> exits view (ret x) a Q R E"
  by (auto simp: exits_def ret_def)

lemma exits_throw [vc]: "E e a \<Longrightarrow> exits view (throw e) a Q R E"
  by (auto simp: exits_def throw_def)

lemma exits_seq [vc]:
  assumes "exits view m a (\<lambda>x a'. exits view (f x) a' Q R E) R E"
  shows "exits view (seq m f) a Q R E"
  unfolding exits_def
proof (intro allI impI)
  fix w :: World assume w: "view a w"
  obtain o1 w1 where m: "m w = (o1, w1)" by fastforce
  from assms w m obtain a1 where a1: "view a1 w1"
    "case o1 of Next x \<Rightarrow> exits view (f x) a1 Q R E | Return r \<Rightarrow> R r a1 | Raise e \<Rightarrow> E e a1"
    unfolding exits_def by fastforce
  show "\<exists>a'. view a' (snd (seq m f w)) \<and>
      (case fst (seq m f w) of Next x \<Rightarrow> Q x a' | Return r \<Rightarrow> R r a' | Raise e \<Rightarrow> E e a')"
  proof (cases o1)
    case (Next x)
    with a1 m show ?thesis by (fastforce simp: seq_def exits_def)
  qed (use a1 m in \<open>auto simp: seq_def\<close>)
qed

lemma exits_next_do [vc]:
  "exits view m a (\<lambda>_ a'. exits view k a' Q R E) R E \<Longrightarrow> exits view (next_do m k) a Q R E"
  unfolding next_do_def by (rule exits_seq)

lemma exits_catch [vc]:
  assumes "exits view m a Q R (\<lambda>e a'. exits view (h e) a' Q R E)"
  shows "exits view (catch m h) a Q R E"
  unfolding exits_def
proof (intro allI impI)
  fix w :: World assume w: "view a w"
  obtain o1 w1 where m: "m w = (o1, w1)" by fastforce
  from assms w m obtain a1 where a1: "view a1 w1"
    "case o1 of Next x \<Rightarrow> Q x a1 | Return r \<Rightarrow> R r a1 | Raise e \<Rightarrow> exits view (h e) a1 Q R E"
    unfolding exits_def by fastforce
  show "\<exists>a'. view a' (snd (catch m h w)) \<and>
      (case fst (catch m h w) of Next x \<Rightarrow> Q x a' | Return r \<Rightarrow> R r a' | Raise e \<Rightarrow> E e a')"
  proof (cases o1)
    case (Raise e)
    with a1 m show ?thesis by (fastforce simp: catch_def exits_def)
  qed (use a1 m in \<open>auto simp: catch_def\<close>)
qed

lemma exits_when [vc]:
  "(b \<Longrightarrow> exits view m a Q R E) \<Longrightarrow> (\<not> b \<Longrightarrow> Q () a) \<Longrightarrow> exits view (do_when b m) a Q R E"
  by (auto simp: do_when_def exits_ret)

lemma exits_if [vc]:
  "(b \<Longrightarrow> exits view m a Q R E) \<Longrightarrow> (\<not> b \<Longrightarrow> exits view k a Q R E) \<Longrightarrow> exits view (if b then m else k) a Q R E"
  by simp

lemma exits_option [vc]:
  "(x = None \<Longrightarrow> exits view m a Q R E) \<Longrightarrow> (\<And>y. x = Some y \<Longrightarrow> exits view (f y) a Q R E)
    \<Longrightarrow> exits view (case x of None \<Rightarrow> m | Some y \<Rightarrow> f y) a Q R E"
  by (cases x) simp_all

lemma exits_pair [vc]:
  "(\<And>y z. x = (y, z) \<Longrightarrow> exits view (f y z) a Q R E) \<Longrightarrow> exits view (case x of (y, z) \<Rightarrow> f y z) a Q R E"
  by (cases x) simp

lemma exits_let [vc]: "(\<And>x. x = v \<Longrightarrow> exits view (f x) a Q R E) \<Longrightarrow> exits view (let x = v in f x) a Q R E"
  by simp

lemma exits_reads [vc]: "(\<And>x. Q x a) \<Longrightarrow> exits view (reads f) a Q R E"
  by (auto simp: exits_def reads_def)

lemma exits_finish [vc]:
  "(\<And>r. sr_run_state r = state \<Longrightarrow> sr_checker_report r = report \<Longrightarrow> R r a)
    \<Longrightarrow> exits view (finish state report b) a Q R E"
  by (auto simp: exits_def finish_def)

text \<open>A clean-up, whose own exception is one of the exits.\<close>

lemma exits_finally:
  assumes "exits view m a (\<lambda>x a'. exits view c a' (\<lambda>_ a''. Q x a'') R E)
     (\<lambda>r a'. exits view c a' (\<lambda>_ a''. R r a'') R E)
     (\<lambda>e a'. exits view c a' (\<lambda>_ a''. E e a'') R E)"
  shows "exits view (finally_do m c) a Q R E"
  unfolding exits_def
proof (intro allI impI)
  fix w :: World assume w: "view a w"
  obtain o1 w1 where m: "m w = (o1, w1)" by fastforce
  obtain o2 w2 where c: "c w1 = (o2, w2)" by fastforce
  from assms w m obtain a1 where a1: "view a1 w1"
    "case o1 of Next x \<Rightarrow> exits view c a1 (\<lambda>_ a''. Q x a'') R E
       | Return r \<Rightarrow> exits view c a1 (\<lambda>_ a''. R r a'') R E
       | Raise e \<Rightarrow> exits view c a1 (\<lambda>_ a''. E e a'') R E"
    unfolding exits_def by fastforce
  show "\<exists>a'. view a' (snd (finally_do m c w)) \<and>
      (case fst (finally_do m c w) of Next x \<Rightarrow> Q x a' | Return r \<Rightarrow> R r a' | Raise e \<Rightarrow> E e a')"
    using a1 m c
    by (cases o1; cases o2; fastforce simp: finally_do_def seq_def exits_def)
qed

section \<open>Views\<close>

text \<open>Exceptions that only stores, the harness and the gateway raise.\<close>

fun plain :: "exc \<Rightarrow> bool" where
  "plain (PyError e) = True"
| "plain (OtherError n t) = True"
| "plain e = False"

lemma exits_from_result [vc]:
  "(\<And>x. Q x a) \<Longrightarrow> (\<And>e. plain e \<Longrightarrow> E e a) \<Longrightarrow> exits view (from_result r) a Q R E"
  by (auto simp: exits_def from_result_def split: sum.splits)

locale driver_view =
  fixes view :: "'m \<Rightarrow> World \<Rightarrow> bool"
  assumes frame: "w_loops w' = w_loops w \<Longrightarrow> w_log w' = w_log w \<Longrightarrow> w_gateway w' = w_gateway w
    \<Longrightarrow> view a w \<Longrightarrow> view a w'"
begin

lemma exits_modify:
  assumes "\<And>w. w_loops (f w) = w_loops w" "\<And>w. w_log (f w) = w_log w" "\<And>w. w_gateway (f w) = w_gateway w" "Q () a"
  shows "exits view (modify f) a Q R E"
  unfolding exits_def modify_def using assms(4) frame [OF assms(1-3)] by fastforce

lemma exits_evidence [vc]:
  "Q () a \<Longrightarrow> exits view (set_evidence k v) a Q R E"
  "Q () a \<Longrightarrow> exits view (merge_evidence d) a Q R E"
  "Q () a \<Longrightarrow> exits view (pop_evidence k) a Q R E"
  by (simp_all add: set_evidence_def merge_evidence_def pop_evidence_def exits_modify)

lemma exits_record_decision [vc]: "Q () a \<Longrightarrow> exits view (record_decision p d) a Q R E"
  unfolding record_decision_def by (intro exits_when exits_modify) auto

lemma exits_add_grant [vc]: "Q () a \<Longrightarrow> exits view (add_grant g) a Q R E"
  by (simp add: add_grant_def exits_modify)

lemma exits_keep_message [vc]: "Q () a \<Longrightarrow> exits view (keep_message b mk ak x) a Q R E"
  unfolding keep_message_def by (intro exits_if exits_next_do exits_evidence)

lemma exits_keep_verdict [vc]: "Q () a \<Longrightarrow> exits view (keep_verdict state step facts) a Q R E"
  unfolding keep_verdict_def by (intro exits_let exits_next_do exits_evidence)

lemma exits_publish [vc]: "Q () a \<Longrightarrow> exits view publish_candidate a Q R E"
  unfolding publish_candidate_def
  by (intro exits_seq exits_reads exits_pair exits_next_do exits_when exits_evidence) auto

lemma exits_call_port [vc]:
  assumes "\<And>x. Q x a" "\<And>e n. f n = Inl e \<Longrightarrow> E e a"
  shows "exits view (call_port f) a Q R E"
  unfolding exits_def call_port_def using assms frame [of "w\<lparr>w_now := n\<rparr>" w for w n]
  by (fastforce split: sum.splits)

lemma exits_call_harness [vc]:
  assumes "\<And>x. Q x a" "\<And>e. plain e \<Longrightarrow> E e a"
  shows "exits view (call_harness f) a Q R E"
  unfolding call_harness_def by (rule exits_call_port) (use assms in \<open>auto split: sum.splits prod.splits\<close>)

end

end
