(* ===== verification/State_Graph_Protocol.thy ===== *)
theory State_Graph_Protocol
  imports Driver_Calculus
begin

text \<open>
  The protocol of the state graph driver, as a monitor over the log of what it does, and the proof
  that every run of the driver follows it.

  The monitor is an abstract specification with its own small state: the node of the run, whether it
  has stopped, the open grant, the held lock, the verdict of the checker, and which effects were
  merged, committed or compensated. The proof is a calculus of exits: a program that starts in one
  state of the monitor ends its normal exits, its early returns and its exceptions in states of the
  monitor that satisfy what each exit promises. There is one rule for each construct and each phase
  of the driver.
\<close>

section \<open>The monitor\<close>

record Monitor =
  mo_node :: string
  mo_stop :: string
  mo_open :: "string option"
  mo_lock :: "LockMode option"
  mo_report :: "CheckerReport option"
  mo_merged :: "string option"
  mo_committed :: "SideEffectSagaResult option"
  mo_compensated :: bool

definition idle :: Monitor where
  "idle = \<lparr>mo_node = [], mo_stop = [], mo_open = None, mo_lock = None, mo_report = None,
     mo_merged = None, mo_committed = None, mo_compensated = False\<rparr>"

text \<open>The moves of the driver: the edges of the default graph, and one that is no edge of it.\<close>

definition stray_edge :: "string \<times> string \<times> string" where
  "stray_edge = (loopNode_str LoopNode_EXECUTE, loopNode_str LoopNode_REFLECT, ''missing_planned_capability'')"

definition driver_edge :: "string \<Rightarrow> string \<Rightarrow> string \<Rightarrow> bool" where
  "driver_edge n t c =
     ((\<exists>e\<in>set default_state_graph. st_source e = n \<and> st_target e = t \<and> st_condition e = c)
      \<or> (n, t, c) = stray_edge)"

definition is_node :: "string \<Rightarrow> bool" where
  "is_node t = (t \<in> set (map loopNode_str loop_nodes))"

definition judged_ok :: "Monitor \<Rightarrow> bool" where
  "judged_ok a = (case mo_report a of None \<Rightarrow> False | Some r \<Rightarrow> cr_accepted r)"

definition conflicted_str :: string where
  "conflicted_str = mergeStatus_str MergeStatus_CONFLICTED"

text \<open>The shadow was merged, and the merge did not conflict.\<close>

definition cleanly_merged :: "Monitor \<Rightarrow> bool" where
  "cleanly_merged a = (case mo_merged a of None \<Rightarrow> False | Some st \<Rightarrow> st \<noteq> conflicted_str)"

definition may_converge :: "LoopSpec \<Rightarrow> Monitor \<Rightarrow> bool" where
  "may_converge spec a =
     (judged_ok a \<and> \<not> mo_compensated a \<and> (uses_shadow spec \<longrightarrow> cleanly_merged a)
      \<and> (case mo_committed a of None \<Rightarrow> True | Some r \<Rightarrow> se_ok r))"

definition lock_for :: "LoopSpec \<Rightarrow> LockMode \<Rightarrow> LockMode option" where
  "lock_for spec mode = (if needs_lock spec then Some mode else None)"

definition converged_str :: string where
  "converged_str = loopTerminalState_str LoopTerminalState_CONVERGED"

text \<open>What must hold before an effect, and the state after it.\<close>

fun monitor_ok :: "LoopSpec \<Rightarrow> effect \<Rightarrow> Monitor \<Rightarrow> bool" where
  "monitor_ok spec (Entered n) a =
     (mo_stop a = [] \<and> mo_open a = None \<and> mo_lock a = None \<and> mo_committed a = None)"
| "monitor_ok spec (Moved n t c) a =
     (mo_stop a = [] \<and> mo_node a = n \<and> mo_lock a = None \<and> driver_edge n t c
      \<and> (t = converged_str \<longrightarrow> may_converge spec a))"
| "monitor_ok spec (Opened g) a = (mo_stop a = [] \<and> mo_open a = None \<and> mo_lock a = None)"
| "monitor_ok spec (Released i) a = (mo_open a = Some i)"
| "monitor_ok spec Discarded a =
     (mo_lock a = None \<and> uses_shadow spec \<and> rb_discard_shadow_on_failure (ls_rollback_policy spec))"
| "monitor_ok spec (Locked m) a = (needs_lock spec \<and> mo_lock a = None \<and> mo_stop a = [])"
| "monitor_ok spec (Unlocked m) a = (mo_lock a = Some m)"
| "monitor_ok spec (Stuck m) a = (mo_lock a = Some m)"
| "monitor_ok spec (Ran name) a =
     (mo_node a = loopNode_str LoopNode_EVALUATE \<and> mo_stop a = [] \<and> mo_open a \<noteq> None
      \<and> mo_report a = None \<and> mo_lock a = lock_for spec LockMode_READ)"
| "monitor_ok spec (Judged r) a =
     (mo_node a = loopNode_str LoopNode_EVALUATE \<and> mo_stop a = [] \<and> mo_open a = None
      \<and> mo_report a = None \<and> mo_lock a = None)"
| "monitor_ok spec (Merged st) a =
     (mo_stop a = [] \<and> judged_ok a \<and> uses_shadow spec \<and> mo_merged a = None \<and> mo_committed a = None
      \<and> \<not> mo_compensated a \<and> mo_lock a = lock_for spec LockMode_WRITE)"
| "monitor_ok spec (Committed r) a =
     (mo_stop a = [] \<and> judged_ok a \<and> (uses_shadow spec \<longrightarrow> cleanly_merged a) \<and> \<not> mo_compensated a
      \<and> mo_committed a = None \<and> mo_lock a = None)"
| "monitor_ok spec (Compensated r removed) a =
     (mo_stop a = [] \<and> mo_report a \<noteq> None \<and> (judged_ok a \<longrightarrow> mo_merged a = Some conflicted_str) \<and> \<not> mo_compensated a
      \<and> mo_committed a = None \<and> mo_lock a = None)"

fun monitor_next :: "effect \<Rightarrow> Monitor \<Rightarrow> Monitor" where
  "monitor_next (Entered n) a = idle\<lparr>mo_node := n\<rparr>"
| "monitor_next (Moved n t c) a = (if is_node t then a\<lparr>mo_node := t\<rparr> else a\<lparr>mo_stop := t\<rparr>)"
| "monitor_next (Opened g) a = (if grant_allowed g then a\<lparr>mo_open := Some (gr_id g)\<rparr> else a)"
| "monitor_next (Released i) a = a\<lparr>mo_open := None\<rparr>"
| "monitor_next (Locked m) a = a\<lparr>mo_lock := Some m\<rparr>"
| "monitor_next (Unlocked m) a = a\<lparr>mo_lock := None\<rparr>"
| "monitor_next (Stuck m) a = a\<lparr>mo_lock := None\<rparr>"
| "monitor_next (Judged r) a = a\<lparr>mo_report := Some r\<rparr>"
| "monitor_next (Merged st) a = a\<lparr>mo_merged := Some st\<rparr>"
| "monitor_next (Committed r) a = a\<lparr>mo_committed := Some r\<rparr>"
| "monitor_next (Compensated r removed) a = a\<lparr>mo_compensated := True\<rparr>"
| "monitor_next e a = a"

definition monitor_step :: "LoopSpec \<Rightarrow> effect \<Rightarrow> Monitor \<Rightarrow> Monitor option" where
  "monitor_step spec e a = (if monitor_ok spec e a then Some (monitor_next e a) else None)"

fun monitor :: "LoopSpec \<Rightarrow> Monitor \<Rightarrow> effect list \<Rightarrow> Monitor option" where
  "monitor spec a [] = Some a"
| "monitor spec a (e # es) = (case monitor_step spec e a of None \<Rightarrow> None | Some a' \<Rightarrow> monitor spec a' es)"

lemma monitor_append:
  "monitor spec a (xs @ ys) = (case monitor spec a xs of None \<Rightarrow> None | Some a' \<Rightarrow> monitor spec a' ys)"
  by (induction xs arbitrary: a) (auto split: option.splits)

section \<open>The view of the monitor\<close>

text \<open>A world whose log the monitor has followed to a state. The gateway is set when the run starts.\<close>

definition tracks :: "LoopSpec \<Rightarrow> Monitor \<Rightarrow> World \<Rightarrow> bool" where
  "tracks spec a w = (monitor spec idle (w_log w) = Some a \<and> w_gateway w \<noteq> None)"

lemma tracks_view: "driver_view (tracks spec)"
  by unfold_locales (auto simp: tracks_def)

interpretation mon: driver_view "tracks spec" for spec
  by (rule tracks_view)

lemma exits_log [vc]:
  "monitor_ok spec e a \<Longrightarrow> Q () (monitor_next e a) \<Longrightarrow> exits (tracks spec) (log_effect e) a Q R E"
  by (auto simp: exits_def tracks_def log_effect_def modify_def monitor_append monitor_step_def)

lemma exits_store_call:
  "(\<And>x. Q x a) \<Longrightarrow> (\<And>e. plain e \<Longrightarrow> E e a) \<Longrightarrow> exits (tracks spec) (store_call p f) a Q R E"
  by (auto simp: exits_def tracks_def store_call_def Let_def split: sum.splits prod.splits)

lemma exits_checkpoint [vc]:
  "(\<And>x. Q x a) \<Longrightarrow> (\<And>e. plain e \<Longrightarrow> E e a) \<Longrightarrow> exits (tracks spec) (checkpoint p state node inputs) a Q R E"
  unfolding checkpoint_def by (rule exits_store_call)

lemma exits_lease_check [vc]:
  "Q () a \<Longrightarrow> (\<And>e. plain e \<Longrightarrow> E e a) \<Longrightarrow> exits (tracks spec) (lease_check p) a Q R E"
  by (auto simp: exits_def lease_check_def split: option.splits)

lemma exits_check_evidence [vc]:
  "(\<And>r. monitor_ok spec (Judged r) a) \<Longrightarrow> (\<And>r. Q r (monitor_next (Judged r) a)) \<Longrightarrow> (\<And>e. plain e \<Longrightarrow> E e a)
    \<Longrightarrow> exits (tracks spec) (check_evidence spec) a Q R E"
  by (auto simp: exits_def tracks_def check_evidence_def monitor_append monitor_step_def
      simp del: monitor_ok.simps monitor_next.simps split: sum.splits)

lemma exits_request_grant [vc]:
  assumes "mo_stop a = []" "mo_open a = None" "mo_lock a = None"
    "\<And>g. grant_allowed g \<Longrightarrow> Q g (a\<lparr>mo_open := Some (gr_id g)\<rparr>)" "\<And>g. \<not> grant_allowed g \<Longrightarrow> Q g a"
  shows "exits (tracks spec) (request_grant p request) a Q R E"
  using assms
  by (auto simp: exits_def tracks_def request_grant_def monitor_append monitor_step_def split: prod.splits)

lemma exits_release [vc]:
  assumes "mo_open a = Some (gr_id g)" "Q () (a\<lparr>mo_open := None\<rparr>)"
  shows "exits (tracks spec) (release_grant_of p g) a Q R E"
  using assms
  by (auto simp: exits_def tracks_def release_grant_of_def monitor_append monitor_step_def split: prod.splits)

section \<open>The rules of the phases\<close>

text \<open>The names of the nodes and of the stop states are told apart by evaluation, once.\<close>

lemma node_names [simp]:
  "loopNode_str n = loopNode_str n' \<longleftrightarrow> n = n'" "is_node (loopNode_str n)"
  "\<not> is_node (loopTerminalState_str t)" "loopTerminalState_str t \<noteq> []" "loopNode_str n \<noteq> []"
  "loopNode_str n \<noteq> converged_str"
  "loopTerminalState_str t = converged_str \<longleftrightarrow> t = LoopTerminalState_CONVERGED"
proof -
  show "loopNode_str n = loopNode_str n' \<longleftrightarrow> n = n'" by (cases n; cases n'; simp)
  show "is_node (loopNode_str n)" by (cases n; simp add: is_node_def loop_nodes_def)
  show "\<not> is_node (loopTerminalState_str t)" by (cases t; simp add: is_node_def loop_nodes_def)
  show "loopTerminalState_str t \<noteq> []" by (cases t; simp)
  show "loopNode_str n \<noteq> []" by (cases n; simp)
  show "loopNode_str n \<noteq> converged_str" by (cases n; simp add: converged_str_def)
  show "loopTerminalState_str t = converged_str \<longleftrightarrow> t = LoopTerminalState_CONVERGED"
    by (cases t; simp add: converged_str_def)
qed

lemma driver_edges [simp]:
  "driver_edge (loopNode_str LoopNode_PLAN) (loopNode_str LoopNode_EXECUTE) ''plan_ready''"
  "driver_edge (loopNode_str LoopNode_PLAN) (loopNode_str LoopNode_PAUSE) ''resource_pause''"
  "driver_edge (loopNode_str LoopNode_EXECUTE) (loopNode_str LoopNode_PAUSE) ''resource_pause''"
  "driver_edge (loopNode_str LoopNode_EVALUATE) (loopNode_str LoopNode_PAUSE) ''resource_pause''"
  "driver_edge (loopNode_str LoopNode_PLAN) (loopNode_str LoopNode_ESCALATE) ''resource_escalate''"
  "driver_edge (loopNode_str LoopNode_EXECUTE) (loopNode_str LoopNode_ESCALATE) ''resource_escalate''"
  "driver_edge (loopNode_str LoopNode_EVALUATE) (loopNode_str LoopNode_ESCALATE) ''resource_escalate''"
  "driver_edge (loopNode_str LoopNode_PLAN) (loopTerminalState_str LoopTerminalState_BLOCKED) ''resource_blocked''"
  "driver_edge (loopNode_str LoopNode_EXECUTE) (loopTerminalState_str LoopTerminalState_BLOCKED) ''resource_blocked''"
  "driver_edge (loopNode_str LoopNode_EVALUATE) (loopTerminalState_str LoopTerminalState_BLOCKED) ''resource_blocked''"
  "driver_edge (loopNode_str LoopNode_PLAN) (loopNode_str LoopNode_REFLECT) ''planner_failed''"
  "driver_edge (loopNode_str LoopNode_PLAN) (loopTerminalState_str LoopTerminalState_FAILED) ''planner_failed''"
  "driver_edge (loopNode_str LoopNode_EXECUTE) (loopNode_str LoopNode_EVALUATE) ''side_effect_recorded''"
  "driver_edge (loopNode_str LoopNode_EXECUTE) (loopNode_str LoopNode_REFLECT) ''capability_failed''"
  "driver_edge (loopNode_str LoopNode_EXECUTE) (loopNode_str LoopNode_REFLECT) ''missing_planned_capability''"
  "driver_edge (loopNode_str LoopNode_EXECUTE) (loopNode_str LoopNode_ESCALATE) ''approval_required''"
  "driver_edge (loopNode_str LoopNode_EXECUTE) (loopTerminalState_str LoopTerminalState_BLOCKED) ''repeated_progress_signature''"
  "driver_edge (loopNode_str LoopNode_EVALUATE) (loopTerminalState_str LoopTerminalState_CONVERGED) ''checker_passed''"
  "driver_edge (loopNode_str LoopNode_EVALUATE) (loopNode_str LoopNode_PLAN) ''continue_iteration''"
  "driver_edge (loopNode_str LoopNode_EVALUATE) (loopNode_str LoopNode_REFLECT) ''checker_failed''"
  "driver_edge (loopNode_str LoopNode_EVALUATE) (loopTerminalState_str LoopTerminalState_CONFLICTED) ''merge_conflict''"
  "driver_edge (loopNode_str LoopNode_EVALUATE) (loopTerminalState_str LoopTerminalState_TIMED_OUT) ''hard_timeout''"
  "driver_edge (loopNode_str LoopNode_EVALUATE) (loopNode_str LoopNode_ESCALATE) ''side_effect_commit_required''"
  "driver_edge (loopNode_str LoopNode_REFLECT) (loopNode_str LoopNode_PLAN) ''new_route_available''"
  "driver_edge (loopNode_str LoopNode_REFLECT) (loopTerminalState_str LoopTerminalState_BLOCKED) ''no_route_available''"
  "driver_edge (loopNode_str LoopNode_REFLECT) (loopTerminalState_str LoopTerminalState_FAILED) ''checker_rejected''"
  "driver_edge (loopNode_str LoopNode_ESCALATE) (loopTerminalState_str LoopTerminalState_WAITING_APPROVAL) ''approval_required''"
  "driver_edge (loopNode_str LoopNode_ESCALATE) (loopTerminalState_str LoopTerminalState_WAITING_APPROVAL) ''resource_escalate''"
  "driver_edge (loopNode_str LoopNode_PAUSE) (loopTerminalState_str LoopTerminalState_PAUSED) ''resource_or_user_pause''"
  by code_simp+

text \<open>From here the names stay folded.\<close>

declare loopNode_str.simps [simp del] loopTerminalState_str.simps [simp del]

lemma converged_nonempty [simp]: "converged_str \<noteq> []" "[] \<noteq> converged_str"
  by (simp_all add: converged_str_def not_sym [OF node_names(4)])

definition on_node :: "LoopRunState \<Rightarrow> Monitor \<Rightarrow> bool" where
  "on_node state a = (mo_node a = lr_node state \<and> mo_stop a = [] \<and> mo_lock a = None)"

text \<open>What a failed call of a store leaves: an exception of the store, and no lock.\<close>

definition store_fails :: "(exc \<Rightarrow> Monitor \<Rightarrow> bool) \<Rightarrow> bool" where
  "store_fails E = (\<forall>e a. plain e \<longrightarrow> mo_lock a = None \<longrightarrow> E e a)"

lemma store_failsD: "store_fails E \<Longrightarrow> plain e \<Longrightarrow> mo_lock a = None \<Longrightarrow> E e a"
  by (simp add: store_fails_def)

lemma exits_move_state:
  "(\<And>s. lr_node s = node \<Longrightarrow> lr_terminal_state s = terminal \<Longrightarrow> Q s a) \<Longrightarrow> (\<And>e. plain e \<Longrightarrow> E e a)
    \<Longrightarrow> exits (tracks spec) (store_call p (\<lambda>env fresh view db. transition env rid node cp terminal c facts owner view db)) a Q R E"
proof -
  assume Q: "\<And>s. lr_node s = node \<Longrightarrow> lr_terminal_state s = terminal \<Longrightarrow> Q s a" and E: "\<And>e. plain e \<Longrightarrow> E e a"
  have "lr_node s = node \<and> lr_terminal_state s = terminal"
    if "transition env rid node cp terminal c facts owner view db = Inr (s, db')" for env view db s db'
    using that by (auto simp: transition_def Let_def loop_run_transition_Inr_iff commit_state_def
        split: if_splits)
  then show ?thesis
    using Q E by (auto simp: exits_def tracks_def store_call_def Let_def split: sum.splits prod.splits)
qed

lemma exits_move:
  assumes "on_node state a" "store_fails E"
    and "monitor_ok spec (Moved (lr_node state) (if terminal \<noteq> [] then terminal else node) c) a"
      "monitor_next (Moved (lr_node state) (if terminal \<noteq> [] then terminal else node) c) a = a'"
    and "\<And>s. lr_node s = node \<Longrightarrow> lr_terminal_state s = terminal \<Longrightarrow> Q s a'"
  shows "exits (tracks spec) (move p state node c terminal evidence) a Q R E"
proof -
  have a: "\<And>e. plain e \<Longrightarrow> E e a" and a': "\<And>e. plain e \<Longrightarrow> E e a'"
    using assms(1,2) assms(4) [symmetric] by (auto simp: store_fails_def on_node_def)
  show ?thesis
    unfolding move_def
    by (intro exits_next_do exits_seq exits_lease_check exits_checkpoint exits_reads exits_log
        exits_move_state mon.exits_modify mon.exits_record_decision exits_ret)
      (use assms(3-5) a a' in \<open>auto simp del: monitor_ok.simps monitor_next.simps\<close>)
qed

lemma exits_go [vc]:
  assumes "on_node state a" "driver_edge (lr_node state) (loopNode_str node) c" "store_fails E"
    "\<And>s. lr_node s = loopNode_str node \<Longrightarrow> Q s (a\<lparr>mo_node := loopNode_str node\<rparr>)"
  shows "exits (tracks spec) (go p state node c evidence) a Q R E"
  unfolding go_def
  by (rule exits_move [where a' = "a\<lparr>mo_node := loopNode_str node\<rparr>"]) (use assms in \<open>auto simp: on_node_def\<close>)

text \<open>The end of a run: the monitor stops with the run.\<close>

definition stop_at :: "LoopRunState \<Rightarrow> Monitor \<Rightarrow> Monitor" where
  "stop_at s a = a\<lparr>mo_node := lr_node s, mo_stop := lr_terminal_state s\<rparr>"

definition ended_by :: "LoopRunState \<Rightarrow> LoopTerminalState \<Rightarrow> bool" where
  "ended_by s t = (lr_terminal_state s = loopTerminalState_str t)"

lemma ended_stopped: "ended_by s t \<Longrightarrow> is_stopped s"
proof -
  assume s: "ended_by s t"
  have "\<forall>x\<in>set DEFAULT_TERMINAL_STATES. py_strip (loopTerminalState_str x) = loopTerminalState_str x
      \<and> loopTerminalState_str x \<noteq> [] \<and> loopTerminalState_str x \<in> set (map loopTerminalState_str FINAL_LOOP_STATES)
          \<union> set (map loopTerminalState_str SUSPENDED_LOOP_STATES)"
    by code_simp
  moreover have "t \<in> set DEFAULT_TERMINAL_STATES" by (cases t) (simp_all add: DEFAULT_TERMINAL_STATES_def)
  ultimately show ?thesis
    using s by (auto simp: ended_by_def is_stopped_def is_terminal_def is_suspended_def)
qed

lemma exits_stop [vc]:
  assumes "on_node state a" "lr_node state = loopNode_str node"
    "driver_edge (lr_node state) (loopTerminalState_str t) c" "store_fails E"
    "t = LoopTerminalState_CONVERGED \<Longrightarrow> may_converge spec a"
    "\<And>s. ended_by s t \<Longrightarrow> Q s (stop_at s a)"
  shows "exits (tracks spec) (stop p state node t c evidence) a Q R E"
  unfolding stop_def
proof (rule exits_move [where a' = "a\<lparr>mo_stop := loopTerminalState_str t\<rparr>"])
  fix s :: LoopRunState assume "lr_node s = loopNode_str node" "lr_terminal_state s = loopTerminalState_str t"
  moreover from this assms(1,2) have "stop_at s a = a\<lparr>mo_stop := loopTerminalState_str t\<rparr>"
    by (cases a) (simp add: stop_at_def on_node_def)
  ultimately show "Q s (a\<lparr>mo_stop := loopTerminalState_str t\<rparr>)"
    using assms(6) [of s] by (simp add: ended_by_def)
qed (use assms in \<open>auto simp: on_node_def\<close>)

lemma on_node_moved [simp]:
  "lr_node s = loopNode_str n \<Longrightarrow> mo_stop a = [] \<Longrightarrow> mo_lock a = None \<Longrightarrow> on_node s (a\<lparr>mo_node := loopNode_str n\<rparr>)"
  by (simp add: on_node_def)

text \<open>
  What a run promises of its answer. \<open>unlimited\<close> says that the planner never reports a limit of its own;
  such a report leaves the grant of the phase open.
\<close>

definition answers :: "bool \<Rightarrow> StateGraphRunResult \<Rightarrow> Monitor \<Rightarrow> bool" where
  "answers unlimited r a =
     (mo_lock a = None \<and> lr_node (sr_run_state r) = mo_node a
      \<and> (mo_stop a = [] \<longrightarrow> mo_open a = None \<and> mo_committed a = None)
      \<and> (mo_stop a \<noteq> [] \<longrightarrow> lr_terminal_state (sr_run_state r) = mo_stop a \<and> is_stopped (sr_run_state r))
      \<and> (mo_stop a = converged_str \<longrightarrow> sr_checker_report r = mo_report a)
      \<and> (unlimited \<longrightarrow> mo_open a = None))"

definition work_node :: "LoopRunState \<Rightarrow> bool" where
  "work_node s = (\<exists>n \<in> {LoopNode_PLAN, LoopNode_EXECUTE, LoopNode_EVALUATE}. lr_node s = loopNode_str n)"

lemma work_nodeI [simp]:
  "lr_node s = loopNode_str LoopNode_PLAN \<Longrightarrow> work_node s"
  "lr_node s = loopNode_str LoopNode_EXECUTE \<Longrightarrow> work_node s"
  "lr_node s = loopNode_str LoopNode_EVALUATE \<Longrightarrow> work_node s"
  by (auto simp: work_node_def)

lemma work_node_edges:
  "work_node s \<Longrightarrow> driver_edge (lr_node s) (loopNode_str LoopNode_PAUSE) ''resource_pause''"
  "work_node s \<Longrightarrow> driver_edge (lr_node s) (loopNode_str LoopNode_ESCALATE) ''resource_escalate''"
  "work_node s \<Longrightarrow> driver_edge (lr_node s) (loopTerminalState_str LoopTerminalState_BLOCKED) ''resource_blocked''"
  by (auto simp: work_node_def)

text \<open>A run that is ended without convergence answers as promised, once its grant is released.\<close>

lemma answers_stopped [simp]:
  assumes "ended_by (sr_run_state r) t" "t \<noteq> LoopTerminalState_CONVERGED" "mo_lock a = None"
  shows "answers unlimited r (stop_at (sr_run_state r) a) \<longleftrightarrow> (unlimited \<longrightarrow> mo_open a = None)"
  using assms ended_stopped [OF assms(1)] by (auto simp: answers_def stop_at_def ended_by_def)

lemma answers_converged [simp]:
  assumes "ended_by (sr_run_state r) LoopTerminalState_CONVERGED" "mo_lock a = None"
  shows "answers unlimited r (stop_at (sr_run_state r) a) \<longleftrightarrow>
     (unlimited \<longrightarrow> mo_open a = None) \<and> sr_checker_report r = mo_report a"
  using assms ended_stopped [OF assms(1)] by (auto simp: answers_def stop_at_def ended_by_def converged_str_def)

lemma answers_open [simp]:
  "mo_stop a = [] \<Longrightarrow> answers unlimited r a \<longleftrightarrow>
     mo_lock a = None \<and> lr_node (sr_run_state r) = mo_node a \<and> mo_open a = None \<and> mo_committed a = None"
  by (auto simp: answers_def)

lemma stop_at_fields [simp]:
  "mo_lock (stop_at s a) = mo_lock a" "mo_open (stop_at s a) = mo_open a"
  "mo_report (stop_at s a) = mo_report a" "mo_committed (stop_at s a) = mo_committed a"
  "(stop_at s a)\<lparr>mo_open := i\<rparr> = stop_at s (a\<lparr>mo_open := i\<rparr>)"
  "stop_at s (a\<lparr>mo_node := n\<rparr>) = stop_at s a"
  by (simp_all add: stop_at_def)

lemma exits_pause [vc]:
  assumes "on_node state a" "work_node state" "store_fails E"
    "\<And>s. ended_by s LoopTerminalState_PAUSED \<Longrightarrow> Q s (stop_at s a)"
  shows "exits (tracks spec) (pause_run p state evidence) a Q R E"
  unfolding pause_run_def
  by (intro vc) (use assms work_node_edges [OF assms(2)] in
      \<open>auto simp: on_node_def\<close>)

lemma exits_stop_for_grant [vc]:
  assumes "on_node state a" "work_node state" "store_fails E"
    "\<And>s t. ended_by s t \<Longrightarrow> t \<noteq> LoopTerminalState_CONVERGED \<Longrightarrow> Q s (stop_at s a)"
  shows "exits (tracks spec) (stop_for_resource_grant p state g) a Q R E"
proof -
  obtain n where n: "lr_node state = loopNode_str n" using assms(2) by (auto simp: work_node_def)
  have blocked: "exits (tracks spec) (stop p state n LoopTerminalState_BLOCKED ''resource_blocked'' d) a Q R E" for d
    by (rule exits_stop) (use assms n work_node_edges [OF assms(2)] in \<open>auto\<close>)
  show ?thesis
    unfolding stop_for_resource_grant_def Let_def
    by (intro exits_if exits_pause exits_seq exits_go exits_stop)
      (use assms work_node_edges [OF assms(2)] blocked n in
        \<open>auto simp: on_node_def stop_def\<close>)
qed

lemma exits_gate [vc]:
  assumes "on_node state a" "work_node state" "store_fails E" "mo_open a = None" "mo_committed a = None"
    "\<And>g. grant_allowed g \<Longrightarrow> Q g (a\<lparr>mo_open := Some (gr_id g)\<rparr>)"
  shows "exits (tracks spec) (gate_or_stop p state kind request) a Q (answers unlimited) E"
  unfolding gate_or_stop_def
  by (intro vc) (use assms in \<open>auto simp: on_node_def store_fails_def\<close>)

lemma exits_limit_stop [vc]:
  assumes "on_node state a" "work_node state" "store_fails E" "unlimited \<Longrightarrow> mo_open a = None"
  shows "exits (tracks spec) (limit_stop p state kind g b) a Q (answers unlimited) E"
  unfolding limit_stop_def
  by (intro vc) (use assms in \<open>auto simp: on_node_def store_fails_def\<close>)

lemma exits_discard [vc]:
  assumes "mo_lock a = None" "shadow \<Longrightarrow> uses_shadow spec" "store_fails E" "Q () a"
  shows "exits (tracks spec) (discard_if_needed p spec shadow) a Q R E"
  unfolding discard_if_needed_def
  by (intro vc) (use assms in \<open>auto simp: store_fails_def\<close>)

lemma exits_lock_conflict [vc]:
  assumes "on_node state a" "work_node state" "store_fails E"
    "\<And>s. ended_by s LoopTerminalState_PAUSED \<Longrightarrow> Q s (stop_at s a)"
  shows "exits (tracks spec) (pause_for_lock_conflict p state facts) a Q R E"
  unfolding pause_for_lock_conflict_def by (intro vc) (use assms in auto)

section \<open>Planning and executing\<close>

text \<open>A phase that holds its grant, before anything is committed.\<close>

definition in_phase :: "LoopRunState \<Rightarrow> ResourceGrant \<Rightarrow> Monitor \<Rightarrow> bool" where
  "in_phase state g a = (on_node state a \<and> mo_open a = Some (gr_id g) \<and> mo_committed a = None)"

lemma exits_planner_verdict [vc]:
  assumes "in_phase state g a" "lr_node state = loopNode_str LoopNode_PLAN" "store_fails E"
  shows "exits (tracks spec) (planner_verdict p state g e d) a Q (answers unlimited) E"
  unfolding planner_verdict_def
  by (intro vc) (use assms in \<open>auto simp: in_phase_def on_node_def store_fails_def\<close>)

lemma exits_planner_failed [vc]:
  assumes "in_phase state g a" "lr_node state = loopNode_str LoopNode_PLAN" "store_fails E"
    "shadow \<Longrightarrow> uses_shadow spec"
  shows "exits (tracks spec) (planner_failed p spec shadow state g e) a Q (answers unlimited) E"
  unfolding planner_failed_def
  by (intro vc mon.exits_modify) (use assms in \<open>auto simp: in_phase_def on_node_def store_fails_def\<close>)

definition planner_unlimited :: "Ports \<Rightarrow> bool" where
  "planner_unlimited p = (\<forall>n spec state evidence g. po_plan p n spec state evidence \<noteq> Inl (LimitError g))"

text \<open>The exception that leaves a phase, with the lock free.\<close>

abbreviation unlocked :: "exc \<Rightarrow> Monitor \<Rightarrow> bool" where
  "unlocked e a \<equiv> mo_lock a = None"

lemma store_fails_unlocked [simp]: "store_fails unlocked"
  by (simp add: store_fails_def)

text \<open>The monitor after a phase: at the node of the run, and otherwise as before.\<close>

definition at_node :: "LoopRunState \<Rightarrow> Monitor \<Rightarrow> Monitor" where
  "at_node s a = a\<lparr>mo_node := lr_node s\<rparr>"

lemma at_node_same: "on_node state a \<Longrightarrow> at_node state a = a"
  by (simp add: at_node_def on_node_def)

lemma exits_plan_phase [vc]:
  assumes "on_node state a" "mo_open a = None" "mo_committed a = None" "shadow \<Longrightarrow> uses_shadow spec"
    "\<And>s planned. lr_node s \<noteq> loopNode_str LoopNode_PLAN \<Longrightarrow> Q (s, planned) (at_node s a)"
  shows "exits (tracks spec) (plan_phase p spec shadow resumed state) a Q (answers (planner_unlimited p)) unlocked"
proof -
  have failed: "exits (tracks spec) (case e of
        LimitError g \<Rightarrow> limit_stop p state ''llm:planner'' g False
      | _ \<Rightarrow> if provider_failure e then planner_failed p spec shadow state grant e
             else next_do (discard_if_needed p spec shadow) (throw e))
      (a\<lparr>mo_open := Some (gr_id grant)\<rparr>) Q' (answers (planner_unlimited p)) unlocked"
    if "lr_node state = loopNode_str LoopNode_PLAN" "po_plan p n spec state evidence = Inl e"
    for e grant n evidence Q'
    using that assms(1-4)
    by (cases e; simp; intro vc; auto simp: in_phase_def on_node_def planner_unlimited_def)
  have same: "Q (state, resumed) a" if "lr_node state \<noteq> loopNode_str LoopNode_PLAN"
    using assms(5) [OF that] at_node_same [OF assms(1)] by simp
  have ready: "Q (s, planned) (a\<lparr>mo_node := loopNode_str LoopNode_EXECUTE, mo_open := None\<rparr>)"
    if "lr_node s = loopNode_str LoopNode_EXECUTE" for s planned
    using assms(5) [of s planned] that assms(2) by (cases a) (simp add: at_node_def)
  show ?thesis
    unfolding plan_phase_def
    by (intro vc mon.exits_modify failed) (use assms(1-4) same ready in \<open>auto simp: on_node_def\<close>)
qed

lemma exits_yields [vc]:
  assumes "on_node state a" "lr_node state = loopNode_str LoopNode_EXECUTE" "store_fails E"
    "\<And>s t. ended_by s t \<Longrightarrow> t \<noteq> LoopTerminalState_CONVERGED \<Longrightarrow> Q s (stop_at s a)"
  shows "exits (tracks spec) (yields p state x evidence) a Q R E"
  unfolding yields_def by (intro vc) (use assms in \<open>auto simp: on_node_def\<close>)

lemma exits_capability_failed [vc]:
  assumes "in_phase state g a" "lr_node state = loopNode_str LoopNode_EXECUTE" "store_fails E"
    "shadow \<Longrightarrow> uses_shadow spec"
  shows "exits (tracks spec) (capability_failed p spec shadow state g x evidence) a Q (answers unlimited) E"
  unfolding capability_failed_def
  by (intro vc) (use assms in \<open>auto simp: in_phase_def on_node_def store_fails_def\<close>)

lemma exits_missing_plan [vc]:
  assumes "in_phase state g a" "lr_node state = loopNode_str LoopNode_EXECUTE" "store_fails E"
    "shadow \<Longrightarrow> uses_shadow spec"
  shows "exits (tracks spec) (missing_plan p spec shadow state g) a Q (answers unlimited) E"
  unfolding missing_plan_def
  by (intro vc) (use assms in \<open>auto simp: in_phase_def on_node_def store_fails_def\<close>)

lemma exits_after_execution [vc]:
  assumes "in_phase state g a" "lr_node state = loopNode_str LoopNode_EXECUTE" "store_fails E"
    "shadow \<Longrightarrow> uses_shadow spec"
    "\<And>s. lr_node s = loopNode_str LoopNode_EVALUATE \<Longrightarrow> Q s ((at_node s a)\<lparr>mo_open := None\<rparr>)"
  shows "exits (tracks spec) (after_execution p spec shadow state g planned x history sig) a Q (answers unlimited) E"
  unfolding after_execution_def
  by (intro vc) (use assms in \<open>auto simp: in_phase_def on_node_def store_fails_def at_node_def\<close>)

lemma exits_execute_phase [vc]:
  assumes "on_node state a" "mo_open a = None" "mo_committed a = None" "shadow \<Longrightarrow> uses_shadow spec"
    "\<And>s. lr_node s \<noteq> loopNode_str LoopNode_EXECUTE \<Longrightarrow>
       (lr_node s = loopNode_str LoopNode_PLAN \<Longrightarrow> s = state) \<Longrightarrow> Q s (at_node s a)"
  shows "exits (tracks spec) (execute_phase p spec shadow attempts planned state) a Q (answers unlimited) unlocked"
proof -
  have same: "Q state a" if "lr_node state \<noteq> loopNode_str LoopNode_EXECUTE"
    using assms(5) [OF that] at_node_same [OF assms(1)] by simp
  have ready: "Q s ((at_node s (a\<lparr>mo_open := i\<rparr>))\<lparr>mo_open := None\<rparr>)"
    if "lr_node s = loopNode_str LoopNode_EVALUATE" for s i
    using assms(5) [of s] that assms(2) by (cases a) (simp add: at_node_def)
  show ?thesis
    unfolding execute_phase_def
    by (intro vc) (use assms(1-4) same ready in \<open>auto simp: on_node_def in_phase_def\<close>)
qed

section \<open>Evaluating\<close>

lemma exits_take_lock [vc]:
  assumes "on_node state a" "work_node state" "store_fails E"
    "Q () (a\<lparr>mo_lock := lock_for spec mode\<rparr>)"
    "\<And>s. ended_by s LoopTerminalState_PAUSED \<Longrightarrow>
       exits (tracks spec) on_conflict (stop_at s a) (\<lambda>_ a'. \<exists>b. a' = stop_at s b \<and> mo_lock b = None \<and> mo_open b = None)
         (answers unlimited) E"
  shows "exits (tracks spec) (take_lock p spec state mode key on_conflict report) a Q (answers unlimited) E"
proof -
  have free: "\<not> needs_lock spec \<Longrightarrow> Q () a" and held: "needs_lock spec \<Longrightarrow> Q () (a\<lparr>mo_lock := Some mode\<rparr>)"
    using assms(1,4) by (cases a; simp add: lock_for_def on_node_def)+
  have conflict: "exits (tracks spec) (next_do on_conflict (finish s report True)) (stop_at s a) Q' (answers unlimited) E"
    if "ended_by s LoopTerminalState_PAUSED" for s Q'
    by (intro exits_next_do exits_mono [OF assms(5) [OF that]]) (use that in \<open>auto intro!: exits_finish\<close>)
  show ?thesis
    unfolding take_lock_def
    by (intro vc conflict) (use assms(1-3) free held in \<open>auto simp: on_node_def store_fails_def\<close>)
qed

lemma exits_drop_lock [vc]:
  "mo_lock a = lock_for spec mode \<Longrightarrow> Q () (a\<lparr>mo_lock := None\<rparr>) \<Longrightarrow> (\<And>e. plain e \<Longrightarrow> E e (a\<lparr>mo_lock := None\<rparr>))
    \<Longrightarrow> exits (tracks spec) (drop_lock p spec mode) a Q R E"
  unfolding drop_lock_def by (intro vc) (cases a; auto simp: lock_for_def)+

text \<open>Nothing is judged, merged or committed yet.\<close>

definition unjudged :: "LoopRunState \<Rightarrow> Monitor \<Rightarrow> bool" where
  "unjudged state a =
     (on_node state a \<and> lr_node state = loopNode_str LoopNode_EVALUATE \<and> mo_open a = None
      \<and> mo_committed a = None \<and> mo_report a = None \<and> mo_merged a = None \<and> \<not> mo_compensated a)"

text \<open>How the evaluation fails: a failure of a store or of the harness, or of the semantic checker.\<close>

definition eval_fails :: "LoopRunState \<Rightarrow> exc \<Rightarrow> Monitor \<Rightarrow> bool" where
  "eval_fails state e a = (mo_lock a = None \<and> (plain e \<or> ((\<exists>c. e = CheckerCallError c) \<and> unjudged state a)))"

lemma store_fails_eval [simp]: "store_fails (eval_fails state)"
  by (simp add: store_fails_def eval_fails_def)

lemma eval_fails_plain [simp]: "plain e \<Longrightarrow> eval_fails state e a \<longleftrightarrow> mo_lock a = None"
  by (auto simp: eval_fails_def)

lemma exits_command:
  assumes a: "unjudged state a"
  shows "exits (tracks spec) (finally_do
      (seq (call_harness f) (\<lambda>facts. next_do (log_effect (Ran name)) (ret facts)))
      (next_do (drop_lock p spec LockMode_READ) (release_grant_of p g)))
    (a\<lparr>mo_open := Some (gr_id g), mo_lock := lock_for spec LockMode_READ\<rparr>) (\<lambda>_ a'. a' = a) R (eval_fails state)"
proof -
  let ?b = "a\<lparr>mo_open := Some (gr_id g), mo_lock := lock_for spec LockMode_READ\<rparr>"
  have restored: "a\<lparr>mo_lock := None, mo_open := None\<rparr> = a" and free: "mo_lock a = None"
    using a by (cases a; simp add: unjudged_def on_node_def)+
  have cleanup: "exits (tracks spec) (next_do (drop_lock p spec LockMode_READ) (release_grant_of p g)) ?b
      (\<lambda>_ a'. P a') R (eval_fails state)"
    if "P a" for P
    by (intro vc) (use that restored in simp_all)
  have ran: "monitor_ok spec (Ran name) ?b" "monitor_next (Ran name) ?b = ?b"
    using a by (simp_all add: unjudged_def on_node_def)
  show ?thesis
  proof (rule exits_finally, rule exits_seq, rule mon.exits_call_harness)
    show "exits (tracks spec) (next_do (log_effect (Ran name)) (ret facts)) ?b
        (\<lambda>_ a'. exits (tracks spec) (next_do (drop_lock p spec LockMode_READ) (release_grant_of p g)) a'
           (\<lambda>_ a''. a'' = a) R (eval_fails state)) R' E'" for facts R' E'
      by (rule exits_next_do, rule exits_log, rule ran, unfold ran(2), rule exits_ret, rule cleanup, rule refl)
  qed (rule cleanup, use free in simp)
qed

lemma exits_verify_steps [vc]:
  assumes "unjudged state a" "Q () a"
  shows "exits (tracks spec) (verify_steps p spec state steps) a Q (answers unlimited) (eval_fails state)"
  using assms(2)
proof (induction steps)
  case Nil
  then show ?case by (simp add: exits_ret)
next
  case (Cons step steps)
  have a: "on_node state a" "lr_node state = loopNode_str LoopNode_EVALUATE" "mo_open a = None"
    "mo_committed a = None" "mo_report a = None" "mo_stop a = []" "mo_lock a = None"
    using assms(1) by (auto simp: unjudged_def on_node_def)
  show ?case
    unfolding verify_steps.simps
    by (intro vc mon.exits_modify exits_mono [OF exits_command [OF assms(1)]])
      (use a Cons in \<open>auto simp: on_node_def intro!: vc\<close>)
qed

lemma exits_assess_steps [vc]:
  assumes "unjudged state a" "Q () a"
  shows "exits (tracks spec) (assess_steps assess spec' state x steps) a Q R (eval_fails state)"
  using assms(2)
proof (induction steps)
  case Nil
  then show ?case by (simp add: exits_ret)
next
  case (Cons step steps)
  show ?case
    unfolding assess_steps.simps assess_step_def
    by (intro vc) (use assms(1) Cons in \<open>auto simp: eval_fails_def unjudged_def on_node_def\<close>)
qed

lemma exits_populate [vc]:
  assumes "unjudged state a" "Q () a"
  shows "exits (tracks spec) (populate_checker_evidence p spec state) a Q R (eval_fails state)"
  unfolding populate_checker_evidence_def by (intro vc) (use assms in auto)

lemma exits_commit [vc]:
  assumes "mo_stop a = []" "judged_ok a" "uses_shadow spec \<Longrightarrow> cleanly_merged a" "\<not> mo_compensated a" "mo_committed a = None" "mo_lock a = None"
    "Q None a" "\<And>r. Q (Some r) (a\<lparr>mo_committed := Some r\<rparr>)"
  shows "exits (tracks spec) (commit_side_effects p state) a Q R E"
  unfolding commit_side_effects_def by (intro vc) (use assms in auto)

lemma exits_compensate [vc]:
  assumes "mo_stop a = []" "mo_report a \<noteq> None" "judged_ok a \<Longrightarrow> mo_merged a = Some conflicted_str" "\<not> mo_compensated a" "mo_committed a = None" "mo_lock a = None"
    "Q () a" "Q () (a\<lparr>mo_compensated := True\<rparr>)"
  shows "exits (tracks spec) (compensate_side_effects p state) a Q R E"
  unfolding compensate_side_effects_def by (intro vc) (use assms in auto)

definition judged :: "LoopRunState \<Rightarrow> CheckerReport \<Rightarrow> Monitor \<Rightarrow> bool" where
  "judged state report a =
     (on_node state a \<and> lr_node state = loopNode_str LoopNode_EVALUATE \<and> mo_open a = None
      \<and> mo_committed a = None \<and> mo_report a = Some report \<and> mo_merged a = None \<and> \<not> mo_compensated a)"

lemma judged_ok_fields [simp]:
  "judged_ok (a\<lparr>mo_node := n\<rparr>) = judged_ok a" "judged_ok (a\<lparr>mo_lock := l\<rparr>) = judged_ok a"
  "judged_ok (a\<lparr>mo_merged := st\<rparr>) = judged_ok a" "judged_ok (a\<lparr>mo_committed := c\<rparr>) = judged_ok a"
  "judged_ok (a\<lparr>mo_compensated := b\<rparr>) = judged_ok a" "judged_ok (a\<lparr>mo_open := i\<rparr>) = judged_ok a"
  "mo_report a = Some r \<Longrightarrow> judged_ok a = cr_accepted r"
  by (simp_all add: judged_ok_def)

lemma exits_reflect_state [vc]:
  assumes "judged state report a" "\<not> cr_accepted report" "shadow \<Longrightarrow> uses_shadow spec" "store_fails E"
    "\<And>s a'. lr_node s = mo_node a' \<Longrightarrow> mo_stop a' = [] \<Longrightarrow> mo_lock a' = None \<Longrightarrow> mo_open a' = None
       \<Longrightarrow> mo_committed a' = None \<Longrightarrow> Q s a'"
    "\<And>s t a'. ended_by s t \<Longrightarrow> t \<noteq> LoopTerminalState_CONVERGED \<Longrightarrow> mo_lock a' = None \<Longrightarrow> mo_open a' = None
       \<Longrightarrow> Q s (stop_at s a')"
  shows "exits (tracks spec) (reflect_state p spec state report shadow) a Q R E"
  unfolding reflect_state_def
  by (intro vc) (use assms in \<open>auto simp: judged_def on_node_def store_fails_def split: if_splits\<close>)

lemma exits_merge_shadow [vc]:
  assumes "judged state report a" "cr_accepted report" "uses_shadow spec" "store_fails E"
    "\<And>st. st \<noteq> conflicted_str \<Longrightarrow> Q () (a\<lparr>mo_merged := Some st\<rparr>)"
  shows "exits (tracks spec) (merge_shadow p spec state report) a Q (answers unlimited) E"
proof -
  have a: "on_node state a" "lr_node state = loopNode_str LoopNode_EVALUATE" "mo_open a = None"
    "mo_committed a = None" "mo_report a = Some report" "mo_merged a = None" "\<not> mo_compensated a"
    "mo_stop a = []" "mo_lock a = None"
    using assms(1) by (auto simp: judged_def on_node_def)
  have merged: "\<And>st. st \<noteq> conflicted_str \<Longrightarrow> Q () (a\<lparr>mo_merged := Some st, mo_lock := None\<rparr>)"
    and same: "a\<lparr>mo_lock := None\<rparr> = a"
    using a assms(5) by (cases a; simp)+
  show ?thesis
    unfolding merge_shadow_def
    by (intro vc exits_finally)
      (use assms(2-4) a merged same in \<open>auto simp: on_node_def store_fails_def conflicted_str_def\<close>)
qed

lemma exits_accept_state [vc]:
  assumes "judged state report a" "cr_accepted report" "store_fails E"
  shows "exits (tracks spec) (accept_state p spec state report (uses_shadow spec) b) a Q (answers unlimited) E"
proof -
  show ?thesis
    unfolding accept_state_def
    by (intro vc)
      (use assms in \<open>auto simp: judged_def on_node_def store_fails_def may_converge_def cleanly_merged_def\<close>)
qed

lemma exits_evaluate_state [vc]:
  assumes "on_node state a" "lr_node state = loopNode_str LoopNode_EVALUATE" "mo_open a = None"
    "mo_committed a = None" "mo_report a = None" "mo_merged a = None" "\<not> mo_compensated a"
  shows "exits (tracks spec) (evaluate_state p spec state (uses_shadow spec)) a Q (answers unlimited) (eval_fails state)"
proof -
  have restored: "a\<lparr>mo_open := None\<rparr> = a" using assms(3) by (cases a) simp
  show ?thesis
    unfolding evaluate_state_def
    by (intro vc mon.exits_modify)
      (use assms restored in \<open>auto simp: on_node_def unjudged_def judged_def Let_def\<close>)
qed

lemma exits_checker_call_failed [vc]:
  assumes "unjudged state a" "shadow \<Longrightarrow> uses_shadow spec"
  shows "exits (tracks spec) (checker_call_failed p spec state shadow e) a Q (answers unlimited) unlocked"
  unfolding checker_call_failed_def
  by (intro vc) (use assms in \<open>auto simp: unjudged_def on_node_def\<close>)

lemma exits_evaluate_phase [vc]:
  assumes "on_node state a" "mo_open a = None" "mo_committed a = None" "mo_report a = None"
    "mo_merged a = None" "\<not> mo_compensated a"
    "lr_node state \<noteq> loopNode_str LoopNode_EVALUATE \<Longrightarrow> Q state a"
  shows "exits (tracks spec) (evaluate_phase p spec (uses_shadow spec) state) a Q (answers unlimited) unlocked"
proof -
  have failed: "exits (tracks spec) (case e of
        LimitError g \<Rightarrow> limit_stop p state ''llm:semantic_checker'' g True
      | CheckerCallError cause \<Rightarrow> checker_call_failed p spec state (uses_shadow spec) cause
      | _ \<Rightarrow> next_do (discard_if_needed p spec (uses_shadow spec)) (throw e))
      a' Q' (answers unlimited) unlocked"
    if "eval_fails state e a'" for e a' Q'
    using that by (cases e; simp add: eval_fails_def; intro vc; auto simp: unjudged_def)
  show ?thesis
    unfolding evaluate_phase_def
    by (intro exits_if exits_ret exits_catch exits_mono [OF exits_evaluate_state] failed)
      (use assms in auto)
qed

section \<open>The run\<close>

text \<open>Between two iterations nothing is held, and nothing was committed.\<close>

definition resting :: "Monitor \<Rightarrow> bool" where
  "resting a = (mo_stop a = [] \<and> mo_open a = None \<and> mo_lock a = None \<and> mo_committed a = None)"

lemma exits_open_run [vc]: "(\<And>x. Q x a) \<Longrightarrow> (\<And>e. plain e \<Longrightarrow> E e a) \<Longrightarrow> exits (tracks spec) (open_run p spec' rid) a Q R E"
  unfolding open_run_def by (intro vc exits_store_call) auto

lemma exits_claim_run [vc]: "(\<And>x. Q x a) \<Longrightarrow> (\<And>e. plain e \<Longrightarrow> E e a) \<Longrightarrow> exits (tracks spec) (claim_run p spec' s) a Q R E"
  unfolding claim_run_def by (intro vc exits_store_call mon.exits_modify) (auto simp: already_claimed_def)

lemma exits_resumed_plan [vc]: "(\<And>x. Q x a) \<Longrightarrow> (\<And>e. plain e \<Longrightarrow> E e a) \<Longrightarrow> exits (tracks spec) (resumed_plan p s) a Q R E"
  unfolding resumed_plan_def by (intro vc exits_store_call)

text \<open>The answer of an iteration: of a run it drove, or of a run it found stopped.\<close>

definition run_answers :: "Ports \<Rightarrow> StateGraphRunResult \<Rightarrow> Monitor \<Rightarrow> bool" where
  "run_answers p r a = (answers (planner_unlimited p) r a \<or> (resting a \<and> is_stopped (sr_run_state r)))"

lemma answers_run_answers: "answers (planner_unlimited p) r a \<Longrightarrow> run_answers p r a"
  by (simp add: run_answers_def)

lemma exits_answers:
  "exits (tracks spec) m a Q (answers (planner_unlimited p)) E \<Longrightarrow> exits (tracks spec) m a Q (run_answers p) E"
  by (rule exits_mono [OF _ _ answers_run_answers])

lemma exits_run_steps:
  assumes "resting a"
  shows "exits (tracks spec) (run_steps p spec rid) a Q (run_answers p) unlocked"
proof -
  let ?fresh = "\<lambda>n. idle\<lparr>mo_node := n\<rparr>"
  have enter: "monitor_ok spec (Entered n) a" "mo_lock a = None" for n
    using assms by (simp_all add: resting_def)
  have entered: "on_node s (?fresh (lr_node s))" "at_node t (?fresh n) = ?fresh (lr_node t)" for s t n
    by (simp_all add: on_node_def at_node_def idle_def)
  have fresh: "mo_open (?fresh n) = None" "mo_committed (?fresh n) = None" "mo_report (?fresh n) = None"
    "mo_merged (?fresh n) = None" "\<not> mo_compensated (?fresh n)" "mo_lock (?fresh n) = None"
    "mo_stop (?fresh n) = []" "mo_node (?fresh n) = n" for n
    by (simp_all add: idle_def)
  show ?thesis
    unfolding run_steps_def
    by (intro exits_seq exits_next_do exits_if exits_open_run exits_finish exits_claim_run exits_log exits_reads
        exits_resumed_plan exits_when mon.exits_call_harness mon.exits_evidence exits_pair
        exits_answers exits_plan_phase exits_execute_phase exits_evaluate_phase)
      (use enter entered fresh assms in \<open>auto simp: run_answers_def\<close>)
qed

text \<open>The log of a world is in the monitor, from the start to a state that satisfies \<open>P\<close>.\<close>

definition follows :: "LoopSpec \<Rightarrow> (Monitor \<Rightarrow> bool) \<Rightarrow> World \<Rightarrow> bool" where
  "follows spec P w = (\<exists>a. monitor spec idle (w_log w) = Some a \<and> P a)"

fun outcome_ok :: "Ports \<Rightarrow> exc + StateGraphRunResult \<Rightarrow> Monitor \<Rightarrow> bool" where
  "outcome_ok p (Inl e) a = (mo_lock a = None)"
| "outcome_ok p (Inr r) a = (mo_lock a = None \<and> run_answers p r a)"

lemma run_answers_unlocked: "run_answers p r a \<Longrightarrow> mo_lock a = None"
  by (auto simp: run_answers_def answers_def resting_def)

text \<open>An answer that goes on leaves the monitor at rest.\<close>

lemma goes_on_rests: "run_answers p r a \<Longrightarrow> goes_on (sr_run_state r) \<Longrightarrow> resting a"
  by (auto simp: run_answers_def answers_def resting_def goes_on_def)

lemma run_impl_answers:
  assumes "follows spec resting w"
  shows "case run_impl p spec rid evidence w of
     (Return r, w') \<Rightarrow> follows spec (run_answers p r) w' | (_, w') \<Rightarrow> follows spec (\<lambda>a. mo_lock a = None) w'"
proof -
  obtain a where a: "monitor spec idle (w_log w) = Some a" "resting a"
    using assms by (auto simp: follows_def)
  have t: "tracks spec a (start_run spec evidence w)"
    using a(1) by (simp add: tracks_def start_run_def)
  obtain o1 w1 where m: "run_steps p spec rid (start_run spec evidence w) = (o1, w1)" by fastforce
  obtain a1 where a1: "monitor spec idle (w_log w1) = Some a1"
      "case o1 of Next x \<Rightarrow> mo_lock a1 = None | Return r \<Rightarrow> run_answers p r a1 | Raise e \<Rightarrow> mo_lock a1 = None"
    using exits_run_steps [OF a(2), of spec p rid "\<lambda>_ a. mo_lock a = None"] t m
    by (fastforce simp: exits_def tracks_def)
  show ?thesis
    using a a1 m
    by (cases "loop_spec_validate spec"; cases o1)
      (auto simp: run_impl_def next_do_def seq_def from_result_def modify_def follows_def resting_def)
qed

lemma follows_close [simp]: "follows spec P (close_driver w) = follows spec P w"
  by (simp add: follows_def close_driver_def)

lemma run_loop_outcome:
  assumes "run_loop p spec rid evidence w = Some res"
  shows "follows spec resting w \<longrightarrow> follows spec (outcome_ok p (fst res)) (snd res)"
proof (rule run_loop.raw_induct
    [where P = "\<lambda>p spec rid evidence w res. follows spec resting w \<longrightarrow> follows spec (outcome_ok p (fst res)) (snd res)",
     OF _ assms])
  fix run p spec rid evidence w res
  assume IH: "\<And>p spec rid evidence w res. run p spec rid evidence w = Some res \<Longrightarrow>
      follows spec resting w \<longrightarrow> follows spec (outcome_ok p (fst res)) (snd res)"
    and step: "(case run_impl p spec rid evidence w of
        (Next _, w') \<Rightarrow> Some (Inl gateway_missing, close_driver w')
      | (Return r, w') \<Rightarrow>
          (case po_lease_error p (w_now w') of
             None \<Rightarrow> if goes_on (sr_run_state r) then run p spec (lr_run_id (sr_run_state r)) (sr_evidence r) w'
               else Some (Inr r, close_driver w')
           | Some e \<Rightarrow> Some (Inl (PyError (RuntimeError e)), close_driver w'))
      | (Raise e, w') \<Rightarrow> Some (Inl e, close_driver w')) = Some res"
  show "follows spec resting w \<longrightarrow> follows spec (outcome_ok p (fst res)) (snd res)"
  proof
    assume rest: "follows spec resting w"
    obtain o1 w1 where m: "run_impl p spec rid evidence w = (o1, w1)" by fastforce
    note ans = run_impl_answers [OF rest, of p rid evidence, unfolded m]
    show "follows spec (outcome_ok p (fst res)) (snd res)"
    proof (cases o1)
      case (Return r)
      then have r: "follows spec (run_answers p r) w1" using ans by simp
      show ?thesis
      proof (cases "po_lease_error p (w_now w1) = None \<and> goes_on (sr_run_state r)")
        case True
        then have "follows spec resting w1" using r goes_on_rests by (auto simp: follows_def)
        moreover have "run p spec (lr_run_id (sr_run_state r)) (sr_evidence r) w1 = Some res"
          using step m Return True by simp
        ultimately show ?thesis using IH by blast
      next
        case False
        then show ?thesis
          using step m Return r run_answers_unlocked
          by (auto simp: follows_def close_driver_def split: option.splits if_splits)
      qed
    qed (use step m ans in \<open>auto simp: follows_def close_driver_def\<close>)
  qed
qed

text \<open>What the monitor remembers of a log.\<close>

definition converging :: "effect \<Rightarrow> bool" where
  "converging e = (case e of Moved n t c \<Rightarrow> t = converged_str | _ \<Rightarrow> False)"

definition remembers :: "effect list \<Rightarrow> Monitor \<Rightarrow> bool" where
  "remembers es a =
     ((\<forall>c. Committed c \<in> set es \<longleftrightarrow> mo_committed a = Some c)
      \<and> (\<forall>st. mo_merged a = Some st \<longrightarrow> Merged st \<in> set es)
      \<and> (list_ex converging es \<longrightarrow> mo_stop a = converged_str))"

lemma converged_not_node: "\<not> is_node converged_str"
  by (simp add: converged_str_def)

lemma remembers_step:
  "remembers es a \<Longrightarrow> monitor_ok spec e a \<Longrightarrow> remembers (es @ [e]) (monitor_next e a)"
  using converged_not_node
  by (cases e) (auto simp: remembers_def idle_def converging_def)

lemma monitor_remembers:
  "monitor spec a es' = Some a' \<Longrightarrow> remembers es a \<Longrightarrow> remembers (es @ es') a'"
proof (induction es' arbitrary: a es)
  case (Cons e es')
  then have "monitor_ok spec e a" "monitor spec (monitor_next e a) es' = Some a'"
    by (auto simp: monitor_step_def split: option.splits if_splits)
  with Cons.IH [OF _ remembers_step [OF Cons.prems(2)]] show ?case by simp
qed simp

lemma remembers_idle: "remembers [] idle"
  by (simp add: remembers_def idle_def)

lemma converged_step:
  "mo_stop a = converged_str \<longrightarrow> may_converge spec a \<Longrightarrow> monitor_ok spec e a
    \<Longrightarrow> mo_stop (monitor_next e a) = converged_str \<longrightarrow> may_converge spec (monitor_next e a)"
  by (cases e) (auto simp: may_converge_def idle_def judged_ok_def cleanly_merged_def)

lemma monitor_converged:
  "monitor spec a es = Some a' \<Longrightarrow> mo_stop a = converged_str \<longrightarrow> may_converge spec a
    \<Longrightarrow> mo_stop a' = converged_str \<longrightarrow> may_converge spec a'"
proof (induction es arbitrary: a)
  case (Cons e es)
  then have "monitor_ok spec e a" "monitor spec (monitor_next e a) es = Some a'"
    by (auto simp: monitor_step_def split: option.splits if_splits)
  with Cons.IH [OF _ converged_step [OF Cons.prems(2)]] show ?case by blast
qed simp

end
