(* ===== verification/State_Graph_Progress.thy ===== *)
theory State_Graph_Progress
  imports State_Graph_Protocol
begin

text \<open>
  Progress of the state graph driver: every iteration that goes on has raised the attempt of the run,
  and only below the bound of the retry policy, so the driver answers.

  The view is the row of the run. Other workers, and the heartbeat, may renew, release and take
  leases and create runs; what they do not do is move the run of this driver.
\<close>

section \<open>The row of the run\<close>

record Place =
  pl_node :: string
  pl_attempt :: int

text \<open>A table in which the run is at a node, in an attempt.\<close>

definition same_place :: "string \<Rightarrow> Place \<Rightarrow> LoopRunState list \<Rightarrow> bool" where
  "same_place rid a t =
     (distinct_runs t \<and> (\<exists>cur. run_row rid t = Some cur \<and> lr_node cur = pl_node a \<and> lr_attempt cur = pl_attempt a))"

definition row_view :: "string \<Rightarrow> Place \<Rightarrow> World \<Rightarrow> bool" where
  "row_view rid a w = same_place rid a (ld_runs (w_loops w))"

interpretation row: driver_view "row_view rid" for rid
  by unfold_locales (simp add: row_view_def)

definition undisturbed :: "Ports \<Rightarrow> bool" where
  "undisturbed p =
     (\<forall>n db. leases_evolve (ld_runs db) (ld_runs (po_others p n db))
        \<and> leases_evolve (ld_runs db) (ld_runs (po_meanwhile p n db)))"

lemma frozen_row:
  assumes "frozen r = frozen r'"
  shows "lr_node r = lr_node r'" "lr_attempt r = lr_attempt r'" "lr_run_id r = lr_run_id r'"
  using arg_cong [OF assms, of lr_node] arg_cong [OF assms, of lr_attempt] arg_cong [OF assms, of lr_run_id]
  by (simp_all add: frozen_def)

lemma leases_keep_row:
  assumes "leases_evolve t t'" "distinct_runs t" "run_row rid t = Some cur"
  shows "distinct_runs t' \<and> (\<exists>cur'. run_row rid t' = Some cur' \<and> lr_node cur' = lr_node cur \<and> lr_attempt cur' = lr_attempt cur)"
  using assms frozen_row unfolding rows_related_def lease_evolves_def by metis

lemma same_place_leases: "leases_evolve t t' \<Longrightarrow> same_place rid a t \<Longrightarrow> same_place rid a t'"
  unfolding same_place_def using leases_keep_row by metis

text \<open>A call of the store that keeps the place.\<close>

lemma exits_store_row:
  assumes p: "undisturbed p"
    and ok: "\<And>env fresh view db x db'. same_place rid a (ld_runs view) \<Longrightarrow> same_place rid a (ld_runs db)
      \<Longrightarrow> leases_evolve (ld_runs view) (ld_runs db) \<Longrightarrow> f env fresh view db = Inr (x, db')
      \<Longrightarrow> \<exists>a'. same_place rid a' (ld_runs db') \<and> Q x a'"
    and E: "\<And>e. plain e \<Longrightarrow> E e a"
  shows "exits (row_view rid) (store_call p f) a Q R E"
  unfolding exits_def
proof (intro allI impI)
  fix w :: World assume w: "row_view rid a w"
  define n where "n = w_now w"
  define seen where "seen = po_others p n (w_loops w)"
  define met where "met = po_meanwhile p n seen"
  have le: "leases_evolve (ld_runs (w_loops w)) (ld_runs seen)" "leases_evolve (ld_runs seen) (ld_runs met)"
    using p by (simp_all add: undisturbed_def seen_def met_def)
  then have at: "same_place rid a (ld_runs seen)" "same_place rid a (ld_runs met)"
    using w same_place_leases by (auto simp: row_view_def)
  show "\<exists>a'. row_view rid a' (snd (store_call p f w)) \<and>
      (case fst (store_call p f w) of Next x \<Rightarrow> Q x a' | Return r \<Rightarrow> R r a' | Raise e \<Rightarrow> E e a')"
  proof (cases "f (po_env p n) (po_fresh p n) seen met")
    case (Inl e)
    then show ?thesis
      using at(2) E [of "PyError e"]
      by (intro exI [where x = a]) (simp add: store_call_def Let_def n_def seen_def met_def row_view_def)
  next
    case (Inr res)
    obtain x db' where res: "res = (x, db')" by fastforce
    obtain a' where "same_place rid a' (ld_runs db')" "Q x a'"
      using ok [OF at le(2)] Inr res by blast
    then show ?thesis
      using Inr res
      by (intro exI [where x = a']) (simp add: store_call_def Let_def n_def seen_def met_def row_view_def)
  qed
qed

lemma exits_checkpoint_row [vc]:
  assumes "undisturbed p" "\<And>x. Q x a" "\<And>e. plain e \<Longrightarrow> E e a"
  shows "exits (row_view rid) (checkpoint p state node inputs) a Q R E"
  unfolding checkpoint_def
proof (rule exits_store_row [OF assms(1)])
  fix env fresh view db x db'
  assume "same_place rid a (ld_runs db)" and
    "write_checkpoint env (lr_run_id state) node inputs (loop_run_state_to_dict state) [] fresh view db = Inr (x, db')"
  then have "same_place rid a (ld_runs db')" by (auto simp: write_checkpoint_def Let_def)
  then show "\<exists>a'. same_place rid a' (ld_runs db') \<and> Q x a'" using assms(2) by blast
qed (use assms(3) in auto)

text \<open>The place a transition leads to.\<close>

definition next_place :: "string \<Rightarrow> Place \<Rightarrow> Place" where
  "next_place node a =
     \<lparr>pl_node = node, pl_attempt = (if pl_node a \<in> {loopNode_str LoopNode_REFLECT, loopNode_str LoopNode_EVALUATE} \<and> node = loopNode_str LoopNode_PLAN
            then pl_attempt a + 1 else pl_attempt a)\<rparr>"

definition on_row :: "string \<Rightarrow> LoopRunState \<Rightarrow> Place \<Rightarrow> bool" where
  "on_row rid s a = (lr_run_id s = rid \<and> lr_node s = pl_node a \<and> lr_attempt s = pl_attempt a)"

lemma next_attempt_place:
  "lr_node cur = pl_node a \<Longrightarrow> lr_attempt cur = pl_attempt a \<Longrightarrow> next_attempt cur node = pl_attempt (next_place node a)"
  by (auto simp: next_attempt_def next_place_def Let_def)

lemma transition_place:
  assumes "transition env rid node cp terminal c facts owner view db = Inr (s, db')"
    "same_place rid a (ld_runs view)" "same_place rid a (ld_runs db)" "leases_evolve (ld_runs view) (ld_runs db)"
  shows "on_row rid s (next_place node a) \<and> lr_terminal_state s = terminal
    \<and> same_place rid (next_place node a) (ld_runs db')"
proof -
  obtain cur where cur: "get_loop_run rid view = Some cur" "loop_run_transition (env_clock env) cur node cp terminal facts =
      Inr (cur\<lparr>lr_node := node, lr_checkpoint_id := cp, lr_terminal_state := terminal,
        lr_evidence := dict_merge (lr_evidence cur) facts, lr_attempt := next_attempt cur node,
        lr_updated_at := env_clock env\<rparr>)"
    using transition_Inr_cur [OF assms(1)] by blast
  have at: "lr_node cur = pl_node a" "lr_attempt cur = pl_attempt a"
    using cur(1) assms(2) by (auto simp: same_place_def get_loop_run_def)
  have s: "lr_run_id s = rid" "lr_node s = node" "lr_terminal_state s = terminal" "lr_attempt s = next_attempt cur node"
    using assms(1) cur get_loop_run_id [OF cur(1)]
    by (auto simp: transition_def Let_def select_current_def split: if_splits dest: commit_state_answer)
  obtain r' where r': "core r' = core s" "\<forall>j. run_row j (ld_runs db') = (if j = rid then Some r' else run_row j (ld_runs db))"
      "distinct_runs (ld_runs db')"
    using changes_row [OF transition_changes [OF assms(1)]] assms(3,4)
    by (auto simp: same_place_def intro: leases_evolve_runs)
  have "lr_node r' = lr_node s" "lr_attempt r' = lr_attempt s"
    using core_fields(2) [OF r'(1)] arg_cong [OF r'(1), of lr_attempt] by (simp_all add: core_def)
  then show ?thesis
    using s r' next_attempt_place [OF at, of node] by (auto simp: on_row_def same_place_def next_place_def)
qed

section \<open>The rules of the phases\<close>

text \<open>A stopped run answers, and a failure of a store ends the run.\<close>

definition stopped_ok :: "(StateGraphRunResult \<Rightarrow> Place \<Rightarrow> bool) \<Rightarrow> bool" where
  "stopped_ok R = (\<forall>r a. is_stopped (sr_run_state r) \<longrightarrow> R r a)"

definition failing_ok :: "(exc \<Rightarrow> Place \<Rightarrow> bool) \<Rightarrow> bool" where
  "failing_ok E = (\<forall>e a. plain e \<longrightarrow> E e a)"

lemma stopped_okD: "stopped_ok R \<Longrightarrow> is_stopped (sr_run_state r) \<Longrightarrow> R r a"
  by (simp add: stopped_ok_def)

lemma failing_okD: "failing_ok E \<Longrightarrow> plain e \<Longrightarrow> E e a"
  by (simp add: failing_ok_def)

lemma exits_log_row [vc]: "Q () a \<Longrightarrow> exits (row_view rid) (log_effect e) a Q R E"
  by (auto simp: exits_def row_view_def log_effect_def modify_def)

lemma exits_release_row:
  assumes "Q () a" "\<And>e. plain e \<Longrightarrow> E e a"
  shows "exits (row_view rid) (release_grant_of p g) a Q R E"
  using assms
  by (fastforce simp: exits_def row_view_def release_grant_of_def gateway_missing_def split: option.splits prod.splits)

lemma exits_gateway_row [vc]:
  assumes "failing_ok E"
  shows "(\<And>g. Q g a) \<Longrightarrow> exits (row_view rid) (request_grant p request) a Q R E"
    "Q' () a \<Longrightarrow> exits (row_view rid) (release_grant_of p g) a Q' R E"
  using assms
  by (fastforce simp: exits_def row_view_def request_grant_def release_grant_of_def failing_ok_def
      gateway_missing_def split: option.splits prod.splits)+

lemma exits_lease_row [vc]:
  "Q () a \<Longrightarrow> failing_ok E \<Longrightarrow> exits (row_view rid) (lease_check p) a Q R E"
  by (auto simp: exits_def lease_check_def failing_ok_def split: option.splits)

lemma exits_check_evidence_row [vc]:
  "(\<And>r. Q r a) \<Longrightarrow> failing_ok E \<Longrightarrow> exits (row_view rid) (check_evidence spec) a Q R E"
  by (fastforce simp: exits_def row_view_def check_evidence_def failing_ok_def split: sum.splits)

lemma exits_move_row:
  assumes "undisturbed p" "lr_run_id state = rid" "failing_ok E"
    "\<And>s. on_row rid s (next_place node a) \<Longrightarrow> lr_terminal_state s = terminal \<Longrightarrow> Q s (next_place node a)"
  shows "exits (row_view rid) (move p state node c terminal evidence) a Q R E"
  unfolding move_def
proof (intro exits_next_do exits_seq exits_lease_row exits_checkpoint_row exits_reads exits_log_row
    row.exits_modify row.exits_record_decision exits_ret)
  fix cp facts
  show "exits (row_view rid) (store_call p (\<lambda>env fresh view db.
      transition env (lr_run_id state) node (lc_id cp) terminal c facts (po_owner p) view db)) a
      (\<lambda>s a'. exits (row_view rid) (next_do (modify (\<lambda>w. w\<lparr>w_pending := []\<rparr>))
         (next_do (record_decision p (transition_loop_decision state s (lc_id cp) c terminal facts)) (ret s))) a' Q R E) R E"
  proof (rule exits_store_row [OF assms(1)])
    fix env fresh view db s db'
    assume "same_place rid a (ld_runs view)" "same_place rid a (ld_runs db)"
      "leases_evolve (ld_runs view) (ld_runs db)"
      "transition env (lr_run_id state) node (lc_id cp) terminal c facts (po_owner p) view db = Inr (s, db')"
    then have "on_row rid s (next_place node a)" "lr_terminal_state s = terminal"
        "same_place rid (next_place node a) (ld_runs db')"
      using transition_place [of env rid] assms(2) by blast+
    moreover have "exits (row_view rid) (next_do (modify (\<lambda>w. w\<lparr>w_pending := []\<rparr>))
         (next_do (record_decision p (transition_loop_decision state s (lc_id cp) c terminal facts)) (ret s)))
        (next_place node a) Q R E"
      by (intro exits_next_do row.exits_modify row.exits_record_decision exits_ret) (use calculation assms(4) in simp_all)
    ultimately show "\<exists>a'. same_place rid a' (ld_runs db') \<and> exits (row_view rid) (next_do (modify (\<lambda>w. w\<lparr>w_pending := []\<rparr>))
         (next_do (record_decision p (transition_loop_decision state s (lc_id cp) c terminal facts)) (ret s))) a' Q R E"
      by blast
  qed (use assms(3) in \<open>simp add: failing_ok_def\<close>)
qed (use assms in \<open>auto simp: failing_ok_def\<close>)

lemma exits_go_row [vc]:
  assumes "undisturbed p" "lr_run_id state = rid" "failing_ok E"
    "\<And>s. on_row rid s (next_place (loopNode_str node) a) \<Longrightarrow> Q s (next_place (loopNode_str node) a)"
  shows "exits (row_view rid) (go p state node c evidence) a Q R E"
  unfolding go_def by (rule exits_move_row) (use assms in auto)

lemma exits_stop_row [vc]:
  assumes "undisturbed p" "lr_run_id state = rid" "failing_ok E" "\<And>s a'. is_stopped s \<Longrightarrow> Q s a'"
  shows "exits (row_view rid) (stop p state node t c evidence) a Q R E"
  unfolding stop_def
  by (rule exits_move_row) (use assms ended_stopped in \<open>auto simp: ended_by_def\<close>)

lemma on_row_id: "on_row rid s a \<Longrightarrow> lr_run_id s = rid"
  by (simp add: on_row_def)

lemma exits_pause_row [vc]:
  assumes "undisturbed p" "lr_run_id state = rid" "failing_ok E" "\<And>s a'. is_stopped s \<Longrightarrow> Q s a'"
  shows "exits (row_view rid) (pause_run p state evidence) a Q R E"
  unfolding pause_run_def by (intro vc) (use assms on_row_id in auto)

lemma exits_lock_conflict_row [vc]:
  assumes "undisturbed p" "lr_run_id state = rid" "failing_ok E" "\<And>s a'. is_stopped s \<Longrightarrow> Q s a'"
  shows "exits (row_view rid) (pause_for_lock_conflict p state facts) a Q R E"
  unfolding pause_for_lock_conflict_def by (intro vc) (use assms in auto)

lemma exits_stop_for_grant_row [vc]:
  assumes "undisturbed p" "lr_run_id state = rid" "failing_ok E" "\<And>s a'. is_stopped s \<Longrightarrow> Q s a'"
  shows "exits (row_view rid) (stop_for_resource_grant p state g) a Q R E"
proof -
  have blocked: "exits (row_view rid) (move p state (lr_node state) ''resource_blocked''
      (loopTerminalState_str LoopTerminalState_BLOCKED) d) a Q R E" for d
    by (rule exits_move_row) (use assms ended_stopped in \<open>auto simp: ended_by_def\<close>)
  show ?thesis
    unfolding stop_for_resource_grant_def
    by (intro exits_let exits_if exits_seq exits_pause_row exits_go_row exits_stop_row)
      (use assms blocked on_row_id in auto)
qed

lemma exits_gate_row [vc]:
  assumes "undisturbed p" "lr_run_id state = rid" "failing_ok E" "stopped_ok R" "\<And>g. Q g a"
  shows "exits (row_view rid) (gate_or_stop p state kind request) a Q R E"
  unfolding gate_or_stop_def by (intro vc) (use assms in \<open>auto simp: stopped_ok_def failing_ok_def\<close>)

lemma exits_limit_stop_row [vc]:
  assumes "undisturbed p" "lr_run_id state = rid" "failing_ok E" "stopped_ok R"
  shows "exits (row_view rid) (limit_stop p state kind g b) a Q R E"
  unfolding limit_stop_def by (intro vc) (use assms in \<open>auto simp: stopped_ok_def failing_ok_def\<close>)

lemma exits_discard_row [vc]:
  assumes "failing_ok E" "Q () a"
  shows "exits (row_view rid) (discard_if_needed p spec shadow) a Q R E"
  unfolding discard_if_needed_def by (intro vc) (use assms in \<open>auto simp: failing_ok_def\<close>)

text \<open>What an answer of an iteration that began in attempt \<open>k\<close> promises.\<close>

definition advances :: "LoopSpec \<Rightarrow> string \<Rightarrow> int \<Rightarrow> StateGraphRunResult \<Rightarrow> Place \<Rightarrow> bool" where
  "advances spec rid k r a =
     (is_stopped (sr_run_state r) \<or> lr_node (sr_run_state r) \<noteq> loopNode_str LoopNode_PLAN
      \<or> on_row rid (sr_run_state r) a \<and> pl_attempt a = k + 1 \<and> k < rp_max_attempts (ls_retry_policy spec))"

lemma stopped_ok_advances [simp]: "stopped_ok (advances spec rid k)"
  by (simp add: stopped_ok_def advances_def)

lemma advances_stopped [simp]: "is_stopped (sr_run_state r) \<Longrightarrow> advances spec rid k r a"
  by (simp add: advances_def)

lemma next_place_fields [simp]:
  "pl_node (next_place n a) = n"
  "n \<noteq> loopNode_str LoopNode_PLAN \<Longrightarrow> pl_attempt (next_place n a) = pl_attempt a"
  "pl_node a = loopNode_str LoopNode_REFLECT \<Longrightarrow> pl_attempt (next_place (loopNode_str LoopNode_PLAN) a) = pl_attempt a + 1"
  "pl_node a = loopNode_str LoopNode_EVALUATE \<Longrightarrow> pl_attempt (next_place (loopNode_str LoopNode_PLAN) a) = pl_attempt a + 1"
  by (simp_all add: next_place_def)

lemma exits_planner_verdict_row [vc]:
  assumes "undisturbed p" "on_row rid state a" "failing_ok E" "rd_replan_allowed d \<Longrightarrow> may_replan spec state"
  shows "exits (row_view rid) (planner_verdict p state g e d) a Q (advances spec rid (lr_attempt state)) E"
  unfolding planner_verdict_def
  by (intro vc) (use assms in \<open>auto simp: on_row_def advances_def may_replan_def failing_ok_def\<close>)

lemma recover_may_replan [simp]:
  "rd_replan_allowed (recover_violation spec state e domain facts) \<Longrightarrow> may_replan spec state"
  "rd_replan_allowed (recover_capability spec state x) \<Longrightarrow> may_replan spec state"
  "rd_replan_allowed (reflect_check spec state report results) \<Longrightarrow> may_replan spec state"
  "\<not> rd_replan_allowed (no_automatic_retry d)" "\<not> rd_replan_allowed (retries_exhausted (no_automatic_retry d))"
  by (simp_all add: recover_violation_def recover_capability_def reflect_check_def Let_def
      no_automatic_retry_def retries_exhausted_def)

lemma exits_planner_failed_row [vc]:
  assumes "undisturbed p" "on_row rid state a" "failing_ok E"
  shows "exits (row_view rid) (planner_failed p spec shadow state g e) a Q (advances spec rid (lr_attempt state)) E"
  unfolding planner_failed_def
  by (intro vc row.exits_modify) (use assms on_row_id in \<open>auto split: if_splits\<close>)

abbreviation any_failure :: "exc \<Rightarrow> Place \<Rightarrow> bool" where
  "any_failure e a \<equiv> True"

lemma failing_ok_any [simp]: "failing_ok any_failure"
  by (simp add: failing_ok_def)

lemma exits_plan_phase_row [vc]:
  assumes "undisturbed p" "on_row rid state a"
    "\<And>s planned a'. on_row rid s a' \<Longrightarrow> lr_node s \<noteq> loopNode_str LoopNode_PLAN \<Longrightarrow> pl_attempt a' = lr_attempt state
       \<Longrightarrow> Q (s, planned) a'"
  shows "exits (row_view rid) (plan_phase p spec shadow resumed state) a Q (advances spec rid (lr_attempt state)) any_failure"
proof -
  have failed: "exits (row_view rid) (case e of
        LimitError g \<Rightarrow> limit_stop p state ''llm:planner'' g False
      | _ \<Rightarrow> if provider_failure e then planner_failed p spec shadow state grant e
             else next_do (discard_if_needed p spec shadow) (throw e))
      a Q' (advances spec rid (lr_attempt state)) any_failure" for e grant Q'
    using assms(1,2) on_row_id [OF assms(2)] by (cases e; simp; intro vc; auto)
  have ready: "Q (s, planned) (next_place (loopNode_str LoopNode_EXECUTE) a)"
    if "on_row rid s (next_place (loopNode_str LoopNode_EXECUTE) a)" for s planned
    using that assms(2) by (intro assms(3)) (simp_all add: on_row_def)
  have same: "Q (state, resumed) a" if "lr_node state \<noteq> loopNode_str LoopNode_PLAN"
    using that assms(2) by (intro assms(3)) (simp_all add: on_row_def)
  show ?thesis
    unfolding plan_phase_def
    by (intro vc row.exits_modify failed ready same) (use assms(1) on_row_id [OF assms(2)] in simp_all)
qed

lemma exits_yields_row [vc]:
  assumes "undisturbed p" "lr_run_id state = rid" "failing_ok E" "\<And>s a'. is_stopped s \<Longrightarrow> Q s a'"
  shows "exits (row_view rid) (yields p state x evidence) a Q R E"
  unfolding yields_def by (intro vc) (use assms on_row_id in auto)

lemma exits_capability_failed_row [vc]:
  assumes "undisturbed p" "on_row rid state a" "failing_ok E"
  shows "exits (row_view rid) (capability_failed p spec shadow state g x evidence) a Q
     (advances spec rid (lr_attempt state)) E"
  unfolding capability_failed_def
  by (intro vc) (use assms in \<open>auto simp: on_row_def advances_def may_replan_def failing_ok_def dest!: recover_may_replan(2)\<close>)

lemma exits_missing_plan_row [vc]:
  assumes "undisturbed p" "on_row rid state a" "failing_ok E"
  shows "exits (row_view rid) (missing_plan p spec shadow state g) a Q (advances spec rid k) E"
  unfolding missing_plan_def by (intro vc) (use assms on_row_id in auto)

lemma exits_after_execution_row [vc]:
  assumes "undisturbed p" "on_row rid state a" "failing_ok E"
    "\<And>s a'. on_row rid s a' \<Longrightarrow> lr_node s \<noteq> loopNode_str LoopNode_PLAN \<Longrightarrow> pl_attempt a' = lr_attempt state \<Longrightarrow> Q s a'"
  shows "exits (row_view rid) (after_execution p spec shadow state g planned x history sig) a Q
     (advances spec rid (lr_attempt state)) E"
  unfolding after_execution_def
  by (intro vc) (use assms in \<open>simp_all add: on_row_def\<close>)

lemma exits_execute_phase_row [vc]:
  assumes "undisturbed p" "on_row rid state a" "lr_node state \<noteq> loopNode_str LoopNode_PLAN"
    "\<And>s a'. on_row rid s a' \<Longrightarrow> lr_node s \<noteq> loopNode_str LoopNode_PLAN \<Longrightarrow> pl_attempt a' = lr_attempt state \<Longrightarrow> Q s a'"
  shows "exits (row_view rid) (execute_phase p spec shadow attempts planned state) a Q
     (advances spec rid (lr_attempt state)) any_failure"
  unfolding execute_phase_def
  by (intro vc) (use assms in \<open>simp_all add: on_row_def\<close>)

section \<open>Evaluating\<close>

text \<open>A call of the semantic checker fails before anything is moved.\<close>

definition eval_stays :: "Place \<Rightarrow> exc \<Rightarrow> Place \<Rightarrow> bool" where
  "eval_stays a e a' = (plain e \<or> (\<exists>c. e = CheckerCallError c) \<and> a' = a)"

lemma failing_ok_stays [simp]: "failing_ok (eval_stays a)"
  by (simp add: failing_ok_def eval_stays_def)

lemma eval_stays_plain [simp]: "plain e \<Longrightarrow> eval_stays a e a'"
  by (simp add: eval_stays_def)

lemma exits_take_lock_row [vc]:
  assumes "undisturbed p" "lr_run_id state = rid" "failing_ok E" "stopped_ok R" "Q () a"
    "\<And>a'. exits (row_view rid) on_conflict a' (\<lambda>_ _. True) R E"
  shows "exits (row_view rid) (take_lock p spec state mode key on_conflict report) a Q R E"
proof -
  have conflict: "exits (row_view rid) (next_do on_conflict (finish s report True)) a' Q' R E"
    if "is_stopped s" for s a' Q'
    by (intro exits_next_do exits_mono [OF assms(6)] exits_finish) (use that assms(4) stopped_okD in auto)
  show ?thesis
    unfolding take_lock_def
    by (intro vc conflict) (use assms(1-5) in \<open>simp_all add: failing_ok_def\<close>)
qed

lemma exits_drop_lock_row [vc]:
  "Q () a \<Longrightarrow> failing_ok E \<Longrightarrow> exits (row_view rid) (drop_lock p spec mode) a Q R E"
  unfolding drop_lock_def by (intro vc) (auto dest: failing_okD)

lemma exits_cleanup_row:
  assumes "P a" "failing_ok E"
  shows "exits (row_view rid) (next_do (drop_lock p spec mode) (release_grant_of p g)) a (\<lambda>_ a'. P a') R E"
  by (intro exits_next_do exits_drop_lock_row exits_release_row) (use assms failing_okD in simp_all)

lemma exits_verify_steps_row [vc]:
  assumes "undisturbed p" "lr_run_id state = rid" "failing_ok E" "stopped_ok R" "Q () a"
  shows "exits (row_view rid) (verify_steps p spec state steps) a Q R E"
  using assms(5)
proof (induction steps)
  case Nil
  then show ?case by (simp add: exits_ret)
next
  case (Cons step steps)
  have ran: "exits (row_view rid) (finally_do
      (seq (call_harness f) (\<lambda>facts. next_do (log_effect (Ran name)) (ret facts)))
      (next_do (drop_lock p spec LockMode_READ) (release_grant_of p g))) a (\<lambda>_ a'. a' = a) R E" for f name g
    by (rule exits_finally, intro exits_seq row.exits_call_harness exits_next_do [where m = "log_effect (Ran name)"]
        exits_log_row exits_ret exits_cleanup_row) (use assms(3) in \<open>simp_all add: failing_ok_def\<close>)
  from Cons show ?case
    unfolding verify_steps.simps
    by (intro vc row.exits_modify exits_mono [OF ran]) (use assms(1-4) in \<open>auto intro!: vc row.exits_modify dest: failing_okD\<close>)
qed

lemma exits_assess_steps_row [vc]:
  assumes "Q () a"
  shows "exits (row_view rid) (assess_steps assess spec state x steps) a Q R (eval_stays a)"
  using assms
proof (induction steps)
  case Nil
  then show ?case by (simp add: exits_ret)
next
  case (Cons step steps)
  then show ?case
    unfolding assess_steps.simps assess_step_def
    by (intro vc) (simp_all add: eval_stays_def)
qed

lemma exits_populate_row [vc]:
  assumes "Q () a"
  shows "exits (row_view rid) (populate_checker_evidence p spec state) a Q R (eval_stays a)"
  unfolding populate_checker_evidence_def by (intro vc) (use assms in simp_all)

lemma exits_side_effects_row [vc]:
  "(\<And>x. Q x a) \<Longrightarrow> exits (row_view rid) (commit_side_effects p state) a Q R E"
  "Q' () a \<Longrightarrow> exits (row_view rid) (compensate_side_effects p state) a Q' R E"
  unfolding commit_side_effects_def compensate_side_effects_def by (intro vc; simp)+

lemma exits_reflect_state_row [vc]:
  assumes "undisturbed p" "on_row rid state a" "lr_node state = loopNode_str LoopNode_EVALUATE" "failing_ok E"
    "\<And>s a'. is_stopped s \<or> on_row rid s a' \<and> pl_attempt a' = lr_attempt state + 1 \<and>
       lr_attempt state < rp_max_attempts (ls_retry_policy spec) \<Longrightarrow> Q s a'"
  shows "exits (row_view rid) (reflect_state p spec state report shadow) a Q R E"
  unfolding reflect_state_def
  by (intro vc) (use assms in \<open>auto simp: on_row_def may_replan_def dest!: recover_may_replan(3)\<close>)

lemma exits_merge_shadow_row [vc]:
  assumes "undisturbed p" "lr_run_id state = rid" "failing_ok E" "stopped_ok R" "Q () a"
  shows "exits (row_view rid) (merge_shadow p spec state report) a Q R E"
  unfolding merge_shadow_def
  by (intro vc exits_finally) (use assms stopped_okD in \<open>auto simp: failing_ok_def\<close>)

lemma exits_reads_view:
  "(\<And>w. Q (f w) a) \<Longrightarrow> exits view (reads f) a Q R E"
  by (auto simp: exits_def reads_def)

lemma exits_accept_state_row [vc]:
  assumes "undisturbed p" "on_row rid state a" "lr_node state = loopNode_str LoopNode_EVALUATE" "failing_ok E"
  shows "exits (row_view rid) (accept_state p spec state report shadow b) a Q (advances spec rid (lr_attempt state)) E"
proof -
  have id: "lr_run_id state = rid" by (rule on_row_id [OF assms(2)])
  show ?thesis
    unfolding accept_state_def
    by (intro exits_next_do row.exits_publish exits_seq exits_reads_view exits_if exits_let row.exits_evidence
        exits_go_row exits_finish exits_when exits_merge_shadow_row exits_side_effects_row exits_option exits_stop_row)
      (use assms id in \<open>auto simp: on_row_def advances_def may_replan_def\<close>)
qed

lemma exits_evaluate_state_row [vc]:
  assumes "undisturbed p" "on_row rid state a" "lr_node state = loopNode_str LoopNode_EVALUATE"
  shows "exits (row_view rid) (evaluate_state p spec state shadow) a Q (advances spec rid (lr_attempt state)) (eval_stays a)"
proof -
  have id: "lr_run_id state = rid" by (rule on_row_id [OF assms(2)])
  have reflected: "advances spec rid (lr_attempt state) r a'"
    if "is_stopped s \<or> on_row rid s a' \<and> pl_attempt a' = lr_attempt state + 1 \<and>
       lr_attempt state < rp_max_attempts (ls_retry_policy spec)" "sr_run_state r = s" for s r a'
    using that by (auto simp: advances_def)
  show ?thesis
    unfolding evaluate_state_def
    by (intro vc row.exits_modify; (rule reflected)?; (assumption | rule assms id failing_ok_stays stopped_ok_advances)?;
        simp add: Let_def)
qed

lemma exits_checker_call_failed_row [vc]:
  assumes "undisturbed p" "lr_run_id state = rid"
  shows "exits (row_view rid) (checker_call_failed p spec state shadow e) a Q (advances spec rid k) any_failure"
  unfolding checker_call_failed_def by (intro vc) (use assms on_row_id in auto)

lemma exits_evaluate_phase_row [vc]:
  assumes "undisturbed p" "on_row rid state a"
    "lr_node state \<noteq> loopNode_str LoopNode_EVALUATE \<Longrightarrow> Q state a"
  shows "exits (row_view rid) (evaluate_phase p spec shadow state) a Q (advances spec rid (lr_attempt state)) any_failure"
proof -
  have failed: "exits (row_view rid) (case e of
        LimitError g \<Rightarrow> limit_stop p state ''llm:semantic_checker'' g True
      | CheckerCallError cause \<Rightarrow> checker_call_failed p spec state shadow cause
      | _ \<Rightarrow> next_do (discard_if_needed p spec shadow) (throw e))
      a' Q' (advances spec rid (lr_attempt state)) any_failure" for e a' Q'
    using assms(1) on_row_id [OF assms(2)] by (cases e; simp; intro vc; simp)
  show ?thesis
    unfolding evaluate_phase_def
    by (intro exits_if exits_ret exits_catch exits_mono [OF exits_evaluate_state_row] failed) (use assms in auto)
qed

section \<open>Iterations\<close>

definition place_of :: "LoopRunState \<Rightarrow> Place" where
  "place_of s = \<lparr>pl_node = lr_node s, pl_attempt = lr_attempt s\<rparr>"

lemma place_of_fields [simp]: "pl_node (place_of s) = lr_node s" "pl_attempt (place_of s) = lr_attempt s"
  by (simp_all add: place_of_def)

lemma same_place_of: "distinct_runs t \<Longrightarrow> run_row rid t = Some s \<Longrightarrow> same_place rid (place_of s) t"
  by (simp add: same_place_def)

lemma claim_place:
  assumes "claim_for_execution env dl rid owner lease now paused db = (Some s, db')" "same_place rid a (ld_runs db)"
  shows "on_row rid s a \<and> same_place rid a (ld_runs db')"
proof -
  have d: "distinct_runs (ld_runs db)" using assms(2) by (simp add: same_place_def)
  have "leases_evolve (ld_runs db) (ld_runs db')"
    using claim_leases_evolve [of db env dl rid owner lease now paused] assms(1) by simp
  then have at: "same_place rid a (ld_runs db')" using assms(2) by (rule same_place_leases)
  have "run_row rid (ld_runs db') = Some s"
    using claim_for_execution_iff [OF d assms(1)] by blast
  then show ?thesis using at by (auto simp: on_row_def same_place_def dest: row_of_Some)
qed

lemma exits_claim_row [vc]:
  assumes "undisturbed p" "on_row rid state a" "\<And>s. on_row rid s a \<Longrightarrow> Q s a"
  shows "exits (row_view rid) (claim_run p spec state) a Q R any_failure"
proof -
  have claim: "exits (row_view rid) (store_call p (\<lambda>env fresh view db. Inr (claim_for_execution env (po_default_lease p)
      (lr_run_id state) (po_owner p) (Some (driver_lease_seconds p spec)) None False db))) a
      (\<lambda>taken a'. exits (row_view rid) (case taken of None \<Rightarrow> throw already_claimed
          | Some owned \<Rightarrow> next_do (modify (\<lambda>w. w\<lparr>w_claimed := True\<rparr>)) (ret owned)) a' Q R any_failure) R any_failure"
  proof (rule exits_store_row [OF assms(1)])
    fix env and fresh :: string and view db taken db'
    assume at: "same_place rid a (ld_runs db)"
      and t: "Inr (claim_for_execution env (po_default_lease p) (lr_run_id state) (po_owner p)
         (Some (driver_lease_seconds p spec)) None False db) = Inr (taken, db')"
    show "\<exists>a'. same_place rid a' (ld_runs db') \<and> exits (row_view rid) (case taken of None \<Rightarrow> throw already_claimed
        | Some owned \<Rightarrow> next_do (modify (\<lambda>w. w\<lparr>w_claimed := True\<rparr>)) (ret owned)) a' Q R any_failure"
    proof (cases taken)
      case None
      have "leases_evolve (ld_runs db) (ld_runs db')"
        using claim_leases_evolve [of db env "po_default_lease p" "lr_run_id state" "po_owner p"
            "Some (driver_lease_seconds p spec)" None False] t by simp
      then show ?thesis using None at same_place_leases by (auto intro!: exI [where x = a] exits_throw)
    next
      case (Some s)
      then have "on_row rid s a" "same_place rid a (ld_runs db')"
        using claim_place [of env _ rid _ _ _ _ db s db' a] t at on_row_id [OF assms(2)] by auto
      then show ?thesis
        using Some assms(3) by (auto intro!: exI [where x = a] exits_next_do row.exits_modify exits_ret)
    qed
  qed simp
  show ?thesis
    unfolding claim_run_def by (intro exits_seq exits_reads exits_if exits_ret claim) (use assms in auto)
qed

lemma exits_resumed_row [vc]:
  assumes "undisturbed p" "\<And>x. Q x a"
  shows "exits (row_view rid) (resumed_plan p s) a Q R any_failure"
proof -
  have cp: "exits (row_view rid) (store_call p (\<lambda>env fresh view db. Inr (f view, db))) a Q' R any_failure"
    if "\<And>x. Q' x a" for f and Q' :: "LoopCheckpoint option \<Rightarrow> Place \<Rightarrow> bool"
    by (rule exits_store_row [OF assms(1)]) (use that in auto)
  show ?thesis
    unfolding resumed_plan_def
    by (intro exits_if exits_ret exits_seq cp exits_option exits_reads exits_from_result) (use assms(2) in auto)
qed

text \<open>What an iteration does once it has found its run.\<close>

definition drive :: "Ports \<Rightarrow> LoopSpec \<Rightarrow> LoopRunState \<Rightarrow> unit prog" where
  "drive p spec found =
     (if is_stopped found then finish found None True
      else seq (claim_run p spec found) (\<lambda>state.
     next_do (log_effect (Entered (lr_node state)))
     (seq (reads (\<lambda>w. as_list (jget (w_evidence w) ''attempt_history''))) (\<lambda>attempts.
      seq (resumed_plan p state) (\<lambda>resumed.
      next_do (do_when (uses_shadow spec) (seq (call_harness (po_create_shadow p)) (\<lambda>facts.
          set_evidence ''shadow_workspace'' (JDict facts))))
      (seq (plan_phase p spec (uses_shadow spec) resumed state) (\<lambda>(planned_state, planned).
       seq (execute_phase p spec (uses_shadow spec) attempts planned planned_state) (\<lambda>executed_state.
       seq (evaluate_phase p spec (uses_shadow spec) executed_state) (\<lambda>final.
       finish final None True)))))))))"

lemma run_steps_drive: "run_steps p spec rid = seq (open_run p spec rid) (drive p spec)"
  by (simp add: run_steps_def drive_def [abs_def])

lemma exits_drive:
  assumes "undisturbed p" "on_row rid found a"
  shows "exits (row_view rid) (drive p spec found) a (\<lambda>_ _. True) (advances spec rid (lr_attempt found)) any_failure"
proof -
  have k: "pl_attempt a = lr_attempt found" using assms(2) by (simp add: on_row_def)
  have plan: "exits (row_view rid) (plan_phase p spec b resumed s) a Q (advances spec rid (lr_attempt found)) any_failure"
    if "on_row rid s a" "\<And>s' planned a'. on_row rid s' a' \<Longrightarrow> lr_node s' \<noteq> loopNode_str LoopNode_PLAN
        \<Longrightarrow> pl_attempt a' = lr_attempt found \<Longrightarrow> Q (s', planned) a'" for b resumed s Q
    using exits_plan_phase_row [OF assms(1) that(1), of Q spec b resumed] that k by (simp add: on_row_def)
  have execute: "exits (row_view rid) (execute_phase p spec b h pl s) a' Q (advances spec rid (lr_attempt found)) any_failure"
    if "on_row rid s a'" "lr_node s \<noteq> loopNode_str LoopNode_PLAN" "pl_attempt a' = lr_attempt found"
      "\<And>s' a'. on_row rid s' a' \<Longrightarrow> lr_node s' \<noteq> loopNode_str LoopNode_PLAN
        \<Longrightarrow> pl_attempt a' = lr_attempt found \<Longrightarrow> Q s' a'" for b h pl s a' Q
    using exits_execute_phase_row [OF assms(1) that(1,2), of Q spec b h pl] that by (simp add: on_row_def)
  have evaluate: "exits (row_view rid) (evaluate_phase p spec b s) a' Q (advances spec rid (lr_attempt found)) any_failure"
    if "on_row rid s a'" "pl_attempt a' = lr_attempt found" "Q s a'" for b s a' Q
    using exits_evaluate_phase_row [OF assms(1) that(1), of Q spec b] that by (simp add: on_row_def)
  show ?thesis
    unfolding drive_def
    by (intro exits_if exits_finish exits_seq exits_claim_row exits_next_do exits_log_row exits_reads exits_resumed_row
        exits_when row.exits_call_harness row.exits_evidence plan exits_pair execute evaluate)
      (use assms in \<open>auto simp: advances_def\<close>)
qed

lemma create_place:
  assumes "create_loop_run env i spec parent node ts ev ty db = Inr (s, db')" "distinct_runs (ld_runs db)"
  shows "lr_run_id s = i \<and> same_place i (place_of s) (ld_runs db')"
proof -
  have i: "lr_run_id s = i" and insert: "sql_insert lr_run_id s (ld_runs db) = Inr (ld_runs db')"
    using assms(1) by (auto simp: create_loop_run_def Let_def sql_insert_Inr_iff)
  have new: "run_row i (ld_runs db) = None" and t: "ld_runs db' = ld_runs db @ [s]"
    using insert i by (auto simp: sql_insert_Inr_iff row_of_None)
  have "distinct_runs (ld_runs db')" "run_row i (ld_runs db') = Some s"
    using assms(2) insert i new t by (auto simp: sql_insert_Inr_iff keys_distinct_append row_of_append)
  then show ?thesis using i same_place_of by blast
qed

lemma leases_distinct: "leases_evolve t t' \<Longrightarrow> distinct_runs t \<Longrightarrow> distinct_runs t'"
  by (simp add: rows_related_def)

text \<open>Opening a run ends at its row: the stored one, or a new one.\<close>

lemma open_run_place:
  assumes "undisturbed p" "distinct_runs (ld_runs (w_loops w))" "\<And>n. po_fresh p n \<noteq> []"
    "open_run p spec rid w = (Next found, w')"
  shows "lr_run_id found \<noteq> [] \<and> row_view (lr_run_id found) (place_of found) w' \<and>
    (\<forall>a. rid \<noteq> [] \<longrightarrow> row_view rid a w \<longrightarrow> lr_run_id found = rid \<and> lr_attempt found = pl_attempt a)"
proof -
  define find where "find = (\<lambda>w. if rid = [] then (Next None, w)
      else store_call p (\<lambda>env fresh view db. Inr (get_loop_run rid view, db)) w)"
  obtain o1 w1 where f: "find w = (o1, w1)" by fastforce
  have les: "leases_evolve (ld_runs db) (ld_runs (po_others p n db))"
      "leases_evolve (ld_runs db) (ld_runs (po_meanwhile p n db))" for n db
    using assms(1) by (auto simp: undisturbed_def)
  have seen: "\<exists>cur. get_loop_run rid (po_others p (w_now w) (w_loops w)) = Some cur \<and> lr_attempt cur = pl_attempt a"
    if "row_view rid a w" for a
    using that same_place_leases [OF les(1) [of "w_loops w" "w_now w"]]
    unfolding row_view_def same_place_def get_loop_run_def by blast
  have d1: "distinct_runs (ld_runs (w_loops w1))"
  proof (cases "rid = []")
    case False
    have "w_loops w1 = po_meanwhile p (w_now w) (po_others p (w_now w) (w_loops w))"
      using f False by (auto simp: find_def store_call_def Let_def)
    then show ?thesis using leases_distinct [OF les(2) leases_distinct [OF les(1) assms(2)]] by simp
  qed (use f assms(2) in \<open>auto simp: find_def\<close>)
  have opened: "(case o1 of Next x \<Rightarrow> (case x of Some state \<Rightarrow> ret state
      | None \<Rightarrow> store_call p (\<lambda>env fresh view db.
          create_loop_run env fresh spec [] (loopNode_str LoopNode_PLAN) [] [] ''loop.run_created'' db)) w1
      | Return r \<Rightarrow> (Return r, w1) | Raise e \<Rightarrow> (Raise e, w1)) = (Next found, w')"
    using assms(4) f unfolding open_run_def seq_def find_def ret_def by (auto split: if_splits flow.splits)
  have o1: "(rid = [] \<and> o1 = Next None) \<or> (rid \<noteq> [] \<and> o1 = Next (get_loop_run rid (po_others p (w_now w) (w_loops w)))
      \<and> w_loops w1 = po_meanwhile p (w_now w) (po_others p (w_now w) (w_loops w)))"
    using f by (auto simp: find_def store_call_def Let_def split: if_splits)
  consider (found) s where "rid \<noteq> []" "o1 = Next (Some s)" "get_loop_run rid (po_others p (w_now w) (w_loops w)) = Some s"
      "w_loops w1 = po_meanwhile p (w_now w) (po_others p (w_now w) (w_loops w))"
    | (none) "o1 = Next None" "rid \<noteq> [] \<Longrightarrow> get_loop_run rid (po_others p (w_now w) (w_loops w)) = None"
    using o1 by (cases "get_loop_run rid (po_others p (w_now w) (w_loops w))") auto
  then show ?thesis
  proof cases
    case found
    then have s: "found = s" "w' = w1" using opened by (simp_all add: ret_def)
    have id: "lr_run_id s = rid" using get_loop_run_id found(3) by blast
    have dseen: "distinct_runs (ld_runs (po_others p (w_now w) (w_loops w)))"
      using les(1) assms(2) leases_distinct by blast
    have "same_place rid (place_of s) (ld_runs (po_others p (w_now w) (w_loops w)))"
      using same_place_of [OF dseen] found(3) by (simp add: get_loop_run_def)
    then have "row_view rid (place_of s) w1"
      using same_place_leases [OF les(2)] found(4) by (simp add: row_view_def)
    moreover have "lr_attempt s = pl_attempt a" if "row_view rid a w" for a
      using seen [OF that] found(3) by simp
    ultimately show ?thesis using s id found(1) by simp
  next
    case none
    then have c: "store_call p (\<lambda>env fresh view db.
          create_loop_run env fresh spec [] (loopNode_str LoopNode_PLAN) [] [] ''loop.run_created'' db) w1 = (Next found, w')"
      using opened by simp
    let ?met = "po_meanwhile p (w_now w1) (po_others p (w_now w1) (w_loops w1))"
    have "distinct_runs (ld_runs ?met)" using d1 les leases_distinct by blast
    moreover obtain db' where "create_loop_run (po_env p (w_now w1)) (po_fresh p (w_now w1)) spec []
          (loopNode_str LoopNode_PLAN) [] [] ''loop.run_created'' ?met = Inr (found, db')" "w_loops w' = db'"
      using c by (auto simp: store_call_def Let_def split: sum.splits)
    ultimately have "lr_run_id found = po_fresh p (w_now w1)" "row_view (lr_run_id found) (place_of found) w'"
      using create_place by (auto simp: row_view_def)
    moreover have "\<not> row_view rid a w" if "rid \<noteq> []" for a
      using seen [of a] none(2) [OF that] by auto
    ultimately show ?thesis using assms(3) by metis
  qed
qed

lemma open_run_never_returns: "open_run p spec rid w \<noteq> (Return r, w')"
  by (auto simp: open_run_def seq_def store_call_def ret_def Let_def split: flow.splits option.splits sum.splits if_splits)

text \<open>One iteration that goes on.\<close>

lemma iteration_advances:
  assumes "undisturbed p" "distinct_runs (ld_runs (w_loops w))" "\<And>n. po_fresh p n \<noteq> []"
    "run_impl p spec rid evidence w = (Return r, w')" "goes_on (sr_run_state r)"
  shows "\<exists>k. lr_run_id (sr_run_state r) \<noteq> [] \<and>
    row_view (lr_run_id (sr_run_state r)) \<lparr>pl_node = loopNode_str LoopNode_PLAN, pl_attempt = k + 1\<rparr> w' \<and>
    k < rp_max_attempts (ls_retry_policy spec) \<and>
    (\<forall>a. rid \<noteq> [] \<longrightarrow> row_view rid a w \<longrightarrow> k = pl_attempt a)"
proof -
  let ?w = "start_run spec evidence w"
  have w: "w_loops ?w = w_loops w" by (simp add: start_run_def)
  have run: "run_steps p spec rid ?w = (Return r, w')"
    using assms(4)
    by (auto simp: run_impl_def next_do_def seq_def from_result_def modify_def split: sum.splits)
  obtain found w1 where o1: "open_run p spec rid ?w = (Next found, w1)" and d: "drive p spec found w1 = (Return r, w')"
    using run open_run_never_returns by (auto simp: run_steps_drive seq_def split: flow.splits prod.splits)
  let ?id = "lr_run_id found"
  have at: "?id \<noteq> []" "row_view ?id (place_of found) w1"
    and old: "\<forall>a. rid \<noteq> [] \<longrightarrow> row_view rid a w \<longrightarrow> ?id = rid \<and> lr_attempt found = pl_attempt a"
    using open_run_place [OF assms(1) _ assms(3) o1] assms(2) w by (auto simp: row_view_def)
  have "on_row ?id found (place_of found)" by (simp add: on_row_def)
  from exits_drive [OF assms(1) this, of spec] at(2) d obtain a where
    a: "row_view ?id a w'" "advances spec ?id (lr_attempt found) r a"
    unfolding exits_def by fastforce
  have on: "on_row ?id (sr_run_state r) a" "pl_attempt a = lr_attempt found + 1"
      "lr_attempt found < rp_max_attempts (ls_retry_policy spec)"
    using a(2) assms(5) by (auto simp: advances_def goes_on_def)
  have "a = \<lparr>pl_node = loopNode_str LoopNode_PLAN, pl_attempt = lr_attempt found + 1\<rparr>"
    using on assms(5) by (cases a) (simp add: on_row_def goes_on_def)
  then show ?thesis using on a(1) at(1) old by (auto simp: on_row_def)
qed

text \<open>The loop answers, by induction on the attempts that are left.\<close>

lemma run_loop_unfold:
  "run_loop p spec rid evidence w \<noteq> None \<longleftrightarrow>
     (\<forall>r w'. run_impl p spec rid evidence w = (Return r, w') \<longrightarrow> po_lease_error p (w_now w') = None
        \<longrightarrow> goes_on (sr_run_state r) \<longrightarrow>
        run_loop p spec (lr_run_id (sr_run_state r)) (sr_evidence r) w' \<noteq> None)"
  by (subst run_loop.simps) (auto split: prod.splits flow.splits option.splits)

lemma run_loop_from_row:
  assumes "undisturbed p" "\<And>n. po_fresh p n \<noteq> []"
  shows "row_view rid a w \<Longrightarrow> rid \<noteq> [] \<Longrightarrow> run_loop p spec rid evidence w \<noteq> None"
proof (induction "nat (rp_max_attempts (ls_retry_policy spec) - pl_attempt a)" arbitrary: rid a evidence w rule: less_induct)
  case less
  have d: "distinct_runs (ld_runs (w_loops w))" using less.prems(1) by (simp add: row_view_def same_place_def)
  show ?case
    unfolding run_loop_unfold [of p spec rid]
  proof (intro allI impI)
    fix r w' assume r: "run_impl p spec rid evidence w = (Return r, w')" "goes_on (sr_run_state r)"
    obtain k where k: "lr_run_id (sr_run_state r) \<noteq> []"
        "row_view (lr_run_id (sr_run_state r)) \<lparr>pl_node = loopNode_str LoopNode_PLAN, pl_attempt = k + 1\<rparr> w'"
        "k < rp_max_attempts (ls_retry_policy spec)" "k = pl_attempt a"
      using iteration_advances [OF assms(1) d assms(2) r] less.prems by blast
    show "run_loop p spec (lr_run_id (sr_run_state r)) (sr_evidence r) w' \<noteq> None"
      by (rule less.hyps [OF _ k(2,1)]) (use k(3,4) in simp)
  qed
qed

lemma run_loop_answers:
  assumes "undisturbed p" "\<And>n. po_fresh p n \<noteq> []" "distinct_runs (ld_runs (w_loops w))"
  shows "run_loop p spec rid evidence w \<noteq> None"
  unfolding run_loop_unfold [of p spec rid]
  using iteration_advances [OF assms(1,3,2)] run_loop_from_row [OF assms(1,2)] by metis

end
