(* ===== verification/State_Graph_Properties.thy ===== *)
theory State_Graph_Properties
  imports State_Graph_Progress
begin

text \<open>
  The properties of the state graph driver, over the monitor of \<open>State_Graph_Protocol\<close> and the progress
  of \<open>State_Graph_Progress\<close>, with a run that converges as their witness.
\<close>

section \<open>A run that converges\<close>

definition sample_ports :: Ports where
  "sample_ports =
     \<lparr>po_env = (\<lambda>n. \<lparr>env_clock = 100, env_uuid = (\<lambda>k. ''u'' @ show_nat n @ ''.'' @ show_nat k)\<rparr>),
      po_fresh = (\<lambda>n. ''f'' @ show_nat n), po_others = (\<lambda>n db. db), po_meanwhile = (\<lambda>n db. db),
      po_lease_error = (\<lambda>n. None), po_plan = (\<lambda>n spec s ev. Inl (OtherError ''NoPlan'' [])),
      po_execute = (\<lambda>n step spec s. Inl (OtherError ''NoTool'' [])), po_assess = None,
      po_create_shadow = (\<lambda>n. Inr []), po_discard_shadow = (\<lambda>n. None), po_lock = (\<lambda>n. Inr (True, [])), po_unlock = (\<lambda>n. None),
      po_command = (\<lambda>n step. Inr []), po_merge = (\<lambda>n. Inl (''OSError'', [])), po_look = (\<lambda>n path. PathError []),
      po_surfaces = [], po_sha256 = (\<lambda>s. s),
      po_tunables = \<lparr>tn_transport_max_retries = 3, tn_transport_retry_min_seconds = 1,
        tn_transport_retry_max_seconds = 60, tn_transport_retry_after_seconds = 5, tn_error_max_chars = 100,
        tn_execution_lease_min_seconds = 900\<rparr>,
      po_default_lease = 120, po_owner = ''driver'', po_account_gates = True, po_traced = False\<rparr>"

definition sample_spec :: LoopSpec where
  "sample_spec =
     (case loop_spec_from_goal ''i'' 5 sample_goal ''g'' [''cap''] [sample_step] of
        Inr s \<Rightarrow> s\<lparr>ls_state_graph := [stop_edge LoopNode_EVALUATE LoopTerminalState_CONVERGED ''checker_passed'']\<rparr>
      | Inl e \<Rightarrow> undefined)"

definition sample_world :: World where
  "sample_world =
     \<lparr>w_loops = sample_loop_db, w_gateway = None, w_ledger = \<lparr>lg_scopes = [], lg_grants = []\<rparr>, w_now = 0,
      w_claimed = False, w_pending = [], w_evidence = [], w_grants = [], w_results = [], w_trace = [], w_log = []\<rparr>"

definition sample_run :: "((exc + StateGraphRunResult) \<times> World) option" where
  "sample_run = run_async sample_ports sample_spec ''r'' [(''n'', JDict [(''passed'', JBool True)])] sample_world"

fun log_of :: "((exc + StateGraphRunResult) \<times> World) option \<Rightarrow> effect list" where
  "log_of None = []"
| "log_of (Some (out, w)) = w_log w"

fun answer_of :: "((exc + StateGraphRunResult) \<times> World) option \<Rightarrow> StateGraphRunResult option" where
  "answer_of (Some (Inr a, w)) = Some a"
| "answer_of r = None"

lemma sample_run_converges: "answer_of sample_run \<noteq> None \<and> list_ex converging (log_of sample_run)"
  by code_simp

lemma sample_run_cases:
  obtains r w where "run_async sample_ports sample_spec ''r'' [(''n'', JDict [(''passed'', JBool True)])] sample_world =
      Some (Inr r, w)"
    "list_ex converging (w_log w)" "log_of sample_run = w_log w" "answer_of sample_run = Some r"
proof -
  obtain r where "answer_of sample_run = Some r" using sample_run_converges by blast
  then obtain w where r: "sample_run = Some (Inr r, w)" by (elim answer_of.elims) simp_all
  have "log_of sample_run = w_log w" "answer_of sample_run = Some r" unfolding r by simp_all
  then show ?thesis using that r sample_run_converges unfolding sample_run_def by simp
qed

lemma sample_world_start: "w_log sample_world = []" "distinct_runs (ld_runs (w_loops sample_world))"
  using sample_loop_db_distinct by (simp_all add: sample_world_def)

lemma sample_ports_quiet: "undisturbed sample_ports" "po_fresh sample_ports n \<noteq> []" "planner_unlimited sample_ports"
  by (simp_all add: undisturbed_def sample_ports_def planner_unlimited_def)

lemma run_async_outcome:
  assumes "run_async p spec rid evidence w = Some (out, w')" "w_log w = []"
  obtains a where "monitor spec idle (w_log w') = Some a" "outcome_ok p out a"
proof -
  have "follows spec resting (w\<lparr>w_pending := []\<rparr>)"
    using assms(2) by (simp add: follows_def resting_def idle_def)
  then have "follows spec (outcome_ok p out) w'"
    using run_loop_outcome assms(1) by (fastforce simp: run_async_def)
  then show ?thesis using that by (auto simp: follows_def)
qed

section \<open>Properties\<close>

text \<open>
  C12. The driver refines its protocol: whatever the planner, the executor, the checker, the harness
  and other workers do, the log of a run is accepted by the monitor. Every move that the driver tries
  is an edge of the default state graph, or the one stray edge from execute to reflect for a plan that
  is missing on resume (\<open>missing_plan_raises\<close>: the store of a default graph refuses it); at most one
  grant is open; locks guard what the policy asks them to guard; effects are committed only after
  acceptance and, where there is a shadow, after a merge that did not conflict, compensated after
  acceptance only when the merge conflicted, and never both; the lock was released at the end, and an
  answer agrees with the monitor.
\<close>

theorem driver_follows_protocol:
  assumes "run_async p spec rid evidence w = Some (out, w')" "w_log w = []"
  shows "\<exists>a. monitor spec idle (w_log w') = Some a \<and> outcome_ok p out a"
  using run_async_outcome [OF assms] by blast

theorem driver_follows_protocol_witness:
  "monitor sample_spec idle (log_of sample_run) \<noteq> None"
proof -
  obtain r w where r: "run_async sample_ports sample_spec ''r'' [(''n'', JDict [(''passed'', JBool True)])] sample_world =
      Some (Inr r, w)" and l: "log_of sample_run = w_log w" by (rule sample_run_cases)
  show ?thesis
    using driver_follows_protocol [OF r sample_world_start(1)] unfolding l by auto
qed

text \<open>
  C13. A run converges only on an accepted verdict: when the driver has moved a run to converged and
  answers, its answer carries a report that accepts, the shadow workspace was merged where there is
  one, by a merge that did not answer with a conflict, every committed side effect succeeded, and the
  run in the answer is the converged one.
\<close>

theorem converged_only_if_accepted:
  assumes "run_async p spec rid evidence w = Some (Inr r, w')" "w_log w = []"
    "list_ex converging (w_log w')"
  shows "\<exists>report. sr_checker_report r = Some report \<and> cr_accepted report \<and>
     lr_terminal_state (sr_run_state r) = converged_str \<and>
     (\<not> uses_shadow spec \<or> (\<exists>st. Merged st \<in> set (w_log w') \<and> st \<noteq> mergeStatus_str MergeStatus_CONFLICTED)) \<and>
     {c. Committed c \<in> set (w_log w')} \<subseteq> {c. se_ok c}"
proof -
  obtain a where a: "monitor spec idle (w_log w') = Some a" "run_answers p r a"
    using run_async_outcome [OF assms(1,2)] by auto
  have mem: "remembers (w_log w') a" using monitor_remembers [OF a(1) remembers_idle] by simp
  then have stop: "mo_stop a = converged_str" using assms(3) by (simp add: remembers_def)
  then have "may_converge spec a"
    using monitor_converged [OF a(1)] by (simp add: idle_def)
  moreover have "sr_checker_report r = mo_report a" "lr_terminal_state (sr_run_state r) = converged_str"
    using a(2) stop by (auto simp: run_answers_def answers_def resting_def)
  ultimately show ?thesis
    using mem by (fastforce simp: may_converge_def judged_ok_def cleanly_merged_def conflicted_str_def [symmetric] remembers_def
        simp del: mergeStatus_str.simps split: option.splits)
qed

theorem converged_only_if_accepted_witness:
  "\<exists>r report. answer_of sample_run = Some r \<and> sr_checker_report r = Some report \<and> cr_accepted report"
proof -
  obtain r w where r: "run_async sample_ports sample_spec ''r'' [(''n'', JDict [(''passed'', JBool True)])] sample_world =
      Some (Inr r, w)" "list_ex converging (w_log w)" and l: "answer_of sample_run = Some r" by (rule sample_run_cases)
  show ?thesis
    using converged_only_if_accepted [OF r(1) sample_world_start(1) r(2)] unfolding l by auto
qed

text \<open>The balance of locks and grants over a log.\<close>

definition opens :: "string \<Rightarrow> effect \<Rightarrow> bool" where
  "opens i e = (case e of Opened g \<Rightarrow> grant_allowed g \<and> gr_id g = i | _ \<Rightarrow> False)"

definition tally :: "('a \<Rightarrow> bool) \<Rightarrow> 'a list \<Rightarrow> nat" where
  "tally P es = length (filter P es)"

lemma tally_simps [simp]: "tally P [] = 0" "tally P (e # es) = (if P e then 1 else 0) + tally P es"
  by (simp_all add: tally_def)

lemma monitor_balance:
  "monitor spec a es = Some a' \<Longrightarrow>
     tally (opens i) es + (if mo_open a = Some i then 1 else 0) =
       tally (\<lambda>e. e = Released i) es + (if mo_open a' = Some i then 1 else 0) \<and>
     tally (\<lambda>e. e = Locked m) es + (if mo_lock a = Some m then 1 else 0) =
       tally (\<lambda>e. e \<in> {Unlocked m, Stuck m}) es + (if mo_lock a' = Some m then 1 else 0)"
proof (induction es arbitrary: a)
  case (Cons e es)
  then have ok: "monitor_ok spec e a" and rest: "monitor spec (monitor_next e a) es = Some a'"
    by (auto simp: monitor_step_def split: option.splits if_splits)
  show ?case
    using Cons.IH [OF rest] ok
    by (cases e) (auto simp: opens_def idle_def split: if_splits)
qed simp

text \<open>
  C14. The driver releases what it holds. On every outcome, exceptions included, each workspace lock was
  released as often as it was taken, where a release that the harness failed to do counts as tried
  (\<open>Stuck\<close>). Each grant was released as often as it was opened, but for at most one that is open at the
  end; after an answer, there is such a grant only if the planner can report a limit of its own. Then
  there may be one indeed: the grant of the planning phase is not released on that way out.
\<close>

theorem driver_releases_what_it_holds:
  assumes "run_async p spec rid evidence w = Some (out, w')" "w_log w = []"
  shows "(\<forall>m. tally (\<lambda>e. e = Locked m) (w_log w') = tally (\<lambda>e. e \<in> {Unlocked m, Stuck m}) (w_log w')) \<and>
    (\<exists>held. (\<forall>i. tally (opens i) (w_log w') = tally (\<lambda>e. e = Released i) (w_log w') + (if held = Some i then 1 else 0)) \<and>
      (held = None \<or> \<not> planner_unlimited p \<or> (\<exists>e. out = Inl e)))"
proof -
  obtain a where a: "monitor spec idle (w_log w') = Some a" "outcome_ok p out a"
    using run_async_outcome [OF assms] by blast
  have "mo_lock a = None" using a(2) by (cases out) simp_all
  moreover have "mo_open a = None" if "planner_unlimited p" "out = Inr r" for r
    using a(2) that by (auto simp: run_answers_def answers_def resting_def)
  then have "mo_open a = None \<or> \<not> planner_unlimited p \<or> (\<exists>e. out = Inl e)" by (cases out) auto
  ultimately show ?thesis
    using monitor_balance [OF a(1)] by (intro conjI exI [of _ "mo_open a"]) (simp_all add: idle_def)
qed

theorem driver_releases_what_it_holds_witness:
  "\<forall>i. tally (opens i) (log_of sample_run) = tally (\<lambda>e. e = Released i) (log_of sample_run)"
proof -
  obtain r w where r: "run_async sample_ports sample_spec ''r'' [(''n'', JDict [(''passed'', JBool True)])] sample_world =
      Some (Inr r, w)" and l: "log_of sample_run = w_log w" by (rule sample_run_cases)
  obtain held where "\<forall>i. tally (opens i) (w_log w) = tally (\<lambda>e. e = Released i) (w_log w) + (if held = Some i then 1 else 0)"
      "held = None"
    using driver_releases_what_it_holds [OF r sample_world_start(1)] sample_ports_quiet(3) by auto
  then show ?thesis unfolding l by simp
qed



text \<open>A plan that is missing on resume: the move the driver makes is no edge of the default graph.\<close>

definition default_graphs :: "LoopDb \<Rightarrow> bool" where
  "default_graphs db =
     (\<forall>row\<in>set (ld_specs db). spec_edges (as_dict (lsr_spec row)) =
        Inr (map (JDict \<circ> state_transition_to_dict) default_state_graph))"

definition graph_view :: "unit \<Rightarrow> World \<Rightarrow> bool" where
  "graph_view a w = default_graphs (w_loops w)"

interpretation graph: driver_view graph_view
  by unfold_locales (simp add: graph_view_def)

definition keeps_graphs :: "Ports \<Rightarrow> bool" where
  "keeps_graphs p = (\<forall>n db. default_graphs db \<longrightarrow>
     default_graphs (po_others p n db) \<and> default_graphs (po_meanwhile p n db))"

lemma stray_condition: "e \<in> set default_state_graph \<Longrightarrow> st_condition e \<noteq> ''missing_planned_capability''"
proof -
  have "list_all (\<lambda>e. st_condition e \<noteq> ''missing_planned_capability'') default_state_graph" by code_simp
  then show "e \<in> set default_state_graph \<Longrightarrow> ?thesis" by (auto simp: list_all_iff)
qed

lemma stray_refused:
  assumes "default_graphs view"
  shows "transition env rid node cp [] ''missing_planned_capability'' facts owner view db \<noteq> Inr (s, db')"
proof
  assume t: "transition env rid node cp [] ''missing_planned_capability'' facts owner view db = Inr (s, db')"
  obtain cur where "transition_allowed view cur node ''missing_planned_capability'' = Inr True"
    using transition_Inr_cur [OF t] by auto
  then obtain row es e where r: "row_of lsr_id (lr_loop_spec_id cur) (ld_specs view) = Some row"
      "spec_edges (as_dict (lsr_spec row)) = Inr es" "e \<in> set es"
      "edge_matches (lr_node cur) node ''missing_planned_capability'' e"
    by (auto simp: transition_allowed_def split: option.splits)
  then have "es = map (JDict \<circ> state_transition_to_dict) default_state_graph"
    using assms row_of_Some [OF r(1)] by (auto simp: default_graphs_def)
  then obtain x where "x \<in> set default_state_graph" "e = JDict (state_transition_to_dict x)" using r(3) by auto
  then show False
    using r(4) stray_condition by (auto simp: edge_matches_def state_transition_to_dict_def jget_def)
qed

lemma exits_store_graph:
  assumes "keeps_graphs p"
    "\<And>env fresh view db x db'. default_graphs view \<Longrightarrow> default_graphs db \<Longrightarrow> f env fresh view db = Inr (x, db')
       \<Longrightarrow> default_graphs db' \<and> Q x ()" "\<And>e. E e ()"
  shows "exits graph_view (store_call p f) () Q R E"
  unfolding exits_def
proof (intro allI impI)
  fix w :: World assume w: "graph_view () w"
  define seen where "seen = po_others p (w_now w) (w_loops w)"
  define met where "met = po_meanwhile p (w_now w) seen"
  have g: "default_graphs seen" "default_graphs met"
    using w assms(1) by (simp_all add: keeps_graphs_def graph_view_def seen_def met_def)
  show "\<exists>a'. graph_view a' (snd (store_call p f w)) \<and>
      (case fst (store_call p f w) of Next x \<Rightarrow> Q x a' | Return r \<Rightarrow> R r a' | Raise e \<Rightarrow> E e a')"
  proof (cases "f (po_env p (w_now w)) (po_fresh p (w_now w)) seen met")
    case (Inr res)
    then show ?thesis
      using assms(2) [OF g, of _ _ "fst res" "snd res"]
      by (simp add: store_call_def Let_def seen_def met_def graph_view_def split_beta)
  qed (use g assms(3) in \<open>simp add: store_call_def Let_def seen_def met_def graph_view_def\<close>)
qed

lemma exits_log_graph: "Q () () \<Longrightarrow> exits graph_view (log_effect e) () Q R E"
  by (auto simp: exits_def graph_view_def log_effect_def modify_def)

lemma exits_stray_move:
  assumes "keeps_graphs p"
  shows "exits graph_view (go p state LoopNode_REFLECT ''missing_planned_capability'' facts) () Q R (\<lambda>_ _. True)"
proof -
  have lease: "exits graph_view (lease_check p) () Q' R (\<lambda>_ _. True)" if "Q' () ()" for Q'
    using that by (auto simp: exits_def lease_check_def split: option.splits)
  have cp: "exits graph_view (checkpoint p state node inputs) () Q' R (\<lambda>_ _. True)" if "\<And>x. Q' x ()" for node inputs Q'
    unfolding checkpoint_def
    by (rule exits_store_graph [OF assms])
      (use that in \<open>auto simp: write_checkpoint_def Let_def default_graphs_def insert_event_def\<close>)
  have refused: "exits graph_view (store_call p (\<lambda>env fresh view db.
      transition env rid node cp [] ''missing_planned_capability'' facts owner view db)) () Q' R (\<lambda>_ _. True)"
    for rid node cp facts owner Q'
    by (rule exits_store_graph [OF assms]) (use stray_refused in blast)+
  show ?thesis
    unfolding go_def move_def
    by (intro exits_next_do exits_seq lease cp exits_reads exits_log_graph refused)
qed

text \<open>
  A run that is resumed without a plan is never failed: the driver means to move it to reflect and
  from there to failed, but \<open>missing_planned_capability\<close> is the condition of no edge of the default
  graph, so the store refuses the move and the driver raises, on every interleaving.
\<close>

theorem missing_plan_raises:
  assumes "keeps_graphs p" "default_graphs (w_loops w)"
  shows "\<exists>e w'. missing_plan p spec shadow state g w = (Raise e, w')"
  (is "\<exists>e w'. ?m w = _")
proof -
  have "exits graph_view ?m () (\<lambda>_ _. False) (\<lambda>_ _. False) (\<lambda>_ _. True)"
    unfolding missing_plan_def discard_if_needed_def
    by (intro exits_next_do exits_seq exits_when graph.exits_call_harness exits_log_graph
        exits_stray_move [OF assms(1)]) simp_all
  moreover have "graph_view () w" using assms(2) by (simp add: graph_view_def)
  ultimately have r: "case fst (?m w) of Next x \<Rightarrow> False | Return r \<Rightarrow> False | Raise e \<Rightarrow> True"
    unfolding exits_def by blast
  obtain m w' where "?m w = (m, w')" by fastforce
  then show ?thesis using r by (cases m) simp_all
qed

definition planless_world :: World where
  "planless_world = sample_world\<lparr>w_loops := sample_loop_db\<lparr>
     ld_specs := [\<lparr>lsr_id = ''s'', lsr_goal_id = ''g'', lsr_spec = JDict [(''state_graph'',
       JList (map (JDict \<circ> state_transition_to_dict) default_state_graph))], lsr_created_at = 0\<rparr>],
     ld_runs := [held_state\<lparr>lr_node := ''execute''\<rparr>]\<rparr>\<rparr>"

theorem missing_plan_raises_witness:
  "\<forall>g. \<exists>e w'. missing_plan sample_ports sample_spec False (held_state\<lparr>lr_node := ''execute''\<rparr>) g planless_world = (Raise e, w')"
proof (intro allI missing_plan_raises)
  show "keeps_graphs sample_ports" by (simp add: keeps_graphs_def sample_ports_def)
  show "default_graphs (w_loops planless_world)"
    by (simp add: default_graphs_def planless_world_def spec_edges_def as_dict_def)
qed

text \<open>
  A resource limit that the semantic checker reports never pauses the run: it leaves the checker
  step wrapped, and the handler of wrapped failures raises it without touching the run, although the
  driver has a branch that would pause.
\<close>

theorem checker_limit_is_not_paused:
  assumes "\<And>n evidence. assess n spec state x evidence = Inl (LimitError g)" "\<not> objective_evidence spec x"
  shows "fst (assess_step assess spec state x step w) = Raise (CheckerCallError (LimitError g)) \<and>
    (\<exists>e w'. checker_call_failed p spec state shadow (LimitError g) w = (Raise e, w') \<and>
       w_loops w' = w_loops w \<and> w_grants w' = w_grants w)"
proof -
  have plain: "\<not> py_truthy (jget (provider_failure_facts tn (LimitError g)) ''provider_call_failure'')" for tn
    by (simp add: provider_failure_facts_def Let_def jget_def)
  show ?thesis
    using assms(2)
    by (auto simp: assess_step_def seq_def reads_def catch_def call_port_def assms(1) throw_def
        checker_call_failed_def Let_def plain next_do_def discard_if_needed_def do_when_def call_harness_def
        log_effect_def modify_def ret_def split: option.splits sum.splits prod.splits flow.splits)
qed

theorem checker_limit_is_not_paused_witness:
  "\<forall>g. fst (assess_step (\<lambda>n spec state x ev. Inl (LimitError g)) sample_spec held_state
     (executed_from_evidence []) sample_step sample_world) = Raise (CheckerCallError (LimitError g))"
proof
  fix g
  show "fst (assess_step (\<lambda>n spec state x ev. Inl (LimitError g)) sample_spec held_state
     (executed_from_evidence []) sample_step sample_world) = Raise (CheckerCallError (LimitError g))"
    by (rule conjunct1 [OF checker_limit_is_not_paused])
      (simp_all add: objective_evidence_def executed_from_evidence_def jget_def)
qed

text \<open>
  The grant that stays open: the planner reports a limit, the run is blocked and answered, and the grant of
  the planning phase was opened and never released.
\<close>

definition limit_ports :: Ports where
  "limit_ports = sample_ports\<lparr>po_plan := (\<lambda>n spec s ev. Inl (LimitError
     \<lparr>gr_decision = ResourceDecision_BLOCK, gr_reason = ''quota'', gr_budget_state = default_budget_state, gr_retry_after_seconds = 0,
      gr_id = ''limit''\<rparr>))\<rparr>"

definition limit_spec :: LoopSpec where
  "limit_spec = sample_spec\<lparr>ls_state_graph := [stop_edge LoopNode_PLAN LoopTerminalState_BLOCKED ''resource_blocked'']\<rparr>"

theorem planner_limit_keeps_its_grant:
  "list_ex (\<lambda>e. case e of Opened g \<Rightarrow> grant_allowed g | _ \<Rightarrow> False)
      (log_of (run_async limit_ports limit_spec [] [] sample_world)) \<and>
   \<not> list_ex (\<lambda>e. case e of Released i \<Rightarrow> True | _ \<Rightarrow> False)
      (log_of (run_async limit_ports limit_spec [] [] sample_world)) \<and>
   (case answer_of (run_async limit_ports limit_spec [] [] sample_world) of None \<Rightarrow> False
    | Some r \<Rightarrow> lr_terminal_state (sr_run_state r) = ''blocked'')"
  by code_simp

end
