(* ===== verification/Store_Actions.thy ===== *)
theory Store_Actions
  imports Lifecycle_Saga
begin

text \<open>
  Calls that touch several stores. A call takes the stores and answers with a value or an exception
  and the stores as it leaves them: what was written before an exception stays written. The
  operations of one store become calls on the whole by the place of their table.
\<close>

section \<open>Calls\<close>

type_synonym ('a, 's) call = "'s \<Rightarrow> 'a result \<times> 's"

definition answer :: "'a \<Rightarrow> ('a, 's) call" where
  "answer x s = (Inr x, s)"

definition raise_error :: "py_error \<Rightarrow> ('a, 's) call" where
  "raise_error e s = (Inl e, s)"

definition then_call :: "('a, 's) call \<Rightarrow> ('a \<Rightarrow> ('b, 's) call) \<Rightarrow> ('b, 's) call" where
  "then_call c f s = (case c s of (Inl e, t) \<Rightarrow> (Inl e, t) | (Inr x, t) \<Rightarrow> f x t)"

definition look_up :: "('s \<Rightarrow> 'a) \<Rightarrow> ('a, 's) call" where
  "look_up f s = (Inr (f s), s)"

definition write_to :: "('s \<Rightarrow> 's) \<Rightarrow> (unit, 's) call" where
  "write_to f s = (Inr (), f s)"

definition checked :: "'a result \<Rightarrow> ('a, 's) call" where
  "checked r s = (r, s)"

text \<open>\<open>if value is None: raise e\<close>.\<close>

definition required :: "py_error \<Rightarrow> 'a option \<Rightarrow> ('a, 's) call" where
  "required e v = (case v of None \<Rightarrow> raise_error e | Some x \<Rightarrow> answer x)"

definition call_if :: "bool \<Rightarrow> (unit, 's) call \<Rightarrow> (unit, 's) call" where
  "call_if b c = (if b then c else answer ())"

fun for_each :: "('a \<Rightarrow> (unit, 's) call) \<Rightarrow> 'a list \<Rightarrow> (unit, 's) call" where
  "for_each f [] = answer ()"
| "for_each f (x # xs) = then_call (f x) (\<lambda>_. for_each f xs)"

text \<open>\<open>try: ... except Exception as exc: ...; raise\<close>.\<close>

definition on_error :: "('a, 's) call \<Rightarrow> (py_error \<Rightarrow> (unit, 's) call) \<Rightarrow> ('a, 's) call" where
  "on_error c h s =
     (case c s of
        (Inr x, t) \<Rightarrow> (Inr x, t)
      | (Inl e, t) \<Rightarrow> (case h e t of (Inl e', u) \<Rightarrow> (Inl e', u) | (Inr _, u) \<Rightarrow> (Inl e, u)))"

text \<open>An operation of one store, which answers, or which may refuse and then writes nothing.\<close>

definition in_store :: "('s \<Rightarrow> 'p) \<Rightarrow> ('p \<Rightarrow> 's \<Rightarrow> 's) \<Rightarrow> ('p \<Rightarrow> 'a \<times> 'p) \<Rightarrow> ('a, 's) call" where
  "in_store get put f s = (let (x, p) = f (get s) in (Inr x, put p s))"

definition try_store :: "('s \<Rightarrow> 'p) \<Rightarrow> ('p \<Rightarrow> 's \<Rightarrow> 's) \<Rightarrow> ('p \<Rightarrow> ('a \<times> 'p) result) \<Rightarrow> ('a, 's) call" where
  "try_store get put f s = (case f (get s) of Inl e \<Rightarrow> (Inl e, s) | Inr (x, p) \<Rightarrow> (Inr x, put p s))"

text \<open>A call on a part of the stores.\<close>

definition call_on :: "('s \<Rightarrow> 'p) \<Rightarrow> ('p \<Rightarrow> 's \<Rightarrow> 's) \<Rightarrow> ('a, 'p) call \<Rightarrow> ('a, 's) call" where
  "call_on get put c s = (let (x, p) = c (get s) in (x, put p s))"

named_theorems calls \<open>how calls act on the stores\<close>

lemmas call_defs = answer_def raise_error_def then_call_def look_up_def write_to_def checked_def
  required_def call_if_def on_error_def in_store_def try_store_def call_on_def

lemma answer_eq [calls]: "answer x s = (Inr x, s)" by (simp add: answer_def)
lemma raise_eq [calls]: "raise_error e s = (Inl e, s)" by (simp add: raise_error_def)
lemma look_up_eq [calls]: "look_up f s = (Inr (f s), s)" by (simp add: look_up_def)
lemma write_to_eq [calls]: "write_to f s = (Inr (), f s)" by (simp add: write_to_def)
lemma checked_eq [calls]: "checked r s = (r, s)" by (simp add: checked_def)

lemma required_eq [calls]:
  "required e None s = (Inl e, s)" "required e (Some x) s = (Inr x, s)"
  by (simp_all add: required_def calls)

lemma then_call_Inr: "c s = (Inr x, t) \<Longrightarrow> then_call c f s = f x t"
  by (simp add: then_call_def)

lemma then_call_Inl: "c s = (Inl e, t) \<Longrightarrow> then_call c f s = (Inl e, t)"
  by (simp add: then_call_def)

lemma then_call_assoc: "then_call (then_call c f) g = then_call c (\<lambda>x. then_call (f x) g)"
  by (rule ext) (simp add: then_call_def split: prod.splits sum.splits)

lemma then_call_answered:
  assumes "then_call c f s = (Inr y, u)"
  obtains x t where "c s = (Inr x, t)" "f x t = (Inr y, u)"
  using assms by (auto simp: then_call_def split: prod.splits sum.splits)

lemma on_error_cases:
  assumes "on_error c h s = (r, u)"
  obtains x where "c s = (Inr x, u)" "r = Inr x"
    | e t x where "c s = (Inl e, t)" "h e t = (x, u)" "r = (case x of Inl e' \<Rightarrow> Inl e' | Inr _ \<Rightarrow> Inl e)"
  using assms by (auto simp: on_error_def split: prod.splits sum.splits)

section \<open>What a call keeps\<close>

definition keeps :: "('s \<Rightarrow> bool) \<Rightarrow> ('a, 's) call \<Rightarrow> bool" where
  "keeps P c = (\<forall>s. P s \<longrightarrow> P (snd (c s)))"

lemma keepsD: "keeps P c \<Longrightarrow> P s \<Longrightarrow> c s = (r, t) \<Longrightarrow> P t"
  by (metis keeps_def snd_conv)

lemma keeps_answer [intro]: "keeps P (answer x)" by (simp add: keeps_def calls)
lemma keeps_raise [intro]: "keeps P (raise_error e)" by (simp add: keeps_def calls)
lemma keeps_look_up [intro]: "keeps P (look_up f)" by (simp add: keeps_def calls)
lemma keeps_checked [intro]: "keeps P (checked r)" by (simp add: keeps_def calls)
lemma keeps_required [intro]: "keeps P (required e v)" by (cases v) (simp_all add: keeps_def calls)

lemma keeps_then [intro]: "keeps P c \<Longrightarrow> (\<And>x. keeps P (f x)) \<Longrightarrow> keeps P (then_call c f)"
  by (fastforce simp: keeps_def then_call_def split: prod.splits sum.splits)

lemma keeps_call_if [intro]: "(b \<Longrightarrow> keeps P c) \<Longrightarrow> keeps P (call_if b c)"
  by (simp add: call_if_def keeps_answer)

lemma keeps_if [intro]: "(b \<Longrightarrow> keeps P c) \<Longrightarrow> (\<not> b \<Longrightarrow> keeps P d) \<Longrightarrow> keeps P (if b then c else d)"
  by simp

lemma keeps_option [intro]:
  "keeps P c \<Longrightarrow> (\<And>x. keeps P (f x)) \<Longrightarrow> keeps P (case v of None \<Rightarrow> c | Some x \<Rightarrow> f x)"
  by (simp split: option.split)

lemma keeps_for_each [intro]: "(\<And>x. keeps P (f x)) \<Longrightarrow> keeps P (for_each f xs)"
  by (induction xs) auto

lemma keeps_on_error [intro]:
  assumes "keeps P c" "\<And>e. keeps P (h e)"
  shows "keeps P (on_error c h)"
  unfolding keeps_def
proof (intro allI impI)
  fix s assume p: "P s"
  obtain r u where u: "on_error c h s = (r, u)" by fastforce
  then have "P u"
    by (rule on_error_cases) (metis assms keepsD p)+
  with u show "P (snd (on_error c h s))" by simp
qed

section \<open>The stores of one home\<close>

abbreviation put_runs :: "RunDb \<Rightarrow> Home \<Rightarrow> Home" where "put_runs p h \<equiv> h\<lparr>hm_runs := p\<rparr>"
abbreviation put_goals :: "GoalDb \<Rightarrow> Home \<Rightarrow> Home" where "put_goals p h \<equiv> h\<lparr>hm_goals := p\<rparr>"
abbreviation put_loops :: "LoopDb \<Rightarrow> Home \<Rightarrow> Home" where "put_loops p h \<equiv> h\<lparr>hm_loops := p\<rparr>"

abbreviation in_runs :: "(RunDb \<Rightarrow> 'a \<times> RunDb) \<Rightarrow> ('a, Home) call" where
  "in_runs \<equiv> in_store hm_runs put_runs"
abbreviation in_goals :: "(GoalDb \<Rightarrow> 'a \<times> GoalDb) \<Rightarrow> ('a, Home) call" where
  "in_goals \<equiv> in_store hm_goals put_goals"
abbreviation try_runs :: "(RunDb \<Rightarrow> ('a \<times> RunDb) result) \<Rightarrow> ('a, Home) call" where
  "try_runs \<equiv> try_store hm_runs put_runs"
abbreviation try_goals :: "(GoalDb \<Rightarrow> ('a \<times> GoalDb) result) \<Rightarrow> ('a, Home) call" where
  "try_goals \<equiv> try_store hm_goals put_goals"
abbreviation try_loops :: "(LoopDb \<Rightarrow> ('a \<times> LoopDb) result) \<Rightarrow> ('a, Home) call" where
  "try_loops \<equiv> try_store hm_loops put_loops"

definition update_run_call :: "Env \<Rightarrow> string \<Rightarrow> RunUpdates \<Rightarrow> (Run option, Home) call" where
  "update_run_call env rid u = in_runs (update_run (env_clock env) rid u)"

definition update_goal_call :: "Env \<Rightarrow> string \<Rightarrow> GoalUpdates \<Rightarrow> (Goal option, Home) call" where
  "update_goal_call env gid u = in_goals (\<lambda>db. update_goal_state env gid u db db)"

definition update_for_run_call :: "Env \<Rightarrow> Run \<Rightarrow> dict \<Rightarrow> (Goal option, Home) call" where
  "update_for_run_call env run evidence = in_goals (\<lambda>db. update_for_run env run evidence db db)"

end
