(* ===== verification/Goal_Delivery.thy ===== *)
theory Goal_Delivery
  imports Store_Actions Delivery_Outbox
begin

text \<open>
  The delivery records of \<open>navi/goals.py\<close> and the compaction of its events: an accepted result is put
  into the outbox, a receipt or a rejection of the connector settles the loop runs, the run and the
  goal, and a long event log is replaced by a summary.

  A receipt is applied by a call over the stores of a home; the clock stands still during the call.
  The text of an evidence column, which the summary quotes, is the argument \<open>evidence_text\<close>.
\<close>

section \<open>Compaction of events\<close>

definition is_constraint_event :: "GoalEvent \<Rightarrow> bool" where
  "is_constraint_event e = (ge_governance e = governance_str Governance_AWAITING_APPROVAL
     \<or> ge_resolution e \<in> {resolution_str Resolution_BLOCKED, resolution_str Resolution_FAILED})"

definition preserved_event :: "(dict \<Rightarrow> string) \<Rightarrow> GoalEvent \<Rightarrow> dict" where
  "preserved_event evidence_text e =
     [(''id'', JStr (ge_id e)), (''event_type'', JStr (ge_event_type e)), (''phase'', JStr (ge_phase e)),
      (''governance'', JStr (ge_governance e)), (''acceptance'', JStr (ge_acceptance e)),
      (''resolution'', JStr (ge_resolution e)), (''run_id'', JStr (ge_run_id e)),
      (''trace_id'', JStr (ge_trace_id e)), (''evidence_json'', JStr (evidence_text (ge_evidence e))),
      (''created_at'', JFloat (ge_created_at e))]"

definition compaction_line :: "(dict \<Rightarrow> string) \<Rightarrow> GoalEvent \<Rightarrow> string" where
  "compaction_line evidence_text e =
     ''['' @ repr_float (ge_created_at e) @ ''] '' @ ge_event_type e @ '' '' @ ge_phase e @ '' ''
       @ evidence_text (ge_evidence e)"

definition compaction_event :: "Env \<Rightarrow> (dict \<Rightarrow> string) \<Rightarrow> string \<Rightarrow> string \<Rightarrow> GoalEvent list \<Rightarrow> string \<Rightarrow> GoalEvent" where
  "compaction_event env evidence_text fresh_id goal_id events summary =
     \<lparr>ge_id = fresh_id, ge_goal_id = goal_id, ge_event_type = ''goal.compaction'',
      ge_phase = phase_str Phase_RUNNING, ge_governance = governance_str Governance_NONE,
      ge_acceptance = acceptance_str Acceptance_NONE, ge_resolution = resolution_str Resolution_NONE,
      ge_run_id = [], ge_trace_id = [],
      ge_evidence = [(''summary'', JStr summary), (''preserved_events'',
        JList (map (JDict \<circ> preserved_event evidence_text) (filter is_constraint_event events)))],
      ge_created_at = env_clock env\<rparr>"

definition delete_events :: "string list \<Rightarrow> GoalEvent list \<Rightarrow> GoalEvent list" where
  "delete_events ids events = fold (\<lambda>i. sql_delete (\<lambda>e. ge_id e = i)) ids events"

text \<open>
  \<open>view\<close> is what \<open>list_events\<close> saw before the provider was asked, \<open>db\<close> the tables that the
  transaction meets afterwards; \<open>ask_model\<close> is the provider.
\<close>

definition compact_events ::
  "Env \<Rightarrow> (dict \<Rightarrow> string) \<Rightarrow> (string list \<Rightarrow> string result) \<Rightarrow> string \<Rightarrow> string \<Rightarrow> int \<Rightarrow> GoalDb \<Rightarrow> GoalDb
     \<Rightarrow> bool result \<times> GoalDb" where
  "compact_events env evidence_text ask_model fresh_id goal_id threshold view db =
     (let events = list_goal_events goal_id None view
      in if int (length events) \<le> threshold then (Inr False, db)
         else case ask_model (map (compaction_line evidence_text) events) of
           Inl e \<Rightarrow> (Inl e, db)
         | Inr summary \<Rightarrow>
             (Inr True, db\<lparr>gd_events := delete_events (map ge_id (filter (\<lambda>e. \<not> is_constraint_event e) events))
                (gd_events db @ [compaction_event env evidence_text fresh_id goal_id events summary])\<rparr>))"

section \<open>The outbox of results\<close>

definition parent_deadline :: "GoalDb \<Rightarrow> Goal \<Rightarrow> dict" where
  "parent_deadline db goal =
     (case (if g_parent_goal_id goal = [] then None else get_goal (g_parent_goal_id goal) db) of
        None \<Rightarrow> []
      | Some parent \<Rightarrow>
          if 0 < g_next_run_at parent
          then [(''expires_at'', JFloat (g_next_run_at parent)), (''supersession_key'', JStr (g_id parent))]
          else [])"

definition result_envelope :: "int \<Rightarrow> GoalDb \<Rightarrow> Run \<Rightarrow> Goal \<Rightarrow> string \<Rightarrow> string \<Rightarrow> string \<Rightarrow> string \<Rightarrow> DeliveryEnvelope" where
  "result_envelope max_attempts db run goal text body_provenance surface trace_id =
     \<lparr>de_batch_id = ''goal:'' @ run_id run, de_channel = surface,
      de_peer_id = or_else (g_peer_id goal) (run_peer_id run),
      de_sender_id = or_else (g_sender_id goal) (run_sender_id run),
      de_trace_id = or_else trace_id (or_else (g_trace_id goal) (run_id run)),
      de_run_id = run_id run, de_goal_id = g_id goal, de_text = text,
      de_body_provenance = body_provenance, de_file_path = [],
      de_transport_context = (''priority'', JInt 0) # parent_deadline db goal,
      de_max_attempts = max_attempts\<rparr>"

definition record_result_delivery_outbox ::
  "int \<Rightarrow> time \<Rightarrow> Run \<Rightarrow> Goal \<Rightarrow> string \<Rightarrow> string \<Rightarrow> string \<Rightarrow> string \<Rightarrow> GoalDb \<Rightarrow> outbox
     \<Rightarrow> (DeliveryItem option \<times> outbox) result" where
  "record_result_delivery_outbox max_attempts now run goal body body_provenance channel trace_id db outbox =
     (let text = py_strip body;
          surface = or_else (py_strip channel) (or_else (g_source goal) (run_source run))
      in if text = [] \<or> surface = [] \<or> or_else (g_peer_id goal) (run_peer_id run) = [] then Inr (None, outbox)
         else case latest_for_run (run_id run) outbox of
           Some existing \<Rightarrow> Inr (Some existing, outbox)
         | None \<Rightarrow> and_then (enqueue [] now (result_envelope max_attempts db run goal text body_provenance surface trace_id)
               outbox) (\<lambda>(items, outbox'). Inr (first_row items, outbox')))"

definition delivery_error_reason :: "string \<Rightarrow> string" where
  "delivery_error_reason error =
     (let prefix = py_strip (takeWhile (\<lambda>c. c \<noteq> CHR '':'') error)
      in if py_startswith prefix ''connector_'' then prefix
         else if error \<noteq> [] then ''connector_delivery_failed'' else [])"

definition accepted_result_for_run :: "string \<Rightarrow> outbox \<Rightarrow> dict" where
  "accepted_result_for_run rid outbox =
     (case latest_for_run rid outbox of
        None \<Rightarrow> []
      | Some item \<Rightarrow>
          [(''body'', JStr (di_body item)), (''body_provenance'', JStr (di_body_provenance item)),
           (''delivery_status'', JStr (di_status item)), (''channel'', JStr (di_channel item)),
           (''sent_at'', JFloat (di_sent_at item)), (''outbox_id'', JStr (di_id item)),
           (''delivery_id'', JStr (di_delivery_id item)), (''delivery_attempts'', JInt (di_attempts item)),
           (''delivery_error'', JStr (di_error item)),
           (''delivery_error_reason'', JStr (delivery_error_reason (di_error item))),
           (''delivery_updated_at'', JFloat (di_updated_at item)),
           (''delivery_next_attempt_at'', JFloat (di_next_attempt_at item)),
           (''delivery_expires_at'', (case map_of (di_transport_context item) ''expires_at'' of
              None \<Rightarrow> JFloat 0 | Some v \<Rightarrow> v))])"

section \<open>Receipts\<close>

definition ended_run :: "Acceptance \<Rightarrow> Resolution \<Rightarrow> string \<Rightarrow> string \<Rightarrow> RunUpdates" where
  "ended_run acc res summary err = no_updates\<lparr>up_phase := Some (phase_str Phase_ENDED),
     up_governance := Some (governance_str Governance_NONE), up_acceptance := Some (acceptance_str acc),
     up_resolution := Some (resolution_str res), up_result_summary := Some summary, up_error := Some err\<rparr>"

definition delivery_acceptance :: "bool \<Rightarrow> Acceptance" where
  "delivery_acceptance success = (if success then Acceptance_ACCEPTED else Acceptance_REJECTED)"

definition delivery_resolution :: "bool \<Rightarrow> Resolution" where
  "delivery_resolution success = (if success then Resolution_SUCCESS else Resolution_FAILED)"

definition settle_delivery_envelope_goal :: "Env \<Rightarrow> string \<Rightarrow> bool \<Rightarrow> dict \<Rightarrow> (unit, Home) call" where
  "settle_delivery_envelope_goal env goal_id success evidence =
     then_call (look_up (\<lambda>h. get_goal goal_id (hm_goals h))) (\<lambda>goal.
       case goal of
         None \<Rightarrow> answer ()
       | Some g \<Rightarrow>
           if g_run_id g = [] then answer ()
           else then_call (look_up (\<lambda>h. get_run (g_run_id g) (hm_runs h))) (\<lambda>current.
             case current of
               None \<Rightarrow> answer ()
             | Some run \<Rightarrow>
                 then_call (update_run_call env (run_id run)
                   (ended_run (delivery_acceptance success) (delivery_resolution success)
                     (if success then run_result_summary run else [])
                     (if success then [] else or_else (str_or_empty (jget evidence ''error'')) ''delivery failed'')))
                 (\<lambda>updated. case updated of
                    None \<Rightarrow> answer ()
                  | Some r \<Rightarrow> then_call (update_for_run_call env r (dict_merge evidence
                        [(''transport_envelope_goal_id'', JStr goal_id),
                         (''origin_goal_id'', JStr (str_or_empty (jget evidence ''goal_id'')))]))
                      (\<lambda>_. answer ()))))"

definition delivery_loop_ids :: "string \<Rightarrow> string \<Rightarrow> LoopDb \<Rightarrow> string list" where
  "delivery_loop_ids goal_id delivery_id db =
     sort (remdups ((if delivery_id \<noteq> [] then [delivery_id] else []) @
       map lr_run_id (list_by_goal_filtered goal_id [ts_str LoopTerminalState_PAUSED] ''connector_outbound'' None db)))"

definition complete_delivery_loop :: "Env \<Rightarrow> string \<Rightarrow> bool \<Rightarrow> dict \<Rightarrow> string \<Rightarrow> (unit, Home) call" where
  "complete_delivery_loop env goal_id success evidence loop_run_id =
     then_call (look_up (\<lambda>h. get_loop_run loop_run_id (hm_loops h))) (\<lambda>found.
       case found of
         None \<Rightarrow> answer ()
       | Some delivery_loop \<Rightarrow>
           then_call (try_loops (\<lambda>db. complete_external_delivery env loop_run_id success evidence db db)) (\<lambda>_.
           call_if (lr_goal_id delivery_loop \<noteq> goal_id)
             (settle_delivery_envelope_goal env (lr_goal_id delivery_loop) success evidence)))"

definition complete_delivery_loops :: "Env \<Rightarrow> string \<Rightarrow> string \<Rightarrow> bool \<Rightarrow> dict \<Rightarrow> (unit, Home) call" where
  "complete_delivery_loops env goal_id delivery_id success evidence =
     then_call (look_up (\<lambda>h. delivery_loop_ids goal_id delivery_id (hm_loops h)))
       (for_each (complete_delivery_loop env goal_id success evidence))"

definition record_event_call ::
  "Env \<Rightarrow> string \<Rightarrow> string \<Rightarrow> string \<times> string \<times> string \<times> string \<Rightarrow> string \<Rightarrow> string \<Rightarrow> dict \<Rightarrow> (GoalEvent, Home) call" where
  "record_event_call env goal_id event_type st rid trace_id evidence =
     in_goals (\<lambda>db. let db' = record_event env goal_id event_type st rid trace_id evidence db in (last (gd_events db'), db'))"

text \<open>The common end of both receipts: the run, the goal, the event, and the event of the parent.\<close>

definition settle_delivery ::
  "Env \<Rightarrow> Goal \<Rightarrow> string \<Rightarrow> bool \<Rightarrow> string \<Rightarrow> dict \<Rightarrow> string \<Rightarrow> string \<Rightarrow> (GoalEvent option, Home) call" where
  "settle_delivery env found rid success trace_id evidence summary err =
     (let word = (if success then ''succeeded'' else ''failed''); trace = or_else trace_id rid
      in then_call (update_run_call env rid
           (ended_run (delivery_acceptance success) (delivery_resolution success) summary err)) (\<lambda>updated.
         then_call (case updated of None \<Rightarrow> answer None | Some r \<Rightarrow> update_for_run_call env r evidence) (\<lambda>mirrored.
         let goal = (case mirrored of None \<Rightarrow> found | Some g \<Rightarrow> g)
         in then_call (record_event_call env (g_id goal) (''goal.delivery_'' @ word)
              (phase_str Phase_ENDED, g_governance goal, acceptance_str (delivery_acceptance success),
               resolution_str (delivery_resolution success)) rid trace evidence) (\<lambda>event.
            then_call (look_up (\<lambda>h. if g_parent_goal_id goal = [] then None
                else get_goal (g_parent_goal_id goal) (hm_goals h))) (\<lambda>parent.
            case parent of
              None \<Rightarrow> answer (Some event)
            | Some p \<Rightarrow>
                then_call (record_event_call env (g_id p) (''goal.occurrence_delivery_'' @ word) (goal_state p)
                  rid trace evidence) (\<lambda>_. answer (Some event)))))))"

record Receipt =
  rc_channel :: string
  rc_text_preview :: string
  rc_text_length :: int
  rc_media_count :: int
  rc_trace_id :: string
  rc_delivery_id :: string
  rc_sent_at :: "time option"

definition delivered_evidence :: "Env \<Rightarrow> string \<Rightarrow> string \<Rightarrow> Receipt \<Rightarrow> dict" where
  "delivered_evidence env goal_id rid rc =
     [(''state_transition'', JStr ''delivered''), (''channel'', JStr (rc_channel rc)),
      (''sent_at'', JFloat (case rc_sent_at rc of None \<Rightarrow> env_clock env | Some t \<Rightarrow> t)),
      (''recorded_at'', JFloat (env_clock env)), (''text_preview'', JStr (rc_text_preview rc)),
      (''text_length'', JInt (max 0 (rc_text_length rc))), (''media_count'', JInt (max 0 (rc_media_count rc))),
      (''goal_id'', JStr goal_id), (''run_id'', JStr rid), (''delivery_id'', JStr (rc_delivery_id rc))]"

definition record_delivery :: "Env \<Rightarrow> string \<Rightarrow> Receipt \<Rightarrow> (GoalEvent option, Home) call" where
  "record_delivery env rid rc =
     then_call (look_up (\<lambda>h. get_by_run rid (hm_goals h))) (\<lambda>found.
       case found of
         None \<Rightarrow> answer None
       | Some goal \<Rightarrow>
           let evidence = delivered_evidence env (g_id goal) rid rc
           in then_call (complete_delivery_loops env (g_id goal) (rc_delivery_id rc) True evidence) (\<lambda>_.
              then_call (look_up (\<lambda>h. get_run rid (hm_runs h))) (\<lambda>current.
              settle_delivery env goal rid True (rc_trace_id rc) evidence
                (or_else (case current of None \<Rightarrow> [] | Some r \<Rightarrow> run_result_summary r) (rc_text_preview rc)) [])))"

definition failure_evidence :: "Env \<Rightarrow> string \<Rightarrow> string \<Rightarrow> string \<Rightarrow> string \<Rightarrow> string \<Rightarrow> string \<Rightarrow> dict" where
  "failure_evidence env goal_id rid channel err error_reason delivery_id =
     [(''state_transition'', JStr ''delivery_failed''), (''channel'', JStr channel),
      (''recorded_at'', JFloat (env_clock env)), (''error'', JStr err),
      (''error_reason'', JStr (or_else error_reason (delivery_error_reason err))),
      (''delivery_id'', JStr delivery_id), (''goal_id'', JStr goal_id), (''run_id'', JStr rid)]"

definition record_delivery_failure ::
  "Env \<Rightarrow> string \<Rightarrow> string \<Rightarrow> string \<Rightarrow> string \<Rightarrow> string \<Rightarrow> string \<Rightarrow> (GoalEvent option, Home) call" where
  "record_delivery_failure env rid channel err error_reason trace_id delivery_id =
     then_call (look_up (\<lambda>h. get_by_run rid (hm_goals h))) (\<lambda>found.
       case found of
         None \<Rightarrow> answer None
       | Some goal \<Rightarrow>
           let evidence = failure_evidence env (g_id goal) rid channel err error_reason delivery_id
           in then_call (complete_delivery_loops env (g_id goal) delivery_id False evidence) (\<lambda>_.
              settle_delivery env goal rid False trace_id evidence [] err))"

section \<open>Queries\<close>

definition is_delivery :: "GoalEvent \<Rightarrow> bool" where
  "is_delivery e = (ge_event_type e = ''goal.delivery_succeeded'')"

definition latest_delivery :: "string \<Rightarrow> GoalDb \<Rightarrow> dict" where
  "latest_delivery goal_id db =
     (case sql_desc ge_created_at (filter (\<lambda>e. ge_goal_id e = goal_id \<and> is_delivery e) (gd_events db)) of
        [] \<Rightarrow> [] | e # _ \<Rightarrow> ge_evidence e)"

definition newest_delivery :: "GoalDb \<Rightarrow> GoalEvent \<Rightarrow> bool" where
  "newest_delivery db e = (is_delivery e \<and>
     list_all (\<lambda>l. \<not> (is_delivery l \<and> ge_goal_id l = ge_goal_id e) \<or> ge_created_at l \<le> ge_created_at e) (gd_events db))"

definition list_recent_deliveries :: "string \<Rightarrow> string \<Rightarrow> string \<Rightarrow> int \<Rightarrow> GoalDb \<Rightarrow> dict list" where
  "list_recent_deliveries source peer_id sender_id limit db =
     map ge_evidence (sql_limit (max 1 limit) (sql_desc ge_created_at
       (concat (map (\<lambda>e. map (\<lambda>_. e) (filter (\<lambda>g. g_id g = ge_goal_id e \<and> newest_delivery db e
          \<and> opt_eq source (g_source g) \<and> opt_eq peer_id (g_peer_id g) \<and> opt_eq sender_id (g_sender_id g))
          (gd_goals db))) (gd_events db)))))"


section \<open>Facts about compaction\<close>

lemma delete_events_filter: "delete_events ids events = filter (\<lambda>e. ge_id e \<notin> set ids) events"
proof (induction ids arbitrary: events)
  case (Cons i ids)
  have "delete_events (i # ids) events = delete_events ids (sql_delete (\<lambda>e. ge_id e = i) events)"
    by (simp add: delete_events_def)
  then show ?case using Cons.IH by (simp add: sql_delete_def)
qed (simp add: delete_events_def)

text \<open>Events are never rewritten: an identifier that is in both tables is of the same event.\<close>

definition same_events :: "GoalDb \<Rightarrow> GoalDb \<Rightarrow> bool" where
  "same_events view db = (\<forall>a\<in>set (gd_events view). \<forall>b\<in>set (gd_events db). ge_id a = ge_id b \<longrightarrow> a = b)"

lemma set_list_goal_events: "set (list_goal_events gid None db) = {e \<in> set (gd_events db). ge_goal_id e = gid}"
  by (simp add: list_goal_events_def sql_asc_def)

lemma compact_events_Inr:
  assumes "compact_events env et ask fresh gid n view db = (Inr True, db')"
  obtains summary where "gd_goals db' = gd_goals db"
    "gd_events db' = filter (\<lambda>e. ge_id e \<notin> ge_id ` {e \<in> set (gd_events view). ge_goal_id e = gid \<and> \<not> is_constraint_event e})
       (gd_events db @ [compaction_event env et fresh gid (list_goal_events gid None view) summary])"
proof -
  have ids: "set (map ge_id (filter (\<lambda>e. \<not> is_constraint_event e) (list_goal_events gid None view))) =
      ge_id ` {e \<in> set (gd_events view). ge_goal_id e = gid \<and> \<not> is_constraint_event e}"
    by (auto simp: set_list_goal_events)
  obtain summary where "db' = db\<lparr>gd_events := delete_events (map ge_id (filter (\<lambda>e. \<not> is_constraint_event e)
        (list_goal_events gid None view)))
      (gd_events db @ [compaction_event env et fresh gid (list_goal_events gid None view) summary])\<rparr>"
    using assms by (auto simp: compact_events_def Let_def split: if_splits sum.splits)
  then have "db' = db\<lparr>gd_events := filter (\<lambda>e. ge_id e \<notin> ge_id ` {e \<in> set (gd_events view). ge_goal_id e = gid
        \<and> \<not> is_constraint_event e})
      (gd_events db @ [compaction_event env et fresh gid (list_goal_events gid None view) summary])\<rparr>"
    unfolding delete_events_filter ids .
  moreover have "gd_goals (db\<lparr>gd_events := x\<rparr>) = gd_goals db" "gd_events (db\<lparr>gd_events := x\<rparr>) = x" for x
    by simp_all
  ultimately show thesis by (intro that [of summary]) (simp_all only:)
qed

lemma compaction_event_routine [simp]:
  "\<not> is_constraint_event (compaction_event env et fresh gid events summary)"
  "\<not> is_delivery (compaction_event env et fresh gid events summary)"
  "ge_goal_id (compaction_event env et fresh gid events summary) = gid"
  by (simp_all add: compaction_event_def is_constraint_event_def is_delivery_def)

lemma filter_kept:
  assumes "\<And>e. e \<in> set es \<Longrightarrow> P e \<Longrightarrow> q e"
  shows "filter P (filter q es) = filter P es"
  using assms by (induction es) auto

lemma compact_events_constraints:
  assumes "compact_events env et ask fresh gid n view db = (Inr True, db')" "same_events view db"
  shows "filter is_constraint_event (gd_events db') = filter is_constraint_event (gd_events db)"
proof -
  let ?gone = "ge_id ` {e \<in> set (gd_events view). ge_goal_id e = gid \<and> \<not> is_constraint_event e}"
  obtain summary where "gd_events db' = filter (\<lambda>e. ge_id e \<notin> ?gone)
      (gd_events db @ [compaction_event env et fresh gid (list_goal_events gid None view) summary])"
    by (rule compact_events_Inr [OF assms(1)])
  moreover have "filter is_constraint_event (filter (\<lambda>e. ge_id e \<notin> ?gone) (gd_events db)) =
      filter is_constraint_event (gd_events db)"
    using assms(2) by (intro filter_kept) (auto simp: same_events_def, metis)
  ultimately show ?thesis by simp
qed

lemma count_constraints:
  assumes "rs \<noteq> []" "set rs \<subseteq> {resolution_str Resolution_BLOCKED, resolution_str Resolution_FAILED}"
  shows "count_events gid ty rs db = length (filter (\<lambda>e. ge_goal_id e = gid \<and> opt_eq ty (ge_event_type e)
     \<and> ge_resolution e \<in> set rs) (filter is_constraint_event (gd_events db)))"
proof -
  have "filter (\<lambda>e. ge_goal_id e = gid \<and> opt_eq ty (ge_event_type e) \<and> ge_resolution e \<in> set rs) (gd_events db) =
      filter (\<lambda>e. ge_goal_id e = gid \<and> opt_eq ty (ge_event_type e) \<and> ge_resolution e \<in> set rs)
        (filter is_constraint_event (gd_events db))"
    using assms(2) by (auto simp: is_constraint_event_def intro!: filter_cong)
  then show ?thesis using assms(1) by (simp add: count_events_def sql_count_def)
qed

section \<open>Facts about receipts\<close>

lemma transition_to_get:
  assumes "transition_to env rid cur target ev ty (\<lambda>_. True) now db = Inr (s', db')"
    "get_loop_run rid db = Some cur"
  shows "get_loop_run rid db' = Some (stopped_at now target ev cur cur)"
    "i \<noteq> rid \<Longrightarrow> get_loop_run i db' = get_loop_run i db"
proof -
  have "ld_runs db' = sql_update (\<lambda>r. lr_run_id r = rid \<and> lr_version r = lr_version cur)
      (stopped_at now target ev cur) (ld_runs db)"
    using assms(1) by (auto simp: transition_to_def commit_state_def stopped_at_def [abs_def] insert_event_def Let_def
        split: if_splits)
  then show "get_loop_run rid db' = Some (stopped_at now target ev cur cur)"
    "i \<noteq> rid \<Longrightarrow> get_loop_run i db' = get_loop_run i db"
    using assms(2) row_of_Some [of lr_run_id rid "ld_runs db" cur]
    by (auto simp: get_loop_run_def row_of_update stopped_at_def dest: row_of_Some split: option.splits)
      (cases "row_of lr_run_id i (ld_runs db)", auto dest: row_of_Some)
qed

definition delivery_target :: "bool \<Rightarrow> LoopTerminalState" where
  "delivery_target success = (if success then LoopTerminalState_CONVERGED else LoopTerminalState_FAILED)"

definition settled_as :: "bool \<Rightarrow> string \<Rightarrow> LoopDb \<Rightarrow> bool" where
  "settled_as success rid db =
     (\<exists>s. get_loop_run rid db = Some s \<and> lr_terminal_state s = ts_str (delivery_target success))"

lemma complete_external_delivery_settles:
  assumes "complete_external_delivery env rid success ev db db = Inr (s', db')"
  shows "settled_as success rid db'" "i \<noteq> rid \<Longrightarrow> get_loop_run i db' = get_loop_run i db"
proof -
  obtain cur where cur: "get_loop_run rid db = Some cur"
    using assms by (auto simp: complete_external_delivery_def select_current_def split: option.splits)
  consider "lr_terminal_state cur = ts_str (delivery_target success)" "db' = db"
    | ty where "transition_to env rid cur (delivery_target success) ev ty (\<lambda>_. True) (env_clock env) db = Inr (s', db')"
    using assms cur by (auto simp: complete_external_delivery_def select_current_def delivery_target_def Let_def split: if_splits)
  then show "settled_as success rid db'" "i \<noteq> rid \<Longrightarrow> get_loop_run i db' = get_loop_run i db"
    using cur transition_to_get [OF _ cur] by (fastforce simp: settled_as_def stopped_at_def)+
qed


lemma update_run_get:
  "get_run i (snd (update_run now rid u db)) =
     (if i = rid then map_option (\<lambda>r. merge_run_updates now u r r) (get_run i db) else get_run i db)"
  using update_run_rows [of i now rid u "db_runs db"] by (simp add: update_run_in_transaction_eq get_run_def)

lemma update_run_answer: "fst (update_run now rid u db) = get_run rid (snd (update_run now rid u db))"
  by (simp add: update_run_def Let_def split: option.splits)

lemma update_run_call_eq:
  "update_run_call env rid u h = (Inr (map_option (\<lambda>r. merge_run_updates (env_clock env) u r r) (get_run rid (hm_runs h))),
     put_runs (snd (update_run (env_clock env) rid u (hm_runs h))) h)"
  using update_run_answer [of "env_clock env" rid u "hm_runs h"]
  by (simp add: update_run_call_def in_store_def split_beta update_run_get)

lemma update_goal_state_kept:
  "get_goal k (snd (update_goal_state env gid u db db)) = None \<longleftrightarrow> get_goal k db = None"
  "map g_run_id (gd_goals (snd (update_goal_state env gid u db db))) = map g_run_id (gd_goals db)"
proof -
  have "get_goal k (snd (update_goal_state env gid u db db)) = None \<longleftrightarrow> get_goal k db = None \<and>
      map g_run_id (gd_goals (snd (update_goal_state env gid u db db))) = map g_run_id (gd_goals db)" if "get_goal gid db = None"
    using that by (simp add: update_goal_state_def)
  moreover have "get_goal k (snd (update_goal_state env gid u db db)) = None \<longleftrightarrow> get_goal k db = None"
    if "get_goal gid db = Some g" for g
    using update_goal_state_row [OF that, of k env u db] by simp
  moreover have "map g_run_id (gd_goals (snd (update_goal_state env gid u db db))) = map g_run_id (gd_goals db)"
    if "get_goal gid db = Some g" for g
    using update_goal_state_now(2) [OF that, of env u] by (simp add: map_sql_update updated_goal_def)
  ultimately show "get_goal k (snd (update_goal_state env gid u db db)) = None \<longleftrightarrow> get_goal k db = None"
    "map g_run_id (gd_goals (snd (update_goal_state env gid u db db))) = map g_run_id (gd_goals db)"
    by (cases "get_goal gid db"; simp add: update_goal_state_def)+
qed

lemma sql_desc_Nil: "sql_desc k t = [] \<longleftrightarrow> t = []"
  unfolding sql_desc_def by (metis length_0_conv length_sort)

lemma get_by_run_None: "get_by_run rid db = None \<longleftrightarrow> rid \<notin> set (map g_run_id (gd_goals db))"
proof -
  have "get_by_run rid db = None \<longleftrightarrow> filter (\<lambda>g. g_run_id g = rid) (gd_goals db) = []"
    using sql_desc_Nil [of g_updated_at "filter (\<lambda>g. g_run_id g = rid) (gd_goals db)"]
    by (auto simp: get_by_run_def first_row_def split: list.split)
  then show ?thesis by (auto simp: filter_empty_conv)
qed

lemma get_goal_member: "g \<in> set (gd_goals db) \<Longrightarrow> get_goal (g_id g) db \<noteq> None"
  by (auto simp: get_goal_def row_of_None)

text \<open>An ended run takes its goal along.\<close>

definition ended_goal :: "bool \<Rightarrow> Goal \<Rightarrow> bool" where
  "ended_goal success g = (g_phase g = phase_str Phase_ENDED \<and>
     g_acceptance g = acceptance_str (delivery_acceptance success) \<and>
     g_resolution g = resolution_str (delivery_resolution success))"

definition ended_as :: "bool \<Rightarrow> Run \<Rightarrow> bool" where
  "ended_as success r = (run_phase r = phase_str Phase_ENDED \<and> run_governance r = governance_str Governance_NONE \<and>
     run_acceptance r = acceptance_str (delivery_acceptance success) \<and>
     run_resolution r = resolution_str (delivery_resolution success))"

lemma ended_run_fields:
  "ended_as success (merge_run_updates now (ended_run (delivery_acceptance success) (delivery_resolution success) summary err) r r)"
  "run_result_summary (merge_run_updates now (ended_run acc res summary err) r r) = summary"
  "run_error (merge_run_updates now (ended_run acc res summary err) r r) = err"
  by (simp_all add: ended_as_def merge_run_updates_def ended_run_def no_updates_def or_keep_def)

lemma goal_state_of_ended:
  assumes "ended_as success r"
  shows "goal_state_for_run r = (''ended'', ''none'', acceptance_str (delivery_acceptance success),
    resolution_str (delivery_resolution success))"
  using assms by (cases success) (simp_all add: ended_as_def goal_state_for_run_def delivery_acceptance_def delivery_resolution_def)

lemma update_for_run_ended:
  assumes seen: "get_by_run (run_id r) db = Some seen" and ended: "ended_as success r"
  obtains g where "fst (update_for_run env r ev db db) = Some g" "g_id g = g_id seen"
    "get_goal (g_id g) (snd (update_for_run env r ev db db)) = Some g" "ended_goal success g"
proof -
  obtain row where row: "get_goal (g_id seen) db = Some row"
    using get_by_run_Some(1) [OF seen] get_goal_member by blast
  then have id: "g_id row = g_id seen" by (auto simp: get_goal_def dest: row_of_Some)
  let ?u = "asked r ev (loop_kind_of seen)"
  note eq = update_for_run_asked [OF seen, of env ev]
  have a: "fst (update_for_run env r ev db db) = Some (updated_goal env ?u row row)"
    unfolding eq by (rule update_goal_state_now(1) [OF row])
  have "get_goal (g_id (updated_goal env ?u row row)) (snd (update_for_run env r ev db db)) = Some (updated_goal env ?u row row)"
    unfolding eq using update_goal_state_row [OF row, of "g_id seen" env ?u db] row id by simp
  moreover have "ended_goal success (updated_goal env ?u row row)"
    using goal_state_of_ended [OF ended]
    by (cases success) (simp_all add: ended_goal_def asked_def or_else_def delivery_acceptance_def delivery_resolution_def)
  ultimately show thesis using that [OF a] id by simp
qed

text \<open>The calls below keep the loop runs, keep every run, and keep which runs have a goal.\<close>

definition rests :: "LoopDb \<Rightarrow> string \<Rightarrow> Home \<Rightarrow> bool" where
  "rests loops rid h = (hm_loops h = loops \<and> get_run rid (hm_runs h) \<noteq> None \<and> get_by_run rid (hm_goals h) \<noteq> None)"

lemma keeps_update_run_call [intro]: "keeps (rests loops rid) (update_run_call env i u)"
  by (auto simp: keeps_def rests_def update_run_call_eq update_run_get)

lemma keeps_update_for_run_call [intro]: "keeps (rests loops rid) (update_for_run_call env r ev)"
proof -
  have "snd (update_for_run env r ev db db) = db \<or>
      (\<exists>gid u. snd (update_for_run env r ev db db) = snd (update_goal_state env gid u db db))" for db
    using update_for_run_asked by (cases "get_by_run (run_id r) db") (auto simp: update_for_run_def)
  then have "get_by_run rid (snd (update_for_run env r ev db db)) = None \<longleftrightarrow> get_by_run rid db = None" for db
    unfolding get_by_run_None by (metis update_goal_state_kept(2))
  then show ?thesis
    by (auto simp: keeps_def rests_def update_for_run_call_def in_store_def split_beta)
qed

lemma keeps_settle_envelope [intro]: "keeps (rests loops rid) (settle_delivery_envelope_goal env gid success ev)"
  unfolding settle_delivery_envelope_goal_def
  by (intro keeps_then keeps_look_up keeps_option keeps_if keeps_answer keeps_update_run_call
      keeps_update_for_run_call)

lemma complete_delivery_loop_effect:
  assumes c: "complete_delivery_loop env gid success ev i h = (Inr (), h')"
    and r: "get_run rid (hm_runs h) \<noteq> None" "get_by_run rid (hm_goals h) \<noteq> None"
  shows "get_loop_run i (hm_loops h) \<noteq> None \<Longrightarrow> settled_as success i (hm_loops h')"
    "j \<noteq> i \<Longrightarrow> get_loop_run j (hm_loops h') = get_loop_run j (hm_loops h)"
    "get_run rid (hm_runs h') \<noteq> None" "get_by_run rid (hm_goals h') \<noteq> None"
proof -
  have "(get_loop_run i (hm_loops h) \<noteq> None \<longrightarrow> settled_as success i (hm_loops h')) \<and>
      (j \<noteq> i \<longrightarrow> get_loop_run j (hm_loops h') = get_loop_run j (hm_loops h)) \<and>
      get_run rid (hm_runs h') \<noteq> None \<and> get_by_run rid (hm_goals h') \<noteq> None"
  proof (cases "get_loop_run i (hm_loops h)")
    case None
    then show ?thesis using c r by (simp add: complete_delivery_loop_def then_call_def calls)
  next
    case (Some loop)
    obtain s' loops where d: "complete_external_delivery env i success ev (hm_loops h) (hm_loops h) = Inr (s', loops)"
      and rest: "call_if (lr_goal_id loop \<noteq> gid) (settle_delivery_envelope_goal env (lr_goal_id loop) success ev)
        (put_loops loops h) = (Inr (), h')"
      using c Some by (auto simp: complete_delivery_loop_def then_call_def calls try_store_def split: sum.splits prod.splits)
    have "keeps (rests loops rid)
        (call_if (lr_goal_id loop \<noteq> gid) (settle_delivery_envelope_goal env (lr_goal_id loop) success ev))"
      by (intro keeps_call_if keeps_settle_envelope)
    then have "rests loops rid h'"
      using rest r by (fastforce dest: keepsD [where P = "rests loops rid" and s = "put_loops loops h"] simp: rests_def)
    then show ?thesis
      using complete_external_delivery_settles [OF d] by (auto simp: rests_def)
  qed
  then show "get_loop_run i (hm_loops h) \<noteq> None \<Longrightarrow> settled_as success i (hm_loops h')"
    "j \<noteq> i \<Longrightarrow> get_loop_run j (hm_loops h') = get_loop_run j (hm_loops h)"
    "get_run rid (hm_runs h') \<noteq> None" "get_by_run rid (hm_goals h') \<noteq> None" by blast+
qed

lemma complete_loops_effect:
  assumes "for_each (complete_delivery_loop env gid success ev) ids h = (Inr (), h')"
    "get_run rid (hm_runs h) \<noteq> None" "get_by_run rid (hm_goals h) \<noteq> None"
  shows "(i \<in> set ids \<longrightarrow> get_loop_run i (hm_loops h) \<noteq> None \<longrightarrow> settled_as success i (hm_loops h')) \<and>
    (i \<notin> set ids \<longrightarrow> get_loop_run i (hm_loops h') = get_loop_run i (hm_loops h)) \<and>
    get_run rid (hm_runs h') \<noteq> None \<and> get_by_run rid (hm_goals h') \<noteq> None"
  using assms
proof (induction ids arbitrary: h)
  case Nil
  then show ?case by (simp add: calls)
next
  case (Cons j ids)
  from Cons.prems(1) obtain h1 where h1: "complete_delivery_loop env gid success ev j h = (Inr (), h1)"
      "for_each (complete_delivery_loop env gid success ev) ids h1 = (Inr (), h')"
    by (auto elim: then_call_answered)
  note step = complete_delivery_loop_effect [OF h1(1) Cons.prems(2,3)]
  note rest = Cons.IH [OF h1(2) step(3,4)]
  have "get_loop_run i (hm_loops h1) \<noteq> None" if "get_loop_run i (hm_loops h) \<noteq> None"
    using that step(1) step(2) [of i] by (cases "i = j") (auto simp: settled_as_def)
  then show ?case
    using rest step(1) step(2) [of i] by (cases "i = j") (auto simp: settled_as_def)
qed


lemma record_event_call_eq:
  "record_event_call env gid ty st rid tr ev h =
     (Inr (last (gd_events (record_event env gid ty st rid tr ev (hm_goals h)))),
      put_goals (record_event env gid ty st rid tr ev (hm_goals h)) h)"
  by (simp add: record_event_call_def in_store_def Let_def)

lemma record_event_keeps [simp]:
  "gd_goals (record_event env gid ty st rid tr ev db) = gd_goals db"
  "ge_goal_id (last (gd_events (record_event env gid ty st rid tr ev db))) = gid"
  by (simp_all add: record_event_def split: prod.split)

lemma settle_delivery_ends:
  assumes s: "settle_delivery env found rid success tr ev summary err h = (Inr out, h')"
    and run: "get_run rid (hm_runs h) \<noteq> None" and goal: "get_by_run rid (hm_goals h) \<noteq> None"
  obtains r g e where "out = Some e" "get_run rid (hm_runs h') = Some r" "ended_as success r"
    "run_result_summary r = summary" "run_error r = err" "get_goal (ge_goal_id e) (hm_goals h') = Some g"
    "ended_goal success g" "hm_loops h' = hm_loops h"
proof -
  let ?u = "ended_run (delivery_acceptance success) (delivery_resolution success) summary err"
  obtain r0 where r0: "get_run rid (hm_runs h) = Some r0" using run by blast
  define r where "r = merge_run_updates (env_clock env) ?u r0 r0"
  have id: "run_id r = rid"
    using r0 by (auto simp: r_def get_run_def dest: row_of_Some)
  define h1 where "h1 = put_runs (snd (update_run (env_clock env) rid ?u (hm_runs h))) h"
  have c1: "update_run_call env rid ?u h = (Inr (Some r), h1)" by (simp add: update_run_call_eq r0 r_def h1_def)
  have r1: "get_run rid (hm_runs h1) = Some r" by (simp add: h1_def update_run_get r0 r_def)
  obtain seen where "get_by_run (run_id r) (hm_goals h1) = Some seen" using goal id by (auto simp: h1_def)
  then obtain g where g: "fst (update_for_run env r ev (hm_goals h1) (hm_goals h1)) = Some g"
      "get_goal (g_id g) (snd (update_for_run env r ev (hm_goals h1) (hm_goals h1))) = Some g" "ended_goal success g"
    using update_for_run_ended [of r "hm_goals h1" seen success env ev] ended_run_fields(1) r_def by metis
  have c2: "update_for_run_call env r ev h1 =
      (Inr (Some g), put_goals (snd (update_for_run env r ev (hm_goals h1) (hm_goals h1))) h1)"
    using g(1) by (simp add: update_for_run_call_def in_store_def split_beta)
  obtain e where e: "out = Some e" "ge_goal_id e = g_id g" "get_goal (g_id g) (hm_goals h') = Some g"
      "hm_runs h' = hm_runs h1" "hm_loops h' = hm_loops h1"
    using s unfolding settle_delivery_def Let_def
    by (auto simp: then_call_def calls c1 c2 record_event_call_eq g(2) split: option.splits if_splits)
  show thesis
    by (rule that [of e r g])
      (use e r1 g(3) in \<open>simp_all add: r_def ended_run_fields h1_def\<close>)
qed

section \<open>Properties\<close>

text \<open>
  A receipt settles everything that waited for it: when the connector's receipt for a run has been
  recorded, the run is ended, accepted and successful, so is the goal the event names, and every
  delivery loop of the goal, and the loop the receipt names, has converged.
\<close>

theorem delivery_receipt_settles:
  assumes "record_delivery env rid rc h = (Inr (Some e), h')" "get_run rid (hm_runs h) \<noteq> None"
    "get_by_run rid (hm_goals h) = Some goal"
  shows "(\<exists>r. get_run rid (hm_runs h') = Some r \<and> ended_as True r \<and> run_error r = []) \<and>
    (\<exists>g. get_goal (ge_goal_id e) (hm_goals h') = Some g \<and> ended_goal True g) \<and>
    set (delivery_loop_ids (g_id goal) (rc_delivery_id rc) (hm_loops h)) \<subseteq>
      {i. get_loop_run i (hm_loops h) = None \<or> settled_as True i (hm_loops h')}"
proof -
  let ?ev = "delivered_evidence env (g_id goal) rid rc"
  obtain h1 summary where loops: "for_each (complete_delivery_loop env (g_id goal) True ?ev)
        (delivery_loop_ids (g_id goal) (rc_delivery_id rc) (hm_loops h)) h = (Inr (), h1)"
      and rest: "settle_delivery env goal rid True (rc_trace_id rc) ?ev summary [] h1 = (Inr (Some e), h')"
    using assms(1,3)
    by (auto simp: record_delivery_def then_call_def calls complete_delivery_loops_def Let_def
        split: prod.splits sum.splits)
  note effect = complete_loops_effect [OF loops assms(2)]
  obtain r g where "get_run rid (hm_runs h') = Some r" "ended_as True r" "run_error r = []"
      "get_goal (ge_goal_id e) (hm_goals h') = Some g" "ended_goal True g" "hm_loops h' = hm_loops h1"
    using settle_delivery_ends [OF rest] effect assms(3) by (metis option.discI option.inject)
  moreover have "get_loop_run i (hm_loops h) = None \<or> settled_as True i (hm_loops h1)"
    if "i \<in> set (delivery_loop_ids (g_id goal) (rc_delivery_id rc) (hm_loops h))" for i
    using effect [where i = i] assms(3) that by blast
  ultimately show ?thesis by (simp add: subset_iff)
qed

text \<open>
  C19. What compaction keeps and what it deletes, by the predicate of the code: whatever other workers
  recorded while the provider was asked, no event that waits for an approval, is blocked or failed is lost,
  no other goal loses an event, and the stop condition of every goal is answered as before; every other
  event of the goal that was there before the provider was asked is deleted. The comment on the predicate
  also names approvals, denials and rejections; those are deleted (\<open>rejection_is_compacted_away\<close>).
\<close>

theorem compaction_keeps_constraints:
  assumes "compact_events env et ask fresh gid n view db = (Inr True, db')" "same_events view db"
  shows "filter is_constraint_event (gd_events db') = filter is_constraint_event (gd_events db) \<and>
    filter (\<lambda>e. ge_goal_id e \<noteq> gid) (gd_events db') = filter (\<lambda>e. ge_goal_id e \<noteq> gid) (gd_events db) \<and>
    stop_condition_facts env' g db' = stop_condition_facts env' g db \<and>
    (\<forall>e\<in>set (gd_events view). ge_goal_id e = gid \<and> \<not> is_constraint_event e \<longrightarrow> e \<notin> set (gd_events db'))"
proof -
  let ?gone = "ge_id ` {e \<in> set (gd_events view). ge_goal_id e = gid \<and> \<not> is_constraint_event e}"
  obtain summary where db': "gd_goals db' = gd_goals db" "gd_events db' = filter (\<lambda>e. ge_id e \<notin> ?gone)
      (gd_events db @ [compaction_event env et fresh gid (list_goal_events gid None view) summary])"
    by (rule compact_events_Inr [OF assms(1)])
  note kept = compact_events_constraints [OF assms]
  have "filter (\<lambda>e. ge_goal_id e \<noteq> gid) (filter (\<lambda>e. ge_id e \<notin> ?gone) (gd_events db)) =
      filter (\<lambda>e. ge_goal_id e \<noteq> gid) (gd_events db)"
    using assms(2) by (intro filter_kept) (auto simp: same_events_def, metis)
  moreover have counts: "count_events g ty [resolution_str Resolution_BLOCKED, resolution_str Resolution_FAILED] db' =
      count_events g ty [resolution_str Resolution_BLOCKED, resolution_str Resolution_FAILED] db" for ty
    by (subst (1 2) count_constraints) (simp_all add: kept)
  moreover have "stop_condition_facts env' g db' = stop_condition_facts env' g db"
    unfolding stop_condition_facts_def get_goal_def db'(1) counts ..
  moreover have "e \<notin> set (gd_events db')"
    if "e \<in> set (gd_events view)" "ge_goal_id e = gid" "\<not> is_constraint_event e" for e
    using that unfolding db'(2) by auto
  ultimately show ?thesis using kept db'(2) by simp
qed

text \<open>
  A rejection is no constraint of the predicate: the event that \<open>_reject_related_goal_loop\<close> records for
  a rejected approval is deleted when the log of its goal is compacted, and what the provider makes of it
  is all that remains.
\<close>

theorem rejection_is_compacted_away:
  assumes "compact_events env et ask fresh gid n db db = (Inr True, db')"
    and "e \<in> set (gd_events db)" "ge_goal_id e = gid"
    and "ge_governance e = governance_str Governance_REJECTED" "ge_resolution e = resolution_str Resolution_CANCELED"
  shows "e \<notin> set (gd_events db')"
proof -
  have "\<not> is_constraint_event e" using assms(4,5) by (simp add: is_constraint_event_def)
  moreover obtain summary where "gd_events db' = filter (\<lambda>e. ge_id e \<notin>
        ge_id ` {e \<in> set (gd_events db). ge_goal_id e = gid \<and> \<not> is_constraint_event e})
      (gd_events db @ [compaction_event env et fresh gid (list_goal_events gid None db) summary])"
    by (rule compact_events_Inr [OF assms(1)])
  ultimately show ?thesis using assms(2,3) by auto
qed

text \<open>
  Compaction forgets deliveries: a receipt is recorded as a successful event without a constraint,
  so once the log of a goal is compacted its latest delivery, which is read from that event only, is gone.
\<close>

theorem compaction_forgets_deliveries:
  assumes "compact_events env et ask fresh gid n db db = (Inr True, db')"
    "\<forall>e\<in>set (gd_events db). is_delivery e \<longrightarrow> \<not> is_constraint_event e"
  shows "latest_delivery gid db' = []"
proof -
  obtain summary where "gd_events db' = filter (\<lambda>e. ge_id e \<notin>
        ge_id ` {e \<in> set (gd_events db). ge_goal_id e = gid \<and> \<not> is_constraint_event e})
      (gd_events db @ [compaction_event env et fresh gid (list_goal_events gid None db) summary])"
    by (rule compact_events_Inr [OF assms(1)])
  then have "filter (\<lambda>e. ge_goal_id e = gid \<and> is_delivery e) (gd_events db') = []"
    using assms(2) by (auto simp: filter_empty_conv)
  then show ?thesis by (simp add: latest_delivery_def sql_desc_def)
qed


section \<open>Witnesses\<close>

definition waiting_delivery :: Home where
  "waiting_delivery = sample_home []\<lparr>hm_loops := \<lparr>ld_specs = [], ld_runs =
     [(sample_loop ''paused'')\<lparr>lr_evidence := [(''action'', JStr ''connector_outbound'')]\<rparr>],
     ld_checkpoints = [], ld_events = []\<rparr>\<rparr>"

definition sample_rc :: Receipt where
  "sample_rc = \<lparr>rc_channel = ''weixin'', rc_text_preview = ''done'', rc_text_length = 4, rc_media_count = 0,
     rc_trace_id = [], rc_delivery_id = ''goal:r1'', rc_sent_at = None\<rparr>"

lemma receipt_recorded:
  "(case fst (record_delivery (env_at 9) ''r1'' sample_rc waiting_delivery) of Inr (Some e) \<Rightarrow> True | _ \<Rightarrow> False) \<and>
   get_run ''r1'' (hm_runs waiting_delivery) \<noteq> None \<and> get_by_run ''r1'' (hm_goals waiting_delivery) \<noteq> None \<and>
   map_option g_id (get_by_run ''r1'' (hm_goals waiting_delivery)) = Some ''g1'' \<and>
   delivery_loop_ids ''g1'' ''goal:r1'' (hm_loops waiting_delivery) = [''goal:r1'', ''l1''] \<and>
   get_loop_run ''l1'' (hm_loops waiting_delivery) \<noteq> None"
  by code_simp

theorem delivery_receipt_settles_witness:
  "\<exists>e h'. record_delivery (env_at 9) ''r1'' sample_rc waiting_delivery = (Inr (Some e), h') \<and>
     settled_as True ''l1'' (hm_loops h')"
proof -
  obtain e h' where r: "record_delivery (env_at 9) ''r1'' sample_rc waiting_delivery = (Inr (Some e), h')"
    using receipt_recorded by (cases "record_delivery (env_at 9) ''r1'' sample_rc waiting_delivery")
      (auto split: sum.splits option.splits)
  obtain goal where g: "get_by_run ''r1'' (hm_goals waiting_delivery) = Some goal" "g_id goal = ''g1''"
    using receipt_recorded by auto
  have "settled_as True ''l1'' (hm_loops h')"
    using delivery_receipt_settles [OF r _ g(1)] receipt_recorded g(2) by (auto simp: sample_rc_def)
  with r show ?thesis by blast
qed

definition event_at :: "time \<Rightarrow> string \<Rightarrow> string \<Rightarrow> string \<Rightarrow> GoalEvent" where
  "event_at t i ty res = \<lparr>ge_id = i, ge_goal_id = ''g1'', ge_event_type = ty, ge_phase = ''running'',
     ge_governance = ''none'', ge_acceptance = ''none'', ge_resolution = res, ge_run_id = ''r1'',
     ge_trace_id = [], ge_evidence = [(''n'', JStr i)], ge_created_at = t\<rparr>"

definition long_log :: GoalDb where
  "long_log = \<lparr>gd_goals = [], gd_events =
     [event_at 1 ''a'' ''goal.run_state'' ''blocked'', event_at 2 ''b'' ''goal.delivery_succeeded'' ''success'']\<rparr>"

definition fresh_blocker :: GoalDb where
  "fresh_blocker = long_log\<lparr>gd_events := gd_events long_log @ [event_at 3 ''c'' ''goal.run_state'' ''failed'']\<rparr>"

theorem compaction_keeps_constraints_witness:
  "filter is_constraint_event (gd_events (snd (compact_events (env_at 9) (\<lambda>d. []) (\<lambda>ls. Inr ''s'') ''z'' ''g1'' 1
      long_log fresh_blocker))) = filter is_constraint_event (gd_events fresh_blocker)"
proof -
  have "fst (compact_events (env_at 9) (\<lambda>d. []) (\<lambda>ls. Inr ''s'') ''z'' ''g1'' 1 long_log fresh_blocker) = Inr True"
    by (simp add: compact_events_def list_goal_events_def sql_asc_def long_log_def event_at_def)
  moreover have "same_events long_log fresh_blocker"
    by (simp add: same_events_def long_log_def fresh_blocker_def event_at_def)
  ultimately show ?thesis
    using compaction_keeps_constraints [where view = long_log and db = fresh_blocker] by (metis prod.collapse)
qed

definition rejected_log :: GoalDb where
  "rejected_log = long_log\<lparr>gd_events := gd_events long_log @
     [(event_at 3 ''d'' ''goal.approval_rejected'' ''canceled'')\<lparr>ge_governance := ''rejected''\<rparr>]\<rparr>"

theorem rejection_is_compacted_away_witness:
  "''d'' \<in> set (map ge_id (gd_events rejected_log)) \<and>
   (event_at 3 ''d'' ''goal.approval_rejected'' ''canceled'')\<lparr>ge_governance := ''rejected''\<rparr> \<notin>
     set (gd_events (snd (compact_events (env_at 9) (\<lambda>d. []) (\<lambda>ls. Inr ''s'') ''z'' ''g1'' 1 rejected_log rejected_log)))"
proof
  let ?e = "(event_at 3 ''d'' ''goal.approval_rejected'' ''canceled'')\<lparr>ge_governance := ''rejected''\<rparr>"
  let ?c = "compact_events (env_at 9) (\<lambda>d. []) (\<lambda>ls. Inr ''s'') ''z'' ''g1'' 1 rejected_log rejected_log"
  have "fst ?c = Inr True"
    by (simp add: compact_events_def list_goal_events_def sql_asc_def long_log_def rejected_log_def event_at_def)
  then have c: "?c = (Inr True, snd ?c)" by (metis prod.collapse)
  show "?e \<notin> set (gd_events (snd ?c))"
    by (rule rejection_is_compacted_away [OF c]) (simp_all add: rejected_log_def event_at_def)
qed (simp add: rejected_log_def event_at_def)

theorem compaction_forgets_deliveries_witness:
  "latest_delivery ''g1'' long_log \<noteq> [] \<and>
   latest_delivery ''g1'' (snd (compact_events (env_at 9) (\<lambda>d. []) (\<lambda>ls. Inr ''s'') ''z'' ''g1'' 1 long_log long_log)) = []"
proof
  show "latest_delivery ''g1'' long_log \<noteq> []"
    by (simp add: latest_delivery_def sql_desc_def long_log_def event_at_def is_delivery_def)
  have "fst (compact_events (env_at 9) (\<lambda>d. []) (\<lambda>ls. Inr ''s'') ''z'' ''g1'' 1 long_log long_log) = Inr True"
    by (simp add: compact_events_def list_goal_events_def sql_asc_def long_log_def event_at_def)
  moreover have "\<forall>e\<in>set (gd_events long_log). is_delivery e \<longrightarrow> \<not> is_constraint_event e"
    by (simp add: long_log_def event_at_def is_delivery_def is_constraint_event_def)
  ultimately show "latest_delivery ''g1'' (snd (compact_events (env_at 9) (\<lambda>d. []) (\<lambda>ls. Inr ''s'') ''z'' ''g1'' 1 long_log long_log)) = []"
    using compaction_forgets_deliveries [where db = long_log] by (metis prod.collapse)
qed

end
