(* ===== verification/Loop_Spec_Codec.thy ===== *)
theory Loop_Spec_Codec
  imports Loop_Run_Store
begin

text \<open>
  \<open>_loop_spec_from_json\<close> of \<open>navi/loop_control_service.py\<close>: a loop specification read back from the
  JSON document that \<open>LoopSpec.to_dict\<close> wrote, and the round trip between the two.

  \<open>value[key]\<close>, \<open>str(value)\<close>, iteration and \<open>Policy(**mapping)\<close> raise as in Python. A policy class does
  not check the types of its arguments; here a value that is not of the type of its field is refused
  with the \<open>TypeError\<close> that its first use would raise.
\<close>

section \<open>Access to a document\<close>

definition json_item :: "json \<Rightarrow> string \<Rightarrow> json result" where
  "json_item v k =
     (case v of
        JDict d \<Rightarrow> (case map_of d k of None \<Rightarrow> Inl (KeyError k) | Some x \<Rightarrow> Inr x)
      | _ \<Rightarrow> Inl (TypeError ''object is not subscriptable''))"

definition get_str :: "json \<Rightarrow> string \<Rightarrow> string result" where
  "get_str v k = and_then (json_item v k) (\<lambda>x. Inr (py_str x))"

definition iterate :: "json \<Rightarrow> json list result" where
  "iterate v =
     (case v of
        JList xs \<Rightarrow> Inr xs
      | JStr s \<Rightarrow> Inr (map (\<lambda>c. JStr [c]) s)
      | JDict d \<Rightarrow> Inr (map (JStr \<circ> fst) d)
      | _ \<Rightarrow> Inl (TypeError ''object is not iterable''))"

fun each_value :: "('a \<Rightarrow> 'e + 'b) \<Rightarrow> 'a list \<Rightarrow> 'e + 'b list" where
  "each_value f [] = Inr []"
| "each_value f (x # xs) = and_then (f x) (\<lambda>y. and_then (each_value f xs) (\<lambda>ys. Inr (y # ys)))"

definition get_texts :: "json \<Rightarrow> string \<Rightarrow> string list result" where
  "get_texts v k = and_then (json_item v k) (\<lambda>x. and_then (iterate x) (\<lambda>xs. Inr (map py_str xs)))"

definition required_dict :: "json \<Rightarrow> string \<Rightarrow> dict result" where
  "required_dict v k = and_then (json_item v k) (\<lambda>x.
     case x of JDict d \<Rightarrow> Inr d | _ \<Rightarrow> Inl (ValueError (''LoopSpec.'' @ k @ '' must be an object'')))"

section \<open>Keyword arguments\<close>

definition only_keywords :: "string list \<Rightarrow> dict \<Rightarrow> unit result" where
  "only_keywords names d =
     (case find (\<lambda>k. k \<notin> set names) (map fst d) of
        None \<Rightarrow> Inr ()
      | Some k \<Rightarrow> Inl (TypeError (''got an unexpected keyword argument '' @ repr_str k)))"

definition keyword :: "(json \<Rightarrow> 'a result) \<Rightarrow> 'a \<Rightarrow> dict \<Rightarrow> string \<Rightarrow> 'a result" where
  "keyword conv dflt d k = (case map_of d k of None \<Rightarrow> Inr dflt | Some v \<Rightarrow> conv v)"

fun as_number :: "json \<Rightarrow> rat result" where
  "as_number (JInt i) = Inr (of_int i)"
| "as_number (JFloat q) = Inr q"
| "as_number (JBool b) = Inr (if b then 1 else 0)"
| "as_number _ = Inl (TypeError ''comparison not supported between instances'')"

fun as_int :: "json \<Rightarrow> int result" where
  "as_int (JInt i) = Inr i"
| "as_int (JBool b) = Inr (if b then 1 else 0)"
| "as_int _ = Inl (TypeError ''comparison not supported between instances'')"

fun as_text :: "json \<Rightarrow> string result" where
  "as_text (JStr s) = Inr s"
| "as_text _ = Inl (TypeError ''expected a string'')"

definition as_flag :: "json \<Rightarrow> bool result" where
  "as_flag v = Inr (py_truthy v)"

definition timeout_policy_of :: "dict \<Rightarrow> TimeoutPolicy result" where
  "timeout_policy_of d =
     and_then (only_keywords [''seconds'', ''kill_signal'', ''stdout_tail_bytes'', ''stderr_tail_bytes''] d) (\<lambda>_.
     and_then (keyword as_number (tp_seconds default_timeout_policy) d ''seconds'') (\<lambda>seconds.
     and_then (keyword as_text (tp_kill_signal default_timeout_policy) d ''kill_signal'') (\<lambda>signal.
     and_then (keyword as_int (tp_stdout_tail_bytes default_timeout_policy) d ''stdout_tail_bytes'') (\<lambda>out.
     and_then (keyword as_int (tp_stderr_tail_bytes default_timeout_policy) d ''stderr_tail_bytes'') (\<lambda>err.
     Inr \<lparr>tp_seconds = seconds, tp_kill_signal = signal, tp_stdout_tail_bytes = out,
          tp_stderr_tail_bytes = err\<rparr>)))))"

definition workspace_policy_of :: "dict \<Rightarrow> WorkspacePolicy result" where
  "workspace_policy_of d =
     and_then (only_keywords [''mode'', ''require_fingerprint'', ''require_three_way_merge'', ''require_locks'', ''atomic_merge''] d) (\<lambda>_.
     and_then (keyword as_text (wp_mode default_workspace_policy) d ''mode'') (\<lambda>mode.
     and_then (keyword as_flag (wp_require_fingerprint default_workspace_policy) d ''require_fingerprint'') (\<lambda>fingerprint.
     and_then (keyword as_flag (wp_require_three_way_merge default_workspace_policy) d ''require_three_way_merge'') (\<lambda>merge.
     and_then (keyword as_flag (wp_require_locks default_workspace_policy) d ''require_locks'') (\<lambda>locks.
     and_then (keyword as_flag (wp_atomic_merge default_workspace_policy) d ''atomic_merge'') (\<lambda>atomic.
     Inr \<lparr>wp_mode = mode, wp_require_fingerprint = fingerprint, wp_require_three_way_merge = merge,
          wp_require_locks = locks, wp_atomic_merge = atomic\<rparr>))))))"

definition checkpoint_policy_of :: "dict \<Rightarrow> CheckpointPolicy result" where
  "checkpoint_policy_of d =
     and_then (only_keywords [''before_state_transition'', ''before_side_effect'', ''persist_node_inputs'', ''persist_node_outputs''] d) (\<lambda>_.
     and_then (keyword as_flag (cp_before_state_transition default_checkpoint_policy) d ''before_state_transition'') (\<lambda>move.
     and_then (keyword as_flag (cp_before_side_effect default_checkpoint_policy) d ''before_side_effect'') (\<lambda>effect.
     and_then (keyword as_flag (cp_persist_node_inputs default_checkpoint_policy) d ''persist_node_inputs'') (\<lambda>inputs.
     and_then (keyword as_flag (cp_persist_node_outputs default_checkpoint_policy) d ''persist_node_outputs'') (\<lambda>outputs.
     Inr \<lparr>cp_before_state_transition = move, cp_before_side_effect = effect,
          cp_persist_node_inputs = inputs, cp_persist_node_outputs = outputs\<rparr>)))))"

definition retry_policy_of :: "dict \<Rightarrow> RetryPolicy result" where
  "retry_policy_of d =
     and_then (only_keywords [''max_attempts'', ''reflect_before_retry''] d) (\<lambda>_.
     and_then (keyword as_int (rp_max_attempts default_retry_policy) d ''max_attempts'') (\<lambda>attempts.
     and_then (keyword as_flag (rp_reflect_before_retry default_retry_policy) d ''reflect_before_retry'') (\<lambda>reflect.
     Inr \<lparr>rp_max_attempts = attempts, rp_reflect_before_retry = reflect\<rparr>)))"

definition budget_policy_of :: "dict \<Rightarrow> BudgetPolicy result" where
  "budget_policy_of d =
     and_then (only_keywords [''token_budget'', ''call_budget'', ''cost_budget'', ''qps_limit'', ''max_concurrent''] d) (\<lambda>_.
     and_then (keyword as_int (bp_token_budget default_budget_policy) d ''token_budget'') (\<lambda>tokens.
     and_then (keyword as_int (bp_call_budget default_budget_policy) d ''call_budget'') (\<lambda>calls.
     and_then (keyword as_number (bp_cost_budget default_budget_policy) d ''cost_budget'') (\<lambda>cost.
     and_then (keyword as_int (bp_qps_limit default_budget_policy) d ''qps_limit'') (\<lambda>qps.
     and_then (keyword as_int (bp_max_concurrent default_budget_policy) d ''max_concurrent'') (\<lambda>concurrent.
     Inr \<lparr>bp_token_budget = tokens, bp_call_budget = calls, bp_cost_budget = cost, bp_qps_limit = qps,
          bp_max_concurrent = concurrent\<rparr>))))))"

definition rollback_policy_of :: "dict \<Rightarrow> RollbackPolicy result" where
  "rollback_policy_of d =
     and_then (only_keywords [''discard_shadow_on_failure'', ''rollback_to_checkpoint'', ''require_human_on_uncertain_side_effect''] d) (\<lambda>_.
     and_then (keyword as_flag (rb_discard_shadow_on_failure default_rollback_policy) d ''discard_shadow_on_failure'') (\<lambda>discard.
     and_then (keyword as_flag (rb_rollback_to_checkpoint default_rollback_policy) d ''rollback_to_checkpoint'') (\<lambda>rollback.
     and_then (keyword as_flag (rb_require_human_on_uncertain_side_effect default_rollback_policy) d ''require_human_on_uncertain_side_effect'') (\<lambda>human.
     Inr \<lparr>rb_discard_shadow_on_failure = discard, rb_rollback_to_checkpoint = rollback,
          rb_require_human_on_uncertain_side_effect = human\<rparr>))))"

definition escalation_policy_of :: "dict \<Rightarrow> EscalationPolicy result" where
  "escalation_policy_of d =
     and_then (only_keywords [''ask_user_on_conflict'', ''ask_user_on_approval'', ''ask_user_on_uncertain_side_effect''] d) (\<lambda>_.
     and_then (keyword as_flag (ep_ask_user_on_conflict default_escalation_policy) d ''ask_user_on_conflict'') (\<lambda>conflict.
     and_then (keyword as_flag (ep_ask_user_on_approval default_escalation_policy) d ''ask_user_on_approval'') (\<lambda>approval.
     and_then (keyword as_flag (ep_ask_user_on_uncertain_side_effect default_escalation_policy) d ''ask_user_on_uncertain_side_effect'') (\<lambda>uncertain.
     Inr \<lparr>ep_ask_user_on_conflict = conflict, ep_ask_user_on_approval = approval,
          ep_ask_user_on_uncertain_side_effect = uncertain\<rparr>))))"

section \<open>The specification\<close>

definition goal_spec_of_json :: "json \<Rightarrow> GoalSpec result" where
  "goal_spec_of_json v =
     and_then (get_str v ''objective'') (\<lambda>objective.
     and_then (get_texts v ''scope'') (\<lambda>scope.
     and_then (get_texts v ''constraints'') (\<lambda>constraints.
     and_then (get_texts v ''acceptance_criteria'') (\<lambda>criteria.
     and_then (get_str v ''permission_ceiling'') (\<lambda>ceiling.
     and_then (get_str v ''risk_level'') (\<lambda>risk.
     and_then (get_str v ''owner'') (\<lambda>owner.
     and_then (get_str v ''resume_policy'') (\<lambda>resume.
     and_then (get_str v ''cancel_policy'') (\<lambda>cancel.
     and_then (get_str v ''memory_policy'') (\<lambda>memory.
     and_then (required_dict v ''metadata'') (\<lambda>metadata.
     Inr \<lparr>gs_objective = objective, gs_scope = scope, gs_constraints = constraints,
          gs_acceptance_criteria = criteria, gs_permission_ceiling = ceiling, gs_risk_level = risk,
          gs_owner = owner, gs_resume_policy = resume, gs_cancel_policy = cancel,
          gs_memory_policy = memory, gs_metadata = metadata\<rparr>)))))))))))"

definition state_transition_of_json :: "json \<Rightarrow> StateTransition result" where
  "state_transition_of_json v =
     and_then (get_str v ''source'') (\<lambda>source.
     and_then (get_str v ''target'') (\<lambda>target.
     and_then (get_str v ''condition'') (\<lambda>condition.
     Inr \<lparr>st_source = source, st_target = target, st_condition = condition\<rparr>)))"

definition verification_step_of_json :: "json \<Rightarrow> VerificationStep result" where
  "verification_step_of_json v =
     and_then (get_str v ''kind'') (\<lambda>kind.
     and_then (get_str v ''name'') (\<lambda>name.
     and_then (json_item v ''required'') (\<lambda>required.
     and_then (get_str v ''command'') (\<lambda>command.
     and_then (get_str v ''evidence_key'') (\<lambda>evidence_key.
     and_then (required_dict v ''timeout'') (\<lambda>d.
     and_then (timeout_policy_of d) (\<lambda>timeout.
     Inr \<lparr>vs_kind = kind, vs_name = name, vs_required = py_truthy required, vs_command = command,
          vs_evidence_key = evidence_key, vs_timeout = timeout\<rparr>)))))))"

definition each_item :: "(json \<Rightarrow> 'a result) \<Rightarrow> json \<Rightarrow> string \<Rightarrow> 'a list result" where
  "each_item f v k = and_then (json_item v k) (\<lambda>x. and_then (iterate x) (each_value f))"

definition policy_of :: "(dict \<Rightarrow> 'a result) \<Rightarrow> json \<Rightarrow> string \<Rightarrow> 'a result" where
  "policy_of f v k = and_then (required_dict v k) f"

definition float_of_json :: "json \<Rightarrow> time result" where
  "float_of_json v = (case py_float v of Some (Finite q) \<Rightarrow> Inr q | _ \<Rightarrow> Inl (ValueError ''could not convert to float''))"

definition loop_spec_from_json :: "json \<Rightarrow> LoopSpec result" where
  "loop_spec_from_json data =
     and_then (json_item data ''goal'') (\<lambda>goal_data.
     and_then (get_str data ''id'') (\<lambda>spec_id.
     and_then (get_str data ''goal_id'') (\<lambda>goal_id.
     and_then (goal_spec_of_json goal_data) (\<lambda>goal.
     and_then (each_item state_transition_of_json data ''state_graph'') (\<lambda>graph.
     and_then (get_texts data ''allowed_capabilities'') (\<lambda>allowed.
     and_then (each_item verification_step_of_json data ''verification_ladder'') (\<lambda>ladder.
     and_then (policy_of workspace_policy_of data ''workspace_policy'') (\<lambda>workspace.
     and_then (policy_of checkpoint_policy_of data ''checkpoint_policy'') (\<lambda>checkpoint.
     and_then (policy_of retry_policy_of data ''retry_policy'') (\<lambda>retry.
     and_then (policy_of budget_policy_of data ''budget_policy'') (\<lambda>budget.
     and_then (policy_of rollback_policy_of data ''rollback_policy'') (\<lambda>rollback.
     and_then (policy_of escalation_policy_of data ''escalation_policy'') (\<lambda>escalation.
     and_then (get_texts data ''terminal_states'') (\<lambda>terminals.
     and_then (json_item data ''created_at'') (\<lambda>stamp. and_then (float_of_json stamp) (\<lambda>created_at.
     let spec = \<lparr>ls_id = spec_id, ls_goal_id = goal_id, ls_goal = goal, ls_state_graph = graph,
        ls_allowed_capabilities = allowed, ls_verification_ladder = ladder,
        ls_workspace_policy = workspace, ls_checkpoint_policy = checkpoint, ls_retry_policy = retry,
        ls_budget_policy = budget, ls_rollback_policy = rollback, ls_escalation_policy = escalation,
        ls_terminal_states = terminals, ls_created_at = created_at\<rparr>
     in and_then (loop_spec_validate spec) (\<lambda>_. Inr spec)))))))))))))))))"

section \<open>Round trips\<close>

lemma json_item_Cons:
  "json_item (JDict ((k', x) # d)) k = (if k' = k then Inr x else json_item (JDict d) k)"
  by (simp add: json_item_def)

lemmas codec = get_str_def get_texts_def required_dict_def iterate_def keyword_def only_keywords_def as_flag_def
  comp_def

lemma each_value_map:
  assumes "\<And>x. x \<in> set xs \<Longrightarrow> f (g x) = Inr x"
  shows "each_value f (map g xs) = Inr xs"
  using assms by (induction xs) simp_all

lemma timeout_policy_round: "timeout_policy_of (timeout_policy_to_dict t) = Inr t"
  by (simp add: timeout_policy_of_def timeout_policy_to_dict_def codec)

lemma workspace_policy_round: "workspace_policy_of (workspace_policy_to_dict w) = Inr w"
  by (simp add: workspace_policy_of_def workspace_policy_to_dict_def codec)

lemma checkpoint_policy_round: "checkpoint_policy_of (checkpoint_policy_to_dict c) = Inr c"
  by (simp add: checkpoint_policy_of_def checkpoint_policy_to_dict_def codec)

lemma retry_policy_round: "retry_policy_of (retry_policy_to_dict r) = Inr r"
  by (simp add: retry_policy_of_def retry_policy_to_dict_def codec)

lemma budget_policy_round: "budget_policy_of (budget_policy_to_dict b) = Inr b"
  by (simp add: budget_policy_of_def budget_policy_to_dict_def codec)

lemma rollback_policy_round: "rollback_policy_of (rollback_policy_to_dict r) = Inr r"
  by (simp add: rollback_policy_of_def rollback_policy_to_dict_def codec)

lemma escalation_policy_round: "escalation_policy_of (escalation_policy_to_dict e) = Inr e"
  by (simp add: escalation_policy_of_def escalation_policy_to_dict_def codec)

lemma goal_spec_round: "goal_spec_of_json (JDict (goal_spec_to_dict g)) = Inr g"
  by (simp add: goal_spec_of_json_def goal_spec_to_dict_def codec json_item_Cons)

lemma state_transition_round: "state_transition_of_json (JDict (state_transition_to_dict e)) = Inr e"
  by (simp add: state_transition_of_json_def state_transition_to_dict_def codec json_item_Cons)

lemma verification_step_round: "verification_step_of_json (JDict (verification_step_to_dict v)) = Inr v"
  by (simp add: verification_step_of_json_def verification_step_to_dict_def codec json_item_Cons
      timeout_policy_round)

lemmas rounds = goal_spec_round state_transition_round verification_step_round workspace_policy_round
  checkpoint_policy_round retry_policy_round budget_policy_round rollback_policy_round
  escalation_policy_round each_value_map

lemma loop_spec_fields:
  fixes s :: LoopSpec
  defines "d \<equiv> JDict (loop_spec_to_dict s)"
  shows "json_item d ''goal'' = Inr (JDict (goal_spec_to_dict (ls_goal s)))"
    "get_str d ''id'' = Inr (ls_id s)" "get_str d ''goal_id'' = Inr (ls_goal_id s)"
    "each_item state_transition_of_json d ''state_graph'' = Inr (ls_state_graph s)"
    "get_texts d ''allowed_capabilities'' = Inr (ls_allowed_capabilities s)"
    "each_item verification_step_of_json d ''verification_ladder'' = Inr (ls_verification_ladder s)"
    "policy_of workspace_policy_of d ''workspace_policy'' = Inr (ls_workspace_policy s)"
    "policy_of checkpoint_policy_of d ''checkpoint_policy'' = Inr (ls_checkpoint_policy s)"
    "policy_of retry_policy_of d ''retry_policy'' = Inr (ls_retry_policy s)"
    "policy_of budget_policy_of d ''budget_policy'' = Inr (ls_budget_policy s)"
    "policy_of rollback_policy_of d ''rollback_policy'' = Inr (ls_rollback_policy s)"
    "policy_of escalation_policy_of d ''escalation_policy'' = Inr (ls_escalation_policy s)"
    "get_texts d ''terminal_states'' = Inr (ls_terminal_states s)"
    "json_item d ''created_at'' = Inr (JFloat (ls_created_at s))"
  by (simp_all add: d_def loop_spec_to_dict_def json_item_Cons codec each_item_def policy_of_def rounds)

lemma loop_spec_from_json_to_dict:
  "loop_spec_from_json (JDict (loop_spec_to_dict s)) = and_then (loop_spec_validate s) (\<lambda>_. Inr s)"
  by (simp add: loop_spec_from_json_def loop_spec_fields rounds float_of_json_def py_float_def Let_def)
    (cases s, simp)

lemma loop_spec_saved:
  assumes "save_spec spec db = Inr db'"
  shows "and_then (get_spec_json (ls_id spec) db') loop_spec_from_json = Inr spec"
proof -
  have valid: "loop_spec_validate spec = Inr ()" and db': "db' = save_spec_in_transaction spec db"
    using assms by (auto simp: save_spec_def split: sum.splits elim: and_then.elims)
  have "\<exists>r. row_of lsr_id (ls_id spec) (ld_specs db') = Some r \<and> lsr_spec r = JDict (loop_spec_to_dict spec)"
  proof (cases "row_of lsr_id (ls_id spec) (ld_specs db)")
    case None
    then have "ls_id spec \<notin> lsr_id ` set (ld_specs db)" by (simp add: row_of_None)
    then show ?thesis using None by (simp add: db' save_spec_in_transaction_def row_of_append)
  next
    case (Some r)
    then have "ls_id spec \<in> lsr_id ` set (ld_specs db)" by (metis option.distinct(1) row_of_None)
    then show ?thesis
      using Some row_of_Some [OF Some] by (simp add: db' save_spec_in_transaction_def) (subst row_of_update; simp)
  qed
  then show ?thesis
    by (auto simp: get_spec_json_def loop_spec_from_json_to_dict valid)
qed


text \<open>
  C18. A loop specification survives its storage: what the store has accepted and saved under an
  identifier is what the control service reads back, field by field, and it is valid; an invalid
  specification is neither stored nor read.
\<close>

theorem saved_spec_is_read_back:
  assumes "save_spec spec db = Inr db'"
  shows "and_then (get_spec_json (ls_id spec) db') loop_spec_from_json = Inr spec"
  using assms by (rule loop_spec_saved)

theorem saved_spec_is_read_back_witness:
  "\<exists>spec db'. save_spec spec \<lparr>ld_specs = [], ld_runs = [], ld_checkpoints = [], ld_events = []\<rparr> = Inr db' \<and>
     and_then (get_spec_json (ls_id spec) db') loop_spec_from_json = Inr spec"
proof -
  have "is_ok (and_then (loop_spec_from_goal ''i'' 5 sample_goal ''g'' [''cap''] [sample_step])
      (\<lambda>s. save_spec s \<lparr>ld_specs = [], ld_runs = [], ld_checkpoints = [], ld_events = []\<rparr>))"
    by code_simp
  then obtain spec db' where "save_spec spec \<lparr>ld_specs = [], ld_runs = [], ld_checkpoints = [], ld_events = []\<rparr> = Inr db'"
    by (auto simp: is_ok_iff)
  then show ?thesis using saved_spec_is_read_back by blast
qed

end
