(* ===== verification/Loop_Requests.thy ===== *)
theory Loop_Requests
  imports Goal_Delivery Loop_Spec_Codec Graph_Decisions Cron
begin

text \<open>
  The requests of \<open>navi/loop_control_service.py\<close> and what the service computes from them before it
  writes: the kind and mode of a loop, the specification of its goal, the task context, and the
  projection of a loop result on a run.

  \<open>Host\<close> is what the service asks the machine: whether a text names a directory and which path it
  resolves to, the specifications of the tool gateway as \<open>(name, mutates, workspace_policy)\<close>, and the
  local minute of a moment with its inverse, which the cron search counts in.
\<close>

record Host =
  ho_directory :: "string \<Rightarrow> string option"
  ho_tools :: "string \<Rightarrow> (string \<times> bool \<times> string) list"
  ho_minute :: "time \<Rightarrow> int"
  ho_moment :: "int \<Rightarrow> time"

section \<open>Requests\<close>

record OpenGoalRequest =
  og_objective :: string
  og_workspace :: string
  og_loop_kind :: string
  og_source :: string
  og_peer_id :: string
  og_sender_id :: string
  og_session_id :: string
  og_scope :: "string list"
  og_constraints :: "string list"
  og_acceptance_criteria :: "string list"
  og_permission_ceiling :: string
  og_allowed_capabilities :: "string list"
  og_verification_command :: string
  og_timeout_seconds :: int
  og_token_budget :: int
  og_call_budget :: int
  og_cost_budget :: rat
  og_qps_limit :: int
  og_max_concurrent :: int
  og_auto_start :: bool
  og_execution_mode :: string
  og_cron_schedule :: string
  og_parent_goal_id :: string
  og_trigger_facts :: dict
  og_task_context :: dict
  og_allow_duplicate_schedule :: bool
  og_child_active_limit :: int

text \<open>The defaults of the class, for an objective in a workspace.\<close>

definition open_request :: "string \<Rightarrow> string \<Rightarrow> OpenGoalRequest" where
  "open_request objective workspace =
     \<lparr>og_objective = objective, og_workspace = workspace, og_loop_kind = ''durable_goal'',
      og_source = ''local'', og_peer_id = [], og_sender_id = [], og_session_id = [], og_scope = [],
      og_constraints = [], og_acceptance_criteria = [], og_permission_ceiling = ''write'',
      og_allowed_capabilities = [], og_verification_command = [], og_timeout_seconds = 120,
      og_token_budget = 0, og_call_budget = 0, og_cost_budget = 0, og_qps_limit = 0,
      og_max_concurrent = 1, og_auto_start = True, og_execution_mode = [], og_cron_schedule = [],
      og_parent_goal_id = [], og_trigger_facts = [], og_task_context = [],
      og_allow_duplicate_schedule = False, og_child_active_limit = 0\<rparr>"

record UpdateGoalRequest =
  ug_goal_id :: string
  ug_objective :: string
  ug_cron_schedule :: string
  ug_scope :: "string list option"
  ug_constraints :: "string list option"
  ug_acceptance_criteria :: "string list option"
  ug_permission_ceiling :: string
  ug_allowed_capabilities :: "string list option"
  ug_verification_command :: "string option"
  ug_timeout_seconds :: int
  ug_token_budget :: int
  ug_call_budget :: int
  ug_cost_budget :: rat
  ug_qps_limit :: int
  ug_max_concurrent :: int
  ug_allow_duplicate_schedule :: bool

section \<open>Kinds, modes and places\<close>

definition loop_kind_text :: "string \<Rightarrow> string result" where
  "loop_kind_text v =
     (let normalized = map (\<lambda>c. if c = CHR ''-'' then CHR ''_'' else c) (py_lower (py_strip v))
      in if normalized = [] then Inr ''durable_goal''
         else if normalized \<in> {''turn'', ''control'', ''durable_goal'', ''scheduled''} then Inr normalized
         else Inl (ValueError (''unsupported loop_kind: '' @ v)))"

definition execution_mode :: "OpenGoalRequest \<Rightarrow> string \<Rightarrow> string result" where
  "execution_mode rq loop_kind =
     (let declared = py_lower (py_strip (og_execution_mode rq))
      in if declared \<noteq> []
         then if declared \<notin> {''foreground'', ''background'', ''manual'', ''scheduled''}
              then Inl (ValueError (''unsupported execution_mode: '' @ og_execution_mode rq))
              else if loop_kind = ''scheduled'' \<and> declared \<noteq> ''scheduled''
              then Inl (ValueError ''scheduled goal registration requires execution_mode=scheduled'')
              else Inr declared
         else if loop_kind = ''scheduled'' then Inr ''scheduled''
         else Inr (if og_auto_start rq then ''background'' else ''manual''))"

definition resolve_workspace :: "Host \<Rightarrow> string \<Rightarrow> string result" where
  "resolve_workspace host workspace =
     (let raw = py_strip workspace
      in if raw = [] then Inl (ValueError ''workspace is required'')
         else case ho_directory host raw of
           None \<Rightarrow> Inl (ValueError ''workspace must be an existing directory'')
         | Some path \<Rightarrow> Inr path)"

definition next_cron_at :: "Host \<Rightarrow> string \<Rightarrow> time \<Rightarrow> time result" where
  "next_cron_at host expression now =
     and_then (next_cron_time expression (ho_minute host now)) (\<lambda>m. Inr (ho_moment host m))"

definition execution_profile :: "string \<Rightarrow> dict" where
  "execution_profile loop_kind =
     (if loop_kind = ''turn''
      then [(''name'', JStr ''interactive_turn''), (''persistence'', JStr ''transient_audit''),
            (''checker_tier'', JStr ''semantic''), (''retention_seconds'', JInt 86400)]
      else if loop_kind = ''control''
      then [(''name'', JStr ''control_operation''), (''persistence'', JStr ''durable''),
            (''checker_tier'', JStr ''objective_evidence''), (''retention_seconds'', JInt 604800)]
      else if loop_kind = ''scheduled''
      then [(''name'', JStr ''scheduled_goal''), (''persistence'', JStr ''durable''),
            (''checker_tier'', JStr ''objective_evidence''), (''retention_seconds'', JInt 0)]
      else [(''name'', JStr ''durable_goal''), (''persistence'', JStr ''durable''),
            (''checker_tier'', JStr ''semantic''), (''retention_seconds'', JInt 0)])"

definition loop_max_attempts :: "string \<Rightarrow> int result" where
  "loop_max_attempts loop_kind =
     (case map_of [(''turn'', 5), (''control'', 3), (''scheduled'', 6), (''durable_goal'', 10)] loop_kind of
        None \<Rightarrow> Inl (KeyError loop_kind)
      | Some n \<Rightarrow> Inr n)"

definition retry_policy_for_loop_kind :: "string \<Rightarrow> RetryPolicy result" where
  "retry_policy_for_loop_kind loop_kind =
     and_then (loop_max_attempts loop_kind) (\<lambda>n. Inr \<lparr>rp_max_attempts = n, rp_reflect_before_retry = True\<rparr>)"

definition workspace_policy_for_capabilities :: "Host \<Rightarrow> string \<Rightarrow> string list \<Rightarrow> WorkspacePolicy" where
  "workspace_policy_for_capabilities host workspace allowed =
     default_workspace_policy\<lparr>wp_mode := workspaceMode_str
       (if list_ex (\<lambda>(name, mutates, policy). mutates \<and> policy \<in> {''paths'', ''sandbox''}
              \<and> (''*'' \<in> set allowed \<or> name \<in> set allowed)) (ho_tools host workspace)
        then WorkspaceMode_SHADOW else WorkspaceMode_READ_ONLY)\<rparr>"

section \<open>The task context\<close>

definition int_or_default :: "json \<Rightarrow> int \<Rightarrow> int" where
  "int_or_default v dflt =
     (case v of
        JInt i \<Rightarrow> i
      | JBool b \<Rightarrow> (if b then 1 else 0)
      | JFloat q \<Rightarrow> (if q < 0 then - \<lfloor>- q\<rfloor> else \<lfloor>q\<rfloor>)
      | JStr s \<Rightarrow> (case py_int s of Inl _ \<Rightarrow> dflt | Inr i \<Rightarrow> i)
      | _ \<Rightarrow> dflt)"

definition text_or :: "json \<Rightarrow> string \<Rightarrow> string" where
  "text_or v dflt = (if py_truthy v then py_str v else dflt)"

definition prior_items :: "dict \<Rightarrow> json list result" where
  "prior_items progress =
     (let v = jget progress ''authoritative_prior_items''
      in and_then (if py_truthy v then iterate v else Inr []) (\<lambda>items. Inr (filter is_dict items)))"

definition normalize_task_context :: "dict \<Rightarrow> string \<Rightarrow> string \<Rightarrow> dict result" where
  "normalize_task_context raw current_goal_id parent_goal_id =
     (let lineage = as_dict (jget raw ''lineage''); progress = as_dict (jget raw ''progress'')
      in and_then (prior_items progress) (\<lambda>items.
         Inr [(''lineage'', JDict
               [(''id'', JStr (text_or (jget lineage ''id'') (or_else parent_goal_id current_goal_id))),
                (''kind'', JStr (text_or (jget lineage ''kind'') ''goal'')),
                (''current_goal_id'', JStr current_goal_id), (''parent_goal_id'', JStr parent_goal_id)]),
              (''progress'', JDict
               [(''scope'', JStr (text_or (jget progress ''scope'') ''goal'')),
                (''sequence_number'', JInt (int_or_default (jget progress ''sequence_number'') 0)),
                (''authority'', JStr (text_or (jget progress ''authority'') ''current_goal'')),
                (''authoritative_prior_items'', JList items),
                (''authoritative_prior_item_count'', JInt (int (length items))),
                (''ambient_history_authoritative'',
                   JBool (py_truthy (jget progress ''ambient_history_authoritative'')))])]))"

definition goal_task_context :: "Goal \<Rightarrow> dict" where
  "goal_task_context goal =
     [(''lineage'', JDict [(''id'', JStr (or_else (g_parent_goal_id goal) (g_id goal))), (''kind'', JStr ''goal'')]),
      (''progress'', JDict
        [(''scope'', JStr ''goal''), (''sequence_number'', JInt 0), (''authority'', JStr ''current_goal''),
         (''authoritative_prior_items'', JList []), (''ambient_history_authoritative'', JBool False)])]"

definition task_context_for_request :: "Goal \<Rightarrow> OpenGoalRequest \<Rightarrow> dict result" where
  "task_context_for_request goal rq =
     and_then (loop_kind_text (og_loop_kind rq)) (\<lambda>kind.
     and_then (execution_mode rq kind) (\<lambda>mode.
     and_then (normalize_task_context
         (if og_task_context rq \<noteq> [] then og_task_context rq else goal_task_context goal)
         (g_id goal) (g_parent_goal_id goal)) (\<lambda>context.
     Inr (dict_set ''delivery'' (JDict
       [(''stage'', JStr (if mode = ''background'' \<and> g_source goal \<noteq> [] \<and> g_peer_id goal \<noteq> []
           then ''post_semantic_acceptance_outbox'' else ''not_applicable'')),
        (''transport_receipt_available'', JBool False)]) context))))"

definition lineage_task_context :: "string \<Rightarrow> string \<Rightarrow> int \<Rightarrow> json list \<Rightarrow> dict result" where
  "lineage_task_context lineage_id lineage_kind sequence_number items =
     normalize_task_context
       [(''lineage'', JDict [(''id'', JStr lineage_id), (''kind'', JStr lineage_kind)]),
        (''progress'', JDict
          [(''scope'', JStr ''lineage''), (''sequence_number'', JInt sequence_number),
           (''authority'', JStr ''same_lineage_authoritative_prior_items''),
           (''authoritative_prior_items'', JList items), (''ambient_history_authoritative'', JBool False)])] [] []"

section \<open>The specification of a goal\<close>

definition verification_ladder_for :: "OpenGoalRequest \<Rightarrow> VerificationStep list" where
  "verification_ladder_for rq =
     (let timeout = default_timeout_policy\<lparr>tp_seconds := of_int (max 1 (og_timeout_seconds rq))\<rparr>;
          command = py_strip (og_verification_command rq)
      in if command \<noteq> []
         then [\<lparr>vs_kind = verificationKind_str VerificationKind_COMMAND_EXIT_CODE,
                vs_name = ''verification_command'', vs_required = True, vs_command = command,
                vs_evidence_key = [], vs_timeout = timeout\<rparr>]
         else [\<lparr>vs_kind = verificationKind_str VerificationKind_LLM_CHECKER, vs_name = ''objective_check'',
                vs_required = True, vs_command = [], vs_evidence_key = ''semantic_checker_result'',
                vs_timeout = timeout\<rparr>])"

definition goal_metadata :: "Goal \<Rightarrow> OpenGoalRequest \<Rightarrow> string \<Rightarrow> string \<Rightarrow> dict \<Rightarrow> dict" where
  "goal_metadata goal rq kind mode context =
     [(''goal_id'', JStr (g_id goal)), (''run_id'', JStr (g_run_id goal)),
      (''session_id'', JStr (g_session_id goal)), (''route'', JStr ''unified_loop''),
      (''loop_kind'', JStr kind), (''execution_mode'', JStr mode), (''source'', JStr (g_source goal)),
      (''peer_id'', JStr (g_peer_id goal)), (''sender_id'', JStr (g_sender_id goal)),
      (''parent_goal_id'', JStr (g_parent_goal_id goal)), (''workspace'', JStr (g_workspace goal)),
      (''trigger_facts'', JDict (og_trigger_facts rq)), (''task_context'', JDict context),
      (''execution_profile'', JDict (execution_profile kind))]"

definition goal_spec_for :: "Goal \<Rightarrow> OpenGoalRequest \<Rightarrow> string \<Rightarrow> dict \<Rightarrow> GoalSpec" where
  "goal_spec_for goal rq workspace metadata =
     \<lparr>gs_objective = g_objective goal,
      gs_scope = (if og_scope rq \<noteq> [] then og_scope rq else [''repo:'' @ workspace]),
      gs_constraints = og_constraints rq, gs_acceptance_criteria = og_acceptance_criteria rq,
      gs_permission_ceiling = or_else (og_permission_ceiling rq) ''write'', gs_risk_level = ''normal'',
      gs_owner = or_else (og_sender_id rq) (og_peer_id rq), gs_resume_policy = ''checkpoint'',
      gs_cancel_policy = ''mark_cancelled'', gs_memory_policy = ''governed'', gs_metadata = metadata\<rparr>"

definition budget_policy_for :: "OpenGoalRequest \<Rightarrow> BudgetPolicy" where
  "budget_policy_for rq =
     \<lparr>bp_token_budget = max 0 (og_token_budget rq), bp_call_budget = max 0 (og_call_budget rq),
      bp_cost_budget = max 0 (og_cost_budget rq), bp_qps_limit = max 0 (og_qps_limit rq),
      bp_max_concurrent = max 1 (og_max_concurrent rq)\<rparr>"

definition loop_spec_for_goal ::
  "Host \<Rightarrow> string \<Rightarrow> time \<Rightarrow> Goal \<Rightarrow> OpenGoalRequest \<Rightarrow> string \<Rightarrow> LoopSpec result" where
  "loop_spec_for_goal host fresh_id now goal rq workspace =
     (let allowed = (if og_allowed_capabilities rq \<noteq> [] then og_allowed_capabilities rq else [''*''])
      in and_then (loop_kind_text (og_loop_kind rq)) (\<lambda>kind.
         and_then (execution_mode rq kind) (\<lambda>mode.
         and_then (task_context_for_request goal rq) (\<lambda>context.
         and_then (loop_spec_from_goal fresh_id now
             (goal_spec_for goal rq workspace (goal_metadata goal rq kind mode context))
             (g_id goal) allowed (verification_ladder_for rq)) (\<lambda>base.
         and_then (retry_policy_for_loop_kind kind) (\<lambda>retry.
         let spec = base\<lparr>ls_workspace_policy := workspace_policy_for_capabilities host workspace allowed,
               ls_budget_policy := budget_policy_for rq, ls_retry_policy := retry\<rparr>
         in and_then (loop_spec_validate spec) (\<lambda>_. Inr spec)))))))"

definition verification_command_from_spec :: "LoopSpec \<Rightarrow> string" where
  "verification_command_from_spec spec =
     (case find (\<lambda>c. c \<noteq> []) (map vs_command (ls_verification_ladder spec)) of None \<Rightarrow> [] | Some c \<Rightarrow> c)"

definition timeout_seconds_from_spec :: "LoopSpec \<Rightarrow> int" where
  "timeout_seconds_from_spec spec =
     (let seconds = (case find (\<lambda>q. 0 < q) (map (tp_seconds \<circ> vs_timeout) (ls_verification_ladder spec)) of
            None \<Rightarrow> 120 | Some q \<Rightarrow> q)
      in max 1 \<lfloor>seconds\<rfloor>)"

section \<open>The projection of a result\<close>

definition surface_message_from_result :: "StateGraphRunResult \<Rightarrow> string" where
  "surface_message_from_result r = py_strip (str_or_empty (jget (sr_evidence r) ''responded_message''))"

definition run_patch ::
  "Phase \<Rightarrow> Governance option \<Rightarrow> Acceptance \<Rightarrow> Resolution \<Rightarrow> string \<Rightarrow> string \<Rightarrow> dict" where
  "run_patch phase governance acceptance resolution summary err =
     (''phase'', JStr (phase_str phase)) #
     (case governance of None \<Rightarrow> [] | Some g \<Rightarrow> [(''governance'', JStr (governance_str g))]) @
     [(''acceptance'', JStr (acceptance_str acceptance)), (''resolution'', JStr (resolution_str resolution)),
      (''result_summary'', JStr summary), (''error'', JStr err)]"

text \<open>
  \<open>_run_updates_for_loop\<close>; \<open>existing\<close> is the summary the run has. The last branch but one is every
  terminal state outside the matrix.
\<close>

definition run_updates_for_loop :: "string \<Rightarrow> string \<Rightarrow> string \<Rightarrow> dict" where
  "run_updates_for_loop existing terminal message =
     (if terminal = ts_str LoopTerminalState_CONVERGED
      then run_patch Phase_ENDED (Some Governance_NONE) Acceptance_ACCEPTED Resolution_SUCCESS message []
      else if terminal = ts_str LoopTerminalState_PAUSED
      then run_patch Phase_PAUSED None Acceptance_UNVERIFIED Resolution_BLOCKED (or_else existing message) []
      else if terminal = ts_str LoopTerminalState_WAITING_APPROVAL
      then run_patch Phase_PAUSED (Some Governance_AWAITING_APPROVAL) Acceptance_UNVERIFIED Resolution_BLOCKED
             (or_else existing message) []
      else if terminal = ts_str LoopTerminalState_CONFLICTED
      then run_patch Phase_PAUSED (Some Governance_AWAITING_APPROVAL) Acceptance_UNVERIFIED Resolution_BLOCKED
             message ''loop_conflicted''
      else if terminal = ts_str LoopTerminalState_BLOCKED
      then run_patch Phase_ENDED (Some Governance_NONE) Acceptance_REJECTED Resolution_BLOCKED message ''loop_blocked''
      else if terminal = ts_str LoopTerminalState_TIMED_OUT
      then run_patch Phase_ENDED (Some Governance_NONE) Acceptance_REJECTED Resolution_FAILED message ''loop_timed_out''
      else if terminal = ts_str LoopTerminalState_CANCELLED \<or> terminal = ts_str LoopTerminalState_SUPERSEDED
      then run_patch Phase_ENDED (Some Governance_NONE) Acceptance_REJECTED Resolution_CANCELED message (''loop_'' @ terminal)
      else if terminal = ts_str LoopTerminalState_FAILED
      then run_patch Phase_ENDED (Some Governance_NONE) Acceptance_REJECTED Resolution_FAILED message ''loop_failed''
      else if terminal \<noteq> []
      then run_patch Phase_ENDED (Some Governance_NONE) Acceptance_REJECTED Resolution_FAILED message (''loop_'' @ terminal)
      else run_patch Phase_RUNNING None Acceptance_UNVERIFIED Resolution_BLOCKED message [])"

end
