(* ===== verification/Loop_Control.thy ===== *)
theory Loop_Control
  imports Loop_Requests
begin

text \<open>
  \<open>LoopControlService\<close> of \<open>navi/loop_control_service.py\<close>: opening, updating, resuming and cancelling
  goals over the stores of runs, goals and loop runs, the projection of a loop result through a
  lifecycle saga, and the reconciliation of approval waits.

  \<open>Service\<close> holds the stores: runs, goals and loops with the sagas, the resource ledger, the outbox,
  and the case memory jobs asked for, whose failure the service swallows. Identifiers drawn by a call
  are the \<open>Fresh\<close> argument; the clock stands still during a call. A \<open>ScheduleConflict\<close> is the
  \<open>ValueError\<close> it derives from, its facts are \<open>schedule_conflict_facts\<close>.
\<close>

section \<open>State and answers\<close>

record Service =
  sv_core :: SagaHome
  sv_ledger :: Ledger
  sv_outbox :: outbox
  sv_cases :: "(string \<times> string \<times> string \<times> string) list"

record Fresh =
  fr_run :: string
  fr_goal :: string
  fr_spec :: string
  fr_loop :: string

record ControlResult =
  cs_goal :: Goal
  cs_run :: Run
  cs_loop_spec :: LoopSpec
  cs_loop_run :: LoopRunState
  cs_graph_result :: "StateGraphRunResult option"
  cs_state_transition :: string

definition control_result_facts :: "ControlResult \<Rightarrow> dict" where
  "control_result_facts r =
     (let metadata = gs_metadata (ls_goal (cs_loop_spec r)); goal = cs_goal r; run = cs_run r
      in [(''entity_type'', JStr ''goal''), (''entity_id'', JStr (g_id goal)),
          (''state_transition'', JStr (cs_state_transition r)), (''turn_scope'', JStr ''current''),
          (''goal_id'', JStr (g_id goal)), (''run_id'', JStr (run_id run)),
          (''loop_spec_id'', JStr (ls_id (cs_loop_spec r))),
          (''loop_run_id'', JStr (lr_run_id (cs_loop_run r))), (''route'', JStr ''unified_loop''),
          (''loop_kind'', JStr (str_or_empty (jget metadata ''loop_kind''))),
          (''execution_mode'', JStr (str_or_empty (jget metadata ''execution_mode''))),
          (''cron_schedule'', JStr (g_cron_schedule goal)), (''next_run_at'', JFloat (g_next_run_at goal)),
          (''registration_evidence'', JBool (g_cron_schedule goal \<noteq> [] \<and> 0 < g_next_run_at goal)),
          (''budget_policy'', JDict (budget_policy_to_dict (ls_budget_policy (cs_loop_spec r)))),
          (''phase'', JStr (run_phase run)), (''governance'', JStr (run_governance run)),
          (''acceptance'', JStr (run_acceptance run)), (''resolution'', JStr (run_resolution run)),
          (''loop_node'', JStr (lr_node (cs_loop_run r))),
          (''loop_terminal_state'', JStr (lr_terminal_state (cs_loop_run r))),
          (''completion_evidence'', JBool (lr_terminal_state (cs_loop_run r) = ts_str LoopTerminalState_CONVERGED
             \<and> run_resolution run = resolution_str Resolution_SUCCESS)),
          (''state_graph_result'', JDict (case cs_graph_result r of None \<Rightarrow> [] | Some g \<Rightarrow> run_result_to_facts g))])"

definition schedule_conflict_facts :: "string \<Rightarrow> string \<Rightarrow> Goal \<Rightarrow> bool \<Rightarrow> dict" where
  "schedule_conflict_facts operation cron conflict allow =
     [(''entity_type'', JStr ''goal_schedule_conflict''), (''entity_id'', JStr (g_id conflict)),
      (''state_transition'', JStr ''conflict''), (''turn_scope'', JStr ''current''),
      (''operation'', JStr operation), (''reason'', JStr ''active_actor_cron_schedule_conflict''),
      (''cron_schedule'', JStr cron), (''conflict_goal_id'', JStr (g_id conflict)),
      (''conflict_goal'', JDict
        [(''id'', JStr (g_id conflict)), (''objective'', JStr (g_objective conflict)),
         (''phase'', JStr (g_phase conflict)), (''task_status'', JStr (g_task_status conflict)),
         (''cron_schedule'', JStr (g_cron_schedule conflict)), (''next_run_at'', JFloat (g_next_run_at conflict))]),
      (''allow_duplicate_schedule'', JBool allow)]"

section \<open>Lookups\<close>

definition run_for_goal :: "Goal option \<Rightarrow> Home \<Rightarrow> Run option" where
  "run_for_goal goal h =
     (case goal of None \<Rightarrow> None | Some g \<Rightarrow> if g_run_id g = [] then None else get_run (g_run_id g) (hm_runs h))"

definition accepted_for_goal :: "Goal \<Rightarrow> outbox \<Rightarrow> dict" where
  "accepted_for_goal g outbox = (if g_run_id g = [] then [] else accepted_result_for_run (g_run_id g) outbox)"

definition spec_of_loop :: "LoopRunState \<Rightarrow> Home \<Rightarrow> LoopSpec result" where
  "spec_of_loop s h = and_then (get_spec_json (lr_loop_spec_id s) (hm_loops h)) loop_spec_from_json"

definition registration_loop :: "string \<Rightarrow> Home \<Rightarrow> LoopRunState option" where
  "registration_loop gid h = first_row (list_by_goal gid 1 (hm_loops h))"

definition active_loop_for_goal :: "string \<Rightarrow> Home \<Rightarrow> LoopRunState option" where
  "active_loop_for_goal gid h = first_row (list_by_goal_filtered gid
     [[], ts_str LoopTerminalState_PAUSED, ts_str LoopTerminalState_WAITING_APPROVAL] [] (Some 1) (hm_loops h))"

definition no_loop_run :: "string \<Rightarrow> py_error" where "no_loop_run i = KeyError (''loop run not found: '' @ i)"
definition no_goal :: "string \<Rightarrow> py_error" where "no_goal i = KeyError (''goal not found: '' @ i)"
definition no_goal_of_loop :: "string \<Rightarrow> py_error" where
  "no_goal_of_loop i = KeyError (''goal not found for loop run: '' @ i)"
definition no_run_of_goal :: "string \<Rightarrow> py_error" where
  "no_run_of_goal i = KeyError (''run not found for goal: '' @ i)"

section \<open>Opening\<close>

text \<open>The schedule part of \<open>open_goal\<close>: the goal that exists already, or a conflict, or nothing.\<close>

definition existing_schedule :: "OpenGoalRequest \<Rightarrow> string \<Rightarrow> string \<Rightarrow> Home \<Rightarrow> ControlResult option result" where
  "existing_schedule rq objective cron h =
     (case find_active_cron_goal objective cron (og_source rq) (og_peer_id rq) (og_sender_id rq) (hm_goals h) of
        None \<Rightarrow> Inr None
      | Some existing \<Rightarrow>
          (case (get_run (g_run_id existing) (hm_runs h), registration_loop (g_id existing) h) of
             (Some run, Some loop) \<Rightarrow> and_then (spec_of_loop loop h) (\<lambda>spec.
               Inr (Some \<lparr>cs_goal = existing, cs_run = run, cs_loop_spec = spec, cs_loop_run = loop,
                 cs_graph_result = None, cs_state_transition = ''existing''\<rparr>))
           | _ \<Rightarrow> Inr None))"

definition schedule_precheck :: "OpenGoalRequest \<Rightarrow> string \<Rightarrow> string \<Rightarrow> Home \<Rightarrow> ControlResult option result" where
  "schedule_precheck rq objective cron h =
     (if cron = [] then Inl (ValueError ''scheduled goal requires cron_schedule'')
      else and_then (validate_cron cron) (\<lambda>_.
        and_then (existing_schedule rq objective cron h) (\<lambda>existing.
        case existing of
          Some r \<Rightarrow> Inr (Some r)
        | None \<Rightarrow>
            if \<not> og_allow_duplicate_schedule rq
               \<and> find_active_cron_goal_by_schedule cron (og_source rq) (og_peer_id rq) (og_sender_id rq) []
                   (hm_goals h) \<noteq> None
            then Inl (ValueError ''active scheduled goal already exists for this actor and cron_schedule.'')
            else Inr None)))"

definition open_run_draft :: "OpenGoalRequest \<Rightarrow> string \<Rightarrow> string \<Rightarrow> string \<Rightarrow> RunDraft" where
  "open_run_draft rq objective loop_kind workspace =
     \<lparr>dr_title = take 120 objective, dr_kind = ''loop:'' @ loop_kind, dr_prompt = objective,
      dr_source = og_source rq, dr_peer_id = og_peer_id rq, dr_sender_id = og_sender_id rq,
      dr_provider = [], dr_workspace = workspace, dr_autonomy_level = ''L2'', dr_trust_rule_id = [],
      dr_why_now = ''trigger=unified_loop loop_kind='' @ loop_kind, dr_phase = phase_str Phase_RUNNING,
      dr_governance = governance_str Governance_APPROVED, dr_acceptance = acceptance_str Acceptance_NONE,
      dr_resolution = resolution_str Resolution_NONE\<rparr>"

definition open_goal_draft ::
  "OpenGoalRequest \<Rightarrow> string \<Rightarrow> string \<Rightarrow> string \<Rightarrow> string \<Rightarrow> string \<Rightarrow> string \<Rightarrow> time \<Rightarrow> GoalDraft" where
  "open_goal_draft rq objective loop_kind mode cron workspace rid next_run_at =
     \<lparr>gn_objective = objective, gn_workspace = workspace, gn_source = og_source rq,
      gn_peer_id = og_peer_id rq, gn_sender_id = og_sender_id rq, gn_session_id = og_session_id rq,
      gn_run_id = rid, gn_trace_id = [],
      gn_evidence = [(''route'', JStr ''unified_loop''), (''loop_kind'', JStr loop_kind),
        (''execution_mode'', JStr mode), (''run_id'', JStr rid), (''trigger_facts'', JDict (og_trigger_facts rq)),
        (''verification_command_declared'', JBool (py_strip (og_verification_command rq) \<noteq> []))],
      gn_stop_condition = [], gn_timeout = of_int (max 1 (og_timeout_seconds rq)), gn_max_retries = 1,
      gn_parent_goal_id = og_parent_goal_id rq,
      gn_task_status = (if loop_kind = ''scheduled'' then ''scheduled'' else ''in_progress''),
      gn_cron_schedule = cron, gn_next_run_at = next_run_at, gn_child_active_limit = og_child_active_limit rq\<rparr>"

fun exception_name :: "py_error \<Rightarrow> string" where
  "exception_name (ValueError m) = ''ValueError''"
| "exception_name (KeyError m) = ''KeyError''"
| "exception_name (RuntimeError m) = ''RuntimeError''"
| "exception_name (TypeError m) = ''TypeError''"
| "exception_name (IntegrityError m) = ''IntegrityError''"
| "exception_name (OperationalError m) = ''OperationalError''"
| "exception_name (ChildAdmissionConflict m) = ''ChildAdmissionConflict''"
| "exception_name (ProgrammingError m) = ''ProgrammingError''"
| "exception_name (OSError m) = ''OSError''"

definition compensate_open_failure :: "Env \<Rightarrow> Run \<Rightarrow> Goal option \<Rightarrow> py_error \<Rightarrow> (unit, Home) call" where
  "compensate_open_failure env run goal e =
     (let failure = ''loop_open_failed:'' @ exception_name e
      in then_call (update_run_call env (run_id run)
           (ended_run Acceptance_REJECTED Resolution_FAILED ''loop creation failed'' failure)) (\<lambda>failed.
         case (goal, failed) of
           (Some g, Some r) \<Rightarrow> then_call (update_for_run_call env r
             [(''state_transition'', JStr ''open_compensated''), (''error'', JStr failure)]) (\<lambda>_. answer ())
         | _ \<Rightarrow> answer ()))"

definition registered_goal :: "dict \<Rightarrow> GoalUpdates" where
  "registered_goal registration =
     \<lparr>gu_phase = phase_str Phase_RUNNING, gu_governance = governance_str Governance_APPROVED,
      gu_acceptance = acceptance_str Acceptance_ACCEPTED, gu_resolution = resolution_str Resolution_NONE,
      gu_task_status = ''scheduled'', gu_blocked_reason = [], gu_evidence = registration,
      gu_event_type = ''goal.schedule_registered''\<rparr>"

definition setup_scheduled ::
  "Env \<Rightarrow> Fresh \<Rightarrow> Goal \<Rightarrow> Run \<Rightarrow> LoopSpec \<Rightarrow> string \<Rightarrow> time \<Rightarrow> (Goal \<times> Run \<times> LoopRunState, Home) call" where
  "setup_scheduled env fr goal run spec cron next_run_at =
     (let registration = [(''state_transition'', JStr ''schedule_registered''), (''cron_schedule'', JStr cron),
            (''next_run_at'', JFloat next_run_at)]
      in then_call (try_loops (create_loop_run env (fr_loop fr) spec [] (loopNode_str LoopNode_EVALUATE)
           (ts_str LoopTerminalState_CONVERGED) registration ''loop.schedule_registered'')) (\<lambda>loop.
         then_call (update_run_call env (run_id run)
           (ended_run Acceptance_ACCEPTED Resolution_SUCCESS ''schedule registered'' [])) (\<lambda>updated_run.
         then_call (update_goal_call env (g_id goal) (registered_goal registration)) (\<lambda>updated_goal.
         answer (case updated_goal of None \<Rightarrow> goal | Some g \<Rightarrow> g,
                 case updated_run of None \<Rightarrow> run | Some r \<Rightarrow> r, loop)))))"

definition setup_standard ::
  "Env \<Rightarrow> Fresh \<Rightarrow> Goal \<Rightarrow> Run \<Rightarrow> LoopSpec \<Rightarrow> string \<Rightarrow> (Goal \<times> Run \<times> LoopRunState, Home) call" where
  "setup_standard env fr goal run spec mode =
     then_call (try_loops (create_loop_run env (fr_loop fr) spec [] (loopNode_str LoopNode_PLAN) []
         [(''execution_mode'', JStr mode)] ''loop.run_created'')) (\<lambda>loop.
     answer (goal, run, loop))"

text \<open>The \<open>try\<close> block, in the two parts that differ in whether \<open>goal\<close> is bound when it fails.\<close>

definition open_create_goal ::
  "Host \<Rightarrow> Env \<Rightarrow> Fresh \<Rightarrow> OpenGoalRequest \<Rightarrow> string \<Rightarrow> string \<Rightarrow> string \<Rightarrow> string \<Rightarrow> string \<Rightarrow> Run
     \<Rightarrow> (time \<times> Goal, Home) call" where
  "open_create_goal host env fr rq objective loop_kind mode cron workspace run =
     then_call (checked (if cron = [] then Inr 0 else next_cron_at host cron (env_clock env))) (\<lambda>next_run_at.
     then_call (try_goals (create_goal env (fr_goal fr)
         (open_goal_draft rq objective loop_kind mode cron workspace (run_id run) next_run_at))) (\<lambda>goal.
     answer (next_run_at, goal)))"

definition open_setup ::
  "Host \<Rightarrow> Env \<Rightarrow> Fresh \<Rightarrow> OpenGoalRequest \<Rightarrow> string \<Rightarrow> string \<Rightarrow> string \<Rightarrow> string \<Rightarrow> Run \<Rightarrow> time \<Rightarrow> Goal
     \<Rightarrow> (ControlResult, Home) call" where
  "open_setup host env fr rq loop_kind mode cron workspace run next_run_at goal =
     then_call (checked (loop_spec_for_goal host (fr_spec fr) (env_clock env) goal rq workspace)) (\<lambda>spec.
     then_call (if loop_kind = ''scheduled'' then setup_scheduled env fr goal run spec cron next_run_at
                else setup_standard env fr goal run spec mode) (\<lambda>(g, r, loop).
     answer \<lparr>cs_goal = g, cs_run = r, cs_loop_spec = spec, cs_loop_run = loop, cs_graph_result = None,
       cs_state_transition = (if loop_kind = ''scheduled'' then ''scheduled'' else ''opened'')\<rparr>))"

definition open_new ::
  "Host \<Rightarrow> Env \<Rightarrow> Fresh \<Rightarrow> OpenGoalRequest \<Rightarrow> string \<Rightarrow> string \<Rightarrow> string \<Rightarrow> string \<Rightarrow> (ControlResult, Home) call" where
  "open_new host env fr rq objective loop_kind mode cron =
     then_call (checked (resolve_workspace host (og_workspace rq))) (\<lambda>workspace.
     then_call (try_runs (create_run (fr_run fr) (env_clock env) (open_run_draft rq objective loop_kind workspace))) (\<lambda>run.
     then_call (on_error (open_create_goal host env fr rq objective loop_kind mode cron workspace run)
         (compensate_open_failure env run None)) (\<lambda>(next_run_at, goal).
     on_error (open_setup host env fr rq loop_kind mode cron workspace run next_run_at goal)
         (compensate_open_failure env run (Some goal)))))"

definition open_goal :: "Host \<Rightarrow> Env \<Rightarrow> Fresh \<Rightarrow> OpenGoalRequest \<Rightarrow> (ControlResult, Home) call" where
  "open_goal host env fr rq =
     (let objective = py_strip (og_objective rq); cron = py_strip (og_cron_schedule rq)
      in if objective = [] then raise_error (ValueError ''OpenGoalRequest.objective is required'')
         else then_call (checked (loop_kind_text (og_loop_kind rq))) (\<lambda>loop_kind.
           then_call (checked (execution_mode rq loop_kind)) (\<lambda>mode.
           then_call (look_up (\<lambda>h. if loop_kind = ''scheduled'' then schedule_precheck rq objective cron h else Inr None))
             (\<lambda>found. then_call (checked found) (\<lambda>existing.
           case existing of
             Some r \<Rightarrow> answer r
           | None \<Rightarrow> open_new host env fr rq objective loop_kind mode cron)))))"


section \<open>Updating a schedule\<close>

definition updated_request :: "UpdateGoalRequest \<Rightarrow> Goal \<Rightarrow> LoopSpec \<Rightarrow> string \<Rightarrow> OpenGoalRequest" where
  "updated_request rq goal previous cron =
     (let keep = (\<lambda>new old. case new of None \<Rightarrow> old | Some v \<Rightarrow> v); budget = ls_budget_policy previous
      in (open_request (g_objective goal) (g_workspace goal))
         \<lparr>og_loop_kind := ''scheduled'', og_source := g_source goal, og_peer_id := g_peer_id goal,
          og_sender_id := g_sender_id goal, og_session_id := g_session_id goal,
          og_scope := keep (ug_scope rq) (gs_scope (ls_goal previous)),
          og_constraints := keep (ug_constraints rq) (gs_constraints (ls_goal previous)),
          og_acceptance_criteria := keep (ug_acceptance_criteria rq) (gs_acceptance_criteria (ls_goal previous)),
          og_permission_ceiling := or_else (ug_permission_ceiling rq) (gs_permission_ceiling (ls_goal previous)),
          og_allowed_capabilities := keep (ug_allowed_capabilities rq) (ls_allowed_capabilities previous),
          og_verification_command := (case ug_verification_command rq of
             None \<Rightarrow> verification_command_from_spec previous | Some c \<Rightarrow> c),
          og_timeout_seconds := (if 0 < ug_timeout_seconds rq then ug_timeout_seconds rq
             else timeout_seconds_from_spec previous),
          og_token_budget := (if 0 \<le> ug_token_budget rq then ug_token_budget rq else bp_token_budget budget),
          og_call_budget := (if 0 \<le> ug_call_budget rq then ug_call_budget rq else bp_call_budget budget),
          og_cost_budget := (if 0 \<le> ug_cost_budget rq then ug_cost_budget rq else bp_cost_budget budget),
          og_qps_limit := (if 0 \<le> ug_qps_limit rq then ug_qps_limit rq else bp_qps_limit budget),
          og_max_concurrent := (if 0 < ug_max_concurrent rq then ug_max_concurrent rq else bp_max_concurrent budget),
          og_execution_mode := ''scheduled'', og_cron_schedule := cron\<rparr>)"

text \<open>The checks before the first write: the goal, its registration loop, its spec, the new schedule.\<close>

definition update_goal_precheck ::
  "Host \<Rightarrow> Env \<Rightarrow> UpdateGoalRequest \<Rightarrow> Home \<Rightarrow> (Goal \<times> LoopRunState \<times> LoopSpec \<times> string \<times> string \<times> time) result" where
  "update_goal_precheck host env rq h =
     (let goal_id = py_strip (ug_goal_id rq)
      in if goal_id = [] then Inl (ValueError ''UpdateGoalRequest.goal_id is required'')
         else case get_goal goal_id (hm_goals h) of
           None \<Rightarrow> Inl (no_goal goal_id)
         | Some goal \<Rightarrow>
             if g_phase goal = phase_str Phase_ENDED
             then Inl (ValueError (''terminal goal cannot be updated: '' @ goal_id))
             else if g_cron_schedule goal = []
             then Inl (ValueError ''goal.update currently supports scheduled recurring goals'')
             else case registration_loop (g_id goal) h of
               None \<Rightarrow> Inl (ValueError (''scheduled goal has no registration loop: '' @ g_id goal))
             | Some template \<Rightarrow> and_then (spec_of_loop template h) (\<lambda>previous.
                 let objective = or_else (py_strip (ug_objective rq)) (g_objective goal);
                     cron = or_else (py_strip (ug_cron_schedule rq)) (g_cron_schedule goal)
                 in and_then (validate_cron cron) (\<lambda>_.
                    if \<not> ug_allow_duplicate_schedule rq
                       \<and> find_active_cron_goal_by_schedule cron (g_source goal) (g_peer_id goal)
                           (g_sender_id goal) (g_id goal) (hm_goals h) \<noteq> None
                    then Inl (ValueError ''another active scheduled goal already exists for this actor and cron_schedule.'')
                    else and_then (if cron \<noteq> g_cron_schedule goal then next_cron_at host cron (env_clock env)
                                   else Inr (g_next_run_at goal)) (\<lambda>next_run_at.
                      Inr (goal, template, previous, objective, cron, next_run_at)))))"

definition update_goal :: "Host \<Rightarrow> Env \<Rightarrow> Fresh \<Rightarrow> UpdateGoalRequest \<Rightarrow> (ControlResult, Home) call" where
  "update_goal host env fr rq =
     then_call (look_up (update_goal_precheck host env rq)) (\<lambda>checks.
     then_call (checked checks) (\<lambda>(goal, template, previous, objective, cron, next_run_at).
     then_call (in_goals (\<lambda>db. update_scheduled_template env (g_id goal) objective cron next_run_at
         [(''state_transition'', JStr ''updated''), (''previous_objective'', JStr (g_objective goal)),
          (''objective'', JStr objective), (''previous_cron_schedule'', JStr (g_cron_schedule goal)),
          (''cron_schedule'', JStr cron), (''next_run_at'', JFloat next_run_at)] ''goal.updated'' db db)) (\<lambda>updated.
     then_call (required (no_goal (g_id goal)) updated) (\<lambda>updated_goal.
     then_call (look_up (\<lambda>h. get_run (g_run_id updated_goal) (hm_runs h))) (\<lambda>found_run.
     then_call (required (no_run_of_goal (g_run_id updated_goal)) found_run) (\<lambda>run.
     then_call (checked (loop_spec_for_goal host (fr_spec fr) (env_clock env) updated_goal
         (updated_request rq updated_goal previous cron) (g_workspace updated_goal))) (\<lambda>fresh_spec.
     let spec = fresh_spec\<lparr>ls_id := lr_loop_spec_id template, ls_created_at := ls_created_at previous\<rparr>
     in then_call (try_loops (\<lambda>db. and_then (save_spec spec db) (\<lambda>db'. Inr ((), db')))) (\<lambda>_.
        answer \<lparr>cs_goal = updated_goal, cs_run = run, cs_loop_spec = spec, cs_loop_run = template,
          cs_graph_result = None, cs_state_transition = ''updated''\<rparr>))))))))"

section \<open>Occurrences of a schedule\<close>

definition prior_occurrence :: "outbox \<Rightarrow> GoalDb \<Rightarrow> Goal \<Rightarrow> dict" where
  "prior_occurrence outbox db child =
     (let accepted = accepted_for_goal child outbox
      in [(''goal_id'', JStr (g_id child)), (''run_id'', JStr (g_run_id child)),
          (''created_at'', JFloat (g_created_at child)), (''phase'', JStr (g_phase child)),
          (''acceptance'', JStr (g_acceptance child)), (''resolution'', JStr (g_resolution child)),
          (''task_status'', JStr (g_task_status child)),
          (''accepted_result_text'', JStr (str_or_empty (jget accepted ''body''))),
          (''accepted_result'', JDict accepted), (''delivery'', JDict (latest_delivery (g_id child) db))])"

definition occurrence_request ::
  "Goal \<Rightarrow> LoopSpec \<Rightarrow> dict \<Rightarrow> dict \<Rightarrow> OpenGoalRequest" where
  "occurrence_request goal template trigger_facts task_context =
     (open_request (g_objective goal) (g_workspace goal))
     \<lparr>og_source := g_source goal, og_peer_id := g_peer_id goal, og_sender_id := g_sender_id goal,
      og_session_id := g_session_id goal, og_scope := gs_scope (ls_goal template),
      og_constraints := gs_constraints (ls_goal template),
      og_acceptance_criteria := gs_acceptance_criteria (ls_goal template),
      og_permission_ceiling := gs_permission_ceiling (ls_goal template),
      og_allowed_capabilities := ls_allowed_capabilities template,
      og_verification_command := verification_command_from_spec template,
      og_token_budget := bp_token_budget (ls_budget_policy template),
      og_call_budget := bp_call_budget (ls_budget_policy template),
      og_cost_budget := bp_cost_budget (ls_budget_policy template),
      og_qps_limit := bp_qps_limit (ls_budget_policy template),
      og_max_concurrent := bp_max_concurrent (ls_budget_policy template),
      og_auto_start := False, og_execution_mode := ''background'', og_parent_goal_id := g_id goal,
      og_trigger_facts := trigger_facts, og_task_context := task_context\<rparr>"

definition occurrence_for ::
  "Env \<Rightarrow> Goal \<Rightarrow> time \<Rightarrow> outbox \<Rightarrow> Home \<Rightarrow> OpenGoalRequest result" where
  "occurrence_for env goal scheduled_for outbox h =
     (if g_cron_schedule goal = [] then Inl (ValueError ''scheduled occurrence requires a cron goal'')
      else case registration_loop (g_id goal) h of
        None \<Rightarrow> Inl (ValueError ''scheduled goal has no loop specification'')
      | Some loop \<Rightarrow> and_then (spec_of_loop loop h) (\<lambda>template.
          let children = list_children (g_id goal) 5 True 0 0 [] (hm_goals h);
              occurrence_number = int (count_children (g_id goal) [] (hm_goals h)) + 1;
              prior = map (prior_occurrence outbox (hm_goals h)) children;
              authoritative = filter (\<lambda>item. py_strip (str_or_empty (jget item ''accepted_result_text'')) \<noteq> []) prior;
              trigger_facts = [(''type'', JStr ''scheduled_occurrence''), (''schedule_goal_id'', JStr (g_id goal)),
                (''cron_schedule'', JStr (g_cron_schedule goal)), (''scheduled_for'', JFloat scheduled_for),
                (''triggered_at'', JFloat (env_clock env)), (''occurrence_number'', JInt occurrence_number),
                (''prior_occurrences'', JList (map JDict prior))]
          in and_then (lineage_task_context (g_id goal) ''recurring_goal'' occurrence_number (map JDict authoritative))
               (\<lambda>context. Inr (occurrence_request goal template trigger_facts context))))"

definition open_scheduled_occurrence ::
  "Host \<Rightarrow> Env \<Rightarrow> Fresh \<Rightarrow> Goal \<Rightarrow> time \<Rightarrow> outbox \<Rightarrow> (ControlResult, Home) call" where
  "open_scheduled_occurrence host env fr goal scheduled_for outbox =
     then_call (look_up (occurrence_for env goal scheduled_for outbox)) (\<lambda>built.
     then_call (checked built) (open_goal host env fr))"

section \<open>Resuming and cancelling\<close>

definition resume_loop :: "Host \<Rightarrow> Env \<Rightarrow> string \<Rightarrow> string \<Rightarrow> (ControlResult, Home) call" where
  "resume_loop host env loop_run_id workspace =
     then_call (look_up (\<lambda>h. get_loop_run loop_run_id (hm_loops h))) (\<lambda>found.
     then_call (required (no_loop_run loop_run_id) found) (\<lambda>seen.
     then_call (if at_external_wait seen then try_loops (\<lambda>db. reopen_for_resume env loop_run_id db db)
                else answer seen) (\<lambda>state.
     then_call (look_up (spec_of_loop state)) (\<lambda>read_spec. then_call (checked read_spec) (\<lambda>spec.
     then_call (look_up (\<lambda>h. get_goal (lr_goal_id state) (hm_goals h))) (\<lambda>found_goal.
     then_call (required (no_goal_of_loop (lr_goal_id state)) found_goal) (\<lambda>goal.
     then_call (look_up (run_for_goal (Some goal))) (\<lambda>found_run.
     then_call (required (no_run_of_goal (g_run_id goal)) found_run) (\<lambda>run.
     then_call (checked (resolve_workspace host (or_else workspace (g_workspace goal)))) (\<lambda>_.
     answer \<lparr>cs_goal = goal, cs_run = run, cs_loop_spec = spec, cs_loop_run = state, cs_graph_result = None,
       cs_state_transition = ''resumed''\<rparr>))))))))))"

definition resume_goal :: "Host \<Rightarrow> Env \<Rightarrow> string \<Rightarrow> string \<Rightarrow> (ControlResult, Home) call" where
  "resume_goal host env goal_id workspace =
     then_call (look_up (\<lambda>h. get_goal goal_id (hm_goals h))) (\<lambda>found.
     then_call (required (no_goal goal_id) found) (\<lambda>goal.
     then_call (look_up (active_loop_for_goal goal_id)) (\<lambda>found_loop.
     then_call (required (ValueError (''goal has no resumable loop run: '' @ goal_id)) found_loop) (\<lambda>loop.
     resume_loop host env (lr_run_id loop) (or_else workspace (g_workspace goal))))))"

definition cancelled_goal :: "dict \<Rightarrow> string \<Rightarrow> GoalUpdates" where
  "cancelled_goal evidence event_type =
     \<lparr>gu_phase = phase_str Phase_ENDED, gu_governance = governance_str Governance_NONE,
      gu_acceptance = acceptance_str Acceptance_REJECTED, gu_resolution = resolution_str Resolution_CANCELED,
      gu_task_status = ''blocked'', gu_blocked_reason = [], gu_evidence = evidence, gu_event_type = event_type\<rparr>"

text \<open>The common end of a cancellation: the run, then the goal.\<close>

definition cancel_projection ::
  "Env \<Rightarrow> Goal \<Rightarrow> Run \<Rightarrow> LoopSpec \<Rightarrow> LoopRunState \<Rightarrow> string \<Rightarrow> dict \<Rightarrow> string \<Rightarrow> (ControlResult, Home) call" where
  "cancel_projection env goal run spec loop summary evidence event_type =
     then_call (update_run_call env (run_id run)
       (ended_run Acceptance_REJECTED Resolution_CANCELED summary ''loop_cancelled'')) (\<lambda>updated.
     then_call (required (KeyError (''run not found: '' @ run_id run)) updated) (\<lambda>updated_run.
     then_call (update_goal_call env (g_id goal) (cancelled_goal evidence event_type)) (\<lambda>updated_goal.
     answer \<lparr>cs_goal = (case updated_goal of None \<Rightarrow> goal | Some g \<Rightarrow> g), cs_run = updated_run,
       cs_loop_spec = spec, cs_loop_run = loop, cs_graph_result = None, cs_state_transition = ''cancelled''\<rparr>)))"

definition cancel_scheduled_goal :: "Env \<Rightarrow> Goal \<Rightarrow> string \<Rightarrow> (ControlResult, Home) call" where
  "cancel_scheduled_goal env goal reason =
     then_call (look_up (registration_loop (g_id goal))) (\<lambda>found.
     then_call (required (ValueError (''scheduled goal has no registration loop: '' @ g_id goal)) found) (\<lambda>loop.
     then_call (look_up (spec_of_loop loop)) (\<lambda>read_spec. then_call (checked read_spec) (\<lambda>spec.
     then_call (look_up (\<lambda>h. get_run (g_run_id goal) (hm_runs h))) (\<lambda>found_run.
     then_call (required (no_run_of_goal (g_run_id goal)) found_run) (\<lambda>run.
     cancel_projection env goal run spec loop ''schedule cancelled''
       [(''reason'', JStr (or_else (py_strip reason) ''schedule_cancel_requested''))] ''goal.schedule_cancelled''))))))"

definition cancel_open_loop :: "Env \<Rightarrow> string \<Rightarrow> LoopRunState \<Rightarrow> dict \<Rightarrow> (LoopRunState, Home) call" where
  "cancel_open_loop env fresh_id state evidence =
     then_call (try_loops (\<lambda>db. write_checkpoint env (lr_run_id state) (lr_node state)
         (dict_merge [(''control'', JStr ''cancel'')] evidence) (loop_run_state_to_dict state) [] fresh_id db db)) (\<lambda>checkpoint.
     try_loops (\<lambda>db. transition env (lr_run_id state) (lr_node state) (lc_id checkpoint)
         (ts_str LoopTerminalState_CANCELLED) ''cancel_requested'' evidence [] db db))"

definition cancel_loop :: "Env \<Rightarrow> string \<Rightarrow> string \<Rightarrow> string \<Rightarrow> (ControlResult, Home) call" where
  "cancel_loop env fresh_id loop_run_id reason =
     then_call (look_up (\<lambda>h. get_loop_run loop_run_id (hm_loops h))) (\<lambda>found.
     then_call (required (no_loop_run loop_run_id) found) (\<lambda>state.
     then_call (look_up (spec_of_loop state)) (\<lambda>read_spec. then_call (checked read_spec) (\<lambda>spec.
     then_call (look_up (\<lambda>h. get_goal (lr_goal_id state) (hm_goals h))) (\<lambda>found_goal.
     then_call (required (no_goal_of_loop (lr_goal_id state)) found_goal) (\<lambda>goal.
     then_call (look_up (run_for_goal (Some goal))) (\<lambda>found_run.
     then_call (required (no_run_of_goal (g_run_id goal)) found_run) (\<lambda>run.
     if is_terminal state \<and> \<not> at_external_wait state
     then answer \<lparr>cs_goal = goal, cs_run = run, cs_loop_spec = spec, cs_loop_run = state,
       cs_graph_result = None, cs_state_transition = ''already_terminal''\<rparr>
     else let evidence = [(''reason'', JStr (or_else (py_strip reason) ''cancel_requested''))]
       in then_call (if at_external_wait state
            then try_loops (\<lambda>db. cancel_external_wait env (lr_run_id state) evidence db db)
            else cancel_open_loop env fresh_id state evidence) (\<lambda>cancelled.
          cancel_projection env goal run spec cancelled ''loop cancelled''
            (dict_merge [(''loop_run_id'', JStr (lr_run_id cancelled))] evidence) ''goal.cancelled'')))))))))"

definition cancel_goal :: "Env \<Rightarrow> string \<Rightarrow> string \<Rightarrow> string \<Rightarrow> (ControlResult, Home) call" where
  "cancel_goal env fresh_id goal_id reason =
     then_call (look_up (\<lambda>h. get_goal goal_id (hm_goals h))) (\<lambda>found.
     then_call (required (no_goal goal_id) found) (\<lambda>goal.
     then_call (look_up (active_loop_for_goal goal_id)) (\<lambda>found_loop.
     case found_loop of
       Some loop \<Rightarrow> cancel_loop env fresh_id (lr_run_id loop) reason
     | None \<Rightarrow>
         if g_cron_schedule goal \<noteq> [] then cancel_scheduled_goal env goal reason
         else raise_error (ValueError (''goal has no active loop run to cancel: '' @ goal_id)))))"

definition goal_loop_spec :: "string \<Rightarrow> Home \<Rightarrow> LoopSpec result" where
  "goal_loop_spec goal_id h =
     (case get_goal goal_id (hm_goals h) of
        None \<Rightarrow> Inl (no_goal goal_id)
      | Some goal \<Rightarrow> (case registration_loop goal_id h of
          None \<Rightarrow> Inl (KeyError (''loop specification not found for goal: '' @ goal_id))
        | Some loop \<Rightarrow> spec_of_loop loop h))"


section \<open>The projection of a loop result\<close>

abbreviation put_core :: "SagaHome \<Rightarrow> Service \<Rightarrow> Service" where "put_core p s \<equiv> s\<lparr>sv_core := p\<rparr>"
abbreviation on_core :: "('a, SagaHome) call \<Rightarrow> ('a, Service) call" where "on_core \<equiv> call_on sv_core put_core"

definition enqueue_case_precipitation :: "Goal \<Rightarrow> (unit, Service) call" where
  "enqueue_case_precipitation goal = write_to (\<lambda>s. s\<lparr>sv_cases := sv_cases s @
     [(g_id goal, or_else (g_source goal) ''goal'', g_peer_id goal, g_sender_id goal)]\<rparr>)"

definition delivery_pending :: "Goal \<Rightarrow> StateGraphRunResult \<Rightarrow> bool option \<Rightarrow> bool" where
  "delivery_pending goal res persist =
     (lr_terminal_state (sr_run_state res) = ts_str LoopTerminalState_CONVERGED
      \<and> (case persist of
           None \<Rightarrow> str_or_empty (jget (lr_evidence (sr_run_state res)) ''execution_mode'') = ''background''
         | Some b \<Rightarrow> b)
      \<and> surface_message_from_result res \<noteq> [] \<and> g_source goal \<noteq> [] \<and> g_peer_id goal \<noteq> [])"

definition pending_patch :: dict where
  "pending_patch = run_patch Phase_PAUSED (Some Governance_NONE) Acceptance_UNVERIFIED Resolution_NONE [] []"

definition result_key :: "StateGraphRunResult \<Rightarrow> string" where
  "result_key res = (let s = sr_run_state res
     in ''loop-result:'' @ lr_run_id s @ '':'' @ show_int (lr_version s) @ '':'' @ lr_terminal_state s)"

definition result_patch :: "ControlResult \<Rightarrow> StateGraphRunResult \<Rightarrow> bool option \<Rightarrow> Home \<Rightarrow> dict" where
  "result_patch base res persist h =
     (if delivery_pending (cs_goal base) res persist then pending_patch
      else run_updates_for_loop
        (case get_run (run_id (cs_run base)) (hm_runs h) of None \<Rightarrow> [] | Some r \<Rightarrow> run_result_summary r)
        (lr_terminal_state (sr_run_state res)) (surface_message_from_result res))"

definition result_evidence :: "ControlResult \<Rightarrow> StateGraphRunResult \<Rightarrow> bool option \<Rightarrow> dict \<Rightarrow> dict" where
  "result_evidence base res persist evidence =
     (let merged = dict_merge
        [(''loop_run_id'', JStr (lr_run_id (sr_run_state res))),
         (''loop_terminal_state'', JStr (lr_terminal_state (sr_run_state res))),
         (''checker_report'', JDict (case sr_checker_report res of None \<Rightarrow> [] | Some r \<Rightarrow> checker_report_to_dict r))]
        evidence
      in if delivery_pending (cs_goal base) res persist
         then dict_set ''delivery_status'' (JStr ''pending'') merged else merged)"

text \<open>\<open>max_attempts\<close> is the default of the outbox.\<close>

definition apply_state_graph_result ::
  "int \<Rightarrow> Env \<Rightarrow> ControlResult \<Rightarrow> StateGraphRunResult \<Rightarrow> string \<Rightarrow> dict \<Rightarrow> bool option \<Rightarrow> (ControlResult, Service) call" where
  "apply_state_graph_result max_attempts env base res state_transition evidence persist =
     then_call (look_up (\<lambda>s. result_patch base res persist (sh_home (sv_core s)))) (\<lambda>patch.
     then_call (on_core (prepare_saga env (result_key res) (run_id (cs_run base)) (g_id (cs_goal base)) patch
         (result_evidence base res persist evidence) [])) (\<lambda>saga.
     then_call (on_core (apply_saga env saga)) (\<lambda>(run, goal).
     then_call (call_if (lr_terminal_state (sr_run_state res) = ts_str LoopTerminalState_CONVERGED)
         (enqueue_case_precipitation goal)) (\<lambda>_.
     then_call (call_if (delivery_pending (cs_goal base) res persist)
         (\<lambda>s. then_call (try_store sv_outbox (\<lambda>p s. s\<lparr>sv_outbox := p\<rparr>)
            (record_result_delivery_outbox max_attempts (env_clock env) run goal (surface_message_from_result res)
              ''state_graph.evidence.responded_message'' (g_source goal) (or_else (g_trace_id goal) (run_id run))
              (hm_goals (sh_home (sv_core s))))) (\<lambda>_. answer ()) s)) (\<lambda>_.
     answer \<lparr>cs_goal = goal, cs_run = run, cs_loop_spec = cs_loop_spec base, cs_loop_run = sr_run_state res,
       cs_graph_result = Some res,
       cs_state_transition = or_else state_transition (cs_state_transition base)\<rparr>)))))"

text \<open>\<open>failure\<close> is the class name of the exception, \<open>message\<close> its text.\<close>

definition fail_state_graph_execution ::
  "Env \<Rightarrow> ControlResult \<Rightarrow> string \<Rightarrow> string \<Rightarrow> string \<Rightarrow> (unit, Service) call" where
  "fail_state_graph_execution env base error_type message execution_owner =
     (let failure = ''state_graph_exception:'' @ error_type
      in then_call (on_core (call_on sh_home (\<lambda>h c. c\<lparr>sh_home := h\<rparr>)
           (try_loops (\<lambda>db. fail_active_run env (lr_run_id (cs_loop_run base)) execution_owner
              [(''reason'', JStr failure), (''error'', JStr message)] None db db)))) (\<lambda>failed_loop.
         then_call (in_store sv_ledger (\<lambda>p s. s\<lparr>sv_ledger := p\<rparr>)
           (release_active_grants_for_scopes env [lr_run_id failed_loop])) (\<lambda>_.
         then_call (on_core (prepare_saga env
             (''loop-exception:'' @ lr_run_id failed_loop @ '':'' @ show_int (lr_version failed_loop))
             (run_id (cs_run base)) (g_id (cs_goal base))
             (run_patch Phase_ENDED (Some Governance_NONE) Acceptance_REJECTED Resolution_FAILED [] failure)
             [(''state_transition'', JStr ''state_graph_execution_failed''),
              (''loop_run_id'', JStr (lr_run_id (cs_loop_run base))), (''error'', JStr failure)] [])) (\<lambda>saga.
         then_call (on_core (apply_saga env saga)) (\<lambda>_. answer ())))))"

section \<open>External waits\<close>

abbreviation on_home :: "('a, Home) call \<Rightarrow> ('a, SagaHome) call" where
  "on_home \<equiv> call_on sh_home (\<lambda>h c. c\<lparr>sh_home := h\<rparr>)"

text \<open>The two durable ends of an external wait; \<open>cancel\<close> selects between them.\<close>

definition wait_done :: "bool \<Rightarrow> LoopRunState \<Rightarrow> bool" where
  "wait_done cancel s = (lr_terminal_state s =
     ts_str (if cancel then LoopTerminalState_CANCELLED else LoopTerminalState_PAUSED))"

definition wait_word :: "bool \<Rightarrow> string" where
  "wait_word cancel = (if cancel then ''cancel'' else ''pause'')"

definition wait_evidence :: "bool \<Rightarrow> string \<Rightarrow> string \<Rightarrow> dict" where
  "wait_evidence cancel loop_run_id reason =
     [(''state_transition'', JStr (if cancel then ''external_wait_cancelled'' else ''external_wait_paused'')),
      (''loop_run_id'', JStr loop_run_id), (''reason'', JStr reason)]"

definition wait_patch :: "bool \<Rightarrow> string \<Rightarrow> dict" where
  "wait_patch cancel reason =
     (if cancel
      then run_patch Phase_ENDED (Some Governance_NONE) Acceptance_REJECTED Resolution_CANCELED
             ''external wait cancelled'' reason
      else run_patch Phase_PAUSED (Some Governance_NONE) Acceptance_UNVERIFIED Resolution_NONE
             ''external wait paused (approval expired)'' reason)"

definition end_external_wait :: "bool \<Rightarrow> Env \<Rightarrow> string \<Rightarrow> string \<Rightarrow> (LoopRunState, SagaHome) call" where
  "end_external_wait cancel env loop_run_id reason =
     then_call (on_home (look_up (\<lambda>h. get_loop_run loop_run_id (hm_loops h)))) (\<lambda>found.
     then_call (required (no_loop_run loop_run_id) found) (\<lambda>state.
     if wait_done cancel state then answer state
     else if \<not> at_external_wait state
     then raise_error (ValueError (''loop run is not at an external wait: '' @ lr_terminal_state state))
     else
       then_call (on_home (look_up (\<lambda>h. get_goal (lr_goal_id state) (hm_goals h)))) (\<lambda>found_goal.
       then_call (required (no_goal_of_loop (lr_goal_id state)) found_goal) (\<lambda>goal.
       then_call (on_home (look_up (run_for_goal (Some goal)))) (\<lambda>found_run.
       then_call (required (no_run_of_goal (g_run_id goal)) found_run) (\<lambda>run.
       let normalized = or_else (py_strip reason)
             (if cancel then ''external_wait_cancelled'' else ''external_wait_paused'');
           evidence = wait_evidence cancel (lr_run_id state) normalized
       in then_call (prepare_saga env (''external_wait_'' @ wait_word cancel @ '':'' @ lr_run_id state) (run_id run)
            (g_id goal) (wait_patch cancel normalized) evidence
            [(''kind'', JStr (''external_wait_'' @ wait_word cancel)), (''loop_run_id'', JStr (lr_run_id state)),
             (''evidence'', JDict evidence)]) (\<lambda>saga.
          then_call (apply_saga env saga) (\<lambda>_.
          then_call (on_home (look_up (\<lambda>h. get_loop_run (lr_run_id state) (hm_loops h)))) (\<lambda>after.
          required (KeyError (''loop run not found after '' @
            (if cancel then ''cancellation'' else ''pause'') @ '': '' @ lr_run_id state)) after))))))))) "

definition cancel_external_wait_durably :: "Env \<Rightarrow> string \<Rightarrow> string \<Rightarrow> (LoopRunState, SagaHome) call" where
  "cancel_external_wait_durably = end_external_wait True"

definition pause_external_wait_durably :: "Env \<Rightarrow> string \<Rightarrow> string \<Rightarrow> (LoopRunState, SagaHome) call" where
  "pause_external_wait_durably = end_external_wait False"

section \<open>Reconciliation of approval waits\<close>

definition loop_run_is_resumable_kind :: "LoopRunState \<Rightarrow> Home \<Rightarrow> bool" where
  "loop_run_is_resumable_kind s h =
     (case spec_of_loop s h of
        Inl _ \<Rightarrow> False
      | Inr spec \<Rightarrow> str_or_empty (jget (gs_metadata (ls_goal spec)) ''loop_kind'') \<in> {''scheduled'', ''durable_goal''})"

datatype Verdict = Wait_Cancelled | Wait_Paused | Wait_Resumed | Wait_Valid | Wait_Deferred

definition ends_as :: "Verdict \<Rightarrow> ('a, 's) call \<Rightarrow> (Verdict, 's) call" where
  "ends_as v c = then_call c (\<lambda>_. answer v)"

definition reconcile_wait :: "Env \<Rightarrow> time \<Rightarrow> time \<Rightarrow> LoopRunState \<Rightarrow> (Verdict, SagaHome) call" where
  "reconcile_wait env now grace s =
     (if now < lr_updated_at s + grace then answer Wait_Deferred
      else then_call (on_home (look_up (\<lambda>h. let goal = get_goal (lr_goal_id s) (hm_goals h)
          in (run_for_goal goal h, get_approval (owned_approval_gate_id (JDict (lr_evidence s))) (db_approvals (hm_runs h)),
              loop_run_is_resumable_kind s h)))) (\<lambda>(found_run, found_approval, resumable).
        case found_run of
          None \<Rightarrow> answer Wait_Deferred
        | Some run \<Rightarrow>
            (case (if owned_approval_gate_id (JDict (lr_evidence s)) = [] then None else found_approval) of
               None \<Rightarrow> ends_as Wait_Cancelled (cancel_external_wait_durably env (lr_run_id s) ''approval_gate_owner_missing'')
             | Some approval \<Rightarrow>
                 if ap_run_id approval \<noteq> run_id run
                 then ends_as Wait_Cancelled (cancel_external_wait_durably env (lr_run_id s) ''approval_gate_owner_mismatch'')
                 else if ap_status approval = APPROVAL_STATUS_PENDING then answer Wait_Valid
                 else if ap_status approval = APPROVAL_STATUS_APPROVED \<and> run_phase run \<noteq> phase_str Phase_ENDED
                 then ends_as Wait_Resumed (on_home (try_loops (\<lambda>db. reopen_for_resume env (lr_run_id s) db db)))
                 else if ap_status approval \<in> {APPROVAL_STATUS_EXPIRED, APPROVAL_STATUS_REJECTED, APPROVAL_STATUS_APPROVED}
                 then if ap_status approval = APPROVAL_STATUS_EXPIRED \<and> resumable
                      then ends_as Wait_Paused (pause_external_wait_durably env (lr_run_id s)
                             (''approval_gate_'' @ ap_status approval))
                      else ends_as Wait_Cancelled (cancel_external_wait_durably env (lr_run_id s)
                             (''approval_gate_'' @ ap_status approval))
                 else answer Wait_Deferred)))"

fun reconcile_waits ::
  "Env \<Rightarrow> time \<Rightarrow> time \<Rightarrow> LoopRunState list \<Rightarrow> ((string \<times> Verdict) list, SagaHome) call" where
  "reconcile_waits env now grace [] = answer []"
| "reconcile_waits env now grace (s # ss) =
     then_call (reconcile_wait env now grace s) (\<lambda>v.
     then_call (reconcile_waits env now grace ss) (\<lambda>vs. answer ((lr_run_id s, v) # vs)))"

text \<open>The report: how many approvals expired, and the verdict of each loop run, in order.\<close>

definition reconcile_approval_waits ::
  "Env \<Rightarrow> time option \<Rightarrow> time \<Rightarrow> int \<Rightarrow> (int \<times> (string \<times> Verdict) list, SagaHome) call" where
  "reconcile_approval_waits env now orphan_grace_seconds limit =
     (let current_time = (case now of None \<Rightarrow> env_clock env | Some t \<Rightarrow> if t = 0 then env_clock env else t)
      in then_call (on_home (in_runs (\<lambda>db. let (n, t) = expire_pending_approvals current_time (db_approvals db)
             in (n, db\<lparr>db_approvals := t\<rparr>)))) (\<lambda>expired.
         then_call (on_home (look_up (\<lambda>h. list_waiting_approval limit (hm_loops h)))) (\<lambda>states.
         then_call (reconcile_waits env current_time (max 0 orphan_grace_seconds) states) (\<lambda>verdicts.
         answer (expired, verdicts)))))"

end
