(* ===== verification/Loop_Control_Properties.thy ===== *)
theory Loop_Control_Properties
  imports Loop_Control
begin

text \<open>
  The properties of the loop control service: what opening a goal leaves in the stores when it answers
  and when it raises, what a loop result does to run and goal, and where the service works against
  its own stop conditions.
\<close>

section \<open>What the stores hold after a creation\<close>

lemma create_run_Inr:
  assumes "create_run i now d db = Inr (run, db')"
  shows "run_id run = i" "get_run i db = None" "db_runs db' = db_runs db @ [run]" "get_run i db' = Some run"
    "run_phase run = dr_phase d" "run_governance run = dr_governance d" "run_resolution run = dr_resolution d"
  using assms
  by (auto simp: create_run_def require_workspace_def sql_insert_Inr_iff get_run_def row_of_append Let_def
      split: if_splits)

lemma create_goal_row:
  assumes "create_goal env i d db = Inr (g, db')"
  shows "g = new_goal i (env_clock env) (py_strip (gn_workspace d)) d" "get_goal i db = None" "get_goal i db' = Some g"
    "gd_goals db' = gd_goals db @ [g]"
  using assms by (auto simp: create_goal_Inr_iff get_goal_def row_of_append new_goal_def)

lemma create_loop_run_Inr:
  assumes "create_loop_run env i spec parent node ts ev ty db = Inr (s, db')"
  shows "lr_run_id s = i" "lr_goal_id s = ls_goal_id spec" "lr_node s = node" "lr_terminal_state s = ts"
    "lr_loop_spec_id s = ls_id spec" "lr_lease_owner s = []" "lr_attempt s = 1"
    "get_loop_run i db' = Some s" "save_spec spec db = Inr (db'\<lparr>ld_runs := ld_runs db, ld_events := ld_events db\<rparr>)"
proof -
  have v: "loop_spec_validate spec = Inr ()"
    using assms by (cases "loop_spec_validate spec") (simp_all add: create_loop_run_def)
  define st where "st = \<lparr>lr_run_id = i, lr_goal_id = ls_goal_id spec, lr_loop_spec_id = ls_id spec,
      lr_node = node, lr_terminal_state = ts, lr_checkpoint_id = [], lr_attempt = 1, lr_parent_run_id = parent,
      lr_child_run_ids = [], lr_locked_resources = [], lr_evidence = ev, lr_updated_at = env_clock env,
      lr_version = 0, lr_lease_owner = [], lr_lease_expires_at = 0\<rparr>"
  define saved where "saved = save_spec_in_transaction spec db"
  have kept: "ld_runs saved = ld_runs db" "ld_events saved = ld_events db"
    by (simp_all add: saved_def save_spec_in_transaction_def)
  have "create_loop_run env i spec parent node ts ev ty db =
      and_then (sql_insert lr_run_id st (ld_runs saved)) (\<lambda>runs. Inr (st, insert_event env st ty []
        (dict_merge [(''loop_spec_id'', JStr (ls_id spec))] ev) (saved\<lparr>ld_runs := runs\<rparr>)))"
    by (simp add: create_loop_run_def v st_def saved_def Let_def)
  then obtain runs where ins: "sql_insert lr_run_id st (ld_runs saved) = Inr runs" and eqs: "s = st"
      "db' = insert_event env st ty [] (dict_merge [(''loop_spec_id'', JStr (ls_id spec))] ev) (saved\<lparr>ld_runs := runs\<rparr>)"
    using assms by (cases "sql_insert lr_run_id st (ld_runs saved)") simp_all
  show "lr_run_id s = i" "lr_goal_id s = ls_goal_id spec" "lr_node s = node" "lr_terminal_state s = ts"
    "lr_loop_spec_id s = ls_id spec" "lr_lease_owner s = []" "lr_attempt s = 1"
    by (simp_all add: eqs(1) st_def)
  have "row_of lr_run_id (lr_run_id st) (ld_runs saved) = None" "runs = ld_runs saved @ [st]"
    using ins by (simp_all add: sql_insert_Inr_iff)
  then show "get_loop_run i db' = Some s"
    unfolding eqs by (simp add: insert_event_def get_loop_run_def row_of_append) (simp add: st_def)
  have "saved = db'\<lparr>ld_runs := ld_runs db, ld_events := ld_events db\<rparr>"
    unfolding eqs(2) by (cases saved) (use kept in \<open>simp add: insert_event_def\<close>)
  then show "save_spec spec db = Inr (db'\<lparr>ld_runs := ld_runs db, ld_events := ld_events db\<rparr>)"
    by (simp add: save_spec_def v saved_def)
qed

text \<open>A loop run that was just created finds the specification it was created with.\<close>

lemma created_spec_is_read:
  assumes "create_loop_run env i spec parent node ts ev ty (hm_loops h) = Inr (s, db')" "hm_loops h' = db'"
  shows "spec_of_loop s h' = Inr spec"
proof -
  have "and_then (get_spec_json (ls_id spec) (db'\<lparr>ld_runs := ld_runs (hm_loops h), ld_events := ld_events (hm_loops h)\<rparr>))
      loop_spec_from_json = Inr spec"
    by (rule loop_spec_saved) (rule create_loop_run_Inr(9) [OF assms(1)])
  then show ?thesis
    using create_loop_run_Inr(5) [OF assms(1)] assms(2) by (simp add: spec_of_loop_def get_spec_json_def)
qed

lemma loop_spec_for_goal_goal:
  assumes "loop_spec_for_goal host i now goal rq ws = Inr spec"
  shows "ls_goal_id spec = g_id goal" "ls_id spec = i"
  using assms by (auto simp: loop_spec_for_goal_def loop_spec_from_goal_def Let_def)

section \<open>Opening a goal\<close>

text \<open>The two ends of \<open>open_goal\<close>: the schedule that exists, or a new goal in all its stores.\<close>

lemma open_goal_cases:
  assumes "open_goal host env fr rq h = (r, h')"
  obtains e where "r = Inl e" "h' = h"
    | x where "r = Inr x" "h' = h" "cs_state_transition x = ''existing''"
    | kind mode where "loop_kind_text (og_loop_kind rq) = Inr kind" "execution_mode rq kind = Inr mode"
        "open_new host env fr rq (py_strip (og_objective rq)) kind mode (py_strip (og_cron_schedule rq)) h = (r, h')"
proof (cases "py_strip (og_objective rq) = []")
  case True
  then show thesis using assms that(1) by (auto simp: open_goal_def calls Let_def)
next
  case False
  show thesis
  proof (cases "loop_kind_text (og_loop_kind rq)")
    case (Inl e)
    then show thesis using assms False that(1) by (auto simp: open_goal_def calls Let_def then_call_def)
  next
    case kind: (Inr kind)
    show thesis
    proof (cases "execution_mode rq kind")
      case (Inl e)
      then show thesis using assms False kind that(1) by (auto simp: open_goal_def calls Let_def then_call_def)
    next
      case mode: (Inr mode)
      define found where "found = (if kind = ''scheduled''
        then schedule_precheck rq (py_strip (og_objective rq)) (py_strip (og_cron_schedule rq)) h else Inr None)"
      have eq: "open_goal host env fr rq h = then_call (checked found) (\<lambda>existing. case existing of
            Some r \<Rightarrow> answer r
          | None \<Rightarrow> open_new host env fr rq (py_strip (og_objective rq)) kind mode (py_strip (og_cron_schedule rq))) h"
        using False kind mode by (simp add: open_goal_def calls Let_def then_call_def found_def)
      have marked: "found = Inr (Some x) \<Longrightarrow> cs_state_transition x = ''existing''" for x
        by (auto simp: found_def schedule_precheck_def existing_schedule_def Let_def
            split: if_splits option.splits prod.splits)
      show thesis
        using assms that kind mode marked unfolding eq
        by (cases found) (auto simp: then_call_def calls split: option.splits)
    qed
  qed
qed


lemma update_goal_call_eq:
  "update_goal_call env gid u h = (Inr (fst (update_goal_state env gid u (hm_goals h) (hm_goals h))),
     put_goals (snd (update_goal_state env gid u (hm_goals h) (hm_goals h))) h)"
  by (simp add: update_goal_call_def in_store_def split_beta)

lemma update_for_run_call_eq:
  "update_for_run_call env r ev h = (Inr (fst (update_for_run env r ev (hm_goals h) (hm_goals h))),
     put_goals (snd (update_for_run env r ev (hm_goals h) (hm_goals h))) h)"
  by (simp add: update_for_run_call_def in_store_def split_beta)

lemma ended_False: "delivery_acceptance False = Acceptance_REJECTED" "delivery_resolution False = Resolution_FAILED"
  by (simp_all add: delivery_acceptance_def delivery_resolution_def)

lemma ended_True: "delivery_acceptance True = Acceptance_ACCEPTED" "delivery_resolution True = Resolution_SUCCESS"
  by (simp_all add: delivery_acceptance_def delivery_resolution_def)

lemma compensated:
  assumes run: "get_run (run_id run) (hm_runs h) = Some row"
    and goal: "case goal of None \<Rightarrow> True | Some g \<Rightarrow> get_by_run (run_id run) (hm_goals h) = Some g"
  obtains h' r where "compensate_open_failure env run goal e h = (Inr (), h')" "hm_loops h' = hm_loops h"
    "get_run (run_id run) (hm_runs h') = Some r" "ended_as False r"
    "case goal of None \<Rightarrow> hm_goals h' = hm_goals h
       | Some g \<Rightarrow> \<exists>x. get_goal (g_id g) (hm_goals h') = Some x \<and> ended_goal False x"
proof -
  let ?u = "ended_run Acceptance_REJECTED Resolution_FAILED ''loop creation failed'' (''loop_open_failed:'' @ exception_name e)"
  let ?ev = "[(''state_transition'', JStr ''open_compensated''), (''error'', JStr (''loop_open_failed:'' @ exception_name e))]"
  define r where "r = merge_run_updates (env_clock env) ?u row row"
  define h1 where "h1 = put_runs (snd (update_run (env_clock env) (run_id run) ?u (hm_runs h))) h"
  have c: "update_run_call env (run_id run) ?u h = (Inr (Some r), h1)"
    by (simp add: update_run_call_eq run r_def h1_def)
  have r: "get_run (run_id run) (hm_runs h1) = Some r" "ended_as False r" "run_id r = run_id run"
    using run ended_run_fields(1) [of False] row_of_Some [OF run [unfolded get_run_def]]
    by (simp_all add: h1_def update_run_get r_def ended_False)
  show thesis
  proof (cases goal)
    case None
    then show thesis
      using r c by (intro that [of h1 r]) (simp_all add: compensate_open_failure_def then_call_def calls h1_def)
  next
    case (Some g)
    then have seen: "get_by_run (run_id r) (hm_goals h1) = Some g" using goal r(3) by (simp add: h1_def)
    obtain x where x: "g_id x = g_id g" "ended_goal False x"
        "get_goal (g_id x) (snd (update_for_run env r ?ev (hm_goals h1) (hm_goals h1))) = Some x"
      by (rule update_for_run_ended [OF seen r(2)])
    define h2 where "h2 = put_goals (snd (update_for_run env r ?ev (hm_goals h1) (hm_goals h1))) h1"
    have "compensate_open_failure env run goal e h = (Inr (), h2)"
      unfolding compensate_open_failure_def Let_def Some then_call_def c prod.case sum.case option.case
        update_for_run_call_eq h2_def [symmetric] by (rule answer_eq)
    moreover have "hm_loops h2 = hm_loops h" "get_run (run_id run) (hm_runs h2) = Some r"
        "get_goal (g_id g) (hm_goals h2) = Some x"
      using r(1) x(3) unfolding x(1) by (simp_all only: h2_def h1_def Home.select_convs Home.update_convs) simp_all
    ultimately show thesis using that r(2) x(2) Some by auto
  qed
qed

lemma setup_error:
  assumes "open_setup host env fr rq kind mode cron ws run nxt goal h = (Inl e, h')"
  shows "h' = h"
  using assms
  by (auto simp: open_setup_def setup_scheduled_def setup_standard_def then_call_def calls try_store_def Let_def
      update_run_call_eq update_goal_call_eq split: sum.splits prod.splits if_splits)

lemma create_goal_error:
  assumes "open_create_goal host env fr rq obj kind mode cron ws run h = (Inl e, h')"
  shows "h' = h"
  using assms by (auto simp: open_create_goal_def then_call_def calls try_store_def split: sum.splits prod.splits if_splits)

lemma create_goal_answer:
  assumes "open_create_goal host env fr rq obj kind mode cron ws run h = (Inr (nxt, g), h')"
  shows "\<exists>db. create_goal env (fr_goal fr) (open_goal_draft rq obj kind mode cron ws (run_id run) nxt) (hm_goals h) = Inr (g, db)
      \<and> h' = put_goals db h"
  using assms by (auto simp: open_create_goal_def then_call_def calls try_store_def split: sum.splits prod.splits if_splits)

text \<open>A goal drawn for a fresh run is the goal of that run.\<close>

lemma get_by_run_fresh:
  assumes "get_by_run i db = None" "gd_goals db' = gd_goals db @ [g]" "g_run_id g = i"
  shows "get_by_run i db' = Some g"
proof -
  have "filter (\<lambda>g. g_run_id g = i) (gd_goals db) = []"
    using assms(1) unfolding get_by_run_None by (auto simp: filter_empty_conv)
  then show ?thesis using assms(2,3) by (simp add: get_by_run_def first_row_def sql_desc_def)
qed

lemma open_goal_draft_fields [simp]:
  "gn_run_id (open_goal_draft rq obj kind mode cron ws rid nxt) = rid"
  "gn_max_retries (open_goal_draft rq obj kind mode cron ws rid nxt) = 1"
  "gn_timeout (open_goal_draft rq obj kind mode cron ws rid nxt) = of_int (max 1 (og_timeout_seconds rq))"
  "gn_cron_schedule (open_goal_draft rq obj kind mode cron ws rid nxt) = cron"
  by (simp_all add: open_goal_draft_def)

lemma new_goal_of_draft [simp]:
  "g_id (new_goal i now ws d) = i" "g_run_id (new_goal i now ws d) = gn_run_id d"
  "g_max_retries (new_goal i now ws d) = gn_max_retries d" "g_timeout (new_goal i now ws d) = gn_timeout d"
  "g_phase (new_goal i now ws d) = ''running''" "g_created_at (new_goal i now ws d) = now"
  by (simp_all add: new_goal_def)


text \<open>The run of a creation that goes on, and what follows it.\<close>

lemma open_new_run:
  assumes "open_new host env fr rq obj kind mode cron h = (res, h')"
  obtains e where "res = Inl e" "h' = h"
    | ws run db where "create_run (fr_run fr) (env_clock env) (open_run_draft rq obj kind ws) (hm_runs h) = Inr (run, db)"
        "then_call (on_error (open_create_goal host env fr rq obj kind mode cron ws run) (compensate_open_failure env run None))
          (\<lambda>(nxt, goal). on_error (open_setup host env fr rq kind mode cron ws run nxt goal)
            (compensate_open_failure env run (Some goal))) (put_runs db h) = (res, h')"
proof (cases "resolve_workspace host (og_workspace rq)")
  case (Inl e)
  then show thesis using assms that(1) by (auto simp: open_new_def then_call_def calls)
next
  case ws: (Inr ws)
  show thesis
  proof (cases "create_run (fr_run fr) (env_clock env) (open_run_draft rq obj kind ws) (hm_runs h)")
    case (Inl e)
    then show thesis using assms ws that(1) by (auto simp: open_new_def then_call_def calls try_store_def)
  next
    case (Inr made)
    obtain run db where made: "made = (run, db)" by fastforce
    have "open_new host env fr rq obj kind mode cron h =
        then_call (on_error (open_create_goal host env fr rq obj kind mode cron ws run) (compensate_open_failure env run None))
          (\<lambda>(nxt, goal). on_error (open_setup host env fr rq kind mode cron ws run nxt goal)
            (compensate_open_failure env run (Some goal))) (put_runs db h)"
      unfolding open_new_def by (simp add: then_call_def [of "checked r" for r] then_call_def [of "try_runs f" for f]
          calls ws try_store_def Inr made)
    then show thesis using that(2) Inr made assms by simp
  qed
qed

lemma open_new_failed:
  assumes "open_new host env fr rq obj kind mode cron h = (Inl e, h')" "get_by_run (fr_run fr) (hm_goals h) = None"
  shows "hm_loops h' = hm_loops h \<and> (h' = h \<or>
    (\<exists>r. get_run (fr_run fr) (hm_runs h') = Some r \<and> ended_as False r) \<and>
    (hm_goals h' = hm_goals h \<or> (\<exists>g. get_goal (fr_goal fr) (hm_goals h') = Some g \<and> ended_goal False g)))"
  using assms(1)
proof (cases rule: open_new_run)
  case (2 ws run db)
  note run = create_run_Inr [OF 2(1)]
  obtain res1 h1 where one: "on_error (open_create_goal host env fr rq obj kind mode cron ws run)
      (compensate_open_failure env run None) (put_runs db h) = (res1, h1)" by fastforce
  from one show ?thesis
  proof (cases rule: on_error_cases)
    case (2 e1 t x)
    have t: "t = put_runs db h" using create_goal_error [OF 2(1)] .
    have row: "get_run (run_id run) (hm_runs t) = Some run" using run(1,4) by (simp add: t)
    obtain h2 r where h2: "compensate_open_failure env run None e1 t = (Inr (), h2)" "hm_loops h2 = hm_loops t"
        "get_run (run_id run) (hm_runs h2) = Some r" "ended_as False r" "hm_goals h2 = hm_goals t"
      by (rule compensated [OF row, of None env e1]) simp_all
    then have "h1 = h2" "res1 = Inl e1" using 2 by simp_all
    moreover have "h' = h1" using \<open>then_call _ _ _ = (Inl e, h')\<close> one \<open>res1 = Inl e1\<close> by (simp add: then_call_def)
    ultimately show ?thesis using h2 run(1) by (auto simp: t)
  next
    case (1 made)
    obtain nxt goal where made: "made = (nxt, goal)" by fastforce
    obtain gdb where g: "create_goal env (fr_goal fr) (open_goal_draft rq obj kind mode cron ws (run_id run) nxt) (hm_goals h)
        = Inr (goal, gdb)" and h1: "h1 = put_goals gdb (put_runs db h)"
      using create_goal_answer [OF 1(1) [unfolded made]] by auto
    note goal = create_goal_row [OF g]
    have rest: "on_error (open_setup host env fr rq kind mode cron ws run nxt goal)
        (compensate_open_failure env run (Some goal)) h1 = (Inl e, h')"
      using \<open>then_call _ _ _ = (Inl e, h')\<close> one 1(2) made by (simp add: then_call_def)
    have by_run: "get_by_run (run_id run) (hm_goals h1) = Some goal"
      using get_by_run_fresh [OF assms(2) goal(4)] run(1) by (simp add: h1 goal(1))
    have row: "get_run (run_id run) (hm_runs h1) = Some run" using run(1,4) by (simp add: h1)
    from rest show ?thesis
    proof (cases rule: on_error_cases)
      case (2 e2 t x)
      have t: "t = h1" using setup_error [OF 2(1)] .
      obtain h2 r where h2: "compensate_open_failure env run (Some goal) e2 h1 = (Inr (), h2)" "hm_loops h2 = hm_loops h1"
          "get_run (run_id run) (hm_runs h2) = Some r" "ended_as False r"
          "\<exists>x. get_goal (g_id goal) (hm_goals h2) = Some x \<and> ended_goal False x"
        by (rule compensated [OF row, of "Some goal" env e2]) (use by_run in simp_all)
      then have "h' = h2" using 2(2) t by simp
      moreover have "g_id goal = fr_goal fr" by (simp add: goal(1))
      ultimately show ?thesis using h2 run(1) by (auto simp: h1)
    qed simp
  qed
qed simp

text \<open>
  C17. A goal that fails to open leaves nothing half open: whatever raises between the stores, no loop run
  was written, and either the stores are as before or the new run is ended as failed and the new goal,
  where there is one, too.
\<close>

theorem failed_open_is_compensated:
  assumes "open_goal host env fr rq h = (Inl e, h')" "get_by_run (fr_run fr) (hm_goals h) = None"
  shows "hm_loops h' = hm_loops h \<and> (h' = h \<or>
    (\<exists>r. get_run (fr_run fr) (hm_runs h') = Some r \<and> ended_as False r) \<and>
    (hm_goals h' = hm_goals h \<or> (\<exists>g. get_goal (fr_goal fr) (hm_goals h') = Some g \<and> ended_goal False g)))"
  using assms(1)
proof (cases rule: open_goal_cases)
  case (3 kind mode)
  then show ?thesis using open_new_failed assms(2) by blast
qed simp_all


text \<open>What an opened goal is, in the stores and in the answer.\<close>

definition linked :: "Fresh \<Rightarrow> ControlResult \<Rightarrow> Home \<Rightarrow> bool" where
  "linked fr r h =
     (get_run (fr_run fr) (hm_runs h) = Some (cs_run r) \<and> get_goal (fr_goal fr) (hm_goals h) = Some (cs_goal r) \<and>
      get_loop_run (fr_loop fr) (hm_loops h) = Some (cs_loop_run r) \<and> g_run_id (cs_goal r) = fr_run fr \<and>
      lr_goal_id (cs_loop_run r) = fr_goal fr \<and> spec_of_loop (cs_loop_run r) h = Inr (cs_loop_spec r))"

definition waits_for_work :: "ControlResult \<Rightarrow> bool" where
  "waits_for_work r =
     (lr_terminal_state (cs_loop_run r) = [] \<and> lr_node (cs_loop_run r) = loopNode_str LoopNode_PLAN \<and>
      run_phase (cs_run r) = phase_str Phase_RUNNING)"

definition registered :: "ControlResult \<Rightarrow> bool" where
  "registered r =
     (lr_terminal_state (cs_loop_run r) = ts_str LoopTerminalState_CONVERGED \<and> ended_as True (cs_run r) \<and>
      g_task_status (cs_goal r) = ''scheduled'')"

lemma setup_answer:
  assumes s: "open_setup host env fr rq kind mode cron ws run nxt goal h = (Inr x, h')"
    and run: "get_run (run_id run) (hm_runs h) = Some run" "run_id run = fr_run fr" "run_phase run = phase_str Phase_RUNNING"
    and goal: "get_goal (g_id goal) (hm_goals h) = Some goal" "g_id goal = fr_goal fr" "g_run_id goal = fr_run fr"
      "g_phase goal = phase_str Phase_RUNNING"
  shows "linked fr x h' \<and> g_phase (cs_goal x) = phase_str Phase_RUNNING \<and> g_timeout (cs_goal x) = g_timeout goal \<and>
    g_max_retries (cs_goal x) = g_max_retries goal \<and> g_created_at (cs_goal x) = g_created_at goal \<and>
    (if kind = ''scheduled'' then cs_state_transition x = ''scheduled'' \<and> registered x
     else cs_state_transition x = ''opened'' \<and> waits_for_work x)"
proof -
  obtain spec where spec: "loop_spec_for_goal host (fr_spec fr) (env_clock env) goal rq ws = Inr spec"
    using s by (cases "loop_spec_for_goal host (fr_spec fr) (env_clock env) goal rq ws") (auto simp: open_setup_def then_call_def calls)
  note sg = loop_spec_for_goal_goal(1) [OF spec]
  show ?thesis
  proof (cases "kind = ''scheduled''")
    case False
    obtain loop ldb where l: "create_loop_run env (fr_loop fr) spec [] (loopNode_str LoopNode_PLAN) []
          [(''execution_mode'', JStr mode)] ''loop.run_created'' (hm_loops h) = Inr (loop, ldb)" "h' = put_loops ldb h"
      and x: "x = \<lparr>cs_goal = goal, cs_run = run, cs_loop_spec = spec, cs_loop_run = loop, cs_graph_result = None,
           cs_state_transition = ''opened''\<rparr>"
      using s False by (auto simp: open_setup_def then_call_def calls spec setup_standard_def try_store_def
          split: sum.splits prod.splits)
    show ?thesis
      using create_loop_run_Inr [OF l(1)] created_spec_is_read [OF l(1), of h'] run goal sg False
      by (simp add: linked_def waits_for_work_def x l(2))
  next
    case True
    let ?reg = "[(''state_transition'', JStr ''schedule_registered''), (''cron_schedule'', JStr cron), (''next_run_at'', JFloat nxt)]"
    define r where "r = merge_run_updates (env_clock env) (ended_run Acceptance_ACCEPTED Resolution_SUCCESS ''schedule registered'' []) run run"
    define g where "g = updated_goal env (registered_goal ?reg) goal goal"
    obtain loop ldb where l: "create_loop_run env (fr_loop fr) spec [] (loopNode_str LoopNode_EVALUATE)
          (ts_str LoopTerminalState_CONVERGED) ?reg ''loop.schedule_registered'' (hm_loops h) = Inr (loop, ldb)"
      and h': "hm_loops h' = ldb" "hm_runs h' = snd (update_run (env_clock env) (run_id run)
          (ended_run Acceptance_ACCEPTED Resolution_SUCCESS ''schedule registered'' []) (hm_runs h))"
        "hm_goals h' = snd (update_goal_state env (g_id goal) (registered_goal ?reg) (hm_goals h) (hm_goals h))"
      and x: "x = \<lparr>cs_goal = g, cs_run = r, cs_loop_spec = spec, cs_loop_run = loop, cs_graph_result = None,
           cs_state_transition = ''scheduled''\<rparr>"
      using s True update_goal_state_now(1) [OF goal(1), of env "registered_goal ?reg"]
      by (auto simp: open_setup_def then_call_def calls spec setup_scheduled_def try_store_def Let_def update_run_call_eq
          update_goal_call_eq run(1) r_def g_def split: sum.splits prod.splits)
    have "get_run (fr_run fr) (hm_runs h') = Some r"
      using run(1,2) by (simp add: h'(2) update_run_get r_def)
    moreover have "get_goal (fr_goal fr) (hm_goals h') = Some g"
      using update_goal_state_row [OF goal(1), of "g_id goal" env "registered_goal ?reg" "hm_goals h"] goal(1,2)
      by (simp add: h'(3) g_def)
    moreover have "ended_as True r"
      using ended_run_fields(1) [of True] by (simp add: r_def ended_True)
    ultimately show ?thesis
      using create_loop_run_Inr [OF l] created_spec_is_read [OF l h'(1)] run goal sg True h'(1)
      by (simp add: linked_def registered_def x g_def updated_goal_def registered_goal_def or_else_def)
  qed
qed

lemma open_new_answered:
  assumes "open_new host env fr rq obj kind mode cron h = (Inr x, h')"
  shows "linked fr x h' \<and> g_phase (cs_goal x) = phase_str Phase_RUNNING \<and> g_max_retries (cs_goal x) = 1 \<and>
    g_timeout (cs_goal x) = of_int (max 1 (og_timeout_seconds rq)) \<and> g_created_at (cs_goal x) = env_clock env \<and>
    (if kind = ''scheduled'' then cs_state_transition x = ''scheduled'' \<and> registered x
     else cs_state_transition x = ''opened'' \<and> waits_for_work x)"
  using assms
proof (cases rule: open_new_run)
  case (2 ws run db)
  note run = create_run_Inr [OF 2(1)]
  obtain made h1 where one: "on_error (open_create_goal host env fr rq obj kind mode cron ws run)
      (compensate_open_failure env run None) (put_runs db h) = (Inr made, h1)"
    and rest: "(\<lambda>(nxt, goal). on_error (open_setup host env fr rq kind mode cron ws run nxt goal)
        (compensate_open_failure env run (Some goal))) made h1 = (Inr x, h')"
    by (rule then_call_answered [OF 2(2)])
  obtain nxt goal where made: "made = (nxt, goal)" by fastforce
  have "open_create_goal host env fr rq obj kind mode cron ws run (put_runs db h) = (Inr (nxt, goal), h1)"
    using one unfolding made by (cases rule: on_error_cases) (auto split: sum.splits)
  then obtain gdb where g: "create_goal env (fr_goal fr) (open_goal_draft rq obj kind mode cron ws (run_id run) nxt) (hm_goals h)
        = Inr (goal, gdb)" and h1: "h1 = put_goals gdb (put_runs db h)"
    using create_goal_answer by fastforce
  note goal = create_goal_row [OF g]
  have "open_setup host env fr rq kind mode cron ws run nxt goal h1 = (Inr x, h')"
    using rest [unfolded made prod.case] by (cases rule: on_error_cases) (auto split: sum.splits)
  then show ?thesis
    using setup_answer [of host env fr rq kind mode cron ws run nxt goal h1 x h'] run goal
    by (simp add: h1 open_run_draft_def)
qed simp_all

text \<open>
  C16. An opened goal is there in all its stores, linked: run, goal and loop run under their new
  identifiers, the loop run with the specification of the answer; a durable goal waits for work at its
  first node, a schedule is registered with a converged loop run and an ended run.
\<close>

theorem opened_goal_is_linked:
  assumes "open_goal host env fr rq h = (Inr x, h')" "cs_state_transition x \<noteq> ''existing''"
  shows "linked fr x h' \<and> g_phase (cs_goal x) = phase_str Phase_RUNNING \<and>
    (cs_state_transition x = ''scheduled'' \<and> registered x \<or> cs_state_transition x = ''opened'' \<and> waits_for_work x)"
  using assms(1)
proof (cases rule: open_goal_cases)
  case (3 kind mode)
  then show ?thesis using open_new_answered [OF 3(3)] by (cases "kind = ''scheduled''") simp_all
qed (use assms(2) in simp_all)

text \<open>
  A schedule runs into its own stop condition: a registered recurring goal keeps the phase running
  and gets the timeout of one execution, so from that many seconds after its registration on the stop
  condition is reached, which ends the goal, whatever its schedule says.
\<close>

theorem schedule_times_out:
  assumes "open_goal host env fr rq h = (Inr x, h')" "cs_state_transition x = ''scheduled''"
    "env_clock env + of_int (max 1 (og_timeout_seconds rq)) \<le> env_clock later"
  shows "stop_condition_reached later (g_id (cs_goal x)) (hm_goals h') = ''timeout_reached''"
  using assms(1)
proof (cases rule: open_goal_cases)
  case (3 kind mode)
  note opened = open_new_answered [OF 3(3)]
  then have "get_goal (fr_goal fr) (hm_goals h') = Some (cs_goal x)" by (simp add: linked_def)
  moreover from this have "g_id (cs_goal x) = fr_goal fr" by (auto simp: get_goal_def dest: row_of_Some)
  moreover have "0 < g_timeout (cs_goal x)" "g_timeout (cs_goal x) \<le> env_clock later - g_created_at (cs_goal x)"
    using opened assms(3) by auto
  ultimately show ?thesis
    using opened by (simp add: stop_condition_reached_def stop_condition_facts_def jget_def)
qed (use assms(2) in simp_all)

section \<open>Witnesses\<close>

definition empty_home :: Home where
  "empty_home = \<lparr>hm_runs = \<lparr>db_runs = [], db_logs = [], db_approvals = []\<rparr>,
     hm_goals = \<lparr>gd_goals = [], gd_events = []\<rparr>,
     hm_loops = \<lparr>ld_specs = [], ld_runs = [], ld_checkpoints = [], ld_events = []\<rparr>\<rparr>"

definition sample_host :: Host where
  "sample_host = \<lparr>ho_directory = (\<lambda>p. if p = ''/w'' then Some p else None),
     ho_tools = (\<lambda>w. [(''fs.write'', True, ''paths'')]), ho_minute = (\<lambda>t. \<lfloor>t / 60\<rfloor>), ho_moment = (\<lambda>m. of_int m * 60)\<rparr>"

definition sample_fresh :: Fresh where
  "sample_fresh = \<lparr>fr_run = ''r1'', fr_goal = ''g1'', fr_spec = ''s1'', fr_loop = ''l1''\<rparr>"

definition sample_open :: "string \<Rightarrow> OpenGoalRequest" where
  "sample_open permission = (open_request ''tidy'' ''/w'')\<lparr>og_permission_ceiling := permission\<rparr>"

definition sample_schedule :: OpenGoalRequest where
  "sample_schedule = (open_request ''report'' ''/w'')\<lparr>og_loop_kind := ''scheduled'', og_cron_schedule := ''* * * * *''\<rparr>"

lemma sample_opens:
  "(case open_goal sample_host (env_at 9) sample_fresh (sample_open ''root'') empty_home of
      (Inl e, h') \<Rightarrow> length (db_runs (hm_runs h')) = 1 | (Inr x, h') \<Rightarrow> False)"
  "(case fst (open_goal sample_host (env_at 9) sample_fresh (sample_open ''write'') empty_home) of
      Inl e \<Rightarrow> False | Inr x \<Rightarrow> cs_state_transition x = ''opened'')"
  "(case fst (open_goal sample_host (env_at 9) sample_fresh sample_schedule empty_home) of
      Inl e \<Rightarrow> False | Inr x \<Rightarrow> cs_state_transition x = ''scheduled'')"
  by code_simp+

lemma empty_home_goals: "get_by_run i (hm_goals empty_home) = None"
  by (simp add: empty_home_def get_by_run_def first_row_def sql_desc_def)

theorem failed_open_is_compensated_witness:
  "\<exists>e h' r. open_goal sample_host (env_at 9) sample_fresh (sample_open ''root'') empty_home = (Inl e, h') \<and>
     hm_loops h' = hm_loops empty_home \<and> get_run ''r1'' (hm_runs h') = Some r \<and> ended_as False r"
proof -
  obtain e h' where o: "open_goal sample_host (env_at 9) sample_fresh (sample_open ''root'') empty_home = (Inl e, h')"
      and n: "length (db_runs (hm_runs h')) = 1"
    using sample_opens(1)
    by (cases "open_goal sample_host (env_at 9) sample_fresh (sample_open ''root'') empty_home") (auto split: sum.splits)
  from n have "h' \<noteq> empty_home" by (auto simp: empty_home_def)
  then show ?thesis
    using failed_open_is_compensated [OF o] empty_home_goals o by (auto simp: sample_fresh_def)
qed

theorem opened_goal_is_linked_witness:
  "\<exists>x h'. open_goal sample_host (env_at 9) sample_fresh (sample_open ''write'') empty_home = (Inr x, h') \<and>
     linked sample_fresh x h'"
proof -
  obtain x h' where o: "open_goal sample_host (env_at 9) sample_fresh (sample_open ''write'') empty_home = (Inr x, h')"
      and x: "cs_state_transition x = ''opened''"
    using sample_opens(2)
    by (cases "open_goal sample_host (env_at 9) sample_fresh (sample_open ''write'') empty_home") (auto split: sum.splits)
  then show ?thesis
    using opened_goal_is_linked [OF o] by simp
qed

theorem schedule_times_out_witness:
  "\<exists>x h'. open_goal sample_host (env_at 9) sample_fresh sample_schedule empty_home = (Inr x, h') \<and>
     stop_condition_reached (env_at 200) (g_id (cs_goal x)) (hm_goals h') = ''timeout_reached''"
proof -
  obtain x h' where o: "open_goal sample_host (env_at 9) sample_fresh sample_schedule empty_home = (Inr x, h')"
      and x: "cs_state_transition x = ''scheduled''"
    using sample_opens(3)
    by (cases "open_goal sample_host (env_at 9) sample_fresh sample_schedule empty_home") (auto split: sum.splits)
  have "stop_condition_reached (env_at 200) (g_id (cs_goal x)) (hm_goals h') = ''timeout_reached''"
    by (rule schedule_times_out [OF o x]) (simp add: env_at_def sample_schedule_def open_request_def)
  with o show ?thesis by blast
qed

end
