(* ===== verification/Workspace_Locks.thy ===== *)
theory Workspace_Locks
  imports Loop_Contracts
begin

text \<open>
  The lock store of \<open>navi/workspaces.py\<close>: leases on resources in the table \<open>workspace_locks\<close>, shared
  by readers or held by one writer. Each method is one transaction; \<open>now\<close> is the clock it reads and
  \<open>fresh_id\<close> the \<open>uuid4\<close> it draws.
\<close>

section \<open>State and operations\<close>

record LockRow =
  lw_id :: string
  lw_owner_run_id :: string
  lw_resource :: string
  lw_mode :: string
  lw_lease_expiry :: time
  lw_acquired_at :: time

type_synonym locks = "LockRow list"

record LockAcquireResult =
  la_acquired :: bool
  la_lock :: WorkspaceLock
  la_conflicts :: "WorkspaceLock list"

definition lock_acquire_result_to_dict :: "LockAcquireResult \<Rightarrow> dict" where
  "lock_acquire_result_to_dict r =
     [(''acquired'', JBool (la_acquired r)), (''lock'', JDict (workspace_lock_to_dict (la_lock r))),
      (''conflicts'', JList (map (JDict \<circ> workspace_lock_to_dict) (la_conflicts r)))]"

definition lock_of_row :: "LockRow \<Rightarrow> WorkspaceLock" where
  "lock_of_row r = \<lparr>wl_owner_run_id = lw_owner_run_id r, wl_resource = lw_resource r, wl_mode = lw_mode r,
     wl_lease_expiry = lw_lease_expiry r\<rparr>"

definition locks_in_order :: "locks \<Rightarrow> WorkspaceLock list" where
  "locks_in_order t = map lock_of_row (sql_asc lw_resource (sql_asc lw_lease_expiry t))"

definition same_claim :: "string \<Rightarrow> string \<Rightarrow> LockRow \<Rightarrow> bool" where
  "same_claim owner resource r = (lw_owner_run_id r = owner \<and> lw_resource r = resource)"

text \<open>The transaction of \<open>acquire\<close>; expired leases are deleted also when the lock is refused.\<close>

definition grant_lock :: "string \<Rightarrow> time \<Rightarrow> WorkspaceLock \<Rightarrow> locks \<Rightarrow> (LockAcquireResult \<times> locks) result" where
  "grant_lock fresh_id now lock t =
     (let live = sql_delete (\<lambda>r. lw_lease_expiry r \<le> now) t;
          rows = locks_in_order (filter (\<lambda>r. lw_lease_expiry r > now \<and> lw_resource r = wl_resource lock) live);
          conflicts = filter (\<lambda>l. workspace_lock_conflicts_with now (Some now) l lock) rows
      in if conflicts \<noteq> []
         then Inr (\<lparr>la_acquired = False, la_lock = lock, la_conflicts = conflicts\<rparr>, live)
         else and_then
           (case sql_one (same_claim (wl_owner_run_id lock) (wl_resource lock)) live of
              None \<Rightarrow> sql_insert lw_id \<lparr>lw_id = fresh_id, lw_owner_run_id = wl_owner_run_id lock,
                lw_resource = wl_resource lock, lw_mode = wl_mode lock,
                lw_lease_expiry = wl_lease_expiry lock, lw_acquired_at = now\<rparr> live
            | Some _ \<Rightarrow> Inr (sql_update (same_claim (wl_owner_run_id lock) (wl_resource lock))
                (\<lambda>r. r\<lparr>lw_mode := wl_mode lock, lw_lease_expiry := wl_lease_expiry lock,
                      lw_acquired_at := now\<rparr>) live))
           (\<lambda>t'. Inr (\<lparr>la_acquired = True, la_lock = lock, la_conflicts = []\<rparr>, t')))"

definition acquire_lock ::
  "string \<Rightarrow> time \<Rightarrow> string \<Rightarrow> string \<Rightarrow> string \<Rightarrow> time \<Rightarrow> locks \<Rightarrow> (LockAcquireResult \<times> locks) result" where
  "acquire_lock fresh_id now owner resource mode ttl_seconds t =
     (if py_strip owner = [] then Inl (ValueError ''owner_run_id is required'')
      else if py_strip resource = [] then Inl (ValueError ''resource is required'')
      else if ttl_seconds \<le> 0 then Inl (ValueError ''ttl_seconds must be positive'')
      else grant_lock fresh_id now \<lparr>wl_owner_run_id = owner, wl_resource = resource, wl_mode = mode,
             wl_lease_expiry = now + ttl_seconds\<rparr> t)"

definition release_locks :: "string \<Rightarrow> string \<Rightarrow> locks \<Rightarrow> nat \<times> locks" where
  "release_locks owner resource t =
     (let mine = (\<lambda>r. if resource \<noteq> [] then same_claim owner resource r else lw_owner_run_id r = owner)
      in (sql_count mine t, sql_delete mine t))"

definition list_active_locks :: "string \<Rightarrow> time \<Rightarrow> locks \<Rightarrow> WorkspaceLock list" where
  "list_active_locks resource current t =
     locks_in_order (filter (\<lambda>r. lw_lease_expiry r > current \<and> (resource = [] \<or> lw_resource r = resource)) t)"

section \<open>Workers\<close>

text \<open>What workers do, in any order and each by its own clock; an operation that raises changes nothing.\<close>

datatype lock_op =
    Acquire string time string string string time
  | Release string string

fun lock_step :: "lock_op \<Rightarrow> locks \<Rightarrow> locks" where
  "lock_step (Acquire fresh_id now owner resource mode ttl) t =
     (case acquire_lock fresh_id now owner resource mode ttl t of Inl _ \<Rightarrow> t | Inr (_, t') \<Rightarrow> t')"
| "lock_step (Release owner resource) t = snd (release_locks owner resource t)"

text \<open>Two rows that may stand side by side, whether or not their leases have run out.\<close>

definition rows_compatible :: "LockRow \<Rightarrow> LockRow \<Rightarrow> bool" where
  "rows_compatible r s = (lw_resource r \<noteq> lw_resource s \<or> lw_owner_run_id r = lw_owner_run_id s \<or>
     lw_mode r \<noteq> lockMode_str LockMode_WRITE \<and> lw_mode s \<noteq> lockMode_str LockMode_WRITE)"

definition lock_inv :: "locks \<Rightarrow> bool" where
  "lock_inv t = (\<forall>r\<in>set t. \<forall>s\<in>set t. rows_compatible r s)"

lemma rows_compatible_sym: "rows_compatible r s \<longleftrightarrow> rows_compatible s r"
  by (auto simp: rows_compatible_def)

lemma conflicts_rows:
  "workspace_lock_conflicts_with clock now (lock_of_row r) (lock_of_row s) \<longleftrightarrow>
    clock_or clock now < lw_lease_expiry r \<and> clock_or clock now < lw_lease_expiry s \<and> \<not> rows_compatible r s"
  by (auto simp: workspace_lock_conflicts_with_def workspace_lock_active_def lock_of_row_def rows_compatible_def)

lemma set_locks_in_order [simp]: "set (locks_in_order t) = lock_of_row ` set t"
  by (simp add: locks_in_order_def)

lemma lock_inv_subset: "lock_inv t \<Longrightarrow> set t' \<subseteq> set t \<Longrightarrow> lock_inv t'"
  by (auto simp: lock_inv_def)

lemma lock_inv_delete: "lock_inv t \<Longrightarrow> lock_inv (sql_delete p t)"
  by (erule lock_inv_subset) (auto simp: sql_delete_def)

lemma rows_of_one_lock: "lock_of_row r = lock_of_row s \<Longrightarrow> rows_compatible r s"
  by (simp add: rows_compatible_def lock_of_row_def)

definition lock_conflicts :: "time \<Rightarrow> WorkspaceLock \<Rightarrow> locks \<Rightarrow> WorkspaceLock list" where
  "lock_conflicts now lock t = filter (\<lambda>l. workspace_lock_conflicts_with now (Some now) l lock)
     (locks_in_order (filter (\<lambda>r. lw_lease_expiry r > now \<and> lw_resource r = wl_resource lock)
       (sql_delete (\<lambda>r. lw_lease_expiry r \<le> now) t)))"

lemma grant_lock_refused:
  assumes "lock_conflicts now lock t \<noteq> []"
  shows "grant_lock fresh_id now lock t = Inr (\<lparr>la_acquired = False, la_lock = lock,
      la_conflicts = lock_conflicts now lock t\<rparr>, sql_delete (\<lambda>r. lw_lease_expiry r \<le> now) t)"
  using assms unfolding lock_conflicts_def grant_lock_def Let_def by (rule if_P)

text \<open>The row a granted lock leaves behind, and what it meets in the table.\<close>

lemma grant_lock_cases:
  assumes "grant_lock fresh_id now lock t = Inr (a, t')" "now < wl_lease_expiry lock"
  obtains "\<not> la_acquired a" "t' = sql_delete (\<lambda>r. lw_lease_expiry r \<le> now) t"
    | m where "la_acquired a" "lock_of_row m = lock"
      "set t' \<subseteq> insert m {r \<in> set t. now < lw_lease_expiry r \<and> \<not> same_claim (wl_owner_run_id lock) (wl_resource lock) r}
         \<union> {r. lock_of_row r = lock}"
      "\<And>r. r \<in> set t \<Longrightarrow> now < lw_lease_expiry r \<Longrightarrow> rows_compatible r m"
      "\<And>r. r \<in> set t \<Longrightarrow> now < lw_lease_expiry r \<Longrightarrow> \<not> same_claim (wl_owner_run_id lock) (wl_resource lock) r \<Longrightarrow> r \<in> set t'"
      "\<exists>r\<in>set t'. lock_of_row r = lock"
proof -
  let ?live = "sql_delete (\<lambda>r. lw_lease_expiry r \<le> now) t"
  let ?mine = "same_claim (wl_owner_run_id lock) (wl_resource lock)"
  show thesis
  proof (cases "lock_conflicts now lock t = []")
    case False
    then show thesis using assms(1) that(1) grant_lock_refused [of now lock t fresh_id] by auto
  next
    case True
    define m where "m = \<lparr>lw_id = fresh_id, lw_owner_run_id = wl_owner_run_id lock, lw_resource = wl_resource lock,
        lw_mode = wl_mode lock, lw_lease_expiry = wl_lease_expiry lock, lw_acquired_at = now\<rparr>"
    have m: "lock_of_row m = lock" by (simp add: m_def lock_of_row_def)
    have no_conflict: "rows_compatible r m" if r: "r \<in> set t" "now < lw_lease_expiry r" for r
    proof (cases "lw_resource r = wl_resource lock")
      case False
      then show ?thesis by (simp add: rows_compatible_def m_def)
    next
      case same: True
      have "\<not> workspace_lock_conflicts_with now (Some now) (lock_of_row r) lock"
        using True r same by (auto simp: lock_conflicts_def filter_empty_conv sql_delete_def)
      then show ?thesis
        using r assms(2) conflicts_rows [of now "Some now" r m] m by (auto simp: clock_or_def m_def)
    qed
    have rest: "and_then (case sql_one ?mine ?live of None \<Rightarrow> sql_insert lw_id m ?live
        | Some _ \<Rightarrow> Inr (sql_update ?mine (\<lambda>r. r\<lparr>lw_mode := wl_mode lock, lw_lease_expiry := wl_lease_expiry lock,
            lw_acquired_at := now\<rparr>) ?live))
        (\<lambda>t'. Inr (\<lparr>la_acquired = True, la_lock = lock, la_conflicts = []\<rparr>, t')) = Inr (a, t')"
      using assms(1) True unfolding m_def lock_conflicts_def grant_lock_def Let_def by simp
    show thesis
    proof (cases "sql_one ?mine ?live")
      case None
      then have t': "t' = ?live @ [m]" and a: "la_acquired a"
        using rest by (auto simp: sql_insert_Inr_iff)
      have "\<forall>r\<in>set ?live. \<not> ?mine r" using None by (simp add: sql_one_None)
      then have "set t' \<subseteq> insert m {r \<in> set t. now < lw_lease_expiry r \<and> \<not> ?mine r} \<union> {r. lock_of_row r = lock}"
        by (auto simp: t' sql_delete_def)
      then show thesis
        using that(2) [OF a m] no_conflict m by (simp add: t' sql_delete_def)
    next
      case (Some r0)
      let ?f = "\<lambda>r. r\<lparr>lw_mode := wl_mode lock, lw_lease_expiry := wl_lease_expiry lock, lw_acquired_at := now\<rparr>"
      have t': "t' = sql_update ?mine ?f ?live" and a: "la_acquired a"
        using rest Some by auto
      have f: "?mine r \<Longrightarrow> lock_of_row (?f r) = lock" for r
        by (simp add: lock_of_row_def same_claim_def)
      have r0: "r0 \<in> set ?live" "?mine r0" using sql_one_Some [OF Some] by auto
      have "?f r0 \<in> set t'" unfolding t' set_sql_update using r0 by (intro image_eqI [of _ _ r0]) simp_all
      then have "\<exists>r\<in>set t'. lock_of_row r = lock" using f [OF r0(2)] by blast
      moreover have "set t' \<subseteq> insert m {r \<in> set t. now < lw_lease_expiry r \<and> \<not> ?mine r} \<union> {r. lock_of_row r = lock}"
        using f by (auto simp: t' set_sql_update sql_delete_def)
      moreover have "r \<in> set t'" if "r \<in> set t" "now < lw_lease_expiry r" "\<not> ?mine r" for r
        unfolding t' set_sql_update using that by (intro image_eqI [of _ _ r]) (simp_all add: sql_delete_def)
      ultimately show thesis using that(2) [of m] a m no_conflict by blast
    qed
  qed
qed

lemma rows_compatible_lock_of:
  "lock_of_row r = lock_of_row r' \<Longrightarrow> rows_compatible r s = rows_compatible r' s"
  by (simp add: rows_compatible_def lock_of_row_def)

lemma grant_lock_inv:
  assumes "lock_inv t" "grant_lock fresh_id now lock t = Inr (a, t')" "now < wl_lease_expiry lock"
  shows "lock_inv t'"
  using assms(2,3)
proof (cases rule: grant_lock_cases)
  case 1
  then show ?thesis using lock_inv_delete [OF assms(1)] by simp
next
  case (2 m)
  have old: "rows_compatible r s" if "r \<in> set t'" "s \<in> set t'" for r s
  proof (cases "lock_of_row r = lock"; cases "lock_of_row s = lock")
    assume "lock_of_row r = lock" "lock_of_row s = lock"
    then have "lock_of_row r = lock_of_row s" by (simp only:)
    then show ?thesis by (rule rows_of_one_lock)
  next
    assume r: "lock_of_row r = lock" and s: "lock_of_row s \<noteq> lock"
    then have "s \<in> set t" "now < lw_lease_expiry s" using 2(2,3) that(2) by auto
    then have "rows_compatible s m" by (rule 2(4))
    then show ?thesis using r 2(2) rows_compatible_lock_of [of r m s] rows_compatible_sym by metis
  next
    assume r: "lock_of_row r \<noteq> lock" and s: "lock_of_row s = lock"
    then have "r \<in> set t" "now < lw_lease_expiry r" using 2(2,3) that(1) by auto
    then have "rows_compatible r m" by (rule 2(4))
    then show ?thesis using s 2(2) rows_compatible_lock_of [of s m r] rows_compatible_sym by metis
  next
    assume "lock_of_row r \<noteq> lock" "lock_of_row s \<noteq> lock"
    then have "r \<in> set t" "s \<in> set t" using 2(2,3) that by auto
    then show ?thesis using assms(1) by (simp add: lock_inv_def)
  qed
  then show ?thesis by (simp add: lock_inv_def)
qed

lemma acquire_lock_granted:
  assumes "acquire_lock fresh_id now owner resource mode ttl t = Inr (a, t')"
  shows "grant_lock fresh_id now \<lparr>wl_owner_run_id = owner, wl_resource = resource, wl_mode = mode,
      wl_lease_expiry = now + ttl\<rparr> t = Inr (a, t')" "0 < ttl"
  using assms by (auto simp: acquire_lock_def split: if_splits)

lemma lock_inv_step: "lock_inv t \<Longrightarrow> lock_inv (lock_step x t)"
proof (cases x)
  case (Acquire i now owner resource mode ttl)
  then show "lock_inv t \<Longrightarrow> lock_inv (lock_step x t)"
    using grant_lock_inv acquire_lock_granted [of i now owner resource mode ttl t]
    by (auto split: sum.split)
next
  case (Release owner resource)
  then show "lock_inv t \<Longrightarrow> lock_inv (lock_step x t)"
    by (simp add: release_locks_def Let_def lock_inv_delete)
qed

interpretation lock_table: op_machine lock_step lock_inv
  by unfold_locales (rule lock_inv_step)

lemma reached_lock_inv: "lock_inv (fold lock_step ops [])"
  by (rule lock_table.inv_run) (simp add: lock_inv_def)

section \<open>Properties\<close>

definition no_conflict :: "time \<Rightarrow> WorkspaceLock list \<Rightarrow> bool" where
  "no_conflict now ls = list_all (\<lambda>l. list_all (\<lambda>m. \<not> workspace_lock_conflicts_with now None l m) ls) ls"

text \<open>
  C9. Readers or one writer: whatever workers acquire and release, in any order and by clocks that need
  not agree, no two of the active locks of a resource are in conflict.
\<close>

theorem locks_exclude:
  "no_conflict now (list_active_locks resource now (fold lock_step ops []))"
proof -
  have "lock_inv (fold lock_step ops [])" by (rule reached_lock_inv)
  then show ?thesis
    by (auto simp: no_conflict_def list_all_iff list_active_locks_def conflicts_rows lock_inv_def)
qed

text \<open>What other owners do before a lease runs out.\<close>

fun leaves_alone :: "LockRow \<Rightarrow> lock_op \<Rightarrow> bool" where
  "leaves_alone r (Acquire i now owner resource mode ttl) = (owner \<noteq> lw_owner_run_id r \<and> now < lw_lease_expiry r)"
| "leaves_alone r (Release owner resource) = (owner \<noteq> lw_owner_run_id r)"

lemma lock_kept_step:
  assumes "r \<in> set t" "leaves_alone r x"
  shows "r \<in> set (lock_step x t)"
proof (cases x)
  case (Release owner resource)
  then show ?thesis
    using assms by (auto simp: release_locks_def Let_def sql_delete_def same_claim_def)
next
  case (Acquire i now owner resource mode ttl)
  show ?thesis
  proof (cases "acquire_lock i now owner resource mode ttl t")
    case (Inl e)
    then show ?thesis using assms Acquire by simp
  next
    case (Inr y)
    obtain a t' where y: "y = (a, t')" by fastforce
    have live: "now < lw_lease_expiry r" "\<not> same_claim owner resource r"
      using assms(2) Acquire by (auto simp: same_claim_def)
    note g = acquire_lock_granted [OF Inr [unfolded y]]
    have later: "now < now + ttl" using g(2) by simp
    have "r \<in> set t'"
      by (rule grant_lock_cases [OF g(1)]) (use later assms(1) live in \<open>auto simp: sql_delete_def\<close>)
    then show ?thesis using Acquire Inr y by simp
  qed
qed

lemma lock_kept: "r \<in> set t \<Longrightarrow> list_all (leaves_alone r) ops \<Longrightarrow> r \<in> set (fold lock_step ops t)"
  by (induction ops arbitrary: t) (auto intro: lock_kept_step)

text \<open>
  A held lock excludes: while the lease of a lock runs and its owner does nothing about it, its row
  stays as it is whatever others do, and an acquisition by another owner that conflicts with it is
  refused.
\<close>

theorem held_lock_excludes:
  assumes "r \<in> set (fold lock_step before [])" "list_all (leaves_alone r) ops"
    and "acquire_lock i now owner (lw_resource r) mode ttl (fold lock_step (before @ ops) []) = Inr (a, t')"
    and "owner \<noteq> lw_owner_run_id r" "now < lw_lease_expiry r" "''write'' \<in> {mode, lw_mode r}"
  shows "r \<in> set (fold lock_step (before @ ops) []) \<and> \<not> la_acquired a \<and> lock_of_row r \<in> set (la_conflicts a)"
proof -
  let ?t = "fold lock_step (before @ ops) []"
  have r: "r \<in> set ?t" using lock_kept [OF assms(1,2)] by simp
  note g = acquire_lock_granted [OF assms(3)]
  let ?l = "\<lparr>wl_owner_run_id = owner, wl_resource = lw_resource r, wl_mode = mode, wl_lease_expiry = now + ttl\<rparr>"
  have "workspace_lock_conflicts_with now (Some now) (lock_of_row r) ?l"
    using assms(4-6) g(2)
    by (auto simp: workspace_lock_conflicts_with_def workspace_lock_active_def lock_of_row_def clock_or_def)
  then have bad: "lock_of_row r \<in> set (lock_conflicts now ?l ?t)"
    using r assms(5) by (auto simp: lock_conflicts_def sql_delete_def)
  then have "lock_conflicts now ?l ?t \<noteq> []" by (metis list.set(1) empty_iff)
  then have "a = \<lparr>la_acquired = False, la_lock = ?l, la_conflicts = lock_conflicts now ?l ?t\<rparr>"
    using g(1) grant_lock_refused [of now ?l ?t i] by simp
  then show ?thesis using r bad by simp
qed

definition reader_first :: "lock_op list" where
  "reader_first = [Acquire ''1'' 0 ''a'' ''/w'' ''read'' 900, Acquire ''2'' 1 ''b'' ''/w'' ''read'' 900]"

theorem held_lock_excludes_witness:
  "\<exists>r a t'. acquire_lock ''3'' 5 ''c'' ''/w'' ''write'' 60 (fold lock_step (reader_first @ [Release ''b'' []]) []) = Inr (a, t') \<and>
     \<not> la_acquired a \<and> lw_owner_run_id r = ''a'' \<and> lock_of_row r \<in> set (la_conflicts a)"
proof -
  define r where "r = \<lparr>lw_id = ''1'', lw_owner_run_id = ''a'', lw_resource = ''/w'', lw_mode = ''read'',
    lw_lease_expiry = 900, lw_acquired_at = 0\<rparr>"
  have "r \<in> set (fold lock_step reader_first [])"
    unfolding r_def by code_simp
  moreover have "is_ok (acquire_lock ''3'' 5 ''c'' ''/w'' ''write'' 60 (fold lock_step (reader_first @ [Release ''b'' []]) []))"
    by code_simp
  then obtain a t' where "acquire_lock ''3'' 5 ''c'' (lw_resource r) ''write'' 60
      (fold lock_step (reader_first @ [Release ''b'' []]) []) = Inr (a, t')"
    by (auto simp: is_ok_iff r_def)
  moreover from calculation have "\<not> la_acquired a \<and> lock_of_row r \<in> set (la_conflicts a)"
    using held_lock_excludes [of r reader_first "[Release ''b'' []]"] by (auto simp: r_def)
  moreover have "lw_owner_run_id r = ''a''" by (simp add: r_def)
  ultimately have "acquire_lock ''3'' 5 ''c'' ''/w'' ''write'' 60
      (fold lock_step (reader_first @ [Release ''b'' []]) []) = Inr (a, t') \<and> \<not> la_acquired a \<and>
      lw_owner_run_id r = ''a'' \<and> lock_of_row r \<in> set (la_conflicts a)"
    by (simp add: r_def)
  then show ?thesis by blast
qed

end
