(* ===== verification/Shadow_Workspaces.thy ===== *)
theory Shadow_Workspaces
  imports Store_Actions Workspace_Locks "HOL-Library.Product_Lexorder"
begin

text \<open>
  The shadow workspaces of \<open>navi/workspaces.py\<close>: a loop run works on a copy of the workspace, and its
  changes are merged back by a three-way comparison with the copy it started from.

  A directory tree is the list of its entries under relative paths, the directories among them; a link
  is one that does not lead to a directory, which the walk would take for a directory. \<open>sha256\<close> is the
  hex digest of a text, \<open>decode\<close> the decoding of a file. The operating system may refuse any write:
  \<open>FileSystem\<close> says how far a write of a path gets, in the merge and in the restore after a failed merge,
  which paths cannot be removed, whether the directory of the backup can be made and removed, and which
  suffix a temporary file draws.
\<close>

section \<open>Trees\<close>

type_synonym rel_path = "string list"

datatype node = Regular string | Symlink string | Folder

type_synonym tree = "(rel_path \<times> node) list"

definition entry :: "tree \<Rightarrow> rel_path \<Rightarrow> node option" where
  "entry t p = map_of t p"

text \<open>What a path leads to, when it is not a directory.\<close>

definition file_at :: "tree \<Rightarrow> rel_path \<Rightarrow> node option" where
  "file_at t p = (case entry t p of Some Folder \<Rightarrow> None | n \<Rightarrow> n)"

definition put_entry :: "rel_path \<Rightarrow> node \<Rightarrow> tree \<Rightarrow> tree" where
  "put_entry p n t = AList.update p n t"

definition drop_entry :: "rel_path \<Rightarrow> tree \<Rightarrow> tree" where
  "drop_entry p t = AList.delete p t"

definition drop_below :: "rel_path \<Rightarrow> tree \<Rightarrow> tree" where
  "drop_below p t = filter (\<lambda>(q, n). \<not> prefix p q) t"

text \<open>The directories a path lies in, from the outermost inwards.\<close>

definition parents :: "rel_path \<Rightarrow> rel_path list" where
  "parents p = map (\<lambda>n. take n p) [1..<length p]"

fun posix :: "rel_path \<Rightarrow> string" where
  "posix [] = []"
| "posix [n] = n"
| "posix (n # ns) = n @ ''/'' @ posix ns"

definition ignored_workspace_names :: "string list" where
  "ignored_workspace_names =
     [''.agents'', ''.claude'', ''.coverage'', ''.git'', ''.mypy_cache'', ''.navi'', ''.opencode'',
      ''.pytest_cache'', ''.ruff_cache'', ''.tox'', ''__pycache__'', ''dist'', ''htmlcov'', ''node_modules'',
      ''.venv'', ''venv'', ''workspace_shadows'', ''workspace_conflicts'']"

definition ignored_workspace_name :: "string \<Rightarrow> bool" where
  "ignored_workspace_name name = (name \<in> set ignored_workspace_names \<or> suffix ''.egg-info'' name)"

definition tracked :: "rel_path \<Rightarrow> bool" where
  "tracked p = (\<not> list_ex ignored_workspace_name p)"

text \<open>\<open>shutil.copytree(..., symlinks=True, ignore=_copy_ignore)\<close>.\<close>

definition copy_tree :: "tree \<Rightarrow> tree" where
  "copy_tree t = filter (\<lambda>(p, n). tracked p) t"

section \<open>Fingerprints\<close>

record WorkspaceFingerprint =
  fp_root :: string
  fp_digest :: string
  fp_files :: "(rel_path \<times> string) list"

text \<open>The order of the walk: the files of a directory, then its directories, both by name.\<close>

definition walk_key :: "rel_path \<Rightarrow> (bool \<times> string) list" where
  "walk_key p = map (\<lambda>d. (True, d)) (butlast p) @ [(False, last p)]"

definition iter_workspace_files :: "tree \<Rightarrow> rel_path list" where
  "iter_workspace_files t =
     sort_key walk_key (filter (\<lambda>p. tracked p \<and> file_at t p \<noteq> None) (remdups (map fst t)))"

fun hash_node :: "(string \<Rightarrow> string) \<Rightarrow> node \<Rightarrow> string" where
  "hash_node sha256 (Symlink target) = sha256 (''symlink'' @ CHR 0x00 # target)"
| "hash_node sha256 (Regular content) = sha256 (''file'' @ CHR 0x00 # content)"
| "hash_node sha256 Folder = []"

definition fingerprint_digest :: "(string \<Rightarrow> string) \<Rightarrow> (rel_path \<times> string) list \<Rightarrow> string" where
  "fingerprint_digest sha256 files =
     sha256 (concat (map (\<lambda>(p, h). posix p @ CHR 0x00 # h @ [CHR 0x00]) files))"

definition fingerprint_tree :: "(string \<Rightarrow> string) \<Rightarrow> string \<Rightarrow> tree \<Rightarrow> WorkspaceFingerprint" where
  "fingerprint_tree sha256 dir t =
     (let files = map (\<lambda>p. (p, case file_at t p of None \<Rightarrow> [] | Some n \<Rightarrow> hash_node sha256 n)) (iter_workspace_files t)
      in \<lparr>fp_root = dir, fp_digest = fingerprint_digest sha256 files, fp_files = files\<rparr>)"

definition hash_for :: "WorkspaceFingerprint \<Rightarrow> rel_path \<Rightarrow> string option" where
  "hash_for fp p = map_of (fp_files fp) p"

definition fingerprint_paths :: "WorkspaceFingerprint \<Rightarrow> rel_path set" where
  "fingerprint_paths fp = fst ` set (fp_files fp)"

definition fingerprint_to_dict :: "WorkspaceFingerprint \<Rightarrow> dict" where
  "fingerprint_to_dict fp =
     [(''root'', JStr (fp_root fp)), (''digest'', JStr (fp_digest fp)),
      (''files'', JList (map (\<lambda>(p, h). JDict [(''path'', JStr (posix p)), (''sha256'', JStr h)]) (fp_files fp)))]"

section \<open>Writing into the real workspace\<close>

datatype stage = Before | After_Mkdir | After_Copy node

record FileSystem =
  fs_backup :: "rel_path \<Rightarrow> bool"
  fs_write :: "rel_path \<Rightarrow> stage option"
  fs_remove :: "rel_path \<Rightarrow> rel_path list option"
  fs_restore :: "rel_path \<Rightarrow> stage option"
  fs_open_backup :: bool
  fs_close_backup :: bool
  fs_uuid :: "rel_path \<Rightarrow> string"

definition temp_path :: "FileSystem \<Rightarrow> rel_path \<Rightarrow> rel_path" where
  "temp_path fs p = butlast p @ [''.'' @ last p @ ''.navi-tmp-'' @ fs_uuid fs p]"

fun mkdir_each :: "rel_path list \<Rightarrow> (unit, tree) call" where
  "mkdir_each [] = answer ()"
| "mkdir_each (d # ds) = (\<lambda>t. case entry t d of
     None \<Rightarrow> mkdir_each ds (put_entry d Folder t)
   | Some Folder \<Rightarrow> mkdir_each ds t
   | Some _ \<Rightarrow> (Inl (OSError ''File exists''), t))"

definition mkdir_parents :: "rel_path \<Rightarrow> (unit, tree) call" where
  "mkdir_parents p = mkdir_each (parents p)"

definition apply_shadow_file :: "FileSystem \<Rightarrow> tree \<Rightarrow> rel_path \<Rightarrow> (unit, tree) call" where
  "apply_shadow_file fs shadow p t =
     (case entry shadow p of
        None \<Rightarrow> (case entry t p of
            None \<Rightarrow> (Inr (), t)
          | Some Folder \<Rightarrow> (Inl (OSError ''Is a directory''), t)
          | Some _ \<Rightarrow> if fs_write fs p \<noteq> None then (Inl (OSError ''unlink''), t) else (Inr (), drop_entry p t))
      | Some n \<Rightarrow>
          if fs_write fs p = Some Before then (Inl (OSError ''mkdir''), t)
          else then_call (mkdir_parents p) (\<lambda>_ t1.
            if n = Folder then (Inl (OSError ''Is a directory''), t1)
            else case fs_write fs p of
              Some (After_Copy part) \<Rightarrow> (Inl (OSError ''write''), put_entry (temp_path fs p) part t1)
            | Some _ \<Rightarrow> (Inl (OSError ''open''), t1)
            | None \<Rightarrow> if entry t1 p = Some Folder
                then (Inl (OSError ''Is a directory''), put_entry (temp_path fs p) n t1)
                else (Inr (), put_entry p n t1)) t)"

text \<open>The loop of the merge: a path that is already as in the shadow is left alone.\<close>

fun apply_changed ::
  "FileSystem \<Rightarrow> tree \<Rightarrow> (rel_path \<Rightarrow> string option) \<Rightarrow> (rel_path \<Rightarrow> string option) \<Rightarrow> rel_path list \<Rightarrow> bool
     \<Rightarrow> (bool, tree) call" where
  "apply_changed fs shadow current_hash shadow_hash [] applied = answer applied"
| "apply_changed fs shadow current_hash shadow_hash (p # ps) applied =
     (if current_hash p = shadow_hash p
      then apply_changed fs shadow current_hash shadow_hash ps applied
      else then_call (apply_shadow_file fs shadow p)
        (\<lambda>_. apply_changed fs shadow current_hash shadow_hash ps True))"

text \<open>The backup of the files to change; a path that is missing is remembered as such.\<close>

fun backup_real_files :: "FileSystem \<Rightarrow> tree \<Rightarrow> rel_path list \<Rightarrow> (rel_path list \<times> tree) result" where
  "backup_real_files fs work [] = Inr ([], [])"
| "backup_real_files fs work (p # ps) =
     (case entry work p of
        None \<Rightarrow> and_then (backup_real_files fs work ps) (\<lambda>(missing, b). Inr (p # missing, b))
      | Some Folder \<Rightarrow> Inl (OSError ''Is a directory'')
      | Some n \<Rightarrow> if \<not> fs_backup fs p then Inl (OSError ''backup'')
          else and_then (backup_real_files fs work ps) (\<lambda>(missing, b). Inr (missing, (p, n) # b)))"

text \<open>The removal of a directory that fails may have removed a part of it.\<close>

definition remove_path :: "FileSystem \<Rightarrow> rel_path \<Rightarrow> (unit, tree) call" where
  "remove_path fs p t =
     (case entry t p of
        None \<Rightarrow> (Inr (), t)
      | Some Folder \<Rightarrow> (case fs_remove fs p of
            None \<Rightarrow> (Inr (), drop_below p t)
          | Some gone \<Rightarrow> (Inl (OSError ''rmtree''), filter (\<lambda>(q, n). \<not> (prefix p q \<and> q \<in> set gone)) t))
      | Some _ \<Rightarrow> if fs_remove fs p \<noteq> None then (Inl (OSError ''unlink''), t) else (Inr (), drop_entry p t))"

text \<open>A copy that fails half way leaves what it wrote; a link is made or not.\<close>

definition copy_back :: "FileSystem \<Rightarrow> rel_path \<Rightarrow> node \<Rightarrow> (unit, tree) call" where
  "copy_back fs p n t =
     (if fs_restore fs p = Some Before then (Inl (OSError ''mkdir''), t)
      else then_call (mkdir_parents p) (\<lambda>_ t1. case fs_restore fs p of
          None \<Rightarrow> (Inr (), put_entry p n t1)
        | Some (After_Copy part) \<Rightarrow> (case n of
            Regular _ \<Rightarrow> (Inl (OSError ''write''), put_entry p part t1)
          | _ \<Rightarrow> (Inl (OSError ''symlink''), t1))
        | Some _ \<Rightarrow> (Inl (OSError ''open''), t1)) t)"

fun restore_real_files :: "FileSystem \<Rightarrow> rel_path list \<Rightarrow> tree \<Rightarrow> rel_path list \<Rightarrow> (unit, tree) call" where
  "restore_real_files fs missing backup [] = answer ()"
| "restore_real_files fs missing backup (p # ps) =
     then_call (remove_path fs p) (\<lambda>_.
     then_call (if p \<in> set missing then answer ()
                else case entry backup p of None \<Rightarrow> answer () | Some n \<Rightarrow> copy_back fs p n) (\<lambda>_.
     restore_real_files fs missing backup ps))"

section \<open>The merge\<close>

definition merge_conflicts :: "string option \<Rightarrow> string option \<Rightarrow> string option \<Rightarrow> bool" where
  "merge_conflicts baseline_hash shadow_hash current_hash =
     (if baseline_hash = shadow_hash then False
      else if current_hash = baseline_hash then False
      else if current_hash = shadow_hash then False
      else True)"

definition candidate_paths :: "WorkspaceFingerprint \<Rightarrow> WorkspaceFingerprint \<Rightarrow> WorkspaceFingerprint \<Rightarrow> rel_path list" where
  "candidate_paths b s c =
     sort_key posix (remdups (map fst (fp_files b) @ map fst (fp_files s) @ map fst (fp_files c)))"

definition agent_changed :: "WorkspaceFingerprint \<Rightarrow> WorkspaceFingerprint \<Rightarrow> WorkspaceFingerprint \<Rightarrow> rel_path list" where
  "agent_changed b s c = filter (\<lambda>p. hash_for b p \<noteq> hash_for s p) (candidate_paths b s c)"

definition conflicting_paths :: "WorkspaceFingerprint \<Rightarrow> WorkspaceFingerprint \<Rightarrow> WorkspaceFingerprint \<Rightarrow> rel_path list" where
  "conflicting_paths b s c =
     filter (\<lambda>p. merge_conflicts (hash_for b p) (hash_for s p) (hash_for c p)) (agent_changed b s c)"

text \<open>
  The part behind the check for conflicts: backup, apply, and restore when a write raises. An exception
  of the restore replaces the one that led to it. The backup is removed in any case, also when the
  restore failed; when that raises, the merge raises whatever it had done.
\<close>

definition closing_backup :: "FileSystem \<Rightarrow> ('a, tree) call \<Rightarrow> ('a, tree) call" where
  "closing_backup fs c t = (case c t of (r, u) \<Rightarrow> (if fs_close_backup fs then r else Inl (OSError ''rmtree''), u))"

definition apply_merge ::
  "FileSystem \<Rightarrow> tree \<Rightarrow> WorkspaceFingerprint \<Rightarrow> WorkspaceFingerprint \<Rightarrow> rel_path list \<Rightarrow> (bool, tree) call" where
  "apply_merge fs shadow c s changed =
     then_call (checked (if fs_open_backup fs then Inr () else Inl (OSError ''merge_backup''))) (\<lambda>_.
     then_call (look_up (\<lambda>work. backup_real_files fs work changed)) (\<lambda>kept.
     then_call (checked kept) (\<lambda>(missing, backup).
     closing_backup fs (on_error (apply_changed fs shadow (hash_for c) (hash_for s) changed False)
       (\<lambda>_. restore_real_files fs missing backup changed)))))"

datatype merge_outcome = Merge_Conflicts "rel_path list" | Merge_Applied bool

definition merge_trees ::
  "(string \<Rightarrow> string) \<Rightarrow> FileSystem \<Rightarrow> tree \<Rightarrow> tree \<Rightarrow> (merge_outcome, tree) call" where
  "merge_trees sha256 fs baseline shadow work =
     (let b = fingerprint_tree sha256 [] baseline; s = fingerprint_tree sha256 [] shadow;
          c = fingerprint_tree sha256 [] work
      in if conflicting_paths b s c \<noteq> [] then (Inr (Merge_Conflicts (conflicting_paths b s c)), work)
         else then_call (apply_merge fs shadow c s (agent_changed b s c))
           (\<lambda>applied. answer (Merge_Applied applied)) work)"


section \<open>The manager\<close>

text \<open>
  \<open>sd_dirs\<close> are the directories the manager deals in, by absolute path; \<open>sd_roots\<close> the run directories
  below \<open>workspace_shadows\<close>. \<open>Site\<close> is the home, what \<open>expanduser().resolve()\<close> makes of a path, and the
  operating system.
\<close>

record ShadowWorkspaceRecord =
  sw_run_id :: string
  sw_real_workspace :: string
  sw_baseline_workspace :: string
  sw_shadow_workspace :: string
  sw_status :: string
  sw_created_at :: time
  sw_updated_at :: time

record ShadowWorkspace =
  sh_run_id :: string
  sh_real_workspace :: string
  sh_baseline_workspace :: string
  sh_shadow_workspace :: string
  sh_baseline_fingerprint :: WorkspaceFingerprint

record Site =
  si_home :: string
  si_resolve :: "string \<Rightarrow> string"
  si_sha256 :: "string \<Rightarrow> string"
  si_decode :: "string \<Rightarrow> string"
  si_fs :: FileSystem

record ShadowState =
  sd_rows :: "ShadowWorkspaceRecord list"
  sd_roots :: "string list"
  sd_dirs :: "(string \<times> tree) list"

definition shadow_to_facts :: "ShadowWorkspace \<Rightarrow> dict" where
  "shadow_to_facts w =
     [(''run_id'', JStr (sh_run_id w)), (''real_workspace'', JStr (sh_real_workspace w)),
      (''baseline_workspace'', JStr (sh_baseline_workspace w)), (''shadow_workspace'', JStr (sh_shadow_workspace w)),
      (''baseline_fingerprint'', JDict
        [(''root'', JStr (fp_root (sh_baseline_fingerprint w))), (''digest'', JStr (fp_digest (sh_baseline_fingerprint w))),
         (''file_count'', JInt (int (length (fp_files (sh_baseline_fingerprint w)))))])]"

definition shadow_record_to_dict :: "ShadowWorkspaceRecord \<Rightarrow> dict" where
  "shadow_record_to_dict r =
     [(''run_id'', JStr (sw_run_id r)), (''real_workspace'', JStr (sw_real_workspace r)),
      (''baseline_workspace'', JStr (sw_baseline_workspace r)), (''shadow_workspace'', JStr (sw_shadow_workspace r)),
      (''status'', JStr (sw_status r)), (''created_at'', JFloat (sw_created_at r)),
      (''updated_at'', JFloat (sw_updated_at r))]"

definition run_root :: "Site \<Rightarrow> string \<Rightarrow> string" where
  "run_root site rid = si_home site @ ''/workspace_shadows/'' @ rid"

definition dir_at :: "string \<Rightarrow> ShadowState \<Rightarrow> tree option" where
  "dir_at d s = map_of (sd_dirs s) d"

definition put_dir :: "string \<Rightarrow> tree \<Rightarrow> ShadowState \<Rightarrow> ShadowState" where
  "put_dir d t s = s\<lparr>sd_dirs := AList.update d t (sd_dirs s)\<rparr>"

definition fingerprint_workspace :: "Site \<Rightarrow> string \<Rightarrow> ShadowState \<Rightarrow> WorkspaceFingerprint result" where
  "fingerprint_workspace site d s =
     (case dir_at (si_resolve site d) s of
        None \<Rightarrow> Inl (ValueError ''workspace root must be an existing directory'')
      | Some t \<Rightarrow> Inr (fingerprint_tree (si_sha256 site) (si_resolve site d) t))"

definition to_shadow :: "Site \<Rightarrow> ShadowWorkspaceRecord \<Rightarrow> ShadowState \<Rightarrow> ShadowWorkspace result" where
  "to_shadow site r s =
     and_then (fingerprint_workspace site (sw_baseline_workspace r) s) (\<lambda>fp.
     Inr \<lparr>sh_run_id = sw_run_id r, sh_real_workspace = sw_real_workspace r,
       sh_baseline_workspace = sw_baseline_workspace r, sh_shadow_workspace = sw_shadow_workspace r,
       sh_baseline_fingerprint = fp\<rparr>)"

definition get_shadow :: "string \<Rightarrow> ShadowState \<Rightarrow> ShadowWorkspaceRecord option" where
  "get_shadow rid s = row_of sw_run_id rid (sd_rows s)"

definition upsert_shadow :: "ShadowWorkspaceRecord \<Rightarrow> ShadowWorkspaceRecord list \<Rightarrow> ShadowWorkspaceRecord list" where
  "upsert_shadow r t =
     (if row_of sw_run_id (sw_run_id r) t = None then t @ [r]
      else sql_update (\<lambda>x. sw_run_id x = sw_run_id r)
        (\<lambda>x. x\<lparr>sw_real_workspace := sw_real_workspace r, sw_baseline_workspace := sw_baseline_workspace r,
              sw_shadow_workspace := sw_shadow_workspace r, sw_status := sw_status r,
              sw_updated_at := sw_updated_at r\<rparr>) t)"

definition create_shadow :: "Site \<Rightarrow> time \<Rightarrow> string \<Rightarrow> string \<Rightarrow> (ShadowWorkspace, ShadowState) call" where
  "create_shadow site now rid workspace s =
     (if py_strip rid = [] then (Inl (ValueError ''run_id is required''), s)
      else let work = si_resolve site workspace; top = run_root site rid;
               baseline = top @ ''/baseline''; shadow = top @ ''/shadow''
      in case dir_at work s of
        None \<Rightarrow> (Inl (ValueError ''workspace must be an existing directory''), s)
      | Some t \<Rightarrow>
          if top \<in> set (sd_roots s)
          then (case get_shadow rid s of
              Some r \<Rightarrow> if sw_status r = ''active'' then (to_shadow site r s, s)
                else (Inl (OSError (''shadow workspace already exists for run '' @ rid)), s)
            | None \<Rightarrow> (Inl (OSError (''shadow workspace already exists for run '' @ rid)), s))
          else let row = \<lparr>sw_run_id = rid, sw_real_workspace = work, sw_baseline_workspace = baseline,
                     sw_shadow_workspace = shadow, sw_status = ''active'', sw_created_at = now, sw_updated_at = now\<rparr>;
                   s' = (put_dir shadow (copy_tree t) (put_dir baseline (copy_tree t) s))
                     \<lparr>sd_roots := sd_roots s @ [top], sd_rows := upsert_shadow row (sd_rows s)\<rparr>
               in (to_shadow site row s', s'))"

definition durable_workspace_for :: "Site \<Rightarrow> string \<Rightarrow> ShadowState \<Rightarrow> string" where
  "durable_workspace_for site workspace s =
     (let raw = py_strip workspace; candidate = si_resolve site raw
      in if raw = [] then raw
         else case sql_desc sw_updated_at (filter (\<lambda>r. sw_shadow_workspace r = candidate
             \<or> sw_baseline_workspace r = candidate) (sd_rows s)) of
           [] \<Rightarrow> candidate
         | r # _ \<Rightarrow> si_resolve site (sw_real_workspace r))"

definition workspaces_match :: "Site \<Rightarrow> string \<Rightarrow> string \<Rightarrow> ShadowState \<Rightarrow> bool" where
  "workspaces_match site left right s =
     (if left = [] \<or> right = [] then True
      else durable_workspace_for site left s = durable_workspace_for site right s)"

definition list_shadows :: "Site \<Rightarrow> string \<Rightarrow> string \<Rightarrow> int \<Rightarrow> ShadowState \<Rightarrow> ShadowWorkspaceRecord list" where
  "list_shadows site status real_workspace limit s =
     sql_limit (max 1 limit) (sql_desc sw_updated_at (filter (\<lambda>r. (status = [] \<or> sw_status r = status) \<and>
       (real_workspace = [] \<or> sw_real_workspace r = si_resolve site real_workspace)) (sd_rows s)))"

definition set_shadow_status :: "time \<Rightarrow> string \<Rightarrow> string \<Rightarrow> (unit, ShadowState) call" where
  "set_shadow_status now rid status = write_to (\<lambda>s. s\<lparr>sd_rows :=
     sql_update (\<lambda>r. sw_run_id r = rid) (\<lambda>r. r\<lparr>sw_status := status, sw_updated_at := now\<rparr>) (sd_rows s)\<rparr>)"

text \<open>The directory of the run is the parent of its shadow: everything below it goes.\<close>

definition remove_shadow_artifacts :: "Site \<Rightarrow> ShadowWorkspaceRecord \<Rightarrow> (unit, ShadowState) call" where
  "remove_shadow_artifacts site r = write_to (\<lambda>s. let top = run_root site (sw_run_id r)
     in s\<lparr>sd_roots := filter (\<lambda>d. d \<noteq> top) (sd_roots s),
          sd_dirs := filter (\<lambda>(d, t). d \<noteq> top @ ''/baseline'' \<and> d \<noteq> top @ ''/shadow'' \<and> d \<noteq> top @ ''/merge_backup'')
            (sd_dirs s)\<rparr>)"

definition read_conflict_side :: "Site \<Rightarrow> tree \<Rightarrow> rel_path \<Rightarrow> string result" where
  "read_conflict_side site t p =
     (case entry t p of
        None \<Rightarrow> Inr ''[missing]''
      | Some (Symlink target) \<Rightarrow> Inr (''[symlink] '' @ target)
      | Some (Regular content) \<Rightarrow> Inr (si_decode site content)
      | Some Folder \<Rightarrow> Inl (OSError ''Is a directory''))"

definition conflict_text :: "Site \<Rightarrow> tree \<Rightarrow> tree \<Rightarrow> rel_path \<Rightarrow> string result" where
  "conflict_text site current shadow p =
     and_then (read_conflict_side site current p) (\<lambda>ours.
     and_then (read_conflict_side site shadow p) (\<lambda>theirs.
     Inr (''<<<<<<< CURRENT'' @ CHR 0x0A # ours @ CHR 0x0A # ''======='' @ CHR 0x0A # theirs
       @ CHR 0x0A # ''>>>>>>> AGENT'' @ [CHR 0x0A])))"

fun write_conflicts :: "Site \<Rightarrow> tree \<Rightarrow> tree \<Rightarrow> rel_path list \<Rightarrow> (unit, tree) call" where
  "write_conflicts site work shadow [] = answer ()"
| "write_conflicts site work shadow (p # ps) =
     then_call (mkdir_parents p) (\<lambda>_.
     then_call (checked (conflict_text site work shadow p)) (\<lambda>text.
     then_call (write_to (put_entry p (Regular text))) (\<lambda>_. write_conflicts site work shadow ps)))"

definition dir_or_empty :: "string \<Rightarrow> ShadowState \<Rightarrow> tree" where
  "dir_or_empty d s = (case dir_at d s of None \<Rightarrow> [] | Some t \<Rightarrow> t)"

text \<open>
  \<open>merge_back\<close>. The backup directory below the run directory lives during the call only and is not part
  of the state.
\<close>

definition merge_back :: "Site \<Rightarrow> ShadowWorkspace \<Rightarrow> (MergeResult, ShadowState) call" where
  "merge_back site w =
     then_call (look_up (\<lambda>s. and_then (fingerprint_workspace site (sh_baseline_workspace w) s) (\<lambda>_.
       and_then (fingerprint_workspace site (sh_shadow_workspace w) s) (\<lambda>_.
       and_then (fingerprint_workspace site (sh_real_workspace w) s) (\<lambda>_. Inr ()))))) (\<lambda>found.
     then_call (checked found) (\<lambda>_.
     then_call (look_up (dir_or_empty (si_resolve site (sh_baseline_workspace w)))) (\<lambda>baseline.
     then_call (look_up (dir_or_empty (si_resolve site (sh_shadow_workspace w)))) (\<lambda>shadow.
     then_call (call_on (dir_or_empty (si_resolve site (sh_real_workspace w)))
         (put_dir (si_resolve site (sh_real_workspace w)))
         (merge_trees (si_sha256 site) (si_fs site) baseline shadow)) (\<lambda>merged.
     case merged of
       Merge_Conflicts conflicts \<Rightarrow>
         then_call (look_up (dir_or_empty (si_resolve site (sh_real_workspace w)))) (\<lambda>work.
         let artifacts = si_home site @ ''/workspace_conflicts/'' @ sh_run_id w
         in then_call (call_on (dir_or_empty artifacts) (put_dir artifacts)
              (write_conflicts site work shadow conflicts)) (\<lambda>_.
            answer \<lparr>mr_status = mergeStatus_str MergeStatus_CONFLICTED, mr_conflicts = map posix conflicts,
              mr_artifact_path = artifacts\<rparr>))
     | Merge_Applied applied \<Rightarrow>
         answer \<lparr>mr_status = mergeStatus_str (if applied then MergeStatus_CLEAN else MergeStatus_NO_OP),
           mr_conflicts = [], mr_artifact_path = []\<rparr>)))))"

definition merge_run :: "Site \<Rightarrow> time \<Rightarrow> string \<Rightarrow> (MergeResult, ShadowState) call" where
  "merge_run site now rid =
     then_call (look_up (get_shadow rid)) (\<lambda>found.
     then_call (required (KeyError (''shadow workspace not found: '' @ rid)) found) (\<lambda>r.
     then_call (look_up (to_shadow site r)) (\<lambda>w. then_call (checked w) (\<lambda>shadow.
     then_call (merge_back site shadow) (\<lambda>result.
     let status = (if mr_status result = mergeStatus_str MergeStatus_CONFLICTED then ''conflicted'' else ''merged'')
     in then_call (set_shadow_status now rid status) (\<lambda>_.
        then_call (call_if (status = ''merged'') (remove_shadow_artifacts site r)) (\<lambda>_. answer result)))))))"

definition discard_run :: "Site \<Rightarrow> time \<Rightarrow> string \<Rightarrow> (bool, ShadowState) call" where
  "discard_run site now rid =
     then_call (look_up (get_shadow rid)) (\<lambda>found.
     case found of
       None \<Rightarrow> answer False
     | Some r \<Rightarrow> then_call (remove_shadow_artifacts site r) (\<lambda>_.
         then_call (set_shadow_status now rid ''discarded'') (\<lambda>_. answer True)))"

fun purge_each :: "Site \<Rightarrow> ShadowWorkspaceRecord list \<Rightarrow> (int \<times> int, ShadowState) call" where
  "purge_each site [] = answer (0, 0)"
| "purge_each site (r # rs) =
     (if sw_status r \<notin> {''merged'', ''discarded''} then purge_each site rs
      else then_call (look_up (\<lambda>s. run_root site (sw_run_id r) \<in> set (sd_roots s))) (\<lambda>there.
        if \<not> there then then_call (purge_each site rs) (\<lambda>(removed, missing). answer (removed, missing + 1))
        else then_call (remove_shadow_artifacts site r) (\<lambda>_.
          then_call (purge_each site rs) (\<lambda>(removed, missing). answer (removed + 1, missing)))))"

text \<open>The numbers of removed and of already missing run directories.\<close>

definition purge_terminal_artifacts :: "Site \<Rightarrow> (int \<times> int, ShadowState) call" where
  "purge_terminal_artifacts site =
     then_call (look_up (list_shadows site [] [] 100000)) (purge_each site)"

datatype ShadowVerdict = Shadow_Discarded | Shadow_Noop_Merged | Shadow_Preserved | Shadow_Unresolved string

text \<open>One row of \<open>reconcile_terminal_shadows\<close>; \<open>terminal\<close> is the stop state of its loop run, where it has one.\<close>

definition reconcile_shadow ::
  "Site \<Rightarrow> time \<Rightarrow> LoopDb \<Rightarrow> ShadowWorkspaceRecord \<Rightarrow> (ShadowVerdict, ShadowState) call" where
  "reconcile_shadow site now loops r =
     (case get_loop_run (sw_run_id r) loops of
        None \<Rightarrow> answer (Shadow_Unresolved ''loop_run_missing'')
      | Some loop \<Rightarrow>
          let terminal = lr_terminal_state loop
          in if terminal \<in> {[], ''paused'', ''waiting_approval'', ''conflicted''} then answer Shadow_Preserved
             else if terminal \<in> {''failed'', ''cancelled'', ''blocked'', ''timed_out'', ''superseded''}
             then then_call (discard_run site now (sw_run_id r)) (\<lambda>_. answer Shadow_Discarded)
             else if terminal = ''converged''
             then then_call (look_up (\<lambda>s. (dir_at (sw_baseline_workspace r) s, dir_at (sw_shadow_workspace r) s)))
               (\<lambda>(baseline, shadow). case (baseline, shadow) of
                  (Some b, Some t) \<Rightarrow>
                    if fp_digest (fingerprint_tree (si_sha256 site) [] b) \<noteq> fp_digest (fingerprint_tree (si_sha256 site) [] t)
                    then answer (Shadow_Unresolved ''converged_shadow_has_changes'')
                    else then_call (set_shadow_status now (sw_run_id r) ''merged'') (\<lambda>_.
                      then_call (remove_shadow_artifacts site r) (\<lambda>_. answer Shadow_Noop_Merged))
                | _ \<Rightarrow> answer (Shadow_Unresolved ''shadow_artifacts_missing''))
             else answer (Shadow_Unresolved (''unknown_terminal_state:'' @ terminal)))"

fun reconcile_shadows ::
  "Site \<Rightarrow> time \<Rightarrow> LoopDb \<Rightarrow> ShadowWorkspaceRecord list \<Rightarrow> ((string \<times> ShadowVerdict) list, ShadowState) call" where
  "reconcile_shadows site now loops [] = answer []"
| "reconcile_shadows site now loops (r # rs) =
     then_call (reconcile_shadow site now loops r) (\<lambda>v.
     then_call (reconcile_shadows site now loops rs) (\<lambda>vs. answer ((sw_run_id r, v) # vs)))"

definition reconcile_terminal_shadows ::
  "Site \<Rightarrow> time \<Rightarrow> LoopDb \<Rightarrow> ((string \<times> ShadowVerdict) list, ShadowState) call" where
  "reconcile_terminal_shadows site now loops =
     then_call (look_up (list_shadows site ''active'' [] 100000)) (reconcile_shadows site now loops)"

end
