(* ===== verification/Shadow_Merge.thy ===== *)
theory Shadow_Merge
  imports Shadow_Workspaces
begin

text \<open>
  The properties of the merge of a shadow workspace: that it is the three-way merge of the files, that
  a merge that raises puts the real workspace back, and what it does with files that became directories.
\<close>

section \<open>Trees\<close>

lemma entry_put [simp]: "entry (put_entry p n t) = (entry t)(p \<mapsto> n)"
  by (simp add: entry_def [abs_def] put_entry_def update_conv')

lemma entry_drop [simp]: "entry (drop_entry p t) = (entry t)(p := None)"
  by (simp add: entry_def [abs_def] drop_entry_def delete_conv')

lemma entry_filter: "entry (filter (\<lambda>(q, n). Q q) t) q = (if Q q then entry t q else None)"
  unfolding entry_def by (induction t) auto

lemma entry_drop_below: "entry (drop_below p t) q = (if prefix p q then None else entry t q)"
  by (simp add: drop_below_def entry_filter)

lemma remove_path_ok:
  "fs_remove fs p = None \<Longrightarrow> \<exists>u. remove_path fs p t = (Inr (), u) \<and>
    (\<forall>q. entry u q = (if q = p \<or> entry t p = Some Folder \<and> prefix p q then None else entry t q))"
  by (auto simp: remove_path_def entry_drop_below split: option.split node.split)

lemma remove_path_only:
  "remove_path fs p t = (r, u) \<Longrightarrow> entry u q = entry t q \<or> prefix p q \<and> entry u q = None"
  by (auto simp: remove_path_def entry_drop_below entry_filter split: option.splits node.splits if_splits)

lemma file_at_Some: "file_at t p = Some n \<longleftrightarrow> entry t p = Some n \<and> n \<noteq> Folder"
  by (auto simp: file_at_def split: option.splits node.splits)

lemma file_at_None: "file_at t p = None \<longleftrightarrow> entry t p = None \<or> entry t p = Some Folder"
  by (auto simp: file_at_def split: option.splits node.splits)

lemma file_at_eqI: "entry t p = entry u p \<Longrightarrow> file_at t p = file_at u p"
  by (simp add: file_at_def)

lemma entry_member: "entry t p \<noteq> None \<longleftrightarrow> p \<in> fst ` set t"
  by (auto simp: entry_def map_of_eq_None_iff)

text \<open>Every entry lies in directories.\<close>

definition wf_tree :: "tree \<Rightarrow> bool" where
  "wf_tree t = (entry t [] = None \<and> (\<forall>p q. entry t q \<noteq> None \<and> strict_prefix p q \<and> p \<noteq> [] \<longrightarrow> entry t p = Some Folder))"

lemma wf_treeD: "wf_tree t \<Longrightarrow> entry t q \<noteq> None \<Longrightarrow> strict_prefix p q \<Longrightarrow> p \<noteq> [] \<Longrightarrow> entry t p = Some Folder"
  by (auto simp: wf_tree_def)

lemma parents_iff: "d \<in> set (parents p) \<longleftrightarrow> strict_prefix d p \<and> d \<noteq> []"
proof
  assume "d \<in> set (parents p)"
  then obtain n where "1 \<le> n" "n < length p" "d = take n p" by (auto simp: parents_def)
  then show "strict_prefix d p \<and> d \<noteq> []"
    using take_is_prefix [of n p] by (cases p) (auto simp: strict_prefix_def)
next
  assume d: "strict_prefix d p \<and> d \<noteq> []"
  then have "length d < length p" by (auto dest: prefix_length_less)
  moreover have "d = take (length d) p" using d by (auto simp: strict_prefix_def prefix_def)
  ultimately show "d \<in> set (parents p)" using d by (auto simp: parents_def image_iff Suc_le_eq)
qed

section \<open>Directories on the way\<close>

text \<open>What \<open>mkdir\<close> does: new directories where there was nothing, and nothing else.\<close>

definition only_new_folders :: "tree \<Rightarrow> tree \<Rightarrow> bool" where
  "only_new_folders t u = (\<forall>q. entry u q = entry t q \<or> entry t q = None \<and> entry u q = Some Folder)"

lemma only_new_folders_refl [simp]: "only_new_folders t t"
  by (simp add: only_new_folders_def)

lemma only_new_folders_trans: "only_new_folders t u \<Longrightarrow> only_new_folders u v \<Longrightarrow> only_new_folders t v"
  unfolding only_new_folders_def by (metis option.distinct(1))

lemma mkdir_each_only:
  "mkdir_each ds t = (r, u) \<Longrightarrow> only_new_folders t u"
proof (induction ds arbitrary: t)
  case (Cons d ds)
  show ?case
  proof (cases "entry t d")
    case None
    then have "only_new_folders t (put_entry d Folder t)" by (simp add: only_new_folders_def)
    moreover have "only_new_folders (put_entry d Folder t) u" using Cons None by simp
    ultimately show ?thesis by (rule only_new_folders_trans)
  next
    case (Some n)
    then show ?thesis using Cons by (cases n) auto
  qed
qed (simp add: calls)

lemma mkdir_each_only_listed:
  "mkdir_each ds t = (r, u) \<Longrightarrow> entry u q = entry t q \<or> entry t q = None \<and> entry u q = Some Folder \<and> q \<in> set ds"
proof (induction ds arbitrary: t)
  case (Cons d ds)
  show ?case
  proof (cases "entry t d")
    case None
    then show ?thesis using Cons.IH [of "put_entry d Folder t"] Cons.prems by (auto split: if_splits)
  next
    case (Some n)
    then show ?thesis using Cons.IH [of t] Cons.prems by (cases n) auto
  qed
qed (simp add: calls)

lemma mkdir_each_there: "\<forall>d\<in>set ds. entry t d = Some Folder \<Longrightarrow> mkdir_each ds t = (Inr (), t)"
  by (induction ds) (simp_all add: calls)

lemma file_at_only_new:
  assumes "only_new_folders t u"
  shows "file_at u q = file_at t q"
proof -
  have "entry u q = entry t q \<or> entry t q = None \<and> entry u q = Some Folder"
    using assms by (simp add: only_new_folders_def)
  then show ?thesis by (auto simp: file_at_def)
qed

section \<open>One file\<close>

lemma apply_shadow_file_ok:
  assumes "apply_shadow_file fs shadow p t = (Inr x, u)"
  shows "file_at u q = (if q = p then file_at shadow p else file_at t q)" "entry shadow p \<noteq> Some Folder"
    "entry t p \<noteq> Some Folder"
proof -
  have "(file_at u q = (if q = p then file_at shadow p else file_at t q)) \<and> entry shadow p \<noteq> Some Folder \<and>
      entry t p \<noteq> Some Folder"
  proof (cases "entry shadow p")
    case None
    then show ?thesis
      using assms by (auto simp: apply_shadow_file_def file_at_def split: option.splits node.splits if_splits)
  next
    case (Some n)
    obtain r t1 where mk: "mkdir_parents p t = (r, t1)" by fastforce
    then have new: "only_new_folders t t1" unfolding mkdir_parents_def by (rule mkdir_each_only)
    have u: "n \<noteq> Folder" "entry t1 p \<noteq> Some Folder" "u = put_entry p n t1"
      using assms Some mk
      by (auto simp: apply_shadow_file_def then_call_def split: sum.splits if_splits option.splits stage.splits)
    have "file_at u q = (if q = p then Some n else file_at t1 q)"
      using u(1) by (auto simp: u(3) file_at_def split: node.splits)
    moreover have "file_at shadow p = Some n" using Some u(1) by (simp add: file_at_Some)
    moreover have "entry t p \<noteq> Some Folder" using new u(2) unfolding only_new_folders_def by metis
    ultimately show ?thesis using file_at_only_new [OF new] Some u(1) by simp
  qed
  then show "file_at u q = (if q = p then file_at shadow p else file_at t q)" "entry shadow p \<noteq> Some Folder"
    "entry t p \<noteq> Some Folder" by simp_all
qed

text \<open>Whatever happens, other paths keep their entries, but for new directories and the temporary file.\<close>

definition near :: "rel_path set \<Rightarrow> tree \<Rightarrow> tree \<Rightarrow> bool" where
  "near A t u = (\<forall>q. q \<notin> A \<longrightarrow> entry u q = entry t q \<or> entry t q = None \<and> entry u q = Some Folder)"

lemma near_refl [simp]: "near A t t"
  by (simp add: near_def)

lemma near_trans: "near A t u \<Longrightarrow> near A u v \<Longrightarrow> near A t v"
  unfolding near_def by (metis option.distinct(1))

lemma near_new_folders: "only_new_folders t u \<Longrightarrow> near A t u"
  by (simp add: near_def only_new_folders_def)

lemma near_put: "p \<in> A \<Longrightarrow> near A t u \<Longrightarrow> near A t (put_entry p n u)"
  by (auto simp: near_def)

lemma apply_shadow_file_near:
  assumes "apply_shadow_file fs shadow p t = (r, u)" "p \<in> A" "temp_path fs p \<in> A"
  shows "near A t u"
proof (cases "entry shadow p")
  case None
  then show ?thesis
    using assms by (auto simp: apply_shadow_file_def near_def split: option.splits node.splits if_splits)
next
  case (Some n)
  obtain r1 t1 where mk: "mkdir_parents p t = (r1, t1)" by fastforce
  then have new: "near A t t1" unfolding mkdir_parents_def by (intro near_new_folders) (rule mkdir_each_only)
  have "u = t \<or> u = t1 \<or> (\<exists>m. u = put_entry (temp_path fs p) m t1) \<or> (\<exists>m. u = put_entry p m t1)"
    using assms(1) Some mk
    by (auto simp: apply_shadow_file_def then_call_def split: sum.splits if_splits option.splits stage.splits)
  then show ?thesis using new assms(2,3) near_put by auto
qed

section \<open>The loop\<close>

lemma apply_changed_ok:
  assumes "apply_changed fs shadow ch sh ps a t = (Inr b, u)"
  shows "file_at u q = (if q \<in> set ps \<and> ch q \<noteq> sh q then file_at shadow q else file_at t q)"
  using assms
proof (induction ps arbitrary: a t)
  case (Cons p ps)
  show ?case
  proof (cases "ch p = sh p")
    case True
    then show ?thesis using Cons by auto
  next
    case False
    obtain x t1 where one: "apply_shadow_file fs shadow p t = (Inr x, t1)"
      and rest: "apply_changed fs shadow ch sh ps True t1 = (Inr b, u)"
      using Cons.prems False by (auto elim: then_call_answered)
    show ?thesis using Cons.IH [OF rest] apply_shadow_file_ok(1) [OF one, of q] False by auto
  qed
qed (simp add: calls)

lemma apply_changed_near:
  assumes "apply_changed fs shadow ch sh ps a t = (r, u)" "set ps \<union> temp_path fs ` set ps \<subseteq> A"
  shows "near A t u"
  using assms
proof (induction ps arbitrary: a t)
  case (Cons p ps)
  obtain r1 t1 where one: "apply_shadow_file fs shadow p t = (r1, t1)" by fastforce
  have near: "near A t t1" using apply_shadow_file_near [OF one, of A] Cons.prems(2) by simp
  show ?case
  proof (cases "ch p = sh p")
    case True
    then show ?thesis using Cons by simp
  next
    case run: False
    show ?thesis
    proof (cases r1)
      case (Inl e)
      then show ?thesis using Cons.prems(1) run one near by (simp add: then_call_def)
    next
      case (Inr x)
      then have "apply_changed fs shadow ch sh ps True t1 = (r, u)"
        using Cons.prems(1) one run by (simp add: then_call_def)
      then have "near A t1 u" using Cons.IH [of True t1] Cons.prems(2) by simp
      then show ?thesis by (rule near_trans [OF near])
    qed
  qed
qed (simp add: calls)

lemma backup_real_files_ok:
  assumes "backup_real_files fs work ps = Inr (missing, backup)" "p \<in> set ps"
  shows "entry work p \<noteq> Some Folder" "p \<in> set missing \<longleftrightarrow> entry work p = None" "entry backup p = entry work p"
proof -
  have "entry work p \<noteq> Some Folder \<and> (p \<in> set missing \<longleftrightarrow> entry work p = None) \<and> entry backup p = entry work p"
    if "p \<in> set ps"
    using assms(1) that
  proof (induction ps arbitrary: missing backup)
    case (Cons q ps)
    have sub: "backup_real_files fs work ps = Inr (m, b) \<Longrightarrow> p \<notin> set ps \<Longrightarrow> p \<notin> set m \<and> entry b p = None" for m b
      by (induction ps arbitrary: m b)
        (auto simp: entry_def split: option.splits node.splits if_splits)
    show ?case
    proof (cases "entry work q")
      case None
      then obtain m where m: "backup_real_files fs work ps = Inr (m, backup)" "missing = q # m"
        using Cons.prems(1) by auto
      then show ?thesis using Cons.IH [OF m(1)] sub [OF m(1)] None Cons.prems(2) by (cases "p \<in> set ps") auto
    next
      case (Some n)
      then obtain b where b: "backup_real_files fs work ps = Inr (missing, b)" "backup = (q, n) # b" "n \<noteq> Folder"
        using Cons.prems(1) by (cases n) (auto split: if_splits)
      then show ?thesis
        using Cons.IH [OF b(1)] sub [OF b(1)] Some Cons.prems(2) by (cases "p \<in> set ps") (auto simp: entry_def)
    qed
  qed simp
  then show "entry work p \<noteq> Some Folder" "p \<in> set missing \<longleftrightarrow> entry work p = None" "entry backup p = entry work p"
    using assms(2) by simp_all
qed

section \<open>Putting the real workspace back\<close>

text \<open>\<open>near\<close> the workspace apart from changed and temporary paths, and as it was at those already restored.\<close>

definition restored :: "rel_path set \<Rightarrow> rel_path set \<Rightarrow> rel_path set \<Rightarrow> tree \<Rightarrow> tree \<Rightarrow> bool" where
  "restored A temps D work t = (near (A \<union> temps) work t \<and> (\<forall>p\<in>D. entry t p = entry work p))"

text \<open>What lies below a path that is no directory is nothing.\<close>

lemma nothing_below:
  assumes "wf_tree work" "p \<noteq> []" "entry work p \<noteq> Some Folder" "prefix p q" "q \<noteq> p"
  shows "entry work q = None"
proof (rule ccontr)
  assume "entry work q \<noteq> None"
  moreover have "strict_prefix p q" using assms(4,5) by (simp add: strict_prefix_def)
  ultimately have "entry work p = Some Folder" using wf_treeD [OF assms(1)] assms(2) by blast
  then show False using assms(3) by simp
qed

lemma near_remove:
  assumes "wf_tree work" "p \<in> A" "p \<noteq> []" "entry work p \<noteq> Some Folder" "near A work t"
    and "remove_path fs p t = (r, u)"
  shows "near A work u"
proof -
  have "entry u q = entry t q \<or> entry u q = entry work q" if "q \<noteq> p" for q
    using remove_path_only [OF assms(6), of q] nothing_below [OF assms(1,3,4), of q] that by auto
  then show ?thesis using assms(2,5) unfolding near_def by metis
qed

lemma near_copy_back:
  assumes "p \<in> A" "copy_back fs p n t = (r, u)"
  shows "near A t u"
proof -
  obtain r1 t1 where mk: "mkdir_parents p t = (r1, t1)" by fastforce
  then have new: "near A t t1" unfolding mkdir_parents_def by (intro near_new_folders) (rule mkdir_each_only)
  have "u = t \<or> u = t1 \<or> (\<exists>m. u = put_entry p m t1)"
    using assms(2) mk
    by (auto simp: copy_back_def then_call_def split: sum.splits if_splits option.splits stage.splits node.splits)
  then show ?thesis using new assms(1) near_put by auto
qed

text \<open>Whatever fails in the restore, it deals with the changed paths only.\<close>

lemma restore_near:
  assumes "wf_tree work" "\<forall>p\<in>set ps. p \<in> A \<and> p \<noteq> [] \<and> entry work p \<noteq> Some Folder" "near A work t"
    and "restore_real_files fs missing backup ps t = (r, v)"
  shows "near A work v"
  using assms(2-4)
proof (induction ps arbitrary: t)
  case (Cons p ps)
  let ?put = "if p \<in> set missing then answer ()
      else case entry backup p of None \<Rightarrow> answer () | Some n \<Rightarrow> copy_back fs p n"
  obtain r1 t1 where one: "remove_path fs p t = (r1, t1)" by fastforce
  have t1: "near A work t1" by (rule near_remove [OF assms(1) _ _ _ Cons.prems(2) one]) (use Cons.prems(1) in auto)
  obtain r2 t2 where two: "?put t1 = (r2, t2)" by fastforce
  have "near A t1 t2"
    using two near_copy_back [of p A fs _ t1 r2 t2] Cons.prems(1) by (auto simp: calls split: if_splits option.splits)
  then have t2: "near A work t2" by (rule near_trans [OF t1])
  have "v = t1 \<or> v = t2 \<or> restore_real_files fs missing backup ps t2 = (r, v)"
    using Cons.prems(3) one two by (auto simp: then_call_def split: sum.splits)
  then show ?case using t1 t2 Cons.IH [OF _ t2] Cons.prems(1) by auto
qed (simp add: calls)

definition restorable :: "FileSystem \<Rightarrow> rel_path set \<Rightarrow> bool" where
  "restorable fs A = (\<forall>p\<in>A. fs_remove fs p = None \<and> fs_restore fs p = None)"

lemma restored_remove:
  assumes "wf_tree work" "p \<in> A" "p \<noteq> []" "entry work p \<noteq> Some Folder" "restored A temps D work t"
    and "remove_path fs p t = (r, u)"
  shows "restored A temps (D - {p}) work u"
proof -
  have near: "near (A \<union> temps) work u"
    by (rule near_remove [OF assms(1) _ assms(3,4) _ assms(6)]) (use assms(2,5) in \<open>auto simp: restored_def\<close>)
  have "entry u q = entry work q" if "q \<in> D" "q \<noteq> p" for q
    using remove_path_only [OF assms(6), of q] nothing_below [OF assms(1,3,4), of q] that assms(5)
    by (auto simp: restored_def)
  then show ?thesis using near by (simp add: restored_def)
qed

lemma restore_one:
  assumes wf: "wf_tree work" and A: "\<forall>p\<in>A. p \<noteq> [] \<and> entry work p \<noteq> Some Folder" and p: "p \<in> A" "fs_restore fs p = None"
    and temps: "\<forall>q\<in>temps. entry work q = None" and t: "restored A temps (D - {p}) work u" "entry u p = None" "D \<subseteq> A"
    and kept: "p \<in> set missing \<longleftrightarrow> entry work p = None" "entry backup p = entry work p"
  shows "\<exists>v. (if p \<in> set missing then answer ()
      else case entry backup p of None \<Rightarrow> answer () | Some n \<Rightarrow> copy_back fs p n) u = (Inr (), v)
    \<and> restored A temps (insert p D) work v"
proof (cases "entry work p")
  case None
  then show ?thesis using t kept by (auto simp: answer_def restored_def)
next
  case (Some n)
  have "entry u d = Some Folder" if "d \<in> set (parents p)" for d
  proof -
    have d: "strict_prefix d p" "d \<noteq> []" using that by (simp_all add: parents_iff)
    have "entry work p \<noteq> None" using Some by simp
    then have folder: "entry work d = Some Folder" using d by (rule wf_treeD [OF wf])
    then have "d \<notin> A \<union> temps" using A temps by auto
    then have "entry u d = entry work d \<or> entry work d = None \<and> entry u d = Some Folder"
      using t(1) by (simp add: restored_def near_def)
    then show ?thesis using folder by simp
  qed
  then have "mkdir_parents p u = (Inr (), u)"
    unfolding mkdir_parents_def by (intro mkdir_each_there) blast
  then have "copy_back fs p n u = (Inr (), put_entry p n u)"
    using p(2) by (simp add: copy_back_def then_call_def)
  moreover have "restored A temps (insert p D) work (put_entry p n u)"
    using t p Some near_put [of p "A \<union> temps" work u n] by (auto simp: restored_def)
  ultimately show ?thesis using Some kept by simp
qed

lemma restore_all:
  assumes "wf_tree work" "\<forall>p\<in>A. p \<noteq> [] \<and> entry work p \<noteq> Some Folder" "\<forall>q\<in>temps. entry work q = None"
    and "restored A temps D work t" "D \<union> set ps \<subseteq> A" "restorable fs A"
    and "\<forall>p\<in>A. (p \<in> set missing \<longleftrightarrow> entry work p = None) \<and> entry backup p = entry work p"
  shows "\<exists>v. restore_real_files fs missing backup ps t = (Inr (), v) \<and> restored A temps (D \<union> set ps) work v"
  using assms(4,5)
proof (induction ps arbitrary: t D)
  case (Cons p ps)
  let ?put = "if p \<in> set missing then answer ()
      else case entry backup p of None \<Rightarrow> answer () | Some n \<Rightarrow> copy_back fs p n"
  have p: "p \<in> A" "fs_remove fs p = None" "fs_restore fs p = None"
    using Cons.prems(2) assms(6) by (auto simp: restorable_def)
  obtain u where u: "remove_path fs p t = (Inr (), u)" "entry u p = None" using remove_path_ok [of fs p t] p(2) by auto
  have "restored A temps (D - {p}) work u"
    by (rule restored_remove [OF assms(1) p(1) _ _ Cons.prems(1) u(1)]) (use assms(2) p(1) in auto)
  then obtain v where v: "?put u = (Inr (), v)" "restored A temps (insert p D) work v"
    using restore_one [OF assms(1,2) p(1,3) assms(3) _ u(2), of D missing backup] Cons.prems(2) assms(7) p(1) by auto
  have "restore_real_files fs missing backup (p # ps) t = restore_real_files fs missing backup ps v"
    using v(1) u(1) by (simp add: then_call_def split: prod.splits)
  moreover have "insert p D \<union> set ps \<subseteq> A" using Cons.prems(2) by simp
  ultimately show ?case using Cons.IH [OF v(2)] by simp
qed (simp add: calls)

section \<open>Fingerprints\<close>

lemma set_iter_files: "p \<in> set (iter_workspace_files t) \<longleftrightarrow> tracked p \<and> file_at t p \<noteq> None"
proof -
  have "file_at t p \<noteq> None \<Longrightarrow> p \<in> fst ` set t"
    unfolding entry_member [symmetric] by (auto simp: file_at_None)
  then show ?thesis unfolding iter_workspace_files_def set_sort set_filter set_remdups set_map by blast
qed

lemma hash_for_tree:
  "hash_for (fingerprint_tree sha d t) p = (if tracked p then map_option (hash_node sha) (file_at t p) else None)"
proof -
  have "map_of (map (\<lambda>p. (p, g p)) ps) p = (if p \<in> set ps then Some (g p) else None)" for g :: "rel_path \<Rightarrow> string" and ps
    by (induction ps) auto
  then show ?thesis
    by (auto simp: hash_for_def fingerprint_tree_def Let_def set_iter_files split: option.split)
qed

lemma paths_of_tree: "p \<in> fst ` set (fp_files (fingerprint_tree sha d t)) \<longleftrightarrow> tracked p \<and> file_at t p \<noteq> None"
  by (simp add: fingerprint_tree_def Let_def image_image set_iter_files)

lemma set_agent_changed:
  "p \<in> set (agent_changed (fingerprint_tree sha x b) (fingerprint_tree sha y s) (fingerprint_tree sha z c)) \<longleftrightarrow>
    tracked p \<and> map_option (hash_node sha) (file_at b p) \<noteq> map_option (hash_node sha) (file_at s p)"
proof -
  have "tracked p \<and> (file_at b p \<noteq> None \<or> file_at s p \<noteq> None) \<Longrightarrow>
      p \<in> set (candidate_paths (fingerprint_tree sha x b) (fingerprint_tree sha y s) (fingerprint_tree sha z c))"
    unfolding candidate_paths_def set_sort set_remdups set_append set_map Un_iff paths_of_tree by blast
  then show ?thesis unfolding agent_changed_def set_filter mem_Collect_eq hash_for_tree
    by (cases "file_at b p"; cases "file_at s p") auto
qed

text \<open>The digest tells apart the files that are compared.\<close>

definition no_collision :: "(string \<Rightarrow> string) \<Rightarrow> tree list \<Rightarrow> bool" where
  "no_collision sha ts = inj_on (hash_node sha) (\<Union>t\<in>set ts. {n. \<exists>p. file_at t p = Some n})"

lemma same_hash:
  assumes "no_collision sha ts" "t \<in> set ts" "u \<in> set ts"
  shows "map_option (hash_node sha) (file_at t p) = map_option (hash_node sha) (file_at u q) \<longleftrightarrow> file_at t p = file_at u q"
proof -
  have "n = m" if "file_at t p = Some n" "file_at u q = Some m" "hash_node sha n = hash_node sha m" for n m
    by (rule inj_onD [OF assms(1) [unfolded no_collision_def]]) (use that assms(2,3) in auto)
  then show ?thesis by (cases "file_at t p"; cases "file_at u q") auto
qed

section \<open>The three-way merge\<close>

text \<open>What the merge is meant to be, file by file: a side that changed wins over one that did not.\<close>

definition three_way :: "node option \<Rightarrow> node option \<Rightarrow> node option \<Rightarrow> node option" where
  "three_way b s c = (if s = b then c else s)"

definition in_conflict :: "node option \<Rightarrow> node option \<Rightarrow> node option \<Rightarrow> bool" where
  "in_conflict b s c = (s \<noteq> b \<and> c \<noteq> b \<and> c \<noteq> s)"

lemma conflicting_iff:
  assumes "no_collision sha [b, s, c]"
  shows "p \<in> set (conflicting_paths (fingerprint_tree sha x b) (fingerprint_tree sha y s) (fingerprint_tree sha z c)) \<longleftrightarrow>
    tracked p \<and> in_conflict (file_at b p) (file_at s p) (file_at c p)"
proof -
  note same = same_hash [OF assms]
  show ?thesis
    unfolding conflicting_paths_def set_filter mem_Collect_eq set_agent_changed hash_for_tree merge_conflicts_def
      in_conflict_def
    using same [of b s p p] same [of c b p p] same [of c s p p] by auto
qed

lemma apply_merge_cases:
  assumes "apply_merge fs s c h ps work = (r, w')"
  obtains e where "r = Inl e" "w' = work"
    | m bk a where "backup_real_files fs work ps = Inr (m, bk)" "r = Inr a" "fs_close_backup fs"
        "apply_changed fs s (hash_for c) (hash_for h) ps False work = (Inr a, w')"
    | m bk e e' u v where "backup_real_files fs work ps = Inr (m, bk)" "r = Inl e'"
        "apply_changed fs s (hash_for c) (hash_for h) ps False work = (Inl e, u)"
        "restore_real_files fs m bk ps u = (v, w')"
    | e where "r = Inl e" "\<not> fs_close_backup fs"
proof (cases "fs_open_backup fs \<and> is_ok (backup_real_files fs work ps)")
  case False
  then show thesis using assms that(1) by (cases "backup_real_files fs work ps") (auto simp: apply_merge_def then_call_def calls split: if_splits)
next
  case True
  then obtain m bk where kept: "fs_open_backup fs" "backup_real_files fs work ps = Inr (m, bk)" by (auto simp: is_ok_iff)
  then have run: "closing_backup fs (on_error (apply_changed fs s (hash_for c) (hash_for h) ps False)
      (\<lambda>_. restore_real_files fs m bk ps)) work = (r, w')"
    using assms by (simp add: apply_merge_def then_call_def calls)
  show thesis
  proof (cases "fs_close_backup fs")
    case False
    then show thesis using run that(4) by (auto simp: closing_backup_def split: prod.splits)
  next
    case True
    then have "on_error (apply_changed fs s (hash_for c) (hash_for h) ps False) (\<lambda>_. restore_real_files fs m bk ps) work
        = (r, w')"
      using run by (auto simp: closing_backup_def split: prod.splits)
    then show thesis by (rule on_error_cases) (use that(2,3) kept True in \<open>auto split: sum.splits\<close>)
  qed
qed

lemma merge_trees_applied:
  assumes "merge_trees sha fs b s work = (Inr (Merge_Applied a), w')" "no_collision sha [b, s, work]"
  shows "file_at w' p = (if tracked p then three_way (file_at b p) (file_at s p) (file_at work p) else file_at work p)"
proof -
  let ?b = "fingerprint_tree sha [] b" and ?s = "fingerprint_tree sha [] s" and ?c = "fingerprint_tree sha [] work"
  have "then_call (apply_merge fs s ?c ?s (agent_changed ?b ?s ?c)) (\<lambda>applied. answer (Merge_Applied applied)) work
      = (Inr (Merge_Applied a), w')"
    using assms(1) by (simp add: merge_trees_def Let_def split: if_splits)
  then have "apply_merge fs s ?c ?s (agent_changed ?b ?s ?c) work = (Inr a, w')"
    by (auto simp: calls elim: then_call_answered)
  then have applied: "apply_changed fs s (hash_for ?c) (hash_for ?s) (agent_changed ?b ?s ?c) False work = (Inr a, w')"
    by (rule apply_merge_cases) simp_all
  note same = same_hash [OF assms(2)]
  show ?thesis
    unfolding apply_changed_ok [OF applied] set_agent_changed hash_for_tree three_way_def
    using same [of b s p p] same [of work s p p] by auto
qed

lemma merge_trees_conflicts:
  assumes "merge_trees sha fs b s work = (Inr (Merge_Conflicts ps), w')" "no_collision sha [b, s, work]"
  shows "w' = work \<and> ps \<noteq> [] \<and> set ps = {p. tracked p \<and> in_conflict (file_at b p) (file_at s p) (file_at work p)}"
proof -
  let ?ps = "conflicting_paths (fingerprint_tree sha [] b) (fingerprint_tree sha [] s) (fingerprint_tree sha [] work)"
  have "w' = work" "ps = ?ps" "?ps \<noteq> []"
    using assms(1) by (auto simp: merge_trees_def Let_def calls split: if_splits elim: then_call_answered)
  then show ?thesis using conflicting_iff [OF assms(2)] by auto
qed

text \<open>The paths the agent changed: the ones the restore is about.\<close>

definition agent_paths :: "tree \<Rightarrow> tree \<Rightarrow> rel_path set" where
  "agent_paths b s = {p. tracked p \<and> file_at b p \<noteq> file_at s p}"

lemma agent_changed_subset:
  "set (agent_changed (fingerprint_tree sha x b) (fingerprint_tree sha y s) (fingerprint_tree sha z c)) \<subseteq> agent_paths b s"
  by (auto simp: set_agent_changed agent_paths_def)

lemma restored_after_error:
  assumes "wf_tree work" "[] \<notin> set ps" "\<forall>q. entry work (temp_path fs q) = None"
    and "backup_real_files fs work ps = Inr (m, bk)" "apply_changed fs s ch sh ps False work = (r, u)"
    and "restore_real_files fs m bk ps u = (v, w)"
  shows "near (set ps \<union> temp_path fs ` set ps) work w"
    and "restorable fs (set ps) \<Longrightarrow> restored (set ps) (temp_path fs ` set ps) (set ps) work w"
proof -
  have near: "near (set ps \<union> temp_path fs ` set ps) work u" using apply_changed_near [OF assms(5)] by simp
  have files: "\<forall>p\<in>set ps. p \<noteq> [] \<and> entry work p \<noteq> Some Folder"
    using backup_real_files_ok(1) [OF assms(4)] assms(2) by auto
  show "near (set ps \<union> temp_path fs ` set ps) work w"
    by (rule restore_near [OF assms(1) _ near assms(6)]) (use files in auto)
  have start: "restored (set ps) (temp_path fs ` set ps) {} work u" using near by (simp add: restored_def)
  have "\<exists>v. restore_real_files fs m bk ps u = (Inr (), v) \<and>
      restored (set ps) (temp_path fs ` set ps) ({} \<union> set ps) work v" if "restorable fs (set ps)"
    by (rule restore_all [OF assms(1) files _ start _ that])
      (use backup_real_files_ok(2,3) [OF assms(4)] assms(3) in auto)
  then show "restorable fs (set ps) \<Longrightarrow> restored (set ps) (temp_path fs ` set ps) (set ps) work w"
    using assms(6) by auto
qed

text \<open>
  C33. A merge that raises, whichever of its writes fails and when, leaves the real workspace as it was:
  every file and every directory that was there is there with its content, and what is new are
  directories or temporary files of the merge. For the paths the agent did not change this holds even
  when the restore fails on its way; for the others it needs that no removal and no copy of the restore
  fails. The backup directory can be removed in the end.
\<close>

theorem failed_merge_restores:
  assumes "merge_trees sha fs b s work = (Inl e, w')" "wf_tree b" "wf_tree s" "wf_tree work"
    and "\<forall>q. entry work (temp_path fs q) = None" "fs_close_backup fs"
    and "p \<notin> agent_paths b s \<or> restorable fs (agent_paths b s)"
  shows "(entry work p \<noteq> None \<longrightarrow> entry w' p = entry work p) \<and>
    (entry work p = None \<longrightarrow> entry w' p \<in> {None, Some Folder} \<or> p \<in> range (temp_path fs))"
proof -
  let ?b = "fingerprint_tree sha [] b" and ?s = "fingerprint_tree sha [] s" and ?c = "fingerprint_tree sha [] work"
  let ?ps = "agent_changed ?b ?s ?c"
  let ?T = "temp_path fs ` set ?ps"
  have paths: "[] \<notin> set ?ps" using assms(2,3) by (auto simp: set_agent_changed wf_tree_def file_at_def)
  have here: "p \<notin> set ?ps \<or> restorable fs (set ?ps)"
    using assms(7) agent_changed_subset [of sha "[]" b "[]" s "[]" work] by (auto simp: restorable_def)
  have "then_call (apply_merge fs s ?c ?s ?ps) (\<lambda>applied. answer (Merge_Applied applied)) work = (Inl e, w')"
    using assms(1) by (simp add: merge_trees_def Let_def split: if_splits)
  then have "apply_merge fs s ?c ?s ?ps work = (Inl e, w')"
    by (auto simp: then_call_def calls split: prod.splits sum.splits)
  then have "near (set ?ps \<union> ?T) work w' \<and> (p \<in> set ?ps \<longrightarrow> entry w' p = entry work p)"
  proof (rule apply_merge_cases)
    fix m bk e' e'' u v
    assume k: "backup_real_files fs work ?ps = Inr (m, bk)"
      "apply_changed fs s (hash_for ?c) (hash_for ?s) ?ps False work = (Inl e', u)"
      "restore_real_files fs m bk ?ps u = (v, w')"
    note undone = restored_after_error [OF assms(4) paths assms(5) k]
    show ?thesis using undone here by (auto simp: restored_def)
  qed (use assms(6) in simp_all)
  then consider "entry w' p = entry work p" | "p \<in> ?T" "entry work p = None"
    | "entry work p = None" "entry w' p = Some Folder"
    using assms(5) unfolding near_def by (cases "p \<in> set ?ps"; cases "p \<in> ?T") auto
  then show ?thesis by cases auto
qed

section \<open>When the merge does not raise\<close>

text \<open>
  The operating system lets every write through, and no changed path is a directory on the other side,
  nor lies in a file of the real workspace.
\<close>

definition writable :: "FileSystem \<Rightarrow> bool" where
  "writable fs = (fs_open_backup fs \<and> fs_close_backup fs \<and> (\<forall>p. fs_backup fs p \<and> fs_write fs p = None))"

definition same_shape :: "tree \<Rightarrow> tree \<Rightarrow> tree \<Rightarrow> bool" where
  "same_shape b s c = (\<forall>p. tracked p \<and> file_at b p \<noteq> file_at s p \<longrightarrow>
     entry s p \<noteq> Some Folder \<and> entry c p \<noteq> Some Folder \<and>
     (\<forall>d\<in>set (parents p). entry c d \<in> {None, Some Folder}))"

lemma mkdir_each_ok:
  "\<forall>d\<in>set ds. entry t d \<in> {None, Some Folder} \<Longrightarrow> fst (mkdir_each ds t) = Inr ()"
  by (induction ds arbitrary: t) (auto simp: calls split: option.split node.split)

lemma apply_changed_succeeds:
  assumes "wf_tree s" "writable fs"
    and "\<forall>p\<in>A. entry s p \<noteq> Some Folder" "\<forall>p\<in>A. entry t p \<noteq> Some Folder"
    and "\<forall>p\<in>A. entry s p \<noteq> None \<longrightarrow> (\<forall>d\<in>set (parents p). entry t d \<in> {None, Some Folder})" "set ps \<subseteq> A"
  shows "\<exists>b u. apply_changed fs s ch sh ps a t = (Inr b, u)"
  using assms(4-6)
proof (induction ps arbitrary: a t)
  case (Cons p ps)
  show ?case
  proof (cases "ch p = sh p")
    case True
    then show ?thesis using Cons by simp
  next
    case run: False
    have parents: "d \<notin> A" if "d \<in> set (parents q)" "q \<in> A" "entry s q \<noteq> None" for d q
    proof -
      have "entry s d = Some Folder" using that(1,3) wf_treeD [OF assms(1)] by (simp add: parents_iff)
      then show ?thesis using assms(3) by auto
    qed
    have p: "p \<in> A" using Cons.prems(3) by simp
    have quiet: "fs_write fs p = None" using assms(2) by (simp add: writable_def)
    obtain x t1 where one: "apply_shadow_file fs s p t = (Inr x, t1)"
      and keep: "\<forall>q. q \<noteq> p \<longrightarrow> entry t1 q = entry t q \<or> entry t q = None \<and> entry t1 q = Some Folder \<and>
          (entry s p \<noteq> None \<and> q \<in> set (parents p))" and pt: "entry t1 p \<noteq> Some Folder"
    proof (cases "entry s p")
      case None
      then show thesis
        using that p Cons.prems(1) quiet by (cases "entry t p"; cases "the (entry t p)")
          (auto simp: apply_shadow_file_def)
    next
      case (Some n)
      obtain r t2 where mk: "mkdir_parents p t = (r, t2)" by fastforce
      have "\<forall>d\<in>set (parents p). entry t d \<in> {None, Some Folder}" using Cons.prems(2) p Some by blast
      then have "fst (mkdir_parents p t) = Inr ()" unfolding mkdir_parents_def by (rule mkdir_each_ok)
      then have r: "r = Inr ()" using mk by simp
      have new: "entry t2 q = entry t q \<or> entry t q = None \<and> entry t2 q = Some Folder \<and> q \<in> set (parents p)" for q
        using mkdir_each_only_listed [OF mk [unfolded mkdir_parents_def]] by blast
      have "p \<notin> set (parents p)" by (simp add: parents_iff)
      then have "entry t2 p \<noteq> Some Folder" using new [of p] Cons.prems(1) p by auto
      moreover have "n \<noteq> Folder" using Some assms(3) p by auto
      ultimately have "apply_shadow_file fs s p t = (Inr (), put_entry p n t2)"
        using Some mk r quiet by (simp add: apply_shadow_file_def then_call_def)
      then show thesis using that [of "()" "put_entry p n t2"] new Some \<open>n \<noteq> Folder\<close> by auto
    qed
    have "\<forall>q\<in>A. entry t1 q \<noteq> Some Folder"
      using keep pt Cons.prems(1) parents [OF _ p] by metis
    moreover have "\<forall>q\<in>A. entry s q \<noteq> None \<longrightarrow> (\<forall>d\<in>set (parents q). entry t1 d \<in> {None, Some Folder})"
    proof (intro ballI impI)
      fix q d assume q: "q \<in> A" "entry s q \<noteq> None" "d \<in> set (parents q)"
      then have "d \<noteq> p" using parents p by blast
      moreover have "entry t d \<in> {None, Some Folder}" using Cons.prems(2) q by blast
      ultimately show "entry t1 d \<in> {None, Some Folder}" using keep by auto
    qed
    ultimately have "\<exists>b u. apply_changed fs s ch sh ps True t1 = (Inr b, u)"
      using Cons.IH [of t1 True] Cons.prems(3) by simp
    then show ?thesis using run one by (simp add: then_call_Inr)
  qed
qed (simp add: calls)

lemma backup_real_files_succeeds:
  "writable fs \<Longrightarrow> \<forall>p\<in>set ps. entry t p \<noteq> Some Folder \<Longrightarrow> is_ok (backup_real_files fs t ps)"
  by (induction ps) (auto simp: writable_def is_ok_iff split: option.split node.split)

text \<open>What a merge leaves, by its outcome.\<close>

definition merged_as :: "tree \<Rightarrow> tree \<Rightarrow> tree \<Rightarrow> merge_outcome \<Rightarrow> tree \<Rightarrow> bool" where
  "merged_as b s work outcome w' =
    (case outcome of
       Merge_Conflicts ps \<Rightarrow> w' = work \<and> ps \<noteq> [] \<and>
         set ps = {p. tracked p \<and> in_conflict (file_at b p) (file_at s p) (file_at work p)}
     | Merge_Applied a \<Rightarrow> (\<forall>p. \<not> (tracked p \<and> in_conflict (file_at b p) (file_at s p) (file_at work p))) \<and>
         (\<forall>p. file_at w' p = (if tracked p then three_way (file_at b p) (file_at s p) (file_at work p) else file_at work p)))"

lemma merge_trees_merged_as:
  assumes "merge_trees sha fs b s work = (Inr outcome, w')" "no_collision sha [b, s, work]"
  shows "merged_as b s work outcome w'"
proof -
  let ?b = "fingerprint_tree sha [] b" and ?s = "fingerprint_tree sha [] s" and ?c = "fingerprint_tree sha [] work"
  have "conflicting_paths ?b ?s ?c = []" if "outcome = Merge_Applied a" for a
    using assms(1) that by (auto simp: merge_trees_def Let_def split: if_splits)
  then have "\<not> (tracked p \<and> in_conflict (file_at b p) (file_at s p) (file_at work p))" if "outcome = Merge_Applied a" for a p
    using that conflicting_iff [OF assms(2), of p "[]" "[]" "[]"] by simp
  then show ?thesis
    using assms(1) merge_trees_applied [OF _ assms(2)] merge_trees_conflicts [OF _ assms(2)]
    by (cases outcome) (auto simp: merged_as_def)
qed

lemma merge_trees_returns:
  assumes "wf_tree s" "same_shape b s work" "writable fs"
  shows "\<exists>outcome w'. merge_trees sha fs b s work = (Inr outcome, w')"
proof (cases "conflicting_paths (fingerprint_tree sha [] b) (fingerprint_tree sha [] s) (fingerprint_tree sha [] work) = []")
  case False
  then show ?thesis by (simp add: merge_trees_def Let_def)
next
  case True
  let ?b = "fingerprint_tree sha [] b" and ?s = "fingerprint_tree sha [] s" and ?c = "fingerprint_tree sha [] work"
  let ?ps = "agent_changed ?b ?s ?c"
  have changed: "tracked p \<and> file_at b p \<noteq> file_at s p" if "p \<in> set ?ps" for p
    using that by (auto simp: set_agent_changed)
  have shape: "\<forall>p\<in>set ?ps. entry s p \<noteq> Some Folder" "\<forall>p\<in>set ?ps. entry work p \<noteq> Some Folder"
    "\<forall>p\<in>set ?ps. entry s p \<noteq> None \<longrightarrow> (\<forall>d\<in>set (parents p). entry work d \<in> {None, Some Folder})"
    using assms(2) changed unfolding same_shape_def by blast+
  obtain m bk where k: "backup_real_files fs work ?ps = Inr (m, bk)"
    using backup_real_files_succeeds [OF assms(3) shape(2)] by (auto simp: is_ok_iff)
  obtain a u where "apply_changed fs s (hash_for ?c) (hash_for ?s) ?ps False work = (Inr a, u)"
    using apply_changed_succeeds [OF assms(1,3) shape subset_refl] by blast
  then have "apply_merge fs s ?c ?s ?ps work = (Inr a, u)"
    using assms(3) by (simp add: apply_merge_def then_call_def calls k on_error_def closing_backup_def writable_def)
  then show ?thesis using True by (simp add: merge_trees_def Let_def then_call_def calls)
qed

text \<open>
  C8. A merge that returns is the three-way merge: it reports exactly the files that both sides changed
  differently and then touches nothing, or there is no such file and it leaves in the real workspace,
  file by file, the changed side. It does return where the workspaces agree on what is a directory and
  the operating system lets every write through. The digest tells the compared files apart.
\<close>

theorem merge_is_three_way:
  assumes "no_collision sha [b, s, work]"
  shows "(\<forall>outcome w'. merge_trees sha fs b s work = (Inr outcome, w') \<longrightarrow> merged_as b s work outcome w') \<and>
    (wf_tree s \<and> same_shape b s work \<and> writable fs \<longrightarrow>
      (\<exists>outcome w'. merge_trees sha fs b s work = (Inr outcome, w')))"
  using merge_trees_merged_as [OF _ assms] merge_trees_returns by blast

section \<open>Files that become directories\<close>

lemma apply_changed_no_folder:
  "apply_changed fs s ch sh ps a t = (Inr b, u) \<Longrightarrow> p \<in> set ps \<Longrightarrow> ch p \<noteq> sh p \<Longrightarrow> entry s p \<noteq> Some Folder"
proof (induction ps arbitrary: a t)
  case (Cons q ps)
  show ?case
  proof (cases "ch q = sh q")
    case True
    then show ?thesis using Cons by auto
  next
    case False
    obtain x t1 where one: "apply_shadow_file fs s q t = (Inr x, t1)"
      and rest: "apply_changed fs s ch sh ps True t1 = (Inr b, u)"
      using Cons.prems(1) False by (auto elim: then_call_answered)
    show ?thesis using apply_shadow_file_ok(2) [OF one] Cons.IH [OF rest] Cons.prems(2,3) by auto
  qed
qed simp

text \<open>
  A change between file and directory is never merged: where the agent replaced a file by a
  directory or a directory by a file, the merge raises, even when nobody else touched the workspace
  and no write is refused.
\<close>

theorem kind_change_never_merges:
  assumes "tracked p" "file_at b p \<noteq> None \<and> entry s p = Some Folder \<or> entry b p = Some Folder \<and> file_at s p \<noteq> None"
  shows "\<exists>e w'. merge_trees sha fs b s b = (Inl e, w')"
proof -
  let ?b = "fingerprint_tree sha [] b" and ?s = "fingerprint_tree sha [] s"
  let ?ps = "agent_changed ?b ?s ?b"
  have clear: "conflicting_paths ?b ?s ?b = []"
    by (auto simp: conflicting_paths_def merge_conflicts_def filter_empty_conv)
  have p: "p \<in> set ?ps" "hash_for ?b p \<noteq> hash_for ?s p"
    using assms by (auto simp: set_agent_changed hash_for_tree file_at_def)
  have raises: "r = Inl e \<or> r = Inr a \<Longrightarrow> \<exists>e. r = Inl e" if "apply_merge fs s ?b ?s ?ps b = (r, w')" for r w' e a
    using that
  proof (rule apply_merge_cases)
    fix m bk a'
    assume k: "backup_real_files fs b ?ps = Inr (m, bk)"
      "apply_changed fs s (hash_for ?b) (hash_for ?s) ?ps False b = (Inr a', w')"
    show "\<exists>e. r = Inl e"
      using backup_real_files_ok(1) [OF k(1) p(1)] apply_changed_no_folder [OF k(2) p] assms(2) by auto
  qed auto
  obtain r w' where m: "apply_merge fs s ?b ?s ?ps b = (r, w')" by fastforce
  then obtain e where "r = Inl e" using raises [OF m] by (cases r) auto
  then have "merge_trees sha fs b s b = (Inl e, w')"
    using m clear by (simp add: merge_trees_def Let_def then_call_def)
  then show ?thesis by blast
qed

section \<open>Reconciliation\<close>

lemma dir_at_remove:
  "dir_at d (snd (remove_shadow_artifacts site r s)) =
    (if d \<in> (@) (run_root site (sw_run_id r)) ` {''/baseline'', ''/shadow'', ''/merge_backup''} then None else dir_at d s)"
proof -
  have "map_of (filter (\<lambda>(d, t). Q d) ds) d = (if Q d then map_of ds d else None)" for Q and ds :: "(string \<times> tree) list"
    by (induction ds) auto
  then show ?thesis by (simp add: remove_shadow_artifacts_def calls Let_def dir_at_def)
qed

lemma run_root_inj: "run_root site i = run_root site j \<longleftrightarrow> i = j"
  by (simp add: run_root_def)

text \<open>What a row that is not settled keeps: itself and both of its directories.\<close>

definition shadow_kept :: "Site \<Rightarrow> ShadowWorkspaceRecord \<Rightarrow> tree option \<Rightarrow> tree option \<Rightarrow> ShadowState \<Rightarrow> bool" where
  "shadow_kept site r b t s =
     (r \<in> set (sd_rows s) \<and> dir_at (run_root site (sw_run_id r) @ ''/baseline'') s = b \<and>
      dir_at (run_root site (sw_run_id r) @ ''/shadow'') s = t)"

lemma shadow_kept_remove:
  assumes "shadow_kept site r b t s" "sw_run_id q \<noteq> sw_run_id r"
  shows "shadow_kept site r b t (snd (remove_shadow_artifacts site q s))"
proof -
  have "run_root site (sw_run_id r) \<noteq> run_root site (sw_run_id q)" using assms(2) by (simp add: run_root_inj)
  moreover have "last (x @ ''/baseline'') \<noteq> last (y @ ''/shadow'')" "last (x @ ''/baseline'') \<noteq> last (y @ ''/merge_backup'')"
    "last (x @ ''/shadow'') \<noteq> last (y @ ''/merge_backup'')" for x y :: string by simp_all
  then have "x @ ''/baseline'' \<noteq> y @ ''/shadow''" "x @ ''/baseline'' \<noteq> y @ ''/merge_backup''"
    "x @ ''/shadow'' \<noteq> y @ ''/merge_backup''" for x y :: string by metis+
  moreover have "sd_rows (snd (remove_shadow_artifacts site q s)) = sd_rows s"
    by (simp add: remove_shadow_artifacts_def calls Let_def)
  ultimately show ?thesis
    using assms(1) unfolding shadow_kept_def dir_at_remove by (auto dest: sym)
qed

lemma shadow_kept_status:
  assumes "shadow_kept site r b t s" "i \<noteq> sw_run_id r"
  shows "shadow_kept site r b t (snd (set_shadow_status now i status s))"
proof -
  have "r \<in> set (sql_update (\<lambda>x. sw_run_id x = i) f (sd_rows s))" for f
    using assms unfolding set_sql_update shadow_kept_def by (intro image_eqI [of _ _ r]) auto
  then show ?thesis using assms(1) by (simp add: shadow_kept_def set_shadow_status_def calls dir_at_def)
qed

text \<open>Work that may still be wanted: the loop run can be resumed, or it converged and left changes.\<close>

definition work_pending :: "Site \<Rightarrow> LoopDb \<Rightarrow> ShadowWorkspaceRecord \<Rightarrow> tree option \<Rightarrow> tree option \<Rightarrow> bool" where
  "work_pending site loops r b t =
     (case get_loop_run (sw_run_id r) loops of
        None \<Rightarrow> True
      | Some loop \<Rightarrow> lr_terminal_state loop \<in> {[], ''paused'', ''waiting_approval'', ''conflicted''} \<or>
          lr_terminal_state loop = ''converged'' \<and>
          (b = None \<or> t = None \<or> fp_digest (fingerprint_tree (si_sha256 site) [] (the b)) \<noteq>
             fp_digest (fingerprint_tree (si_sha256 site) [] (the t))))"

lemma discard_run_snd:
  "snd (discard_run site now i s) = (case get_shadow i s of None \<Rightarrow> s
    | Some r \<Rightarrow> snd (set_shadow_status now i ''discarded'' (snd (remove_shadow_artifacts site r s))))"
  by (simp add: discard_run_def then_call_def calls remove_shadow_artifacts_def set_shadow_status_def
      split: option.split)

lemma reconcile_shadow_snd:
  "snd (reconcile_shadow site now loops q s) \<in> {s, snd (discard_run site now (sw_run_id q) s),
     snd (remove_shadow_artifacts site q (snd (set_shadow_status now (sw_run_id q) ''merged'' s)))}"
proof -
  have ok: "fst (discard_run site now i s) = Inr (get_shadow i s \<noteq> None)" for i
    by (simp add: discard_run_def then_call_def calls remove_shadow_artifacts_def set_shadow_status_def
        split: option.split)
  obtain d u where d: "discard_run site now (sw_run_id q) s = (d, u)" "is_ok d"
    using ok by (metis is_ok.simps(2) prod.collapse)
  show ?thesis
    using d
    by (cases d) (auto simp: reconcile_shadow_def then_call_def calls Let_def set_shadow_status_def
        remove_shadow_artifacts_def split: option.split)
qed

lemma reconcile_shadow_keeps:
  assumes "shadow_kept site r b t s" "work_pending site loops r b t" "sw_run_id q = sw_run_id r \<Longrightarrow> q = r"
    and "sw_baseline_workspace r = run_root site (sw_run_id r) @ ''/baseline''"
    and "sw_shadow_workspace r = run_root site (sw_run_id r) @ ''/shadow''"
  shows "shadow_kept site r b t (snd (reconcile_shadow site now loops q s))"
proof (cases "sw_run_id q = sw_run_id r")
  case True
  have "q = r" using True by (rule assms(3))
  then have "snd (reconcile_shadow site now loops q s) = s"
    using assms(1,2,4,5)
    by (auto simp: reconcile_shadow_def work_pending_def shadow_kept_def calls then_call_def Let_def split: option.splits)
  then show ?thesis using assms(1) by simp
next
  case False
  have kept: "shadow_kept site r b t (snd (remove_shadow_artifacts site x u))"
    if "shadow_kept site r b t u" "sw_run_id x = sw_run_id q" for x u
    by (rule shadow_kept_remove [OF that(1)]) (simp add: that(2) False)
  have status: "shadow_kept site r b t (snd (set_shadow_status now (sw_run_id q) st u))"
    if "shadow_kept site r b t u" for st u
    by (rule shadow_kept_status [OF that]) (use False in simp)
  have "shadow_kept site r b t (snd (discard_run site now (sw_run_id q) s))"
    using assms(1) kept status
    by (auto simp: discard_run_snd get_shadow_def dest!: row_of_Some split: option.split)
  then show ?thesis
    using reconcile_shadow_snd [of site now loops q s] assms(1) kept status by auto
qed

lemma reconcile_shadows_keeps:
  assumes "shadow_kept site r b t s" "work_pending site loops r b t"
    and "\<forall>q\<in>set qs. sw_run_id q = sw_run_id r \<longrightarrow> q = r"
    and "sw_baseline_workspace r = run_root site (sw_run_id r) @ ''/baseline''"
    and "sw_shadow_workspace r = run_root site (sw_run_id r) @ ''/shadow''"
  shows "shadow_kept site r b t (snd (reconcile_shadows site now loops qs s))"
  using assms(1,3)
proof (induction qs arbitrary: s)
  case (Cons q qs)
  obtain v s1 where one: "reconcile_shadow site now loops q s = (v, s1)" by fastforce
  have s1: "shadow_kept site r b t s1"
    using reconcile_shadow_keeps [OF Cons.prems(1) assms(2) _ assms(4,5), of q now] one Cons.prems(2) by simp
  then have "shadow_kept site r b t (snd (reconcile_shadows site now loops qs s1))"
    using Cons.IH Cons.prems(2) by simp
  then show ?case
    using one s1 by (cases v) (auto simp: then_call_def calls split: prod.splits sum.splits)
qed (simp add: calls)


section \<open>Witnesses\<close>

lemma hash_node_plain: "inj_on (hash_node (\<lambda>x. x)) {n. n \<noteq> Folder}"
proof (rule inj_onI)
  fix n m assume "n \<in> {n. n \<noteq> Folder}" "m \<in> {n. n \<noteq> Folder}" "hash_node (\<lambda>x. x) n = hash_node (\<lambda>x. x) m"
  then show "n = m" by (cases n; cases m) auto
qed

lemma no_collision_plain: "no_collision (\<lambda>x. x) ts"
  unfolding no_collision_def by (rule inj_on_subset [OF hash_node_plain]) (auto simp: file_at_Some)

text \<open>Trees of plain files in the top directory.\<close>

definition flat :: "(string \<times> string) list \<Rightarrow> tree" where
  "flat fs = map (\<lambda>(n, c). ([n], Regular c)) fs"

lemma entry_flat: "entry (flat fs) p = (case p of [n] \<Rightarrow> map_option Regular (map_of fs n) | _ \<Rightarrow> None)"
  unfolding entry_def flat_def by (induction fs) (auto split: list.split)

lemma wf_flat: "wf_tree (flat fs)"
  unfolding wf_tree_def entry_flat by (auto split: list.splits simp: strict_prefix_def prefix_Cons)

lemma flat_no_folder: "entry (flat fs) p \<noteq> Some Folder" "entry (flat fs) p \<noteq> None \<Longrightarrow> parents p = []"
  by (auto simp: entry_flat parents_def split: list.splits)

lemma same_shape_flat: "same_shape (flat a) (flat b) (flat c)"
proof -
  have "parents p = []" if "file_at (flat a) p \<noteq> file_at (flat b) p" for p
    using that flat_no_folder(2) [of a p] flat_no_folder(2) [of b p] by (auto simp: file_at_def split: option.splits)
  then show ?thesis using flat_no_folder(1) by (auto simp: same_shape_def)
qed

definition quiet :: FileSystem where
  "quiet = \<lparr>fs_backup = (\<lambda>p. True), fs_write = (\<lambda>p. None), fs_remove = (\<lambda>p. None), fs_restore = (\<lambda>p. None),
     fs_open_backup = True, fs_close_backup = True, fs_uuid = (\<lambda>p. ''u'')\<rparr>"

definition full_disk :: FileSystem where
  "full_disk = quiet\<lparr>fs_write := (\<lambda>p. if p = [''b''] then Some (After_Copy (Regular [])) else None)\<rparr>"

definition base_tree :: tree where "base_tree = flat [(''a'', ''1''), (''b'', ''2''), (''c'', ''3'')]"
definition agent_tree :: tree where "agent_tree = flat [(''a'', ''agent''), (''b'', ''agent''), (''c'', ''3'')]"
definition user_tree :: tree where "user_tree = flat [(''a'', ''1''), (''b'', ''2''), (''c'', ''user'')]"

theorem merge_is_three_way_witness:
  "\<exists>w'. merge_trees (\<lambda>x. x) quiet base_tree agent_tree user_tree = (Inr (Merge_Applied True), w') \<and>
     file_at w' [''a''] = Some (Regular ''agent'') \<and> file_at w' [''c''] = Some (Regular ''user'')"
proof -
  have "writable quiet" by (simp add: writable_def quiet_def)
  then obtain outcome w' where m: "merge_trees (\<lambda>x. x) quiet base_tree agent_tree user_tree = (Inr outcome, w')"
    and o: "merged_as base_tree agent_tree user_tree outcome w'"
    using merge_is_three_way [OF no_collision_plain, where b = base_tree and s = agent_tree and work = user_tree and fs = quiet]
      wf_flat same_shape_flat unfolding base_tree_def agent_tree_def user_tree_def by blast
  have "fst (merge_trees (\<lambda>x. x) quiet base_tree agent_tree user_tree) = Inr (Merge_Applied True)"
    by code_simp
  then have "outcome = Merge_Applied True" using m by simp
  moreover have "tracked [''a'']" "tracked [''c'']" by (simp_all add: tracked_def ignored_workspace_name_def
      ignored_workspace_names_def suffix_def)
  ultimately show ?thesis
    using o m by (auto simp: merged_as_def three_way_def file_at_def base_tree_def agent_tree_def user_tree_def entry_flat)
qed

theorem failed_merge_restores_witness:
  "\<exists>e w'. merge_trees (\<lambda>x. x) full_disk base_tree agent_tree user_tree = (Inl e, w') \<and>
     entry w' [''a''] = Some (Regular ''1'') \<and> entry w' [''b''] = Some (Regular ''2'')"
proof -
  have "\<not> is_ok (fst (merge_trees (\<lambda>x. x) full_disk base_tree agent_tree user_tree))"
    by code_simp
  then obtain e w' where m: "merge_trees (\<lambda>x. x) full_disk base_tree agent_tree user_tree = (Inl e, w')"
    by (metis is_ok.elims(3) prod.collapse)
  have t: "entry user_tree (temp_path full_disk q) = None" for q
    by (auto simp: user_tree_def entry_flat temp_path_def full_disk_def quiet_def split: list.splits)
  have "entry user_tree p \<noteq> None \<longrightarrow> entry w' p = entry user_tree p" for p
    using failed_merge_restores [OF m, of p] t wf_flat
    by (auto simp: base_tree_def agent_tree_def user_tree_def full_disk_def quiet_def restorable_def)
  then show ?thesis using m by (simp add: user_tree_def entry_flat)
qed

theorem kind_change_never_merges_witness:
  "\<exists>e w'. merge_trees (\<lambda>x. x) quiet [([''m.py''], Regular ''1'')] [([''m.py''], Folder), ([''m.py'', ''x''], Regular ''2'')]
     [([''m.py''], Regular ''1'')] = (Inl e, w')"
  by (rule kind_change_never_merges [of "[''m.py'']"])
    (simp_all add: tracked_def ignored_workspace_name_def ignored_workspace_names_def suffix_def file_at_def entry_def)

text \<open>
  What C33 has to assume. The restore unlinks a file before it copies the backup to its place: on a disk
  that is full it leaves nothing there, and the backup is removed all the same. And a backup that cannot
  be removed makes a merge raise behind its last write, with nothing undone.
\<close>

definition stuck_disk :: FileSystem where
  "stuck_disk = full_disk\<lparr>fs_restore := (\<lambda>p. Some After_Mkdir)\<rparr>"

theorem failing_restore_loses_a_file:
  "entry user_tree [''a''] = Some (Regular ''1'') \<and>
   fst (merge_trees (\<lambda>x. x) stuck_disk base_tree agent_tree user_tree) = Inl (OSError ''open'') \<and>
   entry (snd (merge_trees (\<lambda>x. x) stuck_disk base_tree agent_tree user_tree)) [''a''] = None"
proof -
  have "fst (merge_trees (\<lambda>x. x) stuck_disk base_tree agent_tree user_tree) = Inl (OSError ''open'')" by code_simp
  moreover have "entry (snd (merge_trees (\<lambda>x. x) stuck_disk base_tree agent_tree user_tree)) [''a''] = None" by code_simp
  ultimately show ?thesis by (simp add: user_tree_def entry_flat)
qed

theorem unremovable_backup_raises_after_the_merge:
  "fst (merge_trees (\<lambda>x. x) (quiet\<lparr>fs_close_backup := False\<rparr>) base_tree agent_tree user_tree) = Inl (OSError ''rmtree'') \<and>
   snd (merge_trees (\<lambda>x. x) (quiet\<lparr>fs_close_backup := False\<rparr>) base_tree agent_tree user_tree) =
   snd (merge_trees (\<lambda>x. x) quiet base_tree agent_tree user_tree)"
proof (rule conjI)
  show "fst (merge_trees (\<lambda>x. x) (quiet\<lparr>fs_close_backup := False\<rparr>) base_tree agent_tree user_tree) = Inl (OSError ''rmtree'')"
    by code_simp
  show "snd (merge_trees (\<lambda>x. x) (quiet\<lparr>fs_close_backup := False\<rparr>) base_tree agent_tree user_tree) =
     snd (merge_trees (\<lambda>x. x) quiet base_tree agent_tree user_tree)"
    by code_simp
qed

definition sample_site :: Site where
  "sample_site = \<lparr>si_home = ''/h'', si_resolve = (\<lambda>p. p), si_sha256 = (\<lambda>x. x), si_decode = (\<lambda>x. x), si_fs = quiet\<rparr>"

definition shadow_row :: "string \<Rightarrow> ShadowWorkspaceRecord" where
  "shadow_row i = \<lparr>sw_run_id = i, sw_real_workspace = ''/w'', sw_baseline_workspace = ''/h/workspace_shadows/'' @ i @ ''/baseline'',
     sw_shadow_workspace = ''/h/workspace_shadows/'' @ i @ ''/shadow'', sw_status = ''active'', sw_created_at = 1, sw_updated_at = 1\<rparr>"

definition two_shadows :: ShadowState where
  "two_shadows = \<lparr>sd_rows = [shadow_row ''x'', shadow_row ''y''], sd_roots = [''/h/workspace_shadows/x'', ''/h/workspace_shadows/y''],
     sd_dirs = [(''/h/workspace_shadows/y/baseline'', base_tree), (''/h/workspace_shadows/y/shadow'', agent_tree)]\<rparr>"


end
