(* ===== verification/Dynamic_Parameters.thy ===== *)
theory Dynamic_Parameters
  imports Store_Actions
begin

text \<open>
  \<open>navi/dynamic_parameters.py\<close>: the tunable numbers of the runtime, a table \<open>memory_parameters\<close> behind a
  registry that caches it for five seconds. \<open>now\<close> is the clock a call reads. The metadata of a row is
  the dictionary that its column denotes; a text in it that denotes no finite number raises.
\<close>

section \<open>The defaults\<close>

definition system_dynamic_parameters :: "(string \<times> rat) list" where
  "system_dynamic_parameters =
     [(''cue_weight_coverage'', 3 / 5), (''cue_weight_jaccard'', 1 / 4),
      (''cue_weight_sequence'', 3 / 20), (''tf_reinforcement_rate'', 3 / 20),
      (''tf_max_extra_boost'', 3), (''ltp_boost_delta'', 1 / 20), (''decay_base_delta'', 1 / 20),
      (''decay_stale_threshold'', 1 / 5), (''decay_grace_seconds'', 90 * 86400),
      (''decay_stability_scale'', 1), (''graph_fanout_damping'', 3),
      (''hebbian_learning_rate'', 1 / 20), (''credit_assignment_learning_rate'', 1 / 20),
      (''temporal_discount_factor'', 17 / 20), (''confidence_reduction_delta'', 1 / 10),
      (''consolidation_default_confidence'', 7 / 10),
      (''consolidation_history_retention_seconds'', 90 * 86400),
      (''graph_hub_degree_cutoff_multiplier'', 3), (''recall_fts_pool_multiplier'', 3),
      (''recall_lexical_pool_multiplier'', 20), (''recall_candidate_pool_min'', 200),
      (''consolidation_lease_seconds'', 300), (''context_recent_base_no_query'', 950),
      (''context_recent_base_query'', 620), (''context_message_rank_base_score'', 900),
      (''context_memory_recall_base_score'', 800), (''consolidation_idle_seconds'', 30),
      (''memory_llm_rerank_threshold'', 1 / 2), (''memory_render_context_max_chars'', 256),
      (''memory_regression_gate_threshold'', 17 / 20),
      (''memory_conflict_similarity_threshold'', 7 / 20), (''provider_retry_after_seconds'', 15),
      (''weixin_rate_limit_retry_seconds'', 900), (''weixin_transient_rejection_retry_seconds'', 60),
      (''saga_grace_seconds'', 60), (''saga_lease_timeout_turn'', 120),
      (''detached_recovery_grace_seconds'', 90), (''effect_lease_seconds'', 900),
      (''watchdog_heartbeat_timeout_seconds'', 120), (''safeguards_entropy_threshold'', 9 / 2),
      (''safeguards_confidence_threshold'', 4 / 5), (''loop_max_turns'', 30),
      (''loop_max_attempts_turn'', 5), (''loop_max_attempts_control'', 3),
      (''loop_max_attempts_scheduled'', 6), (''loop_max_attempts_durable_goal'', 10),
      (''max_parallel_tool_calls'', 5), (''evals_passing_score_threshold'', 17 / 20),
      (''daemon_poll_interval_seconds'', 60), (''transient_retention_seconds'', 86400),
      (''planner_fact_max_depth'', 8), (''model_fact_max_chars'', 48000),
      (''model_fact_max_string_chars'', 4000), (''model_fact_max_depth'', 5),
      (''model_fact_max_items'', 30), (''context_evidence_max_items'', 20),
      (''context_evidence_excerpt_chars'', 700), (''context_recent_message_limit'', 6),
      (''outbox_max_attempts'', 3), (''outbox_stale_sending_seconds'', 300), (''child_max_active'', 3),
      (''child_max_timeout_seconds'', 900), (''child_max_token_budget'', 50000),
      (''child_max_call_budget'', 12), (''child_max_cost_budget'', 2), (''child_max_qps'', 5),
      (''reward_success'', 1), (''reward_degraded'', 1 / 5), (''severity_safeguard_policy'', 1),
      (''severity_loop_no_progress'', 4 / 5), (''severity_planner_or_parser'', 7 / 10),
      (''severity_checker_blocked'', 3 / 5), (''severity_capability_failure'', 1 / 2),
      (''severity_runtime'', 2 / 5), (''severity_provider_no_response'', 3 / 10),
      (''severity_default'', 1 / 2), (''prompt_mutation_temperature'', 7 / 10),
      (''prompt_evaluation_threshold'', 4 / 5), (''planner_context_message_limit'', 200),
      (''planner_context_recent_messages'', 12), (''planner_context_max_chars'', 12000),
      (''planner_context_older_preview_messages'', 8), (''planner_context_older_preview_chars'', 220),
      (''planner_context_recent_message_max_chars'', 2000), (''planner_memory_item_max_chars'', 800),
      (''planner_attempt_history_limit'', 8), (''planner_attempt_history_max_chars'', 16000),
      (''planner_attempt_message_max_chars'', 1000), (''planner_prior_result_max_chars'', 4000),
      (''planner_ambient_record_limit'', 3), (''semantic_checker_attempt_limit'', 4),
      (''semantic_checker_args_max_chars'', 3000), (''semantic_checker_facts_max_chars'', 6000),
      (''semantic_checker_message_max_chars'', 3000),
      (''semantic_checker_evidence_summary_max_chars'', 2000),
      (''semantic_checker_verdict_error_chars'', 200), (''semantic_checker_verdict_retries'', 1),
      (''task_result_preview_chars'', 240), (''provider_transport_max_retries'', 3),
      (''provider_transport_retry_min_seconds'', 1), (''provider_transport_retry_max_seconds'', 300),
      (''execution_lease_min_seconds'', 900), (''execution_lease_heartbeat_max_seconds'', 30),
      (''default_port_probe_timeout_seconds'', 1), (''daemon_project_event_concurrency'', 4),
      (''max_git_status_prompt_chars'', 5000), (''max_log_read_bytes'', 512000),
      (''max_log_prompt_chars'', 100000), (''provider_error_max_chars'', 1000),
      (''skill_file_max_bytes'', 200000), (''search_title_max_chars'', 300),
      (''search_snippet_max_chars'', 1200), (''search_response_max_bytes'', 2000000),
      (''search_x_response_max_bytes'', 4000000), (''connector_idle_timeout_seconds'', 120),
      (''connector_heartbeat_interval_seconds'', 20), (''telegram_get_file_timeout_seconds'', 15),
      (''telegram_download_timeout_seconds'', 60), (''weixin_config_timeout_seconds'', 10),
      (''weixin_context_token_max_age_seconds'', 86400), (''weixin_ingress_stale_after_seconds'', 180),
      (''parameter_momentum_beta'', 9 / 10), (''parameter_learning_rate'', 1 / 20),
      (''parameter_ema_alpha'', 4 / 5), (''replay_buffer_capacity'', 5000),
      (''replay_priority_alpha'', 3 / 5), (''replay_priority_epsilon'', 1 / 100),
      (''telegram_send_message_timeout_seconds'', 30), (''weixin_qr_timeout_seconds'', 35),
      (''weixin_updates_timeout_seconds'', 40), (''weixin_send_timeout_seconds'', 15),
      (''weixin_upload_timeout_seconds'', 120), (''diagnostics_probe_timeout_seconds'', 5),
      (''diagnostics_systemctl_timeout_seconds'', 8), (''git_command_timeout_seconds'', 8),
      (''git_detector_timeout_seconds'', 10), (''http_fetch_pinned_ip_timeout_seconds'', 15),
      (''event_bus_drain_timeout_seconds'', 5), (''event_bus_shutdown_timeout_seconds'', 5)]"

definition default_parameter :: "string \<Rightarrow> rat \<Rightarrow> rat" where
  "default_parameter name other = (case map_of system_dynamic_parameters name of None \<Rightarrow> other | Some v \<Rightarrow> v)"

section \<open>The table\<close>

record ParamRow =
  pr_name :: string
  pr_value :: rat
  pr_updated_at :: time
  pr_metadata :: dict

definition set_parameter :: "string \<Rightarrow> rat \<Rightarrow> time \<Rightarrow> dict \<Rightarrow> ParamRow list \<Rightarrow> ParamRow list" where
  "set_parameter name v now metadata t =
     (if row_of pr_name name t = None
      then t @ [\<lparr>pr_name = name, pr_value = v, pr_updated_at = now, pr_metadata = metadata\<rparr>]
      else sql_update (\<lambda>r. pr_name r = name)
        (\<lambda>r. r\<lparr>pr_value := v, pr_updated_at := now, pr_metadata := metadata\<rparr>) t)"

definition set_parameter_if_absent :: "string \<Rightarrow> rat \<Rightarrow> time \<Rightarrow> dict \<Rightarrow> ParamRow list \<Rightarrow> ParamRow list" where
  "set_parameter_if_absent name v now metadata t =
     sql_insert_or_ignore pr_name \<lparr>pr_name = name, pr_value = v, pr_updated_at = now, pr_metadata = metadata\<rparr> t"

definition list_parameters :: "ParamRow list \<Rightarrow> ParamRow list" where
  "list_parameters t = sql_asc pr_name t"

section \<open>The registry\<close>

record Params =
  pm_rows :: "ParamRow list"
  pm_cache :: "(string \<times> rat) list"
  pm_loaded_at :: time
  pm_seeded :: bool

definition seed_defaults :: "time \<Rightarrow> ParamRow list \<Rightarrow> ParamRow list" where
  "seed_defaults now t =
     fold (\<lambda>(name, v). set_parameter_if_absent name v now [(''reason'', JStr ''system_default_initialization'')])
       system_dynamic_parameters t"

definition sync :: "time \<Rightarrow> Params \<Rightarrow> Params" where
  "sync now s =
     (if pm_seeded s \<and> now - pm_loaded_at s < 5 \<and> pm_cache s \<noteq> [] then s
      else let rows = (if pm_seeded s then pm_rows s else seed_defaults now (pm_rows s))
        in \<lparr>pm_rows = rows, pm_cache = map (\<lambda>r. (pr_name r, pr_value r)) (list_parameters rows),
            pm_loaded_at = now, pm_seeded = True\<rparr>)"

definition invalidate_cache :: "Params \<Rightarrow> Params" where
  "invalidate_cache s = s\<lparr>pm_cache := [], pm_loaded_at := 0\<rparr>"

definition get_param :: "time \<Rightarrow> string \<Rightarrow> rat option \<Rightarrow> bool \<Rightarrow> Params \<Rightarrow> rat \<times> Params" where
  "get_param now name fallback reload s =
     (let s' = sync now (if reload then invalidate_cache s else s);
          effective = (case fallback of None \<Rightarrow> default_parameter name 0 | Some v \<Rightarrow> v)
      in (case map_of (pm_cache s') name of None \<Rightarrow> effective | Some v \<Rightarrow> v, s'))"

definition set_param :: "time \<Rightarrow> string \<Rightarrow> rat \<Rightarrow> string \<Rightarrow> dict \<Rightarrow> Params \<Rightarrow> Params" where
  "set_param now name v reason metadata s =
     (let (meta, s1) = (if ''previous_value'' \<notin> fst ` set metadata
            then let (old, s1) = get_param now name None False s
                 in (dict_set ''previous_value'' (JFloat old) metadata, s1)
            else (metadata, s));
          meta' = dict_set ''reason'' (JStr reason) meta
      in s1\<lparr>pm_cache := AList.update name v (pm_cache s1),
            pm_rows := set_parameter name v now meta' (pm_rows s1)\<rparr>)"

definition list_all_params :: "time \<Rightarrow> Params \<Rightarrow> ParamRow list \<times> Params" where
  "list_all_params now s = (list_parameters (pm_rows (sync now s)), sync now s)"

definition metadata_of :: "string \<Rightarrow> ParamRow list \<Rightarrow> dict" where
  "metadata_of name rows = (case row_of pr_name name rows of None \<Rightarrow> [] | Some r \<Rightarrow> pr_metadata r)"

definition float_value :: "json \<Rightarrow> rat result" where
  "float_value v =
     (case py_float v of
        Some (Finite q) \<Rightarrow> Inr q
      | Some _ \<Rightarrow> Inl (ValueError ''not a finite number'')
      | None \<Rightarrow> (case v of JStr s \<Rightarrow> Inl (ValueError (''could not convert string to float: '' @ repr_str s))
          | _ \<Rightarrow> Inl (TypeError ''float() argument must be a string or a real number'')))"

definition int_value :: "json \<Rightarrow> int result" where
  "int_value v =
     (case v of
        JInt i \<Rightarrow> Inr i
      | JBool b \<Rightarrow> Inr (if b then 1 else 0)
      | JFloat q \<Rightarrow> Inr (if q < 0 then - \<lfloor>- q\<rfloor> else \<lfloor>q\<rfloor>)
      | JStr s \<Rightarrow> py_int s
      | _ \<Rightarrow> Inl (TypeError ''int() argument must be a string or a real number''))"

text \<open>\<open>meta.get(key, default)\<close>.\<close>

definition meta_get :: "dict \<Rightarrow> string \<Rightarrow> json \<Rightarrow> json" where
  "meta_get meta k other = (case map_of meta k of None \<Rightarrow> other | Some v \<Rightarrow> v)"

text \<open>\<open>round(x, n)\<close>: half to even.\<close>

definition round_places :: "nat \<Rightarrow> rat \<Rightarrow> rat" where
  "round_places n q = (if q < 0 then - of_nat (round_half_even (- q * 10 ^ n)) / 10 ^ n
     else of_nat (round_half_even (q * 10 ^ n)) / 10 ^ n)"

definition clamp :: "(rat \<times> rat) option \<Rightarrow> rat \<Rightarrow> rat" where
  "clamp bounds v = (case bounds of None \<Rightarrow> v | Some (lo, hi) \<Rightarrow> max lo (min hi v))"

section \<open>Adaptation\<close>

definition rollback_param :: "time \<Rightarrow> string \<Rightarrow> string \<Rightarrow> (rat option, Params) call" where
  "rollback_param now name reason s =
     (let (rows, s1) = list_all_params now s
      in case row_of pr_name name rows of
        None \<Rightarrow> (Inr None, s1)
      | Some r \<Rightarrow> if jget (pr_metadata r) ''previous_value'' = JNull then (Inr None, s1)
          else then_call (checked (float_value (jget (pr_metadata r) ''previous_value''))) (\<lambda>prev s1.
            let (current, s2) = get_param now name None False s1
            in (Inr (Some prev), set_param now name prev reason [(''previous_value'', JFloat current)] s2)) s1)"

definition reset_to_default :: "time \<Rightarrow> string \<Rightarrow> string \<Rightarrow> Params \<Rightarrow> rat \<times> Params" where
  "reset_to_default now name reason s =
     (default_parameter name 0, set_param now name (default_parameter name 0) reason [] s)"

definition decay_towards_default :: "time \<Rightarrow> string \<Rightarrow> rat \<Rightarrow> string \<Rightarrow> Params \<Rightarrow> rat \<times> Params" where
  "decay_towards_default now name factor reason s =
     (let (current, s1) = get_param now name None False s;
          default_val = default_parameter name current;
          clamped_factor = max 0 (min 1 factor);
          decayed = round_places 4 (default_val + clamped_factor * (current - default_val))
      in (decayed, set_param now name decayed reason [] s1))"

definition momentum_step :: "rat \<Rightarrow> rat \<Rightarrow> rat \<Rightarrow> rat \<Rightarrow> nat \<Rightarrow> rat \<times> rat" where
  "momentum_step learning_rate beta old_m gradient new_step =
     (let new_m = beta * old_m + (1 - beta) * gradient;
          bias_correction = 1 - beta ^ new_step;
          effective_m = (if 0 < bias_correction then new_m / bias_correction else new_m)
      in (new_m, learning_rate * effective_m))"

text \<open>\<open>beta ** new_step\<close> is a power by a natural number as long as the stored step counts steps.\<close>

definition apply_gradient ::
  "time \<Rightarrow> string \<Rightarrow> rat \<Rightarrow> rat option \<Rightarrow> rat option \<Rightarrow> (rat \<times> rat) option \<Rightarrow> string \<Rightarrow> (rat, Params) call" where
  "apply_gradient now name gradient learning_rate beta bounds reason s =
     (let (current, s1) = get_param now name None False s;
          (rows, s2) = list_all_params now s1;
          meta = metadata_of name rows;
          (lr0, s3) = get_param now ''parameter_learning_rate'' (Some (5 / 100)) False s2;
          lr = (case learning_rate of None \<Rightarrow> lr0 | Some v \<Rightarrow> v);
          (b0, s4) = get_param now ''parameter_momentum_beta'' (Some (90 / 100)) False s3;
          b = (case beta of None \<Rightarrow> b0 | Some v \<Rightarrow> v)
      in then_call (checked (float_value (meta_get meta ''momentum'' (JFloat 0)))) (\<lambda>old_m.
         then_call (checked (int_value (meta_get meta ''step'' (JInt 0)))) (\<lambda>old_step s5.
         let new_step = old_step + 1;
             (new_m, delta) = momentum_step lr b old_m gradient (nat new_step);
             new_val = clamp bounds (round_places 4 (current + delta));
             meta' = dict_set ''last_delta'' (JFloat (round_places 6 delta))
               (dict_set ''last_gradient'' (JFloat (round_places 6 gradient))
               (dict_set ''step'' (JInt new_step)
               (dict_set ''momentum'' (JFloat (round_places 6 new_m)) meta)))
         in (Inr new_val, set_param now name new_val reason meta' s5))) s4)"

definition apply_ema ::
  "time \<Rightarrow> string \<Rightarrow> rat \<Rightarrow> rat option \<Rightarrow> (rat \<times> rat) option \<Rightarrow> string \<Rightarrow> Params \<Rightarrow> rat \<times> Params" where
  "apply_ema now name candidate alpha bounds reason s =
     (let (current, s1) = get_param now name None False s;
          (a0, s2) = get_param now ''parameter_ema_alpha'' (Some (80 / 100)) False s1;
          a = (case alpha of None \<Rightarrow> a0 | Some v \<Rightarrow> v);
          smoothed = clamp bounds (round_places 4 (a * current + (1 - a) * candidate));
          (rows, s3) = list_all_params now s2;
          meta = dict_set ''ema_alpha'' (JFloat a)
            (dict_set ''ema_source_candidate'' (JFloat candidate) (metadata_of name rows))
      in (smoothed, set_param now name smoothed reason meta s3))"

section \<open>The cache and the table\<close>

text \<open>The registry is the only writer: what it has cached is what the table holds.\<close>

definition coherent :: "Params \<Rightarrow> bool" where
  "coherent s = (keys_distinct pr_name (pm_rows s) \<and>
     (pm_seeded s \<longrightarrow> (\<forall>k. map_of (pm_cache s) k = map_option pr_value (row_of pr_name k (pm_rows s)))))"

lemma row_of_set_parameter:
  "row_of pr_name k (set_parameter name v now m t) =
    (if k = name then Some (case row_of pr_name name t of
        None \<Rightarrow> \<lparr>pr_name = name, pr_value = v, pr_updated_at = now, pr_metadata = m\<rparr>
      | Some r \<Rightarrow> r\<lparr>pr_value := v, pr_updated_at := now, pr_metadata := m\<rparr>)
     else row_of pr_name k t)"
proof (cases "row_of pr_name name t")
  case None
  then show ?thesis by (auto simp: set_parameter_def row_of_append split: option.split)
next
  case (Some r)
  have "map_option (\<lambda>r. if pr_name r = name then r\<lparr>pr_value := v, pr_updated_at := now, pr_metadata := m\<rparr> else r)
      (row_of pr_name k t) = row_of pr_name k t" if "k \<noteq> name"
    using that by (cases "row_of pr_name k t") (auto dest: row_of_Some)
  then show ?thesis
    using Some row_of_Some [OF Some] by (auto simp: set_parameter_def row_of_update)
qed

lemma keys_set_parameter: "keys_distinct pr_name t \<Longrightarrow> keys_distinct pr_name (set_parameter name v now m t)"
  by (auto simp: set_parameter_def keys_distinct_append intro: keys_distinct_update)

lemma keys_seed: "keys_distinct pr_name t \<Longrightarrow> keys_distinct pr_name (seed_defaults now t)"
proof -
  have "keys_distinct pr_name t \<Longrightarrow> keys_distinct pr_name
      (fold (\<lambda>(name, v). set_parameter_if_absent name v now m) ps t)" for m ps t
    by (induction ps arbitrary: t)
      (auto simp: set_parameter_if_absent_def sql_insert_or_ignore_def keys_distinct_append row_of_None)
  then show "keys_distinct pr_name t \<Longrightarrow> keys_distinct pr_name (seed_defaults now t)"
    unfolding seed_defaults_def .
qed

lemma map_of_rows:
  assumes "keys_distinct pr_name t"
  shows "map_of (map (\<lambda>r. (pr_name r, pr_value r)) (list_parameters t)) k = map_option pr_value (row_of pr_name k t)"
proof -
  have rows: "map_of (map (\<lambda>r. (pr_name r, pr_value r)) u) k = map_option pr_value (row_of pr_name k u)" for u
    by (induction u) (auto simp: row_of_Cons)
  have keys: "keys_distinct pr_name (list_parameters t)"
    using assms by (simp add: keys_distinct_def list_parameters_def sql_asc_def distinct_map)
  have "row_of pr_name k (list_parameters t) = row_of pr_name k t"
  proof (cases "row_of pr_name k t")
    case None
    then have "row_of pr_name k (list_parameters t) = None" by (simp add: row_of_None list_parameters_def)
    then show ?thesis using None by simp
  next
    case (Some r)
    then have "r \<in> set (list_parameters t)" "pr_name r = k" using row_of_Some [OF Some] by (simp_all add: list_parameters_def)
    then show ?thesis using row_of_member [OF keys] Some by auto
  qed
  then show ?thesis by (simp add: rows)
qed

lemma sync_coherent:
  assumes "coherent s"
  shows "coherent (sync now s)" "pm_seeded (sync now s)"
  using assms by (auto simp: sync_def coherent_def Let_def map_of_rows keys_seed)

lemma sync_rows: "pm_seeded s \<Longrightarrow> pm_rows (sync now s) = pm_rows s"
  by (simp add: sync_def Let_def)

lemma get_param_value:
  assumes "coherent s" "get_param now name fallback False s = (v, s')"
  shows "s' = sync now s" "row_of pr_name name (pm_rows s') = Some r \<Longrightarrow> v = pr_value r"
  using assms sync_coherent [OF assms(1), of now] by (auto simp: get_param_def Let_def coherent_def)

lemma set_param_coherent:
  assumes "coherent s"
  shows "coherent (set_param now name v reason m s)"
proof -
  have "coherent (u\<lparr>pm_cache := AList.update name v (pm_cache u),
      pm_rows := set_parameter name v now m' (pm_rows u)\<rparr>)" if "coherent u" for u m'
    using that by (auto simp: coherent_def keys_set_parameter update_conv' row_of_set_parameter split: option.split)
  then show ?thesis
    using assms sync_coherent(1) [OF assms] by (simp add: set_param_def get_param_def Let_def split: prod.split)
qed

text \<open>The row a \<open>set\<close> leaves behind.\<close>

lemma set_param_row:
  "\<exists>r. row_of pr_name name (pm_rows (set_param now name v reason m s)) = Some r \<and> pr_value r = v \<and>
    jget (pr_metadata r) ''previous_value'' = (if ''previous_value'' \<in> fst ` set m then jget m ''previous_value''
      else JFloat (fst (get_param now name None False s)))"
proof -
  have row: "\<exists>r. row_of pr_name name (set_parameter name v now m' u) = Some r \<and> pr_value r = v \<and> pr_metadata r = m'" for m' u
    by (cases "row_of pr_name name u") (simp_all add: row_of_set_parameter)
  show ?thesis
  proof (cases "''previous_value'' \<in> fst ` set m")
    case True
    then have "pm_rows (set_param now name v reason m s) = set_parameter name v now (dict_set ''reason'' (JStr reason) m) (pm_rows s)"
      by (simp add: set_param_def)
    then show ?thesis using row [of "dict_set ''reason'' (JStr reason) m" "pm_rows s"] True by (auto simp: jget_dict_set)
  next
    case False
    let ?g = "get_param now name None False s"
    let ?m = "dict_set ''reason'' (JStr reason) (dict_set ''previous_value'' (JFloat (fst ?g)) m)"
    have "pm_rows (set_param now name v reason m s) = set_parameter name v now ?m (pm_rows (snd ?g))"
      using False by (simp add: set_param_def split_beta Let_def)
    then show ?thesis using row [of ?m "pm_rows (snd ?g)"] False by (auto simp: jget_dict_set)
  qed
qed

lemma set_param_seeded: "''previous_value'' \<notin> fst ` set m \<Longrightarrow> pm_seeded (set_param now name v reason m s)"
  "pm_seeded s \<Longrightarrow> pm_seeded (set_param now name v reason m s)"
  by (auto simp: set_param_def get_param_def sync_def Let_def)

lemma float_value_JFloat [simp]: "float_value (JFloat q) = Inr q"
  by (simp add: float_value_def py_float_def)

lemma rollback_param_eq:
  assumes "coherent s" "pm_seeded s" "row_of pr_name name (pm_rows s) = Some r" "jget (pr_metadata r) ''previous_value'' = JFloat p"
  shows "rollback_param now name reason s =
    (Inr (Some p), set_param now name p reason [(''previous_value'', JFloat (pr_value r))] (sync now (sync now s)))"
proof -
  let ?s = "sync now s"
  have c: "coherent ?s" "pm_seeded ?s" "pm_rows ?s = pm_rows s"
    using sync_coherent [OF assms(1)] sync_rows [OF assms(2)] by simp_all
  have keys: "keys_distinct pr_name (pm_rows s)" using assms(1) by (simp add: coherent_def)
  then have row: "row_of pr_name name (list_parameters (pm_rows s)) = Some r"
    using row_of_Some [OF assms(3)] row_of_member [of pr_name "list_parameters (pm_rows s)" r]
    by (simp add: keys_distinct_def list_parameters_def sql_asc_def distinct_map)
  obtain v u where g: "get_param now name None False ?s = (v, u)" by fastforce
  have "pm_rows (sync now ?s) = pm_rows s" using sync_rows [OF c(2)] c(3) by simp
  then have "v = pr_value r" "u = sync now ?s"
    using get_param_value [OF c(1) g] assms(3) by simp_all
  then show ?thesis
    using row g assms(4) c(3)
    by (simp add: rollback_param_def list_all_params_def then_call_def calls)
qed

lemma get_param_row:
  assumes "coherent s" "pm_seeded s" "row_of pr_name name (pm_rows s) = Some r"
  shows "fst (get_param now name fallback False s) = pr_value r"
proof -
  obtain v u where g: "get_param now name fallback False s = (v, u)" by fastforce
  have "u = sync now s" by (rule get_param_value(1) [OF assms(1) g])
  then have "row_of pr_name name (pm_rows u) = Some r" using assms(2,3) by (simp add: sync_rows)
  then have "v = pr_value r" by (rule get_param_value(2) [OF assms(1) g])
  then show ?thesis using g by simp
qed

text \<open>
  A rollback undoes a set, and a second rollback redoes it: after a parameter was set the rollback
  answers with its old value and stores it, and rolling back again answers with the new one, whenever
  the three calls are made.
\<close>

theorem rollback_undoes_set:
  assumes "coherent s" "old = fst (get_param t1 name None False s)"
    and "rollback_param t2 name why (set_param t1 name v reason [] s) = (answered, s2)"
    and "rollback_param t3 name why' s2 = (again, s3)"
  shows "answered = Inr (Some old) \<and> again = Inr (Some v) \<and> fst (get_param t4 name f False s2) = old \<and>
    fst (get_param t4 name f False s3) = v"
proof -
  let ?s1 = "set_param t1 name v reason [] s"
  obtain r where r: "row_of pr_name name (pm_rows ?s1) = Some r" "pr_value r = v"
      "jget (pr_metadata r) ''previous_value'' = JFloat old"
    using set_param_row [of name t1 v reason "[]" s] assms(2) by auto
  have c1: "coherent ?s1" "pm_seeded ?s1" using set_param_coherent [OF assms(1)] set_param_seeded(1) by auto
  let ?u = "sync t2 (sync t2 ?s1)"
  have u: "coherent ?u" "pm_seeded ?u" by (rule sync_coherent sync_coherent [OF c1(1)])+
  have s2: "answered = Inr (Some old)" "s2 = set_param t2 name old why [(''previous_value'', JFloat v)] ?u"
    using rollback_param_eq [OF c1 r(1,3), of t2 why] assms(3) r(2) by simp_all
  obtain q where q: "row_of pr_name name (pm_rows s2) = Some q" "pr_value q = old"
      "jget (pr_metadata q) ''previous_value'' = JFloat v"
    unfolding s2(2) using set_param_row [of name t2 old why "[(''previous_value'', JFloat v)]" ?u] by auto
  have c2: "coherent s2" "pm_seeded s2" unfolding s2(2) using set_param_coherent [OF u(1)] set_param_seeded(2) [OF u(2)] by auto
  let ?w = "sync t3 (sync t3 s2)"
  have w: "coherent ?w" "pm_seeded ?w" by (rule sync_coherent sync_coherent [OF c2(1)])+
  have s3: "again = Inr (Some v)" "s3 = set_param t3 name v why' [(''previous_value'', JFloat old)] ?w"
    using rollback_param_eq [OF c2 q(1,3), of t3 why'] assms(4) q(2) by simp_all
  obtain x where x: "row_of pr_name name (pm_rows s3) = Some x" "pr_value x = v"
    unfolding s3(2) using set_param_row [of name t3 v why' "[(''previous_value'', JFloat old)]" ?w] by auto
  have c3: "coherent s3" "pm_seeded s3" unfolding s3(2) using set_param_coherent [OF w(1)] set_param_seeded(2) [OF w(2)] by auto
  note read = get_param_row
  show ?thesis using s2(1) s3(1) read [OF c2 q(1)] read [OF c3 x(1)] q(2) x(2) by simp
qed

lemma get_param_state:
  assumes "coherent s"
  shows "coherent (snd (get_param now name f False s))" "pm_seeded (snd (get_param now name f False s))"
    "pm_seeded s \<Longrightarrow> pm_rows (snd (get_param now name f False s)) = pm_rows s"
  using sync_coherent [OF assms] by (simp_all add: get_param_def Let_def sync_rows)

text \<open>What a gradient step that answers has stored; \<open>u\<close> is the registry before the final \<open>set\<close>.\<close>

lemma apply_gradient_Inr:
  assumes "apply_gradient now name g lr beta bounds reason s = (Inr v, s1)" "coherent s"
  obtains u m x where "s1 = set_param now name v reason m u" "coherent u" "pm_seeded u" "v = clamp bounds x"
    "pm_seeded s \<Longrightarrow> pm_rows u = pm_rows s"
    "pm_seeded s \<Longrightarrow> jget m ''previous_value'' = jget (metadata_of name (list_parameters (pm_rows s))) ''previous_value''"
    "pm_seeded s \<Longrightarrow> ''previous_value'' \<in> fst ` set (metadata_of name (list_parameters (pm_rows s))) \<Longrightarrow> ''previous_value'' \<in> fst ` set m"
proof -
  obtain c a1 where 1: "get_param now name None False s = (c, a1)" by fastforce
  obtain rows a2 where 2: "list_all_params now a1 = (rows, a2)" by fastforce
  obtain l a3 where 3: "get_param now ''parameter_learning_rate'' (Some (1 / 20)) False a2 = (l, a3)" by fastforce
  obtain b a4 where 4: "get_param now ''parameter_momentum_beta'' (Some (9 / 10)) False a3 = (b, a4)" by fastforce
  have c1: "coherent a1" "pm_seeded a1" "pm_seeded s \<Longrightarrow> pm_rows a1 = pm_rows s"
    using get_param_state [OF assms(2), of now name None] 1 by simp_all
  have c2: "coherent a2" "pm_seeded a2" "pm_rows a2 = pm_rows a1" "rows = list_parameters (pm_rows a1)"
    using 2 sync_coherent [OF c1(1), of now] c1(2) by (auto simp: list_all_params_def sync_rows)
  have c3: "coherent a3" "pm_seeded a3" "pm_rows a3 = pm_rows a2"
    using get_param_state [OF c2(1), of now "''parameter_learning_rate''" "Some (1 / 20)"] 3 c2(2) by simp_all
  have c4: "coherent a4" "pm_seeded a4" "pm_rows a4 = pm_rows a3"
    using get_param_state [OF c3(1), of now "''parameter_momentum_beta''" "Some (9 / 10)"] 4 c3(2) by simp_all
  obtain old_m step where parsed: "float_value (meta_get (metadata_of name rows) ''momentum'' (JFloat 0)) = Inr old_m"
      "int_value (meta_get (metadata_of name rows) ''step'' (JInt 0)) = Inr step"
    using assms(1) 1 2 3 4
    by (auto simp: apply_gradient_def then_call_def calls Let_def split: sum.splits)
  obtain new_m delta where ms: "momentum_step (case lr of None \<Rightarrow> l | Some v \<Rightarrow> v) (case beta of None \<Rightarrow> b | Some v \<Rightarrow> v)
      old_m g (nat (step + 1)) = (new_m, delta)" by fastforce
  define m where "m = dict_set ''last_delta'' (JFloat (round_places 6 delta))
    (dict_set ''last_gradient'' (JFloat (round_places 6 g)) (dict_set ''step'' (JInt (step + 1))
    (dict_set ''momentum'' (JFloat (round_places 6 new_m)) (metadata_of name rows))))"
  have mx: "s1 = set_param now name v reason m a4" "v = clamp bounds (round_places 4 (c + delta))"
    using assms(1) 1 2 3 4 parsed ms by (auto simp: apply_gradient_def then_call_def calls Let_def m_def)
  have keep: "jget m ''previous_value'' = jget (metadata_of name rows) ''previous_value''"
    "fst ` set (metadata_of name rows) \<subseteq> fst ` set m"
    by (auto simp: m_def jget_dict_set dom_dict_set)
  show thesis
    by (rule that [OF mx(1) c4(1,2) mx(2)]) (use c1(3) c2(3,4) c3(3) c4(3) keep in auto)
qed

text \<open>
  A rollback does not undo a gradient step: the step carries the recorded previous value of the
  parameter along instead of recording the value it replaces, so the rollback after it restores the
  value before an earlier change.
\<close>

theorem rollback_skips_gradients:
  assumes "coherent s" "pm_seeded s" "row_of pr_name name (pm_rows s) = Some r"
    and "jget (pr_metadata r) ''previous_value'' = JFloat p"
    and "apply_gradient now name g lr beta bounds reason s = (Inr v, s1)"
  shows "fst (rollback_param later name why s1) = Inr (Some p)"
proof -
  obtain u m x where u: "s1 = set_param now name v reason m u" "coherent u" "pm_seeded u"
      "jget m ''previous_value'' = jget (metadata_of name (list_parameters (pm_rows s))) ''previous_value''"
      "''previous_value'' \<in> fst ` set (metadata_of name (list_parameters (pm_rows s))) \<Longrightarrow> ''previous_value'' \<in> fst ` set m"
    by (rule apply_gradient_Inr [OF assms(5,1)]) (use assms(2) in blast)
  have keys: "keys_distinct pr_name (list_parameters (pm_rows s))"
    using assms(1) by (simp add: coherent_def keys_distinct_def list_parameters_def sql_asc_def distinct_map)
  have meta: "metadata_of name (list_parameters (pm_rows s)) = pr_metadata r"
    using row_of_member [OF keys, of r] row_of_Some [OF assms(3)] by (simp add: metadata_of_def list_parameters_def)
  have "''previous_value'' \<in> fst ` set (pr_metadata r)"
    using assms(4) by (force simp: jget_def split: option.splits dest!: map_of_SomeD)
  then have "jget m ''previous_value'' = JFloat p" "''previous_value'' \<in> fst ` set m"
    using u(4,5) assms(4) unfolding meta by simp_all
  then obtain q where "row_of pr_name name (pm_rows s1) = Some q" "jget (pr_metadata q) ''previous_value'' = JFloat p"
    using set_param_row [of name now v reason m u] by (auto simp: u(1))
  moreover have "coherent s1" "pm_seeded s1"
    unfolding u(1) using set_param_coherent [OF u(2)] set_param_seeded(2) [OF u(3)] by auto
  ultimately show ?thesis using rollback_param_eq [of s1 name q p later why] by simp
qed

lemma clamp_bounds: "lo \<le> hi \<Longrightarrow> lo \<le> clamp (Some (lo, hi)) x \<and> clamp (Some (lo, hi)) x \<le> hi"
  by (simp add: clamp_def)

text \<open>Rounding moves a number by at most half a unit of its last place.\<close>

lemma round_half_even_near: "0 \<le> q \<Longrightarrow> \<bar>of_nat (round_half_even q) - q\<bar> \<le> 1 / 2"
proof -
  assume q: "0 \<le> q"
  define f where "f = \<lfloor>q\<rfloor>"
  have f: "of_int f \<le> q" "q < of_int f + 1" "0 \<le> f" using q floor_correct [of q] by (simp_all add: f_def)
  have n: "of_nat (nat f) = (of_int f :: rat)" "of_nat (nat (f + 1)) = (of_int f + 1 :: rat)" using f(3) by simp_all
  show ?thesis
    unfolding round_half_even_def Let_def f_def [symmetric] using f n by (auto simp: abs_le_iff)
qed

lemma round_places_near: "\<bar>round_places n q - q\<bar> \<le> 1 / (2 * 10 ^ n)"
proof -
  have *: "\<bar>of_nat (round_half_even (r * 10 ^ n)) / 10 ^ n - r\<bar> \<le> 1 / (2 * 10 ^ n)" if "0 \<le> r" for r :: rat
  proof -
    have "\<bar>of_nat (round_half_even (r * 10 ^ n)) - r * 10 ^ n\<bar> \<le> 1 / 2"
      using that by (intro round_half_even_near) simp
    then have "\<bar>of_nat (round_half_even (r * 10 ^ n)) - r * 10 ^ n\<bar> / 10 ^ n \<le> 1 / 2 / 10 ^ n"
      by (intro divide_right_mono) simp_all
    moreover have "of_nat (round_half_even (r * 10 ^ n)) / 10 ^ n - r =
        (of_nat (round_half_even (r * 10 ^ n)) - r * 10 ^ n) / 10 ^ n"
      by (simp add: diff_divide_distrib)
    then have "\<bar>of_nat (round_half_even (r * 10 ^ n)) / 10 ^ n - r\<bar> =
        \<bar>of_nat (round_half_even (r * 10 ^ n)) - r * 10 ^ n\<bar> / 10 ^ n"
      by simp
    ultimately show ?thesis by simp
  qed
  show ?thesis
  proof (cases "q < 0")
    case True
    then show ?thesis using * [of "- q"] by (simp add: round_places_def abs_minus_commute)
  next
    case False
    then show ?thesis using * [of q] by (simp add: round_places_def)
  qed
qed

text \<open>
  Adaptation is bounded: a gradient step and a smoothing step within bounds answer with a value
  within them and store it, and a decay never takes a parameter further from its default than it was,
  up to the rounding to four places.
\<close>

theorem adaptation_is_bounded:
  assumes "coherent s" "lo \<le> hi" "apply_gradient t1 name g lr beta (Some (lo, hi)) why s = (Inr v, s1)"
    and "apply_ema t2 name c a (Some (lo, hi)) why' s1 = (w, s2)"
    and "decay_towards_default t3 name factor why'' s2 = (d, s3)"
  shows "v \<in> {lo..hi} \<and> fst (get_param t name f False s1) = v \<and> w \<in> {lo..hi} \<and> fst (get_param t name f False s2) = w \<and>
    \<bar>d - default_parameter name w\<bar> \<le> \<bar>w - default_parameter name w\<bar> + 1 / 20000 \<and> fst (get_param t name f False s3) = d"
proof -
  have stored: "coherent (set_param now name x why m u)" "pm_seeded (set_param now name x why m u)"
      "fst (get_param t name f False (set_param now name x why m u)) = x"
    if "coherent u" "pm_seeded u" for now x why m u t f
  proof -
    show c: "coherent (set_param now name x why m u)" "pm_seeded (set_param now name x why m u)"
      using set_param_coherent [OF that(1)] set_param_seeded(2) [OF that(2)] by auto
    show "fst (get_param t name f False (set_param now name x why m u)) = x"
      using get_param_row [OF c] set_param_row [of name now x why m u] by metis
  qed
  obtain u m x where u: "s1 = set_param t1 name v why m u" "coherent u" "pm_seeded u" "v = clamp (Some (lo, hi)) x"
    by (rule apply_gradient_Inr [OF assms(3,1)])
  note one = stored [OF u(2,3), where now = t1 and x = v and why = why and m = m, folded u(1)]
  define u2 where "u2 = sync t2 (sync t2 (sync t2 s1))"
  have u2: "coherent u2" "pm_seeded u2" unfolding u2_def by (intro sync_coherent one)+
  obtain m2 x2 where w: "s2 = set_param t2 name w why' m2 u2" "w = clamp (Some (lo, hi)) x2"
    using assms(4) by (auto simp: apply_ema_def get_param_def list_all_params_def Let_def u2_def)
  note two = stored [OF u2, where now = t2 and x = w and why = why' and m = m2, folded w(1)]
  have u3: "coherent (sync t3 s2)" "pm_seeded (sync t3 s2)" by (intro sync_coherent two)+
  have cur: "fst (get_param t3 name None False s2) = w" by (rule two(3))
  let ?def = "default_parameter name w"
  let ?k = "max 0 (min 1 factor)"
  have d: "d = round_places 4 (?def + ?k * (w - ?def))" "s3 = set_param t3 name d why'' [] (sync t3 s2)"
    using assms(5) cur by (auto simp: decay_towards_default_def get_param_def Let_def split: prod.splits)
  note three = stored [OF u3, where now = t3 and x = d and why = why'' and m = "[]", folded d(2)]
  have "\<bar>d - (?def + ?k * (w - ?def))\<bar> \<le> 1 / 20000"
    using round_places_near [of 4 "?def + ?k * (w - ?def)"] by (simp add: d(1))
  moreover have "\<bar>?k * (w - ?def)\<bar> \<le> \<bar>w - ?def\<bar>"
    unfolding abs_mult by (rule mult_left_le_one_le) simp_all
  ultimately have "\<bar>d - ?def\<bar> \<le> \<bar>w - ?def\<bar> + 1 / 20000" by linarith
  then show ?thesis
    using one(3) two(3) three(3) clamp_bounds [OF assms(2)] u(4) w(2) by simp
qed

section \<open>Witnesses\<close>

definition fresh_params :: Params where
  "fresh_params = \<lparr>pm_rows = [], pm_cache = [], pm_loaded_at = 0, pm_seeded = False\<rparr>"

lemma fresh_coherent: "coherent fresh_params"
  by (simp add: fresh_params_def coherent_def)

theorem rollback_undoes_set_witness:
  "\<exists>s2. rollback_param 3 ''ltp_boost_delta'' ''undo'' (set_param 1 ''ltp_boost_delta'' (1 / 2) ''try'' [] fresh_params)
      = (Inr (Some (fst (get_param 1 ''ltp_boost_delta'' None False fresh_params))), s2)"
proof -
  obtain a s2 where 1: "rollback_param 3 ''ltp_boost_delta'' ''undo''
      (set_param 1 ''ltp_boost_delta'' (1 / 2) ''try'' [] fresh_params) = (a, s2)" by fastforce
  obtain b s3 where 2: "rollback_param 4 ''ltp_boost_delta'' ''redo'' s2 = (b, s3)" by fastforce
  show ?thesis using rollback_undoes_set [OF fresh_coherent refl 1 2] 1 by simp
qed

text \<open>A parameter that went from 5 to 7, in a registry that has just read its table.\<close>

definition tuned_params :: Params where
  "tuned_params = \<lparr>pm_rows = [\<lparr>pr_name = ''x'', pr_value = 7, pr_updated_at = 1,
       pr_metadata = [(''previous_value'', JFloat 5)]\<rparr>], pm_cache = [(''x'', 7)], pm_loaded_at = 1, pm_seeded = True\<rparr>"

lemma tuned_coherent: "coherent tuned_params"
  by (simp add: tuned_params_def coherent_def keys_distinct_def row_of_Cons)

lemma tuned_params_read: "get_param 2 ''x'' f False tuned_params = (7, tuned_params)"
  by (simp add: get_param_def sync_def tuned_params_def)

lemma tuned_params_state: "snd (get_param 2 n f False tuned_params) = tuned_params"
  by (simp add: get_param_def sync_def tuned_params_def)

lemma tuned_params_list: "list_all_params 2 tuned_params = (pm_rows tuned_params, tuned_params)"
  by (simp add: list_all_params_def sync_def list_parameters_def sql_asc_def tuned_params_def)

lemma tuned_params_metadata: "metadata_of ''x'' (pm_rows tuned_params) = [(''previous_value'', JFloat 5)]"
  by (simp add: metadata_of_def tuned_params_def row_of_Cons)

lemma tuned_step: "is_ok (fst (apply_gradient 2 ''x'' g None None b why tuned_params))"
proof -
  obtain l m where reads: "get_param 2 ''parameter_learning_rate'' (Some (1 / 20)) False tuned_params = (l, tuned_params)"
      "get_param 2 ''parameter_momentum_beta'' (Some (9 / 10)) False tuned_params = (m, tuned_params)"
    using tuned_params_state by (metis prod.collapse)
  have parsed: "float_value (meta_get [(''previous_value'', JFloat 5)] ''momentum'' (JFloat 0)) = Inr 0"
      "int_value (meta_get [(''previous_value'', JFloat 5)] ''step'' (JInt 0)) = Inr 0"
    by (simp_all add: meta_get_def int_value_def float_value_def py_float_def)
  obtain n d where step: "momentum_step l m 0 g (Suc 0) = (n, d)" by fastforce
  show ?thesis
    by (simp add: apply_gradient_def then_call_def calls tuned_params_list tuned_params_metadata tuned_params_read
        reads parsed step Let_def)
qed

theorem rollback_skips_gradients_witness:
  "\<exists>v s1. apply_gradient 2 ''x'' 1 None None (Some (0, 10)) ''step'' tuned_params = (Inr v, s1) \<and>
     fst (get_param 2 ''x'' None False tuned_params) = 7 \<and> fst (rollback_param 3 ''x'' ''undo'' s1) = Inr (Some 5)"
proof -
  obtain v s1 where g: "apply_gradient 2 ''x'' 1 None None (Some (0, 10)) ''step'' tuned_params = (Inr v, s1)"
    using tuned_step [of 1 "Some (0, 10)" "''step''"] by (metis is_ok_iff prod.collapse)
  have "fst (rollback_param 3 ''x'' ''undo'' s1) = Inr (Some 5)"
    by (rule rollback_skips_gradients [OF tuned_coherent _ _ _ g, where r =
        "\<lparr>pr_name = ''x'', pr_value = 7, pr_updated_at = 1, pr_metadata = [(''previous_value'', JFloat 5)]\<rparr>"])
      (simp_all add: tuned_params_def row_of_Cons jget_def)
  moreover have "fst (get_param 2 ''x'' None False tuned_params) = 7" by (simp add: tuned_params_read)
  ultimately show ?thesis using g by blast
qed

theorem adaptation_is_bounded_witness:
  "\<exists>v s1. apply_gradient 2 ''x'' 100 None None (Some (0, 8)) ''step'' tuned_params = (Inr v, s1) \<and> v \<in> {0..8}"
proof -
  obtain v s1 where g: "apply_gradient 2 ''x'' 100 None None (Some (0, 8)) ''step'' tuned_params = (Inr v, s1)"
    using tuned_step [of 100 "Some (0, 8)" "''step''"] by (metis is_ok_iff prod.collapse)
  obtain w s2 where e: "apply_ema 3 ''x'' 2 None (Some (0, 8)) ''smooth'' s1 = (w, s2)" by fastforce
  obtain d s3 where d: "decay_towards_default 4 ''x'' (1 / 2) ''decay'' s2 = (d, s3)" by fastforce
  have "v \<in> {0..8}" using adaptation_is_bounded [OF tuned_coherent _ g e d] by simp
  with g show ?thesis by blast
qed

end
