(* ===== verification/Trace_Rules.thy ===== *)
theory Trace_Rules
  imports Loop_Types
begin

text \<open>
  The evaluation of a trace in \<open>navi/trace.py\<close>: from the events of a trace and the evidence gathered so
  far a rule draws an outcome and a failure domain, or passes. A rule may add to the evidence, so it takes
  the dictionary and answers with the extended one.
\<close>

section \<open>Events\<close>

text \<open>
  An event of a trace: the row of \<open>trace_events\<close>. A column of JSON text is there twice, as its text and
  as the value that \<open>json.loads\<close> makes of it, \<open>None\<close> for text that is not JSON.
\<close>

record TraceEvent =
  te_id :: string
  te_trace_id :: string
  te_session_id :: string
  te_run_id :: string
  te_phase :: string
  te_source :: string
  te_peer_id :: string
  te_sender_id :: string
  te_tool :: string
  te_model_role :: string
  te_ok :: bool
  te_input_json :: string
  te_input :: "json option"
  te_output_json :: string
  te_output :: "json option"
  te_message :: string
  te_created_at :: time

definition event_output :: "TraceEvent \<Rightarrow> dict" where
  "event_output e = json_object (te_output e)"

definition event_input :: "TraceEvent \<Rightarrow> dict" where
  "event_input e = json_object (te_input e)"

definition event_facts :: "TraceEvent \<Rightarrow> dict" where
  "event_facts e = as_dict (jget (event_output e) ''facts'')"

definition in_phase :: "TracePhase \<Rightarrow> TraceEvent \<Rightarrow> bool" where
  "in_phase p e = (te_phase e = tracePhase_str p)"

definition loop_decision_phase :: string where
  "loop_decision_phase = loopPhase_str LoopPhase_DECISION"

definition loop_decision_events :: "TraceEvent list \<Rightarrow> (TraceEvent \<times> dict) list" where
  "loop_decision_events events =
     map (\<lambda>e. (e, event_output e)) (filter (\<lambda>e. te_phase e = loop_decision_phase \<and> event_output e \<noteq> []) events)"

definition summary_of :: "TraceEvent \<Rightarrow> LoopDecisionSummary" where
  "summary_of e = loop_decision_summary (event_output e) (te_tool e) (te_run_id e)"

definition base_trace_evidence :: "TraceEvent list \<Rightarrow> dict" where
  "base_trace_evidence events =
     (let roles = filter (in_phase TracePhase_AGENT_ROLE_RESULT) events; decisions = loop_decision_events events
      in [(''event_count'', JInt (int (length events)))] @
         (if roles = [] then [] else [(''agent_role_results'', JList (map (\<lambda>e. JDict
            [(''model_role'', JStr (te_model_role e)), (''message'', JStr (te_message e))]) roles))]) @
         (if decisions = [] then [] else [(''loop_decisions'', JList (map (\<lambda>(e, _). JDict
            (loop_decision_summary_to_dict (summary_of e))) decisions))]))"

definition first_failure :: "TraceEvent list \<Rightarrow> TraceEvent option" where
  "first_failure events = List.find (\<lambda>e. \<not> te_ok e) events"

section \<open>Drafts\<close>

record TraceEvaluationDraft =
  td_outcome :: string
  td_failure_domain :: string

text \<open>What a rule answers: nothing, or a draft with the evidence as the rule leaves it.\<close>

type_synonym verdict = "(TraceEvaluationDraft \<times> dict) option"

definition evaluation :: "TraceOutcome \<Rightarrow> TraceFailureDomain \<Rightarrow> string \<Rightarrow> dict \<Rightarrow> verdict" where
  "evaluation outcome domain rule evidence =
     Some (\<lparr>td_outcome = traceOutcome_str outcome, td_failure_domain = traceFailureDomain_str domain\<rparr>,
       dict_set ''evaluation_rule'' (JStr rule) evidence)"

definition record_first_failure :: "TraceEvent \<Rightarrow> dict \<Rightarrow> dict" where
  "record_first_failure e evidence =
     dict_set ''first_failure_tool'' (JStr (te_tool e)) (dict_set ''first_failure_phase'' (JStr (te_phase e)) evidence)"

definition record_recovery :: "LoopDecisionSummary \<Rightarrow> dict \<Rightarrow> dict" where
  "record_recovery s evidence =
     dict_set ''recovery_decision'' (JDict (loop_decision_summary_to_dict s))
       (dict_set ''recovered_after_first_failure'' (JBool True) evidence)"

section \<open>Recovery\<close>

definition no_domain :: "string \<Rightarrow> bool" where
  "no_domain d = (d = [] \<or> d = traceFailureDomain_str TraceFailureDomain_NONE)"

definition completes :: "LoopDecisionSummary \<Rightarrow> bool" where
  "completes s =
     (lds_decision s \<in> {loopDecisionKind_str LoopDecisionKind_FINALIZE, loopDecisionKind_str LoopDecisionKind_CONVERGED} \<and>
      no_domain (lds_failure_domain s) \<and> lds_failed_checkers s = [] \<and> lds_failed_gates s = [] \<and>
      lds_reason s \<in> {loopReason_str LoopReason_COMPLETION_EVIDENCE_TRUE, loopReason_str LoopReason_TERMINAL_RESULT})"

fun completion_after :: "bool \<Rightarrow> TraceEvent \<Rightarrow> TraceEvent list \<Rightarrow> LoopDecisionSummary option" where
  "completion_after seen failure [] = None"
| "completion_after seen failure (e # es) =
     (if te_id e = te_id failure then completion_after True failure es
      else if \<not> seen \<or> te_phase e \<noteq> loop_decision_phase \<or> \<not> te_ok e then completion_after seen failure es
      else if event_output e \<noteq> [] \<and> completes (summary_of e) then Some (summary_of e)
      else completion_after seen failure es)"

definition successful_completion_after :: "TraceEvent list \<Rightarrow> TraceEvent \<Rightarrow> LoopDecisionSummary option" where
  "successful_completion_after events failure = completion_after False failure events"

section \<open>Looking into capability results\<close>

definition input_schema_mismatch :: "TraceEvent \<Rightarrow> bool" where
  "input_schema_mismatch e =
     (case jget (event_output e) ''facts'' of
        JDict facts \<Rightarrow> jget facts ''error_reason'' = JStr ''schema_mismatch'' \<and> ''result_action'' \<notin> fst ` set facts
      | _ \<Rightarrow> False)"

definition has_safeguard_decision :: "TraceEvent \<Rightarrow> bool" where
  "has_safeguard_decision e =
     (case jget (event_output e) ''facts'' of JDict facts \<Rightarrow> is_dict (jget facts ''hook_decision'') | _ \<Rightarrow> False)"

definition shows_approval_request :: "TraceEvent \<Rightarrow> bool" where
  "shows_approval_request e =
     (let facts = event_facts e; kind = str_or_empty (jget facts ''entity_type'')
      in (kind = ''approval_request'' \<and> is_dict (jget facts ''approval'')) \<or> is_dict (jget facts ''pending_approval'') \<or>
         is_dict (jget facts ''current_approval'') \<or>
         (is_dict (jget facts ''approval'') \<and> kind \<in> {''approval'', ''approval_request''}))"

definition trace_contains_approval_request :: "TraceEvent list \<Rightarrow> bool" where
  "trace_contains_approval_request events =
     list_ex (\<lambda>e. in_phase TracePhase_CAPABILITY_RESULT e \<and> shows_approval_request e) events"

definition trace_contains_user_ask :: "TraceEvent list \<Rightarrow> bool" where
  "trace_contains_user_ask events =
     list_ex (\<lambda>e. in_phase TracePhase_CAPABILITY_RESULT e \<and> te_ok e \<and>
       (te_tool e = ''ask.user'' \<or> (str_or_empty (jget (event_output e) ''action'') = ''ask'' \<and> te_tool e = ''respond''))) events"

definition planner_call_started_without_result :: "TraceEvent list \<Rightarrow> bool" where
  "planner_call_started_without_result events =
     (list_ex (in_phase TracePhase_PLANNER_CALL_START) events \<and>
      \<not> list_ex (\<lambda>e. in_phase TracePhase_PLANNER_SYSCALL e \<or> in_phase TracePhase_PLANNER_CALL_ERROR e \<or>
          in_phase TracePhase_TURN_FINAL e) events)"

section \<open>Repeated mutations\<close>

definition entity_id_from_facts :: "dict \<Rightarrow> string" where
  "entity_id_from_facts facts =
     (case filter (\<lambda>v. v \<noteq> []) (map (\<lambda>k. str_or_empty (jget facts k))
        [''entity_id'', ''goal_id'', ''run_id'', ''loop_run_id'', ''approval_id'', ''session_id'', ''memory_id'',
         ''trace_id'', ''delivery_id'']) of [] \<Rightarrow> [] | v # _ \<Rightarrow> v)"

definition single_mutation_refs :: "string \<Rightarrow> dict \<Rightarrow> string list" where
  "single_mutation_refs collection facts =
     (let transition = str_or_empty (jget facts ''state_transition''); entity_id = entity_id_from_facts facts;
          entity_type = or_else (or_else (str_or_empty (jget facts ''entity_type'')) collection) ''entity''
      in if transition = [] \<or> transition = ''state_read'' \<or> entity_id = [] then []
         else [entity_type @ '':'' @ entity_id @ '':'' @ transition])"

definition entity_mutation_refs :: "dict \<Rightarrow> string list" where
  "entity_mutation_refs facts = single_mutation_refs [] facts @
     concat (map (\<lambda>(key, v). case v of
         JList items \<Rightarrow> concat (map (\<lambda>i. case i of JDict d \<Rightarrow> single_mutation_refs key d | _ \<Rightarrow> []) items)
       | _ \<Rightarrow> []) facts)"

definition mutation_refs :: "TraceEvent list \<Rightarrow> string list" where
  "mutation_refs events = concat (map (\<lambda>e. entity_mutation_refs (event_facts e))
     (filter (\<lambda>e. in_phase TracePhase_CAPABILITY_RESULT e \<and> te_ok e \<and> jget (event_output e) ''mutates'' = JBool True) events))"

definition duplicate_refs :: "TraceEvent list \<Rightarrow> (string \<times> nat) list" where
  "duplicate_refs events =
     (let refs = mutation_refs events
      in filter (\<lambda>(_, n). 1 < n) (map (\<lambda>r. (r, count_list refs r)) (first_seen refs)))"

definition duplicate_entity_mutation_rule :: "TraceEvent list \<Rightarrow> dict \<Rightarrow> verdict" where
  "duplicate_entity_mutation_rule events evidence =
     (if duplicate_refs events = [] then None
      else evaluation TraceOutcome_DEGRADED TraceFailureDomain_LOOP_NO_PROGRESS ''duplicate_entity_mutation''
        (dict_set ''duplicate_mutation''
          (JDict [(''refs'', JDict (map (\<lambda>(r, n). (r, JInt (int n))) (duplicate_refs events)))]) evidence))"

section \<open>The rules for loop decisions\<close>

text \<open>Each takes the summary and the output of one decision.\<close>

type_synonym decision_rule = "LoopDecisionSummary \<Rightarrow> dict \<Rightarrow> TraceEvent list \<Rightarrow> dict \<Rightarrow> verdict result"

definition failed_loop_decision_rule :: decision_rule where
  "failed_loop_decision_rule s output events evidence =
     (if lds_decision s \<noteq> loopDecisionKind_str LoopDecisionKind_FAILED then Inr None
      else and_then (classify_loop_failure output) (\<lambda>domain.
        let mismatch = (case first_failure events of None \<Rightarrow> False | Some e \<Rightarrow> input_schema_mismatch e)
        in if domain = TraceFailureDomain_CAPABILITY_FAILURE \<and> mismatch
           then Inr (evaluation TraceOutcome_FAILURE TraceFailureDomain_PLANNER_OR_PARSER
             ''loop_failure_domain_corrected_by_input_schema''
             (dict_set ''failure_domain_corrected_from'' (JStr (traceFailureDomain_str TraceFailureDomain_CAPABILITY_FAILURE)) evidence))
           else Inr (evaluation TraceOutcome_FAILURE domain ''loop_decision_failed'' evidence)))"

definition blocked_loop_decision_rule :: decision_rule where
  "blocked_loop_decision_rule s output events evidence =
     (if lds_decision s = loopDecisionKind_str LoopDecisionKind_BLOCKED
      then and_then (classify_loop_blocked output) (\<lambda>domain.
        Inr (evaluation TraceOutcome_FAILURE domain ''loop_decision_blocked'' evidence))
      else Inr None)"

definition waiting_approval_loop_decision_rule :: decision_rule where
  "waiting_approval_loop_decision_rule s output events evidence =
     (if lds_reason s \<noteq> loopReason_str LoopReason_APPROVAL_REQUIRED then Inr None
      else if \<not> trace_contains_approval_request events \<and> trace_contains_user_ask events
      then Inr (evaluation TraceOutcome_DEGRADED TraceFailureDomain_SAFEGUARD_POLICY ''ordinary_ask_recorded_as_approval_gate''
        (dict_set ''ordinary_ask_recorded_as_approval_gate'' (JBool True) evidence))
      else Inr (evaluation TraceOutcome_SUCCESS TraceFailureDomain_NONE ''loop_decision_waiting_approval''
        (dict_set ''completion_evidence'' (JBool False) (dict_set ''pending_external_gate'' (JBool True) evidence))))"

definition external_pause_loop_decision_rule :: decision_rule where
  "external_pause_loop_decision_rule s output events evidence =
     (if lds_reason s \<noteq> loopReason_str LoopReason_EXTERNAL_PAUSE then Inr None
      else Inr (evaluation TraceOutcome_SUCCESS TraceFailureDomain_NONE ''loop_decision_external_pause''
        (dict_set ''completion_evidence'' (JBool False) (dict_set ''pending_external_action'' (JBool True) evidence))))"

definition has_issue :: "LoopDecisionSummary \<Rightarrow> bool" where
  "has_issue s = (lds_failed_checkers s \<noteq> [] \<or> lds_failed_gates s \<noteq> [] \<or> \<not> no_domain (lds_failure_domain s))"

definition converged_loop_decision_rule :: decision_rule where
  "converged_loop_decision_rule s output events evidence =
     (if lds_decision s \<noteq> loopDecisionKind_str LoopDecisionKind_CONVERGED then Inr None
      else if first_failure events \<noteq> None \<and> \<not> has_issue s then Inr None
      else if \<not> has_issue s
      then Inr (evaluation TraceOutcome_SUCCESS TraceFailureDomain_NONE ''loop_decision_converged'' evidence)
      else Inr (Some (\<lparr>td_outcome = traceOutcome_str TraceOutcome_DEGRADED,
          td_failure_domain = or_else (lds_failure_domain s) (traceFailureDomain_str TraceFailureDomain_LOOP_NO_PROGRESS)\<rparr>,
        dict_set ''evaluation_rule'' (JStr ''loop_decision_converged_with_issue'') evidence)))"

definition loop_decision_evaluation_rules :: "decision_rule list" where
  "loop_decision_evaluation_rules =
     [failed_loop_decision_rule, waiting_approval_loop_decision_rule, external_pause_loop_decision_rule,
      blocked_loop_decision_rule, converged_loop_decision_rule]"

text \<open>The first answer of a list of attempts; an exception ends the search.\<close>

fun first_verdict :: "('a \<Rightarrow> verdict result) \<Rightarrow> 'a list \<Rightarrow> verdict result" where
  "first_verdict f [] = Inr None"
| "first_verdict f (x # xs) = and_then (f x) (\<lambda>v. case v of None \<Rightarrow> first_verdict f xs | Some d \<Rightarrow> Inr (Some d))"

definition loop_decision_rule :: "TraceEvent list \<Rightarrow> dict \<Rightarrow> verdict result" where
  "loop_decision_rule events evidence =
     (let items = rev (map (\<lambda>(e, output). (summary_of e, output)) (loop_decision_events events))
      in first_verdict (\<lambda>classifier. first_verdict (\<lambda>(s, output). classifier s output events evidence) items)
           loop_decision_evaluation_rules)"

section \<open>The rules for the first failure\<close>

definition planner_failure_rule :: "TraceEvent list \<Rightarrow> dict \<Rightarrow> verdict" where
  "planner_failure_rule events evidence =
     (case first_failure events of None \<Rightarrow> None
      | Some f \<Rightarrow>
          if \<not> (in_phase TracePhase_PLANNER_CALL_ERROR f \<or> in_phase TracePhase_PLANNER_SYSCALL f \<or>
               in_phase TracePhase_PLANNER_PARSE_ERROR f) then None
          else case successful_completion_after events f of
            Some recovery \<Rightarrow> evaluation TraceOutcome_DEGRADED TraceFailureDomain_PLANNER_OR_PARSER
              ''planner_failed_then_recovered'' (record_recovery recovery (record_first_failure f evidence))
          | None \<Rightarrow> evaluation TraceOutcome_FAILURE TraceFailureDomain_PLANNER_OR_PARSER
              ''planner_failed_event'' (record_first_failure f evidence))"

definition first_failure_rule ::
  "TracePhase \<Rightarrow> TraceFailureDomain \<Rightarrow> string \<Rightarrow> (TraceEvent \<Rightarrow> bool) \<Rightarrow> TraceEvent list \<Rightarrow> dict \<Rightarrow> verdict" where
  "first_failure_rule phase domain rule holds events evidence =
     (case first_failure events of None \<Rightarrow> None
      | Some f \<Rightarrow> if \<not> in_phase phase f \<or> \<not> holds f then None
          else evaluation TraceOutcome_FAILURE domain rule (record_first_failure f evidence))"

definition safeguard_failure_rule :: "TraceEvent list \<Rightarrow> dict \<Rightarrow> verdict" where
  "safeguard_failure_rule =
     first_failure_rule TracePhase_CAPABILITY_RESULT TraceFailureDomain_SAFEGUARD_POLICY ''safeguard_hook_decision''
       has_safeguard_decision"

definition capability_failure_rule :: "TraceEvent list \<Rightarrow> dict \<Rightarrow> verdict" where
  "capability_failure_rule events evidence =
     (case first_failure events of None \<Rightarrow> None
      | Some f \<Rightarrow>
          if \<not> in_phase TracePhase_CAPABILITY_RESULT f then None
          else let seen = record_first_failure f evidence;
                   recovery = successful_completion_after events f
            in if input_schema_mismatch f
               then (case recovery of
                   Some r \<Rightarrow> evaluation TraceOutcome_DEGRADED TraceFailureDomain_PLANNER_OR_PARSER
                     ''capability_input_schema_mismatch_then_recovered'' (record_recovery r seen)
                 | None \<Rightarrow> evaluation TraceOutcome_FAILURE TraceFailureDomain_PLANNER_OR_PARSER
                     ''capability_input_schema_mismatch'' seen)
               else (case recovery of
                   Some r \<Rightarrow> evaluation TraceOutcome_DEGRADED TraceFailureDomain_CAPABILITY_FAILURE
                     ''capability_failed_then_recovered'' (record_recovery r seen)
                 | None \<Rightarrow> evaluation TraceOutcome_FAILURE TraceFailureDomain_CAPABILITY_FAILURE
                     ''capability_failed_event'' seen))"

definition checker_failure_rule :: "TraceEvent list \<Rightarrow> dict \<Rightarrow> verdict" where
  "checker_failure_rule events evidence =
     (case first_failure events of None \<Rightarrow> None
      | Some f \<Rightarrow>
          if te_phase f \<noteq> loopPhase_str LoopPhase_CHECK then None
          else let plan = List.find (\<lambda>e. te_phase e = loopPhase_str LoopPhase_RECOVERY) events;
                   seen = dict_set ''recovery_plan_recorded'' (JBool (plan \<noteq> None)) (record_first_failure f evidence)
            in (case plan of
                None \<Rightarrow> evaluation TraceOutcome_FAILURE TraceFailureDomain_CHECKER_BLOCKED
                  ''checker_failed_without_recovery_plan'' seen
              | Some p \<Rightarrow>
                  let output = event_output p;
                      with_block = dict_set ''recovery_blocked'' (JBool (case map_of output ''blocked'' of
                        None \<Rightarrow> True | Some v \<Rightarrow> py_truthy v)) seen
                  in evaluation TraceOutcome_FAILURE TraceFailureDomain_CHECKER_BLOCKED ''checker_failed_after_recovery_plan''
                       (case jget output ''details'' of
                          JDict d \<Rightarrow> dict_set ''recovery_detail_keys'' (JList (map JStr (sort (map fst d)))) with_block
                        | _ \<Rightarrow> with_block)))"

definition runtime_failure_rule :: "TraceEvent list \<Rightarrow> dict \<Rightarrow> verdict" where
  "runtime_failure_rule events evidence =
     (case first_failure events of None \<Rightarrow> None
      | Some f \<Rightarrow> evaluation TraceOutcome_FAILURE TraceFailureDomain_RUNTIME ''runtime_failed_event''
          (record_first_failure f evidence))"

definition planner_no_response_rule :: "TraceEvent list \<Rightarrow> dict \<Rightarrow> verdict" where
  "planner_no_response_rule events evidence =
     (if \<not> planner_call_started_without_result events then None
      else evaluation TraceOutcome_FAILURE TraceFailureDomain_PROVIDER_NO_RESPONSE ''planner_call_without_result''
        (dict_set ''planner_call_without_result'' (JBool True) evidence))"

definition missing_trace_rule :: "TraceEvent list \<Rightarrow> dict \<Rightarrow> verdict" where
  "missing_trace_rule events evidence =
     (if events \<noteq> [] then None
      else evaluation TraceOutcome_UNKNOWN TraceFailureDomain_TRACE_MISSING ''trace_missing'' evidence)"

definition trace_evaluation_rules :: "(TraceEvent list \<Rightarrow> dict \<Rightarrow> verdict result) list" where
  "trace_evaluation_rules =
     [\<lambda>events evidence. Inr (duplicate_entity_mutation_rule events evidence), loop_decision_rule,
      \<lambda>events evidence. Inr (planner_failure_rule events evidence),
      \<lambda>events evidence. Inr (safeguard_failure_rule events evidence),
      \<lambda>events evidence. Inr (capability_failure_rule events evidence),
      \<lambda>events evidence. Inr (checker_failure_rule events evidence),
      \<lambda>events evidence. Inr (runtime_failure_rule events evidence),
      \<lambda>events evidence. Inr (planner_no_response_rule events evidence),
      \<lambda>events evidence. Inr (missing_trace_rule events evidence)]"

definition evaluate_trace_with_rules :: "TraceEvent list \<Rightarrow> dict \<Rightarrow> (TraceEvaluationDraft \<times> dict) result" where
  "evaluate_trace_with_rules events evidence =
     and_then (first_verdict (\<lambda>rule. rule events evidence) trace_evaluation_rules) (\<lambda>v.
       case v of
         Some d \<Rightarrow> Inr d
       | None \<Rightarrow> Inr (\<lparr>td_outcome = traceOutcome_str TraceOutcome_SUCCESS,
             td_failure_domain = traceFailureDomain_str TraceFailureDomain_NONE\<rparr>,
           dict_set ''evaluation_rule'' (JStr ''no_failed_or_degraded_rule'') evidence))"

definition assess_trace :: "TraceEvent list \<Rightarrow> (TraceEvaluationDraft \<times> dict) result" where
  "assess_trace events = evaluate_trace_with_rules events (base_trace_evidence events)"

section \<open>Texts\<close>

text \<open>\<open>needle in s\<close>.\<close>

definition contains_text :: "string \<Rightarrow> string \<Rightarrow> bool" where
  "contains_text needle s = (\<exists>i\<in>set [0..<Suc (length s)]. take (length needle) (drop i s) = needle)"

section \<open>What the rules draw\<close>

lemma first_verdict_split:
  "first_verdict f xs = Inr (Some d) \<Longrightarrow>
    \<exists>ys x zs. xs = ys @ x # zs \<and> f x = Inr (Some d) \<and> (\<forall>y\<in>set ys. f y = Inr None)"
proof (induction xs)
  case (Cons x xs)
  show ?case
  proof (cases "f x")
    case (Inr v)
    show ?thesis
    proof (cases v)
      case None
      then have "first_verdict f xs = Inr (Some d)" using Cons.prems Inr by simp
      then obtain ys y zs where "xs = ys @ y # zs" "f y = Inr (Some d)" "\<forall>y\<in>set ys. f y = Inr None"
        using Cons.IH by blast
      then have "x # xs = (x # ys) @ y # zs \<and> f y = Inr (Some d) \<and> (\<forall>y\<in>set (x # ys). f y = Inr None)"
        using Inr None by simp
      then show ?thesis by blast
    next
      case (Some a)
      then have "x # xs = [] @ x # xs \<and> f x = Inr (Some d) \<and> (\<forall>y\<in>set []. f y = Inr None)"
        using Cons.prems Inr by simp
      then show ?thesis by blast
    qed
  qed (use Cons.prems in simp)
qed simp

lemma first_verdict_Some: "first_verdict f xs = Inr (Some d) \<Longrightarrow> \<exists>x\<in>set xs. f x = Inr (Some d)"
  using first_verdict_split by fastforce

lemma first_verdict_None: "first_verdict f xs = Inr None \<longleftrightarrow> (\<forall>x\<in>set xs. f x = Inr None)"
  by (induction xs) (auto split: option.splits)

lemma first_verdict_ok: "(\<And>x. x \<in> set xs \<Longrightarrow> is_ok (f x)) \<Longrightarrow> is_ok (first_verdict f xs)"
proof (induction xs)
  case (Cons x xs)
  have "is_ok (f x)" "is_ok (first_verdict f xs)" using Cons.prems by (auto intro: Cons.IH)
  then obtain v w where v: "f x = Inr v" "first_verdict f xs = Inr w" by (auto simp: is_ok_iff)
  show ?case by (cases v) (simp_all add: v)
qed simp

lemma known_domain: "trace_failure_domain v \<noteq> [] \<Longrightarrow> is_ok (TraceFailureDomain_of (trace_failure_domain v))"
  by (auto simp: trace_failure_domain_def TraceFailureDomain_of_def TRACE_FAILURE_DOMAIN_VALUES_def Let_def
      find_None_iff split: option.splits if_splits)

lemma TraceFailureDomain_of_Inr: "TraceFailureDomain_of t = Inr d \<Longrightarrow> t = traceFailureDomain_str d"
  by (auto simp: TraceFailureDomain_of_def find_Some_iff split: option.splits)

lemma classify_loop_failure_ok: "\<exists>d. classify_loop_failure o' = Inr d \<and> d \<noteq> TraceFailureDomain_NONE"
proof (cases "no_domain (trace_failure_domain (jget o' ''failure_domain''))")
  case True
  then show ?thesis by (auto simp: classify_loop_failure_def Let_def loop_decision_summary_def no_domain_def)
next
  case False
  then obtain d where "TraceFailureDomain_of (trace_failure_domain (jget o' ''failure_domain'')) = Inr d"
    using known_domain by (auto simp: no_domain_def is_ok_iff)
  then show ?thesis
    using False by (auto simp: classify_loop_failure_def Let_def loop_decision_summary_def no_domain_def
        dest: TraceFailureDomain_of_Inr)
qed

lemma classify_loop_blocked_ok:
  "\<exists>d. classify_loop_blocked o' = Inr d \<and>
    (str_or_empty (jget o' ''reason'') \<noteq> loopReason_str LoopReason_EXTERNAL_PAUSE \<longrightarrow> d \<noteq> TraceFailureDomain_NONE)"
proof (cases "no_domain (trace_failure_domain (jget o' ''failure_domain''))")
  case True
  then show ?thesis by (auto simp: classify_loop_blocked_def Let_def loop_decision_summary_def no_domain_def)
next
  case False
  then obtain d where "TraceFailureDomain_of (trace_failure_domain (jget o' ''failure_domain'')) = Inr d"
    using known_domain by (auto simp: no_domain_def is_ok_iff)
  then show ?thesis
    using False by (auto simp: classify_loop_blocked_def Let_def loop_decision_summary_def no_domain_def
        dest: TraceFailureDomain_of_Inr)
qed

lemma domain_str_inj [simp]: "traceFailureDomain_str a = traceFailureDomain_str b \<longleftrightarrow> a = b"
  by (cases a; cases b) simp_all

lemma domain_str_none [simp]: "traceFailureDomain_str a = ''none'' \<longleftrightarrow> a = TraceFailureDomain_NONE"
  by (cases a) simp_all

lemma outcome_str_inj [simp]: "traceOutcome_str a = traceOutcome_str b \<longleftrightarrow> a = b"
  by (cases a; cases b) simp_all

text \<open>What a draft may say of a trace.\<close>

definition pending :: "TraceEvent list \<Rightarrow> bool" where
  "pending events = (\<exists>(e, out)\<in>set (loop_decision_events events).
     lds_reason (summary_of e) \<in> {loopReason_str LoopReason_APPROVAL_REQUIRED, loopReason_str LoopReason_EXTERNAL_PAUSE})"

definition sound_draft :: "TraceEvent list \<Rightarrow> TraceEvaluationDraft \<Rightarrow> bool" where
  "sound_draft events d \<longleftrightarrow>
     (td_outcome d = traceOutcome_str TraceOutcome_SUCCESS \<longrightarrow>
        td_failure_domain d = traceFailureDomain_str TraceFailureDomain_NONE \<and>
        (first_failure events = None \<or> pending events)) \<and>
     (td_outcome d = traceOutcome_str TraceOutcome_FAILURE \<longrightarrow>
        td_failure_domain d \<noteq> traceFailureDomain_str TraceFailureDomain_NONE) \<and>
     (td_outcome d = traceOutcome_str TraceOutcome_UNKNOWN \<longleftrightarrow> events = [])"

lemma decision_rules_ok:
  fixes out :: dict
  assumes "r \<in> set loop_decision_evaluation_rules"
  shows "is_ok (r s out events evidence)"
proof -
  obtain a b where "classify_loop_failure out = Inr a" "classify_loop_blocked out = Inr b"
    using classify_loop_failure_ok [of out] classify_loop_blocked_ok [of out] by auto
  then show ?thesis
    using assms
    by (auto simp: loop_decision_evaluation_rules_def failed_loop_decision_rule_def waiting_approval_loop_decision_rule_def
        external_pause_loop_decision_rule_def blocked_loop_decision_rule_def converged_loop_decision_rule_def Let_def
        split: if_splits)
qed

lemma loop_decision_rule_ok: "is_ok (loop_decision_rule events evidence)"
  unfolding loop_decision_rule_def Let_def
  by (intro first_verdict_ok) (auto intro: decision_rules_ok)

lemma loop_decision_rule_draws:
  assumes "loop_decision_rule events evidence = Inr (Some (d, ev))"
  shows "sound_draft events d"
proof -
  let ?items = "rev (map (\<lambda>(e, output). (summary_of e, output)) (loop_decision_events events))"
  let ?by = "\<lambda>r. first_verdict (\<lambda>(s, output). r s output events evidence) ?items"
  obtain rs r rest where r: "loop_decision_evaluation_rules = rs @ r # rest" "?by r = Inr (Some (d, ev))"
      "\<forall>q\<in>set rs. ?by q = Inr None"
    using first_verdict_split [OF assms [unfolded loop_decision_rule_def Let_def]] by blast
  obtain s out where item: "(s, out) \<in> set ?items" "r s out events evidence = Inr (Some (d, ev))"
    using first_verdict_split [OF r(2)] by fastforce
  then obtain e where e: "(e, out) \<in> set (loop_decision_events events)" "s = summary_of e" by auto
  have out: "out = event_output e" "events \<noteq> []" using e(1) by (auto simp: loop_decision_events_def)
  have reason: "lds_reason s = str_or_empty (jget out ''reason'')" by (simp add: e(2) out summary_of_def loop_decision_summary_def)
  consider "r = failed_loop_decision_rule" | "r = waiting_approval_loop_decision_rule"
    | "r = external_pause_loop_decision_rule"
    | "r = blocked_loop_decision_rule" "external_pause_loop_decision_rule \<in> set rs"
    | "r = converged_loop_decision_rule"
    using r(1) by (auto simp: loop_decision_evaluation_rules_def Cons_eq_append_conv)
  then show ?thesis
  proof cases
    case 1
    then show ?thesis using item(2) out(2) classify_loop_failure_ok [of out]
      by (auto simp: failed_loop_decision_rule_def evaluation_def sound_draft_def Let_def split: if_splits)
  next
    case 2
    then have "pending events" using e item(2)
      by (force simp: pending_def waiting_approval_loop_decision_rule_def split: if_splits)
    then show ?thesis using 2 item(2) out(2)
      by (auto simp: waiting_approval_loop_decision_rule_def evaluation_def sound_draft_def split: if_splits)
  next
    case 3
    then have "pending events" using e item(2)
      by (force simp: pending_def external_pause_loop_decision_rule_def split: if_splits)
    then show ?thesis using 3 item(2) out(2)
      by (auto simp: external_pause_loop_decision_rule_def evaluation_def sound_draft_def split: if_splits)
  next
    case 4
    from 4(2) have "?by external_pause_loop_decision_rule = Inr None" using r(3) by blast
    then have "external_pause_loop_decision_rule s out events evidence = Inr None"
      using item(1) unfolding first_verdict_None by fast
    then have "lds_reason s \<noteq> loopReason_str LoopReason_EXTERNAL_PAUSE"
      by (auto simp: external_pause_loop_decision_rule_def evaluation_def split: if_splits)
    then show ?thesis using 4 item(2) out(2) classify_loop_blocked_ok [of out] reason
      by (auto simp: blocked_loop_decision_rule_def evaluation_def sound_draft_def split: if_splits)
  next
    case 5
    then show ?thesis using item(2) out(2)
      by (auto simp: converged_loop_decision_rule_def evaluation_def sound_draft_def split: if_splits)
  qed
qed

lemmas event_rules = planner_failure_rule_def safeguard_failure_rule_def first_failure_rule_def capability_failure_rule_def
  checker_failure_rule_def runtime_failure_rule_def

lemma event_rule_draws:
  assumes "rule \<in> {planner_failure_rule, safeguard_failure_rule, capability_failure_rule, checker_failure_rule,
    runtime_failure_rule, planner_no_response_rule, missing_trace_rule, duplicate_entity_mutation_rule}"
    and "rule events evidence = Some (d, ev)"
  shows "sound_draft events d"
proof -
  have ne: "events \<noteq> []" if "first_failure events = Some f" for f
    using that by (auto simp: first_failure_def)
  have dup: "duplicate_refs events \<noteq> [] \<Longrightarrow> events \<noteq> []"
    by (auto simp: duplicate_refs_def mutation_refs_def Let_def first_seen_def)
  have started: "planner_call_started_without_result events \<Longrightarrow> events \<noteq> []"
    by (auto simp: planner_call_started_without_result_def)
  show ?thesis using assms ne dup started
    by (auto simp: event_rules planner_no_response_rule_def missing_trace_rule_def duplicate_entity_mutation_rule_def
        evaluation_def sound_draft_def Let_def split: if_splits option.splits json.splits)
qed

section \<open>The evaluation\<close>

lemma rules_ok: "rule \<in> set trace_evaluation_rules \<Longrightarrow> is_ok (rule events evidence)"
  using loop_decision_rule_ok [of events evidence] by (auto simp: trace_evaluation_rules_def)

lemma rules_draw:
  assumes "rule \<in> set trace_evaluation_rules" "rule events evidence = Inr (Some (d, ev))"
  shows "sound_draft events d"
proof (cases "rule = loop_decision_rule")
  case True
  then show ?thesis using assms(2) loop_decision_rule_draws by blast
next
  case False
  then obtain q where "q \<in> {planner_failure_rule, safeguard_failure_rule, capability_failure_rule, checker_failure_rule,
      runtime_failure_rule, planner_no_response_rule, missing_trace_rule, duplicate_entity_mutation_rule}"
    "rule = (\<lambda>events evidence. Inr (q events evidence))"
    using assms(1) unfolding trace_evaluation_rules_def by auto
  then show ?thesis using event_rule_draws [of q] assms(2) by simp
qed

lemma evaluation_is_consistent_plain:
  "\<exists>d ev. assess_trace events = Inr (d, ev) \<and>
    (td_outcome d = ''success'' \<longrightarrow> td_failure_domain d = ''none'' \<and> (first_failure events = None \<or> pending events)) \<and>
    (td_outcome d = ''failure'' \<longrightarrow> td_failure_domain d \<noteq> ''none'') \<and>
    (td_outcome d = ''unknown'' \<longleftrightarrow> events = [])"
proof -
  let ?ev = "base_trace_evidence events"
  have "is_ok (first_verdict (\<lambda>rule. rule events ?ev) trace_evaluation_rules)"
    by (rule first_verdict_ok) (rule rules_ok)
  then obtain v where v: "first_verdict (\<lambda>rule. rule events ?ev) trace_evaluation_rules = Inr v"
    by (auto simp: is_ok_iff)
  show ?thesis
  proof (cases v)
    case None
    then have quiet: "\<And>rule. rule \<in> set trace_evaluation_rules \<Longrightarrow> rule events ?ev = Inr None"
      using v by (simp add: first_verdict_None)
    have "runtime_failure_rule events ?ev = None" "missing_trace_rule events ?ev = None"
      using quiet [of "\<lambda>events evidence. Inr (runtime_failure_rule events evidence)"]
        quiet [of "\<lambda>events evidence. Inr (missing_trace_rule events evidence)"]
      by (simp_all add: trace_evaluation_rules_def)
    then have "first_failure events = None" "events \<noteq> []"
      by (auto simp: runtime_failure_rule_def missing_trace_rule_def evaluation_def split: option.splits if_splits)
    then show ?thesis using v None by (simp add: assess_trace_def evaluate_trace_with_rules_def)
  next
    case (Some w)
    obtain d ev where w: "w = (d, ev)" by fastforce
    obtain rule where "rule \<in> set trace_evaluation_rules" "rule events ?ev = Inr (Some (d, ev))"
      using first_verdict_Some [OF v [unfolded Some w]] by blast
    then have "sound_draft events d" by (rule rules_draw)
    then show ?thesis using v Some w
      by (auto simp: assess_trace_def evaluate_trace_with_rules_def sound_draft_def)
  qed
qed

text \<open>
  C29. Every trace is evaluated, and consistently: a success has no failure domain and, where an event failed,
  comes from a decision that waits for an approval or an external action; a failure has a domain; and only
  a trace without events is unknown.
\<close>

theorem evaluation_is_consistent:
  "\<exists>d ev. assess_trace events = Inr (d, ev) \<and>
    (td_outcome d = ''success'' \<longrightarrow> td_failure_domain d = ''none'' \<and> (first_failure events = None \<or> pending events)) \<and>
    (td_outcome d = ''failure'' \<longrightarrow> td_failure_domain d \<noteq> ''none'') \<and>
    (td_outcome d = ''unknown'' \<longleftrightarrow> events = [])"
  by (rule evaluation_is_consistent_plain)

lemma loop_rule_passes:
  assumes "\<forall>(e, out)\<in>set (loop_decision_events events).
      lds_decision (summary_of e) = ''converged'' \<and> \<not> has_issue (summary_of e) \<and>
      lds_reason (summary_of e) \<notin> {''approval_required'', ''external_pause''}"
    and "first_failure events \<noteq> None"
  shows "loop_decision_rule events evidence = Inr None"
proof -
  have pass: "classifier (fst x) (snd x) events evidence = Inr None"
    if "classifier \<in> set loop_decision_evaluation_rules"
      "x \<in> set (rev (map (\<lambda>(e, out). (summary_of e, out)) (loop_decision_events events)))" for classifier x
    using that assms
    by (auto simp: loop_decision_evaluation_rules_def failed_loop_decision_rule_def waiting_approval_loop_decision_rule_def
        external_pause_loop_decision_rule_def blocked_loop_decision_rule_def converged_loop_decision_rule_def)
  show ?thesis
    unfolding loop_decision_rule_def Let_def first_verdict_None split_beta
    by (intro ballI pass [unfolded split_beta])
qed

lemma assess_by_first_failure:
  assumes "duplicate_refs events = []" "loop_decision_rule events (base_trace_evidence events) = Inr None"
    and "first_verdict (\<lambda>rule. rule events (base_trace_evidence events))
      [\<lambda>events evidence. Inr (planner_failure_rule events evidence), \<lambda>events evidence. Inr (safeguard_failure_rule events evidence),
       \<lambda>events evidence. Inr (capability_failure_rule events evidence), \<lambda>events evidence. Inr (checker_failure_rule events evidence),
       \<lambda>events evidence. Inr (runtime_failure_rule events evidence)] = Inr (Some (d, ev))"
  shows "assess_trace events = Inr (d, ev)"
  using assms
  by (auto simp: assess_trace_def evaluate_trace_with_rules_def trace_evaluation_rules_def duplicate_entity_mutation_rule_def
      split: option.splits)

text \<open>
  How a failure that the trace recovered from is classed, when all its decisions converge without an issue:
  a failed planner call and a failed capability are degraded, but a failed check, which a successful
  completion follows just the same, is a failure, and so is every other failed event.
\<close>

theorem recovered_failure_classes:
  assumes "first_failure events = Some f" "successful_completion_after events f = Some r" "duplicate_refs events = []"
    and "\<forall>(e, out)\<in>set (loop_decision_events events).
      lds_decision (summary_of e) = ''converged'' \<and> \<not> has_issue (summary_of e) \<and>
      lds_reason (summary_of e) \<notin> {''approval_required'', ''external_pause''}"
  shows "\<exists>d ev. assess_trace events = Inr (d, ev) \<and>
    (td_outcome d, td_failure_domain d) =
      (if te_phase f \<in> {''planner.call.error'', ''planner.syscall'', ''planner.parse_error''} then (''degraded'', ''planner_or_parser'')
       else if te_phase f = ''capability.result''
       then (if has_safeguard_decision f then (''failure'', ''safeguard_policy'')
         else (''degraded'', if input_schema_mismatch f then ''planner_or_parser'' else ''capability_failure''))
       else (''failure'', if te_phase f = loopPhase_str LoopPhase_CHECK then ''checker_blocked'' else ''runtime''))"
proof -
  let ?ev = "base_trace_evidence events"
  have quiet: "loop_decision_rule events ?ev = Inr None" using loop_rule_passes [OF assms(4)] assms(1) by simp
  note by_failure = assess_by_first_failure [OF assms(3) quiet]
  let ?domain = "\<lambda>d ev. (td_outcome d, td_failure_domain d) =
      (if te_phase f \<in> {''planner.call.error'', ''planner.syscall'', ''planner.parse_error''} then (''degraded'', ''planner_or_parser'')
       else if te_phase f = ''capability.result''
       then (if has_safeguard_decision f then (''failure'', ''safeguard_policy'')
         else (''degraded'', if input_schema_mismatch f then ''planner_or_parser'' else ''capability_failure''))
       else (''failure'', if te_phase f = loopPhase_str LoopPhase_CHECK then ''checker_blocked'' else ''runtime''))"
  have "\<exists>d ev. first_verdict (\<lambda>rule. rule events ?ev)
      [\<lambda>events evidence. Inr (planner_failure_rule events evidence), \<lambda>events evidence. Inr (safeguard_failure_rule events evidence),
       \<lambda>events evidence. Inr (capability_failure_rule events evidence), \<lambda>events evidence. Inr (checker_failure_rule events evidence),
       \<lambda>events evidence. Inr (runtime_failure_rule events evidence)] = Inr (Some (d, ev)) \<and> ?domain d ev"
    using assms(1,2)
    by (auto simp: event_rules in_phase_def evaluation_def Let_def split: option.split json.split)
  then show ?thesis using by_failure by blast
qed

section \<open>Witnesses\<close>

definition sample_event :: "string \<Rightarrow> string \<Rightarrow> bool \<Rightarrow> dict \<Rightarrow> TraceEvent" where
  "sample_event i phase ok out = \<lparr>te_id = i, te_trace_id = ''t'', te_session_id = [], te_run_id = [], te_phase = phase,
     te_source = [], te_peer_id = [], te_sender_id = [], te_tool = [], te_model_role = [], te_ok = ok, te_input_json = [],
     te_input = None, te_output_json = [], te_output = Some (JDict out), te_message = [], te_created_at = 1\<rparr>"

lemma sample_event_fields [simp]:
  "te_id (sample_event i p b out) = i" "te_phase (sample_event i p b out) = p" "te_ok (sample_event i p b out) = b"
  "event_output (sample_event i p b out) = out" "te_tool (sample_event i p b out) = []" "te_run_id (sample_event i p b out) = []"
  by (simp_all add: sample_event_def event_output_def json_object_def as_dict_def)

text \<open>A check fails, and the loop converges after it.\<close>

definition recovered_check :: "TraceEvent list" where
  "recovered_check = [sample_event ''a'' (loopPhase_str LoopPhase_CHECK) False [],
     sample_event ''b'' loop_decision_phase True [(''decision'', JStr ''converged''), (''reason'', JStr ''terminal_result'')]]"

theorem evaluation_is_consistent_witness:
  "\<exists>d ev. assess_trace recovered_check = Inr (d, ev) \<and> td_outcome d \<noteq> ''unknown''"
  using evaluation_is_consistent [of recovered_check] by (auto simp: recovered_check_def)

theorem recovered_failure_classes_witness:
  "\<exists>d ev. assess_trace recovered_check = Inr (d, ev) \<and> td_outcome d = ''failure'' \<and> td_failure_domain d = ''checker_blocked''"
proof -
  let ?f = "sample_event ''a'' (loopPhase_str LoopPhase_CHECK) False []"
  let ?e = "sample_event ''b'' loop_decision_phase True [(''decision'', JStr ''converged''), (''reason'', JStr ''terminal_result'')]"
  have f: "first_failure recovered_check = Some ?f"
    by (simp add: recovered_check_def first_failure_def)
  have decisions: "loop_decision_events recovered_check =
      [(?e, [(''decision'', JStr ''converged''), (''reason'', JStr ''terminal_result'')])]"
    by (simp add: recovered_check_def loop_decision_events_def loop_decision_phase_def)
  have s: "summary_of ?e = \<lparr>lds_decision = ''converged'', lds_reason = ''terminal_result'', lds_phase = [],
      lds_failure_domain = [], lds_tool = [], lds_run_id = [], lds_step_id = [], lds_failed_checkers = [], lds_failed_gates = []\<rparr>"
    by (simp add: summary_of_def loop_decision_summary_def trace_failure_domain_def failed_loop_result_names_def
        TRACE_FAILURE_DOMAIN_VALUES_def trace_failure_domains_def)
  obtain r where r: "successful_completion_after recovered_check ?f = Some r"
    using s by (simp add: successful_completion_after_def recovered_check_def completes_def no_domain_def)
  have "duplicate_refs recovered_check = []"
    by (simp add: duplicate_refs_def mutation_refs_def recovered_check_def in_phase_def loop_decision_phase_def first_seen_def)
  then obtain d ev where "assess_trace recovered_check = Inr (d, ev)"
    "(td_outcome d, td_failure_domain d) = (''failure'', ''checker_blocked'')"
    using recovered_failure_classes [OF f r] s decisions by (auto simp: has_issue_def no_domain_def)
  then show ?thesis by simp
qed

end
