(* ===== verification/Replay_Buffer.thy ===== *)
theory Replay_Buffer
  imports Dynamic_Parameters Trace_Rules "HOL-Library.Multiset"
begin

text \<open>
  \<open>navi/replay_buffer.py\<close>: the buffer of evaluated traces, with \<open>compute_terminal_reward\<close> of
  \<open>navi/credit_assignment.py\<close>. The two tables a call touches, the buffer and the parameters, are one
  state; \<open>clock\<close> is \<open>time.time()\<close>. \<open>pow\<close> is \<open>**\<close> on two floats, which raises or leaves the real numbers
  for some arguments. The metadata column is the dictionary it denotes, its keys in the caller's order.
\<close>

section \<open>Rewards\<close>

definition failure_domain_severity :: "(string \<times> rat) list" where
  "failure_domain_severity =
     [(traceFailureDomain_str TraceFailureDomain_SAFEGUARD_POLICY, 1),
      (traceFailureDomain_str TraceFailureDomain_LOOP_NO_PROGRESS, 4 / 5),
      (traceFailureDomain_str TraceFailureDomain_PLANNER_OR_PARSER, 7 / 10),
      (traceFailureDomain_str TraceFailureDomain_CHECKER_BLOCKED, 3 / 5),
      (traceFailureDomain_str TraceFailureDomain_MISUNDERSTANDING, 3 / 5),
      (traceFailureDomain_str TraceFailureDomain_CAPABILITY_FAILURE, 1 / 2),
      (traceFailureDomain_str TraceFailureDomain_RUNTIME, 2 / 5),
      (traceFailureDomain_str TraceFailureDomain_PROVIDER_NO_RESPONSE, 3 / 10),
      (traceFailureDomain_str TraceFailureDomain_NONE, 0)]"

definition domain_severity :: "string \<Rightarrow> rat" where
  "domain_severity failure_domain =
     (case map_of failure_domain_severity failure_domain of None \<Rightarrow> 1 / 2 | Some q \<Rightarrow> q)"

definition reward_of_outcome :: "string \<Rightarrow> rat \<Rightarrow> rat \<Rightarrow> rat \<Rightarrow> rat" where
  "reward_of_outcome outcome success_reward degraded_reward severity =
     (if outcome = traceOutcome_str TraceOutcome_SUCCESS then success_reward
      else if outcome = traceOutcome_str TraceOutcome_DEGRADED then degraded_reward
      else - severity)"

text \<open>With a registry, and without one.\<close>

definition compute_terminal_reward :: "time \<Rightarrow> string \<Rightarrow> string \<Rightarrow> Params \<Rightarrow> rat \<times> Params" where
  "compute_terminal_reward clock outcome failure_domain s =
     (let (success_reward, s1) = get_param clock ''reward_success'' (Some 1) False s;
          (degraded_reward, s2) = get_param clock ''reward_degraded'' (Some (1 / 5)) False s1;
          (severity, s3) = get_param clock (''severity_'' @ failure_domain) (Some (domain_severity failure_domain)) False s2
      in (reward_of_outcome outcome success_reward degraded_reward severity, s3))"

definition plain_terminal_reward :: "string \<Rightarrow> string \<Rightarrow> rat" where
  "plain_terminal_reward outcome failure_domain =
     reward_of_outcome outcome 1 (1 / 5) (domain_severity failure_domain)"

section \<open>The table\<close>

record ReplayRow =
  rx_id :: string
  rx_trace_id :: string
  rx_channel :: string
  rx_prompt :: string
  rx_response :: string
  rx_reward :: rat
  rx_priority :: rat
  rx_safeguard_triggered :: bool
  rx_metadata :: dict
  rx_created_at :: time

record ReplayState =
  rb_rows :: "ReplayRow list"
  rb_params :: Params

definition replay_entry_to_dict :: "ReplayRow \<Rightarrow> dict" where
  "replay_entry_to_dict r =
     [(''id'', JStr (rx_id r)), (''trace_id'', JStr (rx_trace_id r)), (''channel'', JStr (rx_channel r)),
      (''prompt'', JStr (rx_prompt r)), (''response'', JStr (rx_response r)), (''reward'', JFloat (rx_reward r)),
      (''priority'', JFloat (rx_priority r)), (''safeguard_triggered'', JBool (rx_safeguard_triggered r)),
      (''metadata'', JDict (rx_metadata r)), (''created_at'', JFloat (rx_created_at r))]"

definition compute_replay_priority :: "(rat \<Rightarrow> rat \<Rightarrow> rat result) \<Rightarrow> rat \<Rightarrow> rat \<Rightarrow> rat \<Rightarrow> rat result" where
  "compute_replay_priority pow alpha epsilon reward =
     and_then (pow (\<bar>reward\<bar> + epsilon) alpha) (\<lambda>p. Inr (round_places 6 p))"

text \<open>\<open>self.param_registry.get(name, fallback)\<close> from inside the buffer.\<close>

definition parameter :: "time \<Rightarrow> string \<Rightarrow> rat \<Rightarrow> (rat, ReplayState) call" where
  "parameter clock name fallback =
     in_store rb_params (\<lambda>p s. s\<lparr>rb_params := p\<rparr>) (get_param clock name (Some fallback) False)"

definition truncate_rat :: "rat \<Rightarrow> int" where
  "truncate_rat q = (if q < 0 then - \<lfloor>- q\<rfloor> else \<lfloor>q\<rfloor>)"

definition write_rows :: "(ReplayRow list \<Rightarrow> ReplayRow list) \<Rightarrow> (unit, ReplayState) call" where
  "write_rows f = write_to (\<lambda>s. s\<lparr>rb_rows := f (rb_rows s)\<rparr>)"

definition count_rows :: "string option \<Rightarrow> ReplayRow list \<Rightarrow> nat" where
  "count_rows channel t = (case channel of None \<Rightarrow> length t | Some c \<Rightarrow> sql_count (\<lambda>r. rx_channel r = c) t)"

text \<open>\<open>DELETE ... WHERE id IN (SELECT id ...)\<close>, and the \<open>rowcount\<close>.\<close>

definition delete_selected :: "ReplayRow list \<Rightarrow> ReplayRow list \<Rightarrow> nat \<times> ReplayRow list" where
  "delete_selected chosen t =
     (sql_count (\<lambda>r. rx_id r \<in> rx_id ` set chosen) t, sql_delete (\<lambda>r. rx_id r \<in> rx_id ` set chosen) t)"

definition prune_rows :: "int \<Rightarrow> ReplayRow list \<Rightarrow> int \<times> ReplayRow list" where
  "prune_rows excess t =
     (let (d, t1) = delete_selected (sql_limit excess (sql_asc rx_priority (sql_asc rx_created_at
            (filter (\<lambda>r. rx_reward r < 4 / 5 \<and> rx_reward r > - (4 / 5)) t)))) t
      in if int d < excess
         then let (d', t2) = delete_selected (sql_limit (excess - int d) (sql_asc rx_created_at
                (filter (\<lambda>r. rx_reward r < 4 / 5) t1))) t1
              in (int d + int d', t2)
         else (int d, t1))"

definition prune_buffer :: "time \<Rightarrow> (int, ReplayState) call" where
  "prune_buffer clock =
     then_call (parameter clock ''replay_buffer_capacity'' 5000) (\<lambda>q.
     then_call (look_up (\<lambda>s. int (count_rows None (rb_rows s)) - truncate_rat q)) (\<lambda>excess.
     if excess \<le> 0 then answer 0
     else in_store rb_rows (\<lambda>t s. s\<lparr>rb_rows := t\<rparr>) (prune_rows excess)))"

definition replay_channel :: "string \<Rightarrow> string" where
  "replay_channel channel = (if py_strip channel = [] then ''unknown'' else py_strip channel)"

definition record_experience ::
  "(rat \<Rightarrow> rat \<Rightarrow> rat result) \<Rightarrow> time \<Rightarrow> string \<Rightarrow> time option \<Rightarrow> string \<Rightarrow> string \<Rightarrow> string \<Rightarrow> string \<Rightarrow> rat \<Rightarrow>
     rat option \<Rightarrow> bool \<Rightarrow> dict \<Rightarrow> (ReplayRow, ReplayState) call" where
  "record_experience pow clock fresh_id now trace_id channel prompt response reward priority safeguard metadata =
     then_call (parameter clock ''replay_priority_alpha'' (3 / 5)) (\<lambda>alpha.
     then_call (parameter clock ''replay_priority_epsilon'' (1 / 100)) (\<lambda>epsilon.
     then_call (checked (compute_replay_priority pow alpha epsilon reward)) (\<lambda>computed.
     let entry = \<lparr>rx_id = fresh_id, rx_trace_id = trace_id, rx_channel = replay_channel channel,
           rx_prompt = prompt, rx_response = response, rx_reward = reward,
           rx_priority = (case priority of None \<Rightarrow> computed | Some p \<Rightarrow> p),
           rx_safeguard_triggered = safeguard, rx_metadata = metadata,
           rx_created_at = (case now of None \<Rightarrow> clock | Some t \<Rightarrow> t)\<rparr>
     in then_call (try_store rb_rows (\<lambda>t s. s\<lparr>rb_rows := t\<rparr>)
          (\<lambda>t. and_then (sql_insert rx_id entry t) (\<lambda>t'. Inr ((), t')))) (\<lambda>_.
        then_call (prune_buffer clock) (\<lambda>_. answer entry)))))"

section \<open>Reading\<close>

definition sample_batch :: "int \<Rightarrow> string list \<Rightarrow> rat \<Rightarrow> ReplayRow list \<Rightarrow> ReplayRow list" where
  "sample_batch batch_size channels min_priority t =
     sql_limit batch_size (sql_desc rx_priority (sql_desc rx_created_at
       (filter (\<lambda>r. min_priority \<le> rx_priority r \<and> (channels = [] \<or> rx_channel r \<in> set channels)) t)))"

definition in_channel :: "string option \<Rightarrow> ReplayRow \<Rightarrow> bool" where
  "in_channel channel r = (case channel of None \<Rightarrow> True | Some c \<Rightarrow> rx_channel r = c)"

definition get_golden_traces :: "int \<Rightarrow> rat \<Rightarrow> string option \<Rightarrow> ReplayRow list \<Rightarrow> ReplayRow list" where
  "get_golden_traces limit min_reward channel t =
     sql_limit limit (sql_desc rx_reward (sql_desc rx_priority (sql_desc rx_created_at
       (filter (\<lambda>r. min_reward \<le> rx_reward r \<and> in_channel channel r) t))))"

definition get_hard_negatives :: "int \<Rightarrow> rat \<Rightarrow> string option \<Rightarrow> ReplayRow list \<Rightarrow> ReplayRow list" where
  "get_hard_negatives limit max_reward channel t =
     sql_limit limit (sql_desc rx_priority (sql_desc rx_created_at
       (filter (\<lambda>r. (rx_reward r \<le> max_reward \<or> rx_safeguard_triggered r) \<and> in_channel channel r) t)))"

definition get_replay_entry :: "string \<Rightarrow> ReplayRow list \<Rightarrow> ReplayRow option" where
  "get_replay_entry entry_id t = row_of rx_id entry_id t"

definition get_by_trace :: "string \<Rightarrow> ReplayRow list \<Rightarrow> ReplayRow option" where
  "get_by_trace trace_id t =
     (case sql_limit 1 (sql_desc rx_created_at (filter (\<lambda>r. rx_trace_id r = trace_id) t)) of
        [] \<Rightarrow> None | r # _ \<Rightarrow> Some r)"

section \<open>Priorities\<close>

definition update_priority :: "string \<Rightarrow> rat \<Rightarrow> (bool, ReplayState) call" where
  "update_priority entry_id priority =
     in_store rb_rows (\<lambda>t s. s\<lparr>rb_rows := t\<rparr>)
       (\<lambda>t. (0 < sql_count (\<lambda>r. rx_id r = entry_id) t,
             sql_update (\<lambda>r. rx_id r = entry_id) (\<lambda>r. r\<lparr>rx_priority := max (1 / 10 ^ 6) priority\<rparr>) t))"

definition update_priority_from_td_error ::
  "(rat \<Rightarrow> rat \<Rightarrow> rat result) \<Rightarrow> time \<Rightarrow> string \<Rightarrow> rat \<Rightarrow> rat option \<Rightarrow> rat option \<Rightarrow> (bool, ReplayState) call" where
  "update_priority_from_td_error pow clock entry_id td_error alpha epsilon =
     then_call (parameter clock ''replay_priority_alpha'' (3 / 5)) (\<lambda>a.
     then_call (parameter clock ''replay_priority_epsilon'' (1 / 100)) (\<lambda>e.
     then_call (checked (compute_replay_priority pow (case alpha of None \<Rightarrow> a | Some q \<Rightarrow> q)
       (case epsilon of None \<Rightarrow> e | Some q \<Rightarrow> q) td_error)) (\<lambda>p. update_priority entry_id p)))"

section \<open>Ingesting an evaluated trace\<close>

text \<open>The first text that \<open>f\<close> finds in a list.\<close>

fun first_text :: "('a \<Rightarrow> string) \<Rightarrow> 'a list \<Rightarrow> string" where
  "first_text f [] = []"
| "first_text f (x # xs) = (if f x \<noteq> [] then f x else first_text f xs)"

definition evidence_text :: "dict \<Rightarrow> string \<Rightarrow> string \<Rightarrow> string" where
  "evidence_text ev a b =
     py_strip (py_str (if py_truthy (jget ev a) then jget ev a else meta_get ev b (JStr [])))"

definition judge_text :: "dict \<Rightarrow> string \<Rightarrow> string" where
  "judge_text ev key =
     (case jget ev ''llm_judge'' of
        JDict lj \<Rightarrow> if py_truthy (jget lj key) then py_str (jget lj key) else []
      | _ \<Rightarrow> [])"

definition ingest_channel :: "dict \<Rightarrow> TraceEvent list \<Rightarrow> string" where
  "ingest_channel ev events =
     or_else (or_else (evidence_text ev ''channel'' ''source'') (first_text (\<lambda>e. py_strip (te_source e)) events))
       ''unknown''"

definition prompt_of_event :: "TraceEvent \<Rightarrow> string" where
  "prompt_of_event e =
     (if py_lower (te_phase e) \<in> {''ingress'', ''user_input'', ''prompt'', ''turn.start'', ''planner_syscall''}
      then or_else (py_strip (te_message e)) (py_strip (te_input_json e)) else [])"

definition response_of_event :: "TraceEvent \<Rightarrow> string" where
  "response_of_event e =
     (if py_lower (te_phase e) \<in> {''egress'', ''assistant'', ''planner.decision'', ''loop.decision'', ''capability_result''}
      then or_else (py_strip (te_message e)) (py_strip (te_output_json e)) else [])"

definition ingest_prompt :: "string \<Rightarrow> dict \<Rightarrow> TraceEvent list \<Rightarrow> string" where
  "ingest_prompt trace_id ev events =
     or_else (or_else (or_else (evidence_text ev ''prompt'' ''user_prompt'') (first_text prompt_of_event events))
       (judge_text ev ''user_prompt'')) (''trace:'' @ trace_id)"

definition ingest_response :: "string \<Rightarrow> string \<Rightarrow> dict \<Rightarrow> TraceEvent list \<Rightarrow> string" where
  "ingest_response outcome failure_domain ev events =
     or_else (or_else (or_else (evidence_text ev ''response'' ''assistant_response'')
       (first_text response_of_event (rev events))) (judge_text ev ''assistant_response''))
       (''outcome:'' @ outcome @ '':'' @ failure_domain)"

definition safeguard_was_triggered :: "string \<Rightarrow> TraceEvent list \<Rightarrow> bool" where
  "safeguard_was_triggered failure_domain events =
     (failure_domain = traceFailureDomain_str TraceFailureDomain_SAFEGUARD_POLICY \<or>
      (\<exists>e\<in>set events. (contains_text ''safeguard'' (py_lower (te_tool e)) \<or>
         contains_text ''safeguard'' (py_lower (te_phase e))) \<and> \<not> te_ok e))"

text \<open>The reward of the trace, unless the evidence or the caller carries one.\<close>

definition evidence_reward :: "dict option \<Rightarrow> rat \<Rightarrow> rat result" where
  "evidence_reward evidence reward =
     (case evidence of None \<Rightarrow> Inr reward
      | Some ev \<Rightarrow>
          let cr = jget ev ''custom_reward''; rw = jget ev ''reward'' in
          if cr \<noteq> JNull then float_value cr
          else if rw \<noteq> JNull then float_value rw
          else case jget ev ''llm_judge'' of
            JDict lj \<Rightarrow> (case map_of lj ''reward'' of None \<Rightarrow> Inr reward | Some v \<Rightarrow> float_value v)
          | _ \<Rightarrow> Inr reward)"

definition rescored_metadata :: "string \<Rightarrow> string \<Rightarrow> dict \<Rightarrow> dict \<Rightarrow> dict" where
  "rescored_metadata outcome failure_domain ev meta =
     (let m = dict_set ''evidence'' (JDict ev) (dict_set ''failure_domain'' (JStr failure_domain)
            (dict_set ''outcome'' (JStr outcome) meta))
      in case map_of ev ''llm_judge'' of None \<Rightarrow> m | Some lj \<Rightarrow> dict_set ''llm_judge'' lj m)"

definition ingest_from_trace ::
  "(rat \<Rightarrow> rat \<Rightarrow> rat result) \<Rightarrow> time \<Rightarrow> string \<Rightarrow> time option \<Rightarrow> string \<Rightarrow> string \<Rightarrow> string \<Rightarrow> TraceEvent list \<Rightarrow>
     dict option \<Rightarrow> rat option \<Rightarrow> (ReplayRow option, ReplayState) call" where
  "ingest_from_trace pow clock fresh_id now trace_id outcome failure_domain events evidence custom_reward =
     (if events = [] then answer None
      else then_call (in_store rb_params (\<lambda>p s. s\<lparr>rb_params := p\<rparr>) (compute_terminal_reward clock outcome failure_domain))
        (\<lambda>terminal.
      then_call (checked (case custom_reward of Some q \<Rightarrow> Inr q | None \<Rightarrow> evidence_reward evidence terminal)) (\<lambda>reward.
      let ev = (case evidence of None \<Rightarrow> [] | Some d \<Rightarrow> d);
          safeguard = safeguard_was_triggered failure_domain events
      in then_call (look_up (\<lambda>s. get_by_trace trace_id (rb_rows s))) (\<lambda>existing.
      case existing of
        Some old \<Rightarrow>
          then_call (parameter clock ''replay_priority_alpha'' (3 / 5)) (\<lambda>alpha.
          then_call (parameter clock ''replay_priority_epsilon'' (1 / 100)) (\<lambda>epsilon.
          then_call (checked (compute_replay_priority pow alpha epsilon reward)) (\<lambda>p.
          let new = old\<lparr>rx_reward := reward, rx_priority := p, rx_safeguard_triggered := safeguard,
                rx_metadata := rescored_metadata outcome failure_domain ev (rx_metadata old)\<rparr>
          in then_call (write_rows (sql_update (\<lambda>r. rx_id r = rx_id old)
               (\<lambda>r. r\<lparr>rx_reward := reward, rx_priority := p, rx_safeguard_triggered := safeguard,
                  rx_metadata := rescored_metadata outcome failure_domain ev (rx_metadata old)\<rparr>)))
             (\<lambda>_. answer (Some new)))))
      | None \<Rightarrow>
          then_call (record_experience pow clock fresh_id now trace_id (ingest_channel ev events)
            (ingest_prompt trace_id ev events) (ingest_response outcome failure_domain ev events) reward None safeguard
            [(''outcome'', JStr outcome), (''failure_domain'', JStr failure_domain),
             (''event_count'', JInt (int (length events))), (''evidence'', JDict ev)])
          (\<lambda>entry. answer (Some entry))))))"

section \<open>Pruning\<close>

lemma parameter_eq:
  "parameter clock name f s = (Inr (fst (get_param clock name (Some f) False (rb_params s))),
    s\<lparr>rb_params := snd (get_param clock name (Some f) False (rb_params s))\<rparr>)"
  by (simp add: parameter_def in_store_def split_beta)

lemma length_filter_in:
  assumes "distinct t" "set xs \<subseteq> set t" "distinct xs"
  shows "length (filter (\<lambda>r. r \<in> set xs) t) = length xs"
proof -
  have "set (filter (\<lambda>r. r \<in> set xs) t) = set xs" using assms(2) by auto
  then show ?thesis using assms(1,3) by (metis distinct_card distinct_filter)
qed

lemma length_filter_notin:
  assumes "distinct t" "set xs \<subseteq> set t" "distinct xs"
  shows "length (filter (\<lambda>r. r \<notin> set xs) t) + length xs = length t"
  using length_filter_in [OF assms] sum_length_filter_compl [of "\<lambda>r. r \<in> set xs" t] by simp

lemma delete_selected_eq:
  assumes "keys_distinct rx_id t" "set chosen \<subseteq> set t" "distinct chosen"
  shows "delete_selected chosen t = (length chosen, filter (\<lambda>r. r \<notin> set chosen) t)"
proof -
  have ids: "rx_id r \<in> rx_id ` set chosen \<longleftrightarrow> r \<in> set chosen" if "r \<in> set t" for r
    using that assms(1,2) by (force simp: keys_distinct_def distinct_map dest: inj_onD)
  have "distinct t" using assms(1) by (simp add: keys_distinct_def distinct_map)
  then have "length (filter (\<lambda>r. r \<in> set chosen) t) = length chosen" using assms(2,3) by (rule length_filter_in)
  moreover have "filter (\<lambda>r. rx_id r \<in> rx_id ` set chosen) t = filter (\<lambda>r. r \<in> set chosen) t"
    "filter (\<lambda>r. \<not> rx_id r \<in> rx_id ` set chosen) t = filter (\<lambda>r. r \<notin> set chosen) t"
    using ids by (simp_all cong: filter_cong)
  ultimately show ?thesis by (simp add: delete_selected_def sql_count_def sql_delete_def)
qed

definition golden :: "ReplayRow \<Rightarrow> bool" where
  "golden r = (4 / 5 \<le> rx_reward r)"

text \<open>One \<open>DELETE\<close> of the rows among \<open>q\<close> that come first.\<close>

lemma delete_first:
  assumes "keys_distinct rx_id t" "mset xs = mset (filter q t)" "0 \<le> n" "delete_selected (sql_limit n xs) t = (d, t')"
  shows "keys_distinct rx_id t'" "set t' \<subseteq> set t" "\<And>r. r \<in> set t \<Longrightarrow> \<not> q r \<Longrightarrow> r \<in> set t'"
    "int d = min n (int (length (filter q t)))" "length t' + d = length t"
    "int d < n \<Longrightarrow> filter q t' = []"
proof -
  have xs: "set xs = set (filter q t)" "length xs = length (filter q t)"
    using mset_eq_setD [OF assms(2)] mset_eq_length [OF assms(2)] by simp_all
  have "distinct t" using assms(1) by (simp add: keys_distinct_def distinct_map)
  then have dx: "distinct xs" using assms(2) by (metis distinct_filter mset_eq_imp_distinct_iff)
  let ?c = "sql_limit n xs"
  have c: "?c = take (nat n) xs" using assms(3) by (simp add: sql_limit_def)
  have sub: "set ?c \<subseteq> set t" "set ?c \<subseteq> set (filter q t)" using xs(1) set_sql_limit [of n xs] by auto
  have dc: "distinct ?c" using dx by (simp add: c)
  have e: "d = length ?c" "t' = filter (\<lambda>r. r \<notin> set ?c) t"
    using assms(4) unfolding delete_selected_eq [OF assms(1) sub(1) dc] by simp_all
  show "keys_distinct rx_id t'" using assms(1) keys_distinct_delete [of rx_id t "\<lambda>r. r \<in> set ?c"]
    by (simp add: e(2) sql_delete_def)
  show "set t' \<subseteq> set t" by (simp add: e(2))
  show "\<And>r. r \<in> set t \<Longrightarrow> \<not> q r \<Longrightarrow> r \<in> set t'" using sub(2) by (auto simp: e(2))
  show "int d = min n (int (length (filter q t)))" using assms(3) xs(2) by (auto simp: e(1) c)
  show "length t' + d = length t"
    using length_filter_notin [OF \<open>distinct t\<close> sub(1) dc] by (simp add: e)
  show "filter q t' = []" if "int d < n"
  proof -
    have "?c = xs" using that assms(3) by (simp add: e(1) c)
    then show ?thesis using xs(1) by (auto simp: e(2) filter_empty_conv)
  qed
qed

lemma mset_sql_asc [simp]: "mset (sql_asc k t) = mset t"
  by (simp add: sql_asc_def)

lemma prune_rows_keeps:
  assumes "keys_distinct rx_id t" "0 < n" "prune_rows n t = (d, t')"
  shows "keys_distinct rx_id t'" "set t' \<subseteq> set t" "\<And>r. r \<in> set t \<Longrightarrow> golden r \<Longrightarrow> r \<in> set t'"
    "int (length t') = int (length t) - n \<or> list_all golden t'"
proof -
  let ?q = "\<lambda>r. rx_reward r < 4 / 5 \<and> rx_reward r > - (4 / 5)"
  obtain d1 t1 where 1: "delete_selected (sql_limit n (sql_asc rx_priority (sql_asc rx_created_at (filter ?q t)))) t = (d1, t1)"
    by fastforce
  have m1: "mset (sql_asc rx_priority (sql_asc rx_created_at (filter ?q t))) = mset (filter ?q t)" "0 \<le> n"
    using assms(2) by simp_all
  have one: "keys_distinct rx_id t1" "set t1 \<subseteq> set t" "\<And>r. r \<in> set t \<Longrightarrow> \<not> ?q r \<Longrightarrow> r \<in> set t1"
    "int d1 = min n (int (length (filter ?q t)))" "length t1 + d1 = length t"
    by (fact delete_first [where q = ?q, OF assms(1) m1 1])+
  let ?h = "\<lambda>r. rx_reward r < 4 / 5"
  have "keys_distinct rx_id t' \<and> set t' \<subseteq> set t \<and> (\<forall>r\<in>set t. golden r \<longrightarrow> r \<in> set t') \<and>
    (int (length t') = int (length t) - n \<or> list_all golden t')"
  proof (cases "int d1 < n")
    case False
    then have "t' = t1" "int d1 = n" using assms(3) 1 one(4) by (auto simp: prune_rows_def)
    then show ?thesis using one by (auto simp: golden_def)
  next
    case True
    obtain d2 t2 where 2: "delete_selected (sql_limit (n - int d1) (sql_asc rx_created_at (filter ?h t1))) t1 = (d2, t2)"
      by fastforce
    have "t' = t2" using assms(3) 1 2 True by (simp add: prune_rows_def)
    moreover have m2: "mset (sql_asc rx_created_at (filter ?h t1)) = mset (filter ?h t1)" "0 \<le> n - int d1"
      using True by simp_all
    have "keys_distinct rx_id t2" "set t2 \<subseteq> set t1" "\<And>r. r \<in> set t1 \<Longrightarrow> \<not> ?h r \<Longrightarrow> r \<in> set t2"
      "int d2 = min (n - int d1) (int (length (filter ?h t1)))" "length t2 + d2 = length t1"
      "int d2 < n - int d1 \<Longrightarrow> filter ?h t2 = []"
      by (fact delete_first [where q = ?h, OF one(1) m2 2])+
    moreover from this(4,6) have "int d2 = n - int d1 \<or> list_all golden t2"
      by (cases "int d2 < n - int d1") (auto simp: list_all_iff golden_def filter_empty_conv not_less)
    ultimately show ?thesis using one by (auto simp: golden_def)
  qed
  then show "keys_distinct rx_id t'" "set t' \<subseteq> set t" "\<And>r. r \<in> set t \<Longrightarrow> golden r \<Longrightarrow> r \<in> set t'"
    "int (length t') = int (length t) - n \<or> list_all golden t'" by blast+
qed

text \<open>What a recorded experience leaves: the entry was stored, and the buffer pruned to its capacity.\<close>

lemma record_experience_Inr:
  assumes "record_experience pow clock i now tr ch pr re q p sg m s = (Inr e, s')" "coherent (rb_params s)"
  obtains d c where "row_of rx_id (rx_id e) (rb_rows s) = None" "rx_reward e = q" "coherent (rb_params s')"
    "c = fst (get_param clock ''replay_buffer_capacity'' (Some 5000) False (rb_params s'))"
    "if int (length (rb_rows s) + 1) \<le> truncate_rat c then rb_rows s' = rb_rows s @ [e]
     else prune_rows (int (length (rb_rows s) + 1) - truncate_rat c) (rb_rows s @ [e]) = (d, rb_rows s')"
proof -
  define s2 where "s2 = snd (parameter clock ''replay_priority_epsilon'' (1 / 100)
    (snd (parameter clock ''replay_priority_alpha'' (3 / 5) s)))"
  define s3 where "s3 = s2\<lparr>rb_rows := rb_rows s2 @ [e]\<rparr>"
  have rows: "rb_rows s2 = rb_rows s" by (simp add: s2_def parameter_eq)
  have coh: "coherent (rb_params s2)" using assms(2) by (simp add: s2_def parameter_eq get_param_state)
  have got: "row_of rx_id (rx_id e) (rb_rows s) = None" "rx_reward e = q" "prune_buffer clock s3 = (Inr d, s') \<or> (\<exists>d. prune_buffer clock s3 = (Inr d, s'))" for d
    using assms(1)
    by (auto simp: record_experience_def then_call_def calls try_store_def s3_def s2_def parameter_eq sql_insert_Inr_iff Let_def
        elim!: and_then.elims split: prod.splits sum.splits)
  then obtain d where d: "prune_buffer clock s3 = (Inr d, s')" by blast
  let ?g = "get_param clock ''replay_buffer_capacity'' (Some 5000) False (rb_params s2)"
  have par: "rb_params s' = snd ?g" using d
    by (auto simp: prune_buffer_def then_call_def calls parameter_eq s3_def in_store_def split: prod.splits if_splits)
  have c': "coherent (snd ?g)" "pm_seeded (snd ?g)" using get_param_state [OF coh] by simp_all
  have same: "fst (get_param clock ''replay_buffer_capacity'' (Some 5000) False (snd ?g)) = fst ?g"
  proof -
    have g: "fst (get_param clock n f False u) = (case map_option pr_value (row_of pr_name n (pm_rows (snd (get_param clock n f False u)))) of
        None \<Rightarrow> (case f of None \<Rightarrow> default_parameter n 0 | Some v \<Rightarrow> v) | Some v \<Rightarrow> v)" if "coherent u" for n f u
      using sync_coherent [OF that, of clock] by (simp add: get_param_def Let_def coherent_def)
    have "pm_rows (snd (get_param clock ''replay_buffer_capacity'' (Some 5000) False (snd ?g))) = pm_rows (snd ?g)"
      using get_param_state(3) [OF c'(1)] c'(2) by blast
    then show ?thesis unfolding g [OF coh] g [OF c'(1)] by simp
  qed
  show thesis
  proof (rule that [OF got(1,2)])
    show "coherent (rb_params s')" using c'(1) par by simp
    show "fst ?g = fst (get_param clock ''replay_buffer_capacity'' (Some 5000) False (rb_params s'))" using same par by simp
    show "if int (length (rb_rows s) + 1) \<le> truncate_rat (fst ?g) then rb_rows s' = rb_rows s @ [e]
        else prune_rows (int (length (rb_rows s) + 1) - truncate_rat (fst ?g)) (rb_rows s @ [e]) = (d, rb_rows s')"
      using d by (auto simp: prune_buffer_def then_call_def calls parameter_eq s3_def rows in_store_def count_rows_def
          split: prod.splits if_splits)
  qed
qed

text \<open>
  C32. The buffer keeps what it promises to keep: after an experience was recorded, every golden trace that
  was there is still there, nothing else than the new entry has been added, no identifier occurs twice,
  and the buffer is within its capacity or holds golden traces only.
\<close>

theorem golden_traces_survive:
  assumes "keys_distinct rx_id (rb_rows s)" "coherent (rb_params s)"
    and "record_experience pow clock i now tr ch pr re q p sg m s = (Inr e, s')"
    and "cap = truncate_rat (fst (get_param clock ''replay_buffer_capacity'' (Some 5000) False (rb_params s')))"
  shows "set (rb_rows s') \<subseteq> insert e (set (rb_rows s)) \<and>
    (\<forall>r\<in>insert e (set (rb_rows s)). 4 / 5 \<le> rx_reward r \<longrightarrow> r \<in> set (rb_rows s')) \<and>
    keys_distinct rx_id (rb_rows s') \<and>
    (int (length (rb_rows s')) \<le> cap \<or> (\<forall>r\<in>set (rb_rows s'). 4 / 5 \<le> rx_reward r))"
proof -
  obtain d c where e: "row_of rx_id (rx_id e) (rb_rows s) = None"
      "c = fst (get_param clock ''replay_buffer_capacity'' (Some 5000) False (rb_params s'))"
      "if int (length (rb_rows s) + 1) \<le> truncate_rat c then rb_rows s' = rb_rows s @ [e]
       else prune_rows (int (length (rb_rows s) + 1) - truncate_rat c) (rb_rows s @ [e]) = (d, rb_rows s')"
    by (rule record_experience_Inr [OF assms(3,2)])
  have keys: "keys_distinct rx_id (rb_rows s @ [e])" using assms(1) e(1) by (simp add: keys_distinct_append)
  show ?thesis
  proof (cases "int (length (rb_rows s) + 1) \<le> truncate_rat c")
    case True
    then show ?thesis using e keys assms(4) by auto
  next
    case False
    then have "prune_rows (int (length (rb_rows s) + 1) - truncate_rat c) (rb_rows s @ [e]) = (d, rb_rows s')"
      "0 < int (length (rb_rows s) + 1) - truncate_rat c" using e(3) by simp_all
    note kept = prune_rows_keeps [OF keys this(2,1)]
    have "int (length (rb_rows s')) \<le> cap \<or> list_all golden (rb_rows s')"
      using kept(4) assms(4) e(2) by auto
    then show ?thesis using kept(1-3) by (auto simp: golden_def list_all_iff)
  qed
qed

text \<open>
  The buffer does not keep its hard negatives: when it is full of golden traces, any experience with a
  lower reward, the lowest included, is deleted again by the call that records it, which nevertheless
  answers with the entry.
\<close>

theorem hard_negatives_are_forgotten:
  assumes "keys_distinct rx_id (rb_rows s)" "coherent (rb_params s)"
    and "\<forall>r\<in>set (rb_rows s). 4 / 5 \<le> rx_reward r" "q < 4 / 5"
    and "record_experience pow clock i now tr ch pr re q p sg m s = (Inr e, s')"
    and "truncate_rat (fst (get_param clock ''replay_buffer_capacity'' (Some 5000) False (rb_params s'))) \<le> int (length (rb_rows s))"
  shows "rx_reward e = q \<and> get_replay_entry (rx_id e) (rb_rows s') = None \<and> set (rb_rows s') = set (rb_rows s)"
proof -
  obtain d c where e: "row_of rx_id (rx_id e) (rb_rows s) = None" "rx_reward e = q"
      "c = fst (get_param clock ''replay_buffer_capacity'' (Some 5000) False (rb_params s'))"
      "if int (length (rb_rows s) + 1) \<le> truncate_rat c then rb_rows s' = rb_rows s @ [e]
       else prune_rows (int (length (rb_rows s) + 1) - truncate_rat c) (rb_rows s @ [e]) = (d, rb_rows s')"
    by (rule record_experience_Inr [OF assms(5,2)])
  have keys: "keys_distinct rx_id (rb_rows s @ [e])" using assms(1) e(1) by (simp add: keys_distinct_append)
  have n: "0 < int (length (rb_rows s) + 1) - truncate_rat c"
    and pr: "prune_rows (int (length (rb_rows s) + 1) - truncate_rat c) (rb_rows s @ [e]) = (d, rb_rows s')"
    using e(3,4) assms(6) by (simp_all split: if_splits)
  note kept = prune_rows_keeps [OF keys n pr]
  have ne: "e \<notin> set (rb_rows s)" using e(1) by (auto simp: row_of_None)
  have all: "set (rb_rows s) \<subseteq> set (rb_rows s')" using kept(3) assms(3) by (auto simp: golden_def)
  have "e \<notin> set (rb_rows s')"
  proof
    assume in': "e \<in> set (rb_rows s')"
    then have "\<not> list_all golden (rb_rows s')" using e(2) assms(4) by (force simp: list_all_iff golden_def not_le)
    then have "int (length (rb_rows s')) \<le> int (length (rb_rows s))"
      using kept(4) e(3) assms(6) n by auto
    moreover have "card (set (rb_rows s @ [e])) \<le> card (set (rb_rows s'))" using all in' by (intro card_mono) auto
    moreover have "distinct (rb_rows s @ [e])" "distinct (rb_rows s')"
      using keys kept(1) ne by (simp_all add: keys_distinct_def distinct_map)
    ultimately have "length (rb_rows s @ [e]) \<le> length (rb_rows s)" by (simp add: distinct_card del: set_append)
    then show False by simp
  qed
  then have rows: "set (rb_rows s') = set (rb_rows s)" using kept(2) all by auto
  moreover have "get_replay_entry (rx_id e) (rb_rows s') = None"
    using e(1) rows by (simp add: get_replay_entry_def row_of_None)
  ultimately show ?thesis using e(2) by simp
qed

section \<open>Ingestion\<close>

text \<open>
  The response of an ingested trace is never what was said to the user: of all phases that the runtime writes
  only that of a loop decision is among those that are looked for, so without a response in the evidence and
  without a decision the buffer stores the outcome.
\<close>

theorem only_decisions_give_responses:
  assumes "\<forall>e\<in>set events. te_phase e \<in> (range tracePhase_str \<union> range loopPhase_str) - {loop_decision_phase}"
  shows "ingest_response outcome failure_domain [] events = ''outcome:'' @ outcome @ '':'' @ failure_domain"
proof -
  have "response_of_event e = []" if "te_phase e = tracePhase_str p" for e p
    using that by (cases p) (simp_all add: response_of_event_def py_lower_def lower_char_def code_point_def)
  moreover have "response_of_event e = []" if "te_phase e = loopPhase_str p" "te_phase e \<noteq> loop_decision_phase" for e p
    using that by (cases p) (simp_all add: response_of_event_def py_lower_def lower_char_def code_point_def loop_decision_phase_def)
  ultimately have none: "response_of_event e = []" if "e \<in> set events" for e using that assms by blast
  have "first_text response_of_event es = []" if "set es \<subseteq> set events" for es
    using that by (induction es) (auto simp: none)
  from this [of "rev events"] show ?thesis
    by (simp add: ingest_response_def evidence_text_def judge_text_def or_else_def meta_get_def)
qed

section \<open>Witnesses\<close>

text \<open>A buffer for one trace, which holds a golden one.\<close>

definition golden_row :: ReplayRow where
  "golden_row = \<lparr>rx_id = ''g'', rx_trace_id = ''t1'', rx_channel = ''cli'', rx_prompt = ''p'', rx_response = ''r'',
     rx_reward = 1, rx_priority = 1, rx_safeguard_triggered = False, rx_metadata = [], rx_created_at = 1\<rparr>"

definition small_params :: Params where
  "small_params = \<lparr>pm_rows = [\<lparr>pr_name = ''replay_buffer_capacity'', pr_value = 1, pr_updated_at = 1, pr_metadata = []\<rparr>],
     pm_cache = [(''replay_buffer_capacity'', 1)], pm_loaded_at = 1, pm_seeded = True\<rparr>"

definition full_buffer :: ReplayState where
  "full_buffer = \<lparr>rb_rows = [golden_row], rb_params = small_params\<rparr>"

lemma small_params_state: "snd (get_param 2 n f False small_params) = small_params"
  by (simp add: get_param_def sync_def small_params_def)

lemma small_params_capacity: "fst (get_param 2 ''replay_buffer_capacity'' f False small_params) = 1"
  by (simp add: get_param_def sync_def small_params_def)

lemma full_buffer_facts: "keys_distinct rx_id (rb_rows full_buffer)" "coherent (rb_params full_buffer)"
  "\<forall>r\<in>set (rb_rows full_buffer). 4 / 5 \<le> rx_reward r" "rb_params full_buffer = small_params"
  by (simp_all add: full_buffer_def golden_row_def keys_distinct_def coherent_def small_params_def row_of_Cons)

lemma bad_experience:
  "\<exists>e s'. record_experience (\<lambda>b a. Inr b) 2 ''new'' None ''t2'' ''cli'' ''p'' ''r'' (- 1) None True [] full_buffer = (Inr e, s')
    \<and> rb_params s' = small_params"
  by (simp add: record_experience_def prune_buffer_def then_call_def calls parameter_eq small_params_state small_params_capacity
      full_buffer_facts(4) compute_replay_priority_def try_store_def in_store_def sql_insert_def count_rows_def
      truncate_rat_def Let_def split: prod.split)
    (simp add: full_buffer_def golden_row_def)

theorem golden_traces_survive_witness:
  "\<exists>e s'. record_experience (\<lambda>b a. Inr b) 2 ''new'' None ''t2'' ''cli'' ''p'' ''r'' (- 1) None True [] full_buffer = (Inr e, s')
    \<and> golden_row \<in> set (rb_rows s')"
proof -
  obtain e s' where r: "record_experience (\<lambda>b a. Inr b) 2 ''new'' None ''t2'' ''cli'' ''p'' ''r'' (- 1) None True [] full_buffer = (Inr e, s')"
    using bad_experience by blast
  have "golden_row \<in> set (rb_rows s')"
    using golden_traces_survive [OF full_buffer_facts(1,2) r refl] by (auto simp: full_buffer_def golden_row_def)
  with r show ?thesis by blast
qed

theorem hard_negatives_are_forgotten_witness:
  "\<exists>e s'. record_experience (\<lambda>b a. Inr b) 2 ''new'' None ''t2'' ''cli'' ''p'' ''r'' (- 1) None True [] full_buffer = (Inr e, s')
    \<and> get_replay_entry (rx_id e) (rb_rows s') = None"
proof -
  obtain e s' where r: "record_experience (\<lambda>b a. Inr b) 2 ''new'' None ''t2'' ''cli'' ''p'' ''r'' (- 1) None True [] full_buffer = (Inr e, s')"
    and p: "rb_params s' = small_params"
    using bad_experience by blast
  have "truncate_rat (fst (get_param 2 ''replay_buffer_capacity'' (Some 5000) False (rb_params s'))) \<le> int (length (rb_rows full_buffer))"
    unfolding p small_params_capacity by (simp add: truncate_rat_def full_buffer_def)
  then have "get_replay_entry (rx_id e) (rb_rows s') = None"
    using hard_negatives_are_forgotten [OF full_buffer_facts(1,2,3) _ r] by simp
  with r show ?thesis by blast
qed

theorem only_decisions_give_responses_witness:
  "ingest_response ''success'' ''none'' [] [(sample_event ''e'' ''channel.egress'' True [])\<lparr>te_message := ''the answer''\<rparr>] =
     ''outcome:success:none''"
  by (subst only_decisions_give_responses)
    (auto simp: image_iff loop_decision_phase_def intro: exI [of _ TracePhase_CHANNEL_EGRESS])

end
