(* ===== verification/Trace_Store.thy ===== *)
theory Trace_Store
  imports Trace_Rules Graph_Decisions Store_Actions
begin

text \<open>
  \<open>TraceStore\<close> of \<open>navi/trace.py\<close>: the tables of events, evaluations and blobs. Long texts of an event are
  kept apart under their digest and put back when the event is read. \<open>redact\<close> is the redaction of
  \<open>safeguards.py\<close> and \<open>md5\<close> the hexadecimal digest of a text. Keys of a dictionary keep the caller's order
  in the value of a column; its text has them sorted.
\<close>

section \<open>Tables\<close>

record TraceEvaluation =
  tv_id :: string
  tv_trace_id :: string
  tv_outcome :: string
  tv_failure_domain :: string
  tv_evidence :: dict
  tv_created_at :: time

record TraceDb =
  tr_events :: "TraceEvent list"
  tr_evaluations :: "TraceEvaluation list"
  tr_blobs :: "(string \<times> string) list"

definition trace_evaluation_to_dict :: "TraceEvaluation \<Rightarrow> dict" where
  "trace_evaluation_to_dict v =
     [(''id'', JStr (tv_id v)), (''trace_id'', JStr (tv_trace_id v)), (''outcome'', JStr (tv_outcome v)),
      (''failure_domain'', JStr (tv_failure_domain v)), (''evidence'', JDict (tv_evidence v)),
      (''created_at'', JFloat (tv_created_at v))]"

section \<open>Long texts\<close>

definition blob_key :: string where
  "blob_key = CHR 0x24 # ''blob''"

text \<open>\<open>_extract_blobs\<close> with its limit of 1024: what is left of a value, and the texts it put aside.\<close>

fun without_blobs :: "(string \<Rightarrow> string) \<Rightarrow> json \<Rightarrow> json" where
  "without_blobs md5 (JDict d) = JDict (map (\<lambda>(k, v). (k, without_blobs md5 v)) d)"
| "without_blobs md5 (JList xs) = JList (map (without_blobs md5) xs)"
| "without_blobs md5 (JStr s) = (if 1024 < length s then JDict [(blob_key, JStr (md5 s))] else JStr s)"
| "without_blobs md5 v = v"

fun long_texts :: "json \<Rightarrow> string list" where
  "long_texts (JDict d) = concat (map (\<lambda>(k, v). long_texts v) d)"
| "long_texts (JList xs) = concat (map long_texts xs)"
| "long_texts (JStr s) = (if 1024 < length s then [s] else [])"
| "long_texts v = []"

definition insert_blobs :: "(string \<Rightarrow> string) \<Rightarrow> string list \<Rightarrow> (string \<times> string) list \<Rightarrow> (string \<times> string) list" where
  "insert_blobs md5 texts blobs =
     fold (\<lambda>(h, c). sql_insert_or_ignore fst (h, c))
       (fold (\<lambda>s. AList.update (md5 s) s) texts []) blobs"

text \<open>
  \<open>_find_hashes\<close>: the references a value holds. The value of a reference is whatever stands under the key;
  a list or a dictionary cannot be put into a set and raises.
\<close>

fun blob_refs :: "json \<Rightarrow> json list" where
  "blob_refs (JDict d) = (if length d = 1 \<and> fst (hd d) = blob_key then [snd (hd d)]
     else concat (map (\<lambda>(k, v). blob_refs v) d))"
| "blob_refs (JList xs) = concat (map blob_refs xs)"
| "blob_refs v = []"

definition hashable :: "json \<Rightarrow> bool" where
  "hashable v = (case v of JDict _ \<Rightarrow> False | JList _ \<Rightarrow> False | _ \<Rightarrow> True)"

definition blob_content :: "(string \<times> string) list \<Rightarrow> json \<Rightarrow> json" where
  "blob_content blobs h =
     (case (case h of JStr s \<Rightarrow> map_of blobs s | _ \<Rightarrow> None) of
        Some c \<Rightarrow> JStr c
      | None \<Rightarrow> JStr (''<missing blob: '' @ py_str h @ ''>''))"

fun with_blobs :: "(string \<times> string) list \<Rightarrow> json \<Rightarrow> json" where
  "with_blobs blobs (JDict d) = (if length d = 1 \<and> fst (hd d) = blob_key then blob_content blobs (snd (hd d))
     else JDict (map (\<lambda>(k, v). (k, with_blobs blobs v)) d))"
| "with_blobs blobs (JList xs) = JList (map (with_blobs blobs) xs)"
| "with_blobs blobs v = v"

definition quoted_blob_key :: string where
  "quoted_blob_key = json_text blob_key"

definition has_blob :: "TraceEvent \<Rightarrow> bool" where
  "has_blob e = (contains_text quoted_blob_key (te_input_json e) \<or> contains_text quoted_blob_key (te_output_json e))"

text \<open>\<open>json.loads\<close> of a column, with \<open>None\<close> for the empty text.\<close>

definition column_value :: "string \<Rightarrow> json option \<Rightarrow> json result" where
  "column_value text parsed =
     (if text = [] then Inr JNull
      else case parsed of None \<Rightarrow> Inl (ValueError ''Expecting value'') | Some v \<Rightarrow> Inr v)"

definition dumps_or_empty :: "json \<Rightarrow> string" where
  "dumps_or_empty v = (if v = JNull then [] else json_dumps v)"

definition loaded :: "json \<Rightarrow> json option" where
  "loaded v = (if v = JNull then None else Some v)"

fun parse_events :: "TraceEvent list \<Rightarrow> (TraceEvent \<times> (json \<times> json) option) list result" where
  "parse_events [] = Inr []"
| "parse_events (e # es) =
     and_then (if has_blob e
        then and_then (column_value (te_input_json e) (te_input e)) (\<lambda>i.
             and_then (column_value (te_output_json e) (te_output e)) (\<lambda>out. Inr (Some (i, out))))
        else Inr None) (\<lambda>parsed.
     and_then (case parsed of None \<Rightarrow> Inr ()
        | Some (i, out) \<Rightarrow> if list_all hashable (blob_refs i @ blob_refs out) then Inr ()
            else Inl (TypeError ''unhashable type'')) (\<lambda>_.
     and_then (parse_events es) (\<lambda>rest. Inr ((e, parsed) # rest))))"

definition resolve_event :: "(string \<times> string) list \<Rightarrow> TraceEvent \<times> (json \<times> json) option \<Rightarrow> TraceEvent" where
  "resolve_event blobs ep =
     (case ep of (e, None) \<Rightarrow> e
      | (e, Some (i, out)) \<Rightarrow>
          let i' = with_blobs blobs i; out' = with_blobs blobs out
          in e\<lparr>te_input_json := dumps_or_empty i', te_input := loaded i',
               te_output_json := dumps_or_empty out', te_output := loaded out'\<rparr>)"

definition resolve_events_blobs :: "(string \<times> string) list \<Rightarrow> TraceEvent list \<Rightarrow> TraceEvent list result" where
  "resolve_events_blobs blobs events =
     and_then (parse_events events) (\<lambda>parsed.
       if list_all (\<lambda>(e, p). case p of None \<Rightarrow> True | Some (i, out) \<Rightarrow> blob_refs i = [] \<and> blob_refs out = []) parsed
       then Inr events
       else Inr (map (resolve_event blobs) parsed))"

section \<open>Events\<close>

record NewEvent =
  ne_trace_id :: string
  ne_phase :: string
  ne_session_id :: string
  ne_run_id :: string
  ne_source :: string
  ne_peer_id :: string
  ne_sender_id :: string
  ne_tool :: string
  ne_model_role :: string
  ne_ok :: bool
  ne_input_data :: dict
  ne_output_data :: dict
  ne_message :: string

definition event_with :: "NewEvent \<Rightarrow> string \<Rightarrow> time \<Rightarrow> string \<Rightarrow> json \<Rightarrow> json \<Rightarrow> TraceEvent" where
  "event_with a new_id now message i out =
     \<lparr>te_id = new_id, te_trace_id = ne_trace_id a, te_session_id = ne_session_id a, te_run_id = ne_run_id a,
      te_phase = ne_phase a, te_source = ne_source a, te_peer_id = ne_peer_id a, te_sender_id = ne_sender_id a,
      te_tool = ne_tool a, te_model_role = ne_model_role a, te_ok = ne_ok a,
      te_input_json = json_dumps i, te_input = Some i, te_output_json = json_dumps out, te_output = Some out,
      te_message = message, te_created_at = now\<rparr>"

text \<open>\<open>locked\<close>: the write met a locked database, which the store passes over in silence.\<close>

definition add_event ::
  "(json \<Rightarrow> json) \<Rightarrow> (string \<Rightarrow> string) \<Rightarrow> bool \<Rightarrow> string \<Rightarrow> time \<Rightarrow> NewEvent \<Rightarrow> TraceDb \<Rightarrow> (TraceEvent \<times> TraceDb) result" where
  "add_event redact md5 locked new_id now a db =
     (let i = redact (JDict (ne_input_data a)); out = redact (JDict (ne_output_data a));
          message = py_str (redact (JStr (ne_message a)));
          stored = event_with a new_id now message (without_blobs md5 i) (without_blobs md5 out);
          answered = event_with a new_id now message i out
      in if locked then Inr (answered, db)
         else and_then (sql_insert te_id stored (tr_events db)) (\<lambda>events.
           Inr (answered, db\<lparr>tr_events := events, tr_blobs := insert_blobs md5 (long_texts i @ long_texts out) (tr_blobs db)\<rparr>)))"

definition decision_event :: "LoopDecision \<Rightarrow> string \<Rightarrow> string \<Rightarrow> string \<Rightarrow> string \<Rightarrow> string \<Rightarrow> string \<Rightarrow> NewEvent" where
  "decision_event d trace_id session_id run source peer_id sender_id =
     \<lparr>ne_trace_id = trace_id, ne_phase = loop_decision_phase, ne_session_id = session_id,
      ne_run_id = or_else run (ld_run_id d), ne_source = source, ne_peer_id = peer_id, ne_sender_id = sender_id,
      ne_tool = ld_tool d, ne_model_role = ''runtime'', ne_ok = loop_decision_ok d, ne_input_data = [],
      ne_output_data = loop_decision_to_dict d, ne_message = ld_decision d @ '': '' @ ld_reason d\<rparr>"

definition add_loop_decision ::
  "(json \<Rightarrow> json) \<Rightarrow> (string \<Rightarrow> string) \<Rightarrow> bool \<Rightarrow> string \<Rightarrow> time \<Rightarrow> LoopDecision \<Rightarrow> string \<Rightarrow> string \<Rightarrow> string \<Rightarrow> string \<Rightarrow>
     string \<Rightarrow> string \<Rightarrow> TraceDb \<Rightarrow> (TraceEvent \<times> TraceDb) result" where
  "add_loop_decision redact md5 locked new_id now d trace_id session_id run source peer_id sender_id db =
     add_event redact md5 locked new_id now (decision_event d trace_id session_id run source peer_id sender_id) db"

definition list_trace_events :: "string \<Rightarrow> int \<Rightarrow> int \<Rightarrow> TraceDb \<Rightarrow> TraceEvent list result" where
  "list_trace_events trace_id limit offset db =
     resolve_events_blobs (tr_blobs db) (sql_limit limit (sql_offset offset
       (sql_asc te_created_at (filter (\<lambda>e. te_trace_id e = trace_id) (tr_events db)))))"

definition list_loop_decisions :: "string \<Rightarrow> int \<Rightarrow> int \<Rightarrow> TraceDb \<Rightarrow> TraceEvent list result" where
  "list_loop_decisions trace_id limit offset db =
     resolve_events_blobs (tr_blobs db) (sql_limit limit (sql_offset offset
       (sql_asc te_created_at (filter (\<lambda>e. te_trace_id e = trace_id \<and> te_phase e = loop_decision_phase) (tr_events db)))))"

section \<open>Evaluations\<close>

definition list_trace_evaluations :: "string \<Rightarrow> int \<Rightarrow> TraceDb \<Rightarrow> TraceEvaluation list" where
  "list_trace_evaluations trace_id limit db =
     sql_limit limit (sql_desc tv_created_at
       (filter (\<lambda>v. trace_id = [] \<or> tv_trace_id v = trace_id) (tr_evaluations db)))"

definition upsert_evaluation :: "TraceEvaluation \<Rightarrow> TraceEvaluation list \<Rightarrow> TraceEvaluation list" where
  "upsert_evaluation v t =
     (if row_of tv_trace_id (tv_trace_id v) t = None then t @ [v]
      else sql_update (\<lambda>r. tv_trace_id r = tv_trace_id v)
        (\<lambda>r. r\<lparr>tv_outcome := tv_outcome v, tv_failure_domain := tv_failure_domain v, tv_evidence := tv_evidence v,
              tv_created_at := tv_created_at v\<rparr>) t)"

definition record_evaluation ::
  "string \<Rightarrow> time \<Rightarrow> string \<Rightarrow> string \<Rightarrow> string \<Rightarrow> dict \<Rightarrow> TraceDb \<Rightarrow> (TraceEvaluation \<times> TraceDb) result" where
  "record_evaluation new_id now trace_id outcome failure_domain evidence db =
     (let v = \<lparr>tv_id = new_id, tv_trace_id = trace_id, tv_outcome = outcome, tv_failure_domain = failure_domain,
            tv_evidence = evidence, tv_created_at = now\<rparr>;
          t = upsert_evaluation v (tr_evaluations db)
      in case row_of tv_trace_id trace_id t of
           None \<Rightarrow> Inl (RuntimeError ''trace evaluation was not persisted'')
         | Some r \<Rightarrow> Inr (r, db\<lparr>tr_evaluations := t\<rparr>))"

text \<open>Before the credit assignment, which writes to other stores and whose exceptions are logged.\<close>

definition evaluate_trace :: "string \<Rightarrow> time \<Rightarrow> string \<Rightarrow> TraceDb \<Rightarrow> (TraceEvaluation \<times> TraceDb) result" where
  "evaluate_trace new_id now trace_id db =
     and_then (list_trace_events trace_id 5000 0 db) (\<lambda>events.
     and_then (assess_trace events) (\<lambda>(d, evidence).
     record_evaluation new_id now trace_id (td_outcome d) (td_failure_domain d) evidence db))"

definition trace_list_outcome :: "string \<Rightarrow> TraceDb \<Rightarrow> (string \<times> string) result" where
  "trace_list_outcome trace_id db =
     (case list_trace_evaluations trace_id 1 db of
        v # _ \<Rightarrow> Inr (tv_outcome v, tv_failure_domain v)
      | [] \<Rightarrow> and_then (list_trace_events trace_id 5000 0 db) (\<lambda>events.
          and_then (assess_trace events) (\<lambda>(d, _). Inr (td_outcome d, td_failure_domain d))))"

section \<open>Deleting\<close>

text \<open>One match of \<open>"\$blob"\s*:\s*"([^"]+)"\<close> at the head of a text: the group, and what follows.\<close>

definition match_blob :: "string \<Rightarrow> (string \<times> string) option" where
  "match_blob s =
     (if \<not> py_startswith s quoted_blob_key then None
      else case dropWhile is_py_space (drop (length quoted_blob_key) s) of
        [] \<Rightarrow> None
      | c # r \<Rightarrow> if c \<noteq> CHR '':'' then None
          else case dropWhile is_py_space r of
            [] \<Rightarrow> None
          | q # r' \<Rightarrow>
              let h = takeWhile (\<lambda>x. x \<noteq> CHR 0x22) r'; rest = dropWhile (\<lambda>x. x \<noteq> CHR 0x22) r'
              in if q \<noteq> CHR 0x22 \<or> h = [] \<or> rest = [] then None else Some (h, tl rest))"

fun find_blobs :: "nat \<Rightarrow> string \<Rightarrow> string list" where
  "find_blobs 0 s = []"
| "find_blobs (Suc n) [] = []"
| "find_blobs (Suc n) (c # s) = (case match_blob (c # s) of None \<Rightarrow> find_blobs n s | Some (h, rest) \<Rightarrow> h # find_blobs n rest)"

definition used_blobs :: "TraceEvent list \<Rightarrow> string set" where
  "used_blobs events = (\<Union>e\<in>set events. set (find_blobs (length (te_input_json e)) (te_input_json e)) \<union>
     set (find_blobs (length (te_output_json e)) (te_output_json e)))"

definition gc_blobs :: "TraceDb \<Rightarrow> TraceDb" where
  "gc_blobs db = db\<lparr>tr_blobs := filter (\<lambda>(h, c). h \<in> used_blobs (tr_events db)) (tr_blobs db)\<rparr>"

definition of_trace :: "string \<Rightarrow> TraceEvent \<Rightarrow> bool" where
  "of_trace trace_id e = (te_trace_id e = trace_id)"

definition delete_trace :: "string \<Rightarrow> TraceDb \<Rightarrow> dict \<times> TraceDb" where
  "delete_trace trace_id db =
     (let events = sql_count (of_trace trace_id) (tr_events db);
          evaluations = sql_count (\<lambda>v. tv_trace_id v = trace_id) (tr_evaluations db);
          db' = gc_blobs (db\<lparr>tr_events := sql_delete (of_trace trace_id) (tr_events db),
            tr_evaluations := sql_delete (\<lambda>v. tv_trace_id v = trace_id) (tr_evaluations db)\<rparr>)
      in ([(''trace_id'', JStr trace_id), (''existed'', JBool (events \<noteq> 0 \<or> evaluations \<noteq> 0)),
           (''deleted_event_count'', JInt (int events)), (''deleted_evaluation_count'', JInt (int evaluations)),
           (''verified_after'', JDict
              [(''event_count'', JInt (int (sql_count (of_trace trace_id) (tr_events db')))),
               (''evaluation_count'', JInt (int (sql_count (\<lambda>v. tv_trace_id v = trace_id) (tr_evaluations db'))))])], db'))"

definition trace_count :: "TraceDb \<Rightarrow> nat" where
  "trace_count db = length (remdups (map te_trace_id (tr_events db) @ map tv_trace_id (tr_evaluations db)))"

definition delete_all_traces :: "TraceDb \<Rightarrow> dict \<times> TraceDb" where
  "delete_all_traces db =
     (let db' = \<lparr>tr_events = [], tr_evaluations = [], tr_blobs = []\<rparr>
      in ([(''trace_count'', JInt (int (trace_count db))), (''deleted_event_count'', JInt (int (length (tr_events db)))),
           (''deleted_evaluation_count'', JInt (int (length (tr_evaluations db)))),
           (''verified_after'', JDict [(''trace_count'', JInt (int (trace_count db'))),
              (''event_count'', JInt (int (length (tr_events db')))),
              (''evaluation_count'', JInt (int (length (tr_evaluations db'))))])], db'))"

definition delete_traces :: "string \<Rightarrow> TraceDb \<Rightarrow> dict \<times> TraceDb" where
  "delete_traces trace_id db = (if trace_id \<noteq> [] then delete_trace trace_id db else delete_all_traces db)"

section \<open>Maintenance\<close>

text \<open>\<open>_redact_json_text\<close>: the text and what it denotes.\<close>

definition redact_json_text :: "(json \<Rightarrow> json) \<Rightarrow> string \<Rightarrow> json option \<Rightarrow> string \<times> json option" where
  "redact_json_text redact text parsed =
     (case (if text = [] then Some (JDict []) else parsed) of
        None \<Rightarrow> (py_str (redact (JStr text)), None)
      | Some v \<Rightarrow> (json_dumps (redact v), Some (redact v)))"

definition redact_event :: "(json \<Rightarrow> json) \<Rightarrow> TraceEvent \<Rightarrow> TraceEvent" where
  "redact_event redact e =
     (let (it, iv) = redact_json_text redact (te_input_json e) (te_input e);
          (ot, ov) = redact_json_text redact (te_output_json e) (te_output e);
          m = py_str (redact (JStr (te_message e)))
      in if it \<noteq> te_input_json e \<or> ot \<noteq> te_output_json e \<or> m \<noteq> te_message e
         then e\<lparr>te_input_json := it, te_input := iv, te_output_json := ot, te_output := ov, te_message := m\<rparr> else e)"

definition redact_existing :: "(json \<Rightarrow> json) \<Rightarrow> TraceDb \<Rightarrow> TraceDb" where
  "redact_existing redact db =
     db\<lparr>tr_events := map (redact_event redact) (tr_events db),
        tr_evaluations := map (\<lambda>v. v\<lparr>tv_evidence := as_dict (redact (JDict (tv_evidence v)))\<rparr>) (tr_evaluations db),
        tr_blobs := map (\<lambda>(h, c). (h, py_str (redact (JStr c)))) (tr_blobs db)\<rparr>"

text \<open>The latest evaluation of each trace stays, the youngest row among equals.\<close>

definition keep_latest_evaluations :: "TraceEvaluation list \<Rightarrow> TraceEvaluation list" where
  "keep_latest_evaluations t =
     filter (\<lambda>v. case sql_desc tv_created_at (rev (filter (\<lambda>w. tv_trace_id w = tv_trace_id v) t)) of
        [] \<Rightarrow> True | w # _ \<Rightarrow> v = w) t"

section \<open>Texts that mention a reference\<close>

lemma contains_text_iff: "contains_text n s \<longleftrightarrow> sublist n s"
proof
  assume "contains_text n s"
  then obtain i where "take (length n) (drop i s) = n" by (auto simp: contains_text_def)
  then have "s = take i s @ n @ drop (length n) (drop i s)" by (metis append_take_drop_id)
  then show "sublist n s" by (metis sublist_appendI)
next
  assume "sublist n s"
  then obtain a b where "s = a @ n @ b" by (auto simp: sublist_def)
  then have "take (length n) (drop (length a) s) = n" "length a < Suc (length s)" by simp_all
  then show "contains_text n s" unfolding contains_text_def by (metis atLeastLessThan_iff set_upt zero_le)
qed

lemma sublist_inside: "sublist a b \<Longrightarrow> sublist a (x @ b @ y)"
  by (auto simp: sublist_def) (metis append.assoc)

lemma sublist_join: "x \<in> set xs \<Longrightarrow> sublist x (join_with sep xs)"
proof (induction sep xs rule: join_with.induct)
  case (3 sep x0 y ys)
  then show ?case
    using sublist_inside [of x "join_with sep (y # ys)" "x0 @ sep" "[]"] sublist_inside [of x x "[]" "sep @ join_with sep (y # ys)"]
    by (cases "x = x0") simp_all
qed simp_all

text \<open>The text of an entry and of an element is part of the text of the whole.\<close>

lemma sublist_entry: "(k, v) \<in> set d \<Longrightarrow> sublist (json_text k @ '': '' @ json_dumps v) (json_dumps (JDict d))"
proof -
  assume "(k, v) \<in> set d"
  then have "json_text k @ '': '' @ json_dumps v \<in> set (map snd (sort_key fst (map (\<lambda>(k, v). (k, json_text k @ '': '' @ json_dumps v)) d)))"
    by force
  then have "sublist (json_text k @ '': '' @ json_dumps v)
      (join_with '', '' (map snd (sort_key fst (map (\<lambda>(k, v). (k, json_text k @ '': '' @ json_dumps v)) d))))"
    by (rule sublist_join)
  then show ?thesis by (simp only: json_dumps.simps sublist_inside)
qed

lemma sublist_element: "x \<in> set xs \<Longrightarrow> sublist (json_dumps x) (json_dumps (JList xs))"
proof -
  assume "x \<in> set xs"
  then have "sublist (json_dumps x) (join_with '', '' (map json_dumps xs))" by (intro sublist_join) simp
  then show ?thesis by (simp only: json_dumps.simps sublist_inside)
qed

lemma refs_are_mentioned: "blob_refs v \<noteq> [] \<Longrightarrow> sublist quoted_blob_key (json_dumps v)"
proof (induction v rule: blob_refs.induct)
  case (1 d)
  show ?case
  proof (cases "length d = 1 \<and> fst (hd d) = blob_key")
    case True
    then obtain v where "d = [(blob_key, v)]" by (cases d) auto
    then have "(blob_key, v) \<in> set d" by simp
    from sublist_entry [OF this] show ?thesis unfolding quoted_blob_key_def
      by (rule sublist_order.order_trans [rotated]) simp
  next
    case False
    then obtain k v where kv: "(k, v) \<in> set d" "blob_refs v \<noteq> []" using 1(2) by auto
    then have "sublist quoted_blob_key (json_dumps v)" using 1(1) False by blast
    also have "sublist (json_dumps v) (json_text k @ '': '' @ json_dumps v)"
      by (metis append.assoc sublist_append_leftI)
    also have "sublist (json_text k @ '': '' @ json_dumps v) (json_dumps (JDict d))" by (rule sublist_entry [OF kv(1)])
    finally show ?thesis .
  qed
next
  case (2 xs)
  then obtain x where "x \<in> set xs" "blob_refs x \<noteq> []" by auto
  then show ?case using 2(1) sublist_element sublist_order.order_trans by blast
qed simp_all

section \<open>Putting texts back\<close>

text \<open>No dictionary of the value looks like a reference.\<close>

fun clean :: "json \<Rightarrow> bool" where
  "clean (JDict d) = (\<not> (length d = 1 \<and> fst (hd d) = blob_key) \<and> list_all (\<lambda>(k, v). clean v) d)"
| "clean (JList xs) = list_all clean xs"
| "clean v = True"

lemma refs_without_blobs: "clean v \<Longrightarrow> blob_refs (without_blobs md5 v) = map (\<lambda>s. JStr (md5 s)) (long_texts v)"
proof (induction v rule: clean.induct)
  case (1 d)
  have "fst (hd (map (\<lambda>(k, v). (k, without_blobs md5 v)) d)) = fst (hd d)" if "length d = 1"
    using that by (cases d) auto
  then have "\<not> (length (map (\<lambda>(k, v). (k, without_blobs md5 v)) d) = 1 \<and>
      fst (hd (map (\<lambda>(k, v). (k, without_blobs md5 v)) d)) = blob_key)"
    using 1(2) by auto
  moreover have "concat (map (\<lambda>x. blob_refs (without_blobs md5 (snd x))) d) =
      concat (map (\<lambda>x. map (\<lambda>s. JStr (md5 s)) (long_texts (snd x))) d)"
    using 1 by (intro arg_cong [where f = concat] map_cong [OF refl]) (auto simp: list_all_iff)
  ultimately show ?case by (auto simp: map_concat comp_def split_def simp del: One_nat_def)
next
  case (2 xs)
  then have "concat (map (blob_refs \<circ> without_blobs md5) xs) = concat (map (\<lambda>x. map (\<lambda>s. JStr (md5 s)) (long_texts x)) xs)"
    by (intro arg_cong [where f = concat] map_cong [OF refl]) (auto simp: list_all_iff)
  then show ?case by (simp add: map_concat comp_def)
qed simp_all

lemma with_without_blobs:
  assumes "clean v" "\<forall>s\<in>set (long_texts v). map_of blobs (md5 s) = Some s"
  shows "with_blobs blobs (without_blobs md5 v) = v"
  using assms
proof (induction v rule: clean.induct)
  case (1 d)
  have "fst (hd (map (\<lambda>(k, v). (k, without_blobs md5 v)) d)) = fst (hd d)" if "length d = 1"
    using that by (cases d) auto
  then have no: "\<not> (length (map (\<lambda>(k, v). (k, without_blobs md5 v)) d) = 1 \<and>
      fst (hd (map (\<lambda>(k, v). (k, without_blobs md5 v)) d)) = blob_key)"
    using 1(2) by auto
  have "map (\<lambda>(k, v). (k, with_blobs blobs (without_blobs md5 v))) d = map (\<lambda>x. x) d"
  proof (rule map_cong [OF refl])
    fix kv assume kv: "kv \<in> set d"
    obtain k v where "kv = (k, v)" by fastforce
    then show "(case kv of (k, v) \<Rightarrow> (k, with_blobs blobs (without_blobs md5 v))) = kv"
      using 1(1) [of "(k, v)" k v] 1(2,3) kv by (auto simp: list_all_iff)
  qed
  then show ?case using no by (auto simp: comp_def split_def simp del: One_nat_def)
next
  case (2 xs)
  then have "map (with_blobs blobs \<circ> without_blobs md5) xs = map (\<lambda>x. x) xs"
    by (intro map_cong [OF refl]) (auto simp: list_all_iff)
  then show ?case by simp
qed (simp_all add: blob_content_def)

lemma without_blobs_same: "long_texts v = [] \<Longrightarrow> without_blobs md5 v = v"
proof (induction v rule: long_texts.induct)
  case (1 d)
  then have "map (\<lambda>(k, v). (k, without_blobs md5 v)) d = map (\<lambda>x. x) d"
    by (intro map_cong [OF refl]) auto
  then show ?case by simp
next
  case (2 xs)
  then have "map (without_blobs md5) xs = map (\<lambda>x. x) xs" by (intro map_cong [OF refl]) auto
  then show ?case by simp
qed (simp_all split: if_splits)

text \<open>An event as it was recorded, and what the table holds of it.\<close>

definition recorded :: "TraceEvent \<Rightarrow> json \<Rightarrow> json \<Rightarrow> bool" where
  "recorded e i out \<longleftrightarrow> te_input e = Some i \<and> te_input_json e = json_dumps i \<and> te_output e = Some out \<and>
     te_output_json e = json_dumps out \<and> is_dict i \<and> is_dict out \<and> clean i \<and> clean out"

definition stored_event :: "(string \<Rightarrow> string) \<Rightarrow> TraceEvent \<Rightarrow> TraceEvent" where
  "stored_event md5 e = (let i = without_blobs md5 (the (te_input e)); out = without_blobs md5 (the (te_output e))
     in e\<lparr>te_input_json := json_dumps i, te_input := Some i, te_output_json := json_dumps out, te_output := Some out\<rparr>)"

definition texts_of :: "TraceEvent \<Rightarrow> string list" where
  "texts_of e = long_texts (the (te_input e)) @ long_texts (the (te_output e))"

lemma dict_text [simp]: "is_dict v \<Longrightarrow> json_dumps v \<noteq> []" "is_dict v \<Longrightarrow> v \<noteq> JNull"
  by (cases v; simp)+

lemma is_dict_without [simp]: "is_dict v \<Longrightarrow> is_dict (without_blobs md5 v)"
  by (cases v) simp_all

lemma stored_event_same: "recorded e i out \<Longrightarrow> texts_of e = [] \<Longrightarrow> stored_event md5 e = e"
  by (cases e) (simp add: recorded_def stored_event_def texts_of_def without_blobs_same)

lemma unmentioned:
  assumes "recorded e i out" "\<not> has_blob (stored_event md5 e)"
  shows "texts_of e = []"
proof -
  have "\<not> sublist quoted_blob_key (json_dumps (without_blobs md5 i))"
    "\<not> sublist quoted_blob_key (json_dumps (without_blobs md5 out))"
    using assms by (simp_all add: has_blob_def stored_event_def recorded_def Let_def contains_text_iff)
  then have "blob_refs (without_blobs md5 i) = []" "blob_refs (without_blobs md5 out) = []"
    using refs_are_mentioned by blast+
  then show ?thesis using assms(1) by (simp add: refs_without_blobs recorded_def texts_of_def)
qed

definition parsed_event :: "(string \<Rightarrow> string) \<Rightarrow> TraceEvent \<Rightarrow> TraceEvent \<times> (json \<times> json) option" where
  "parsed_event md5 e = (stored_event md5 e, if has_blob (stored_event md5 e)
     then Some (without_blobs md5 (the (te_input e)), without_blobs md5 (the (te_output e))) else None)"

lemma parse_stored:
  assumes "\<forall>e\<in>set es. \<exists>i out. recorded e i out"
  shows "parse_events (map (stored_event md5) es) = Inr (map (parsed_event md5) es)"
  using assms
proof (induction es)
  case (Cons e es)
  then obtain i out where r: "recorded e i out" by auto
  then have "column_value (te_input_json (stored_event md5 e)) (te_input (stored_event md5 e)) = Inr (without_blobs md5 i)"
    "column_value (te_output_json (stored_event md5 e)) (te_output (stored_event md5 e)) = Inr (without_blobs md5 out)"
    by (simp_all add: column_value_def stored_event_def recorded_def Let_def)
  moreover have "list_all hashable (blob_refs (without_blobs md5 i) @ blob_refs (without_blobs md5 out))"
    using r by (auto simp: recorded_def refs_without_blobs list_all_iff hashable_def)
  ultimately show ?case using Cons r by (auto simp: parsed_event_def recorded_def)
qed simp

lemma resolve_stored:
  assumes "\<forall>e\<in>set es. \<exists>i out. recorded e i out" "\<forall>e\<in>set es. \<forall>s\<in>set (texts_of e). map_of blobs (md5 s) = Some s"
  shows "resolve_events_blobs blobs (map (stored_event md5) es) = Inr es"
proof -
  have one: "resolve_event blobs (parsed_event md5 e) = e" if e: "e \<in> set es" for e
  proof -
    obtain i out where r: "recorded e i out" using assms(1) e by blast
    show ?thesis
    proof (cases "has_blob (stored_event md5 e)")
      case True
      have "with_blobs blobs (without_blobs md5 i) = i" "with_blobs blobs (without_blobs md5 out) = out"
        using r assms(2) e by (auto simp: recorded_def texts_of_def intro!: with_without_blobs)
      then show ?thesis using r True
        by (cases e) (simp add: resolve_event_def parsed_event_def recorded_def stored_event_def Let_def dumps_or_empty_def loaded_def)
    next
      case False
      then show ?thesis using unmentioned [OF r False] stored_event_same [OF r] by (simp add: resolve_event_def parsed_event_def)
    qed
  qed
  have same: "stored_event md5 e = e" if e: "e \<in> set es"
      and none: "case snd (parsed_event md5 e) of None \<Rightarrow> True | Some (i, out) \<Rightarrow> blob_refs i = [] \<and> blob_refs out = []" for e
  proof -
    obtain i out where r: "recorded e i out" using assms(1) e by blast
    show ?thesis
    proof (cases "has_blob (stored_event md5 e)")
      case True
      then have "blob_refs (without_blobs md5 i) = []" "blob_refs (without_blobs md5 out) = []"
        using none r by (auto simp: parsed_event_def recorded_def)
      then have "texts_of e = []" using r by (simp add: recorded_def refs_without_blobs texts_of_def)
      then show ?thesis by (rule stored_event_same [OF r])
    next
      case False
      then show ?thesis using unmentioned [OF r False] stored_event_same [OF r] by blast
    qed
  qed
  show ?thesis
  proof (cases "list_all (\<lambda>(e, p). case p of None \<Rightarrow> True | Some (i, out) \<Rightarrow> blob_refs i = [] \<and> blob_refs out = []) (map (parsed_event md5) es)")
    case True
    then have "map (stored_event md5) es = map (\<lambda>e. e) es"
      using same by (intro map_cong [OF refl]) (auto simp: list_all_iff split_beta)
    then show ?thesis unfolding resolve_events_blobs_def parse_stored [OF assms(1)] using True by simp
  next
    case False
    have "map (resolve_event blobs \<circ> parsed_event md5) es = map (\<lambda>e. e) es"
      using one by (intro map_cong [OF refl]) simp
    then show ?thesis unfolding resolve_events_blobs_def parse_stored [OF assms(1)] using False by simp
  qed
qed

section \<open>What was recorded is read back\<close>

text \<open>
  A sequence of calls of \<open>add_event\<close>, each with its identifier and its clock, and with whether it
  meets a locked database.
\<close>

type_synonym event_call = "bool \<times> string \<times> time \<times> NewEvent"

fun add_events ::
  "(json \<Rightarrow> json) \<Rightarrow> (string \<Rightarrow> string) \<Rightarrow> event_call list \<Rightarrow> TraceDb \<Rightarrow> (TraceEvent list \<times> TraceDb) result" where
  "add_events redact md5 [] db = Inr ([], db)"
| "add_events redact md5 ((locked, i, t, a) # calls) db =
     and_then (add_event redact md5 locked i t a db) (\<lambda>(e, db').
     and_then (add_events redact md5 calls db') (\<lambda>(es, db''). Inr (e # es, db'')))"

text \<open>The calls that write, and the answers of these.\<close>

definition writing :: "event_call list \<Rightarrow> event_call list" where
  "writing calls = filter (\<lambda>(locked, c). \<not> locked) calls"

fun written :: "event_call list \<Rightarrow> TraceEvent list \<Rightarrow> TraceEvent list" where
  "written ((locked, c) # calls) (e # es) = (if locked then written calls es else e # written calls es)"
| "written _ _ = []"

definition data_of :: "(json \<Rightarrow> json) \<Rightarrow> NewEvent \<Rightarrow> json list" where
  "data_of redact a = [redact (JDict (ne_input_data a)), redact (JDict (ne_output_data a))]"

definition long_texts_of :: "(json \<Rightarrow> json) \<Rightarrow> event_call list \<Rightarrow> string set" where
  "long_texts_of redact calls = (\<Union>(locked, i, t, a)\<in>set calls. set (concat (map long_texts (data_of redact a))))"

definition blobs_hold :: "(string \<Rightarrow> string) \<Rightarrow> string set \<Rightarrow> (string \<times> string) list \<Rightarrow> bool" where
  "blobs_hold md5 texts blobs \<longleftrightarrow> (\<forall>s\<in>texts. map_of blobs (md5 s) = Some s) \<and> (\<forall>(h, c)\<in>set blobs. c \<in> texts \<and> h = md5 c)"

lemma map_of_insert_ignore:
  "map_of (fold (sql_insert_or_ignore fst) new blobs) k = (case map_of blobs k of None \<Rightarrow> map_of new k | Some c \<Rightarrow> Some c)"
proof (induction new arbitrary: blobs)
  case (Cons hc new)
  have "map_of (sql_insert_or_ignore fst hc blobs) k =
      (case map_of blobs k of None \<Rightarrow> if fst hc = k then Some (snd hc) else None | Some c \<Rightarrow> Some c)"
    using map_of_eq_None_iff [of blobs "fst hc"]
    by (auto simp: sql_insert_or_ignore_def map_add_def split: option.splits)
  then show ?case using Cons.IH [of "sql_insert_or_ignore fst hc blobs"] by (auto split: option.splits)
qed (simp split: option.split)

lemma set_insert_ignore: "set (fold (sql_insert_or_ignore fst) new blobs) \<subseteq> set new \<union> set blobs"
proof (induction new arbitrary: blobs)
  case (Cons hc new)
  have "set (sql_insert_or_ignore fst hc blobs) \<subseteq> insert hc (set blobs)" by (simp add: sql_insert_or_ignore_def subset_insertI)
  then show ?case using Cons.IH [of "sql_insert_or_ignore fst hc blobs"] by auto
qed simp

lemma update_subset: "set (AList.update k v xs) \<subseteq> insert (k, v) (set xs)"
  by (induction xs) auto

lemma blob_updates:
  assumes "inj_on md5 (texts \<union> set ts)" "\<forall>s\<in>texts. map_of acc (md5 s) = Some s" "\<forall>(h, c)\<in>set acc. c \<in> texts \<and> h = md5 c"
  shows "blobs_hold md5 (texts \<union> set ts) (fold (\<lambda>s. AList.update (md5 s) s) ts acc)"
  using assms
proof (induction ts arbitrary: texts acc)
  case (Cons t ts)
  have inj: "md5 s = md5 t \<longleftrightarrow> s = t" if "s \<in> texts" for s
    using inj_on_eq_iff [OF Cons.prems(1), of s t] that by simp
  have "blobs_hold md5 (insert t texts \<union> set ts) (fold (\<lambda>s. AList.update (md5 s) s) ts (AList.update (md5 t) t acc))"
  proof (rule Cons.IH)
    show "inj_on md5 (insert t texts \<union> set ts)" using Cons.prems(1) by simp
    show "\<forall>s\<in>insert t texts. map_of (AList.update (md5 t) t acc) (md5 s) = Some s"
      using Cons.prems(2) inj by (auto simp: update_conv')
    show "\<forall>(h, c)\<in>set (AList.update (md5 t) t acc). c \<in> insert t texts \<and> h = md5 c"
      using Cons.prems(3) by (auto dest!: set_mp [OF update_subset])
  qed
  then show ?case by simp
qed (simp add: blobs_hold_def)

lemma insert_blobs_hold:
  assumes "blobs_hold md5 texts blobs" "inj_on md5 (texts \<union> set ts)"
  shows "blobs_hold md5 (texts \<union> set ts) (insert_blobs md5 ts blobs)"
proof -
  let ?new = "fold (\<lambda>s. AList.update (md5 s) s) ts []"
  have new: "blobs_hold md5 ({} \<union> set ts) ?new"
    using inj_on_subset [OF assms(2)] by (intro blob_updates) auto
  have "map_of (insert_blobs md5 ts blobs) (md5 s) = Some s" if "s \<in> texts \<union> set ts" for s
  proof (cases "map_of blobs (md5 s)")
    case None
    then have "s \<in> set ts" using assms(1) that by (auto simp: blobs_hold_def)
    then show ?thesis using None new by (simp add: insert_blobs_def map_of_insert_ignore blobs_hold_def case_prod_eta)
  next
    case (Some c)
    then have "c \<in> texts" "md5 s = md5 c" using assms(1) by (auto simp: blobs_hold_def dest: map_of_SomeD)
    then have "c = s" using assms(2) that by (auto dest: inj_onD)
    then show ?thesis using Some by (simp add: insert_blobs_def map_of_insert_ignore)
  qed
  moreover have "\<forall>(h, c)\<in>set (insert_blobs md5 ts blobs). c \<in> texts \<union> set ts \<and> h = md5 c"
    using set_insert_ignore [of ?new blobs] new assms(1) by (fastforce simp: insert_blobs_def blobs_hold_def)
  ultimately show ?thesis by (simp add: blobs_hold_def)
qed

lemma add_events_stored:
  assumes "add_events redact md5 calls db = Inr (es, db')"
    and "\<forall>(l, i, t, a)\<in>set (writing calls). list_all (\<lambda>v. is_dict v \<and> clean v) (data_of redact a)"
    and "blobs_hold md5 texts (tr_blobs db)"
    and "inj_on md5 (texts \<union> long_texts_of redact (writing calls))"
  shows "tr_events db' = tr_events db @ map (stored_event md5) (written calls es) \<and>
    (\<forall>e\<in>set (written calls es). \<exists>i out. recorded e i out) \<and>
    (\<forall>e\<in>set (written calls es). \<forall>s\<in>set (texts_of e). map_of (tr_blobs db') (md5 s) = Some s) \<and>
    (\<forall>s\<in>texts. map_of (tr_blobs db') (md5 s) = Some s)"
  using assms
proof (induction calls arbitrary: db es texts)
  case Nil
  then show ?case by (simp add: blobs_hold_def)
next
  case (Cons call calls)
  obtain l i t a where call: "call = (l, i, t, a)" by (metis prod.exhaust)
  obtain e db1 es1 where 1: "add_event redact md5 l i t a db = Inr (e, db1)"
      "add_events redact md5 calls db1 = Inr (es1, db')" "es = e # es1"
    using Cons.prems(1) by (auto simp: call)
  show ?case
  proof (cases l)
    case True
    then have "db1 = db" using 1(1) by (auto simp: add_event_def Let_def)
    moreover have "writing (call # calls) = writing calls" "written (call # calls) es = written calls es1"
      using True 1(3) by (simp_all add: writing_def call)
    ultimately show ?thesis
      using Cons.IH [of db es1 texts] 1(2) Cons.prems(2-4) by simp
  next
    case False
    have writing: "writing (call # calls) = call # writing calls" and written: "written (call # calls) es = e # written calls es1"
      using False 1(3) by (simp_all add: writing_def call)
    let ?i = "redact (JDict (ne_input_data a))" and ?o = "redact (JDict (ne_output_data a))"
    have r: "recorded e ?i ?o" and stored: "tr_events db1 = tr_events db @ [stored_event md5 e]"
      and blobs: "tr_blobs db1 = insert_blobs md5 (texts_of e) (tr_blobs db)"
      using 1(1) Cons.prems(2) call False writing
      by (auto simp: add_event_def Let_def sql_insert_Inr_iff event_with_def recorded_def stored_event_def texts_of_def data_of_def
          elim!: and_then.elims)
    let ?texts = "texts \<union> set (texts_of e)"
    have texts: "long_texts_of redact (writing (call # calls)) = set (texts_of e) \<union> long_texts_of redact (writing calls)"
      using r unfolding writing by (auto simp: texts_of_def recorded_def data_of_def long_texts_of_def call)
    have hold: "blobs_hold md5 ?texts (tr_blobs db1)"
      unfolding blobs using Cons.prems(3)
      by (rule insert_blobs_hold) (rule inj_on_subset [OF Cons.prems(4)], use texts in auto)
    have "tr_events db' = tr_events db1 @ map (stored_event md5) (written calls es1) \<and>
        (\<forall>e\<in>set (written calls es1). \<exists>i out. recorded e i out) \<and>
        (\<forall>e\<in>set (written calls es1). \<forall>s\<in>set (texts_of e). map_of (tr_blobs db') (md5 s) = Some s) \<and>
        (\<forall>s\<in>?texts. map_of (tr_blobs db') (md5 s) = Some s)"
    proof (rule Cons.IH [OF 1(2) _ hold])
      show "\<forall>(l, i, t, a)\<in>set (writing calls). list_all (\<lambda>v. is_dict v \<and> clean v) (data_of redact a)"
        using Cons.prems(2) writing by auto
      show "inj_on md5 (?texts \<union> long_texts_of redact (writing calls))"
        by (rule inj_on_subset [OF Cons.prems(4)]) (use texts in auto)
    qed
    then show ?thesis using stored r unfolding written by auto
  qed
qed

lemma stored_event_fields [simp]:
  "te_created_at (stored_event md5 e) = te_created_at e" "te_trace_id (stored_event md5 e) = te_trace_id e"
  by (simp_all add: stored_event_def Let_def)

lemma sort_key_map: "sort_key k (map f xs) = map f (sort_key (\<lambda>x. k (f x)) xs)"
proof (induction xs)
  case (Cons x xs)
  have "insort_key k (f x) (map f ys) = map f (insort_key (\<lambda>x. k (f x)) x ys)" for ys
    by (induction ys) auto
  then show ?case using Cons by simp
qed simp

text \<open>
  C30. What was recorded is read back: after any sequence of recording calls, of which any may meet a locked
  database, the list of a trace is the list of what those calls answered that did not, in the order of time,
  with every long text that was put aside back in its place. No two of the long texts have one digest, and no
  recorded value looks like a reference to one. What a call answers for an event that met the lock is in no
  list: the store passes over the loss in silence.
\<close>

theorem traced_events_are_read_back:
  assumes "add_events redact md5 calls \<lparr>tr_events = [], tr_evaluations = [], tr_blobs = []\<rparr> = Inr (es, db)"
    and "\<forall>(l, i, t, a)\<in>set (writing calls). list_all (\<lambda>v. is_dict v \<and> clean v) (data_of redact a)"
    and "inj_on md5 (long_texts_of redact (writing calls))"
  shows "list_trace_events trace_id limit offset db =
    Inr (sql_limit limit (sql_offset offset (sql_asc te_created_at (filter (\<lambda>e. te_trace_id e = trace_id) (written calls es)))))"
proof -
  let ?es = "written calls es"
  have s: "tr_events db = map (stored_event md5) ?es" "\<forall>e\<in>set ?es. \<exists>i out. recorded e i out"
    "\<forall>e\<in>set ?es. \<forall>s\<in>set (texts_of e). map_of (tr_blobs db) (md5 s) = Some s"
    using add_events_stored [OF assms(1,2), of "{}"] assms(3) by (simp_all add: blobs_hold_def)
  let ?page = "\<lambda>xs. sql_limit limit (sql_offset offset (sql_asc te_created_at (filter (\<lambda>e. te_trace_id e = trace_id) xs)))"
  have "?page (map (stored_event md5) ?es) = map (stored_event md5) (?page ?es)"
    by (simp add: sql_limit_def sql_offset_def sql_asc_def filter_map comp_def sort_key_map take_map drop_map)
  moreover have "set (?page ?es) \<subseteq> set ?es"
    using set_sql_limit [of limit] by (fastforce simp: sql_offset_def dest: in_set_dropD)
  then have "resolve_events_blobs (tr_blobs db) (map (stored_event md5) (?page ?es)) = Inr (?page ?es)"
    using s(2,3) by (intro resolve_stored) blast+
  ultimately show ?thesis by (simp add: list_trace_events_def s(1))
qed

text \<open>
  Data that looks like a reference is not read back: an event whose output is a dictionary with the one
  key of a reference comes back with a text in the place of the dictionary.
\<close>

theorem lookalike_is_lost:
  assumes "add_event (\<lambda>v. v) md5 False i t a \<lparr>tr_events = [], tr_evaluations = [], tr_blobs = []\<rparr> = Inr (e, db)"
    and "ne_output_data a = [(k, JDict [(blob_key, JStr h)])]" "k \<noteq> blob_key" "ne_input_data a = []" "length h \<le> 1024"
  shows "te_output e = Some (JDict [(k, JDict [(blob_key, JStr h)])]) \<and>
    (\<exists>e'. list_trace_events (ne_trace_id a) 1 0 db = Inr [e'] \<and> te_output e' = Some (JDict [(k, JStr (''<missing blob: '' @ h @ ''>''))]))"
proof -
  let ?out = "JDict [(k, JDict [(blob_key, JStr h)])]"
  have e: "te_output e = Some ?out" and db: "tr_events db = [e]" "tr_blobs db = []" and id: "te_trace_id e = ne_trace_id a"
    and cols: "te_output_json e = json_dumps ?out" "te_input e = Some (JDict [])" "te_input_json e = json_dumps (JDict [])"
    using assms by (auto simp: add_event_def Let_def sql_insert_def event_with_def insert_blobs_def)
  have "has_blob e"
    using refs_are_mentioned [of ?out] assms(3) by (simp add: has_blob_def contains_text_iff cols)
  then have "resolve_events_blobs (tr_blobs db) [e] = Inr [resolve_event [] (e, Some (JDict [], ?out))]"
    using e cols assms(3) by (simp add: resolve_events_blobs_def column_value_def hashable_def db(2) del: json_dumps.simps)
  then show ?thesis using e db id assms(3)
    by (simp add: list_trace_events_def sql_limit_def sql_offset_def sql_asc_def resolve_event_def loaded_def blob_content_def Let_def)
qed

section \<open>Witnesses\<close>

definition sample_new :: "dict \<Rightarrow> NewEvent" where
  "sample_new out = \<lparr>ne_trace_id = ''t'', ne_phase = ''turn.final'', ne_session_id = [], ne_run_id = [], ne_source = [],
     ne_peer_id = [], ne_sender_id = [], ne_tool = [], ne_model_role = [], ne_ok = True, ne_input_data = [],
     ne_output_data = out, ne_message = []\<rparr>"

definition long_text :: string where
  "long_text = replicate 2000 (CHR ''a'')"

theorem traced_events_are_read_back_witness:
  "\<exists>e e' db. add_events (\<lambda>v. v) (take 8)
      [(False, ''i'', 1, sample_new [(''k'', JStr long_text)]), (True, ''j'', 2, sample_new [])]
      \<lparr>tr_events = [], tr_evaluations = [], tr_blobs = []\<rparr> = Inr ([e, e'], db) \<and>
    tr_blobs db = [(''aaaaaaaa'', long_text)] \<and> list_trace_events ''t'' 10 0 db = Inr [e] \<and>
    te_output e = Some (JDict [(''k'', JStr long_text)])"
proof -
  let ?calls = "[(False, ''i'', 1, sample_new [(''k'', JStr long_text)]), (True, ''j'', 2, sample_new [])]"
  have len: "length long_text = 2000" "take 8 long_text = ''aaaaaaaa''" by (simp_all add: long_text_def numeral_eq_Suc)
  obtain e e' db where a: "add_events (\<lambda>v. v) (take 8) ?calls
      \<lparr>tr_events = [], tr_evaluations = [], tr_blobs = []\<rparr> = Inr ([e, e'], db)"
    and e: "te_trace_id e = ''t''" "te_output e = Some (JDict [(''k'', JStr long_text)])"
    and b: "tr_blobs db = [(''aaaaaaaa'', long_text)]"
    by (simp add: add_event_def sample_new_def sql_insert_def event_with_def insert_blobs_def sql_insert_or_ignore_def len Let_def)
  have "list_trace_events ''t'' 10 0 db =
      Inr (sql_limit 10 (sql_offset 0 (sql_asc te_created_at (filter (\<lambda>e. te_trace_id e = ''t'') (written ?calls [e, e'])))))"
    by (rule traced_events_are_read_back [OF a])
      (simp_all add: data_of_def sample_new_def long_texts_of_def writing_def len blob_key_def)
  then have "list_trace_events ''t'' 10 0 db = Inr [e]" by (simp add: e sql_limit_def sql_offset_def sql_asc_def)
  with a b e show ?thesis by blast
qed

theorem lookalike_is_lost_witness:
  "\<exists>e db e'. add_event (\<lambda>v. v) (\<lambda>s. s) False ''i'' 1 (sample_new [(''k'', JDict [(blob_key, JStr ''x'')])])
      \<lparr>tr_events = [], tr_evaluations = [], tr_blobs = []\<rparr> = Inr (e, db) \<and>
    list_trace_events ''t'' 1 0 db = Inr [e'] \<and> te_output e' = Some (JDict [(''k'', JStr ''<missing blob: x>'')])"
proof -
  obtain e db where a: "add_event (\<lambda>v. v) (\<lambda>s. s) False ''i'' 1 (sample_new [(''k'', JDict [(blob_key, JStr ''x'')])])
      \<lparr>tr_events = [], tr_evaluations = [], tr_blobs = []\<rparr> = Inr (e, db)"
    by (simp add: add_event_def sql_insert_def Let_def)
  have "\<exists>e'. list_trace_events (ne_trace_id (sample_new [(''k'', JDict [(blob_key, JStr ''x'')])])) 1 0 db = Inr [e'] \<and>
      te_output e' = Some (JDict [(''k'', JStr (''<missing blob: '' @ ''x'' @ ''>''))])"
    using lookalike_is_lost [OF a, of "''k''" "''x''"] by (simp add: sample_new_def blob_key_def)
  then show ?thesis using a by (auto simp: sample_new_def)
qed

end
