(* ===== verification/Trace_Views.thy ===== *)
theory Trace_Views
  imports Trace_Store
begin

text \<open>
  The run views of \<open>navi/trace.py\<close>: the events of a trace as a tree of spans, with the loop runs of the
  stores of goals and loops beside them. A sum of token counts adds what the usage of an event holds, as
  Python's \<open>+\<close> does on numbers.
\<close>

section \<open>Views of single events\<close>

definition event_trace_run_status :: "TraceEvent \<Rightarrow> string" where
  "event_trace_run_status e =
     traceRunStatus_str (if te_ok e then TraceRunStatus_SUCCESS else TraceRunStatus_ERROR)"

definition event_run_types_by_phase :: "(string \<times> TraceRunType) list" where
  "event_run_types_by_phase =
     [(tracePhase_str TracePhase_PLANNER_CALL_START, TraceRunType_LLM),
      (tracePhase_str TracePhase_PLANNER_CALL_ERROR, TraceRunType_LLM),
      (tracePhase_str TracePhase_PLANNER_PARSE_ERROR, TraceRunType_LLM),
      (tracePhase_str TracePhase_PLANNER_SYSCALL, TraceRunType_LLM),
      (tracePhase_str TracePhase_CAPABILITY_RESULT, TraceRunType_TOOL)]"

definition event_run_type :: "TraceEvent \<Rightarrow> TraceRunType" where
  "event_run_type e = (case map_of event_run_types_by_phase (te_phase e) of None \<Rightarrow> TraceRunType_CHAIN | Some t \<Rightarrow> t)"

definition event_run_view :: "TraceEvent \<Rightarrow> string \<Rightarrow> TraceRunView" where
  "event_run_view e parent =
     \<lparr>trv_id = te_id e, trv_trace_id = te_trace_id e, trv_parent_run_id = parent,
      trv_name = or_else (te_tool e) (te_phase e), trv_run_type = traceRunType_str (event_run_type e),
      trv_status = event_trace_run_status e, trv_start_time = te_created_at e, trv_end_time = te_created_at e,
      trv_thread_id = te_session_id e, trv_inputs = event_input e, trv_outputs = event_output e,
      trv_tags = filter (\<lambda>t. t \<noteq> []) [''navi'', te_phase e, te_tool e, te_model_role e],
      trv_metadata = [(''phase'', JStr (te_phase e)), (''source'', JStr (te_source e)), (''peer_id'', JStr (te_peer_id e)),
        (''sender_id'', JStr (te_sender_id e)), (''session_id'', JStr (te_session_id e)), (''run_id'', JStr (te_run_id e)),
        (''message'', JStr (te_message e))],
      trv_feedback = []\<rparr>"

section \<open>The root\<close>

definition add_numbers :: "json \<Rightarrow> json \<Rightarrow> json result" where
  "add_numbers a b =
     (let int_of = (\<lambda>v. case v of JInt i \<Rightarrow> Some i | JBool b \<Rightarrow> Some (if b then 1 else 0) | _ \<Rightarrow> None);
          rat_of = (\<lambda>v. case v of JFloat q \<Rightarrow> Some q | _ \<Rightarrow> map_option of_int (int_of v))
      in case (int_of a, int_of b) of
           (Some i, Some j) \<Rightarrow> Inr (JInt (i + j))
         | _ \<Rightarrow> (case (rat_of a, rat_of b) of
             (Some p, Some q) \<Rightarrow> Inr (JFloat (p + q))
           | _ \<Rightarrow> Inl (TypeError ''unsupported operand type(s) for +='')))"

definition token_count :: "dict \<Rightarrow> string \<Rightarrow> json" where
  "token_count usage key = (case map_of usage key of None \<Rightarrow> JInt 0 | Some v \<Rightarrow> v)"

fun total_tokens :: "json \<times> json \<Rightarrow> TraceEvent list \<Rightarrow> (json \<times> json) result" where
  "total_tokens acc [] = Inr acc"
| "total_tokens acc (e # es) =
     (case jget (event_output e) ''usage'' of
        JDict u \<Rightarrow> and_then (add_numbers (fst acc) (token_count u ''prompt_tokens'')) (\<lambda>p.
          and_then (add_numbers (snd acc) (token_count u ''completion_tokens'')) (\<lambda>c. total_tokens (p, c) es))
      | _ \<Rightarrow> total_tokens acc es)"

definition root_view :: "string \<Rightarrow> TraceEvent list \<Rightarrow> (TraceRunView \<times> string) result" where
  "root_view trace_id events =
     and_then (total_tokens (JInt 0, JInt 0) events) (\<lambda>(p, c).
     and_then (assess_trace events) (\<lambda>(draft, _).
     and_then (add_numbers p c) (\<lambda>total.
       let session = (case filter (\<lambda>s. s \<noteq> []) (map te_session_id events) of [] \<Rightarrow> [] | s # _ \<Rightarrow> s);
           source = (case filter (\<lambda>s. s \<noteq> []) (map te_source events) of [] \<Rightarrow> [] | s # _ \<Rightarrow> s)
       in Inr (\<lparr>trv_id = trace_id, trv_trace_id = trace_id, trv_parent_run_id = [], trv_name = ''Trace'',
            trv_run_type = traceRunType_str TraceRunType_CHAIN,
            trv_status = traceRunStatus_str (if td_outcome draft = traceOutcome_str TraceOutcome_SUCCESS
              then TraceRunStatus_SUCCESS else TraceRunStatus_ERROR),
            trv_start_time = Min (set (map te_created_at events)), trv_end_time = Max (set (map te_created_at events)),
            trv_thread_id = session, trv_inputs = event_input (hd events), trv_outputs = event_output (last events),
            trv_tags = [''navi''],
            trv_metadata = [(''event_count'', JInt (int (length events))), (''source'', JStr source),
              (''session_id'', JStr session),
              (''usage'', JDict [(''prompt_tokens'', p), (''completion_tokens'', c), (''total_tokens'', total)])],
            trv_feedback = []\<rparr>, session))))"

section \<open>The walk over the events\<close>

record Walk =
  wk_views :: "TraceRunView list"
  wk_turn :: string
  wk_step :: "string option"
  wk_pending :: "TraceRunView option"
  wk_count :: nat

definition walk_parent :: "Walk \<Rightarrow> string" where
  "walk_parent w = (case wk_step w of None \<Rightarrow> wk_turn w | Some s \<Rightarrow> or_else s (wk_turn w))"

definition emit :: "TraceRunView \<Rightarrow> Walk \<Rightarrow> Walk" where
  "emit v w = w\<lparr>wk_views := wk_views w @ [v]\<rparr>"

definition decision_name :: "dict \<Rightarrow> json" where
  "decision_name out = (case map_of out ''decision'' of None \<Rightarrow> JStr ''unknown'' | Some v \<Rightarrow> v)"

definition tool_view_name :: "TraceEvent \<Rightarrow> string" where
  "tool_view_name e =
     (if te_tool e \<noteq> [] then ''Tool: '' @ te_tool e
      else if te_model_role e = ''checker'' then ''Quality Checker''
      else if te_model_role e \<noteq> [] then ''Role: '' @ te_model_role e
      else ''Tool Execution'')"

definition other_view :: "TraceEvent \<Rightarrow> string \<Rightarrow> TraceRunView" where
  "other_view e parent =
     (let v = event_run_view e parent;
          v = (if te_phase e = loop_decision_phase
            then v\<lparr>trv_name := ''Decision: '' @ py_str (decision_name (event_output e)),
                  trv_run_type := traceRunType_str (if decision_name (event_output e) \<in>
                    {JStr ''continue'', JStr ''step'', JStr ''heartbeat''} then TraceRunType_ENGINE else TraceRunType_CHAIN)\<rparr>
            else v)
      in if in_phase TracePhase_CAPABILITY_RESULT e
         then v\<lparr>trv_name := tool_view_name e, trv_run_type := traceRunType_str TraceRunType_TOOL\<rparr> else v)"

definition turn_view :: "string \<Rightarrow> TraceEvent \<Rightarrow> TraceRunView" where
  "turn_view trace_id e = (event_run_view e trace_id)
     \<lparr>trv_id := ''turn_'' @ te_id e, trv_name := ''Turn'', trv_run_type := traceRunType_str TraceRunType_CHAIN\<rparr>"

definition step_view :: "string \<Rightarrow> TraceEvent \<Rightarrow> string \<Rightarrow> nat \<Rightarrow> TraceRunView" where
  "step_view trace_id e turn n =
     \<lparr>trv_id = ''step_'' @ te_id e, trv_trace_id = trace_id, trv_parent_run_id = turn, trv_name = ''Step '' @ show_nat n,
      trv_run_type = traceRunType_str TraceRunType_CHAIN, trv_status = traceRunStatus_str TraceRunStatus_SUCCESS,
      trv_start_time = te_created_at e, trv_end_time = te_created_at e, trv_thread_id = [], trv_inputs = [],
      trv_outputs = [], trv_tags = [], trv_metadata = [], trv_feedback = []\<rparr>"

definition llm_view :: "TraceEvent \<Rightarrow> string \<Rightarrow> TraceRunView" where
  "llm_view e step = (event_run_view e step)
     \<lparr>trv_id := ''llm_'' @ te_id e, trv_name := ''Planner Reasoning'', trv_run_type := traceRunType_str TraceRunType_LLM\<rparr>"

definition answered_llm_view :: "TraceEvent \<Rightarrow> TraceRunView \<Rightarrow> TraceRunView" where
  "answered_llm_view e llm = llm\<lparr>trv_end_time := te_created_at e, trv_inputs := dict_merge (trv_inputs llm) (event_input e),
     trv_outputs := event_output e, trv_status := event_trace_run_status e\<rparr>"

definition channel_view :: "string \<Rightarrow> string \<Rightarrow> TraceEvent \<Rightarrow> TraceRunView" where
  "channel_view trace_id name e =
     (event_run_view e trace_id)\<lparr>trv_name := name, trv_run_type := traceRunType_str TraceRunType_CHAIN\<rparr>"

definition walk_event :: "string \<Rightarrow> TraceEvent \<Rightarrow> Walk \<Rightarrow> Walk" where
  "walk_event trace_id e w =
     (if in_phase TracePhase_CHANNEL_INGRESS e then emit (channel_view trace_id ''Channel Receive'' e) w
      else if in_phase TracePhase_CHANNEL_EGRESS e then emit (channel_view trace_id ''Channel Send'' e) w
      else if in_phase TracePhase_TURN_START e
      then (emit (turn_view trace_id e) w)\<lparr>wk_turn := trv_id (turn_view trace_id e), wk_step := None, wk_count := 0\<rparr>
      else if in_phase TracePhase_PLANNER_CALL_START e
      then let v = step_view trace_id e (wk_turn w) (Suc (wk_count w))
        in (emit v w)\<lparr>wk_step := Some (trv_id v), wk_count := Suc (wk_count w), wk_pending := Some (llm_view e (trv_id v))\<rparr>
      else if in_phase TracePhase_PLANNER_SYSCALL e \<or> in_phase TracePhase_PLANNER_CALL_ERROR e \<or>
        in_phase TracePhase_PLANNER_PARSE_ERROR e
      then case wk_pending w of
          Some llm \<Rightarrow> (emit (answered_llm_view e llm) w)\<lparr>wk_pending := None\<rparr>
        | None \<Rightarrow> emit (event_run_view e (walk_parent w)) w
      else emit (other_view e (walk_parent w)) w)"

section \<open>Spans\<close>

definition span_of_children :: "string \<Rightarrow> TraceRunView list \<Rightarrow> TraceRunView \<Rightarrow> TraceRunView" where
  "span_of_children trace_id views v =
     (let children = filter (\<lambda>c. trv_parent_run_id c = trv_id v) views
      in if trv_run_type v = traceRunType_str TraceRunType_CHAIN \<and> trv_id v \<noteq> trace_id \<and> children \<noteq> []
         then v\<lparr>trv_start_time := Min (set (map trv_start_time children)), trv_end_time := Max (set (map trv_end_time children)),
                trv_status := (if traceRunStatus_str TraceRunStatus_ERROR \<in> set (map trv_status children)
                    then traceRunStatus_str TraceRunStatus_ERROR
                  else if ''blocked'' \<in> set (map trv_status children) then ''blocked''
                  else trv_status v)\<rparr>
         else v)"

text \<open>One pass over the places of the list, which sees what it has already changed.\<close>

definition patch_spans :: "string \<Rightarrow> TraceRunView list \<Rightarrow> TraceRunView list" where
  "patch_spans trace_id views =
     fold (\<lambda>i vs. vs[i := span_of_children trace_id vs (vs ! i)]) [0..<length views] views"

definition objective_view :: "string \<Rightarrow> string \<Rightarrow> string \<Rightarrow> time \<Rightarrow> TraceRunView" where
  "objective_view trace_id objective session min_time =
     \<lparr>trv_id = ''input_'' @ trace_id, trv_trace_id = trace_id, trv_parent_run_id = trace_id,
      trv_name = ''Channel Receive'', trv_run_type = traceRunType_str TraceRunType_CHAIN,
      trv_status = traceRunStatus_str TraceRunStatus_SUCCESS, trv_start_time = min_time, trv_end_time = min_time,
      trv_thread_id = session, trv_inputs = [(''message'', JDict [(''text'', JStr objective)])], trv_outputs = [],
      trv_tags = [''navi'', ''goal_objective''], trv_metadata = [(''objective'', JStr objective)], trv_feedback = []\<rparr>"

definition trace_run_views :: "TraceEvent list \<Rightarrow> string \<Rightarrow> string \<Rightarrow> TraceRunView list result" where
  "trace_run_views events trace_id objective =
     (if events = [] then Inr []
      else and_then (root_view trace_id events) (\<lambda>(root_v, session).
        let w = fold (walk_event trace_id) events
              \<lparr>wk_views = [root_v], wk_turn = trace_id, wk_step = None, wk_pending = None, wk_count = 0\<rparr>;
            views = patch_spans trace_id (patch_spans trace_id (wk_views w))
        in if objective \<noteq> [] \<and> \<not> list_ex (\<lambda>v. trv_name v = ''Channel Receive'') views
           then Inr (take 1 views @
             [objective_view trace_id objective session (Min (set (map te_created_at events)))] @ drop 1 views)
           else Inr views))"

section \<open>Loop runs of a trace\<close>

fun collect_loop_run_ids :: "json \<Rightarrow> string list" where
  "collect_loop_run_ids (JDict d) =
     (case jget d ''loop_run_id'' of JStr s \<Rightarrow> if py_strip s \<noteq> [] then [py_strip s] else [] | _ \<Rightarrow> []) @
     (case jget d ''run_state'' of
        JDict r \<Rightarrow> if py_truthy (jget r ''loop_spec_id'')
          then (case jget r ''run_id'' of JStr s \<Rightarrow> if py_strip s \<noteq> [] then [py_strip s] else [] | _ \<Rightarrow> []) else []
      | _ \<Rightarrow> []) @
     concat (map (\<lambda>(k, v). collect_loop_run_ids v) d)"
| "collect_loop_run_ids (JList xs) = concat (map collect_loop_run_ids xs)"
| "collect_loop_run_ids v = []"

definition loop_run_ids_from_trace_events :: "TraceEvent list \<Rightarrow> string list" where
  "loop_run_ids_from_trace_events events =
     concat (map (\<lambda>e. collect_loop_run_ids (JDict (event_input e)) @ collect_loop_run_ids (JDict (event_output e))) events)"

record LoopRunDetail =
  lrd_state :: LoopRunState
  lrd_events :: "LoopEvent list"
  lrd_checkpoints :: "LoopCheckpoint list"

definition loop_run_details_for_trace :: "GoalDb \<Rightarrow> LoopDb \<Rightarrow> string \<Rightarrow> TraceEvent list \<Rightarrow> LoopRunDetail list" where
  "loop_run_details_for_trace goals loops trace_id events =
     (let governed = trace_id # filter (\<lambda>r. r \<noteq> []) (map te_run_id events);
          by_goal = concat (map (\<lambda>rid. case get_by_run rid goals of None \<Rightarrow> []
            | Some g \<Rightarrow> map lr_run_id (list_by_goal (g_id g) 50 loops)) governed);
          ids = sort (remdups (loop_run_ids_from_trace_events events @ by_goal))
      in concat (map (\<lambda>rid. case get_loop_run rid loops of None \<Rightarrow> []
           | Some st \<Rightarrow> [\<lparr>lrd_state = st, lrd_events = Loop_Run_Store.list_events rid 1000 loops,
               lrd_checkpoints = list_checkpoints rid 1000 loops\<rparr>]) ids))"

definition loop_run_status :: "string \<Rightarrow> string" where
  "loop_run_status terminal_state =
     (if terminal_state = [] then ''running''
      else if terminal_state \<in> {''blocked'', ''paused'', ''waiting_approval'', ''conflicted''} then ''blocked''
      else if terminal_state \<in> {''failed'', ''timed_out''} then ''error''
      else ''success'')"

definition loop_event_name :: "string \<Rightarrow> string \<Rightarrow> string \<Rightarrow> string" where
  "loop_event_name event_type node terminal_state =
     (if event_type = ''loop.transition'' then ''Loop Transition: '' @ or_else terminal_state node
      else if event_type = ''loop.checkpoint'' then ''Loop Checkpoint: '' @ or_else node ''unknown''
      else ''Loop Event: '' @ event_type)"

definition plain_view :: "string \<Rightarrow> string \<Rightarrow> string \<Rightarrow> string \<Rightarrow> string \<Rightarrow> time \<Rightarrow> time \<Rightarrow> dict \<Rightarrow> dict \<Rightarrow> string list \<Rightarrow> dict \<Rightarrow> TraceRunView" where
  "plain_view i trace_id parent name status start stop inputs outs tags meta =
     \<lparr>trv_id = i, trv_trace_id = trace_id, trv_parent_run_id = parent, trv_name = name, trv_run_type = ''engine'',
      trv_status = status, trv_start_time = start, trv_end_time = stop, trv_thread_id = [], trv_inputs = inputs,
      trv_outputs = outs, trv_tags = tags, trv_metadata = meta, trv_feedback = []\<rparr>"

definition loop_event_view :: "string \<Rightarrow> string \<Rightarrow> string \<Rightarrow> LoopEvent \<Rightarrow> TraceRunView" where
  "loop_event_view trace_id loop_run parent e =
     (let kind = or_else (le_event_type e) ''loop.event''
      in plain_view (''loopevent_'' @ le_id e) trace_id parent (loop_event_name kind (le_node e) (le_terminal_state e))
        (if le_terminal_state e = [] then ''success'' else loop_run_status (le_terminal_state e))
        (le_created_at e) (le_created_at e)
        [(''node'', JStr (le_node e)), (''checkpoint_id'', JStr (le_checkpoint_id e))]
        [(''event_type'', JStr kind), (''terminal_state'', JStr (le_terminal_state e)), (''evidence'', JDict (le_evidence e))]
        [''navi'', ''loop_event'', kind]
        [(''run_id'', JStr loop_run), (''checkpoint_id'', JStr (le_checkpoint_id e))])"

definition checkpoint_view :: "string \<Rightarrow> string \<Rightarrow> string \<Rightarrow> LoopCheckpoint \<Rightarrow> TraceRunView" where
  "checkpoint_view trace_id loop_run parent c =
     plain_view (''loopcheckpoint_'' @ lc_id c) trace_id parent (''Checkpoint: '' @ or_else (lc_node c) ''unknown'')
       ''success'' (lc_created_at c) (lc_created_at c) (lc_inputs c) [(''state'', JDict (lc_state c))]
       [''navi'', ''loop_checkpoint'']
       [(''run_id'', JStr loop_run), (''checkpoint_id'', JStr (lc_id c)), (''node'', JStr (lc_node c))]"

definition loop_detail_views :: "string \<Rightarrow> LoopRunDetail \<Rightarrow> TraceRunView list" where
  "loop_detail_views trace_id d =
     (let st = lrd_state d; rid = lr_run_id st; root_id = ''looprun_'' @ rid;
          times = filter (\<lambda>t. t \<noteq> 0) (map le_created_at (lrd_events d) @ map lc_created_at (lrd_checkpoints d))
      in if rid = [] then []
         else plain_view root_id trace_id trace_id (''LoopRun: '' @ or_else (lr_node st) ''unknown'')
             (loop_run_status (lr_terminal_state st))
             (if times = [] then lr_updated_at st else Min (set times)) (if times = [] then lr_updated_at st else Max (set times))
             [(''goal_id'', JStr (lr_goal_id st)), (''loop_spec_id'', JStr (lr_loop_spec_id st))]
             (loop_run_state_to_dict st) [''navi'', ''loop_run'', ''state_graph'']
             [(''run_id'', JStr rid), (''goal_id'', JStr (lr_goal_id st)), (''loop_spec_id'', JStr (lr_loop_spec_id st)),
              (''terminal_state'', JStr (lr_terminal_state st)), (''attempt'', JInt (lr_attempt st))]
           # map (loop_event_view trace_id rid root_id) (lrd_events d)
           @ map (checkpoint_view trace_id rid root_id) (lrd_checkpoints d))"

definition loop_run_views_for_trace :: "GoalDb \<Rightarrow> LoopDb \<Rightarrow> string \<Rightarrow> TraceEvent list \<Rightarrow> TraceRunView list" where
  "loop_run_views_for_trace goals loops trace_id events =
     concat (map (loop_detail_views trace_id) (loop_run_details_for_trace goals loops trace_id events))"

section \<open>Merging\<close>

text \<open>The dictionary by identifier: a later view of the base replaces an earlier one in its place.\<close>

definition by_id :: "TraceRunView list \<Rightarrow> TraceRunView list \<Rightarrow> (string \<times> TraceRunView) list" where
  "by_id base extra = fold (\<lambda>v m. if map_of m (trv_id v) = None then m @ [(trv_id v, v)] else m) extra
     (fold (\<lambda>v. AList.update (trv_id v) v) base [])"

definition failing_loops :: "TraceRunView \<Rightarrow> TraceRunView list \<Rightarrow> TraceRunView list" where
  "failing_loops r extra = filter (\<lambda>v. trv_parent_run_id v = trv_id r \<and> trv_run_type v = ''engine'' \<and>
     trv_status v \<notin> {''success'', ''running''}) extra"

definition merge_run_views :: "TraceRunView list \<Rightarrow> TraceRunView list \<Rightarrow> TraceRunView list" where
  "merge_run_views base extra =
     (let merged = by_id base extra;
          merged = (case filter (\<lambda>v. trv_parent_run_id v = []) base of
              [] \<Rightarrow> merged
            | r # _ \<Rightarrow> (case failing_loops r extra of
                [] \<Rightarrow> merged
              | l # ls \<Rightarrow> AList.update (trv_id r) (r\<lparr>trv_status := trv_status l,
                  trv_metadata := dict_merge (trv_metadata r)
                    [(''authoritative_status_source'', JStr ''durable_loop_run''),
                     (''authoritative_terminal_states'',
                       JList (map (\<lambda>v. JStr (str_or_empty (jget (trv_metadata v) ''terminal_state''))) (l # ls)))]\<rparr>) merged))
      in sort_key (\<lambda>v. trv_parent_run_id v \<noteq> []) (sort_key trv_start_time (sort_key trv_id (map snd merged))))"

definition list_run_views :: "GoalDb \<Rightarrow> LoopDb \<Rightarrow> string \<Rightarrow> string \<Rightarrow> int \<Rightarrow> int \<Rightarrow> TraceDb \<Rightarrow> TraceRunView list result" where
  "list_run_views goals loops objective trace_id limit offset db =
     and_then (list_trace_events trace_id limit offset db) (\<lambda>events.
     and_then (trace_run_views events trace_id objective) (\<lambda>views.
     Inr (merge_run_views views (loop_run_views_for_trace goals loops trace_id events))))"

definition list_loop_run_details :: "GoalDb \<Rightarrow> LoopDb \<Rightarrow> string \<Rightarrow> int \<Rightarrow> TraceDb \<Rightarrow> LoopRunDetail list result" where
  "list_loop_run_details goals loops trace_id limit db =
     and_then (list_trace_events trace_id limit 0 db) (\<lambda>events.
     Inr (loop_run_details_for_trace goals loops trace_id events))"

section \<open>The list of traces\<close>

text \<open>\<open>LIKE\<close> of SQLite: \<open>%\<close> and \<open>_\<close> are wildcards, the letters of ASCII match in both cases.\<close>

definition ascii_lower :: "char \<Rightarrow> char" where
  "ascii_lower c = (if 65 \<le> code_point c \<and> code_point c \<le> 90 then char_of (code_point c + 32) else c)"

fun sql_like :: "string \<Rightarrow> string \<Rightarrow> bool" where
  "sql_like [] s = (s = [])"
| "sql_like (p # ps) s =
     (if p = CHR ''%'' then list_ex (\<lambda>i. sql_like ps (drop i s)) [0..<Suc (length s)]
      else case s of [] \<Rightarrow> False
        | c # cs \<Rightarrow> (p = CHR ''_'' \<or> ascii_lower p = ascii_lower c) \<and> sql_like ps cs)"

definition matches_query :: "string \<Rightarrow> TraceEvent \<Rightarrow> bool" where
  "matches_query query e =
     (let p = ''%'' @ query @ ''%''
      in sql_like p (te_trace_id e) \<or> sql_like p (te_input_json e) \<or> sql_like p (te_message e))"

record TraceMeta =
  tm_trace_id :: string
  tm_has_error :: bool
  tm_has_issue :: bool
  tm_outcome :: string
  tm_failure_domain :: string
  tm_start_time :: time
  tm_end_time :: time
  tm_duration :: time
  tm_step_count :: nat
  tm_failed_event_count :: nat
  tm_preview_text :: string
  tm_thread_id :: string

definition traces_by_end :: "string \<Rightarrow> TraceEvent list \<Rightarrow> string list" where
  "traces_by_end query events =
     (let ids = sort (remdups (map te_trace_id (filter (\<lambda>e. query = [] \<or> matches_query query e) events)))
      in sql_desc (\<lambda>t. Max (set (map te_created_at (filter (of_trace t) events)))) ids)"

definition bare_meta :: "string \<Rightarrow> string \<Rightarrow> string \<Rightarrow> TraceEvent list \<Rightarrow> TraceMeta" where
  "bare_meta trace_id outcome domain events =
     (let es = filter (of_trace trace_id) events; times = set (map te_created_at es)
      in \<lparr>tm_trace_id = trace_id, tm_has_error = (outcome = traceOutcome_str TraceOutcome_FAILURE),
          tm_has_issue = (outcome \<noteq> traceOutcome_str TraceOutcome_SUCCESS), tm_outcome = outcome,
          tm_failure_domain = domain, tm_start_time = Min times, tm_end_time = Max times,
          tm_duration = max 0 (Max times - Min times), tm_step_count = length es,
          tm_failed_event_count = length (filter (\<lambda>e. \<not> te_ok e) es), tm_preview_text = [], tm_thread_id = []\<rparr>)"

text \<open>The page: \<open>skipped\<close> counts up to the offset, and the loop stops when it has \<open>limit\<close> entries or more.\<close>

fun meta_page :: "bool option \<Rightarrow> int \<Rightarrow> int \<Rightarrow> int \<Rightarrow> TraceMeta list \<Rightarrow> string list \<Rightarrow> TraceDb \<Rightarrow> TraceMeta list result" where
  "meta_page has_error limit offset skipped acc [] db = Inr acc"
| "meta_page has_error limit offset skipped acc (t # ts) db =
     and_then (trace_list_outcome t db) (\<lambda>(outcome, domain).
       let failed = (outcome = traceOutcome_str TraceOutcome_FAILURE)
       in if has_error \<noteq> None \<and> has_error \<noteq> Some failed then meta_page has_error limit offset skipped acc ts db
          else if skipped < offset then meta_page has_error limit offset (skipped + 1) acc ts db
          else let acc' = acc @ [bare_meta t outcome domain (tr_events db)]
            in if limit \<le> int (length acc') then Inr acc' else meta_page has_error limit offset skipped acc' ts db)"

definition first_events :: "string \<Rightarrow> TraceEvent list \<Rightarrow> TraceEvent list" where
  "first_events trace_id events = sql_asc te_created_at (filter (\<lambda>e. of_trace trace_id e \<and>
     (in_phase TracePhase_CHANNEL_INGRESS e \<or> in_phase TracePhase_TURN_START e)) events)"

definition preview_of_input :: "dict \<Rightarrow> string" where
  "preview_of_input d =
     (let pick = (\<lambda>f ks. case filter py_truthy (map (jget f) ks) of [] \<Rightarrow> [] | v # _ \<Rightarrow> py_str v);
          text = pick d [''text'', ''message'']
      in case jget d ''facts'' of
           JDict f \<Rightarrow> if text = [] then pick f [''text'', ''message'', ''query''] else text
         | _ \<Rightarrow> text)"

definition preview_of_trace :: "string \<Rightarrow> TraceEvent list \<Rightarrow> string" where
  "preview_of_trace trace_id events =
     (case first_events trace_id events of
        [] \<Rightarrow> []
      | e # _ \<Rightarrow>
          let text = (if py_strip (te_input_json e) \<noteq> [] \<and> te_input_json e \<noteq> ''{}''
            then (case te_input e of Some (JDict d) \<Rightarrow> preview_of_input d | _ \<Rightarrow> []) else [])
          in or_else text (te_message e))"

definition thread_of_trace :: "string \<Rightarrow> TraceEvent list \<Rightarrow> string" where
  "thread_of_trace trace_id events =
     (case filter (\<lambda>s. s \<noteq> []) (map te_session_id (first_events trace_id events)) of [] \<Rightarrow> [] | s # _ \<Rightarrow> s)"

text \<open>
  \<open>_goal_objectives_for_traces\<close>: the goal of a trace, the goal with the identifier of the trace, or the goal
  of a loop run that an event of the trace names.
\<close>

definition set_absent :: "string \<Rightarrow> string \<Rightarrow> (string \<times> string) list \<Rightarrow> (string \<times> string) list" where
  "set_absent k v m = (if k = [] \<or> map_of m k \<noteq> None then m else m @ [(k, v)])"

definition goal_objectives_for_traces :: "GoalDb \<Rightarrow> LoopDb \<Rightarrow> TraceEvent list \<Rightarrow> string list \<Rightarrow> (string \<times> string) list" where
  "goal_objectives_for_traces goals loops events trace_ids =
     (let named = filter (\<lambda>g. g_objective g \<noteq> []) (gd_goals goals);
          r1 = fold (\<lambda>g. set_absent (g_trace_id g) (g_objective g)) (filter (\<lambda>g. g_trace_id g \<in> set trace_ids) named) [];
          r2 = fold (\<lambda>g. set_absent (g_id g) (g_objective g)) (filter (\<lambda>g. g_id g \<in> set trace_ids) named) r1;
          remaining = filter (\<lambda>t. map_of r2 t = None) trace_ids;
          run_map = fold (\<lambda>e. AList.update (te_run_id e) (te_trace_id e))
            (filter (\<lambda>e. te_trace_id e \<in> set remaining \<and> te_run_id e \<noteq> []) events) [];
          goal_map = fold (\<lambda>l. AList.update (lr_goal_id l) (the (map_of run_map (lr_run_id l))))
            (filter (\<lambda>l. map_of run_map (lr_run_id l) \<noteq> None \<and> lr_goal_id l \<noteq> []) (ld_runs loops)) []
      in fold (\<lambda>g. case map_of goal_map (g_id g) of None \<Rightarrow> id | Some t \<Rightarrow> set_absent t (g_objective g)) named r2)"

definition list_trace_meta ::
  "GoalDb \<Rightarrow> LoopDb \<Rightarrow> int \<Rightarrow> int \<Rightarrow> bool option \<Rightarrow> string \<Rightarrow> TraceDb \<Rightarrow> TraceMeta list result" where
  "list_trace_meta goals loops limit offset has_error query db =
     and_then (meta_page has_error limit offset 0 [] (traces_by_end query (tr_events db)) db) (\<lambda>metas.
       let preview = (\<lambda>t. preview_of_trace t (tr_events db));
           missing = filter (\<lambda>t. preview t = []) (map tm_trace_id metas);
           objectives = goal_objectives_for_traces goals loops (tr_events db) missing
       in Inr (map (\<lambda>m. m\<lparr>tm_preview_text := or_else (case map_of objectives (tm_trace_id m) of None \<Rightarrow> [] | Some x \<Rightarrow> x)
             (preview (tm_trace_id m)), tm_thread_id := thread_of_trace (tm_trace_id m) (tr_events db)\<rparr>) metas))"

definition list_trace_ids :: "int \<Rightarrow> int \<Rightarrow> bool option \<Rightarrow> GoalDb \<Rightarrow> LoopDb \<Rightarrow> TraceDb \<Rightarrow> string list result" where
  "list_trace_ids limit offset has_error goals loops db =
     and_then (list_trace_meta goals loops limit offset has_error [] db) (\<lambda>metas. Inr (map tm_trace_id metas))"

section \<open>The views are a tree\<close>

text \<open>Each view of a list names a view of \<open>ids\<close> or an earlier one as its parent.\<close>

fun parents_first :: "string set \<Rightarrow> TraceRunView list \<Rightarrow> bool" where
  "parents_first ids [] = True"
| "parents_first ids (v # vs) = (trv_parent_run_id v \<in> ids \<and> parents_first (insert (trv_id v) ids) vs)"

lemma parents_first_append:
  "parents_first ids (vs @ ws) \<longleftrightarrow> parents_first ids vs \<and> parents_first (ids \<union> trv_id ` set vs) ws"
  by (induction ids vs rule: parents_first.induct) auto

lemma parents_first_more: "parents_first ids vs \<Longrightarrow> ids \<subseteq> ids' \<Longrightarrow> parents_first ids' vs"
proof (induction vs arbitrary: ids ids')
  case (Cons v vs)
  then show ?case using Cons.IH [of "insert (trv_id v) ids" "insert (trv_id v) ids'"] by auto
qed simp

text \<open>Only the identifiers and the parents matter.\<close>

lemma parents_first_cong:
  "map trv_id vs = map trv_id ws \<Longrightarrow> map trv_parent_run_id vs = map trv_parent_run_id ws \<Longrightarrow>
    parents_first ids vs = parents_first ids ws"
proof (induction vs arbitrary: ids ws)
  case (Cons v vs)
  then obtain w us where ws: "ws = w # us" by (cases ws) auto
  have "parents_first (insert (trv_id v) ids) vs = parents_first (insert (trv_id v) ids) us"
    using Cons.IH [of us "insert (trv_id v) ids"] Cons.prems ws by simp
  then show ?case using Cons.prems ws by simp
qed simp

lemma span_keeps [simp]:
  "trv_id (span_of_children t vs v) = trv_id v" "trv_parent_run_id (span_of_children t vs v) = trv_parent_run_id v"
  by (simp_all add: span_of_children_def Let_def)

lemma patch_keeps:
  "map trv_id (patch_spans t vs) = map trv_id vs \<and> map trv_parent_run_id (patch_spans t vs) = map trv_parent_run_id vs"
proof -
  have keep: "set js \<subseteq> {..<length vs} \<Longrightarrow>
      map trv_id (fold (\<lambda>i vs. vs[i := span_of_children t vs (vs ! i)]) js vs) = map trv_id vs \<and>
      map trv_parent_run_id (fold (\<lambda>i vs. vs[i := span_of_children t vs (vs ! i)]) js vs) = map trv_parent_run_id vs" for js vs
  proof (induction js arbitrary: vs)
    case (Cons i ks)
    have i: "i < length vs" using Cons.prems by simp
    have "map trv_id (vs[i := span_of_children t vs (vs ! i)]) = map trv_id vs"
      "map trv_parent_run_id (vs[i := span_of_children t vs (vs ! i)]) = map trv_parent_run_id vs"
      using i by (simp_all add: map_update list_update_same_conv)
    then show ?case using Cons.IH [of "vs[i := span_of_children t vs (vs ! i)]"] Cons.prems by simp
  qed simp
  show ?thesis unfolding patch_spans_def by (rule keep) auto
qed

definition walk_ok :: "TraceRunView \<Rightarrow> Walk \<Rightarrow> bool" where
  "walk_ok r w \<longleftrightarrow> (\<exists>vs. wk_views w = r # vs \<and> parents_first {trv_id r} vs) \<and>
     wk_turn w \<in> trv_id ` set (wk_views w) \<and> (\<forall>s. wk_step w = Some s \<longrightarrow> s \<in> trv_id ` set (wk_views w)) \<and>
     (\<forall>v. wk_pending w = Some v \<longrightarrow> trv_parent_run_id v \<in> trv_id ` set (wk_views w))"

lemma walk_ok_emit:
  assumes "walk_ok r w" "trv_parent_run_id v \<in> trv_id ` set (wk_views w)"
  shows "walk_ok r (emit v w)"
  using assms by (auto simp: walk_ok_def emit_def parents_first_append)

lemma walk_parent_known: "walk_ok r w \<Longrightarrow> walk_parent w \<in> trv_id ` set (wk_views w)"
  by (auto simp: walk_ok_def walk_parent_def or_else_def split: option.split)

lemma other_view_parent [simp]: "trv_parent_run_id (other_view e p) = p"
  by (simp add: other_view_def event_run_view_def Let_def)

lemma event_view_parent [simp]: "trv_parent_run_id (event_run_view e p) = p"
  by (simp add: event_run_view_def)

lemma emit_fields [simp]: "wk_views (emit v w) = wk_views w @ [v]" "wk_turn (emit v w) = wk_turn w"
  "wk_step (emit v w) = wk_step w" "wk_pending (emit v w) = wk_pending w"
  by (simp_all add: emit_def)

lemma view_parents [simp]: "trv_parent_run_id (turn_view t e) = t" "trv_parent_run_id (step_view t e u n) = u"
  "trv_parent_run_id (llm_view e p) = p" "trv_parent_run_id (answered_llm_view e llm) = trv_parent_run_id llm"
  "trv_parent_run_id (channel_view t name e) = t"
  by (simp_all add: turn_view_def step_view_def llm_view_def answered_llm_view_def channel_view_def)

lemma walk_event_ok:
  assumes w: "walk_ok r w" and r: "trv_id r = t"
  shows "walk_ok r (walk_event t e w)"
proof -
  have known: "t \<in> trv_id ` set (wk_views w)" "wk_turn w \<in> trv_id ` set (wk_views w)"
    using w r by (auto simp: walk_ok_def)
  have turn: "walk_ok r ((emit (turn_view t e) w)\<lparr>wk_turn := trv_id (turn_view t e), wk_step := None, wk_count := 0\<rparr>)"
    using walk_ok_emit [OF w, of "turn_view t e"] known(1) by (auto simp: walk_ok_def)
  let ?v = "step_view t e (wk_turn w) (Suc (wk_count w))"
  have step: "walk_ok r ((emit ?v w)\<lparr>wk_step := Some (trv_id ?v), wk_count := Suc (wk_count w),
      wk_pending := Some (llm_view e (trv_id ?v))\<rparr>)"
    using walk_ok_emit [OF w, of ?v] known(2) by (auto simp: walk_ok_def)
  have reply: "walk_ok r ((emit (answered_llm_view e llm) w)\<lparr>wk_pending := None\<rparr>)" if "wk_pending w = Some llm" for llm
  proof -
    have "trv_parent_run_id llm \<in> trv_id ` set (wk_views w)" using w that unfolding walk_ok_def by blast
    then show ?thesis using walk_ok_emit [OF w, of "answered_llm_view e llm"] by (auto simp: walk_ok_def)
  qed
  show ?thesis
    unfolding walk_event_def Let_def
    using walk_ok_emit [OF w] walk_parent_known [OF w] known turn step reply by (simp split: option.split)
qed

lemma walk_events_ok: "walk_ok r w \<Longrightarrow> trv_id r = t \<Longrightarrow> walk_ok r (fold (walk_event t) es w)"
  by (induction es arbitrary: w) (simp_all add: walk_event_ok)

text \<open>
  C31. The views of a trace are a tree in depth-first reading order: they start with the one view that has no
  parent, whose status says whether the trace was evaluated as a success, and every other view names an
  earlier one as its parent, whatever the order and the phases of the events.
\<close>

theorem views_form_a_tree:
  assumes "trace_run_views events t objective = Inr views" "events \<noteq> []"
  shows "\<exists>r vs d ev. views = r # vs \<and> trv_id r = t \<and> trv_parent_run_id r = [] \<and> parents_first {t} vs \<and>
    assess_trace events = Inr (d, ev) \<and> (trv_status r = ''success'' \<longleftrightarrow> td_outcome d = ''success'')"
proof -
  obtain r session where r: "root_view t events = Inr (r, session)"
    using assms by (auto simp: trace_run_views_def elim!: and_then.elims split: prod.splits)
  obtain d ev where d: "assess_trace events = Inr (d, ev)" "trv_id r = t" "trv_parent_run_id r = []" "trv_name r = ''Trace''"
      "trv_status r = ''success'' \<longleftrightarrow> td_outcome d = ''success''"
    using r by (auto simp: root_view_def Let_def elim!: and_then.elims split: prod.splits)
  let ?w = "fold (walk_event t) events \<lparr>wk_views = [r], wk_turn = t, wk_step = None, wk_pending = None, wk_count = 0\<rparr>"
  have "walk_ok r ?w" by (rule walk_events_ok) (simp_all add: walk_ok_def d(2))
  then obtain ws where ws: "wk_views ?w = r # ws" "parents_first {t} ws" by (auto simp: walk_ok_def d(2))
  let ?p = "patch_spans t (patch_spans t (wk_views ?w))"
  have keep: "map trv_id ?p = map trv_id (r # ws)" "map trv_parent_run_id ?p = map trv_parent_run_id (r # ws)"
    using patch_keeps [of t] ws(1) by simp_all
  then obtain r' vs where p: "?p = r' # vs" by (cases ?p) auto
  have root_kept: "r' = r"
  proof -
    have "hd (patch_spans t us) = hd us" if "us \<noteq> []" "trv_id (hd us) = t" for us
    proof -
      have "us \<noteq> [] \<Longrightarrow> trv_id (hd us) = t \<Longrightarrow>
        hd (fold (\<lambda>i vs. vs[i := span_of_children t vs (vs ! i)]) js us) = hd us" for js
      proof (induction js arbitrary: us)
        case (Cons i ks)
        have "hd (us[i := span_of_children t us (us ! i)]) = hd us"
          using Cons.prems by (cases us; cases i) (auto simp: span_of_children_def Let_def)
        then show ?case using Cons by simp
      qed simp
      then show ?thesis using that by (simp add: patch_spans_def)
    qed
    moreover have "patch_spans t (wk_views ?w) \<noteq> []" using patch_keeps [of t "wk_views ?w"] ws(1) by auto
    ultimately have "hd ?p = hd (wk_views ?w)" using ws(1) d(2) by simp
    then show ?thesis using p ws(1) by simp
  qed
  have vs: "parents_first {t} vs" using keep ws(2) parents_first_cong [of vs ws] unfolding p by simp
  have "views = r # vs \<or> views = r # objective_view t objective session (Min (set (map te_created_at events))) # vs"
    using assms r p root_kept by (auto simp: trace_run_views_def Let_def split: if_splits)
  then consider "views = r # vs"
    | "views = r # objective_view t objective session (Min (set (map te_created_at events))) # vs" by blast
  then show ?thesis
  proof cases
    case 1
    then show ?thesis using vs d by blast
  next
    case 2
    note v = 2
    have "parents_first {t} (objective_view t objective session (Min (set (map te_created_at events))) # vs)"
      using parents_first_more [OF vs] by (simp add: objective_view_def subset_insertI)
    then show ?thesis using v d by blast
  qed
qed

theorem views_form_a_tree_witness:
  "\<exists>r vs. trace_run_views recovered_check ''t'' ''do it'' = Inr (r # vs) \<and> trv_id r = ''t'' \<and> parents_first {''t''} vs"
proof -
  obtain d ev where "assess_trace recovered_check = Inr (d, ev)" using evaluation_is_consistent_plain by blast
  moreover have "total_tokens (JInt 0, JInt 0) recovered_check = Inr (JInt 0, JInt 0)" by (simp add: recovered_check_def)
  ultimately have "is_ok (root_view ''t'' recovered_check)" by (simp add: root_view_def add_numbers_def Let_def)
  then obtain a b where "root_view ''t'' recovered_check = Inr (a, b)" by (auto simp: is_ok_iff)
  then have "is_ok (trace_run_views recovered_check ''t'' ''do it'')" by (simp add: trace_run_views_def Let_def)
  then obtain views where v: "trace_run_views recovered_check ''t'' ''do it'' = Inr views" by (auto simp: is_ok_iff)
  show ?thesis using views_form_a_tree [OF v] v by (auto simp: recovered_check_def)
qed

end
