(* ===== verification/Memory_Jobs.thy ===== *)
theory Memory_Jobs
  imports Dynamic_Parameters Trace_Views
begin

text \<open>
  The database of \<open>navi/memory\<close>: its tables, the parameters the store caches, the messages and
  sessions, and the queue of consolidation jobs (\<open>models.py\<close>, \<open>provider.py\<close> and the job methods of
  \<open>store.py\<close>). The store runs without a parameter registry, as everywhere but in the evaluation of a
  parameter. \<open>now\<close> is the clock a call reads, \<open>uuid\<close> the name it draws. What SQLite's full text index
  answers, and the row whose columns a \<open>GROUP BY\<close> without an aggregate shows, are arguments.
\<close>

section \<open>Policy\<close>

definition memory_types :: "string list" where
  "memory_types = [''working'', ''constraint'', ''episode'', ''semantic'', ''fact'', ''procedural'', ''case'',
     ''preference'', ''negative'', ''skill'', ''hypothesis'']"

definition learnable_memory_types :: "string list" where
  "learnable_memory_types = [''preference'', ''constraint'', ''negative'', ''fact'', ''semantic'']"

definition memory_statuses :: "string list" where
  "memory_statuses = [''proposed'', ''accepted'', ''active'', ''contradicted'', ''stale'', ''archived'', ''revoked'']"

definition active_statuses :: "string list" where
  "active_statuses = [''accepted'', ''active'']"

definition recallable_statuses :: "string list" where
  "recallable_statuses = active_statuses @ [''proposed'']"

definition active_memory_context_limit :: int where
  "active_memory_context_limit = 20"

section \<open>Rows\<close>

record StoredMessage =
  sm_session_id :: string
  sm_role :: string
  sm_content :: string
  sm_created_at :: time
  sm_message_id :: string
  sm_source :: string
  sm_peer_id :: string
  sm_sender_id :: string
  sm_trace_id :: string
  sm_run_id :: string

record SessionAlias =
  sa_alias :: string
  sa_session_id :: string
  sa_created_at :: time
  sa_updated_at :: time

record MemoryItem =
  mi_id :: string
  mi_type :: string
  mi_status :: string
  mi_scope :: string
  mi_content :: string
  mi_source :: string
  mi_confidence :: rat
  mi_created_at :: time
  mi_updated_at :: time
  mi_last_verified_at :: time
  mi_expires_at :: time
  mi_metadata :: dict
  mi_reason :: string
  mi_provenance :: string
  mi_summary :: string

record ConsolidationJob =
  cj_id :: string
  cj_session_id :: string
  cj_run_id :: string
  cj_source :: string
  cj_peer_id :: string
  cj_sender_id :: string
  cj_status :: string
  cj_owner :: string
  cj_lease_expires_at :: time
  cj_attempts :: nat
  cj_error :: string
  cj_created_at :: time
  cj_updated_at :: time

record JobEvent =
  ce_id :: nat
  ce_job_id :: string
  ce_event :: string
  ce_from :: string
  ce_to :: string
  ce_reason :: string
  ce_error :: string
  ce_created_at :: time

text \<open>The database, with the cache that the store keeps beside it.\<close>

record MemDb =
  md_items :: "MemoryItem list"
  md_messages :: "StoredMessage list"
  md_fts :: "(string \<times> string) list"
  md_aliases :: "SessionAlias list"
  md_jobs :: "ConsolidationJob list"
  md_events :: "JobEvent list"
  md_event_seq :: nat
  md_params :: "ParamRow list"
  md_cache :: "(string \<times> rat) list"
  md_ready :: bool
  md_loaded_at :: time
  md_queries :: "(string \<times> string) list"

section \<open>Parameters of the store\<close>

definition ensure_parameters :: "time \<Rightarrow> MemDb \<Rightarrow> MemDb" where
  "ensure_parameters now db =
     (if md_ready db \<and> now - md_loaded_at db < 300 then db
      else let rows = (if md_ready db then md_params db
             else fold (\<lambda>(name, v). set_parameter_if_absent name v now [(''reason'', JStr ''default_initialization'')])
               system_dynamic_parameters (md_params db))
        in db\<lparr>md_params := rows, md_cache := map (\<lambda>r. (pr_name r, pr_value r)) (list_parameters rows),
              md_ready := True, md_loaded_at := now\<rparr>)"

definition memory_parameter :: "time \<Rightarrow> string \<Rightarrow> rat \<Rightarrow> MemDb \<Rightarrow> rat \<times> MemDb" where
  "memory_parameter now name fallback db =
     (let db' = ensure_parameters now db
      in (case map_of (md_cache db') name of None \<Rightarrow> fallback | Some v \<Rightarrow> v, db'))"

definition set_memory_parameter :: "time \<Rightarrow> string \<Rightarrow> rat \<Rightarrow> string \<Rightarrow> dict \<Rightarrow> MemDb \<Rightarrow> MemDb" where
  "set_memory_parameter now name v reason metadata db =
     (let db' = ensure_parameters now db;
          r = (if reason \<noteq> [] then JStr reason else meta_get metadata ''reason'' (JStr ''dynamic_update''));
          meta = dict_set ''reason'' r metadata
      in db'\<lparr>md_cache := AList.update name v (md_cache db'),
             md_params := set_parameter name v now meta (md_params db')\<rparr>)"

definition memory_parameter_entry :: "time \<Rightarrow> string \<Rightarrow> MemDb \<Rightarrow> (rat \<times> time \<times> dict) option \<times> MemDb" where
  "memory_parameter_entry now name db =
     (let db' = ensure_parameters now db
      in (case row_of pr_name name (md_params db') of
            Some r \<Rightarrow> Some (pr_value r, pr_updated_at r, pr_metadata r)
          | None \<Rightarrow> map_option (\<lambda>v. (v, 0, [(''reason'', JStr ''default'')])) (map_of system_dynamic_parameters name), db'))"

section \<open>Sessions and messages\<close>

definition store_session_alias :: "string \<Rightarrow> string \<Rightarrow> time \<Rightarrow> time \<Rightarrow> SessionAlias list \<Rightarrow> SessionAlias list" where
  "store_session_alias name sid created updated t =
     (if row_of sa_alias name t = None
      then t @ [\<lparr>sa_alias = name, sa_session_id = sid, sa_created_at = created, sa_updated_at = updated\<rparr>]
      else sql_update (\<lambda>a. sa_alias a = name) (\<lambda>a. a\<lparr>sa_session_id := sid, sa_updated_at := updated\<rparr>) t)"

definition get_session_alias :: "string \<Rightarrow> MemDb \<Rightarrow> SessionAlias option" where
  "get_session_alias name db = row_of sa_alias name (md_aliases db)"

definition set_session_alias :: "time \<Rightarrow> string \<Rightarrow> string \<Rightarrow> MemDb \<Rightarrow> SessionAlias \<times> MemDb" where
  "set_session_alias now name sid db =
     (let created = (case get_session_alias name db of None \<Rightarrow> now | Some a \<Rightarrow> sa_created_at a);
          db' = db\<lparr>md_aliases := store_session_alias name sid created now (md_aliases db)\<rparr>
      in (case get_session_alias name db' of
            Some a \<Rightarrow> a
          | None \<Rightarrow> \<lparr>sa_alias = name, sa_session_id = sid, sa_created_at = created, sa_updated_at = now\<rparr>, db'))"

text \<open>\<open>stamp\<close> is the local time and the first characters of a uuid that \<open>new_session_id\<close> joins.\<close>

definition create_session :: "time \<Rightarrow> string \<Rightarrow> string \<Rightarrow> MemDb \<Rightarrow> string \<times> MemDb" where
  "create_session now stamp name db =
     (stamp, if name \<noteq> [] then snd (set_session_alias now name stamp db) else db)"

definition current_session_id :: "time \<Rightarrow> string \<Rightarrow> string \<Rightarrow> MemDb \<Rightarrow> string \<times> MemDb" where
  "current_session_id now stamp name db =
     (case get_session_alias name db of Some a \<Rightarrow> (sa_session_id a, db) | None \<Rightarrow> create_session now stamp name db)"

definition rotate_session :: "time \<Rightarrow> string \<Rightarrow> string \<Rightarrow> MemDb \<Rightarrow> SessionAlias \<times> MemDb" where
  "rotate_session now stamp name db = set_session_alias now name stamp db"

definition list_session_aliases :: "int \<Rightarrow> MemDb \<Rightarrow> SessionAlias list" where
  "list_session_aliases limit db = sql_limit limit (sql_desc sa_updated_at (md_aliases db))"

text \<open>The triggers of the table keep one entry per message id in the index.\<close>

definition store_message :: "StoredMessage \<Rightarrow> MemDb \<Rightarrow> MemDb result" where
  "store_message m db =
     (if sm_message_id m = [] then Inl (ValueError ''message_id is required'')
      else Inr (db\<lparr>md_messages := md_messages db @ [m],
        md_fts := filter (\<lambda>(i, _). i \<noteq> sm_message_id m) (md_fts db) @ [(sm_message_id m, sm_content m)]\<rparr>))"

definition add_message :: "time \<Rightarrow> string \<Rightarrow> StoredMessage \<Rightarrow> MemDb \<Rightarrow> MemDb result" where
  "add_message now uuid m db =
     store_message (m\<lparr>sm_created_at := now, sm_message_id := or_else (sm_message_id m) uuid\<rparr>) db"

definition newest :: "int \<Rightarrow> 'a list \<Rightarrow> 'a list" where
  "newest limit xs = rev (sql_limit limit (rev xs))"

definition get_messages :: "string \<Rightarrow> int \<Rightarrow> MemDb \<Rightarrow> StoredMessage list" where
  "get_messages sid limit db = newest limit (filter (\<lambda>m. sm_session_id m = sid) (md_messages db))"

definition get_messages_for_run :: "string \<Rightarrow> string \<Rightarrow> int \<Rightarrow> MemDb \<Rightarrow> StoredMessage list" where
  "get_messages_for_run sid rid limit db =
     newest limit (filter (\<lambda>m. sm_session_id m = sid \<and> sm_run_id m = rid) (md_messages db))"

definition clear_messages :: "string \<Rightarrow> MemDb \<Rightarrow> nat \<times> MemDb" where
  "clear_messages sid db =
     (let gone = map sm_message_id (filter (\<lambda>m. sm_session_id m = sid) (md_messages db))
      in (length gone, db\<lparr>md_messages := sql_delete (\<lambda>m. sm_session_id m = sid) (md_messages db),
            md_fts := filter (\<lambda>(i, _). i \<notin> set gone) (md_fts db)\<rparr>))"

definition list_sessions :: "MemDb \<Rightarrow> string list" where
  "list_sessions db =
     sql_desc (\<lambda>s. Max (set (map sm_created_at (filter (\<lambda>m. sm_session_id m = s) (md_messages db)))))
       (sort (remdups (map sm_session_id (md_messages db))))"

definition message_identity_filter :: "string \<Rightarrow> string \<Rightarrow> string \<Rightarrow> string \<Rightarrow> StoredMessage \<Rightarrow> bool" where
  "message_identity_filter sid source peer sender m =
     (let full = (source \<noteq> [] \<and> peer \<noteq> [] \<and> sender \<noteq> []);
          clauses = (if sid \<noteq> [] then [sm_session_id m = sid] else []) @
            (if full then [sm_source m = source \<and> sm_peer_id m = peer \<and> sm_sender_id m = sender] else []) @
            (if \<not> full \<and> sender \<noteq> [] then [sm_sender_id m = sender] else [])
      in clauses = [] \<or> True \<in> set clauses)"

text \<open>\<open>f"{q:.4f}"\<close>.\<close>

definition fixed4 :: "rat \<Rightarrow> string" where
  "fixed4 q = (let n = round_half_even (\<bar>q\<bar> * 10000); fr = show_nat (n mod 10000)
     in (if q < 0 then ''-'' else []) @ show_nat (n div 10000) @ ''.'' @ replicate (4 - length fr) (CHR ''0'') @ fr)"

text \<open>\<open>rank\<close> is the rank the full text index gives a message id for a phrase, if it matches.\<close>

definition search_messages ::
  "((string \<times> string) list \<Rightarrow> string \<Rightarrow> string \<Rightarrow> rat option) \<Rightarrow> string \<Rightarrow> int \<Rightarrow> string \<Rightarrow> string \<Rightarrow> string \<Rightarrow> string
    \<Rightarrow> MemDb \<Rightarrow> (StoredMessage \<times> rat \<times> string) list" where
  "search_messages rank query limit sid source peer sender db =
     (let q = py_strip query;
          mine = filter (message_identity_filter sid source peer sender) (md_messages db);
          ranked = concat (map (\<lambda>m. case rank (md_fts db) q (sm_message_id m) of
            None \<Rightarrow> [] | Some r \<Rightarrow> [(m, r, ''message_fts_rank='' @ fixed4 r)]) mine);
          found = sql_limit limit (sort_key (\<lambda>(m, r, _). r) (sort_key (\<lambda>(m, r, _). - sm_created_at m) ranked));
          like = sql_limit limit (sql_desc sm_created_at (filter (\<lambda>m. sql_like (''%'' @ q @ ''%'') (sm_content m)) mine))
      in if q = [] then []
         else if found \<noteq> [] then found
         else map (\<lambda>(i, m). (m, of_nat (i + 1), ''message_exact_like'')) (enumerate 0 like))"

section \<open>Jobs\<close>

definition record_job_event :: "string \<Rightarrow> string \<Rightarrow> string \<Rightarrow> string \<Rightarrow> string \<Rightarrow> string \<Rightarrow> time \<Rightarrow> MemDb \<Rightarrow> MemDb" where
  "record_job_event job ev from_status to_status reason error now db =
     db\<lparr>md_events := md_events db @ [\<lparr>ce_id = Suc (md_event_seq db), ce_job_id = job, ce_event = ev, ce_from = from_status,
          ce_to = to_status, ce_reason = reason, ce_error = error, ce_created_at = now\<rparr>],
        md_event_seq := Suc (md_event_seq db)\<rparr>"

definition update_job :: "(ConsolidationJob \<Rightarrow> bool) \<Rightarrow> (ConsolidationJob \<Rightarrow> ConsolidationJob) \<Rightarrow> MemDb \<Rightarrow> MemDb" where
  "update_job p f db = db\<lparr>md_jobs := sql_update p f (md_jobs db)\<rparr>"

definition job_for :: "string \<Rightarrow> string \<Rightarrow> MemDb \<Rightarrow> ConsolidationJob option" where
  "job_for sid rid db = sql_one (\<lambda>j. cj_session_id j = sid \<and> cj_run_id j = rid) (md_jobs db)"

definition pending_job :: "string \<Rightarrow> string \<Rightarrow> string \<Rightarrow> string \<Rightarrow> string \<Rightarrow> string \<Rightarrow> time \<Rightarrow> ConsolidationJob" where
  "pending_job job sid rid source peer sender now =
     \<lparr>cj_id = job, cj_session_id = sid, cj_run_id = rid, cj_source = source, cj_peer_id = peer, cj_sender_id = sender,
      cj_status = ''pending'', cj_owner = [], cj_lease_expires_at = 0, cj_attempts = 0, cj_error = [],
      cj_created_at = now, cj_updated_at = now\<rparr>"

definition insert_job :: "ConsolidationJob \<Rightarrow> MemDb \<Rightarrow> MemDb" where
  "insert_job j db = db\<lparr>md_jobs := md_jobs db @ [j]\<rparr>"

definition enqueue_job :: "time \<Rightarrow> string \<Rightarrow> string \<Rightarrow> string \<Rightarrow> string \<Rightarrow> string \<Rightarrow> string \<Rightarrow> string \<Rightarrow> MemDb \<Rightarrow> string \<times> MemDb" where
  "enqueue_job now uuid sid rid source peer sender reason db =
     (case job_for sid rid db of
        Some j \<Rightarrow> (cj_id j, db)
      | None \<Rightarrow> (uuid, record_job_event uuid ''enqueued'' [] ''pending'' reason [] now
          (insert_job (pending_job uuid sid rid source peer sender now) db)))"

definition enqueue_consolidation :: "time \<Rightarrow> string \<Rightarrow> string \<Rightarrow> string \<Rightarrow> string \<Rightarrow> string \<Rightarrow> string \<Rightarrow> MemDb \<Rightarrow> string \<times> MemDb" where
  "enqueue_consolidation now uuid sid rid source peer sender db =
     enqueue_job now uuid sid rid source peer sender ''conversation_turn_completed'' db"

definition enqueue_case_job :: "time \<Rightarrow> string \<Rightarrow> string \<Rightarrow> string \<Rightarrow> string \<Rightarrow> MemDb \<Rightarrow> string \<times> MemDb" where
  "enqueue_case_job now uuid goal peer sender db =
     enqueue_job now uuid (''case_precipitation:'' @ goal) (''case:'' @ goal) ''goal_convergence'' peer sender
       ''goal_converged_case_precipitation'' db"

text \<open>\<open>f"{now:.0f}"\<close>: the seconds, rounded half to even.\<close>

definition enqueue_reflective_repair :: "time \<Rightarrow> string \<Rightarrow> string \<Rightarrow> MemDb \<Rightarrow> string \<times> MemDb" where
  "enqueue_reflective_repair now uuid item db =
     (let sid = ''reflective_repair:'' @ item; rid = ''repair:'' @ item @ '':'' @ show_nat (round_half_even now)
      in (uuid, case job_for sid rid db of
           Some _ \<Rightarrow> db
         | None \<Rightarrow> insert_job (pending_job uuid sid rid ''reflective_repair'' [] [] now) db))"

definition unconsolidated_groups :: "(StoredMessage list \<Rightarrow> StoredMessage) \<Rightarrow> MemDb \<Rightarrow> StoredMessage list" where
  "unconsolidated_groups pick db =
     (let left = filter (\<lambda>m. \<forall>j\<in>set (md_jobs db). cj_session_id j \<noteq> sm_session_id m) (md_messages db)
      in map (\<lambda>s. pick (filter (\<lambda>m. sm_session_id m = s) left)) (sort (remdups (map sm_session_id left))))"

fun enqueue_episodes :: "time \<Rightarrow> (nat \<Rightarrow> string) \<Rightarrow> StoredMessage list \<Rightarrow> MemDb \<Rightarrow> string list \<times> MemDb" where
  "enqueue_episodes now uuid [] db = ([], db)"
| "enqueue_episodes now uuid (m # ms) db =
     (let (j, db1) = enqueue_consolidation now (uuid 0) (sm_session_id m) (or_else (sm_run_id m) (sm_session_id m))
            (or_else (sm_source m) ''conversation'') (sm_peer_id m) (sm_sender_id m) db;
          (js, db2) = enqueue_episodes now (\<lambda>n. uuid (Suc n)) ms db1
      in (j # js, db2))"

definition enqueue_unconsolidated_episodes ::
  "time \<Rightarrow> (nat \<Rightarrow> string) \<Rightarrow> (StoredMessage list \<Rightarrow> StoredMessage) \<Rightarrow> int \<Rightarrow> MemDb \<Rightarrow> string list \<times> MemDb" where
  "enqueue_unconsolidated_episodes now uuid pick limit db =
     enqueue_episodes now uuid (sql_limit limit (sql_asc sm_created_at (unconsolidated_groups pick db))) db"

definition list_consolidation_jobs :: "string \<Rightarrow> string \<Rightarrow> int \<Rightarrow> MemDb \<Rightarrow> ConsolidationJob list" where
  "list_consolidation_jobs job status limit db =
     (let j0 = py_strip job; s0 = py_strip status
      in sql_limit (max 1 (min limit 500)) (sql_desc cj_updated_at
           (filter (\<lambda>j. (j0 = [] \<or> cj_id j = j0) \<and> (s0 = [] \<or> cj_status j = s0)) (md_jobs db))))"

definition list_consolidation_job_events :: "string \<Rightarrow> MemDb \<Rightarrow> JobEvent list" where
  "list_consolidation_job_events job db = filter (\<lambda>e. ce_job_id e = job) (sort_key ce_id (md_events db))"

definition retry_one :: "time \<Rightarrow> string \<Rightarrow> string \<Rightarrow> MemDb \<Rightarrow> MemDb" where
  "retry_one now reason job db =
     (case row_of cj_id job (md_jobs db) of
        Some j \<Rightarrow> if cj_status j = ''dead_letter''
          then record_job_event job ''retry_requested'' ''dead_letter'' ''pending'' reason (cj_error j) now
            (update_job (\<lambda>r. cj_id r = job \<and> cj_status r = ''dead_letter'')
              (\<lambda>r. r\<lparr>cj_status := ''pending'', cj_owner := [], cj_lease_expires_at := 0, cj_error := [],
                     cj_updated_at := now\<rparr>) db)
          else db
      | None \<Rightarrow> db)"

definition is_dead :: "MemDb \<Rightarrow> string \<Rightarrow> bool" where
  "is_dead db job = (case row_of cj_id job (md_jobs db) of None \<Rightarrow> False | Some j \<Rightarrow> cj_status j = ''dead_letter'')"

definition retry_consolidation_jobs :: "time \<Rightarrow> string list \<Rightarrow> string \<Rightarrow> MemDb \<Rightarrow> (ConsolidationJob list \<times> MemDb) result" where
  "retry_consolidation_jobs now job_ids reason db =
     (let ids = first_seen (filter (\<lambda>i. i \<noteq> []) (map py_strip job_ids))
      in if ids = [] then Inl (ValueError ''memory consolidation retry requires job_ids'')
         else if py_strip reason = [] then Inl (ValueError ''memory consolidation retry requires reason'')
         else let retried = filter (is_dead db) ids; db' = fold (retry_one now (py_strip reason)) ids db
           in Inr (sql_desc cj_updated_at (filter (\<lambda>j. cj_id j \<in> set retried) (md_jobs db')), db'))"

definition bury_failed :: "time \<Rightarrow> ConsolidationJob \<Rightarrow> MemDb \<Rightarrow> MemDb" where
  "bury_failed now j db =
     record_job_event (cj_id j) ''legacy_failed_normalized'' ''failed'' ''dead_letter'' ''legacy_status_normalization''
       (cj_error j) now
       (update_job (\<lambda>r. cj_id r = cj_id j \<and> cj_status r = ''failed'')
         (\<lambda>r. r\<lparr>cj_status := ''dead_letter'', cj_owner := [], cj_lease_expires_at := 0, cj_updated_at := now\<rparr>) db)"

definition claimable_job :: "time \<Rightarrow> ConsolidationJob \<Rightarrow> bool" where
  "claimable_job now j = (cj_status j = ''pending'' \<or> (cj_status j = ''active'' \<and> cj_lease_expires_at j \<le> now))"

definition claim_one :: "time \<Rightarrow> string \<Rightarrow> time \<Rightarrow> ConsolidationJob \<Rightarrow> MemDb \<Rightarrow> MemDb" where
  "claim_one now owner lease j db =
     record_job_event (cj_id j) ''claimed'' (cj_status j) ''active''
       (if cj_status j = ''active'' then ''lease_reclaimed'' else ''worker_claim'') [] now
       (update_job (\<lambda>r. cj_id r = cj_id j)
         (\<lambda>r. r\<lparr>cj_status := ''active'', cj_owner := owner, cj_lease_expires_at := now + lease,
                cj_attempts := Suc (cj_attempts r), cj_error := [], cj_updated_at := now\<rparr>) db)"

definition claim_jobs :: "time \<Rightarrow> string \<Rightarrow> int \<Rightarrow> time \<Rightarrow> MemDb \<Rightarrow> ConsolidationJob list \<times> MemDb" where
  "claim_jobs now owner limit lease db =
     (let db1 = fold (bury_failed now) (filter (\<lambda>j. cj_status j = ''failed'') (md_jobs db)) db;
          selected = sql_limit (max 1 limit) (sql_asc cj_updated_at (filter (claimable_job now) (md_jobs db1)));
          ids = map cj_id selected;
          db2 = fold (claim_one now owner lease) selected db1
      in (sql_asc cj_updated_at (filter (\<lambda>j. cj_id j \<in> set ids) (md_jobs db2)), db2))"

definition claim_consolidation_jobs :: "time \<Rightarrow> string \<Rightarrow> int \<Rightarrow> time \<Rightarrow> MemDb \<Rightarrow> ConsolidationJob list \<times> MemDb" where
  "claim_consolidation_jobs now owner limit lease_seconds db =
     (let (lease, db') = (if lease_seconds = 300 then memory_parameter now ''consolidation_lease_seconds'' 300 db
            else (lease_seconds, db))
      in claim_jobs now owner limit lease db')"

definition finish_consolidation_job :: "time \<Rightarrow> ConsolidationJob \<Rightarrow> string \<Rightarrow> string \<Rightarrow> MemDb \<Rightarrow> MemDb" where
  "finish_consolidation_job now j status error db =
     (if sql_count (\<lambda>r. cj_id r = cj_id j \<and> cj_owner r = cj_owner j) (md_jobs db) = 0 then db
      else record_job_event (cj_id j) status (cj_status j) status ''worker_result'' error now
        (update_job (\<lambda>r. cj_id r = cj_id j \<and> cj_owner r = cj_owner j)
          (\<lambda>r. r\<lparr>cj_status := status, cj_owner := [], cj_lease_expires_at := 0, cj_error := error,
                 cj_updated_at := now\<rparr>) db))"

definition prune_consolidation_history :: "time \<Rightarrow> time option \<Rightarrow> MemDb \<Rightarrow> (nat \<times> nat) \<times> MemDb" where
  "prune_consolidation_history now retention db =
     (let (kept_for, db') = memory_parameter now ''consolidation_history_retention_seconds'' (30 * 86400) db;
          cutoff = now - (case retention of None \<Rightarrow> kept_for | Some r \<Rightarrow> r);
          old_job = (\<lambda>j. cj_status j = ''completed'' \<and> cj_updated_at j < cutoff);
          old_event = (\<lambda>e. ce_created_at e < cutoff)
      in ((sql_count old_job (md_jobs db'), sql_count old_event (md_events db')),
          db'\<lparr>md_jobs := sql_delete old_job (md_jobs db'), md_events := sql_delete old_event (md_events db')\<rparr>))"

end
