(* ===== verification/Hooks.thy ===== *)
theory Hooks
  imports Loop_Spec_Codec
begin

text \<open>
  \<open>navi/hooks.py\<close>: the table of hooks that observe or block an event. A file of the folder \<open>hooks\<close> is
  given by its path below the home and the value its YAML denotes. A description of a decision that is
  no mapping but a list of pairs, which \<open>dict\<close> would accept, is refused here.
\<close>

section \<open>Equality of values\<close>

text \<open>\<open>==\<close> compares numbers by value, whatever their type; a truth value is a number.\<close>

fun number_of :: "json \<Rightarrow> rat option" where
  "number_of (JBool b) = Some (if b then 1 else 0)"
| "number_of (JInt i) = Some (of_int i)"
| "number_of (JFloat q) = Some q"
| "number_of _ = None"

fun py_eq :: "json \<Rightarrow> json \<Rightarrow> bool"
  and py_eq_list :: "json list \<Rightarrow> json list \<Rightarrow> bool"
  and py_eq_items :: "(string \<times> json) list \<Rightarrow> dict \<Rightarrow> bool" where
  "py_eq (JStr s) w = (w = JStr s)"
| "py_eq JNull w = (w = JNull)"
| "py_eq (JList xs) w = (case w of JList ys \<Rightarrow> py_eq_list xs ys | _ \<Rightarrow> False)"
| "py_eq (JDict d) w = (case w of JDict e \<Rightarrow> length d = length e \<and> py_eq_items d e | _ \<Rightarrow> False)"
| "py_eq (JBool b) w = (number_of w = Some (if b then 1 else 0))"
| "py_eq (JInt i) w = (number_of w = Some (of_int i))"
| "py_eq (JFloat q) w = (number_of w = Some q)"
| "py_eq_list [] ys = (ys = [])"
| "py_eq_list (x # xs) ys = (case ys of [] \<Rightarrow> False | y # ys \<Rightarrow> py_eq x y \<and> py_eq_list xs ys)"
| "py_eq_items [] e = True"
| "py_eq_items ((k, v) # d) e = ((case map_of e k of None \<Rightarrow> False | Some w \<Rightarrow> py_eq v w) \<and> py_eq_items d e)"

section \<open>The table\<close>

record HookSpec =
  hk_name :: string
  hk_event :: string
  hk_description :: string
  hk_decision_schema :: dict
  hk_source :: string
  hk_decision :: string
  hk_reason_code :: string
  hk_facts :: "dict option"
  hk_match :: "dict option"

record HookEvent =
  he_event :: string
  he_payload :: dict

record HookDecision =
  hd_hook :: string
  hd_event :: string
  hd_decision :: string
  hd_reason_code :: string
  hd_facts :: dict

text \<open>\<open>v or other\<close>.\<close>

definition or_value :: "json \<Rightarrow> json \<Rightarrow> json" where
  "or_value v other = (if py_truthy v then v else other)"

definition optional_mapping :: "string \<Rightarrow> json \<Rightarrow> dict option result" where
  "optional_mapping what v =
     (case v of JNull \<Rightarrow> Inr None | JDict d \<Rightarrow> Inr (Some d)
      | _ \<Rightarrow> Inl (ValueError (''hook '' @ what @ '' must be a mapping'')))"

definition required_text :: "dict \<Rightarrow> string \<Rightarrow> string result" where
  "required_text d k = (case map_of d k of None \<Rightarrow> Inl (KeyError k) | Some v \<Rightarrow> Inr (py_str v))"

definition hook_spec_from_mapping :: "json \<Rightarrow> string \<Rightarrow> HookSpec result" where
  "hook_spec_from_mapping item default_source =
     (case item of
        JDict d \<Rightarrow>
          (let decision = py_lower (py_strip (py_str (or_value (jget d ''decision'') (JStr ''observe''))))
           in if decision \<notin> {''observe'', ''block''}
              then Inl (ValueError (''unsupported hook decision: '' @ decision))
              else and_then (optional_mapping ''facts'' (jget d ''facts'')) (\<lambda>facts.
                and_then (optional_mapping ''match'' (jget d ''match'')) (\<lambda>match.
                and_then (required_text d ''name'') (\<lambda>name.
                and_then (required_text d ''event'') (\<lambda>event.
                and_then (case or_value (jget d ''decision_schema'') (JDict [(''type'', JStr ''object'')]) of
                    JDict schema \<Rightarrow> Inr schema | _ \<Rightarrow> Inl (ValueError ''dictionary update sequence'')) (\<lambda>schema.
                Inr \<lparr>hk_name = name, hk_event = event, hk_description = str_or_empty (jget d ''description''),
                  hk_decision_schema = schema,
                  hk_source = py_str (or_value (jget d ''source'') (JStr default_source)), hk_decision = decision,
                  hk_reason_code = str_or_empty (jget d ''reason_code''), hk_facts = facts, hk_match = match\<rparr>))))))
      | _ \<Rightarrow> Inl (ValueError ''hook entries must be mappings''))"

definition hook_schema :: json where
  "hook_schema = JDict [(''type'', JStr ''object''),
     (''properties'', JDict [(''decision'', JDict [(''type'', JStr ''string'')]),
        (''reason_code'', JDict [(''type'', JStr ''string'')]), (''facts'', JDict [(''type'', JStr ''object'')])])]"

definition hooks_spec :: "json list" where
  "hooks_spec =
     [JDict [(''name'', JStr ''capability.before''), (''event'', JStr ''before_capability''),
        (''description'', JStr ''Observe or gate a capability syscall before execution.''),
        (''decision_schema'', hook_schema)],
      JDict [(''name'', JStr ''capability.after''), (''event'', JStr ''after_capability''),
        (''description'', JStr ''Observe capability syscall results after execution.''),
        (''decision_schema'', hook_schema)],
      JDict [(''name'', JStr ''memory.before_write''), (''event'', JStr ''before_memory_write''),
        (''description'', JStr ''Observe or gate durable memory writes before persistence.''),
        (''decision_schema'', hook_schema)]]"

definition load_builtin_hook_specs :: "HookSpec list result" where
  "load_builtin_hook_specs = each_value (\<lambda>item. hook_spec_from_mapping item ''built-in'') hooks_spec"

text \<open>A hook file: its path below the home, and what its YAML denotes.\<close>

type_synonym hook_file = "string \<times> json"

definition hook_entries :: "hook_file \<Rightarrow> json list result" where
  "hook_entries = (\<lambda>(path, raw).
     (case (case or_value raw (JList []) of JDict d \<Rightarrow> jget d ''hooks'' | v \<Rightarrow> v) of
        JList entries \<Rightarrow> Inr entries
      | _ \<Rightarrow> Inl (ValueError (path @ '' must contain a hook list''))))"

definition load_hook_file :: "hook_file \<Rightarrow> HookSpec list result" where
  "load_hook_file f =
     and_then (hook_entries f) (each_value (\<lambda>item. hook_spec_from_mapping item (''local:'' @ fst f)))"

definition load_local_hook_specs :: "hook_file list \<Rightarrow> HookSpec list result" where
  "load_local_hook_specs files =
     and_then (each_value load_hook_file (sort_key fst files)) (\<lambda>specs. Inr (concat specs))"

definition load_hook_specs :: "hook_file list \<Rightarrow> HookSpec list result" where
  "load_hook_specs files =
     and_then load_builtin_hook_specs (\<lambda>built_in.
     and_then (load_local_hook_specs files) (\<lambda>specs. Inr (built_in @ specs)))"

definition list_hook_specs :: "HookSpec list \<Rightarrow> HookSpec list" where
  "list_hook_specs specs = sort_key hk_event (sort_key hk_name specs)"

section \<open>Decisions\<close>

definition payload_matches :: "dict \<Rightarrow> dict \<Rightarrow> bool" where
  "payload_matches payload match =
     list_all (\<lambda>(k, expected).
       (case expected of
          JList options \<Rightarrow> list_ex (\<lambda>v. py_eq (jget payload k) v) options
        | _ \<Rightarrow> py_eq (jget payload k) expected)) match"

definition hook_applies :: "HookEvent \<Rightarrow> HookSpec \<Rightarrow> bool" where
  "hook_applies e spec =
     (hk_event spec = he_event e \<and>
      payload_matches (he_payload e) (case hk_match spec of None \<Rightarrow> [] | Some m \<Rightarrow> m))"

definition hook_decision :: "HookEvent \<Rightarrow> HookSpec \<Rightarrow> HookDecision" where
  "hook_decision e spec =
     \<lparr>hd_hook = hk_name spec, hd_event = he_event e, hd_decision = hk_decision spec,
      hd_reason_code = hk_reason_code spec,
      hd_facts = dict_merge [(''payload_keys'', JList (map JStr (sort (map fst (he_payload e))))),
          (''source'', JStr (hk_source spec))]
        (case hk_facts spec of None \<Rightarrow> [] | Some f \<Rightarrow> f)\<rparr>"

definition run_hooks :: "HookSpec list \<Rightarrow> HookEvent \<Rightarrow> HookDecision list" where
  "run_hooks specs e = map (hook_decision e) (filter (hook_applies e) specs)"

definition blocking_hook :: "HookDecision list \<Rightarrow> HookDecision option" where
  "blocking_hook ds = List.find (\<lambda>d. hd_decision d = ''block'') ds"

text \<open>The hooks of the repository only observe.\<close>

lemma built_in_hooks: "load_builtin_hook_specs = Inr specs \<Longrightarrow> \<forall>s\<in>set specs. hk_decision s = ''observe''"
proof -
  have lower: "py_lower (py_strip ''observe'') = ''observe''" by code_simp
  assume "load_builtin_hook_specs = Inr specs"
  then show ?thesis
    by (auto simp: load_builtin_hook_specs_def hooks_spec_def hook_spec_from_mapping_def or_value_def
        optional_mapping_def hook_schema_def lower required_text_def str_or_empty_def)
qed

lemma blocked_iff:
  "(\<exists>d. blocking_hook (run_hooks specs e) = Some d) \<longleftrightarrow> (\<exists>s\<in>set specs. hook_applies e s \<and> hk_decision s = ''block'')"
proof -
  have "blocking_hook (run_hooks specs e) = None \<longleftrightarrow> (\<forall>s\<in>set specs. hook_applies e s \<longrightarrow> hk_decision s \<noteq> ''block'')"
    by (auto simp: blocking_hook_def run_hooks_def find_None_iff hook_decision_def)
  then show ?thesis by (cases "blocking_hook (run_hooks specs e)") auto
qed

end
