(* ===== verification/Memory_Items.thy ===== *)
theory Memory_Items
  imports Memory_Jobs Hooks Cron
begin

text \<open>
  The items of \<open>navi/memory/store.py\<close>: their rows, their lifecycle and the maintenance. \<open>files\<close> are the hook
  files that every governed write reads; \<open>math_log\<close> is \<open>math.log\<close> and \<open>ratio\<close> is
  \<open>SequenceMatcher(None, a, b).ratio()\<close>. A text in the metadata that denotes no finite number raises. An
  operation that raises keeps what it had written to the parameters before. The metadata of a row is the
  dictionary its text denotes, with sorted keys as \<open>json.dumps\<close> writes them.
\<close>

section \<open>Rows\<close>

fun sort_keys :: "json \<Rightarrow> json" where
  "sort_keys (JList xs) = JList (map sort_keys xs)"
| "sort_keys (JDict d) = JDict (sort_key fst (map (\<lambda>(k, v). (k, sort_keys v)) d))"
| "sort_keys v = v"

definition sorted_metadata :: "dict \<Rightarrow> dict" where
  "sorted_metadata d = as_dict (sort_keys (JDict d))"

definition store_item :: "MemoryItem \<Rightarrow> MemDb \<Rightarrow> MemDb result" where
  "store_item it db =
     (if py_strip (mi_source it) = [] then Inl (ValueError ''memory source is required'')
      else if py_strip (mi_reason it) = [] then Inl (ValueError ''memory reason is required'')
      else if py_strip (mi_provenance it) = [] then Inl (ValueError ''memory provenance is required'')
      else Inr (db\<lparr>md_items := sql_delete (\<lambda>r. mi_id r = mi_id it) (md_items db) @
        [it\<lparr>mi_metadata := sorted_metadata (mi_metadata it)\<rparr>]\<rparr>))"

definition store_item_call :: "MemoryItem \<Rightarrow> (unit, MemDb) call" where
  "store_item_call it db = (case store_item it db of Inl e \<Rightarrow> (Inl e, db) | Inr db' \<Rightarrow> (Inr (), db'))"

definition list_memory_items :: "string \<Rightarrow> string \<Rightarrow> string list option \<Rightarrow> int \<Rightarrow> MemDb \<Rightarrow> MemoryItem list" where
  "list_memory_items memory_type status scopes limit db =
     (if scopes = Some [] then []
      else sql_limit limit (sql_desc mi_updated_at (filter (\<lambda>r.
        (memory_type = [] \<or> mi_type r = memory_type) \<and> (status = [] \<or> mi_status r = status) \<and>
        (case scopes of None \<Rightarrow> True | Some ss \<Rightarrow> mi_scope r \<in> set ss)) (md_items db))))"

definition get_memory_item :: "string \<Rightarrow> MemDb \<Rightarrow> MemoryItem option" where
  "get_memory_item i db = row_of mi_id i (md_items db)"

definition update_item :: "string \<Rightarrow> (MemoryItem \<Rightarrow> MemoryItem) \<Rightarrow> MemDb \<Rightarrow> MemDb" where
  "update_item i f db = db\<lparr>md_items := sql_update (\<lambda>r. mi_id r = i) f (md_items db)\<rparr>"

definition remove_item :: "string \<Rightarrow> MemDb \<Rightarrow> MemDb" where
  "remove_item i db = db\<lparr>md_items := sql_delete (\<lambda>r. mi_id r = i) (md_items db)\<rparr>"

section \<open>The gate of the writes\<close>

definition unit_interval :: "rat \<Rightarrow> rat" where
  "unit_interval q = max 0 (min 1 q)"

definition memory_write_event :: "MemoryItem \<Rightarrow> HookEvent" where
  "memory_write_event it =
     \<lparr>he_event = ''before_memory_write'',
      he_payload = [(''type'', JStr (mi_type it)), (''status'', JStr (mi_status it)), (''scope'', JStr (mi_scope it)),
        (''source'', JStr (mi_source it)), (''confidence'', JFloat (mi_confidence it)),
        (''content_chars'', JInt (int (length (mi_content it)))),
        (''metadata_keys'', JList (map JStr (sort (map fst (mi_metadata it)))))]\<rparr>"

text \<open>\<open>it\<close> is the item as the event describes it: its confidence clamped, its new status.\<close>

definition assert_memory_write_allowed :: "hook_file list \<Rightarrow> MemoryItem \<Rightarrow> unit result" where
  "assert_memory_write_allowed files it =
     and_then (load_hook_specs files) (\<lambda>specs.
       case blocking_hook (run_hooks specs (memory_write_event it)) of
         None \<Rightarrow> Inr ()
       | Some d \<Rightarrow> Inl (ValueError (or_else (hd_reason_code d) (''hook_blocked:'' @ hd_hook d))))"

definition gate :: "hook_file list \<Rightarrow> MemoryItem \<Rightarrow> (unit, MemDb) call" where
  "gate files it = checked (assert_memory_write_allowed files it)"

definition clamped :: "MemoryItem \<Rightarrow> MemoryItem" where
  "clamped it = it\<lparr>mi_confidence := unit_interval (mi_confidence it)\<rparr>"

section \<open>Summaries\<close>

definition py_rfind :: "string \<Rightarrow> string \<Rightarrow> int" where
  "py_rfind s mark =
     (case filter (\<lambda>i. take (length mark) (drop i s) = mark) [0..<length s] of [] \<Rightarrow> -1 | is \<Rightarrow> int (last is))"

text \<open>The marks that lie beyond the code points of the model are never found.\<close>

definition default_l0_summary :: "string \<Rightarrow> string" where
  "default_l0_summary content =
     (let txt = join_with '' '' (py_split content); head = take 256 txt;
          cut = max (max (py_rfind head ''. '') (py_rfind head ''! '')) (max (py_rfind head ''? '') (-1))
      in if length txt \<le> 320 then [] else if cut < 128 then head else py_strip (take (nat cut) head))"

section \<open>Operations on one item\<close>

text \<open>\<open>draft\<close> holds the arguments; its id and its two times are not read.\<close>

definition clean_draft :: "MemoryItem \<Rightarrow> MemoryItem" where
  "clean_draft d = d\<lparr>mi_type := py_lower (py_strip (mi_type d)), mi_status := py_lower (py_strip (mi_status d)),
     mi_content := py_strip (mi_content d), mi_source := py_strip (mi_source d),
     mi_scope := or_else (py_strip (mi_scope d)) ''global'', mi_reason := py_strip (mi_reason d),
     mi_provenance := py_strip (mi_provenance d), mi_confidence := unit_interval (mi_confidence d),
     mi_summary := or_else (py_strip (mi_summary d)) (default_l0_summary (py_strip (mi_content d)))\<rparr>"

definition draft_error :: "MemoryItem \<Rightarrow> py_error option" where
  "draft_error d =
     (if mi_type d \<notin> set memory_types then Some (ValueError (''Unsupported memory type: '' @ mi_type d))
      else if mi_status d \<notin> set memory_statuses then Some (ValueError (''Unsupported memory status: '' @ mi_status d))
      else if mi_content d = [] then Some (ValueError ''memory content is required'')
      else if mi_source d = [] then Some (ValueError ''memory source is required'')
      else if mi_reason d = [] then Some (ValueError ''memory reason is required'')
      else if mi_provenance d = [] then Some (ValueError ''memory provenance is required'')
      else None)"

definition add_item :: "hook_file list \<Rightarrow> time \<Rightarrow> string \<Rightarrow> MemoryItem \<Rightarrow> (MemoryItem, MemDb) call" where
  "add_item files now uuid draft =
     (let d = clean_draft draft; it = d\<lparr>mi_id := uuid, mi_created_at := now, mi_updated_at := now\<rparr>
      in case draft_error d of
           Some e \<Rightarrow> raise_error e
         | None \<Rightarrow> then_call (gate files d) (\<lambda>_. then_call (store_item_call it) (\<lambda>_. answer it)))"

definition allowed_transitions :: "(string \<times> string list) list" where
  "allowed_transitions =
     [(''proposed'', [''accepted'', ''active'', ''revoked'', ''archived'']),
      (''accepted'', [''active'', ''archived'', ''revoked'']),
      (''active'', [''contradicted'', ''stale'', ''archived'', ''revoked'']),
      (''contradicted'', [''active'', ''archived'', ''revoked'']),
      (''stale'', [''active'', ''archived'', ''revoked'']),
      (''archived'', [''active'', ''revoked'']),
      (''revoked'', [''proposed'', ''archived''])]"

definition may_become :: "string \<Rightarrow> string \<Rightarrow> bool" where
  "may_become a b = (case map_of allowed_transitions a of None \<Rightarrow> False | Some bs \<Rightarrow> b \<in> set bs)"

definition set_status :: "hook_file list \<Rightarrow> time \<Rightarrow> string \<Rightarrow> string \<Rightarrow> (MemoryItem option, MemDb) call" where
  "set_status files now i status db =
     (let st = py_lower (py_strip status);
          write = then_call (write_to (update_item i (\<lambda>r. r\<lparr>mi_status := st, mi_updated_at := now\<rparr>)))
            (\<lambda>_. look_up (get_memory_item i))
      in if st \<notin> set memory_statuses then (Inl (ValueError (''Unsupported memory status: '' @ st)), db)
         else case get_memory_item i db of
           None \<Rightarrow> write db
         | Some cur \<Rightarrow> if mi_status cur = st then write db
             else if \<not> may_become (mi_status cur) st
               then (Inl (ValueError (''invalid memory lifecycle transition: '' @ mi_status cur @ '' -> '' @ st)), db)
             else then_call (gate files (clamped (cur\<lparr>mi_status := st\<rparr>))) (\<lambda>_. write) db)"

definition verify_item :: "hook_file list \<Rightarrow> time \<Rightarrow> string \<Rightarrow> (MemoryItem option, MemDb) call" where
  "verify_item files now i db =
     then_call (case get_memory_item i db of None \<Rightarrow> answer () | Some cur \<Rightarrow> gate files (clamped cur)) (\<lambda>_.
     then_call (write_to (update_item i (\<lambda>r. r\<lparr>mi_last_verified_at := now, mi_updated_at := now\<rparr>))) (\<lambda>_.
     look_up (get_memory_item i))) db"

definition delete_item :: "hook_file list \<Rightarrow> string \<Rightarrow> (unit, MemDb) call" where
  "delete_item files i db =
     then_call (case get_memory_item i db of None \<Rightarrow> answer () | Some cur \<Rightarrow> gate files (clamped (cur\<lparr>mi_status := ''archived''\<rparr>)))
       (\<lambda>_. write_to (remove_item i)) db"

definition metadata_id_list :: "json \<Rightarrow> string list" where
  "metadata_id_list v =
     (case v of
        JStr s \<Rightarrow> (if py_strip s \<noteq> [] then [py_strip s] else [])
      | JList xs \<Rightarrow> filter (\<lambda>s. s \<noteq> []) (map (\<lambda>x. py_strip (py_str x)) xs)
      | _ \<Rightarrow> [])"

definition superseded_metadata :: "time \<Rightarrow> string \<Rightarrow> string \<Rightarrow> dict \<Rightarrow> dict" where
  "superseded_metadata now replacement reason meta =
     (let by = metadata_id_list (jget meta ''superseded_by'');
          by = (if replacement \<in> set by then by else by @ [replacement])
      in dict_set ''superseded_at'' (JFloat now) (dict_set ''supersede_reason'' (JStr reason)
           (dict_set ''superseded_by'' (JList (map JStr by)) meta)))"

definition supersede_item ::
  "hook_file list \<Rightarrow> time \<Rightarrow> string \<Rightarrow> string \<Rightarrow> string \<Rightarrow> (MemoryItem option, MemDb) call" where
  "supersede_item files now i replacement reason db =
     (case (get_memory_item i db, get_memory_item replacement db) of
        (Some cur, Some _) \<Rightarrow>
          if py_strip reason = [] then (Inl (ValueError ''supersede reason is required''), db)
          else (let it = cur\<lparr>mi_status := ''archived'',
                      mi_metadata := superseded_metadata now replacement (py_strip reason) (mi_metadata cur)\<rparr>
            in then_call (gate files (clamped it)) (\<lambda>_.
               then_call (store_item_call (it\<lparr>mi_updated_at := now\<rparr>)) (\<lambda>_. look_up (get_memory_item i))) db)
      | _ \<Rightarrow> (Inr None, db))"

section \<open>Use of an item\<close>

text \<open>The maximal runs of \<open>[a-z0-9_]\<close>; code points of CJK are beyond the model.\<close>

definition is_word_char :: "char \<Rightarrow> bool" where
  "is_word_char c = (let n = code_point c in (97 \<le> n \<and> n \<le> 122) \<or> is_digit c \<or> c = CHR ''_'')"

definition text_features :: "string \<Rightarrow> string list" where
  "text_features txt =
     remdups (filter (\<lambda>w. 2 \<le> length w)
       (py_split (map (\<lambda>c. if is_word_char c then c else CHR '' '') (py_lower (py_strip txt)))))"

definition cue_scores :: "(string \<Rightarrow> string \<Rightarrow> rat) \<Rightarrow> string \<Rightarrow> string \<Rightarrow> rat \<times> rat \<times> rat \<times> rat" where
  "cue_scores ratio query content =
     (let q = py_lower (py_strip query); c = py_lower (py_strip content);
          qf = text_features q; cf = text_features c;
          common = length (filter (\<lambda>w. w \<in> set cf) qf);
          union = length (remdups (qf @ cf))
      in (of_nat common / of_nat (max 1 (length qf)), of_nat common / of_nat (max 1 union), ratio q c,
          if common = 0 then 0 else 1))"

definition cue_target :: "rat \<Rightarrow> rat \<Rightarrow> rat \<Rightarrow> rat \<Rightarrow> rat" where
  "cue_target score valid current feature_sum =
     (score * valid + 1 / 10000 * current) / (feature_sum + 1 / 10000)"

definition adapt_cue_weights :: "time \<Rightarrow> (string \<Rightarrow> string \<Rightarrow> rat) \<Rightarrow> string \<Rightarrow> string \<Rightarrow> MemDb \<Rightarrow> MemDb" where
  "adapt_cue_weights now ratio query content db =
     (let (coverage, jaccard, seq, valid) = cue_scores ratio query content;
          feature_sum = (coverage + jaccard + seq) * valid;
          (cov, db1) = memory_parameter now ''cue_weight_coverage'' (3 / 5) db;
          (jac, db2) = memory_parameter now ''cue_weight_jaccard'' (1 / 4) db1;
          (sq, db3) = memory_parameter now ''cue_weight_sequence'' (3 / 20) db2;
          (rate, db4) = memory_parameter now ''hebbian_learning_rate'' (1 / 20) db3;
          eta = rate * (feature_sum / (feature_sum + 1 / 10000));
          new_cov = max (1 / 100) (cov + eta * (cue_target coverage valid cov feature_sum - cov));
          new_jac = max (1 / 100) (jac + eta * (cue_target jaccard valid jac feature_sum - jac));
          new_seq = max (1 / 100) (sq + eta * (cue_target seq valid sq feature_sum - sq));
          norm = max (1 / 1000000) (new_cov + new_jac + new_seq);
          norm_cov = round_places 4 (new_cov / norm);
          norm_jac = round_places 4 (new_jac / norm);
          norm_seq = round_places 4 (1 - norm_cov - norm_jac);
          why = ''hebbian_activation_reinforcement''
      in set_memory_parameter now ''cue_weight_sequence'' norm_seq why []
           (set_memory_parameter now ''cue_weight_jaccard'' norm_jac why []
           (set_memory_parameter now ''cue_weight_coverage'' norm_cov why [] db4)))"

definition metadata_int :: "dict \<Rightarrow> string \<Rightarrow> int" where
  "metadata_int meta k =
     (case int_value (or_value (jget meta k) (JInt 0)) of Inl _ \<Rightarrow> 0 | Inr i \<Rightarrow> max 0 i)"

definition activated_metadata :: "time \<Rightarrow> string \<Rightarrow> string \<Rightarrow> dict \<Rightarrow> dict" where
  "activated_metadata now reason provenance meta =
     dict_set ''activation_provenance'' (JStr provenance) (dict_set ''activation_reason'' (JStr reason)
       (dict_set ''recall_count'' (JInt (metadata_int meta ''recall_count'' + 1))
       (dict_set ''last_recalled_at'' (JFloat now) meta)))"

definition effective_query :: "string \<Rightarrow> string \<Rightarrow> MemDb \<Rightarrow> string \<times> MemDb" where
  "effective_query query i db =
     (if py_strip query \<noteq> [] then (py_strip query, db)
      else (case map_of (md_queries db) i of None \<Rightarrow> [] | Some q \<Rightarrow> q, db\<lparr>md_queries := AList.delete i (md_queries db)\<rparr>))"

definition record_activation ::
  "hook_file list \<Rightarrow> (string \<Rightarrow> string \<Rightarrow> rat) \<Rightarrow> time \<Rightarrow> string \<Rightarrow> string \<Rightarrow> string \<Rightarrow> string \<Rightarrow> (MemoryItem option, MemDb) call" where
  "record_activation files ratio now i reason provenance query db =
     (case get_memory_item i db of
        None \<Rightarrow> (Inr None, db)
      | Some cur \<Rightarrow>
          if py_strip reason = [] then (Inl (ValueError ''activation reason is required''), db)
          else if py_strip provenance = [] then (Inl (ValueError ''activation provenance is required''), db)
          else (let meta = activated_metadata now (py_strip reason) (py_strip provenance) (mi_metadata cur);
                    (q, db1) = effective_query query i db;
                    db2 = adapt_cue_weights now ratio q (mi_content cur) db1;
                    proposed = (mi_status cur = ''proposed'');
                    bonus = (if proposed then 1 else 0);
                    (boost, db3) = memory_parameter now ''ltp_boost_delta'' (1 / 20) db2;
                    new_confidence = min 1 (mi_confidence cur + boost * bonus);
                    new_boost = round_places 4 (min (1 / 5) (max (1 / 100) (boost + 1 / 500 * bonus)));
                    db4 = (if proposed then set_memory_parameter now ''ltp_boost_delta'' new_boost ''ltp_dynamic_reinforcement'' [] db3
                      else db3);
                    it = cur\<lparr>mi_status := (if proposed then ''active'' else mi_status cur),
                      mi_confidence := new_confidence, mi_metadata := meta, mi_updated_at := now\<rparr>
            in then_call (gate files (clamped it)) (\<lambda>_.
               then_call (store_item_call it) (\<lambda>_. look_up (get_memory_item i))) db4))"

definition credited_metadata :: "time \<Rightarrow> rat \<Rightarrow> string \<Rightarrow> string \<Rightarrow> dict \<Rightarrow> dict" where
  "credited_metadata now delta reason provenance meta =
     dict_set ''last_credit_provenance'' (JStr provenance) (dict_set ''last_credit_at'' (JFloat now)
       (dict_set ''last_credit_reason'' (JStr reason) (dict_set ''last_credit_delta'' (JFloat (round_places 4 delta)) meta)))"

definition apply_credit_delta ::
  "time \<Rightarrow> string \<Rightarrow> string \<Rightarrow> rat \<Rightarrow> string \<Rightarrow> string \<Rightarrow> (MemoryItem option, MemDb) call" where
  "apply_credit_delta now uuid i delta reason provenance db =
     (case get_memory_item i db of
        None \<Rightarrow> (Inr None, db)
      | Some cur \<Rightarrow>
          (let new_confidence = round_places 4 (unit_interval (mi_confidence cur + delta));
               (threshold, db1) = memory_parameter now ''decay_stale_threshold'' (1 / 5) db;
               is_stale = (new_confidence < threshold \<and> delta < 0);
               new_status = (if is_stale \<and> mi_status cur \<in> {''active'', ''proposed''} then ''stale'' else mi_status cur);
               it = cur\<lparr>mi_status := new_status, mi_confidence := new_confidence, mi_updated_at := now,
                 mi_metadata := credited_metadata now delta (py_strip reason) (py_strip provenance) (mi_metadata cur)\<rparr>
           in then_call (store_item_call it) (\<lambda>_.
              then_call (call_if (is_stale \<and> new_status = ''stale'') (write_to (\<lambda>db. snd (enqueue_reflective_repair now uuid i db))))
                (\<lambda>_. look_up (get_memory_item i))) db1))"

text \<open>The snapshot has the fields of an item.\<close>

definition restore_item :: "hook_file list \<Rightarrow> MemoryItem \<Rightarrow> (unit, MemDb) call" where
  "restore_item files it =
     then_call (gate files (clamped it)) (\<lambda>_. store_item_call ((clamped it)\<lparr>mi_summary := []\<rparr>))"

definition reduce_confidence :: "hook_file list \<Rightarrow> time \<Rightarrow> string \<Rightarrow> rat option \<Rightarrow> (unit, MemDb) call" where
  "reduce_confidence files now i delta db =
     (case get_memory_item i db of
        None \<Rightarrow> (Inr (), db)
      | Some cur \<Rightarrow>
          (let (default_delta, db1) = memory_parameter now ''confidence_reduction_delta'' (1 / 10) db;
               d = (case delta of None \<Rightarrow> default_delta | Some d \<Rightarrow> d);
               new_confidence = max 0 (mi_confidence cur - d);
               (rate, db2) = memory_parameter now ''hebbian_learning_rate'' (1 / 20) db1;
               calibrated = round_places 4 (min (3 / 10) (max (1 / 50) (d + rate * (1 / 100) * (mi_confidence cur - 1 / 2))));
               db3 = (if delta = None then set_memory_parameter now ''confidence_reduction_delta'' calibrated
                 ''confidence_reduction_dynamic_calibration'' [] db2 else db2)
           in then_call (gate files (cur\<lparr>mi_confidence := new_confidence\<rparr>)) (\<lambda>_.
              write_to (update_item i (\<lambda>r. r\<lparr>mi_confidence := new_confidence, mi_updated_at := now\<rparr>))) db3))"

section \<open>Maintenance\<close>

text \<open>An item that expired: its id, the status it had and the status it has.\<close>

type_synonym expired = "string \<times> string \<times> string"

definition should_expire :: "time \<Rightarrow> MemoryItem \<Rightarrow> bool" where
  "should_expire now it =
     (mi_expires_at it \<noteq> 0 \<and> mi_expires_at it \<le> now \<and> mi_status it \<notin> {''archived'', ''revoked'', ''stale''})"

definition expire_one :: "hook_file list \<Rightarrow> time \<Rightarrow> MemoryItem \<Rightarrow> (expired list, MemDb) call" where
  "expire_one files now it =
     (if should_expire now it
      then then_call (set_status files now (mi_id it) (if mi_status it = ''active'' then ''stale'' else ''archived'')) (\<lambda>u.
        answer (case u of None \<Rightarrow> [] | Some r \<Rightarrow> [(mi_id r, mi_status it, mi_status r)]))
      else answer [])"

fun gather :: "('x \<Rightarrow> ('a list, 's) call) \<Rightarrow> 'x list \<Rightarrow> ('a list, 's) call" where
  "gather f [] = answer []"
| "gather f (x # xs) = then_call (f x) (\<lambda>ys. then_call (gather f xs) (\<lambda>zs. answer (ys @ zs)))"

definition expire_items :: "hook_file list \<Rightarrow> time \<Rightarrow> int \<Rightarrow> (expired list, MemDb) call" where
  "expire_items files now limit db = gather (expire_one files now) (list_memory_items [] [] None limit db) db"

definition decay_types :: "string set" where
  "decay_types = {''preference'', ''fact'', ''semantic''}"

text \<open>\<open>_metadata_float\<close>; \<open>None\<close> is infinity.\<close>

definition metadata_float :: "dict \<Rightarrow> string \<Rightarrow> rat option" where
  "metadata_float meta k =
     (case py_float (or_value (jget meta k) (JFloat 0)) of
        Some (Finite q) \<Rightarrow> Some (max 0 q) | Some Infinity \<Rightarrow> None | _ \<Rightarrow> Some 0)"

definition age_of :: "time \<Rightarrow> MemoryItem \<Rightarrow> time" where
  "age_of now it =
     (case metadata_float (mi_metadata it) ''last_recalled_at'' of
        None \<Rightarrow> 0
      | Some recalled \<Rightarrow> max 0 (now - max (max recalled (mi_last_verified_at it)) (max (mi_updated_at it) (mi_created_at it))))"

record Decay =
  dk_grace :: time
  dk_delta :: rat
  dk_threshold :: rat
  dk_scale :: rat

record DecayedItem =
  di_id :: string
  di_type :: string
  di_previous_confidence :: rat
  di_confidence :: rat
  di_previous_status :: string
  di_status :: string
  di_age :: time

definition should_decay :: "Decay \<Rightarrow> time \<Rightarrow> MemoryItem \<Rightarrow> bool" where
  "should_decay d now it =
     (mi_type it \<in> decay_types \<and> mi_status it = ''active'' \<and> (mi_expires_at it = 0 \<or> now < mi_expires_at it) \<and>
      dk_grace d \<le> age_of now it)"

definition decayed_confidence :: "(rat \<Rightarrow> rat) \<Rightarrow> Decay \<Rightarrow> MemoryItem \<Rightarrow> rat result" where
  "decayed_confidence math_log d it =
     and_then (float_value (or_value (or_value (jget (mi_metadata it) ''activation_count'')
         (jget (mi_metadata it) ''recall_count'')) (JFloat 0))) (\<lambda>activations.
       let stability = 1 + dk_scale d * math_log (1 + max 0 activations)
       in if stability = 0 then Inl (RuntimeError ''float division by zero'')
          else Inr (max 0 (unit_interval (mi_confidence it) - max 0 (dk_delta d) / stability)))"

definition decay_one :: "hook_file list \<Rightarrow> (rat \<Rightarrow> rat) \<Rightarrow> Decay \<Rightarrow> time \<Rightarrow> MemoryItem \<Rightarrow> (DecayedItem list, MemDb) call" where
  "decay_one files math_log d now it =
     then_call (checked (decayed_confidence math_log d it)) (\<lambda>c.
       if \<not> should_decay d now it then answer []
       else then_call (gate files (it\<lparr>mi_confidence := c\<rparr>)) (\<lambda>_.
         then_call (write_to (update_item (mi_id it) (\<lambda>r. r\<lparr>mi_confidence := c, mi_updated_at := now\<rparr>))) (\<lambda>_.
         then_call (look_up (get_memory_item (mi_id it))) (\<lambda>final.
         then_call (if c \<le> dk_threshold d then set_status files now (mi_id it) ''stale'' else answer final) (\<lambda>u.
         answer [\<lparr>di_id = mi_id it, di_type = mi_type it, di_previous_confidence = unit_interval (mi_confidence it),
           di_confidence = c, di_previous_status = mi_status it,
           di_status = (case u of Some r \<Rightarrow> mi_status r | None \<Rightarrow> (case final of Some r \<Rightarrow> mi_status r | None \<Rightarrow> mi_status it)),
           di_age = age_of now it\<rparr>])))))"

definition decay_settings :: "time \<Rightarrow> time option \<Rightarrow> rat option \<Rightarrow> rat option \<Rightarrow> MemDb \<Rightarrow> Decay \<times> MemDb" where
  "decay_settings now grace delta threshold db =
     (let (g, db1) = memory_parameter now ''decay_grace_seconds'' (90 * 86400) db;
          (dl, db2) = memory_parameter now ''decay_base_delta'' (1 / 20) db1;
          (th, db3) = memory_parameter now ''decay_stale_threshold'' (1 / 5) db2;
          (sc, db4) = memory_parameter now ''decay_stability_scale'' 1 db3
      in (\<lparr>dk_grace = (case grace of None \<Rightarrow> g | Some v \<Rightarrow> v), dk_delta = (case delta of None \<Rightarrow> dl | Some v \<Rightarrow> v),
           dk_threshold = (case threshold of None \<Rightarrow> th | Some v \<Rightarrow> v), dk_scale = sc\<rparr>, db4))"

definition decay_inactive_confidence ::
  "hook_file list \<Rightarrow> (rat \<Rightarrow> rat) \<Rightarrow> time \<Rightarrow> int \<Rightarrow> time option \<Rightarrow> rat option \<Rightarrow> rat option \<Rightarrow> (DecayedItem list, MemDb) call" where
  "decay_inactive_confidence files math_log now limit grace delta threshold db =
     (let (d, db1) = decay_settings now grace delta threshold db
      in gather (decay_one files math_log d now) (list_memory_items [] [] None limit db1) db1)"

definition live_item :: "time \<Rightarrow> MemoryItem \<Rightarrow> bool" where
  "live_item now it = (mi_status it \<in> set active_statuses \<and> (mi_expires_at it = 0 \<or> now < mi_expires_at it))"

definition garbage_collect ::
  "hook_file list \<Rightarrow> (rat \<Rightarrow> rat) \<Rightarrow> time \<Rightarrow> int \<Rightarrow> (expired list \<times> DecayedItem list \<times> nat \<times> nat \<times> nat, MemDb) call" where
  "garbage_collect files math_log now limit =
     then_call (expire_items files now limit) (\<lambda>expired.
     then_call (decay_inactive_confidence files math_log now limit None None None) (\<lambda>decayed db.
       let ((jobs, events), db') = prune_consolidation_history now None db
       in (Inr (expired, decayed, length (filter (live_item now) (list_memory_items [] [] None limit db')), jobs, events), db')))"

section \<open>Constraints and conflicts\<close>

definition active_constraints :: "time \<Rightarrow> int \<Rightarrow> string list option \<Rightarrow> MemDb \<Rightarrow> MemoryItem list" where
  "active_constraints now limit scopes db =
     filter (live_item now) (list_memory_items ''constraint'' [] scopes limit db)"

record MemoryConflict =
  mc_item :: MemoryItem
  mc_relation :: string
  mc_other_id :: string
  mc_other :: "MemoryItem option"
  mc_status :: string
  mc_reason :: string

definition memory_conflict_status :: "MemoryItem \<Rightarrow> MemoryItem option \<Rightarrow> string" where
  "memory_conflict_status it other =
     (case other of
        None \<Rightarrow> ''missing_target''
      | Some o1 \<Rightarrow> if mi_status it \<notin> set active_statuses then ''inactive''
          else if mi_status o1 \<in> set active_statuses then ''unresolved'' else ''resolved'')"

definition conflicts_of :: "MemoryItem list \<Rightarrow> MemDb \<Rightarrow> MemoryItem \<Rightarrow> MemoryConflict list" where
  "conflicts_of items db it =
     concat (map (\<lambda>rel. map (\<lambda>i.
         let other = (case row_of mi_id i items of Some o1 \<Rightarrow> Some o1 | None \<Rightarrow> get_memory_item i db)
         in \<lparr>mc_item = it, mc_relation = rel, mc_other_id = i, mc_other = other,
             mc_status = memory_conflict_status it other, mc_reason = ''metadata.'' @ rel\<rparr>)
       (metadata_id_list (jget (mi_metadata it) rel))) [''contradicts'', ''supersedes''])"

definition list_conflicts :: "int \<Rightarrow> string list option \<Rightarrow> MemDb \<Rightarrow> MemoryConflict list" where
  "list_conflicts limit scopes db =
     (let items = list_memory_items [] [] scopes 1000 db
      in take (nat limit) (concat (map (conflicts_of items db) items)))"

definition conflicts_for_item :: "string \<Rightarrow> int \<Rightarrow> MemDb \<Rightarrow> MemoryConflict list" where
  "conflicts_for_item i limit db =
     take (nat limit) (filter (\<lambda>c. mi_id (mc_item c) = i \<or> mc_other_id c = i) (list_conflicts 1000 None db))"

section \<open>Contradictions found by the model\<close>

text \<open>
  The audit of two items: \<open>response\<close> is what the model answers, once its text is read as JSON. The items
  are the snapshots that the caller listed before the model was asked; they are written back without the hooks.
\<close>

text \<open>\<open>try: ... except Exception: return None\<close>.\<close>

definition none_on_error :: "('a option, 's) call \<Rightarrow> ('a option, 's) call" where
  "none_on_error c s = (case c s of (Inl e, t) \<Rightarrow> (Inr None, t) | (Inr x, t) \<Rightarrow> (Inr x, t))"

definition contradicting :: "string \<Rightarrow> dict \<Rightarrow> dict" where
  "contradicting other meta =
     (let known = as_list (jget meta ''contradicts'')
      in dict_set ''contradicts'' (JList (if JStr other \<in> set known then known else known @ [JStr other])) meta)"

text \<open>
  The list of contradictions is shared: appending to it changes the item it was read from, when the item
  had a list. \<open>sharing\<close> is that item after the append.
\<close>

definition sharing :: "string \<Rightarrow> MemoryItem \<Rightarrow> MemoryItem" where
  "sharing other it =
     (case jget (mi_metadata it) ''contradicts'' of
        JList _ \<Rightarrow> it\<lparr>mi_metadata := contradicting other (mi_metadata it)\<rparr> | _ \<Rightarrow> it)"

definition mark_superseded :: "time \<Rightarrow> string \<Rightarrow> MemoryItem \<Rightarrow> MemoryItem \<Rightarrow> (unit, MemDb) call" where
  "mark_superseded now i a b =
     (let (old, new) = (if i = mi_id b then (b, if i = mi_id a then b else a) else (a, b))
      in store_item_call (old\<lparr>mi_metadata := dict_set ''superseded_by'' (JStr (mi_id new)) (mi_metadata old),
           mi_updated_at := now\<rparr>))"

definition check_contradiction :: "time \<Rightarrow> json result \<Rightarrow> MemoryItem \<Rightarrow> MemoryItem \<Rightarrow> (MemoryConflict option, MemDb) call" where
  "check_contradiction now response a b =
     none_on_error (then_call (checked response) (\<lambda>data.
       case data of
         JDict d \<Rightarrow>
           (if \<not> py_truthy (meta_get d ''contradicts'' (JBool False)) then answer None
            else let rel = py_str (meta_get d ''relation'' (JStr ''contradicts''));
                     why = py_str (meta_get d ''explanation'' (JStr []));
                     gone = py_str (meta_get d ''superseded_id'' (JStr []));
                     a1 = sharing (mi_id b) a; b1 = sharing (mi_id a) b
              in then_call (store_item_call (a\<lparr>mi_metadata := dict_set ''llm_conflict_explanation'' (JStr why)
                     (contradicting (mi_id b) (mi_metadata a)), mi_updated_at := now\<rparr>)) (\<lambda>_.
                 then_call (store_item_call (b\<lparr>mi_metadata := contradicting (mi_id a) (mi_metadata b), mi_updated_at := now\<rparr>)) (\<lambda>_.
                 then_call (call_if (gone \<noteq> [] \<and> gone \<in> {mi_id a, mi_id b}) (mark_superseded now gone a1 b1)) (\<lambda>_.
                 answer (Some \<lparr>mc_item = a1, mc_relation = rel, mc_other_id = mi_id b, mc_other = Some b1,
                   mc_status = memory_conflict_status a1 (Some b1), mc_reason = ''llm_audit: '' @ why\<rparr>)))))
       | _ \<Rightarrow> answer None))"

section \<open>Evolution of an item\<close>

text \<open>The adapter of \<open>evolution_targets.py\<close>: a candidate has the fields of an item.\<close>

definition candidate_error :: "string \<Rightarrow> MemoryItem \<Rightarrow> MemDb \<Rightarrow> py_error option" where
  "candidate_error i cand db =
     (case get_memory_item i db of
        None \<Rightarrow> Some (ValueError ''memory_item target must already exist'')
      | Some cur \<Rightarrow>
          if mi_id cand \<noteq> i then Some (ValueError ''memory_item candidate id must match target_id'')
          else if [] \<in> {mi_type cand, mi_status cand, mi_scope cand, mi_content cand, mi_source cand}
            then Some (ValueError ''memory_item candidate missing fields'')
          else if mi_type cand \<noteq> mi_type cur \<or> mi_status cand \<noteq> mi_status cur \<or> mi_scope cand \<noteq> mi_scope cur \<or>
              mi_source cand \<noteq> mi_source cur \<or> mi_created_at cand \<noteq> mi_created_at cur \<or>
              mi_provenance cand \<noteq> mi_provenance cur
            then Some (ValueError ''memory_item evolution cannot change authority or lifecycle fields'')
          else None)"

definition apply_item_candidate :: "hook_file list \<Rightarrow> string \<Rightarrow> MemoryItem \<Rightarrow> (unit, MemDb) call" where
  "apply_item_candidate files i cand db =
     (case candidate_error i cand db of Some e \<Rightarrow> (Inl e, db) | None \<Rightarrow> restore_item files cand db)"

definition rollback_item :: "hook_file list \<Rightarrow> string \<Rightarrow> MemoryItem option \<Rightarrow> (unit, MemDb) call" where
  "rollback_item files i before =
     (case before of Some it \<Rightarrow> restore_item files it | None \<Rightarrow> delete_item files i)"

end
