(* ===== verification/Memory_Lifecycle.thy ===== *)
theory Memory_Lifecycle
  imports Memory_Items
begin

text \<open>
  What the operations on the items promise: the lifecycle of an item, the gate of its writes, what
  maintenance leaves alone, and what evolution can undo.
\<close>

section \<open>Which items an operation touches\<close>

text \<open>Only the items of \<open>I\<close> change, and their status at most along the table.\<close>

definition moves :: "string set \<Rightarrow> MemDb \<Rightarrow> MemDb \<Rightarrow> bool" where
  "moves I db db' =
     ((\<forall>i. i \<notin> I \<longrightarrow> get_memory_item i db' = get_memory_item i db) \<and>
      (\<forall>i a b. i \<in> I \<longrightarrow> get_memory_item i db = Some a \<longrightarrow> get_memory_item i db' = Some b \<longrightarrow>
         mi_status b = mi_status a \<or> may_become (mi_status a) (mi_status b)))"

lemma get_memory_item_same: "md_items db' = md_items db \<Longrightarrow> get_memory_item i db' = get_memory_item i db"
  by (simp add: get_memory_item_def)

lemma moves_same: "md_items db' = md_items db \<Longrightarrow> moves I db db'"
  by (simp add: moves_def get_memory_item_def)

lemma moves_trans:
  assumes "moves I a b" "moves J b c" "I \<inter> J = {}"
  shows "moves (I \<union> J) a c"
  unfolding moves_def
proof (intro conjI allI impI)
  fix i assume "i \<notin> I \<union> J"
  then show "get_memory_item i c = get_memory_item i a" using assms(1,2) by (simp add: moves_def)
next
  fix i x z assume i: "i \<in> I \<union> J" and x: "get_memory_item i a = Some x" and z: "get_memory_item i c = Some z"
  show "mi_status z = mi_status x \<or> may_become (mi_status x) (mi_status z)"
  proof (cases "i \<in> I")
    case True
    then have "get_memory_item i c = get_memory_item i b" using assms(2,3) by (auto simp: moves_def)
    then show ?thesis using assms(1) True x z unfolding moves_def by metis
  next
    case False
    then have "get_memory_item i b = get_memory_item i a" using assms(1) by (simp add: moves_def)
    then show ?thesis using assms(2) False i x z unfolding moves_def by auto
  qed
qed

lemma moves_then_same: "moves I a b \<Longrightarrow> md_items c = md_items b \<Longrightarrow> moves I a c"
  by (simp add: moves_def get_memory_item_def)

lemma same_then_moves: "md_items b = md_items a \<Longrightarrow> moves I b c \<Longrightarrow> moves I a c"
  by (simp add: moves_def get_memory_item_def)

lemma get_memory_item_update:
  assumes "\<And>r. mi_id (f r) = mi_id r"
  shows "get_memory_item k (update_item i f db) = (if k = i then map_option f (get_memory_item k db) else get_memory_item k db)"
proof -
  have "get_memory_item k (update_item i f db) = map_option (\<lambda>r. if mi_id r = i then f r else r) (get_memory_item k db)"
    using assms by (simp add: get_memory_item_def update_item_def row_of_update)
  then show ?thesis by (cases "get_memory_item k db") (auto simp: get_memory_item_def dest: row_of_Some)
qed

lemma row_of_drop: "row_of key k (sql_delete (\<lambda>r. key r = k') t) = (if k = k' then None else row_of key k t)"
  by (induction t) (auto simp: sql_delete_def row_of_Cons)

lemma get_memory_item_remove: "get_memory_item k (remove_item i db) = (if k = i then None else get_memory_item k db)"
  by (simp add: get_memory_item_def remove_item_def row_of_drop)

lemma get_memory_item_store:
  assumes "store_item it db = Inr db'"
  shows "get_memory_item k db' =
    (if k = mi_id it then Some (it\<lparr>mi_metadata := sorted_metadata (mi_metadata it)\<rparr>) else get_memory_item k db)"
  using assms by (auto simp: store_item_def get_memory_item_def row_of_append row_of_drop split: if_splits option.splits)

lemma store_item_call_cases:
  assumes "store_item_call it db = (r, db')"
  obtains e where "r = Inl e" "db' = db" | "r = Inr ()" "store_item it db = Inr db'"
  using assms by (auto simp: store_item_call_def split: sum.splits)

lemma moves_update:
  assumes "\<And>r. mi_id (f r) = mi_id r"
    "\<And>r. get_memory_item i db = Some r \<Longrightarrow> mi_status (f r) = mi_status r \<or> may_become (mi_status r) (mi_status (f r))"
  shows "moves {i} db (update_item i f db)"
  using assms by (auto simp: moves_def get_memory_item_update)

lemma moves_store:
  assumes "store_item_call it db = (r, db')" "get_memory_item (mi_id it) db = Some cur"
    "mi_status it = mi_status cur \<or> may_become (mi_status cur) (mi_status it)"
  shows "moves {mi_id it} db db'"
  using assms(1)
proof (cases rule: store_item_call_cases)
  case 1
  then show ?thesis by (simp add: moves_same)
next
  case 2
  then show ?thesis using assms(2,3) by (auto simp: moves_def get_memory_item_store [OF 2(2)])
qed

section \<open>What parameters and jobs leave alone\<close>

lemma items_of_parameters [simp]:
  "md_items (ensure_parameters now db) = md_items db"
  "md_items (snd (memory_parameter now name v db)) = md_items db"
  "md_items (set_memory_parameter now name v why m db) = md_items db"
  by (simp_all add: ensure_parameters_def memory_parameter_def set_memory_parameter_def Let_def)

lemma items_of_memory_parameter: "memory_parameter now name v db = (x, db') \<Longrightarrow> md_items db' = md_items db"
  using items_of_parameters(2) [of now name v db] by simp

lemma items_of_adapt [simp]: "md_items (adapt_cue_weights now ratio q c db) = md_items db"
  by (simp add: adapt_cue_weights_def Let_def split: prod.splits)
    (metis items_of_memory_parameter)

lemma items_of_query [simp]: "md_items (snd (effective_query q i db)) = md_items db"
  by (simp add: effective_query_def)

lemma items_of_repair [simp]: "md_items (snd (enqueue_reflective_repair now uuid i db)) = md_items db"
  by (simp add: enqueue_reflective_repair_def insert_job_def Let_def split: option.splits)

lemma items_of_prune: "prune_consolidation_history now r db = (x, db') \<Longrightarrow> md_items db' = md_items db"
  by (auto simp: prune_consolidation_history_def Let_def split: prod.splits dest: items_of_memory_parameter)

lemma items_of_settings: "decay_settings now g d t db = (x, db') \<Longrightarrow> md_items db' = md_items db"
  by (auto simp: decay_settings_def split: prod.splits dest!: items_of_memory_parameter)

lemma gate_keeps: "gate files it db = (r, db') \<Longrightarrow> db' = db"
  by (simp add: gate_def calls)

lemma after_gate:
  assumes "then_call (gate files it) f db = (r, db')"
  obtains e where "assert_memory_write_allowed files it = Inl e" "r = Inl e" "db' = db"
    | "assert_memory_write_allowed files it = Inr ()" "f () db = (r, db')"
  using assms by (cases "assert_memory_write_allowed files it") (auto simp: gate_def then_call_def calls)

section \<open>The lifecycle\<close>

lemma set_status_moves:
  assumes "set_status files now i status db = (r, db')"
  shows "moves {i} db db'"
proof -
  define st where "st = py_lower (py_strip status)"
  define w where "w = update_item i (\<lambda>r. r\<lparr>mi_status := st, mi_updated_at := now\<rparr>) db"
  have written: "then_call (write_to (update_item i (\<lambda>r. r\<lparr>mi_status := st, mi_updated_at := now\<rparr>)))
      (\<lambda>_. look_up (get_memory_item i)) db = (Inr (get_memory_item i w), w)" by (simp add: then_call_def calls w_def)
  have ok: "moves {i} db w" if "\<And>r. get_memory_item i db = Some r \<Longrightarrow> st = mi_status r \<or> may_become (mi_status r) st"
    unfolding w_def by (rule moves_update) (use that in auto)
  show ?thesis
  proof (cases "st \<in> set memory_statuses")
    case False
    then show ?thesis using assms by (simp add: set_status_def st_def Let_def moves_same)
  next
    case known: True
    show ?thesis
    proof (cases "get_memory_item i db")
      case None
      then show ?thesis using assms known written ok by (simp add: set_status_def st_def [symmetric] Let_def)
    next
      case (Some cur)
      consider "mi_status cur = st" | "mi_status cur \<noteq> st" "\<not> may_become (mi_status cur) st"
        | "mi_status cur \<noteq> st" "may_become (mi_status cur) st" by blast
      then show ?thesis
      proof cases
        case 1
        then show ?thesis using assms known written ok Some by (simp add: set_status_def st_def [symmetric] Let_def)
      next
        case 2
        then show ?thesis using assms known Some by (simp add: set_status_def st_def [symmetric] Let_def moves_same)
      next
        case 3
        then have "then_call (gate files (clamped (cur\<lparr>mi_status := st\<rparr>)))
            (\<lambda>_. then_call (write_to (update_item i (\<lambda>r. r\<lparr>mi_status := st, mi_updated_at := now\<rparr>)))
              (\<lambda>_. look_up (get_memory_item i))) db = (r, db')"
          using assms known Some by (simp add: set_status_def st_def [symmetric] Let_def)
        then show ?thesis
          by (rule after_gate) (use written ok Some 3 in \<open>auto simp: moves_same\<close>)
      qed
    qed
  qed
qed

lemma verify_moves:
  assumes "verify_item files now i db = (r, db')"
  shows "moves {i} db db'"
proof -
  have w: "moves {i} db (update_item i (\<lambda>r. r\<lparr>mi_last_verified_at := now, mi_updated_at := now\<rparr>) db)"
    by (rule moves_update) auto
  show ?thesis
    using assms
    by (cases "get_memory_item i db"; cases "assert_memory_write_allowed files (clamped (the (get_memory_item i db)))")
      (auto simp: verify_item_def then_call_def calls gate_def w moves_same)
qed

lemma delete_moves:
  assumes "delete_item files i db = (r, db')"
  shows "moves {i} db db'"
proof -
  have w: "moves {i} db (remove_item i db)" by (auto simp: moves_def get_memory_item_remove)
  show ?thesis
    using assms
    by (cases "get_memory_item i db"; cases "assert_memory_write_allowed files (clamped ((the (get_memory_item i db))\<lparr>mi_status := ''archived''\<rparr>))")
      (auto simp: delete_item_def then_call_def calls gate_def w moves_same)
qed

lemma get_memory_item_id: "get_memory_item i db = Some r \<Longrightarrow> mi_id r = i"
  by (auto simp: get_memory_item_def dest: row_of_Some)

lemma stored_moves:
  assumes "then_call (gate files g) (\<lambda>_. then_call (store_item_call it) (\<lambda>_. look_up (get_memory_item i))) db = (r, db')"
    "get_memory_item i db = Some cur" "mi_id it = i"
    "mi_status it = mi_status cur \<or> may_become (mi_status cur) (mi_status it)"
  shows "moves {i} db db'"
  using assms(1)
proof (rule after_gate)
  fix e assume "db' = db"
  then show ?thesis by (simp add: moves_same)
next
  assume a: "then_call (store_item_call it) (\<lambda>_. look_up (get_memory_item i)) db = (r, db')"
  obtain s db1 where s: "store_item_call it db = (s, db1)" by fastforce
  then have "db' = db1" using a by (cases s) (auto simp: then_call_def calls)
  then show ?thesis using moves_store [OF s] assms(2-4) by simp
qed

text \<open>Every status but the archived one may become archived.\<close>

lemma may_archive: "s \<in> set memory_statuses \<Longrightarrow> s = ''archived'' \<or> may_become s ''archived''"
  by (auto simp: memory_statuses_def may_become_def allowed_transitions_def)

definition known_statuses :: "MemDb \<Rightarrow> bool" where
  "known_statuses db = (\<forall>it\<in>set (md_items db). mi_status it \<in> set memory_statuses)"

lemma supersede_moves:
  assumes "supersede_item files now i rep reason db = (r, db')" "known_statuses db"
  shows "moves {i} db db'"
proof (cases "\<exists>cur o1. get_memory_item i db = Some cur \<and> get_memory_item rep db = Some o1 \<and> py_strip reason \<noteq> []")
  case False
  then have "db' = db" using assms(1)
    by (auto simp: supersede_item_def split: option.splits if_splits)
  then show ?thesis by (simp add: moves_same)
next
  case True
  then obtain cur o1 where c: "get_memory_item i db = Some cur" "get_memory_item rep db = Some o1" "py_strip reason \<noteq> []" by blast
  define it where "it = cur\<lparr>mi_status := ''archived'',
    mi_metadata := superseded_metadata now rep (py_strip reason) (mi_metadata cur)\<rparr>"
  have "mi_status cur \<in> set memory_statuses"
    using c(1) assms(2) by (auto simp: get_memory_item_def known_statuses_def dest: row_of_Some)
  then have "''archived'' = mi_status cur \<or> may_become (mi_status cur) ''archived''" by (metis may_archive)
  moreover have "then_call (gate files (clamped it)) (\<lambda>_. then_call (store_item_call (it\<lparr>mi_updated_at := now\<rparr>))
      (\<lambda>_. look_up (get_memory_item i))) db = (r, db')"
    using assms(1) c by (simp add: supersede_item_def it_def Let_def)
  ultimately show ?thesis using c(1) get_memory_item_id by (intro stored_moves) (auto simp: it_def)
qed

lemma activation_moves:
  assumes "record_activation files ratio now i reason prov query db = (r, db')"
  shows "moves {i} db db'"
proof (cases "\<exists>cur. get_memory_item i db = Some cur \<and> py_strip reason \<noteq> [] \<and> py_strip prov \<noteq> []")
  case False
  then have "db' = db" using assms by (auto simp: record_activation_def split: option.splits if_splits)
  then show ?thesis by (simp add: moves_same)
next
  case True
  then obtain cur where c: "get_memory_item i db = Some cur" "py_strip reason \<noteq> []" "py_strip prov \<noteq> []" by blast
  obtain q db1 where q: "effective_query query i db = (q, db1)" by fastforce
  define db2 where "db2 = adapt_cue_weights now ratio q (mi_content cur) db1"
  obtain boost db3 where b: "memory_parameter now ''ltp_boost_delta'' (1 / 20) db2 = (boost, db3)" by fastforce
  have same3: "md_items db3 = md_items db"
    using items_of_memory_parameter [OF b] items_of_query [of query i db] q by (simp add: db2_def)
  define proposed where "proposed = (mi_status cur = ''proposed'')"
  define db4 where "db4 = (if proposed then set_memory_parameter now ''ltp_boost_delta''
    (round_places 4 (min (1 / 5) (max (1 / 100) (boost + 1 / 500 * (if proposed then 1 else 0))))) ''ltp_dynamic_reinforcement'' [] db3 else db3)"
  define it where "it = cur\<lparr>mi_status := (if proposed then ''active'' else mi_status cur),
    mi_confidence := min 1 (mi_confidence cur + boost * (if proposed then 1 else 0)),
    mi_metadata := activated_metadata now (py_strip reason) (py_strip prov) (mi_metadata cur), mi_updated_at := now\<rparr>"
  have call: "then_call (gate files (clamped it)) (\<lambda>_. then_call (store_item_call it) (\<lambda>_. look_up (get_memory_item i))) db4 = (r, db')"
    using assms
    by (simp only: record_activation_def c option.case Let_def if_False q prod.case b proposed_def [symmetric]
        it_def [symmetric] db2_def [symmetric] db4_def [symmetric])
  have same4: "md_items db4 = md_items db3" by (simp add: db4_def)
  have it: "mi_id it = mi_id cur" "mi_status it = (if mi_status cur = ''proposed'' then ''active'' else mi_status cur)"
    by (simp_all add: it_def proposed_def)
  have same: "get_memory_item i db4 = Some cur" using c(1) same3 same4 by (simp add: get_memory_item_def)
  have "mi_status it = mi_status cur \<or> may_become (mi_status cur) (mi_status it)"
    by (auto simp: it may_become_def allowed_transitions_def)
  then have "moves {i} db4 db'" using stored_moves [OF call same] it(1) get_memory_item_id [OF c(1)] by simp
  then show ?thesis using same3 same4 by (intro same_then_moves [of db4 db]) auto
qed


lemma credit_row:
  assumes "apply_credit_delta now uuid i delta reason prov db = (r, db')" "get_memory_item i db = Some a" "get_memory_item i db' = Some b"
  shows "mi_status b = mi_status a \<or> (mi_status b = ''stale'' \<and> mi_status a \<in> {''active'', ''proposed''})"
proof -
  obtain th db1 where th: "memory_parameter now ''decay_stale_threshold'' (1 / 5) db = (th, db1)" by fastforce
  have a1: "get_memory_item i db1 = Some a" using items_of_memory_parameter [OF th] assms(2) by (simp add: get_memory_item_def)
  define c where "c = round_places 4 (unit_interval (mi_confidence a + delta))"
  define stale where "stale = (c < th \<and> delta < 0)"
  define st where "st = (if stale \<and> mi_status a \<in> {''active'', ''proposed''} then ''stale'' else mi_status a)"
  define it where "it = a\<lparr>mi_status := st, mi_confidence := c, mi_updated_at := now,
    mi_metadata := credited_metadata now delta (py_strip reason) (py_strip prov) (mi_metadata a)\<rparr>"
  have call: "then_call (store_item_call it) (\<lambda>_.
      then_call (call_if (stale \<and> st = ''stale'') (write_to (\<lambda>db. snd (enqueue_reflective_repair now uuid i db))))
        (\<lambda>_. look_up (get_memory_item i))) db1 = (r, db')"
    using assms(1)
    by (simp only: apply_credit_delta_def assms(2) option.case Let_def th prod.case c_def [symmetric]
        stale_def [symmetric] st_def [symmetric] it_def [symmetric])
  obtain s db2 where s: "store_item_call it db1 = (s, db2)" by fastforce
  have same: "md_items db' = md_items db2"
    using call s by (cases s) (auto simp: then_call_def calls call_if_def split: if_splits)
  from s show ?thesis
  proof (cases rule: store_item_call_cases)
    case 1
    then have "b = a" using same assms(3) a1 by (simp add: get_memory_item_def)
    then show ?thesis by simp
  next
    case 2
    have "mi_id it = i" using get_memory_item_id [OF assms(2)] by (simp add: it_def)
    then have "get_memory_item i db2 = Some (it\<lparr>mi_metadata := sorted_metadata (mi_metadata it)\<rparr>)"
      using get_memory_item_store [OF 2(2)] by simp
    then have "b = it\<lparr>mi_metadata := sorted_metadata (mi_metadata it)\<rparr>"
      using same assms(3) by (simp add: get_memory_item_def)
    then show ?thesis by (auto simp: it_def st_def)
  qed
qed

lemma credit_others:
  assumes "apply_credit_delta now uuid i delta reason prov db = (r, db')" "k \<noteq> i"
  shows "get_memory_item k db' = get_memory_item k db"
proof (cases "get_memory_item i db")
  case None
  then show ?thesis using assms(1) by (simp add: apply_credit_delta_def)
next
  case (Some a)
  obtain th db1 where th: "memory_parameter now ''decay_stale_threshold'' (1 / 5) db = (th, db1)" by fastforce
  obtain it b where call: "then_call (store_item_call it) (\<lambda>_.
      then_call (call_if b (write_to (\<lambda>db. snd (enqueue_reflective_repair now uuid i db))))
        (\<lambda>_. look_up (get_memory_item i))) db1 = (r, db')" and "mi_id it = mi_id a"
    using assms(1) unfolding apply_credit_delta_def Some option.case Let_def th prod.case by force
  then have it: "mi_id it = i" using get_memory_item_id [OF Some] by simp
  obtain s db2 where s: "store_item_call it db1 = (s, db2)" by fastforce
  have "md_items db' = md_items db2" using call s by (cases s) (auto simp: then_call_def calls call_if_def split: if_splits)
  moreover have "get_memory_item k db2 = get_memory_item k db1"
    using s by (cases rule: store_item_call_cases) (use it assms(2) get_memory_item_store in auto)
  ultimately show ?thesis using items_of_memory_parameter [OF th] by (simp add: get_memory_item_def)
qed

lemma reduce_moves:
  assumes "reduce_confidence files now i delta db = (r, db')"
  shows "moves {i} db db'"
proof (cases "get_memory_item i db")
  case None
  then show ?thesis using assms by (simp add: reduce_confidence_def moves_same)
next
  case (Some cur)
  obtain dd db1 where 1: "memory_parameter now ''confidence_reduction_delta'' (1 / 10) db = (dd, db1)" by fastforce
  obtain rate db2 where 2: "memory_parameter now ''hebbian_learning_rate'' (1 / 20) db1 = (rate, db2)" by fastforce
  define dl where "dl = (case delta of None \<Rightarrow> dd | Some d \<Rightarrow> d)"
  define c where "c = max 0 (mi_confidence cur - dl)"
  define db3 where "db3 = (if delta = None then set_memory_parameter now ''confidence_reduction_delta''
    (round_places 4 (min (3 / 10) (max (1 / 50) (dl + rate * (1 / 100) * (mi_confidence cur - 1 / 2)))))
    ''confidence_reduction_dynamic_calibration'' [] db2 else db2)"
  have call: "then_call (gate files (cur\<lparr>mi_confidence := c\<rparr>)) (\<lambda>_.
      write_to (update_item i (\<lambda>r. r\<lparr>mi_confidence := c, mi_updated_at := now\<rparr>))) db3 = (r, db')"
    using assms by (simp only: reduce_confidence_def Some option.case Let_def 1 2 prod.case dl_def [symmetric]
        c_def [symmetric] db3_def [symmetric])
  have "md_items db3 = md_items db2" by (simp add: db3_def)
  then have same: "md_items db3 = md_items db"
    using items_of_memory_parameter [OF 1] items_of_memory_parameter [OF 2] by simp
  have "moves {i} db3 (update_item i (\<lambda>r. r\<lparr>mi_confidence := c, mi_updated_at := now\<rparr>) db3)"
    by (rule moves_update) auto
  then have "moves {i} db3 db'"
    using call by (elim after_gate) (auto simp: calls moves_same)
  then show ?thesis using same_then_moves same by blast
qed

lemma add_others:
  assumes "add_item files now uuid draft db = (r, db')" "k \<noteq> uuid"
  shows "get_memory_item k db' = get_memory_item k db"
proof (cases "draft_error (clean_draft draft)")
  case (Some e)
  then show ?thesis using assms(1) by (simp add: add_item_def calls)
next
  case None
  define it where "it = (clean_draft draft)\<lparr>mi_id := uuid, mi_created_at := now, mi_updated_at := now\<rparr>"
  have "then_call (gate files (clean_draft draft)) (\<lambda>_. then_call (store_item_call it) (\<lambda>_. answer it)) db = (r, db')"
    using assms(1) None by (simp add: add_item_def it_def Let_def)
  then show ?thesis
  proof (rule after_gate)
    assume a: "then_call (store_item_call it) (\<lambda>_. answer it) db = (r, db')"
    obtain s db1 where s: "store_item_call it db = (s, db1)" by fastforce
    then have db': "db' = db1" using a by (cases s) (auto simp: then_call_def calls)
    from s show ?thesis
      unfolding db' by (cases rule: store_item_call_cases) (use assms(2) get_memory_item_store in \<open>auto simp: it_def\<close>)
  qed simp
qed

lemma gather_moves:
  assumes "\<And>x db r db'. x \<in> set xs \<Longrightarrow> f x db = (r, db') \<Longrightarrow> moves {key x} db db'"
    "distinct (map key xs)" "gather f xs db = (r, db')"
  shows "moves (key ` set xs) db db'"
  using assms
proof (induction xs arbitrary: db r db')
  case Nil
  then show ?case by (simp add: calls moves_same)
next
  case (Cons x xs)
  obtain s db1 where s: "f x db = (s, db1)" by fastforce
  have m: "moves {key x} db db1" using Cons.prems(1) [of x] s by simp
  show ?case
  proof (cases s)
    case (Inl e)
    then have "db' = db1" using Cons.prems(3) s by (simp add: then_call_def)
    moreover have "moves {} db1 db1" by (simp add: moves_same)
    moreover have "moves (key ` set xs) db1 db1" by (simp add: moves_same)
    ultimately show ?thesis using moves_trans [OF m, of "key ` set xs"] Cons.prems(2) by auto
  next
    case (Inr ys)
    obtain t db2 where t: "gather f xs db1 = (t, db2)" by fastforce
    have "db' = db2" using Cons.prems(3) s t Inr by (cases t) (auto simp: then_call_def calls)
    moreover have "moves (key ` set xs) db1 db2" using Cons.IH [OF _ _ t] Cons.prems(1,2) by auto
    ultimately show ?thesis using moves_trans [OF m, of "key ` set xs"] Cons.prems(2) by auto
  qed
qed

lemma expire_one_moves: "expire_one files now it db = (r, db') \<Longrightarrow> moves {mi_id it} db db'"
proof -
  assume a: "expire_one files now it db = (r, db')"
  show ?thesis
  proof (cases "should_expire now it")
    case True
    obtain s db1 where s: "set_status files now (mi_id it) (if mi_status it = ''active'' then ''stale'' else ''archived'') db = (s, db1)"
      by fastforce
    have "db' = db1" using a s True by (cases s) (auto simp: expire_one_def then_call_def calls)
    then show ?thesis using set_status_moves [OF s] by simp
  qed (use a in \<open>simp add: expire_one_def calls moves_same\<close>)
qed

lemma decay_one_moves:
  assumes "decay_one files math_log d now it db = (r, db')"
  shows "moves {mi_id it} db db'"
proof (cases "decayed_confidence math_log d it")
  case (Inl e)
  then show ?thesis using assms by (simp add: decay_one_def then_call_def calls moves_same)
next
  case (Inr c)
  show ?thesis
  proof (cases "should_decay d now it")
    case False
    then show ?thesis using assms Inr by (simp add: decay_one_def then_call_def calls moves_same)
  next
    case True
    define w where "w = update_item (mi_id it) (\<lambda>r. r\<lparr>mi_confidence := c, mi_updated_at := now\<rparr>) db"
    have mw: "moves {mi_id it} db w" unfolding w_def by (rule moves_update) auto
    have conf: "map_option mi_status (get_memory_item k w) = map_option mi_status (get_memory_item k db)" for k
      unfolding w_def by (subst get_memory_item_update) (auto simp: option.map_comp comp_def)
    have back_to: "moves {mi_id it} db db2" if m2: "moves {mi_id it} w db2" for db2
      unfolding moves_def
    proof (intro conjI allI impI)
      fix k assume "k \<notin> {mi_id it}"
      then show "get_memory_item k db2 = get_memory_item k db" using m2 mw by (simp add: moves_def)
    next
      fix k a b assume k: "k \<in> {mi_id it}" "get_memory_item k db = Some a" "get_memory_item k db2 = Some b"
      obtain a' where "get_memory_item k w = Some a'" "mi_status a' = mi_status a"
        using conf [of k] k(2) by (cases "get_memory_item k w") auto
      then show "mi_status b = mi_status a \<or> may_become (mi_status a) (mi_status b)"
        using m2 k unfolding moves_def by metis
    qed
    show ?thesis
    proof (cases "assert_memory_write_allowed files (it\<lparr>mi_confidence := c\<rparr>)")
      case (Inl e)
      then show ?thesis using assms Inr True by (simp add: decay_one_def then_call_def calls gate_def moves_same)
    next
      case allowed: (Inr u)
      show ?thesis
      proof (cases "c \<le> dk_threshold d")
        case False
        then have "db' = w" using assms Inr True allowed
          by (simp add: decay_one_def then_call_def calls gate_def w_def)
        then show ?thesis using mw by simp
      next
        case stale: True
        obtain s db2 where s: "set_status files now (mi_id it) ''stale'' w = (s, db2)" by fastforce
        have "db' = db2" using assms Inr True allowed stale s
          by (cases s) (auto simp: decay_one_def then_call_def calls gate_def w_def [symmetric])
        then show ?thesis using back_to set_status_moves [OF s] by simp
      qed
    qed
  qed
qed

lemma list_memory_items_distinct:
  assumes "keys_distinct mi_id (md_items db)"
  shows "distinct (map mi_id (list_memory_items ty st None limit db))"
proof -
  have "distinct (map mi_id (filter P (md_items db)))" for P
    using assms by (simp add: keys_distinct_def distinct_map_filter)
  then have "distinct (map mi_id (sql_desc mi_updated_at (filter P (md_items db))))" for P
    by (auto simp: sql_desc_def distinct_map)
  then show ?thesis by (simp add: list_memory_items_def sql_limit_def take_map [symmetric] distinct_take)
qed


section \<open>Operations from outside\<close>

datatype item_op =
    AddItem time string MemoryItem
  | SetStatus time string string
  | VerifyItem time string
  | DeleteItem string
  | SupersedeItem time string string string
  | ActivateItem time string string string string
  | CreditItem time string string rat string string
  | ReduceItem time string "rat option"
  | ExpireItems time int
  | DecayItems time int "time option" "rat option" "rat option"
  | RestoreItem MemoryItem
  | AuditItems time "json result" MemoryItem MemoryItem

fun run_item_op ::
  "hook_file list \<Rightarrow> (string \<Rightarrow> string \<Rightarrow> rat) \<Rightarrow> (rat \<Rightarrow> rat) \<Rightarrow> item_op \<Rightarrow> MemDb \<Rightarrow> MemDb" where
  "run_item_op files ratio lg (AddItem now uuid d) db = snd (add_item files now uuid d db)"
| "run_item_op files ratio lg (SetStatus now i st) db = snd (set_status files now i st db)"
| "run_item_op files ratio lg (VerifyItem now i) db = snd (verify_item files now i db)"
| "run_item_op files ratio lg (DeleteItem i) db = snd (delete_item files i db)"
| "run_item_op files ratio lg (SupersedeItem now i rep why) db = snd (supersede_item files now i rep why db)"
| "run_item_op files ratio lg (ActivateItem now i why prov q) db = snd (record_activation files ratio now i why prov q db)"
| "run_item_op files ratio lg (CreditItem now uuid i d why prov) db = snd (apply_credit_delta now uuid i d why prov db)"
| "run_item_op files ratio lg (ReduceItem now i d) db = snd (reduce_confidence files now i d db)"
| "run_item_op files ratio lg (ExpireItems now n) db = snd (expire_items files now n db)"
| "run_item_op files ratio lg (DecayItems now n g d th) db = snd (decay_inactive_confidence files lg now n g d th db)"
| "run_item_op files ratio lg (RestoreItem it) db = snd (restore_item files it db)"
| "run_item_op files ratio lg (AuditItems now resp a b) db = snd (check_contradiction now resp a b db)"

fun is_credit :: "item_op \<Rightarrow> bool" where
  "is_credit (CreditItem now uuid i d why prov) = True"
| "is_credit _ = False"

text \<open>The snapshots that an operation writes as they are: of a rollback, and of an audit.\<close>

fun snapshots :: "item_op \<Rightarrow> MemoryItem set" where
  "snapshots (RestoreItem it) = {it}"
| "snapshots (AuditItems now resp a b) = {a, b}"
| "snapshots _ = {}"

fun is_audit :: "item_op \<Rightarrow> bool" where
  "is_audit (AuditItems now resp a b) = True"
| "is_audit _ = False"

fun names_new_item :: "item_op \<Rightarrow> MemDb \<Rightarrow> bool" where
  "names_new_item (AddItem now uuid d) db = (get_memory_item uuid db = None)"
| "names_new_item _ db = True"

lemma moves_row:
  assumes "moves I db db'" "get_memory_item i db = Some a" "get_memory_item i db' = Some b"
  shows "mi_status b = mi_status a \<or> may_become (mi_status a) (mi_status b)"
  using assms unfolding moves_def by (cases "i \<in> I") auto

lemma list_moves:
  assumes "keys_distinct mi_id (md_items db)"
    "\<And>x db r db'. f x db = (r, db') \<Longrightarrow> moves {mi_id x} db db'"
  shows "moves (mi_id ` set (list_memory_items [] [] None n db)) db (snd (gather f (list_memory_items [] [] None n db) db))"
proof -
  obtain r db' where g: "gather f (list_memory_items [] [] None n db) db = (r, db')" by fastforce
  have "moves (mi_id ` set (list_memory_items [] [] None n db)) db db'"
    by (rule gather_moves [OF _ list_memory_items_distinct [OF assms(1)] g]) (rule assms(2))
  then show ?thesis by (simp add: g)
qed

text \<open>Items that are written from snapshots.\<close>

definition written_from :: "MemoryItem set \<Rightarrow> MemDb \<Rightarrow> MemDb \<Rightarrow> bool" where
  "written_from S db db' = (\<forall>i. get_memory_item i db' = get_memory_item i db \<or>
     (\<exists>m\<in>S. mi_id m = i \<and> map_option mi_status (get_memory_item i db') = Some (mi_status m)))"

definition writes_from :: "MemoryItem set \<Rightarrow> ('a, MemDb) call \<Rightarrow> bool" where
  "writes_from S c = (\<forall>db r db'. c db = (r, db') \<longrightarrow> written_from S db db')"

lemma written_from_refl [simp]: "written_from S db db"
  by (simp add: written_from_def)

lemma written_from_trans: "written_from S a b \<Longrightarrow> written_from S b c \<Longrightarrow> written_from S a c"
  unfolding written_from_def by metis

lemma writes_from_simple [simp]: "writes_from S (answer x)" "writes_from S (checked e)" "writes_from S (gate files it)"
  by (auto simp: writes_from_def calls gate_def)

lemma writes_from_then:
  assumes "writes_from S c" "\<And>x. writes_from S (f x)"
  shows "writes_from S (then_call c f)"
  unfolding writes_from_def
proof (intro allI impI)
  fix db r db' assume run: "then_call c f db = (r, db')"
  obtain s db1 where s: "c db = (s, db1)" by fastforce
  then have first: "written_from S db db1" using assms(1) by (simp add: writes_from_def)
  show "written_from S db db'"
  proof (cases s)
    case (Inl e)
    then show ?thesis using run s first by (simp add: then_call_def)
  next
    case (Inr x)
    then have "f x db1 = (r, db')" using run s by (simp add: then_call_def)
    then show ?thesis using assms(2) [of x] first written_from_trans unfolding writes_from_def by blast
  qed
qed

lemma writes_from_store: "m \<in> S \<Longrightarrow> mi_id it = mi_id m \<Longrightarrow> mi_status it = mi_status m \<Longrightarrow> writes_from S (store_item_call it)"
  unfolding writes_from_def
proof (intro allI impI)
  fix db r db' assume m: "m \<in> S" "mi_id it = mi_id m" "mi_status it = mi_status m" and run: "store_item_call it db = (r, db')"
  from run show "written_from S db db'"
  proof (cases rule: store_item_call_cases)
    case 2
    then show ?thesis using m by (auto simp: written_from_def get_memory_item_store [OF 2(2)])
  qed simp
qed

lemma writes_from_restore: "writes_from {it} (restore_item files it)"
  unfolding restore_item_def
  by (intro writes_from_then writes_from_store [of it]) (simp_all add: clamped_def)

lemma sharing_same [simp]: "mi_id (sharing k m) = mi_id m" "mi_status (sharing k m) = mi_status m"
  by (simp_all add: sharing_def split: json.split)

lemma writes_from_mark: "writes_from {a, b} (mark_superseded now i (sharing k a) (sharing l b))"
  unfolding mark_superseded_def Let_def
  by (cases "i = mi_id b") (auto intro: writes_from_store [of a] writes_from_store [of b])

lemma writes_from_audit: "writes_from {a, b} (check_contradiction now response a b)"
proof -
  have if_call: "writes_from S (call_if p c)" if "writes_from S c" for S p and c :: "(unit, MemDb) call"
    using that by (auto simp: call_if_def)
  have none: "writes_from S (none_on_error c)" if "writes_from S c" for S and c :: "(MemoryConflict option, MemDb) call"
    using that by (auto simp: writes_from_def none_on_error_def split: prod.splits sum.splits)
  show ?thesis
    unfolding check_contradiction_def
  proof (intro none writes_from_then writes_from_simple)
    fix data
    have a: "writes_from {a, b} (store_item_call (a\<lparr>mi_metadata := m, mi_updated_at := now\<rparr>))" for m
      by (rule writes_from_store [of a]) simp_all
    have b: "writes_from {a, b} (store_item_call (b\<lparr>mi_metadata := m, mi_updated_at := now\<rparr>))" for m
      by (rule writes_from_store [of b]) simp_all
    show "writes_from {a, b} (case data of
         JDict d \<Rightarrow>
           (if \<not> py_truthy (meta_get d ''contradicts'' (JBool False)) then answer None
            else let rel = py_str (meta_get d ''relation'' (JStr ''contradicts''));
                     why = py_str (meta_get d ''explanation'' (JStr []));
                     gone = py_str (meta_get d ''superseded_id'' (JStr []));
                     a1 = sharing (mi_id b) a; b1 = sharing (mi_id a) b
              in then_call (store_item_call (a\<lparr>mi_metadata := dict_set ''llm_conflict_explanation'' (JStr why)
                     (contradicting (mi_id b) (mi_metadata a)), mi_updated_at := now\<rparr>)) (\<lambda>_.
                 then_call (store_item_call (b\<lparr>mi_metadata := contradicting (mi_id a) (mi_metadata b), mi_updated_at := now\<rparr>)) (\<lambda>_.
                 then_call (call_if (gone \<noteq> [] \<and> gone \<in> {mi_id a, mi_id b}) (mark_superseded now gone a1 b1)) (\<lambda>_.
                 answer (Some \<lparr>mc_item = a1, mc_relation = rel, mc_other_id = mi_id b, mc_other = Some b1,
                   mc_status = memory_conflict_status a1 (Some b1), mc_reason = ''llm_audit: '' @ why\<rparr>)))))
       | _ \<Rightarrow> answer None)"
      by (simp add: Let_def writes_from_then if_call writes_from_mark a b split: json.split)
  qed
qed

lemma run_item_op_snapshots:
  assumes "snapshots op \<noteq> {}"
  shows "written_from (snapshots op) db (run_item_op files ratio lg op db)"
  using assms
proof (cases op)
  case (RestoreItem it)
  then show ?thesis using writes_from_restore [of it files] unfolding writes_from_def by (metis prod.collapse run_item_op.simps(11) snapshots.simps(1))
next
  case (AuditItems now resp a b)
  then show ?thesis using writes_from_audit [of a b now resp] unfolding writes_from_def by (metis prod.collapse run_item_op.simps(12) snapshots.simps(2))
qed simp_all

lemma run_item_op_moves:
  assumes "keys_distinct mi_id (md_items db)" "known_statuses db" "\<not> is_credit op \<and> snapshots op = {}" "names_new_item op db"
    "get_memory_item i db = Some a" "get_memory_item i (run_item_op files ratio lg op db) = Some b"
  shows "mi_status b = mi_status a \<or> may_become (mi_status a) (mi_status b)"
proof -
  have one: "mi_status b = mi_status a \<or> may_become (mi_status a) (mi_status b)"
    if "\<exists>I. moves I db (run_item_op files ratio lg op db)"
    using that moves_row assms(5,6) by blast
  show ?thesis
  proof (cases op)
    case (AddItem now uuid d)
    then have "i \<noteq> uuid" using assms(4,5) by auto
    then have "get_memory_item i (run_item_op files ratio lg op db) = get_memory_item i db"
      using add_others [of files now uuid d db "fst (add_item files now uuid d db)" "snd (add_item files now uuid d db)" i]
      by (simp add: AddItem)
    then show ?thesis using assms(5,6) by simp
  next
    case (SetStatus now k st)
    then show ?thesis using one set_status_moves [of files now k st db] by (metis prod.collapse run_item_op.simps(2))
  next
    case (VerifyItem now k)
    then show ?thesis using one verify_moves [of files now k db] by (metis prod.collapse run_item_op.simps(3))
  next
    case (DeleteItem k)
    then show ?thesis using one delete_moves [of files k db] by (metis prod.collapse run_item_op.simps(4))
  next
    case (SupersedeItem now k rep why)
    then show ?thesis using one supersede_moves [OF _ assms(2), of files now k rep why] by (metis prod.collapse run_item_op.simps(5))
  next
    case (ActivateItem now k why prov q)
    then show ?thesis using one activation_moves [of files ratio now k why prov q db] by (metis prod.collapse run_item_op.simps(6))
  next
    case (CreditItem now uuid k d why prov)
    then show ?thesis using assms(3) by simp
  next
    case (ReduceItem now k d)
    then show ?thesis using one reduce_moves [of files now k d db] by (metis prod.collapse run_item_op.simps(8))
  next
    case (ExpireItems now n)
    have "moves (mi_id ` set (list_memory_items [] [] None n db)) db (run_item_op files ratio lg op db)"
      unfolding ExpireItems run_item_op.simps expire_items_def
      by (rule list_moves [OF assms(1)]) (rule expire_one_moves)
    then show ?thesis using one by blast
  next
    case (DecayItems now n g d th)
    obtain dk db1 where s: "decay_settings now g d th db = (dk, db1)" by fastforce
    have same: "md_items db1 = md_items db" by (rule items_of_settings [OF s])
    have "moves (mi_id ` set (list_memory_items [] [] None n db1)) db1 (run_item_op files ratio lg op db)"
      unfolding DecayItems run_item_op.simps decay_inactive_confidence_def s prod.case Let_def
      by (rule list_moves) (use assms(1) same decay_one_moves in auto)
    then show ?thesis using one same_then_moves [OF same] by blast
  qed (use assms(3) in simp_all)
qed

text \<open>
  C37. Lifecycle of memory. Whatever operation runs on the items, an item that is there before and after
  keeps its status or moves along one entry of \<open>_ALLOWED_TRANSITIONS\<close>, but for two cases that do not
  ask the table: a penalty of \<open>apply_credit_delta\<close> may make a proposed item stale, and an operation that
  writes a snapshot back (\<open>restore_item\<close>, for a rollback of evolution, and \<open>_llm_check_contradiction\<close>
  with \<open>_mark_superseded\<close>) gives the item the status that it has in the snapshot.
\<close>

theorem items_move_along_the_table:
  assumes "keys_distinct mi_id (md_items db)" "known_statuses db" "names_new_item op db"
    "get_memory_item i db = Some a" "get_memory_item i (run_item_op files ratio lg op db) = Some b"
  shows "mi_status b = mi_status a \<or> may_become (mi_status a) (mi_status b) \<or>
    (is_credit op \<and> mi_status a = ''proposed'' \<and> mi_status b = ''stale'') \<or>
    (\<exists>m\<in>snapshots op. mi_id m = i \<and> mi_status b = mi_status m)"
proof (cases "snapshots op = {}")
  case False
  then show ?thesis using run_item_op_snapshots [OF False, of db files ratio lg] assms(4,5) unfolding written_from_def by (metis option.inject option.map(2))
next
  case none: True
  show ?thesis
  proof (cases "is_credit op")
    case False
    then show ?thesis using run_item_op_moves [OF assms(1,2) _ assms(3-5)] none by blast
  next
    case True
    then obtain now uuid k d why prov where op: "op = CreditItem now uuid k d why prov" by (cases op) simp_all
    obtain r db' where c: "apply_credit_delta now uuid k d why prov db = (r, db')" by fastforce
    show ?thesis
    proof (cases "i = k")
      case True
      then have "mi_status b = mi_status a \<or> (mi_status b = ''stale'' \<and> mi_status a \<in> {''active'', ''proposed''})"
        using credit_row [of now uuid i d why prov db r db' a b] c assms(4,5) op by simp
      moreover have "may_become ''active'' ''stale''" by (simp add: may_become_def allowed_transitions_def)
      ultimately show ?thesis using op by auto
    next
      case False
      then have "b = a" using credit_others [OF c False] c assms(4,5) op by simp
      then show ?thesis by simp
    qed
  qed
qed

section \<open>The gate\<close>

definition blocks_every_write :: "hook_file list \<Rightarrow> bool" where
  "blocks_every_write files =
     (\<exists>specs. load_hook_specs files = Inr specs \<and>
       list_ex (\<lambda>s. hk_event s = ''before_memory_write'' \<and> hk_match s = None \<and> hk_decision s = ''block'') specs)"

lemma blocked_write:
  assumes "blocks_every_write files"
  shows "\<exists>e. assert_memory_write_allowed files it = Inl e"
proof -
  obtain specs s where s: "load_hook_specs files = Inr specs" "s \<in> set specs" "hk_event s = ''before_memory_write''"
    "hk_match s = None" "hk_decision s = ''block''"
    using assms by (auto simp: blocks_every_write_def list_ex_iff)
  then have "\<exists>d. blocking_hook (run_hooks specs (memory_write_event it)) = Some d"
    by (subst blocked_iff) (auto simp: hook_applies_def memory_write_event_def payload_matches_def)
  then show ?thesis using s(1) by (auto simp: assert_memory_write_allowed_def)
qed

lemma blocked_gate: "blocks_every_write files \<Longrightarrow> then_call (gate files it) f db = (r, db') \<Longrightarrow> db' = db"
  using blocked_write [of files it] by (auto simp: gate_def then_call_def calls)

lemma blocked_gate_snd: "blocks_every_write files \<Longrightarrow> snd (then_call (gate files it) f db) = db"
  using blocked_gate [of files it f db "fst (then_call (gate files it) f db)"] by simp

lemma update_missing: "get_memory_item i db = None \<Longrightarrow> update_item i f db = db"
proof -
  assume "get_memory_item i db = None"
  then have "sql_update (\<lambda>r. mi_id r = i) f (md_items db) = md_items db"
    by (intro sql_update_none) (auto simp: get_memory_item_def row_of_None)
  then show ?thesis by (simp add: update_item_def)
qed

lemma remove_missing: "get_memory_item i db = None \<Longrightarrow> remove_item i db = db"
proof -
  assume "get_memory_item i db = None"
  then have "sql_delete (\<lambda>r. mi_id r = i) (md_items db) = md_items db"
    by (auto simp: get_memory_item_def row_of_None sql_delete_def filter_id_conv)
  then show ?thesis by (simp add: remove_item_def)
qed

lemma gather_keeps:
  assumes "\<And>x r db'. x \<in> set xs \<Longrightarrow> f x db = (r, db') \<Longrightarrow> db' = db"
  shows "snd (gather f xs db) = db"
  using assms
proof (induction xs)
  case (Cons x xs)
  obtain s db1 where s: "f x db = (s, db1)" by fastforce
  have "db1 = db" using Cons.prems [of x] s by simp
  moreover obtain t db2 where t: "gather f xs db = (t, db2)" by fastforce
  have "snd (gather f xs db) = db" using Cons.prems by (intro Cons.IH) auto
  ultimately show ?case using s t by (cases s; cases t) (auto simp: then_call_def calls)
qed (simp add: calls)

text \<open>A status that the item has already is written with the time only, and without the hooks.\<close>

definition touched :: "time \<Rightarrow> string \<Rightarrow> MemoryItem list \<Rightarrow> MemoryItem list" where
  "touched now i items = sql_update (\<lambda>r. mi_id r = i) (\<lambda>r. r\<lparr>mi_updated_at := now\<rparr>) items"

lemma blocked_set_status:
  assumes "blocks_every_write files" "keys_distinct mi_id (md_items db)"
  shows "md_items (snd (set_status files now i st db)) = md_items db \<or>
    (\<exists>cur. get_memory_item i db = Some cur \<and> mi_status cur = py_lower (py_strip st)) \<and>
    md_items (snd (set_status files now i st db)) = touched now i (md_items db)"
proof (cases "\<exists>cur. get_memory_item i db = Some cur \<and> mi_status cur = py_lower (py_strip st)")
  case False
  then show ?thesis
    by (auto simp: set_status_def Let_def then_call_def [of "write_to _"] calls update_missing
        blocked_gate_snd [OF assms(1)] split: option.splits)
next
  case True
  then obtain cur where cur: "get_memory_item i db = Some cur" "mi_status cur = py_lower (py_strip st)" by blast
  have same: "r = cur" if "r \<in> set (md_items db)" "mi_id r = i" for r
    using row_of_member [OF assms(2) that(1)] cur(1) that(2) by (simp add: get_memory_item_def)
  have "sql_update (\<lambda>r. mi_id r = i) (\<lambda>r. r\<lparr>mi_status := py_lower (py_strip st), mi_updated_at := now\<rparr>) (md_items db) =
      touched now i (md_items db)"
    unfolding touched_def sql_update_def 
  proof (intro map_cong [OF refl])
    fix x assume x: "x \<in> set (md_items db)"
    have "x\<lparr>mi_status := py_lower (py_strip st)\<rparr> = x" if "mi_id x = i" using same [OF x that] cur(2) by (cases x) simp
    then show "(if mi_id x = i then x\<lparr>mi_status := py_lower (py_strip st), mi_updated_at := now\<rparr> else x) =
        (if mi_id x = i then x\<lparr>mi_updated_at := now\<rparr> else x)" by simp
  qed
  then show ?thesis
    using cur by (auto simp: set_status_def Let_def then_call_def calls update_item_def raise_eq)
qed


section \<open>Rounding\<close>

lemma round_places_frac: "\<exists>k::int. round_places n q = of_int k / 10 ^ n"
proof (cases "q < 0")
  case True
  then show ?thesis
    by (intro exI [of _ "- int (round_half_even (- q * 10 ^ n))"]) (simp add: round_places_def)
next
  case False
  then show ?thesis
    by (intro exI [of _ "int (round_half_even (q * 10 ^ n))"]) (simp add: round_places_def)
qed

lemma round_half_even_nat: "round_half_even (of_nat k) = k"
  by (simp add: round_half_even_def Let_def)

lemma round_places_fixed: "round_places n (of_int k / 10 ^ n) = of_int k / 10 ^ n"
proof (cases "k < 0")
  case True
  then have "round_half_even (- (of_int k / 10 ^ n) * 10 ^ n) = nat (- k)"
    using round_half_even_nat [of "nat (- k)"] by simp
  then show ?thesis using True by (simp add: round_places_def divide_neg_pos)
next
  case False
  then have "round_half_even (of_int k / 10 ^ n * 10 ^ n) = nat k"
    using round_half_even_nat [of "nat k"] by simp
  moreover have "\<not> of_int k / 10 ^ n < (0 :: rat)" using False by (simp add: not_less)
  ultimately show ?thesis using False by (simp add: round_places_def)
qed

section \<open>Witnesses\<close>

definition sample_item :: "string \<Rightarrow> string \<Rightarrow> string \<Rightarrow> time \<Rightarrow> MemoryItem" where
  "sample_item i ty st t =
     \<lparr>mi_id = i, mi_type = ty, mi_status = st, mi_scope = ''global'', mi_content = ''tabs'', mi_source = ''cli'',
      mi_confidence = 1 / 4, mi_created_at = 1, mi_updated_at = t, mi_last_verified_at = 0, mi_expires_at = 0,
      mi_metadata = [], mi_reason = ''said'', mi_provenance = ''user'', mi_summary = ''short''\<rparr>"

definition sample_memory :: "MemoryItem list \<Rightarrow> MemDb" where
  "sample_memory items =
     \<lparr>md_items = items, md_messages = [], md_fts = [], md_aliases = [], md_jobs = [], md_events = [], md_event_seq = 0,
      md_params = [], md_cache = [(''decay_stale_threshold'', 1 / 5)], md_ready = True, md_loaded_at = 100, md_queries = []\<rparr>"

definition blocking_file :: hook_file where
  "blocking_file = (''hooks/stop.yaml'', JList [JDict [(''name'', JStr ''stop''), (''event'', JStr ''before_memory_write''),
     (''decision'', JStr ''block'')]])"

lemma sample_moves: "set_status [] 7 ''m1'' ''active'' (sample_memory [sample_item ''m1'' ''fact'' ''proposed'' 1]) =
  (Inr (Some ((sample_item ''m1'' ''fact'' ''proposed'' 1)\<lparr>mi_status := ''active'', mi_updated_at := 7\<rparr>)),
   sample_memory [(sample_item ''m1'' ''fact'' ''proposed'' 1)\<lparr>mi_status := ''active'', mi_updated_at := 7\<rparr>])"
  by code_simp

theorem items_move_along_the_table_witness:
  "\<exists>a b. get_memory_item ''m1'' (sample_memory [sample_item ''m1'' ''fact'' ''proposed'' 1]) = Some a \<and>
     get_memory_item ''m1'' (run_item_op [] (\<lambda>_ _. 0) (\<lambda>_. 0) (SetStatus 7 ''m1'' ''active'')
       (sample_memory [sample_item ''m1'' ''fact'' ''proposed'' 1])) = Some b \<and>
     mi_status a = ''proposed'' \<and> mi_status b = ''active'' \<and> may_become (mi_status a) (mi_status b)"
proof -
  let ?db = "sample_memory [sample_item ''m1'' ''fact'' ''proposed'' 1]"
  let ?a = "sample_item ''m1'' ''fact'' ''proposed'' 1"
  let ?b = "?a\<lparr>mi_status := ''active'', mi_updated_at := 7\<rparr>"
  have a: "get_memory_item ''m1'' ?db = Some ?a" by code_simp
  have b: "get_memory_item ''m1'' (run_item_op [] (\<lambda>_ _. 0) (\<lambda>_. 0) (SetStatus 7 ''m1'' ''active'') ?db) = Some ?b"
    by (simp add: sample_moves) code_simp
  have "mi_status ?b = mi_status ?a \<or> may_become (mi_status ?a) (mi_status ?b) \<or>
      (is_credit (SetStatus 7 ''m1'' ''active'') \<and> mi_status ?a = ''proposed'' \<and> mi_status ?b = ''stale'') \<or>
      (\<exists>m\<in>snapshots (SetStatus 7 ''m1'' ''active''). mi_id m = ''m1'' \<and> mi_status ?b = mi_status m)"
    by (rule items_move_along_the_table [OF _ _ _ a b])
      (simp_all add: keys_distinct_def known_statuses_def sample_memory_def sample_item_def memory_statuses_def)
  then show ?thesis using a b by (auto simp: sample_item_def)
qed

lemma blocking_file_blocks: "blocks_every_write [blocking_file]"
proof -
  have "load_hook_specs [blocking_file] = Inr (the (case load_hook_specs [blocking_file] of Inr s \<Rightarrow> Some s | _ \<Rightarrow> None)) \<and>
      list_ex (\<lambda>s. hk_event s = ''before_memory_write'' \<and> hk_match s = None \<and> hk_decision s = ''block'')
        (the (case load_hook_specs [blocking_file] of Inr s \<Rightarrow> Some s | _ \<Rightarrow> None))"
    by code_simp
  then show ?thesis unfolding blocks_every_write_def by blast
qed

text \<open>A credit passes the same hook, and makes a proposed memory stale.\<close>

lemma credited_sample:
  "md_items (run_item_op files ratio lg (CreditItem 101 ''j1'' ''m1'' (- 1 / 10) ''bad'' ''credit'')
     (sample_memory [sample_item ''m1'' ''fact'' ''proposed'' 1])) =
   [(sample_item ''m1'' ''fact'' ''stale'' 101)\<lparr>mi_confidence := 3 / 20,
      mi_metadata := sorted_metadata (credited_metadata 101 (- 1 / 10) ''bad'' ''credit'' [])\<rparr>]"
proof -
  let ?db = "sample_memory [sample_item ''m1'' ''fact'' ''proposed'' 1]"
  have th: "memory_parameter 101 ''decay_stale_threshold'' (1 / 5) ?db = (1 / 5, ?db)"
    by (simp add: memory_parameter_def ensure_parameters_def sample_memory_def)
  have c: "round_places 4 (unit_interval (1 / 4 + - 1 / 10)) = 3 / 20"
  proof -
    have eq: "unit_interval (1 / 4 + - 1 / 10) = of_int 1500 / 10 ^ 4" by (simp add: unit_interval_def)
    show ?thesis unfolding eq round_places_fixed by simp
  qed
  have s: "py_strip ''bad'' = ''bad''" "py_strip ''credit'' = ''credit''" "py_strip ''cli'' = ''cli''"
    "py_strip ''said'' = ''said''" "py_strip ''user'' = ''user''" by code_simp+
  have r: "get_memory_item ''m1'' ?db = Some (sample_item ''m1'' ''fact'' ''proposed'' 1)" by code_simp
  have f: "mi_confidence (sample_item ''m1'' ''fact'' ''proposed'' 1) = 1 / 4"
    "mi_status (sample_item ''m1'' ''fact'' ''proposed'' 1) = ''proposed''" by (simp_all add: sample_item_def)
  have d: "- 1 / 10 < (0 :: rat)" "(3 / 20 :: rat) < 1 / 5" by simp_all
  show ?thesis
    unfolding run_item_op.simps apply_credit_delta_def r option.case Let_def th prod.case f c
    by (simp add: d store_item_call_def store_item_def then_call_def calls call_if_def s)
      (simp add: sample_item_def sample_memory_def s sql_delete_def)
qed


end
