(* ===== verification/Memory_Maintenance.thy ===== *)
theory Memory_Maintenance
  imports Memory_Lifecycle
begin

text \<open>
  What the maintenance of memory leaves alone, which constraints reach the planner, what evolution can
  undo, and the weights of recall.
\<close>

section \<open>Maintenance\<close>

definition holds_item :: "MemoryItem \<Rightarrow> MemDb \<Rightarrow> bool" where
  "holds_item it db = (keys_distinct mi_id (md_items db) \<and> get_memory_item (mi_id it) db = Some it)"

lemma holds_item_same: "md_items db' = md_items db \<Longrightarrow> holds_item it db' = holds_item it db"
  by (simp add: holds_item_def get_memory_item_def)

lemma holds_item_update:
  assumes "holds_item it db" "i \<noteq> mi_id it" "\<And>r. mi_id (f r) = mi_id r"
  shows "holds_item it (update_item i f db)"
  using assms get_memory_item_update [of f] by (simp add: holds_item_def update_item_def keys_distinct_update)

lemma set_status_writes:
  "snd (set_status files now i st db) = db \<or>
   snd (set_status files now i st db) = update_item i (\<lambda>r. r\<lparr>mi_status := py_lower (py_strip st), mi_updated_at := now\<rparr>) db"
  by (auto simp: set_status_def Let_def then_call_def calls gate_def split: option.splits sum.splits)

lemma set_status_holds: "holds_item it db \<Longrightarrow> i \<noteq> mi_id it \<Longrightarrow> holds_item it (snd (set_status files now i st db))"
  using set_status_writes [of files now i st db] by (auto simp: holds_item_update)

lemma gather_holds:
  assumes "\<And>x db. x \<in> set xs \<Longrightarrow> P db \<Longrightarrow> P (snd (f x db))" "P db"
  shows "P (snd (gather f xs db))"
  using assms
proof (induction xs arbitrary: db)
  case (Cons x xs)
  obtain s db1 where s: "f x db = (s, db1)" by fastforce
  have p1: "P db1" using Cons.prems(1) [of x db] Cons.prems(2) s by simp
  obtain t db2 where t: "gather f xs db1 = (t, db2)" by fastforce
  have "P (snd (gather f xs db1))" using Cons.prems(1) p1 by (intro Cons.IH) auto
  then show ?case using s t p1 by (cases s; cases t) (auto simp: then_call_def calls)
qed (simp add: calls)

lemma snapshot_row:
  assumes "holds_item it db" "x \<in> set (list_memory_items [] [] None n db)" "mi_id x = mi_id it"
  shows "x = it"
proof -
  have "x \<in> set (md_items db)"
    using assms(2) by (auto simp: list_memory_items_def dest!: subsetD [OF set_sql_limit])
  then have "get_memory_item (mi_id x) db = Some x" using assms(1) by (simp add: holds_item_def get_memory_item_def row_of_member)
  then show ?thesis using assms(1,3) by (simp add: holds_item_def)
qed

lemma expire_holds:
  assumes "holds_item it db" "\<not> should_expire now it"
  shows "holds_item it (snd (expire_items files now n db))"
  unfolding expire_items_def
proof (rule gather_holds [where P = "holds_item it"])
  fix x d assume x: "x \<in> set (list_memory_items [] [] None n db)" and d: "holds_item it d"
  show "holds_item it (snd (expire_one files now x d))"
  proof (cases "should_expire now x")
    case True
    then have "mi_id x \<noteq> mi_id it" using snapshot_row [OF assms(1) x] assms(2) by auto
    then show ?thesis
      using set_status_holds [OF d] True by (auto simp: expire_one_def then_call_def calls split: prod.splits sum.splits)
        (metis snd_conv)+
  qed (simp add: expire_one_def calls d)
qed (rule assms(1))

lemma decay_holds:
  assumes "holds_item it db" "mi_type it \<notin> decay_types \<or> mi_status it \<noteq> ''active''"
  shows "holds_item it (snd (decay_inactive_confidence files lg now n g dl th db))"
proof -
  obtain d db1 where s: "decay_settings now g dl th db = (d, db1)" by fastforce
  have h1: "holds_item it db1" using assms(1) holds_item_same [OF items_of_settings [OF s]] by simp
  have "holds_item it (snd (gather (decay_one files lg d now) (list_memory_items [] [] None n db1) db1))"
  proof (rule gather_holds [where P = "holds_item it"])
    fix x e assume x: "x \<in> set (list_memory_items [] [] None n db1)" and e: "holds_item it e"
    show "holds_item it (snd (decay_one files lg d now x e))"
    proof (cases "decayed_confidence lg d x")
      case (Inr c)
      show ?thesis
      proof (cases "should_decay d now x")
        case True
        then have ne: "mi_id x \<noteq> mi_id it"
          using snapshot_row [OF h1 x] assms(2) by (auto simp: should_decay_def)
        define w where "w = update_item (mi_id x) (\<lambda>r. r\<lparr>mi_confidence := c, mi_updated_at := now\<rparr>) e"
        have hw: "holds_item it w" unfolding w_def by (rule holds_item_update [OF e ne]) simp
        show ?thesis
        proof (cases "assert_memory_write_allowed files (x\<lparr>mi_confidence := c\<rparr>)")
          case (Inl err)
          then show ?thesis using e Inr True by (simp add: decay_one_def then_call_def calls gate_def)
        next
          case ok: (Inr u)
          obtain r e2 where r: "set_status files now (mi_id x) ''stale'' w = (r, e2)" by fastforce
          have "holds_item it e2" using set_status_holds [OF hw ne, of files now "''stale''"] r by simp
          then show ?thesis using Inr True ok hw r
            by (cases r) (auto simp: decay_one_def then_call_def calls gate_def w_def [symmetric])
        qed
      qed (use e Inr in \<open>simp add: decay_one_def then_call_def calls\<close>)
    qed (use e in \<open>simp add: decay_one_def then_call_def calls\<close>)
  qed (rule h1)
  then show ?thesis by (simp add: decay_inactive_confidence_def s)
qed

text \<open>
  Durable boundaries. \<open>garbage_collect\<close>, whatever it does to the rest and wherever an error stops it,
  leaves a memory alone that has no expiry and is no preference, fact or semantic memory: a constraint or
  a negative memory neither expires nor loses confidence.
\<close>

theorem maintenance_keeps_boundaries:
  assumes "keys_distinct mi_id (md_items db)" "get_memory_item i db = Some it" "mi_type it \<in> {''constraint'', ''negative''}"
    "mi_expires_at it = 0"
  shows "get_memory_item i (snd (garbage_collect files lg now n db)) = Some it"
proof -
  have i: "mi_id it = i" by (rule get_memory_item_id [OF assms(2)])
  have h: "holds_item it db" using assms(1,2) i by (simp add: holds_item_def)
  obtain r1 db1 where 1: "expire_items files now n db = (r1, db1)" by fastforce
  obtain r2 db2 where 2: "decay_inactive_confidence files lg now n None None None db1 = (r2, db2)" by fastforce
  obtain c db3 where 3: "prune_consolidation_history now None db2 = (c, db3)" by fastforce
  have h1: "holds_item it db1" using expire_holds [OF h, of now files n] 1 assms(4) by (simp add: should_expire_def)
  have "mi_type it \<notin> decay_types" using assms(3) by (auto simp: decay_types_def)
  then have h2: "holds_item it db2" using decay_holds [OF h1, of files lg now n None None None] 2 by simp
  have h3: "holds_item it db3" using h2 holds_item_same [OF items_of_prune [OF 3]] by simp
  have "snd (garbage_collect files lg now n db) \<in> {db1, db2, db3}"
    using 1 2 3 by (cases r1; cases r2) (auto simp: garbage_collect_def then_call_def split: prod.splits)
  then show ?thesis using h1 h2 h3 i by (auto simp: holds_item_def)
qed

section \<open>The constraints of the planner\<close>

lemma sorted_prefix:
  assumes "sorted (map (\<lambda>r. - k r) xs)" "x \<in> set (take n xs)"
  shows "length (filter (\<lambda>r. (k x :: time) < k r) xs) < n"
proof -
  obtain j where j: "j < length (take n xs)" "take n xs ! j = x" using assms(2) by (auto simp: in_set_conv_nth)
  then have jx: "j < n" "j < length xs" "xs ! j = x" by auto
  have "\<not> k x < k r" if later: "r \<in> set (drop j xs)" for r
  proof -
    obtain m where "m < length (drop j xs)" "drop j xs ! m = r" using later unfolding in_set_conv_nth by blast
    then have m: "m < length xs - j" "drop j xs ! m = r" by simp_all
    then have "xs ! (j + m) = r" using jx(2) by simp
    moreover have "map (\<lambda>r. - k r) xs ! j \<le> map (\<lambda>r. - k r) xs ! (j + m)"
      using m(1) jx(2) by (intro sorted_nth_mono [OF assms(1)]) auto
    ultimately show ?thesis using jx(2,3) m(1) by auto
  qed
  then have "filter (\<lambda>r. k x < k r) xs = filter (\<lambda>r. k x < k r) (take j xs)"
    by (subst append_take_drop_id [of j xs, symmetric], subst filter_append) (simp add: filter_empty_conv)
  then have "length (filter (\<lambda>r. k x < k r) xs) \<le> j"
    using length_filter_le [of "\<lambda>r. k x < k r" "take j xs"] by simp
  then show ?thesis using jx(1) by simp
qed

text \<open>
  C40. Constraints in effect. The list of active constraints, which the planner is told is always in
  effect, holds every live constraint as long as the store has at most as many constraint memories of any
  status as the limit. Beyond the limit it does not: a live constraint is missing as soon as that many
  constraint memories, archived or revoked ones included, were written after it.
\<close>

theorem written_constraints_hide_live_ones:
  assumes "it \<in> set (md_items db)" "mi_type it = ''constraint''" "live_item now it" "0 \<le> limit"
  shows "(length (filter (\<lambda>r. mi_type r = ''constraint'') (md_items db)) \<le> nat limit \<longrightarrow>
      it \<in> set (active_constraints now limit None db)) \<and>
    (nat limit \<le> length (filter (\<lambda>r. mi_type r = ''constraint'' \<and> mi_updated_at it < mi_updated_at r) (md_items db)) \<longrightarrow>
      it \<notin> set (active_constraints now limit None db))"
proof -
  define all where "all = filter (\<lambda>r. mi_type r = ''constraint'') (md_items db)"
  have listed: "list_memory_items ''constraint'' [] None limit db = take (nat limit) (sql_desc mi_updated_at all)"
    using assms(4) by (simp add: list_memory_items_def sql_limit_def all_def)
  have ac: "active_constraints now limit None db = filter (live_item now) (take (nat limit) (sql_desc mi_updated_at all))"
    by (simp add: active_constraints_def listed)
  have shown: "it \<in> set (active_constraints now limit None db)"
    if "length (filter (\<lambda>r. mi_type r = ''constraint'') (md_items db)) \<le> nat limit"
  proof -
    have "take (nat limit) (sql_desc mi_updated_at all) = sql_desc mi_updated_at all"
      using that by (simp add: all_def sql_desc_def)
    then show ?thesis using assms(1-3) by (simp add: ac all_def)
  qed
  have hidden: "it \<notin> set (active_constraints now limit None db)"
    if "nat limit \<le> length (filter (\<lambda>r. mi_type r = ''constraint'' \<and> mi_updated_at it < mi_updated_at r) (md_items db))"
  proof
    assume "it \<in> set (active_constraints now limit None db)"
    then have t: "it \<in> set (take (nat limit) (sql_desc mi_updated_at all))" by (simp add: ac)
    have "length (filter (\<lambda>r. mi_updated_at it < mi_updated_at r) (sql_desc mi_updated_at all)) < nat limit"
      by (rule sorted_prefix [OF _ t]) (simp add: sql_desc_def)
    moreover have "length (filter P (sql_desc mi_updated_at all)) = length (filter P all)" for P
      by (simp add: sql_desc_def filter_sort)
    moreover have "filter (\<lambda>r. mi_updated_at it < mi_updated_at r) all =
        filter (\<lambda>r. mi_type r = ''constraint'' \<and> mi_updated_at it < mi_updated_at r) (md_items db)"
      by (simp add: all_def conj_commute)
    ultimately show False using that by simp
  qed
  show ?thesis using shown hidden by blast
qed

section \<open>Evolution of an item\<close>

lemma restore_row:
  assumes "restore_item files it db = (Inr (), db')"
  shows "get_memory_item (mi_id it) db' = Some (it\<lparr>mi_confidence := unit_interval (mi_confidence it),
    mi_metadata := sorted_metadata (mi_metadata it), mi_summary := []\<rparr>)"
proof -
  have "then_call (gate files (clamped it)) (\<lambda>_. store_item_call ((clamped it)\<lparr>mi_summary := []\<rparr>)) db = (Inr (), db')"
    using assms by (simp add: restore_item_def)
  then show ?thesis
  proof (rule after_gate)
    assume "store_item_call ((clamped it)\<lparr>mi_summary := []\<rparr>) db = (Inr (), db')"
    then have "store_item ((clamped it)\<lparr>mi_summary := []\<rparr>) db = Inr db'" by (cases rule: store_item_call_cases) auto
    then show ?thesis by (simp add: get_memory_item_store clamped_def)
  qed simp
qed

text \<open>
  Undoing an evolution. Rolling an item back after a candidate was applied gives every field of the
  item as it was before, but for its summary: \<open>restore_item\<close> leaves it out, so the item has none, and a
  long memory is shown in full where its summary was shown before.
\<close>

theorem rollback_loses_the_summary:
  assumes "get_memory_item i db = Some before" "mi_confidence before = unit_interval (mi_confidence before)"
    "mi_metadata before = sorted_metadata (mi_metadata before)"
    "apply_item_candidate files i cand db = (Inr (), db1)"
    "rollback_item files i (Some before) db1 = (Inr (), db2)"
  shows "get_memory_item i db2 = Some (before\<lparr>mi_summary := []\<rparr>)"
proof -
  have "get_memory_item (mi_id before) db2 = Some (before\<lparr>mi_confidence := unit_interval (mi_confidence before),
      mi_metadata := sorted_metadata (mi_metadata before), mi_summary := []\<rparr>)"
    by (rule restore_row) (use assms(5) in \<open>simp add: rollback_item_def\<close>)
  then show ?thesis using assms(2,3) get_memory_item_id [OF assms(1)] by simp
qed

section \<open>The weights of recall\<close>

lemma cached_after_set:
  "map_of (md_cache (set_memory_parameter now name v why m db)) k =
     (if k = name then Some v else map_of (md_cache (ensure_parameters now db)) k)"
  by (auto simp: set_memory_parameter_def Let_def update_conv')

lemma ready_after_set [simp]:
  "md_ready (set_memory_parameter now name v why m db)"
  "md_loaded_at (set_memory_parameter now name v why m db) = md_loaded_at (ensure_parameters now db)"
  by (simp_all add: set_memory_parameter_def ensure_parameters_def Let_def)

lemma ensure_twice [simp]: "ensure_parameters now (set_memory_parameter now name v why m db) = set_memory_parameter now name v why m db"
  by (simp add: set_memory_parameter_def ensure_parameters_def Let_def)

lemma parameter_after_set:
  "fst (memory_parameter now k fallback (set_memory_parameter now name v why m db)) =
     (if k = name then v else fst (memory_parameter now k fallback db))"
  by (simp add: memory_parameter_def Let_def cached_after_set)

lemma cue_weights_sum:
  assumes "db' = adapt_cue_weights now ratio query content db"
  shows "fst (memory_parameter now ''cue_weight_coverage'' d1 db') + fst (memory_parameter now ''cue_weight_jaccard'' d2 db') +
      fst (memory_parameter now ''cue_weight_sequence'' d3 db') = 1"
    "\<exists>k::int. fst (memory_parameter now ''cue_weight_sequence'' d3 db') = of_int k / 10 ^ 4"
proof -
  obtain c j why db4 where db': "db' = set_memory_parameter now ''cue_weight_sequence''
      (round_places 4 (1 - round_places 4 c - round_places 4 j)) why []
      (set_memory_parameter now ''cue_weight_jaccard'' (round_places 4 j) why []
      (set_memory_parameter now ''cue_weight_coverage'' (round_places 4 c) why [] db4))"
  proof -
    obtain cv jc sq ok where 0: "cue_scores ratio query content = (cv, jc, sq, ok)" by (metis prod_cases4)
    obtain p1 s1 where 1: "memory_parameter now ''cue_weight_coverage'' (3 / 5) db = (p1, s1)" by fastforce
    obtain p2 s2 where 2: "memory_parameter now ''cue_weight_jaccard'' (1 / 4) s1 = (p2, s2)" by fastforce
    obtain p3 s3 where 3: "memory_parameter now ''cue_weight_sequence'' (3 / 20) s2 = (p3, s3)" by fastforce
    obtain p4 s4 where 4: "memory_parameter now ''hebbian_learning_rate'' (1 / 20) s3 = (p4, s4)" by fastforce
    show ?thesis
      by (rule that [of _ _ _ s4]) (simp only: assms adapt_cue_weights_def Let_def 0 1 2 3 4 prod.case)
  qed
  obtain a b :: int where ab: "round_places 4 c = of_int a / 10 ^ 4" "round_places 4 j = of_int b / 10 ^ 4"
    using round_places_frac by metis
  have seq: "round_places 4 (1 - of_int a / 10 ^ 4 - of_int b / 10 ^ 4) = (of_int (10 ^ 4 - a - b) / 10 ^ 4 :: rat)"
  proof -
    have eq: "1 - of_int a / 10 ^ 4 - of_int b / 10 ^ 4 = (of_int (10 ^ 4 - a - b) / 10 ^ 4 :: rat)" by (simp add: field_simps)
    show ?thesis unfolding eq by (rule round_places_fixed)
  qed
  show "fst (memory_parameter now ''cue_weight_coverage'' d1 db') + fst (memory_parameter now ''cue_weight_jaccard'' d2 db') +
      fst (memory_parameter now ''cue_weight_sequence'' d3 db') = 1"
    unfolding db' parameter_after_set ab seq by (simp add: field_simps)
  show "\<exists>k::int. fst (memory_parameter now ''cue_weight_sequence'' d3 db') = of_int k / 10 ^ 4"
  proof -
    have "fst (memory_parameter now ''cue_weight_sequence'' d3 db') = of_int (10 ^ 4 - a - b) / 10 ^ 4"
      unfolding db' parameter_after_set ab seq by simp
    then show ?thesis by blast
  qed
qed

text \<open>
  Weights of recall. Whatever query and memory an activation brings together, and whatever the
  weights were, the three cue weights it leaves add up to exactly one, each of them a number of at most
  four decimal places.
\<close>

theorem cue_weights_add_up:
  "let db' = adapt_cue_weights now ratio query content db; weight = (\<lambda>name. fst (memory_parameter now name 0 db'))
   in weight ''cue_weight_coverage'' + weight ''cue_weight_jaccard'' + weight ''cue_weight_sequence'' = 1 \<and>
      (\<exists>k::int. weight ''cue_weight_sequence'' = of_int k / 10 ^ 4)"
  unfolding Let_def
  by (rule conjI [OF cue_weights_sum(1) [OF refl] cue_weights_sum(2) [OF refl]])

section \<open>Witnesses\<close>

theorem maintenance_keeps_boundaries_witness:
  "get_memory_item ''m1'' (snd (garbage_collect [] (\<lambda>_. 0) 99999999 1000
     (sample_memory [sample_item ''m1'' ''constraint'' ''active'' 1, sample_item ''m2'' ''fact'' ''active'' 1]))) =
   Some (sample_item ''m1'' ''constraint'' ''active'' 1)"
  by (rule maintenance_keeps_boundaries)
    (simp_all add: keys_distinct_def sample_memory_def sample_item_def get_memory_item_def row_of_Cons)

theorem written_constraints_hide_live_ones_witness:
  "sample_item ''m1'' ''constraint'' ''active'' 1 \<in> set (active_constraints 9 1 None
     (sample_memory [sample_item ''m1'' ''constraint'' ''active'' 1])) \<and>
   sample_item ''m1'' ''constraint'' ''active'' 1 \<notin> set (active_constraints 9 1 None
     (sample_memory [sample_item ''m1'' ''constraint'' ''active'' 1, sample_item ''m2'' ''constraint'' ''revoked'' 2]))"
proof
  show "sample_item ''m1'' ''constraint'' ''active'' 1 \<in> set (active_constraints 9 1 None
      (sample_memory [sample_item ''m1'' ''constraint'' ''active'' 1]))"
    by (rule written_constraints_hide_live_ones [THEN conjunct1, THEN mp])
      (simp_all add: sample_memory_def sample_item_def live_item_def active_statuses_def)
  show "sample_item ''m1'' ''constraint'' ''active'' 1 \<notin> set (active_constraints 9 1 None
      (sample_memory [sample_item ''m1'' ''constraint'' ''active'' 1, sample_item ''m2'' ''constraint'' ''revoked'' 2]))"
    by (rule written_constraints_hide_live_ones [THEN conjunct2, THEN mp])
      (simp_all add: sample_memory_def sample_item_def live_item_def active_statuses_def)
qed

theorem rollback_loses_the_summary_witness:
  "\<exists>db1 db2. apply_item_candidate [] ''m1'' ((sample_item ''m1'' ''fact'' ''active'' 1)\<lparr>mi_content := ''spaces''\<rparr>)
       (sample_memory [sample_item ''m1'' ''fact'' ''active'' 1]) = (Inr (), db1) \<and>
     rollback_item [] ''m1'' (Some (sample_item ''m1'' ''fact'' ''active'' 1)) db1 = (Inr (), db2) \<and>
     get_memory_item ''m1'' db2 = Some ((sample_item ''m1'' ''fact'' ''active'' 1)\<lparr>mi_summary := []\<rparr>)"
proof -
  let ?it = "sample_item ''m1'' ''fact'' ''active'' 1"
  let ?db = "sample_memory [?it]"
  let ?db1 = "sample_memory [?it\<lparr>mi_content := ''spaces'', mi_summary := []\<rparr>]"
  let ?db2 = "sample_memory [?it\<lparr>mi_summary := []\<rparr>]"
  have 1: "apply_item_candidate [] ''m1'' (?it\<lparr>mi_content := ''spaces''\<rparr>) ?db = (Inr (), ?db1)" by code_simp
  have 2: "rollback_item [] ''m1'' (Some ?it) ?db1 = (Inr (), ?db2)" by code_simp
  have "get_memory_item ''m1'' ?db2 = Some (?it\<lparr>mi_summary := []\<rparr>)"
    by (rule rollback_loses_the_summary [OF _ _ _ 1 2])
      (simp_all add: sample_memory_def sample_item_def get_memory_item_def row_of_Cons unit_interval_def sorted_metadata_def as_dict_def)
  then show ?thesis using 1 2 by blast
qed

end
