(* ===== verification/Memory_Job_Safety.thy ===== *)
theory Memory_Job_Safety
  imports Memory_Jobs
begin

text \<open>
  What the queue of consolidation jobs promises: a job under a live lease stays with its owner, the events
  of a job are the way it went, and what \<open>UNIQUE(session_id, run_id)\<close> is worth.
\<close>

section \<open>Operations from outside\<close>

datatype job_op =
    EnqueueJob time string string string string string string
  | EnqueueCase time string string string string
  | EnqueueRepair time string string
  | SweepEpisodes time "nat \<Rightarrow> string" "StoredMessage list \<Rightarrow> StoredMessage" int
  | RetryJobs time "string list" string
  | ClaimJobs time string int time
  | FinishJob time ConsolidationJob string string
  | PruneJobs time "time option"

fun run_job_op :: "job_op \<Rightarrow> MemDb \<Rightarrow> MemDb" where
  "run_job_op (EnqueueJob now uuid sid rid src peer sender) db = snd (enqueue_consolidation now uuid sid rid src peer sender db)"
| "run_job_op (EnqueueCase now uuid goal peer sender) db = snd (enqueue_case_job now uuid goal peer sender db)"
| "run_job_op (EnqueueRepair now uuid item) db = snd (enqueue_reflective_repair now uuid item db)"
| "run_job_op (SweepEpisodes now uuid pick n) db = snd (enqueue_unconsolidated_episodes now uuid pick n db)"
| "run_job_op (RetryJobs now ids why) db = (case retry_consolidation_jobs now ids why db of Inl e \<Rightarrow> db | Inr (js, db') \<Rightarrow> db')"
| "run_job_op (ClaimJobs now owner n lease) db = snd (claim_consolidation_jobs now owner n lease db)"
| "run_job_op (FinishJob now j st err) db = finish_consolidation_job now j st err db"
| "run_job_op (PruneJobs now keep) db = snd (prune_consolidation_history now keep db)"

lemma jobs_of_record [simp]: "md_jobs (record_job_event a b c d e f g db) = md_jobs db"
  by (simp add: record_job_event_def)

lemma jobs_of_update [simp]: "md_jobs (update_job p f db) = sql_update p f (md_jobs db)"
  by (simp add: update_job_def)

lemma jobs_of_insert [simp]: "md_jobs (insert_job j db) = md_jobs db @ [j]"
  by (simp add: insert_job_def)

lemma parameters_keep_jobs:
  assumes "memory_parameter now name v db = (x, db')"
  shows "md_jobs db' = md_jobs db \<and> md_events db' = md_events db \<and> md_event_seq db' = md_event_seq db"
  using assms by (auto simp: memory_parameter_def ensure_parameters_def Let_def)

section \<open>Leases\<close>

text \<open>The row of \<open>j\<close> is there, and no other row has its id.\<close>

definition holds_job :: "ConsolidationJob \<Rightarrow> MemDb \<Rightarrow> bool" where
  "holds_job j db = (j \<in> set (md_jobs db) \<and> (\<forall>r\<in>set (md_jobs db). cj_id r = cj_id j \<longrightarrow> r = j))"

lemma holds_job_same: "md_jobs db' = md_jobs db \<Longrightarrow> holds_job j db' = holds_job j db"
  by (simp add: holds_job_def)

lemma holds_job_update:
  assumes "holds_job j db" "\<not> p j" "\<And>r. p r \<Longrightarrow> cj_id (f r) = cj_id r"
  shows "holds_job j (update_job p f db)"
  unfolding holds_job_def
proof
  have "j = (if p j then f j else j)" using assms(2) by simp
  then show "j \<in> set (md_jobs (update_job p f db))"
    using assms(1) unfolding jobs_of_update set_sql_update holds_job_def by blast
  show "\<forall>r\<in>set (md_jobs (update_job p f db)). cj_id r = cj_id j \<longrightarrow> r = j"
  proof (intro ballI impI)
    fix r assume "r \<in> set (md_jobs (update_job p f db))" "cj_id r = cj_id j"
    then obtain r0 where r0: "r0 \<in> set (md_jobs db)" "r = (if p r0 then f r0 else r0)"
      by (auto simp: set_sql_update)
    then have "cj_id r0 = cj_id j" using \<open>cj_id r = cj_id j\<close> assms(3) by (auto split: if_splits)
    then have "r0 = j" using assms(1) r0(1) by (simp add: holds_job_def)
    then show "r = j" using r0(2) assms(2) by simp
  qed
qed

lemma holds_job_insert: "holds_job j db \<Longrightarrow> cj_id k \<noteq> cj_id j \<Longrightarrow> holds_job j (insert_job k db)"
  by (auto simp: holds_job_def)

lemma holds_job_record [simp]: "holds_job j (record_job_event a b c d e f g db) = holds_job j db"
  by (simp add: holds_job_def)

lemma holds_job_fold:
  assumes "\<And>x d. x \<in> set xs \<Longrightarrow> holds_job j d \<Longrightarrow> holds_job j (f x d)" "holds_job j db"
  shows "holds_job j (fold f xs db)"
  using assms by (induction xs arbitrary: db) auto

lemma enqueue_holds: "holds_job j db \<Longrightarrow> uuid \<noteq> cj_id j \<Longrightarrow> holds_job j (snd (enqueue_job now uuid sid rid src peer sender why db))"
  by (auto simp: enqueue_job_def pending_job_def holds_job_insert split: option.split)

lemma episodes_hold:
  "holds_job j db \<Longrightarrow> (\<And>n. uuid n \<noteq> cj_id j) \<Longrightarrow> holds_job j (snd (enqueue_episodes now uuid ms db))"
proof (induction now uuid ms db rule: enqueue_episodes.induct)
  case (2 now uuid m ms db)
  obtain k db1 where 1: "enqueue_consolidation now (uuid 0) (sm_session_id m) (or_else (sm_run_id m) (sm_session_id m))
      (or_else (sm_source m) ''conversation'') (sm_peer_id m) (sm_sender_id m) db = (k, db1)" by fastforce
  have "holds_job j db1"
    using enqueue_holds [OF 2(2), of "uuid 0"] 2(3) 1 by (simp add: enqueue_consolidation_def) (metis snd_conv)
  then show ?case using 2(1) [OF 1 [symmetric]] 2(3) by (simp add: 1 split: prod.split) (metis snd_conv)
qed simp

lemma claim_holds:
  assumes "holds_job j db" "cj_status j = ''active''" "now < cj_lease_expires_at j"
  shows "holds_job j (snd (claim_jobs now owner n lease db))"
proof -
  define db1 where "db1 = fold (bury_failed now) (filter (\<lambda>j. cj_status j = ''failed'') (md_jobs db)) db"
  define sel where "sel = sql_limit (max 1 n) (sql_asc cj_updated_at (filter (claimable_job now) (md_jobs db1)))"
  have 1: "holds_job j db1"
    unfolding db1_def
    by (rule holds_job_fold) (use assms(1,2) in \<open>auto simp: bury_failed_def intro!: holds_job_update\<close>)
  have "holds_job j (fold (claim_one now owner lease) sel db1)"
  proof (rule holds_job_fold)
    fix k d assume k: "k \<in> set sel" and d: "holds_job j d"
    then have "k \<in> set (md_jobs db1)" "claimable_job now k"
      by (auto simp: sel_def dest!: subsetD [OF set_sql_limit])
    moreover have "\<not> claimable_job now j" using assms(2,3) by (simp add: claimable_job_def)
    ultimately have "cj_id k \<noteq> cj_id j" using 1 by (auto simp: holds_job_def)
    then show "holds_job j (claim_one now owner lease k d)"
      using d by (auto simp: claim_one_def intro!: holds_job_update)
  qed (rule 1)
  then show ?thesis by (simp add: claim_jobs_def db1_def sel_def Let_def)
qed

fun leaves_job :: "ConsolidationJob \<Rightarrow> job_op \<Rightarrow> bool" where
  "leaves_job j (EnqueueJob now uuid sid rid src peer sender) = (uuid \<noteq> cj_id j)"
| "leaves_job j (EnqueueCase now uuid goal peer sender) = (uuid \<noteq> cj_id j)"
| "leaves_job j (EnqueueRepair now uuid item) = (uuid \<noteq> cj_id j)"
| "leaves_job j (SweepEpisodes now uuid pick n) = (\<forall>n. uuid n \<noteq> cj_id j)"
| "leaves_job j (ClaimJobs now owner n lease) = (now < cj_lease_expires_at j)"
| "leaves_job j (FinishJob now k st err) = (cj_id k \<noteq> cj_id j \<or> cj_owner k \<noteq> cj_owner j)"
| "leaves_job j _ = True"

lemma retry_holds:
  assumes "holds_job j db" "cj_status j = ''active''"
  shows "holds_job j (run_job_op (RetryJobs now ids why) db)"
proof -
  have "holds_job j (fold (retry_one now w) xs db)" for w xs
    by (rule holds_job_fold)
      (use assms in \<open>auto simp: retry_one_def intro!: holds_job_update split: option.split\<close>)
  then show ?thesis using assms(1) by (simp add: retry_consolidation_jobs_def Let_def)
qed

lemma op_leaves_job:
  assumes "holds_job j db" "cj_status j = ''active''" "leaves_job j op"
  shows "holds_job j (run_job_op op db)"
proof (cases op)
  case (EnqueueRepair now uuid item)
  then show ?thesis using assms
    by (auto simp: enqueue_reflective_repair_def Let_def pending_job_def holds_job_insert split: option.split)
next
  case (RetryJobs now ids why)
  then show ?thesis using retry_holds [OF assms(1,2)] by simp
next
  case (ClaimJobs now owner n lease)
  show ?thesis
  proof (cases "lease = 300")
    case True
    obtain v db1 where v: "memory_parameter now ''consolidation_lease_seconds'' 300 db = (v, db1)" by fastforce
    have "holds_job j db1" using assms(1) parameters_keep_jobs [OF v] holds_job_same by metis
    then show ?thesis using ClaimJobs True v claim_holds assms(2,3) by (simp add: claim_consolidation_jobs_def)
  next
    case False
    then show ?thesis using ClaimJobs claim_holds assms by (simp add: claim_consolidation_jobs_def)
  qed
next
  case (FinishJob now k st err)
  then show ?thesis using assms by (auto simp: finish_consolidation_job_def intro!: holds_job_update)
next
  case (PruneJobs now keep)
  obtain v db1 where v: "memory_parameter now ''consolidation_history_retention_seconds'' (30 * 86400) db = (v, db1)" by fastforce
  have "md_jobs db1 = md_jobs db" using parameters_keep_jobs [OF v] by simp
  then show ?thesis using PruneJobs assms(1,2) v
    by (auto simp: prune_consolidation_history_def holds_job_def sql_delete_def Let_def)
qed (use assms enqueue_holds episodes_hold in \<open>auto simp: enqueue_consolidation_def enqueue_case_job_def
      enqueue_unconsolidated_episodes_def\<close>)

text \<open>
  C35. A live lease is exclusive. A job that a worker holds stays exactly as it is, whatever the others do
  in whatever order: new jobs, sweeps, retries, pruning, claims before its lease expires and results that
  carry another owner. So no claim takes it from its owner, and a worker that lost its job cannot finish it.
\<close>

theorem live_job_stays_with_its_owner:
  assumes "keys_distinct cj_id (md_jobs db)" "j \<in> set (md_jobs db)" "cj_status j = ''active''"
    "list_all (leaves_job j) ops"
  shows "row_of cj_id (cj_id j) (md_jobs (fold run_job_op ops db)) = Some j"
proof -
  have "row_of cj_id (cj_id r) (md_jobs db) = Some r" if "r \<in> set (md_jobs db)" for r
    by (rule row_of_member [OF assms(1) that])
  then have "holds_job j db" using assms(2) by (metis holds_job_def option.inject)
  then have h: "holds_job j (fold run_job_op ops db)"
    using assms(4)
  proof (induction ops arbitrary: db)
    case (Cons op ops)
    then show ?case using op_leaves_job [OF _ assms(3)] by simp
  qed simp
  then obtain r where r: "row_of cj_id (cj_id j) (md_jobs (fold run_job_op ops db)) = Some r"
    by (cases "row_of cj_id (cj_id j) (md_jobs (fold run_job_op ops db))") (auto simp: row_of_None holds_job_def)
  then show ?thesis using row_of_Some [OF r] h by (auto simp: holds_job_def)
qed

section \<open>The history of a job\<close>

fun job_path :: "string \<Rightarrow> JobEvent list \<Rightarrow> string \<Rightarrow> bool" where
  "job_path a [] b = (a = b)"
| "job_path a (e # es) b = (ce_from e = a \<and> job_path (ce_to e) es b)"

lemma job_path_append: "job_path a (es @ [e]) b \<longleftrightarrow> job_path a es (ce_from e) \<and> ce_to e = b"
  by (induction es arbitrary: a) auto

definition events_of :: "string \<Rightarrow> MemDb \<Rightarrow> JobEvent list" where
  "events_of i db = filter (\<lambda>e. ce_job_id e = i) (md_events db)"

definition job_history :: "MemDb \<Rightarrow> bool" where
  "job_history db =
     (keys_distinct cj_id (md_jobs db) \<and>
      (\<forall>e\<in>set (md_events db). ce_job_id e \<in> cj_id ` set (md_jobs db)) \<and>
      (\<forall>j\<in>set (md_jobs db). cj_owner j \<noteq> [] \<longrightarrow> cj_status j = ''active'') \<and>
      (\<forall>j\<in>set (md_jobs db). \<exists>a\<in>{[], ''pending''}. job_path a (events_of (cj_id j) db) (cj_status j)))"

lemma events_of_record:
  "events_of i (record_job_event k ev a b why err now db) =
     events_of i db @ (if i = k then [\<lparr>ce_id = Suc (md_event_seq db), ce_job_id = k, ce_event = ev, ce_from = a, ce_to = b,
       ce_reason = why, ce_error = err, ce_created_at = now\<rparr>] else [])"
  by (simp add: events_of_def record_job_event_def)

lemma events_of_others [simp]: "events_of i (update_job p f db) = events_of i db" "events_of i (insert_job j db) = events_of i db"
  "md_events (update_job p f db) = md_events db" "md_events (insert_job j db) = md_events db"
  by (simp_all add: events_of_def update_job_def insert_job_def)

lemma history_change:
  assumes h: "job_history db" and j: "j \<in> set (md_jobs db)" "p j" "\<And>r. p r \<Longrightarrow> cj_id r = cj_id j"
    and f: "\<And>r. cj_id (f r) = cj_id r" "cj_owner (f j) \<noteq> [] \<longrightarrow> cj_status (f j) = ''active''"
  shows "job_history (record_job_event (cj_id j) ev (cj_status j) (cj_status (f j)) why err now (update_job p f db))"
    (is "job_history ?db'")
proof -
  have d: "keys_distinct cj_id (md_jobs db)" using h by (simp add: job_history_def)
  have only: "r = j" if "r \<in> set (md_jobs db)" "cj_id r = cj_id j" for r
    using row_of_member [OF d that(1)] unfolding that(2) row_of_member [OF d j(1)] by simp
  have row: "\<exists>r0\<in>set (md_jobs db). r = (if r0 = j then f j else r0)" if "r \<in> set (md_jobs ?db')" for r
  proof -
    obtain r0 where r0: "r0 \<in> set (md_jobs db)" "r = (if p r0 then f r0 else r0)"
      using \<open>r \<in> set (md_jobs ?db')\<close> by (auto simp: set_sql_update)
    have pj: "p r0 \<longleftrightarrow> r0 = j" using only [OF r0(1)] j(2,3) by blast
    have "r = (if r0 = j then f j else r0)" unfolding r0(2) pj by simp
    then show ?thesis using r0(1) by blast
  qed
  have keys: "cj_id ` set (md_jobs ?db') = cj_id ` set (md_jobs db)"
    using keys_sql_update [of p cj_id f] f(1) by simp
  have "\<exists>a\<in>{[], ''pending''}. job_path a (events_of (cj_id r) ?db') (cj_status r)" if "r \<in> set (md_jobs ?db')" for r
  proof -
    obtain r0 where r0: "r0 \<in> set (md_jobs db)" "r = (if r0 = j then f j else r0)" using row [OF \<open>r \<in> set (md_jobs ?db')\<close>] by blast
    obtain a where a: "a \<in> {[], ''pending''}" "job_path a (events_of (cj_id r0) db) (cj_status r0)"
      using h r0(1) unfolding job_history_def by blast
    show ?thesis
    proof (cases "r0 = j")
      case True
      then show ?thesis using a r0(2) f(1) [of j] by (intro bexI [OF _ a(1)]) (simp add: events_of_record job_path_append)
    next
      case False
      then have "cj_id r \<noteq> cj_id j" using only [OF r0(1)] r0(2) by auto
      then show ?thesis using a r0(2) False by (intro bexI [OF _ a(1)]) (simp add: events_of_record)
    qed
  qed
  moreover have "cj_owner r \<noteq> [] \<longrightarrow> cj_status r = ''active''" if "r \<in> set (md_jobs ?db')" for r
  proof -
    obtain r0 where r0: "r0 \<in> set (md_jobs db)" "r = (if r0 = j then f j else r0)" using row [OF \<open>r \<in> set (md_jobs ?db')\<close>] by blast
    have "cj_owner r0 \<noteq> [] \<longrightarrow> cj_status r0 = ''active''" using h r0(1) unfolding job_history_def by blast
    then show ?thesis using r0(2) f(2) by (cases "r0 = j") auto
  qed
  moreover have "ce_job_id e \<in> cj_id ` set (md_jobs ?db')" if "e \<in> set (md_events ?db')" for e
    unfolding keys using that h j(1) by (auto simp: record_job_event_def job_history_def)
  moreover have "keys_distinct cj_id (md_jobs ?db')" using d f(1) by (simp add: keys_distinct_update)
  ultimately show ?thesis unfolding job_history_def by blast
qed

lemma history_same: "md_jobs db' = md_jobs db \<Longrightarrow> md_events db' = md_events db \<Longrightarrow> job_history db' = job_history db"
  by (simp add: job_history_def events_of_def)

lemma history_insert:
  assumes "job_history db" "cj_id j \<notin> cj_id ` set (md_jobs db)" "cj_owner j = []"
    "db' = insert_job j db \<and> cj_status j = ''pending'' \<or>
     db' = record_job_event (cj_id j) ev [] (cj_status j) why err now (insert_job j db)"
  shows "job_history db'"
proof -
  have none: "events_of (cj_id j) db = []"
  proof -
    have "ce_job_id e \<noteq> cj_id j" if "e \<in> set (md_events db)" for e
    proof -
      have "ce_job_id e \<in> cj_id ` set (md_jobs db)" using assms(1) that unfolding job_history_def by blast
      then show ?thesis using assms(2) by metis
    qed
    then show ?thesis by (auto simp: events_of_def filter_empty_conv)
  qed
  have jobs: "md_jobs db' = md_jobs db @ [j]" using assms(4) by auto
  have old: "events_of (cj_id r) db' = events_of (cj_id r) db" if "r \<in> set (md_jobs db)" for r
  proof -
    have "cj_id r \<noteq> cj_id j" using assms(2) that by (metis image_eqI)
    then show ?thesis using assms(4) by (auto simp: events_of_record)
  qed
  have new: "\<exists>a\<in>{[], ''pending''}. job_path a (events_of (cj_id j) db') (cj_status j)"
    using assms(4) none by (auto simp: events_of_record)
  show ?thesis
    unfolding job_history_def jobs
    using assms new old
    by (auto simp: job_history_def keys_distinct_append row_of_None record_job_event_def insert_job_def)
qed


text \<open>What workers do: they name jobs afresh, and they finish a job they claimed, under their name.\<close>

definition fresh_job :: "MemDb \<Rightarrow> string \<Rightarrow> bool" where
  "fresh_job db i = (i \<notin> cj_id ` set (md_jobs db))"

fun orderly :: "job_op \<Rightarrow> MemDb \<Rightarrow> bool" where
  "orderly (EnqueueJob now uuid sid rid src peer sender) db = fresh_job db uuid"
| "orderly (EnqueueCase now uuid goal peer sender) db = fresh_job db uuid"
| "orderly (EnqueueRepair now uuid item) db = fresh_job db uuid"
| "orderly (SweepEpisodes now uuid pick n) db = ((\<forall>n. fresh_job db (uuid n)) \<and> inj uuid)"
| "orderly (RetryJobs now ids why) db = True"
| "orderly (ClaimJobs now owner n lease) db = True"
| "orderly (FinishJob now j st err) db = (cj_status j = ''active'' \<and> cj_owner j \<noteq> [])"
| "orderly (PruneJobs now keep) db = False"

lemma enqueue_history:
  "job_history db \<Longrightarrow> fresh_job db uuid \<Longrightarrow> job_history (snd (enqueue_job now uuid sid rid src peer sender why db))"
proof (cases "job_for sid rid db")
  case None
  assume "job_history db" "fresh_job db uuid"
  let ?j = "pending_job uuid sid rid src peer sender now"
  have "job_history (record_job_event (cj_id ?j) ''enqueued'' [] (cj_status ?j) why [] now (insert_job ?j db))"
    by (rule history_insert [OF \<open>job_history db\<close>, of ?j])
      (use \<open>fresh_job db uuid\<close> in \<open>auto simp: pending_job_def fresh_job_def\<close>)
  then show ?thesis using None by (simp add: enqueue_job_def) (simp add: pending_job_def)
qed (simp add: enqueue_job_def)

lemma enqueue_ids:
  "cj_id ` set (md_jobs (snd (enqueue_job now uuid sid rid src peer sender why db))) \<subseteq> insert uuid (cj_id ` set (md_jobs db))"
  by (auto simp: enqueue_job_def pending_job_def split: option.split)

lemma episodes_history:
  "job_history db \<Longrightarrow> (\<And>n. fresh_job db (uuid n)) \<Longrightarrow> inj uuid \<Longrightarrow> job_history (snd (enqueue_episodes now uuid ms db))"
proof (induction now uuid ms db rule: enqueue_episodes.induct)
  case (2 now uuid m ms db)
  obtain k db1 where 1: "enqueue_consolidation now (uuid 0) (sm_session_id m) (or_else (sm_run_id m) (sm_session_id m))
      (or_else (sm_source m) ''conversation'') (sm_peer_id m) (sm_sender_id m) db = (k, db1)" by fastforce
  have h: "job_history db1"
    using enqueue_history [OF 2(2) 2(3)] 1 by (simp add: enqueue_consolidation_def) (metis snd_conv)
  have "cj_id ` set (md_jobs db1) \<subseteq> insert (uuid 0) (cj_id ` set (md_jobs db))"
    using enqueue_ids 1 unfolding enqueue_consolidation_def by (metis snd_conv)
  moreover have "uuid (Suc n) \<noteq> uuid 0" for n using 2(4) by (simp add: inj_eq)
  ultimately have "fresh_job db1 (uuid (Suc n))" for n
    using 2(3) [of "Suc n"] unfolding fresh_job_def by blast
  moreover have "inj (\<lambda>n. uuid (Suc n))" using 2(4) by (auto simp: inj_def)
  ultimately show ?case using 2(1) [OF 1 [symmetric]] h by (simp add: 1 split: prod.split) (metis snd_conv)
qed simp

lemma fold_history:
  assumes "\<And>x d. x \<in> set xs \<Longrightarrow> job_history d \<Longrightarrow> Q x d \<Longrightarrow> job_history (f x d)"
    "\<And>x y d. x \<in> set xs \<Longrightarrow> y \<in> set xs \<Longrightarrow> x \<noteq> y \<Longrightarrow> Q y d \<Longrightarrow> Q y (f x d)"
    "distinct xs" "job_history db" "\<forall>x\<in>set xs. Q x db"
  shows "job_history (fold f xs db)"
  using assms
proof (induction xs arbitrary: db)
  case (Cons x xs)
  have "job_history (f x db)" using Cons.prems(1) [of x db] Cons.prems(4,5) by simp
  moreover have "\<forall>y\<in>set xs. Q y (f x db)"
  proof
    fix y assume y: "y \<in> set xs"
    then have "x \<noteq> y" using Cons.prems(3) by auto
    then show "Q y (f x db)" using Cons.prems(2) [of x y db] Cons.prems(5) y by simp
  qed
  ultimately show ?case using Cons.IH [of "f x db"] Cons.prems(1-3) by simp
qed simp

lemma update_other_row:
  assumes "j \<in> set (md_jobs db)" "\<not> p j"
  shows "j \<in> set (md_jobs (update_job p f db))"
proof -
  have "j = (if p j then f j else j)" using assms(2) by simp
  then show ?thesis using assms(1) unfolding jobs_of_update set_sql_update by blast
qed

lemma distinct_jobs: "job_history db \<Longrightarrow> distinct (md_jobs db)"
  by (simp add: job_history_def keys_distinct_def distinct_map)

lemma distinct_ids: "job_history db \<Longrightarrow> j \<in> set (md_jobs db) \<Longrightarrow> k \<in> set (md_jobs db) \<Longrightarrow> cj_id j = cj_id k \<Longrightarrow> j = k"
  by (auto simp: job_history_def keys_distinct_def distinct_map inj_on_def)

lemma claim_history:
  assumes h: "job_history db"
  shows "job_history (snd (claim_jobs now owner n lease db))"
proof -
  define failed where "failed = filter (\<lambda>j. cj_status j = ''failed'') (md_jobs db)"
  define db1 where "db1 = fold (bury_failed now) failed db"
  define sel where "sel = sql_limit (max 1 n) (sql_asc cj_updated_at (filter (claimable_job now) (md_jobs db1)))"
  have 1: "job_history db1"
    unfolding db1_def
  proof (rule fold_history [where Q = "\<lambda>j (d :: MemDb). j \<in> set (md_jobs d) \<and> cj_status j = ''failed''"])
    fix x and d :: MemDb assume x: "x \<in> set failed" and d: "job_history d" "x \<in> set (md_jobs d) \<and> cj_status x = ''failed''"
    let ?f = "\<lambda>r. r\<lparr>cj_status := ''dead_letter'', cj_owner := [], cj_lease_expires_at := 0, cj_updated_at := now\<rparr>"
    have "job_history (record_job_event (cj_id x) ''legacy_failed_normalized'' (cj_status x) (cj_status (?f x))
        ''legacy_status_normalization'' (cj_error x) now
        (update_job (\<lambda>r. cj_id r = cj_id x \<and> cj_status r = ''failed'') ?f d))"
      by (rule history_change) (use d in auto)
    then show "job_history (bury_failed now x d)" using d by (simp add: bury_failed_def)
  next
    fix x y and d :: MemDb assume xy: "x \<in> set failed" "y \<in> set failed" "x \<noteq> y" and y: "y \<in> set (md_jobs d) \<and> cj_status y = ''failed''"
    have "cj_id y \<noteq> cj_id x" using distinct_ids [OF h] xy by (auto simp: failed_def)
    then show "y \<in> set (md_jobs (bury_failed now x d)) \<and> cj_status y = ''failed''"
      using y unfolding bury_failed_def jobs_of_record by (intro conjI update_other_row) auto
  qed (use h distinct_jobs [OF h] in \<open>auto simp: failed_def\<close>)
  have dsel: "distinct sel" using distinct_jobs [OF 1] by (simp add: sel_def sql_limit_def)
  have inj: "x = y" if "x \<in> set sel" "y \<in> set sel" "cj_id x = cj_id y" for x y
    using distinct_ids [OF 1 _ _ that(3)] that(1,2) by (auto simp: sel_def dest!: subsetD [OF set_sql_limit])
  have "job_history (fold (claim_one now owner lease) sel db1)"
  proof (rule fold_history [where Q = "\<lambda>j (d :: MemDb). j \<in> set (md_jobs d)"])
    fix x and d :: MemDb assume x: "x \<in> set sel" and d: "job_history d" "x \<in> set (md_jobs d)"
    let ?f = "\<lambda>r. r\<lparr>cj_status := ''active'', cj_owner := owner, cj_lease_expires_at := now + lease,
                cj_attempts := Suc (cj_attempts r), cj_error := [], cj_updated_at := now\<rparr>"
    have "job_history (record_job_event (cj_id x) ''claimed'' (cj_status x) (cj_status (?f x))
        (if cj_status x = ''active'' then ''lease_reclaimed'' else ''worker_claim'') [] now
        (update_job (\<lambda>r. cj_id r = cj_id x) ?f d))"
      by (rule history_change) (use d in auto)
    then show "job_history (claim_one now owner lease x d)" by (simp add: claim_one_def)
  next
    fix x y and d :: MemDb assume xy: "x \<in> set sel" "y \<in> set sel" "x \<noteq> y" and y: "y \<in> set (md_jobs d)"
    have "cj_id y \<noteq> cj_id x" using inj xy by auto
    then show "y \<in> set (md_jobs (claim_one now owner lease x d))"
      using y unfolding claim_one_def jobs_of_record by (intro update_other_row) auto
  qed (use 1 dsel in \<open>auto simp: sel_def dest!: subsetD [OF set_sql_limit]\<close>)
  then show ?thesis by (simp add: claim_jobs_def db1_def failed_def sel_def Let_def)
qed

lemma retry_one_history: "job_history db \<Longrightarrow> job_history (retry_one now why i db)"
proof -
  assume h: "job_history db"
  show ?thesis
  proof (cases "\<exists>j. row_of cj_id i (md_jobs db) = Some j \<and> cj_status j = ''dead_letter''")
    case True
    then obtain j where j: "row_of cj_id i (md_jobs db) = Some j" "cj_status j = ''dead_letter''" by blast
    then have ji: "j \<in> set (md_jobs db)" "cj_id j = i" by (auto dest: row_of_Some)
    let ?f = "\<lambda>r. r\<lparr>cj_status := ''pending'', cj_owner := [], cj_lease_expires_at := 0, cj_error := [], cj_updated_at := now\<rparr>"
    have "job_history (record_job_event (cj_id j) ''retry_requested'' (cj_status j) (cj_status (?f j)) why (cj_error j) now
        (update_job (\<lambda>r. cj_id r = i \<and> cj_status r = ''dead_letter'') ?f db))"
      by (rule history_change [OF h]) (use j ji in auto)
    then show ?thesis using j ji by (simp add: retry_one_def)
  next
    case False
    then show ?thesis using h by (auto simp: retry_one_def split: option.split)
  qed
qed

lemma finish_history:
  assumes "job_history db" "cj_status k = ''active''" "cj_owner k \<noteq> []"
  shows "job_history (finish_consolidation_job now k st err db)"
proof (cases "\<exists>j\<in>set (md_jobs db). cj_id j = cj_id k \<and> cj_owner j = cj_owner k")
  case True
  then obtain j where j: "j \<in> set (md_jobs db)" "cj_id j = cj_id k" "cj_owner j = cj_owner k" by blast
  have "cj_status j = ''active''" using assms(1,3) j by (auto simp: job_history_def)
  let ?f = "\<lambda>r. r\<lparr>cj_status := st, cj_owner := [], cj_lease_expires_at := 0, cj_error := err, cj_updated_at := now\<rparr>"
  have "job_history (record_job_event (cj_id j) st (cj_status j) (cj_status (?f j)) ''worker_result'' err now
      (update_job (\<lambda>r. cj_id r = cj_id k \<and> cj_owner r = cj_owner k) ?f db))"
    by (rule history_change [OF assms(1)]) (use j in auto)
  moreover have "sql_count (\<lambda>r. cj_id r = cj_id k \<and> cj_owner r = cj_owner k) (md_jobs db) \<noteq> 0"
    using j by (auto simp: sql_count_0_iff)
  ultimately show ?thesis using \<open>cj_status j = ''active''\<close> assms(2) j(2) by (simp add: finish_consolidation_job_def)
next
  case False
  then have "sql_count (\<lambda>r. cj_id r = cj_id k \<and> cj_owner r = cj_owner k) (md_jobs db) = 0" by (auto simp: sql_count_0_iff)
  then show ?thesis using assms(1) by (simp add: finish_consolidation_job_def)
qed

lemma orderly_history:
  assumes "job_history db" "orderly op db"
  shows "job_history (run_job_op op db)"
proof (cases op)
  case (EnqueueRepair now uuid item)
  have "job_history (insert_job (pending_job uuid sid rid ''reflective_repair'' [] [] now) db)" for sid rid
    by (rule history_insert [OF assms(1), of "pending_job uuid sid rid ''reflective_repair'' [] [] now"])
      (use assms(2) EnqueueRepair in \<open>auto simp: pending_job_def fresh_job_def\<close>)
  then show ?thesis using EnqueueRepair assms(1)
    by (simp add: enqueue_reflective_repair_def Let_def split: option.split)
next
  case (RetryJobs now ids why)
  have "job_history (fold (retry_one now w) xs d)" if "job_history d" for w xs d
    using that by (induction xs arbitrary: d) (auto intro: retry_one_history)
  then show ?thesis using RetryJobs assms(1) by (simp add: retry_consolidation_jobs_def Let_def)
next
  case (ClaimJobs now owner n lease)
  obtain v db1 where v: "memory_parameter now ''consolidation_lease_seconds'' 300 db = (v, db1)" by fastforce
  have "job_history db1" using assms(1) parameters_keep_jobs [OF v] history_same by blast
  then show ?thesis using ClaimJobs v claim_history assms(1) by (simp add: claim_consolidation_jobs_def)
qed (use assms enqueue_history episodes_history finish_history in \<open>auto simp: enqueue_consolidation_def enqueue_case_job_def
      enqueue_unconsolidated_episodes_def\<close>)

inductive job_run :: "MemDb \<Rightarrow> MemDb \<Rightarrow> bool" where
  job_run_start: "job_run db db"
| job_run_step: "job_run db db1 \<Longrightarrow> orderly op db1 \<Longrightarrow> job_run db (run_job_op op db1)"

text \<open>
  C36. The history of a job. From an empty queue, after any orderly use of it short of pruning, every job
  has a way: its events, in the order they were written, lead without a gap from its first status to the
  status its row has. The way starts with nothing, or with \<open>pending\<close> for a job whose insertion writes no
  event, as that of \<open>enqueue_reflective_repair\<close>.
\<close>

theorem job_events_lead_to_its_status:
  assumes "job_run db0 db" "md_jobs db0 = []" "md_events db0 = []" "j \<in> set (md_jobs db)"
  shows "\<exists>a\<in>{[], ''pending''}. job_path a (filter (\<lambda>e. ce_job_id e = cj_id j) (md_events db)) (cj_status j)"
proof -
  have "job_history db0" using assms(2,3) by (simp add: job_history_def)
  with assms(1) have "job_history db" by (induction rule: job_run.induct) (auto intro: orderly_history)
  then show ?thesis using assms(4) unfolding job_history_def events_of_def by blast
qed

section \<open>Once per goal\<close>

text \<open>
  A case per goal. While the row of its job is there, enqueuing the case of a goal again answers the
  job there is and changes nothing, whatever its status. Pruning deletes the row of a completed job with
  the history it is meant to trim, so afterwards the same call starts the work again: exactly once per goal
  holds for the retention time only.
\<close>

theorem pruned_case_is_done_again:
  assumes "job_for (''case_precipitation:'' @ goal) (''case:'' @ goal) db = Some j"
    "\<And>k. k \<in> set (md_jobs db) \<Longrightarrow> cj_session_id k = cj_session_id j \<Longrightarrow> cj_run_id k = cj_run_id j \<Longrightarrow> k = j"
    "cj_status j = ''completed''" "cj_updated_at j < now - keep"
  shows "enqueue_case_job now uuid goal peer sender db = (cj_id j, db) \<and>
    (\<exists>k\<in>set (md_jobs (snd (enqueue_case_job now uuid goal peer sender
        (snd (prune_consolidation_history now (Some keep) db))))). cj_id k = uuid \<and> cj_status k = ''pending'' \<and>
        cj_session_id k = cj_session_id j \<and> cj_run_id k = cj_run_id j)"
proof
  show "enqueue_case_job now uuid goal peer sender db = (cj_id j, db)"
    using assms(1) by (simp add: enqueue_case_job_def enqueue_job_def)
  obtain v db1 where v: "memory_parameter now ''consolidation_history_retention_seconds'' (30 * 86400) db = (v, db1)" by fastforce
  have jobs: "md_jobs db1 = md_jobs db" using parameters_keep_jobs [OF v] by simp
  define db2 where "db2 = snd (prune_consolidation_history now (Some keep) db)"
  have kept: "md_jobs db2 = sql_delete (\<lambda>j. cj_status j = ''completed'' \<and> cj_updated_at j < now - keep) (md_jobs db)"
    using v jobs by (simp add: db2_def prune_consolidation_history_def Let_def)
  have key: "cj_session_id j = ''case_precipitation:'' @ goal" "cj_run_id j = ''case:'' @ goal"
    using assms(1) by (auto simp: job_for_def dest: sql_one_Some)
  have "job_for (''case_precipitation:'' @ goal) (''case:'' @ goal) db2 = None"
    unfolding job_for_def sql_one_None kept
  proof
    fix k assume k: "k \<in> set (sql_delete (\<lambda>j. cj_status j = ''completed'' \<and> cj_updated_at j < now - keep) (md_jobs db))"
    show "\<not> (cj_session_id k = ''case_precipitation:'' @ goal \<and> cj_run_id k = ''case:'' @ goal)"
      using assms(2) [of k] k assms(3,4) key by (auto simp: sql_delete_def)
  qed
  then show "\<exists>k\<in>set (md_jobs (snd (enqueue_case_job now uuid goal peer sender
        (snd (prune_consolidation_history now (Some keep) db))))). cj_id k = uuid \<and> cj_status k = ''pending'' \<and>
        cj_session_id k = cj_session_id j \<and> cj_run_id k = cj_run_id j"
    unfolding db2_def [symmetric] using key
    by (simp add: enqueue_case_job_def enqueue_job_def pending_job_def)
qed

section \<open>Witnesses\<close>

definition sample_job :: "string \<Rightarrow> string \<Rightarrow> string \<Rightarrow> time \<Rightarrow> ConsolidationJob" where
  "sample_job i st owner lease =
     \<lparr>cj_id = i, cj_session_id = ''case_precipitation:g1'', cj_run_id = ''case:g1'', cj_source = ''goal_convergence'',
      cj_peer_id = [], cj_sender_id = [], cj_status = st, cj_owner = owner, cj_lease_expires_at = lease, cj_attempts = 1,
      cj_error = [], cj_created_at = 1, cj_updated_at = 1\<rparr>"

definition sample_queue :: "ConsolidationJob list \<Rightarrow> MemDb" where
  "sample_queue jobs =
     \<lparr>md_items = [], md_messages = [], md_fts = [], md_aliases = [], md_jobs = jobs, md_events = [], md_event_seq = 0,
      md_params = [], md_cache = [], md_ready = True, md_loaded_at = 0, md_queries = []\<rparr>"

theorem live_job_stays_with_its_owner_witness:
  "row_of cj_id ''j1'' (md_jobs (fold run_job_op [ClaimJobs 50 ''w2'' 10 60, FinishJob 51 (sample_job ''j1'' ''active'' ''w0'' 40) ''completed'' []]
     (sample_queue [sample_job ''j1'' ''active'' ''w1'' 90]))) = Some (sample_job ''j1'' ''active'' ''w1'' 90)"
  using live_job_stays_with_its_owner [of "sample_queue [sample_job ''j1'' ''active'' ''w1'' 90]" "sample_job ''j1'' ''active'' ''w1'' 90"
      "[ClaimJobs 50 ''w2'' 10 60, FinishJob 51 (sample_job ''j1'' ''active'' ''w0'' 40) ''completed'' []]"]
  by (simp add: keys_distinct_def sample_queue_def sample_job_def)

theorem job_events_lead_to_its_status_witness:
  "\<exists>j\<in>set (md_jobs (run_job_op (ClaimJobs 5 ''w1'' 1 60) (run_job_op (EnqueueCase 1 ''j1'' ''g1'' [] []) (sample_queue [])))).
     \<exists>a\<in>{[], ''pending''}. job_path a (filter (\<lambda>e. ce_job_id e = cj_id j)
       (md_events (run_job_op (ClaimJobs 5 ''w1'' 1 60) (run_job_op (EnqueueCase 1 ''j1'' ''g1'' [] []) (sample_queue []))))) (cj_status j)"
proof -
  let ?q = "sample_queue []"
  let ?q2 = "run_job_op (ClaimJobs 5 ''w1'' 1 60) (run_job_op (EnqueueCase 1 ''j1'' ''g1'' [] []) ?q)"
  have run: "job_run ?q ?q2"
    by (intro job_run.intros) (simp_all add: fresh_job_def sample_queue_def)
  have "md_jobs ?q2 \<noteq> []" by code_simp
  then have j: "hd (md_jobs ?q2) \<in> set (md_jobs ?q2)" by simp
  have "\<exists>a\<in>{[], ''pending''}. job_path a (filter (\<lambda>e. ce_job_id e = cj_id (hd (md_jobs ?q2))) (md_events ?q2)) (cj_status (hd (md_jobs ?q2)))"
    by (rule job_events_lead_to_its_status [OF run _ _ j]) (simp_all add: sample_queue_def)
  then show ?thesis using j by blast
qed

theorem pruned_case_is_done_again_witness:
  "enqueue_case_job 500 ''j2'' ''g1'' [] [] (sample_queue [sample_job ''j1'' ''completed'' [] 0]) =
     (''j1'', sample_queue [sample_job ''j1'' ''completed'' [] 0])"
proof -
  have "job_for (''case_precipitation:'' @ ''g1'') (''case:'' @ ''g1'') (sample_queue [sample_job ''j1'' ''completed'' [] 0]) =
      Some (sample_job ''j1'' ''completed'' [] 0)"
    by (simp add: job_for_def sample_queue_def sample_job_def sql_one_def)
  from pruned_case_is_done_again [OF this, of 500 100 "''j2''" "[]" "[]"] show ?thesis
    by (simp add: sample_queue_def sample_job_def)
qed

end
