(* ===== verification/Memory_Learning.thy ===== *)
theory Memory_Learning
  imports Memory_Lifecycle Memory_Job_Safety Goal_Store
begin

text \<open>
  What a worker does with a consolidation job (\<open>navi/memory/store.py\<close>): learnings, cases, repairs and
  contradictions. What the model answers, once its text is read as JSON, is an argument that may be an
  error, and so is \<open>scope_of\<close>, the scope of an actor (source, peer, sender, session). The ledger keeps the
  item its text denotes. A confidence that names no finite number counts as none.
\<close>

section \<open>Learnings\<close>

datatype ledger_text = NoText | ItemText MemoryItem | PlainText string

record LedgerEntry =
  le_run_id :: string
  le_target_id :: string
  le_reason :: string
  le_before :: ledger_text
  le_after :: ledger_text

record Learning =
  lg_db :: MemDb
  lg_ledger :: "LedgerEntry list"
  lg_known :: "(string \<times> string) list"
  lg_affected :: "MemoryItem list"
  lg_count :: nat

definition on_db :: "('a, MemDb) call \<Rightarrow> ('a, Learning) call" where
  "on_db c = call_on lg_db (\<lambda>d s. s\<lparr>lg_db := d\<rparr>) c"

record LearnContext =
  lc_files :: "hook_file list"
  lc_now :: time
  lc_uuid :: "nat \<Rightarrow> string"
  lc_source :: string
  lc_provenance :: string
  lc_run_id :: string
  lc_default_reason :: string
  lc_scope :: string
  lc_visible :: "string list"

definition stripped_text :: "dict \<Rightarrow> string \<Rightarrow> string" where
  "stripped_text l k = py_strip (py_str (meta_get l k (JStr [])))"

definition learning_key :: "dict \<Rightarrow> string \<times> string" where
  "learning_key l = (py_lower (stripped_text l ''type''), py_lower (stripped_text l ''content''))"

definition learning_confidence :: "dict \<Rightarrow> rat \<Rightarrow> rat" where
  "learning_confidence l other =
     (case py_float (meta_get l ''confidence'' (JFloat other)) of Some (Finite q) \<Rightarrow> q | _ \<Rightarrow> other)"

definition learning_draft :: "LearnContext \<Rightarrow> dict \<Rightarrow> rat \<Rightarrow> MemoryItem" where
  "learning_draft c l confidence =
     (let against = filter (\<lambda>i. i \<in> set (lc_visible c)) (map py_str (as_list (meta_get l ''contradicts'' (JList []))))
      in \<lparr>mi_id = [], mi_type = fst (learning_key l), mi_status = ''proposed'', mi_scope = lc_scope c,
          mi_content = stripped_text l ''content'', mi_source = lc_source c, mi_confidence = confidence, mi_created_at = 0,
          mi_updated_at = 0, mi_last_verified_at = 0, mi_expires_at = 0,
          mi_metadata = (if against \<noteq> [] then [(''contradicts'', JList (map JStr against))] else []),
          mi_reason = py_str (or_value (jget l ''reason'') (JStr (lc_default_reason c))),
          mi_provenance = lc_provenance c, mi_summary = []\<rparr>)"

definition learned :: "LearnContext \<Rightarrow> string \<times> string \<Rightarrow> MemoryItem \<Rightarrow> Learning \<Rightarrow> Learning" where
  "learned c key it s = s\<lparr>lg_known := key # lg_known s, lg_affected := lg_affected s @ [it], lg_count := Suc (lg_count s),
     lg_ledger := lg_ledger s @ [\<lparr>le_run_id = lc_run_id c, le_target_id = mi_id it, le_reason = ''memory_learning_added'',
       le_before = NoText, le_after = ItemText it\<rparr>]\<rparr>"

definition add_learning :: "LearnContext \<Rightarrow> dict \<Rightarrow> (unit, Learning) call" where
  "add_learning c l s =
     (if stripped_text l ''content'' = [] \<or> fst (learning_key l) \<notin> set learnable_memory_types \<or> learning_key l \<in> set (lg_known s)
      then (Inr (), s)
      else let (dc, db1) = memory_parameter (lc_now c) ''consolidation_default_confidence'' (7 / 10) (lg_db s);
               confidence = learning_confidence l dc;
               ema = round_places 4 (19 / 20 * dc + 1 / 20 * confidence);
               db2 = set_memory_parameter (lc_now c) ''consolidation_default_confidence'' ema ''consolidation_model_ema'' [] db1
        in then_call (on_db (add_item (lc_files c) (lc_now c) (lc_uuid c (lg_count s)) (learning_draft c l confidence)))
             (\<lambda>it. write_to (learned c (learning_key l) it)) (s\<lparr>lg_db := db2\<rparr>))"

definition may_revoke :: "LearnContext \<Rightarrow> string \<Rightarrow> MemDb \<Rightarrow> MemoryItem option" where
  "may_revoke c i db =
     (if i = [] \<or> i \<notin> set (lc_visible c) then None
      else case get_memory_item i db of
        Some it \<Rightarrow> if mi_scope it = lc_scope c \<and> mi_status it \<in> set recallable_statuses then Some it else None
      | None \<Rightarrow> None)"

definition revoke_learning :: "LearnContext \<Rightarrow> dict \<Rightarrow> (unit, Learning) call" where
  "revoke_learning c l s =
     (case may_revoke c (stripped_text l ''id'') (lg_db s) of
        None \<Rightarrow> (Inr (), s)
      | Some old \<Rightarrow>
          then_call (on_db (set_status (lc_files c) (lc_now c) (stripped_text l ''id'') ''revoked'')) (\<lambda>u.
          then_call (write_to (\<lambda>s. s\<lparr>lg_affected := lg_affected s @ (case u of None \<Rightarrow> [] | Some it \<Rightarrow> [it]),
            lg_ledger := lg_ledger s @ [\<lparr>le_run_id = lc_run_id c, le_target_id = stripped_text l ''id'',
              le_reason = py_str (or_value (jget l ''reason'') (JStr ''memory_learning_revoked'')),
              le_before = ItemText old, le_after = PlainText ''revoked''\<rparr>]\<rparr>)) (\<lambda>_ s.
          let (d, db1) = memory_parameter (lc_now c) ''decay_base_delta'' (1 / 20) (lg_db s)
          in (Inr (), s\<lparr>lg_db := set_memory_parameter (lc_now c) ''decay_base_delta''
               (round_places 4 (min (1 / 5) (d + 1 / 200))) ''learning_revocation_dynamic_tuning'' [] db1\<rparr>))) s)"

definition apply_learning :: "LearnContext \<Rightarrow> json \<Rightarrow> (unit, Learning) call" where
  "apply_learning c v =
     (case v of
        JDict l \<Rightarrow> (let action = py_lower (stripped_text l ''action'')
          in if action = ''add'' then add_learning c l else if action = ''revoke'' then revoke_learning c l else answer ())
      | _ \<Rightarrow> answer ())"

definition known_keys :: "string \<Rightarrow> MemDb \<Rightarrow> (string \<times> string) list" where
  "known_keys scope db =
     map (\<lambda>it. (mi_type it, py_lower (py_strip (mi_content it))))
       (filter (\<lambda>it. mi_scope it = scope \<and> mi_status it \<in> set recallable_statuses) (list_memory_items [] [] None 1000 db))"

definition apply_learnings :: "LearnContext \<Rightarrow> json list \<Rightarrow> (MemoryItem list, Learning) call" where
  "apply_learnings c learnings =
     then_call (write_to (\<lambda>s. s\<lparr>lg_known := known_keys (lc_scope c) (lg_db s), lg_affected := []\<rparr>)) (\<lambda>_.
     then_call (for_each (apply_learning c) learnings) (\<lambda>_. look_up lg_affected))"

section \<open>Jobs\<close>

definition active_learnable_items :: "MemDb \<Rightarrow> MemoryItem list" where
  "active_learnable_items db =
     filter (\<lambda>it. mi_type it \<in> set learnable_memory_types \<and> mi_status it \<in> set recallable_statuses)
       (list_memory_items [] [] None (active_memory_context_limit * int (length learnable_memory_types)) db)"

record Worker =
  wr_files :: "hook_file list"
  wr_now :: time
  wr_uuid :: "nat \<Rightarrow> string"
  wr_scope_of :: "string \<Rightarrow> string \<Rightarrow> string \<Rightarrow> string \<Rightarrow> string"
  wr_consolidator :: "StoredMessage list \<Rightarrow> MemoryItem list \<Rightarrow> json result"
  wr_case_writer :: "Goal \<Rightarrow> dict result"

definition finish_job :: "Worker \<Rightarrow> ConsolidationJob \<Rightarrow> string \<Rightarrow> string \<Rightarrow> (unit, Learning) call" where
  "finish_job w job status error = on_db (write_to (finish_consolidation_job (wr_now w) job status error))"

definition run_consolidation :: "Worker \<Rightarrow> ConsolidationJob \<Rightarrow> StoredMessage list \<Rightarrow> (MemoryItem list, Learning) call" where
  "run_consolidation w job messages s =
     (let scope = wr_scope_of w (cj_source job) (cj_peer_id job) (cj_sender_id job) (cj_session_id job);
          active = filter (\<lambda>it. mi_scope it = scope) (active_learnable_items (lg_db s));
          c = \<lparr>lc_files = wr_files w, lc_now = wr_now w, lc_uuid = wr_uuid w,
            lc_source = or_else (cj_source job) ''conversation'',
            lc_provenance = ''memory-job:'' @ cj_id job @ '':run:'' @ cj_run_id job, lc_run_id = cj_run_id job,
            lc_default_reason = ''conversation consolidation'', lc_scope = scope, lc_visible = map mi_id active\<rparr>;
          work = then_call (checked (wr_consolidator w messages active)) (\<lambda>data.
            apply_learnings c (case data of JDict d \<Rightarrow> as_list (jget d ''learnings'') | _ \<Rightarrow> []))
      in then_call (on_error work (\<lambda>e. finish_job w job ''dead_letter'' (py_error_name e @ '': '' @ py_error_message e)))
           (\<lambda>affected. then_call (finish_job w job ''completed'' []) (\<lambda>_. answer affected)) s)"

text \<open>\<open>s.split(":", 1)[-1]\<close>.\<close>

definition after_colon :: "string \<Rightarrow> string" where
  "after_colon s = (if CHR '':'' \<in> set s then tl (dropWhile (\<lambda>c. c \<noteq> CHR '':'') s) else s)"

definition case_draft :: "Worker \<Rightarrow> ConsolidationJob \<Rightarrow> Goal \<Rightarrow> dict \<Rightarrow> MemoryItem result" where
  "case_draft w job goal parsed =
     and_then (float_value (or_value (jget parsed ''confidence'') (JFloat (3 / 5)))) (\<lambda>confidence.
     Inr \<lparr>mi_id = [], mi_type = ''case'', mi_status = ''proposed'',
       mi_scope = wr_scope_of w (cj_source job) (cj_peer_id job) (cj_sender_id job) [],
       mi_content = py_strip (str_or_empty (jget parsed ''content'')), mi_source = cj_source job,
       mi_confidence = confidence, mi_created_at = 0, mi_updated_at = 0, mi_last_verified_at = 0, mi_expires_at = 0,
       mi_metadata = [], mi_reason = py_str (or_value (jget parsed ''reason'') (JStr ''goal converged'')),
       mi_provenance = ''case-job:'' @ cj_id job @ '':goal:'' @ g_id goal, mi_summary = []\<rparr>)"

definition run_case_precipitation :: "Worker \<Rightarrow> GoalDb \<Rightarrow> ConsolidationJob \<Rightarrow> (MemoryItem list, Learning) call" where
  "run_case_precipitation w goals job =
     (case get_goal (after_colon (cj_session_id job)) goals of
        None \<Rightarrow> then_call (finish_job w job ''completed'' []) (\<lambda>_. answer [])
      | Some goal \<Rightarrow>
          then_call (checked (wr_case_writer w goal)) (\<lambda>parsed.
            if py_strip (str_or_empty (jget parsed ''content'')) = []
            then then_call (finish_job w job ''completed'' []) (\<lambda>_. answer [])
            else then_call (checked (case_draft w job goal parsed)) (\<lambda>draft.
              then_call (\<lambda>s. on_db (add_item (wr_files w) (wr_now w) (wr_uuid w (lg_count s)) draft) s) (\<lambda>it.
              then_call (write_to (\<lambda>s. s\<lparr>lg_count := Suc (lg_count s), lg_ledger := lg_ledger s @
                [\<lparr>le_run_id = cj_run_id job, le_target_id = mi_id it, le_reason = ''memory_case_precipitated'',
                  le_before = NoText, le_after = ItemText it\<rparr>]\<rparr>)) (\<lambda>_.
              then_call (finish_job w job ''completed'' []) (\<lambda>_. answer [it]))))))"

definition consolidate_job :: "Worker \<Rightarrow> GoalDb \<Rightarrow> ConsolidationJob \<Rightarrow> (MemoryItem list, Learning) call" where
  "consolidate_job w goals job s =
     (if cj_source job = ''goal_convergence'' then run_case_precipitation w goals job s
      else let of_run = get_messages_for_run (cj_session_id job) (cj_run_id job) 50 (lg_db s);
               messages = (if of_run \<noteq> [] then of_run else get_messages (cj_session_id job) 50 (lg_db s))
        in if messages = [] then then_call (finish_job w job ''completed'' []) (\<lambda>_. answer []) s
           else run_consolidation w job messages s)"

section \<open>Repairs\<close>

definition repair_draft :: "MemoryItem \<Rightarrow> string \<Rightarrow> string \<Rightarrow> rat \<Rightarrow> MemoryItem" where
  "repair_draft it content why confidence =
     it\<lparr>mi_content := content, mi_confidence := confidence, mi_status := ''proposed'', mi_source := ''reflective_repair'',
       mi_provenance := ''reflective_repair:'' @ mi_id it, mi_reason := ''reflective_repair: '' @ why,
       mi_metadata := [(''repaired_from'', JStr (mi_id it)), (''correction_reason'', JStr why),
         (''original_content'', JStr (take 500 (mi_content it)))],
       mi_last_verified_at := 0, mi_expires_at := 0, mi_summary := []\<rparr>"

definition repair_stale_item :: "hook_file list \<Rightarrow> time \<Rightarrow> string \<Rightarrow> json result \<Rightarrow> MemoryItem \<Rightarrow> (MemoryItem option, MemDb) call" where
  "repair_stale_item files now uuid response it =
     none_on_error (then_call (checked response) (\<lambda>data.
       case data of
         JDict d \<Rightarrow>
           (if \<not> py_truthy (meta_get d ''should_repair'' (JBool False)) then answer None
            else if stripped_text d ''corrected_content'' = [] then answer None
            else then_call (checked (float_value (meta_get d ''confidence'' (JFloat (3 / 5))))) (\<lambda>q.
              then_call (set_status files now (mi_id it) ''revoked'') (\<lambda>_.
              then_call (add_item files now uuid (repair_draft it (stripped_text d ''corrected_content'')
                  (py_str (meta_get d ''correction_reason'' (JStr ''reflective_repair'')))
                  (round_places 4 (max (1 / 10) (min 1 q))))) (\<lambda>new. answer (Some new)))))
       | _ \<Rightarrow> answer None))"

section \<open>Repairs never run\<close>

text \<open>
  A job that \<open>enqueue_reflective_repair\<close> made does nothing. The worker knows no repairs: it looks for
  the messages of the job's made-up session, finds none, and finishes the job as completed, so every item
  and the ledger are as they were and the stale memory is never repaired.
\<close>

theorem reflective_repair_never_runs:
  assumes "job_for (''reflective_repair:'' @ i) rid (snd (enqueue_reflective_repair now uuid i db)) = Some j"
    "cj_source job = ''reflective_repair''" "cj_session_id job = cj_session_id j"
    "\<And>m. m \<in> set (md_messages (lg_db s)) \<Longrightarrow> sm_session_id m \<noteq> ''reflective_repair:'' @ i"
  shows "\<exists>s'. consolidate_job w goals job s = (Inr [], s') \<and> md_items (lg_db s') = md_items (lg_db s) \<and>
    lg_ledger s' = lg_ledger s \<and>
    (cj_id job \<in> cj_id ` set (filter (\<lambda>r. cj_owner r = cj_owner job) (md_jobs (lg_db s))) \<longrightarrow>
      (\<exists>r\<in>set (md_jobs (lg_db s')). cj_id r = cj_id job \<and> cj_status r = ''completed''))"
proof -
  have sid: "cj_session_id job = ''reflective_repair:'' @ i"
    using assms(1,3) by (auto simp: job_for_def dest: sql_one_Some)
  have "filter (\<lambda>m. sm_session_id m = cj_session_id job \<and> sm_run_id m = cj_run_id job) (md_messages (lg_db s)) = []"
    "filter (\<lambda>m. sm_session_id m = cj_session_id job) (md_messages (lg_db s)) = []"
    using assms(4) sid by (auto simp: filter_empty_conv)
  then have none: "get_messages_for_run (cj_session_id job) (cj_run_id job) 50 (lg_db s) = []"
    "get_messages (cj_session_id job) 50 (lg_db s) = []"
    by (simp_all add: get_messages_for_run_def get_messages_def newest_def sql_limit_def)
  define db' where "db' = finish_consolidation_job (wr_now w) job ''completed'' [] (lg_db s)"
  have run: "consolidate_job w goals job s = (Inr [], s\<lparr>lg_db := db'\<rparr>)"
    using assms(2) none
    by (simp add: consolidate_job_def finish_job_def on_db_def call_on_def then_call_def calls db'_def)
  have items: "md_items db' = md_items (lg_db s)"
    by (simp add: db'_def finish_consolidation_job_def record_job_event_def update_job_def)
  have "\<exists>r\<in>set (md_jobs db'). cj_id r = cj_id job \<and> cj_status r = ''completed''"
    if own: "cj_id job \<in> cj_id ` set (filter (\<lambda>r. cj_owner r = cj_owner job) (md_jobs (lg_db s)))"
  proof -
    obtain r where r: "r \<in> set (md_jobs (lg_db s))" "cj_id r = cj_id job" "cj_owner r = cj_owner job" using own by auto
    then have "sql_count (\<lambda>r. cj_id r = cj_id job \<and> cj_owner r = cj_owner job) (md_jobs (lg_db s)) \<noteq> 0"
      by (auto simp: sql_count_0_iff)
    then have "md_jobs db' = sql_update (\<lambda>r. cj_id r = cj_id job \<and> cj_owner r = cj_owner job)
        (\<lambda>r. r\<lparr>cj_status := ''completed'', cj_owner := [], cj_lease_expires_at := 0, cj_error := [],
          cj_updated_at := wr_now w\<rparr>) (md_jobs (lg_db s))"
      by (simp add: db'_def finish_consolidation_job_def record_job_event_def update_job_def)
    then have "r\<lparr>cj_status := ''completed'', cj_owner := [], cj_lease_expires_at := 0, cj_error := [],
        cj_updated_at := wr_now w\<rparr> \<in> set (md_jobs db')"
      using r by (auto simp: set_sql_update)
    then show ?thesis using r(2) by (intro bexI) auto
  qed
  then show ?thesis using run items by (intro exI [of _ "s\<lparr>lg_db := db'\<rparr>"]) simp
qed


section \<open>Learnings stay in their scope\<close>

text \<open>What may become of the items: nothing, or a visible item of the scope is revoked.\<close>

definition revoked_at :: "time \<Rightarrow> MemoryItem \<Rightarrow> MemoryItem" where
  "revoked_at now it = it\<lparr>mi_status := ''revoked'', mi_updated_at := now\<rparr>"

definition learns :: "LearnContext \<Rightarrow> MemDb \<Rightarrow> MemDb \<Rightarrow> bool" where
  "learns c db db' = (\<forall>i a. get_memory_item i db = Some a \<longrightarrow>
     get_memory_item i db' = Some a \<or>
     (i \<in> set (lc_visible c) \<and> mi_scope a = lc_scope c \<and> get_memory_item i db' = Some (revoked_at (lc_now c) a)))"

lemma learns_same: "md_items db' = md_items db \<Longrightarrow> learns c db db'"
  by (simp add: learns_def get_memory_item_def)

lemma learns_trans: "learns c a b \<Longrightarrow> learns c b d \<Longrightarrow> learns c a d"
  by (fastforce simp: learns_def revoked_at_def)

lemma learns_then_same: "learns c a b \<Longrightarrow> md_items d = md_items b \<Longrightarrow> learns c a d"
  by (simp add: learns_def get_memory_item_def)

lemma same_then_learns: "md_items b = md_items a \<Longrightarrow> learns c b d \<Longrightarrow> learns c a d"
  by (simp add: learns_def get_memory_item_def)

text \<open>The names a run draws are not those of the items there are, nor one name twice.\<close>

definition names_left :: "LearnContext \<Rightarrow> Learning \<Rightarrow> bool" where
  "names_left c s = (\<forall>n\<ge>lg_count s. get_memory_item (lc_uuid c n) (lg_db s) = None)"

lemma add_learning_learns:
  assumes "add_learning c l s = (r, s')" "names_left c s" "inj (lc_uuid c)"
  shows "learns c (lg_db s) (lg_db s') \<and> (r = Inr () \<longrightarrow> names_left c s')"
proof (cases "stripped_text l ''content'' = [] \<or> fst (learning_key l) \<notin> set learnable_memory_types \<or> learning_key l \<in> set (lg_known s)")
  case True
  then show ?thesis using assms(1,2) by (auto simp: add_learning_def learns_same)
next
  case False
  obtain dc db1 where dc: "memory_parameter (lc_now c) ''consolidation_default_confidence'' (7 / 10) (lg_db s) = (dc, db1)" by fastforce
  define db2 where "db2 = set_memory_parameter (lc_now c) ''consolidation_default_confidence''
    (round_places 4 (19 / 20 * dc + 1 / 20 * learning_confidence l dc)) ''consolidation_model_ema'' [] db1"
  have same: "md_items db2 = md_items (lg_db s)" using items_of_memory_parameter [OF dc] by (simp add: db2_def)
  define u where "u = lc_uuid c (lg_count s)"
  obtain q db3 where q: "add_item (lc_files c) (lc_now c) u (learning_draft c l (learning_confidence l dc)) db2 = (q, db3)"
    by fastforce
  have other: "get_memory_item k db3 = get_memory_item k db2" if "k \<noteq> u" for k by (rule add_others [OF q that])
  have fresh: "get_memory_item u db2 = None"
    using assms(2) same by (simp add: names_left_def u_def get_memory_item_def)
  have l23: "learns c db2 db3"
    unfolding learns_def
  proof (intro allI impI)
    fix i a assume i: "get_memory_item i db2 = Some a"
    then have "i \<noteq> u" using fresh by auto
    then show "get_memory_item i db3 = Some a \<or> (i \<in> set (lc_visible c) \<and> mi_scope a = lc_scope c \<and>
        get_memory_item i db3 = Some (revoked_at (lc_now c) a))" using other i by simp
  qed
  have call: "add_learning c l s = then_call (on_db (add_item (lc_files c) (lc_now c) u (learning_draft c l (learning_confidence l dc))))
      (\<lambda>it. write_to (learned c (learning_key l) it)) (s\<lparr>lg_db := db2\<rparr>)"
    using False by (simp only: add_learning_def if_False Let_def dc prod.case db2_def u_def)
  show ?thesis
  proof (cases q)
    case (Inl e)
    then have "r = Inl e \<and> lg_db s' = db3" using assms(1) call q by (auto simp: on_db_def call_on_def then_call_def)
    then show ?thesis using same_then_learns [OF same l23] by simp
  next
    case (Inr it)
    then have s': "r = Inr ()" "lg_db s' = db3" "lg_count s' = Suc (lg_count s)"
      using assms(1) call q by (auto simp: on_db_def call_on_def then_call_def calls learned_def)
    have "get_memory_item (lc_uuid c n) db3 = None" if "Suc (lg_count s) \<le> n" for n
    proof -
      have "lc_uuid c n \<noteq> u" using assms(3) that by (auto simp: u_def inj_eq)
      then show ?thesis using other [of "lc_uuid c n"] assms(2) same that
        by (simp add: names_left_def get_memory_item_def)
    qed
    then show ?thesis using s' same_then_learns [OF same l23] by (simp add: names_left_def)
  qed
qed

lemma set_revoked_writes:
  "snd (set_status files now i ''revoked'' db) = db \<or>
   snd (set_status files now i ''revoked'' db) = update_item i (revoked_at now) db"
proof -
  have "py_lower (py_strip ''revoked'') = ''revoked''" by code_simp
  then show ?thesis
    by (auto simp: set_status_def Let_def then_call_def calls gate_def revoked_at_def [abs_def] split: option.splits sum.splits)
qed

lemma revoke_learning_learns:
  assumes "revoke_learning c l s = (r, s')" "names_left c s"
  shows "learns c (lg_db s) (lg_db s') \<and> (r = Inr () \<longrightarrow> names_left c s')"
proof (cases "may_revoke c (stripped_text l ''id'') (lg_db s)")
  case None
  then show ?thesis using assms by (simp add: revoke_learning_def learns_same)
next
  case (Some old)
  define i where "i = stripped_text l ''id''"
  have old: "i \<in> set (lc_visible c)" "get_memory_item i (lg_db s) = Some old" "mi_scope old = lc_scope c"
    using Some by (auto simp: may_revoke_def i_def split: if_splits option.splits)
  obtain q db1 where q: "set_status (lc_files c) (lc_now c) i ''revoked'' (lg_db s) = (q, db1)" by fastforce
  have w: "db1 = lg_db s \<or> db1 = update_item i (revoked_at (lc_now c)) (lg_db s)"
    using set_revoked_writes [of "lc_files c" "lc_now c" i "lg_db s"] q by simp
  have get1: "get_memory_item k db1 = get_memory_item k (lg_db s) \<or>
      (k = i \<and> get_memory_item k db1 = Some (revoked_at (lc_now c) old))" for k
  proof (cases "k = i")
    case True
    then show ?thesis using w old(2) get_memory_item_update [of "revoked_at (lc_now c)" k i "lg_db s"]
      by (auto simp: revoked_at_def)
  next
    case False
    then show ?thesis using w get_memory_item_update [of "revoked_at (lc_now c)" k i "lg_db s"]
      by (auto simp: revoked_at_def)
  qed
  have l1: "learns c (lg_db s) db1"
    unfolding learns_def using get1 old by (metis option.inject)
  have n1: "get_memory_item (lc_uuid c n) db1 = None" if "lg_count s \<le> n" for n
    using get1 [of "lc_uuid c n"] assms(2) old(2) that by (auto simp: names_left_def)
  obtain d db2 where d: "memory_parameter (lc_now c) ''decay_base_delta'' (1 / 20) db1 = (d, db2)" by fastforce
  have "md_items (lg_db s') = md_items db1 \<and> lg_count s' = lg_count s"
    using assms(1) Some q d items_of_memory_parameter [OF d]
    by (cases q) (auto simp: revoke_learning_def i_def [symmetric] on_db_def call_on_def then_call_def calls split: option.splits)
  then show ?thesis using learns_then_same [OF l1] n1 by (simp add: names_left_def get_memory_item_def)
qed

lemma learnings_learn:
  assumes "for_each (apply_learning c) vs s = (r, s')" "names_left c s" "inj (lc_uuid c)"
  shows "learns c (lg_db s) (lg_db s')"
  using assms(1,2)
proof (induction vs arbitrary: s)
  case Nil
  then show ?case by (simp add: calls learns_same)
next
  case (Cons v vs)
  obtain q s1 where q: "apply_learning c v s = (q, s1)" by fastforce
  have step: "learns c (lg_db s) (lg_db s1) \<and> (q = Inr () \<longrightarrow> names_left c s1)"
  proof (cases v)
    case (JDict l)
    consider "py_lower (stripped_text l ''action'') = ''add''" | "py_lower (stripped_text l ''action'') = ''revoke''"
      | "py_lower (stripped_text l ''action'') \<notin> {''add'', ''revoke''}" by blast
    then show ?thesis
    proof cases
      case 1
      then show ?thesis using q JDict Cons.prems(2) add_learning_learns [OF _ _ assms(3)] by (simp add: apply_learning_def)
    next
      case 2
      then show ?thesis using q JDict Cons.prems(2) revoke_learning_learns by (simp add: apply_learning_def)
    next
      case 3
      then show ?thesis using q JDict Cons.prems(2) by (auto simp: apply_learning_def calls learns_same)
    qed
  qed (use q Cons.prems(2) in \<open>auto simp: apply_learning_def calls learns_same\<close>)
  show ?case
  proof (cases q)
    case (Inl e)
    then show ?thesis using Cons.prems(1) q step by (simp add: then_call_def)
  next
    case (Inr x)
    then have "for_each (apply_learning c) vs s1 = (r, s')" using Cons.prems(1) q by (simp add: then_call_def)
    then have "learns c (lg_db s1) (lg_db s')" using Cons.IH step Inr by simp
    then show ?thesis using step learns_trans by blast
  qed
qed

text \<open>
  C39. What learnings may do. Whatever the model answers, and wherever an error stops the learnings of a
  consolidation, an item that was there keeps every field; or it was shown to the model, is of the scope of
  the conversation, and is now revoked. So a conversation of one actor never changes the memory of another.
\<close>

theorem learnings_stay_in_scope:
  assumes "apply_learnings c vs s = (r, s')" "\<And>n. get_memory_item (lc_uuid c n) (lg_db s) = None" "inj (lc_uuid c)"
    "get_memory_item i (lg_db s) = Some a"
  shows "get_memory_item i (lg_db s') = Some a \<or>
    (i \<in> set (lc_visible c) \<and> mi_scope a = lc_scope c \<and> get_memory_item i (lg_db s') = Some (revoked_at (lc_now c) a))"
proof -
  define s1 where "s1 = s\<lparr>lg_known := known_keys (lc_scope c) (lg_db s), lg_affected := []\<rparr>"
  obtain q s2 where q: "for_each (apply_learning c) vs s1 = (q, s2)" by fastforce
  have "names_left c s1" using assms(2) by (simp add: names_left_def s1_def)
  then have "learns c (lg_db s1) (lg_db s2)" by (rule learnings_learn [OF q _ assms(3)])
  moreover have "lg_db s' = lg_db s2"
    using assms(1) q by (cases q) (auto simp: apply_learnings_def then_call_def calls s1_def)
  ultimately show ?thesis using assms(4) by (simp add: learns_def s1_def)
qed

section \<open>A superseded item loses the link\<close>

lemma superseded_row:
  assumes "mark_superseded now (mi_id a) a b db = (Inr (), db')" "mi_id a \<noteq> mi_id b"
  shows "get_memory_item (mi_id a) db' =
    Some (a\<lparr>mi_metadata := sorted_metadata (dict_set ''superseded_by'' (JStr (mi_id b)) (mi_metadata a)), mi_updated_at := now\<rparr>)"
proof -
  have "store_item_call (a\<lparr>mi_metadata := dict_set ''superseded_by'' (JStr (mi_id b)) (mi_metadata a), mi_updated_at := now\<rparr>) db = (Inr (), db')"
    using assms by (simp add: mark_superseded_def)
  then have "store_item (a\<lparr>mi_metadata := dict_set ''superseded_by'' (JStr (mi_id b)) (mi_metadata a), mi_updated_at := now\<rparr>) db = Inr db'"
    by (cases rule: store_item_call_cases) auto
  then show ?thesis by (simp add: get_memory_item_store)
qed

lemma then_checked: "then_call (checked (Inr x)) f = f x"
  by (rule ext) (simp add: then_call_def calls)

text \<open>
  When the check finds that one of two memories supersedes the other, and the older one had no list of
  contradictions, its row has neither the contradiction nor the explanation that the check had stored.
\<close>

theorem superseded_item_loses_the_link:
  assumes "check_contradiction now (Inr (JDict [(''contradicts'', JBool True), (''relation'', JStr rel), (''explanation'', JStr why),
      (''superseded_id'', JStr (mi_id a))])) a b db = (Inr (Some conflict), db')"
    "mi_id a \<noteq> mi_id b" "mi_id a \<noteq> []" "jget (mi_metadata a) ''contradicts'' = JNull"
  shows "get_memory_item (mi_id a) db' =
    Some (a\<lparr>mi_metadata := sorted_metadata (dict_set ''superseded_by'' (JStr (mi_id b)) (mi_metadata a)), mi_updated_at := now\<rparr>)"
proof -
  have a1: "sharing (mi_id b) a = a" using assms(4) by (simp add: sharing_def)
  have id: "mi_id (sharing i b) = mi_id b" for i by (simp add: sharing_def split: json.split)
  define first where "first = store_item_call (a\<lparr>mi_metadata := dict_set ''llm_conflict_explanation'' (JStr why)
    (contradicting (mi_id b) (mi_metadata a)), mi_updated_at := now\<rparr>)"
  define second where "second = store_item_call (b\<lparr>mi_metadata := contradicting (mi_id a) (mi_metadata b), mi_updated_at := now\<rparr>)"
  define third where "third = mark_superseded now (mi_id a) a (sharing (mi_id a) b)"
  define last_one where "last_one = Some \<lparr>mc_item = a, mc_relation = rel, mc_other_id = mi_id b, mc_other = Some (sharing (mi_id a) b),
    mc_status = memory_conflict_status a (Some (sharing (mi_id a) b)), mc_reason = ''llm_audit: '' @ why\<rparr>"
  have "none_on_error (then_call first (\<lambda>_. then_call second (\<lambda>_. then_call third (\<lambda>_. answer last_one)))) db =
      (Inr (Some conflict), db')"
    using assms(1,3)
    by (simp add: check_contradiction_def first_def second_def third_def last_one_def a1 then_checked call_if_def meta_get_def Let_def)
  then obtain db2 where "third db2 = (Inr (), db')"
    by (auto simp: none_on_error_def then_call_def calls split: prod.splits sum.splits)
  then have "mark_superseded now (mi_id a) a (sharing (mi_id a) b) db2 = (Inr (), db')" by (simp add: third_def)
  then show ?thesis using superseded_row [of now a "sharing (mi_id a) b"] assms(2) id by simp
qed

section \<open>Witnesses\<close>

definition sample_learning :: "MemDb \<Rightarrow> Learning" where
  "sample_learning db = \<lparr>lg_db = db, lg_ledger = [], lg_known = [], lg_affected = [], lg_count = 0\<rparr>"

definition sample_worker :: Worker where
  "sample_worker = \<lparr>wr_files = [], wr_now = 120, wr_uuid = (\<lambda>n. ''u'' @ replicate n (CHR ''x'')), wr_scope_of = (\<lambda>_ _ _ _. ''actor:1''),
     wr_consolidator = (\<lambda>_ _. Inr (JDict [])), wr_case_writer = (\<lambda>_. Inr [])\<rparr>"

definition sample_context :: LearnContext where
  "sample_context = \<lparr>lc_files = [], lc_now = 120, lc_uuid = (\<lambda>n. ''u'' @ replicate n (CHR ''x'')), lc_source = ''cli'',
     lc_provenance = ''job'', lc_run_id = ''r1'', lc_default_reason = ''learned'', lc_scope = ''actor:1'', lc_visible = [''m1'']\<rparr>"

theorem reflective_repair_never_runs_witness:
  "\<exists>s'. consolidate_job sample_worker \<lparr>gd_goals = [], gd_events = []\<rparr>
      (pending_job ''j1'' ''reflective_repair:m1'' ''repair:m1:100'' ''reflective_repair'' [] [] 100)
      (sample_learning (snd (enqueue_reflective_repair 100 ''j1'' ''m1'' (sample_memory [sample_item ''m1'' ''fact'' ''stale'' 1])))) = (Inr [], s') \<and>
    md_items (lg_db s') = [sample_item ''m1'' ''fact'' ''stale'' 1]"
proof -
  let ?db = "sample_memory [sample_item ''m1'' ''fact'' ''stale'' 1]"
  let ?db1 = "snd (enqueue_reflective_repair 100 ''j1'' ''m1'' ?db)"
  let ?j = "pending_job ''j1'' ''reflective_repair:m1'' ''repair:m1:100'' ''reflective_repair'' [] [] 100"
  have j: "job_for (''reflective_repair:'' @ ''m1'') ''repair:m1:100'' ?db1 = Some ?j" by code_simp
  have "md_messages ?db1 = []" by code_simp
  then have "\<exists>s'. consolidate_job sample_worker \<lparr>gd_goals = [], gd_events = []\<rparr> ?j (sample_learning ?db1) = (Inr [], s') \<and>
      md_items (lg_db s') = md_items (lg_db (sample_learning ?db1)) \<and> lg_ledger s' = lg_ledger (sample_learning ?db1) \<and>
      (cj_id ?j \<in> cj_id ` set (filter (\<lambda>r. cj_owner r = cj_owner ?j) (md_jobs (lg_db (sample_learning ?db1)))) \<longrightarrow>
        (\<exists>r\<in>set (md_jobs (lg_db s')). cj_id r = cj_id ?j \<and> cj_status r = ''completed''))"
    by (intro reflective_repair_never_runs [OF j]) (simp_all add: pending_job_def sample_learning_def)
  then show ?thesis by (auto simp: sample_learning_def sample_memory_def)
qed

theorem learnings_stay_in_scope_witness:
  "get_memory_item ''m1'' (lg_db (snd (apply_learnings sample_context [JDict [(''action'', JStr ''revoke''), (''id'', JStr ''m1'')]]
     (sample_learning (sample_memory [sample_item ''m1'' ''fact'' ''active'' 1]))))) = Some (sample_item ''m1'' ''fact'' ''active'' 1)"
proof -
  let ?s = "sample_learning (sample_memory [sample_item ''m1'' ''fact'' ''active'' 1])"
  let ?vs = "[JDict [(''action'', JStr ''revoke''), (''id'', JStr ''m1'')]]"
  have a: "get_memory_item ''m1'' (lg_db ?s) = Some (sample_item ''m1'' ''fact'' ''active'' 1)" by code_simp
  have n: "get_memory_item (lc_uuid sample_context n) (lg_db ?s) = None" for n
    by (simp add: get_memory_item_def sample_learning_def sample_memory_def sample_item_def sample_context_def row_of_Cons)
  have "inj (lc_uuid sample_context)" by (auto simp: sample_context_def inj_def dest: arg_cong [where f = length])
  from learnings_stay_in_scope [OF prod.collapse [symmetric] n this a, of ?vs] show ?thesis
    by (simp add: sample_item_def sample_context_def)
qed

theorem superseded_item_loses_the_link_witness:
  "\<exists>conflict db'. check_contradiction 120 (Inr (JDict [(''contradicts'', JBool True), (''relation'', JStr ''contradicts''),
      (''explanation'', JStr ''newer''), (''superseded_id'', JStr ''m1'')])) (sample_item ''m1'' ''fact'' ''active'' 1)
      (sample_item ''m2'' ''fact'' ''active'' 2)
      (sample_memory [sample_item ''m1'' ''fact'' ''active'' 1, sample_item ''m2'' ''fact'' ''active'' 2]) = (Inr (Some conflict), db') \<and>
    map_option (\<lambda>it. jget (mi_metadata it) ''contradicts'') (get_memory_item ''m1'' db') = Some JNull"
proof -
  let ?a = "sample_item ''m1'' ''fact'' ''active'' 1"
  let ?b = "sample_item ''m2'' ''fact'' ''active'' 2"
  let ?r = "Inr (JDict [(''contradicts'', JBool True), (''relation'', JStr ''contradicts''), (''explanation'', JStr ''newer''),
      (''superseded_id'', JStr (mi_id ?a))])"
  let ?c = "check_contradiction 120 ?r ?a ?b (sample_memory [?a, ?b])"
  have ok: "case fst ?c of Inr (Some _) \<Rightarrow> True | _ \<Rightarrow> False" by code_simp
  then obtain conflict where c: "?c = (Inr (Some conflict), snd ?c)"
    by (cases ?c; cases "fst ?c") (auto split: option.splits)
  have "get_memory_item (mi_id ?a) (snd ?c) = Some (?a\<lparr>mi_metadata := sorted_metadata (dict_set ''superseded_by'' (JStr (mi_id ?b)) (mi_metadata ?a)),
      mi_updated_at := 120\<rparr>)"
    by (rule superseded_item_loses_the_link [OF c]) (simp_all add: sample_item_def)
  then show ?thesis using c by (intro exI [of _ conflict] exI [of _ "snd ?c"])
    (simp add: sample_item_def sorted_metadata_def as_dict_def dict_set_def)
qed

end
