(* ===== verification/Json_Schema.thy ===== *)
theory Json_Schema
  imports Memory_Items
begin

text \<open>
  The validation and the normal form of JSON schemas (\<open>navi/json_utils.py\<close>), which guard the arguments and
  the results of capabilities. \<open>search\<close> is \<open>re.search(pattern, value) is not None\<close>.
\<close>

section \<open>Types\<close>

definition is_json_int :: "json \<Rightarrow> bool" where
  "is_json_int v = (case v of JInt _ \<Rightarrow> True | _ \<Rightarrow> False)"

definition is_json_number :: "json \<Rightarrow> bool" where
  "is_json_number v = (case v of JInt _ \<Rightarrow> True | JFloat _ \<Rightarrow> True | _ \<Rightarrow> False)"

definition json_type_matches :: "json \<Rightarrow> string \<Rightarrow> bool" where
  "json_type_matches v t =
     (if t = ''object'' then is_dict v
      else if t = ''array'' then (case v of JList _ \<Rightarrow> True | _ \<Rightarrow> False)
      else if t = ''string'' then (case v of JStr _ \<Rightarrow> True | _ \<Rightarrow> False)
      else if t = ''integer'' then is_json_int v
      else if t = ''number'' then is_json_number v
      else if t = ''boolean'' then (case v of JBool _ \<Rightarrow> True | _ \<Rightarrow> False)
      else t = ''null'' \<and> v = JNull)"

definition schema_types :: "dict \<Rightarrow> string list" where
  "schema_types s =
     (case jget s ''type'' of
        JStr t \<Rightarrow> [t]
      | JList ts \<Rightarrow> concat (map (\<lambda>t. case t of JStr n \<Rightarrow> [n] | _ \<Rightarrow> []) ts)
      | _ \<Rightarrow> [])"

text \<open>\<open>isinstance(v, int)\<close> holds of truth values too.\<close>

definition int_bound :: "json \<Rightarrow> int option" where
  "int_bound v = (case v of JInt i \<Rightarrow> Some i | JBool b \<Rightarrow> Some (if b then 1 else 0) | _ \<Rightarrow> None)"

definition dicts_of :: "json \<Rightarrow> dict list" where
  "dicts_of v = concat (map (\<lambda>x. case x of JDict d \<Rightarrow> [d] | _ \<Rightarrow> []) (as_list v))"

definition has_key :: "string \<Rightarrow> dict \<Rightarrow> bool" where
  "has_key k d = (k \<in> fst ` set d)"

section \<open>Errors of the value itself\<close>

definition too_small :: "json \<Rightarrow> nat \<Rightarrow> bool" where
  "too_small bound n = (case int_bound bound of Some m \<Rightarrow> int n < m | None \<Rightarrow> False)"

definition too_big :: "json \<Rightarrow> nat \<Rightarrow> bool" where
  "too_big bound n = (case int_bound bound of Some m \<Rightarrow> m < int n | None \<Rightarrow> False)"

definition object_shape_errors :: "dict \<Rightarrow> dict \<Rightarrow> string \<Rightarrow> string list" where
  "object_shape_errors d s path =
     (if too_small (jget s ''minProperties'') (length d)
      then [path @ '' must contain at least '' @ py_str (jget s ''minProperties'') @ '' properties''] else []) @
     (if too_big (jget s ''maxProperties'') (length d)
      then [path @ '' must contain at most '' @ py_str (jget s ''maxProperties'') @ '' properties''] else [])"

definition array_shape_errors :: "json list \<Rightarrow> dict \<Rightarrow> string \<Rightarrow> string list" where
  "array_shape_errors xs s path =
     (if too_small (jget s ''minItems'') (length xs)
      then [path @ '' must contain at least '' @ py_str (jget s ''minItems'') @ '' items''] else []) @
     (if too_big (jget s ''maxItems'') (length xs)
      then [path @ '' must contain at most '' @ py_str (jget s ''maxItems'') @ '' items''] else []) @
     (if jget s ''uniqueItems'' = JBool True \<and> \<not> distinct (map sort_keys xs)
      then [path @ '' items must be unique''] else [])"

definition number_bounds :: "(string \<times> (rat \<Rightarrow> rat \<Rightarrow> bool) \<times> string) list" where
  "number_bounds =
     [(''minimum'', (\<lambda>v b. v < b), ''greater than or equal to''), (''maximum'', (\<lambda>v b. b < v), ''less than or equal to''),
      (''exclusiveMinimum'', (\<lambda>v b. v \<le> b), ''greater than''), (''exclusiveMaximum'', (\<lambda>v b. b \<le> v), ''less than'')]"

definition string_errors :: "(string \<Rightarrow> string \<Rightarrow> bool) \<Rightarrow> string \<Rightarrow> dict \<Rightarrow> string \<Rightarrow> string list" where
  "string_errors search t s path =
     (if too_small (jget s ''minLength'') (length t)
      then [path @ '' length must be at least '' @ py_str (jget s ''minLength'')] else []) @
     (if too_big (jget s ''maxLength'') (length t)
      then [path @ '' length must be at most '' @ py_str (jget s ''maxLength'')] else []) @
     (case jget s ''pattern'' of
        JStr p \<Rightarrow> (if search p t then [] else [path @ '' must match pattern '' @ repr_str p]) | _ \<Rightarrow> [])"

definition bound_error :: "json \<Rightarrow> dict \<Rightarrow> string \<Rightarrow> string \<times> (rat \<Rightarrow> rat \<Rightarrow> bool) \<times> string \<Rightarrow> string list" where
  "bound_error v s path b =
     (case (number_of v, number_of (jget s (fst b))) of
        (Some q, Some r) \<Rightarrow>
          (if fst (snd b) q r then [path @ '' must be '' @ snd (snd b) @ '' '' @ py_str (jget s (fst b))] else [])
      | _ \<Rightarrow> [])"

definition scalar_errors :: "(string \<Rightarrow> string \<Rightarrow> bool) \<Rightarrow> json \<Rightarrow> dict \<Rightarrow> string \<Rightarrow> string list" where
  "scalar_errors search v s path =
     (case v of
        JStr t \<Rightarrow> (if ''string'' \<in> set (schema_types s) then string_errors search t s path else [])
      | _ \<Rightarrow>
          (if is_json_number v \<and> (''integer'' \<in> set (schema_types s) \<or> ''number'' \<in> set (schema_types s))
           then concat (map (bound_error v s path) number_bounds) else []))"

definition const_errors :: "json \<Rightarrow> dict \<Rightarrow> string \<Rightarrow> string list" where
  "const_errors v s path =
     (case map_of s ''const'' of Some c \<Rightarrow> (if py_eq v c then [] else [path @ '' must equal '' @ py_repr c]) | None \<Rightarrow> [])"

definition enum_errors :: "json \<Rightarrow> dict \<Rightarrow> string \<Rightarrow> string list" where
  "enum_errors v s path =
     (case jget s ''enum'' of
        JList options \<Rightarrow> (if list_ex (py_eq v) options then [] else [path @ '' must be one of '' @ py_str (JList options)])
      | _ \<Rightarrow> [])"

definition type_refused :: "json \<Rightarrow> dict \<Rightarrow> bool" where
  "type_refused v s = (schema_types s \<noteq> [] \<and> \<not> list_ex (json_type_matches v) (schema_types s))"

definition object_like :: "dict \<Rightarrow> bool" where
  "object_like s = (''object'' \<in> set (schema_types s) \<or>
     (schema_types s = [] \<and> (has_key ''properties'' s \<or> has_key ''required'' s)))"

definition array_like :: "dict \<Rightarrow> bool" where
  "array_like s = (''array'' \<in> set (schema_types s) \<or> (schema_types s = [] \<and> has_key ''items'' s))"

definition any_of_errors :: "bool list \<Rightarrow> string \<Rightarrow> string list" where
  "any_of_errors matches path =
     (if matches \<noteq> [] \<and> True \<notin> set matches then [path @ '' must match at least one declared schema''] else [])"

definition one_of_errors :: "bool list \<Rightarrow> string \<Rightarrow> string list" where
  "one_of_errors matches path =
     (if length (filter id matches) \<noteq> 1 then [path @ '' must match exactly one declared schema''] else [])"

section \<open>The errors of a value\<close>

lemma size_in_list: "x \<in> set xs \<Longrightarrow> size x < size (JList xs)"
  by (induction xs) auto

lemma size_in_dict: "(k, x) \<in> set d \<Longrightarrow> size x < size (JDict d)"
  by (induction d) auto

lemma size_map_of: "map_of d k = Some v \<Longrightarrow> size v < size (JDict d)"
  by (rule size_in_dict [OF map_of_SomeD])

lemma size_dicts_of: "d \<in> set (dicts_of (jget s k)) \<Longrightarrow> size (JDict d) < size (JDict s)"
proof -
  assume d: "d \<in> set (dicts_of (jget s k))"
  then obtain xs where xs: "jget s k = JList xs" "JDict d \<in> set xs"
    by (cases "jget s k") (auto simp: dicts_of_def as_list_def split: json.splits)
  then have "map_of s k = Some (JList xs)" by (auto simp: jget_def split: option.splits)
  then have "size (JList xs) < size (JDict s)" by (rule size_map_of)
  moreover have "size (JDict d) < size (JList xs)" using xs(2) by (rule size_in_list)
  ultimately show ?thesis by simp
qed

definition dict_at :: "dict \<Rightarrow> string \<Rightarrow> dict option" where
  "dict_at d k = (case jget d k of JDict e \<Rightarrow> Some e | _ \<Rightarrow> None)"

lemma size_dict_at: "dict_at s k = Some d \<Longrightarrow> size (JDict d) < size (JDict s)"
  by (auto simp: dict_at_def jget_def dest!: size_map_of split: json.splits option.splits)

text \<open>The pairs of a key the value has and the schema of the key, in the order of the properties.\<close>

definition property_checks :: "dict \<Rightarrow> dict \<Rightarrow> (string \<times> json \<times> dict) list" where
  "property_checks d s =
     (case dict_at s ''properties'' of
        None \<Rightarrow> []
      | Some props \<Rightarrow> concat (map (\<lambda>(k, sub). case (map_of d k, sub) of
          (Some v, JDict e) \<Rightarrow> [(k, v, e)] | _ \<Rightarrow> []) props))"

lemma size_property_checks: "(k, v, e) \<in> set (property_checks d s) \<Longrightarrow> size (JDict e) < size (JDict s)"
proof -
  assume e: "(k, v, e) \<in> set (property_checks d s)"
  then obtain props where props: "dict_at s ''properties'' = Some props" "(k, JDict e) \<in> set props"
    by (cases "dict_at s ''properties''") (auto simp: property_checks_def split: option.splits json.splits)
  have "size (JDict e) < size (JDict props)" using props(2) by (rule size_in_dict)
  then show ?thesis using size_dict_at [OF props(1)] by simp
qed

definition undeclared_items :: "dict \<Rightarrow> dict \<Rightarrow> (string \<times> json) list" where
  "undeclared_items d s =
     (case dict_at s ''properties'' of None \<Rightarrow> [] | Some props \<Rightarrow> filter (\<lambda>(k, _). \<not> has_key k props) d)"

definition required_errors :: "dict \<Rightarrow> dict \<Rightarrow> string \<Rightarrow> string list" where
  "required_errors d s path =
     concat (map (\<lambda>k. case k of JStr n \<Rightarrow> (if has_key n d then [] else [path @ ''.'' @ n @ '' is required'']) | _ \<Rightarrow> [])
       (as_list (jget s ''required'')))"

function schema_errors :: "(string \<Rightarrow> string \<Rightarrow> bool) \<Rightarrow> json \<Rightarrow> dict \<Rightarrow> string \<Rightarrow> string list"
  and composition_errors :: "(string \<Rightarrow> string \<Rightarrow> bool) \<Rightarrow> json \<Rightarrow> dict \<Rightarrow> string \<Rightarrow> string list"
  and object_errors :: "(string \<Rightarrow> string \<Rightarrow> bool) \<Rightarrow> dict \<Rightarrow> dict \<Rightarrow> string \<Rightarrow> string list"
  and array_errors :: "(string \<Rightarrow> string \<Rightarrow> bool) \<Rightarrow> json list \<Rightarrow> dict \<Rightarrow> string \<Rightarrow> string list" where
  "schema_errors search v s path =
     const_errors v s path @ composition_errors search v s path @
     (if type_refused v s then [path @ '' expected '' @ join_with ''|'' (schema_types s)]
      else enum_errors v s path @
        (case v of JDict d \<Rightarrow> (if object_like s then object_errors search d s path else []) | _ \<Rightarrow> []) @
        (case v of JList xs \<Rightarrow> (if array_like s then array_errors search xs s path else []) | _ \<Rightarrow> []) @
        scalar_errors search v s path)"
| "composition_errors search v s path =
     concat (map (\<lambda>sub. schema_errors search v sub path) (dicts_of (jget s ''allOf''))) @
     any_of_errors (map (\<lambda>sub. schema_errors search v sub path = []) (dicts_of (jget s ''anyOf''))) path @
     (if as_list (jget s ''oneOf'') = [] then []
      else one_of_errors (map (\<lambda>sub. schema_errors search v sub path = []) (dicts_of (jget s ''oneOf''))) path) @
     (case dict_at s ''if'' of
        None \<Rightarrow> []
      | Some cond \<Rightarrow>
          (if schema_errors search v cond path = []
           then (case dict_at s ''then'' of None \<Rightarrow> [] | Some b \<Rightarrow> schema_errors search v b path)
           else (case dict_at s ''else'' of None \<Rightarrow> [] | Some b \<Rightarrow> schema_errors search v b path)))"
| "object_errors search d s path =
     required_errors d s path @
     concat (map (\<lambda>(k, x, sub). schema_errors search x sub (path @ ''.'' @ k)) (property_checks d s)) @
     (if jget s ''additionalProperties'' = JBool False
      then map (\<lambda>(k, _). path @ ''.'' @ k @ '' is not declared'') (undeclared_items d s) else []) @
     (case dict_at s ''additionalProperties'' of
        None \<Rightarrow> []
      | Some sub \<Rightarrow> concat (map (\<lambda>(k, x). schema_errors search x sub (path @ ''.'' @ k)) (undeclared_items d s))) @
     object_shape_errors d s path"
| "array_errors search xs s path =
     (case dict_at s ''items'' of
        None \<Rightarrow> []
      | Some sub \<Rightarrow> concat (map (\<lambda>(i, x). schema_errors search x sub (path @ ''['' @ show_nat i @ '']'')) (enumerate 0 xs))) @
     array_shape_errors xs s path"
  by pat_completeness auto
termination
  by (relation "measure (\<lambda>call. case call of
      Inl (Inl (_, _, s, _)) \<Rightarrow> 2 * size (JDict s) + 1 | Inl (Inr (_, _, s, _)) \<Rightarrow> 2 * size (JDict s)
    | Inr (Inl (_, _, s, _)) \<Rightarrow> 2 * size (JDict s) | Inr (Inr (_, _, s, _)) \<Rightarrow> 2 * size (JDict s))")
    (auto simp del: json.size dest: size_dicts_of size_dict_at size_property_checks)

declare schema_errors.simps [simp del] composition_errors.simps [simp del] object_errors.simps [simp del] array_errors.simps [simp del]

text \<open>Equations that are unfolded at a given schema only.\<close>

lemma schema_errors_code [code]:
  "schema_errors search v [] path = []"
  "schema_errors search v (x # s) path =
     const_errors v (x # s) path @ composition_errors search v (x # s) path @
     (if type_refused v (x # s) then [path @ '' expected '' @ join_with ''|'' (schema_types (x # s))]
      else enum_errors v (x # s) path @
        (case v of JDict d \<Rightarrow> (if object_like (x # s) then object_errors search d (x # s) path else []) | _ \<Rightarrow> []) @
        (case v of JList xs \<Rightarrow> (if array_like (x # s) then array_errors search xs (x # s) path else []) | _ \<Rightarrow> []) @
        scalar_errors search v (x # s) path)"
  by (simp add: schema_errors.simps [of search v "[]"] composition_errors.simps [of search v "[]"] const_errors_def enum_errors_def
      type_refused_def object_like_def array_like_def scalar_errors_def schema_types_def any_of_errors_def dicts_of_def as_list_def
      dict_at_def jget_def has_key_def split: json.split)
    (rule schema_errors.simps)

definition json_schema_errors :: "(string \<Rightarrow> string \<Rightarrow> bool) \<Rightarrow> json \<Rightarrow> json \<Rightarrow> string \<Rightarrow> string list" where
  "json_schema_errors search v schema path = (case schema of JDict s \<Rightarrow> schema_errors search v s path | _ \<Rightarrow> [])"

section \<open>The normal form of a schema\<close>

definition with_closed_object :: "dict \<Rightarrow> dict" where
  "with_closed_object s =
     (if dict_at s ''properties'' \<noteq> None \<and> \<not> has_key ''additionalProperties'' s
      then s @ [(''additionalProperties'', JBool False)] else s)"

function normalize_part :: "string \<Rightarrow> json \<Rightarrow> json" and normalize_node :: "json \<Rightarrow> json" where
  "normalize_part k (JDict d) =
     (if k = ''properties'' then JDict (map (\<lambda>(n, x). (n, normalize_node x)) d)
      else if k \<in> {''items'', ''additionalProperties'', ''if'', ''then'', ''else''} then normalize_node (JDict d) else JDict d)"
| "normalize_part k (JList xs) = (if k \<in> {''allOf'', ''anyOf'', ''oneOf''} then JList (map normalize_node xs) else JList xs)"
| "normalize_part k JNull = JNull"
| "normalize_part k (JBool b) = JBool b"
| "normalize_part k (JInt i) = JInt i"
| "normalize_part k (JFloat q) = JFloat q"
| "normalize_part k (JStr t) = JStr t"
| "normalize_node (JDict s) = JDict (with_closed_object (map (\<lambda>(k, x). (k, normalize_part k x)) s))"
| "normalize_node (JList xs) = JList xs"
| "normalize_node JNull = JNull"
| "normalize_node (JBool b) = JBool b"
| "normalize_node (JInt i) = JInt i"
| "normalize_node (JFloat q) = JFloat q"
| "normalize_node (JStr t) = JStr t"
  by pat_completeness auto
termination
  by (relation "measure (\<lambda>call. case call of Inl (_, v) \<Rightarrow> 2 * size v + 1 | Inr v \<Rightarrow> 2 * size v)")
    (auto simp del: json.size dest: size_in_list size_in_dict)

definition normalize_json_schema :: "json \<Rightarrow> json" where
  "normalize_json_schema schema = normalize_node (JDict (as_dict schema))"

section \<open>Errors are relative to the path\<close>

named_theorems below

lemma leaves_below [below]:
  "const_errors v s (p @ q) = map ((@) p) (const_errors v s q)"
  "enum_errors v s (p @ q) = map ((@) p) (enum_errors v s q)"
  "any_of_errors ms (p @ q) = map ((@) p) (any_of_errors ms q)"
  "one_of_errors ms (p @ q) = map ((@) p) (one_of_errors ms q)"
  "object_shape_errors d s (p @ q) = map ((@) p) (object_shape_errors d s q)"
  "array_shape_errors xs s (p @ q) = map ((@) p) (array_shape_errors xs s q)"
  by (auto simp: const_errors_def enum_errors_def any_of_errors_def one_of_errors_def object_shape_errors_def
      array_shape_errors_def split: option.split json.split)

lemma required_below [below]: "required_errors d s (p @ q) = map ((@) p) (required_errors d s q)"
  by (auto simp: required_errors_def map_concat o_def intro!: arg_cong [where f = concat] split: json.split)

lemma string_below [below]: "string_errors search t s (p @ q) = map ((@) p) (string_errors search t s q)"
  by (cases "jget s ''pattern''") (auto simp: string_errors_def)

lemma bound_below: "bound_error v s (p @ q) b = map ((@) p) (bound_error v s q b)"
  by (auto simp: bound_error_def split: option.split)

lemma scalars_below [below]: "scalar_errors search v s (p @ q) = map ((@) p) (scalar_errors search v s q)"
proof -
  have "concat (map (bound_error v s (p @ q)) bs) = map ((@) p) (concat (map (bound_error v s q) bs))" for bs
    by (induction bs) (simp_all add: bound_below)
  then show ?thesis by (cases v) (auto simp: scalar_errors_def below)
qed

lemma concat_below:
  "(\<And>x. x \<in> set xs \<Longrightarrow> f x = map ((@) p) (g x)) \<Longrightarrow> concat (map f xs) = map ((@) p) (concat (map g xs))"
  by (induction xs) auto

lemma verdicts_below:
  "(\<And>x. x \<in> set xs \<Longrightarrow> f x = map ((@) p) (g x)) \<Longrightarrow> map (\<lambda>x. f x = []) xs = map (\<lambda>x. g x = []) xs"
  by auto

lemma errors_below [below]:
  "schema_errors search v s (p @ q) = map ((@) p) (schema_errors search v s q)"
  "composition_errors search v s (p @ q) = map ((@) p) (composition_errors search v s q)"
  "object_errors search d s (p @ q) = map ((@) p) (object_errors search d s q)"
  "array_errors search xs s (p @ q) = map ((@) p) (array_errors search xs s q)"
proof -
  have all: "(\<forall>q. path = p @ q \<longrightarrow> schema_errors search v s path = map ((@) p) (schema_errors search v s q))"
    "(\<forall>q. path = p @ q \<longrightarrow> composition_errors search v s path = map ((@) p) (composition_errors search v s q))"
    "(\<forall>q. path = p @ q \<longrightarrow> object_errors search d s path = map ((@) p) (object_errors search d s q))"
    "(\<forall>q. path = p @ q \<longrightarrow> array_errors search xs s path = map ((@) p) (array_errors search xs s q))" for path
  proof (induction search v s path and search v s path and search d s path and search xs s path
      rule: schema_errors_composition_errors_object_errors_array_errors.induct)
    case (1 search v s path)
    show ?case
    proof (intro allI impI)
      fix q assume path: "path = p @ q"
      show "schema_errors search v s path = map ((@) p) (schema_errors search v s q)"
        using 1 path by (simp add: schema_errors.simps [of search v s] below split: json.split)
    qed
  next
    case (2 search v s path)
    show ?case
    proof (intro allI impI)
      fix q assume path: "path = p @ q"
      have all_of: "concat (map (\<lambda>sub. schema_errors search v sub path) (dicts_of (jget s ''allOf''))) =
          map ((@) p) (concat (map (\<lambda>sub. schema_errors search v sub q) (dicts_of (jget s ''allOf''))))"
        by (rule concat_below) (use 2(1) path in blast)
      have any_of: "map (\<lambda>sub. schema_errors search v sub path = []) (dicts_of (jget s ''anyOf'')) =
          map (\<lambda>sub. schema_errors search v sub q = []) (dicts_of (jget s ''anyOf''))"
        by (rule verdicts_below [where p = p]) (use 2(2) path in blast)
      have one_of: "map (\<lambda>sub. schema_errors search v sub path = []) (dicts_of (jget s ''oneOf'')) =
          map (\<lambda>sub. schema_errors search v sub q = []) (dicts_of (jget s ''oneOf''))"
        if "as_list (jget s ''oneOf'') \<noteq> []"
        by (rule verdicts_below [where p = p]) (use 2(3) path that in blast)
      have branches: "(case dict_at s ''if'' of None \<Rightarrow> [] | Some cond \<Rightarrow>
            (if schema_errors search v cond path = []
             then (case dict_at s ''then'' of None \<Rightarrow> [] | Some b \<Rightarrow> schema_errors search v b path)
             else (case dict_at s ''else'' of None \<Rightarrow> [] | Some b \<Rightarrow> schema_errors search v b path))) =
          map ((@) p) (case dict_at s ''if'' of None \<Rightarrow> [] | Some cond \<Rightarrow>
            (if schema_errors search v cond q = []
             then (case dict_at s ''then'' of None \<Rightarrow> [] | Some b \<Rightarrow> schema_errors search v b q)
             else (case dict_at s ''else'' of None \<Rightarrow> [] | Some b \<Rightarrow> schema_errors search v b q)))"
        using 2(4-6) path by (auto split: option.split)
      show "composition_errors search v s path = map ((@) p) (composition_errors search v s q)"
        unfolding composition_errors.simps [of search v s] all_of any_of branches
        by (cases "as_list (jget s ''oneOf'') = []") (simp_all only: one_of if_True if_False refl simp_thms, simp_all add: path below)
    qed
  next
    case (3 search d s path)
    show ?case
    proof (intro allI impI)
      fix q assume path: "path = p @ q"
      have props: "concat (map (\<lambda>(k, x, sub). schema_errors search x sub (path @ ''.'' @ k)) (property_checks d s)) =
          map ((@) p) (concat (map (\<lambda>(k, x, sub). schema_errors search x sub (q @ ''.'' @ k)) (property_checks d s)))"
        by (rule concat_below) (use 3(1) path in fastforce)
      have extra: "concat (map (\<lambda>(k, x). schema_errors search x sub (path @ ''.'' @ k)) (undeclared_items d s)) =
          map ((@) p) (concat (map (\<lambda>(k, x). schema_errors search x sub (q @ ''.'' @ k)) (undeclared_items d s)))"
        if "dict_at s ''additionalProperties'' = Some sub" for sub
        by (rule concat_below) (use 3(2) path that in fastforce)
      show "object_errors search d s path = map ((@) p) (object_errors search d s q)"
        unfolding object_errors.simps [of search d s] props
        using extra by (auto simp: path below split: option.split)
    qed
  next
    case (4 search xs s path)
    show ?case
    proof (intro allI impI)
      fix q assume path: "path = p @ q"
      have items: "concat (map (\<lambda>(i, x). schema_errors search x sub (path @ ''['' @ show_nat i @ '']'')) (enumerate 0 xs)) =
          map ((@) p) (concat (map (\<lambda>(i, x). schema_errors search x sub (q @ ''['' @ show_nat i @ '']'')) (enumerate 0 xs)))"
        if "dict_at s ''items'' = Some sub" for sub
        by (rule concat_below) (use 4 path that in fastforce)
      show "array_errors search xs s path = map ((@) p) (array_errors search xs s q)"
        unfolding array_errors.simps [of search xs s]
        by (cases "dict_at s ''items''") (simp only: option.case, simp add: path below, simp only: items option.case, simp add: path below)
    qed
  qed
  show "schema_errors search v s (p @ q) = map ((@) p) (schema_errors search v s q)"
    "composition_errors search v s (p @ q) = map ((@) p) (composition_errors search v s q)"
    "object_errors search d s (p @ q) = map ((@) p) (object_errors search d s q)"
    "array_errors search xs s (p @ q) = map ((@) p) (array_errors search xs s q)" using all [of "p @ q"] by simp_all
qed

section \<open>What the normal form says of its parts\<close>

definition normal_dict :: "dict \<Rightarrow> dict" where
  "normal_dict s = with_closed_object (map (\<lambda>(k, x). (k, normalize_part k x)) s)"

lemma normalize_node_dict [simp]: "normalize_node (JDict s) = JDict (normal_dict s)"
  by (simp add: normal_dict_def)

declare normalize_node.simps(1) [simp del]

lemma map_of_parts: "map_of (map (\<lambda>(k, x). (k, f k x)) s) k = map_option (f k) (map_of s k)"
  by (induction s) auto

lemma keys_of_parts: "fst ` set (map (\<lambda>(k, x). (k, f k x)) s) = fst ` set s"
  by force

lemma dict_at_parts:
  "dict_at (map (\<lambda>(k, x). (k, normalize_part k x)) s) ''properties'' =
   map_option (map (\<lambda>(n, x). (n, normalize_node x))) (dict_at s ''properties'')"
  by (simp add: dict_at_def jget_def map_of_parts split: option.split json.split)

lemma has_key_parts: "has_key k (map (\<lambda>(k, x). (k, f k x)) s) = has_key k s"
  by (simp only: has_key_def keys_of_parts)

lemma map_of_normal: "map_of (normal_dict s) k =
    (if k = ''additionalProperties'' \<and> dict_at s ''properties'' \<noteq> None \<and> \<not> has_key k s then Some (JBool False)
     else map_option (normalize_part k) (map_of s k))"
proof -
  have "map_of s ''additionalProperties'' = None" if "\<not> has_key ''additionalProperties'' s"
    using that by (auto simp: has_key_def map_of_eq_None_iff)
  then show ?thesis
    by (auto simp: normal_dict_def with_closed_object_def has_key_parts dict_at_parts map_of_parts map_add_def
        split: option.split)
qed

lemma jget_normal: "k \<noteq> ''additionalProperties'' \<Longrightarrow> jget (normal_dict s) k = normalize_part k (jget s k)"
  by (simp add: jget_def map_of_normal split: option.split)

lemma dict_at_normal:
  assumes "k \<in> {''items'', ''if'', ''then'', ''else''}"
  shows "dict_at (normal_dict s) k = map_option normal_dict (dict_at s k)"
  using assms by (cases "jget s k") (auto simp: dict_at_def jget_normal)

lemma properties_normal: "dict_at (normal_dict s) ''properties'' = map_option (map (\<lambda>(n, x). (n, normalize_node x))) (dict_at s ''properties'')"
  by (cases "jget s ''properties''") (auto simp: dict_at_def jget_normal)

lemma dicts_of_normal:
  assumes "k \<in> {''allOf'', ''anyOf'', ''oneOf''}"
  shows "dicts_of (jget (normal_dict s) k) = map normal_dict (dicts_of (jget s k))"
proof (cases "jget s k")
  case (JList xs)
  have "concat (map (\<lambda>x. case x of JDict d \<Rightarrow> [d] | _ \<Rightarrow> []) (map normalize_node xs)) =
      map normal_dict (concat (map (\<lambda>x. case x of JDict d \<Rightarrow> [d] | _ \<Rightarrow> []) xs))"
    by (induction xs) (auto split: json.split)
  then show ?thesis using JList assms by (auto simp: jget_normal dicts_of_def as_list_def)
qed (use assms in \<open>auto simp: jget_normal dicts_of_def as_list_def\<close>)

lemma has_key_normal: "k \<noteq> ''additionalProperties'' \<Longrightarrow> has_key k (normal_dict s) = has_key k s"
  by (auto simp: has_key_def normal_dict_def with_closed_object_def keys_of_parts simp del: set_map)

lemma types_normal: "schema_types (normal_dict s) = schema_types s"
  by (cases "jget s ''type''") (auto simp: schema_types_def jget_normal)

lemma like_normal: "object_like (normal_dict s) = object_like s" "array_like (normal_dict s) = array_like s"
  by (simp_all add: object_like_def array_like_def types_normal has_key_normal)

lemma property_checks_normal:
  "property_checks d (normal_dict s) = map (\<lambda>(k, v, e). (k, v, normal_dict e)) (property_checks d s)"
proof (cases "dict_at s ''properties''")
  case (Some props)
  have "concat (map (\<lambda>(k, sub). case (map_of d k, sub) of (Some v, JDict e) \<Rightarrow> [(k, v, e)] | _ \<Rightarrow> [])
        (map (\<lambda>(n, x). (n, normalize_node x)) props)) =
      map (\<lambda>(k, v, e). (k, v, normal_dict e)) (concat (map (\<lambda>(k, sub). case (map_of d k, sub) of
        (Some v, JDict e) \<Rightarrow> [(k, v, e)] | _ \<Rightarrow> []) props))"
    by (induction props) (auto split: json.split option.split)
  then show ?thesis using Some by (simp add: property_checks_def properties_normal)
qed (simp add: property_checks_def properties_normal)

section \<open>The normal form is stable and closed\<close>

lemma normal_dict_twice:
  assumes "\<And>k x. (k, x) \<in> set s \<Longrightarrow> normalize_part k (normalize_part k x) = normalize_part k x"
  shows "normal_dict (normal_dict s) = normal_dict s"
proof -
  define t where "t = map (\<lambda>(k, x). (k, normalize_part k x)) s"
  have again: "map (\<lambda>(k, x). (k, normalize_part k x)) t = t" using assms by (auto simp: t_def)
  show ?thesis
  proof (cases "dict_at t ''properties'' \<noteq> None \<and> \<not> has_key ''additionalProperties'' t")
    case True
    then have "normal_dict s = t @ [(''additionalProperties'', JBool False)]"
      by (simp add: normal_dict_def with_closed_object_def t_def [symmetric])
    moreover have "with_closed_object (t @ [(''additionalProperties'', JBool False)]) = t @ [(''additionalProperties'', JBool False)]"
      by (simp add: with_closed_object_def has_key_def)
    ultimately show ?thesis using again by (simp add: normal_dict_def)
  next
    case False
    then have "normal_dict s = t" by (auto simp: normal_dict_def with_closed_object_def t_def [symmetric])
    then show ?thesis using again False by (auto simp: normal_dict_def with_closed_object_def)
  qed
qed

lemma normal_twice:
  "normalize_part k (normalize_part k v) = normalize_part k v"
  "normalize_node (normalize_node v) = normalize_node v"
proof (induction k v and v rule: normalize_part_normalize_node.induct)
  case (1 k d)
  consider "k = ''properties''" | "k \<noteq> ''properties''" "k \<in> {''items'', ''additionalProperties'', ''if'', ''then'', ''else''}"
    | "k \<noteq> ''properties''" "k \<notin> {''items'', ''additionalProperties'', ''if'', ''then'', ''else''}" by blast
  then show ?case
  proof cases
    case 1
    then show ?thesis using "1.IH"(1) by auto
  next
    case 2
    then show ?thesis using "1.IH"(2) by simp
  next
    case 3
    then show ?thesis by simp
  qed
next
  case (2 k xs)
  show ?case
  proof (cases "k \<in> {''allOf'', ''anyOf'', ''oneOf''}")
    case True
    then show ?thesis using "2.IH" by simp
  next
    case False
    then show ?thesis by simp
  qed
next
  case (8 s)
  then show ?case using normal_dict_twice [of s] by simp
qed simp_all

theorem normal_form_is_stable:
  "normalize_json_schema (normalize_json_schema schema) = normalize_json_schema schema"
  using normal_twice(2) [of "JDict (as_dict schema)"] by (simp add: normalize_json_schema_def as_dict_def)

definition accepts :: "(string \<Rightarrow> string \<Rightarrow> bool) \<Rightarrow> json \<Rightarrow> dict \<Rightarrow> bool" where
  "accepts search v s = (schema_errors search v s [] = [])"

lemma accepts_at: "schema_errors search v s p = [] \<longleftrightarrow> accepts search v s"
  using errors_below(1) [of search v s p "[]"] by (simp add: accepts_def)

lemma accepts_parts:
  assumes "accepts search v s"
  shows "composition_errors search v s [] = []" "v = JDict d \<Longrightarrow> object_like s \<Longrightarrow> object_errors search d s [] = []"
    "v = JList xs \<Longrightarrow> array_like s \<Longrightarrow> array_errors search xs s [] = []"
proof -
  have no: "(if b then [e] else l) = [] \<longleftrightarrow> \<not> b \<and> l = []" for b and e :: string and l by simp
  note parts = assms [unfolded accepts_def schema_errors.simps [of search v s] append_is_Nil_conv no]
  show "composition_errors search v s [] = []" using parts by blast
  show "object_errors search d s [] = []" if "v = JDict d" "object_like s"
    using parts unfolding that(1) json.case if_P [OF that(2)] by blast
  show "array_errors search xs s [] = []" if "v = JList xs" "array_like s"
    using parts unfolding that(1) json.case if_P [OF that(2)] by blast
qed

lemma accepts_conjunct:
  assumes "accepts search v s" "e \<in> set (dicts_of (jget s ''allOf''))"
  shows "accepts search v e"
  using accepts_parts(1) [OF assms(1)] assms(2) by (auto simp: composition_errors.simps [of search v s] accepts_at)

lemma closed_normal:
  assumes "dict_at t ''properties'' = Some props" "\<not> has_key ''additionalProperties'' t"
  shows "jget (normal_dict t) ''additionalProperties'' = JBool False"
  using assms by (simp add: jget_def map_of_normal)

lemma accepted_object_is_closed:
  assumes "accepts search (JDict d) (normal_dict t)" "object_like t" "dict_at t ''properties'' = Some props"
    "\<not> has_key ''additionalProperties'' t"
  shows "fst ` set d \<subseteq> fst ` set props"
proof -
  have "object_errors search d (normal_dict t) [] = []" using assms(1,2) by (simp add: accepts_parts(2) like_normal)
  then have "undeclared_items d (normal_dict t) = []"
    using closed_normal [OF assms(3,4)] by (simp add: object_errors.simps)
  moreover have "has_key k (map (\<lambda>(n, x). (n, normalize_node x)) props) = has_key k props" for k
    by (force simp: has_key_def)
  ultimately show ?thesis
    using assms(3) by (force simp: undeclared_items_def properties_normal filter_empty_conv has_key_def)
qed

text \<open>
  The fields of a value are the declared ones, by the schema as its author wrote it: in each object that
  the schema looks at only fields that the schema declares there, unless the author said there what becomes
  of others. Of alternatives one branch counts that accepts the value, and a condition counts where it does,
  each by the verdict on its normal form.
\<close>

definition fields_declared :: "dict \<Rightarrow> dict \<Rightarrow> bool" where
  "fields_declared d s =
     (case dict_at s ''properties'' of
        None \<Rightarrow> True
      | Some props \<Rightarrow> has_key ''additionalProperties'' s \<or> (\<forall>k\<in>fst ` set d. k \<in> fst ` set props))"

function only_declared :: "(string \<Rightarrow> string \<Rightarrow> bool) \<Rightarrow> json \<Rightarrow> dict \<Rightarrow> bool" where
  "only_declared search v s =
     ((\<forall>e\<in>set (dicts_of (jget s ''allOf'')). only_declared search v e) \<and>
      (dicts_of (jget s ''anyOf'') = [] \<or> (\<exists>e\<in>set (dicts_of (jget s ''anyOf'')). accepts search v (normal_dict e) \<and> only_declared search v e)) \<and>
      (as_list (jget s ''oneOf'') = [] \<or> (\<exists>e\<in>set (dicts_of (jget s ''oneOf'')). accepts search v (normal_dict e) \<and> only_declared search v e)) \<and>
      (case dict_at s ''if'' of
         None \<Rightarrow> True
       | Some c \<Rightarrow>
           if accepts search v (normal_dict c)
           then only_declared search v c \<and> (case dict_at s ''then'' of None \<Rightarrow> True | Some b \<Rightarrow> only_declared search v b)
           else (case dict_at s ''else'' of None \<Rightarrow> True | Some b \<Rightarrow> only_declared search v b)) \<and>
      (case v of
         JDict d \<Rightarrow> \<not> object_like s \<or> fields_declared d s \<and>
           (\<forall>(k, x, e)\<in>set (property_checks d s). only_declared search x e) \<and>
           (case dict_at s ''additionalProperties'' of
              None \<Rightarrow> True | Some e \<Rightarrow> \<forall>(k, x)\<in>set (undeclared_items d s). only_declared search x e)
       | _ \<Rightarrow> True) \<and>
      (case v of
         JList xs \<Rightarrow> \<not> array_like s \<or>
           (case dict_at s ''items'' of None \<Rightarrow> True | Some e \<Rightarrow> \<forall>x\<in>set xs. only_declared search x e)
       | _ \<Rightarrow> True))"
  by pat_completeness auto
termination
  by (relation "measure (\<lambda>(_, _, s). size (JDict s))")
    (auto simp del: json.size dest: size_dicts_of size_dict_at size_property_checks)

declare only_declared.simps [simp del]

lemma only_declared_code [code]:
  "only_declared search v [] = True"
  "only_declared search v (y # s) =
     ((\<forall>e\<in>set (dicts_of (jget (y # s) ''allOf'')). only_declared search v e) \<and>
      (dicts_of (jget (y # s) ''anyOf'') = [] \<or> (\<exists>e\<in>set (dicts_of (jget (y # s) ''anyOf'')). accepts search v (normal_dict e) \<and> only_declared search v e)) \<and>
      (as_list (jget (y # s) ''oneOf'') = [] \<or> (\<exists>e\<in>set (dicts_of (jget (y # s) ''oneOf'')). accepts search v (normal_dict e) \<and> only_declared search v e)) \<and>
      (case dict_at (y # s) ''if'' of
         None \<Rightarrow> True
       | Some c \<Rightarrow>
           if accepts search v (normal_dict c)
           then only_declared search v c \<and> (case dict_at (y # s) ''then'' of None \<Rightarrow> True | Some b \<Rightarrow> only_declared search v b)
           else (case dict_at (y # s) ''else'' of None \<Rightarrow> True | Some b \<Rightarrow> only_declared search v b)) \<and>
      (case v of
         JDict d \<Rightarrow> \<not> object_like (y # s) \<or> fields_declared d (y # s) \<and>
           (\<forall>(k, x, e)\<in>set (property_checks d (y # s)). only_declared search x e) \<and>
           (case dict_at (y # s) ''additionalProperties'' of
              None \<Rightarrow> True | Some e \<Rightarrow> \<forall>(k, x)\<in>set (undeclared_items d (y # s)). only_declared search x e)
       | _ \<Rightarrow> True) \<and>
      (case v of
         JList xs \<Rightarrow> \<not> array_like (y # s) \<or>
           (case dict_at (y # s) ''items'' of None \<Rightarrow> True | Some e \<Rightarrow> \<forall>x\<in>set xs. only_declared search x e)
       | _ \<Rightarrow> True))"
  by (simp add: only_declared.simps [of search v "[]"] dicts_of_def as_list_def dict_at_def jget_def object_like_def array_like_def
      schema_types_def has_key_def split: json.split)
    (rule only_declared.simps)

text \<open>What acceptance by the normal form says of each keyword.\<close>

lemma one_of_accepts: "one_of_errors bs p = [] \<Longrightarrow> True \<in> set bs"
  by (induction bs) (auto simp: one_of_errors_def split: if_splits)

lemma accepted_compositions:
  assumes "accepts search v (normal_dict s)"
  shows "\<forall>e\<in>set (dicts_of (jget s ''allOf'')). accepts search v (normal_dict e)"
    and "dicts_of (jget s ''anyOf'') = [] \<or> (\<exists>e\<in>set (dicts_of (jget s ''anyOf'')). accepts search v (normal_dict e))"
    and "as_list (jget s ''oneOf'') = [] \<or> (\<exists>e\<in>set (dicts_of (jget s ''oneOf'')). accepts search v (normal_dict e))"
    and "dict_at s ''if'' = Some c \<Longrightarrow> accepts search v (normal_dict c) \<Longrightarrow> dict_at s ''then'' = Some e \<Longrightarrow>
      accepts search v (normal_dict e)"
    and "dict_at s ''if'' = Some c \<Longrightarrow> \<not> accepts search v (normal_dict c) \<Longrightarrow> dict_at s ''else'' = Some e \<Longrightarrow>
      accepts search v (normal_dict e)"
proof -
  have empty: "as_list (jget (normal_dict s) ''oneOf'') = [] \<longleftrightarrow> as_list (jget s ''oneOf'') = []"
    by (cases "jget s ''oneOf''") (auto simp: jget_normal as_list_def)
  have comp: "composition_errors search v (normal_dict s) [] = []" by (rule accepts_parts(1) [OF assms])
  note parts = comp [unfolded composition_errors.simps [of search v "normal_dict s"] append_is_Nil_conv]
  show "\<forall>e\<in>set (dicts_of (jget s ''allOf'')). accepts search v (normal_dict e)"
    using parts by (auto simp: dicts_of_normal accepts_at)
  have "any_of_errors (map (\<lambda>e. accepts search v (normal_dict e)) (dicts_of (jget s ''anyOf''))) [] = []"
    using parts by (simp add: dicts_of_normal accepts_at comp_def)
  then show "dicts_of (jget s ''anyOf'') = [] \<or> (\<exists>e\<in>set (dicts_of (jget s ''anyOf'')). accepts search v (normal_dict e))"
    by (auto simp: any_of_errors_def split: if_splits)
  have "one_of_errors (map (\<lambda>e. accepts search v (normal_dict e)) (dicts_of (jget s ''oneOf''))) [] = []"
    if "as_list (jget s ''oneOf'') \<noteq> []"
    using parts that unfolding empty by (simp add: dicts_of_normal accepts_at comp_def)
  then have "True \<in> (\<lambda>e. accepts search v (normal_dict e)) ` set (dicts_of (jget s ''oneOf''))"
    if "as_list (jget s ''oneOf'') \<noteq> []"
    using that one_of_accepts by fastforce
  then show "as_list (jget s ''oneOf'') = [] \<or> (\<exists>e\<in>set (dicts_of (jget s ''oneOf'')). accepts search v (normal_dict e))"
    by auto
  show "accepts search v (normal_dict e)" if "dict_at s ''if'' = Some c" "accepts search v (normal_dict c)" "dict_at s ''then'' = Some e"
    using parts that by (simp add: dict_at_normal accepts_at)
  show "accepts search v (normal_dict e)" if "dict_at s ''if'' = Some c" "\<not> accepts search v (normal_dict c)" "dict_at s ''else'' = Some e"
    using parts that by (simp add: dict_at_normal accepts_at)
qed

lemma undeclared_normal: "undeclared_items d (normal_dict s) = undeclared_items d s"
proof -
  have "has_key k (map (\<lambda>(n, x). (n, normalize_node x)) props) = has_key k props" for k and props :: dict
    by (force simp: has_key_def)
  then show ?thesis by (simp add: undeclared_items_def properties_normal split: option.split)
qed

lemma additional_normal:
  "dict_at s ''additionalProperties'' = Some e \<Longrightarrow> dict_at (normal_dict s) ''additionalProperties'' = Some (normal_dict e)"
  by (auto simp: dict_at_def jget_def map_of_normal has_key_def dest!: map_of_SomeD split: option.splits json.splits)
    (metis fst_conv image_eqI)+

lemma accepted_object:
  assumes "accepts search (JDict d) (normal_dict s)" "object_like s"
  shows "fields_declared d s" "\<forall>(k, x, e)\<in>set (property_checks d s). accepts search x (normal_dict e)"
    "dict_at s ''additionalProperties'' = Some e \<Longrightarrow> \<forall>(k, x)\<in>set (undeclared_items d s). accepts search x (normal_dict e)"
proof -
  have errors: "object_errors search d (normal_dict s) [] = []" using assms by (simp add: accepts_parts(2) like_normal)
  then have "\<forall>(k, x, e) \<in> set (property_checks d (normal_dict s)). accepts search x e"
    by (auto simp: object_errors.simps accepts_at)
  then show "\<forall>(k, x, e)\<in>set (property_checks d s). accepts search x (normal_dict e)"
    by (force simp: property_checks_normal)
  show "fields_declared d s"
    using accepted_object_is_closed [OF assms] by (auto simp: fields_declared_def split: option.split)
  show "\<forall>(k, x)\<in>set (undeclared_items d s). accepts search x (normal_dict e)" if "dict_at s ''additionalProperties'' = Some e"
    using errors by (auto simp: object_errors.simps accepts_at undeclared_normal additional_normal [OF that])
qed

lemma accepted_array:
  assumes "accepts search (JList xs) (normal_dict s)" "array_like s" "dict_at s ''items'' = Some e"
  shows "\<forall>x\<in>set xs. accepts search x (normal_dict e)"
proof
  fix x assume "x \<in> set xs"
  then obtain i where "i < length xs" "xs ! i = x" by (auto simp: in_set_conv_nth)
  then have "(i, x) \<in> set (enumerate 0 xs)" by (simp add: in_set_enumerate_eq)
  moreover have "array_errors search xs (normal_dict s) [] = []" using assms by (simp add: accepts_parts(3) like_normal)
  then have "\<forall>(i, x) \<in> set (enumerate 0 xs). accepts search x (normal_dict e)"
    using assms(3) by (auto simp: array_errors.simps dict_at_normal accepts_at)
  ultimately show "accepts search x (normal_dict e)" by blast
qed

lemma accepts_only_declared: "accepts search v (normal_dict s) \<Longrightarrow> only_declared search v s"
proof (induction search v s rule: only_declared.induct)
  case (1 search v s)
  note comps = accepted_compositions [OF 1(10)]
  show ?case
    unfolding only_declared.simps [of search v s]
  proof (intro conjI)
    show "\<forall>e\<in>set (dicts_of (jget s ''allOf'')). only_declared search v e" using comps(1) 1(1) by blast
    show "dicts_of (jget s ''anyOf'') = [] \<or> (\<exists>e\<in>set (dicts_of (jget s ''anyOf'')). accepts search v (normal_dict e) \<and> only_declared search v e)"
      using comps(2) 1(2) by blast
    show "as_list (jget s ''oneOf'') = [] \<or> (\<exists>e\<in>set (dicts_of (jget s ''oneOf'')). accepts search v (normal_dict e) \<and> only_declared search v e)"
      using comps(3) 1(3) by blast
    show "case dict_at s ''if'' of None \<Rightarrow> True
      | Some c \<Rightarrow> if accepts search v (normal_dict c)
          then only_declared search v c \<and> (case dict_at s ''then'' of None \<Rightarrow> True | Some b \<Rightarrow> only_declared search v b)
          else (case dict_at s ''else'' of None \<Rightarrow> True | Some b \<Rightarrow> only_declared search v b)"
    proof (cases "dict_at s ''if''")
      case (Some c)
      show ?thesis
      proof (cases "accepts search v (normal_dict c)")
        case True
        have "only_declared search v b" if "dict_at s ''then'' = Some b" for b
          using 1(5) [OF Some True that] comps(4) [OF Some True that] by blast
        then show ?thesis using Some True 1(4) [OF Some True True] by (auto split: option.split)
      next
        case False
        have "only_declared search v b" if "dict_at s ''else'' = Some b" for b
          using 1(6) [OF Some False that] comps(5) [OF Some False that] by blast
        then show ?thesis using Some False by (auto split: option.split)
      qed
    qed simp
    show "case v of JDict d \<Rightarrow> \<not> object_like s \<or> fields_declared d s \<and>
           (\<forall>(k, x, e)\<in>set (property_checks d s). only_declared search x e) \<and>
           (case dict_at s ''additionalProperties'' of
              None \<Rightarrow> True | Some e \<Rightarrow> \<forall>(k, x)\<in>set (undeclared_items d s). only_declared search x e)
       | _ \<Rightarrow> True"
    proof (cases v)
      case (JDict d)
      note object = accepted_object [of search d s, OF 1(10) [unfolded JDict]]
      have "only_declared search x e" if "object_like s" "(k, x, e) \<in> set (property_checks d s)" for k x e
        using 1(7) [OF JDict that(2) refl refl] object(2) [OF that(1)] that(2) by blast
      moreover have "only_declared search x e"
        if "object_like s" "dict_at s ''additionalProperties'' = Some e" "(k, x) \<in> set (undeclared_items d s)" for k x e
        using 1(8) [OF JDict that(2,3) refl] object(3) [OF that(1,2)] that(3) by blast
      ultimately show ?thesis using object(1) JDict by (auto split: option.split)
    qed simp_all
    show "case v of JList xs \<Rightarrow> \<not> array_like s \<or>
           (case dict_at s ''items'' of None \<Rightarrow> True | Some e \<Rightarrow> \<forall>x\<in>set xs. only_declared search x e)
       | _ \<Rightarrow> True"
    proof (cases v)
      case (JList xs)
      have "only_declared search x e" if "array_like s" "dict_at s ''items'' = Some e" "x \<in> set xs" for x e
        using 1(9) [OF JList that(2,3)] accepted_array [of search xs s e] 1(10) that JList by blast
      then show ?thesis using JList by (auto split: option.split)
    qed simp_all
  qed
qed


section \<open>Conditions are closed too\<close>

lemma condition_never_holds:
  assumes "dict_at c ''properties'' = Some props" "\<not> has_key ''additionalProperties'' c" "object_like c"
    "k \<in> fst ` set d" "k \<notin> fst ` set props"
  shows "schema_errors search (JDict d) (normal_dict c) p \<noteq> []"
  using accepted_object_is_closed [of search d c props] assms by (auto simp: accepts_at)

lemma dead_branch:
  assumes "dict_at c ''properties'' = Some props" "\<not> has_key ''additionalProperties'' c" "object_like c"
    "k \<in> fst ` set d" "k \<notin> fst ` set props"
  shows "schema_errors search (JDict d) (normal_dict [(''if'', JDict c), (''then'', b)]) p = []"
proof -
  let ?s = "[(''if'', JDict c), (''then'', b)]"
  have parts: "jget ?s k = JNull" if "k \<notin> {''if'', ''then''}" for k using that by (auto simp: jget_def)
  have "dict_at (normal_dict ?s) ''else'' = None" "dict_at (normal_dict ?s) ''if'' = Some (normal_dict c)"
    by (simp_all add: dict_at_normal) (simp_all add: dict_at_def jget_def)
  moreover have "jget (normal_dict ?s) k = JNull" if "k \<in> {''allOf'', ''anyOf'', ''oneOf''}" for k
    using that by (auto simp: jget_normal parts)
  ultimately have "composition_errors search (JDict d) (normal_dict ?s) p = []"
    using condition_never_holds [OF assms]
    by (simp add: composition_errors.simps dicts_of_def as_list_def any_of_errors_def)
  then show ?thesis
    by (simp add: schema_errors.simps const_errors_def enum_errors_def map_of_normal jget_normal type_refused_def types_normal
        like_normal scalar_errors_def)
      (simp add: jget_def dict_at_def schema_types_def object_like_def has_key_def is_json_number_def)
qed

section \<open>Two capabilities\<close>

definition typed :: "string \<Rightarrow> json" where
  "typed t = JDict [(''type'', JStr t)]"

definition names_in :: "string list \<Rightarrow> json" where
  "names_in ks = JList (map JStr ks)"

definition when_operation :: "string \<Rightarrow> dict" where
  "when_operation op = [(''properties'', JDict [(''operation'', JDict [(''const'', JStr op)])])]"

definition identity_link_fields :: dict where
  "identity_link_fields =
     [(''type'', JStr ''object''),
      (''properties'', JDict
        [(''operation'', JDict [(''type'', JStr ''string''), (''enum'', names_in [''request'', ''confirm'', ''unlink''])]),
         (''other_source'', typed ''string''), (''other_peer_id'', typed ''string''), (''other_sender_id'', typed ''string''),
         (''verification_code'', typed ''string''), (''reason'', typed ''string'')]),
      (''required'', names_in [''operation'', ''reason''])]"

definition identity_link_schema :: dict where
  "identity_link_schema = identity_link_fields @
     [(''allOf'', JList
        [JDict [(''if'', JDict (when_operation ''request'')),
           (''then'', JDict [(''required'', names_in [''other_source'', ''other_peer_id'', ''other_sender_id''])])],
         JDict [(''if'', JDict (when_operation ''confirm'')),
           (''then'', JDict [(''required'', names_in [''verification_code''])])]])]"

definition trace_delete_schema :: dict where
  "trace_delete_schema =
     [(''type'', JStr ''object''),
      (''properties'', JDict [(''trace_id'', typed ''string''), (''all'', typed ''boolean'')]),
      (''oneOf'', JList
        [JDict [(''required'', names_in [''trace_id''])],
         JDict [(''properties'', JDict [(''all'', JDict [(''const'', JBool True)])]), (''required'', names_in [''all''])]])]"

lemma all_of_adds_nothing:
  assumes same: "\<And>k. k \<noteq> ''allOf'' \<Longrightarrow> map_of s k = map_of t k" and none: "map_of t ''allOf'' = None"
    and met: "\<And>e. e \<in> set (dicts_of (jget s ''allOf'')) \<Longrightarrow> schema_errors search v e p = []"
  shows "schema_errors search v s p = schema_errors search v t p"
proof -
  have jgets: "jget s k = jget t k" and dicts: "dict_at s k = dict_at t k" and keys: "has_key k s = has_key k t"
    if "k \<noteq> ''allOf''" for k
  proof -
    show j: "jget s k = jget t k" using same [OF that] by (simp add: jget_def)
    show "dict_at s k = dict_at t k" by (simp add: dict_at_def j)
    show "has_key k s = has_key k t" using same [OF that] by (metis has_key_def map_of_eq_None_iff)
  qed
  have types: "schema_types s = schema_types t" by (simp add: schema_types_def jgets)
  have like: "object_like s = object_like t" "array_like s = array_like t"
    by (simp_all add: object_like_def array_like_def types keys)
  have checks: "property_checks d s = property_checks d t" "undeclared_items d s = undeclared_items d t" for d
    by (simp_all add: property_checks_def undeclared_items_def dicts)
  have shapes: "object_shape_errors d s p = object_shape_errors d t p" "array_shape_errors xs s p = array_shape_errors xs t p"
    "required_errors d s p = required_errors d t p" for d xs
    by (simp_all add: object_shape_errors_def array_shape_errors_def required_errors_def jgets)
  have bounds: "bound_error v s p b = bound_error v t p b" if "b \<in> set number_bounds" for b
  proof -
    have "fst b \<noteq> ''allOf''" using that by (auto simp: number_bounds_def)
    then show ?thesis by (simp add: bound_error_def jgets split: option.split)
  qed
  have scalars: "scalar_errors search v s p = scalar_errors search v t p"
  proof -
    have numbers: "map (bound_error v s p) number_bounds = map (bound_error v t p) number_bounds" using bounds by simp
    have strings: "string_errors search w s p = string_errors search w t p" for w by (simp add: string_errors_def jgets)
    show ?thesis unfolding scalar_errors_def types numbers strings ..
  qed
  have inside: "object_errors search d s p = object_errors search d t p" "array_errors search xs s p = array_errors search xs t p" for d xs
    by (simp_all add: object_errors.simps [of search d] array_errors.simps [of search xs] checks shapes jgets dicts
        split: option.split)
  have "concat (map (\<lambda>e. schema_errors search v e p) (dicts_of (jget s ''allOf''))) = []" using met by simp
  moreover have "dicts_of (jget t ''allOf'') = []" using none by (simp add: jget_def dicts_of_def as_list_def)
  ultimately have "composition_errors search v s p = composition_errors search v t p"
    by (simp add: composition_errors.simps [of search v] jgets dicts split: option.split)
  then show ?thesis
    by (simp add: schema_errors.simps [of search v s] schema_errors.simps [of search v t] const_errors_def enum_errors_def same
        jgets type_refused_def types like inside scalars split: json.split)
qed

text \<open>
  C25. The conditions of \<open>identity.link\<close> are dead. A request is to name the other channel and a confirmation
  to bring the code. The normal form closes the conditions themselves, so no call that gives a reason, which
  every call must, meets one: the call is checked as if the schema had no conditions.
\<close>

theorem identity_link_conditions_are_dead:
  assumes "''reason'' \<in> fst ` set d"
  shows "json_schema_errors search (JDict d) (normalize_json_schema (JDict identity_link_schema)) p =
    json_schema_errors search (JDict d) (normalize_json_schema (JDict identity_link_fields)) p"
proof -
  have cond: "dict_at (when_operation op) ''properties'' = Some [(''operation'', JDict [(''const'', JStr op)])]"
    "\<not> has_key ''additionalProperties'' (when_operation op)" "object_like (when_operation op)" for op
    by (simp_all add: when_operation_def dict_at_def jget_def has_key_def object_like_def schema_types_def)
  have dead: "schema_errors search (JDict d) (normal_dict [(''if'', JDict (when_operation op)), (''then'', b)]) p = []" for op b
    by (rule dead_branch [OF cond assms]) simp
  have extra: "map_of identity_link_schema k = (if k = ''allOf'' then Some (jget identity_link_schema ''allOf'')
      else map_of identity_link_fields k)" for k
    by (simp add: identity_link_schema_def identity_link_fields_def jget_def)
  then have "dict_at identity_link_schema ''properties'' = dict_at identity_link_fields ''properties''"
    by (simp add: dict_at_def jget_def)
  moreover have "has_key ''additionalProperties'' identity_link_schema = has_key ''additionalProperties'' identity_link_fields"
    by (simp add: has_key_def identity_link_schema_def)
  ultimately have same: "map_of (normal_dict identity_link_schema) k = map_of (normal_dict identity_link_fields) k" if "k \<noteq> ''allOf''" for k
    using that extra [of k] by (auto simp: map_of_normal)
  have none: "map_of (normal_dict identity_link_fields) ''allOf'' = None"
    by (simp add: map_of_normal identity_link_fields_def)
  have "schema_errors search (JDict d) (normal_dict identity_link_schema) p = schema_errors search (JDict d) (normal_dict identity_link_fields) p"
  proof (rule all_of_adds_nothing [OF same none])
    fix e assume "e \<in> set (dicts_of (jget (normal_dict identity_link_schema) ''allOf''))"
    then have "e \<in> set (map normal_dict (dicts_of (jget identity_link_schema ''allOf'')))" by (simp add: dicts_of_normal)
    then obtain op b where "e = normal_dict [(''if'', JDict (when_operation op)), (''then'', b)]"
      by (auto simp: identity_link_schema_def identity_link_fields_def jget_def dicts_of_def as_list_def)
    then show "schema_errors search (JDict d) e p = []" by (simp add: dead)
  qed
  then show ?thesis by (simp add: json_schema_errors_def normalize_json_schema_def as_dict_def)
qed

section \<open>Witnesses\<close>

theorem identity_link_conditions_are_dead_witness:
  "json_schema_errors (\<lambda>_ _. True) (JDict [(''operation'', JStr ''request''), (''reason'', JStr ''r'')]) (JDict identity_link_schema) ''$'' \<noteq> [] \<and>
   json_schema_errors (\<lambda>_ _. True) (JDict [(''operation'', JStr ''request''), (''reason'', JStr ''r'')])
     (normalize_json_schema (JDict identity_link_schema)) ''$'' = []"
proof
  show "json_schema_errors (\<lambda>_ _. True) (JDict [(''operation'', JStr ''request''), (''reason'', JStr ''r'')]) (JDict identity_link_schema) ''$'' \<noteq> []"
    by code_simp
  have "json_schema_errors (\<lambda>_ _. True) (JDict [(''operation'', JStr ''request''), (''reason'', JStr ''r'')])
      (normalize_json_schema (JDict identity_link_fields)) ''$'' = []" by code_simp
  then show "json_schema_errors (\<lambda>_ _. True) (JDict [(''operation'', JStr ''request''), (''reason'', JStr ''r'')])
      (normalize_json_schema (JDict identity_link_schema)) ''$'' = []"
    by (subst identity_link_conditions_are_dead) simp_all
qed

text \<open>A filter that is a text or an object, in a list: an undeclared field of the object is refused there.\<close>

definition filters_schema :: dict where
  "filters_schema = [(''type'', JStr ''object''), (''properties'', JDict
     [(''filters'', JDict [(''type'', JStr ''array''), (''items'', JDict [(''anyOf'', JList
        [typed ''string'', JDict [(''type'', JStr ''object''), (''properties'', JDict [(''tag'', typed ''string'')])]])])])])]"


text \<open>
  The normal form takes more than the schema: a deletion that names a trace and all traces fits both ways of
  \<open>trace.delete\<close>, which its author forbids; the closed second way no longer fits, so it is accepted.
\<close>

theorem trace_delete_takes_both:
  "json_schema_errors (\<lambda>_ _. True) (JDict [(''trace_id'', JStr ''t''), (''all'', JBool True)]) (JDict trace_delete_schema) ''$'' =
     [''$ must match exactly one declared schema'']"
  "json_schema_errors (\<lambda>_ _. True) (JDict [(''trace_id'', JStr ''t''), (''all'', JBool True)])
     (normalize_json_schema (JDict trace_delete_schema)) ''$'' = []"
  by code_simp+

end
