(* ===== verification/Spec2Isabelle.thy ===== *)
theory Spec2Isabelle
  imports Loop_Types Loop_Contracts Effect_Journal Run_Store Loop_Run_Safety Delivery_Outbox
    Goal_Store Approval_Service Resource_Gateway Checker Cron
    Lifecycle_Saga State_Graph_Properties Loop_Control_Properties
    Shadow_Merge Replay_Buffer Trace_Views Memory_Maintenance Memory_Learning Json_Schema
begin

text \<open>
  Verification development of Navi, a durable agent runtime (\<open>src/src/navi\<close>).

  \<^bold>\<open>The program.\<close> Navi keeps its work in SQLite tables that several workers (a daemon, connectors,
  command-line calls) read and write: \<^emph>\<open>goals\<close> say what is wanted, \<^emph>\<open>runs\<close> are governed attempts,
  \<^emph>\<open>approvals\<close> are a user's decisions about them, \<^emph>\<open>loop runs\<close> are the durable state machines that
  carry a goal through plan, execute, evaluate and reflect, the \<^emph>\<open>effect journal\<close> guards external
  side effects against repetition, and the \<^emph>\<open>delivery outbox\<close> hands results to connectors.

  \<^bold>\<open>The theories.\<close>

  \<^item> \<open>Navi_Prelude\<close>: errors and results, the Python string operations, tables as lists of rows with
    the SQL statements the stores use (select, update, insert, order, limit), lemmas on rows under a
    primary key, and the locales \<open>op_machine\<close>, \<open>settling_machine\<close> and \<open>monotone_machine\<close> for stores
    whose operations workers apply in any order.
  \<^item> \<open>Py_Json\<close>: JSON values, Python dictionaries and number texts.
  \<^item> \<open>Contracts\<close>: \<open>permission_contract.py\<close>, \<open>approval_contract.py\<close>, \<open>lifecycle.py\<close>,
    \<open>persistence_scope.py\<close> and the row types of \<open>runs/models.py\<close>.
  \<^item> \<open>Loop_Types\<close>: \<open>loop.py\<close>. \<open>Loop_Contracts\<close>: \<open>loop_contracts.py\<close>, with the lemmas about the
    default state graph: a weight on the states shows that every path of five transitions raises the
    attempt, which bounds a loop by its retry policy.
  \<^item> \<open>Effect_Journal\<close>: \<open>effect_journal.py\<close>. Reservations as steps; a key is executed at most once.
  \<^item> \<open>Approval_Store\<close> and \<open>Run_Store\<close>: \<open>runs/_approval_store.py\<close>, \<open>runs/store.py\<close> and
    \<open>runs/_tool_call_log_store.py\<close>. Decisions are final; reconciliation settles only what was
    approved and carried out.
  \<^item> \<open>Loop_Run_Store\<close> and \<open>Loop_Run_Safety\<close>: \<open>loop_runs.py\<close>. An operation that reads in one
    statement and writes in another takes the database it saw and the database it meets; workers are
    steps that read a view or act on one. The lemmas follow each row through every interleaving.
  \<^item> \<open>Delivery_Outbox\<close>: \<open>delivery_outbox.py\<close> and \<open>connector_delivery.py\<close>, with the connector as a
    function from items to answers; an exception of it is classified or escapes from the drain.
  \<^item> \<open>Goal_Store\<close>: \<open>goals.py\<close>. Child limits, the mirror of a run in its goal, recurring goals.
  \<^item> \<open>Approval_Service\<close>: \<open>ApprovalService.resolve\<close> of \<open>control.py\<close> over the stores of approvals,
    runs, goals and loop runs; what others do between its lookup and its decision is a parameter.
  \<^item> \<open>Lifecycle_Saga\<close>: \<open>lifecycle_saga.py\<close>. The saga that carries a loop's outcome into its run and goal,
    with a crash between any two of its transactions, and the recovery of half-made creations.
  \<^item> \<open>Resource_Gateway\<close>: \<open>resource_gateway.py\<close>. Reservations and releases against the budgets of a
    scope, by the SQLite ledger and by the gateway in memory, and where the two agree.
  \<^item> \<open>Checker\<close>: \<open>checker.py\<close>. The evaluation of a verification ladder against its evidence.
  \<^item> \<open>Cron\<close>: \<open>cron.py\<close>. Five-field schedules over the Gregorian calendar.
  \<^item> \<open>Graph_Decisions\<close> and \<open>State_Graph\<close>: \<open>state_graph.py\<close>. The pure decisions of the driver (progress
    signatures, recovery, retry gates, side effects, loop decisions), then the driver itself as programs
    over a world of loop tables, ledger, evidence and log; each answers, returns early or raises. The
    ports of the driver (planner, executor, semantic checker, workspace harness) and what other workers
    do to the tables between two statements are functions of a counter, and so arbitrary. The release of
    a lock may fail as well, and a merge answers with a status, which the log keeps.
  \<^item> \<open>Driver_Calculus\<close>: rules for the ends of such a program under a view of the world.
    \<open>State_Graph_Protocol\<close>: the abstract protocol of a run as a monitor over its log, which the driver
    refines. \<open>State_Graph_Progress\<close>: each iteration that goes on raises the attempt, and the driver ends.
    \<open>State_Graph_Properties\<close>: the properties, with a run that converges.
  \<^item> \<open>Store_Actions\<close>: calls over several stores that answer or raise, and what they keep.
    \<open>Goal_Delivery\<close>: the compaction of events and the delivery records of \<open>goals.py\<close>, where a receipt
    settles loop runs, run and goal.
  \<^item> \<open>Loop_Spec_Codec\<close>, \<open>Loop_Requests\<close>, \<open>Loop_Control\<close>: \<open>loop_control_service.py\<close>. A specification
    read back from its JSON, what the service computes from a request, and its operations over the
    stores. \<open>Loop_Control_Properties\<close>: what an opened goal is, that a failed opening is undone, and where
    the service works against its own stop conditions.
  \<^item> \<open>Workspace_Locks\<close> and \<open>Shadow_Workspaces\<close>: \<open>workspaces.py\<close>. The table of locks, and the shadow
    workspaces over directories as lists of entries; the operating system is a record of functions, so
    that each write may fail at each of its stages, those of the restore behind a failed merge included.
    \<open>Shadow_Merge\<close>: a merge that returns is the three-way merge of the contents, one that raises is undone
    unless its restore fails too, and reconciliation keeps the work that may still be wanted.
  \<^item> \<open>Dynamic_Parameters\<close>: \<open>dynamic_parameters.py\<close> and its table in \<open>memory/provider.py\<close>. The cache
    follows the table; setting is undone by a rollback; adaptation stays within bounds.
  \<^item> \<open>Trace_Rules\<close>, \<open>Trace_Store\<close> and \<open>Trace_Views\<close>: \<open>trace.py\<close>. The rules that evaluate a trace, with
    what a draft may say of it; the tables, where long texts are put aside and put back; the tree of
    run views and the list of traces.
  \<^item> \<open>Replay_Buffer\<close>: \<open>replay_buffer.py\<close> and the terminal reward of \<open>credit_assignment.py\<close>. What the
    buffer keeps when it is pruned, and what it makes of a trace.

  \<^item> \<open>Hooks\<close>: \<open>hooks.py\<close> with its specification. Which hooks answer an event, and which of them blocks it.
  \<^item> \<open>Memory_Jobs\<close>: the database of \<open>memory/\<close> with its parameters, messages, sessions and the queue of
    consolidation jobs. \<open>Memory_Job_Safety\<close>: a job under a live lease stays with its owner, its events
    lead to its status, and what happens to once per goal when the history is pruned.
  \<^item> \<open>Memory_Items\<close>: the items of \<open>memory/store.py\<close> and \<open>memory/provider.py\<close>, their lifecycle, gate and
    maintenance, and their evolution in \<open>evolution_targets.py\<close>. \<open>Memory_Lifecycle\<close>: the
    operations keep to the table of transitions, but for the credit and the writes of snapshots, and a blocking
    hook stops every write, but for the credit, the audit of contradictions and a status written again. \<open>Memory_Maintenance\<close>:
    what maintenance leaves alone, which constraints reach the planner, what a rollback restores, and the
    weights of recall. \<open>Memory_Learning\<close>: what a worker makes of a job and of the answers of the
    model. Learnings stay in the scope of their conversation, a queued repair does nothing, and an item found
    superseded loses the link to the one that replaces it.
  \<^item> \<open>Json_Schema\<close>: \<open>json_utils.py\<close> with two schemas of \<open>actions/specs.py\<close>. How a value is checked against a
    schema, that the normal form of a schema accepts declared fields only, at every depth and through every
    keyword, and that it also closes conditions, which kills them.

  \<^bold>\<open>Conventions.\<close> A record is named after the class or table, its fields carry a short prefix. A method
  is a definition from its arguments and the tables to its answer and the new tables; a raised
  exception is the left value of a sum. The clock and the \<open>uuid4\<close> stream are arguments. A text column
  that holds JSON is the value it denotes. Integers are Python's unbounded ones, times are rationals.
  Loops over rows are structural recursion; the only bounded loops are those the code bounds itself
  (twenty draws of a code, batches of five hundred, the rounds of a drain).

  \<^bold>\<open>Not modelled.\<close> The provider, the prompts, the tools and their operating system effects, the
  surfaces (HTTP, command line, chat connectors), metrics, evolution but that of a memory item; in
  \<open>memory/store.py\<close> recall with its ranking, the semantic graph and the loop of the audit of conflicts; in
  \<open>loop_control_service.py\<close> the report \<open>goal_state\<close>, which only reads; in \<open>control.py\<close> the
  continuation of an approved loop and the state summaries for the prompt; in \<open>state_graph.py\<close> the
  assembly of the contexts of planner and checker, and the rewriting of arguments into the workspace.
\<close>

end
